(* ===== verification/Prelude.thy ===== *)
theory Prelude
  imports Main "HOL-Library.Word"
begin

text \<open>
  Shared vocabulary of the development.

  Bytes are 8-bit words and a Python \<open>bytes\<close>, \<open>bytearray\<close> or \<open>memoryview\<close> is a list of them;
  Python's unbounded integers are \<open>int\<close>.  A Python exception is a value of \<open>exn\<close> (messages are
  not kept, classes are); a fallible pure function returns \<open>'a result\<close>; a method that mutates its
  object and may raise is an \<open>action\<close>: it returns the outcome together with the object's state
  after the call, also when it raises, because the caller can go on using that state.  \<open>Diverges\<close>
  is not a Python exception: it marks a loop that used up its fuel.  The loops over input that is at
  hand have a lemma that this never happens; the loops that run for as long as the peer sends take any fuel.
\<close>

subsection \<open>Bytes, exceptions, results\<close>

type_synonym byte = "8 word"
type_synonym bytes = "byte list"

datatype exn =
    ParseError
  | ValueError
  | OverflowError
  | AssertionError
  | KeyError
  | IndexError
  | TypeError
  | NotImplementedError
  | InvalidTag
  | InvalidSignature
  | StructError
  | RuntimeError
  | VerificationError
  | InvalidSignatureError
  | PolicyViolationError
  | CertificateNotYetValid
  | CertificateExpired
  | UntrustedRoot
  | UnboundLocalError
  | UnsupportedCompression
  | AlertException int bool \<comment> \<open>alert description and whether it is fatal\<close>
  | TLSEOFError
  | TLSWantReadError
  | TLSLocalAlert int
  | TLSRemoteAlert int
  | SkipDataException
  | ZeroDivisionError
  | AttributeError
  | UnicodeError
  | OSError int \<comment> \<open>errno\<close>
  | BlockingIOError
  | SSLWantReadError
  | SSLWantWriteError
  | SSLEOFError
  | SSLError exn \<comment> \<open>the exception it wraps\<close>
  | Diverges

type_synonym 'a result = "exn + 'a"

type_synonym ('s, 'a) action = "'s \<Rightarrow> 'a result \<times> 's"

subsection \<open>Sequencing\<close>

definition rbind :: "'a result \<Rightarrow> ('a \<Rightarrow> 'b result) \<Rightarrow> 'b result" where
  "rbind r f = (case r of Inl e \<Rightarrow> Inl e | Inr x \<Rightarrow> f x)"

definition ret :: "'a \<Rightarrow> ('s, 'a) action" where
  "ret x = (\<lambda>s. (Inr x, s))"

definition raise :: "exn \<Rightarrow> ('s, 'a) action" where
  "raise e = (\<lambda>s. (Inl e, s))"

definition bnd :: "('s, 'a) action \<Rightarrow> ('a \<Rightarrow> ('s, 'b) action) \<Rightarrow> ('s, 'b) action" where
  "bnd m f = (\<lambda>s. case m s of (Inl e, t) \<Rightarrow> (Inl e, t) | (Inr x, t) \<Rightarrow> f x t)"

definition thn :: "('s, 'a) action \<Rightarrow> ('s, 'b) action \<Rightarrow> ('s, 'b) action" where
  "thn m n = bnd m (\<lambda>_. n)"

definition raise_if :: "bool \<Rightarrow> exn \<Rightarrow> ('s, unit) action" where
  "raise_if b e = (if b then raise e else ret ())"

definition lift_result :: "'a result \<Rightarrow> ('s, 'a) action" where
  "lift_result r = (\<lambda>s. (r, s))"

definition get_state :: "('s, 's) action" where
  "get_state = (\<lambda>s. (Inr s, s))"

definition gets :: "('s \<Rightarrow> 'a) \<Rightarrow> ('s, 'a) action" where
  "gets f = (\<lambda>s. (Inr (f s), s))"

definition modify :: "('s \<Rightarrow> 's) \<Rightarrow> ('s, unit) action" where
  "modify f = (\<lambda>s. (Inr (), f s))"

definition catch :: "('s, 'a) action \<Rightarrow> (exn \<Rightarrow> ('s, 'a) action) \<Rightarrow> ('s, 'a) action" where
  "catch m h = (\<lambda>s. case m s of (Inl e, t) \<Rightarrow> h e t | (Inr x, t) \<Rightarrow> (Inr x, t))"

primrec for_each :: "('a \<Rightarrow> ('s, unit) action) \<Rightarrow> 'a list \<Rightarrow> ('s, unit) action" where
  "for_each f [] = ret ()"
| "for_each f (x # xs) = thn (f x) (for_each f xs)"

primrec repeat_action :: "nat \<Rightarrow> ('s, 'a) action \<Rightarrow> ('s, 'a list) action" where
  "repeat_action 0 m = ret []"
| "repeat_action (Suc n) m = bnd m (\<lambda>x. bnd (repeat_action n m) (\<lambda>xs. ret (x # xs)))"

named_theorems action_simps \<open>unfolding of the sequencing combinators\<close>

lemmas action_defs =
  ret_def raise_def bnd_def thn_def raise_if_def lift_result_def get_state_def gets_def
  modify_def catch_def

lemma rbind_simps [simp]:
  "rbind (Inl e) f = Inl e"
  "rbind (Inr x) f = f x"
  by (simp_all add: rbind_def)

lemma rbind_Inr_iff: "rbind r f = Inr y \<longleftrightarrow> (\<exists>x. r = Inr x \<and> f x = Inr y)"
  by (cases r) auto

lemma ret_apply [action_simps]: "ret x s = (Inr x, s)"
  by (simp add: ret_def)

lemma raise_apply [action_simps]: "raise e s = (Inl e, s)"
  by (simp add: raise_def)

lemma lift_result_apply [action_simps]: "lift_result r s = (r, s)"
  by (simp add: lift_result_def)

lemma gets_apply [simp, action_simps]: "gets f s = (Inr (f s), s)"
  by (simp add: gets_def)

lemma get_state_apply [simp, action_simps]: "get_state s = (Inr s, s)"
  by (simp add: get_state_def)

lemma modify_apply [simp, action_simps]: "modify f s = (Inr (), f s)"
  by (simp add: modify_def)

lemma raise_if_apply [action_simps]:
  "raise_if b e s = (if b then Inl e else Inr (), s)"
  by (simp add: raise_if_def ret_def raise_def)

lemma raise_if_False [simp]: "raise_if False e = ret ()"
  by (simp add: raise_if_def)

lemma raise_if_True [simp]: "raise_if True e = raise e"
  by (simp add: raise_if_def)

lemma bnd_Inr: "m s = (Inr x, t) \<Longrightarrow> bnd m f s = f x t"
  by (simp add: bnd_def)

lemma bnd_Inl: "m s = (Inl e, t) \<Longrightarrow> bnd m f s = (Inl e, t)"
  by (simp add: bnd_def)

lemma bnd_apply [action_simps]:
  "bnd m f s = (case m s of (Inl e, t) \<Rightarrow> (Inl e, t) | (Inr x, t) \<Rightarrow> f x t)"
  by (simp add: bnd_def)

lemma thn_apply [action_simps]:
  "thn m n s = (case m s of (Inl e, t) \<Rightarrow> (Inl e, t) | (Inr x, t) \<Rightarrow> n t)"
  by (simp add: thn_def bnd_def)

lemma bnd_ret [simp]: "bnd (ret x) f = f x"
  by (simp add: fun_eq_iff bnd_def ret_def raise_def)

lemma bnd_raise [simp]: "bnd (raise e) f = raise e"
  by (simp add: fun_eq_iff bnd_def ret_def raise_def)

lemma thn_ret [simp]: "thn (ret x) m = m"
  by (simp add: thn_def)

lemma thn_raise [simp]: "thn (raise e) m = raise e"
  by (simp add: thn_def)

lemma bnd_InrE:
  assumes "bnd m f s = (Inr y, u)"
  obtains x t where "m s = (Inr x, t)" "f x t = (Inr y, u)"
  using assms by (auto simp: bnd_def split: prod.splits sum.splits)

lemma thn_InrE:
  assumes "thn m n s = (Inr y, u)"
  obtains x t where "m s = (Inr x, t)" "n t = (Inr y, u)"
  using assms unfolding thn_def by (rule bnd_InrE)

subsection \<open>Lists\<close>

lemma take_drop_slice: "length pre = i \<Longrightarrow> length w = n \<Longrightarrow> take n (drop i (pre @ w @ suf)) = w"
  by auto

lemma drop_split:
  "i + n \<le> length d \<Longrightarrow> drop i d = take n (drop i d) @ drop (i + n) d"
  by (metis append_take_drop_id drop_drop add.commute)

end
