(* ===== verification/Codec.thy ===== *)
theory Codec
  imports Prelude
begin

text \<open>
  The byte codec: \<open>src/simple_tls/codec.py\<close> (\<open>Parser\<close>, \<open>Writer\<close>) with the integer conversions of
  \<open>src/simple_tls/crypto/utils.py\<close> it is built on.  A \<open>Parser\<close> is the record \<open>parser\<close> and each of
  its methods an action on it; a \<open>Writer\<close> is the record \<open>writer\<close>.  The second half is the calculus
  the wire formats are verified with: \<open>emits\<close> gives the bytes a writing action appends (or the
  exception it raises), \<open>parses\<close> says that a reading action consumes exactly given bytes,
  \<open>parser_ok\<close> and \<open>advances\<close> that it stays inside the buffer, never runs out of fuel and makes
  progress.  The locale \<open>wire_item\<close> states what a repeated item of a wire format promises and lifts
  it once to length-prefixed vectors of items.
\<close>

subsection \<open>Integers and bytes\<close>

fun bit_length_nat :: "nat \<Rightarrow> nat" where
  "bit_length_nat n = (if n = 0 then 0 else Suc (bit_length_nat (n div 2)))"

declare bit_length_nat.simps [simp del]

definition byte_length :: "int \<Rightarrow> nat" where
  "byte_length value = (bit_length_nat (nat \<bar>value\<bar>) + 7) div 8"

definition bytes_to_int :: "bytes \<Rightarrow> int" where
  "bytes_to_int data = foldl (\<lambda>a b. a * 256 + uint b) 0 data"

primrec be_bytes :: "nat \<Rightarrow> int \<Rightarrow> bytes" where
  "be_bytes 0 v = []"
| "be_bytes (Suc n) v = be_bytes n (v div 256) @ [word_of_int v]"

definition int_to_bytes :: "int \<Rightarrow> nat option \<Rightarrow> bytes result" where
  "int_to_bytes value len =
     (let n = (case len of
                 None \<Rightarrow> if value \<noteq> 0 then byte_length value else 1
               | Some n \<Rightarrow> n)
      in if value < 0 \<or> 256 ^ n \<le> value then Inl OverflowError else Inr (be_bytes n value))"

lemma length_be_bytes [simp]: "length (be_bytes n v) = n"
  by (induction n arbitrary: v) auto

lemma bytes_to_int_Nil [simp]: "bytes_to_int [] = 0"
  by (simp add: bytes_to_int_def)

lemma bytes_to_int_snoc [simp]: "bytes_to_int (d @ [b]) = bytes_to_int d * 256 + uint b"
  by (simp add: bytes_to_int_def)

lemma bytes_to_int_nonneg [simp]: "0 \<le> bytes_to_int d"
  by (induction d rule: rev_induct) auto

lemma bytes_to_int_bound: "bytes_to_int d < 256 ^ length d"
proof (induction d rule: rev_induct)
  case (snoc b d)
  have "uint b < 256" using uint_bounded [of b] by simp
  with snoc show ?case by simp
qed simp

lemma bytes_to_int_be_bytes [simp]:
  "0 \<le> v \<Longrightarrow> v < 256 ^ n \<Longrightarrow> bytes_to_int (be_bytes n v) = v"
proof (induction n arbitrary: v)
  case (Suc n)
  then have "v div 256 < 256 ^ n" by (simp add: div_less_iff_less_mult mult.commute)
  with Suc have "bytes_to_int (be_bytes n (v div 256)) = v div 256" by simp
  then show ?case by (simp add: uint_word_of_int take_bit_eq_mod)
qed simp

lemma be_bytes_inj:
  "be_bytes n a = be_bytes n b \<Longrightarrow> 0 \<le> a \<Longrightarrow> a < 256 ^ n \<Longrightarrow> 0 \<le> b \<Longrightarrow> b < 256 ^ n \<Longrightarrow> a = b"
  by (metis bytes_to_int_be_bytes)

lemma be_bytes_bytes_to_int [simp]: "be_bytes (length d) (bytes_to_int d) = d"
proof (induction d rule: rev_induct)
  case (snoc b d)
  have b: "0 \<le> uint b" "uint b < 256" using uint_bounded [of b] by simp_all
  have z: "(256 :: byte) = 0" by (simp add: word_uint_eq_iff)
  have w: "word_of_int (bytes_to_int d * 256 + uint b) = b"
    by (simp, simp only: z mult_zero_right)
  from b have "(bytes_to_int d * 256 + uint b) div 256 = bytes_to_int d" by simp
  with snoc w show ?case by simp
qed simp


subsection \<open>Parser\<close>

record parser =
  p_data :: bytes
  p_index :: nat
  p_bookmark :: nat

definition new_parser :: "bytes \<Rightarrow> parser" where
  "new_parser data = \<lparr>p_data = data, p_index = 0, p_bookmark = 0\<rparr>"

definition set_bookmark :: "(parser, unit) action" where
  "set_bookmark = modify (\<lambda>p. p\<lparr>p_bookmark := p_index p\<rparr>)"

definition data_since_bookmark :: "(parser, bytes) action" where
  "data_since_bookmark =
     gets (\<lambda>p. take (p_index p - p_bookmark p) (drop (p_bookmark p) (p_data p)))"

definition read_bytes :: "int \<Rightarrow> (parser, bytes) action" where
  "read_bytes sz = (\<lambda>p.
     if sz < 0 then (Inl ValueError, p)
     else let stop = p_index p + nat sz in
       if stop > length (p_data p) then (Inl ParseError, p)
       else (Inr (take (nat sz) (drop (p_index p) (p_data p))),
             p\<lparr>p_index := p_index p + nat sz\<rparr>))"

definition read_int :: "nat \<Rightarrow> (parser, int) action" where
  "read_int sz = bnd (read_bytes (int sz)) (\<lambda>d. ret (bytes_to_int d))"

definition read_prefixed_bytes :: "nat \<Rightarrow> (parser, bytes) action" where
  "read_prefixed_bytes prefix_size = bnd (read_int prefix_size) (\<lambda>len. read_bytes len)"

definition read_prefixed_int_list :: "nat \<Rightarrow> nat \<Rightarrow> (parser, int list) action" where
  "read_prefixed_int_list item_size prefix_size =
     bnd (read_int prefix_size) (\<lambda>len.
     thn (raise_if (len mod int item_size \<noteq> 0) ParseError)
     (repeat_action (nat (len div int item_size)) (read_int item_size)))"

definition skip :: "nat \<Rightarrow> (parser, unit) action" where
  "skip sz = (\<lambda>p.
     if p_index p + sz > length (p_data p) then (Inl ParseError, p)
     else (Inr (), p\<lparr>p_index := p_index p + sz\<rparr>))"

definition tell :: "(parser, nat) action" where
  "tell = gets p_index"

definition remaining :: "(parser, nat) action" where
  "remaining = gets (\<lambda>p. length (p_data p) - p_index p)"

text \<open>
  \<open>assert_length\<close> is a context manager: it reads the length, runs the body with the position where
  the body has to stop, and then checks that it stopped there.
\<close>

definition assert_length :: "nat \<Rightarrow> (nat \<Rightarrow> (parser, 'a) action) \<Rightarrow> (parser, 'a) action" where
  "assert_length prefix_size body =
     bnd (read_int prefix_size) (\<lambda>len.
     bnd tell (\<lambda>start.
     bnd (body (start + nat len)) (\<lambda>x.
     bnd tell (\<lambda>i.
     thn (raise_if (i \<noteq> start + nat len) ParseError)
     (ret x)))))"

text \<open>
  The loop \<open>while parser.tell() < end\<close> around the reading of one item, which the wire formats use
  everywhere.  The fuel is one more than the bytes that are left: an item that consumes at least one
  byte cannot be read more often than that (\<open>parser_ok_read_items\<close>).
\<close>

primrec while_tell :: "nat \<Rightarrow> nat \<Rightarrow> (parser, 'a) action \<Rightarrow> (parser, 'a list) action" where
  "while_tell 0 stop item = raise Diverges"
| "while_tell (Suc fuel) stop item =
     bnd tell (\<lambda>i.
       if i < stop
       then bnd item (\<lambda>x. bnd (while_tell fuel stop item) (\<lambda>xs. ret (x # xs)))
       else ret [])"

definition read_items :: "(parser, 'a) action \<Rightarrow> nat \<Rightarrow> (parser, 'a list) action" where
  "read_items item stop = (\<lambda>p.
     while_tell (Suc (length (p_data p) - p_index p)) stop item p)"

text \<open>\<open>Parser(data)\<close> followed by a parsing function.\<close>

definition run_parser :: "(parser, 'a) action \<Rightarrow> bytes \<Rightarrow> 'a result" where
  "run_parser m data = fst (m (new_parser data))"

text \<open>\<open>if parser.remaining(): raise ParseError(...)\<close> at the end of every message.\<close>

definition no_trailing :: "(parser, unit) action" where
  "no_trailing = bnd remaining (\<lambda>r. raise_if (r \<noteq> 0) ParseError)"

subsection \<open>Writer\<close>

record writer =
  w_buffer :: "bytes list"

definition new_writer :: writer where
  "new_writer = \<lparr>w_buffer = []\<rparr>"

definition tobytes :: "writer \<Rightarrow> bytes" where
  "tobytes w = concat (w_buffer w)"

definition writer_len :: "writer \<Rightarrow> nat" where
  "writer_len w = sum_list (map length (w_buffer w))"

definition write_bytes :: "bytes \<Rightarrow> (writer, unit) action" where
  "write_bytes data = modify (\<lambda>w. w\<lparr>w_buffer := w_buffer w @ [data]\<rparr>)"

definition write_writer :: "writer \<Rightarrow> (writer, unit) action" where
  "write_writer data = modify (\<lambda>w. w\<lparr>w_buffer := w_buffer w @ w_buffer data\<rparr>)"

definition write_int :: "int \<Rightarrow> nat \<Rightarrow> (writer, unit) action" where
  "write_int value sz =
     (case int_to_bytes value (Some sz) of
        Inl e \<Rightarrow> raise (if e = OverflowError then ValueError else e)
      | Inr d \<Rightarrow> write_bytes d)"

definition write_prefixed_bytes :: "bytes \<Rightarrow> nat \<Rightarrow> (writer, unit) action" where
  "write_prefixed_bytes data prefix_size =
     thn (write_int (int (length data)) prefix_size) (write_bytes data)"

definition write_prefixed_writer :: "writer \<Rightarrow> nat \<Rightarrow> (writer, unit) action" where
  "write_prefixed_writer data prefix_size =
     thn (write_int (int (writer_len data)) prefix_size) (write_writer data)"

definition write_prefixed_int_list :: "int list \<Rightarrow> nat \<Rightarrow> nat \<Rightarrow> (writer, unit) action" where
  "write_prefixed_int_list seq item_size prefix_size =
     thn (write_int (int (length seq * item_size)) prefix_size)
     (for_each (\<lambda>i. write_int i item_size) seq)"

definition clear_writer :: "(writer, unit) action" where
  "clear_writer = modify (\<lambda>w. w\<lparr>w_buffer := []\<rparr>)"

text \<open>A local \<open>writer = Writer()\<close>, filled by an action, inside another method.\<close>

definition with_writer :: "(writer, unit) action \<Rightarrow> (writer \<Rightarrow> ('s, 'a) action) \<Rightarrow> ('s, 'a) action" where
  "with_writer act k = (\<lambda>s.
     case act new_writer of (Inl e, _) \<Rightarrow> (Inl e, s) | (Inr _, w) \<Rightarrow> k w s)"

text \<open>\<open>writer = Writer(); ...; return writer.tobytes()\<close>.\<close>

definition run_writer :: "(writer, unit) action \<Rightarrow> bytes result" where
  "run_writer act = (case act new_writer of (Inl e, _) \<Rightarrow> Inl e | (Inr _, w) \<Rightarrow> Inr (tobytes w))"


subsection \<open>What a writing action appends\<close>

definition rcat :: "bytes result \<Rightarrow> bytes result \<Rightarrow> bytes result" where
  "rcat a b = rbind a (\<lambda>x. rbind b (\<lambda>y. Inr (x @ y)))"

definition enc_int :: "int \<Rightarrow> nat \<Rightarrow> bytes result" where
  "enc_int v n = (if v < 0 \<or> 256 ^ n \<le> v then Inl ValueError else Inr (be_bytes n v))"

definition enc_pbytes :: "bytes \<Rightarrow> nat \<Rightarrow> bytes result" where
  "enc_pbytes d n = rcat (enc_int (int (length d)) n) (Inr d)"

definition enc_prefixed :: "bytes result \<Rightarrow> nat \<Rightarrow> bytes result" where
  "enc_prefixed r n = rbind r (\<lambda>d. enc_pbytes d n)"

primrec enc_list :: "('a \<Rightarrow> bytes result) \<Rightarrow> 'a list \<Rightarrow> bytes result" where
  "enc_list enc [] = Inr []"
| "enc_list enc (x # xs) = rcat (enc x) (enc_list enc xs)"

definition enc_int_list :: "int list \<Rightarrow> nat \<Rightarrow> nat \<Rightarrow> bytes result" where
  "enc_int_list seq item_size prefix_size =
     rcat (enc_int (int (length seq * item_size)) prefix_size)
       (enc_list (\<lambda>i. enc_int i item_size) seq)"

lemma rcat_Inr_iff: "rcat a b = Inr w \<longleftrightarrow> (\<exists>x y. a = Inr x \<and> b = Inr y \<and> w = x @ y)"
  by (auto simp: rcat_def rbind_Inr_iff)

lemma rcat_simps [simp]:
  "rcat (Inr x) (Inr y) = Inr (x @ y)"
  "rcat (Inl e) b = Inl e"
  "rcat (Inr x) (Inl e) = Inl e"
  by (simp_all add: rcat_def)

lemma enc_int_Inr_iff: "enc_int v n = Inr w \<longleftrightarrow> 0 \<le> v \<and> v < 256 ^ n \<and> w = be_bytes n v"
  by (auto simp: enc_int_def)

lemma enc_pbytes_Inr_iff:
  "enc_pbytes d n = Inr w \<longleftrightarrow> int (length d) < 256 ^ n \<and> w = be_bytes n (int (length d)) @ d"
  by (auto simp: enc_pbytes_def rcat_Inr_iff enc_int_Inr_iff)

lemma enc_prefixed_Inr_iff:
  "enc_prefixed r n = Inr w \<longleftrightarrow>
     (\<exists>d. r = Inr d \<and> int (length d) < 256 ^ n \<and> w = be_bytes n (int (length d)) @ d)"
  by (auto simp: enc_prefixed_def rbind_Inr_iff enc_pbytes_Inr_iff)

definition emits :: "(writer, unit) action \<Rightarrow> bytes result \<Rightarrow> bool" where
  "emits a r \<longleftrightarrow> (\<forall>w. case r of
       Inl e \<Rightarrow> \<exists>w'. a w = (Inl e, w')
     | Inr d \<Rightarrow> \<exists>w'. a w = (Inr (), w') \<and> tobytes w' = tobytes w @ d)"

named_theorems emits_intros \<open>what the writing actions append\<close>

lemma writer_len_tobytes [simp]: "writer_len w = length (tobytes w)"
  by (simp add: writer_len_def tobytes_def length_concat)

lemma tobytes_new [simp]: "tobytes new_writer = []"
  by (simp add: tobytes_def new_writer_def)

lemma emits_ret [emits_intros]: "emits (ret ()) (Inr [])"
  by (simp add: emits_def ret_def)

lemma emits_raise [emits_intros]: "emits (raise e) (Inl e)"
  by (simp add: emits_def raise_def)

lemma emits_InlE:
  assumes "emits a (Inl e)"
  obtains t where "a w = (Inl e, t)"
  using assms by (auto simp: emits_def)

lemma emits_InrE:
  assumes "emits a (Inr d)"
  obtains t where "a w = (Inr (), t)" "tobytes t = tobytes w @ d"
proof -
  from assms have "\<exists>t. a w = (Inr (), t) \<and> tobytes t = tobytes w @ d" by (simp add: emits_def)
  with that show thesis by blast
qed

lemma emits_thn [emits_intros]:
  assumes a: "emits a r" and b: "emits b q"
  shows "emits (thn a b) (rcat r q)"
proof -
  have "case rcat r q of
       Inl e \<Rightarrow> \<exists>w'. thn a b w = (Inl e, w')
     | Inr d \<Rightarrow> \<exists>w'. thn a b w = (Inr (), w') \<and> tobytes w' = tobytes w @ d" for w
  proof (cases r)
    case (Inl e)
    with a show ?thesis by (auto simp: thn_apply elim!: emits_InlE [where w = w])
  next
    case (Inr d)
    with a obtain t where t: "a w = (Inr (), t)" "tobytes t = tobytes w @ d"
      by (auto elim!: emits_InrE [where w = w])
    show ?thesis
    proof (cases q)
      case q: (Inl e)
      with b obtain u where "b t = (Inl e, u)" by (auto elim!: emits_InlE [where w = t])
      with Inr q t show ?thesis by (simp add: thn_apply)
    next
      case q: (Inr c)
      with b obtain u where "b t = (Inr (), u)" "tobytes u = tobytes t @ c"
        by (auto elim!: emits_InrE [where w = t])
      with Inr q t show ?thesis by (simp add: thn_apply)
    qed
  qed
  then show ?thesis by (simp add: emits_def)
qed

lemma emits_raise_if [emits_intros]: "emits (raise_if b e) (if b then Inl e else Inr [])"
  by (simp add: emits_raise emits_ret)

lemma emits_if [emits_intros]:
  "emits a r \<Longrightarrow> emits b q \<Longrightarrow> emits (if c then a else b) (if c then r else q)"
  by simp

lemma emits_write_bytes [emits_intros]: "emits (write_bytes d) (Inr d)"
  by (simp add: emits_def write_bytes_def tobytes_def)

lemma emits_write_writer: "emits (write_writer w) (Inr (tobytes w))"
  by (simp add: emits_def write_writer_def tobytes_def)

lemma emits_write_int [emits_intros]: "emits (write_int v n) (enc_int v n)"
  by (simp add: write_int_def int_to_bytes_def enc_int_def emits_raise emits_write_bytes)

lemma emits_write_prefixed_bytes [emits_intros]: "emits (write_prefixed_bytes d n) (enc_pbytes d n)"
  unfolding write_prefixed_bytes_def enc_pbytes_def by (intro emits_intros)

lemma emits_write_prefixed_writer:
  "emits (write_prefixed_writer w n) (enc_pbytes (tobytes w) n)"
  unfolding write_prefixed_writer_def enc_pbytes_def writer_len_tobytes
  by (intro emits_thn emits_write_int emits_write_writer)

lemma emits_for_each [emits_intros]:
  "(\<And>x. emits (f x) (enc x)) \<Longrightarrow> emits (for_each f xs) (enc_list enc xs)"
  by (induction xs) (auto intro: emits_intros)

lemma emits_write_prefixed_int_list [emits_intros]:
  "emits (write_prefixed_int_list seq k n) (enc_int_list seq k n)"
  unfolding write_prefixed_int_list_def enc_int_list_def by (intro emits_intros)

lemma emits_with_writer:
  assumes a: "emits a r" and k: "\<And>w. emits (k w) (g (tobytes w))"
  shows "emits (with_writer a k) (rbind r g)"
proof (cases r)
  case (Inl e)
  with a obtain t where "a new_writer = (Inl e, t)" by (force simp: emits_def)
  with Inl show ?thesis by (simp add: emits_def with_writer_def)
next
  case (Inr d)
  with a obtain t where t: "a new_writer = (Inr (), t)" "tobytes t = d"
    by (force simp: emits_def)
  then have "with_writer a k = k t" by (simp add: with_writer_def fun_eq_iff)
  with k [of t] t Inr show ?thesis by simp
qed

lemma emits_with_prefixed [emits_intros]:
  "emits a r \<Longrightarrow> emits (with_writer a (\<lambda>w. write_prefixed_writer w n)) (enc_prefixed r n)"
  unfolding enc_prefixed_def by (intro emits_with_writer emits_write_prefixed_writer)

lemma run_writer_emits: "emits a r \<Longrightarrow> run_writer a = r"
  by (cases r) (auto simp: run_writer_def elim!: emits_InlE [where w = new_writer]
      emits_InrE [where w = new_writer])


subsection \<open>What a reading action consumes\<close>

definition parses :: "bytes \<Rightarrow> (parser, 'a) action \<Rightarrow> bytes \<Rightarrow> 'a \<Rightarrow> bool" where
  "parses suf m w x \<longleftrightarrow> (\<forall>pre bm.
     m \<lparr>p_data = pre @ w @ suf, p_index = length pre, p_bookmark = bm\<rparr> =
     (Inr x, \<lparr>p_data = pre @ w @ suf, p_index = length pre + length w, p_bookmark = bm\<rparr>))"

named_theorems parses_intros \<open>what the reading actions consume\<close>

lemma parses_ret [parses_intros]: "parses suf (ret x) [] x"
  by (simp add: parses_def ret_def)

lemma parses_bnd [parses_intros]:
  assumes "parses (w2 @ suf) m w1 x" and "parses suf (f x) w2 y"
  shows "parses suf (bnd m f) (w1 @ w2) y"
  unfolding parses_def
proof (intro allI)
  fix pre bm
  have "f x \<lparr>p_data = (pre @ w1) @ w2 @ suf, p_index = length (pre @ w1), p_bookmark = bm\<rparr> =
      (Inr y, \<lparr>p_data = (pre @ w1) @ w2 @ suf, p_index = length (pre @ w1) + length w2,
        p_bookmark = bm\<rparr>)"
    using assms(2) unfolding parses_def by blast
  with assms(1) show "bnd m f \<lparr>p_data = pre @ (w1 @ w2) @ suf, p_index = length pre,
       p_bookmark = bm\<rparr> =
     (Inr y, \<lparr>p_data = pre @ (w1 @ w2) @ suf, p_index = length pre + length (w1 @ w2),
       p_bookmark = bm\<rparr>)"
    by (simp add: parses_def bnd_apply add.assoc)
qed

lemma parses_thn:
  "parses (w2 @ suf) m w1 x \<Longrightarrow> parses suf n w2 y \<Longrightarrow> parses suf (thn m n) (w1 @ w2) y"
  unfolding thn_def by (rule parses_bnd)

lemma parses_thn_check [parses_intros]:
  "\<not> b \<Longrightarrow> parses suf n w y \<Longrightarrow> parses suf (thn (raise_if b e) n) w y"
  by simp

lemma parses_tail: "parses suf m (w @ []) x \<Longrightarrow> parses suf m w x"
  by simp

lemma parses_bnd_last:
  "parses suf m w x \<Longrightarrow> parses suf (f x) [] y \<Longrightarrow> parses suf (bnd m f) w y"
  using parses_bnd [of "[]" suf m w x f y] by simp

lemma parses_if [parses_intros]:
  "(b \<Longrightarrow> parses suf m w x) \<Longrightarrow> (\<not> b \<Longrightarrow> parses suf n w x) \<Longrightarrow>
   parses suf (if b then m else n) w x"
  by simp

lemma parses_read_bytes [parses_intros]:
  "n = int (length w) \<Longrightarrow> parses suf (read_bytes n) w w"
  by (simp add: parses_def read_bytes_def)

lemma parses_read_int [parses_intros]:
  assumes "enc_int v n = Inr w"
  shows "parses suf (read_int n) w v"
proof -
  from assms have w: "w = be_bytes n v" "0 \<le> v" "v < 256 ^ n" by (auto simp: enc_int_Inr_iff)
  have "parses suf (read_int n) (be_bytes n v @ []) v"
    unfolding read_int_def
    by (rule parses_bnd [OF parses_read_bytes]) (use w in \<open>simp_all add: parses_ret\<close>)
  with w show ?thesis by simp
qed

lemma parses_read_prefixed_bytes [parses_intros]:
  assumes "enc_pbytes d n = Inr w"
  shows "parses suf (read_prefixed_bytes n) w d"
proof -
  from assms have w: "enc_int (int (length d)) n = Inr (be_bytes n (int (length d)))"
    "w = be_bytes n (int (length d)) @ d"
    by (auto simp: enc_pbytes_Inr_iff enc_int_Inr_iff)
  then show ?thesis
    unfolding read_prefixed_bytes_def w(2)
    by (intro parses_bnd parses_read_int parses_read_bytes) simp_all
qed

lemma parses_repeat:
  "enc_list enc xs = Inr w \<Longrightarrow>
   (\<And>x v s. x \<in> set xs \<Longrightarrow> enc x = Inr v \<Longrightarrow> parses s m v x) \<Longrightarrow>
   parses suf (repeat_action (length xs) m) w xs"
proof (induction xs arbitrary: w)
  case Nil
  then show ?case by (simp add: parses_ret)
next
  case (Cons x xs)
  from Cons.prems(1) obtain a b
    where w: "enc x = Inr a" "enc_list enc xs = Inr b" "w = a @ b"
    by (auto simp: rcat_Inr_iff)
  have "parses (b @ suf) m a x" using Cons.prems(2) w(1) by auto
  moreover have "parses suf (repeat_action (length xs) m) b xs"
    using Cons.IH [OF w(2)] Cons.prems(2) by auto
  ultimately show ?case
    unfolding w(3) list.size(4) add_Suc_right add_0_right repeat_action.simps
    by (rule parses_bnd [OF _ parses_bnd_last [OF _ parses_ret]])
qed

lemma length_enc_list_int:
  "enc_list (\<lambda>i. enc_int i k) xs = Inr w \<Longrightarrow> length w = length xs * k"
  by (induction xs arbitrary: w) (auto simp: rcat_Inr_iff enc_int_Inr_iff)

lemma parses_read_prefixed_int_list [parses_intros]:
  assumes "enc_int_list xs k n = Inr w" and "0 < k"
  shows "parses suf (read_prefixed_int_list k n) w xs"
proof -
  from assms(1) obtain a b
    where w: "enc_int (int (length xs * k)) n = Inr a" "enc_list (\<lambda>i. enc_int i k) xs = Inr b"
      "w = a @ b"
    by (auto simp: enc_int_list_def rcat_Inr_iff)
  have "parses suf (repeat_action (length xs) (read_int k)) b xs"
    by (rule parses_repeat [OF w(2)]) (auto intro: parses_read_int)
  then have "parses suf (repeat_action (nat (int (length xs * k) div int k)) (read_int k)) b xs"
    using assms(2) by simp
  then show ?thesis
    unfolding read_prefixed_int_list_def w(3)
    by - (rule parses_bnd parses_read_int parses_thn_check w(1) | simp)+
qed

lemma parses_remaining: "parses suf remaining [] (length suf)"
  by (simp add: parses_def remaining_def)

lemma parses_no_trailing [parses_intros]: "parses [] no_trailing [] ()"
proof -
  have "parses [] no_trailing ([] @ []) ()"
    unfolding no_trailing_def
    by (rule parses_bnd [where x = 0]) (use parses_remaining [of "[]"] in \<open>simp_all add: parses_ret\<close>)
  then show ?thesis by simp
qed

lemma parses_thn_no_trailing [parses_intros]:
  "parses [] n [] y \<Longrightarrow> parses [] (thn no_trailing n) [] y"
  using parses_thn [of "[]" "[]" no_trailing "[]" "()" n y] by (simp add: parses_no_trailing)

lemma run_parser_parses: "parses [] m w x \<Longrightarrow> run_parser m w = Inr x"
proof -
  assume "parses [] m w x"
  then have "m \<lparr>p_data = w, p_index = 0, p_bookmark = 0\<rparr> =
     (Inr x, \<lparr>p_data = w, p_index = length w, p_bookmark = 0\<rparr>)"
    unfolding parses_def by (auto dest: spec [where x = "[]"])
  then show ?thesis by (simp add: run_parser_def new_parser_def)
qed


lemma while_tell_parses:
  assumes "enc_list enc xs = Inr w" and "length w < fuel"
    and "\<And>x v s. x \<in> set xs \<Longrightarrow> enc x = Inr v \<Longrightarrow> v \<noteq> [] \<and> parses s m v x"
  shows "while_tell fuel (length pre + length w) m
      \<lparr>p_data = pre @ w @ suf, p_index = length pre, p_bookmark = bm\<rparr> =
    (Inr xs, \<lparr>p_data = pre @ w @ suf, p_index = length pre + length w, p_bookmark = bm\<rparr>)"
  using assms
proof (induction xs arbitrary: w fuel pre)
  case Nil
  then show ?case by (cases fuel) (simp_all add: tell_def bnd_apply ret_def)
next
  case (Cons x xs)
  from Cons.prems(1) obtain a b
    where w: "enc x = Inr a" "enc_list enc xs = Inr b" "w = a @ b"
    by (auto simp: rcat_Inr_iff)
  from Cons.prems(2) obtain f where f: "fuel = Suc f" by (cases fuel) auto
  have a: "a \<noteq> []" "parses (b @ suf) m a x" using Cons.prems(3) [of x a] w(1) by auto
  with Cons.prems(2) w(3) f have "length b < f" by (cases a) auto
  then have "while_tell f (length (pre @ a) + length b) m
      \<lparr>p_data = (pre @ a) @ b @ suf, p_index = length (pre @ a), p_bookmark = bm\<rparr> =
    (Inr xs, \<lparr>p_data = (pre @ a) @ b @ suf, p_index = length (pre @ a) + length b,
      p_bookmark = bm\<rparr>)"
    using Cons.prems(3) w by (intro Cons.IH) auto
  moreover have "m \<lparr>p_data = pre @ a @ b @ suf, p_index = length pre, p_bookmark = bm\<rparr> =
     (Inr x, \<lparr>p_data = pre @ a @ b @ suf, p_index = length pre + length a, p_bookmark = bm\<rparr>)"
    using a(2) by (simp add: parses_def)
  ultimately show ?case
    using a(1) w(3) f by (simp add: tell_def bnd_apply ret_def add.assoc)
qed


lemma parses_assert_length:
  assumes d: "enc_pbytes d n = Inr w"
    and body: "\<And>pre bm. body (length pre + length d)
        \<lparr>p_data = pre @ d @ suf, p_index = length pre, p_bookmark = bm\<rparr> =
      (Inr x, \<lparr>p_data = pre @ d @ suf, p_index = length pre + length d, p_bookmark = bm\<rparr>)"
  shows "parses suf (assert_length n body) w x"
proof -
  from d have w: "enc_int (int (length d)) n = Inr (be_bytes n (int (length d)))"
    "w = be_bytes n (int (length d)) @ d"
    by (auto simp: enc_pbytes_Inr_iff enc_int_Inr_iff)
  have rest: "parses suf (bnd tell (\<lambda>start. bnd (body (start + nat (int (length d)))) (\<lambda>x.
     bnd tell (\<lambda>i. thn (raise_if (i \<noteq> start + nat (int (length d))) ParseError) (ret x))))) d x"
    by (simp add: parses_def tell_def bnd_apply thn_apply body ret_def)
  show ?thesis
    unfolding assert_length_def w(2)
    by (rule parses_bnd parses_read_int w(1) rest)+
qed

lemma parses_assert_fields:
  assumes "enc_prefixed r n = Inr w" and "r = Inr d" and "\<And>stop. parses suf (body stop) d x"
  shows "parses suf (assert_length n body) w x"
  using assms
  by (intro parses_assert_length [where d = d]) (auto simp: enc_prefixed_def parses_def)

lemma parses_assert_items:
  assumes "enc_prefixed (enc_list enc xs) n = Inr w"
    and "\<And>x v s. x \<in> set xs \<Longrightarrow> enc x = Inr v \<Longrightarrow> v \<noteq> [] \<and> parses s m v x"
  shows "parses suf (assert_length n (read_items m)) w xs"
proof -
  from assms(1) obtain d where d: "enc_list enc xs = Inr d" "enc_pbytes d n = Inr w"
    by (auto simp: enc_prefixed_def rbind_Inr_iff)
  show ?thesis
    by (rule parses_assert_length [OF d(2)])
      (simp add: read_items_def while_tell_parses [OF d(1)] assms(2) del: while_tell.simps)
qed

subsection \<open>Reading stays inside the buffer and ends\<close>

definition parser_ok :: "(parser, 'a) action \<Rightarrow> bool" where
  "parser_ok m \<longleftrightarrow> (\<forall>p r q. m p = (r, q) \<longrightarrow> p_index p \<le> length (p_data p) \<longrightarrow>
     p_data q = p_data p \<and> p_index p \<le> p_index q \<and> p_index q \<le> length (p_data q) \<and>
     r \<noteq> Inl Diverges)"

definition advances :: "(parser, 'a) action \<Rightarrow> bool" where
  "advances m \<longleftrightarrow> (\<forall>p x q. m p = (Inr x, q) \<longrightarrow> p_index p \<le> length (p_data p) \<longrightarrow>
     p_index p < p_index q)"

named_theorems parser_ok_intros \<open>reading actions that keep the parser well-formed\<close>

lemma parser_okD:
  assumes "parser_ok m" and "m p = (r, q)" and "p_index p \<le> length (p_data p)"
  shows "p_data q = p_data p" "p_index p \<le> p_index q" "p_index q \<le> length (p_data q)"
    "r \<noteq> Inl Diverges"
  using assms unfolding parser_ok_def by blast+

lemma parser_ok_ret [parser_ok_intros]: "parser_ok (ret x)"
  by (simp add: parser_ok_def ret_def)

lemma parser_ok_raise [parser_ok_intros]: "e \<noteq> Diverges \<Longrightarrow> parser_ok (raise e)"
  by (simp add: parser_ok_def raise_def)

lemma parser_ok_raise_if [parser_ok_intros]: "e \<noteq> Diverges \<Longrightarrow> parser_ok (raise_if b e)"
  by (simp add: parser_ok_ret parser_ok_raise raise_if_def)

lemma parser_ok_lift [parser_ok_intros]: "r \<noteq> Inl Diverges \<Longrightarrow> parser_ok (lift_result r)"
  by (simp add: parser_ok_def lift_result_def)

lemma parser_ok_gets: "parser_ok (gets f)"
  by (auto simp: parser_ok_def)

lemma parser_ok_tell [parser_ok_intros]: "parser_ok tell"
  by (simp add: tell_def parser_ok_gets)

lemma parser_ok_remaining [parser_ok_intros]: "parser_ok remaining"
  by (simp add: remaining_def parser_ok_gets)

lemma parser_ok_bnd [parser_ok_intros]:
  assumes m: "parser_ok m" and f: "\<And>x. parser_ok (f x)"
  shows "parser_ok (bnd m f)"
  unfolding parser_ok_def
proof (intro allI impI)
  fix p r q
  assume eq: "bnd m f p = (r, q)" and p: "p_index p \<le> length (p_data p)"
  obtain s t where st: "m p = (s, t)" by (cases "m p")
  note mt = parser_okD [OF m st p]
  show "p_data q = p_data p \<and> p_index p \<le> p_index q \<and> p_index q \<le> length (p_data q) \<and>
     r \<noteq> Inl Diverges"
  proof (cases s)
    case (Inl e)
    with eq st mt show ?thesis by (auto simp: bnd_apply)
  next
    case (Inr x)
    with eq st have "f x t = (r, q)" by (simp add: bnd_apply)
    from parser_okD [OF f this mt(3)] mt show ?thesis by simp
  qed
qed

lemma parser_ok_thn [parser_ok_intros]: "parser_ok m \<Longrightarrow> parser_ok n \<Longrightarrow> parser_ok (thn m n)"
  unfolding thn_def by (rule parser_ok_bnd)

lemma parser_ok_if [parser_ok_intros]:
  "(b \<Longrightarrow> parser_ok m) \<Longrightarrow> (\<not> b \<Longrightarrow> parser_ok n) \<Longrightarrow> parser_ok (if b then m else n)"
  by simp

lemma parser_ok_read_bytes [parser_ok_intros]: "parser_ok (read_bytes n)"
  by (auto simp: parser_ok_def read_bytes_def Let_def split: if_splits)

lemma parser_ok_read_int [parser_ok_intros]: "parser_ok (read_int n)"
  unfolding read_int_def by (intro parser_ok_intros)

lemma parser_ok_read_prefixed_bytes [parser_ok_intros]: "parser_ok (read_prefixed_bytes n)"
  unfolding read_prefixed_bytes_def by (intro parser_ok_intros)

lemma parser_ok_repeat [parser_ok_intros]: "parser_ok m \<Longrightarrow> parser_ok (repeat_action k m)"
  by (induction k) (auto intro!: parser_ok_intros)

lemma parser_ok_read_prefixed_int_list [parser_ok_intros]:
  "parser_ok (read_prefixed_int_list k n)"
  unfolding read_prefixed_int_list_def by (intro parser_ok_intros) simp

lemma parser_ok_no_trailing [parser_ok_intros]: "parser_ok no_trailing"
  unfolding no_trailing_def by (intro parser_ok_intros) simp

lemma parser_ok_assert_length [parser_ok_intros]:
  "(\<And>stop. parser_ok (body stop)) \<Longrightarrow> parser_ok (assert_length n body)"
  unfolding assert_length_def by (intro parser_ok_intros) auto

lemma while_tell_ok:
  assumes m: "parser_ok m" and a: "advances m"
  shows "while_tell fuel stop m p = (r, q) \<Longrightarrow> p_index p \<le> length (p_data p) \<Longrightarrow>
    length (p_data p) - p_index p < fuel \<Longrightarrow>
    p_data q = p_data p \<and> p_index p \<le> p_index q \<and> p_index q \<le> length (p_data q) \<and>
    r \<noteq> Inl Diverges"
proof (induction fuel arbitrary: p r q)
  case 0
  then show ?case by simp
next
  case (Suc fuel)
  obtain s t where st: "m p = (s, t)" by (cases "m p")
  note mt = parser_okD [OF m st Suc.prems(2)]
  show ?case
  proof (cases "p_index p < stop")
    case False
    with Suc.prems show ?thesis by (auto simp: tell_def bnd_apply ret_def)
  next
    case True
    show ?thesis
    proof (cases s)
      case (Inl e)
      with Suc.prems True st mt show ?thesis by (auto simp: tell_def bnd_apply)
    next
      case (Inr x)
      obtain s' u where u: "while_tell fuel stop m t = (s', u)" by (cases "while_tell fuel stop m t")
      from a st Inr Suc.prems(2) have "p_index p < p_index t" unfolding advances_def by blast
      with Suc.prems(2,3) mt have "length (p_data t) - p_index t < fuel" by simp
      from Suc.IH [OF u mt(3) this] Suc.prems(1) True st Inr u mt show ?thesis
        by (auto simp: tell_def bnd_apply ret_def split: sum.splits)
    qed
  qed
qed

lemma parser_ok_read_items [parser_ok_intros]:
  "parser_ok m \<Longrightarrow> advances m \<Longrightarrow> parser_ok (read_items m stop)"
proof -
  assume m: "parser_ok m" "advances m"
  show ?thesis
    unfolding parser_ok_def read_items_def
    by (intro allI impI, rule while_tell_ok [OF m]) auto
qed

named_theorems advances_intros \<open>reading actions that consume at least one byte\<close>

lemma advances_read_int [advances_intros]: "0 < n \<Longrightarrow> advances (read_int n)"
  by (auto simp: advances_def read_int_def read_bytes_def bnd_apply ret_def Let_def split: if_splits)

lemma advances_bnd_first [advances_intros]:
  assumes "advances m" and "parser_ok m" and "\<And>x. parser_ok (f x)"
  shows "advances (bnd m f)"
  unfolding advances_def
proof (intro allI impI)
  fix p y q
  assume "bnd m f p = (Inr y, q)" and p: "p_index p \<le> length (p_data p)"
  then obtain x t where t: "m p = (Inr x, t)" and q: "f x t = (Inr y, q)" by (elim bnd_InrE)
  from assms(1) t p have "p_index p < p_index t" unfolding advances_def by blast
  also have "p_index t \<le> p_index q"
    using parser_okD(2) [OF assms(3) q] parser_okD(3) [OF assms(2) t p] by simp
  finally show "p_index p < p_index q" .
qed

lemma advances_read_prefixed_bytes [advances_intros]: "0 < n \<Longrightarrow> advances (read_prefixed_bytes n)"
  unfolding read_prefixed_bytes_def by (intro advances_intros parser_ok_intros)

lemma advances_assert_length [advances_intros]:
  "0 < n \<Longrightarrow> (\<And>stop. parser_ok (body stop)) \<Longrightarrow> advances (assert_length n body)"
  unfolding assert_length_def by (intro advances_intros parser_ok_intros) auto

lemma run_parser_ok: "parser_ok m \<Longrightarrow> run_parser m d \<noteq> Inl Diverges"
  using parser_okD(4) [of m "new_parser d" "fst (m (new_parser d))" "snd (m (new_parser d))"]
  by (simp add: run_parser_def new_parser_def)

subsection \<open>What a reading action has read\<close>

text \<open>
  The converse of \<open>parses\<close>: \<open>reads m R\<close> says that whenever \<open>m\<close> succeeds, its result and the bytes it
  consumed are related by \<open>R\<close>.
\<close>

definition consumed :: "parser \<Rightarrow> parser \<Rightarrow> bytes" where
  "consumed p q = take (p_index q - p_index p) (drop (p_index p) (p_data p))"

definition reads :: "(parser, 'a) action \<Rightarrow> ('a \<Rightarrow> bytes \<Rightarrow> bool) \<Rightarrow> bool" where
  "reads m R \<longleftrightarrow> (\<forall>p x q. m p = (Inr x, q) \<longrightarrow> p_index p \<le> length (p_data p) \<longrightarrow>
     R x (consumed p q))"

named_theorems reads_intros \<open>how results relate to the bytes consumed\<close>

lemma consumed_append:
  assumes "p_data q = p_data p" and "p_index p \<le> p_index q" and "p_index q \<le> p_index r"
  shows "consumed p q @ consumed q r = consumed p r"
proof -
  have "drop (p_index q) (p_data p) = drop (p_index q - p_index p) (drop (p_index p) (p_data p))"
    using assms(2) by simp
  moreover have "p_index r - p_index p = (p_index q - p_index p) + (p_index r - p_index q)"
    using assms(2,3) by simp
  ultimately show ?thesis using assms(1) by (simp only: consumed_def take_add)
qed

lemma reads_mono: "reads m R \<Longrightarrow> (\<And>x w. R x w \<Longrightarrow> S x w) \<Longrightarrow> reads m S"
  unfolding reads_def by blast

lemma reads_ret [reads_intros]: "reads (ret x) (\<lambda>y w. y = x \<and> w = [])"
  by (simp add: reads_def ret_def consumed_def)

lemma reads_raise_if [reads_intros]: "reads (raise_if b e) (\<lambda>_ w. \<not> b \<and> w = [])"
  by (auto simp: reads_def raise_if_apply consumed_def split: if_splits)

lemma reads_bnd [reads_intros]:
  assumes m: "reads m R" and f: "\<And>x. reads (f x) (S x)"
    and mo: "parser_ok m" and fo: "\<And>x. parser_ok (f x)"
  shows "reads (bnd m f) (\<lambda>y w. \<exists>x a b. R x a \<and> S x y b \<and> w = a @ b)"
  unfolding reads_def
proof (intro allI impI)
  fix p y q
  assume "bnd m f p = (Inr y, q)" and p: "p_index p \<le> length (p_data p)"
  then obtain x t where t: "m p = (Inr x, t)" and q: "f x t = (Inr y, q)" by (elim bnd_InrE)
  note mt = parser_okD [OF mo t p]
  note fq = parser_okD [OF fo q mt(3)]
  from m t p have "R x (consumed p t)" unfolding reads_def by blast
  moreover from f q mt(3) have "S x y (consumed t q)" unfolding reads_def by blast
  ultimately show "\<exists>x a b. R x a \<and> S x y b \<and> consumed p q = a @ b"
    using consumed_append [OF mt(1,2) fq(2)] by metis
qed

lemma reads_thn [reads_intros]:
  "reads m R \<Longrightarrow> reads n S \<Longrightarrow> parser_ok m \<Longrightarrow> parser_ok n \<Longrightarrow>
   reads (thn m n) (\<lambda>y w. \<exists>x a b. R x a \<and> S y b \<and> w = a @ b)"
  unfolding thn_def by (rule reads_bnd)

lemma reads_read_bytes: "reads (read_bytes n) (\<lambda>d w. d = w \<and> int (length d) = n)"
  by (auto simp: reads_def read_bytes_def consumed_def Let_def split: if_splits)

lemma reads_read_int [reads_intros]: "reads (read_int n) (\<lambda>v w. enc_int v n = Inr w)"
  unfolding read_int_def
  by (rule reads_mono [OF reads_bnd [OF reads_read_bytes reads_ret]], rule parser_ok_intros,
      rule parser_ok_intros)
    (use bytes_to_int_bound be_bytes_bytes_to_int in \<open>auto simp: enc_int_Inr_iff\<close>)

lemma reads_read_prefixed_bytes [reads_intros]:
  "reads (read_prefixed_bytes n) (\<lambda>d w. enc_pbytes d n = Inr w)"
  unfolding read_prefixed_bytes_def
  by (rule reads_mono [OF reads_bnd [OF reads_read_int reads_read_bytes]], rule parser_ok_intros,
      rule parser_ok_intros) (auto simp: enc_pbytes_def)

lemma reads_repeat:
  assumes "reads m (\<lambda>x w. enc x = Inr w)" and "parser_ok m"
  shows "reads (repeat_action k m) (\<lambda>xs w. length xs = k \<and> enc_list enc xs = Inr w)"
proof (induction k)
  case 0
  show ?case by (simp, rule reads_mono, rule reads_ret) auto
next
  case (Suc k)
  show ?case
    unfolding repeat_action.simps
    by (rule reads_mono [OF reads_bnd [OF assms(1) reads_bnd [OF Suc reads_ret]]])
      (auto intro!: parser_ok_intros assms(2))
qed

lemma reads_read_prefixed_int_list [reads_intros]:
  assumes "0 < k"
  shows "reads (read_prefixed_int_list k n) (\<lambda>xs w. enc_int_list xs k n = Inr w)"
proof -
  have "enc_int (int (nat (v div int k) * k)) n = enc_int v n"
    if "enc_int v n = Inr w" "v mod int k = 0" for v w
  proof -
    from that(1) have "0 \<le> v" by (simp add: enc_int_Inr_iff)
    then have "int (nat (v div int k) * k) = v div int k * int k"
      by (simp add: pos_imp_zdiv_nonneg_iff assms)
    with that(2) show ?thesis by (simp add: dvd_div_mult_self mod_0_imp_dvd)
  qed
  then show ?thesis
    unfolding read_prefixed_int_list_def
    by (intro reads_mono [OF reads_bnd [OF reads_read_int reads_thn [OF reads_raise_if
            reads_repeat [OF reads_read_int]]]] parser_ok_intros)
      (auto simp: enc_int_list_def)
qed

lemma reads_tell: "reads (bnd tell f) R" if "\<And>i. reads (f i) R"
  unfolding reads_def using that by (fastforce simp: tell_def bnd_apply reads_def)

lemma while_tell_reads:
  assumes m: "reads m (\<lambda>x w. enc x = Inr w \<and> P x)" and mo: "parser_ok m"
  shows "while_tell fuel stop m p = (Inr xs, q) \<Longrightarrow> p_index p \<le> length (p_data p) \<Longrightarrow>
    (enc_list enc xs = Inr (consumed p q) \<and> list_all P xs) \<and> p_data q = p_data p \<and> p_index p \<le> p_index q"
proof (induction fuel arbitrary: p xs q)
  case 0
  then show ?case by (simp add: raise_def)
next
  case (Suc fuel)
  show ?case
  proof (cases "p_index p < stop")
    case False
    with Suc.prems show ?thesis by (auto simp: tell_def bnd_apply ret_def consumed_def)
  next
    case True
    with Suc.prems(1) obtain x t ys where t: "m p = (Inr x, t)"
      and q: "while_tell fuel stop m t = (Inr ys, q)" and xs: "xs = x # ys"
      by (auto simp: tell_def ret_def elim!: bnd_InrE split: if_splits)
    note mt = parser_okD [OF mo t Suc.prems(2)]
    from m t Suc.prems(2) have "enc x = Inr (consumed p t)" "P x" unfolding reads_def by blast+
    with Suc.IH [OF q mt(3)] mt xs consumed_append [of t p q] show ?thesis by auto
  qed
qed

lemma reads_read_items:
  assumes "reads m (\<lambda>x w. enc x = Inr w \<and> P x)" and "parser_ok m"
  shows "reads (read_items m stop) (\<lambda>xs w. enc_list enc xs = Inr w \<and> list_all P xs)"
  unfolding reads_def read_items_def
  by (intro allI impI conjunct1 [OF while_tell_reads [OF assms]])

lemma reads_assert_length:
  assumes body: "\<And>stop. reads (body stop) R" and bo: "\<And>stop. parser_ok (body stop)"
  shows "reads (assert_length n body) (\<lambda>x w. \<exists>d. R x d \<and> enc_pbytes d n = Inr w)"
  unfolding reads_def
proof (intro allI impI)
  fix p x q
  assume "assert_length n body p = (Inr x, q)" and p: "p_index p \<le> length (p_data p)"
  then obtain len t where t: "read_int n p = (Inr len, t)"
    and q: "body (p_index t + nat len) t = (Inr x, q)" and stop: "p_index q = p_index t + nat len"
    unfolding assert_length_def
    by (auto simp: tell_def ret_def raise_if_apply elim!: bnd_InrE thn_InrE split: if_splits)
  note rt = parser_okD [OF parser_ok_read_int t p]
  note bq = parser_okD [OF bo q rt(3)]
  from reads_read_int t p have len: "enc_int len n = Inr (consumed p t)"
    unfolding reads_def by blast
  from body q rt(3) have R: "R x (consumed t q)" unfolding reads_def by blast
  have "length (consumed t q) = nat len"
    using stop bq(1,3) by (simp add: consumed_def)
  moreover from len have "0 \<le> len" by (simp add: enc_int_Inr_iff)
  ultimately have "enc_pbytes (consumed t q) n = Inr (consumed p q)"
    using len consumed_append [OF rt(1,2) bq(2)] by (simp add: enc_pbytes_def)
  with R show "\<exists>d. R x d \<and> enc_pbytes d n = Inr (consumed p q)" by blast
qed

lemma reads_raise [reads_intros]: "reads (raise e) (\<lambda>_ _. False)"
  by (simp add: reads_def raise_def)

lemma reads_if [reads_intros]:
  "reads m R \<Longrightarrow> reads n S \<Longrightarrow>
   reads (if b then m else n) (\<lambda>x w. if b then R x w else S x w)"
  by simp

lemma reads_no_trailing [reads_intros]: "reads no_trailing (\<lambda>_ w. w = [])"
  unfolding no_trailing_def
  by (auto simp: reads_def remaining_def bnd_apply raise_if_apply consumed_def split: if_splits)

subsection \<open>Whole messages\<close>

text \<open>An action that has read everything there is when it succeeds.\<close>

definition reads_all :: "(parser, 'a) action \<Rightarrow> bool" where
  "reads_all m \<longleftrightarrow> (\<forall>p x q. m p = (Inr x, q) \<longrightarrow> length (p_data q) \<le> p_index q)"

named_theorems reads_all_intros \<open>reading actions that leave nothing behind\<close>

lemma reads_all_no_trailing [reads_all_intros]: "reads_all (thn no_trailing (ret x))"
  by (auto simp: reads_all_def no_trailing_def remaining_def ret_def raise_if_apply
      elim!: thn_InrE bnd_InrE split: if_splits)

lemma reads_all_thn [reads_all_intros]: "reads_all n \<Longrightarrow> reads_all (thn m n)"
  unfolding reads_all_def by (blast elim: thn_InrE)

lemma reads_all_bnd [reads_all_intros]: "(\<And>x. reads_all (f x)) \<Longrightarrow> reads_all (bnd m f)"
  unfolding reads_all_def by (blast elim: bnd_InrE)

lemma run_parser_reads:
  assumes "run_parser m d = Inr x" and "reads m R" and "parser_ok m" and "reads_all m"
  shows "R x d"
proof -
  from assms(1) obtain t where t: "m (new_parser d) = (Inr x, t)"
    by (metis run_parser_def prod.collapse)
  have i: "p_index (new_parser d) \<le> length (p_data (new_parser d))" by (simp add: new_parser_def)
  from assms(2) t i have "R x (consumed (new_parser d) t)" unfolding reads_def by blast
  moreover from assms(4) t have "length (p_data t) \<le> p_index t" unfolding reads_all_def by blast
  then have "consumed (new_parser d) t = d"
    using parser_okD [OF assms(3) t i] by (simp add: consumed_def new_parser_def)
  ultimately show ?thesis by simp
qed

text \<open>
  The contract of a pair \<open>from_bytes\<close>, \<open>to_bytes\<close>: what is written is read back (for the values the
  reader admits), and reading ends.  A canonical format moreover accepts nothing else.
\<close>

locale wire_format =
  fixes from_bytes :: "bytes \<Rightarrow> 'a result"
    and to_bytes :: "'a \<Rightarrow> bytes result"
    and admits :: "'a \<Rightarrow> bool"
  assumes from_to: "to_bytes x = Inr d \<Longrightarrow> admits x \<Longrightarrow> from_bytes d = Inr x"
    and from_ends: "from_bytes d \<noteq> Inl Diverges"
begin

lemma to_bytes_inj:
  "to_bytes x = Inr d \<Longrightarrow> to_bytes y = Inr d \<Longrightarrow> admits x \<Longrightarrow> admits y \<Longrightarrow> x = y"
  using from_to [of x d] from_to [of y d] by simp

end

locale canonical_format = wire_format +
  assumes to_from: "from_bytes d = Inr x \<Longrightarrow> to_bytes x = Inr d \<and> admits x"
begin

lemma from_bytes_iff: "from_bytes d = Inr x \<longleftrightarrow> to_bytes x = Inr d \<and> admits x"
  using from_to to_from by blast

end

lemma wire_formatI:
  assumes "from_bytes = run_parser m" and "\<And>x. to_bytes x = enc x" and "parser_ok m"
    and "\<And>x w. enc x = Inr w \<Longrightarrow> admits x \<Longrightarrow> parses [] m w x"
  shows "wire_format from_bytes to_bytes admits"
  using assms by unfold_locales (auto intro: run_parser_parses dest: run_parser_ok)

lemma canonical_formatI:
  assumes "from_bytes = run_parser m" and "\<And>x. to_bytes x = enc x" and "parser_ok m"
    and "\<And>x w. enc x = Inr w \<Longrightarrow> admits x \<Longrightarrow> parses [] m w x"
    and "reads m (\<lambda>x w. enc x = Inr w \<and> admits x)" and "reads_all m"
  shows "canonical_format from_bytes to_bytes admits"
proof (intro canonical_format.intro canonical_format_axioms.intro)
  show "wire_format from_bytes to_bytes admits" by (rule wire_formatI [OF assms(1-4)])
  show "to_bytes x = Inr d \<and> admits x" if "from_bytes d = Inr x" for d x
    using run_parser_reads [OF _ assms(5,3,6), of d x] that by (simp only: assms(1,2))
qed

subsection \<open>Vectors of items\<close>

text \<open>
  The interface between a wire format and the items it repeats: the provider gives the item's
  reader, its writer, the bytes it stands for and when an item is acceptable to the reader; the
  client gets the same contract for a length-prefixed vector of items.
\<close>

locale wire_item =
  fixes item_read :: "(parser, 'a) action"
    and item_write :: "'a \<Rightarrow> (writer, unit) action"
    and enc :: "'a \<Rightarrow> bytes result"
    and item_ok :: "'a \<Rightarrow> bool"
  assumes item_emits: "emits (item_write x) (enc x)"
    and item_parses: "item_ok x \<Longrightarrow> enc x = Inr w \<Longrightarrow> parses suf item_read w x"
    and item_parser_ok: "parser_ok item_read"
    and item_advances: "advances item_read"
begin

lemma item_nonempty:
  assumes "item_ok x" and "enc x = Inr w"
  shows "w \<noteq> []"
proof
  assume "w = []"
  with item_parses [OF assms, of "[]"]
  have "item_read \<lparr>p_data = [], p_index = 0, p_bookmark = 0\<rparr> =
    (Inr x, \<lparr>p_data = [], p_index = 0, p_bookmark = 0\<rparr>)"
    by (auto simp: parses_def dest: spec [where x = "[]"])
  with item_advances show False unfolding advances_def by fastforce
qed

lemma items_emit: "emits (for_each item_write xs) (enc_list enc xs)"
  by (rule emits_for_each, rule item_emits)

lemma vector_emits:
  "emits (with_writer (for_each item_write xs) (\<lambda>w. write_prefixed_writer w n))
     (enc_prefixed (enc_list enc xs) n)"
  by (rule emits_with_prefixed, rule items_emit)

lemma vector_parses:
  assumes "enc_prefixed (enc_list enc xs) n = Inr w" and "list_all item_ok xs"
  shows "parses suf (assert_length n (read_items item_read)) w xs"
  using assms item_nonempty item_parses
  by (intro parses_assert_items [where enc = enc]) (auto simp: list_all_iff)

lemma vector_parser_ok: "parser_ok (assert_length n (read_items item_read))"
  by (intro parser_ok_assert_length parser_ok_read_items item_parser_ok item_advances)

lemma vector_advances: "0 < n \<Longrightarrow> advances (assert_length n (read_items item_read))"
  by (intro advances_assert_length parser_ok_read_items item_parser_ok item_advances)

lemma vector_roundtrip:
  assumes "run_writer (with_writer (for_each item_write xs) (\<lambda>w. write_prefixed_writer w n)) = Inr d"
    and "list_all item_ok xs"
  shows "run_parser (assert_length n (read_items item_read)) d = Inr xs"
  using assms run_writer_emits [OF vector_emits] by (auto intro: run_parser_parses vector_parses)

end

text \<open>
  A reader that is exact accepts nothing but what its writer emits; so does the vector of it.
\<close>

locale exact_wire_item = wire_item +
  assumes item_reads: "reads item_read (\<lambda>x w. enc x = Inr w \<and> item_ok x)"
begin

lemma vector_reads:
  "reads (assert_length n (read_items item_read))
     (\<lambda>xs w. enc_prefixed (enc_list enc xs) n = Inr w \<and> list_all item_ok xs)"
  by (rule reads_mono, rule reads_assert_length, rule reads_read_items [OF item_reads item_parser_ok],
      intro parser_ok_read_items item_parser_ok item_advances)
    (auto simp: enc_prefixed_def)

end

text \<open>
  Byte strings with a one, two or three byte length are such items: the protocol names of ALPN, the
  PSK binders, the certificates and the certificate authorities.
\<close>

interpretation pbytes1: exact_wire_item "read_prefixed_bytes 1" "\<lambda>d. write_prefixed_bytes d 1"
  "\<lambda>d. enc_pbytes d 1" "\<lambda>_. True"
  by unfold_locales (auto intro: emits_intros parses_intros parser_ok_intros advances_intros
      reads_intros simp del: One_nat_def)

interpretation pbytes2: exact_wire_item "read_prefixed_bytes 2" "\<lambda>d. write_prefixed_bytes d 2"
  "\<lambda>d. enc_pbytes d 2" "\<lambda>_. True"
  by unfold_locales (auto intro: emits_intros parses_intros parser_ok_intros advances_intros
      reads_intros simp del: One_nat_def)

text \<open>The facts that evaluate the codec on concrete bytes.\<close>

lemma be_bytes_numeral:
  "be_bytes (numeral k) v = be_bytes (pred_numeral k) (v div 256) @ [word_of_int v]"
  by (simp add: numeral_eq_Suc)

lemmas writer_eval = run_writer_def with_writer_def write_prefixed_writer_def write_writer_def
  writer_len_def write_prefixed_bytes_def write_prefixed_int_list_def write_int_def int_to_bytes_def
  write_bytes_def bnd_apply thn_apply new_writer_def tobytes_def ret_def raise_def be_bytes_numeral

lemmas parser_eval = run_parser_def new_parser_def read_int_def read_bytes_def
  read_prefixed_bytes_def read_prefixed_int_list_def assert_length_def read_items_def tell_def
  bnd_apply thn_apply no_trailing_def remaining_def ret_def raise_def bytes_to_int_def

end
