(* ===== verification/Constants.thy ===== *)
theory Constants
  imports Prelude
begin

text \<open>
  The protocol constants of \<open>src/simple_tls/tls/constants.py\<close>.  Every Python enumeration is a
  datatype with the source's members, prefixed because the enumerations share member names, and a
  function giving the integer of a member: the members are \<open>int\<close> enumerations and the code compares
  them with integers read from the wire.  The tuples of signature algorithms and groups are the lists
  of these integers in the source's order.
\<close>

unbundle bit_operations_syntax

subsection \<open>Enumerations\<close>

datatype ContentType =
    CT_CHANGE_CIPHER_SPEC
  | CT_ALERT
  | CT_HANDSHAKE
  | CT_APPLICATION_DATA
  | CT_HEADER
  | CT_INNER_CONTENT_TYPE

primrec ct :: "ContentType \<Rightarrow> int" where
  "ct CT_CHANGE_CIPHER_SPEC = 20"
| "ct CT_ALERT = 21"
| "ct CT_HANDSHAKE = 22"
| "ct CT_APPLICATION_DATA = 23"
| "ct CT_HEADER = 256"
| "ct CT_INNER_CONTENT_TYPE = 257"

datatype HandshakeType =
    HT_HELLO_REQUEST
  | HT_CLIENT_HELLO
  | HT_SERVER_HELLO
  | HT_NEWSESSION_TICKET
  | HT_END_OF_EARLY_DATA
  | HT_HELLO_RETRY_REQUEST
  | HT_ENCRYPTED_EXTENSIONS
  | HT_CERTIFICATE
  | HT_SERVER_KEY_EXCHANGE
  | HT_CERTIFICATE_REQUEST
  | HT_SERVER_HELLO_DONE
  | HT_CERTIFICATE_VERIFY
  | HT_CLIENT_KEY_EXCHANGE
  | HT_FINISHED
  | HT_CERTIFICATE_STATUS
  | HT_KEY_UPDATE
  | HT_COMPRESSED_CERTIFICATE
  | HT_NEXT_PROTO
  | HT_MESSAGE_HASH
  | HT_CHANGE_CIPHER_SPEC

primrec ht :: "HandshakeType \<Rightarrow> int" where
  "ht HT_HELLO_REQUEST = 0"
| "ht HT_CLIENT_HELLO = 1"
| "ht HT_SERVER_HELLO = 2"
| "ht HT_NEWSESSION_TICKET = 4"
| "ht HT_END_OF_EARLY_DATA = 5"
| "ht HT_HELLO_RETRY_REQUEST = 6"
| "ht HT_ENCRYPTED_EXTENSIONS = 8"
| "ht HT_CERTIFICATE = 11"
| "ht HT_SERVER_KEY_EXCHANGE = 12"
| "ht HT_CERTIFICATE_REQUEST = 13"
| "ht HT_SERVER_HELLO_DONE = 14"
| "ht HT_CERTIFICATE_VERIFY = 15"
| "ht HT_CLIENT_KEY_EXCHANGE = 16"
| "ht HT_FINISHED = 20"
| "ht HT_CERTIFICATE_STATUS = 22"
| "ht HT_KEY_UPDATE = 24"
| "ht HT_COMPRESSED_CERTIFICATE = 25"
| "ht HT_NEXT_PROTO = 67"
| "ht HT_MESSAGE_HASH = 254"
| "ht HT_CHANGE_CIPHER_SPEC = 257"

datatype ExtensionType =
    EXT_SERVER_NAME
  | EXT_STATUS_REQUEST
  | EXT_SUPPORTED_GROUPS
  | EXT_EC_POINT_FORMATS
  | EXT_SIGNATURE_ALGORITHMS
  | EXT_ALPN
  | EXT_SIGNED_CERTIFICATE_TIMESTAMP
  | EXT_CLIENT_HELLO_PADDING
  | EXT_ENCRYPT_THEN_MAC
  | EXT_EXTENDED_MAIN_SECRET
  | EXT_COMPRESS_CERTIFICATE
  | EXT_SESSION_TICKET
  | EXT_PRE_SHARED_KEY
  | EXT_EARLY_DATA
  | EXT_SUPPORTED_VERSIONS
  | EXT_COOKIE
  | EXT_PSK_KEY_EXCHANGE_MODES
  | EXT_POST_HANDSHAKE_AUTH
  | EXT_KEY_SHARE
  | EXT_SUPPORTS_NPN
  | EXT_APPLICATION_SETTINGS
  | EXT_ECH_OUTER_EXTENSIONS
  | EXT_ENCRYPTED_CLIENT_HELLO
  | EXT_RENEGOTIATION_INFO

primrec ext :: "ExtensionType \<Rightarrow> int" where
  "ext EXT_SERVER_NAME = 0"
| "ext EXT_STATUS_REQUEST = 5"
| "ext EXT_SUPPORTED_GROUPS = 10"
| "ext EXT_EC_POINT_FORMATS = 11"
| "ext EXT_SIGNATURE_ALGORITHMS = 13"
| "ext EXT_ALPN = 16"
| "ext EXT_SIGNED_CERTIFICATE_TIMESTAMP = 18"
| "ext EXT_CLIENT_HELLO_PADDING = 21"
| "ext EXT_ENCRYPT_THEN_MAC = 22"
| "ext EXT_EXTENDED_MAIN_SECRET = 23"
| "ext EXT_COMPRESS_CERTIFICATE = 27"
| "ext EXT_SESSION_TICKET = 35"
| "ext EXT_PRE_SHARED_KEY = 41"
| "ext EXT_EARLY_DATA = 42"
| "ext EXT_SUPPORTED_VERSIONS = 43"
| "ext EXT_COOKIE = 44"
| "ext EXT_PSK_KEY_EXCHANGE_MODES = 45"
| "ext EXT_POST_HANDSHAKE_AUTH = 49"
| "ext EXT_KEY_SHARE = 51"
| "ext EXT_SUPPORTS_NPN = 13172"
| "ext EXT_APPLICATION_SETTINGS = 17613"
| "ext EXT_ECH_OUTER_EXTENSIONS = 64768"
| "ext EXT_ENCRYPTED_CLIENT_HELLO = 65037"
| "ext EXT_RENEGOTIATION_INFO = 65281"

datatype AlertLevel =
    AL_WARNING
  | AL_FATAL

primrec al :: "AlertLevel \<Rightarrow> int" where
  "al AL_WARNING = 1"
| "al AL_FATAL = 2"

datatype AlertDescription =
    AD_ACCESS_DENIED
  | AD_BAD_CERTIFICATE
  | AD_BAD_CERTIFICATE_HASH_VALUE
  | AD_BAD_CERTIFICATE_STATUS_RESPONSE
  | AD_BAD_RECORD_MAC
  | AD_CERTIFICATE_EXPIRED
  | AD_CERTIFICATE_REQUIRED
  | AD_CERTIFICATE_REVOKED
  | AD_CERTIFICATE_UNKNOWN
  | AD_CERTIFICATE_UNOBTAINABLE
  | AD_CLOSE_NOTIFY
  | AD_DECODE_ERROR
  | AD_DECOMPRESSION_FAILURE
  | AD_DECRYPT_ERROR
  | AD_DECRYPTION_FAILED
  | AD_ECH_REQUIRED
  | AD_HANDSHAKE_FAILURE
  | AD_ILLEGAL_PARAMETER
  | AD_INAPPROPRIATE_FALLBACK
  | AD_INSUFFICIENT_SECURITY
  | AD_INTERNAL_ERROR
  | AD_MISSING_EXTENSION
  | AD_NO_APPLICATION_PROTOCOL
  | AD_NO_CERTIFICATE
  | AD_NO_RENEGOTIATION
  | AD_PROTOCOL_VERSION
  | AD_RECORD_OVERFLOW
  | AD_UNEXPECTED_MESSAGE
  | AD_UNKNOWN_CA
  | AD_UNKNOWN_PSK_IDENTITY
  | AD_UNRECOGNIZED_NAME
  | AD_UNSUPPORTED_CERTIFICATE
  | AD_UNSUPPORTED_EXTENSION
  | AD_USER_CANCELLED

primrec ad :: "AlertDescription \<Rightarrow> int" where
  "ad AD_ACCESS_DENIED = 49"
| "ad AD_BAD_CERTIFICATE = 42"
| "ad AD_BAD_CERTIFICATE_HASH_VALUE = 114"
| "ad AD_BAD_CERTIFICATE_STATUS_RESPONSE = 113"
| "ad AD_BAD_RECORD_MAC = 20"
| "ad AD_CERTIFICATE_EXPIRED = 45"
| "ad AD_CERTIFICATE_REQUIRED = 116"
| "ad AD_CERTIFICATE_REVOKED = 44"
| "ad AD_CERTIFICATE_UNKNOWN = 46"
| "ad AD_CERTIFICATE_UNOBTAINABLE = 111"
| "ad AD_CLOSE_NOTIFY = 0"
| "ad AD_DECODE_ERROR = 50"
| "ad AD_DECOMPRESSION_FAILURE = 30"
| "ad AD_DECRYPT_ERROR = 51"
| "ad AD_DECRYPTION_FAILED = 21"
| "ad AD_ECH_REQUIRED = 121"
| "ad AD_HANDSHAKE_FAILURE = 40"
| "ad AD_ILLEGAL_PARAMETER = 47"
| "ad AD_INAPPROPRIATE_FALLBACK = 86"
| "ad AD_INSUFFICIENT_SECURITY = 71"
| "ad AD_INTERNAL_ERROR = 80"
| "ad AD_MISSING_EXTENSION = 109"
| "ad AD_NO_APPLICATION_PROTOCOL = 120"
| "ad AD_NO_CERTIFICATE = 41"
| "ad AD_NO_RENEGOTIATION = 100"
| "ad AD_PROTOCOL_VERSION = 70"
| "ad AD_RECORD_OVERFLOW = 22"
| "ad AD_UNEXPECTED_MESSAGE = 10"
| "ad AD_UNKNOWN_CA = 48"
| "ad AD_UNKNOWN_PSK_IDENTITY = 115"
| "ad AD_UNRECOGNIZED_NAME = 112"
| "ad AD_UNSUPPORTED_CERTIFICATE = 43"
| "ad AD_UNSUPPORTED_EXTENSION = 110"
| "ad AD_USER_CANCELLED = 90"

datatype CertificateType =
    CERT_X509
  | CERT_OPENPGP

primrec cert_type :: "CertificateType \<Rightarrow> int" where
  "cert_type CERT_X509 = 0"
| "cert_type CERT_OPENPGP = 1"

datatype ClientCertificateType =
    CCT_RSA_SIGN
  | CCT_DSS_SIGN
  | CCT_RSA_FIXED_DH
  | CCT_DSS_FIXED_DH
  | CCT_ECDSA_SIGN
  | CCT_RSA_FIXED_ECDH
  | CCT_ECDSA_FIXED_ECDH

primrec cct :: "ClientCertificateType \<Rightarrow> int" where
  "cct CCT_RSA_SIGN = 1"
| "cct CCT_DSS_SIGN = 2"
| "cct CCT_RSA_FIXED_DH = 3"
| "cct CCT_DSS_FIXED_DH = 4"
| "cct CCT_ECDSA_SIGN = 64"
| "cct CCT_RSA_FIXED_ECDH = 65"
| "cct CCT_ECDSA_FIXED_ECDH = 66"

datatype CertificateStatusType =
    CST_OCSP

primrec cst :: "CertificateStatusType \<Rightarrow> int" where
  "cst CST_OCSP = 1"

datatype CertificateCompressionAlgorithm =
    CCA_ZLIB
  | CCA_BROTLI
  | CCA_ZSTD

primrec cca :: "CertificateCompressionAlgorithm \<Rightarrow> int" where
  "cca CCA_ZLIB = 1"
| "cca CCA_BROTLI = 2"
| "cca CCA_ZSTD = 3"

datatype Compression =
    COMP_NULL

primrec comp :: "Compression \<Rightarrow> int" where
  "comp COMP_NULL = 0"

datatype ECCurveType =
    ECT_EXPLICIT_PRIME
  | ECT_EXPLICIT_CHAR2
  | ECT_NAMED_CURVE

primrec ect :: "ECCurveType \<Rightarrow> int" where
  "ect ECT_EXPLICIT_PRIME = 1"
| "ect ECT_EXPLICIT_CHAR2 = 2"
| "ect ECT_NAMED_CURVE = 3"

datatype ECPointFormat =
    ECPF_UNCOMPRESSED
  | ECPF_ASNIX962_COMPRESSED_PRIME
  | ECPF_ASN1X962_COMPRESSED_CHAR2

primrec ecpf :: "ECPointFormat \<Rightarrow> int" where
  "ecpf ECPF_UNCOMPRESSED = 0"
| "ecpf ECPF_ASNIX962_COMPRESSED_PRIME = 1"
| "ecpf ECPF_ASN1X962_COMPRESSED_CHAR2 = 2"

datatype KeyUpdateMessageType =
    KU_UPDATE_NOT_REQUESTED
  | KU_UPDATE_REQUESTED

primrec ku :: "KeyUpdateMessageType \<Rightarrow> int" where
  "ku KU_UPDATE_NOT_REQUESTED = 0"
| "ku KU_UPDATE_REQUESTED = 1"

datatype NamedGroup =
    NG_SECT163K1
  | NG_SECT163R1
  | NG_SECT163R2
  | NG_SECT193R1
  | NG_SECT193R2
  | NG_SECT233K1
  | NG_SECT233R1
  | NG_SECT239K1
  | NG_SECT283K1
  | NG_SECT283R1
  | NG_SECT409K1
  | NG_SECT409R1
  | NG_SECT571K1
  | NG_SECT571R1
  | NG_SECP160K1
  | NG_SECP160R1
  | NG_SECP160R2
  | NG_SECP192K1
  | NG_SECP192R1
  | NG_SECP224K1
  | NG_SECP224R1
  | NG_SECP256K1
  | NG_SECP256R1
  | NG_SECP384R1
  | NG_SECP521R1
  | NG_FFDHE2048
  | NG_FFDHE3072
  | NG_FFDHE4096
  | NG_FFDHE6144
  | NG_FFDHE8192
  | NG_X25519
  | NG_X448
  | NG_SECP256R1MLKEM768
  | NG_X25519MLKEM768
  | NG_SECP384R1MLKEM1024

primrec ng :: "NamedGroup \<Rightarrow> int" where
  "ng NG_SECT163K1 = 1"
| "ng NG_SECT163R1 = 2"
| "ng NG_SECT163R2 = 3"
| "ng NG_SECT193R1 = 4"
| "ng NG_SECT193R2 = 5"
| "ng NG_SECT233K1 = 6"
| "ng NG_SECT233R1 = 7"
| "ng NG_SECT239K1 = 8"
| "ng NG_SECT283K1 = 9"
| "ng NG_SECT283R1 = 10"
| "ng NG_SECT409K1 = 11"
| "ng NG_SECT409R1 = 12"
| "ng NG_SECT571K1 = 13"
| "ng NG_SECT571R1 = 14"
| "ng NG_SECP160K1 = 15"
| "ng NG_SECP160R1 = 16"
| "ng NG_SECP160R2 = 17"
| "ng NG_SECP192K1 = 18"
| "ng NG_SECP192R1 = 19"
| "ng NG_SECP224K1 = 20"
| "ng NG_SECP224R1 = 21"
| "ng NG_SECP256K1 = 22"
| "ng NG_SECP256R1 = 23"
| "ng NG_SECP384R1 = 24"
| "ng NG_SECP521R1 = 25"
| "ng NG_FFDHE2048 = 256"
| "ng NG_FFDHE3072 = 257"
| "ng NG_FFDHE4096 = 258"
| "ng NG_FFDHE6144 = 259"
| "ng NG_FFDHE8192 = 260"
| "ng NG_X25519 = 29"
| "ng NG_X448 = 30"
| "ng NG_SECP256R1MLKEM768 = 4587"
| "ng NG_X25519MLKEM768 = 4588"
| "ng NG_SECP384R1MLKEM1024 = 4589"

datatype NameType =
    NT_HOSTNAME

primrec nt :: "NameType \<Rightarrow> int" where
  "nt NT_HOSTNAME = 0"

datatype HashAlgorithm =
    HASH_NONE
  | HASH_MD5
  | HASH_SHA1
  | HASH_SHA224
  | HASH_SHA256
  | HASH_SHA384
  | HASH_SHA512
  | HASH_INTRINSIC

primrec hash_id :: "HashAlgorithm \<Rightarrow> int" where
  "hash_id HASH_NONE = 0"
| "hash_id HASH_MD5 = 1"
| "hash_id HASH_SHA1 = 2"
| "hash_id HASH_SHA224 = 3"
| "hash_id HASH_SHA256 = 4"
| "hash_id HASH_SHA384 = 5"
| "hash_id HASH_SHA512 = 6"
| "hash_id HASH_INTRINSIC = 8"

datatype PSKKeyExchangeMode =
    PSKM_PSK_KE
  | PSKM_PSK_DHE_KE

primrec pskm :: "PSKKeyExchangeMode \<Rightarrow> int" where
  "pskm PSKM_PSK_KE = 0"
| "pskm PSKM_PSK_DHE_KE = 1"

datatype SignatureAlgorithm =
    SA_ANONYMOUS
  | SA_RSA
  | SA_DSA
  | SA_ECDSA
  | SA_ED25519
  | SA_ED448
  | SA_RSA_PSS_RSAE_SHA256
  | SA_RSA_PSS_RSAE_SHA384
  | SA_RSA_PSS_RSAE_SHA512
  | SA_RSA_PSS_PSS_SHA256
  | SA_RSA_PSS_PSS_SHA384
  | SA_RSA_PSS_PSS_SHA512

primrec sa :: "SignatureAlgorithm \<Rightarrow> int" where
  "sa SA_ANONYMOUS = 0"
| "sa SA_RSA = 1"
| "sa SA_DSA = 2"
| "sa SA_ECDSA = 3"
| "sa SA_ED25519 = 7"
| "sa SA_ED448 = 8"
| "sa SA_RSA_PSS_RSAE_SHA256 = 4"
| "sa SA_RSA_PSS_RSAE_SHA384 = 5"
| "sa SA_RSA_PSS_RSAE_SHA512 = 6"
| "sa SA_RSA_PSS_PSS_SHA256 = 9"
| "sa SA_RSA_PSS_PSS_SHA384 = 10"
| "sa SA_RSA_PSS_PSS_SHA512 = 11"

datatype SignatureScheme =
    SS_RSA_MD5
  | SS_RSA_PKCS1_SHA1
  | SS_RSA_PKCS1_SHA224
  | SS_RSA_PKCS1_SHA256
  | SS_RSA_PKCS1_SHA384
  | SS_RSA_PKCS1_SHA512
  | SS_RSA_PSS_RSAE_SHA256
  | SS_RSA_PSS_RSAE_SHA384
  | SS_RSA_PSS_RSAE_SHA512
  | SS_RSA_PSS_PSS_SHA256
  | SS_RSA_PSS_PSS_SHA384
  | SS_RSA_PSS_PSS_SHA512
  | SS_DSA_SHA1
  | SS_DSA_SHA224
  | SS_DSA_SHA256
  | SS_DSA_SHA384
  | SS_DSA_SHA512
  | SS_ECDSA_SHA1
  | SS_ECDSA_SHA224
  | SS_ECDSA_SECP256R1_SHA256
  | SS_ECDSA_SECP384R1_SHA384
  | SS_ECDSA_SECP521R1_SHA512
  | SS_ED25519
  | SS_ED448

definition sigscheme :: "int \<Rightarrow> int \<Rightarrow> int" where
  "sigscheme hashalg sigalg = push_bit 8 hashalg OR sigalg"

primrec ss :: "SignatureScheme \<Rightarrow> int" where
  "ss SS_RSA_MD5 = sigscheme (hash_id HASH_MD5) (sa SA_RSA)"
| "ss SS_RSA_PKCS1_SHA1 = sigscheme (hash_id HASH_SHA1) (sa SA_RSA)"
| "ss SS_RSA_PKCS1_SHA224 = sigscheme (hash_id HASH_SHA224) (sa SA_RSA)"
| "ss SS_RSA_PKCS1_SHA256 = sigscheme (hash_id HASH_SHA256) (sa SA_RSA)"
| "ss SS_RSA_PKCS1_SHA384 = sigscheme (hash_id HASH_SHA384) (sa SA_RSA)"
| "ss SS_RSA_PKCS1_SHA512 = sigscheme (hash_id HASH_SHA512) (sa SA_RSA)"
| "ss SS_RSA_PSS_RSAE_SHA256 = sigscheme (hash_id HASH_INTRINSIC) (sa SA_RSA_PSS_RSAE_SHA256)"
| "ss SS_RSA_PSS_RSAE_SHA384 = sigscheme (hash_id HASH_INTRINSIC) (sa SA_RSA_PSS_RSAE_SHA384)"
| "ss SS_RSA_PSS_RSAE_SHA512 = sigscheme (hash_id HASH_INTRINSIC) (sa SA_RSA_PSS_RSAE_SHA512)"
| "ss SS_RSA_PSS_PSS_SHA256 = sigscheme (hash_id HASH_INTRINSIC) (sa SA_RSA_PSS_PSS_SHA256)"
| "ss SS_RSA_PSS_PSS_SHA384 = sigscheme (hash_id HASH_INTRINSIC) (sa SA_RSA_PSS_PSS_SHA384)"
| "ss SS_RSA_PSS_PSS_SHA512 = sigscheme (hash_id HASH_INTRINSIC) (sa SA_RSA_PSS_PSS_SHA512)"
| "ss SS_DSA_SHA1 = sigscheme (hash_id HASH_SHA1) (sa SA_DSA)"
| "ss SS_DSA_SHA224 = sigscheme (hash_id HASH_SHA224) (sa SA_DSA)"
| "ss SS_DSA_SHA256 = sigscheme (hash_id HASH_SHA256) (sa SA_DSA)"
| "ss SS_DSA_SHA384 = sigscheme (hash_id HASH_SHA384) (sa SA_DSA)"
| "ss SS_DSA_SHA512 = sigscheme (hash_id HASH_SHA512) (sa SA_DSA)"
| "ss SS_ECDSA_SHA1 = sigscheme (hash_id HASH_SHA1) (sa SA_ECDSA)"
| "ss SS_ECDSA_SHA224 = sigscheme (hash_id HASH_SHA224) (sa SA_ECDSA)"
| "ss SS_ECDSA_SECP256R1_SHA256 = sigscheme (hash_id HASH_SHA256) (sa SA_ECDSA)"
| "ss SS_ECDSA_SECP384R1_SHA384 = sigscheme (hash_id HASH_SHA384) (sa SA_ECDSA)"
| "ss SS_ECDSA_SECP521R1_SHA512 = sigscheme (hash_id HASH_SHA512) (sa SA_ECDSA)"
| "ss SS_ED25519 = sigscheme (hash_id HASH_INTRINSIC) (sa SA_ED25519)"
| "ss SS_ED448 = sigscheme (hash_id HASH_INTRINSIC) (sa SA_ED448)"

datatype TLSVersion =
    V_TLSv1
  | V_TLSv1_1
  | V_TLSv1_2
  | V_TLSv1_3
  | V_DTLSv1
  | V_DTLSv1_2
  | V_DTLSv1_3

primrec ver :: "TLSVersion \<Rightarrow> int" where
  "ver V_TLSv1 = 769"
| "ver V_TLSv1_1 = 770"
| "ver V_TLSv1_2 = 771"
| "ver V_TLSv1_3 = 772"
| "ver V_DTLSv1 = 65279"
| "ver V_DTLSv1_2 = 65277"
| "ver V_DTLSv1_3 = 65079"

datatype ECHClientHelloType =
    ECHT_OUTER
  | ECHT_INNER

primrec echt :: "ECHClientHelloType \<Rightarrow> int" where
  "echt ECHT_OUTER = 0"
| "echt ECHT_INNER = 1"

datatype HpkeKdfId =
    HKDF_HKDF_SHA256
  | HKDF_HKDF_SHA384
  | HKDF_HKDF_SHA512

primrec hpke_kdf :: "HpkeKdfId \<Rightarrow> int" where
  "hpke_kdf HKDF_HKDF_SHA256 = 1"
| "hpke_kdf HKDF_HKDF_SHA384 = 2"
| "hpke_kdf HKDF_HKDF_SHA512 = 3"

datatype HpkeAeadId =
    HAEAD_AES_128_GCM
  | HAEAD_AES_256_GCM
  | HAEAD_CHACHA20_POLY1305

primrec hpke_aead :: "HpkeAeadId \<Rightarrow> int" where
  "hpke_aead HAEAD_AES_128_GCM = 1"
| "hpke_aead HAEAD_AES_256_GCM = 2"
| "hpke_aead HAEAD_CHACHA20_POLY1305 = 3"

datatype HpkeKemId =
    HKEM_DHKEM_P256_HKDF_SHA256
  | HKEM_DHKEM_P384_HKDF_SHA384
  | HKEM_DHKEM_P512_HKDF_SHA512
  | HKEM_DHKEM_X25519_HKDF_SHA256

primrec hpke_kem :: "HpkeKemId \<Rightarrow> int" where
  "hpke_kem HKEM_DHKEM_P256_HKDF_SHA256 = 16"
| "hpke_kem HKEM_DHKEM_P384_HKDF_SHA384 = 17"
| "hpke_kem HKEM_DHKEM_P512_HKDF_SHA512 = 18"
| "hpke_kem HKEM_DHKEM_X25519_HKDF_SHA256 = 32"

datatype Symmetric =
    SYM_NULL
  | SYM_RC4_128
  | SYM_TRIPLE_DES_EDE_CBC
  | SYM_AES_128_CBC
  | SYM_AES_256_CBC
  | SYM_AES_128_GCM
  | SYM_AES_256_GCM
  | SYM_CHACHA20_POLY1305
  | SYM_CHACHA20_DRAFT_00
  | SYM_AES_128_CCM
  | SYM_AES_256_CCM
  | SYM_AES_128_CCM_8
  | SYM_AES_256_CCM_8

primrec sym :: "Symmetric \<Rightarrow> int" where
  "sym SYM_NULL = 1"
| "sym SYM_RC4_128 = 2"
| "sym SYM_TRIPLE_DES_EDE_CBC = 3"
| "sym SYM_AES_128_CBC = 4"
| "sym SYM_AES_256_CBC = 5"
| "sym SYM_AES_128_GCM = 6"
| "sym SYM_AES_256_GCM = 7"
| "sym SYM_CHACHA20_POLY1305 = 8"
| "sym SYM_CHACHA20_DRAFT_00 = 9"
| "sym SYM_AES_128_CCM = 10"
| "sym SYM_AES_256_CCM = 11"
| "sym SYM_AES_128_CCM_8 = 12"
| "sym SYM_AES_256_CCM_8 = 13"

datatype KeyExchange =
    KEA_RSA
  | KEA_DHE
  | KEA_ECDHE
  | KEA_NONE

primrec kea_id :: "KeyExchange \<Rightarrow> int" where
  "kea_id KEA_RSA = 1"
| "kea_id KEA_DHE = 2"
| "kea_id KEA_ECDHE = 3"
| "kea_id KEA_NONE = 4"

datatype Authentication =
    AUTH_RSA
  | AUTH_DSS
  | AUTH_ECDSA
  | AUTH_ANON
  | AUTH_NONE

primrec auth_id :: "Authentication \<Rightarrow> int" where
  "auth_id AUTH_RSA = 1"
| "auth_id AUTH_DSS = 2"
| "auth_id AUTH_ECDSA = 3"
| "auth_id AUTH_ANON = 4"
| "auth_id AUTH_NONE = 5"

subsection \<open>Tuples and byte strings\<close>

definition TLS11_DOWNGRADE_SENTINEL :: bytes where
  "TLS11_DOWNGRADE_SENTINEL = [68, 79, 87, 78, 71, 82, 68, 0]"

definition TLS12_DOWNGRADE_SENTINEL :: bytes where
  "TLS12_DOWNGRADE_SENTINEL = [68, 79, 87, 78, 71, 82, 68, 1]"

definition TLS13_HRR_SENTINEL :: bytes where
  "TLS13_HRR_SENTINEL = [207, 33, 173, 116, 229, 154, 97, 17, 190, 29, 140, 2, 30, 101, 184, 145,
     194, 162, 17, 22, 122, 187, 140, 94, 7, 158, 9, 226, 200, 168, 51, 156]"

definition TLS13_CLIENT_CONTEXT_STRING :: bytes where
  "TLS13_CLIENT_CONTEXT_STRING = [84, 76, 83, 32, 49, 46, 51, 44, 32, 99, 108, 105, 101, 110, 116,
     32, 67, 101, 114, 116, 105, 102, 105, 99, 97, 116, 101, 86, 101, 114, 105, 102, 121]"

definition TLS13_SERVER_CONTEXT_STRING :: bytes where
  "TLS13_SERVER_CONTEXT_STRING = [84, 76, 83, 32, 49, 46, 51, 44, 32, 115, 101, 114, 118, 101,
     114, 32, 67, 101, 114, 116, 105, 102, 105, 99, 97, 116, 101, 86, 101, 114, 105, 102, 121]"

abbreviation UNSPECIFIED :: int where
  "UNSPECIFIED \<equiv> - 1"

definition GREASES :: "int list" where
  "GREASES = [2570, 6682, 10794, 14906, 19018, 23130, 27242, 31354, 35466, 39578, 43690, 47802,
     51914, 56026, 60138, 64250]"

definition TLS_VERSIONS :: "int list" where
  "TLS_VERSIONS = map ver [V_TLSv1, V_TLSv1_1, V_TLSv1_2, V_TLSv1_3]"

definition ECDSA_SIGNATURE_ALGORITHMS :: "int list" where
  "ECDSA_SIGNATURE_ALGORITHMS = map ss [SS_ECDSA_SHA224, SS_ECDSA_SHA1, SS_ECDSA_SECP521R1_SHA512,
     SS_ECDSA_SECP384R1_SHA384, SS_ECDSA_SECP256R1_SHA256]"

definition DSA_SIGNATURE_ALGORITHMS :: "int list" where
  "DSA_SIGNATURE_ALGORITHMS = map ss [SS_DSA_SHA512, SS_DSA_SHA384, SS_DSA_SHA256, SS_DSA_SHA224,
     SS_DSA_SHA1]"

definition RSA_PKCS1_SIGNATURE_ALGORITHMS :: "int list" where
  "RSA_PKCS1_SIGNATURE_ALGORITHMS = map ss [SS_RSA_PKCS1_SHA512, SS_RSA_PKCS1_SHA384,
     SS_RSA_PKCS1_SHA256, SS_RSA_PKCS1_SHA224, SS_RSA_PKCS1_SHA1]"

definition RSA_PSS_RSAE_SIGNATURE_ALGORITHMS :: "int list" where
  "RSA_PSS_RSAE_SIGNATURE_ALGORITHMS = map ss [SS_RSA_PSS_RSAE_SHA512, SS_RSA_PSS_RSAE_SHA384,
     SS_RSA_PSS_RSAE_SHA256]"

definition RSA_PSS_PSS_SIGNATURE_ALGORITHMS :: "int list" where
  "RSA_PSS_PSS_SIGNATURE_ALGORITHMS = map ss [SS_RSA_PSS_PSS_SHA512, SS_RSA_PSS_PSS_SHA384,
     SS_RSA_PSS_PSS_SHA256]"

definition RSA_SIGNATURE_ALGORITHMS :: "int list" where
  "RSA_SIGNATURE_ALGORITHMS = RSA_PKCS1_SIGNATURE_ALGORITHMS @ RSA_PSS_RSAE_SIGNATURE_ALGORITHMS @
     RSA_PSS_PSS_SIGNATURE_ALGORITHMS"

definition EDDSA_SIGNATURE_ALGORITHMS :: "int list" where
  "EDDSA_SIGNATURE_ALGORITHMS = map ss [SS_ED25519, SS_ED448]"

definition SIGNATURE_ALGORITHMS :: "int list" where
  "SIGNATURE_ALGORITHMS = RSA_SIGNATURE_ALGORITHMS @ DSA_SIGNATURE_ALGORITHMS @
     ECDSA_SIGNATURE_ALGORITHMS @ EDDSA_SIGNATURE_ALGORITHMS"

definition ECC_GROUPS :: "int list" where
  "ECC_GROUPS = map ng [NG_SECP192R1, NG_SECP224R1, NG_SECP256R1, NG_SECP384R1, NG_SECP521R1,
     NG_X25519, NG_X448]"

definition FFDHE_GROUPS :: "int list" where
  "FFDHE_GROUPS = map ng [NG_FFDHE2048, NG_FFDHE3072, NG_FFDHE4096, NG_FFDHE6144, NG_FFDHE8192]"

definition KEM_GROUPS :: "int list" where
  "KEM_GROUPS = map ng [NG_SECP256R1MLKEM768, NG_X25519MLKEM768, NG_SECP384R1MLKEM1024]"

definition SUPPORTED_GROUPS :: "int list" where
  "SUPPORTED_GROUPS = ECC_GROUPS @ FFDHE_GROUPS @ KEM_GROUPS"

end
