(* ===== verification/Extensions.thy ===== *)
theory Extensions
  imports Codec Constants
begin

text \<open>
  Hello extensions: \<open>src/simple_tls/tls/extensions.py\<close>.  The class \<open>Extensions\<close>, an ordered list of
  raw pairs of type and data, is \<open>extensions\<close> with one definition per method.  Every typed
  extension class has its \<open>from_bytes\<close> and \<open>to_bytes\<close> as two definitions (the classes that only set
  class attributes share those of their base class and have their attributes as a definition);
  \<open>extension\<close> is the sum of all classes, \<open>ext_class\<close> stands for the class objects the code passes
  around, and \<open>ext_to_bytes\<close>, \<open>ext_from_bytes\<close> are the method dispatch.
\<close>

subsection \<open>The extension list\<close>

type_synonym extensions = "(int \<times> bytes) list"

definition get_types :: "extensions \<Rightarrow> int list" where
  "get_types exts = map fst exts"

text \<open>
  The loop body of \<open>Extensions.parse\<close>.  Both exception handlers around it raise \<open>ParseError\<close> again
  with another text.
\<close>

definition ext_entry_parse :: "(parser, int \<times> bytes) action" where
  "ext_entry_parse =
     bnd (read_int 2) (\<lambda>ext_type.
     bnd (read_prefixed_bytes 2) (\<lambda>ext_data.
     ret (ext_type, ext_data)))"

definition Extensions_parse :: "(parser, extensions) action" where
  "Extensions_parse =
     bnd (assert_length 2 (read_items ext_entry_parse)) (\<lambda>exts.
     thn (raise_if (length exts \<noteq> length (remdups (map fst exts))) ParseError)
     (ret exts))"

definition Extensions_from_bytes :: "bytes \<Rightarrow> extensions result" where
  "Extensions_from_bytes = run_parser (bnd Extensions_parse (\<lambda>exts. thn no_trailing (ret exts)))"

definition ext_entry_write :: "int \<times> bytes \<Rightarrow> (writer, unit) action" where
  "ext_entry_write e = thn (write_int (fst e) 2) (write_prefixed_bytes (snd e) 2)"

definition Extensions_write :: "extensions \<Rightarrow> (writer, unit) action" where
  "Extensions_write exts =
     with_writer (for_each ext_entry_write exts) (\<lambda>w. write_prefixed_writer w 2)"

definition Extensions_to_bytes :: "extensions \<Rightarrow> bytes result" where
  "Extensions_to_bytes exts = run_writer (Extensions_write exts)"

fun find_from :: "int \<Rightarrow> int \<Rightarrow> extensions \<Rightarrow> int \<times> bytes option" where
  "find_from i extension_type [] = (- 1, None)"
| "find_from i extension_type ((t, d) # exts) =
     (if t = extension_type then (i, Some d) else find_from (i + 1) extension_type exts)"

definition Extensions_find :: "int \<Rightarrow> extensions \<Rightarrow> int \<times> bytes option" where
  "Extensions_find extension_type exts = find_from 0 extension_type exts"

definition has_allowed :: "int list \<Rightarrow> extensions \<Rightarrow> bool" where
  "has_allowed allowed exts = list_all (\<lambda>e. fst e \<in> set allowed) exts"

text \<open>\<open>list.insert\<close>: a negative index counts from the end, and both ends are clamped.\<close>

definition py_insert :: "int \<Rightarrow> 'a \<Rightarrow> 'a list \<Rightarrow> 'a list" where
  "py_insert index x xs =
     (let n = int (length xs);
          i = (if index < 0 then max 0 (index + n) else min index n)
      in take (nat i) xs @ x # drop (nat i) xs)"

subsection \<open>Base classes\<close>

definition EmptyExtension_from_bytes :: "bytes \<Rightarrow> unit result" where
  "EmptyExtension_from_bytes data = (if data \<noteq> [] then Inl ParseError else Inr ())"

definition EmptyExtension_to_bytes :: "bytes result" where
  "EmptyExtension_to_bytes = Inr []"

definition PrefixedBytes_from_bytes :: "nat \<Rightarrow> bytes \<Rightarrow> bytes result" where
  "PrefixedBytes_from_bytes prefix_size =
     run_parser (bnd (read_prefixed_bytes prefix_size) (\<lambda>value. thn no_trailing (ret value)))"

definition PrefixedBytes_to_bytes :: "nat \<Rightarrow> bytes \<Rightarrow> bytes result" where
  "PrefixedBytes_to_bytes prefix_size data = run_writer (write_prefixed_bytes data prefix_size)"

record int_list_attrs =
  item_size :: nat
  prefix_size :: nat
  min_length :: nat
  max_length :: nat

definition within_boundaries :: "int_list_attrs \<Rightarrow> bytes \<Rightarrow> bool" where
  "within_boundaries c data \<longleftrightarrow>
     min_length c + prefix_size c \<le> length data \<and> length data \<le> max_length c + prefix_size c"

definition PrefixedIntList_from_bytes :: "int_list_attrs \<Rightarrow> bytes \<Rightarrow> int list result" where
  "PrefixedIntList_from_bytes c data =
     (if \<not> within_boundaries c data then Inl ParseError
      else run_parser
        (bnd (read_prefixed_int_list (item_size c) (prefix_size c)) (\<lambda>value.
         thn no_trailing (ret value))) data)"

definition PrefixedIntList_to_bytes :: "int_list_attrs \<Rightarrow> int list \<Rightarrow> bytes result" where
  "PrefixedIntList_to_bytes c value =
     rbind (run_writer (write_prefixed_int_list value (item_size c) (prefix_size c))) (\<lambda>data.
     if \<not> within_boundaries c data then Inl ParseError else Inr data)"

definition IntExtension_from_bytes :: "nat \<Rightarrow> bytes \<Rightarrow> int result" where
  "IntExtension_from_bytes n =
     run_parser (bnd (read_int n) (\<lambda>value. thn no_trailing (ret value)))"

definition IntExtension_to_bytes :: "nat \<Rightarrow> int \<Rightarrow> bytes result" where
  "IntExtension_to_bytes n value =
     (case int_to_bytes value (Some n) of
        Inl e \<Rightarrow> Inl (if e = OverflowError then ValueError else e)
      | Inr d \<Rightarrow> Inr d)"

subsection \<open>Class attributes\<close>

definition CompressedCertificateExtension_attrs :: int_list_attrs where
  "CompressedCertificateExtension_attrs =
     \<lparr>item_size = 2, prefix_size = 1, min_length = 2, max_length = 2 ^ 8 - 2\<rparr>"

definition SupportedVersionsClientExtension_attrs :: int_list_attrs where
  "SupportedVersionsClientExtension_attrs =
     \<lparr>item_size = 2, prefix_size = 1, min_length = 2, max_length = 254\<rparr>"

definition SupportedGroupsClientExtension_attrs :: int_list_attrs where
  "SupportedGroupsClientExtension_attrs =
     \<lparr>item_size = 2, prefix_size = 2, min_length = 2, max_length = 65535\<rparr>"

definition ECPointFormatsExtension_attrs :: int_list_attrs where
  "ECPointFormatsExtension_attrs =
     \<lparr>item_size = 1, prefix_size = 1, min_length = 1, max_length = 2 ^ 8 - 1\<rparr>"

definition SignatureAlgorithmsExtension_attrs :: int_list_attrs where
  "SignatureAlgorithmsExtension_attrs =
     \<lparr>item_size = 2, prefix_size = 2, min_length = 2, max_length = 2 ^ 16 - 2\<rparr>"

definition PSKKeyExchangeModesExtension_attrs :: int_list_attrs where
  "PSKKeyExchangeModesExtension_attrs =
     \<lparr>item_size = 1, prefix_size = 1, min_length = 1, max_length = 255\<rparr>"

definition ECHOuterExtension_attrs :: int_list_attrs where
  "ECHOuterExtension_attrs =
     \<lparr>item_size = 2, prefix_size = 1, min_length = 0, max_length = 65535\<rparr>"

lemmas int_list_attrs_defs =
  CompressedCertificateExtension_attrs_def SupportedVersionsClientExtension_attrs_def
  SupportedGroupsClientExtension_attrs_def ECPointFormatsExtension_attrs_def
  SignatureAlgorithmsExtension_attrs_def PSKKeyExchangeModesExtension_attrs_def
  ECHOuterExtension_attrs_def

definition RenegotiationInfoExtension_prefix_size :: nat where
  "RenegotiationInfoExtension_prefix_size = 1"

definition CookieExtension_prefix_size :: nat where
  "CookieExtension_prefix_size = 2"

definition SCTServerExtension_prefix_size :: nat where
  "SCTServerExtension_prefix_size = 2"

definition SupportedVersionsServerExtension_item_size :: nat where
  "SupportedVersionsServerExtension_item_size = 2"

definition KeyShareHRRExtension_item_size :: nat where
  "KeyShareHRRExtension_item_size = 2"

definition PSKServerExtension_item_size :: nat where
  "PSKServerExtension_item_size = 2"

definition EarlyDataExtension_item_size :: nat where
  "EarlyDataExtension_item_size = 4"

lemmas size_attrs_defs =
  RenegotiationInfoExtension_prefix_size_def CookieExtension_prefix_size_def
  SCTServerExtension_prefix_size_def SupportedVersionsServerExtension_item_size_def
  KeyShareHRRExtension_item_size_def PSKServerExtension_item_size_def
  EarlyDataExtension_item_size_def


subsection \<open>Opaque extensions\<close>

definition SessionTicketExtension_from_bytes :: "bytes \<Rightarrow> bytes result" where
  "SessionTicketExtension_from_bytes data = Inr data"

definition SessionTicketExtension_to_bytes :: "bytes \<Rightarrow> bytes result" where
  "SessionTicketExtension_to_bytes ticket = Inr ticket"

definition ALPSExtension_from_bytes :: "bytes \<Rightarrow> bytes result" where
  "ALPSExtension_from_bytes data = Inr data"

definition ALPSExtension_to_bytes :: "bytes \<Rightarrow> bytes result" where
  "ALPSExtension_to_bytes settings = Inr settings"

definition ClientHelloPaddingExtension_from_bytes :: "bytes \<Rightarrow> int result" where
  "ClientHelloPaddingExtension_from_bytes data = Inr (int (length data))"

text \<open>\<open>bytes(n)\<close> is \<open>n\<close> zero bytes, and a \<open>ValueError\<close> for a negative \<open>n\<close>.\<close>

definition ClientHelloPaddingExtension_to_bytes :: "int \<Rightarrow> bytes result" where
  "ClientHelloPaddingExtension_to_bytes padding_length =
     (if padding_length < 0 then Inl ValueError else Inr (replicate (nat padding_length) 0))"

definition ECHHRRExtension_from_bytes :: "bytes \<Rightarrow> bytes result" where
  "ECHHRRExtension_from_bytes data = (if length data \<noteq> 8 then Inl ParseError else Inr data)"

definition ECHHRRExtension_to_bytes :: "bytes \<Rightarrow> bytes result" where
  "ECHHRRExtension_to_bytes data = (if length data \<noteq> 8 then Inl ValueError else Inr data)"

subsection \<open>Protocol name lists (ALPS, NPN, ALPN)\<close>

definition ALPSClientExtension_from_bytes :: "bytes \<Rightarrow> bytes list result" where
  "ALPSClientExtension_from_bytes =
     run_parser (
       bnd (assert_length 2 (read_items (read_prefixed_bytes 1))) (\<lambda>protocols.
       thn (raise_if (protocols = []) ParseError)
       (thn (raise_if (\<not> list_all (\<lambda>p. p \<noteq> []) protocols) ParseError)
       (thn no_trailing
       (ret protocols)))))"

definition ALPSClientExtension_to_bytes :: "bytes list \<Rightarrow> bytes result" where
  "ALPSClientExtension_to_bytes protocols =
     run_writer (
       thn (raise_if (protocols = []) ValueError)
       (thn (raise_if (\<not> list_all (\<lambda>p. p \<noteq> []) protocols) ValueError)
       (with_writer (for_each (\<lambda>p. write_prefixed_bytes p 1) protocols) (\<lambda>p_writer.
        write_prefixed_writer p_writer 2))))"

text \<open>\<open>while parser.remaining(): ...\<close>\<close>

definition while_remaining :: "(parser, 'a) action \<Rightarrow> (parser, 'a list) action" where
  "while_remaining item = (\<lambda>p. read_items item (length (p_data p)) p)"

definition NPNServerExtension_from_bytes :: "bytes \<Rightarrow> bytes list result" where
  "NPNServerExtension_from_bytes =
     run_parser (
       bnd (while_remaining (read_prefixed_bytes 1)) (\<lambda>protocols.
       thn (raise_if (protocols = []) ParseError)
       (thn (raise_if (\<not> list_all (\<lambda>p. p \<noteq> []) protocols) ParseError)
       (thn no_trailing
       (ret protocols)))))"

definition NPNServerExtension_to_bytes :: "bytes list \<Rightarrow> bytes result" where
  "NPNServerExtension_to_bytes protocols =
     run_writer (
       thn (raise_if (protocols = []) ValueError)
       (thn (raise_if (\<not> list_all (\<lambda>p. p \<noteq> []) protocols) ValueError)
       (for_each (\<lambda>p. write_prefixed_bytes p 1) protocols)))"

definition ALPNClientExtension_from_bytes :: "bytes \<Rightarrow> bytes list result" where
  "ALPNClientExtension_from_bytes =
     run_parser (
       bnd (assert_length 2 (read_items (read_prefixed_bytes 1))) (\<lambda>protocols.
       thn (raise_if (protocols = []) ParseError)
       (thn (raise_if (\<not> list_all (\<lambda>p. p \<noteq> []) protocols) ParseError)
       (thn no_trailing
       (ret protocols)))))"

definition ALPNClientExtension_to_bytes :: "bytes list \<Rightarrow> bytes result" where
  "ALPNClientExtension_to_bytes protocols =
     run_writer (
       thn (raise_if (protocols = []) ValueError)
       (thn (raise_if (\<not> list_all (\<lambda>p. p \<noteq> []) protocols) ValueError)
       (with_writer (for_each (\<lambda>p. write_prefixed_bytes p 1) protocols) (\<lambda>p_writer.
        write_prefixed_writer p_writer 2))))"

definition ALPNServerExtension_from_bytes :: "bytes \<Rightarrow> bytes result" where
  "ALPNServerExtension_from_bytes =
     run_parser (
       bnd (read_int 2) (\<lambda>_.
       bnd (read_prefixed_bytes 1) (\<lambda>protocol.
       thn (raise_if (protocol = []) ParseError)
       (thn no_trailing
       (ret protocol)))))"

definition ALPNServerExtension_to_bytes :: "bytes \<Rightarrow> bytes result" where
  "ALPNServerExtension_to_bytes protocol =
     run_writer (
       thn (raise_if (protocol = []) ValueError)
       (with_writer (write_prefixed_bytes protocol 1) (\<lambda>p_writer.
        write_prefixed_writer p_writer 2)))"

subsection \<open>Server name and certificate status\<close>

definition SNIClientExtension_from_bytes :: "bytes \<Rightarrow> bytes result" where
  "SNIClientExtension_from_bytes =
     run_parser (
       bnd (read_int 2) (\<lambda>_.
       bnd (read_int 1) (\<lambda>name_type.
       thn (raise_if (name_type \<noteq> nt NT_HOSTNAME) ParseError)
       (bnd (read_prefixed_bytes 2) (\<lambda>hostname.
       thn (raise_if (hostname = []) ParseError)
       (thn no_trailing
       (ret hostname)))))))"

definition SNIClientExtension_to_bytes :: "bytes \<Rightarrow> bytes result" where
  "SNIClientExtension_to_bytes hostname =
     run_writer (
       with_writer (thn (write_int (nt NT_HOSTNAME) 1) (write_prefixed_bytes hostname 2))
         (\<lambda>sn_writer. write_prefixed_writer sn_writer 2))"

definition StatusRequestClientExtension_from_bytes :: "bytes \<Rightarrow> (bytes list \<times> bytes) result" where
  "StatusRequestClientExtension_from_bytes =
     run_parser (
       bnd (read_int 1) (\<lambda>status_type.
       thn (raise_if (status_type \<noteq> cst CST_OCSP) ParseError)
       (bnd (assert_length 2 (read_items (read_prefixed_bytes 2))) (\<lambda>responder_id_list.
       bnd (read_prefixed_bytes 2) (\<lambda>request_extensions.
       thn no_trailing
       (ret (responder_id_list, request_extensions)))))))"

definition StatusRequestClientExtension_to_bytes :: "bytes list \<Rightarrow> bytes \<Rightarrow> bytes result" where
  "StatusRequestClientExtension_to_bytes responder_id_list request_extensions =
     run_writer (
       with_writer (for_each (\<lambda>i. write_prefixed_bytes i 2) responder_id_list) (\<lambda>rid_writer.
       thn (write_int (cst CST_OCSP) 1)
       (thn (write_prefixed_writer rid_writer 2)
       (write_prefixed_bytes request_extensions 2))))"

definition StatusRequestCertExtension_from_bytes :: "bytes \<Rightarrow> bytes result" where
  "StatusRequestCertExtension_from_bytes =
     run_parser (
       bnd (read_int 1) (\<lambda>status_type.
       thn (raise_if (status_type \<noteq> cst CST_OCSP) ParseError)
       (bnd (read_prefixed_bytes 3) (\<lambda>response.
       thn no_trailing
       (ret response)))))"

definition StatusRequestCertExtension_to_bytes :: "bytes \<Rightarrow> bytes result" where
  "StatusRequestCertExtension_to_bytes response =
     run_writer (thn (write_int (cst CST_OCSP) 1) (write_prefixed_bytes response 3))"

subsection \<open>Key shares\<close>

record key_share_entry =
  group :: int
  key_exchange :: bytes

definition KeyShareEntry_parse :: "(parser, key_share_entry) action" where
  "KeyShareEntry_parse =
     bnd (read_int 2) (\<lambda>g.
     bnd (read_prefixed_bytes 2) (\<lambda>k.
     thn (raise_if (k = []) ParseError)
     (ret \<lparr>group = g, key_exchange = k\<rparr>)))"

definition KeyShareEntry_write :: "key_share_entry \<Rightarrow> (writer, unit) action" where
  "KeyShareEntry_write e =
     thn (raise_if (key_exchange e = []) ValueError)
     (thn (write_int (group e) 2)
     (write_prefixed_bytes (key_exchange e) 2))"

definition KeyShareClientExtension_from_bytes :: "bytes \<Rightarrow> key_share_entry list result" where
  "KeyShareClientExtension_from_bytes =
     run_parser (
       bnd (assert_length 2 (read_items KeyShareEntry_parse)) (\<lambda>key_shares.
       thn no_trailing
       (ret key_shares)))"

definition KeyShareClientExtension_to_bytes :: "key_share_entry list \<Rightarrow> bytes result" where
  "KeyShareClientExtension_to_bytes key_shares =
     run_writer (
       with_writer (for_each KeyShareEntry_write key_shares) (\<lambda>ks_writer.
       write_prefixed_writer ks_writer 2))"

definition KeyShareServerExtension_from_bytes :: "bytes \<Rightarrow> key_share_entry result" where
  "KeyShareServerExtension_from_bytes =
     run_parser (bnd KeyShareEntry_parse (\<lambda>key_share. thn no_trailing (ret key_share)))"

definition KeyShareServerExtension_to_bytes :: "key_share_entry \<Rightarrow> bytes result" where
  "KeyShareServerExtension_to_bytes key_share = run_writer (KeyShareEntry_write key_share)"

subsection \<open>Pre-shared keys\<close>

record psk_identity =
  identity :: bytes
  obfuscated_ticket_age :: int

definition PSKIdentity_parse :: "(parser, psk_identity) action" where
  "PSKIdentity_parse =
     bnd (read_prefixed_bytes 2) (\<lambda>i.
     thn (raise_if (i = []) ParseError)
     (bnd (read_int 4) (\<lambda>age.
     ret \<lparr>identity = i, obfuscated_ticket_age = age\<rparr>)))"

definition PSKIdentity_write :: "psk_identity \<Rightarrow> (writer, unit) action" where
  "PSKIdentity_write i =
     thn (raise_if (identity i = []) ValueError)
     (thn (write_prefixed_bytes (identity i) 2)
     (write_int (obfuscated_ticket_age i) 4))"

definition psk_binder_parse :: "(parser, bytes) action" where
  "psk_binder_parse =
     bnd (read_prefixed_bytes 1) (\<lambda>bd.
     thn (raise_if (bd = []) ParseError)
     (ret bd))"

definition psk_binder_write :: "bytes \<Rightarrow> (writer, unit) action" where
  "psk_binder_write bd =
     thn (raise_if (bd = []) ValueError) (write_prefixed_bytes bd 1)"

definition PSKClientExtension_from_bytes :: "bytes \<Rightarrow> (psk_identity list \<times> bytes list) result" where
  "PSKClientExtension_from_bytes =
     run_parser (
       bnd (assert_length 2 (read_items PSKIdentity_parse)) (\<lambda>identities.
       bnd (assert_length 2 (read_items psk_binder_parse)) (\<lambda>binders.
       thn (raise_if (length identities \<noteq> length binders) ParseError)
       (thn (raise_if (identities = []) ParseError)
       (thn no_trailing
       (ret (identities, binders)))))))"

definition PSKClientExtension_to_bytes :: "psk_identity list \<Rightarrow> bytes list \<Rightarrow> bytes result" where
  "PSKClientExtension_to_bytes identities binders =
     run_writer (
       thn (raise_if (length identities \<noteq> length binders) ValueError)
       (thn (raise_if (identities = []) ValueError)
       (with_writer (for_each PSKIdentity_write identities) (\<lambda>ids_writer.
        with_writer (for_each psk_binder_write binders) (\<lambda>bd_writer.
        thn (write_prefixed_writer ids_writer 2)
        (write_prefixed_writer bd_writer 2))))))"


subsection \<open>Encrypted client hello\<close>

record ech_config =
  config_id :: int
  kem_id :: int
  public_key :: bytes
  ech_cipher_suites :: "(int \<times> int) list"
  maximum_name_length :: int
  public_name :: bytes
  ech_extensions :: extensions

definition ECHConfig_supported :: "bool \<Rightarrow> ech_config \<Rightarrow> bool" where
  "ECHConfig_supported all_extensions_mandatory c =
     (if ech_extensions c = [] then True
      else list_all (\<lambda>e. \<not> (fst e AND 0x8000 \<noteq> 0 \<or> all_extensions_mandatory)) (ech_extensions c))"

definition ech_suite_parse :: "(parser, int \<times> int) action" where
  "ech_suite_parse = bnd (read_int 2) (\<lambda>kdf_id. bnd (read_int 2) (\<lambda>aead_id. ret (kdf_id, aead_id)))"

definition ech_suite_write :: "int \<times> int \<Rightarrow> (writer, unit) action" where
  "ech_suite_write s = thn (write_int (fst s) 2) (write_int (snd s) 2)"

definition ECHConfig_contents :: "(parser, ech_config) action" where
  "ECHConfig_contents =
     bnd (read_int 1) (\<lambda>cid.
     bnd (read_int 2) (\<lambda>kem.
     bnd (read_prefixed_bytes 2) (\<lambda>pk.
     bnd (assert_length 2 (read_items ech_suite_parse)) (\<lambda>suites.
     bnd (read_int 1) (\<lambda>mnl.
     bnd (read_prefixed_bytes 1) (\<lambda>pn.
     bnd Extensions_parse (\<lambda>exts.
     ret \<lparr>config_id = cid, kem_id = kem, public_key = pk, ech_cipher_suites = suites,
          maximum_name_length = mnl, public_name = pn, ech_extensions = exts\<rparr>)))))))"

definition ECHConfig_parse :: "(parser, ech_config) action" where
  "ECHConfig_parse =
     bnd (read_int 2) (\<lambda>version.
     thn (raise_if (version \<noteq> 65037) ParseError)
     (bnd (assert_length 2 (\<lambda>_. ECHConfig_contents)) (\<lambda>c.
     thn (raise_if (public_key c = []) ParseError)
     (thn (raise_if (ech_cipher_suites c = []) ParseError)
     (thn (raise_if (public_name c = []) ParseError)
     (ret c))))))"

definition ECHConfig_from_bytes :: "bytes \<Rightarrow> ech_config result" where
  "ECHConfig_from_bytes = run_parser (bnd ECHConfig_parse (\<lambda>c. thn no_trailing (ret c)))"

definition ECHConfig_write :: "ech_config \<Rightarrow> (writer, unit) action" where
  "ECHConfig_write c =
     with_writer (for_each ech_suite_write (ech_cipher_suites c)) (\<lambda>cipher_writer.
     with_writer (
       thn (write_int (config_id c) 1)
       (thn (write_int (kem_id c) 2)
       (thn (write_prefixed_bytes (public_key c) 2)
       (thn (write_prefixed_writer cipher_writer 2)
       (thn (write_int (maximum_name_length c) 1)
       (thn (write_prefixed_bytes (public_name c) 1)
       (Extensions_write (ech_extensions c)))))))) (\<lambda>contents_writer.
     thn (write_int 65037 2)
     (write_prefixed_writer contents_writer 2)))"

definition ECHConfig_to_bytes :: "ech_config \<Rightarrow> bytes result" where
  "ECHConfig_to_bytes c = run_writer (ECHConfig_write c)"

record ech_client =
  ech_client_hello_type :: int
  hpke_kdf_id :: int
  hpke_aead_id :: int
  ech_config_id :: int
  ech_enc :: bytes
  ech_payload :: bytes

definition ECHClientExtension_from_bytes :: "bytes \<Rightarrow> ech_client result" where
  "ECHClientExtension_from_bytes =
     run_parser (
       bnd (read_int 1) (\<lambda>ech_cl_type.
       bnd (if ech_cl_type = echt ECHT_OUTER then
              bnd (read_int 2) (\<lambda>kdf.
              bnd (read_int 2) (\<lambda>aead_id.
              bnd (read_int 1) (\<lambda>cid.
              bnd (read_prefixed_bytes 2) (\<lambda>enc.
              bnd (read_prefixed_bytes 2) (\<lambda>payload.
              ret \<lparr>ech_client_hello_type = ech_cl_type, hpke_kdf_id = kdf, hpke_aead_id = aead_id,
                   ech_config_id = cid, ech_enc = enc, ech_payload = payload\<rparr>)))))
            else if ech_cl_type = echt ECHT_INNER then
              ret \<lparr>ech_client_hello_type = ech_cl_type, hpke_kdf_id = 0, hpke_aead_id = 0,
                   ech_config_id = 0, ech_enc = [], ech_payload = []\<rparr>
            else raise ParseError) (\<lambda>r.
       thn no_trailing
       (ret r))))"

definition ECHClientExtension_to_bytes :: "ech_client \<Rightarrow> bytes result" where
  "ECHClientExtension_to_bytes e =
     run_writer (
       thn (write_int (ech_client_hello_type e) 1)
       (if ech_client_hello_type e = echt ECHT_OUTER then
          thn (write_int (hpke_kdf_id e) 2)
          (thn (write_int (hpke_aead_id e) 2)
          (thn (write_int (ech_config_id e) 1)
          (thn (write_prefixed_bytes (ech_enc e) 2)
          (write_prefixed_bytes (ech_payload e) 2))))
        else ret ()))"

definition ECHServerExtension_from_bytes :: "bytes \<Rightarrow> ech_config list result" where
  "ECHServerExtension_from_bytes =
     run_parser (
       bnd (assert_length 2 (read_items ECHConfig_parse)) (\<lambda>configs.
       thn (raise_if (configs = []) ParseError)
       (thn no_trailing
       (ret configs))))"

definition ECHServerExtension_to_bytes :: "ech_config list \<Rightarrow> bytes result" where
  "ECHServerExtension_to_bytes retry_configs =
     run_writer (
       thn (raise_if (retry_configs = []) ValueError)
       (with_writer (for_each ECHConfig_write retry_configs) (\<lambda>config_writer.
        write_prefixed_writer config_writer 2)))"

subsection \<open>All classes and their dispatch\<close>

datatype extension =
    EncryptThenMacExtension
  | ExtendedMasterSecretExtension
  | RenegotiationInfoExtension bytes
  | SessionTicketExtension bytes
  | CompressedCertificateExtension "int list"
  | SupportedVersionsClientExtension "int list"
  | SupportedVersionsServerExtension int
  | SupportedGroupsClientExtension "int list"
  | ECPointFormatsExtension "int list"
  | ClientHelloPaddingExtension int
  | SignatureAlgorithmsExtension "int list"
  | PSKKeyExchangeModesExtension "int list"
  | ALPSClientExtension "bytes list"
  | ALPSExtension bytes
  | CookieExtension bytes
  | ECHOuterExtension "int list"
  | SNIClientExtension bytes
  | SNIServerExtension
  | NPNClientExtension
  | NPNServerExtension "bytes list"
  | ALPNClientExtension "bytes list"
  | ALPNServerExtension bytes
  | StatusRequestClientExtension "bytes list" bytes
  | StatusRequestServerExtension
  | StatusRequestCertExtension bytes
  | KeyShareClientExtension "key_share_entry list"
  | KeyShareServerExtension key_share_entry
  | KeyShareHRRExtension int
  | PSKClientExtension "psk_identity list" "bytes list"
  | PSKServerExtension int
  | PostHandshakeAuthExtension
  | EarlyDataExtension int
  | EarlyDataClientExtension
  | EarlyDataServerExtension
  | SCTClientExtension
  | SCTServerExtension bytes
  | ECHClientExtension ech_client
  | ECHServerExtension "ech_config list"
  | ECHHRRExtension bytes
  | GenericExtension int bytes

datatype ext_class =
    EncryptThenMac_class
  | ExtendedMasterSecret_class
  | RenegotiationInfo_class
  | SessionTicket_class
  | CompressedCertificate_class
  | SupportedVersionsClient_class
  | SupportedVersionsServer_class
  | SupportedGroupsClient_class
  | ECPointFormats_class
  | ClientHelloPadding_class
  | SignatureAlgorithms_class
  | PSKKeyExchangeModes_class
  | ALPSClient_class
  | ALPS_class
  | Cookie_class
  | ECHOuter_class
  | SNIClient_class
  | SNIServer_class
  | NPNClient_class
  | NPNServer_class
  | ALPNClient_class
  | ALPNServer_class
  | StatusRequestClient_class
  | StatusRequestServer_class
  | StatusRequestCert_class
  | KeyShareClient_class
  | KeyShareServer_class
  | KeyShareHRR_class
  | PSKClient_class
  | PSKServer_class
  | PostHandshakeAuth_class
  | EarlyData_class
  | EarlyDataClient_class
  | EarlyDataServer_class
  | SCTClient_class
  | SCTServer_class
  | ECHClient_class
  | ECHServer_class
  | ECHHRR_class
  | Generic_class

primrec class_of :: "extension \<Rightarrow> ext_class" where
  "class_of EncryptThenMacExtension = EncryptThenMac_class"
| "class_of ExtendedMasterSecretExtension = ExtendedMasterSecret_class"
| "class_of (RenegotiationInfoExtension d) = RenegotiationInfo_class"
| "class_of (SessionTicketExtension d) = SessionTicket_class"
| "class_of (CompressedCertificateExtension d) = CompressedCertificate_class"
| "class_of (SupportedVersionsClientExtension d) = SupportedVersionsClient_class"
| "class_of (SupportedVersionsServerExtension d) = SupportedVersionsServer_class"
| "class_of (SupportedGroupsClientExtension d) = SupportedGroupsClient_class"
| "class_of (ECPointFormatsExtension d) = ECPointFormats_class"
| "class_of (ClientHelloPaddingExtension n) = ClientHelloPadding_class"
| "class_of (SignatureAlgorithmsExtension d) = SignatureAlgorithms_class"
| "class_of (PSKKeyExchangeModesExtension d) = PSKKeyExchangeModes_class"
| "class_of (ALPSClientExtension d) = ALPSClient_class"
| "class_of (ALPSExtension d) = ALPS_class"
| "class_of (CookieExtension d) = Cookie_class"
| "class_of (ECHOuterExtension d) = ECHOuter_class"
| "class_of (SNIClientExtension d) = SNIClient_class"
| "class_of SNIServerExtension = SNIServer_class"
| "class_of NPNClientExtension = NPNClient_class"
| "class_of (NPNServerExtension d) = NPNServer_class"
| "class_of (ALPNClientExtension d) = ALPNClient_class"
| "class_of (ALPNServerExtension d) = ALPNServer_class"
| "class_of (StatusRequestClientExtension r e) = StatusRequestClient_class"
| "class_of StatusRequestServerExtension = StatusRequestServer_class"
| "class_of (StatusRequestCertExtension d) = StatusRequestCert_class"
| "class_of (KeyShareClientExtension d) = KeyShareClient_class"
| "class_of (KeyShareServerExtension d) = KeyShareServer_class"
| "class_of (KeyShareHRRExtension d) = KeyShareHRR_class"
| "class_of (PSKClientExtension i b) = PSKClient_class"
| "class_of (PSKServerExtension d) = PSKServer_class"
| "class_of PostHandshakeAuthExtension = PostHandshakeAuth_class"
| "class_of (EarlyDataExtension d) = EarlyData_class"
| "class_of EarlyDataClientExtension = EarlyDataClient_class"
| "class_of EarlyDataServerExtension = EarlyDataServer_class"
| "class_of SCTClientExtension = SCTClient_class"
| "class_of (SCTServerExtension d) = SCTServer_class"
| "class_of (ECHClientExtension d) = ECHClient_class"
| "class_of (ECHServerExtension d) = ECHServer_class"
| "class_of (ECHHRRExtension d) = ECHHRR_class"
| "class_of (GenericExtension t d) = Generic_class"


text \<open>
  The class attribute \<open>extension_type\<close>.  \<open>GenericExtension\<close> has none: its type is a property of
  the instance.
\<close>

primrec class_type :: "ext_class \<Rightarrow> int option" where
  "class_type EncryptThenMac_class = Some (ext EXT_ENCRYPT_THEN_MAC)"
| "class_type ExtendedMasterSecret_class = Some (ext EXT_EXTENDED_MAIN_SECRET)"
| "class_type RenegotiationInfo_class = Some (ext EXT_RENEGOTIATION_INFO)"
| "class_type SessionTicket_class = Some (ext EXT_SESSION_TICKET)"
| "class_type CompressedCertificate_class = Some (ext EXT_COMPRESS_CERTIFICATE)"
| "class_type SupportedVersionsClient_class = Some (ext EXT_SUPPORTED_VERSIONS)"
| "class_type SupportedVersionsServer_class = Some (ext EXT_SUPPORTED_VERSIONS)"
| "class_type SupportedGroupsClient_class = Some (ext EXT_SUPPORTED_GROUPS)"
| "class_type ECPointFormats_class = Some (ext EXT_EC_POINT_FORMATS)"
| "class_type ClientHelloPadding_class = Some (ext EXT_CLIENT_HELLO_PADDING)"
| "class_type SignatureAlgorithms_class = Some (ext EXT_SIGNATURE_ALGORITHMS)"
| "class_type PSKKeyExchangeModes_class = Some (ext EXT_PSK_KEY_EXCHANGE_MODES)"
| "class_type ALPSClient_class = Some (ext EXT_APPLICATION_SETTINGS)"
| "class_type ALPS_class = Some (ext EXT_APPLICATION_SETTINGS)"
| "class_type Cookie_class = Some (ext EXT_COOKIE)"
| "class_type ECHOuter_class = Some (ext EXT_ECH_OUTER_EXTENSIONS)"
| "class_type SNIClient_class = Some (ext EXT_SERVER_NAME)"
| "class_type SNIServer_class = Some (ext EXT_SERVER_NAME)"
| "class_type NPNClient_class = Some (ext EXT_SUPPORTS_NPN)"
| "class_type NPNServer_class = Some (ext EXT_SUPPORTS_NPN)"
| "class_type ALPNClient_class = Some (ext EXT_ALPN)"
| "class_type ALPNServer_class = Some (ext EXT_ALPN)"
| "class_type StatusRequestClient_class = Some (ext EXT_STATUS_REQUEST)"
| "class_type StatusRequestServer_class = Some (ext EXT_STATUS_REQUEST)"
| "class_type StatusRequestCert_class = Some (ext EXT_STATUS_REQUEST)"
| "class_type KeyShareClient_class = Some (ext EXT_KEY_SHARE)"
| "class_type KeyShareServer_class = Some (ext EXT_KEY_SHARE)"
| "class_type KeyShareHRR_class = Some (ext EXT_KEY_SHARE)"
| "class_type PSKClient_class = Some (ext EXT_PRE_SHARED_KEY)"
| "class_type PSKServer_class = Some (ext EXT_PRE_SHARED_KEY)"
| "class_type PostHandshakeAuth_class = Some (ext EXT_POST_HANDSHAKE_AUTH)"
| "class_type EarlyData_class = Some (ext EXT_EARLY_DATA)"
| "class_type EarlyDataClient_class = Some (ext EXT_EARLY_DATA)"
| "class_type EarlyDataServer_class = Some (ext EXT_EARLY_DATA)"
| "class_type SCTClient_class = Some (ext EXT_SIGNED_CERTIFICATE_TIMESTAMP)"
| "class_type SCTServer_class = Some (ext EXT_SIGNED_CERTIFICATE_TIMESTAMP)"
| "class_type ECHClient_class = Some (ext EXT_ENCRYPTED_CLIENT_HELLO)"
| "class_type ECHServer_class = Some (ext EXT_ENCRYPTED_CLIENT_HELLO)"
| "class_type ECHHRR_class = Some (ext EXT_ENCRYPTED_CLIENT_HELLO)"
| "class_type Generic_class = None"

definition extension_type :: "extension \<Rightarrow> int" where
  "extension_type e =
     (case e of GenericExtension t d \<Rightarrow> t
      | _ \<Rightarrow> (case class_type (class_of e) of Some t \<Rightarrow> t | None \<Rightarrow> 0))"

primrec ext_to_bytes :: "extension \<Rightarrow> bytes result" where
  "ext_to_bytes EncryptThenMacExtension = EmptyExtension_to_bytes"
| "ext_to_bytes ExtendedMasterSecretExtension = EmptyExtension_to_bytes"
| "ext_to_bytes (RenegotiationInfoExtension d) =
     PrefixedBytes_to_bytes RenegotiationInfoExtension_prefix_size d"
| "ext_to_bytes (SessionTicketExtension d) = SessionTicketExtension_to_bytes d"
| "ext_to_bytes (CompressedCertificateExtension d) =
     PrefixedIntList_to_bytes CompressedCertificateExtension_attrs d"
| "ext_to_bytes (SupportedVersionsClientExtension d) =
     PrefixedIntList_to_bytes SupportedVersionsClientExtension_attrs d"
| "ext_to_bytes (SupportedVersionsServerExtension d) =
     IntExtension_to_bytes SupportedVersionsServerExtension_item_size d"
| "ext_to_bytes (SupportedGroupsClientExtension d) =
     PrefixedIntList_to_bytes SupportedGroupsClientExtension_attrs d"
| "ext_to_bytes (ECPointFormatsExtension d) =
     PrefixedIntList_to_bytes ECPointFormatsExtension_attrs d"
| "ext_to_bytes (ClientHelloPaddingExtension n) = ClientHelloPaddingExtension_to_bytes n"
| "ext_to_bytes (SignatureAlgorithmsExtension d) =
     PrefixedIntList_to_bytes SignatureAlgorithmsExtension_attrs d"
| "ext_to_bytes (PSKKeyExchangeModesExtension d) =
     PrefixedIntList_to_bytes PSKKeyExchangeModesExtension_attrs d"
| "ext_to_bytes (ALPSClientExtension d) = ALPSClientExtension_to_bytes d"
| "ext_to_bytes (ALPSExtension d) = ALPSExtension_to_bytes d"
| "ext_to_bytes (CookieExtension d) = PrefixedBytes_to_bytes CookieExtension_prefix_size d"
| "ext_to_bytes (ECHOuterExtension d) = PrefixedIntList_to_bytes ECHOuterExtension_attrs d"
| "ext_to_bytes (SNIClientExtension d) = SNIClientExtension_to_bytes d"
| "ext_to_bytes SNIServerExtension = EmptyExtension_to_bytes"
| "ext_to_bytes NPNClientExtension = EmptyExtension_to_bytes"
| "ext_to_bytes (NPNServerExtension d) = NPNServerExtension_to_bytes d"
| "ext_to_bytes (ALPNClientExtension d) = ALPNClientExtension_to_bytes d"
| "ext_to_bytes (ALPNServerExtension d) = ALPNServerExtension_to_bytes d"
| "ext_to_bytes (StatusRequestClientExtension r e) = StatusRequestClientExtension_to_bytes r e"
| "ext_to_bytes StatusRequestServerExtension = EmptyExtension_to_bytes"
| "ext_to_bytes (StatusRequestCertExtension d) = StatusRequestCertExtension_to_bytes d"
| "ext_to_bytes (KeyShareClientExtension d) = KeyShareClientExtension_to_bytes d"
| "ext_to_bytes (KeyShareServerExtension d) = KeyShareServerExtension_to_bytes d"
| "ext_to_bytes (KeyShareHRRExtension d) = IntExtension_to_bytes KeyShareHRRExtension_item_size d"
| "ext_to_bytes (PSKClientExtension i b) = PSKClientExtension_to_bytes i b"
| "ext_to_bytes (PSKServerExtension d) = IntExtension_to_bytes PSKServerExtension_item_size d"
| "ext_to_bytes PostHandshakeAuthExtension = EmptyExtension_to_bytes"
| "ext_to_bytes (EarlyDataExtension d) = IntExtension_to_bytes EarlyDataExtension_item_size d"
| "ext_to_bytes EarlyDataClientExtension = EmptyExtension_to_bytes"
| "ext_to_bytes EarlyDataServerExtension = EmptyExtension_to_bytes"
| "ext_to_bytes SCTClientExtension = EmptyExtension_to_bytes"
| "ext_to_bytes (SCTServerExtension d) = PrefixedBytes_to_bytes SCTServerExtension_prefix_size d"
| "ext_to_bytes (ECHClientExtension d) = ECHClientExtension_to_bytes d"
| "ext_to_bytes (ECHServerExtension d) = ECHServerExtension_to_bytes d"
| "ext_to_bytes (ECHHRRExtension d) = ECHHRRExtension_to_bytes d"
| "ext_to_bytes (GenericExtension t d) = Inr d"

definition rmap :: "('a \<Rightarrow> 'b) \<Rightarrow> 'a result \<Rightarrow> 'b result" where
  "rmap f r = rbind r (\<lambda>x. Inr (f x))"

primrec ext_from_bytes :: "ext_class \<Rightarrow> bytes \<Rightarrow> extension result" where
  "ext_from_bytes EncryptThenMac_class d =
     rmap (\<lambda>_. EncryptThenMacExtension) (EmptyExtension_from_bytes d)"
| "ext_from_bytes ExtendedMasterSecret_class d =
     rmap (\<lambda>_. ExtendedMasterSecretExtension) (EmptyExtension_from_bytes d)"
| "ext_from_bytes RenegotiationInfo_class d = rmap RenegotiationInfoExtension
     (PrefixedBytes_from_bytes RenegotiationInfoExtension_prefix_size d)"
| "ext_from_bytes SessionTicket_class d =
     rmap SessionTicketExtension (SessionTicketExtension_from_bytes d)"
| "ext_from_bytes CompressedCertificate_class d = rmap CompressedCertificateExtension
     (PrefixedIntList_from_bytes CompressedCertificateExtension_attrs d)"
| "ext_from_bytes SupportedVersionsClient_class d = rmap SupportedVersionsClientExtension
     (PrefixedIntList_from_bytes SupportedVersionsClientExtension_attrs d)"
| "ext_from_bytes SupportedVersionsServer_class d = rmap SupportedVersionsServerExtension
     (IntExtension_from_bytes SupportedVersionsServerExtension_item_size d)"
| "ext_from_bytes SupportedGroupsClient_class d = rmap SupportedGroupsClientExtension
     (PrefixedIntList_from_bytes SupportedGroupsClientExtension_attrs d)"
| "ext_from_bytes ECPointFormats_class d = rmap ECPointFormatsExtension
     (PrefixedIntList_from_bytes ECPointFormatsExtension_attrs d)"
| "ext_from_bytes ClientHelloPadding_class d =
     rmap ClientHelloPaddingExtension (ClientHelloPaddingExtension_from_bytes d)"
| "ext_from_bytes SignatureAlgorithms_class d = rmap SignatureAlgorithmsExtension
     (PrefixedIntList_from_bytes SignatureAlgorithmsExtension_attrs d)"
| "ext_from_bytes PSKKeyExchangeModes_class d = rmap PSKKeyExchangeModesExtension
     (PrefixedIntList_from_bytes PSKKeyExchangeModesExtension_attrs d)"
| "ext_from_bytes ALPSClient_class d = rmap ALPSClientExtension (ALPSClientExtension_from_bytes d)"
| "ext_from_bytes ALPS_class d = rmap ALPSExtension (ALPSExtension_from_bytes d)"
| "ext_from_bytes Cookie_class d =
     rmap CookieExtension (PrefixedBytes_from_bytes CookieExtension_prefix_size d)"
| "ext_from_bytes ECHOuter_class d =
     rmap ECHOuterExtension (PrefixedIntList_from_bytes ECHOuterExtension_attrs d)"
| "ext_from_bytes SNIClient_class d = rmap SNIClientExtension (SNIClientExtension_from_bytes d)"
| "ext_from_bytes SNIServer_class d =
     rmap (\<lambda>_. SNIServerExtension) (EmptyExtension_from_bytes d)"
| "ext_from_bytes NPNClient_class d =
     rmap (\<lambda>_. NPNClientExtension) (EmptyExtension_from_bytes d)"
| "ext_from_bytes NPNServer_class d = rmap NPNServerExtension (NPNServerExtension_from_bytes d)"
| "ext_from_bytes ALPNClient_class d = rmap ALPNClientExtension (ALPNClientExtension_from_bytes d)"
| "ext_from_bytes ALPNServer_class d = rmap ALPNServerExtension (ALPNServerExtension_from_bytes d)"
| "ext_from_bytes StatusRequestClient_class d =
     rmap (\<lambda>(r, e). StatusRequestClientExtension r e) (StatusRequestClientExtension_from_bytes d)"
| "ext_from_bytes StatusRequestServer_class d =
     rmap (\<lambda>_. StatusRequestServerExtension) (EmptyExtension_from_bytes d)"
| "ext_from_bytes StatusRequestCert_class d =
     rmap StatusRequestCertExtension (StatusRequestCertExtension_from_bytes d)"
| "ext_from_bytes KeyShareClient_class d =
     rmap KeyShareClientExtension (KeyShareClientExtension_from_bytes d)"
| "ext_from_bytes KeyShareServer_class d =
     rmap KeyShareServerExtension (KeyShareServerExtension_from_bytes d)"
| "ext_from_bytes KeyShareHRR_class d =
     rmap KeyShareHRRExtension (IntExtension_from_bytes KeyShareHRRExtension_item_size d)"
| "ext_from_bytes PSKClient_class d =
     rmap (\<lambda>(i, b). PSKClientExtension i b) (PSKClientExtension_from_bytes d)"
| "ext_from_bytes PSKServer_class d =
     rmap PSKServerExtension (IntExtension_from_bytes PSKServerExtension_item_size d)"
| "ext_from_bytes PostHandshakeAuth_class d =
     rmap (\<lambda>_. PostHandshakeAuthExtension) (EmptyExtension_from_bytes d)"
| "ext_from_bytes EarlyData_class d =
     rmap EarlyDataExtension (IntExtension_from_bytes EarlyDataExtension_item_size d)"
| "ext_from_bytes EarlyDataClient_class d =
     rmap (\<lambda>_. EarlyDataClientExtension) (EmptyExtension_from_bytes d)"
| "ext_from_bytes EarlyDataServer_class d =
     rmap (\<lambda>_. EarlyDataServerExtension) (EmptyExtension_from_bytes d)"
| "ext_from_bytes SCTClient_class d =
     rmap (\<lambda>_. SCTClientExtension) (EmptyExtension_from_bytes d)"
| "ext_from_bytes SCTServer_class d =
     rmap SCTServerExtension (PrefixedBytes_from_bytes SCTServerExtension_prefix_size d)"
| "ext_from_bytes ECHClient_class d = rmap ECHClientExtension (ECHClientExtension_from_bytes d)"
| "ext_from_bytes ECHServer_class d = rmap ECHServerExtension (ECHServerExtension_from_bytes d)"
| "ext_from_bytes ECHHRR_class d = rmap ECHHRRExtension (ECHHRRExtension_from_bytes d)"
| "ext_from_bytes Generic_class d = Inl NotImplementedError"

text \<open>The list methods that take a typed extension or a class.\<close>

primrec map_result :: "('a \<Rightarrow> 'b result) \<Rightarrow> 'a list \<Rightarrow> 'b list result" where
  "map_result f [] = Inr []"
| "map_result f (x # xs) = rbind (f x) (\<lambda>y. rbind (map_result f xs) (\<lambda>ys. Inr (y # ys)))"

definition raw_entry :: "extension \<Rightarrow> (int \<times> bytes) result" where
  "raw_entry e = rbind (ext_to_bytes e) (\<lambda>d. Inr (extension_type e, d))"

definition Extensions_from_extensions :: "extension list \<Rightarrow> extensions result" where
  "Extensions_from_extensions es = map_result raw_entry es"

fun Extensions_replace :: "extension \<Rightarrow> extensions \<Rightarrow> extensions result" where
  "Extensions_replace e [] = Inl ValueError"
| "Extensions_replace e ((t, d) # exts) =
     (if t = extension_type e then rbind (raw_entry e) (\<lambda>r. Inr (r # exts))
      else rbind (Extensions_replace e exts) (\<lambda>rest. Inr ((t, d) # rest)))"

fun Extensions_get :: "ext_class \<Rightarrow> extensions \<Rightarrow> extension option result" where
  "Extensions_get c [] = Inr None"
| "Extensions_get c ((t, d) # exts) =
     (if class_type c = Some t then rmap Some (ext_from_bytes c d) else Extensions_get c exts)"

definition Extensions_insert :: "int \<Rightarrow> extension \<Rightarrow> extensions \<Rightarrow> extensions result" where
  "Extensions_insert index e exts = rbind (raw_entry e) (\<lambda>r. Inr (py_insert index r exts))"

definition Extensions_append :: "extension \<Rightarrow> extensions \<Rightarrow> extensions result" where
  "Extensions_append e exts = rbind (raw_entry e) (\<lambda>r. Inr (exts @ [r]))"

end
