(* ===== verification/Extension_Laws.thy ===== *)
theory Extension_Laws
  imports Extensions
begin

text \<open>
  Correctness of the extension formats: what each writer emits, that each reader takes exactly what
  its writer emits, that every reader ends within the buffer, and that the extension list keeps its
  order, its entries and the uniqueness of its types through the wire.  Repeated items are
  interpretations of \<open>exact_wire_item\<close>; extension classes are interpretations of \<open>wire_format\<close>, most
  of them of \<open>canonical_format\<close>.
\<close>

lemma rmap_simps [simp]: "rmap f (Inr x) = Inr (f x)" "rmap f (Inl e) = Inl e"
  by (simp_all add: rmap_def)

lemma rmap_Inr_iff: "rmap f r = Inr y \<longleftrightarrow> (\<exists>x. r = Inr x \<and> y = f x)"
  by (auto simp: rmap_def rbind_Inr_iff)

lemma rmap_Inl_iff [simp]: "rmap f r = Inl e \<longleftrightarrow> r = Inl e"
  by (cases r) simp_all

subsection \<open>Items of vectors\<close>

definition ext_entry_enc :: "int \<times> bytes \<Rightarrow> bytes result" where
  "ext_entry_enc e = rcat (enc_int (fst e) 2) (enc_pbytes (snd e) 2)"

interpretation ext_entry: exact_wire_item ext_entry_parse ext_entry_write ext_entry_enc "\<lambda>_. True"
proof unfold_locales
  show "emits (ext_entry_write x) (ext_entry_enc x)" for x
    unfolding ext_entry_write_def ext_entry_enc_def by (intro emits_intros)
  show "parses suf ext_entry_parse w x" if "ext_entry_enc x = Inr w" for x w suf
  proof -
    from that obtain a b where w: "enc_int (fst x) 2 = Inr a" "enc_pbytes (snd x) 2 = Inr b"
      "w = a @ b @ []" by (auto simp: ext_entry_enc_def rcat_Inr_iff)
    have "parses suf ext_entry_parse (a @ b @ []) (fst x, snd x)"
      unfolding ext_entry_parse_def by (rule parses_intros w)+
    with w show ?thesis by simp
  qed
  show "reads ext_entry_parse (\<lambda>x w. ext_entry_enc x = Inr w \<and> True)"
    unfolding ext_entry_parse_def
    by (rule reads_mono, (rule reads_intros parser_ok_intros)+) (auto simp: ext_entry_enc_def)
  show "parser_ok ext_entry_parse"
    unfolding ext_entry_parse_def by (intro parser_ok_intros)
  show "advances ext_entry_parse"
    unfolding ext_entry_parse_def by (intro advances_intros parser_ok_intros) simp
qed

definition KeyShareEntry_enc :: "key_share_entry \<Rightarrow> bytes result" where
  "KeyShareEntry_enc e = rcat (if key_exchange e = [] then Inl ValueError else Inr [])
     (rcat (enc_int (group e) 2) (enc_pbytes (key_exchange e) 2))"

interpretation key_share: exact_wire_item KeyShareEntry_parse KeyShareEntry_write KeyShareEntry_enc
  "\<lambda>_. True"
proof unfold_locales
  show "emits (KeyShareEntry_write x) (KeyShareEntry_enc x)" for x
    unfolding KeyShareEntry_write_def KeyShareEntry_enc_def by (intro emits_intros)
  show "parses suf KeyShareEntry_parse w x" if "KeyShareEntry_enc x = Inr w" for x w suf
  proof -
    from that obtain a b where w: "enc_int (group x) 2 = Inr a"
      "enc_pbytes (key_exchange x) 2 = Inr b" "w = a @ b @ []" "key_exchange x \<noteq> []"
      by (auto simp: KeyShareEntry_enc_def rcat_Inr_iff split: if_splits)
    have "parses suf KeyShareEntry_parse (a @ b @ [])
        \<lparr>group = group x, key_exchange = key_exchange x\<rparr>"
      unfolding KeyShareEntry_parse_def by (rule parses_intros w)+
    with w show ?thesis by (cases x) simp
  qed
  show "reads KeyShareEntry_parse (\<lambda>x w. KeyShareEntry_enc x = Inr w \<and> True)"
    unfolding KeyShareEntry_parse_def
    by (rule reads_mono, (rule reads_intros parser_ok_intros | (simp; fail))+)
      (auto simp: KeyShareEntry_enc_def)
  show "parser_ok KeyShareEntry_parse"
    unfolding KeyShareEntry_parse_def by (intro parser_ok_intros) simp
  show "advances KeyShareEntry_parse"
    unfolding KeyShareEntry_parse_def by (intro advances_intros parser_ok_intros) simp_all
qed

definition PSKIdentity_enc :: "psk_identity \<Rightarrow> bytes result" where
  "PSKIdentity_enc i = rcat (if identity i = [] then Inl ValueError else Inr [])
     (rcat (enc_pbytes (identity i) 2) (enc_int (obfuscated_ticket_age i) 4))"

interpretation psk_id: exact_wire_item PSKIdentity_parse PSKIdentity_write PSKIdentity_enc "\<lambda>_. True"
proof unfold_locales
  show "emits (PSKIdentity_write x) (PSKIdentity_enc x)" for x
    unfolding PSKIdentity_write_def PSKIdentity_enc_def by (intro emits_intros)
  show "parses suf PSKIdentity_parse w x" if "PSKIdentity_enc x = Inr w" for x w suf
  proof -
    from that obtain a b where w: "enc_pbytes (identity x) 2 = Inr a"
      "enc_int (obfuscated_ticket_age x) 4 = Inr b" "w = a @ b @ []" "identity x \<noteq> []"
      by (auto simp: PSKIdentity_enc_def rcat_Inr_iff split: if_splits)
    have "parses suf PSKIdentity_parse (a @ b @ [])
        \<lparr>identity = identity x, obfuscated_ticket_age = obfuscated_ticket_age x\<rparr>"
      unfolding PSKIdentity_parse_def by (rule parses_intros w)+
    with w show ?thesis by (cases x) simp
  qed
  show "reads PSKIdentity_parse (\<lambda>x w. PSKIdentity_enc x = Inr w \<and> True)"
    unfolding PSKIdentity_parse_def
    by (rule reads_mono, (rule reads_intros parser_ok_intros | (simp; fail))+)
      (auto simp: PSKIdentity_enc_def)
  show "parser_ok PSKIdentity_parse"
    unfolding PSKIdentity_parse_def by (intro parser_ok_intros) simp
  show "advances PSKIdentity_parse"
    unfolding PSKIdentity_parse_def by (intro advances_intros parser_ok_intros) simp_all
qed

definition psk_binder_enc :: "bytes \<Rightarrow> bytes result" where
  "psk_binder_enc b = rcat (if b = [] then Inl ValueError else Inr []) (enc_pbytes b 1)"

interpretation psk_bd: exact_wire_item psk_binder_parse psk_binder_write psk_binder_enc "\<lambda>_. True"
proof unfold_locales
  show "emits (psk_binder_write x) (psk_binder_enc x)" for x
    unfolding psk_binder_write_def psk_binder_enc_def by (intro emits_intros)
  show "parses suf psk_binder_parse w x" if "psk_binder_enc x = Inr w" for x w suf
  proof -
    from that have w: "enc_pbytes x 1 = Inr w" "x \<noteq> []"
      by (auto simp: psk_binder_enc_def rcat_Inr_iff split: if_splits)
    have "parses suf psk_binder_parse (w @ []) x"
      unfolding psk_binder_parse_def by (rule parses_intros w)+
    then show ?thesis by simp
  qed
  show "reads psk_binder_parse (\<lambda>x w. psk_binder_enc x = Inr w \<and> True)"
    unfolding psk_binder_parse_def
    by (rule reads_mono, (rule reads_intros parser_ok_intros | (simp; fail))+)
      (auto simp: psk_binder_enc_def)
  show "parser_ok psk_binder_parse"
    unfolding psk_binder_parse_def by (intro parser_ok_intros) simp
  show "advances psk_binder_parse"
    unfolding psk_binder_parse_def by (intro advances_intros parser_ok_intros) simp_all
qed

definition ech_suite_enc :: "int \<times> int \<Rightarrow> bytes result" where
  "ech_suite_enc s = rcat (enc_int (fst s) 2) (enc_int (snd s) 2)"

interpretation ech_suite: exact_wire_item ech_suite_parse ech_suite_write ech_suite_enc "\<lambda>_. True"
proof unfold_locales
  show "emits (ech_suite_write x) (ech_suite_enc x)" for x
    unfolding ech_suite_write_def ech_suite_enc_def by (intro emits_intros)
  show "parses suf ech_suite_parse w x" if "ech_suite_enc x = Inr w" for x w suf
  proof -
    from that obtain a b where w: "enc_int (fst x) 2 = Inr a" "enc_int (snd x) 2 = Inr b"
      "w = a @ b @ []" by (auto simp: ech_suite_enc_def rcat_Inr_iff)
    have "parses suf ech_suite_parse (a @ b @ []) (fst x, snd x)"
      unfolding ech_suite_parse_def by (rule parses_intros w)+
    with w show ?thesis by simp
  qed
  show "reads ech_suite_parse (\<lambda>x w. ech_suite_enc x = Inr w \<and> True)"
    unfolding ech_suite_parse_def
    by (rule reads_mono, (rule reads_intros parser_ok_intros)+) (auto simp: ech_suite_enc_def)
  show "parser_ok ech_suite_parse"
    unfolding ech_suite_parse_def by (intro parser_ok_intros)
  show "advances ech_suite_parse"
    unfolding ech_suite_parse_def by (intro advances_intros parser_ok_intros) simp
qed

subsection \<open>The extension list\<close>

definition Extensions_enc :: "extensions \<Rightarrow> bytes result" where
  "Extensions_enc exts = enc_prefixed (enc_list ext_entry_enc exts) 2"

lemma emits_Extensions_write [emits_intros]: "emits (Extensions_write exts) (Extensions_enc exts)"
  unfolding Extensions_write_def Extensions_enc_def by (rule ext_entry.vector_emits)

lemma length_remdups_distinct: "length xs = length (remdups xs) \<longleftrightarrow> distinct xs"
  by (metis distinct_remdups_id length_remdups_card_conv card_distinct)

lemma parses_Extensions_parse [parses_intros]:
  assumes "Extensions_enc exts = Inr w" and "distinct (map fst exts)"
  shows "parses suf Extensions_parse w exts"
proof -
  from assms(1) have "parses suf (assert_length 2 (read_items ext_entry_parse)) w exts"
    unfolding Extensions_enc_def by (rule ext_entry.vector_parses) (simp add: list_all_iff)
  with assms(2) show ?thesis
    unfolding Extensions_parse_def
    by - (erule parses_bnd_last, simp add: parses_ret distinct_remdups_id)
qed

lemma parser_ok_Extensions_parse [parser_ok_intros]: "parser_ok Extensions_parse"
  unfolding Extensions_parse_def by (intro parser_ok_intros ext_entry.vector_parser_ok) simp

lemma reads_Extensions_parse [reads_intros]:
  "reads Extensions_parse (\<lambda>exts w. Extensions_enc exts = Inr w \<and> distinct (map fst exts))"
  unfolding Extensions_parse_def
  by (rule reads_mono, rule reads_bnd, rule ext_entry.vector_reads,
      (rule reads_intros parser_ok_intros ext_entry.vector_parser_ok | (simp; fail))+)
    (auto simp: Extensions_enc_def length_remdups_distinct [of "map fst _", simplified])

lemma advances_Extensions_parse: "advances Extensions_parse"
  unfolding Extensions_parse_def
  by (intro advances_intros parser_ok_intros ext_entry.vector_parser_ok ext_entry.vector_advances)
    simp_all

interpretation ext_list: canonical_format Extensions_from_bytes Extensions_to_bytes
  "\<lambda>exts. distinct (map fst exts)"
proof (rule canonical_formatI)
  show "Extensions_from_bytes = run_parser (bnd Extensions_parse (\<lambda>exts. thn no_trailing (ret exts)))"
    by (rule Extensions_from_bytes_def)
  show "Extensions_to_bytes x = Extensions_enc x" for x
    unfolding Extensions_to_bytes_def by (rule run_writer_emits, rule emits_intros)
  show "parser_ok (bnd Extensions_parse (\<lambda>exts. thn no_trailing (ret exts)))"
    by (intro parser_ok_intros)
  show "parses [] (bnd Extensions_parse (\<lambda>exts. thn no_trailing (ret exts))) w x"
    if "Extensions_enc x = Inr w" "distinct (map fst x)" for x w
    by (rule parses_bnd_last parses_intros that)+
  show "reads (bnd Extensions_parse (\<lambda>exts. thn no_trailing (ret exts)))
     (\<lambda>x w. Extensions_enc x = Inr w \<and> distinct (map fst x))"
    by (rule reads_mono, (rule reads_intros parser_ok_intros)+) auto
  show "reads_all (bnd Extensions_parse (\<lambda>exts. thn no_trailing (ret exts)))"
    by (intro reads_all_intros)
qed

subsection \<open>Base classes\<close>

interpretation empty_ext: canonical_format EmptyExtension_from_bytes "\<lambda>_. EmptyExtension_to_bytes"
  "\<lambda>_. True"
  by unfold_locales
    (auto simp: EmptyExtension_from_bytes_def EmptyExtension_to_bytes_def split: if_splits)

interpretation pbytes_ext: canonical_format "PrefixedBytes_from_bytes n" "PrefixedBytes_to_bytes n"
  "\<lambda>_. True" for n
proof (rule canonical_formatI [OF PrefixedBytes_from_bytes_def, where enc = "\<lambda>d. enc_pbytes d n"],
    goal_cases enc ok parse read all)
  case (enc d)
  show ?case unfolding PrefixedBytes_to_bytes_def by (intro run_writer_emits emits_intros)
next
  case ok
  show ?case by (intro parser_ok_intros)
next
  case (parse d w)
  show ?case by (rule parses_bnd_last parses_intros parse)+
next
  case read
  show ?case by (rule reads_mono, (rule reads_intros parser_ok_intros)+) auto
next
  case all
  show ?case by (intro reads_all_intros)
qed

lemma int_list_format:
  assumes "0 < k"
  shows "canonical_format
    (run_parser (bnd (read_prefixed_int_list k n) (\<lambda>value. thn no_trailing (ret value))))
    (\<lambda>v. enc_int_list v k n) (\<lambda>_. True)"
proof (rule canonical_formatI [OF refl refl], goal_cases ok parse read all)
  case ok
  show ?case by (intro parser_ok_intros)
next
  case (parse d w)
  show ?case by (rule parses_bnd_last parses_intros parse assms)+
next
  case read
  show ?case by (rule reads_mono, (rule reads_intros parser_ok_intros assms)+) auto
next
  case all
  show ?case by (intro reads_all_intros)
qed

lemma PrefixedIntList_format:
  assumes "0 < item_size c"
  shows "canonical_format (PrefixedIntList_from_bytes c) (PrefixedIntList_to_bytes c) (\<lambda>_. True)"
proof -
  note f = int_list_format [OF assms, of "prefix_size c"]
  have to: "PrefixedIntList_to_bytes c v = Inr d \<longleftrightarrow>
      enc_int_list v (item_size c) (prefix_size c) = Inr d \<and> within_boundaries c d" for v d
    unfolding PrefixedIntList_to_bytes_def
    by (auto simp: run_writer_emits [OF emits_write_prefixed_int_list] rbind_Inr_iff split: if_splits)
  show ?thesis
    using canonical_format.from_bytes_iff [OF f] wire_format.from_ends [OF canonical_format.axioms(1), OF f]
    by unfold_locales (auto simp: PrefixedIntList_from_bytes_def to split: if_splits)
qed

interpretation compressed_cert_ext: canonical_format
  "PrefixedIntList_from_bytes CompressedCertificateExtension_attrs"
  "PrefixedIntList_to_bytes CompressedCertificateExtension_attrs" "\<lambda>_. True"
  by (rule PrefixedIntList_format) (simp add: int_list_attrs_defs)

interpretation supported_versions_ext: canonical_format
  "PrefixedIntList_from_bytes SupportedVersionsClientExtension_attrs"
  "PrefixedIntList_to_bytes SupportedVersionsClientExtension_attrs" "\<lambda>_. True"
  by (rule PrefixedIntList_format) (simp add: int_list_attrs_defs)

interpretation supported_groups_ext: canonical_format
  "PrefixedIntList_from_bytes SupportedGroupsClientExtension_attrs"
  "PrefixedIntList_to_bytes SupportedGroupsClientExtension_attrs" "\<lambda>_. True"
  by (rule PrefixedIntList_format) (simp add: int_list_attrs_defs)

interpretation point_formats_ext: canonical_format
  "PrefixedIntList_from_bytes ECPointFormatsExtension_attrs"
  "PrefixedIntList_to_bytes ECPointFormatsExtension_attrs" "\<lambda>_. True"
  by (rule PrefixedIntList_format) (simp add: int_list_attrs_defs)

interpretation signature_algorithms_ext: canonical_format
  "PrefixedIntList_from_bytes SignatureAlgorithmsExtension_attrs"
  "PrefixedIntList_to_bytes SignatureAlgorithmsExtension_attrs" "\<lambda>_. True"
  by (rule PrefixedIntList_format) (simp add: int_list_attrs_defs)

interpretation psk_modes_ext: canonical_format
  "PrefixedIntList_from_bytes PSKKeyExchangeModesExtension_attrs"
  "PrefixedIntList_to_bytes PSKKeyExchangeModesExtension_attrs" "\<lambda>_. True"
  by (rule PrefixedIntList_format) (simp add: int_list_attrs_defs)

interpretation ech_outer_ext: canonical_format
  "PrefixedIntList_from_bytes ECHOuterExtension_attrs"
  "PrefixedIntList_to_bytes ECHOuterExtension_attrs" "\<lambda>_. True"
  by (rule PrefixedIntList_format) (simp add: int_list_attrs_defs)

interpretation int_ext: canonical_format "IntExtension_from_bytes n" "IntExtension_to_bytes n"
  "\<lambda>_. True" for n
proof (rule canonical_formatI [OF IntExtension_from_bytes_def, where enc = "\<lambda>v. enc_int v n"],
    goal_cases enc ok parse read all)
  case (enc d)
  show ?case by (simp add: IntExtension_to_bytes_def int_to_bytes_def enc_int_def)
next
  case ok
  show ?case by (intro parser_ok_intros)
next
  case (parse d w)
  show ?case by (rule parses_bnd_last parses_intros parse)+
next
  case read
  show ?case by (rule reads_mono, (rule reads_intros parser_ok_intros)+) auto
next
  case all
  show ?case by (intro reads_all_intros)
qed

interpretation ticket_ext: canonical_format SessionTicketExtension_from_bytes
  SessionTicketExtension_to_bytes "\<lambda>_. True"
  by unfold_locales
    (auto simp: SessionTicketExtension_from_bytes_def SessionTicketExtension_to_bytes_def)

interpretation alps_ext: canonical_format ALPSExtension_from_bytes ALPSExtension_to_bytes "\<lambda>_. True"
  by unfold_locales (auto simp: ALPSExtension_from_bytes_def ALPSExtension_to_bytes_def)

interpretation padding_ext: wire_format ClientHelloPaddingExtension_from_bytes
  ClientHelloPaddingExtension_to_bytes "\<lambda>_. True"
  by unfold_locales
    (auto simp: ClientHelloPaddingExtension_from_bytes_def ClientHelloPaddingExtension_to_bytes_def
      split: if_splits)

interpretation ech_hrr_ext: canonical_format ECHHRRExtension_from_bytes ECHHRRExtension_to_bytes
  "\<lambda>_. True"
  by unfold_locales (auto simp: ECHHRRExtension_from_bytes_def ECHHRRExtension_to_bytes_def
      split: if_splits)


subsection \<open>Protocol names, server names and certificate status\<close>

definition check_enc :: "bool \<Rightarrow> bytes result" where
  "check_enc b = (if b then Inl ValueError else Inr [])"

lemma check_enc_Inr_iff [simp]: "check_enc b = Inr w \<longleftrightarrow> \<not> b \<and> w = []"
  by (auto simp: check_enc_def)

lemma emits_check [emits_intros]: "emits (raise_if b ValueError) (check_enc b)"
  unfolding check_enc_def by (rule emits_raise_if)

interpretation alps_client_ext: canonical_format ALPSClientExtension_from_bytes
  ALPSClientExtension_to_bytes "\<lambda>_. True"
proof (rule canonical_formatI [OF ALPSClientExtension_from_bytes_def, where
      enc = "\<lambda>ps. rcat (check_enc (ps = [])) (rcat (check_enc (\<not> list_all (\<lambda>p. p \<noteq> []) ps))
        (enc_prefixed (enc_list (\<lambda>p. enc_pbytes p 1) ps) 2))"], goal_cases enc ok parse read all)
  case (enc ps)
  show ?case
    unfolding ALPSClientExtension_to_bytes_def
    by (intro run_writer_emits emits_thn emits_check pbytes1.vector_emits)
next
  case ok
  show ?case by (intro parser_ok_intros pbytes1.vector_parser_ok) simp_all
next
  case (parse ps w)
  then have "parses [] (assert_length 2 (read_items (read_prefixed_bytes 1))) w ps"
    by (intro pbytes1.vector_parses) (auto simp: rcat_Inr_iff list_all_iff)
  with parse show ?case
    by - (erule parses_bnd_last, (rule parses_intros | simp add: rcat_Inr_iff)+)
next
  case read
  show ?case
    by (rule reads_mono, rule reads_bnd, rule pbytes1.vector_reads,
      (rule reads_intros parser_ok_intros pbytes1.vector_parser_ok | (simp; fail))+)
      (auto simp: rcat_Inr_iff)
next
  case all
  show ?case by (intro reads_all_intros)
qed

lemma alpn_client_alps_client:
  "ALPNClientExtension_from_bytes = ALPSClientExtension_from_bytes"
  "ALPNClientExtension_to_bytes = ALPSClientExtension_to_bytes"
  by (simp_all add: fun_eq_iff ALPNClientExtension_from_bytes_def ALPSClientExtension_from_bytes_def
      ALPNClientExtension_to_bytes_def ALPSClientExtension_to_bytes_def)

interpretation alpn_client_ext: canonical_format ALPNClientExtension_from_bytes
  ALPNClientExtension_to_bytes "\<lambda>_. True"
  unfolding alpn_client_alps_client by (rule alps_client_ext.canonical_format_axioms)

lemma while_remaining_parses:
  assumes "enc_list enc xs = Inr w"
    and "\<And>x v s. x \<in> set xs \<Longrightarrow> enc x = Inr v \<Longrightarrow> v \<noteq> [] \<and> parses s m v x"
  shows "parses [] (while_remaining m) w xs"
  unfolding parses_def while_remaining_def read_items_def
  by (simp del: while_tell.simps add: while_tell_parses [OF assms(1) _ assms(2), where suf = "[]",
        simplified])

lemma reads_while_remaining:
  "reads m (\<lambda>x w. enc x = Inr w \<and> P x) \<Longrightarrow> parser_ok m \<Longrightarrow>
   reads (while_remaining m) (\<lambda>xs w. enc_list enc xs = Inr w \<and> list_all P xs)"
  using reads_read_items [of m enc P] unfolding reads_def while_remaining_def by blast

lemma parser_ok_while_remaining:
  "parser_ok m \<Longrightarrow> advances m \<Longrightarrow> parser_ok (while_remaining m)"
  using parser_ok_read_items [of m] unfolding parser_ok_def while_remaining_def by blast

interpretation npn_server_ext: canonical_format NPNServerExtension_from_bytes
  NPNServerExtension_to_bytes "\<lambda>_. True"
proof (rule canonical_formatI [OF NPNServerExtension_from_bytes_def, where
      enc = "\<lambda>ps. rcat (check_enc (ps = [])) (rcat (check_enc (\<not> list_all (\<lambda>p. p \<noteq> []) ps))
        (enc_list (\<lambda>p. enc_pbytes p 1) ps))"], goal_cases enc ok parse read all)
  case (enc ps)
  show ?case
    unfolding NPNServerExtension_to_bytes_def
    by (intro run_writer_emits emits_thn emits_check pbytes1.items_emit)
next
  case ok
  show ?case
    by (intro parser_ok_intros parser_ok_while_remaining pbytes1.item_advances) simp_all
next
  case (parse ps w)
  then have "parses [] (while_remaining (read_prefixed_bytes 1)) w ps"
    by (intro while_remaining_parses [where enc = "\<lambda>p. enc_pbytes p 1"])
      (auto simp: rcat_Inr_iff pbytes1.item_nonempty parses_intros)
  with parse show ?case
    by - (erule parses_bnd_last, (rule parses_intros | simp add: rcat_Inr_iff)+)
next
  case read
  show ?case
    by (rule reads_mono, rule reads_bnd, rule reads_while_remaining [OF pbytes1.item_reads],
      (rule reads_intros parser_ok_intros parser_ok_while_remaining pbytes1.item_advances
        | (simp; fail))+) (auto simp: rcat_Inr_iff)
next
  case all
  show ?case by (intro reads_all_intros)
qed

interpretation alpn_server_ext: wire_format ALPNServerExtension_from_bytes
  ALPNServerExtension_to_bytes "\<lambda>_. True"
proof (rule wire_formatI [OF ALPNServerExtension_from_bytes_def, where
      enc = "\<lambda>p. rcat (check_enc (p = [])) (enc_prefixed (enc_pbytes p 1) 2)"],
    goal_cases enc ok parse)
  case (enc p)
  show ?case
    unfolding ALPNServerExtension_to_bytes_def by (intro run_writer_emits emits_intros)
next
  case ok
  show ?case by (intro parser_ok_intros) simp_all
next
  case (parse p w)
  then obtain a b where w: "enc_pbytes p 1 = Inr b" "enc_int (int (length b)) 2 = Inr a"
    "w = a @ b @ []" "p \<noteq> []"
    by (auto simp: rcat_Inr_iff enc_prefixed_Inr_iff enc_int_Inr_iff)
  show ?case unfolding w(3) by (rule parses_intros w)+
qed

interpretation sni_client_ext: wire_format SNIClientExtension_from_bytes
  SNIClientExtension_to_bytes "\<lambda>h. h \<noteq> []"
proof (rule wire_formatI [OF SNIClientExtension_from_bytes_def, where
      enc = "\<lambda>h. enc_prefixed (rcat (enc_int (nt NT_HOSTNAME) 1) (enc_pbytes h 2)) 2"],
    goal_cases enc ok parse)
  case (enc p)
  show ?case
    unfolding SNIClientExtension_to_bytes_def by (intro run_writer_emits emits_intros)
next
  case ok
  show ?case by (intro parser_ok_intros) simp_all
next
  case (parse h w)
  then obtain a b c where w: "enc_int (nt NT_HOSTNAME) 1 = Inr b" "enc_pbytes h 2 = Inr c"
    "enc_int (int (length (b @ c))) 2 = Inr a" "w = a @ b @ c @ []" "h \<noteq> []"
    by (auto simp: rcat_Inr_iff enc_prefixed_Inr_iff enc_int_Inr_iff)
  show ?case unfolding w(4) by (rule parses_intros w | simp)+
qed

interpretation status_request_ext: canonical_format StatusRequestClientExtension_from_bytes
  "\<lambda>(r, e). StatusRequestClientExtension_to_bytes r e" "\<lambda>_. True"
proof (rule canonical_formatI [OF StatusRequestClientExtension_from_bytes_def, where
      enc = "\<lambda>(r, e). rcat (enc_int (cst CST_OCSP) 1)
        (rcat (enc_prefixed (enc_list (\<lambda>d. enc_pbytes d 2) r) 2) (enc_pbytes e 2))"],
    goal_cases enc ok parse read all)
  case (enc x)
  obtain r e where x: "x = (r, e)" by fastforce
  have "emits (with_writer (for_each (\<lambda>d. write_prefixed_bytes d 2) r) (\<lambda>rid_writer.
       thn (write_int (cst CST_OCSP) 1)
       (thn (write_prefixed_writer rid_writer 2) (write_prefixed_bytes e 2))))
     (rbind (enc_list (\<lambda>d. enc_pbytes d 2) r) (\<lambda>w. rcat (enc_int (cst CST_OCSP) 1)
       (rcat (enc_pbytes w 2) (enc_pbytes e 2))))"
    by (intro emits_with_writer emits_intros emits_write_prefixed_writer)
  from run_writer_emits [OF this] show ?case
    unfolding x StatusRequestClientExtension_to_bytes_def
    by (cases "enc_list (\<lambda>d. enc_pbytes d 2) r") (simp_all add: enc_prefixed_def enc_int_def)
next
  case ok
  show ?case by (intro parser_ok_intros pbytes2.vector_parser_ok) simp_all
next
  case (parse x w)
  obtain r e where x: "x = (r, e)" by fastforce
  with parse obtain a b c where w: "enc_int (cst CST_OCSP) 1 = Inr a"
    "enc_prefixed (enc_list (\<lambda>d. enc_pbytes d 2) r) 2 = Inr b" "enc_pbytes e 2 = Inr c"
    "w = a @ b @ c @ []"
    by (auto simp: rcat_Inr_iff)
  show ?case
    unfolding x w(4) by (rule parses_intros pbytes2.vector_parses w | simp add: list_all_iff)+
next
  case read
  show ?case
    by (rule reads_mono,
      (rule reads_bnd [OF pbytes2.vector_reads] reads_intros parser_ok_intros
        pbytes2.vector_parser_ok | (simp; fail))+) auto
next
  case all
  show ?case by (intro reads_all_intros)
qed

interpretation status_cert_ext: canonical_format StatusRequestCertExtension_from_bytes
  StatusRequestCertExtension_to_bytes "\<lambda>_. True"
proof (rule canonical_formatI [OF StatusRequestCertExtension_from_bytes_def, where
      enc = "\<lambda>r. rcat (enc_int (cst CST_OCSP) 1) (enc_pbytes r 3)"],
    goal_cases enc ok parse read all)
  case (enc r)
  show ?case
    unfolding StatusRequestCertExtension_to_bytes_def by (intro run_writer_emits emits_intros)
next
  case ok
  show ?case by (intro parser_ok_intros) simp_all
next
  case (parse r w)
  then obtain a b where w: "enc_int (cst CST_OCSP) 1 = Inr a" "enc_pbytes r 3 = Inr b"
    "w = a @ b @ []"
    by (auto simp: rcat_Inr_iff)
  show ?case unfolding w(3) by (rule parses_intros w | simp)+
next
  case read
  show ?case by (rule reads_mono, (rule reads_intros parser_ok_intros | (simp; fail))+) auto
next
  case all
  show ?case by (intro reads_all_intros)
qed


subsection \<open>Key shares and pre-shared keys\<close>

interpretation key_share_client_ext: canonical_format KeyShareClientExtension_from_bytes
  KeyShareClientExtension_to_bytes "\<lambda>_. True"
proof (rule canonical_formatI [OF KeyShareClientExtension_from_bytes_def, where
      enc = "\<lambda>ks. enc_prefixed (enc_list KeyShareEntry_enc ks) 2"], goal_cases enc ok parse read all)
  case (enc ks)
  show ?case
    unfolding KeyShareClientExtension_to_bytes_def
    by (intro run_writer_emits key_share.vector_emits)
next
  case ok
  show ?case by (intro parser_ok_intros key_share.vector_parser_ok)
next
  case (parse ks w)
  show ?case
    by (rule parses_bnd_last, rule key_share.vector_parses [OF parse(1)])
      (simp add: list_all_iff, (rule parses_intros)+)
next
  case read
  show ?case
    by (rule reads_mono, rule reads_bnd, rule key_share.vector_reads,
      (rule reads_intros parser_ok_intros key_share.vector_parser_ok)+) auto
next
  case all
  show ?case by (intro reads_all_intros)
qed

interpretation key_share_server_ext: canonical_format KeyShareServerExtension_from_bytes
  KeyShareServerExtension_to_bytes "\<lambda>_. True"
proof (rule canonical_formatI [OF KeyShareServerExtension_from_bytes_def, where
      enc = KeyShareEntry_enc], goal_cases enc ok parse read all)
  case (enc k)
  show ?case
    unfolding KeyShareServerExtension_to_bytes_def by (intro run_writer_emits key_share.item_emits)
next
  case ok
  show ?case by (intro parser_ok_intros key_share.item_parser_ok)
next
  case (parse k w)
  show ?case
    by (rule parses_bnd_last, rule key_share.item_parses [OF _ parse(1)])
      (simp, (rule parses_intros)+)
next
  case read
  show ?case
    by (rule reads_mono, rule reads_bnd, rule key_share.item_reads,
      (rule reads_intros parser_ok_intros key_share.item_parser_ok)+) auto
next
  case all
  show ?case by (intro reads_all_intros)
qed

interpretation psk_client_ext: canonical_format PSKClientExtension_from_bytes
  "\<lambda>(i, b). PSKClientExtension_to_bytes i b" "\<lambda>_. True"
proof (rule canonical_formatI [OF PSKClientExtension_from_bytes_def, where
      enc = "\<lambda>(i, b). rcat (check_enc (length i \<noteq> length b)) (rcat (check_enc (i = []))
        (rbind (enc_list PSKIdentity_enc i) (\<lambda>v. rbind (enc_list psk_binder_enc b) (\<lambda>w.
         rcat (enc_pbytes v 2) (enc_pbytes w 2)))))"], goal_cases enc ok parse read all)
  case (enc x)
  show ?case
    unfolding PSKClientExtension_to_bytes_def split_beta
    by (intro run_writer_emits emits_thn emits_check emits_with_writer psk_id.items_emit
        psk_bd.items_emit emits_write_prefixed_writer)
next
  case ok
  show ?case by (intro parser_ok_intros psk_id.vector_parser_ok psk_bd.vector_parser_ok) simp_all
next
  case (parse x w)
  obtain i b where x: "x = (i, b)" by fastforce
  with parse obtain v u where w: "enc_prefixed (enc_list PSKIdentity_enc i) 2 = Inr v"
    "enc_prefixed (enc_list psk_binder_enc b) 2 = Inr u" "w = v @ u @ []"
    "length i = length b" "i \<noteq> []"
    by (auto simp: rcat_Inr_iff rbind_Inr_iff enc_prefixed_def)
  show ?case
    unfolding x w(3)
    by (rule parses_intros psk_id.vector_parses psk_bd.vector_parses w
        | simp add: list_all_iff w)+
next
  case read
  show ?case
    by (rule reads_mono, rule reads_bnd, rule psk_id.vector_reads, rule reads_bnd,
      rule psk_bd.vector_reads,
      (rule reads_intros parser_ok_intros psk_id.vector_parser_ok psk_bd.vector_parser_ok
        | (simp; fail))+) (auto simp: rcat_Inr_iff enc_prefixed_def rbind_Inr_iff)
next
  case all
  show ?case by (intro reads_all_intros)
qed

subsection \<open>Encrypted client hello\<close>

definition ECHConfig_contents_enc :: "ech_config \<Rightarrow> bytes result" where
  "ECHConfig_contents_enc c =
     rcat (enc_int (config_id c) 1) (rcat (enc_int (kem_id c) 2) (rcat (enc_pbytes (public_key c) 2)
     (rcat (enc_prefixed (enc_list ech_suite_enc (ech_cipher_suites c)) 2)
     (rcat (enc_int (maximum_name_length c) 1) (rcat (enc_pbytes (public_name c) 1)
     (Extensions_enc (ech_extensions c)))))))"

definition ECHConfig_enc :: "ech_config \<Rightarrow> bytes result" where
  "ECHConfig_enc c = rbind (enc_list ech_suite_enc (ech_cipher_suites c)) (\<lambda>_.
     rbind (ECHConfig_contents_enc c) (\<lambda>w. rcat (enc_int 65037 2) (enc_pbytes w 2)))"

definition ech_config_ok :: "ech_config \<Rightarrow> bool" where
  "ech_config_ok c \<longleftrightarrow> public_key c \<noteq> [] \<and> ech_cipher_suites c \<noteq> [] \<and> public_name c \<noteq> [] \<and>
     distinct (map fst (ech_extensions c))"

lemma ECHConfig_enc_Inr_iff: "ECHConfig_enc c = Inr w \<longleftrightarrow>
    (\<exists>a d b. enc_int 65037 2 = Inr a \<and> ECHConfig_contents_enc c = Inr d \<and> enc_pbytes d 2 = Inr b \<and>
       w = a @ b)"
  by (auto simp: ECHConfig_enc_def ECHConfig_contents_enc_def rbind_Inr_iff rcat_Inr_iff
      enc_prefixed_Inr_iff)

lemma emits_ECHConfig_write: "emits (ECHConfig_write c) (ECHConfig_enc c)"
proof -
  have "emits (ECHConfig_write c) (rbind (enc_list ech_suite_enc (ech_cipher_suites c)) (\<lambda>s.
     rbind (rcat (enc_int (config_id c) 1) (rcat (enc_int (kem_id c) 2)
       (rcat (enc_pbytes (public_key c) 2) (rcat (enc_pbytes s 2)
       (rcat (enc_int (maximum_name_length c) 1) (rcat (enc_pbytes (public_name c) 1)
       (Extensions_enc (ech_extensions c)))))))) (\<lambda>w. rcat (enc_int 65037 2) (enc_pbytes w 2))))"
    unfolding ECHConfig_write_def
    by (intro emits_with_writer emits_intros ech_suite.items_emit emits_write_prefixed_writer)
  then show ?thesis
    by (cases "enc_list ech_suite_enc (ech_cipher_suites c)")
      (simp_all add: ECHConfig_enc_def ECHConfig_contents_enc_def enc_prefixed_def)
qed

lemma parses_ECHConfig_contents:
  assumes "ECHConfig_contents_enc c = Inr d" and "distinct (map fst (ech_extensions c))"
  shows "parses suf ECHConfig_contents d c"
proof -
  from assms(1) obtain a1 a2 a3 a4 a5 a6 a7 where w: "enc_int (config_id c) 1 = Inr a1"
    "enc_int (kem_id c) 2 = Inr a2" "enc_pbytes (public_key c) 2 = Inr a3"
    "enc_prefixed (enc_list ech_suite_enc (ech_cipher_suites c)) 2 = Inr a4"
    "enc_int (maximum_name_length c) 1 = Inr a5" "enc_pbytes (public_name c) 1 = Inr a6"
    "Extensions_enc (ech_extensions c) = Inr a7" "d = a1 @ a2 @ a3 @ a4 @ a5 @ a6 @ a7 @ []"
    by (auto simp: ECHConfig_contents_enc_def rcat_Inr_iff)
  have "parses suf ECHConfig_contents d
     \<lparr>config_id = config_id c, kem_id = kem_id c, public_key = public_key c,
      ech_cipher_suites = ech_cipher_suites c, maximum_name_length = maximum_name_length c,
      public_name = public_name c, ech_extensions = ech_extensions c\<rparr>"
    unfolding ECHConfig_contents_def w(8)
    by (rule parses_intros ech_suite.vector_parses w assms(2) | simp add: list_all_iff)+
  then show ?thesis by (cases c) simp
qed

lemma parser_ok_ECHConfig_contents: "parser_ok ECHConfig_contents"
  unfolding ECHConfig_contents_def by (intro parser_ok_intros ech_suite.vector_parser_ok)

lemma reads_ECHConfig_contents:
  "reads ECHConfig_contents (\<lambda>c w. ECHConfig_contents_enc c = Inr w \<and>
     distinct (map fst (ech_extensions c)))"
  unfolding ECHConfig_contents_def
  by (rule reads_mono, (rule reads_bnd [OF ech_suite.vector_reads] reads_intros parser_ok_intros
        ech_suite.vector_parser_ok)+) (auto simp: ECHConfig_contents_enc_def)

interpretation ech_conf: exact_wire_item ECHConfig_parse ECHConfig_write ECHConfig_enc ech_config_ok
proof unfold_locales
  show "emits (ECHConfig_write c) (ECHConfig_enc c)" for c by (rule emits_ECHConfig_write)
  show "parses suf ECHConfig_parse w c" if "ech_config_ok c" "ECHConfig_enc c = Inr w" for c w suf
  proof -
    from that(2) obtain a d b where w: "enc_int 65037 2 = Inr a" "ECHConfig_contents_enc c = Inr d"
      "enc_pbytes d 2 = Inr b" "w = a @ b @ []"
      by (auto simp: ECHConfig_enc_Inr_iff)
    have "parses s (assert_length 2 (\<lambda>_. ECHConfig_contents)) b c" for s
      by (rule parses_assert_fields [where r = "Inr d"], simp add: enc_prefixed_def w, rule refl,
          rule parses_ECHConfig_contents [OF w(2)]) (use that in \<open>simp add: ech_config_ok_def\<close>)
    with that(1) show ?thesis
      unfolding ECHConfig_parse_def w(4) ech_config_ok_def
      by - (rule parses_intros w(1) | assumption | simp)+
  qed
  show ok: "parser_ok ECHConfig_parse"
    unfolding ECHConfig_parse_def by (intro parser_ok_intros parser_ok_ECHConfig_contents) simp_all
  show "advances ECHConfig_parse"
    unfolding ECHConfig_parse_def
    by (intro advances_intros parser_ok_intros parser_ok_ECHConfig_contents) simp_all
  show "reads ECHConfig_parse (\<lambda>c w. ECHConfig_enc c = Inr w \<and> ech_config_ok c)"
    unfolding ECHConfig_parse_def
    by (rule reads_mono,
      (rule reads_assert_length [OF reads_ECHConfig_contents parser_ok_ECHConfig_contents]
        reads_intros parser_ok_intros parser_ok_ECHConfig_contents | (simp; fail))+)
      (auto simp: ECHConfig_enc_Inr_iff ech_config_ok_def)
qed


interpretation ech_config_format: canonical_format ECHConfig_from_bytes ECHConfig_to_bytes
  ech_config_ok
proof (rule canonical_formatI [OF ECHConfig_from_bytes_def, where enc = ECHConfig_enc],
    goal_cases enc ok parse read all)
  case (enc c)
  show ?case unfolding ECHConfig_to_bytes_def by (intro run_writer_emits ech_conf.item_emits)
next
  case ok
  show ?case by (intro parser_ok_intros ech_conf.item_parser_ok)
next
  case (parse c w)
  show ?case by (rule parses_bnd_last, rule ech_conf.item_parses [OF parse(2,1)], (rule parses_intros)+)
next
  case read
  show ?case
    by (rule reads_mono, rule reads_bnd, rule ech_conf.item_reads,
      (rule reads_intros parser_ok_intros ech_conf.item_parser_ok)+) auto
next
  case all
  show ?case by (intro reads_all_intros)
qed

interpretation ech_server_ext: canonical_format ECHServerExtension_from_bytes
  ECHServerExtension_to_bytes "list_all ech_config_ok"
proof (rule canonical_formatI [OF ECHServerExtension_from_bytes_def, where
      enc = "\<lambda>cs. rcat (check_enc (cs = [])) (enc_prefixed (enc_list ECHConfig_enc cs) 2)"],
    goal_cases enc ok parse read all)
  case (enc cs)
  show ?case
    unfolding ECHServerExtension_to_bytes_def
    by (intro run_writer_emits emits_thn emits_check ech_conf.vector_emits)
next
  case ok
  show ?case by (intro parser_ok_intros ech_conf.vector_parser_ok) simp
next
  case (parse cs w)
  then have "parses [] (assert_length 2 (read_items ECHConfig_parse)) w cs"
    by (intro ech_conf.vector_parses) (auto simp: rcat_Inr_iff)
  with parse show ?case
    by - (erule parses_bnd_last, (rule parses_intros | simp add: rcat_Inr_iff)+)
next
  case read
  show ?case
    by (rule reads_mono, rule reads_bnd, rule ech_conf.vector_reads,
      (rule reads_intros parser_ok_intros ech_conf.vector_parser_ok | (simp; fail))+)
      (auto simp: rcat_Inr_iff)
next
  case all
  show ?case by (intro reads_all_intros)
qed

definition ech_client_ok :: "ech_client \<Rightarrow> bool" where
  "ech_client_ok e \<longleftrightarrow> ech_client_hello_type e = echt ECHT_OUTER \<or>
     e = \<lparr>ech_client_hello_type = echt ECHT_INNER, hpke_kdf_id = 0, hpke_aead_id = 0,
          ech_config_id = 0, ech_enc = [], ech_payload = []\<rparr>"

interpretation ech_client_ext: canonical_format ECHClientExtension_from_bytes
  ECHClientExtension_to_bytes ech_client_ok
proof (rule canonical_formatI [OF ECHClientExtension_from_bytes_def, where
      enc = "\<lambda>e. rcat (enc_int (ech_client_hello_type e) 1)
        (if ech_client_hello_type e = echt ECHT_OUTER
         then rcat (enc_int (hpke_kdf_id e) 2) (rcat (enc_int (hpke_aead_id e) 2)
           (rcat (enc_int (ech_config_id e) 1) (rcat (enc_pbytes (ech_enc e) 2)
           (enc_pbytes (ech_payload e) 2))))
         else Inr [])"], goal_cases enc ok parse read all)
  case (enc e)
  show ?case
    unfolding ECHClientExtension_to_bytes_def by (intro run_writer_emits emits_intros)
next
  case ok
  show ?case by (intro parser_ok_intros) simp
next
  case (parse e w)
  show ?case
  proof (cases "ech_client_hello_type e = echt ECHT_OUTER")
    case True
    with parse(1) obtain a b c d f g where w: "enc_int (ech_client_hello_type e) 1 = Inr a"
      "enc_int (hpke_kdf_id e) 2 = Inr b" "enc_int (hpke_aead_id e) 2 = Inr c"
      "enc_int (ech_config_id e) 1 = Inr d" "enc_pbytes (ech_enc e) 2 = Inr f"
      "enc_pbytes (ech_payload e) 2 = Inr g" "w = a @ (b @ c @ d @ f @ g @ []) @ []"
      by (auto simp: rcat_Inr_iff)
    have e: "e = \<lparr>ech_client_hello_type = ech_client_hello_type e, hpke_kdf_id = hpke_kdf_id e,
      hpke_aead_id = hpke_aead_id e, ech_config_id = ech_config_id e, ech_enc = ech_enc e,
      ech_payload = ech_payload e\<rparr>" by (cases e) simp
    show ?thesis
      unfolding w(7) by (subst e, (rule parses_intros w | simp add: True)+)
  next
    case False
    with parse obtain a where w: "enc_int (echt ECHT_INNER) 1 = Inr a" "w = a @ [] @ []"
      "e = \<lparr>ech_client_hello_type = echt ECHT_INNER, hpke_kdf_id = 0, hpke_aead_id = 0,
          ech_config_id = 0, ech_enc = [], ech_payload = []\<rparr>"
      by (auto simp: rcat_Inr_iff ech_client_ok_def)
    show ?thesis unfolding w(2,3) by (rule parses_intros w | simp)+
  qed
next
  case read
  show ?case
    by (rule reads_mono, (rule reads_intros parser_ok_intros | (simp; fail))+)
      (auto simp: ech_client_ok_def split: if_splits)
next
  case all
  show ?case by (intro reads_all_intros)
qed

subsection \<open>All extension classes\<close>

text \<open>
  The values that the reader of their class gives back: everything that can be written, except an
  empty host name, ECH configurations that the reader refuses, an inner ECH extension with fields
  that are not sent, and generic extensions, whose class has no reader.
\<close>

fun ext_admitted :: "extension \<Rightarrow> bool" where
  "ext_admitted (SNIClientExtension h) = (h \<noteq> [])"
| "ext_admitted (ECHClientExtension e) = ech_client_ok e"
| "ext_admitted (ECHServerExtension cs) = list_all ech_config_ok cs"
| "ext_admitted (GenericExtension t d) = False"
| "ext_admitted _ = True"

definition lenient_class :: "ext_class \<Rightarrow> bool" where
  "lenient_class c \<longleftrightarrow> c = SNIClient_class \<or> c = ALPNServer_class \<or> c = ClientHelloPadding_class"

lemmas canonical_ext_iffs =
  empty_ext.from_bytes_iff pbytes_ext.from_bytes_iff compressed_cert_ext.from_bytes_iff
  supported_versions_ext.from_bytes_iff supported_groups_ext.from_bytes_iff
  point_formats_ext.from_bytes_iff signature_algorithms_ext.from_bytes_iff
  psk_modes_ext.from_bytes_iff ech_outer_ext.from_bytes_iff int_ext.from_bytes_iff
  ticket_ext.from_bytes_iff alps_ext.from_bytes_iff ech_hrr_ext.from_bytes_iff
  alps_client_ext.from_bytes_iff alpn_client_ext.from_bytes_iff npn_server_ext.from_bytes_iff
  status_request_ext.from_bytes_iff status_cert_ext.from_bytes_iff
  key_share_client_ext.from_bytes_iff key_share_server_ext.from_bytes_iff
  psk_client_ext.from_bytes_iff ech_server_ext.from_bytes_iff ech_client_ext.from_bytes_iff

lemmas ext_ends =
  empty_ext.from_ends pbytes_ext.from_ends compressed_cert_ext.from_ends
  supported_versions_ext.from_ends supported_groups_ext.from_ends
  point_formats_ext.from_ends signature_algorithms_ext.from_ends
  psk_modes_ext.from_ends ech_outer_ext.from_ends int_ext.from_ends
  ticket_ext.from_ends alps_ext.from_ends ech_hrr_ext.from_ends
  alps_client_ext.from_ends alpn_client_ext.from_ends npn_server_ext.from_ends
  status_request_ext.from_ends status_cert_ext.from_ends
  key_share_client_ext.from_ends key_share_server_ext.from_ends
  psk_client_ext.from_ends ech_server_ext.from_ends ech_client_ext.from_ends
  sni_client_ext.from_ends alpn_server_ext.from_ends padding_ext.from_ends

lemma ext_class_canonical:
  "\<not> lenient_class c \<Longrightarrow> c \<noteq> Generic_class \<Longrightarrow>
   ext_from_bytes c d = Inr e \<longleftrightarrow> class_of e = c \<and> ext_to_bytes e = Inr d \<and> ext_admitted e"
  by (cases c; cases e) (auto simp: rmap_Inr_iff canonical_ext_iffs lenient_class_def)

lemma ext_class_lenient:
  "ext_to_bytes e = Inr d \<Longrightarrow> ext_admitted e \<Longrightarrow> lenient_class (class_of e) \<Longrightarrow>
   ext_from_bytes (class_of e) d = Inr e"
  by (cases e) (auto simp: rmap_Inr_iff lenient_class_def
      sni_client_ext.from_to alpn_server_ext.from_to padding_ext.from_to)


lemma ext_from_to:
  assumes "ext_to_bytes e = Inr d" and "ext_admitted e"
  shows "ext_from_bytes (class_of e) d = Inr e"
proof (cases "lenient_class (class_of e)")
  case False
  moreover from assms(2) have "class_of e \<noteq> Generic_class" by (cases e) simp_all
  ultimately show ?thesis using ext_class_canonical assms by blast
qed (use ext_class_lenient assms in blast)

subsection \<open>Properties of the extension formats\<close>

text \<open>
  C29: For every extension class, what \<open>to_bytes\<close> writes is read back by \<open>from_bytes\<close> of the same class as
  the same value, for the values that a reader can return (\<open>ext_admitted\<close>): a host name is not empty, configurations of the encrypted
  client hello are ones that their reader accepts, an inner encrypted client hello has no fields that are not sent, and the value is not
  a generic extension, whose class has no reader.
\<close>

theorem ext_roundtrip:
  "ext_to_bytes e = Inr d \<Longrightarrow> ext_admitted e \<Longrightarrow> ext_from_bytes (class_of e) d = Inr e"
  by (rule ext_from_to)

theorem ext_roundtrip_witness:
  "ext_from_bytes (class_of (ALPNClientExtension [[104, 50], [104, 51]])) [0, 6, 2, 104, 50, 2, 104, 51]
     = Inr (ALPNClientExtension [[104, 50], [104, 51]])"
  by (rule ext_roundtrip)
    (simp_all add: ALPNClientExtension_to_bytes_def writer_eval)

text \<open>
  Reading is exact: the bytes a reader accepts are the bytes its class writes for the value it
  returned, so that no two encodings of an extension are accepted.  Three classes are lenient: the
  server name and the selected protocol ignore the length of their list, and the padding its content.
\<close>

theorem ext_canonical:
  "ext_from_bytes c d = Inr e \<Longrightarrow> \<not> lenient_class c \<Longrightarrow> class_of e = c \<and> ext_to_bytes e = Inr d"
  using ext_class_canonical [of c d e] by (cases "c = Generic_class") auto

theorem ext_canonical_witness:
  "class_of (SupportedVersionsServerExtension 772) = SupportedVersionsServer_class \<and>
   ext_to_bytes (SupportedVersionsServerExtension 772) = Inr [3, 4]"
  by (rule ext_canonical)
    (simp_all add: IntExtension_from_bytes_def SupportedVersionsServerExtension_item_size_def
      parser_eval lenient_class_def)

text \<open>
  Every extension reader returns or raises within the fuel of its loops, whatever the peer sent.
\<close>

theorem ext_from_bytes_terminates: "ext_from_bytes c d \<noteq> Inl Diverges"
  by (cases c) (auto simp: ext_ends)

text \<open>
  The extension block of a hello message: \<open>Extensions.from_bytes\<close> accepts exactly the encodings of
  lists with distinct types, and returns the entries in their order.
\<close>

theorem Extensions_wire:
  "Extensions_from_bytes d = Inr exts \<longleftrightarrow>
     Extensions_to_bytes exts = Inr d \<and> distinct (get_types exts)"
  by (simp add: ext_list.from_bytes_iff get_types_def)

subsection \<open>The list methods\<close>

lemma raw_entry_Inr_iff: "raw_entry e = Inr r \<longleftrightarrow> (\<exists>d. ext_to_bytes e = Inr d \<and> r = (extension_type e, d))"
  by (auto simp: raw_entry_def rbind_Inr_iff)

lemma class_type_class_of: "ext_admitted e \<Longrightarrow> class_type (class_of e) = Some (extension_type e)"
  by (cases e) (simp_all add: extension_type_def)

lemma Extensions_get_skip:
  "\<forall>t \<in> set (get_types xs). class_type c \<noteq> Some t \<Longrightarrow>
   Extensions_get c (xs @ ys) = Extensions_get c ys"
  by (induction xs) (auto simp: get_types_def)

lemma Extensions_get_absent:
  "\<forall>t \<in> set (get_types xs). class_type c \<noteq> Some t \<Longrightarrow> Extensions_get c xs = Inr None"
  using Extensions_get_skip [of xs c "[]"] by simp

lemma Extensions_get_split:
  assumes "class_type c \<noteq> Some t"
  shows "Extensions_get c (xs @ (t, d) # ys) = Extensions_get c (xs @ ys)"
  using assms by (induction xs) auto

lemma Extensions_replace_split:
  "Extensions_replace e exts = Inr exts' \<Longrightarrow> \<exists>xs t d ys r. exts = xs @ (t, d) # ys \<and>
     t = extension_type e \<and> raw_entry e = Inr r \<and> exts' = xs @ r # ys \<and> t \<notin> set (get_types xs)"
proof (induction exts arbitrary: exts')
  case (Cons x exts)
  obtain t d where x: "x = (t, d)" by fastforce
  show ?case
  proof (cases "t = extension_type e")
    case True
    with Cons.prems x show ?thesis
      by (intro exI [where x = "[]"]) (auto simp: rbind_Inr_iff get_types_def)
  next
    case False
    with Cons.prems x obtain rest where rest: "Extensions_replace e exts = Inr rest"
      "exts' = x # rest" by (auto simp: rbind_Inr_iff)
    from Cons.IH [OF rest(1)] obtain xs t' d' ys r where "exts = xs @ (t', d') # ys"
      "t' = extension_type e" "raw_entry e = Inr r" "rest = xs @ r # ys" "t' \<notin> set (get_types xs)"
      by blast
    with False rest x show ?thesis
      by (intro exI [where x = "x # xs"]) (auto simp: get_types_def)
  qed
qed simp

text \<open>
  \<open>Extensions.replace\<close> is an update of the list: the value put in is the one \<open>get\<close> finds, every other
  class is looked up as before, and the order of the types does not change.
\<close>

theorem Extensions_replace_get:
  assumes "Extensions_replace e exts = Inr exts'" and "ext_admitted e"
  shows "Extensions_get (class_of e) exts' = Inr (Some e) \<and> get_types exts' = get_types exts \<and>
    (\<forall>c. class_type c \<noteq> Some (extension_type e) \<longrightarrow> Extensions_get c exts' = Extensions_get c exts)"
proof -
  from Extensions_replace_split [OF assms(1)] obtain xs d ys d' where s:
    "exts = xs @ (extension_type e, d) # ys" "ext_to_bytes e = Inr d'"
    "exts' = xs @ (extension_type e, d') # ys" "extension_type e \<notin> set (get_types xs)"
    by (auto simp: raw_entry_Inr_iff)
  have "ext_from_bytes (class_of e) d' = Inr e"
    by (rule ext_from_to [OF s(2) assms(2)])
  moreover have "\<forall>t \<in> set (get_types xs). class_type (class_of e) \<noteq> Some t"
    using s(4) class_type_class_of [OF assms(2)] by auto
  ultimately show ?thesis
    using s Extensions_get_skip [of xs "class_of e"] class_type_class_of [OF assms(2)]
    by (auto simp: get_types_def Extensions_get_split)
qed

theorem Extensions_replace_get_witness:
  "Extensions_get ALPS_class [(10, []), (17613, [7])] = Inr (Some (ALPSExtension [7])) \<and>
   get_types [(10, []), (17613, [7])] = [10, 17613]"
  using Extensions_replace_get [of "ALPSExtension [7]" "[(10, []), (17613, [1, 2])]"
      "[(10, []), (17613, [7])]"]
  by (simp add: raw_entry_def extension_type_def ALPSExtension_to_bytes_def get_types_def)

end
