(* ===== verification/Compression.thy ===== *)
theory Compression
  imports Prelude
begin

text \<open>
  Certificate compression: \<open>src/simple_tls/compression.py\<close>.  The compression packages are parameters:
  \<open>compression_libs\<close> says which of them can be imported and gives their functions, where \<open>None\<close> is an
  exception of the package.  The three classes turn such an exception into \<open>ValueError\<close> and a missing
  package into \<open>UnsupportedCompression\<close>.
\<close>

record compressor =
  lib_compress :: "bytes \<Rightarrow> bytes option"
  lib_decompress :: "bytes \<Rightarrow> int \<Rightarrow> bytes option" \<comment> \<open>data and output size hint, 0 for none\<close>

record compression_libs =
  lib_brotli :: "compressor option"
  lib_zstandard :: "compressor option"
  lib_zstd :: "compressor option"
  lib_zlib :: compressor

definition or_ValueError :: "bytes option \<Rightarrow> bytes result" where
  "or_ValueError r = (case r of None \<Rightarrow> Inl ValueError | Some d \<Rightarrow> Inr d)"

definition Brotli_SUPPORTED :: "compression_libs \<Rightarrow> bool" where
  "Brotli_SUPPORTED libs = (lib_brotli libs \<noteq> None)"

definition Brotli_compress :: "compression_libs \<Rightarrow> bytes \<Rightarrow> bytes result" where
  "Brotli_compress libs data =
     (case lib_brotli libs of
        None \<Rightarrow> Inl UnsupportedCompression
      | Some l \<Rightarrow> or_ValueError (lib_compress l data))"

definition Brotli_decompress :: "compression_libs \<Rightarrow> bytes \<Rightarrow> int \<Rightarrow> bytes result" where
  "Brotli_decompress libs data len =
     (case lib_brotli libs of
        None \<Rightarrow> Inl UnsupportedCompression
      | Some l \<Rightarrow> or_ValueError (lib_decompress l data 0))"

definition ZSTD_SUPPORTED :: "compression_libs \<Rightarrow> bool" where
  "ZSTD_SUPPORTED libs = (lib_zstandard libs \<noteq> None \<or> lib_zstd libs \<noteq> None)"

definition ZSTD_compress :: "compression_libs \<Rightarrow> bytes \<Rightarrow> bytes result" where
  "ZSTD_compress libs data =
     (case lib_zstandard libs of
        Some l \<Rightarrow> or_ValueError (lib_compress l data)
      | None \<Rightarrow> (case lib_zstd libs of
          Some l \<Rightarrow> or_ValueError (lib_compress l data)
        | None \<Rightarrow> Inl UnsupportedCompression))"

definition ZSTD_decompress :: "compression_libs \<Rightarrow> bytes \<Rightarrow> int \<Rightarrow> bytes result" where
  "ZSTD_decompress libs data len =
     (case lib_zstandard libs of
        Some l \<Rightarrow> or_ValueError (lib_decompress l data len)
      | None \<Rightarrow> (case lib_zstd libs of
          Some l \<Rightarrow> or_ValueError (lib_decompress l data 0)
        | None \<Rightarrow> Inl UnsupportedCompression))"

definition ZLIB_compress :: "compression_libs \<Rightarrow> bytes \<Rightarrow> bytes result" where
  "ZLIB_compress libs data = or_ValueError (lib_compress (lib_zlib libs) data)"

definition ZLIB_decompress :: "compression_libs \<Rightarrow> bytes \<Rightarrow> int \<Rightarrow> bytes result" where
  "ZLIB_decompress libs data len =
     (if len = 0 then or_ValueError (lib_decompress (lib_zlib libs) data 0)
      else or_ValueError (lib_decompress (lib_zlib libs) data len))"

lemma or_ValueError_Inr_iff: "or_ValueError r = Inr d \<longleftrightarrow> r = Some d"
  by (cases r) (simp_all add: or_ValueError_def)

lemmas compression_defs =
  Brotli_compress_def Brotli_decompress_def ZSTD_compress_def ZSTD_decompress_def
  ZLIB_compress_def ZLIB_decompress_def

text \<open>
  What the packages document: decompressing a compressed string gives it back, for no size hint as
  well as for the exact size.
\<close>

definition compressor_inverse :: "compressor \<Rightarrow> bool" where
  "compressor_inverse l \<longleftrightarrow> (\<forall>d c n. lib_compress l d = Some c \<longrightarrow> n = 0 \<or> n = int (length d) \<longrightarrow>
     lib_decompress l c n = Some d)"

definition compression_libs_ok :: "compression_libs \<Rightarrow> bool" where
  "compression_libs_ok libs \<longleftrightarrow> compressor_inverse (lib_zlib libs) \<and>
     (\<forall>l. lib_brotli libs = Some l \<longrightarrow> compressor_inverse l) \<and>
     (\<forall>l. lib_zstandard libs = Some l \<longrightarrow> compressor_inverse l) \<and>
     (\<forall>l. lib_zstd libs = Some l \<longrightarrow> compressor_inverse l)"

lemma decompress_compress:
  assumes "compression_libs_ok libs"
  shows "ZLIB_compress libs d = Inr c \<Longrightarrow> ZLIB_decompress libs c (int (length d)) = Inr d"
    and "Brotli_compress libs d = Inr c \<Longrightarrow> Brotli_decompress libs c (int (length d)) = Inr d"
    and "ZSTD_compress libs d = Inr c \<Longrightarrow> ZSTD_decompress libs c (int (length d)) = Inr d"
  using assms
  by (auto simp: compression_defs or_ValueError_Inr_iff compression_libs_ok_def
      compressor_inverse_def split: option.splits)

end
