(* ===== verification/Messages.thy ===== *)
theory Messages
  imports Extension_Laws Compression
begin

text \<open>
  Handshake messages: \<open>src/simple_tls/tls/messages.py\<close>.  Every message class is a record with its
  \<open>from_bytes\<close> and \<open>to_bytes\<close>; \<open>message\<close> is their sum, \<open>message_class\<close> stands for the class objects
  that \<open>parse_as\<close> takes, and \<open>message_from_bytes\<close>, \<open>message_to_bytes\<close>, \<open>handshake_type\<close> are the
  method dispatch.
\<close>

subsection \<open>Hello messages\<close>

record client_hello =
  ch_version :: int
  ch_random :: bytes
  ch_session_id :: bytes
  ch_cipher_suites :: "int list"
  ch_compression_methods :: "int list"
  ch_extensions :: extensions

text \<open>\<open>if parser.remaining(): extensions = Extensions.parse(parser) else: Extensions()\<close>\<close>

definition parse_optional_extensions :: "(parser, extensions) action" where
  "parse_optional_extensions =
     bnd remaining (\<lambda>r. if r \<noteq> 0 then Extensions_parse else ret [])"

definition ClientHello_parse :: "(parser, client_hello) action" where
  "ClientHello_parse =
     bnd (read_int 2) (\<lambda>version.
     bnd (read_bytes 32) (\<lambda>random.
     bnd (read_prefixed_bytes 1) (\<lambda>session_id.
     bnd (read_prefixed_int_list 2 2) (\<lambda>cipher_suites.
     bnd (read_prefixed_int_list 1 1) (\<lambda>compression_methods.
     bnd parse_optional_extensions (\<lambda>exts.
     thn (raise_if (length session_id > 32) ParseError)
     (ret \<lparr>ch_version = version, ch_random = random, ch_session_id = session_id,
          ch_cipher_suites = cipher_suites, ch_compression_methods = compression_methods,
          ch_extensions = exts\<rparr>)))))))"

definition ClientHello_from_bytes :: "bytes \<Rightarrow> client_hello result" where
  "ClientHello_from_bytes = run_parser (bnd ClientHello_parse (\<lambda>m. thn no_trailing (ret m)))"

definition ClientHello_from_bytes_with_trailing :: "bytes \<Rightarrow> (client_hello \<times> bytes) result" where
  "ClientHello_from_bytes_with_trailing = run_parser (
     bnd ClientHello_parse (\<lambda>m.
     bnd remaining (\<lambda>r.
     bnd (read_bytes (int r)) (\<lambda>trailing.
     ret (m, trailing)))))"

definition ClientHello_to_bytes :: "client_hello \<Rightarrow> bytes result" where
  "ClientHello_to_bytes m = run_writer (
     thn (raise_if (length (ch_session_id m) > 32) ValueError)
     (thn (write_int (ch_version m) 2)
     (thn (write_bytes (ch_random m))
     (thn (write_prefixed_bytes (ch_session_id m) 1)
     (thn (write_prefixed_int_list (ch_cipher_suites m) 2 2)
     (thn (write_prefixed_int_list (ch_compression_methods m) 1 1)
     (if length (ch_extensions m) > 0 then Extensions_write (ch_extensions m) else ret ())))))))"

record server_hello =
  sh_version :: int
  sh_random :: bytes
  sh_session_id :: bytes
  sh_cipher_suite :: int
  sh_compression_method :: int
  sh_extensions :: extensions

definition ServerHello_from_bytes :: "bytes \<Rightarrow> server_hello result" where
  "ServerHello_from_bytes = run_parser (
     bnd (read_int 2) (\<lambda>version.
     bnd (read_bytes 32) (\<lambda>random.
     bnd (read_prefixed_bytes 1) (\<lambda>session_id.
     bnd (read_int 2) (\<lambda>cipher_suite.
     bnd (read_int 1) (\<lambda>compression_method.
     bnd parse_optional_extensions (\<lambda>exts.
     thn (raise_if (length session_id > 32) ParseError)
     (thn no_trailing
     (ret \<lparr>sh_version = version, sh_random = random, sh_session_id = session_id,
          sh_cipher_suite = cipher_suite, sh_compression_method = compression_method,
          sh_extensions = exts\<rparr>)))))))))"

definition ServerHello_to_bytes :: "server_hello \<Rightarrow> bytes result" where
  "ServerHello_to_bytes m = run_writer (
     thn (raise_if (length (sh_session_id m) > 32) ValueError)
     (thn (write_int (sh_version m) 2)
     (thn (write_bytes (sh_random m))
     (thn (write_prefixed_bytes (sh_session_id m) 1)
     (thn (write_int (sh_cipher_suite m) 2)
     (thn (write_int (sh_compression_method m) 1)
     (if length (sh_extensions m) > 0 then Extensions_write (sh_extensions m) else ret ())))))))"

text \<open>\<open>HelloRequest\<close>, \<open>ServerHelloDone\<close> and \<open>EndOfEarlyData\<close> have an empty body.\<close>

definition HelloRequest_from_bytes :: "bytes \<Rightarrow> unit result" where
  "HelloRequest_from_bytes data = (if data \<noteq> [] then Inl ParseError else Inr ())"

definition HelloRequest_to_bytes :: "bytes result" where
  "HelloRequest_to_bytes = Inr []"

definition ServerHelloDone_from_bytes :: "bytes \<Rightarrow> unit result" where
  "ServerHelloDone_from_bytes data = (if data \<noteq> [] then Inl ParseError else Inr ())"

definition ServerHelloDone_to_bytes :: "bytes result" where
  "ServerHelloDone_to_bytes = Inr []"

definition EndOfEarlyData_from_bytes :: "bytes \<Rightarrow> unit result" where
  "EndOfEarlyData_from_bytes data = (if data \<noteq> [] then Inl ParseError else Inr ())"

definition EndOfEarlyData_to_bytes :: "bytes result" where
  "EndOfEarlyData_to_bytes = Inr []"

text \<open>\<open>ClientKeyExchange\<close>, \<open>ServerKeyExchange\<close> and \<open>Finished\<close> are their data.\<close>

definition ClientKeyExchange_from_bytes :: "bytes \<Rightarrow> bytes result" where
  "ClientKeyExchange_from_bytes data = Inr data"

definition ClientKeyExchange_to_bytes :: "bytes \<Rightarrow> bytes result" where
  "ClientKeyExchange_to_bytes data = Inr data"

definition ServerKeyExchange_from_bytes :: "bytes \<Rightarrow> bytes result" where
  "ServerKeyExchange_from_bytes data = Inr data"

definition ServerKeyExchange_to_bytes :: "bytes \<Rightarrow> bytes result" where
  "ServerKeyExchange_to_bytes data = Inr data"

definition Finished_from_bytes :: "bytes \<Rightarrow> bytes result" where
  "Finished_from_bytes data = Inr data"

definition Finished_to_bytes :: "bytes \<Rightarrow> bytes result" where
  "Finished_to_bytes verify_data = Inr verify_data"

definition NextProtocol_from_bytes :: "bytes \<Rightarrow> bytes result" where
  "NextProtocol_from_bytes = run_parser (
     bnd (read_prefixed_bytes 1) (\<lambda>next_proto.
     bnd (read_prefixed_bytes 1) (\<lambda>_.
     thn no_trailing
     (ret next_proto))))"

definition NextProtocol_to_bytes :: "bytes \<Rightarrow> bytes result" where
  "NextProtocol_to_bytes next_protocol = run_writer (
     thn (write_prefixed_bytes next_protocol 1)
     (let padding_len = 32 - ((length next_protocol + 2) mod 32)
      in write_prefixed_bytes (replicate padding_len 0) 1))"

definition EncryptedExtensions_from_bytes :: "bytes \<Rightarrow> extensions result" where
  "EncryptedExtensions_from_bytes data = Extensions_from_bytes data"

definition EncryptedExtensions_to_bytes :: "extensions \<Rightarrow> bytes result" where
  "EncryptedExtensions_to_bytes exts = Extensions_to_bytes exts"

subsection \<open>Tickets and key updates\<close>

record new_session_ticket =
  nst_ticket_lifetime :: int
  nst_ticket :: bytes

definition NewSessionTicket_from_bytes :: "bytes \<Rightarrow> new_session_ticket result" where
  "NewSessionTicket_from_bytes = run_parser (
     bnd (read_int 4) (\<lambda>ticket_lifetime.
     bnd (read_prefixed_bytes 2) (\<lambda>ticket.
     thn no_trailing
     (ret \<lparr>nst_ticket_lifetime = ticket_lifetime, nst_ticket = ticket\<rparr>))))"

definition NewSessionTicket_to_bytes :: "new_session_ticket \<Rightarrow> bytes result" where
  "NewSessionTicket_to_bytes m = run_writer (
     thn (write_int (nst_ticket_lifetime m) 4)
     (write_prefixed_bytes (nst_ticket m) 2))"

record new_session_ticket_tls13 =
  nst13_ticket_lifetime :: int
  nst13_ticket_age_add :: int
  nst13_ticket_nonce :: bytes
  nst13_ticket :: bytes
  nst13_extensions :: extensions

definition NewSessionTicketTLS13_from_bytes :: "bytes \<Rightarrow> new_session_ticket_tls13 result" where
  "NewSessionTicketTLS13_from_bytes = run_parser (
     bnd (read_int 4) (\<lambda>ticket_lifetime.
     bnd (read_int 4) (\<lambda>ticket_age_add.
     bnd (read_prefixed_bytes 1) (\<lambda>ticket_nonce.
     bnd (read_prefixed_bytes 2) (\<lambda>ticket.
     bnd Extensions_parse (\<lambda>exts.
     thn no_trailing
     (ret \<lparr>nst13_ticket_lifetime = ticket_lifetime, nst13_ticket_age_add = ticket_age_add,
          nst13_ticket_nonce = ticket_nonce, nst13_ticket = ticket,
          nst13_extensions = exts\<rparr>)))))))"

definition NewSessionTicketTLS13_to_bytes :: "new_session_ticket_tls13 \<Rightarrow> bytes result" where
  "NewSessionTicketTLS13_to_bytes m = run_writer (
     thn (write_int (nst13_ticket_lifetime m) 4)
     (thn (write_int (nst13_ticket_age_add m) 4)
     (thn (write_prefixed_bytes (nst13_ticket_nonce m) 1)
     (thn (write_prefixed_bytes (nst13_ticket m) 2)
     (Extensions_write (nst13_extensions m))))))"

text \<open>\<open>KeyUpdate.to_bytes\<close> calls \<open>int_to_bytes\<close> itself: a type that is no byte is an \<open>OverflowError\<close>.\<close>

definition KeyUpdate_from_bytes :: "bytes \<Rightarrow> int result" where
  "KeyUpdate_from_bytes data =
     (if \<not> length data = 1 then Inl ParseError else Inr (uint (data ! 0)))"

definition KeyUpdate_to_bytes :: "int \<Rightarrow> bytes result" where
  "KeyUpdate_to_bytes message_type = int_to_bytes message_type (Some 1)"

subsection \<open>Certificates\<close>

record certificate_entry =
  ce_certificate :: bytes
  ce_extensions :: extensions

definition CertificateEntry_parse :: "(parser, certificate_entry) action" where
  "CertificateEntry_parse =
     bnd (read_prefixed_bytes 3) (\<lambda>certificate.
     bnd Extensions_parse (\<lambda>exts.
     ret \<lparr>ce_certificate = certificate, ce_extensions = exts\<rparr>))"

definition CertificateEntry_write :: "certificate_entry \<Rightarrow> (writer, unit) action" where
  "CertificateEntry_write e =
     thn (write_prefixed_bytes (ce_certificate e) 3) (Extensions_write (ce_extensions e))"

definition CertificateStatus_from_bytes :: "bytes \<Rightarrow> bytes result" where
  "CertificateStatus_from_bytes = run_parser (
     bnd (read_int 1) (\<lambda>status_type.
     thn (raise_if (status_type \<noteq> cst CST_OCSP) ParseError)
     (bnd (read_prefixed_bytes 3) (\<lambda>ocsp.
     thn no_trailing
     (ret ocsp)))))"

definition CertificateStatus_to_bytes :: "bytes \<Rightarrow> bytes result" where
  "CertificateStatus_to_bytes ocsp = run_writer (
     thn (write_int (cst CST_OCSP) 1) (write_prefixed_bytes ocsp 3))"

definition certificate_parse :: "(parser, bytes) action" where
  "certificate_parse =
     bnd (read_prefixed_bytes 3) (\<lambda>certificate.
     thn (raise_if (certificate = []) ParseError)
     (ret certificate))"

text \<open>The writer raises \<open>ParseError\<close> for an empty certificate, as the reader does.\<close>

definition certificate_write :: "bytes \<Rightarrow> (writer, unit) action" where
  "certificate_write certificate =
     thn (raise_if (certificate = []) ParseError) (write_prefixed_bytes certificate 3)"

definition Certificate_from_bytes :: "bytes \<Rightarrow> bytes list result" where
  "Certificate_from_bytes = run_parser (
     bnd (assert_length 3 (read_items certificate_parse)) (\<lambda>certificates.
     thn no_trailing
     (ret certificates)))"

definition Certificate_to_bytes :: "bytes list \<Rightarrow> bytes result" where
  "Certificate_to_bytes certificates = run_writer (
     with_writer (for_each certificate_write certificates) (\<lambda>cert_writer.
     write_prefixed_writer cert_writer 3))"

record certificate_tls13 =
  c13_context :: bytes
  certificate_entries :: "certificate_entry list"

definition CertificateTLS13_from_bytes :: "bytes \<Rightarrow> certificate_tls13 result" where
  "CertificateTLS13_from_bytes = run_parser (
     bnd (read_prefixed_bytes 1) (\<lambda>context.
     bnd (assert_length 3 (read_items CertificateEntry_parse)) (\<lambda>certificates.
     thn no_trailing
     (ret \<lparr>c13_context = context, certificate_entries = certificates\<rparr>))))"

definition CertificateTLS13_to_bytes :: "certificate_tls13 \<Rightarrow> bytes result" where
  "CertificateTLS13_to_bytes m = run_writer (
     with_writer (for_each CertificateEntry_write (certificate_entries m)) (\<lambda>cert_writer.
     thn (write_prefixed_bytes (c13_context m) 1)
     (write_prefixed_writer cert_writer 3)))"

record compressed_certificate =
  cc_compression :: int
  cc_length :: int
  compressed_data :: bytes

definition CompressedCertificate_from_bytes :: "bytes \<Rightarrow> compressed_certificate result" where
  "CompressedCertificate_from_bytes = run_parser (
     bnd (read_int 2) (\<lambda>compression.
     bnd (read_int 3) (\<lambda>len.
     bnd (read_prefixed_bytes 3) (\<lambda>data.
     thn (raise_if (data = []) ParseError)
     (thn no_trailing
     (ret \<lparr>cc_compression = compression, cc_length = len, compressed_data = data\<rparr>))))))"

definition CompressedCertificate_to_bytes :: "compressed_certificate \<Rightarrow> bytes result" where
  "CompressedCertificate_to_bytes m = run_writer (
     thn (write_int (cc_compression m) 2)
     (thn (write_int (cc_length m) 3)
     (write_prefixed_bytes (compressed_data m) 3)))"

definition from_certificate ::
    "compression_libs \<Rightarrow> int \<Rightarrow> certificate_tls13 \<Rightarrow> compressed_certificate result" where
  "from_certificate libs compression certificate =
     rbind (CertificateTLS13_to_bytes certificate) (\<lambda>data.
     rbind (if compression = cca CCA_ZLIB then ZLIB_compress libs data
            else if compression = cca CCA_BROTLI then Brotli_compress libs data
            else if compression = cca CCA_ZSTD then ZSTD_compress libs data
            else Inl ValueError) (\<lambda>compressed.
     Inr \<lparr>cc_compression = compression, cc_length = int (length data),
          compressed_data = compressed\<rparr>))"

definition to_certificate ::
    "compression_libs \<Rightarrow> compressed_certificate \<Rightarrow> certificate_tls13 result" where
  "to_certificate libs m =
     (let compression = cc_compression m; compress_data = compressed_data m;
          expected_len = cc_length m
      in rbind (if compression = cca CCA_ZLIB then ZLIB_decompress libs compress_data expected_len
            else if compression = cca CCA_BROTLI then
              Brotli_decompress libs compress_data expected_len
            else if compression = cca CCA_ZSTD then ZSTD_decompress libs compress_data expected_len
            else Inl ValueError) (\<lambda>cert_bytes.
         if int (length cert_bytes) \<noteq> expected_len then Inl ValueError
         else CertificateTLS13_from_bytes cert_bytes))"

subsection \<open>Certificate requests and signatures\<close>

record certificate_request =
  cr_certificate_types :: "int list"
  cr_certificate_authorities :: "bytes list"

definition CertificateRequest_from_bytes :: "bytes \<Rightarrow> certificate_request result" where
  "CertificateRequest_from_bytes = run_parser (
     bnd (read_prefixed_int_list 1 1) (\<lambda>types.
     bnd (assert_length 2 (read_items (read_prefixed_bytes 2))) (\<lambda>authorities.
     thn no_trailing
     (ret \<lparr>cr_certificate_types = types, cr_certificate_authorities = authorities\<rparr>))))"

definition CertificateRequest_to_bytes :: "certificate_request \<Rightarrow> bytes result" where
  "CertificateRequest_to_bytes m = run_writer (
     with_writer (for_each (\<lambda>a. write_prefixed_bytes a 2) (cr_certificate_authorities m))
       (\<lambda>auth_writer.
     thn (write_prefixed_int_list (cr_certificate_types m) 1 1)
     (write_prefixed_writer auth_writer 2)))"

record certificate_request_tls12 =
  cr12_certificate_types :: "int list"
  cr12_certificate_authorities :: "bytes list"
  cr12_signature_algorithms :: "int list"

definition CertificateRequestTLS12_from_bytes :: "bytes \<Rightarrow> certificate_request_tls12 result" where
  "CertificateRequestTLS12_from_bytes = run_parser (
     bnd (read_prefixed_int_list 1 1) (\<lambda>types.
     bnd (read_prefixed_int_list 2 2) (\<lambda>signature_algorithms.
     bnd (assert_length 2 (read_items (read_prefixed_bytes 2))) (\<lambda>authorities.
     thn no_trailing
     (ret \<lparr>cr12_certificate_types = types, cr12_certificate_authorities = authorities,
          cr12_signature_algorithms = signature_algorithms\<rparr>)))))"

definition CertificateRequestTLS12_to_bytes :: "certificate_request_tls12 \<Rightarrow> bytes result" where
  "CertificateRequestTLS12_to_bytes m = run_writer (
     with_writer (for_each (\<lambda>a. write_prefixed_bytes a 2) (cr12_certificate_authorities m))
       (\<lambda>auth_writer.
     thn (write_prefixed_int_list (cr12_certificate_types m) 1 1)
     (thn (write_prefixed_int_list (cr12_signature_algorithms m) 2 2)
     (write_prefixed_writer auth_writer 2))))"

record certificate_request_tls13 =
  cr13_context :: bytes
  cr13_extensions :: extensions

definition CertificateRequestTLS13_from_bytes :: "bytes \<Rightarrow> certificate_request_tls13 result" where
  "CertificateRequestTLS13_from_bytes = run_parser (
     bnd (read_prefixed_bytes 1) (\<lambda>context.
     bnd Extensions_parse (\<lambda>exts.
     thn no_trailing
     (ret \<lparr>cr13_context = context, cr13_extensions = exts\<rparr>))))"

definition CertificateRequestTLS13_to_bytes :: "certificate_request_tls13 \<Rightarrow> bytes result" where
  "CertificateRequestTLS13_to_bytes m = run_writer (
     thn (write_prefixed_bytes (cr13_context m) 1) (Extensions_write (cr13_extensions m)))"

definition CertificateVerify_from_bytes :: "bytes \<Rightarrow> bytes result" where
  "CertificateVerify_from_bytes = run_parser (
     bnd (read_prefixed_bytes 2) (\<lambda>signature. thn no_trailing (ret signature)))"

definition CertificateVerify_to_bytes :: "bytes \<Rightarrow> bytes result" where
  "CertificateVerify_to_bytes signature = run_writer (write_prefixed_bytes signature 2)"

record certificate_verify_tls12 =
  cv12_signature :: bytes
  cv12_signature_algorithm :: int

definition CertificateVerifyTLS12_from_bytes :: "bytes \<Rightarrow> certificate_verify_tls12 result" where
  "CertificateVerifyTLS12_from_bytes = run_parser (
     bnd (read_int 2) (\<lambda>signature_algorithm.
     bnd (read_prefixed_bytes 2) (\<lambda>signature.
     thn no_trailing
     (ret \<lparr>cv12_signature = signature, cv12_signature_algorithm = signature_algorithm\<rparr>))))"

definition CertificateVerifyTLS12_to_bytes :: "certificate_verify_tls12 \<Rightarrow> bytes result" where
  "CertificateVerifyTLS12_to_bytes m = run_writer (
     thn (write_int (cv12_signature_algorithm m) 2)
     (write_prefixed_bytes (cv12_signature m) 2))"

subsection \<open>All messages and their dispatch\<close>

datatype message =
    ClientHello client_hello
  | HelloRequest
  | ServerHello server_hello
  | ClientKeyExchange bytes
  | ServerKeyExchange bytes
  | ServerHelloDone
  | NextProtocol bytes
  | EncryptedExtensions extensions
  | EndOfEarlyData
  | Finished bytes
  | NewSessionTicket new_session_ticket
  | NewSessionTicketTLS13 new_session_ticket_tls13
  | KeyUpdate int
  | CertificateStatus bytes
  | Certificate "bytes list"
  | CertificateTLS13 certificate_tls13
  | CompressedCertificate compressed_certificate
  | CertificateRequest certificate_request
  | CertificateRequestTLS12 certificate_request_tls12
  | CertificateRequestTLS13 certificate_request_tls13
  | CertificateVerify bytes
  | CertificateVerifyTLS12 certificate_verify_tls12

datatype message_class =
    ClientHello_msg
  | HelloRequest_msg
  | ServerHello_msg
  | ClientKeyExchange_msg
  | ServerKeyExchange_msg
  | ServerHelloDone_msg
  | NextProtocol_msg
  | EncryptedExtensions_msg
  | EndOfEarlyData_msg
  | Finished_msg
  | NewSessionTicket_msg
  | NewSessionTicketTLS13_msg
  | KeyUpdate_msg
  | CertificateStatus_msg
  | Certificate_msg
  | CertificateTLS13_msg
  | CompressedCertificate_msg
  | CertificateRequest_msg
  | CertificateRequestTLS12_msg
  | CertificateRequestTLS13_msg
  | CertificateVerify_msg
  | CertificateVerifyTLS12_msg

primrec message_class_of :: "message \<Rightarrow> message_class" where
  "message_class_of (ClientHello m) = ClientHello_msg"
| "message_class_of HelloRequest = HelloRequest_msg"
| "message_class_of (ServerHello m) = ServerHello_msg"
| "message_class_of (ClientKeyExchange m) = ClientKeyExchange_msg"
| "message_class_of (ServerKeyExchange m) = ServerKeyExchange_msg"
| "message_class_of ServerHelloDone = ServerHelloDone_msg"
| "message_class_of (NextProtocol m) = NextProtocol_msg"
| "message_class_of (EncryptedExtensions m) = EncryptedExtensions_msg"
| "message_class_of EndOfEarlyData = EndOfEarlyData_msg"
| "message_class_of (Finished m) = Finished_msg"
| "message_class_of (NewSessionTicket m) = NewSessionTicket_msg"
| "message_class_of (NewSessionTicketTLS13 m) = NewSessionTicketTLS13_msg"
| "message_class_of (KeyUpdate m) = KeyUpdate_msg"
| "message_class_of (CertificateStatus m) = CertificateStatus_msg"
| "message_class_of (Certificate m) = Certificate_msg"
| "message_class_of (CertificateTLS13 m) = CertificateTLS13_msg"
| "message_class_of (CompressedCertificate m) = CompressedCertificate_msg"
| "message_class_of (CertificateRequest m) = CertificateRequest_msg"
| "message_class_of (CertificateRequestTLS12 m) = CertificateRequestTLS12_msg"
| "message_class_of (CertificateRequestTLS13 m) = CertificateRequestTLS13_msg"
| "message_class_of (CertificateVerify m) = CertificateVerify_msg"
| "message_class_of (CertificateVerifyTLS12 m) = CertificateVerifyTLS12_msg"

primrec class_handshake_type :: "message_class \<Rightarrow> int" where
  "class_handshake_type ClientHello_msg = ht HT_CLIENT_HELLO"
| "class_handshake_type HelloRequest_msg = ht HT_HELLO_REQUEST"
| "class_handshake_type ServerHello_msg = ht HT_SERVER_HELLO"
| "class_handshake_type ClientKeyExchange_msg = ht HT_CLIENT_KEY_EXCHANGE"
| "class_handshake_type ServerKeyExchange_msg = ht HT_SERVER_KEY_EXCHANGE"
| "class_handshake_type ServerHelloDone_msg = ht HT_SERVER_HELLO_DONE"
| "class_handshake_type NextProtocol_msg = ht HT_NEXT_PROTO"
| "class_handshake_type EncryptedExtensions_msg = ht HT_ENCRYPTED_EXTENSIONS"
| "class_handshake_type EndOfEarlyData_msg = ht HT_END_OF_EARLY_DATA"
| "class_handshake_type Finished_msg = ht HT_FINISHED"
| "class_handshake_type NewSessionTicket_msg = ht HT_NEWSESSION_TICKET"
| "class_handshake_type NewSessionTicketTLS13_msg = ht HT_NEWSESSION_TICKET"
| "class_handshake_type KeyUpdate_msg = ht HT_KEY_UPDATE"
| "class_handshake_type CertificateStatus_msg = ht HT_CERTIFICATE_STATUS"
| "class_handshake_type Certificate_msg = ht HT_CERTIFICATE"
| "class_handshake_type CertificateTLS13_msg = ht HT_CERTIFICATE"
| "class_handshake_type CompressedCertificate_msg = ht HT_COMPRESSED_CERTIFICATE"
| "class_handshake_type CertificateRequest_msg = ht HT_CERTIFICATE_REQUEST"
| "class_handshake_type CertificateRequestTLS12_msg = ht HT_CERTIFICATE_REQUEST"
| "class_handshake_type CertificateRequestTLS13_msg = ht HT_CERTIFICATE_REQUEST"
| "class_handshake_type CertificateVerify_msg = ht HT_CERTIFICATE_VERIFY"
| "class_handshake_type CertificateVerifyTLS12_msg = ht HT_CERTIFICATE_VERIFY"

definition handshake_type :: "message \<Rightarrow> int" where
  "handshake_type m = class_handshake_type (message_class_of m)"

primrec message_to_bytes :: "message \<Rightarrow> bytes result" where
  "message_to_bytes (ClientHello m) = ClientHello_to_bytes m"
| "message_to_bytes HelloRequest = HelloRequest_to_bytes"
| "message_to_bytes (ServerHello m) = ServerHello_to_bytes m"
| "message_to_bytes (ClientKeyExchange m) = ClientKeyExchange_to_bytes m"
| "message_to_bytes (ServerKeyExchange m) = ServerKeyExchange_to_bytes m"
| "message_to_bytes ServerHelloDone = ServerHelloDone_to_bytes"
| "message_to_bytes (NextProtocol m) = NextProtocol_to_bytes m"
| "message_to_bytes (EncryptedExtensions m) = EncryptedExtensions_to_bytes m"
| "message_to_bytes EndOfEarlyData = EndOfEarlyData_to_bytes"
| "message_to_bytes (Finished m) = Finished_to_bytes m"
| "message_to_bytes (NewSessionTicket m) = NewSessionTicket_to_bytes m"
| "message_to_bytes (NewSessionTicketTLS13 m) = NewSessionTicketTLS13_to_bytes m"
| "message_to_bytes (KeyUpdate m) = KeyUpdate_to_bytes m"
| "message_to_bytes (CertificateStatus m) = CertificateStatus_to_bytes m"
| "message_to_bytes (Certificate m) = Certificate_to_bytes m"
| "message_to_bytes (CertificateTLS13 m) = CertificateTLS13_to_bytes m"
| "message_to_bytes (CompressedCertificate m) = CompressedCertificate_to_bytes m"
| "message_to_bytes (CertificateRequest m) = CertificateRequest_to_bytes m"
| "message_to_bytes (CertificateRequestTLS12 m) = CertificateRequestTLS12_to_bytes m"
| "message_to_bytes (CertificateRequestTLS13 m) = CertificateRequestTLS13_to_bytes m"
| "message_to_bytes (CertificateVerify m) = CertificateVerify_to_bytes m"
| "message_to_bytes (CertificateVerifyTLS12 m) = CertificateVerifyTLS12_to_bytes m"

primrec message_from_bytes :: "message_class \<Rightarrow> bytes \<Rightarrow> message result" where
  "message_from_bytes ClientHello_msg d = rmap ClientHello (ClientHello_from_bytes d)"
| "message_from_bytes HelloRequest_msg d = rmap (\<lambda>_. HelloRequest) (HelloRequest_from_bytes d)"
| "message_from_bytes ServerHello_msg d = rmap ServerHello (ServerHello_from_bytes d)"
| "message_from_bytes ClientKeyExchange_msg d = rmap ClientKeyExchange (ClientKeyExchange_from_bytes d)"
| "message_from_bytes ServerKeyExchange_msg d = rmap ServerKeyExchange (ServerKeyExchange_from_bytes d)"
| "message_from_bytes ServerHelloDone_msg d = rmap (\<lambda>_. ServerHelloDone) (ServerHelloDone_from_bytes d)"
| "message_from_bytes NextProtocol_msg d = rmap NextProtocol (NextProtocol_from_bytes d)"
| "message_from_bytes EncryptedExtensions_msg d = rmap EncryptedExtensions (EncryptedExtensions_from_bytes d)"
| "message_from_bytes EndOfEarlyData_msg d = rmap (\<lambda>_. EndOfEarlyData) (EndOfEarlyData_from_bytes d)"
| "message_from_bytes Finished_msg d = rmap Finished (Finished_from_bytes d)"
| "message_from_bytes NewSessionTicket_msg d = rmap NewSessionTicket (NewSessionTicket_from_bytes d)"
| "message_from_bytes NewSessionTicketTLS13_msg d = rmap NewSessionTicketTLS13 (NewSessionTicketTLS13_from_bytes d)"
| "message_from_bytes KeyUpdate_msg d = rmap KeyUpdate (KeyUpdate_from_bytes d)"
| "message_from_bytes CertificateStatus_msg d = rmap CertificateStatus (CertificateStatus_from_bytes d)"
| "message_from_bytes Certificate_msg d = rmap Certificate (Certificate_from_bytes d)"
| "message_from_bytes CertificateTLS13_msg d = rmap CertificateTLS13 (CertificateTLS13_from_bytes d)"
| "message_from_bytes CompressedCertificate_msg d = rmap CompressedCertificate (CompressedCertificate_from_bytes d)"
| "message_from_bytes CertificateRequest_msg d = rmap CertificateRequest (CertificateRequest_from_bytes d)"
| "message_from_bytes CertificateRequestTLS12_msg d = rmap CertificateRequestTLS12 (CertificateRequestTLS12_from_bytes d)"
| "message_from_bytes CertificateRequestTLS13_msg d = rmap CertificateRequestTLS13 (CertificateRequestTLS13_from_bytes d)"
| "message_from_bytes CertificateVerify_msg d = rmap CertificateVerify (CertificateVerify_from_bytes d)"
| "message_from_bytes CertificateVerifyTLS12_msg d = rmap CertificateVerifyTLS12 (CertificateVerifyTLS12_from_bytes d)"

end
