(* ===== verification/Message_Laws.thy ===== *)
theory Message_Laws
  imports Messages
begin

text \<open>
  Correctness of the handshake message formats: each message class is an interpretation of
  \<open>wire_format\<close>, and of \<open>canonical_format\<close> where its reader accepts nothing but what its writer emits.
\<close>

subsection \<open>Hello messages\<close>

definition optional_extensions_enc :: "extensions \<Rightarrow> bytes result" where
  "optional_extensions_enc exts = (if length exts > 0 then Extensions_enc exts else Inr [])"

lemma emits_optional_extensions [emits_intros]:
  "emits (if length exts > 0 then Extensions_write exts else ret ()) (optional_extensions_enc exts)"
  unfolding optional_extensions_enc_def by (intro emits_intros)

lemma Extensions_enc_nonempty: "Extensions_enc exts = Inr w \<Longrightarrow> w \<noteq> []"
  by (auto simp: Extensions_enc_def enc_prefixed_Inr_iff dest: arg_cong [where f = length])

lemma Extensions_enc_Nil [simp]: "Extensions_enc [] = Inr [0, 0]"
  by (simp add: Extensions_enc_def enc_prefixed_def enc_pbytes_def enc_int_def be_bytes_numeral)

lemma parses_extensions_present:
  assumes "Extensions_enc exts = Inr w" and "distinct (map fst exts)"
  shows "parses suf parse_optional_extensions w exts"
  unfolding parses_def
proof (intro allI)
  fix pre bm
  from parses_Extensions_parse [OF assms, of suf] Extensions_enc_nonempty [OF assms(1)]
  show "parse_optional_extensions \<lparr>p_data = pre @ w @ suf, p_index = length pre, p_bookmark = bm\<rparr> =
    (Inr exts, \<lparr>p_data = pre @ w @ suf, p_index = length pre + length w, p_bookmark = bm\<rparr>)"
    by (simp add: parse_optional_extensions_def remaining_def bnd_apply parses_def)
qed

lemma parses_optional_extensions:
  assumes "optional_extensions_enc exts = Inr w" and "distinct (map fst exts)"
  shows "parses [] parse_optional_extensions w exts"
proof (cases "exts = []")
  case True
  with assms(1) show ?thesis
    by (simp add: optional_extensions_enc_def parse_optional_extensions_def remaining_def bnd_apply
        parses_def ret_def)
next
  case False
  with assms show ?thesis
    by (intro parses_extensions_present) (simp_all add: optional_extensions_enc_def)
qed

lemma parser_ok_optional_extensions [parser_ok_intros]: "parser_ok parse_optional_extensions"
  unfolding parse_optional_extensions_def by (intro parser_ok_intros)

lemma reads_remaining: "reads remaining (\<lambda>r w. w = [])"
  by (auto simp: reads_def remaining_def consumed_def)

lemma reads_optional_extensions [reads_intros]:
  "reads parse_optional_extensions (\<lambda>exts w. distinct (map fst exts) \<and>
     (optional_extensions_enc exts = Inr w \<or> exts = [] \<and> w = [0, 0]))"
  unfolding parse_optional_extensions_def
  by (rule reads_mono, rule reads_bnd, rule reads_remaining, (rule reads_intros parser_ok_intros)+)
    (auto simp: optional_extensions_enc_def split: if_splits)

definition ClientHello_prefix_enc :: "client_hello \<Rightarrow> bytes result" where
  "ClientHello_prefix_enc m =
     rcat (check_enc (length (ch_session_id m) > 32)) (rcat (enc_int (ch_version m) 2)
     (rcat (Inr (ch_random m)) (rcat (enc_pbytes (ch_session_id m) 1)
     (rcat (enc_int_list (ch_cipher_suites m) 2 2) (enc_int_list (ch_compression_methods m) 1 1)))))"

lemma rcat_assoc: "rcat (rcat a b) c = rcat a (rcat b c)"
  by (cases a; cases b; cases c) simp_all

lemma ClientHello_to_bytes_enc:
  "ClientHello_to_bytes m = rcat (ClientHello_prefix_enc m) (optional_extensions_enc (ch_extensions m))"
  unfolding ClientHello_to_bytes_def ClientHello_prefix_enc_def rcat_assoc
  by (intro run_writer_emits emits_thn emits_check emits_intros)

lemma parses_ClientHello_parse:
  assumes "ClientHello_prefix_enc m = Inr a" and "length (ch_random m) = 32"
    and "parses suf parse_optional_extensions b (ch_extensions m)"
  shows "parses suf ClientHello_parse (a @ b) m"
proof -
  from assms(1) obtain a1 a3 a4 a5 where w: "enc_int (ch_version m) 2 = Inr a1"
    "enc_pbytes (ch_session_id m) 1 = Inr a3" "enc_int_list (ch_cipher_suites m) 2 2 = Inr a4"
    "enc_int_list (ch_compression_methods m) 1 1 = Inr a5"
    "a @ b = a1 @ ch_random m @ a3 @ a4 @ a5 @ b @ []" "\<not> length (ch_session_id m) > 32"
    by (auto simp: ClientHello_prefix_enc_def rcat_Inr_iff)
  have "parses suf ClientHello_parse (a @ b)
     \<lparr>ch_version = ch_version m, ch_random = ch_random m, ch_session_id = ch_session_id m,
      ch_cipher_suites = ch_cipher_suites m, ch_compression_methods = ch_compression_methods m,
      ch_extensions = ch_extensions m\<rparr>"
    unfolding ClientHello_parse_def w(5)
    by (rule parses_bnd parses_read_int parses_read_bytes parses_read_prefixed_bytes
        parses_read_prefixed_int_list assms(3) parses_thn_check parses_ret w | simp add: assms)+
  then show ?thesis by (cases m) simp
qed

lemma parser_ok_ClientHello_parse [parser_ok_intros]: "parser_ok ClientHello_parse"
  unfolding ClientHello_parse_def by (intro parser_ok_intros) simp

lemma reads_ClientHello_parse:
  "reads ClientHello_parse (\<lambda>m w. length (ch_random m) = 32 \<and> distinct (map fst (ch_extensions m)) \<and>
     (\<exists>a. ClientHello_prefix_enc m = Inr a \<and>
       ((\<exists>b. optional_extensions_enc (ch_extensions m) = Inr b \<and> w = a @ b) \<or>
        ch_extensions m = [] \<and> w = a @ [0, 0])))"
  unfolding ClientHello_parse_def
  by (rule reads_mono, (rule reads_read_bytes reads_intros parser_ok_intros | (simp; fail))+)
    (auto simp: ClientHello_prefix_enc_def check_enc_def)

interpretation client_hello_format: wire_format ClientHello_from_bytes ClientHello_to_bytes
  "\<lambda>m. length (ch_random m) = 32 \<and> distinct (map fst (ch_extensions m))"
proof (rule wire_formatI [OF ClientHello_from_bytes_def ClientHello_to_bytes_enc],
    goal_cases ok parse)
  case ok
  show ?case by (intro parser_ok_intros)
next
  case (parse m w)
  then show ?case
    by (auto simp: rcat_Inr_iff intro!: parses_bnd_last [OF parses_ClientHello_parse]
        parses_optional_extensions parses_thn_no_trailing parses_ret)
qed

definition ServerHello_prefix_enc :: "server_hello \<Rightarrow> bytes result" where
  "ServerHello_prefix_enc m =
     rcat (check_enc (length (sh_session_id m) > 32)) (rcat (enc_int (sh_version m) 2)
     (rcat (Inr (sh_random m)) (rcat (enc_pbytes (sh_session_id m) 1)
     (rcat (enc_int (sh_cipher_suite m) 2) (enc_int (sh_compression_method m) 1)))))"

lemma ServerHello_to_bytes_enc:
  "ServerHello_to_bytes m = rcat (ServerHello_prefix_enc m) (optional_extensions_enc (sh_extensions m))"
  unfolding ServerHello_to_bytes_def ServerHello_prefix_enc_def rcat_assoc
  by (intro run_writer_emits emits_thn emits_check emits_intros)

interpretation server_hello_format: wire_format ServerHello_from_bytes ServerHello_to_bytes
  "\<lambda>m. length (sh_random m) = 32 \<and> distinct (map fst (sh_extensions m))"
proof (rule wire_formatI [OF ServerHello_from_bytes_def ServerHello_to_bytes_enc],
    goal_cases ok parse)
  case ok
  show ?case by (intro parser_ok_intros) simp
next
  case (parse m w)
  then obtain a1 a3 a4 a5 b where w: "enc_int (sh_version m) 2 = Inr a1"
    "enc_pbytes (sh_session_id m) 1 = Inr a3" "enc_int (sh_cipher_suite m) 2 = Inr a4"
    "enc_int (sh_compression_method m) 1 = Inr a5"
    "w = a1 @ sh_random m @ a3 @ a4 @ a5 @ b @ []" "\<not> length (sh_session_id m) > 32"
    and b: "optional_extensions_enc (sh_extensions m) = Inr b"
    by (auto simp: ServerHello_prefix_enc_def rcat_Inr_iff)
  have m: "m = \<lparr>sh_version = sh_version m, sh_random = sh_random m,
      sh_session_id = sh_session_id m, sh_cipher_suite = sh_cipher_suite m,
      sh_compression_method = sh_compression_method m, sh_extensions = sh_extensions m\<rparr>"
    by (cases m) simp
  from parses_optional_extensions [OF b] parse(2)
  have b: "parses [] parse_optional_extensions b (sh_extensions m)" by simp
  show ?case
    unfolding w(5)
    by (subst m) (rule parses_bnd parses_read_int parses_read_bytes parses_read_prefixed_bytes
        b [unfolded append_Nil2] parses_thn_check parses_thn_no_trailing parses_ret w
        | simp add: parse b)+
qed

subsection \<open>Messages without structure\<close>

interpretation hello_request_format: canonical_format HelloRequest_from_bytes
  "\<lambda>_. HelloRequest_to_bytes" "\<lambda>_. True"
  by unfold_locales (auto simp: HelloRequest_from_bytes_def HelloRequest_to_bytes_def split: if_splits)

interpretation server_hello_done_format: canonical_format ServerHelloDone_from_bytes
  "\<lambda>_. ServerHelloDone_to_bytes" "\<lambda>_. True"
  by unfold_locales
    (auto simp: ServerHelloDone_from_bytes_def ServerHelloDone_to_bytes_def split: if_splits)

interpretation end_of_early_data_format: canonical_format EndOfEarlyData_from_bytes
  "\<lambda>_. EndOfEarlyData_to_bytes" "\<lambda>_. True"
  by unfold_locales
    (auto simp: EndOfEarlyData_from_bytes_def EndOfEarlyData_to_bytes_def split: if_splits)

interpretation client_key_exchange_format: canonical_format ClientKeyExchange_from_bytes
  ClientKeyExchange_to_bytes "\<lambda>_. True"
  by unfold_locales (auto simp: ClientKeyExchange_from_bytes_def ClientKeyExchange_to_bytes_def)

interpretation server_key_exchange_format: canonical_format ServerKeyExchange_from_bytes
  ServerKeyExchange_to_bytes "\<lambda>_. True"
  by unfold_locales (auto simp: ServerKeyExchange_from_bytes_def ServerKeyExchange_to_bytes_def)

interpretation finished_format: canonical_format Finished_from_bytes Finished_to_bytes "\<lambda>_. True"
  by unfold_locales (auto simp: Finished_from_bytes_def Finished_to_bytes_def)

interpretation encrypted_extensions_format: canonical_format EncryptedExtensions_from_bytes
  EncryptedExtensions_to_bytes "\<lambda>exts. distinct (map fst exts)"
  using ext_list.canonical_format_axioms
  by (simp add: EncryptedExtensions_from_bytes_def [abs_def] EncryptedExtensions_to_bytes_def [abs_def])

interpretation key_update_format: canonical_format KeyUpdate_from_bytes KeyUpdate_to_bytes "\<lambda>_. True"
proof unfold_locales
  show "KeyUpdate_from_bytes d = Inr x" if "KeyUpdate_to_bytes x = Inr d" for x d
    using that uint_word_of_int [of x, where 'a = 8]
    by (auto simp: KeyUpdate_from_bytes_def KeyUpdate_to_bytes_def int_to_bytes_def take_bit_eq_mod
        split: if_splits)
  show "KeyUpdate_from_bytes d \<noteq> Inl Diverges" for d by (simp add: KeyUpdate_from_bytes_def)
  show "KeyUpdate_to_bytes x = Inr d \<and> True" if "KeyUpdate_from_bytes d = Inr x" for x d
  proof -
    from that obtain b where b: "d = [b]" "x = uint b"
      by (cases d) (auto simp: KeyUpdate_from_bytes_def split: if_splits)
    moreover have "uint b < 256" using uint_bounded [of b] by simp
    ultimately show ?thesis by (simp add: KeyUpdate_to_bytes_def int_to_bytes_def not_le)
  qed
qed

interpretation next_protocol_format: wire_format NextProtocol_from_bytes NextProtocol_to_bytes
  "\<lambda>_. True"
proof (rule wire_formatI [OF NextProtocol_from_bytes_def, where
      enc = "\<lambda>p. rcat (enc_pbytes p 1) (enc_pbytes (replicate (32 - (length p + 2) mod 32) 0) 1)"],
    goal_cases enc ok parse)
  case (enc p)
  show ?case
    unfolding NextProtocol_to_bytes_def Let_def by (intro run_writer_emits emits_intros)
next
  case ok
  show ?case by (intro parser_ok_intros)
next
  case (parse p w)
  then obtain a b where w: "enc_pbytes p 1 = Inr a"
    "enc_pbytes (replicate (32 - (length p + 2) mod 32) 0) 1 = Inr b" "w = a @ b @ []"
    by (auto simp: rcat_Inr_iff)
  show ?case unfolding w(3) by (rule parses_intros w)+
qed

subsection \<open>Tickets\<close>

interpretation ticket_format: canonical_format NewSessionTicket_from_bytes NewSessionTicket_to_bytes
  "\<lambda>_. True"
proof (rule canonical_formatI [OF NewSessionTicket_from_bytes_def, where
      enc = "\<lambda>m. rcat (enc_int (nst_ticket_lifetime m) 4) (enc_pbytes (nst_ticket m) 2)"],
    goal_cases enc ok parse read all)
  case (enc m)
  show ?case unfolding NewSessionTicket_to_bytes_def by (intro run_writer_emits emits_intros)
next
  case ok
  show ?case by (intro parser_ok_intros)
next
  case (parse m w)
  then obtain a b where w: "enc_int (nst_ticket_lifetime m) 4 = Inr a"
    "enc_pbytes (nst_ticket m) 2 = Inr b" "w = a @ b @ []"
    by (auto simp: rcat_Inr_iff)
  have m: "m = \<lparr>nst_ticket_lifetime = nst_ticket_lifetime m, nst_ticket = nst_ticket m\<rparr>"
    by (cases m) simp
  show ?case unfolding w(3) by (subst m, (rule parses_intros w)+)
next
  case read
  show ?case by (rule reads_mono, (rule reads_intros parser_ok_intros)+) auto
next
  case all
  show ?case by (intro reads_all_intros)
qed

interpretation ticket_tls13_format: canonical_format NewSessionTicketTLS13_from_bytes
  NewSessionTicketTLS13_to_bytes "\<lambda>m. distinct (map fst (nst13_extensions m))"
proof (rule canonical_formatI [OF NewSessionTicketTLS13_from_bytes_def, where
      enc = "\<lambda>m. rcat (enc_int (nst13_ticket_lifetime m) 4)
        (rcat (enc_int (nst13_ticket_age_add m) 4) (rcat (enc_pbytes (nst13_ticket_nonce m) 1)
        (rcat (enc_pbytes (nst13_ticket m) 2) (Extensions_enc (nst13_extensions m)))))"],
    goal_cases enc ok parse read all)
  case (enc m)
  show ?case unfolding NewSessionTicketTLS13_to_bytes_def by (intro run_writer_emits emits_intros)
next
  case ok
  show ?case by (intro parser_ok_intros)
next
  case (parse m w)
  then obtain a b c d e where w: "enc_int (nst13_ticket_lifetime m) 4 = Inr a"
    "enc_int (nst13_ticket_age_add m) 4 = Inr b" "enc_pbytes (nst13_ticket_nonce m) 1 = Inr c"
    "enc_pbytes (nst13_ticket m) 2 = Inr d" "Extensions_enc (nst13_extensions m) = Inr e"
    "w = a @ b @ c @ d @ e @ []"
    by (auto simp: rcat_Inr_iff)
  have m: "m = \<lparr>nst13_ticket_lifetime = nst13_ticket_lifetime m,
      nst13_ticket_age_add = nst13_ticket_age_add m, nst13_ticket_nonce = nst13_ticket_nonce m,
      nst13_ticket = nst13_ticket m, nst13_extensions = nst13_extensions m\<rparr>"
    by (cases m) simp
  show ?case unfolding w(6) by (subst m, (rule parses_intros w parse(2))+)
next
  case read
  show ?case by (rule reads_mono, (rule reads_intros parser_ok_intros)+) auto
next
  case all
  show ?case by (intro reads_all_intros)
qed

subsection \<open>Certificates\<close>

interpretation certificate_status_format: canonical_format CertificateStatus_from_bytes
  CertificateStatus_to_bytes "\<lambda>_. True"
  using status_cert_ext.canonical_format_axioms
  by (simp add: CertificateStatus_from_bytes_def CertificateStatus_to_bytes_def [abs_def]
      StatusRequestCertExtension_from_bytes_def StatusRequestCertExtension_to_bytes_def [abs_def])

definition certificate_enc :: "bytes \<Rightarrow> bytes result" where
  "certificate_enc c = rcat (if c = [] then Inl ParseError else Inr []) (enc_pbytes c 3)"

interpretation certificate_item: exact_wire_item certificate_parse certificate_write certificate_enc
  "\<lambda>_. True"
proof unfold_locales
  show "emits (certificate_write x) (certificate_enc x)" for x
    unfolding certificate_write_def certificate_enc_def
    by (intro emits_thn emits_raise_if emits_write_prefixed_bytes)
  show "parses suf certificate_parse w x" if "certificate_enc x = Inr w" for x w suf
  proof -
    from that have w: "enc_pbytes x 3 = Inr w" "x \<noteq> []"
      by (auto simp: certificate_enc_def rcat_Inr_iff split: if_splits)
    show ?thesis unfolding certificate_parse_def by (rule parses_bnd_last parses_intros w)+
  qed
  show "reads certificate_parse (\<lambda>x w. certificate_enc x = Inr w \<and> True)"
    unfolding certificate_parse_def
    by (rule reads_mono, (rule reads_intros parser_ok_intros | (simp; fail))+)
      (auto simp: certificate_enc_def)
  show "parser_ok certificate_parse"
    unfolding certificate_parse_def by (intro parser_ok_intros) simp
  show "advances certificate_parse"
    unfolding certificate_parse_def by (intro advances_intros parser_ok_intros) simp_all
qed

interpretation certificate_format: canonical_format Certificate_from_bytes Certificate_to_bytes
  "\<lambda>_. True"
proof (rule canonical_formatI [OF Certificate_from_bytes_def, where
      enc = "\<lambda>cs. enc_prefixed (enc_list certificate_enc cs) 3"], goal_cases enc ok parse read all)
  case (enc cs)
  show ?case
    unfolding Certificate_to_bytes_def by (intro run_writer_emits certificate_item.vector_emits)
next
  case ok
  show ?case by (intro parser_ok_intros certificate_item.vector_parser_ok)
next
  case (parse cs w)
  show ?case
    by (rule parses_bnd_last, rule certificate_item.vector_parses [OF parse(1)])
      (simp add: list_all_iff, (rule parses_intros)+)
next
  case read
  show ?case
    by (rule reads_mono, rule reads_bnd, rule certificate_item.vector_reads,
      (rule reads_intros parser_ok_intros certificate_item.vector_parser_ok)+) auto
next
  case all
  show ?case by (intro reads_all_intros)
qed

definition CertificateEntry_enc :: "certificate_entry \<Rightarrow> bytes result" where
  "CertificateEntry_enc e = rcat (enc_pbytes (ce_certificate e) 3) (Extensions_enc (ce_extensions e))"

definition certificate_entry_ok :: "certificate_entry \<Rightarrow> bool" where
  "certificate_entry_ok e \<longleftrightarrow> distinct (map fst (ce_extensions e))"

interpretation entry_item: exact_wire_item CertificateEntry_parse CertificateEntry_write
  CertificateEntry_enc certificate_entry_ok
proof unfold_locales
  show "emits (CertificateEntry_write x) (CertificateEntry_enc x)" for x
    unfolding CertificateEntry_write_def CertificateEntry_enc_def by (intro emits_intros)
  show "parses suf CertificateEntry_parse w x"
    if "certificate_entry_ok x" "CertificateEntry_enc x = Inr w" for x w suf
  proof -
    from that obtain a b where w: "enc_pbytes (ce_certificate x) 3 = Inr a"
      "Extensions_enc (ce_extensions x) = Inr b" "w = a @ b @ []"
      "distinct (map fst (ce_extensions x))"
      by (auto simp: CertificateEntry_enc_def rcat_Inr_iff certificate_entry_ok_def)
    have x: "x = \<lparr>ce_certificate = ce_certificate x, ce_extensions = ce_extensions x\<rparr>"
      by (cases x) simp
    show ?thesis
      unfolding CertificateEntry_parse_def w(3) by (subst x, (rule parses_intros w)+)
  qed
  show "reads CertificateEntry_parse (\<lambda>x w. CertificateEntry_enc x = Inr w \<and> certificate_entry_ok x)"
    unfolding CertificateEntry_parse_def
    by (rule reads_mono, (rule reads_intros parser_ok_intros)+)
      (auto simp: CertificateEntry_enc_def certificate_entry_ok_def)
  show "parser_ok CertificateEntry_parse"
    unfolding CertificateEntry_parse_def by (intro parser_ok_intros)
  show "advances CertificateEntry_parse"
    unfolding CertificateEntry_parse_def by (intro advances_intros parser_ok_intros) simp_all
qed

interpretation certificate_tls13_format: canonical_format CertificateTLS13_from_bytes
  CertificateTLS13_to_bytes "\<lambda>m. list_all certificate_entry_ok (certificate_entries m)"
proof (rule canonical_formatI [OF CertificateTLS13_from_bytes_def, where
      enc = "\<lambda>m. rbind (enc_list CertificateEntry_enc (certificate_entries m)) (\<lambda>es.
        rcat (enc_pbytes (c13_context m) 1) (enc_pbytes es 3))"], goal_cases enc ok parse read all)
  case (enc m)
  show ?case
    unfolding CertificateTLS13_to_bytes_def
    by (intro run_writer_emits emits_with_writer entry_item.items_emit emits_intros
        emits_write_prefixed_writer)
next
  case ok
  show ?case by (intro parser_ok_intros entry_item.vector_parser_ok)
next
  case (parse m w)
  then obtain a b where w: "enc_pbytes (c13_context m) 1 = Inr a"
    "enc_prefixed (enc_list CertificateEntry_enc (certificate_entries m)) 3 = Inr b" "w = a @ b @ []"
    by (auto simp: rcat_Inr_iff rbind_Inr_iff enc_prefixed_def)
  have m: "m = \<lparr>c13_context = c13_context m, certificate_entries = certificate_entries m\<rparr>"
    by (cases m) simp
  show ?case
    unfolding w(3)
    by (subst m, (rule parses_intros entry_item.vector_parses w parse(2))+)
next
  case read
  show ?case
    by (rule reads_mono, rule reads_bnd, rule reads_read_prefixed_bytes, rule reads_bnd,
      rule entry_item.vector_reads,
      (rule reads_intros parser_ok_intros entry_item.vector_parser_ok)+)
      (auto simp: enc_prefixed_def rbind_Inr_iff)
next
  case all
  show ?case by (intro reads_all_intros)
qed

interpretation compressed_certificate_format: canonical_format CompressedCertificate_from_bytes
  CompressedCertificate_to_bytes "\<lambda>m. compressed_data m \<noteq> []"
proof (rule canonical_formatI [OF CompressedCertificate_from_bytes_def, where
      enc = "\<lambda>m. rcat (enc_int (cc_compression m) 2) (rcat (enc_int (cc_length m) 3)
        (enc_pbytes (compressed_data m) 3))"], goal_cases enc ok parse read all)
  case (enc m)
  show ?case unfolding CompressedCertificate_to_bytes_def by (intro run_writer_emits emits_intros)
next
  case ok
  show ?case by (intro parser_ok_intros) simp
next
  case (parse m w)
  then obtain a b c where w: "enc_int (cc_compression m) 2 = Inr a" "enc_int (cc_length m) 3 = Inr b"
    "enc_pbytes (compressed_data m) 3 = Inr c" "w = a @ b @ c @ []"
    by (auto simp: rcat_Inr_iff)
  have m: "m = \<lparr>cc_compression = cc_compression m, cc_length = cc_length m,
      compressed_data = compressed_data m\<rparr>"
    by (cases m) simp
  show ?case unfolding w(4) by (subst m, (rule parses_intros w parse(2))+)
next
  case read
  show ?case by (rule reads_mono, (rule reads_intros parser_ok_intros | (simp; fail))+) auto
next
  case all
  show ?case by (intro reads_all_intros)
qed


subsection \<open>Certificate requests and signatures\<close>

interpretation certificate_request_format: canonical_format CertificateRequest_from_bytes
  CertificateRequest_to_bytes "\<lambda>_. True"
proof (rule canonical_formatI [OF CertificateRequest_from_bytes_def, where
      enc = "\<lambda>m. rbind (enc_list (\<lambda>a. enc_pbytes a 2) (cr_certificate_authorities m)) (\<lambda>as.
        rcat (enc_int_list (cr_certificate_types m) 1 1) (enc_pbytes as 2))"],
    goal_cases enc ok parse read all)
  case (enc m)
  show ?case
    unfolding CertificateRequest_to_bytes_def
    by (intro run_writer_emits emits_with_writer pbytes2.items_emit emits_intros
        emits_write_prefixed_writer)
next
  case ok
  show ?case by (intro parser_ok_intros pbytes2.vector_parser_ok)
next
  case (parse m w)
  then obtain a b where w: "enc_int_list (cr_certificate_types m) 1 1 = Inr a"
    "enc_prefixed (enc_list (\<lambda>a. enc_pbytes a 2) (cr_certificate_authorities m)) 2 = Inr b"
    "w = a @ b @ []"
    by (auto simp: rcat_Inr_iff rbind_Inr_iff enc_prefixed_def)
  have m: "m = \<lparr>cr_certificate_types = cr_certificate_types m,
      cr_certificate_authorities = cr_certificate_authorities m\<rparr>"
    by (cases m) simp
  show ?case
    unfolding w(3)
    by (subst m, (rule parses_intros pbytes2.vector_parses w | simp add: list_all_iff)+)
next
  case read
  show ?case
    by (rule reads_mono,
      (rule reads_bnd [OF pbytes2.vector_reads] reads_intros parser_ok_intros
        pbytes2.vector_parser_ok | (simp; fail))+) (auto simp: enc_prefixed_def rbind_Inr_iff)
next
  case all
  show ?case by (intro reads_all_intros)
qed

interpretation certificate_request_tls12_format: canonical_format
  CertificateRequestTLS12_from_bytes CertificateRequestTLS12_to_bytes "\<lambda>_. True"
proof (rule canonical_formatI [OF CertificateRequestTLS12_from_bytes_def, where
      enc = "\<lambda>m. rbind (enc_list (\<lambda>a. enc_pbytes a 2) (cr12_certificate_authorities m)) (\<lambda>as.
        rcat (enc_int_list (cr12_certificate_types m) 1 1)
        (rcat (enc_int_list (cr12_signature_algorithms m) 2 2) (enc_pbytes as 2)))"],
    goal_cases enc ok parse read all)
  case (enc m)
  show ?case
    unfolding CertificateRequestTLS12_to_bytes_def
    by (intro run_writer_emits emits_with_writer pbytes2.items_emit emits_intros
        emits_write_prefixed_writer)
next
  case ok
  show ?case by (intro parser_ok_intros pbytes2.vector_parser_ok)
next
  case (parse m w)
  then obtain a b c where w: "enc_int_list (cr12_certificate_types m) 1 1 = Inr a"
    "enc_int_list (cr12_signature_algorithms m) 2 2 = Inr b"
    "enc_prefixed (enc_list (\<lambda>a. enc_pbytes a 2) (cr12_certificate_authorities m)) 2 = Inr c"
    "w = a @ b @ c @ []"
    by (auto simp: rcat_Inr_iff rbind_Inr_iff enc_prefixed_def)
  have m: "m = \<lparr>cr12_certificate_types = cr12_certificate_types m,
      cr12_certificate_authorities = cr12_certificate_authorities m,
      cr12_signature_algorithms = cr12_signature_algorithms m\<rparr>"
    by (cases m) simp
  show ?case
    unfolding w(4)
    by (subst m, (rule parses_intros pbytes2.vector_parses w | simp add: list_all_iff)+)
next
  case read
  show ?case
    by (rule reads_mono,
      (rule reads_bnd [OF pbytes2.vector_reads] reads_intros parser_ok_intros
        pbytes2.vector_parser_ok | (simp; fail))+) (auto simp: enc_prefixed_def rbind_Inr_iff)
next
  case all
  show ?case by (intro reads_all_intros)
qed

interpretation certificate_request_tls13_format: canonical_format
  CertificateRequestTLS13_from_bytes CertificateRequestTLS13_to_bytes
  "\<lambda>m. distinct (map fst (cr13_extensions m))"
proof (rule canonical_formatI [OF CertificateRequestTLS13_from_bytes_def, where
      enc = "\<lambda>m. rcat (enc_pbytes (cr13_context m) 1) (Extensions_enc (cr13_extensions m))"],
    goal_cases enc ok parse read all)
  case (enc m)
  show ?case unfolding CertificateRequestTLS13_to_bytes_def by (intro run_writer_emits emits_intros)
next
  case ok
  show ?case by (intro parser_ok_intros)
next
  case (parse m w)
  then obtain a b where w: "enc_pbytes (cr13_context m) 1 = Inr a"
    "Extensions_enc (cr13_extensions m) = Inr b" "w = a @ b @ []"
    by (auto simp: rcat_Inr_iff)
  have m: "m = \<lparr>cr13_context = cr13_context m, cr13_extensions = cr13_extensions m\<rparr>"
    by (cases m) simp
  show ?case unfolding w(3) by (subst m, (rule parses_intros w parse(2))+)
next
  case read
  show ?case by (rule reads_mono, (rule reads_intros parser_ok_intros)+) auto
next
  case all
  show ?case by (intro reads_all_intros)
qed

interpretation certificate_verify_format: canonical_format CertificateVerify_from_bytes
  CertificateVerify_to_bytes "\<lambda>_. True"
  using pbytes_ext.canonical_format_axioms [of 2]
  by (simp add: CertificateVerify_from_bytes_def CertificateVerify_to_bytes_def [abs_def]
      PrefixedBytes_from_bytes_def PrefixedBytes_to_bytes_def [abs_def])

interpretation certificate_verify_tls12_format: canonical_format CertificateVerifyTLS12_from_bytes
  CertificateVerifyTLS12_to_bytes "\<lambda>_. True"
proof (rule canonical_formatI [OF CertificateVerifyTLS12_from_bytes_def, where
      enc = "\<lambda>m. rcat (enc_int (cv12_signature_algorithm m) 2) (enc_pbytes (cv12_signature m) 2)"],
    goal_cases enc ok parse read all)
  case (enc m)
  show ?case unfolding CertificateVerifyTLS12_to_bytes_def by (intro run_writer_emits emits_intros)
next
  case ok
  show ?case by (intro parser_ok_intros)
next
  case (parse m w)
  then obtain a b where w: "enc_int (cv12_signature_algorithm m) 2 = Inr a"
    "enc_pbytes (cv12_signature m) 2 = Inr b" "w = a @ b @ []"
    by (auto simp: rcat_Inr_iff)
  have m: "m = \<lparr>cv12_signature = cv12_signature m,
      cv12_signature_algorithm = cv12_signature_algorithm m\<rparr>"
    by (cases m) simp
  show ?case unfolding w(3) by (subst m, (rule parses_intros w)+)
next
  case read
  show ?case by (rule reads_mono, (rule reads_intros parser_ok_intros)+) auto
next
  case all
  show ?case by (intro reads_all_intros)
qed

subsection \<open>All messages\<close>

text \<open>
  The messages that their reader gives back: the random of a hello has its 32 bytes, extension types
  are distinct, and a compressed certificate is not empty.
\<close>

fun message_admitted :: "message \<Rightarrow> bool" where
  "message_admitted (ClientHello m) =
     (length (ch_random m) = 32 \<and> distinct (map fst (ch_extensions m)))"
| "message_admitted (ServerHello m) =
     (length (sh_random m) = 32 \<and> distinct (map fst (sh_extensions m)))"
| "message_admitted (EncryptedExtensions exts) = distinct (map fst exts)"
| "message_admitted (NewSessionTicketTLS13 m) = distinct (map fst (nst13_extensions m))"
| "message_admitted (CertificateTLS13 m) = list_all certificate_entry_ok (certificate_entries m)"
| "message_admitted (CompressedCertificate m) = (compressed_data m \<noteq> [])"
| "message_admitted (CertificateRequestTLS13 m) = distinct (map fst (cr13_extensions m))"
| "message_admitted _ = True"

definition lenient_message :: "message_class \<Rightarrow> bool" where
  "lenient_message c \<longleftrightarrow> c = ClientHello_msg \<or> c = ServerHello_msg \<or> c = NextProtocol_msg"

lemmas canonical_message_iffs =
  hello_request_format.from_bytes_iff server_hello_done_format.from_bytes_iff
  end_of_early_data_format.from_bytes_iff client_key_exchange_format.from_bytes_iff
  server_key_exchange_format.from_bytes_iff finished_format.from_bytes_iff
  encrypted_extensions_format.from_bytes_iff key_update_format.from_bytes_iff
  ticket_format.from_bytes_iff ticket_tls13_format.from_bytes_iff
  certificate_status_format.from_bytes_iff certificate_format.from_bytes_iff
  certificate_tls13_format.from_bytes_iff compressed_certificate_format.from_bytes_iff
  certificate_request_format.from_bytes_iff certificate_request_tls12_format.from_bytes_iff
  certificate_request_tls13_format.from_bytes_iff certificate_verify_format.from_bytes_iff
  certificate_verify_tls12_format.from_bytes_iff

lemmas message_ends =
  hello_request_format.from_ends server_hello_done_format.from_ends
  end_of_early_data_format.from_ends client_key_exchange_format.from_ends
  server_key_exchange_format.from_ends finished_format.from_ends
  encrypted_extensions_format.from_ends key_update_format.from_ends
  ticket_format.from_ends ticket_tls13_format.from_ends
  certificate_status_format.from_ends certificate_format.from_ends
  certificate_tls13_format.from_ends compressed_certificate_format.from_ends
  certificate_request_format.from_ends certificate_request_tls12_format.from_ends
  certificate_request_tls13_format.from_ends certificate_verify_format.from_ends
  certificate_verify_tls12_format.from_ends client_hello_format.from_ends
  server_hello_format.from_ends next_protocol_format.from_ends

lemma message_class_canonical:
  "\<not> lenient_message c \<Longrightarrow> message_from_bytes c d = Inr m \<longleftrightarrow>
     message_class_of m = c \<and> message_to_bytes m = Inr d \<and> message_admitted m"
  by (cases c; cases m) (auto simp: rmap_Inr_iff canonical_message_iffs lenient_message_def)

lemma message_from_to:
  assumes "message_to_bytes m = Inr d" and "message_admitted m"
  shows "message_from_bytes (message_class_of m) d = Inr m"
proof (cases "lenient_message (message_class_of m)")
  case True
  with assms show ?thesis
    by (cases m) (auto simp: rmap_Inr_iff lenient_message_def client_hello_format.from_to
        server_hello_format.from_to next_protocol_format.from_to)
qed (use message_class_canonical assms in blast)

text \<open>
  C28: For every handshake message class, what \<open>to_bytes\<close> writes is read back by \<open>from_bytes\<close> of the same
  class as the same message, for the messages that a reader can return (\<open>message_admitted\<close>): their randoms have 32 bytes, no extension is
  given twice, and a compressed certificate is not empty.
\<close>

theorem message_roundtrip:
  "message_to_bytes m = Inr d \<Longrightarrow> message_admitted m \<Longrightarrow>
   message_from_bytes (message_class_of m) d = Inr m"
  by (rule message_from_to)

theorem message_roundtrip_witness:
  "message_from_bytes (message_class_of (CertificateVerifyTLS12
       \<lparr>cv12_signature = [9, 8], cv12_signature_algorithm = 1027\<rparr>)) [4, 3, 0, 2, 9, 8] =
     Inr (CertificateVerifyTLS12 \<lparr>cv12_signature = [9, 8], cv12_signature_algorithm = 1027\<rparr>)"
  by (rule message_roundtrip)
    (simp_all add: CertificateVerifyTLS12_to_bytes_def writer_eval)

text \<open>
  Reading is exact for every class but the two hello messages and \<open>NextProtocol\<close> (whose padding is
  ignored): the bytes accepted are the bytes the returned message is written to.
\<close>

theorem message_canonical:
  "message_from_bytes c d = Inr m \<Longrightarrow> \<not> lenient_message c \<Longrightarrow>
   message_class_of m = c \<and> message_to_bytes m = Inr d"
  using message_class_canonical by blast

theorem message_canonical_witness:
  "message_class_of (KeyUpdate 1) = KeyUpdate_msg \<and> message_to_bytes (KeyUpdate 1) = Inr [1]"
  by (rule message_canonical) (simp_all add: KeyUpdate_from_bytes_def lenient_message_def)

text \<open>Every message reader returns or raises within the fuel of its loops, whatever the peer sent.\<close>

theorem message_from_bytes_terminates: "message_from_bytes c d \<noteq> Inl Diverges"
  by (cases c) (auto simp: message_ends)

text \<open>
  A client hello that is accepted is written back as the bytes it was read from, except that an
  empty extension block is dropped; the random has 32 bytes, the session id at most 32, and no
  extension type occurs twice.
\<close>

theorem ClientHello_accepted:
  assumes "ClientHello_from_bytes d = Inr m"
  shows "length (ch_random m) = 32 \<and> length (ch_session_id m) \<le> 32 \<and>
    distinct (get_types (ch_extensions m)) \<and>
    (\<exists>w. ClientHello_to_bytes m = Inr w \<and> (d = w \<or> ch_extensions m = [] \<and> d = w @ [0, 0]))"
proof -
  have "reads (bnd ClientHello_parse (\<lambda>m. thn no_trailing (ret m)))
     (\<lambda>m w. length (ch_random m) = 32 \<and> distinct (map fst (ch_extensions m)) \<and>
     (\<exists>a. ClientHello_prefix_enc m = Inr a \<and>
       ((\<exists>b. optional_extensions_enc (ch_extensions m) = Inr b \<and> w = a @ b) \<or>
        ch_extensions m = [] \<and> w = a @ [0, 0])))"
    by (rule reads_mono, rule reads_bnd, rule reads_ClientHello_parse,
      (rule reads_intros parser_ok_intros)+) auto
  from run_parser_reads [OF assms [unfolded ClientHello_from_bytes_def] this]
  obtain a where a: "ClientHello_prefix_enc m = Inr a" "length (ch_random m) = 32"
    "distinct (map fst (ch_extensions m))"
    "(\<exists>b. optional_extensions_enc (ch_extensions m) = Inr b \<and> d = a @ b) \<or>
     ch_extensions m = [] \<and> d = a @ [0, 0]"
    by (auto intro: parser_ok_intros reads_all_intros)
  then have "length (ch_session_id m) \<le> 32"
    by (auto simp: ClientHello_prefix_enc_def rcat_Inr_iff)
  with a show ?thesis
    by (auto simp: get_types_def ClientHello_to_bytes_enc optional_extensions_enc_def)
qed

theorem ClientHello_accepted_witness:
  "\<exists>w. ClientHello_to_bytes \<lparr>ch_version = 771, ch_random = replicate 32 7, ch_session_id = [],
       ch_cipher_suites = [4865], ch_compression_methods = [0], ch_extensions = []\<rparr> = Inr w"
proof -
  have "ClientHello_from_bytes ([3, 3] @ replicate 32 7 @ [0, 0, 2, 19, 1, 1, 0, 0, 0]) =
     Inr \<lparr>ch_version = 771, ch_random = replicate 32 7, ch_session_id = [],
       ch_cipher_suites = [4865], ch_compression_methods = [0], ch_extensions = []\<rparr>"
    by code_simp
  from ClientHello_accepted [OF this] show ?thesis by blast
qed

text \<open>
  Certificate compression is transparent: with compression packages that invert themselves, a
  certificate message that was compressed, sent and received decompresses to the same message, and
  the length announced is the length of the message.
\<close>

theorem compressed_certificate_roundtrip:
  assumes "from_certificate libs alg cert = Inr cc" and "compression_libs_ok libs"
    and "list_all certificate_entry_ok (certificate_entries cert)"
  shows "to_certificate libs cc = Inr cert"
proof -
  from assms(1) obtain data where data: "CertificateTLS13_to_bytes cert = Inr data"
    "cc_length cc = int (length data)" "cc_compression cc = alg"
    and c: "(if alg = cca CCA_ZLIB then ZLIB_compress libs data
            else if alg = cca CCA_BROTLI then Brotli_compress libs data
            else if alg = cca CCA_ZSTD then ZSTD_compress libs data
            else Inl ValueError) = Inr (compressed_data cc)"
    by (auto simp: from_certificate_def rbind_Inr_iff)
  have "CertificateTLS13_from_bytes data = Inr cert"
    by (rule certificate_tls13_format.from_to [OF data(1) assms(3)])
  with data c show ?thesis
    using decompress_compress [OF assms(2), of data "compressed_data cc"]
    by (auto simp: to_certificate_def Let_def split: if_splits)
qed

definition identity_compressor :: compressor where
  "identity_compressor = \<lparr>lib_compress = Some, lib_decompress = (\<lambda>d n. Some d)\<rparr>"

theorem compressed_certificate_roundtrip_witness:
  "to_certificate \<lparr>lib_brotli = None, lib_zstandard = None, lib_zstd = None,
       lib_zlib = identity_compressor\<rparr>
     \<lparr>cc_compression = 1, cc_length = 11, compressed_data = [0, 0, 0, 7, 0, 0, 2, 5, 6, 0, 0]\<rparr> =
   Inr \<lparr>c13_context = [], certificate_entries = [\<lparr>ce_certificate = [5, 6], ce_extensions = []\<rparr>]\<rparr>"
proof (rule compressed_certificate_roundtrip [where alg = 1])
  show "from_certificate \<lparr>lib_brotli = None, lib_zstandard = None, lib_zstd = None,
       lib_zlib = identity_compressor\<rparr> 1
     \<lparr>c13_context = [], certificate_entries = [\<lparr>ce_certificate = [5, 6], ce_extensions = []\<rparr>]\<rparr> =
    Inr \<lparr>cc_compression = 1, cc_length = 11, compressed_data = [0, 0, 0, 7, 0, 0, 2, 5, 6, 0, 0]\<rparr>"
    by code_simp
qed (simp_all add: compression_libs_ok_def compressor_inverse_def identity_compressor_def
    certificate_entry_ok_def)

end
