(* ===== verification/Cipher_Suites.thy ===== *)
theory Cipher_Suites
  imports Constants
begin

text \<open>
  The cipher suite table: the enumeration \<open>CipherSuite\<close> of \<open>src/simple_tls/tls/constants.py\<close>, one
  definition per member, with the properties a \<open>CipherSuite\<close> member has as record fields.  Two
  members compare equal when their identifiers do (\<open>__eq__\<close>, \<open>__hash__\<close>), and \<open>CipherSuite(n)\<close>
  looks a member up by its identifier.
\<close>

record cipher_suite =
  cs_id :: int
  cs_name :: string
  minimum_version :: int
  maximum_version :: int
  strength_bits :: int
  alg_bits :: int
  aead :: bool
  symmetric :: Symmetric
  digest :: "HashAlgorithm option"
  prf_hash :: HashAlgorithm
  kea :: KeyExchange
  auth :: Authentication

definition TLS_RSA_WITH_NULL_MD5 :: cipher_suite where
  "TLS_RSA_WITH_NULL_MD5 = \<lparr>cs_id = 1, cs_name = ''TLS_RSA_WITH_NULL_MD5'',
     minimum_version = ver V_TLSv1, maximum_version = ver V_TLSv1_2,
     strength_bits = 0, alg_bits = 0, aead = False, symmetric = SYM_NULL,
     digest = Some HASH_MD5, prf_hash = HASH_SHA256,
     kea = KEA_RSA, auth = AUTH_RSA\<rparr>"

definition TLS_RSA_WITH_NULL_SHA :: cipher_suite where
  "TLS_RSA_WITH_NULL_SHA = \<lparr>cs_id = 2, cs_name = ''TLS_RSA_WITH_NULL_SHA'',
     minimum_version = ver V_TLSv1, maximum_version = ver V_TLSv1_2,
     strength_bits = 0, alg_bits = 0, aead = False, symmetric = SYM_NULL,
     digest = Some HASH_SHA1, prf_hash = HASH_SHA256,
     kea = KEA_RSA, auth = AUTH_RSA\<rparr>"

definition TLS_RSA_WITH_NULL_SHA256 :: cipher_suite where
  "TLS_RSA_WITH_NULL_SHA256 = \<lparr>cs_id = 59, cs_name = ''TLS_RSA_WITH_NULL_SHA256'',
     minimum_version = ver V_TLSv1_2, maximum_version = ver V_TLSv1_2,
     strength_bits = 0, alg_bits = 0, aead = False, symmetric = SYM_NULL,
     digest = Some HASH_SHA256, prf_hash = HASH_SHA256,
     kea = KEA_RSA, auth = AUTH_RSA\<rparr>"

definition TLS_RSA_WITH_RC4_128_MD5 :: cipher_suite where
  "TLS_RSA_WITH_RC4_128_MD5 = \<lparr>cs_id = 4, cs_name = ''TLS_RSA_WITH_RC4_128_MD5'',
     minimum_version = ver V_TLSv1, maximum_version = ver V_TLSv1_2,
     strength_bits = 128, alg_bits = 128, aead = False, symmetric = SYM_RC4_128,
     digest = Some HASH_MD5, prf_hash = HASH_SHA256,
     kea = KEA_RSA, auth = AUTH_RSA\<rparr>"

definition TLS_RSA_WITH_RC4_128_SHA :: cipher_suite where
  "TLS_RSA_WITH_RC4_128_SHA = \<lparr>cs_id = 5, cs_name = ''TLS_RSA_WITH_RC4_128_SHA'',
     minimum_version = ver V_TLSv1, maximum_version = ver V_TLSv1_2,
     strength_bits = 128, alg_bits = 128, aead = False, symmetric = SYM_RC4_128,
     digest = Some HASH_SHA1, prf_hash = HASH_SHA256,
     kea = KEA_RSA, auth = AUTH_RSA\<rparr>"

definition TLS_RSA_WITH_3DES_EDE_CBC_SHA :: cipher_suite where
  "TLS_RSA_WITH_3DES_EDE_CBC_SHA = \<lparr>cs_id = 10, cs_name = ''TLS_RSA_WITH_3DES_EDE_CBC_SHA'',
     minimum_version = ver V_TLSv1, maximum_version = ver V_TLSv1_2,
     strength_bits = 112, alg_bits = 168, aead = False, symmetric = SYM_TRIPLE_DES_EDE_CBC,
     digest = Some HASH_SHA1, prf_hash = HASH_SHA256,
     kea = KEA_RSA, auth = AUTH_RSA\<rparr>"

definition TLS_RSA_WITH_AES_128_CBC_SHA :: cipher_suite where
  "TLS_RSA_WITH_AES_128_CBC_SHA = \<lparr>cs_id = 47, cs_name = ''TLS_RSA_WITH_AES_128_CBC_SHA'',
     minimum_version = ver V_TLSv1, maximum_version = ver V_TLSv1_2,
     strength_bits = 128, alg_bits = 128, aead = False, symmetric = SYM_AES_128_CBC,
     digest = Some HASH_SHA1, prf_hash = HASH_SHA256,
     kea = KEA_RSA, auth = AUTH_RSA\<rparr>"

definition TLS_RSA_WITH_AES_256_CBC_SHA :: cipher_suite where
  "TLS_RSA_WITH_AES_256_CBC_SHA = \<lparr>cs_id = 53, cs_name = ''TLS_RSA_WITH_AES_256_CBC_SHA'',
     minimum_version = ver V_TLSv1, maximum_version = ver V_TLSv1_2,
     strength_bits = 256, alg_bits = 256, aead = False, symmetric = SYM_AES_256_CBC,
     digest = Some HASH_SHA1, prf_hash = HASH_SHA256,
     kea = KEA_RSA, auth = AUTH_RSA\<rparr>"

definition TLS_RSA_WITH_AES_128_CBC_SHA256 :: cipher_suite where
  "TLS_RSA_WITH_AES_128_CBC_SHA256 = \<lparr>cs_id = 60, cs_name =
     ''TLS_RSA_WITH_AES_128_CBC_SHA256'',
     minimum_version = ver V_TLSv1_2, maximum_version = ver V_TLSv1_2,
     strength_bits = 128, alg_bits = 128, aead = False, symmetric = SYM_AES_128_CBC,
     digest = Some HASH_SHA256, prf_hash = HASH_SHA256,
     kea = KEA_RSA, auth = AUTH_RSA\<rparr>"

definition TLS_RSA_WITH_AES_256_CBC_SHA256 :: cipher_suite where
  "TLS_RSA_WITH_AES_256_CBC_SHA256 = \<lparr>cs_id = 61, cs_name =
     ''TLS_RSA_WITH_AES_256_CBC_SHA256'',
     minimum_version = ver V_TLSv1_2, maximum_version = ver V_TLSv1_2,
     strength_bits = 256, alg_bits = 256, aead = False, symmetric = SYM_AES_256_CBC,
     digest = Some HASH_SHA256, prf_hash = HASH_SHA256,
     kea = KEA_RSA, auth = AUTH_RSA\<rparr>"

definition TLS_RSA_WITH_AES_128_CCM :: cipher_suite where
  "TLS_RSA_WITH_AES_128_CCM = \<lparr>cs_id = 49308, cs_name = ''TLS_RSA_WITH_AES_128_CCM'',
     minimum_version = ver V_TLSv1_2, maximum_version = ver V_TLSv1_2,
     strength_bits = 128, alg_bits = 128, aead = True, symmetric = SYM_AES_128_CCM,
     digest = None, prf_hash = HASH_SHA256,
     kea = KEA_RSA, auth = AUTH_RSA\<rparr>"

definition TLS_RSA_WITH_AES_256_CCM :: cipher_suite where
  "TLS_RSA_WITH_AES_256_CCM = \<lparr>cs_id = 49309, cs_name = ''TLS_RSA_WITH_AES_256_CCM'',
     minimum_version = ver V_TLSv1_2, maximum_version = ver V_TLSv1_2,
     strength_bits = 256, alg_bits = 256, aead = True, symmetric = SYM_AES_256_CCM,
     digest = None, prf_hash = HASH_SHA256,
     kea = KEA_RSA, auth = AUTH_RSA\<rparr>"

definition TLS_RSA_WITH_AES_128_CCM_8 :: cipher_suite where
  "TLS_RSA_WITH_AES_128_CCM_8 = \<lparr>cs_id = 49312, cs_name = ''TLS_RSA_WITH_AES_128_CCM_8'',
     minimum_version = ver V_TLSv1_2, maximum_version = ver V_TLSv1_2,
     strength_bits = 128, alg_bits = 128, aead = True, symmetric = SYM_AES_128_CCM_8,
     digest = None, prf_hash = HASH_SHA256,
     kea = KEA_RSA, auth = AUTH_RSA\<rparr>"

definition TLS_RSA_WITH_AES_256_CCM_8 :: cipher_suite where
  "TLS_RSA_WITH_AES_256_CCM_8 = \<lparr>cs_id = 49313, cs_name = ''TLS_RSA_WITH_AES_256_CCM_8'',
     minimum_version = ver V_TLSv1_2, maximum_version = ver V_TLSv1_2,
     strength_bits = 256, alg_bits = 256, aead = True, symmetric = SYM_AES_256_CCM_8,
     digest = None, prf_hash = HASH_SHA256,
     kea = KEA_RSA, auth = AUTH_RSA\<rparr>"

definition TLS_RSA_WITH_AES_128_GCM_SHA256 :: cipher_suite where
  "TLS_RSA_WITH_AES_128_GCM_SHA256 = \<lparr>cs_id = 156, cs_name =
     ''TLS_RSA_WITH_AES_128_GCM_SHA256'',
     minimum_version = ver V_TLSv1_2, maximum_version = ver V_TLSv1_2,
     strength_bits = 128, alg_bits = 128, aead = True, symmetric = SYM_AES_128_GCM,
     digest = None, prf_hash = HASH_SHA256,
     kea = KEA_RSA, auth = AUTH_RSA\<rparr>"

definition TLS_RSA_WITH_AES_256_GCM_SHA384 :: cipher_suite where
  "TLS_RSA_WITH_AES_256_GCM_SHA384 = \<lparr>cs_id = 157, cs_name =
     ''TLS_RSA_WITH_AES_256_GCM_SHA384'',
     minimum_version = ver V_TLSv1_2, maximum_version = ver V_TLSv1_2,
     strength_bits = 256, alg_bits = 256, aead = True, symmetric = SYM_AES_256_GCM,
     digest = None, prf_hash = HASH_SHA384,
     kea = KEA_RSA, auth = AUTH_RSA\<rparr>"

definition TLS_DHE_DSS_WITH_3DES_EDE_CBC_SHA :: cipher_suite where
  "TLS_DHE_DSS_WITH_3DES_EDE_CBC_SHA = \<lparr>cs_id = 19, cs_name =
     ''TLS_DHE_DSS_WITH_3DES_EDE_CBC_SHA'',
     minimum_version = ver V_TLSv1, maximum_version = ver V_TLSv1_2,
     strength_bits = 112, alg_bits = 168, aead = False, symmetric = SYM_TRIPLE_DES_EDE_CBC,
     digest = Some HASH_SHA1, prf_hash = HASH_SHA256,
     kea = KEA_DHE, auth = AUTH_DSS\<rparr>"

definition TLS_DHE_DSS_WITH_AES_128_CBC_SHA :: cipher_suite where
  "TLS_DHE_DSS_WITH_AES_128_CBC_SHA = \<lparr>cs_id = 50, cs_name =
     ''TLS_DHE_DSS_WITH_AES_128_CBC_SHA'',
     minimum_version = ver V_TLSv1, maximum_version = ver V_TLSv1_2,
     strength_bits = 128, alg_bits = 128, aead = False, symmetric = SYM_AES_128_CBC,
     digest = Some HASH_SHA1, prf_hash = HASH_SHA256,
     kea = KEA_DHE, auth = AUTH_DSS\<rparr>"

definition TLS_DHE_DSS_WITH_AES_256_CBC_SHA :: cipher_suite where
  "TLS_DHE_DSS_WITH_AES_256_CBC_SHA = \<lparr>cs_id = 56, cs_name =
     ''TLS_DHE_DSS_WITH_AES_256_CBC_SHA'',
     minimum_version = ver V_TLSv1, maximum_version = ver V_TLSv1_2,
     strength_bits = 256, alg_bits = 256, aead = False, symmetric = SYM_AES_256_CBC,
     digest = Some HASH_SHA1, prf_hash = HASH_SHA256,
     kea = KEA_DHE, auth = AUTH_DSS\<rparr>"

definition TLS_DHE_DSS_WITH_AES_128_CBC_SHA256 :: cipher_suite where
  "TLS_DHE_DSS_WITH_AES_128_CBC_SHA256 = \<lparr>cs_id = 64, cs_name =
     ''TLS_DHE_DSS_WITH_AES_128_CBC_SHA256'',
     minimum_version = ver V_TLSv1_2, maximum_version = ver V_TLSv1_2,
     strength_bits = 128, alg_bits = 128, aead = False, symmetric = SYM_AES_128_CBC,
     digest = Some HASH_SHA256, prf_hash = HASH_SHA256,
     kea = KEA_DHE, auth = AUTH_DSS\<rparr>"

definition TLS_DHE_DSS_WITH_AES_256_CBC_SHA256 :: cipher_suite where
  "TLS_DHE_DSS_WITH_AES_256_CBC_SHA256 = \<lparr>cs_id = 106, cs_name =
     ''TLS_DHE_DSS_WITH_AES_256_CBC_SHA256'',
     minimum_version = ver V_TLSv1_2, maximum_version = ver V_TLSv1_2,
     strength_bits = 256, alg_bits = 256, aead = False, symmetric = SYM_AES_256_CBC,
     digest = Some HASH_SHA256, prf_hash = HASH_SHA256,
     kea = KEA_DHE, auth = AUTH_DSS\<rparr>"

definition TLS_DHE_DSS_WITH_AES_128_GCM_SHA256 :: cipher_suite where
  "TLS_DHE_DSS_WITH_AES_128_GCM_SHA256 = \<lparr>cs_id = 162, cs_name =
     ''TLS_DHE_DSS_WITH_AES_128_GCM_SHA256'',
     minimum_version = ver V_TLSv1_2, maximum_version = ver V_TLSv1_2,
     strength_bits = 128, alg_bits = 128, aead = True, symmetric = SYM_AES_128_GCM,
     digest = None, prf_hash = HASH_SHA256,
     kea = KEA_DHE, auth = AUTH_DSS\<rparr>"

definition TLS_DHE_DSS_WITH_AES_256_GCM_SHA384 :: cipher_suite where
  "TLS_DHE_DSS_WITH_AES_256_GCM_SHA384 = \<lparr>cs_id = 163, cs_name =
     ''TLS_DHE_DSS_WITH_AES_256_GCM_SHA384'',
     minimum_version = ver V_TLSv1_2, maximum_version = ver V_TLSv1_2,
     strength_bits = 256, alg_bits = 256, aead = True, symmetric = SYM_AES_256_GCM,
     digest = None, prf_hash = HASH_SHA384,
     kea = KEA_DHE, auth = AUTH_DSS\<rparr>"

definition TLS_DHE_RSA_WITH_3DES_EDE_CBC_SHA :: cipher_suite where
  "TLS_DHE_RSA_WITH_3DES_EDE_CBC_SHA = \<lparr>cs_id = 22, cs_name =
     ''TLS_DHE_RSA_WITH_3DES_EDE_CBC_SHA'',
     minimum_version = ver V_TLSv1, maximum_version = ver V_TLSv1_2,
     strength_bits = 112, alg_bits = 168, aead = False, symmetric = SYM_TRIPLE_DES_EDE_CBC,
     digest = Some HASH_SHA1, prf_hash = HASH_SHA256,
     kea = KEA_DHE, auth = AUTH_RSA\<rparr>"

definition TLS_DHE_RSA_WITH_AES_128_CBC_SHA :: cipher_suite where
  "TLS_DHE_RSA_WITH_AES_128_CBC_SHA = \<lparr>cs_id = 51, cs_name =
     ''TLS_DHE_RSA_WITH_AES_128_CBC_SHA'',
     minimum_version = ver V_TLSv1, maximum_version = ver V_TLSv1_2,
     strength_bits = 128, alg_bits = 128, aead = False, symmetric = SYM_AES_128_CBC,
     digest = Some HASH_SHA1, prf_hash = HASH_SHA256,
     kea = KEA_DHE, auth = AUTH_RSA\<rparr>"

definition TLS_DHE_RSA_WITH_AES_256_CBC_SHA :: cipher_suite where
  "TLS_DHE_RSA_WITH_AES_256_CBC_SHA = \<lparr>cs_id = 57, cs_name =
     ''TLS_DHE_RSA_WITH_AES_256_CBC_SHA'',
     minimum_version = ver V_TLSv1, maximum_version = ver V_TLSv1_2,
     strength_bits = 256, alg_bits = 256, aead = False, symmetric = SYM_AES_256_CBC,
     digest = Some HASH_SHA1, prf_hash = HASH_SHA256,
     kea = KEA_DHE, auth = AUTH_RSA\<rparr>"

definition TLS_DHE_RSA_WITH_AES_128_CBC_SHA256 :: cipher_suite where
  "TLS_DHE_RSA_WITH_AES_128_CBC_SHA256 = \<lparr>cs_id = 103, cs_name =
     ''TLS_DHE_RSA_WITH_AES_128_CBC_SHA256'',
     minimum_version = ver V_TLSv1_2, maximum_version = ver V_TLSv1_2,
     strength_bits = 128, alg_bits = 128, aead = False, symmetric = SYM_AES_128_CBC,
     digest = Some HASH_SHA256, prf_hash = HASH_SHA256,
     kea = KEA_DHE, auth = AUTH_RSA\<rparr>"

definition TLS_DHE_RSA_WITH_AES_256_CBC_SHA256 :: cipher_suite where
  "TLS_DHE_RSA_WITH_AES_256_CBC_SHA256 = \<lparr>cs_id = 107, cs_name =
     ''TLS_DHE_RSA_WITH_AES_256_CBC_SHA256'',
     minimum_version = ver V_TLSv1_2, maximum_version = ver V_TLSv1_2,
     strength_bits = 256, alg_bits = 256, aead = False, symmetric = SYM_AES_256_CBC,
     digest = Some HASH_SHA256, prf_hash = HASH_SHA256,
     kea = KEA_DHE, auth = AUTH_RSA\<rparr>"

definition TLS_DHE_RSA_WITH_AES_128_CCM :: cipher_suite where
  "TLS_DHE_RSA_WITH_AES_128_CCM = \<lparr>cs_id = 49310, cs_name = ''TLS_DHE_RSA_WITH_AES_128_CCM'',
     minimum_version = ver V_TLSv1_2, maximum_version = ver V_TLSv1_2,
     strength_bits = 128, alg_bits = 128, aead = True, symmetric = SYM_AES_128_CCM,
     digest = None, prf_hash = HASH_SHA256,
     kea = KEA_DHE, auth = AUTH_RSA\<rparr>"

definition TLS_DHE_RSA_WITH_AES_256_CCM :: cipher_suite where
  "TLS_DHE_RSA_WITH_AES_256_CCM = \<lparr>cs_id = 49311, cs_name = ''TLS_DHE_RSA_WITH_AES_256_CCM'',
     minimum_version = ver V_TLSv1_2, maximum_version = ver V_TLSv1_2,
     strength_bits = 256, alg_bits = 256, aead = True, symmetric = SYM_AES_256_CCM,
     digest = None, prf_hash = HASH_SHA256,
     kea = KEA_DHE, auth = AUTH_RSA\<rparr>"

definition TLS_DHE_RSA_WITH_AES_128_CCM_8 :: cipher_suite where
  "TLS_DHE_RSA_WITH_AES_128_CCM_8 = \<lparr>cs_id = 49314, cs_name =
     ''TLS_DHE_RSA_WITH_AES_128_CCM_8'',
     minimum_version = ver V_TLSv1_2, maximum_version = ver V_TLSv1_2,
     strength_bits = 128, alg_bits = 128, aead = True, symmetric = SYM_AES_128_CCM_8,
     digest = None, prf_hash = HASH_SHA256,
     kea = KEA_DHE, auth = AUTH_RSA\<rparr>"

definition TLS_DHE_RSA_WITH_AES_256_CCM_8 :: cipher_suite where
  "TLS_DHE_RSA_WITH_AES_256_CCM_8 = \<lparr>cs_id = 49315, cs_name =
     ''TLS_DHE_RSA_WITH_AES_256_CCM_8'',
     minimum_version = ver V_TLSv1_2, maximum_version = ver V_TLSv1_2,
     strength_bits = 256, alg_bits = 256, aead = True, symmetric = SYM_AES_256_CCM_8,
     digest = None, prf_hash = HASH_SHA256,
     kea = KEA_DHE, auth = AUTH_RSA\<rparr>"

definition TLS_DHE_RSA_WITH_AES_128_GCM_SHA256 :: cipher_suite where
  "TLS_DHE_RSA_WITH_AES_128_GCM_SHA256 = \<lparr>cs_id = 158, cs_name =
     ''TLS_DHE_RSA_WITH_AES_128_GCM_SHA256'',
     minimum_version = ver V_TLSv1_2, maximum_version = ver V_TLSv1_2,
     strength_bits = 128, alg_bits = 128, aead = True, symmetric = SYM_AES_128_GCM,
     digest = None, prf_hash = HASH_SHA256,
     kea = KEA_DHE, auth = AUTH_RSA\<rparr>"

definition TLS_DHE_RSA_WITH_AES_256_GCM_SHA384 :: cipher_suite where
  "TLS_DHE_RSA_WITH_AES_256_GCM_SHA384 = \<lparr>cs_id = 159, cs_name =
     ''TLS_DHE_RSA_WITH_AES_256_GCM_SHA384'',
     minimum_version = ver V_TLSv1_2, maximum_version = ver V_TLSv1_2,
     strength_bits = 256, alg_bits = 256, aead = True, symmetric = SYM_AES_256_GCM,
     digest = None, prf_hash = HASH_SHA384,
     kea = KEA_DHE, auth = AUTH_RSA\<rparr>"

definition TLS_DHE_RSA_WITH_CHACHA20_POLY1305_SHA256 :: cipher_suite where
  "TLS_DHE_RSA_WITH_CHACHA20_POLY1305_SHA256 = \<lparr>cs_id = 52394, cs_name =
     ''TLS_DHE_RSA_WITH_CHACHA20_POLY1305_SHA256'',
     minimum_version = ver V_TLSv1_2, maximum_version = ver V_TLSv1_2,
     strength_bits = 256, alg_bits = 256, aead = True, symmetric = SYM_CHACHA20_POLY1305,
     digest = None, prf_hash = HASH_SHA256,
     kea = KEA_DHE, auth = AUTH_RSA\<rparr>"

definition TLS_ECDHE_RSA_WITH_NULL_SHA :: cipher_suite where
  "TLS_ECDHE_RSA_WITH_NULL_SHA = \<lparr>cs_id = 49168, cs_name = ''TLS_ECDHE_RSA_WITH_NULL_SHA'',
     minimum_version = ver V_TLSv1, maximum_version = ver V_TLSv1_2,
     strength_bits = 0, alg_bits = 0, aead = False, symmetric = SYM_NULL,
     digest = Some HASH_SHA1, prf_hash = HASH_SHA256,
     kea = KEA_ECDHE, auth = AUTH_RSA\<rparr>"

definition TLS_ECDHE_RSA_WITH_RC4_128_SHA :: cipher_suite where
  "TLS_ECDHE_RSA_WITH_RC4_128_SHA = \<lparr>cs_id = 49169, cs_name =
     ''TLS_ECDHE_RSA_WITH_RC4_128_SHA'',
     minimum_version = ver V_TLSv1, maximum_version = ver V_TLSv1_2,
     strength_bits = 128, alg_bits = 128, aead = False, symmetric = SYM_RC4_128,
     digest = Some HASH_SHA1, prf_hash = HASH_SHA256,
     kea = KEA_ECDHE, auth = AUTH_RSA\<rparr>"

definition TLS_ECDHE_RSA_WITH_3DES_EDE_CBC_SHA :: cipher_suite where
  "TLS_ECDHE_RSA_WITH_3DES_EDE_CBC_SHA = \<lparr>cs_id = 49170, cs_name =
     ''TLS_ECDHE_RSA_WITH_3DES_EDE_CBC_SHA'',
     minimum_version = ver V_TLSv1, maximum_version = ver V_TLSv1_2,
     strength_bits = 112, alg_bits = 168, aead = False, symmetric = SYM_TRIPLE_DES_EDE_CBC,
     digest = Some HASH_SHA1, prf_hash = HASH_SHA256,
     kea = KEA_ECDHE, auth = AUTH_RSA\<rparr>"

definition TLS_ECDHE_RSA_WITH_AES_128_CBC_SHA :: cipher_suite where
  "TLS_ECDHE_RSA_WITH_AES_128_CBC_SHA = \<lparr>cs_id = 49171, cs_name =
     ''TLS_ECDHE_RSA_WITH_AES_128_CBC_SHA'',
     minimum_version = ver V_TLSv1, maximum_version = ver V_TLSv1_2,
     strength_bits = 128, alg_bits = 128, aead = False, symmetric = SYM_AES_128_CBC,
     digest = Some HASH_SHA1, prf_hash = HASH_SHA256,
     kea = KEA_ECDHE, auth = AUTH_RSA\<rparr>"

definition TLS_ECDHE_RSA_WITH_AES_256_CBC_SHA :: cipher_suite where
  "TLS_ECDHE_RSA_WITH_AES_256_CBC_SHA = \<lparr>cs_id = 49172, cs_name =
     ''TLS_ECDHE_RSA_WITH_AES_256_CBC_SHA'',
     minimum_version = ver V_TLSv1, maximum_version = ver V_TLSv1_2,
     strength_bits = 256, alg_bits = 256, aead = False, symmetric = SYM_AES_256_CBC,
     digest = Some HASH_SHA1, prf_hash = HASH_SHA256,
     kea = KEA_ECDHE, auth = AUTH_RSA\<rparr>"

definition TLS_ECDHE_RSA_WITH_AES_128_CBC_SHA256 :: cipher_suite where
  "TLS_ECDHE_RSA_WITH_AES_128_CBC_SHA256 = \<lparr>cs_id = 49191, cs_name =
     ''TLS_ECDHE_RSA_WITH_AES_128_CBC_SHA256'',
     minimum_version = ver V_TLSv1_2, maximum_version = ver V_TLSv1_2,
     strength_bits = 128, alg_bits = 128, aead = False, symmetric = SYM_AES_128_CBC,
     digest = Some HASH_SHA256, prf_hash = HASH_SHA256,
     kea = KEA_ECDHE, auth = AUTH_RSA\<rparr>"

definition TLS_ECDHE_RSA_WITH_AES_256_CBC_SHA384 :: cipher_suite where
  "TLS_ECDHE_RSA_WITH_AES_256_CBC_SHA384 = \<lparr>cs_id = 49192, cs_name =
     ''TLS_ECDHE_RSA_WITH_AES_256_CBC_SHA384'',
     minimum_version = ver V_TLSv1_2, maximum_version = ver V_TLSv1_2,
     strength_bits = 256, alg_bits = 256, aead = False, symmetric = SYM_AES_256_CBC,
     digest = Some HASH_SHA384, prf_hash = HASH_SHA384,
     kea = KEA_ECDHE, auth = AUTH_RSA\<rparr>"

definition TLS_ECDHE_RSA_WITH_AES_128_GCM_SHA256 :: cipher_suite where
  "TLS_ECDHE_RSA_WITH_AES_128_GCM_SHA256 = \<lparr>cs_id = 49199, cs_name =
     ''TLS_ECDHE_RSA_WITH_AES_128_GCM_SHA256'',
     minimum_version = ver V_TLSv1_2, maximum_version = ver V_TLSv1_2,
     strength_bits = 128, alg_bits = 128, aead = True, symmetric = SYM_AES_128_GCM,
     digest = None, prf_hash = HASH_SHA256,
     kea = KEA_ECDHE, auth = AUTH_RSA\<rparr>"

definition TLS_ECDHE_RSA_WITH_AES_256_GCM_SHA384 :: cipher_suite where
  "TLS_ECDHE_RSA_WITH_AES_256_GCM_SHA384 = \<lparr>cs_id = 49200, cs_name =
     ''TLS_ECDHE_RSA_WITH_AES_256_GCM_SHA384'',
     minimum_version = ver V_TLSv1_2, maximum_version = ver V_TLSv1_2,
     strength_bits = 256, alg_bits = 256, aead = True, symmetric = SYM_AES_256_GCM,
     digest = None, prf_hash = HASH_SHA384,
     kea = KEA_ECDHE, auth = AUTH_RSA\<rparr>"

definition TLS_ECDHE_RSA_WITH_CHACHA20_POLY1305_SHA256 :: cipher_suite where
  "TLS_ECDHE_RSA_WITH_CHACHA20_POLY1305_SHA256 = \<lparr>cs_id = 52392, cs_name =
     ''TLS_ECDHE_RSA_WITH_CHACHA20_POLY1305_SHA256'',
     minimum_version = ver V_TLSv1_2, maximum_version = ver V_TLSv1_2,
     strength_bits = 256, alg_bits = 256, aead = True, symmetric = SYM_CHACHA20_POLY1305,
     digest = None, prf_hash = HASH_SHA256,
     kea = KEA_ECDHE, auth = AUTH_RSA\<rparr>"

definition TLS_ECDHE_ECDSA_WITH_NULL_SHA :: cipher_suite where
  "TLS_ECDHE_ECDSA_WITH_NULL_SHA = \<lparr>cs_id = 49158, cs_name =
     ''TLS_ECDHE_ECDSA_WITH_NULL_SHA'',
     minimum_version = ver V_TLSv1, maximum_version = ver V_TLSv1_2,
     strength_bits = 0, alg_bits = 0, aead = False, symmetric = SYM_NULL,
     digest = Some HASH_SHA1, prf_hash = HASH_SHA256,
     kea = KEA_ECDHE, auth = AUTH_ECDSA\<rparr>"

definition TLS_ECDHE_ECDSA_WITH_RC4_128_SHA :: cipher_suite where
  "TLS_ECDHE_ECDSA_WITH_RC4_128_SHA = \<lparr>cs_id = 49159, cs_name =
     ''TLS_ECDHE_ECDSA_WITH_RC4_128_SHA'',
     minimum_version = ver V_TLSv1, maximum_version = ver V_TLSv1_2,
     strength_bits = 128, alg_bits = 128, aead = False, symmetric = SYM_RC4_128,
     digest = Some HASH_SHA1, prf_hash = HASH_SHA256,
     kea = KEA_ECDHE, auth = AUTH_ECDSA\<rparr>"

definition TLS_ECDHE_ECDSA_WITH_3DES_EDE_CBC_SHA :: cipher_suite where
  "TLS_ECDHE_ECDSA_WITH_3DES_EDE_CBC_SHA = \<lparr>cs_id = 49160, cs_name =
     ''TLS_ECDHE_ECDSA_WITH_3DES_EDE_CBC_SHA'',
     minimum_version = ver V_TLSv1, maximum_version = ver V_TLSv1_2,
     strength_bits = 112, alg_bits = 168, aead = False, symmetric = SYM_TRIPLE_DES_EDE_CBC,
     digest = Some HASH_SHA1, prf_hash = HASH_SHA256,
     kea = KEA_ECDHE, auth = AUTH_ECDSA\<rparr>"

definition TLS_ECDHE_ECDSA_WITH_AES_128_CBC_SHA :: cipher_suite where
  "TLS_ECDHE_ECDSA_WITH_AES_128_CBC_SHA = \<lparr>cs_id = 49161, cs_name =
     ''TLS_ECDHE_ECDSA_WITH_AES_128_CBC_SHA'',
     minimum_version = ver V_TLSv1, maximum_version = ver V_TLSv1_2,
     strength_bits = 128, alg_bits = 128, aead = False, symmetric = SYM_AES_128_CBC,
     digest = Some HASH_SHA1, prf_hash = HASH_SHA256,
     kea = KEA_ECDHE, auth = AUTH_ECDSA\<rparr>"

definition TLS_ECDHE_ECDSA_WITH_AES_256_CBC_SHA :: cipher_suite where
  "TLS_ECDHE_ECDSA_WITH_AES_256_CBC_SHA = \<lparr>cs_id = 49162, cs_name =
     ''TLS_ECDHE_ECDSA_WITH_AES_256_CBC_SHA'',
     minimum_version = ver V_TLSv1, maximum_version = ver V_TLSv1_2,
     strength_bits = 256, alg_bits = 256, aead = False, symmetric = SYM_AES_256_CBC,
     digest = Some HASH_SHA1, prf_hash = HASH_SHA256,
     kea = KEA_ECDHE, auth = AUTH_ECDSA\<rparr>"

definition TLS_ECDHE_ECDSA_WITH_AES_128_CBC_SHA256 :: cipher_suite where
  "TLS_ECDHE_ECDSA_WITH_AES_128_CBC_SHA256 = \<lparr>cs_id = 49187, cs_name =
     ''TLS_ECDHE_ECDSA_WITH_AES_128_CBC_SHA256'',
     minimum_version = ver V_TLSv1_2, maximum_version = ver V_TLSv1_2,
     strength_bits = 128, alg_bits = 128, aead = False, symmetric = SYM_AES_128_CBC,
     digest = Some HASH_SHA256, prf_hash = HASH_SHA256,
     kea = KEA_ECDHE, auth = AUTH_ECDSA\<rparr>"

definition TLS_ECDHE_ECDSA_WITH_AES_256_CBC_SHA384 :: cipher_suite where
  "TLS_ECDHE_ECDSA_WITH_AES_256_CBC_SHA384 = \<lparr>cs_id = 49188, cs_name =
     ''TLS_ECDHE_ECDSA_WITH_AES_256_CBC_SHA384'',
     minimum_version = ver V_TLSv1_2, maximum_version = ver V_TLSv1_2,
     strength_bits = 256, alg_bits = 256, aead = False, symmetric = SYM_AES_256_CBC,
     digest = Some HASH_SHA384, prf_hash = HASH_SHA384,
     kea = KEA_ECDHE, auth = AUTH_ECDSA\<rparr>"

definition TLS_ECDHE_ECDSA_WITH_AES_128_CCM :: cipher_suite where
  "TLS_ECDHE_ECDSA_WITH_AES_128_CCM = \<lparr>cs_id = 49324, cs_name =
     ''TLS_ECDHE_ECDSA_WITH_AES_128_CCM'',
     minimum_version = ver V_TLSv1_2, maximum_version = ver V_TLSv1_2,
     strength_bits = 128, alg_bits = 128, aead = True, symmetric = SYM_AES_128_CCM,
     digest = None, prf_hash = HASH_SHA256,
     kea = KEA_ECDHE, auth = AUTH_ECDSA\<rparr>"

definition TLS_ECDHE_ECDSA_WITH_AES_256_CCM :: cipher_suite where
  "TLS_ECDHE_ECDSA_WITH_AES_256_CCM = \<lparr>cs_id = 49325, cs_name =
     ''TLS_ECDHE_ECDSA_WITH_AES_256_CCM'',
     minimum_version = ver V_TLSv1_2, maximum_version = ver V_TLSv1_2,
     strength_bits = 256, alg_bits = 256, aead = True, symmetric = SYM_AES_256_CCM,
     digest = None, prf_hash = HASH_SHA256,
     kea = KEA_ECDHE, auth = AUTH_ECDSA\<rparr>"

definition TLS_ECDHE_ECDSA_WITH_AES_128_CCM_8 :: cipher_suite where
  "TLS_ECDHE_ECDSA_WITH_AES_128_CCM_8 = \<lparr>cs_id = 49326, cs_name =
     ''TLS_ECDHE_ECDSA_WITH_AES_128_CCM_8'',
     minimum_version = ver V_TLSv1_2, maximum_version = ver V_TLSv1_2,
     strength_bits = 128, alg_bits = 128, aead = True, symmetric = SYM_AES_128_CCM_8,
     digest = None, prf_hash = HASH_SHA256,
     kea = KEA_ECDHE, auth = AUTH_ECDSA\<rparr>"

definition TLS_ECDHE_ECDSA_WITH_AES_256_CCM_8 :: cipher_suite where
  "TLS_ECDHE_ECDSA_WITH_AES_256_CCM_8 = \<lparr>cs_id = 49327, cs_name =
     ''TLS_ECDHE_ECDSA_WITH_AES_256_CCM_8'',
     minimum_version = ver V_TLSv1_2, maximum_version = ver V_TLSv1_2,
     strength_bits = 256, alg_bits = 256, aead = True, symmetric = SYM_AES_256_CCM_8,
     digest = None, prf_hash = HASH_SHA256,
     kea = KEA_ECDHE, auth = AUTH_ECDSA\<rparr>"

definition TLS_ECDHE_ECDSA_WITH_AES_128_GCM_SHA256 :: cipher_suite where
  "TLS_ECDHE_ECDSA_WITH_AES_128_GCM_SHA256 = \<lparr>cs_id = 49195, cs_name =
     ''TLS_ECDHE_ECDSA_WITH_AES_128_GCM_SHA256'',
     minimum_version = ver V_TLSv1_2, maximum_version = ver V_TLSv1_2,
     strength_bits = 128, alg_bits = 128, aead = True, symmetric = SYM_AES_128_GCM,
     digest = None, prf_hash = HASH_SHA256,
     kea = KEA_ECDHE, auth = AUTH_ECDSA\<rparr>"

definition TLS_ECDHE_ECDSA_WITH_AES_256_GCM_SHA384 :: cipher_suite where
  "TLS_ECDHE_ECDSA_WITH_AES_256_GCM_SHA384 = \<lparr>cs_id = 49196, cs_name =
     ''TLS_ECDHE_ECDSA_WITH_AES_256_GCM_SHA384'',
     minimum_version = ver V_TLSv1_2, maximum_version = ver V_TLSv1_2,
     strength_bits = 256, alg_bits = 256, aead = True, symmetric = SYM_AES_256_GCM,
     digest = None, prf_hash = HASH_SHA384,
     kea = KEA_ECDHE, auth = AUTH_ECDSA\<rparr>"

definition TLS_ECDHE_ECDSA_WITH_CHACHA20_POLY1305_SHA256 :: cipher_suite where
  "TLS_ECDHE_ECDSA_WITH_CHACHA20_POLY1305_SHA256 = \<lparr>cs_id = 52393, cs_name =
     ''TLS_ECDHE_ECDSA_WITH_CHACHA20_POLY1305_SHA256'',
     minimum_version = ver V_TLSv1_2, maximum_version = ver V_TLSv1_2,
     strength_bits = 256, alg_bits = 256, aead = True, symmetric = SYM_CHACHA20_POLY1305,
     digest = None, prf_hash = HASH_SHA256,
     kea = KEA_ECDHE, auth = AUTH_ECDSA\<rparr>"

definition TLS_FALLBACK_SCSV :: cipher_suite where
  "TLS_FALLBACK_SCSV = \<lparr>cs_id = 22016, cs_name = ''TLS_FALLBACK_SCSV'',
     minimum_version = ver V_TLSv1, maximum_version = ver V_TLSv1_2,
     strength_bits = 0, alg_bits = 0, aead = False, symmetric = SYM_NULL,
     digest = None, prf_hash = HASH_SHA256,
     kea = KEA_NONE, auth = AUTH_NONE\<rparr>"

definition TLS_EMPTY_RENEGOTIATION_INFO_SCSV :: cipher_suite where
  "TLS_EMPTY_RENEGOTIATION_INFO_SCSV = \<lparr>cs_id = 255, cs_name =
     ''TLS_EMPTY_RENEGOTIATION_INFO_SCSV'',
     minimum_version = ver V_TLSv1, maximum_version = ver V_TLSv1_2,
     strength_bits = 128, alg_bits = 128, aead = False, symmetric = SYM_NULL,
     digest = None, prf_hash = HASH_SHA256,
     kea = KEA_NONE, auth = AUTH_NONE\<rparr>"

definition TLS_AES_128_GCM_SHA256 :: cipher_suite where
  "TLS_AES_128_GCM_SHA256 = \<lparr>cs_id = 4865, cs_name = ''TLS_AES_128_GCM_SHA256'',
     minimum_version = ver V_TLSv1_3, maximum_version = ver V_TLSv1_3,
     strength_bits = 128, alg_bits = 128, aead = True, symmetric = SYM_AES_128_GCM,
     digest = None, prf_hash = HASH_SHA256,
     kea = KEA_NONE, auth = AUTH_NONE\<rparr>"

definition TLS_AES_256_GCM_SHA384 :: cipher_suite where
  "TLS_AES_256_GCM_SHA384 = \<lparr>cs_id = 4866, cs_name = ''TLS_AES_256_GCM_SHA384'',
     minimum_version = ver V_TLSv1_3, maximum_version = ver V_TLSv1_3,
     strength_bits = 256, alg_bits = 256, aead = True, symmetric = SYM_AES_256_GCM,
     digest = None, prf_hash = HASH_SHA384,
     kea = KEA_NONE, auth = AUTH_NONE\<rparr>"

definition TLS_CHACHA20_POLY1305_SHA256 :: cipher_suite where
  "TLS_CHACHA20_POLY1305_SHA256 = \<lparr>cs_id = 4867, cs_name = ''TLS_CHACHA20_POLY1305_SHA256'',
     minimum_version = ver V_TLSv1_3, maximum_version = ver V_TLSv1_3,
     strength_bits = 256, alg_bits = 256, aead = True, symmetric = SYM_CHACHA20_POLY1305,
     digest = None, prf_hash = HASH_SHA256,
     kea = KEA_NONE, auth = AUTH_NONE\<rparr>"

definition TLS_AES_128_CCM_SHA256 :: cipher_suite where
  "TLS_AES_128_CCM_SHA256 = \<lparr>cs_id = 4868, cs_name = ''TLS_AES_128_CCM_SHA256'',
     minimum_version = ver V_TLSv1_3, maximum_version = ver V_TLSv1_3,
     strength_bits = 128, alg_bits = 128, aead = True, symmetric = SYM_AES_128_CCM,
     digest = None, prf_hash = HASH_SHA256,
     kea = KEA_NONE, auth = AUTH_NONE\<rparr>"

definition TLS_AES_128_CCM_8_SHA256 :: cipher_suite where
  "TLS_AES_128_CCM_8_SHA256 = \<lparr>cs_id = 4869, cs_name = ''TLS_AES_128_CCM_8_SHA256'',
     minimum_version = ver V_TLSv1_3, maximum_version = ver V_TLSv1_3,
     strength_bits = 128, alg_bits = 128, aead = True, symmetric = SYM_AES_128_CCM_8,
     digest = None, prf_hash = HASH_SHA256,
     kea = KEA_NONE, auth = AUTH_NONE\<rparr>"

definition ALL_CIPHER_SUITES :: "cipher_suite list" where
  "ALL_CIPHER_SUITES =
     [TLS_RSA_WITH_NULL_MD5,
      TLS_RSA_WITH_NULL_SHA,
      TLS_RSA_WITH_NULL_SHA256,
      TLS_RSA_WITH_RC4_128_MD5,
      TLS_RSA_WITH_RC4_128_SHA,
      TLS_RSA_WITH_3DES_EDE_CBC_SHA,
      TLS_RSA_WITH_AES_128_CBC_SHA,
      TLS_RSA_WITH_AES_256_CBC_SHA,
      TLS_RSA_WITH_AES_128_CBC_SHA256,
      TLS_RSA_WITH_AES_256_CBC_SHA256,
      TLS_RSA_WITH_AES_128_CCM,
      TLS_RSA_WITH_AES_256_CCM,
      TLS_RSA_WITH_AES_128_CCM_8,
      TLS_RSA_WITH_AES_256_CCM_8,
      TLS_RSA_WITH_AES_128_GCM_SHA256,
      TLS_RSA_WITH_AES_256_GCM_SHA384,
      TLS_DHE_DSS_WITH_3DES_EDE_CBC_SHA,
      TLS_DHE_DSS_WITH_AES_128_CBC_SHA,
      TLS_DHE_DSS_WITH_AES_256_CBC_SHA,
      TLS_DHE_DSS_WITH_AES_128_CBC_SHA256,
      TLS_DHE_DSS_WITH_AES_256_CBC_SHA256,
      TLS_DHE_DSS_WITH_AES_128_GCM_SHA256,
      TLS_DHE_DSS_WITH_AES_256_GCM_SHA384,
      TLS_DHE_RSA_WITH_3DES_EDE_CBC_SHA,
      TLS_DHE_RSA_WITH_AES_128_CBC_SHA,
      TLS_DHE_RSA_WITH_AES_256_CBC_SHA,
      TLS_DHE_RSA_WITH_AES_128_CBC_SHA256,
      TLS_DHE_RSA_WITH_AES_256_CBC_SHA256,
      TLS_DHE_RSA_WITH_AES_128_CCM,
      TLS_DHE_RSA_WITH_AES_256_CCM,
      TLS_DHE_RSA_WITH_AES_128_CCM_8,
      TLS_DHE_RSA_WITH_AES_256_CCM_8,
      TLS_DHE_RSA_WITH_AES_128_GCM_SHA256,
      TLS_DHE_RSA_WITH_AES_256_GCM_SHA384,
      TLS_DHE_RSA_WITH_CHACHA20_POLY1305_SHA256,
      TLS_ECDHE_RSA_WITH_NULL_SHA,
      TLS_ECDHE_RSA_WITH_RC4_128_SHA,
      TLS_ECDHE_RSA_WITH_3DES_EDE_CBC_SHA,
      TLS_ECDHE_RSA_WITH_AES_128_CBC_SHA,
      TLS_ECDHE_RSA_WITH_AES_256_CBC_SHA,
      TLS_ECDHE_RSA_WITH_AES_128_CBC_SHA256,
      TLS_ECDHE_RSA_WITH_AES_256_CBC_SHA384,
      TLS_ECDHE_RSA_WITH_AES_128_GCM_SHA256,
      TLS_ECDHE_RSA_WITH_AES_256_GCM_SHA384,
      TLS_ECDHE_RSA_WITH_CHACHA20_POLY1305_SHA256,
      TLS_ECDHE_ECDSA_WITH_NULL_SHA,
      TLS_ECDHE_ECDSA_WITH_RC4_128_SHA,
      TLS_ECDHE_ECDSA_WITH_3DES_EDE_CBC_SHA,
      TLS_ECDHE_ECDSA_WITH_AES_128_CBC_SHA,
      TLS_ECDHE_ECDSA_WITH_AES_256_CBC_SHA,
      TLS_ECDHE_ECDSA_WITH_AES_128_CBC_SHA256,
      TLS_ECDHE_ECDSA_WITH_AES_256_CBC_SHA384,
      TLS_ECDHE_ECDSA_WITH_AES_128_CCM,
      TLS_ECDHE_ECDSA_WITH_AES_256_CCM,
      TLS_ECDHE_ECDSA_WITH_AES_128_CCM_8,
      TLS_ECDHE_ECDSA_WITH_AES_256_CCM_8,
      TLS_ECDHE_ECDSA_WITH_AES_128_GCM_SHA256,
      TLS_ECDHE_ECDSA_WITH_AES_256_GCM_SHA384,
      TLS_ECDHE_ECDSA_WITH_CHACHA20_POLY1305_SHA256,
      TLS_FALLBACK_SCSV,
      TLS_EMPTY_RENEGOTIATION_INFO_SCSV,
      TLS_AES_128_GCM_SHA256,
      TLS_AES_256_GCM_SHA384,
      TLS_CHACHA20_POLY1305_SHA256,
      TLS_AES_128_CCM_SHA256,
      TLS_AES_128_CCM_8_SHA256]"

text \<open>\<open>CipherSuite(n)\<close>: the enumeration's lookup by value, through \<open>__eq__\<close> and \<open>__hash__\<close>.\<close>

definition cipher_suite_eq :: "cipher_suite \<Rightarrow> cipher_suite \<Rightarrow> bool" where
  "cipher_suite_eq a b \<longleftrightarrow> cs_id a = cs_id b"

definition CipherSuite_of :: "int \<Rightarrow> cipher_suite result" where
  "CipherSuite_of n = (case find (\<lambda>c. cs_id c = n) ALL_CIPHER_SUITES of
      None \<Rightarrow> Inl ValueError
    | Some c \<Rightarrow> Inr c)"

lemmas cipher_suite_defs =
  TLS_RSA_WITH_NULL_MD5_def TLS_RSA_WITH_NULL_SHA_def TLS_RSA_WITH_NULL_SHA256_def
  TLS_RSA_WITH_RC4_128_MD5_def TLS_RSA_WITH_RC4_128_SHA_def TLS_RSA_WITH_3DES_EDE_CBC_SHA_def
  TLS_RSA_WITH_AES_128_CBC_SHA_def TLS_RSA_WITH_AES_256_CBC_SHA_def
  TLS_RSA_WITH_AES_128_CBC_SHA256_def TLS_RSA_WITH_AES_256_CBC_SHA256_def
  TLS_RSA_WITH_AES_128_CCM_def TLS_RSA_WITH_AES_256_CCM_def TLS_RSA_WITH_AES_128_CCM_8_def
  TLS_RSA_WITH_AES_256_CCM_8_def TLS_RSA_WITH_AES_128_GCM_SHA256_def
  TLS_RSA_WITH_AES_256_GCM_SHA384_def TLS_DHE_DSS_WITH_3DES_EDE_CBC_SHA_def
  TLS_DHE_DSS_WITH_AES_128_CBC_SHA_def TLS_DHE_DSS_WITH_AES_256_CBC_SHA_def
  TLS_DHE_DSS_WITH_AES_128_CBC_SHA256_def TLS_DHE_DSS_WITH_AES_256_CBC_SHA256_def
  TLS_DHE_DSS_WITH_AES_128_GCM_SHA256_def TLS_DHE_DSS_WITH_AES_256_GCM_SHA384_def
  TLS_DHE_RSA_WITH_3DES_EDE_CBC_SHA_def TLS_DHE_RSA_WITH_AES_128_CBC_SHA_def
  TLS_DHE_RSA_WITH_AES_256_CBC_SHA_def TLS_DHE_RSA_WITH_AES_128_CBC_SHA256_def
  TLS_DHE_RSA_WITH_AES_256_CBC_SHA256_def TLS_DHE_RSA_WITH_AES_128_CCM_def
  TLS_DHE_RSA_WITH_AES_256_CCM_def TLS_DHE_RSA_WITH_AES_128_CCM_8_def
  TLS_DHE_RSA_WITH_AES_256_CCM_8_def TLS_DHE_RSA_WITH_AES_128_GCM_SHA256_def
  TLS_DHE_RSA_WITH_AES_256_GCM_SHA384_def TLS_DHE_RSA_WITH_CHACHA20_POLY1305_SHA256_def
  TLS_ECDHE_RSA_WITH_NULL_SHA_def TLS_ECDHE_RSA_WITH_RC4_128_SHA_def
  TLS_ECDHE_RSA_WITH_3DES_EDE_CBC_SHA_def TLS_ECDHE_RSA_WITH_AES_128_CBC_SHA_def
  TLS_ECDHE_RSA_WITH_AES_256_CBC_SHA_def TLS_ECDHE_RSA_WITH_AES_128_CBC_SHA256_def
  TLS_ECDHE_RSA_WITH_AES_256_CBC_SHA384_def TLS_ECDHE_RSA_WITH_AES_128_GCM_SHA256_def
  TLS_ECDHE_RSA_WITH_AES_256_GCM_SHA384_def TLS_ECDHE_RSA_WITH_CHACHA20_POLY1305_SHA256_def
  TLS_ECDHE_ECDSA_WITH_NULL_SHA_def TLS_ECDHE_ECDSA_WITH_RC4_128_SHA_def
  TLS_ECDHE_ECDSA_WITH_3DES_EDE_CBC_SHA_def TLS_ECDHE_ECDSA_WITH_AES_128_CBC_SHA_def
  TLS_ECDHE_ECDSA_WITH_AES_256_CBC_SHA_def TLS_ECDHE_ECDSA_WITH_AES_128_CBC_SHA256_def
  TLS_ECDHE_ECDSA_WITH_AES_256_CBC_SHA384_def TLS_ECDHE_ECDSA_WITH_AES_128_CCM_def
  TLS_ECDHE_ECDSA_WITH_AES_256_CCM_def TLS_ECDHE_ECDSA_WITH_AES_128_CCM_8_def
  TLS_ECDHE_ECDSA_WITH_AES_256_CCM_8_def TLS_ECDHE_ECDSA_WITH_AES_128_GCM_SHA256_def
  TLS_ECDHE_ECDSA_WITH_AES_256_GCM_SHA384_def TLS_ECDHE_ECDSA_WITH_CHACHA20_POLY1305_SHA256_def
  TLS_FALLBACK_SCSV_def TLS_EMPTY_RENEGOTIATION_INFO_SCSV_def TLS_AES_128_GCM_SHA256_def
  TLS_AES_256_GCM_SHA384_def TLS_CHACHA20_POLY1305_SHA256_def TLS_AES_128_CCM_SHA256_def
  TLS_AES_128_CCM_8_SHA256_def

subsection \<open>Facts over the whole table\<close>

lemma all_cipher_suites_ids: "distinct (map cs_id ALL_CIPHER_SUITES)"
  by (simp add: ALL_CIPHER_SUITES_def cipher_suite_defs)

lemma find_distinct:
  "distinct (map f xs) \<Longrightarrow> x \<in> set xs \<Longrightarrow> find (\<lambda>y. f y = f x) xs = Some x"
  by (induction xs) auto

lemma CipherSuite_of_id: "c \<in> set ALL_CIPHER_SUITES \<Longrightarrow> CipherSuite_of (cs_id c) = Inr c"
  using find_distinct [OF all_cipher_suites_ids] by (simp add: CipherSuite_of_def)

lemma find_SomeD: "find P xs = Some x \<Longrightarrow> x \<in> set xs \<and> P x"
  by (induction xs) (auto split: if_splits)

lemma CipherSuite_of_Inr_iff:
  "CipherSuite_of n = Inr c \<longleftrightarrow> c \<in> set ALL_CIPHER_SUITES \<and> cs_id c = n"
proof
  assume "CipherSuite_of n = Inr c"
  then show "c \<in> set ALL_CIPHER_SUITES \<and> cs_id c = n"
    by (auto simp: CipherSuite_of_def split: option.splits dest: find_SomeD)
qed (auto simp: CipherSuite_of_id)

lemma cipher_suite_eq_iff:
  assumes "a \<in> set ALL_CIPHER_SUITES" and "b \<in> set ALL_CIPHER_SUITES"
  shows "cipher_suite_eq a b \<longleftrightarrow> a = b"
  unfolding cipher_suite_eq_def
  by (metis CipherSuite_of_id [OF assms(1)] CipherSuite_of_id [OF assms(2)] sum.inject(2))

lemma all_cipher_suites_range: "list_all (\<lambda>c. 0 < cs_id c \<and> cs_id c < 65536) ALL_CIPHER_SUITES"
  by (simp add: ALL_CIPHER_SUITES_def cipher_suite_defs)

end
