(* ===== verification/Primitives.thy ===== *)
theory Primitives
  imports Constants
begin

text \<open>
  The cryptographic primitives.  The package \<open>cryptography\<close> is not part of the repository, so its
  functions are a parameter of the model, the record \<open>crypto\<close>; what the code relies on is stated by
  \<open>mac_ok\<close>, \<open>hkdf_ok\<close>, \<open>aead_ok\<close> and \<open>cipher_ok\<close>.  The algorithm tables of \<open>src/simple_tls/tls/cipher.py\<close> and
  \<open>src/simple_tls/tls/utils.py\<close>, which say how the code uses the package, are definitions.

  A streaming context of the package (\<open>Cipher(...).encryptor()\<close>) is the function from everything
  that was fed to it to everything it has returned: \<open>cipher_encrypt\<close> and \<open>cipher_decrypt\<close>.  A block
  cipher returns whole blocks only.
\<close>

record crypto =
  hash_fn :: "HashAlgorithm \<Rightarrow> bytes \<Rightarrow> bytes"
  hash_digest_size :: "HashAlgorithm \<Rightarrow> nat"
  hkdf_expand_fn :: "HashAlgorithm \<Rightarrow> bytes \<Rightarrow> bytes \<Rightarrow> nat \<Rightarrow> bytes option" \<comment> \<open>prk, info, length\<close>
  hmac_fn :: "HashAlgorithm \<Rightarrow> bytes \<Rightarrow> bytes \<Rightarrow> bytes" \<comment> \<open>algorithm, key, message\<close>
  aead_encrypt :: "Symmetric \<Rightarrow> bytes \<Rightarrow> bytes \<Rightarrow> bytes \<Rightarrow> bytes \<Rightarrow> bytes" \<comment> \<open>key, nonce, data, aad\<close>
  aead_decrypt :: "Symmetric \<Rightarrow> bytes \<Rightarrow> bytes \<Rightarrow> bytes \<Rightarrow> bytes \<Rightarrow> bytes option"
  cipher_encrypt :: "Symmetric \<Rightarrow> bytes \<Rightarrow> bytes \<Rightarrow> bytes \<Rightarrow> bytes" \<comment> \<open>key, iv, all input\<close>
  cipher_decrypt :: "Symmetric \<Rightarrow> bytes \<Rightarrow> bytes \<Rightarrow> bytes \<Rightarrow> bytes"

subsection \<open>Algorithm tables\<close>

text \<open>\<open>get_algorithm\<close> looks a number up in \<open>_HASH_ALGORITHMS\<close>.\<close>

definition get_algorithm :: "int \<Rightarrow> HashAlgorithm result" where
  "get_algorithm hash_algorithm =
     (case find (\<lambda>h. hash_id h = hash_algorithm)
        [HASH_MD5, HASH_SHA1, HASH_SHA224, HASH_SHA256, HASH_SHA384, HASH_SHA512] of
        None \<Rightarrow> Inl ValueError
      | Some h \<Rightarrow> Inr h)"

record cipher_spec =
  key_length :: nat
  iv_length :: nat

record aead_spec = cipher_spec +
  tag_length :: nat

fun CIPHERS :: "Symmetric \<Rightarrow> cipher_spec result" where
  "CIPHERS SYM_AES_128_CBC = Inr \<lparr>key_length = 16, iv_length = 16\<rparr>"
| "CIPHERS SYM_AES_256_CBC = Inr \<lparr>key_length = 32, iv_length = 16\<rparr>"
| "CIPHERS SYM_RC4_128 = Inr \<lparr>key_length = 16, iv_length = 0\<rparr>"
| "CIPHERS SYM_TRIPLE_DES_EDE_CBC = Inr \<lparr>key_length = 24, iv_length = 8\<rparr>"
| "CIPHERS SYM_NULL = Inr \<lparr>key_length = 0, iv_length = 0\<rparr>"
| "CIPHERS _ = Inl KeyError"

fun AEAD_CIPHERS :: "Symmetric \<Rightarrow> aead_spec result" where
  "AEAD_CIPHERS SYM_AES_256_GCM = Inr \<lparr>key_length = 32, iv_length = 4, tag_length = 16\<rparr>"
| "AEAD_CIPHERS SYM_AES_128_GCM = Inr \<lparr>key_length = 16, iv_length = 4, tag_length = 16\<rparr>"
| "AEAD_CIPHERS SYM_AES_256_CCM_8 = Inr \<lparr>key_length = 32, iv_length = 4, tag_length = 8\<rparr>"
| "AEAD_CIPHERS SYM_AES_128_CCM_8 = Inr \<lparr>key_length = 16, iv_length = 4, tag_length = 8\<rparr>"
| "AEAD_CIPHERS SYM_AES_256_CCM = Inr \<lparr>key_length = 32, iv_length = 4, tag_length = 16\<rparr>"
| "AEAD_CIPHERS SYM_AES_128_CCM = Inr \<lparr>key_length = 16, iv_length = 4, tag_length = 16\<rparr>"
| "AEAD_CIPHERS SYM_CHACHA20_POLY1305 = Inr \<lparr>key_length = 32, iv_length = 12, tag_length = 16\<rparr>"
| "AEAD_CIPHERS SYM_CHACHA20_DRAFT_00 = Inr \<lparr>key_length = 32, iv_length = 4, tag_length = 16\<rparr>"
| "AEAD_CIPHERS _ = Inl KeyError"

text \<open>
  The block size of the package's contexts: 128 bits for AES, 64 bits for Triple DES, and 1 for the
  stream cipher.
\<close>

fun context_block_size :: "Symmetric \<Rightarrow> nat" where
  "context_block_size SYM_AES_128_CBC = 16"
| "context_block_size SYM_AES_256_CBC = 16"
| "context_block_size SYM_TRIPLE_DES_EDE_CBC = 8"
| "context_block_size _ = 1"

subsection \<open>What the code relies on\<close>

definition mac_ok :: "crypto \<Rightarrow> bool" where
  "mac_ok cr \<longleftrightarrow> (\<forall>alg key msg. length (hmac_fn cr alg key msg) = hash_digest_size cr alg \<and>
     length (hash_fn cr alg msg) = hash_digest_size cr alg \<and>
     0 < hash_digest_size cr alg \<and> hash_digest_size cr alg \<le> 64)"

definition hkdf_ok :: "crypto \<Rightarrow> bool" where
  "hkdf_ok cr \<longleftrightarrow> (\<forall>alg prk info n. n \<le> 255 * hash_digest_size cr alg \<longrightarrow>
     (\<exists>okm. hkdf_expand_fn cr alg prk info n = Some okm \<and> length okm = n))"

definition aead_ok :: "crypto \<Rightarrow> bool" where
  "aead_ok cr \<longleftrightarrow> (\<forall>alg spec key nonce data aad.
     AEAD_CIPHERS alg = Inr spec \<longrightarrow> length key = key_length spec \<longrightarrow> length nonce = 12 \<longrightarrow>
     length (aead_encrypt cr alg key nonce data aad) = length data + tag_length spec \<and>
     aead_decrypt cr alg key nonce (aead_encrypt cr alg key nonce data aad) aad = Some data)"

definition stream_ok :: "nat \<Rightarrow> (bytes \<Rightarrow> bytes) \<Rightarrow> bool" where
  "stream_ok bs f \<longleftrightarrow> (\<forall>h. length (f h) = length h - length h mod bs) \<and>
     (\<forall>h d. \<exists>t. f (h @ d) = f h @ t)"

definition cipher_ok :: "crypto \<Rightarrow> bool" where
  "cipher_ok cr \<longleftrightarrow> (\<forall>alg spec key iv.
     CIPHERS alg = Inr spec \<longrightarrow> length key = key_length spec \<longrightarrow> length iv = iv_length spec \<longrightarrow>
     stream_ok (context_block_size alg) (cipher_encrypt cr alg key iv) \<and>
     stream_ok (context_block_size alg) (cipher_decrypt cr alg key iv) \<and>
     (\<forall>h. context_block_size alg dvd length h \<longrightarrow>
        cipher_decrypt cr alg key iv (cipher_encrypt cr alg key iv h) = h))"

lemma context_block_size_pos [simp]: "0 < context_block_size alg"
  by (cases alg) simp_all

lemma AEAD_CIPHERS_lengths:
  "AEAD_CIPHERS alg = Inr spec \<Longrightarrow> iv_length spec = 4 \<or> iv_length spec = 12 \<and> alg = SYM_CHACHA20_POLY1305"
  by (cases alg) auto

lemma CIPHERS_lengths:
  "CIPHERS alg = Inr spec \<Longrightarrow> 1 < context_block_size alg \<Longrightarrow> iv_length spec = context_block_size alg"
  by (cases alg) auto

text \<open>
  A concrete instance of the parameter, with which the witnesses of the properties are evaluated:
  nothing is secret, but all the laws above hold.
\<close>

definition sample_crypto :: crypto where
  "sample_crypto = \<lparr>
     hash_fn = (\<lambda>alg d. replicate 20 (fold (+) d 1)),
     hash_digest_size = (\<lambda>alg. 20),
     hkdf_expand_fn = (\<lambda>alg prk info n. Some (replicate n (fold (+) (prk @ info) 1))),
     hmac_fn = (\<lambda>alg key d. replicate 20 (fold (+) (key @ d) 1)),
     aead_encrypt = (\<lambda>alg key nonce d aad.
        d @ replicate (case AEAD_CIPHERS alg of Inl _ \<Rightarrow> 0 | Inr s \<Rightarrow> tag_length s)
              (fold (+) (key @ nonce @ aad @ d) 0)),
     aead_decrypt = (\<lambda>alg key nonce c aad.
        let t = (case AEAD_CIPHERS alg of Inl _ \<Rightarrow> 0 | Inr s \<Rightarrow> tag_length s);
            d = take (length c - t) c
        in if drop (length c - t) c = replicate t (fold (+) (key @ nonce @ aad @ d) 0)
           then Some d else None),
     cipher_encrypt = (\<lambda>alg key iv h.
        map (\<lambda>b. b + 1) (take (length h - length h mod context_block_size alg) h)),
     cipher_decrypt = (\<lambda>alg key iv h.
        map (\<lambda>b. b - 1) (take (length h - length h mod context_block_size alg) h))\<rparr>"

lemma sample_stream_ok:
  assumes "0 < bs"
  shows "stream_ok bs (\<lambda>h. map f (take (length h - length h mod bs) h))"
proof -
  have "length h - length h mod bs \<le> length (h @ d) - length (h @ d) mod bs" for h d :: bytes
    by (metis div_le_mono minus_mod_eq_mult_div mult_le_mono2 length_append le_add1)
  moreover have "\<exists>t. map f (take m (h @ d)) = map f (take n h) @ t" if "n \<le> m" "n \<le> length h" for h d n m
  proof -
    have "take m (h @ d) = take n h @ take (m - n) (drop n (h @ d))"
      using take_add [of n "m - n" "h @ d"] that by simp
    then show ?thesis by (metis map_append)
  qed
  ultimately have "\<exists>t. map f (take (length (h @ d) - length (h @ d) mod bs) (h @ d)) =
      map f (take (length h - length h mod bs) h) @ t" for h d
    using diff_le_self by blast
  then show ?thesis unfolding stream_ok_def by auto
qed

lemma sample_crypto_ok: "mac_ok sample_crypto" "hkdf_ok sample_crypto" "aead_ok sample_crypto" "cipher_ok sample_crypto"
proof -
  show "mac_ok sample_crypto" by (simp add: mac_ok_def sample_crypto_def)
  show "hkdf_ok sample_crypto" by (simp add: hkdf_ok_def sample_crypto_def)
  show "aead_ok sample_crypto" by (simp add: aead_ok_def sample_crypto_def Let_def)
  show "cipher_ok sample_crypto"
    using sample_stream_ok [OF context_block_size_pos]
    by (auto simp: cipher_ok_def sample_crypto_def dvd_imp_mod_0 intro!: map_idI)
qed

end
