(* ===== verification/Constant_Time.thy ===== *)
theory Constant_Time
  imports Prelude
begin

text \<open>
  The constant-time helpers of \<open>src/ext/utils.c\<close>, which \<open>src/simple_tls/crypto/constant_time.py\<close> and
  \<open>src/simple_tls/crypto/utils.py\<close> re-export.  \<open>size_t\<close> is a 64-bit word and \<open>uint8_t\<close> a byte; every
  conversion that C does silently is a \<open>ucast\<close>.  The random bytes that replace a MAC come from
  \<open>os.urandom\<close> and are an argument.
\<close>

unbundle bit_operations_syntax

type_synonym size_t = "64 word"

definition MAX_PADDING_SIZE :: size_t where
  "MAX_PADDING_SIZE = 256"

definition MAX_MAC_SIZE :: size_t where
  "MAX_MAC_SIZE = 64"

definition ct_msb_s :: "size_t \<Rightarrow> size_t" where
  "ct_msb_s val = 0 - drop_bit 63 val"

definition ct_lt_s :: "size_t \<Rightarrow> size_t \<Rightarrow> size_t" where
  "ct_lt_s a b = ct_msb_s (a XOR ((a XOR b) OR ((a - b) XOR b)))"

definition ct_gt_s :: "size_t \<Rightarrow> size_t \<Rightarrow> size_t" where
  "ct_gt_s a b = ct_lt_s b a"

definition ct_le_s :: "size_t \<Rightarrow> size_t \<Rightarrow> size_t" where
  "ct_le_s a b = NOT (ct_gt_s a b)"

definition ct_ge_s :: "size_t \<Rightarrow> size_t \<Rightarrow> size_t" where
  "ct_ge_s a b = NOT (ct_lt_s a b)"

definition ct_is_zero_s :: "size_t \<Rightarrow> size_t" where
  "ct_is_zero_s val = ct_msb_s (NOT val AND (val - 1))"

definition ct_eq_s :: "size_t \<Rightarrow> size_t \<Rightarrow> size_t" where
  "ct_eq_s a b = ct_is_zero_s (a XOR b)"

definition ct_select_u8 :: "byte \<Rightarrow> byte \<Rightarrow> byte \<Rightarrow> byte" where
  "ct_select_u8 m a b = (m AND a) OR (NOT m AND b)"

definition ct_select_s :: "size_t \<Rightarrow> size_t \<Rightarrow> size_t \<Rightarrow> size_t" where
  "ct_select_s m a b = (m AND a) OR (NOT m AND b)"

text \<open>The values \<open>lo, lo + 1, ..., hi - 1\<close> of a loop counter of type \<open>size_t\<close>.\<close>

definition size_range :: "size_t \<Rightarrow> size_t \<Rightarrow> size_t list" where
  "size_range lo hi = map of_nat [unat lo ..< unat hi]"

definition data_at :: "bytes \<Rightarrow> size_t \<Rightarrow> byte" where
  "data_at data i = data ! unat i"

text \<open>The inner loop of \<open>cbc_get_mac\<close>, which reads every byte of the region that may hold the MAC.\<close>

definition extract_byte :: "bytes \<Rightarrow> size_t \<Rightarrow> size_t \<Rightarrow> size_t \<Rightarrow> byte" where
  "extract_byte data scan_start ori_data_len target_idx =
     fold (\<lambda>j extracted_byte.
       extracted_byte OR ucast ((ucast (data_at data j) :: size_t) AND ct_eq_s j target_idx))
       (size_range scan_start ori_data_len) 0"

text \<open>
  The result is the return code, the length stored in \<open>*data_len\<close> and the bytes stored in \<open>mac\<close>.
\<close>

definition cbc_get_mac ::
    "bytes \<Rightarrow> size_t \<Rightarrow> size_t \<Rightarrow> bytes \<Rightarrow> size_t \<Rightarrow> size_t \<Rightarrow> int \<times> size_t \<times> bytes" where
  "cbc_get_mac data block_size mac_size randmac ori_data_len bad_pad_mask =
     (let pad_len = (if block_size > 1 then ucast (data_at data (ori_data_len - 1)) else 0);
          pad_len = pad_len AND NOT bad_pad_mask;
          mac_start = ori_data_len - pad_len - (if block_size > 1 then 1 else 0) - mac_size;
          data_len = mac_start
      in if mac_size = 0 then (if bad_pad_mask = 0 then 1 else 0, data_len, [])
         else
           let scan_start = (if ori_data_len > MAX_PADDING_SIZE + MAX_MAC_SIZE
                             then ori_data_len - (MAX_PADDING_SIZE + MAX_MAC_SIZE) else 0)
           in (1, data_len,
               map (\<lambda>i. ct_select_u8 (ucast bad_pad_mask) (data_at randmac i)
                          (extract_byte data scan_start ori_data_len (mac_start + i)))
                 (size_range 0 mac_size)))"

text \<open>The loop over the padding, which collects in the mask what is wrong with it.\<close>

definition pad_mismatch :: "bytes \<Rightarrow> size_t \<Rightarrow> size_t \<Rightarrow> size_t \<Rightarrow> size_t \<Rightarrow> size_t" where
  "pad_mismatch data ori_data_len pad_len scan_bound bad_pad_mask =
     fold (\<lambda>i bad.
       let is_within_padding = ct_le_s i pad_len;
           actual_byte = data_at data (ori_data_len - 1 - i);
           diff = ucast actual_byte XOR pad_len
       in bad OR (diff AND is_within_padding))
       (size_range 0 scan_bound) bad_pad_mask"

definition cbc_bad_pad_mask :: "bytes \<Rightarrow> size_t \<Rightarrow> size_t \<Rightarrow> size_t" where
  "cbc_bad_pad_mask data ori_data_len overhead =
     (let pad_len = ucast (data_at data (ori_data_len - 1));
          max_pad = ori_data_len - overhead;
          bad_pad_mask = 0 OR ct_gt_s pad_len max_pad;
          scan_bound = (if ori_data_len < MAX_PADDING_SIZE then ori_data_len else MAX_PADDING_SIZE)
      in pad_mismatch data ori_data_len pad_len scan_bound bad_pad_mask)"

definition cbc_remove_pad_and_mac ::
    "bytes \<Rightarrow> size_t \<Rightarrow> size_t \<Rightarrow> bytes \<Rightarrow> int \<times> size_t \<times> bytes" where
  "cbc_remove_pad_and_mac data block_size mac_size randmac =
     (let data_len = of_nat (length data)
      in if mac_size > MAX_MAC_SIZE then (- 1, data_len, [])
         else
           let overhead = (if block_size = 1 then 0 else 1) + mac_size
           in if overhead > data_len then (0, data_len, [])
              else
                let ori_data_len = data_len;
                    bad_pad_mask =
                      (if block_size > 1 then cbc_bad_pad_mask data ori_data_len overhead else 0)
                in cbc_get_mac data block_size mac_size randmac ori_data_len bad_pad_mask)"

text \<open>
  The Python function: \<open>RuntimeError\<close> cannot happen because the size of the MAC is checked first.
\<close>

definition Py_cbc_remove_pad_and_mac ::
    "bytes \<Rightarrow> bytes \<Rightarrow> nat \<Rightarrow> nat \<Rightarrow> (nat \<times> bytes) result" where
  "Py_cbc_remove_pad_and_mac randmac data mac_size block_size =
     (if mac_size > unat MAX_MAC_SIZE then Inl ValueError
      else case cbc_remove_pad_and_mac data (of_nat block_size) (of_nat mac_size) randmac of
        (rv, output_len, extracted_mac) \<Rightarrow>
          if rv = - 1 then Inl RuntimeError
          else if rv = 0 then Inl ValueError
          else Inr (unat output_len, extracted_mac))"

definition strxor :: "bytes \<Rightarrow> bytes \<Rightarrow> bytes result" where
  "strxor in1 in2 =
     (if length in1 \<noteq> length in2 then Inl ValueError else Inr (map2 (XOR) in1 in2))"

subsection \<open>The comparison masks\<close>

lemma unat_less_64: "unat (w :: size_t) < 2 ^ 64"
  using unsigned_less [of w, where ?'a = nat] by simp

lemma bit_63_iff: "bit (w :: size_t) 63 \<longleftrightarrow> 2 ^ 63 \<le> unat w"
proof -
  have w: "unat w < 2 * 2 ^ 63" using unat_less_64 [of w] by simp
  have "bit w 63 \<longleftrightarrow> bit (unat w) 63" by (simp add: bit_unsigned_iff)
  also have "\<dots> \<longleftrightarrow> odd (unat w div 2 ^ 63)" by (rule bit_iff_odd)
  also have "\<dots> \<longleftrightarrow> 2 ^ 63 \<le> unat w"
  proof (cases "2 ^ 63 \<le> unat w")
    case True
    with w have "unat w div 2 ^ 63 = 1" by (intro div_nat_eqI) simp_all
    with True show ?thesis by simp
  qed simp
  finally show ?thesis .
qed

lemma ct_msb_s_eq: "ct_msb_s w = (if bit w 63 then - 1 else 0)"
proof -
  have "drop_bit 63 w = (if bit w 63 then 1 else 0)"
  proof (rule bit_word_eqI)
    fix n
    show "bit (drop_bit 63 w) n = bit (if bit w 63 then 1 else 0 :: size_t) n"
      by (cases n) (auto simp: bit_drop_bit_eq bit_1_iff dest: bit_imp_le_length)
  qed
  then show ?thesis by (simp add: ct_msb_s_def)
qed

lemma ct_lt_s_eq: "ct_lt_s a b = (if a < b then - 1 else 0)"
proof -
  have a: "unat a < 2 * 2 ^ 63" and b: "unat b < 2 * 2 ^ 63"
    using unat_less_64 by simp_all
  have d: "unat (a - b) = (if unat b \<le> unat a then unat a - unat b else unat a + 2 * 2 ^ 63 - unat b)"
    by (simp add: unat_sub_if_size word_size)
  have "bit (a XOR ((a XOR b) OR ((a - b) XOR b))) 63 \<longleftrightarrow> unat a < unat b"
    using a b unfolding bit_xor_iff bit_or_iff by (auto simp: bit_63_iff d)
  then show ?thesis by (simp add: ct_lt_s_def ct_msb_s_eq word_less_nat_alt)
qed

lemma ct_gt_s_eq: "ct_gt_s a b = (if a > b then - 1 else 0)"
  by (simp add: ct_gt_s_def ct_lt_s_eq)

lemma ct_le_s_eq: "ct_le_s a b = (if a \<le> b then - 1 else 0)"
  by (auto simp: ct_le_s_def ct_gt_s_eq)

lemma ct_ge_s_eq: "ct_ge_s a b = (if a \<ge> b then - 1 else 0)"
  by (auto simp: ct_ge_s_def ct_lt_s_eq)

lemma ct_is_zero_s_eq: "ct_is_zero_s v = (if v = 0 then - 1 else 0)"
proof (cases "v = 0")
  case True
  then show ?thesis by (simp add: ct_is_zero_s_def ct_msb_s_eq bit_minus_1_iff)
next
  case False
  then have "unat (v - 1) = unat v - 1" by (simp add: unat_minus_one)
  then have "\<not> bit (NOT v AND (v - 1)) 63"
    unfolding bit_and_iff bit_not_iff by (auto simp: bit_63_iff)
  with False show ?thesis by (simp add: ct_is_zero_s_def ct_msb_s_eq)
qed

lemma xor_eq_0_iff: "(a :: 'a :: len word) XOR b = 0 \<longleftrightarrow> a = b"
  by (auto simp: bit_eq_iff bit_xor_iff)

lemma ct_eq_s_eq: "ct_eq_s a b = (if a = b then - 1 else 0)"
  by (simp add: ct_eq_s_def ct_is_zero_s_eq xor_eq_0_iff)

lemma ct_select_u8_simps [simp]: "ct_select_u8 0 a b = b" "ct_select_u8 (- 1) a b = a"
  by (simp_all add: ct_select_u8_def)

subsection \<open>The scanning loops\<close>

lemma in_size_range: "x \<in> set (size_range lo hi) \<longleftrightarrow> lo \<le> x \<and> x < hi"
proof -
  have "unat hi < 2 ^ 64" by (rule unat_less_64)
  then have "x \<in> set (size_range lo hi) \<longleftrightarrow> unat lo \<le> unat x \<and> unat x < unat hi"
    by (auto simp: size_range_def unat_of_nat take_bit_eq_mod image_iff intro!: bexI [where x = "unat x"])
  then show ?thesis by (simp add: word_le_nat_alt word_less_nat_alt)
qed

lemma fold_or_eq_0_iff:
  "fold (\<lambda>i m. m OR f i) xs m = (0 :: 'a :: len word) \<longleftrightarrow> m = 0 \<and> (\<forall>i \<in> set xs. f i = 0)"
  by (induction xs arbitrary: m) (auto simp: or_eq_0_iff)

lemma fold_or_top: "fold (\<lambda>i m. m OR f i) xs (- 1) = (- 1 :: 'a :: len word)"
  by (induction xs) simp_all

lemma fold_or_select:
  "fold (\<lambda>j acc. acc OR (if j = t then v else 0)) xs a =
     (if t \<in> set xs then a OR v else (a :: 'a :: len word))"
  by (induction xs arbitrary: a) (auto simp: or.assoc)

lemma ucast_byte [simp]: "ucast (ucast (b :: byte) :: size_t) = b"
  by (rule bit_word_eqI) (simp add: bit_ucast_iff)

lemma extract_byte_eq:
  "extract_byte data s n t = (if s \<le> t \<and> t < n then data_at data t else 0)"
proof -
  have "(\<lambda>j acc. acc OR ucast ((ucast (data_at data j) :: size_t) AND ct_eq_s j t)) =
     (\<lambda>j acc. acc OR (if j = t then data_at data t else 0))"
    by (auto simp: fun_eq_iff ct_eq_s_eq)
  then show ?thesis by (simp add: extract_byte_def fold_or_select in_size_range)
qed

lemma pad_mismatch_eq_0_iff:
  "pad_mismatch data n pad bound m = 0 \<longleftrightarrow>
     m = 0 \<and> (\<forall>i < bound. i \<le> pad \<longrightarrow> ucast (data_at data (n - 1 - i)) = pad)"
  unfolding pad_mismatch_def Let_def fold_or_eq_0_iff
  by (auto simp: in_size_range ct_le_s_eq xor_eq_0_iff split: if_splits)

subsection \<open>Padding and MAC\<close>

text \<open>
  From here on a buffer has fewer than \<open>2 ^ 63\<close> bytes, as every Python object has
  (\<open>Py_ssize_t\<close>), so that \<open>size_t\<close> arithmetic on its length does not wrap.
\<close>

lemma unat_of_nat_64: "n < 2 ^ 64 \<Longrightarrow> unat (of_nat n :: size_t) = n"
  by (simp add: unat_of_nat take_bit_eq_mod)

lemma unat_ucast_byte: "unat (ucast (b :: byte) :: size_t) = unat b"
  using unsigned_less [of b, where ?'a = nat] by (simp add: unsigned_ucast_eq take_bit_nat_eq_self)

lemma data_at_last:
  assumes "data \<noteq> []" and "length data < 2 ^ 63"
  shows "data_at data (of_nat (length data) - 1) = last data"
proof -
  have "unat (of_nat (length data) :: size_t) = length data" using assms(2) by (simp add: unat_of_nat_64)
  moreover from this have "(1 :: size_t) \<le> of_nat (length data)"
    using assms(1) by (cases data) (simp_all add: word_le_nat_alt)
  ultimately show ?thesis using assms(1) by (simp add: data_at_def unat_sub last_conv_nth)
qed

lemma cbc_bad_pad_mask_zero_iff:
  assumes n: "length data < 2 ^ 63" and o: "0 < ov" "ov \<le> length data"
  shows "cbc_bad_pad_mask data (of_nat (length data)) (of_nat ov) = 0 \<longleftrightarrow>
    unat (last data) \<le> length data - ov \<and>
    (\<forall>i \<le> unat (last data). data ! (length data - 1 - i) = last data)"
proof -
  let ?n = "of_nat (length data) :: size_t" and ?pad = "ucast (last data) :: size_t"
  have un: "unat ?n = length data" and uo: "unat (of_nat ov :: size_t) = ov"
    using n o by (simp_all add: unat_of_nat_64)
  have n1: "(1 :: size_t) \<le> ?n" using o by (simp add: word_le_nat_alt un)
  have last: "data_at data (?n - 1) = last data" using o n by (intro data_at_last) auto
  have up: "unat ?pad = unat (last data)" by (rule unat_ucast_byte)
  have p256: "unat (last data) < 256"
    using unsigned_less [of "last data", where ?'a = nat] by simp
  have gt: "ct_gt_s ?pad (?n - of_nat ov) = 0 \<longleftrightarrow> unat (last data) \<le> length data - ov"
    using o by (simp add: ct_gt_s_eq word_less_nat_alt unat_sub word_le_nat_alt un uo up not_less)
  let ?bound = "if ?n < MAX_PADDING_SIZE then ?n else MAX_PADDING_SIZE"
  have "(\<forall>i < ?bound. i \<le> ?pad \<longrightarrow> ucast (data_at data (?n - 1 - i)) = ?pad) \<longleftrightarrow>
     (\<forall>i \<le> unat (last data). data ! (length data - 1 - i) = last data)"
    if le: "unat (last data) \<le> length data - ov"
  proof -
    have at: "data_at data (?n - 1 - i) = data ! (length data - 1 - unat i)" if "unat i < length data" for i
      using that n1 by (simp add: data_at_def unat_sub un word_le_nat_alt)
    have inj: "(ucast (a :: byte) :: size_t) = ucast b \<longleftrightarrow> a = b" for a b
      by (metis ucast_byte)
    have lt: "i < length data \<and> i < 256" if "i \<le> unat (last data)" for i
      using that le o p256 by linarith
    show ?thesis
    proof (intro iffI allI impI)
      fix i
      assume a: "\<forall>i < ?bound. i \<le> ?pad \<longrightarrow> ucast (data_at data (?n - 1 - i)) = ?pad"
        and i: "i \<le> unat (last data)"
      have ui: "unat (of_nat i :: size_t) = i" using lt [OF i] by (intro unat_of_nat_64) simp
      have "of_nat i < ?bound" "of_nat i \<le> ?pad"
        using lt [OF i] i
        by (auto simp: word_less_nat_alt word_le_nat_alt un ui up MAX_PADDING_SIZE_def)
      with a have "ucast (data_at data (?n - 1 - of_nat i)) = ?pad" by blast
      then show "data ! (length data - 1 - i) = last data"
        using at [of "of_nat i"] lt [OF i] ui inj by simp
    next
      fix i
      assume a: "\<forall>i \<le> unat (last data). data ! (length data - 1 - i) = last data"
        and i: "i < ?bound" "i \<le> ?pad"
      then have "unat i \<le> unat (last data)" by (simp add: word_le_nat_alt up)
      with a at [of i] lt show "ucast (data_at data (?n - 1 - i)) = ?pad" by auto
    qed
  qed
  with gt last show ?thesis
    by (auto simp: cbc_bad_pad_mask_def Let_def pad_mismatch_eq_0_iff)
qed


text \<open>Well-formed padding, as \<open>_get_pad\<close> makes it: \<open>p + 1\<close> bytes of value \<open>p\<close> at the end.\<close>

definition padded :: "bytes \<Rightarrow> nat \<Rightarrow> bool" where
  "padded data ov \<longleftrightarrow> unat (last data) \<le> length data - ov \<and>
     (\<forall>i \<le> unat (last data). data ! (length data - 1 - i) = last data)"

lemma padded_split:
  assumes "padded data ov" and "0 < ov" "ov \<le> length data"
  shows "data = take (length data - Suc (unat (last data))) data @
    replicate (Suc (unat (last data))) (last data)"
proof (rule nth_equalityI)
  let ?p = "unat (last data)"
  have p: "Suc ?p \<le> length data" using assms unfolding padded_def by linarith
  then show "length data = length (take (length data - Suc ?p) data @ replicate (Suc ?p) (last data))"
    by simp
  fix i
  assume i: "i < length data"
  show "data ! i = (take (length data - Suc ?p) data @ replicate (Suc ?p) (last data)) ! i"
  proof (cases "i < length data - Suc ?p")
    case False
    then have "length data - 1 - i \<le> ?p" using i by simp
    moreover have "length data - 1 - (length data - 1 - i) = i" using i by simp
    ultimately have "data ! i = last data" using assms(1) unfolding padded_def by metis
    with False i p show ?thesis by (simp add: nth_append nth_Cons')
  qed (simp add: nth_append)
qed

lemma padded_append:
  assumes "p < 256" and "ov \<le> Suc (length c)"
  shows "padded (c @ replicate (Suc p) (of_nat p)) ov"
proof -
  have u: "unat (of_nat p :: byte) = p" using assms(1) by (simp add: unat_of_nat take_bit_eq_mod)
  show ?thesis
    using assms(2) u unfolding padded_def
    by (auto simp: nth_append nth_Cons' simp del: replicate_Suc) 
qed

text \<open>The position of the MAC stays inside the buffer whatever the padding is.\<close>

lemma and_le_nat: "unat (a AND b) \<le> unat (a :: 'a :: len word)"
  by (simp add: unsigned_and_eq and_nat_def AND_upper1 nat_le_iff)

lemma mac_start_bounds:
  fixes mac_size :: nat
  assumes n: "length data < 2 ^ 63" and m: "mac_size \<le> 64" and ov: "Suc mac_size \<le> length data"
  defines "bad \<equiv> cbc_bad_pad_mask data (of_nat (length data)) (of_nat (Suc mac_size))"
  defines "pad \<equiv> (ucast (last data) :: size_t) AND NOT bad"
  shows "unat pad + Suc mac_size \<le> length data"
    and "unat (of_nat (length data) - pad - 1 - of_nat mac_size :: size_t) =
      length data - unat pad - Suc mac_size"
proof -
  let ?n = "of_nat (length data) :: size_t" and ?p = "ucast (last data) :: size_t"
  have un: "unat ?n = length data" and um: "unat (of_nat mac_size :: size_t) = mac_size"
    and uo: "unat (of_nat (Suc mac_size) :: size_t) = Suc mac_size"
    using n m by (simp_all add: unat_of_nat_64 del: of_nat_Suc)
  have last: "data_at data (?n - 1) = last data" using ov n by (intro data_at_last) auto
  show le: "unat pad + Suc mac_size \<le> length data"
  proof (cases "unat ?p \<le> length data - Suc mac_size")
    case True
    have "unat pad \<le> unat ?p" unfolding pad_def by (rule and_le_nat)
    with True ov show ?thesis by linarith
  next
    case False
    have "of_nat (Suc mac_size) \<le> ?n" using ov by (simp only: word_le_nat_alt un uo)
    then have "unat (?n - of_nat (Suc mac_size)) = length data - Suc mac_size"
      by (simp only: unat_sub un uo)
    with False have "ct_gt_s ?p (?n - of_nat (Suc mac_size)) = - 1"
      by (simp add: ct_gt_s_eq word_less_nat_alt del: of_nat_Suc)
    then have "bad = - 1"
      unfolding bad_def cbc_bad_pad_mask_def Let_def last pad_mismatch_def
      by (simp only: or.left_neutral fold_or_top)
    with ov show ?thesis by (simp add: pad_def)
  qed
  have a: "pad \<le> ?n" using le by (simp add: word_le_nat_alt un)
  have b: "1 \<le> ?n - pad" using le a by (simp add: word_le_nat_alt unat_sub un)
  have c: "of_nat mac_size \<le> ?n - pad - 1" using le a b by (simp add: word_le_nat_alt unat_sub un um)
  show "unat (?n - pad - 1 - of_nat mac_size) = length data - unat pad - Suc mac_size"
    using a b c by (simp add: unat_sub un um)
qed


lemma extract_mac:
  assumes n: "length data < 2 ^ 63" and m: "mac_size \<le> 64"
    and k: "k + mac_size \<le> length data" "length data \<le> k + mac_size + 256"
  defines "s \<equiv> if (of_nat (length data) :: size_t) > MAX_PADDING_SIZE + MAX_MAC_SIZE
    then of_nat (length data) - (MAX_PADDING_SIZE + MAX_MAC_SIZE) else 0"
  shows "map (\<lambda>i. extract_byte data s (of_nat (length data)) (of_nat k + i))
     (size_range 0 (of_nat mac_size)) = take mac_size (drop k data)"
proof -
  have un: "unat (of_nat (length data) :: size_t) = length data" using n by (simp add: unat_of_nat_64)
  have us: "unat s \<le> k"
    using k m by (auto simp: s_def MAX_PADDING_SIZE_def MAX_MAC_SIZE_def word_less_nat_alt un
        unat_sub word_le_nat_alt)
  have "extract_byte data s (of_nat (length data)) (of_nat k + of_nat i) = data ! (k + i)"
    if "i < mac_size" for i
  proof -
    have "unat (of_nat (k + i) :: size_t) = k + i" using that k n by (intro unat_of_nat_64) simp
    with us that k show ?thesis
      by (simp add: extract_byte_eq word_le_nat_alt word_less_nat_alt un data_at_def flip: of_nat_add)
  qed
  moreover have "unat (of_nat mac_size :: size_t) = mac_size" using m by (simp add: unat_of_nat_64)
  ultimately show ?thesis
    using k by (intro nth_equalityI) (auto simp: size_range_def)
qed

lemma cbc_remove_padded:
  assumes n: "length d < 2 ^ 63" and m: "mac_size \<le> 64" and ov: "Suc mac_size \<le> length d"
    and pad: "padded d (Suc mac_size)" and b: "1 < bs" "bs < 2 ^ 64"
  defines "k \<equiv> length d - Suc (unat (last d)) - mac_size"
  shows "Py_cbc_remove_pad_and_mac rnd d mac_size bs = Inr (k, take mac_size (drop k d))"
proof -
  let ?n = "of_nat (length d) :: size_t" and ?m = "of_nat mac_size :: size_t"
  have un: "unat ?n = length d" using n by (intro unat_of_nat_64) simp
  have um: "unat ?m = mac_size" and uo: "unat (1 + ?m) = Suc mac_size"
    using m unat_of_nat_64 [of "Suc mac_size"] by (auto intro: unat_of_nat_64)
  have bs: "(of_nat bs :: size_t) > 1" "(of_nat bs :: size_t) \<noteq> 1"
    using b by (auto simp: word_less_nat_alt unat_of_nat_64 dest: arg_cong [where f = unat])
  from pad have z: "cbc_bad_pad_mask d ?n (1 + ?m) = 0"
    using cbc_bad_pad_mask_zero_iff [of d "Suc mac_size"] n ov by (simp add: padded_def)
  have p: "unat (last d) + Suc mac_size \<le> length d" using pad ov unfolding padded_def by linarith
  have p256: "unat (last d) < 256" using unsigned_less [of "last d", where ?'a = nat] by simp
  have ms: "?n - ucast (last d) - 1 - ?m = of_nat k"
    using mac_start_bounds(2) [OF n m ov] z n
    by (intro word_unat_eq_iff [THEN iffD2]) (simp add: k_def unat_of_nat_64 unat_ucast_byte)
  have ov': "\<not> 1 + ?m > ?n" using ov by (simp add: word_less_nat_alt un uo)
  have last: "data_at d (?n - 1) = last d" using ov n by (intro data_at_last) auto
  have big: "\<not> ?m > MAX_MAC_SIZE" using m by (simp add: MAX_MAC_SIZE_def word_less_nat_alt um)
  have "cbc_remove_pad_and_mac d (of_nat bs) ?m rnd = (1, of_nat k, take mac_size (drop k d))"
  proof (cases "mac_size = 0")
    case True
    with z bs ov' big last ms show ?thesis
      by (simp add: cbc_remove_pad_and_mac_def cbc_get_mac_def Let_def)
  next
    case False
    then have "?m \<noteq> 0" using um by auto
    moreover have "k + mac_size \<le> length d" "length d \<le> k + mac_size + 256"
      using p p256 by (simp_all add: k_def)
    note x = extract_mac [OF n m this, folded ms]
    ultimately show ?thesis
      using z bs ov' big last by (simp add: cbc_remove_pad_and_mac_def cbc_get_mac_def x Let_def ms)
  qed
  moreover have "unat (of_nat k :: size_t) = k" using n by (intro unat_of_nat_64) (simp add: k_def)
  ultimately show ?thesis
    using m by (simp add: Py_cbc_remove_pad_and_mac_def MAX_MAC_SIZE_def)
qed

lemma cbc_remove_stream:
  assumes n: "length d < 2 ^ 63" and m: "mac_size \<le> 64"
  shows "Py_cbc_remove_pad_and_mac rnd d mac_size 1 =
    (if mac_size \<le> length d
     then Inr (length d - mac_size, drop (length d - mac_size) d) else Inl ValueError)"
proof -
  let ?n = "of_nat (length d) :: size_t" and ?m = "of_nat mac_size :: size_t"
  have un: "unat ?n = length d" using n by (intro unat_of_nat_64) simp
  have um: "unat ?m = mac_size" using m by (intro unat_of_nat_64) simp
  have big: "\<not> ?m > MAX_MAC_SIZE" using m by (simp add: MAX_MAC_SIZE_def word_less_nat_alt um)
  show ?thesis
  proof (cases "mac_size \<le> length d")
    case False
    with big m show ?thesis
      by (simp add: Py_cbc_remove_pad_and_mac_def cbc_remove_pad_and_mac_def word_less_nat_alt un um
          MAX_MAC_SIZE_def Let_def)
  next
    case True
    define k where "k = length d - mac_size"
    have k: "?n - ?m = of_nat k"
      using True n by (intro word_unat_eq_iff [THEN iffD2])
        (simp add: k_def unat_of_nat_64 unat_sub word_le_nat_alt un um)
    have "\<not> ?m > ?n" using True by (simp add: word_less_nat_alt un um)
    with k big extract_mac [of d mac_size k, OF n m] True um
    have "cbc_remove_pad_and_mac d 1 ?m rnd = (1, of_nat k, drop k d)"
      by (cases "mac_size = 0")
        (auto simp: cbc_remove_pad_and_mac_def cbc_get_mac_def Let_def k_def dest: arg_cong [where f = unat])
    moreover have "unat (of_nat k :: size_t) = k" using n by (intro unat_of_nat_64) (simp add: k_def)
    ultimately show ?thesis
      using m True by (simp add: Py_cbc_remove_pad_and_mac_def MAX_MAC_SIZE_def k_def)
  qed
qed


lemma cbc_remove_bounds:
  assumes n: "length d < 2 ^ 63" and r: "Py_cbc_remove_pad_and_mac rnd d mac_size bs = Inr (k, m)"
    and b: "0 < bs" "bs < 2 ^ 64"
  shows "k + mac_size + (if bs = 1 then 0 else 1) \<le> length d \<and> length m = mac_size"
proof (cases "bs = 1")
  case True
  from r have m: "mac_size \<le> 64"
    by (simp add: Py_cbc_remove_pad_and_mac_def MAX_MAC_SIZE_def split: if_splits)
  from True r cbc_remove_stream [OF n m] show ?thesis by (auto split: if_splits)
next
  case False
  let ?n = "of_nat (length d) :: size_t" and ?m = "of_nat mac_size :: size_t"
  from r have m: "mac_size \<le> 64"
    by (simp add: Py_cbc_remove_pad_and_mac_def MAX_MAC_SIZE_def split: if_splits)
  have un: "unat ?n = length d" using n by (intro unat_of_nat_64) simp
  have um: "unat ?m = mac_size" and uo: "unat (1 + ?m) = Suc mac_size"
    using m unat_of_nat_64 [of "Suc mac_size"] by (auto intro: unat_of_nat_64)
  have bs: "(of_nat bs :: size_t) > 1" "(of_nat bs :: size_t) \<noteq> 1"
    using b False by (auto simp: word_less_nat_alt unat_of_nat_64 dest: arg_cong [where f = unat])
  have ov: "Suc mac_size \<le> length d"
  proof (rule ccontr)
    assume "\<not> ?thesis"
    then have "1 + ?m > ?n" by (simp add: word_less_nat_alt un uo)
    with r bs show False
      by (auto simp: Py_cbc_remove_pad_and_mac_def cbc_remove_pad_and_mac_def Let_def split: if_splits)
  qed
  define pad where
    "pad = (ucast (last d) :: size_t) AND NOT (cbc_bad_pad_mask d ?n (of_nat (Suc mac_size)))"
  note ms = mac_start_bounds [OF n m ov, folded pad_def]
  have ov': "\<not> 1 + ?m > ?n" using ov by (simp add: word_less_nat_alt un uo)
  have last: "data_at d (?n - 1) = last d" using ov n by (intro data_at_last) auto
  have "k = unat (?n - pad - 1 - ?m)" "length m = mac_size"
    using r bs ov' um
    by (auto simp: Py_cbc_remove_pad_and_mac_def cbc_remove_pad_and_mac_def cbc_get_mac_def Let_def
        last pad_def size_range_def split: if_splits)
  with ms False show ?thesis by simp
qed

lemma cbc_remove_pad_only:
  assumes n: "length d < 2 ^ 63" and b: "1 < bs" "bs < 2 ^ 64"
  shows "Py_cbc_remove_pad_and_mac rnd d 0 bs =
    (if d \<noteq> [] \<and> padded d 1 then Inr (length d - Suc (unat (last d)), []) else Inl ValueError)"
proof (cases "d \<noteq> [] \<and> padded d 1")
  case True
  then show ?thesis using cbc_remove_padded [of d 0 bs rnd] n b by (cases d) auto
next
  case False
  let ?n = "of_nat (length d) :: size_t"
  have un: "unat ?n = length d" using n by (intro unat_of_nat_64) simp
  have bs: "(of_nat bs :: size_t) > 1" "(of_nat bs :: size_t) \<noteq> 1"
    using b by (auto simp: word_less_nat_alt unat_of_nat_64 dest: arg_cong [where f = unat])
  have "1 > ?n \<or> cbc_bad_pad_mask d ?n 1 \<noteq> 0"
    using False cbc_bad_pad_mask_zero_iff [of d 1] n by (cases d) (auto simp: padded_def)
  with False bs show ?thesis
    by (auto simp: Py_cbc_remove_pad_and_mac_def cbc_remove_pad_and_mac_def cbc_get_mac_def Let_def
        MAX_MAC_SIZE_def)
qed

lemma cbc_remove_valid:
  assumes "length (content @ mac @ replicate (Suc p) (of_nat p)) < 2 ^ 63" and "p < 256"
    and "length mac \<le> 64" and "1 < bs" and "bs < 2 ^ 64"
  shows "Py_cbc_remove_pad_and_mac rnd (content @ mac @ replicate (Suc p) (of_nat p)) (length mac) bs =
    Inr (length content, mac)"
proof -
  define d where "d = content @ mac @ replicate (Suc p) (of_nat p :: byte)"
  have u: "unat (last d) = p"
    using assms(2) by (simp add: d_def unat_of_nat take_bit_eq_mod)
  have "padded d (Suc (length mac))"
    using padded_append [OF assms(2), of "Suc (length mac)" "content @ mac"] by (simp add: d_def)
  from cbc_remove_padded [OF _ assms(3) _ this assms(4,5), of rnd] assms(1) show ?thesis
    unfolding d_def [symmetric] u by (simp add: d_def u [unfolded d_def])
qed

subsection \<open>Properties\<close>

text \<open>
  The branch-free comparisons of the C code return all ones exactly when the comparison holds, for
  all 64-bit operands, also where the subtraction inside them wraps around.
\<close>

theorem ct_masks:
  "ct_lt_s a b = (if a < b then - 1 else 0) \<and> ct_gt_s a b = (if a > b then - 1 else 0) \<and>
   ct_le_s a b = (if a \<le> b then - 1 else 0) \<and> ct_ge_s a b = (if a \<ge> b then - 1 else 0) \<and>
   ct_is_zero_s a = (if a = 0 then - 1 else 0) \<and> ct_eq_s a b = (if a = b then - 1 else 0)"
  by (simp add: ct_lt_s_eq ct_gt_s_eq ct_le_s_eq ct_ge_s_eq ct_is_zero_s_eq ct_eq_s_eq)

text \<open>
  C32: On a correctly padded CBC plaintext the scan extracts exactly the MAC and the length of the
  content, whatever the random bytes are: the region it scans is large enough for every padding
  length and every supported MAC.
\<close>

theorem cbc_remove_exact:
  assumes "length (content @ mac @ replicate (Suc p) (of_nat p)) < 2 ^ 63" and "p < 256"
    and "length mac \<le> 64" and "1 < bs" and "bs < 2 ^ 64"
  shows "Py_cbc_remove_pad_and_mac rnd (content @ mac @ replicate (Suc p) (of_nat p)) (length mac) bs =
    Inr (length content, mac)"
  by (rule cbc_remove_valid [OF assms])

theorem cbc_remove_exact_witness:
  "Py_cbc_remove_pad_and_mac [] ([1, 2, 3] @ [7, 8] @ replicate (Suc 2) (of_nat 2)) (length [7, 8 :: byte]) 8
     = Inr (length [1, 2, 3 :: byte], [7, 8])"
  by (rule cbc_remove_exact) simp_all

text \<open>
  C33: Whatever an attacker put into the padding, the length returned leaves room for the MAC and the
  padding length byte inside the buffer: the subtractions in \<open>cbc_get_mac\<close> never wrap.
\<close>

theorem cbc_remove_in_bounds:
  assumes "length d < 2 ^ 63" and "0 < bs" and "bs < 2 ^ 64"
    and "Py_cbc_remove_pad_and_mac rnd d mac_size bs = Inr (k, m)"
  shows "k + mac_size + (if bs = 1 then 0 else 1) \<le> length d \<and> length m = mac_size"
  by (rule cbc_remove_bounds [OF assms(1,4,2,3)])

theorem cbc_remove_in_bounds_witness:
  "3 + 2 + (if (1 :: nat) = 1 then 0 else 1) \<le> length [1, 2, 3, 9, 9 :: byte] \<and>
   length [9, 9 :: byte] = 2"
  by (rule cbc_remove_in_bounds [of _ 1 "[]" 2])
    (simp_all add: cbc_remove_stream [of _ 2, simplified])

text \<open>
  Without a MAC inside the padding (encrypt-then-MAC) the function is exactly the padding check: it
  succeeds iff the last \<open>p + 1\<close> bytes all have the value \<open>p\<close>, and then returns what precedes them.
\<close>

theorem cbc_remove_pad_iff:
  assumes "length d < 2 ^ 63" and "1 < bs" and "bs < 2 ^ 64"
  shows "Py_cbc_remove_pad_and_mac rnd d 0 bs = Inr (k, m) \<longleftrightarrow>
    m = [] \<and> k \<le> length d \<and> (\<exists>p < 256. d = take k d @ replicate (Suc p) (of_nat p))"
proof
  assume "Py_cbc_remove_pad_and_mac rnd d 0 bs = Inr (k, m)"
  then have d: "d \<noteq> []" "padded d 1" "k = length d - Suc (unat (last d))" "m = []"
    by (auto simp: cbc_remove_pad_only [OF assms] split: if_splits)
  have "unat (last d) < 256" using unsigned_less [of "last d", where ?'a = nat] by simp
  moreover have "d = take k d @ replicate (Suc (unat (last d))) (of_nat (unat (last d)))"
    using padded_split [OF d(2)] d(1,3) by (cases d) simp_all
  ultimately show "m = [] \<and> k \<le> length d \<and> (\<exists>p < 256. d = take k d @ replicate (Suc p) (of_nat p))"
    using d by auto
next
  assume "m = [] \<and> k \<le> length d \<and> (\<exists>p < 256. d = take k d @ replicate (Suc p) (of_nat p))"
  then obtain p where p: "m = []" "k \<le> length d" "p < 256" "d = take k d @ replicate (Suc p) (of_nat p)"
    by blast
  have "padded d 1" using padded_append [OF p(3), of 1 "take k d"] p(4) by simp
  moreover have "unat (last d) = p"
    using p(3) by (subst p(4)) (simp add: unat_of_nat take_bit_eq_mod)
  moreover have "length d = k + Suc p" using arg_cong [OF p(4), of length] p(2) by simp
  ultimately show "Py_cbc_remove_pad_and_mac rnd d 0 bs = Inr (k, m)"
    using p(1) by (auto simp: cbc_remove_pad_only [OF assms])
qed

theorem cbc_remove_pad_iff_witness:
  "Py_cbc_remove_pad_and_mac [] [5, 1, 1] 0 8 = Inr (1, [])"
  by (subst cbc_remove_pad_iff) (auto intro!: exI [where x = 1])

text \<open>
  The mask of a bad padding is not a full mask: one wrong padding bit only sets that bit, so the
  padding length is not forced to 0 and only that bit of every MAC byte is replaced.  In the witness
  the padding is wrong, the random bytes agree with the MAC in their lowest bit only, and the genuine
  MAC and content length are returned.
\<close>

theorem cbc_bad_padding_keeps_mac:
  "Py_cbc_remove_pad_and_mac [0xFE, 0xFF, 0xFE] [1, 2, 3, 4, 5, 6, 7, 8, 9, 10, 0, 1, 2, 2, 3, 2] 3 16 =
     Inr (10, [0, 1, 2]) \<and>
   \<not> padded [1, 2, 3, 4, 5, 6, 7, 8, 9, 10, 0, 1, 2, 2, 3, 2] 4"
  by code_simp

end
