(* ===== verification/Enums.thy ===== *)
theory Enums
  imports Prelude
begin

text \<open>
  The enumerations of \<open>src/simple_tls/tls/enums.py\<close>.  Their members are compared for identity only,
  except \<open>Protocol\<close>, whose number is written into a serialised session, and the states of the
  handshakes, which the base class keeps as numbers.
\<close>

datatype Protocol = PROTO_TLS | PROTO_DTLS | PROTO_QUIC

primrec protocol_value :: "Protocol \<Rightarrow> int" where
  "protocol_value PROTO_TLS = 0"
| "protocol_value PROTO_DTLS = 1"
| "protocol_value PROTO_QUIC = 2"

definition Protocol_of :: "int \<Rightarrow> Protocol result" where
  "Protocol_of n =
     (case find (\<lambda>p. protocol_value p = n) [PROTO_TLS, PROTO_DTLS, PROTO_QUIC] of
        None \<Rightarrow> Inl ValueError
      | Some p \<Rightarrow> Inr p)"

lemma Protocol_of_Inr_iff: "Protocol_of n = Inr p \<longleftrightarrow> protocol_value p = n"
  by (cases p) (auto simp: Protocol_of_def)

datatype VerifyMode = CERT_NONE | CERT_OPTIONAL | CERT_REQUIRED

datatype Direction = DIR_READ | DIR_WRITE

datatype Epoch = EPOCH_INITIAL | EPOCH_ZERO_RTT | EPOCH_HANDSHAKE | EPOCH_APPLICATION_DATA

datatype Status =
    ST_OK
  | ST_EARLY_RETURN
  | ST_WRITE_CHANGE_CIPHER_SPEC
  | ST_READ_CHANGE_CIPHER_SPEC
  | ST_READ_END_OF_EARLY_DATA
  | ST_READ_HANDSHAKE
  | ST_PACK_FLIGHT
  | ST_FLUSH_HANDSHAKE

datatype Shutdown = SHUT_NONE | SHUT_CLOSE_NOTIFY | SHUT_ERROR

datatype EarlyDataStatus = EDS_NONE | EDS_ACCEPTED | EDS_REJECTED

datatype ClientHelloType = CHT_UNENCRYPTED | CHT_INNER | CHT_OUTER

datatype ECHStatus = ECH_NONE | ECH_ACCEPTED | ECH_REJECTED

text \<open>The states of the two handshakes, with the numbers that \<open>enum.auto()\<close> gives them.\<close>

datatype ClientState =
    CLI_START_CONNECT
  | CLI_ENTER_EARLY_DATA
  | CLI_ENTER_EARLY_DATA_COMPAT
  | CLI_READ_SERVER_HELLO
  | CLI_READ_SERVER_CERTIFICATE
  | CLI_READ_CERTIFICATE_STATUS
  | CLI_VERIFY_SERVER_CERTIFICATE
  | CLI_READ_SERVER_KEY_EXCHANGE
  | CLI_READ_CERTIFICATE_REQUEST
  | CLI_READ_SERVER_HELLO_DONE
  | CLI_SEND_CLIENT_CERTIFICATE
  | CLI_SEND_CLIENT_KEY_EXCHANGE
  | CLI_SEND_CLIENT_CERTIFICATE_VERIFY
  | CLI_SEND_CHANGE_CIPHER_SPEC
  | CLI_SEND_CLIENT_FINISHED
  | CLI_FINISH_FLIGHT
  | CLI_READ_SESSION_TICKET
  | CLI_PROCESS_CHANGE_CIPHER_SPEC
  | CLI_READ_SERVER_FINISHED
  | CLI_COMPAT_CSS_TLS13
  | CLI_READ_HRR_TLS13
  | CLI_SEND_SECOND_CLIENT_HELLO_TLS13
  | CLI_READ_SERVER_HELLO_TLS13
  | CLI_READ_ENCRYPTED_EXTENSIONS_TLS13
  | CLI_READ_CERTIFICATE_REQUEST_TLS13
  | CLI_READ_SERVER_CERTIFICATE_TLS13
  | CLI_READ_SERVER_CERTIFICATE_VERIFY_TLS13
  | CLI_READ_SERVER_FINISHED_TLS13
  | CLI_SEND_END_OF_EARLY_DATA_TLS13
  | CLI_SEND_CLIENT_ENCRYPTED_EXTENSIONS_TLS13
  | CLI_SEND_CLIENT_CERTIFICATE_TLS13
  | CLI_SEND_CLIENT_FINISHED_TLS13
  | CLI_COMPLETE_SECOND_FLIGHT_TLS13
  | CLI_FINISH_CLIENT_HANDSHAKE
  | CLI_DONE
  | CLI_READ_POST_HANDSHAKE
  | CLI_PROCESS_UPDATE_TRAFFIC
  | CLI_COMPLETE_UPDATE_TRAFFIC

primrec cli :: "ClientState \<Rightarrow> int" where
  "cli CLI_START_CONNECT = 1"
| "cli CLI_ENTER_EARLY_DATA = 2"
| "cli CLI_ENTER_EARLY_DATA_COMPAT = 3"
| "cli CLI_READ_SERVER_HELLO = 4"
| "cli CLI_READ_SERVER_CERTIFICATE = 5"
| "cli CLI_READ_CERTIFICATE_STATUS = 6"
| "cli CLI_VERIFY_SERVER_CERTIFICATE = 7"
| "cli CLI_READ_SERVER_KEY_EXCHANGE = 8"
| "cli CLI_READ_CERTIFICATE_REQUEST = 9"
| "cli CLI_READ_SERVER_HELLO_DONE = 10"
| "cli CLI_SEND_CLIENT_CERTIFICATE = 11"
| "cli CLI_SEND_CLIENT_KEY_EXCHANGE = 12"
| "cli CLI_SEND_CLIENT_CERTIFICATE_VERIFY = 13"
| "cli CLI_SEND_CHANGE_CIPHER_SPEC = 14"
| "cli CLI_SEND_CLIENT_FINISHED = 15"
| "cli CLI_FINISH_FLIGHT = 16"
| "cli CLI_READ_SESSION_TICKET = 17"
| "cli CLI_PROCESS_CHANGE_CIPHER_SPEC = 18"
| "cli CLI_READ_SERVER_FINISHED = 19"
| "cli CLI_COMPAT_CSS_TLS13 = 20"
| "cli CLI_READ_HRR_TLS13 = 21"
| "cli CLI_SEND_SECOND_CLIENT_HELLO_TLS13 = 22"
| "cli CLI_READ_SERVER_HELLO_TLS13 = 23"
| "cli CLI_READ_ENCRYPTED_EXTENSIONS_TLS13 = 24"
| "cli CLI_READ_CERTIFICATE_REQUEST_TLS13 = 25"
| "cli CLI_READ_SERVER_CERTIFICATE_TLS13 = 26"
| "cli CLI_READ_SERVER_CERTIFICATE_VERIFY_TLS13 = 27"
| "cli CLI_READ_SERVER_FINISHED_TLS13 = 28"
| "cli CLI_SEND_END_OF_EARLY_DATA_TLS13 = 29"
| "cli CLI_SEND_CLIENT_ENCRYPTED_EXTENSIONS_TLS13 = 30"
| "cli CLI_SEND_CLIENT_CERTIFICATE_TLS13 = 31"
| "cli CLI_SEND_CLIENT_FINISHED_TLS13 = 32"
| "cli CLI_COMPLETE_SECOND_FLIGHT_TLS13 = 33"
| "cli CLI_FINISH_CLIENT_HANDSHAKE = 34"
| "cli CLI_DONE = 35"
| "cli CLI_READ_POST_HANDSHAKE = 36"
| "cli CLI_PROCESS_UPDATE_TRAFFIC = 37"
| "cli CLI_COMPLETE_UPDATE_TRAFFIC = 38"

datatype ServerState =
    SRV_START_ACCEPT
  | SRV_READ_CLIENT_HELLO
  | SRV_SELECT_PARAMETERS
  | SRV_SEND_SERVER_HELLO
  | SRV_SEND_SERVER_CERTIFICATE
  | SRV_SEND_SERVER_KEY_EXCHANGE
  | SRV_SEND_SERVER_HELLO_DONE
  | SRV_READ_CLIENT_CERTIFICATE
  | SRV_VERIFY_CLIENT_CERTIFICATE
  | SRV_READ_CLIENT_KEY_EXCHANGE
  | SRV_READ_CLIENT_CERTIFICATE_VERIFY
  | SRV_READ_CHANGE_CIPHER_SPEC
  | SRV_PROCESS_CHANGE_CIPHER_SPEC
  | SRV_READ_NEXT_PROTO
  | SRV_READ_CLIENT_FINISHED
  | SRV_SEND_SESSION_TICKET
  | SRV_SEND_CHANGE_CIPHER_SPEC
  | SRV_SEND_SERVER_FINISHED
  | SRV_SELECT_PARAMETERS_TLS13
  | SRV_SEND_HELLO_RETRY_REQUEST_TLS13
  | SRV_HRR_COMPAT_CSS_TLS13
  | SRV_READ_SECOND_CLIENT_HELLO_TLS13
  | SRV_SEND_SERVER_HELLO_TLS13
  | SRV_SERVER_HELLO_COMPAT_CSS_TLS13
  | SRV_SEND_ENCRYPTED_EXTENSIONS_TLS13
  | SRV_SEND_SERVER_FINISHED_TLS13
  | SRV_READ_SECOND_CLIENT_FLIGHT_TLS13
  | SRV_PROCESS_END_OF_EARLY_DATA_TLS13
  | SRV_READ_CLIENT_ENCRYPTED_EXTENSIONS_TLS13
  | SRV_READ_CLIENT_CERTIFICATE_TLS13
  | SRV_READ_CLIENT_CERTIFICATE_VERIFY_TLS13
  | SRV_READ_CLIENT_FINISHED_TLS13
  | SRV_SEND_NEWSESSION_TICKET_TLS13
  | SRV_FINISHED_SERVER_HANDSHAKE
  | SRV_DONE
  | SRV_READ_POST_HANDSHAKE
  | SRV_PROCESS_UPDATE_TRAFFIC
  | SRV_COMPLETE_UPDATE_TRAFFIC

primrec srv :: "ServerState \<Rightarrow> int" where
  "srv SRV_START_ACCEPT = 1"
| "srv SRV_READ_CLIENT_HELLO = 2"
| "srv SRV_SELECT_PARAMETERS = 3"
| "srv SRV_SEND_SERVER_HELLO = 4"
| "srv SRV_SEND_SERVER_CERTIFICATE = 5"
| "srv SRV_SEND_SERVER_KEY_EXCHANGE = 6"
| "srv SRV_SEND_SERVER_HELLO_DONE = 7"
| "srv SRV_READ_CLIENT_CERTIFICATE = 8"
| "srv SRV_VERIFY_CLIENT_CERTIFICATE = 9"
| "srv SRV_READ_CLIENT_KEY_EXCHANGE = 10"
| "srv SRV_READ_CLIENT_CERTIFICATE_VERIFY = 11"
| "srv SRV_READ_CHANGE_CIPHER_SPEC = 12"
| "srv SRV_PROCESS_CHANGE_CIPHER_SPEC = 13"
| "srv SRV_READ_NEXT_PROTO = 14"
| "srv SRV_READ_CLIENT_FINISHED = 15"
| "srv SRV_SEND_SESSION_TICKET = 16"
| "srv SRV_SEND_CHANGE_CIPHER_SPEC = 17"
| "srv SRV_SEND_SERVER_FINISHED = 18"
| "srv SRV_SELECT_PARAMETERS_TLS13 = 19"
| "srv SRV_SEND_HELLO_RETRY_REQUEST_TLS13 = 20"
| "srv SRV_HRR_COMPAT_CSS_TLS13 = 21"
| "srv SRV_READ_SECOND_CLIENT_HELLO_TLS13 = 22"
| "srv SRV_SEND_SERVER_HELLO_TLS13 = 23"
| "srv SRV_SERVER_HELLO_COMPAT_CSS_TLS13 = 24"
| "srv SRV_SEND_ENCRYPTED_EXTENSIONS_TLS13 = 25"
| "srv SRV_SEND_SERVER_FINISHED_TLS13 = 26"
| "srv SRV_READ_SECOND_CLIENT_FLIGHT_TLS13 = 27"
| "srv SRV_PROCESS_END_OF_EARLY_DATA_TLS13 = 28"
| "srv SRV_READ_CLIENT_ENCRYPTED_EXTENSIONS_TLS13 = 29"
| "srv SRV_READ_CLIENT_CERTIFICATE_TLS13 = 30"
| "srv SRV_READ_CLIENT_CERTIFICATE_VERIFY_TLS13 = 31"
| "srv SRV_READ_CLIENT_FINISHED_TLS13 = 32"
| "srv SRV_SEND_NEWSESSION_TICKET_TLS13 = 33"
| "srv SRV_FINISHED_SERVER_HANDSHAKE = 34"
| "srv SRV_DONE = 35"
| "srv SRV_READ_POST_HANDSHAKE = 36"
| "srv SRV_PROCESS_UPDATE_TRAFFIC = 37"
| "srv SRV_COMPLETE_UPDATE_TRAFFIC = 38"

end
