(* ===== verification/Cipher.thy ===== *)
theory Cipher
  imports Codec Cipher_Suites Primitives Constant_Time Enums
begin

text \<open>
  Record protection: \<open>TLSCipher\<close> of \<open>src/simple_tls/tls/cipher.py\<close>.  The object is the record
  \<open>tls_cipher\<close>; its attributes \<open>seal\<close> and \<open>open\<close>, bound methods chosen by the constructor, are tags
  that \<open>TLSCipher_seal\<close> and \<open>TLSCipher_open\<close> dispatch on.  Sealing and opening mutate the cipher
  context and write into the caller's buffer, so they are actions on a \<open>seal_state\<close>, the object
  together with the buffer \<open>out\<close>.  \<open>rnd\<close> is the random source (\<open>get_random_bytes\<close>, \<open>os.urandom\<close>).
\<close>

subsection \<open>Cipher contexts\<close>

record cipher_ctx =
  ctx_alg :: Symmetric
  ctx_key :: bytes
  ctx_iv :: bytes
  ctx_encrypting :: bool
  ctx_fed :: bytes

definition ctx_output :: "crypto \<Rightarrow> cipher_ctx \<Rightarrow> bytes \<Rightarrow> bytes" where
  "ctx_output cr c h =
     (if ctx_encrypting c then cipher_encrypt cr else cipher_decrypt cr)
       (ctx_alg c) (ctx_key c) (ctx_iv c) h"

definition ctx_update :: "crypto \<Rightarrow> cipher_ctx \<Rightarrow> bytes \<Rightarrow> bytes \<times> cipher_ctx" where
  "ctx_update cr c d =
     (drop (length (ctx_output cr c (ctx_fed c))) (ctx_output cr c (ctx_fed c @ d)),
      c\<lparr>ctx_fed := ctx_fed c @ d\<rparr>)"

datatype cipher_obj =
    No_cipher
  | Aead_cipher Symmetric bytes
  | Context cipher_ctx

subsection \<open>The object\<close>

datatype seal_method =
    Encrypt_aead | Encrypt_then_mac | Mac_then_encrypt | Mac_then_encrypt_stream

datatype open_method =
    Decrypt_aead | Mac_then_decrypt | Decrypt_then_mac | Decrypt_stream_then_mac

record tls_cipher =
  c_cipher :: cipher_obj
  c_mac :: "(HashAlgorithm \<times> bytes) option"
  c_max_overhead :: nat
  fixed_nonce :: bytes
  c_block_size :: nat
  variable_nonce_len :: nat
  variable_nonce_included_in_record :: bool
  xor_fixed_nonce :: bool
  aad_is_header :: bool
  is_etm :: bool
  c_seal :: "seal_method option"
  c_open :: "open_method option"

definition get_key_iv_lens :: "cipher_suite \<Rightarrow> (nat \<times> nat) result" where
  "get_key_iv_lens cs =
     (if aead cs then
        rbind (AEAD_CIPHERS (symmetric cs)) (\<lambda>spec.
        Inr (key_length spec,
             if minimum_version cs \<ge> ver V_TLSv1_3 then 12 else iv_length spec))
      else if minimum_version cs \<ge> ver V_TLSv1_3 then Inl ValueError
      else
        rbind (CIPHERS (symmetric cs)) (\<lambda>spec. Inr (key_length spec, iv_length spec)))"

definition blank_cipher :: "bool \<Rightarrow> tls_cipher" where
  "blank_cipher encrypt_then_mac =
     \<lparr>c_cipher = No_cipher, c_mac = None, c_max_overhead = 0, fixed_nonce = [], c_block_size = 1,
      variable_nonce_len = 0, variable_nonce_included_in_record = False, xor_fixed_nonce = False,
      aad_is_header = False, is_etm = encrypt_then_mac, c_seal = None, c_open = None\<rparr>"

definition init_aead ::
    "Direction \<Rightarrow> int \<Rightarrow> cipher_suite \<Rightarrow> bytes \<Rightarrow> bytes \<Rightarrow> bytes \<Rightarrow> bool \<Rightarrow> tls_cipher result" where
  "init_aead direction version cs enc_key fixed_iv mac_key encrypt_then_mac =
     (if encrypt_then_mac then Inl ValueError
      else if length mac_key \<noteq> 0 then Inl ValueError
      else rbind (AEAD_CIPHERS (symmetric cs)) (\<lambda>spec.
        let tag_len = tag_length spec; nonce_len = 12;
            iv_len = (if version \<ge> ver V_TLSv1_3 then nonce_len else iv_length spec)
        in if length enc_key \<noteq> key_length spec then Inl ValueError
           else if length fixed_iv \<noteq> iv_len then Inl ValueError
           else
             let self = blank_cipher encrypt_then_mac in
             rbind (if minimum_version cs \<ge> ver V_TLSv1_3 \<or> symmetric cs = SYM_CHACHA20_POLY1305 then
                      if length fixed_iv < 8 then Inl AssertionError
                      else Inr (self\<lparr>xor_fixed_nonce := True, variable_nonce_len := 8,
                                     c_max_overhead := tag_len\<rparr>)
                    else
                      if length fixed_iv > nonce_len then Inl AssertionError
                      else Inr (self\<lparr>variable_nonce_len := nonce_len - length fixed_iv,
                                     variable_nonce_included_in_record := True,
                                     c_max_overhead := tag_len + (nonce_len - length fixed_iv)\<rparr>))
               (\<lambda>self.
             let self = self\<lparr>fixed_nonce := fixed_iv, aad_is_header := version \<ge> ver V_TLSv1_3,
                             c_cipher := Aead_cipher (symmetric cs) enc_key\<rparr>
             in Inr (if direction = DIR_WRITE then self\<lparr>c_seal := Some Encrypt_aead\<rparr>
                     else self\<lparr>c_open := Some Decrypt_aead\<rparr>))))"

definition is_cbc :: "Symmetric \<Rightarrow> bool" where
  "is_cbc s \<longleftrightarrow> s = SYM_AES_128_CBC \<or> s = SYM_AES_256_CBC \<or> s = SYM_TRIPLE_DES_EDE_CBC"

definition init_mac ::
    "crypto \<Rightarrow> (nat \<Rightarrow> bytes) \<Rightarrow> Direction \<Rightarrow> int \<Rightarrow> cipher_suite \<Rightarrow> bytes \<Rightarrow> bytes \<Rightarrow> bytes \<Rightarrow> bool \<Rightarrow>
     tls_cipher result" where
  "init_mac cr rnd direction version cs enc_key fixed_iv mac_key encrypt_then_mac =
     (if minimum_version cs \<ge> ver V_TLSv1_3 then Inl ValueError
      else case digest cs of
        None \<Rightarrow> Inl ValueError
      | Some dig \<Rightarrow>
        rbind (CIPHERS (symmetric cs)) (\<lambda>spec.
        let iv_len = iv_length spec
        in if length enc_key \<noteq> key_length spec then Inl ValueError
           else if length fixed_iv \<noteq> iv_len then Inl ValueError
           else rbind (get_algorithm (hash_id dig)) (\<lambda>algorithm.
             let self = (blank_cipher encrypt_then_mac)\<lparr>c_mac := Some (algorithm, mac_key)\<rparr>;
                 self = (if version \<ge> ver V_TLSv1_1 \<and> iv_len > 0
                         then self\<lparr>fixed_nonce := rnd iv_len, variable_nonce_len := iv_len\<rparr>
                         else self)
             in rbind
                 (if is_cbc (symmetric cs) then
                    let bs = (if symmetric cs = SYM_TRIPLE_DES_EDE_CBC then 8 else 16)
                    in Inr (self\<lparr>c_block_size := bs,
                                 c_max_overhead := bs + hash_digest_size cr algorithm
                                   + variable_nonce_len self\<rparr>,
                            if is_etm self then Encrypt_then_mac else Mac_then_encrypt,
                            if is_etm self then Mac_then_decrypt else Decrypt_then_mac)
                  else if is_etm self then Inl ValueError
                  else Inr (self\<lparr>c_max_overhead := hash_digest_size cr algorithm\<rparr>,
                            Mac_then_encrypt_stream, Decrypt_stream_then_mac))
                 (\<lambda>(self, seal, open_m).
               let ctx = (if symmetric cs = SYM_NULL then No_cipher
                          else Context \<lparr>ctx_alg = symmetric cs, ctx_key = enc_key, ctx_iv = fixed_iv,
                                        ctx_encrypting = (direction = DIR_WRITE), ctx_fed = []\<rparr>)
               in Inr (if direction = DIR_WRITE
                       then self\<lparr>c_cipher := ctx, c_seal := Some seal\<rparr>
                       else self\<lparr>c_cipher := ctx, c_open := Some open_m\<rparr>)))))"

definition TLSCipher_init ::
    "crypto \<Rightarrow> (nat \<Rightarrow> bytes) \<Rightarrow> Direction \<Rightarrow> int \<Rightarrow> cipher_suite \<Rightarrow> bytes \<Rightarrow> bytes \<Rightarrow> bytes \<Rightarrow> bool \<Rightarrow>
     tls_cipher result" where
  "TLSCipher_init cr rnd direction version cs enc_key fixed_iv mac_key encrypt_then_mac =
     (if aead cs then init_aead direction version cs enc_key fixed_iv mac_key encrypt_then_mac
      else init_mac cr rnd direction version cs enc_key fixed_iv mac_key encrypt_then_mac)"

definition is_block_cipher :: "tls_cipher \<Rightarrow> bool" where
  "is_block_cipher c \<longleftrightarrow> c_block_size c > 1"

definition max_overhead :: "tls_cipher \<Rightarrow> nat" where
  "max_overhead c = c_max_overhead c"

definition mac_digest_size :: "crypto \<Rightarrow> tls_cipher \<Rightarrow> nat" where
  "mac_digest_size cr c = (case c_mac c of None \<Rightarrow> 0 | Some (alg, _) \<Rightarrow> hash_digest_size cr alg)"

definition ciphertext_length :: "crypto \<Rightarrow> tls_cipher \<Rightarrow> nat \<Rightarrow> nat" where
  "ciphertext_length cr c plaintext_length =
     (if \<not> is_block_cipher c then plaintext_length + c_max_overhead c
      else
        let block_size = c_block_size c; mac_size = mac_digest_size cr c;
            iv_len = variable_nonce_len c;
            data_to_pad = (if is_etm c then plaintext_length else plaintext_length + mac_size);
            pad_bytes = block_size - (data_to_pad mod block_size);
            padded_ciphertext_len = data_to_pad + pad_bytes
        in if is_etm c then iv_len + padded_ciphertext_len + mac_size
           else iv_len + padded_ciphertext_len)"

subsection \<open>Padding, MAC and nonce\<close>

definition get_pad :: "nat \<Rightarrow> nat \<Rightarrow> bytes" where
  "get_pad data_len block_size =
     (let pad_len = block_size - 1 - (data_len mod block_size)
      in replicate (pad_len + 1) (of_nat pad_len))"

text \<open>\<open>struct.pack\<close> of one unsigned big-endian field.\<close>

definition pack :: "int \<Rightarrow> nat \<Rightarrow> bytes result" where
  "pack v n = (if v < 0 \<or> 256 ^ n \<le> v then Inl StructError else Inr (be_bytes n v))"

definition pack_aad :: "int \<Rightarrow> int \<Rightarrow> int \<Rightarrow> nat \<Rightarrow> bytes result" where
  "pack_aad seq_num content_type record_version len =
     rcat (pack seq_num 8) (rcat (pack content_type 1) (rcat (pack record_version 2)
       (pack (int len) 2)))"

definition get_mac ::
    "crypto \<Rightarrow> HashAlgorithm \<times> bytes \<Rightarrow> int \<Rightarrow> int \<Rightarrow> int \<Rightarrow> bytes \<Rightarrow> bytes result" where
  "get_mac cr mac seq_num content_type record_version plaintext =
     rbind (pack_aad seq_num content_type record_version (length plaintext)) (\<lambda>aad.
     Inr (hmac_fn cr (fst mac) (snd mac) (aad @ plaintext)))"

definition xor_nonce :: "tls_cipher \<Rightarrow> bytes \<Rightarrow> bytes result" where
  "xor_nonce c seq_bytes =
     strxor (replicate (length (fixed_nonce c) - length seq_bytes) 0 @ seq_bytes) (fixed_nonce c)"

definition seal_nonce :: "tls_cipher \<Rightarrow> bytes \<Rightarrow> bytes result" where
  "seal_nonce c seq_bytes =
     (if xor_fixed_nonce c then xor_nonce c seq_bytes else Inr (fixed_nonce c @ seq_bytes))"

subsection \<open>Writing into the output buffer\<close>

record seal_state =
  tc :: tls_cipher
  out :: bytes

text \<open>\<open>out[i : i + len(d)] = d\<close> on a writable buffer of fixed length.\<close>

definition put_at :: "nat \<Rightarrow> bytes \<Rightarrow> (seal_state, unit) action" where
  "put_at i d = (\<lambda>s.
     if i + length d \<le> length (out s)
     then (Inr (), s\<lparr>out := take i (out s) @ d @ drop (i + length d) (out s)\<rparr>)
     else (Inl ValueError, s))"

text \<open>
  \<open>cipher.update_into(b, out[written:])\<close>: the package asks for \<open>block_size - 1\<close> bytes more than the
  input has.
\<close>

definition update_into :: "crypto \<Rightarrow> nat \<Rightarrow> bytes \<Rightarrow> (seal_state, nat) action" where
  "update_into cr written b = (\<lambda>s.
     case c_cipher (tc s) of
       Context ctx \<Rightarrow>
         if length (out s) - written < length b + context_block_size (ctx_alg ctx) - 1
         then (Inl ValueError, s)
         else
           let (d, ctx') = ctx_update cr ctx b
           in thn (put_at written d) (ret (length d)) (s\<lparr>tc := (tc s)\<lparr>c_cipher := Context ctx'\<rparr>\<rparr>)
     | _ \<Rightarrow> (Inl TypeError, s))"

text \<open>\<open>for b in (...): written += cipher.update_into(b, out[written:])\<close>\<close>

primrec update_all :: "crypto \<Rightarrow> nat \<Rightarrow> bytes list \<Rightarrow> (seal_state, nat) action" where
  "update_all cr written [] = ret written"
| "update_all cr written (b # bs) =
     bnd (update_into cr written b) (\<lambda>n. update_all cr (written + n) bs)"

definition the_mac :: "(seal_state, HashAlgorithm \<times> bytes) action" where
  "the_mac = (\<lambda>s. case c_mac (tc s) of None \<Rightarrow> (Inl TypeError, s) | Some m \<Rightarrow> (Inr m, s))"

subsection \<open>Sealing\<close>

definition encrypt_aead ::
    "crypto \<Rightarrow> int \<Rightarrow> int \<Rightarrow> bytes \<Rightarrow> int \<Rightarrow> bytes \<Rightarrow> (seal_state, nat) action" where
  "encrypt_aead cr content_type record_version plaintext seq_num header =
     bnd (gets tc) (\<lambda>self.
     bnd (gets (\<lambda>s. length (out s))) (\<lambda>out_len.
     thn (raise_if (variable_nonce_len self \<noteq> 8) AssertionError)
     (thn (raise_if (out_len < length plaintext + c_max_overhead self) ValueError)
     (bnd (lift_result (if aad_is_header self then Inr header
            else pack_aad seq_num content_type record_version (length plaintext))) (\<lambda>aad.
     bnd (lift_result (pack seq_num 8)) (\<lambda>seq_bytes.
     bnd (lift_result (seal_nonce self seq_bytes)) (\<lambda>nonce.
     bnd (lift_result (case c_cipher self of
            Aead_cipher alg key \<Rightarrow> Inr (aead_encrypt cr alg key nonce plaintext aad)
          | _ \<Rightarrow> Inl TypeError)) (\<lambda>ciphertext.
     bnd (if variable_nonce_included_in_record self
          then thn (raise_if (xor_fixed_nonce self) AssertionError)
               (thn (put_at 0 seq_bytes) (ret (length seq_bytes)))
          else ret 0) (\<lambda>written.
     thn (put_at written ciphertext)
     (ret (written + length ciphertext)))))))))))"

definition encrypt_then_mac ::
    "crypto \<Rightarrow> int \<Rightarrow> int \<Rightarrow> bytes \<Rightarrow> int \<Rightarrow> bytes \<Rightarrow> (seal_state, nat) action" where
  "encrypt_then_mac cr content_type record_version plaintext seq_num header =
     bnd the_mac (\<lambda>mac.
     bnd (gets tc) (\<lambda>self.
     let mac_size = hash_digest_size cr (fst mac); rand_iv = fixed_nonce self in
     bnd (gets (\<lambda>s. length (out s))) (\<lambda>out_len0.
     thn (raise_if (out_len0 < length plaintext + c_max_overhead self) ValueError)
     (let pad_bytes = get_pad (length plaintext) (c_block_size self);
          data_len = length rand_iv + length plaintext + length pad_bytes;
          out_len = data_len + mac_size in
     bnd (update_all cr 0 [rand_iv, plaintext, pad_bytes]) (\<lambda>written.
     thn (raise_if (written \<noteq> data_len) AssertionError)
     (bnd (gets (\<lambda>s. take data_len (out s))) (\<lambda>ct.
     bnd (lift_result (get_mac cr mac seq_num content_type record_version ct)) (\<lambda>mac_bytes.
     thn (put_at data_len mac_bytes)
     (ret out_len)))))))))"

definition mac_then_encrypt ::
    "crypto \<Rightarrow> int \<Rightarrow> int \<Rightarrow> bytes \<Rightarrow> int \<Rightarrow> bytes \<Rightarrow> (seal_state, nat) action" where
  "mac_then_encrypt cr content_type record_version plaintext seq_num header =
     bnd the_mac (\<lambda>mac.
     bnd (gets tc) (\<lambda>self.
     let rand_iv = fixed_nonce self in
     bnd (gets (\<lambda>s. length (out s))) (\<lambda>out_len0.
     thn (raise_if (out_len0 < length plaintext + c_max_overhead self) ValueError)
     (bnd (lift_result (get_mac cr mac seq_num content_type record_version plaintext)) (\<lambda>mac_bytes.
      let data_len = length rand_iv + length plaintext + length mac_bytes;
          pad_bytes = get_pad data_len (c_block_size self);
          out_len = data_len + length pad_bytes in
     bnd (update_all cr 0 [rand_iv, plaintext, mac_bytes, pad_bytes]) (\<lambda>written.
     thn (raise_if (written \<noteq> out_len) AssertionError)
     (ret written)))))))"

definition mac_then_encrypt_stream ::
    "crypto \<Rightarrow> int \<Rightarrow> int \<Rightarrow> bytes \<Rightarrow> int \<Rightarrow> bytes \<Rightarrow> (seal_state, nat) action" where
  "mac_then_encrypt_stream cr content_type record_version plaintext seq_num header =
     bnd the_mac (\<lambda>mac.
     bnd (gets tc) (\<lambda>self.
     bnd (gets (\<lambda>s. length (out s))) (\<lambda>out_len0.
     thn (raise_if (out_len0 < length plaintext + c_max_overhead self) ValueError)
     (bnd (lift_result (get_mac cr mac seq_num content_type record_version plaintext)) (\<lambda>mac_bytes.
     if c_cipher self \<noteq> No_cipher then
       bnd (update_all cr 0 [plaintext, mac_bytes]) (\<lambda>written.
       thn (raise_if (written \<noteq> length plaintext + length mac_bytes) AssertionError)
       (ret written))
     else
       thn (put_at 0 plaintext)
       (thn (put_at (length plaintext) mac_bytes)
       (ret (length plaintext + length mac_bytes))))))))"

definition TLSCipher_seal ::
    "crypto \<Rightarrow> int \<Rightarrow> int \<Rightarrow> bytes \<Rightarrow> int \<Rightarrow> bytes \<Rightarrow> (seal_state, nat) action" where
  "TLSCipher_seal cr content_type record_version plaintext seq_num header =
     bnd (gets (\<lambda>s. c_seal (tc s))) (\<lambda>m.
     (case m of
        None \<Rightarrow> raise TypeError
      | Some Encrypt_aead \<Rightarrow> encrypt_aead cr content_type record_version plaintext seq_num header
      | Some Encrypt_then_mac \<Rightarrow>
          encrypt_then_mac cr content_type record_version plaintext seq_num header
      | Some Mac_then_encrypt \<Rightarrow>
          mac_then_encrypt cr content_type record_version plaintext seq_num header
      | Some Mac_then_encrypt_stream \<Rightarrow>
          mac_then_encrypt_stream cr content_type record_version plaintext seq_num header))"

subsection \<open>Opening\<close>

definition decrypt_aead ::
    "crypto \<Rightarrow> int \<Rightarrow> int \<Rightarrow> bytes \<Rightarrow> int \<Rightarrow> bytes \<Rightarrow> (seal_state, nat) action" where
  "decrypt_aead cr content_type record_version ciphertext seq_num header =
     bnd (gets tc) (\<lambda>self.
     bnd (gets (\<lambda>s. length (out s))) (\<lambda>out_len.
     thn (raise_if (variable_nonce_len self \<noteq> 8) AssertionError)
     (thn (raise_if (out_len < length ciphertext) ValueError)
     (bnd (if aad_is_header self then ret header
           else thn (raise_if (length ciphertext < c_max_overhead self) InvalidTag)
             (lift_result (pack_aad seq_num content_type record_version
                (length ciphertext - c_max_overhead self)))) (\<lambda>aad.
     bnd (lift_result (pack seq_num 8)) (\<lambda>seq_bytes.
     bnd (if variable_nonce_included_in_record self then
            thn (raise_if (xor_fixed_nonce self) AssertionError)
            (thn (raise_if (variable_nonce_len self > length ciphertext) InvalidTag)
            (ret (fixed_nonce self @ take (variable_nonce_len self) ciphertext,
                  drop (variable_nonce_len self) ciphertext)))
          else if xor_fixed_nonce self then
            bnd (lift_result (xor_nonce self seq_bytes)) (\<lambda>nonce. ret (nonce, ciphertext))
          else ret (fixed_nonce self @ seq_bytes, ciphertext)) (\<lambda>(nonce, ciphertext).
     bnd (lift_result (case c_cipher self of
            Aead_cipher alg key \<Rightarrow>
              (case aead_decrypt cr alg key nonce ciphertext aad of
                 None \<Rightarrow> Inl InvalidTag | Some p \<Rightarrow> Inr p)
          | _ \<Rightarrow> Inl TypeError)) (\<lambda>plaintext.
     thn (put_at 0 plaintext)
     (ret (length plaintext))))))))))"

text \<open>\<open>except ValueError as exc: raise InvalidTag(exc)\<close> around the removal of padding and MAC.\<close>

definition remove_pad_and_mac ::
    "(nat \<Rightarrow> bytes) \<Rightarrow> bytes \<Rightarrow> nat \<Rightarrow> nat \<Rightarrow> (seal_state, nat \<times> bytes) action" where
  "remove_pad_and_mac rnd data mac_size block_size =
     lift_result (case Py_cbc_remove_pad_and_mac (rnd mac_size) data mac_size block_size of
        Inl e \<Rightarrow> Inl (if e = ValueError then InvalidTag else e)
      | Inr r \<Rightarrow> Inr r)"

definition mac_then_decrypt ::
    "crypto \<Rightarrow> (nat \<Rightarrow> bytes) \<Rightarrow> int \<Rightarrow> int \<Rightarrow> bytes \<Rightarrow> int \<Rightarrow> bytes \<Rightarrow> (seal_state, nat) action" where
  "mac_then_decrypt cr rnd content_type record_version ciphertext seq_num header =
     bnd the_mac (\<lambda>mac.
     bnd (gets tc) (\<lambda>self.
     let block_size = c_block_size self; mac_size = hash_digest_size cr (fst mac);
         rand_iv_len = variable_nonce_len self in
     bnd (gets (\<lambda>s. length (out s))) (\<lambda>out_len.
     thn (raise_if (out_len < length ciphertext + block_size) ValueError)
     (thn (raise_if (length ciphertext < mac_size + rand_iv_len) InvalidTag)
     (let extracted_mac = drop (length ciphertext - mac_size) ciphertext;
          ciphertext = take (length ciphertext - mac_size) ciphertext in
     bnd (lift_result (get_mac cr mac seq_num content_type record_version ciphertext)) (\<lambda>expected_mac.
     thn (raise_if (extracted_mac \<noteq> expected_mac) InvalidTag)
     (let iv = take rand_iv_len ciphertext; ciphertext = drop rand_iv_len ciphertext in
     bnd (update_into cr 0 iv) (\<lambda>written.
     thn (raise_if (written \<noteq> rand_iv_len) AssertionError)
     (bnd (update_into cr 0 ciphertext) (\<lambda>written.
     thn (raise_if (written \<noteq> length ciphertext) InvalidTag)
     (bnd (gets (\<lambda>s. take written (out s))) (\<lambda>data.
     bnd (remove_pad_and_mac rnd data 0 block_size) (\<lambda>(plaintext_len, _).
     ret plaintext_len)))))))))))))"

definition decrypt_then_mac ::
    "crypto \<Rightarrow> (nat \<Rightarrow> bytes) \<Rightarrow> int \<Rightarrow> int \<Rightarrow> bytes \<Rightarrow> int \<Rightarrow> bytes \<Rightarrow> (seal_state, nat) action" where
  "decrypt_then_mac cr rnd content_type record_version ciphertext seq_num header =
     bnd the_mac (\<lambda>mac.
     bnd (gets tc) (\<lambda>self.
     let block_size = c_block_size self; mac_size = hash_digest_size cr (fst mac);
         rand_iv_len = variable_nonce_len self in
     bnd (gets (\<lambda>s. length (out s))) (\<lambda>out_len.
     thn (raise_if (out_len < length ciphertext + block_size) ValueError)
     (thn (raise_if (length ciphertext < mac_size + rand_iv_len) InvalidTag)
     (let iv = take rand_iv_len ciphertext; ciphertext = drop rand_iv_len ciphertext in
     bnd (update_into cr 0 iv) (\<lambda>written.
     thn (raise_if (written \<noteq> rand_iv_len) AssertionError)
     (bnd (update_into cr 0 ciphertext) (\<lambda>written.
     thn (raise_if (written \<noteq> length ciphertext) InvalidTag)
     (bnd (gets (\<lambda>s. take written (out s))) (\<lambda>data.
     bnd (remove_pad_and_mac rnd data mac_size block_size) (\<lambda>(plaintext_len, extracted_mac).
     bnd (gets (\<lambda>s. take plaintext_len (out s))) (\<lambda>plaintext.
     bnd (lift_result (get_mac cr mac seq_num content_type record_version plaintext)) (\<lambda>expected_mac.
     thn (raise_if (extracted_mac \<noteq> expected_mac) InvalidTag)
     (ret plaintext_len))))))))))))))"

definition decrypt_stream_then_mac ::
    "crypto \<Rightarrow> (nat \<Rightarrow> bytes) \<Rightarrow> int \<Rightarrow> int \<Rightarrow> bytes \<Rightarrow> int \<Rightarrow> bytes \<Rightarrow> (seal_state, nat) action" where
  "decrypt_stream_then_mac cr rnd content_type record_version ciphertext seq_num header =
     bnd the_mac (\<lambda>mac.
     bnd (gets tc) (\<lambda>self.
     let block_size = 1; mac_size = hash_digest_size cr (fst mac) in
     bnd (gets (\<lambda>s. length (out s))) (\<lambda>out_len.
     thn (raise_if (out_len < length ciphertext) ValueError)
     (bnd (if c_cipher self \<noteq> No_cipher then
             bnd (update_into cr 0 ciphertext) (\<lambda>written.
             thn (raise_if (written \<noteq> length ciphertext) AssertionError)
             (ret written))
           else
             thn (put_at 0 ciphertext) (ret (length ciphertext))) (\<lambda>written.
     bnd (gets (\<lambda>s. take written (out s))) (\<lambda>data.
     bnd (remove_pad_and_mac rnd data mac_size block_size) (\<lambda>(plaintext_len, extracted_mac).
     bnd (gets (\<lambda>s. take plaintext_len (out s))) (\<lambda>plaintext.
     bnd (lift_result (get_mac cr mac seq_num content_type record_version plaintext)) (\<lambda>expected_mac.
     thn (raise_if (expected_mac \<noteq> extracted_mac) InvalidTag)
     (ret plaintext_len))))))))))"

definition TLSCipher_open ::
    "crypto \<Rightarrow> (nat \<Rightarrow> bytes) \<Rightarrow> int \<Rightarrow> int \<Rightarrow> bytes \<Rightarrow> int \<Rightarrow> bytes \<Rightarrow> (seal_state, nat) action" where
  "TLSCipher_open cr rnd content_type record_version ciphertext seq_num header =
     bnd (gets (\<lambda>s. c_open (tc s))) (\<lambda>m.
     (case m of
        None \<Rightarrow> raise TypeError
      | Some Decrypt_aead \<Rightarrow> decrypt_aead cr content_type record_version ciphertext seq_num header
      | Some Mac_then_decrypt \<Rightarrow>
          mac_then_decrypt cr rnd content_type record_version ciphertext seq_num header
      | Some Decrypt_then_mac \<Rightarrow>
          decrypt_then_mac cr rnd content_type record_version ciphertext seq_num header
      | Some Decrypt_stream_then_mac \<Rightarrow>
          decrypt_stream_then_mac cr rnd content_type record_version ciphertext seq_num header))"

end
