(* ===== verification/Cipher_Laws.thy ===== *)
theory Cipher_Laws
  imports Cipher
begin

text \<open>
  Correctness of record protection: a sealing and an opening object made from the same keys stay in
  step, every record that is sealed is opened to the same plaintext, and the length announced in the
  header is the length sealed.
\<close>

subsection \<open>Buffers and contexts\<close>

lemma put_at_apply:
  "i + length d \<le> length b \<Longrightarrow> put_at i d \<lparr>tc = c, out = b\<rparr> =
   (Inr (), \<lparr>tc = c, out = take i b @ d @ drop (i + length d) b\<rparr>)"
  by (simp add: put_at_def)

lemma lift_result_Inr [simp]: "lift_result (Inr x) = ret x"
  by (simp add: fun_eq_iff lift_result_def ret_def)

lemma bnd_gets: "bnd (gets f) g s = g (f s) s"
  by (simp add: bnd_apply)

lemma thn_put_at:
  "i + length d \<le> length b \<Longrightarrow> thn (put_at i d) m \<lparr>tc = c, out = b\<rparr> =
   m \<lparr>tc = c, out = take i b @ d @ drop (i + length d) b\<rparr>"
  by (simp add: thn_apply put_at_apply)

lemma bnd_thn: "bnd (thn a b) f = thn a (bnd b f)"
  by (auto simp: fun_eq_iff bnd_apply thn_apply split: prod.splits sum.splits)

lemma bnd_assoc: "bnd (bnd a f) g = bnd a (\<lambda>x. bnd (f x) g)"
  by (auto simp: fun_eq_iff bnd_apply split: prod.splits sum.splits)

lemmas run_simps = bnd_gets thn_put_at bnd_thn

lemma pack_Inr_iff: "pack v n = Inr w \<longleftrightarrow> 0 \<le> v \<and> v < 256 ^ n \<and> w = be_bytes n v"
  by (auto simp: pack_def)

text \<open>What a context emits for \<open>d\<close> after it was fed \<open>h\<close>.\<close>

definition emit :: "(bytes \<Rightarrow> bytes) \<Rightarrow> bytes \<Rightarrow> bytes \<Rightarrow> bytes" where
  "emit f h d = drop (length (f h)) (f (h @ d))"

lemma stream_length: "stream_ok bs f \<Longrightarrow> length (f h) = length h - length h mod bs"
  by (simp add: stream_ok_def)

lemma stream_append: "stream_ok bs f \<Longrightarrow> f (h @ d) = f h @ emit f h d"
  unfolding stream_ok_def emit_def by (metis append_eq_conv_conj)

lemma emit_append: "stream_ok bs f \<Longrightarrow> emit f h (d @ e) = emit f h d @ emit f (h @ d) e"
  using stream_append [of bs f h "d @ e"] stream_append [of bs f "h @ d" e] stream_append [of bs f h d]
  by simp

lemma emit_length_le: "stream_ok bs f \<Longrightarrow> bs dvd length h \<Longrightarrow> length (emit f h d) \<le> length d"
  using stream_append [of bs f h d] stream_length [of bs f h] stream_length [of bs f "h @ d"]
  by (auto dest!: arg_cong [where f = length])

lemma emit_length:
  "stream_ok bs f \<Longrightarrow> bs dvd length h \<Longrightarrow> bs dvd length d \<Longrightarrow> length (emit f h d) = length d"
  using stream_append [of bs f h d] stream_length [of bs f h] stream_length [of bs f "h @ d"]
  by (auto dest!: arg_cong [where f = length])

text \<open>The object after its context was fed \<open>h\<close> in all.\<close>

definition fed :: "tls_cipher \<Rightarrow> cipher_ctx \<Rightarrow> bytes \<Rightarrow> tls_cipher" where
  "fed c ctx h = c\<lparr>c_cipher := Context (ctx\<lparr>ctx_fed := h\<rparr>)\<rparr>"

lemma fed_simps [simp]:
  "c_cipher (fed c ctx h) = Context (ctx\<lparr>ctx_fed := h\<rparr>)"
  "c_mac (fed c ctx h) = c_mac c" "c_max_overhead (fed c ctx h) = c_max_overhead c"
  "fixed_nonce (fed c ctx h) = fixed_nonce c" "c_block_size (fed c ctx h) = c_block_size c"
  "variable_nonce_len (fed c ctx h) = variable_nonce_len c" "is_etm (fed c ctx h) = is_etm c"
  "c_seal (fed c ctx h) = c_seal c" "c_open (fed c ctx h) = c_open c"
  "fed (fed c ctx h) ctx h' = fed c ctx h'"
  by (simp_all add: fed_def)

lemma ctx_output_fed [simp]: "ctx_output cr (ctx\<lparr>ctx_fed := h\<rparr>) = ctx_output cr ctx"
  by (simp add: ctx_output_def fun_eq_iff)

lemma update_into_apply:
  assumes "length e + context_block_size (ctx_alg ctx) - 1 \<le> length b - w"
    and "w + length (emit (ctx_output cr ctx) h e) \<le> length b"
  shows "update_into cr w e \<lparr>tc = fed c ctx h, out = b\<rparr> =
    (Inr (length (emit (ctx_output cr ctx) h e)),
     \<lparr>tc = fed c ctx (h @ e), out = take w b @ emit (ctx_output cr ctx) h e @
        drop (w + length (emit (ctx_output cr ctx) h e)) b\<rparr>)"
  using assms
  by (simp add: update_into_def ctx_update_def thn_apply put_at_def ret_def emit_def [symmetric] not_less)
    (simp add: fed_def)

text \<open>A run of updates writes what one update with all the data would.\<close>

lemma update_all_apply:
  assumes "stream_ok (context_block_size (ctx_alg ctx)) (ctx_output cr ctx)"
    and "context_block_size (ctx_alg ctx) dvd length h"
    and "length d + length (concat es) + context_block_size (ctx_alg ctx) - 1 \<le> length b"
  shows "update_all cr (length (emit (ctx_output cr ctx) h d)) es
      \<lparr>tc = fed c ctx (h @ d), out = emit (ctx_output cr ctx) h d @
         drop (length (emit (ctx_output cr ctx) h d)) b\<rparr> =
    (let e = emit (ctx_output cr ctx) h (d @ concat es)
     in (Inr (length e), \<lparr>tc = fed c ctx (h @ d @ concat es), out = e @ drop (length e) b\<rparr>))"
  using assms(3)
proof (induction es arbitrary: d)
  case Nil
  then show ?case by (simp add: ret_def Let_def)
next
  case (Cons x es)
  let ?f = "ctx_output cr ctx" and ?bs = "context_block_size (ctx_alg ctx)"
  let ?b = "emit ?f h d @ drop (length (emit ?f h d)) b"
  have le: "length (emit ?f h d) \<le> length d" "length (emit ?f h (d @ x)) \<le> length (d @ x)"
    by (rule emit_length_le [OF assms(1,2)])+
  have app: "emit ?f h (d @ x) = emit ?f h d @ emit ?f (h @ d) x" by (rule emit_append [OF assms(1)])
  obtain m where m: "?bs = Suc m" using context_block_size_pos gr0_implies_Suc by blast
  have room: "length x + ?bs - 1 \<le> length b - length (emit ?f h d)"
    "length (emit ?f h d) + length (emit ?f (h @ d) x) \<le> length b"
    using Cons.prems le app by (simp_all add: m)
  have "update_into cr (length (emit ?f h d)) x \<lparr>tc = fed c ctx (h @ d), out = ?b\<rparr> =
    (Inr (length (emit ?f (h @ d) x)),
     \<lparr>tc = fed c ctx (h @ d @ x), out = emit ?f h (d @ x) @ drop (length (emit ?f h (d @ x))) b\<rparr>)"
    using room app by (subst update_into_apply) (auto simp: add.commute)
  then show ?case
    using Cons.IH [of "d @ x"] Cons.prems app by (simp add: bnd_apply)
qed

subsection \<open>Pairs of objects\<close>

text \<open>
  \<open>paired cr w r\<close>: the sealing object \<open>w\<close> and the opening object \<open>r\<close> belong to the same keys and are at
  the same place of the stream.  The three cases are the three kinds of protection.
\<close>

definition paired_aead :: "crypto \<Rightarrow> tls_cipher \<Rightarrow> tls_cipher \<Rightarrow> bool" where
  "paired_aead cr w r \<longleftrightarrow> aead_ok cr \<and> (\<exists>alg key spec.
     c_cipher w = Aead_cipher alg key \<and> c_cipher r = Aead_cipher alg key \<and>
     AEAD_CIPHERS alg = Inr spec \<and> length key = key_length spec \<and>
     c_seal w = Some Encrypt_aead \<and> c_open r = Some Decrypt_aead \<and> c_block_size w = 1 \<and>
     variable_nonce_len w = 8 \<and> variable_nonce_len r = 8 \<and> fixed_nonce r = fixed_nonce w \<and>
     xor_fixed_nonce r = xor_fixed_nonce w \<and>
     variable_nonce_included_in_record r = variable_nonce_included_in_record w \<and>
     aad_is_header r = aad_is_header w \<and>
     c_max_overhead r = c_max_overhead w \<and>
     variable_nonce_included_in_record w = (\<not> xor_fixed_nonce w) \<and>
     length (fixed_nonce w) = (if xor_fixed_nonce w then 12 else 4) \<and>
     c_max_overhead w = tag_length spec + (if variable_nonce_included_in_record w then 8 else 0))"

definition contexts_in_step :: "crypto \<Rightarrow> cipher_ctx \<Rightarrow> cipher_ctx \<Rightarrow> bool" where
  "contexts_in_step cr x y \<longleftrightarrow> ctx_encrypting x \<and> \<not> ctx_encrypting y \<and>
     ctx_alg y = ctx_alg x \<and> ctx_key y = ctx_key x \<and> ctx_iv y = ctx_iv x \<and>
     (\<exists>spec. CIPHERS (ctx_alg x) = Inr spec \<and> length (ctx_key x) = key_length spec \<and>
        length (ctx_iv x) = iv_length spec) \<and>
     context_block_size (ctx_alg x) dvd length (ctx_fed x) \<and>
     ctx_fed y = ctx_output cr x (ctx_fed x)"

definition paired_cbc :: "crypto \<Rightarrow> tls_cipher \<Rightarrow> tls_cipher \<Rightarrow> bool" where
  "paired_cbc cr w r \<longleftrightarrow> mac_ok cr \<and> cipher_ok cr \<and> (\<exists>x y mac.
     c_cipher w = Context x \<and> c_cipher r = Context y \<and> contexts_in_step cr x y \<and>
     is_cbc (ctx_alg x) \<and> c_block_size w = context_block_size (ctx_alg x) \<and>
     c_block_size r = c_block_size w \<and> c_mac w = Some mac \<and> c_mac r = Some mac \<and>
     is_etm r = is_etm w \<and> variable_nonce_len r = variable_nonce_len w \<and>
     (variable_nonce_len w = 0 \<or> variable_nonce_len w = c_block_size w) \<and>
     length (fixed_nonce w) = variable_nonce_len w \<and>
     c_max_overhead w = c_block_size w + hash_digest_size cr (fst mac) + variable_nonce_len w \<and>
     c_seal w = Some (if is_etm w then Encrypt_then_mac else Mac_then_encrypt) \<and>
     c_open r = Some (if is_etm w then Mac_then_decrypt else Decrypt_then_mac))"

definition paired_stream :: "crypto \<Rightarrow> tls_cipher \<Rightarrow> tls_cipher \<Rightarrow> bool" where
  "paired_stream cr w r \<longleftrightarrow> mac_ok cr \<and> cipher_ok cr \<and> (\<exists>mac.
     c_mac w = Some mac \<and> c_mac r = Some mac \<and> c_block_size w = 1 \<and>
     (c_cipher w = No_cipher \<and> c_cipher r = No_cipher \<or>
      (\<exists>x y. c_cipher w = Context x \<and> c_cipher r = Context y \<and> contexts_in_step cr x y \<and>
         context_block_size (ctx_alg x) = 1)) \<and>
     c_max_overhead w = hash_digest_size cr (fst mac) \<and>
     c_seal w = Some Mac_then_encrypt_stream \<and> c_open r = Some Decrypt_stream_then_mac)"

definition paired :: "crypto \<Rightarrow> tls_cipher \<Rightarrow> tls_cipher \<Rightarrow> bool" where
  "paired cr w r \<longleftrightarrow> paired_aead cr w r \<or> paired_cbc cr w r \<or> paired_stream cr w r"

text \<open>The arguments of one record that fit into the fields of the authenticated header.\<close>

definition record_args_ok :: "int \<Rightarrow> int \<Rightarrow> int \<Rightarrow> bytes \<Rightarrow> bool" where
  "record_args_ok ty rv seq pt \<longleftrightarrow>
     0 \<le> ty \<and> ty < 256 \<and> 0 \<le> rv \<and> rv < 65536 \<and> 0 \<le> seq \<and> seq < 2 ^ 64 \<and> length pt + 1024 < 65536"

lemma pack_aad_Inr:
  assumes "record_args_ok ty rv seq pt" and "n < 65536"
  shows "pack_aad seq ty rv n = Inr (be_bytes 8 seq @ be_bytes 1 ty @ be_bytes 2 rv @ be_bytes 2 (int n))"
  using assms by (simp add: pack_aad_def pack_def record_args_ok_def)

subsection \<open>AEAD records\<close>

lemma seal_nonce_Inr:
  assumes "length (fixed_nonce c) = (if xor_fixed_nonce c then 12 else 4)" and "length sb = 8"
  shows "\<exists>n. seal_nonce c sb = Inr n \<and> length n = 12"
  using assms by (auto simp: seal_nonce_def xor_nonce_def strxor_def)

lemma seal_aead_apply:
  assumes p: "paired_aead cr w r" and a: "record_args_ok ty rv seq pt"
    and b: "length pt + c_max_overhead w \<le> length b"
  obtains alg key nonce aad where "c_cipher w = Aead_cipher alg key"
    "seal_nonce w (be_bytes 8 seq) = Inr nonce" "length nonce = 12"
    "aad = (if aad_is_header w then hdr else
       be_bytes 8 seq @ be_bytes 1 ty @ be_bytes 2 rv @ be_bytes 2 (int (length pt)))"
    "TLSCipher_seal cr ty rv pt seq hdr \<lparr>tc = w, out = b\<rparr> =
     (let c = (if xor_fixed_nonce w then [] else be_bytes 8 seq) @ aead_encrypt cr alg key nonce pt aad
      in (Inr (length c), \<lparr>tc = w, out = c @ drop (length c) b\<rparr>))"
    "length (aead_encrypt cr alg key nonce pt aad) + (if xor_fixed_nonce w then 0 else 8) =
       length pt + c_max_overhead w"
    "aead_decrypt cr alg key nonce (aead_encrypt cr alg key nonce pt aad) aad = Some pt"
proof -
  from p obtain alg key spec where ak: "aead_ok cr" "c_cipher w = Aead_cipher alg key"
    "AEAD_CIPHERS alg = Inr spec" "length key = key_length spec" "c_seal w = Some Encrypt_aead"
    "variable_nonce_len w = 8" "variable_nonce_included_in_record w = (\<not> xor_fixed_nonce w)"
    "length (fixed_nonce w) = (if xor_fixed_nonce w then 12 else 4)"
    "c_max_overhead w = tag_length spec + (if variable_nonce_included_in_record w then 8 else 0)"
    unfolding paired_aead_def by blast
  obtain nonce where n: "seal_nonce w (be_bytes 8 seq) = Inr nonce" "length nonce = 12"
    using seal_nonce_Inr [OF ak(8), of "be_bytes 8 seq"] by auto
  define aad where "aad = (if aad_is_header w then hdr else
       be_bytes 8 seq @ be_bytes 1 ty @ be_bytes 2 rv @ be_bytes 2 (int (length pt)))"
  have "length pt < 65536" using a by (simp add: record_args_ok_def)
  note pk = pack_aad_Inr [OF a this]
  have ad: "(if aad_is_header w then Inr hdr else pack_aad seq ty rv (length pt)) = Inr aad"
    by (simp add: aad_def pk)
  have sb: "pack seq 8 = Inr (be_bytes 8 seq)" using a by (simp add: pack_def record_args_ok_def)
  have e: "length (aead_encrypt cr alg key nonce pt aad) = length pt + tag_length spec"
    "aead_decrypt cr alg key nonce (aead_encrypt cr alg key nonce pt aad) aad = Some pt"
    using ak(1,3,4) n(2) unfolding aead_ok_def by blast+
  have "TLSCipher_seal cr ty rv pt seq hdr \<lparr>tc = w, out = b\<rparr> =
     (let c = (if xor_fixed_nonce w then [] else be_bytes 8 seq) @ aead_encrypt cr alg key nonce pt aad
      in (Inr (length c), \<lparr>tc = w, out = c @ drop (length c) b\<rparr>))"
    using ak b e(1)
    by (cases "xor_fixed_nonce w")
      (simp_all add: TLSCipher_seal_def encrypt_aead_def ad sb n run_simps Let_def ret_apply
        add.commute add.left_commute)
  with ak n aad_def e show thesis by (intro that) auto
qed

lemma open_aead_apply:
  assumes p: "paired_aead cr w r" and a: "record_args_ok ty rv seq pt"
    and b: "length pt + c_max_overhead w \<le> length b" "length pt + c_max_overhead w \<le> length b'"
  obtains c where "TLSCipher_seal cr ty rv pt seq hdr \<lparr>tc = w, out = b\<rparr> =
      (Inr (length c), \<lparr>tc = w, out = c @ drop (length c) b\<rparr>)"
    "length c = length pt + c_max_overhead w"
    "TLSCipher_open cr rnd ty rv c seq hdr \<lparr>tc = r, out = b'\<rparr> =
      (Inr (length pt), \<lparr>tc = r, out = pt @ drop (length pt) b'\<rparr>)"
proof -
  obtain alg key nonce aad where s: "c_cipher w = Aead_cipher alg key"
    "seal_nonce w (be_bytes 8 seq) = Inr nonce" "length nonce = 12"
    "aad = (if aad_is_header w then hdr else
       be_bytes 8 seq @ be_bytes 1 ty @ be_bytes 2 rv @ be_bytes 2 (int (length pt)))"
    "TLSCipher_seal cr ty rv pt seq hdr \<lparr>tc = w, out = b\<rparr> =
     (let c = (if xor_fixed_nonce w then [] else be_bytes 8 seq) @ aead_encrypt cr alg key nonce pt aad
      in (Inr (length c), \<lparr>tc = w, out = c @ drop (length c) b\<rparr>))"
    "length (aead_encrypt cr alg key nonce pt aad) + (if xor_fixed_nonce w then 0 else 8) =
       length pt + c_max_overhead w"
    "aead_decrypt cr alg key nonce (aead_encrypt cr alg key nonce pt aad) aad = Some pt"
    by (rule seal_aead_apply [OF p a b(1), of hdr])
  from p s(1) have r: "c_cipher r = Aead_cipher alg key" "c_open r = Some Decrypt_aead"
    "variable_nonce_len r = 8" "fixed_nonce r = fixed_nonce w"
    "xor_fixed_nonce r = xor_fixed_nonce w" "aad_is_header r = aad_is_header w"
    "c_max_overhead r = c_max_overhead w" "variable_nonce_included_in_record r = (\<not> xor_fixed_nonce w)"
    unfolding paired_aead_def by auto
  define c where
    "c = (if xor_fixed_nonce w then [] else be_bytes 8 seq) @ aead_encrypt cr alg key nonce pt aad"
  have len: "length c = length pt + c_max_overhead w" using s(6) by (simp add: c_def split: if_splits)
  have "length pt < 65536" using a by (simp add: record_args_ok_def)
  note pk = pack_aad_Inr [OF a this]
  have sb: "pack seq 8 = Inr (be_bytes 8 seq)" using a by (simp add: pack_def record_args_ok_def)
  have xn: "xor_nonce r = xor_nonce w" using r by (simp add: xor_nonce_def fun_eq_iff)
  have "TLSCipher_open cr rnd ty rv c seq hdr \<lparr>tc = r, out = b'\<rparr> =
      (Inr (length pt), \<lparr>tc = r, out = pt @ drop (length pt) b'\<rparr>)"
  proof (cases "xor_fixed_nonce w")
    case True
    then have "c = aead_encrypt cr alg key nonce pt aad" by (simp add: c_def)
    with True s(2,4,7) r b(2) len show ?thesis
      by (cases "aad_is_header w")
        (simp_all add: TLSCipher_open_def decrypt_aead_def pk sb xn seal_nonce_def run_simps,
          simp_all add: ret_def)
  next
    case False
    then have "c = be_bytes 8 seq @ aead_encrypt cr alg key nonce pt aad" by (simp add: c_def)
    with False s(2,4,7) r b(2) len show ?thesis
      by (cases "aad_is_header w")
        (simp_all add: TLSCipher_open_def decrypt_aead_def pk sb seal_nonce_def run_simps,
          simp_all add: ret_def)
  qed
  with s(5) len show thesis by (intro that [of c]) (simp_all add: c_def Let_def)
qed


subsection \<open>CBC and stream records\<close>

lemma fed_self: "c_cipher c = Context ctx \<Longrightarrow> fed c ctx (ctx_fed ctx) = c"
  by (simp add: fed_def)

lemma length_get_pad: "0 < bs \<Longrightarrow> length (get_pad n bs) = bs - n mod bs"
  by (simp add: get_pad_def Let_def Suc_diff_Suc mod_less_divisor)

lemma dvd_get_pad:
  assumes "0 < bs"
  shows "bs dvd n + length (get_pad n bs)"
proof -
  have "n + (bs - n mod bs) = n div bs * bs + bs"
    using div_mult_mod_eq [of n bs] mod_less_divisor [OF assms, of n] by linarith
  then show ?thesis by (simp add: length_get_pad [OF assms])
qed

lemma get_pad_replicate:
  "0 < bs \<Longrightarrow> bs \<le> 256 \<Longrightarrow> \<exists>p < 256. get_pad n bs = replicate (Suc p) (of_nat p)"
  by (rule exI [where x = "bs - 1 - n mod bs"]) (simp add: get_pad_def Let_def)

lemma get_pad_facts:
  fixes bs k n :: nat
  assumes "1 < bs" and "bs \<le> 16" and "bs dvd k"
  defines "pad \<equiv> get_pad (k + n) bs"
  shows "bs dvd n + length pad" and "length pad = bs - n mod bs"
    and "\<exists>q < 256. pad = replicate (Suc q) (of_nat q)"
proof -
  from assms(3) obtain j where j: "k = bs * j" by (auto elim: dvdE)
  then show "length pad = bs - n mod bs" using assms(1) by (simp add: pad_def length_get_pad)
  show "bs dvd n + length pad"
    using dvd_get_pad [of bs "k + n"] assms(1,3) by (simp add: pad_def add.assoc dvd_add_right_iff)
  show "\<exists>q < 256. pad = replicate (Suc q) (of_nat q)"
    unfolding pad_def using assms(1,2) by (intro get_pad_replicate) simp_all
qed

lemma contexts_in_stepD:
  assumes "contexts_in_step cr x y" and "cipher_ok cr"
  defines "bs \<equiv> context_block_size (ctx_alg x)" and "f \<equiv> ctx_output cr x" and "g \<equiv> ctx_output cr y"
  shows "stream_ok bs f" "stream_ok bs g" "bs dvd length h \<Longrightarrow> g (f h) = h"
    "bs dvd length (ctx_fed x)" "ctx_fed y = f (ctx_fed x)" "ctx_alg y = ctx_alg x"
  using assms unfolding contexts_in_step_def cipher_ok_def
  by (auto simp: ctx_output_def [abs_def])

lemma emit_decrypts:
  assumes f: "stream_ok bs f" and g: "stream_ok bs g" and gf: "\<And>h. bs dvd length h \<Longrightarrow> g (f h) = h"
    and d: "bs dvd length h" "bs dvd length d"
  shows "emit g (f h) (emit f h d) = d"
proof -
  have "g (f h @ emit f h d) = h @ d"
    using gf [of "h @ d"] d stream_append [OF f, of h d] by simp
  with gf [OF d(1)] show ?thesis by (simp add: emit_def)
qed

lemma contexts_step:
  assumes "contexts_in_step cr x y" and "cipher_ok cr"
    and "context_block_size (ctx_alg x) dvd length d"
  shows "contexts_in_step cr (x\<lparr>ctx_fed := ctx_fed x @ d\<rparr>)
    (y\<lparr>ctx_fed := ctx_fed y @ emit (ctx_output cr x) (ctx_fed x) d\<rparr>)"
  using assms contexts_in_stepD(1,4,5) [OF assms(1,2)] stream_append
  unfolding contexts_in_step_def by auto

text \<open>
  The core of all opening methods: sealed data \<open>d1 @ d2\<close> is decrypted in two updates, the first of
  which is overwritten by the second.
\<close>

lemma decrypt_two_updates:
  assumes s: "contexts_in_step cr x y" "cipher_ok cr"
    and d: "context_block_size (ctx_alg x) dvd length d1" "context_block_size (ctx_alg x) dvd length d2"
    and b: "length d1 + length d2 + context_block_size (ctx_alg x) \<le> length b"
  defines "c1 \<equiv> emit (ctx_output cr x) (ctx_fed x) d1"
    and "c2 \<equiv> emit (ctx_output cr x) (ctx_fed x @ d1) d2"
  shows "bnd (update_into cr 0 c1) g \<lparr>tc = fed r y (ctx_fed y), out = b\<rparr> =
      g (length d1) \<lparr>tc = fed r y (ctx_fed y @ c1), out = d1 @ drop (length d1) b\<rparr>"
    and "bnd (update_into cr 0 c2) g \<lparr>tc = fed r y (ctx_fed y @ c1), out = d1 @ drop (length d1) b\<rparr> =
      g (length d2) \<lparr>tc = fed r y (ctx_fed y @ c1 @ c2),
         out = d2 @ drop (length d2) (d1 @ drop (length d1) b)\<rparr>"
    and "length c1 = length d1" "length c2 = length d2"
    and "emit (ctx_output cr x) (ctx_fed x) (d1 @ d2) = c1 @ c2"
proof -
  let ?f = "ctx_output cr x" and ?g = "ctx_output cr y" and ?h = "ctx_fed x"
  note D = contexts_in_stepD [OF s]
  have l1: "length c1 = length d1" and l2: "length c2 = length d2"
    using d D(4) by (auto simp: c1_def c2_def emit_length [OF D(1)])
  have fy: "ctx_fed y @ c1 = ?f (?h @ d1)" using D(5) stream_append [OF D(1)] by (simp add: c1_def)
  have e1: "emit ?g (ctx_fed y) c1 = d1"
    using emit_decrypts [OF D(1,2,3) D(4) d(1)] by (simp add: D(5) c1_def)
  have e2: "emit ?g (ctx_fed y @ c1) c2 = d2"
    using emit_decrypts [OF D(1,2,3) _ d(2), of "?h @ d1"] D(4) d(1) by (simp add: fy c2_def)
  show "bnd (update_into cr 0 c1) g \<lparr>tc = fed r y (ctx_fed y), out = b\<rparr> =
      g (length d1) \<lparr>tc = fed r y (ctx_fed y @ c1), out = d1 @ drop (length d1) b\<rparr>"
    using b l1 update_into_apply [of c1 y b 0 cr "ctx_fed y" r] by (simp add: bnd_apply e1 D(6))
  show "bnd (update_into cr 0 c2) g \<lparr>tc = fed r y (ctx_fed y @ c1), out = d1 @ drop (length d1) b\<rparr> =
      g (length d2) \<lparr>tc = fed r y (ctx_fed y @ c1 @ c2),
         out = d2 @ drop (length d2) (d1 @ drop (length d1) b)\<rparr>"
    using b l2 update_into_apply [of c2 y "d1 @ drop (length d1) b" 0 cr "ctx_fed y @ c1" r]
    by (simp add: bnd_apply e2 D(6))
  show "length c1 = length d1" "length c2 = length d2" by (rule l1, rule l2)
  show "emit ?f ?h (d1 @ d2) = c1 @ c2" unfolding c1_def c2_def by (rule emit_append [OF D(1)])
qed

lemma get_mac_Inr:
  assumes "record_args_ok ty rv seq pt" and "length p < 65536" and "mac_ok cr"
  shows "\<exists>m. get_mac cr mac seq ty rv p = Inr m \<and> length m = hash_digest_size cr (fst mac) \<and>
    length m \<le> 64"
  using assms pack_aad_Inr [OF assms(1), of "length p"] by (simp add: get_mac_def mac_ok_def)


lemma bnd_the_mac: "c_mac c = Some m \<Longrightarrow> bnd the_mac g \<lparr>tc = c, out = b\<rparr> = g m \<lparr>tc = c, out = b\<rparr>"
  by (simp add: bnd_apply the_mac_def)

lemma bnd_update_all:
  assumes "c_cipher w = Context x" "stream_ok (context_block_size (ctx_alg x)) (ctx_output cr x)"
    and "context_block_size (ctx_alg x) dvd length (ctx_fed x)"
    and "length (concat es) + context_block_size (ctx_alg x) \<le> length b"
    and "context_block_size (ctx_alg x) dvd length (concat es)"
  defines "e \<equiv> emit (ctx_output cr x) (ctx_fed x) (concat es)"
  shows "bnd (update_all cr 0 es) g \<lparr>tc = w, out = b\<rparr> =
    g (length (concat es)) \<lparr>tc = fed w x (ctx_fed x @ concat es), out = e @ drop (length (concat es)) b\<rparr>"
    and "length e = length (concat es)"
proof -
  have [simp]: "emit (ctx_output cr x) (ctx_fed x) [] = []" by (simp add: emit_def)
  show l: "length e = length (concat es)" unfolding e_def by (rule emit_length [OF assms(2,3,5)])
  have "update_all cr 0 es \<lparr>tc = w, out = b\<rparr> =
    (Inr (length e), \<lparr>tc = fed w x (ctx_fed x @ concat es), out = e @ drop (length e) b\<rparr>)"
    using update_all_apply [OF assms(2,3), of "[]" es b w] assms(4) fed_self [OF assms(1)]
    by (simp add: Let_def e_def)
  with l show "bnd (update_all cr 0 es) g \<lparr>tc = w, out = b\<rparr> =
    g (length (concat es)) \<lparr>tc = fed w x (ctx_fed x @ concat es), out = e @ drop (length (concat es)) b\<rparr>"
    by (simp add: bnd_apply)
qed

text \<open>The common shape of the claims about one record.\<close>

definition record_passes ::
    "crypto \<Rightarrow> (nat \<Rightarrow> bytes) \<Rightarrow> int \<Rightarrow> int \<Rightarrow> bytes \<Rightarrow> int \<Rightarrow> bytes \<Rightarrow> tls_cipher \<Rightarrow> tls_cipher \<Rightarrow>
     bytes \<Rightarrow> bytes \<Rightarrow> bool" where
  "record_passes cr rnd ty rv pt seq hdr w r b b' \<longleftrightarrow> (\<exists>c w' r' t t'.
     TLSCipher_seal cr ty rv pt seq hdr \<lparr>tc = w, out = b\<rparr> =
       (Inr (length c), \<lparr>tc = w', out = c @ t\<rparr>) \<and>
     length c = ciphertext_length cr w (length pt) \<and>
     TLSCipher_open cr rnd ty rv c seq hdr \<lparr>tc = r, out = b'\<rparr> =
       (Inr (length pt), \<lparr>tc = r', out = pt @ t'\<rparr>) \<and>
     paired cr w' r')"

lemma aead_record_passes:
  assumes "paired_aead cr w r" and "record_args_ok ty rv seq pt"
    and "length pt + c_max_overhead w \<le> length b" "length pt + c_max_overhead w \<le> length b'"
  shows "record_passes cr rnd ty rv pt seq hdr w r b b'"
proof -
  from assms(1) have "ciphertext_length cr w (length pt) = length pt + c_max_overhead w"
    by (auto simp: paired_aead_def ciphertext_length_def is_block_cipher_def)
  moreover obtain c where "TLSCipher_seal cr ty rv pt seq hdr \<lparr>tc = w, out = b\<rparr> =
      (Inr (length c), \<lparr>tc = w, out = c @ drop (length c) b\<rparr>)"
    "length c = length pt + c_max_overhead w"
    "TLSCipher_open cr rnd ty rv c seq hdr \<lparr>tc = r, out = b'\<rparr> =
      (Inr (length pt), \<lparr>tc = r, out = pt @ drop (length pt) b'\<rparr>)"
    by (rule open_aead_apply [OF assms])
  ultimately show ?thesis
    using assms(1) unfolding record_passes_def paired_def by metis
qed

lemma cbc_record_passes:
  assumes p: "paired_cbc cr w r" and a: "record_args_ok ty rv seq pt" and etm: "\<not> is_etm w"
    and b: "length pt + c_max_overhead w + c_block_size w \<le> length b"
      "ciphertext_length cr w (length pt) + c_block_size w \<le> length b'"
  shows "record_passes cr rnd ty rv pt seq hdr w r b b'"
proof -
  from p obtain x y mac where c: "mac_ok cr" "cipher_ok cr" "c_cipher w = Context x"
    "c_cipher r = Context y" "contexts_in_step cr x y" "is_cbc (ctx_alg x)"
    "c_block_size w = context_block_size (ctx_alg x)" "c_block_size r = c_block_size w"
    "c_mac w = Some mac" "c_mac r = Some mac" "is_etm r = is_etm w"
    "variable_nonce_len r = variable_nonce_len w"
    "variable_nonce_len w = 0 \<or> variable_nonce_len w = c_block_size w"
    "length (fixed_nonce w) = variable_nonce_len w"
    "c_max_overhead w = c_block_size w + hash_digest_size cr (fst mac) + variable_nonce_len w"
    "c_seal w = Some Mac_then_encrypt" "c_open r = Some Decrypt_then_mac"
    using etm unfolding paired_cbc_def by auto
  let ?bs = "context_block_size (ctx_alg x)" and ?f = "ctx_output cr x"
  have bs: "1 < ?bs" "?bs \<le> 16" using c(6) by (auto simp: is_cbc_def)
  obtain m where m: "get_mac cr mac seq ty rv pt = Inr m"
    "length m = hash_digest_size cr (fst mac)" "length m \<le> 64"
    using get_mac_Inr [OF a _ c(1), of pt mac] a by (auto simp: record_args_ok_def)
  define iv where "iv = fixed_nonce w"
  define pad where "pad = get_pad (length iv + length pt + length m) ?bs"
  have div: "?bs dvd length iv" using c(7,13,14) by (auto simp: iv_def)
  note P = get_pad_facts [OF bs div, of "length pt + length m", folded add.assoc, folded pad_def]
  have d: "?bs dvd length (pt @ m @ pad)" using P(1) by (simp add: add.assoc)
  note lp = P(2)
  obtain q where q: "q < 256" "pad = replicate (Suc q) (of_nat q)" using P(3) by blast
  define h where "h = ctx_fed x"
  define c1 where "c1 = emit ?f h iv"
  define c2 where "c2 = emit ?f (h @ iv) (pt @ m @ pad)"
  note D = contexts_in_stepD [OF c(5,2)]
  have room: "length iv + length (pt @ m @ pad) + ?bs \<le> length b"
    using b(1) c(7,14,15) m(2) lp bs by (simp add: iv_def)
  have len: "ciphertext_length cr w (length pt) = length iv + length (pt @ m @ pad)"
  proof -
    have "mac_digest_size cr w = length m"
      using c(9) m(2) by (simp add: mac_digest_size_def split: prod.splits)
    then show ?thesis
      using etm bs c(7,14)
      by (simp add: ciphertext_length_def is_block_cipher_def Let_def iv_def lp [symmetric])
  qed
  have room': "length iv + length (pt @ m @ pad) + ?bs \<le> length b'" using b(2) len c(7) by simp
  note two = decrypt_two_updates(1,2) [OF c(5,2) div d room', where r = r, folded h_def, folded c1_def c2_def]
    decrypt_two_updates(3-5) [OF c(5,2) div d room', folded h_def, folded c1_def c2_def]
  have up: "bnd (update_all cr 0 [iv, pt, m, pad]) g \<lparr>tc = w, out = b\<rparr> =
    g (length (iv @ pt @ m @ pad)) \<lparr>tc = fed w x (h @ iv @ pt @ m @ pad),
      out = (c1 @ c2) @ drop (length (c1 @ c2)) b\<rparr>" for g
    using bnd_update_all(1) [OF c(3) D(1,4), of "[iv, pt, m, pad]" b g] room div d two(3-5)
    by (simp add: h_def add.assoc)
  have seal: "TLSCipher_seal cr ty rv pt seq hdr \<lparr>tc = w, out = b\<rparr> =
    (Inr (length (c1 @ c2)), \<lparr>tc = fed w x (h @ iv @ pt @ m @ pad),
      out = (c1 @ c2) @ drop (length (c1 @ c2)) b\<rparr>)"
    using b(1) two(3,4)
    by (simp add: TLSCipher_seal_def mac_then_encrypt_def run_simps c bnd_the_mac m(1) Let_def up
        del: update_all.simps flip: iv_def pad_def) (simp add: ret_def)
  have exp: "Py_cbc_remove_pad_and_mac rb (pt @ m @ pad) (length m) ?bs = Inr (length pt, m)" for rb
    using cbc_remove_valid [of pt m q ?bs rb] q m(3) bs a by (simp add: record_args_ok_def)
  have open_eq: "TLSCipher_open cr rnd ty rv (c1 @ c2) seq hdr \<lparr>tc = r, out = b'\<rparr> =
    (Inr (length pt), \<lparr>tc = fed r y (ctx_fed y @ c1 @ c2), out = (pt @ m @ pad) @
       drop (length (pt @ m @ pad)) (iv @ drop (length iv) b')\<rparr>)"
  proof -
    have r: "\<lparr>tc = r, out = b'\<rparr> = \<lparr>tc = fed r y (ctx_fed y), out = b'\<rparr>"
      using fed_self [OF c(4)] by simp
    have s: "variable_nonce_len w = length c1" "length c1 = length iv" using c(14) two(3) by (simp_all add: iv_def)
    have k: "\<not> length b' < length (c1 @ c2) + ?bs"
      "\<not> length (c1 @ c2) < hash_digest_size cr (fst mac) + length c1"
      using room' two(3,4) m(2) by auto
    show ?thesis
      using k s two(4) m(1,2) unfolding r
      by (simp add: TLSCipher_open_def decrypt_then_mac_def run_simps c bnd_the_mac Let_def s
          two(1,2) remove_pad_and_mac_def exp [unfolded m(2)])
        (simp add: ret_def)
  qed
  have "paired_cbc cr (fed w x (h @ iv @ pt @ m @ pad)) (fed r y (ctx_fed y @ c1 @ c2))"
    using p contexts_step [OF c(5,2), of "iv @ pt @ m @ pad"] div d two(5) c(3,4)
    unfolding paired_cbc_def by (auto simp: h_def dest: dvd_add)
  with seal open_eq len two(3,4) show ?thesis
    unfolding record_passes_def paired_def
    by (intro exI [where x = "c1 @ c2"] exI conjI) (auto simp: add.assoc)
qed

lemma etm_record_passes:
  assumes p: "paired_cbc cr w r" and a: "record_args_ok ty rv seq pt" and etm: "is_etm w"
    and b: "length pt + c_max_overhead w + c_block_size w \<le> length b"
      "ciphertext_length cr w (length pt) + c_block_size w \<le> length b'"
  shows "record_passes cr rnd ty rv pt seq hdr w r b b'"
proof -
  from p obtain x y mac where c: "mac_ok cr" "cipher_ok cr" "c_cipher w = Context x"
    "c_cipher r = Context y" "contexts_in_step cr x y" "is_cbc (ctx_alg x)"
    "c_block_size w = context_block_size (ctx_alg x)" "c_block_size r = c_block_size w"
    "c_mac w = Some mac" "c_mac r = Some mac" "is_etm r = is_etm w"
    "variable_nonce_len r = variable_nonce_len w"
    "variable_nonce_len w = 0 \<or> variable_nonce_len w = c_block_size w"
    "length (fixed_nonce w) = variable_nonce_len w"
    "c_max_overhead w = c_block_size w + hash_digest_size cr (fst mac) + variable_nonce_len w"
    "c_seal w = Some Encrypt_then_mac" "c_open r = Some Mac_then_decrypt"
    using etm unfolding paired_cbc_def by auto
  let ?bs = "context_block_size (ctx_alg x)" and ?f = "ctx_output cr x"
  have bs: "1 < ?bs" "?bs \<le> 16" using c(6) by (auto simp: is_cbc_def)
  define iv where "iv = fixed_nonce w"
  define pad where "pad = get_pad (length pt) ?bs"
  define h where "h = ctx_fed x"
  define c1 where "c1 = emit ?f h iv"
  define c2 where "c2 = emit ?f (h @ iv) (pt @ pad)"
  have div: "?bs dvd length iv" using c(7,13,14) by (auto simp: iv_def)
  note P = get_pad_facts [OF bs dvd_0_right, of "length pt", unfolded add_0, folded pad_def]
  have d: "?bs dvd length (pt @ pad)" using P(1) by simp
  obtain q where q: "q < 256" "pad = replicate (Suc q) (of_nat q)" using P(3) by blast
  have ivl: "length iv \<le> 16" using c(7,13,14) bs by (auto simp: iv_def)
  note D = contexts_in_stepD [OF c(5,2)]
  have lpad: "length pad \<le> ?bs" using P(2) by simp
  have room: "length iv + length (pt @ pad) + hash_digest_size cr (fst mac) + ?bs \<le> length b"
    using b(1) c(7,14,15) lpad by (simp add: iv_def)
  have len: "ciphertext_length cr w (length pt) =
      length iv + length (pt @ pad) + hash_digest_size cr (fst mac)"
  proof -
    have "mac_digest_size cr w = hash_digest_size cr (fst mac)"
      using c(9) by (simp add: mac_digest_size_def split: prod.splits)
    then show ?thesis
      using etm bs c(7,14)
      by (simp add: ciphertext_length_def is_block_cipher_def Let_def iv_def P(2) [symmetric])
  qed
  have room': "length iv + length (pt @ pad) + ?bs \<le> length b'" using b(2) len c(7) by simp
  note two = decrypt_two_updates(1,2) [OF c(5,2) div d room', where r = r, folded h_def, folded c1_def c2_def]
    decrypt_two_updates(3-5) [OF c(5,2) div d room', folded h_def, folded c1_def c2_def]
  obtain m where m: "get_mac cr mac seq ty rv (c1 @ c2) = Inr m"
    "length m = hash_digest_size cr (fst mac)" "length m \<le> 64"
    using get_mac_Inr [OF a _ c(1), of "c1 @ c2" mac] a two(3,4) ivl bs lpad
    by (auto simp: record_args_ok_def)
  have up: "bnd (update_all cr 0 [iv, pt, pad]) g \<lparr>tc = w, out = b\<rparr> =
    g (length (iv @ pt @ pad)) \<lparr>tc = fed w x (h @ iv @ pt @ pad),
      out = (c1 @ c2) @ drop (length (c1 @ c2)) b\<rparr>" for g
    using bnd_update_all(1) [OF c(3) D(1,4), of "[iv, pt, pad]" b g] room div d two(3-5)
    by (simp add: h_def add.assoc)
  have seal: "TLSCipher_seal cr ty rv pt seq hdr \<lparr>tc = w, out = b\<rparr> =
    (Inr (length (c1 @ c2 @ m)), \<lparr>tc = fed w x (h @ iv @ pt @ pad),
      out = (c1 @ c2 @ m) @ drop (length (c1 @ c2 @ m)) b\<rparr>)"
    using b(1) two(3,4) m room
    by (simp add: TLSCipher_seal_def encrypt_then_mac_def run_simps c bnd_the_mac Let_def up
        del: update_all.simps flip: iv_def pad_def) (simp add: ret_def ac_simps)
  have exp: "Py_cbc_remove_pad_and_mac rb (pt @ pad) 0 ?bs = Inr (length pt, [])" for rb
    using cbc_remove_valid [of pt "[]" q ?bs rb] q bs a by (simp add: record_args_ok_def)
  have open_eq: "TLSCipher_open cr rnd ty rv (c1 @ c2 @ m) seq hdr \<lparr>tc = r, out = b'\<rparr> =
    (Inr (length pt), \<lparr>tc = fed r y (ctx_fed y @ c1 @ c2), out = (pt @ pad) @
       drop (length (pt @ pad)) (iv @ drop (length iv) b')\<rparr>)"
  proof -
    have r: "\<lparr>tc = r, out = b'\<rparr> = \<lparr>tc = fed r y (ctx_fed y), out = b'\<rparr>"
      using fed_self [OF c(4)] by simp
    have s: "variable_nonce_len w = length c1" "length c1 = length iv" using c(14) two(3) by (simp_all add: iv_def)
    have k: "\<not> length b' < length (c1 @ c2 @ m) + ?bs"
      using b(2) len two(3,4) m(2) c(7) by auto
    show ?thesis
      using k s two(4) m unfolding r
      by (simp add: TLSCipher_open_def mac_then_decrypt_def run_simps c bnd_the_mac Let_def s
          two(1,2) remove_pad_and_mac_def exp)
        (simp add: ret_def)
  qed
  have "paired_cbc cr (fed w x (h @ iv @ pt @ pad)) (fed r y (ctx_fed y @ c1 @ c2))"
    using p contexts_step [OF c(5,2), of "iv @ pt @ pad"] div d two(5) c(3,4)
    unfolding paired_cbc_def by (auto simp: h_def dest: dvd_add)
  with seal open_eq len two(3,4) m(2) show ?thesis
    unfolding record_passes_def paired_def
    by (intro exI [where x = "c1 @ c2 @ m"] exI conjI) (auto simp: add.assoc)
qed

lemma stream_record_passes:
  assumes p: "paired_stream cr w r" and a: "record_args_ok ty rv seq pt"
    and b: "length pt + c_max_overhead w + 1 \<le> length b" "length pt + c_max_overhead w + 1 \<le> length b'"
  shows "record_passes cr rnd ty rv pt seq hdr w r b b'"
proof -
  from p obtain mac where c: "mac_ok cr" "cipher_ok cr" "c_mac w = Some mac" "c_mac r = Some mac"
    "c_block_size w = 1" "c_max_overhead w = hash_digest_size cr (fst mac)"
    "c_seal w = Some Mac_then_encrypt_stream" "c_open r = Some Decrypt_stream_then_mac"
    unfolding paired_stream_def by auto
  obtain m where m: "get_mac cr mac seq ty rv pt = Inr m"
    "length m = hash_digest_size cr (fst mac)" "length m \<le> 64"
    using get_mac_Inr [OF a _ c(1), of pt mac] a by (auto simp: record_args_ok_def)
  have len: "ciphertext_length cr w (length pt) = length (pt @ m)"
    using c(5,6) m(2) by (simp add: ciphertext_length_def is_block_cipher_def)
  have exp: "Py_cbc_remove_pad_and_mac rb (pt @ m) (hash_digest_size cr (fst mac)) (Suc 0) =
      Inr (length pt, m)" for rb
    using cbc_remove_stream [of "pt @ m" "length m" rb] m(2,3) a by (simp add: record_args_ok_def)
  show ?thesis
  proof (cases "c_cipher w")
    case No_cipher
    with p have r: "c_cipher r = No_cipher" by (auto simp: paired_stream_def)
    have "TLSCipher_seal cr ty rv pt seq hdr \<lparr>tc = w, out = b\<rparr> =
      (Inr (length (pt @ m)), \<lparr>tc = w, out = (pt @ m) @ drop (length (pt @ m)) b\<rparr>)"
      using b(1) c m No_cipher
      by (simp add: TLSCipher_seal_def mac_then_encrypt_stream_def run_simps bnd_the_mac)
        (simp add: ret_def ac_simps)
    moreover have "TLSCipher_open cr rnd ty rv (pt @ m) seq hdr \<lparr>tc = r, out = b'\<rparr> =
      (Inr (length pt), \<lparr>tc = r, out = pt @ m @ drop (length (pt @ m)) b'\<rparr>)"
      using b(2) c m r
      by (simp add: TLSCipher_open_def decrypt_stream_then_mac_def run_simps bnd_the_mac Let_def
          remove_pad_and_mac_def exp) (simp add: ret_def)
    ultimately show ?thesis
      using len p unfolding record_passes_def paired_def
      by (intro exI [where x = "pt @ m"] exI conjI) auto
  next
    case (Context x)
    with p obtain y where y: "c_cipher r = Context y" "contexts_in_step cr x y"
      "context_block_size (ctx_alg x) = 1"
      by (auto simp: paired_stream_def)
    define h where "h = ctx_fed x"
    define e where "e = emit (ctx_output cr x) h (pt @ m)"
    note D = contexts_in_stepD [OF y(2) c(2)]
    have room: "length [] + length (pt @ m) + context_block_size (ctx_alg x) \<le> length b'"
      using b(2) c(6) m(2) y(3) by simp
    note two = decrypt_two_updates [OF y(2) c(2) _ _ room, folded h_def, unfolded append_Nil2, folded e_def]
    have up: "bnd (update_all cr 0 [pt, m]) g \<lparr>tc = w, out = b\<rparr> =
      g (length (pt @ m)) \<lparr>tc = fed w x (h @ pt @ m), out = e @ drop (length (pt @ m)) b\<rparr>" for g
      using bnd_update_all(1) [OF Context D(1,4), of "[pt, m]" b g] b(1) c(6) m(2) y(3)
      by (simp add: h_def e_def)
    have le: "length e = length (pt @ m)" using two(4) y(3) by simp
    have "TLSCipher_seal cr ty rv pt seq hdr \<lparr>tc = w, out = b\<rparr> =
      (Inr (length e), \<lparr>tc = fed w x (h @ pt @ m), out = e @ drop (length e) b\<rparr>)"
      using b(1) c m(1) Context le
      by (simp add: TLSCipher_seal_def mac_then_encrypt_stream_def run_simps bnd_the_mac up
          del: update_all.simps) (simp add: ret_def)
    moreover have upd: "bnd (update_into cr 0 e) g \<lparr>tc = r, out = b'\<rparr> =
      g (length (pt @ m)) \<lparr>tc = fed r y (ctx_fed y @ e), out = (pt @ m) @ drop (length (pt @ m)) b'\<rparr>" for g
      using two(2) [of g r] y(3) fed_self [OF y(1)] by (simp add: emit_def)
    have "TLSCipher_open cr rnd ty rv e seq hdr \<lparr>tc = r, out = b'\<rparr> =
      (Inr (length pt), \<lparr>tc = fed r y (ctx_fed y @ e), out = pt @ m @ drop (length (pt @ m)) b'\<rparr>)"
      using b(2) c m y(1) le
      by (simp add: TLSCipher_open_def decrypt_stream_then_mac_def run_simps bnd_assoc bnd_the_mac Let_def
          remove_pad_and_mac_def exp upd) (simp add: ret_def)
    moreover have "paired_stream cr (fed w x (h @ pt @ m)) (fed r y (ctx_fed y @ e))"
      using p contexts_step [OF y(2) c(2), of "pt @ m"] Context y
      unfolding paired_stream_def by (auto simp: h_def e_def)
    ultimately show ?thesis
      using len le unfolding record_passes_def paired_def
      by (intro exI [where x = e] exI conjI) auto
  next
    case (Aead_cipher alg key)
    with p show ?thesis by (auto simp: paired_stream_def)
  qed
qed

subsection \<open>From the constructor to streams of records\<close>

lemma get_algorithm_hash_id:
  "get_algorithm (hash_id h) = Inr h \<longleftrightarrow> h \<noteq> HASH_NONE \<and> h \<noteq> HASH_INTRINSIC"
  by (cases h) (simp_all add: get_algorithm_def)

lemma get_algorithm_Inr: "get_algorithm (hash_id h) = Inr a \<Longrightarrow> a = h"
  by (cases h) (auto simp: get_algorithm_def)

lemma AEAD_tag_length: "AEAD_CIPHERS alg = Inr spec \<Longrightarrow> tag_length spec \<le> 16"
  by (cases alg) auto

lemma init_aead_paired:
  assumes "init_aead DIR_WRITE v cs k iv mk etm = Inr w" "init_aead DIR_READ v cs k iv mk etm = Inr r"
    and "aead_ok cr" and v: "v \<ge> ver V_TLSv1_3 \<longleftrightarrow> minimum_version cs \<ge> ver V_TLSv1_3"
  shows "paired_aead cr w r"
proof -
  from assms(1) obtain spec where spec: "AEAD_CIPHERS (symmetric cs) = Inr spec"
    "length k = key_length spec"
    "length iv = (if v \<ge> ver V_TLSv1_3 then 12 else iv_length spec)"
    by (auto simp: init_aead_def rbind_Inr_iff Let_def split: if_splits)
  have "(if v \<ge> ver V_TLSv1_3 then 12 else iv_length spec) =
      (if minimum_version cs \<ge> ver V_TLSv1_3 \<or> symmetric cs = SYM_CHACHA20_POLY1305 then 12 else 4)"
    using v AEAD_CIPHERS_lengths [OF spec(1)] spec(1) by (auto split: if_splits)
  with spec assms show ?thesis
    by (cases "minimum_version cs \<ge> ver V_TLSv1_3 \<or> symmetric cs = SYM_CHACHA20_POLY1305")
      (auto simp: init_aead_def Let_def blank_cipher_def paired_aead_def split: if_splits)
qed

lemma is_cbc_block_size:
  "is_cbc s \<Longrightarrow> context_block_size s = (if s = SYM_TRIPLE_DES_EDE_CBC then 8 else 16)"
  by (auto simp: is_cbc_def)

lemma not_cbc_block_size: "\<not> is_cbc s \<Longrightarrow> context_block_size s = 1"
  by (cases s) (auto simp: is_cbc_def)

lemma init_mac_paired:
  assumes "init_mac cr rw DIR_WRITE v cs k iv mk etm = Inr w"
    and "init_mac cr rr DIR_READ v cs k iv mk etm = Inr r"
    and ok: "mac_ok cr" "cipher_ok cr" and rnd: "\<And>n. length (rw n) = n"
  shows "paired_cbc cr w r \<or> paired_stream cr w r"
proof -
  have vs: "\<not> minimum_version cs \<ge> ver V_TLSv1_3" using assms(1) by (auto simp: init_mac_def)
  with assms(1) obtain dig where dig: "digest cs = Some dig"
    by (cases "digest cs") (simp_all add: init_mac_def)
  with assms(1) vs obtain spec where spec: "CIPHERS (symmetric cs) = Inr spec"
    by (cases "CIPHERS (symmetric cs)") (simp_all add: init_mac_def)
  with assms(1) vs dig have ls: "length k = key_length spec" "length iv = iv_length spec"
    by (simp_all add: init_mac_def Let_def split: if_splits)
  with assms(1) vs dig spec obtain alg where alg: "get_algorithm (hash_id dig) = Inr alg"
    by (cases "get_algorithm (hash_id dig)") (simp_all add: init_mac_def Let_def)
  note s = spec dig alg ls vs
  let ?x = "\<lambda>e. \<lparr>ctx_alg = symmetric cs, ctx_key = k, ctx_iv = iv, ctx_encrypting = e, ctx_fed = []\<rparr>"
  have nil: "cipher_encrypt cr (symmetric cs) k iv [] = []"
    using ok(2) s stream_length [of _ "cipher_encrypt cr (symmetric cs) k iv" "[]"]
    unfolding cipher_ok_def by fastforce
  have ctx: "contexts_in_step cr (?x True) (?x False)"
    using s nil by (simp add: contexts_in_step_def ctx_output_def)
  show ?thesis
  proof (cases "is_cbc (symmetric cs)")
    case True
    then have "iv_length spec = context_block_size (symmetric cs)"
      using CIPHERS_lengths [OF s(1)] is_cbc_block_size [OF True] by (simp split: if_splits)
    moreover have "symmetric cs \<noteq> SYM_NULL" using True by (auto simp: is_cbc_def)
    ultimately have "paired_cbc cr w r"
      using assms(1,2) s True ctx ok rnd is_cbc_block_size [OF True]
      by (auto simp: init_mac_def Let_def blank_cipher_def paired_cbc_def split: if_splits)
    then show ?thesis by simp
  next
    case False
    then have "paired_stream cr w r"
      using assms(1,2) s ctx ok not_cbc_block_size [OF False]
      by (auto simp: init_mac_def Let_def blank_cipher_def paired_stream_def split: if_splits)
    then show ?thesis by simp
  qed
qed

lemma all_suites_versions:
  "list_all (\<lambda>cs. (maximum_version cs \<ge> ver V_TLSv1_3) = (minimum_version cs \<ge> ver V_TLSv1_3))
     ALL_CIPHER_SUITES"
  by (simp add: ALL_CIPHER_SUITES_def cipher_suite_defs)

lemma suite_versions:
  assumes "cs \<in> set ALL_CIPHER_SUITES" and "minimum_version cs \<le> v" and "v \<le> maximum_version cs"
  shows "v \<ge> ver V_TLSv1_3 \<longleftrightarrow> minimum_version cs \<ge> ver V_TLSv1_3"
  using bspec [OF all_suites_versions [unfolded list_all_iff] assms(1)] assms(2,3) by linarith

definition crypto_ok :: "crypto \<Rightarrow> bool" where
  "crypto_ok cr \<longleftrightarrow> mac_ok cr \<and> aead_ok cr \<and> cipher_ok cr"

lemma init_paired:
  assumes "TLSCipher_init cr rw DIR_WRITE v cs k iv mk etm = Inr w"
    and "TLSCipher_init cr rr DIR_READ v cs k iv mk etm = Inr r"
    and "crypto_ok cr" and "\<And>n. length (rw n) = n"
    and "cs \<in> set ALL_CIPHER_SUITES" "minimum_version cs \<le> v" "v \<le> maximum_version cs"
  shows "paired cr w r"
proof (cases "aead cs")
  case True
  with assms(1-3) init_aead_paired [of v cs k iv mk etm w r cr] suite_versions [OF assms(5-7)]
  show ?thesis by (auto simp: TLSCipher_init_def crypto_ok_def paired_def)
next
  case False
  with assms(1-4) init_mac_paired [of cr rw v cs k iv mk etm w rr r]
  show ?thesis by (auto simp: TLSCipher_init_def crypto_ok_def paired_def)
qed

lemma paired_overhead:
  "paired_cbc cr w r \<Longrightarrow> c_max_overhead w + c_block_size w + c_block_size w \<le> 1024"
  "paired_cbc cr w r \<Longrightarrow> ciphertext_length cr w n \<le> n + c_max_overhead w"
  "paired_aead cr w r \<Longrightarrow> c_max_overhead w \<le> 1024"
  "paired_stream cr w r \<Longrightarrow> c_max_overhead w + 1 \<le> 1024"
proof -
  show "c_max_overhead w + c_block_size w + c_block_size w \<le> 1024" if "paired_cbc cr w r"
  proof -
    from that obtain x :: cipher_ctx and mac :: "HashAlgorithm \<times> bytes" where m: "mac_ok cr" "is_cbc (ctx_alg x)"
      "c_block_size w = context_block_size (ctx_alg x)"
      "c_max_overhead w = c_block_size w + hash_digest_size cr (fst mac) + variable_nonce_len w"
      "variable_nonce_len w = 0 \<or> variable_nonce_len w = c_block_size w"
      unfolding paired_cbc_def by blast
    then have "hash_digest_size cr (fst mac) \<le> 64" "c_block_size w \<le> 16"
      by (simp_all add: mac_ok_def is_cbc_block_size)
    with m show ?thesis by linarith
  qed
  show "ciphertext_length cr w n \<le> n + c_max_overhead w" if "paired_cbc cr w r"
    using that unfolding paired_cbc_def
    by (auto simp: ciphertext_length_def is_block_cipher_def mac_digest_size_def Let_def
        split: prod.splits)
  show "c_max_overhead w \<le> 1024" if "paired_aead cr w r"
    using that AEAD_tag_length by (fastforce simp: paired_aead_def)
  show "c_max_overhead w + 1 \<le> 1024" if "paired_stream cr w r"
  proof -
    from that obtain alg where "c_max_overhead w = hash_digest_size cr alg" "mac_ok cr"
      unfolding paired_stream_def by auto
    then have "c_max_overhead w \<le> 64" by (simp add: mac_ok_def)
    then show ?thesis by simp
  qed
qed

lemma paired_record_passes:
  assumes p: "paired cr w r" and a: "record_args_ok ty rv seq pt"
    and b: "length pt + 1024 \<le> length b" "length pt + 1024 \<le> length b'"
  shows "record_passes cr rnd ty rv pt seq hdr w r b b'"
proof -
  consider "paired_aead cr w r" | "paired_cbc cr w r" "is_etm w" | "paired_cbc cr w r" "\<not> is_etm w"
    | "paired_stream cr w r"
    using p unfolding paired_def by blast
  then show ?thesis
  proof cases
    case 1
    with paired_overhead(3) [OF 1] b show ?thesis by (intro aead_record_passes [OF 1 a]) linarith+
  next
    case 2
    with paired_overhead(1) [OF 2(1)] paired_overhead(2) [OF 2(1), of "length pt"] b show ?thesis
      by (intro etm_record_passes [OF 2(1) a 2(2)]) linarith+
  next
    case 3
    with paired_overhead(1) [OF 3(1)] paired_overhead(2) [OF 3(1), of "length pt"] b show ?thesis
      by (intro cbc_record_passes [OF 3(1) a 3(2)]) linarith+
  next
    case 4
    with paired_overhead(4) [OF 4] b show ?thesis by (intro stream_record_passes [OF 4 a]) linarith+
  qed
qed


text \<open>
  The contract of a protected channel: as long as the two ends are in step, a record that is sealed
  is opened to what was sealed, and the ends are in step afterwards.  The client's lemma lifts it to
  any number of records in order.
\<close>

primrec run_all :: "('s \<Rightarrow> 'a \<Rightarrow> ('b \<times> 's) result) \<Rightarrow> 's \<Rightarrow> 'a list \<Rightarrow> ('b list \<times> 's) result" where
  "run_all f s [] = Inr ([], s)"
| "run_all f s (x # xs) = rbind (f s x) (\<lambda>(y, t). rbind (run_all f t xs) (\<lambda>(ys, u). Inr (y # ys, u)))"

locale record_channel =
  fixes in_step :: "'w \<Rightarrow> 'r \<Rightarrow> bool"
    and seal_one :: "'w \<Rightarrow> 'i \<times> 'p \<Rightarrow> ('c \<times> 'w) result"
    and open_one :: "'r \<Rightarrow> 'i \<times> 'c \<Rightarrow> ('p \<times> 'r) result"
    and admissible :: "'i \<times> 'p \<Rightarrow> bool"
  assumes one_record: "in_step w r \<Longrightarrow> admissible (i, p) \<Longrightarrow>
    \<exists>c w' r'. seal_one w (i, p) = Inr (c, w') \<and> open_one r (i, c) = Inr (p, r') \<and> in_step w' r'"
begin

lemma all_records:
  "in_step w r \<Longrightarrow> list_all admissible ms \<Longrightarrow>
   \<exists>cs w' r'. run_all seal_one w ms = Inr (cs, w') \<and> length cs = length ms \<and>
     run_all open_one r (zip (map fst ms) cs) = Inr (map snd ms, r') \<and> in_step w' r'"
proof (induction ms arbitrary: w r)
  case (Cons m ms)
  obtain i p where m: "m = (i, p)" by fastforce
  from Cons.prems m obtain c w' r' where one: "seal_one w (i, p) = Inr (c, w')"
    "open_one r (i, c) = Inr (p, r')" "in_step w' r'"
    using one_record [of w r i p] by auto
  from Cons.IH [OF one(3)] Cons.prems obtain cs w'' r'' where
    "run_all seal_one w' ms = Inr (cs, w'')" "length cs = length ms"
    "run_all open_one r' (zip (map fst ms) cs) = Inr (map snd ms, r'')" "in_step w'' r''"
    by auto
  with one m show ?case
    by (intro exI [where x = "c # cs"] exI [where x = w''] exI [where x = r'']) auto
qed auto

end

text \<open>The two operations on whole byte strings, and the header fields of one record.\<close>

record record_info =
  ri_type :: int
  ri_version :: int
  ri_seq :: int
  ri_header :: bytes

definition seal_bytes :: "crypto \<Rightarrow> bytes \<Rightarrow> tls_cipher \<Rightarrow> record_info \<times> bytes \<Rightarrow> (bytes \<times> tls_cipher) result" where
  "seal_bytes cr b w = (\<lambda>(i, p).
     case TLSCipher_seal cr (ri_type i) (ri_version i) p (ri_seq i) (ri_header i) \<lparr>tc = w, out = b\<rparr> of
       (Inl e, _) \<Rightarrow> Inl e
     | (Inr n, s) \<Rightarrow> Inr (take n (out s), tc s))"

definition open_bytes ::
    "crypto \<Rightarrow> (nat \<Rightarrow> bytes) \<Rightarrow> bytes \<Rightarrow> tls_cipher \<Rightarrow> record_info \<times> bytes \<Rightarrow> (bytes \<times> tls_cipher) result" where
  "open_bytes cr rnd b r = (\<lambda>(i, c).
     case TLSCipher_open cr rnd (ri_type i) (ri_version i) c (ri_seq i) (ri_header i) \<lparr>tc = r, out = b\<rparr> of
       (Inl e, _) \<Rightarrow> Inl e
     | (Inr n, s) \<Rightarrow> Inr (take n (out s), tc s))"

definition record_fits :: "bytes \<Rightarrow> bytes \<Rightarrow> record_info \<times> bytes \<Rightarrow> bool" where
  "record_fits b b' = (\<lambda>(i, p). record_args_ok (ri_type i) (ri_version i) (ri_seq i) p \<and>
     length p + 1024 \<le> length b \<and> length p + 1024 \<le> length b')"

interpretation tls_channel: record_channel "paired cr" "seal_bytes cr b" "open_bytes cr rnd b'"
  "record_fits b b'" for cr rnd b b'
proof
  fix w r i p
  assume "paired cr w r" and "record_fits b b' (i, p)"
  then have "record_passes cr rnd (ri_type i) (ri_version i) p (ri_seq i) (ri_header i) w r b b'"
    by (intro paired_record_passes) (auto simp: record_fits_def)
  then show "\<exists>c w' r'. seal_bytes cr b w (i, p) = Inr (c, w') \<and>
     open_bytes cr rnd b' r (i, c) = Inr (p, r') \<and> paired cr w' r'"
    unfolding record_passes_def by (force simp: seal_bytes_def open_bytes_def)
qed

subsection \<open>Properties\<close>

text \<open>The two signalling values are members of the enumeration but no ciphers.\<close>

definition is_scsv :: "cipher_suite \<Rightarrow> bool" where
  "is_scsv cs \<longleftrightarrow> cipher_suite_eq cs TLS_FALLBACK_SCSV \<or>
     cipher_suite_eq cs TLS_EMPTY_RENEGOTIATION_INFO_SCSV"

lemma all_suites_specs:
  "list_all (\<lambda>cs. is_scsv cs \<or> (if aead cs then (case AEAD_CIPHERS (symmetric cs) of Inl _ \<Rightarrow> False | Inr _ \<Rightarrow> True)
     else \<not> minimum_version cs \<ge> ver V_TLSv1_3 \<and>
       (case CIPHERS (symmetric cs) of Inl _ \<Rightarrow> False | Inr _ \<Rightarrow> True) \<and>
       (case digest cs of None \<Rightarrow> False | Some d \<Rightarrow> d \<noteq> HASH_NONE \<and> d \<noteq> HASH_INTRINSIC)))
     ALL_CIPHER_SUITES"
  by (simp add: ALL_CIPHER_SUITES_def cipher_suite_defs is_scsv_def cipher_suite_eq_def)

lemma init_aead_total:
  assumes "AEAD_CIPHERS (symmetric cs) = Inr spec" and "length k = key_length spec"
    and "length iv = (if minimum_version cs \<ge> ver V_TLSv1_3 then 12 else iv_length spec)"
    and "v \<ge> ver V_TLSv1_3 \<longleftrightarrow> minimum_version cs \<ge> ver V_TLSv1_3"
  shows "\<exists>c. init_aead d v cs k iv [] False = Inr c"
  using assms AEAD_CIPHERS_lengths [OF assms(1)] by (auto simp: init_aead_def Let_def)

lemma init_mac_total:
  assumes "CIPHERS (symmetric cs) = Inr spec" and "length k = key_length spec"
    and "length iv = iv_length spec" and "\<not> minimum_version cs \<ge> ver V_TLSv1_3"
    and "digest cs = Some h" "h \<noteq> HASH_NONE" "h \<noteq> HASH_INTRINSIC"
  shows "\<exists>c. init_mac cr rnd d v cs k iv mk False = Inr c"
  using assms get_algorithm_hash_id [of h]
  by (auto simp: init_mac_def Let_def blank_cipher_def)

text \<open>
  C34: Every cipher suite of the table but the two signalling values can be used: with keys of the lengths that \<open>get_key_iv_lens\<close>
  returns, the constructor succeeds in both directions for every version the suite is defined for.
\<close>

theorem every_suite_constructs:
  assumes "cs \<in> set ALL_CIPHER_SUITES" and "minimum_version cs \<le> v" and "v \<le> maximum_version cs"
    and "\<not> is_scsv cs"
  shows "\<exists>key_len iv_len. get_key_iv_lens cs = Inr (key_len, iv_len) \<and>
    (\<forall>d k iv mk. length k = key_len \<longrightarrow> length iv = iv_len \<longrightarrow> (aead cs \<longrightarrow> mk = []) \<longrightarrow>
       (\<exists>c. TLSCipher_init cr rnd d v cs k iv mk False = Inr c))"
proof (cases "aead cs")
  case True
  with bspec [OF all_suites_specs [unfolded list_all_iff] assms(1)] assms(4)
  obtain spec where "AEAD_CIPHERS (symmetric cs) = Inr spec"
    by (cases "AEAD_CIPHERS (symmetric cs)") auto
  with True suite_versions [OF assms(1-3)] init_aead_total [of cs spec] show ?thesis
    by (auto simp: get_key_iv_lens_def TLSCipher_init_def)
next
  case False
  with bspec [OF all_suites_specs [unfolded list_all_iff] assms(1)] assms(4) obtain spec h where
    "CIPHERS (symmetric cs) = Inr spec" "digest cs = Some h" "h \<noteq> HASH_NONE" "h \<noteq> HASH_INTRINSIC"
    "\<not> minimum_version cs \<ge> ver V_TLSv1_3"
    by (cases "CIPHERS (symmetric cs)"; cases "digest cs") auto
  with False init_mac_total [of cs spec] show ?thesis
    by (auto simp: get_key_iv_lens_def TLSCipher_init_def)
qed

theorem every_suite_constructs_witness:
  "\<exists>key_len iv_len. get_key_iv_lens TLS_AES_128_GCM_SHA256 = Inr (key_len, iv_len) \<and>
    (\<forall>d k iv mk. length k = key_len \<longrightarrow> length iv = iv_len \<longrightarrow>
       (aead TLS_AES_128_GCM_SHA256 \<longrightarrow> mk = []) \<longrightarrow>
       (\<exists>c. TLSCipher_init sample_crypto (\<lambda>n. replicate n 0) d 772 TLS_AES_128_GCM_SHA256 k iv mk False =
          Inr c))"
  by (rule every_suite_constructs)
    (simp_all add: ALL_CIPHER_SUITES_def cipher_suite_defs is_scsv_def cipher_suite_eq_def)

text \<open>
  C27: Record protection is lossless for every cipher suite and version: two objects made from the same
  keys pass any sequence of records (AEAD, CBC in both MAC orders, stream and null ciphers), each
  opened to the plaintext that was sealed.
\<close>

theorem record_stream_roundtrip:
  assumes "TLSCipher_init cr rw DIR_WRITE v cs k iv mk etm = Inr w"
    and "TLSCipher_init cr rr DIR_READ v cs k iv mk etm = Inr r"
    and "crypto_ok cr" and "\<And>n. length (rw n) = n"
    and "cs \<in> set ALL_CIPHER_SUITES" "minimum_version cs \<le> v" "v \<le> maximum_version cs"
    and "list_all (record_fits b b') ms"
  shows "\<exists>cts w' r'. run_all (seal_bytes cr b) w ms = Inr (cts, w') \<and> length cts = length ms \<and>
    run_all (open_bytes cr rnd b') r (zip (map fst ms) cts) = Inr (map snd ms, r')"
  using tls_channel.all_records [OF init_paired [OF assms(1-7)] assms(8)] by blast

text \<open>
  The length written into a record header before sealing is the length of the sealed record:
  \<open>ciphertext_length\<close> is exact for every mode of protection.
\<close>

theorem sealed_length_exact:
  assumes "TLSCipher_init cr rw DIR_WRITE v cs k iv mk etm = Inr w"
    and "TLSCipher_init cr rr DIR_READ v cs k iv mk etm = Inr r"
    and "crypto_ok cr" and "\<And>n. length (rw n) = n"
    and "cs \<in> set ALL_CIPHER_SUITES" "minimum_version cs \<le> v" "v \<le> maximum_version cs"
    and "record_fits b b (i, p)"
  shows "\<exists>c w'. seal_bytes cr b w (i, p) = Inr (c, w') \<and> length c = ciphertext_length cr w (length p)"
proof -
  have "record_passes cr rw (ri_type i) (ri_version i) p (ri_seq i) (ri_header i) w r b b"
    using init_paired [OF assms(1-7)] assms(8)
    by (intro paired_record_passes) (auto simp: record_fits_def)
  then show ?thesis unfolding record_passes_def by (force simp: seal_bytes_def)
qed


text \<open>The objects of the witnesses: AES-CBC with HMAC-SHA1 in TLS 1.1.\<close>

lemma sample_suite:
  "TLS_RSA_WITH_AES_128_CBC_SHA \<in> set ALL_CIPHER_SUITES"
  "minimum_version TLS_RSA_WITH_AES_128_CBC_SHA \<le> 770"
  "770 \<le> maximum_version TLS_RSA_WITH_AES_128_CBC_SHA"
  by (simp_all add: ALL_CIPHER_SUITES_def TLS_RSA_WITH_AES_128_CBC_SHA_def)

lemma sample_init:
  "\<exists>c. TLSCipher_init sample_crypto (\<lambda>n. replicate n 0) d 770 TLS_RSA_WITH_AES_128_CBC_SHA
     (replicate 16 1) (replicate 16 2) [3] False = Inr c"
  using init_mac_total [of TLS_RSA_WITH_AES_128_CBC_SHA "\<lparr>key_length = 16, iv_length = 16\<rparr>"
      "replicate 16 1" "replicate 16 2" HASH_SHA1]
  by (simp add: TLSCipher_init_def TLS_RSA_WITH_AES_128_CBC_SHA_def)

lemma sample_fits:
  "record_fits (replicate 2048 0) (replicate 2048 0)
     (\<lparr>ri_type = 23, ri_version = 770, ri_seq = n, ri_header = []\<rparr>, [1, 2, 3]) \<longleftrightarrow> 0 \<le> n \<and> n < 2 ^ 64"
  by (simp add: record_fits_def record_args_ok_def)

theorem record_stream_roundtrip_witness:
  "\<exists>w r cts w' r'.
    TLSCipher_init sample_crypto (\<lambda>n. replicate n 0) DIR_WRITE 770 TLS_RSA_WITH_AES_128_CBC_SHA
      (replicate 16 1) (replicate 16 2) [3] False = Inr w \<and>
    run_all (seal_bytes sample_crypto (replicate 2048 0)) w
      [(\<lparr>ri_type = 23, ri_version = 770, ri_seq = 0, ri_header = []\<rparr>, [1, 2, 3]),
       (\<lparr>ri_type = 23, ri_version = 770, ri_seq = 1, ri_header = []\<rparr>, [1, 2, 3])] = Inr (cts, w') \<and>
    run_all (open_bytes sample_crypto (\<lambda>n. replicate n 9) (replicate 2048 0)) r
      (zip [\<lparr>ri_type = 23, ri_version = 770, ri_seq = 0, ri_header = []\<rparr>,
            \<lparr>ri_type = 23, ri_version = 770, ri_seq = 1, ri_header = []\<rparr>] cts) =
      Inr ([[1, 2, 3], [1, 2, 3]], r')"
proof -
  obtain w r where w: "TLSCipher_init sample_crypto (\<lambda>n. replicate n 0) DIR_WRITE 770
      TLS_RSA_WITH_AES_128_CBC_SHA (replicate 16 1) (replicate 16 2) [3] False = Inr w"
    "TLSCipher_init sample_crypto (\<lambda>n. replicate n 0) DIR_READ 770
      TLS_RSA_WITH_AES_128_CBC_SHA (replicate 16 1) (replicate 16 2) [3] False = Inr r"
    using sample_init by blast
  have "crypto_ok sample_crypto" by (simp add: crypto_ok_def sample_crypto_ok)
  from record_stream_roundtrip [OF w this _ sample_suite, of "replicate 2048 0" "replicate 2048 0"
      "[(\<lparr>ri_type = 23, ri_version = 770, ri_seq = 0, ri_header = []\<rparr>, [1, 2, 3]),
       (\<lparr>ri_type = 23, ri_version = 770, ri_seq = 1, ri_header = []\<rparr>, [1, 2, 3])]" "\<lambda>n. replicate n 9"] w
  show ?thesis by (auto simp: sample_fits)
qed

theorem sealed_length_exact_witness:
  "\<exists>w c w'. seal_bytes sample_crypto (replicate 2048 0) w
      (\<lparr>ri_type = 23, ri_version = 770, ri_seq = 0, ri_header = []\<rparr>, [1, 2, 3]) = Inr (c, w') \<and>
    length c = ciphertext_length sample_crypto w 3"
proof -
  obtain w r where w: "TLSCipher_init sample_crypto (\<lambda>n. replicate n 0) DIR_WRITE 770
      TLS_RSA_WITH_AES_128_CBC_SHA (replicate 16 1) (replicate 16 2) [3] False = Inr w"
    "TLSCipher_init sample_crypto (\<lambda>n. replicate n 0) DIR_READ 770
      TLS_RSA_WITH_AES_128_CBC_SHA (replicate 16 1) (replicate 16 2) [3] False = Inr r"
    using sample_init by blast
  have "crypto_ok sample_crypto" by (simp add: crypto_ok_def sample_crypto_ok)
  from sealed_length_exact [OF w this _ sample_suite, of "replicate 2048 0"
      "\<lparr>ri_type = 23, ri_version = 770, ri_seq = 0, ri_header = []\<rparr>" "[1, 2, 3]"]
  show ?thesis by (auto simp: sample_fits numeral_3_eq_3 intro!: exI [of _ w])
qed

lemma xor_right_cancel: "x XOR f = y XOR f \<Longrightarrow> x = (y :: byte)"
  by (metis xor.assoc xor_self_eq xor.right_neutral)

lemma map2_xor_inj:
  assumes "length xs = length fs" and "length ys = length fs"
    and "map2 (XOR) xs fs = map2 (XOR) ys (fs :: bytes)"
  shows "xs = ys"
proof (rule nth_equalityI)
  fix i assume i: "i < length xs"
  have "map2 (XOR) xs fs ! i = map2 (XOR) ys fs ! i" by (simp only: assms(3))
  with i assms(1,2) have "xs ! i XOR fs ! i = ys ! i XOR fs ! i" by simp
  then show "xs ! i = ys ! i" by (rule xor_right_cancel)
qed (simp add: assms(1,2))

text \<open>Two records sealed by one AEAD object under the same nonce have the same sequence number.\<close>

lemma aead_nonce_inj:
  assumes "pack s1 8 = Inr b1" and "pack s2 8 = Inr b2"
    and "seal_nonce c b1 = Inr n" and "seal_nonce c b2 = Inr n"
  shows "s1 = s2"
proof -
  have b: "b1 = be_bytes 8 s1" "b2 = be_bytes 8 s2" "0 \<le> s1" "s1 < 256 ^ 8" "0 \<le> s2" "s2 < 256 ^ 8"
    using assms(1,2) by (auto simp: pack_Inr_iff)
  have "b1 = b2"
  proof (cases "xor_fixed_nonce c")
    case True
    with assms(3,4) b(1,2) show ?thesis
      by (auto simp: seal_nonce_def xor_nonce_def strxor_def split: if_splits dest!: map2_xor_inj [rotated 2])
  next
    case False
    with assms(3,4) show ?thesis by (auto simp: seal_nonce_def)
  qed
  with b show ?thesis using be_bytes_inj [of 8 s1 s2] by simp
qed

text \<open>
  With encrypt-then-MAC a record whose MAC is wrong is refused before anything is decrypted: the
  cipher context, the object and the output buffer are as they were.
\<close>

theorem etm_authenticates_first:
  assumes "c_open (tc s) = Some Mac_then_decrypt" and "c_mac (tc s) = Some mac"
    and "length c + c_block_size (tc s) \<le> length (out s)"
    and "hash_digest_size cr (fst mac) + variable_nonce_len (tc s) \<le> length c"
    and "get_mac cr mac seq ty rv (take (length c - hash_digest_size cr (fst mac)) c) = Inr m"
    and "drop (length c - hash_digest_size cr (fst mac)) c \<noteq> m"
  shows "TLSCipher_open cr rnd ty rv c seq hdr s = (Inl InvalidTag, s)"
proof -
  obtain t b where s: "s = \<lparr>tc = t, out = b\<rparr>" by (cases s) auto
  from assms show ?thesis
    unfolding s by (simp add: TLSCipher_open_def mac_then_decrypt_def run_simps bnd_the_mac Let_def)
      (simp add: raise_def)
qed

theorem etm_authenticates_first_witness:
  "TLSCipher_open sample_crypto (\<lambda>n. replicate n 0) 23 771 (replicate 16 7 @ 1 # replicate 19 7) 0 []
     \<lparr>tc = (blank_cipher True)\<lparr>c_mac := Some (HASH_SHA1, [1]), c_open := Some Mac_then_decrypt\<rparr>,
      out = replicate 64 0\<rparr> =
   (Inl InvalidTag,
     \<lparr>tc = (blank_cipher True)\<lparr>c_mac := Some (HASH_SHA1, [1]), c_open := Some Mac_then_decrypt\<rparr>,
      out = replicate 64 0\<rparr>)"
  by (rule etm_authenticates_first)
    (simp_all add: blank_cipher_def sample_crypto_def get_mac_def pack_aad_def pack_def be_bytes_numeral
      numeral_eq_Suc, simp)

end
