(* ===== verification/Alerts.thy ===== *)
theory Alerts
  imports Constants
begin

text \<open>
  The alerts a handshake step raises: \<open>src/simple_tls/tls/alerts.py\<close>.  Every class is the exception
  \<open>AlertException\<close> with its description; \<open>fatal\<close> is true unless the raising code says otherwise
  (no raising code does).  The connection turns an \<open>AlertException\<close> into an alert record.
\<close>

definition Alert :: "int \<Rightarrow> bool \<Rightarrow> exn" where
  "Alert description fatal = AlertException description fatal"

definition AlertBadCertificate :: exn where
  "AlertBadCertificate = AlertException (ad AD_BAD_CERTIFICATE) True"

definition AlertBadRecordMac :: exn where
  "AlertBadRecordMac = AlertException (ad AD_BAD_RECORD_MAC) True"

definition AlertCertificateExpired :: exn where
  "AlertCertificateExpired = AlertException (ad AD_CERTIFICATE_EXPIRED) True"

definition AlertCertificateRequired :: exn where
  "AlertCertificateRequired = AlertException (ad AD_CERTIFICATE_REQUIRED) True"

definition AlertDecodeError :: exn where
  "AlertDecodeError = AlertException (ad AD_DECODE_ERROR) True"

definition AlertDecryptError :: exn where
  "AlertDecryptError = AlertException (ad AD_DECRYPT_ERROR) True"

definition AlertHandshakeFailure :: exn where
  "AlertHandshakeFailure = AlertException (ad AD_HANDSHAKE_FAILURE) True"

definition AlertMissingExtension :: exn where
  "AlertMissingExtension = AlertException (ad AD_MISSING_EXTENSION) True"

definition AlertIllegalParameter :: exn where
  "AlertIllegalParameter = AlertException (ad AD_ILLEGAL_PARAMETER) True"

definition AlertInappropriateFallback :: exn where
  "AlertInappropriateFallback = AlertException (ad AD_INAPPROPRIATE_FALLBACK) True"

definition AlertInsufficientSecurity :: exn where
  "AlertInsufficientSecurity = AlertException (ad AD_INSUFFICIENT_SECURITY) True"

definition AlertInternalError :: exn where
  "AlertInternalError = AlertException (ad AD_INTERNAL_ERROR) True"

definition AlertRecordOverflow :: exn where
  "AlertRecordOverflow = AlertException (ad AD_RECORD_OVERFLOW) True"

definition AlertProtocolVersion :: exn where
  "AlertProtocolVersion = AlertException (ad AD_PROTOCOL_VERSION) True"

definition AlertUnexpectedMessage :: exn where
  "AlertUnexpectedMessage = AlertException (ad AD_UNEXPECTED_MESSAGE) True"

definition AlertUnsupportedExtension :: exn where
  "AlertUnsupportedExtension = AlertException (ad AD_UNSUPPORTED_EXTENSION) True"

definition AlertUnknownCA :: exn where
  "AlertUnknownCA = AlertException (ad AD_UNKNOWN_CA) True"

definition AlertNoRenegotiation :: exn where
  "AlertNoRenegotiation = AlertException (ad AD_NO_RENEGOTIATION) True"

definition AlertECHRequired :: exn where
  "AlertECHRequired = AlertException (ad AD_ECH_REQUIRED) True"

definition AlertNoApplicationProtocol :: exn where
  "AlertNoApplicationProtocol = AlertException (ad AD_NO_APPLICATION_PROTOCOL) True"

lemmas alert_defs = Alert_def
  AlertBadCertificate_def
  AlertBadRecordMac_def
  AlertCertificateExpired_def
  AlertCertificateRequired_def
  AlertDecodeError_def
  AlertDecryptError_def
  AlertHandshakeFailure_def
  AlertMissingExtension_def
  AlertIllegalParameter_def
  AlertInappropriateFallback_def
  AlertInsufficientSecurity_def
  AlertInternalError_def
  AlertRecordOverflow_def
  AlertProtocolVersion_def
  AlertUnexpectedMessage_def
  AlertUnsupportedExtension_def
  AlertUnknownCA_def
  AlertNoRenegotiation_def
  AlertECHRequired_def
  AlertNoApplicationProtocol_def

end
