(* ===== verification/TLS_Utils.thy ===== *)
theory TLS_Utils
  imports Codec Primitives Constant_Time Enums Alerts
begin

text \<open>
  \<open>src/simple_tls/tls/utils.py\<close> with the two HKDF functions of \<open>src/simple_tls/crypto/kdf.py\<close>:
  negotiation helpers, the TLS pseudo-random function, the handshake transcript with its cache of
  running hashes, the TLS 1.3 key schedule, and the certificate name checks.

  A \<open>hashes.Hash\<close> object of the package is the algorithm with everything it was fed, so
  \<open>copy\<close> is the identity and \<open>finalize\<close> applies the package's hash function.
\<close>

subsection \<open>Strings\<close>

definition ascii :: "string \<Rightarrow> bytes" where
  "ascii = map of_char"

definition bytes_to_str :: "bytes \<Rightarrow> string" where
  "bytes_to_str = map (\<lambda>b. char_of (unat b))"

text \<open>\<open>str.lower\<close> on the characters of Latin-1, \<open>str.split\<close> with a one-character separator.\<close>

definition lower_char :: "char \<Rightarrow> char" where
  "lower_char c = (let n = (of_char c :: nat) in
     if 65 \<le> n \<and> n \<le> 90 \<or> 192 \<le> n \<and> n \<le> 222 \<and> n \<noteq> 215 then char_of (n + 32) else c)"

definition lower :: "string \<Rightarrow> string" where
  "lower = map lower_char"

fun split_on :: "char \<Rightarrow> string \<Rightarrow> string list" where
  "split_on sep [] = [[]]"
| "split_on sep (c # cs) =
     (if c = sep then [] # split_on sep cs
      else (c # hd (split_on sep cs)) # tl (split_on sep cs))"

subsection \<open>Negotiation helpers\<close>

text \<open>\<open>negotiate\<close> picks the first supported item that was offered; \<open>exception\<close> is optional.\<close>

definition negotiate :: "'a list \<Rightarrow> 'a list option \<Rightarrow> exn option \<Rightarrow> 'a option result" where
  "negotiate supported offered exception =
     (case (case offered of None \<Rightarrow> None | Some os \<Rightarrow> find (\<lambda>item. item \<in> set os) supported) of
        Some item \<Rightarrow> Inr (Some item)
      | None \<Rightarrow> (case exception of Some e \<Rightarrow> Inl e | None \<Rightarrow> Inr None))"

definition check_server_hostname :: "bytes \<Rightarrow> unit result" where
  "check_server_hostname server_hostname =
     (if server_hostname = [] \<or> hd server_hostname = 46 then Inl ValueError
      else if 253 < length server_hostname then Inl ValueError
      else Inr ())"

definition filter_items :: "'a list \<Rightarrow> 'a list \<Rightarrow> 'a list" where
  "filter_items items valid_items = [i \<leftarrow> items. i \<in> set valid_items]"

definition version_from_wire :: "Protocol \<Rightarrow> int \<Rightarrow> int result" where
  "version_from_wire protocol version =
     (if protocol = PROTO_TLS \<and> version \<in> set TLS_VERSIONS then Inr version else Inl ValueError)"

definition version_to_wire :: "Protocol \<Rightarrow> int \<Rightarrow> int result" where
  "version_to_wire protocol version =
     (if protocol = PROTO_TLS \<and> version \<in> set TLS_VERSIONS then Inr version else Inl ValueError)"

subsection \<open>Hash objects\<close>

datatype hash_obj =
    Hash HashAlgorithm bytes
  | MD5SHA1Hash bytes bytes \<comment> \<open>what the MD5 and the SHA-1 object were fed\<close>

primrec hash_update :: "bytes \<Rightarrow> hash_obj \<Rightarrow> hash_obj" where
  "hash_update data (Hash alg fed) = Hash alg (fed @ data)"
| "hash_update data (MD5SHA1Hash md5 sha1) = MD5SHA1Hash (md5 @ data) (sha1 @ data)"

primrec hash_finalize :: "crypto \<Rightarrow> hash_obj \<Rightarrow> bytes" where
  "hash_finalize cr (Hash alg fed) = hash_fn cr alg fed"
| "hash_finalize cr (MD5SHA1Hash md5 sha1) = hash_fn cr HASH_MD5 md5 @ hash_fn cr HASH_SHA1 sha1"

primrec hash_copy :: "hash_obj \<Rightarrow> hash_obj" where
  "hash_copy (Hash alg fed) = Hash alg fed"
| "hash_copy (MD5SHA1Hash md5 sha1) = MD5SHA1Hash md5 sha1"

definition get_hash :: "int \<Rightarrow> bytes \<Rightarrow> hash_obj result" where
  "get_hash hash_algorithm message =
     rbind (if hash_algorithm = UNSPECIFIED then Inr (MD5SHA1Hash [] [])
            else rbind (get_algorithm hash_algorithm) (\<lambda>algorithm. Inr (Hash algorithm [])))
       (\<lambda>hashobj. Inr (hash_update message hashobj))"

subsection \<open>Key derivation functions\<close>

text \<open>
  The loop of \<open>_prf_hash\<close> runs while \<open>index < length\<close>; it takes one unit of fuel per iteration.
  Every iteration adds at least one byte, so \<open>length\<close> units are enough (\<open>prf_hash_P_hash\<close> below).
\<close>

fun prf_hash_loop :: "crypto \<Rightarrow> HashAlgorithm \<Rightarrow> bytes \<Rightarrow> bytes \<Rightarrow> nat \<Rightarrow> nat \<Rightarrow> bytes \<Rightarrow> nat \<Rightarrow>
    bytes list \<Rightarrow> bytes result" where
  "prf_hash_loop cr algorithm secret seed len fuel prev index outs =
     (if index < len then
        (case fuel of
           0 \<Rightarrow> Inl Diverges
         | Suc fuel' \<Rightarrow>
             (let prev' = hmac_fn cr algorithm secret prev;
                  digest = hmac_fn cr algorithm secret (prev' @ seed);
                  n = min (len - index) (length digest)
              in prf_hash_loop cr algorithm secret seed len fuel' prev' (index + n) (outs @ [take n digest])))
      else Inr (concat outs))"

declare prf_hash_loop.simps [simp del]

definition prf_hash :: "crypto \<Rightarrow> bytes \<Rightarrow> bytes \<Rightarrow> nat \<Rightarrow> HashAlgorithm \<Rightarrow> bytes result" where
  "prf_hash cr secret seed len algorithm = prf_hash_loop cr algorithm secret seed len len seed 0 []"

definition tls_prf :: "crypto \<Rightarrow> bytes \<Rightarrow> bytes \<Rightarrow> bytes \<Rightarrow> nat \<Rightarrow> HashAlgorithm option \<Rightarrow> bytes result" where
  "tls_prf cr secret label seed0 len algorithm =
     (let seed = label @ seed0 in
      case algorithm of
        None \<Rightarrow>
          (let secret_len = length secret;
               s1 = take ((secret_len + 1) div 2) secret;
               s2 = drop (secret_len div 2) secret
           in rbind (prf_hash cr s1 seed len HASH_MD5) (\<lambda>p_md5.
              rbind (prf_hash cr s2 seed len HASH_SHA1) (\<lambda>p_sha1.
              strxor p_md5 p_sha1)))
      | Some alg \<Rightarrow> prf_hash cr secret seed len alg)"

text \<open>\<open>HKDFExpand\<close> raises \<open>ValueError\<close> when the length is more than 255 digests.\<close>

definition hkdf_expand :: "crypto \<Rightarrow> bytes \<Rightarrow> bytes \<Rightarrow> nat \<Rightarrow> HashAlgorithm \<Rightarrow> bytes result" where
  "hkdf_expand cr prk info len algorithm =
     (case hkdf_expand_fn cr algorithm prk info len of None \<Rightarrow> Inl ValueError | Some okm \<Rightarrow> Inr okm)"

definition hkdf_extract :: "crypto \<Rightarrow> bytes \<Rightarrow> bytes \<Rightarrow> HashAlgorithm \<Rightarrow> bytes" where
  "hkdf_extract cr salt ikm algorithm = hmac_fn cr algorithm salt ikm"

text \<open>The structure \<open>HkdfLabel\<close> that \<open>hkdf_expand_label\<close> writes.\<close>

definition hkdf_label :: "bytes \<Rightarrow> bytes \<Rightarrow> nat \<Rightarrow> bytes result" where
  "hkdf_label label data len = run_writer
     (thn (write_int (int len) 2)
     (thn (write_prefixed_bytes (ascii ''tls13 '' @ label) 1)
     (write_prefixed_bytes data 1)))"

definition hkdf_expand_label ::
  "crypto \<Rightarrow> bytes \<Rightarrow> bytes \<Rightarrow> bytes \<Rightarrow> nat \<Rightarrow> HashAlgorithm \<Rightarrow> bytes result" where
  "hkdf_expand_label cr secret label data len algorithm =
     rbind (hkdf_label label data len) (\<lambda>info. hkdf_expand cr secret info len algorithm)"

subsection \<open>Transcript\<close>

record Transcript =
  t_buffer :: bytes
  t_hashes :: "int \<rightharpoonup> hash_obj"

definition Transcript_init :: Transcript where
  "Transcript_init = \<lparr>t_buffer = [], t_hashes = Map.empty\<rparr>"

definition update_hash :: "bytes \<Rightarrow> (Transcript, unit) action" where
  "update_hash data = modify (\<lambda>t. t\<lparr>t_buffer := t_buffer t @ data,
     t_hashes := (\<lambda>k. map_option (hash_update data) (t_hashes t k))\<rparr>)"

definition Transcript_digest :: "crypto \<Rightarrow> int \<Rightarrow> (Transcript, bytes) action" where
  "Transcript_digest cr hash_algorithm = bnd get_state (\<lambda>t.
     case t_hashes t hash_algorithm of
       Some hashobj \<Rightarrow> ret (hash_finalize cr (hash_copy hashobj))
     | None \<Rightarrow>
         bnd (lift_result (get_hash hash_algorithm (t_buffer t))) (\<lambda>hashobj.
         thn (modify (\<lambda>t. t\<lparr>t_hashes := (t_hashes t)(hash_algorithm \<mapsto> hashobj)\<rparr>))
         (ret (hash_finalize cr (hash_copy hashobj)))))"

definition update_for_hello_retry_request :: "crypto \<Rightarrow> int \<Rightarrow> (Transcript, unit) action" where
  "update_for_hello_retry_request cr hash_algorithm =
     bnd (Transcript_digest cr hash_algorithm) (\<lambda>d.
     bnd (lift_result (run_writer
       (thn (write_int (ht HT_MESSAGE_HASH) 1) (write_prefixed_bytes d 3)))) (\<lambda>msg.
     thn (modify (\<lambda>t. t\<lparr>t_buffer := [], t_hashes := Map.empty\<rparr>))
     (update_hash msg)))"

definition Transcript_copy :: "Transcript \<Rightarrow> Transcript" where
  "Transcript_copy t = \<lparr>t_buffer = t_buffer t, t_hashes = (\<lambda>k. map_option hash_copy (t_hashes t k))\<rparr>"

definition Transcript_get :: "(Transcript, bytes) action" where
  "Transcript_get = gets t_buffer"

subsection \<open>Key schedule\<close>

record KeySchedule =
  ks_hash_algorithm :: int
  ks_algorithm :: HashAlgorithm
  ks_digest_size :: nat
  ks_generation :: nat
  ks_secret :: bytes

definition KeySchedule_init :: "crypto \<Rightarrow> int \<Rightarrow> KeySchedule result" where
  "KeySchedule_init cr hash_algorithm =
     rbind (get_algorithm hash_algorithm) (\<lambda>algorithm.
     Inr \<lparr>ks_hash_algorithm = hash_algorithm, ks_algorithm = algorithm,
          ks_digest_size = hash_digest_size cr algorithm, ks_generation = 0,
          ks_secret = replicate (hash_digest_size cr algorithm) 0\<rparr>)"

definition certificate_verify_data :: "crypto \<Rightarrow> KeySchedule \<Rightarrow> bytes \<Rightarrow> (Transcript, bytes) action" where
  "certificate_verify_data cr ks ctx =
     bnd (Transcript_digest cr (ks_hash_algorithm ks)) (\<lambda>d.
     ret (replicate 64 32 @ ctx @ [0] @ d))"

definition finished_verify_data :: "crypto \<Rightarrow> KeySchedule \<Rightarrow> bytes \<Rightarrow> (Transcript, bytes) action" where
  "finished_verify_data cr ks secret =
     bnd (lift_result (hkdf_expand_label cr secret (ascii ''finished'') [] (ks_digest_size ks)
       (ks_algorithm ks))) (\<lambda>hmac_key.
     bnd (Transcript_digest cr (ks_hash_algorithm ks)) (\<lambda>data.
     ret (hkdf_extract cr hmac_key data (ks_algorithm ks))))"

definition ech_accept_confirmation ::
  "crypto \<Rightarrow> KeySchedule \<Rightarrow> bytes \<Rightarrow> bytes \<Rightarrow> (Transcript, bytes) action" where
  "ech_accept_confirmation cr ks inner_client_random label =
     (let secret = hkdf_extract cr [] inner_client_random (ks_algorithm ks) in
      bnd (Transcript_digest cr (ks_hash_algorithm ks)) (\<lambda>data.
      lift_result (hkdf_expand_label cr secret label data 8 (ks_algorithm ks))))"

definition upd_secret :: "crypto \<Rightarrow> KeySchedule \<Rightarrow> bytes \<Rightarrow> bytes result" where
  "upd_secret cr ks secret =
     hkdf_expand_label cr secret (ascii ''traffic upd'') [] (ks_digest_size ks) (ks_algorithm ks)"

definition resumption_secret :: "crypto \<Rightarrow> KeySchedule \<Rightarrow> bytes \<Rightarrow> bytes \<Rightarrow> bytes result" where
  "resumption_secret cr ks secret ticket_nonce =
     hkdf_expand_label cr secret (ascii ''resumption'') ticket_nonce (ks_digest_size ks) (ks_algorithm ks)"

definition derive_secret :: "crypto \<Rightarrow> KeySchedule \<Rightarrow> bytes \<Rightarrow> (Transcript, bytes) action" where
  "derive_secret cr ks label =
     bnd (Transcript_digest cr (ks_hash_algorithm ks)) (\<lambda>data.
     lift_result (hkdf_expand_label cr (ks_secret ks) label data (ks_digest_size ks) (ks_algorithm ks)))"

definition ks_extract :: "crypto \<Rightarrow> bytes option \<Rightarrow> (KeySchedule, unit) action" where
  "ks_extract cr key_material0 = bnd get_state (\<lambda>ks.
     let key_material = (case key_material0 of
                           None \<Rightarrow> replicate (ks_digest_size ks) 0
                         | Some k \<Rightarrow> k)
     in thn (if ks_generation ks \<noteq> 0
             then bnd (lift_result (get_hash (ks_hash_algorithm ks) [])) (\<lambda>hashobj.
                  bnd (lift_result (hkdf_expand_label cr (ks_secret ks) (ascii ''derived'')
                        (hash_finalize cr hashobj) (ks_digest_size ks) (ks_algorithm ks))) (\<lambda>secret.
                  modify (\<lambda>ks. ks\<lparr>ks_secret := secret\<rparr>)))
             else ret ())
        (thn (modify (\<lambda>ks. ks\<lparr>ks_generation := ks_generation ks + 1\<rparr>))
        (modify (\<lambda>ks. ks\<lparr>ks_secret := hkdf_extract cr (ks_secret ks) key_material (ks_algorithm ks)\<rparr>))))"

subsection \<open>IP addresses\<close>

text \<open>
  \<open>ipaddress.ip_address\<close> of the standard library: a dotted quad, or else an IPv6 address in the
  text forms of RFC 4291 with an optional scope.  An address is its number.
\<close>

datatype IPAddress = IPv4Address int | IPv6Address int "string option"

definition is_digit :: "char \<Rightarrow> bool" where
  "is_digit c \<longleftrightarrow> c \<in> set ''0123456789''"

definition is_hex_digit :: "char \<Rightarrow> bool" where
  "is_hex_digit c \<longleftrightarrow> c \<in> set ''0123456789abcdefABCDEF''"

definition digit_value :: "char \<Rightarrow> int" where
  "digit_value c = (let n = (of_char c :: int) in
     if n \<le> 57 then n - 48 else if n \<le> 70 then n - 55 else n - 87)"

definition numeral_value :: "int \<Rightarrow> string \<Rightarrow> int" where
  "numeral_value base ds = foldl (\<lambda>a d. a * base + digit_value d) 0 ds"

definition parse_octet :: "string \<Rightarrow> int option" where
  "parse_octet octet_str =
     (if octet_str = [] \<or> \<not> list_all is_digit octet_str \<or> 3 < length octet_str \<or>
         octet_str \<noteq> ''0'' \<and> hd octet_str = CHR ''0''
      then None
      else if 255 < numeral_value 10 octet_str then None
      else Some (numeral_value 10 octet_str))"

primrec parse_all :: "('a \<Rightarrow> 'b option) \<Rightarrow> 'a list \<Rightarrow> 'b list option" where
  "parse_all f [] = Some []"
| "parse_all f (x # xs) =
     (case f x of None \<Rightarrow> None
      | Some y \<Rightarrow> (case parse_all f xs of None \<Rightarrow> None | Some ys \<Rightarrow> Some (y # ys)))"

definition join_parts :: "int \<Rightarrow> int list \<Rightarrow> int" where
  "join_parts base ps = foldl (\<lambda>a d. a * base + d) 0 ps"

definition parse_ipv4 :: "string \<Rightarrow> int option" where
  "parse_ipv4 ip_str =
     (let octets = split_on (CHR ''.'') ip_str in
      if length octets \<noteq> 4 then None
      else map_option (join_parts 256) (parse_all parse_octet octets))"

definition parse_hextet :: "string \<Rightarrow> int option" where
  "parse_hextet hextet_str =
     (if hextet_str = [] \<or> \<not> list_all is_hex_digit hextet_str \<or> 4 < length hextet_str then None
      else Some (numeral_value 16 hextet_str))"

text \<open>
  The parts between the colons; a dotted quad at the end stands for two parts.  \<open>skips\<close> are the
  inner empty parts, i.e. the places of \<open>::\<close>.
\<close>

definition parse_ipv6_parts :: "string list \<Rightarrow> int list \<Rightarrow> int option" where
  "parse_ipv6_parts parts quad =
     (let n = length parts + length quad;
          last_empty = (quad = [] \<and> last parts = []);
          skips = [i \<leftarrow> [1..<n - 1]. i < length parts \<and> parts ! i = []]
      in if 9 < n then None
      else case skips of
        [] \<Rightarrow>
          if n \<noteq> 8 \<or> hd parts = [] \<or> last_empty then None
          else map_option (\<lambda>ps. join_parts 65536 (ps @ quad)) (parse_all parse_hextet parts)
      | [skip_index] \<Rightarrow>
          (let hi = (if hd parts = [] then skip_index - 1 else skip_index);
               lo = (if last_empty then n - skip_index - 2 else n - skip_index - 1)
           in if hd parts = [] \<and> hi \<noteq> 0 \<or> last_empty \<and> lo \<noteq> 0 \<or> 8 < hi + lo + 1 then None
           else (case (parse_all parse_hextet (take hi parts),
                       parse_all parse_hextet (drop (length parts - (lo - length quad)) parts)) of
              (Some his, Some los) \<Rightarrow>
                Some (join_parts 65536 (his @ replicate (8 - (hi + lo)) 0 @ los @ quad))
            | _ \<Rightarrow> None))
      | _ \<Rightarrow> None)"

definition parse_ipv6 :: "string \<Rightarrow> int option" where
  "parse_ipv6 addr =
     (let parts = split_on (CHR '':'') addr in
      if addr = [] \<or> length parts < 3 then None
      else if CHR ''.'' \<in> set (last parts) then
        (case parse_ipv4 (last parts) of
           None \<Rightarrow> None
         | Some q \<Rightarrow> parse_ipv6_parts (butlast parts) [q div 65536, q mod 65536])
      else parse_ipv6_parts parts [])"

definition ip_address_of_str :: "string \<Rightarrow> IPAddress option" where
  "ip_address_of_str s =
     (if CHR ''/'' \<in> set s then None
      else case parse_ipv4 s of
        Some n \<Rightarrow> Some (IPv4Address n)
      | None \<Rightarrow>
          (let addr = takeWhile (\<lambda>c. c \<noteq> CHR ''%'') s;
               rest = dropWhile (\<lambda>c. c \<noteq> CHR ''%'') s;
               scope_id = tl rest
           in if rest \<noteq> [] \<and> (scope_id = [] \<or> CHR ''%'' \<in> set scope_id) then None
              else map_option (\<lambda>n. IPv6Address n (if rest = [] then None else Some scope_id))
                     (parse_ipv6 addr)))"

definition ip_address :: "bytes \<Rightarrow> IPAddress option" where
  "ip_address server_hostname = ip_address_of_str (bytes_to_str server_hostname)"

subsection \<open>Certificate name checks\<close>

text \<open>The values of a certificate's \<open>SubjectAlternativeName\<close> that the check reads.\<close>

record SubjectAlternativeName =
  san_ip_addresses :: "IPAddress list"
  san_dns_names :: "string list"

definition dnsname_match :: "string \<Rightarrow> string \<Rightarrow> bool" where
  "dnsname_match pattern0 hostname0 =
     (let pattern = lower pattern0; hostname = lower hostname0 in
      if pattern = hostname then True
      else if count_list pattern (CHR ''*'') = 0 then False
      else
        let parts_pat = split_on (CHR ''.'') pattern; parts_host = split_on (CHR ''.'') hostname in
        if hd parts_pat \<noteq> ''*'' \<and> CHR ''*'' \<in> set (hd parts_pat) then False
        else if hd parts_pat \<noteq> ''*'' \<or> length parts_pat \<noteq> length parts_host then False
        else tl parts_pat = tl parts_host)"

definition SANValidator :: "bytes \<Rightarrow> SubjectAlternativeName \<Rightarrow> unit result" where
  "SANValidator server_hostname san =
     (case ip_address server_hostname of
        Some ip_addr \<Rightarrow>
          if ip_addr \<in> set (san_ip_addresses san) then Inr () \<comment> \<open>\<open>return\<close>\<close>
          else Inr () \<comment> \<open>the loop ends and the method returns \<open>None\<close> as well\<close>
      | None \<Rightarrow>
          if list_ex (\<lambda>dns. dnsname_match dns (bytes_to_str server_hostname)) (san_dns_names san)
          then Inr ()
          else Inl AlertBadCertificate)"

definition EKUValidator :: "string \<Rightarrow> string list \<Rightarrow> unit result" where
  "EKUValidator purpose eku = (if purpose \<notin> set eku then Inl AlertBadCertificate else Inr ())"

end
