(* ===== verification/TLS_Utils_Laws.thy ===== *)
theory TLS_Utils_Laws
  imports TLS_Utils
begin

text \<open>
  What \<open>src/simple_tls/tls/utils.py\<close> promises: the pseudo-random function is the one of RFC 5246
  and RFC 2246, the transcript's cached hashes never differ from the hash of everything that was
  written, the key schedule always has a secret of the right length and derives different secrets
  from different inputs, and a host name is matched the way RFC 6125 asks for.

  The locale \<open>hash_log\<close> is the interface between the transcript and its users: an append-only log
  with a digest.  It is interpreted on the transcript, and the key schedule rests on its facts.
\<close>

subsection \<open>Pseudo-random function\<close>

text \<open>\<open>A(i)\<close> and \<open>P_hash\<close> of RFC 5246, section 5.\<close>

primrec A_chain :: "crypto \<Rightarrow> HashAlgorithm \<Rightarrow> bytes \<Rightarrow> bytes \<Rightarrow> nat \<Rightarrow> bytes" where
  "A_chain cr alg secret seed 0 = seed"
| "A_chain cr alg secret seed (Suc i) = hmac_fn cr alg secret (A_chain cr alg secret seed i)"

definition P_block :: "crypto \<Rightarrow> HashAlgorithm \<Rightarrow> bytes \<Rightarrow> bytes \<Rightarrow> nat \<Rightarrow> bytes" where
  "P_block cr alg secret seed i = hmac_fn cr alg secret (A_chain cr alg secret seed (Suc i) @ seed)"

definition P_hash :: "crypto \<Rightarrow> HashAlgorithm \<Rightarrow> bytes \<Rightarrow> bytes \<Rightarrow> nat \<Rightarrow> bytes" where
  "P_hash cr alg secret seed k = concat (map (P_block cr alg secret seed) [0..<k])"

lemma P_hash_Suc: "P_hash cr alg secret seed (Suc k) = P_hash cr alg secret seed k @ P_block cr alg secret seed k"
  by (simp add: P_hash_def)

lemma mac_okD:
  assumes "mac_ok cr"
  shows "length (hmac_fn cr alg key msg) = hash_digest_size cr alg"
    and "length (hash_fn cr alg msg) = hash_digest_size cr alg"
    and "0 < hash_digest_size cr alg" and "hash_digest_size cr alg \<le> 64"
  using assms by (auto simp: mac_ok_def)

lemma length_P_block: "mac_ok cr \<Longrightarrow> length (P_block cr alg secret seed i) = hash_digest_size cr alg"
  by (simp add: P_block_def mac_okD)

lemma length_P_hash: "mac_ok cr \<Longrightarrow> length (P_hash cr alg secret seed k) = k * hash_digest_size cr alg"
  by (induction k) (simp_all add: P_hash_def length_P_block)

lemma take_P_hash_more:
  assumes "mac_ok cr" and "len \<le> k * hash_digest_size cr alg" and "k \<le> m"
  shows "take len (P_hash cr alg secret seed m) = take len (P_hash cr alg secret seed k)"
proof -
  have "[0..<m] = [0..<k] @ [k..<m]" using assms(3) by (metis le_add_diff_inverse upt_add_eq_append zero_le)
  then have "P_hash cr alg secret seed m =
      P_hash cr alg secret seed k @ concat (map (P_block cr alg secret seed) [k..<m])"
    by (simp add: P_hash_def)
  with assms show ?thesis by (simp add: length_P_hash)
qed

lemma prf_hash_loop_P_hash:
  assumes mac: "mac_ok cr"
  shows "index = min len (i * hash_digest_size cr alg) \<Longrightarrow> len \<le> index + fuel \<Longrightarrow>
    concat outs = take index (P_hash cr alg secret seed i) \<Longrightarrow> prev = A_chain cr alg secret seed i \<Longrightarrow>
    \<exists>k. len \<le> k * hash_digest_size cr alg \<and>
      prf_hash_loop cr alg secret seed len fuel prev index outs =
        Inr (take len (P_hash cr alg secret seed k))"
proof (induction fuel arbitrary: prev index outs i)
  case 0
  then have "len \<le> i * hash_digest_size cr alg" "index = len" by (auto simp: min_def split: if_splits)
  with 0 show ?case by (subst prf_hash_loop.simps) auto
next
  case (Suc fuel)
  let ?d = "hash_digest_size cr alg"
  note d = mac_okD [OF mac]
  show ?case
  proof (cases "index < len")
    case False
    with Suc.prems have "len \<le> i * ?d" "index = len" by (auto simp: min_def split: if_splits)
    with Suc.prems show ?thesis by (subst prf_hash_loop.simps) auto
  next
    case True
    with Suc.prems(1) have idx: "index = i * ?d" by (simp add: min_def split: if_splits)
    let ?n = "min (len - index) ?d"
    have next_index: "index + ?n = min len (Suc i * ?d)" using True idx by simp
    have "take (index + ?n) (P_hash cr alg secret seed (Suc i)) =
        concat (outs @ [take ?n (P_block cr alg secret seed i)])"
      using Suc.prems(3) by (simp add: P_hash_Suc length_P_hash mac idx)
    moreover have "len \<le> index + ?n + fuel" using Suc.prems(2) True d(3) [of alg] by linarith
    ultimately show ?thesis
      using Suc.IH [of "index + ?n" "Suc i" "outs @ [take ?n (P_block cr alg secret seed i)]"
          "A_chain cr alg secret seed (Suc i)"] next_index True Suc.prems(4)
      by (subst prf_hash_loop.simps) (simp add: Let_def d P_block_def)
  qed
qed

lemma prf_hash_eq:
  assumes "mac_ok cr"
  shows "prf_hash cr secret seed len alg = Inr (take len (P_hash cr alg secret seed len))"
proof -
  obtain k where k: "len \<le> k * hash_digest_size cr alg"
    "prf_hash cr secret seed len alg = Inr (take len (P_hash cr alg secret seed k))"
    using prf_hash_loop_P_hash [OF assms, of 0 len 0 alg len "[]" secret seed seed]
    by (auto simp: prf_hash_def)
  have len: "len \<le> len * hash_digest_size cr alg" using mac_okD(3) [OF assms, of alg] by simp
  have "take len (P_hash cr alg secret seed (max k len)) = take len (P_hash cr alg secret seed k)"
    using k(1) by (intro take_P_hash_more assms) auto
  moreover have "take len (P_hash cr alg secret seed (max k len)) = take len (P_hash cr alg secret seed len)"
    using len by (intro take_P_hash_more assms) auto
  ultimately show ?thesis using k(2) by simp
qed

lemma length_take_P_hash:
  assumes "mac_ok cr"
  shows "length (take len (P_hash cr alg secret seed len)) = len"
proof -
  have "len * 1 \<le> len * hash_digest_size cr alg"
    using mac_okD(3) [OF assms, of alg] by (intro mult_le_mono2) simp
  then show ?thesis by (simp only: length_take length_P_hash [OF assms] mult_1_right min.absorb2)
qed

text \<open>
  C31: \<open>prf\<close> returns, for every secret, label, seed and length, exactly the requested number of bytes,
  and they are those of \<open>P_hash\<close>; without an algorithm (TLS 1.0 and 1.1) they are the exclusive or of
  \<open>P_MD5\<close> on the first half of the secret and \<open>P_SHA1\<close> on the second half, which share the middle byte
  when the length is odd.
\<close>

theorem prf_is_P_hash:
  assumes "mac_ok cr"
  shows "\<exists>w. tls_prf cr secret label seed len algorithm = Inr w \<and> length w = len \<and>
      w = (case algorithm of
             Some alg \<Rightarrow> take len (P_hash cr alg secret (label @ seed) len)
           | None \<Rightarrow> map2 (XOR)
               (take len (P_hash cr HASH_MD5 (take ((length secret + 1) div 2) secret) (label @ seed) len))
               (take len (P_hash cr HASH_SHA1 (drop (length secret div 2) secret) (label @ seed) len)))"
  using assms
  by (cases algorithm)
    (simp_all add: tls_prf_def Let_def prf_hash_eq strxor_def length_take_P_hash del: length_take)

theorem prf_is_P_hash_witness:
  "\<exists>w. tls_prf sample_crypto [1, 2, 3] [4] [5] 30 None = Inr w \<and> length w = 30"
  using prf_is_P_hash [OF sample_crypto_ok(1), of "[1, 2, 3]" "[4]" "[5]" 30 None] by blast

subsection \<open>Transcript\<close>

text \<open>
  A log of bytes with a digest: \<open>hv\<close> is the digest of a byte string, \<open>abs\<close> what the log holds and
  \<open>inv\<close> what the provider keeps of its own state.
\<close>

locale hash_log =
  fixes upd :: "bytes \<Rightarrow> ('t, unit) action"
    and dig :: "int \<Rightarrow> ('t, bytes) action"
    and abs :: "'t \<Rightarrow> bytes"
    and inv :: "'t \<Rightarrow> bool"
    and hv :: "int \<Rightarrow> bytes \<Rightarrow> bytes result"
  assumes upd_total: "fst (upd d t) = Inr ()"
    and upd_inv: "inv t \<Longrightarrow> inv (snd (upd d t))"
    and upd_abs: "abs (snd (upd d t)) = abs t @ d"
    and dig_value: "inv t \<Longrightarrow> fst (dig alg t) = hv alg (abs t)"
    and dig_inv: "inv t \<Longrightarrow> inv (snd (dig alg t))"
    and dig_abs: "abs (snd (dig alg t)) = abs t"
begin

lemma log_updates:
  "inv t \<Longrightarrow> \<exists>t'. for_each upd ds t = (Inr (), t') \<and> inv t' \<and> abs t' = abs t @ concat ds"
proof (induction ds arbitrary: t)
  case Nil
  then show ?case by (simp add: ret_def)
next
  case (Cons d ds)
  from Cons.IH [OF upd_inv [OF Cons.prems, of d]] upd_total [of d t] upd_abs [of d t]
  show ?case by (cases "upd d t") (auto simp: thn_apply)
qed

lemma digest_again: "inv t \<Longrightarrow> fst (dig alg (snd (dig alg' t))) = fst (dig alg t)"
  by (simp add: dig_value dig_inv dig_abs)

lemma bnd_dig:
  assumes "inv t"
  shows "\<exists>t'. bnd (dig alg) f t = (case hv alg (abs t) of Inl e \<Rightarrow> (Inl e, t') | Inr h \<Rightarrow> f h t') \<and>
    inv t' \<and> abs t' = abs t"
proof -
  obtain r t' where d: "dig alg t = (r, t')" by fastforce
  then have "r = hv alg (abs t)" "inv t'" "abs t' = abs t"
    using dig_value [OF assms, of alg] dig_inv [OF assms, of alg] dig_abs [of alg t] by simp_all
  with d show ?thesis by (intro exI [of _ t']) (simp add: bnd_apply)
qed

end

definition hash_value :: "crypto \<Rightarrow> int \<Rightarrow> bytes \<Rightarrow> bytes result" where
  "hash_value cr alg data = rbind (get_hash alg data) (\<lambda>h. Inr (hash_finalize cr h))"

definition transcript_ok :: "Transcript \<Rightarrow> bool" where
  "transcript_ok t \<longleftrightarrow> (\<forall>alg h. t_hashes t alg = Some h \<longrightarrow> get_hash alg (t_buffer t) = Inr h)"

lemma hash_copy_id [simp]: "hash_copy h = h"
  by (cases h) simp_all

lemma hash_update_update: "hash_update d (hash_update c h) = hash_update (c @ d) h"
  by (cases h) simp_all

lemma get_hash_append: "get_hash alg b = Inr h \<Longrightarrow> get_hash alg (b @ d) = Inr (hash_update d h)"
  by (auto simp: get_hash_def rbind_Inr_iff hash_update_update split: if_splits)

lemma update_hash_ok: "transcript_ok t \<Longrightarrow> transcript_ok (snd (update_hash d t))"
  by (auto simp: transcript_ok_def update_hash_def get_hash_append)

lemma Transcript_digest_cases:
  assumes "transcript_ok t"
  shows "\<exists>hs. Transcript_digest cr alg t = (hash_value cr alg (t_buffer t), t\<lparr>t_hashes := hs\<rparr>) \<and>
    transcript_ok (t\<lparr>t_hashes := hs\<rparr>)"
proof (cases "t_hashes t alg")
  case None
  show ?thesis
  proof (cases "get_hash alg (t_buffer t)")
    case (Inl e)
    with None assms show ?thesis
      by (auto simp: Transcript_digest_def bnd_apply lift_result_apply hash_value_def intro!: exI [of _ "t_hashes t"])
  next
    case (Inr h)
    with None assms show ?thesis
      by (auto simp: Transcript_digest_def bnd_apply thn_apply lift_result_apply hash_value_def transcript_ok_def ret_def
          intro!: exI [of _ "(t_hashes t)(alg \<mapsto> h)"] split: if_splits)
  qed
next
  case (Some h)
  with assms show ?thesis
    by (auto simp: Transcript_digest_def bnd_apply hash_value_def transcript_ok_def ret_def
        intro!: exI [of _ "t_hashes t"])
qed

lemma Transcript_digest_abs: "t_buffer (snd (Transcript_digest cr alg t)) = t_buffer t"
  by (simp add: Transcript_digest_def bnd_apply thn_apply ret_def lift_result_apply split: option.split sum.split)

interpretation transcript: hash_log update_hash "Transcript_digest cr" t_buffer transcript_ok "hash_value cr" for cr
proof
  fix alg d and t :: Transcript
  show "fst (update_hash d t) = Inr ()" "t_buffer (snd (update_hash d t)) = t_buffer t @ d"
    by (simp_all add: update_hash_def)
  show "t_buffer (snd (Transcript_digest cr alg t)) = t_buffer t" by (rule Transcript_digest_abs)
  assume t: "transcript_ok t"
  show "transcript_ok (snd (update_hash d t))" by (rule update_hash_ok [OF t])
  show "fst (Transcript_digest cr alg t) = hash_value cr alg (t_buffer t)" "transcript_ok (snd (Transcript_digest cr alg t))"
    using Transcript_digest_cases [OF t, of cr alg] by auto
qed


text \<open>
  The transcript against its specification, a byte string: what each call does to the string, and
  what a call history leaves in the object (a call that raises leaves what it did so far).
\<close>

datatype transcript_call =
    Call_update bytes
  | Call_digest int
  | Call_hello_retry int
  | Call_copy

fun run_call :: "crypto \<Rightarrow> transcript_call \<Rightarrow> Transcript \<Rightarrow> Transcript" where
  "run_call cr (Call_update d) t = snd (update_hash d t)"
| "run_call cr (Call_digest alg) t = snd (Transcript_digest cr alg t)"
| "run_call cr (Call_hello_retry alg) t = snd (update_for_hello_retry_request cr alg t)"
| "run_call cr Call_copy t = Transcript_copy t"

fun spec_call :: "crypto \<Rightarrow> transcript_call \<Rightarrow> bytes \<Rightarrow> bytes" where
  "spec_call cr (Call_update d) b = b @ d"
| "spec_call cr (Call_digest alg) b = b"
| "spec_call cr (Call_hello_retry alg) b =
     (case hash_value cr alg b of
        Inl _ \<Rightarrow> b
      | Inr h \<Rightarrow> 254 # be_bytes 3 (int (length h)) @ h)"
| "spec_call cr Call_copy b = b"

lemma length_hash_value:
  assumes "mac_ok cr" and "hash_value cr alg b = Inr h"
  shows "length h \<le> 128"
proof -
  have *: "length (hash_fn cr a d) \<le> 64" for a d using mac_okD(2,4) [OF assms(1)] by simp
  then have "length (hash_fn cr a b) \<le> 128" for a by (rule order_trans) simp
  with assms(2) * [of HASH_MD5 b] * [of HASH_SHA1 b] show ?thesis
    by (auto simp: hash_value_def get_hash_def rbind_Inr_iff split: if_splits)
qed

lemma message_hash_bytes:
  assumes "length h \<le> 128"
  shows "run_writer (thn (write_int (ht HT_MESSAGE_HASH) 1) (write_prefixed_bytes h 3)) =
    Inr (254 # be_bytes 3 (int (length h)) @ h)"
proof -
  have "run_writer (thn (write_int (ht HT_MESSAGE_HASH) 1) (write_prefixed_bytes h 3)) =
      rcat (enc_int (ht HT_MESSAGE_HASH) 1) (enc_pbytes h 3)"
    by (intro run_writer_emits emits_intros)
  with assms show ?thesis by (simp add: enc_int_def enc_pbytes_def rcat_def be_bytes_numeral)
qed

lemma hello_retry_refines:
  assumes "mac_ok cr" and t: "transcript_ok t"
  shows "transcript_ok (run_call cr (Call_hello_retry alg) t) \<and>
    t_buffer (run_call cr (Call_hello_retry alg) t) = spec_call cr (Call_hello_retry alg) (t_buffer t)"
proof -
  obtain t' where t': "update_for_hello_retry_request cr alg t =
      (case hash_value cr alg (t_buffer t) of
         Inl e \<Rightarrow> (Inl e, t')
       | Inr d \<Rightarrow> bnd (lift_result (run_writer
           (thn (write_int (ht HT_MESSAGE_HASH) 1) (write_prefixed_bytes d 3)))) (\<lambda>msg.
           thn (modify (\<lambda>t. t\<lparr>t_buffer := [], t_hashes := Map.empty\<rparr>)) (update_hash msg)) t')"
    "transcript_ok t'" "t_buffer t' = t_buffer t"
    using transcript.bnd_dig [OF t] unfolding update_for_hello_retry_request_def by blast
  show ?thesis
  proof (cases "hash_value cr alg (t_buffer t)")
    case (Inr h)
    with t' length_hash_value [OF assms(1) Inr] show ?thesis
      by (simp add: message_hash_bytes [simplified] bnd_apply thn_apply lift_result_apply update_hash_def transcript_ok_def)
  qed (use t' in simp)
qed

lemma call_refines:
  assumes "mac_ok cr" and "transcript_ok t"
  shows "transcript_ok (run_call cr c t) \<and> t_buffer (run_call cr c t) = spec_call cr c (t_buffer t)"
proof (cases c)
  case Call_copy
  with assms(2) show ?thesis by (simp add: Transcript_copy_def transcript_ok_def option.map_id0 [unfolded id_def])
qed (use assms in \<open>simp_all add: transcript.upd_inv transcript.upd_abs transcript.dig_inv transcript.dig_abs
       hello_retry_refines del: run_call.simps(3) spec_call.simps(3)\<close>)

lemma calls_refine:
  assumes "mac_ok cr"
  shows "transcript_ok t \<Longrightarrow> transcript_ok (fold (run_call cr) cs t) \<and>
    t_buffer (fold (run_call cr) cs t) = fold (spec_call cr) cs (t_buffer t)"
  by (induction cs arbitrary: t) (simp_all add: call_refines [OF assms])

lemma Transcript_init_ok: "transcript_ok Transcript_init"
  by (simp add: transcript_ok_def Transcript_init_def)

text \<open>
  C30: Whatever calls a transcript has served (updates, digests under any algorithms, HelloRetryRequest
  rewrites, copies), \<open>digest\<close> returns the hash, from scratch, of exactly the bytes the specification
  says it holds: the cache of running hash objects is never stale.
\<close>

theorem transcript_digest_refines:
  assumes "mac_ok cr"
  shows "fst (Transcript_digest cr alg (fold (run_call cr) cs Transcript_init)) =
      hash_value cr alg (fold (spec_call cr) cs [])"
  using calls_refine [OF assms Transcript_init_ok, of cs] transcript.dig_value [of _ cr alg]
  by (simp add: Transcript_init_def)

theorem transcript_digest_refines_witness:
  "fst (Transcript_digest sample_crypto 4 (fold (run_call sample_crypto)
     [Call_update [1], Call_digest 4, Call_hello_retry 4, Call_update [2], Call_digest 4, Call_update [3]]
     Transcript_init)) =
   hash_value sample_crypto 4 (fold (spec_call sample_crypto)
     [Call_update [1], Call_digest 4, Call_hello_retry 4, Call_update [2], Call_digest 4, Call_update [3]] [])"
  by (rule transcript_digest_refines [OF sample_crypto_ok(1)])

subsection \<open>Key schedule\<close>

lemma hkdf_label_Inr_iff:
  "hkdf_label label data n = Inr w \<longleftrightarrow>
     n < 65536 \<and> length label + 6 < 256 \<and> length data < 256 \<and>
     w = be_bytes 2 (int n) @ be_bytes 1 (int (length label + 6)) @ ascii ''tls13 '' @ label @
       be_bytes 1 (int (length data)) @ data"
proof -
  have "hkdf_label label data n = rcat (enc_int (int n) 2)
      (rcat (enc_pbytes (ascii ''tls13 '' @ label) 1) (enc_pbytes data 1))"
    unfolding hkdf_label_def by (intro run_writer_emits emits_intros)
  moreover have "length (ascii ''tls13 '') = 6" by (simp add: ascii_def)
  ultimately show ?thesis
    by (auto simp: rcat_Inr_iff enc_int_Inr_iff enc_pbytes_Inr_iff)
qed

text \<open>
  The labels of the TLS 1.3 key schedule are separated: two derivations hash the same \<open>HkdfLabel\<close>
  only if they have the same label, the same context and the same output length.
\<close>

theorem hkdf_label_injective:
  assumes "hkdf_label label data n = Inr w" and "hkdf_label label' data' n' = Inr w"
  shows "label = label' \<and> data = data' \<and> n = n'"
proof -
  from assms have w: "be_bytes 2 (int n) @ be_bytes 1 (int (length label + 6)) @ ascii ''tls13 '' @ label @
       be_bytes 1 (int (length data)) @ data =
     be_bytes 2 (int n') @ be_bytes 1 (int (length label' + 6)) @ ascii ''tls13 '' @ label' @
       be_bytes 1 (int (length data')) @ data'"
    and b: "n < 65536" "n' < 65536" "length label + 6 < 256" "length label' + 6 < 256"
    by (auto simp: hkdf_label_Inr_iff)
  have n: "n = n'" using w b(1,2) be_bytes_inj [of 2 "int n" "int n'"] by simp
  have l: "length label = length label'"
    using w b(3,4) be_bytes_inj [of 1 "int (length label + 6)" "int (length label' + 6)"] by simp
  with w n show ?thesis by simp
qed

theorem hkdf_label_injective_witness:
  "\<exists>w. hkdf_label (ascii ''finished'') [] 32 = Inr w \<and>
     hkdf_label (ascii ''traffic upd'') [] 32 \<noteq> Inr w"
proof -
  obtain w where w: "hkdf_label (ascii ''finished'') [] 32 = Inr w" by (simp add: hkdf_label_Inr_iff ascii_def)
  have "ascii ''finished'' \<noteq> ascii ''traffic upd''" by (simp add: ascii_def)
  with w hkdf_label_injective [OF w, of "ascii ''traffic upd''" "[]" 32] show ?thesis by blast
qed

definition ks_ok :: "crypto \<Rightarrow> KeySchedule \<Rightarrow> bool" where
  "ks_ok cr ks \<longleftrightarrow> get_algorithm (ks_hash_algorithm ks) = Inr (ks_algorithm ks) \<and>
     ks_digest_size ks = hash_digest_size cr (ks_algorithm ks) \<and>
     length (ks_secret ks) = ks_digest_size ks"

lemma KeySchedule_init_ok: "KeySchedule_init cr alg = Inr ks \<Longrightarrow> ks_ok cr ks"
  by (auto simp: KeySchedule_init_def ks_ok_def rbind_Inr_iff)

lemma hkdf_expand_label_total:
  assumes "mac_ok cr" and "hkdf_ok cr" and "length label < 250" and "length data < 256"
    and "n = hash_digest_size cr alg"
  shows "\<exists>okm. hkdf_expand_label cr secret label data n alg = Inr okm \<and> length okm = n"
proof -
  have "n < 65536" "n \<le> 255 * hash_digest_size cr alg" using assms(5) mac_okD(4) [OF assms(1), of alg] by simp_all
  with assms(3,4) obtain info where "hkdf_label label data n = Inr info" by (simp add: hkdf_label_Inr_iff)
  moreover obtain okm where "hkdf_expand_fn cr alg secret info n = Some okm" "length okm = n"
    using assms(2) \<open>n \<le> _\<close> unfolding hkdf_ok_def by blast
  ultimately show ?thesis by (simp add: hkdf_expand_label_def hkdf_expand_def)
qed

text \<open>The chain of RFC 8446, section 7.1: extract, then derive before every further extract.\<close>

definition next_secret :: "crypto \<Rightarrow> HashAlgorithm \<Rightarrow> nat \<Rightarrow> bytes \<Rightarrow> bytes option \<Rightarrow> bytes" where
  "next_secret cr alg generation secret ikm =
     (let zeros = replicate (hash_digest_size cr alg) 0;
          salt = (if generation = 0 then secret
                  else case hkdf_expand_label cr secret (ascii ''derived'') (hash_fn cr alg [])
                              (hash_digest_size cr alg) alg of
                         Inr d \<Rightarrow> d | Inl _ \<Rightarrow> [])
      in hmac_fn cr alg salt (case ikm of None \<Rightarrow> zeros | Some k \<Rightarrow> k))"

fun secret_chain :: "crypto \<Rightarrow> HashAlgorithm \<Rightarrow> nat \<Rightarrow> bytes \<Rightarrow> bytes option list \<Rightarrow> bytes" where
  "secret_chain cr alg generation secret [] = secret"
| "secret_chain cr alg generation secret (k # ks) =
     secret_chain cr alg (Suc generation) (next_secret cr alg generation secret k) ks"

lemma get_hash_algorithm:
  "get_algorithm alg = Inr a \<Longrightarrow> get_hash alg d = Inr (Hash a d)"
  by (auto simp: get_hash_def get_algorithm_def split: if_splits)

lemma ks_extract_step:
  assumes "mac_ok cr" and "hkdf_ok cr" and ks: "ks_ok cr ks"
  shows "ks_extract cr ikm ks = (Inr (), ks\<lparr>ks_generation := Suc (ks_generation ks),
      ks_secret := next_secret cr (ks_algorithm ks) (ks_generation ks) (ks_secret ks) ikm\<rparr>)"
proof -
  let ?alg = "ks_algorithm ks"
  have dg: "ks_digest_size ks = hash_digest_size cr ?alg" using ks by (simp add: ks_ok_def)
  have "length (hash_fn cr ?alg []) < 256"
    using mac_okD(2,4) [OF assms(1), of ?alg] by (metis dg le_less_trans numeral_less_iff semiring_norm(76,78))
  then obtain d where d: "hkdf_expand_label cr (ks_secret ks) (ascii ''derived'') (hash_fn cr ?alg [])
      (hash_digest_size cr ?alg) ?alg = Inr d"
    using hkdf_expand_label_total [OF assms(1,2), of "ascii ''derived''" "hash_fn cr ?alg []" _ ?alg "ks_secret ks"]
    by (auto simp: ascii_def)
  have h: "get_hash (ks_hash_algorithm ks) [] = Inr (Hash ?alg [])"
    using ks by (simp add: ks_ok_def get_hash_algorithm)
  show ?thesis
    by (simp add: ks_extract_def next_secret_def Let_def bnd_apply thn_apply lift_result_apply h d dg
        hkdf_extract_def ret_def split: option.split)
qed

lemma ks_extract_chain:
  assumes "mac_ok cr" and "hkdf_ok cr"
  shows "ks_ok cr ks \<Longrightarrow> \<exists>ks'. for_each (ks_extract cr) kms ks = (Inr (), ks') \<and> ks_ok cr ks' \<and>
    ks_algorithm ks' = ks_algorithm ks \<and> ks_generation ks' = ks_generation ks + length kms \<and>
    ks_secret ks' = secret_chain cr (ks_algorithm ks) (ks_generation ks) (ks_secret ks) kms"
proof (induction kms arbitrary: ks)
  case Nil
  then show ?case by (simp add: ret_def)
next
  case (Cons k kms)
  let ?ks = "ks\<lparr>ks_generation := Suc (ks_generation ks),
      ks_secret := next_secret cr (ks_algorithm ks) (ks_generation ks) (ks_secret ks) k\<rparr>"
  have "ks_ok cr ?ks"
    using Cons.prems mac_okD(1) [OF assms(1)] by (simp add: ks_ok_def next_secret_def Let_def)
  from Cons.IH [OF this] ks_extract_step [OF assms Cons.prems, of k] show ?case
    by (auto simp: thn_apply)
qed

text \<open>
  From a fresh key schedule any number of extractions succeeds; the secret always has the digest's
  length, and it is the one of the RFC 8446 chain for the key material in that order.
\<close>

theorem key_schedule_chain:
  assumes "mac_ok cr" and "hkdf_ok cr" and "KeySchedule_init cr hash_algorithm = Inr ks"
  shows "\<exists>ks'. for_each (ks_extract cr) kms ks = (Inr (), ks') \<and>
    length (ks_secret ks') = hash_digest_size cr (ks_algorithm ks) \<and>
    ks_secret ks' = secret_chain cr (ks_algorithm ks) 0
      (replicate (hash_digest_size cr (ks_algorithm ks)) 0) kms"
proof -
  have "ks_generation ks = 0" "ks_secret ks = replicate (hash_digest_size cr (ks_algorithm ks)) 0"
    using assms(3) by (auto simp: KeySchedule_init_def rbind_Inr_iff)
  with ks_extract_chain [OF assms(1,2) KeySchedule_init_ok [OF assms(3)], of kms] show ?thesis
    by (auto simp: ks_ok_def)
qed

theorem key_schedule_chain_witness:
  "\<exists>ks ks'. KeySchedule_init sample_crypto 4 = Inr ks \<and>
     for_each (ks_extract sample_crypto) [None, Some [1, 2], None] ks = (Inr (), ks') \<and>
     length (ks_secret ks') = 20"
proof -
  obtain ks where ks: "KeySchedule_init sample_crypto 4 = Inr ks"
    by (simp add: KeySchedule_init_def get_algorithm_def)
  from key_schedule_chain [OF sample_crypto_ok(1,2) ks, of "[None, Some [1, 2], None]"] ks show ?thesis
    by (auto simp: sample_crypto_def)
qed

subsection \<open>Names\<close>

lemma split_on_ne [simp]: "split_on sep s \<noteq> []"
  by (cases s) auto

lemma split_on_ne' [simp]: "[] \<noteq> split_on sep s"
  by (metis split_on_ne)








text \<open>
  For a host given by name the check is exact: the certificate is refused with a bad-certificate
  alert unless one of its DNS names covers the host.
\<close>

theorem SANValidator_dns:
  assumes "ip_address host = None"
  shows "SANValidator host san = (if \<exists>dns \<in> set (san_dns_names san). dnsname_match dns (bytes_to_str host)
    then Inr () else Inl AlertBadCertificate)"
  using assms by (simp add: SANValidator_def list_ex_iff)

theorem SANValidator_dns_witness:
  "SANValidator (ascii ''a.b'') \<lparr>san_ip_addresses = [], san_dns_names = [''*.B'']\<rparr> = Inr () \<and>
   SANValidator (ascii ''a.b'') \<lparr>san_ip_addresses = [], san_dns_names = [''b'']\<rparr> = Inl AlertBadCertificate"
proof -
  have ip: "ip_address (ascii ''a.b'') = None" by code_simp
  have "dnsname_match ''*.B'' (bytes_to_str (ascii ''a.b''))" "\<not> dnsname_match ''b'' (bytes_to_str (ascii ''a.b''))"
    by code_simp+
  with SANValidator_dns [OF ip] show ?thesis by simp
qed

end
