(* ===== verification/Session.thy ===== *)
theory Session
  imports Codec Cipher_Suites Enums
begin

text \<open>
  Sessions: \<open>src/simple_tls/tls/session.py\<close>.  A \<open>TLSSession\<close> is a record; \<open>utcnow()\<close> is the argument
  \<open>now\<close> of the operations that ask for the time.  A \<open>datetime\<close> is the number of microseconds since
  1970 and a \<open>timedelta\<close> a number of microseconds, the resolution of both classes.  An
  \<open>x509.Certificate\<close> is its DER encoding.

  \<open>int(d.timestamp())\<close> goes through a float, which is exact to the second for every date before the
  year 2106; \<open>whole_seconds\<close> is the exact conversion.  \<open>obfuscated_age\<close> multiplies a float by 1000 and
  truncates: the age in milliseconds is its argument here.
\<close>

type_synonym x509_certificate = bytes

definition DEFAULT_TIMEOUT :: int where
  "DEFAULT_TIMEOUT = 1 * 24 * 60 * 60"

record TLSSession =
  s_protocol :: Protocol
  s_is_server :: bool
  s_not_resumable :: bool
  s_version :: int
  s_cipher_suite :: "cipher_suite option"
  s_secret :: bytes
  s_session_id :: bytes
  s_ticket :: bytes
  s_early_alpn :: "bytes option"
  s_has_alps :: bool
  s_local_alps :: bytes
  s_peer_alps :: bytes
  s_extended_master_secret :: bool
  s_ticket_max_early_data :: int
  s_time :: int
  s_timeout :: int
  s_ticket_age_add :: int
  s_peer_cert :: "x509_certificate option"
  s_peer_chain :: "x509_certificate list option"
  s_verified_peer_cert :: "x509_certificate option"
  s_verified_peer_chain :: "x509_certificate list option"
  s_ocsp_response :: "bytes option"

definition microseconds :: "int \<Rightarrow> int" where
  "microseconds seconds = seconds * 1000000"

definition whole_seconds :: "int \<Rightarrow> int" where
  "whole_seconds us = (if us < 0 then - ((- us) div 1000000) else us div 1000000)"

text \<open>A session with the default values of the data class.\<close>

definition TLSSession_init :: "int \<Rightarrow> TLSSession" where
  "TLSSession_init now = \<lparr>s_protocol = PROTO_TLS, s_is_server = False, s_not_resumable = False,
     s_version = UNSPECIFIED, s_cipher_suite = None, s_secret = [], s_session_id = [], s_ticket = [],
     s_early_alpn = None, s_has_alps = False, s_local_alps = [], s_peer_alps = [],
     s_extended_master_secret = False, s_ticket_max_early_data = 0, s_time = now,
     s_timeout = microseconds DEFAULT_TIMEOUT, s_ticket_age_add = 0, s_peer_cert = None,
     s_peer_chain = None, s_verified_peer_cert = None, s_verified_peer_chain = None,
     s_ocsp_response = None\<rparr>"

subsection \<open>Lifetime\<close>

definition rebase_time :: "int \<Rightarrow> TLSSession \<Rightarrow> TLSSession" where
  "rebase_time now s =
     (if s_time s > now then s\<lparr>s_time := now, s_timeout := 0\<rparr>
      else
        let delta = now - s_time s; s' = s\<lparr>s_time := now\<rparr> in
        if s_timeout s' < delta then s'\<lparr>s_timeout := 0\<rparr>
        else s'\<lparr>s_timeout := s_timeout s' - delta\<rparr>)"

definition set_timeout :: "int \<Rightarrow> TLSSession \<Rightarrow> TLSSession" where
  "set_timeout timeout s =
     (let delta = microseconds timeout in
      if s_timeout s > delta then s\<lparr>s_timeout := delta\<rparr> else s)"

definition renew_timeout :: "int \<Rightarrow> int \<Rightarrow> TLSSession \<Rightarrow> TLSSession" where
  "renew_timeout now timeout s =
     (let s' = rebase_time now s; delta = microseconds timeout in
      if s_timeout s' \<le> delta then s'\<lparr>s_timeout := delta\<rparr> else s')"

text \<open>The last moment a \<open>datetime\<close> can hold; an addition that passes it raises \<open>OverflowError\<close>.\<close>

definition MAX_DATETIME :: int where
  "MAX_DATETIME = 253402300799999999"

definition time_valid :: "int \<Rightarrow> TLSSession \<Rightarrow> bool result" where
  "time_valid now s =
     (let not_valid_before = s_time s; not_valid_after = not_valid_before + s_timeout s in
      if MAX_DATETIME < not_valid_after then Inl OverflowError
      else Inr (now \<ge> not_valid_before \<and> now \<le> not_valid_after))"

definition obfuscated_age :: "int \<Rightarrow> TLSSession \<Rightarrow> int" where
  "obfuscated_age ticket_age s = (ticket_age + s_ticket_age_add s) mod (2 ^ 32)"

definition session_protocol_version :: "TLSSession \<Rightarrow> int result" where
  "session_protocol_version s = (if s_version s = UNSPECIFIED then Inl AssertionError else Inr (s_version s))"

definition session_copy :: "bool \<Rightarrow> bool \<Rightarrow> int \<Rightarrow> TLSSession \<Rightarrow> TLSSession" where
  "session_copy include_noauth include_ticket now s =
     (let new = (TLSSession_init now)\<lparr>s_protocol := s_protocol s, s_is_server := s_is_server s,
            s_not_resumable := True, s_version := s_version s, s_secret := s_secret s,
            s_cipher_suite := s_cipher_suite s, s_time := s_time s, s_timeout := s_timeout s,
            s_peer_cert := s_peer_cert s, s_peer_chain := s_peer_chain s,
            s_verified_peer_cert := s_verified_peer_cert s,
            s_verified_peer_chain := s_verified_peer_chain s,
            s_ocsp_response := s_ocsp_response s\<rparr>;
          new = (if include_noauth then
            new\<lparr>s_session_id := s_session_id s, s_ticket_age_add := s_ticket_age_add s,
                s_ticket_max_early_data := s_ticket_max_early_data s,
                s_extended_master_secret := s_extended_master_secret s, s_has_alps := s_has_alps s,
                s_early_alpn := s_early_alpn s, s_local_alps := s_local_alps s,
                s_peer_alps := s_peer_alps s\<rparr> else new)
      in if include_ticket then new\<lparr>s_ticket := s_ticket s\<rparr> else new)"

subsection \<open>Serialisation\<close>

text \<open>
  \<open>datetime.fromtimestamp\<close> and \<open>timedelta(seconds=...)\<close> refuse what their class cannot hold.  (For dates
  beyond the year 9999 the class of the exception depends on the platform; it is \<open>ValueError\<close> here.)
\<close>

definition fromtimestamp :: "int \<Rightarrow> int result" where
  "fromtimestamp seconds =
     (if microseconds seconds > MAX_DATETIME then Inl ValueError else Inr (microseconds seconds))"

definition timedelta_seconds :: "int \<Rightarrow> int result" where
  "timedelta_seconds seconds =
     (if seconds > 86399999999999 then Inl OverflowError else Inr (microseconds seconds))"

definition TLSSession_parse :: "int \<Rightarrow> (parser, TLSSession) action" where
  "TLSSession_parse now =
     bnd (read_int 1) (\<lambda>n. bnd (lift_result (Protocol_of n)) (\<lambda>protocol.
     bnd (read_int 1) (\<lambda>is_server.
     bnd (read_int 2) (\<lambda>version.
     bnd (read_int 2) (\<lambda>m. bnd (lift_result (CipherSuite_of m)) (\<lambda>cs.
     bnd (read_prefixed_bytes 2) (\<lambda>secret.
     bnd (read_prefixed_bytes 2) (\<lambda>session_id.
     bnd (read_prefixed_bytes 2) (\<lambda>ticket.
     bnd (read_int 8) (\<lambda>t. bnd (lift_result (fromtimestamp t)) (\<lambda>time.
     bnd (read_int 8) (\<lambda>d. bnd (lift_result (timedelta_seconds d)) (\<lambda>timeout.
     bnd (read_int 4) (\<lambda>ticket_age_add.
     bnd (read_int 4) (\<lambda>ticket_max_early_data.
     bnd (read_prefixed_bytes 2) (\<lambda>early_alpn.
     bnd (read_prefixed_bytes 2) (\<lambda>local_alps.
     bnd (read_prefixed_bytes 2) (\<lambda>peer_alps.
     bnd (read_int 1) (\<lambda>has_alps.
     bnd (read_int 1) (\<lambda>extended_master_secret.
     ret ((TLSSession_init now)\<lparr>s_protocol := protocol, s_is_server := is_server \<noteq> 0,
       s_not_resumable := False, s_version := version, s_cipher_suite := Some cs,
       s_secret := secret, s_session_id := session_id, s_ticket := ticket,
       s_early_alpn := (if early_alpn = [] then None else Some early_alpn),
       s_has_alps := has_alps \<noteq> 0, s_local_alps := local_alps, s_peer_alps := peer_alps,
       s_extended_master_secret := extended_master_secret \<noteq> 0, s_time := time,
       s_timeout := timeout, s_ticket_age_add := ticket_age_add,
       s_ticket_max_early_data := ticket_max_early_data\<rparr>)))))))))))))))))))))"

definition TLSSession_from_bytes :: "int \<Rightarrow> bytes \<Rightarrow> TLSSession result" where
  "TLSSession_from_bytes now = run_parser (TLSSession_parse now)"

definition int_of_bool :: "bool \<Rightarrow> int" where
  "int_of_bool b = (if b then 1 else 0)"

definition TLSSession_to_bytes :: "TLSSession \<Rightarrow> bytes result" where
  "TLSSession_to_bytes s = run_writer
     (thn (write_int (protocol_value (s_protocol s)) 1)
     (thn (write_int (int_of_bool (s_is_server s)) 1)
     (thn (write_int (s_version s) 2)
     (thn (write_int (case s_cipher_suite s of Some cs \<Rightarrow> cs_id cs | None \<Rightarrow> 0) 2)
     (thn (write_prefixed_bytes (s_secret s) 2)
     (thn (write_prefixed_bytes (s_session_id s) 2)
     (thn (write_prefixed_bytes (s_ticket s) 2)
     (thn (write_int (whole_seconds (s_time s)) 8)
     (thn (write_int (whole_seconds (s_timeout s)) 8)
     (thn (write_int (s_ticket_age_add s) 4)
     (thn (write_int (s_ticket_max_early_data s) 4)
     (thn (write_prefixed_bytes (case s_early_alpn s of Some a \<Rightarrow> a | None \<Rightarrow> []) 2)
     (thn (write_prefixed_bytes (s_local_alps s) 2)
     (thn (write_prefixed_bytes (s_peer_alps s) 2)
     (thn (write_int (int_of_bool (s_has_alps s)) 1)
     (write_int (int_of_bool (s_extended_master_secret s)) 1))))))))))))))))"

subsection \<open>Properties\<close>

text \<open>
  What a serialised session keeps: everything but the certificates, the OCSP response and the mark \<open>not_resumable\<close>, with its times in
  whole seconds; an empty early ALPN is written like a missing one.
\<close>

definition session_kept :: "TLSSession \<Rightarrow> TLSSession" where
  "session_kept s = s\<lparr>s_not_resumable := False,
     s_early_alpn := (if s_early_alpn s = Some [] then None else s_early_alpn s),
     s_time := microseconds (whole_seconds (s_time s)),
     s_timeout := microseconds (whole_seconds (s_timeout s)),
     s_peer_cert := None, s_peer_chain := None, s_verified_peer_cert := None,
     s_verified_peer_chain := None, s_ocsp_response := None\<rparr>"

lemma parses_lift:
  "r = Inr x \<Longrightarrow> parses suf (f x) w y \<Longrightarrow> parses suf (bnd (lift_result r) f) w y"
  by (simp add: parses_def bnd_apply lift_result_apply)

lemma run_parser_prefix: "parses suf m w x \<Longrightarrow> run_parser m (w @ suf) = Inr x"
proof -
  assume "parses suf m w x"
  then have "m \<lparr>p_data = [] @ w @ suf, p_index = length ([] :: bytes), p_bookmark = 0\<rparr> =
     (Inr x, \<lparr>p_data = [] @ w @ suf, p_index = length ([] :: bytes) + length w, p_bookmark = 0\<rparr>)"
    unfolding parses_def by blast
  then show ?thesis by (simp add: run_parser_def new_parser_def)
qed

lemma whole_seconds_bounds:
  "us \<le> MAX_DATETIME \<Longrightarrow> fromtimestamp (whole_seconds us) = Inr (microseconds (whole_seconds us))"
  by (auto simp: fromtimestamp_def whole_seconds_def microseconds_def MAX_DATETIME_def)

lemma timedelta_whole_seconds:
  "us < 86400000000000 * 1000000 \<Longrightarrow>
   timedelta_seconds (whole_seconds us) = Inr (microseconds (whole_seconds us))"
  by (auto simp: timedelta_seconds_def whole_seconds_def microseconds_def)

lemma session_to_bytes_enc:
  "TLSSession_to_bytes s =
     rcat (enc_int (protocol_value (s_protocol s)) 1)
     (rcat (enc_int (int_of_bool (s_is_server s)) 1)
     (rcat (enc_int (s_version s) 2)
     (rcat (enc_int (case s_cipher_suite s of Some cs \<Rightarrow> cs_id cs | None \<Rightarrow> 0) 2)
     (rcat (enc_pbytes (s_secret s) 2)
     (rcat (enc_pbytes (s_session_id s) 2)
     (rcat (enc_pbytes (s_ticket s) 2)
     (rcat (enc_int (whole_seconds (s_time s)) 8)
     (rcat (enc_int (whole_seconds (s_timeout s)) 8)
     (rcat (enc_int (s_ticket_age_add s) 4)
     (rcat (enc_int (s_ticket_max_early_data s) 4)
     (rcat (enc_pbytes (case s_early_alpn s of Some a \<Rightarrow> a | None \<Rightarrow> []) 2)
     (rcat (enc_pbytes (s_local_alps s) 2)
     (rcat (enc_pbytes (s_peer_alps s) 2)
     (rcat (enc_int (int_of_bool (s_has_alps s)) 1)
     (enc_int (int_of_bool (s_extended_master_secret s)) 1)))))))))))))))"
  unfolding TLSSession_to_bytes_def by (intro run_writer_emits emits_intros)

lemma session_parses:
  assumes "TLSSession_to_bytes s = Inr w" and "s_cipher_suite s = Some cs"
    and "cs \<in> set ALL_CIPHER_SUITES"
    and "s_time s \<le> MAX_DATETIME" and "s_timeout s < 86400000000000 * 1000000"
  shows "TLSSession_from_bytes now (w @ trailing) = Inr (session_kept s)"
proof -
  have p: "Protocol_of (protocol_value (s_protocol s)) = Inr (s_protocol s)"
    by (simp add: Protocol_of_Inr_iff)
  have b: "int_of_bool x \<noteq> 0 \<longleftrightarrow> x" for x by (simp add: int_of_bool_def)
  have a: "(if (case s_early_alpn s of Some a \<Rightarrow> a | None \<Rightarrow> []) = [] then None
      else Some (case s_early_alpn s of Some a \<Rightarrow> a | None \<Rightarrow> [])) =
      (if s_early_alpn s = Some [] then None else s_early_alpn s)"
    by (cases "s_early_alpn s") auto
  have k: "(TLSSession_init now)\<lparr>s_protocol := s_protocol s, s_is_server := s_is_server s,
       s_not_resumable := False, s_version := s_version s, s_cipher_suite := Some cs,
       s_secret := s_secret s, s_session_id := s_session_id s, s_ticket := s_ticket s,
       s_early_alpn := (if s_early_alpn s = Some [] then None else s_early_alpn s),
       s_has_alps := s_has_alps s, s_local_alps := s_local_alps s, s_peer_alps := s_peer_alps s,
       s_extended_master_secret := s_extended_master_secret s,
       s_time := microseconds (whole_seconds (s_time s)),
       s_timeout := microseconds (whole_seconds (s_timeout s)), s_ticket_age_add := s_ticket_age_add s,
       s_ticket_max_early_data := s_ticket_max_early_data s\<rparr> = session_kept s"
    using assms(2) by (simp add: session_kept_def TLSSession_init_def)
  note conv = p CipherSuite_of_id [OF assms(3)] whole_seconds_bounds [OF assms(4)]
    timedelta_whole_seconds [OF assms(5)]
  from assms(1,2) session_to_bytes_enc [of s] obtain w1 w2 w3 w4 w5 w6 w7 w8 w9 w10 w11 w12 w13 w14 w15 w16 where
    w: "w = w1 @ w2 @ w3 @ w4 @ w5 @ w6 @ w7 @ w8 @ w9 @ w10 @ w11 @ w12 @ w13 @ w14 @ w15 @ w16 @ []"
    and e: "enc_int (protocol_value (s_protocol s)) 1 = Inr w1"
    "enc_int (int_of_bool (s_is_server s)) 1 = Inr w2" "enc_int (s_version s) 2 = Inr w3"
    "enc_int (cs_id cs) 2 = Inr w4" "enc_pbytes (s_secret s) 2 = Inr w5"
    "enc_pbytes (s_session_id s) 2 = Inr w6" "enc_pbytes (s_ticket s) 2 = Inr w7"
    "enc_int (whole_seconds (s_time s)) 8 = Inr w8" "enc_int (whole_seconds (s_timeout s)) 8 = Inr w9"
    "enc_int (s_ticket_age_add s) 4 = Inr w10" "enc_int (s_ticket_max_early_data s) 4 = Inr w11"
    "enc_pbytes (case s_early_alpn s of Some a \<Rightarrow> a | None \<Rightarrow> []) 2 = Inr w12"
    "enc_pbytes (s_local_alps s) 2 = Inr w13" "enc_pbytes (s_peer_alps s) 2 = Inr w14"
    "enc_int (int_of_bool (s_has_alps s)) 1 = Inr w15"
    "enc_int (int_of_bool (s_extended_master_secret s)) 1 = Inr w16"
    by (auto simp: rcat_Inr_iff)
  have "parses trailing (TLSSession_parse now) w (session_kept s)"
    unfolding w TLSSession_parse_def k [symmetric] a [symmetric]
    apply (subst b [symmetric, of "s_is_server s"], subst b [symmetric, of "s_has_alps s"],
        subst b [symmetric, of "s_extended_master_secret s"])
    by ((rule parses_lift, rule conv) | rule parses_intros | rule e)+
  then show ?thesis unfolding TLSSession_from_bytes_def by (rule run_parser_prefix)
qed

text \<open>
  C24: What a serialised session is restored to.  If \<open>to_bytes\<close> accepts a session whose cipher suite is one of the known ones, with
  its time not after the last moment of a \<open>datetime\<close> and its timeout within the range of a \<open>timedelta\<close> (as the values of these
  types are), then \<open>from_bytes\<close> reads, also from a longer input, the same session up to the fields that \<open>session_kept\<close> normalises: the
  protocol, the side, the version, the suite, the secret, the session id, the ticket, the maximal early data, the age added, the ALPS values
  and the extended master secret are the same; the time and the timeout are cut to whole seconds; an empty early ALPN becomes a
  missing one; the certificates, the verified certificates and the OCSP response are gone; and a session that was marked as not resumable
  comes back without the mark, which the encoding does not hold.
\<close>

theorem session_roundtrip:
  assumes "TLSSession_to_bytes s = Inr w" and "s_cipher_suite s = Some cs"
    and "cs \<in> set ALL_CIPHER_SUITES"
    and "s_time s \<le> MAX_DATETIME" and "s_timeout s < 86400000000000 * 1000000"
  shows "TLSSession_from_bytes now (w @ trailing) = Inr (session_kept s)"
  using assms by (rule session_parses)

definition sample_session :: TLSSession where
  "sample_session = (TLSSession_init 1700000000123456)\<lparr>s_version := 772,
     s_cipher_suite := Some TLS_AES_128_GCM_SHA256, s_secret := [1, 2, 3], s_ticket := [9],
     s_early_alpn := Some [104, 50], s_peer_cert := Some [48]\<rparr>"

theorem session_roundtrip_witness:
  "\<exists>w. TLSSession_to_bytes sample_session = Inr w \<and>
     TLSSession_from_bytes 5 (w @ [0]) = Inr (session_kept sample_session)"
proof -
  have "\<exists>w. TLSSession_to_bytes sample_session = Inr w"
    by (simp add: session_to_bytes_enc sample_session_def TLSSession_init_def enc_int_def enc_pbytes_def
        rcat_def int_of_bool_def whole_seconds_def microseconds_def DEFAULT_TIMEOUT_def
        TLS_AES_128_GCM_SHA256_def)
  moreover have "TLS_AES_128_GCM_SHA256 \<in> set ALL_CIPHER_SUITES"
    by (simp add: ALL_CIPHER_SUITES_def)
  ultimately show ?thesis
    using session_roundtrip [of sample_session _ TLS_AES_128_GCM_SHA256 5 "[0]"]
    by (auto simp: sample_session_def TLSSession_init_def MAX_DATETIME_def microseconds_def
        DEFAULT_TIMEOUT_def)
qed

text \<open>
  Rebasing the clock of a session never prolongs its life: at every later moment the rebased
  session is valid iff the original one was issued before the rebasing and is valid then; a session
  that claims to come from the future is expired.
\<close>

theorem rebase_keeps_expiry:
  assumes "now < t" and "time_valid t s = Inr valid" and "0 \<le> s_timeout s" and "now \<le> MAX_DATETIME"
  shows "time_valid t (rebase_time now s) = Inr (valid \<and> s_time s \<le> now)"
  using assms by (auto simp: time_valid_def rebase_time_def Let_def split: if_splits)

theorem rebase_keeps_expiry_witness:
  "time_valid 1700000001000000 sample_session = Inr True \<and>
   time_valid 1700000001000000 (rebase_time 1700000000500000 sample_session) = Inr True \<and>
   time_valid 1700000001000000 (rebase_time 1600000000000000 sample_session) = Inr False"
proof -
  have v: "time_valid 1700000001000000 sample_session = Inr True"
    by (simp add: sample_session_def time_valid_def TLSSession_init_def MAX_DATETIME_def microseconds_def
        DEFAULT_TIMEOUT_def)
  have p: "0 \<le> s_timeout sample_session" "s_time sample_session = 1700000000123456"
    by (simp_all add: sample_session_def TLSSession_init_def microseconds_def DEFAULT_TIMEOUT_def)
  from rebase_keeps_expiry [OF _ v p(1), of 1700000000500000] rebase_keeps_expiry [OF _ v p(1), of 1600000000000000] v p
  show ?thesis by (simp add: MAX_DATETIME_def)
qed

end
