(* ===== verification/Keys.thy ===== *)
theory Keys
  imports TLS_Utils
begin

text \<open>
  Signature keys: \<open>src/simple_tls/tls/key.py\<close>.  The key objects of the package \<open>cryptography\<close> are a
  kind with opaque key material (\<open>pkey\<close>; an elliptic curve key also has the name of its curve), and
  the package's functions are the parameter \<open>asym\<close>; a function that may raise returns a \<open>result\<close>.
  The classes \<open>RSAPrivateKey\<close>, ..., \<open>Ed448PublicKey\<close> are the constructors of \<open>BasePrivateKey\<close> and
  \<open>BasePublicKey\<close>, and their methods \<open>sign\<close> and \<open>verify\<close> are one function each.
\<close>

datatype pkey =
    RSA_pkey bytes
  | EC_pkey string bytes
  | Ed25519_pkey bytes
  | Ed448_pkey bytes
  | DSA_pkey bytes
  | Other_pkey bytes

datatype rsa_padding = PKCS1v15 | PSS_MGF1

text \<open>The algorithm of a prehashed RSA signature; \<open>None\<close> stands for \<open>MD5SHA1\<close>.\<close>

type_synonym prehash = "HashAlgorithm option"

record asym =
  rsa_sign_fn :: "bytes \<Rightarrow> rsa_padding \<Rightarrow> prehash \<Rightarrow> bytes \<Rightarrow> bytes result"
  rsa_verify_fn :: "bytes \<Rightarrow> rsa_padding \<Rightarrow> prehash \<Rightarrow> bytes \<Rightarrow> bytes \<Rightarrow> bool" \<comment> \<open>signature, data\<close>
  rsa_decrypt_fn :: "bytes \<Rightarrow> bytes \<Rightarrow> bytes option"
  rsa_encrypt_fn :: "bytes \<Rightarrow> bytes \<Rightarrow> bytes result"
  dsa_sign_fn :: "bytes \<Rightarrow> HashAlgorithm \<Rightarrow> bytes \<Rightarrow> bytes result"
  dsa_verify_fn :: "bytes \<Rightarrow> HashAlgorithm \<Rightarrow> bytes \<Rightarrow> bytes \<Rightarrow> bool"
  ec_sign_fn :: "string \<Rightarrow> bytes \<Rightarrow> HashAlgorithm \<Rightarrow> bytes \<Rightarrow> bytes result"
  ec_verify_fn :: "string \<Rightarrow> bytes \<Rightarrow> HashAlgorithm \<Rightarrow> bytes \<Rightarrow> bytes \<Rightarrow> bool"
  ed25519_sign_fn :: "bytes \<Rightarrow> bytes \<Rightarrow> bytes"
  ed25519_verify_fn :: "bytes \<Rightarrow> bytes \<Rightarrow> bytes \<Rightarrow> bool"
  ed448_sign_fn :: "bytes \<Rightarrow> bytes \<Rightarrow> bytes"
  ed448_verify_fn :: "bytes \<Rightarrow> bytes \<Rightarrow> bytes \<Rightarrow> bool"
  public_part :: "bytes \<Rightarrow> bytes" \<comment> \<open>\<open>private_key.public_key()\<close>\<close>

datatype BasePrivateKey =
    RSAPrivateKey bytes
  | DSAPrivateKey bytes
  | ECPrivateKey string bytes
  | Ed25519PrivateKey bytes
  | Ed448PrivateKey bytes

datatype BasePublicKey =
    RSAPublicKey bytes
  | DSAPublicKey bytes
  | ECPublicKey string bytes
  | Ed25519PublicKey bytes
  | Ed448PublicKey bytes

subsection \<open>Tables\<close>

definition RSA_SIGNING_FUNCS :: "(int \<times> rsa_padding \<times> int) list" where
  "RSA_SIGNING_FUNCS =
     [(ss SS_RSA_PSS_RSAE_SHA512, PSS_MGF1, hash_id HASH_SHA512),
      (ss SS_RSA_PSS_RSAE_SHA384, PSS_MGF1, hash_id HASH_SHA384),
      (ss SS_RSA_PSS_RSAE_SHA256, PSS_MGF1, hash_id HASH_SHA256),
      (ss SS_RSA_PSS_PSS_SHA512, PSS_MGF1, hash_id HASH_SHA512),
      (ss SS_RSA_PSS_PSS_SHA384, PSS_MGF1, hash_id HASH_SHA384),
      (ss SS_RSA_PSS_PSS_SHA256, PSS_MGF1, hash_id HASH_SHA256),
      (ss SS_RSA_PKCS1_SHA512, PKCS1v15, hash_id HASH_SHA512),
      (ss SS_RSA_PKCS1_SHA384, PKCS1v15, hash_id HASH_SHA384),
      (ss SS_RSA_PKCS1_SHA256, PKCS1v15, hash_id HASH_SHA256),
      (ss SS_RSA_PKCS1_SHA224, PKCS1v15, hash_id HASH_SHA224),
      (ss SS_RSA_PKCS1_SHA1, PKCS1v15, hash_id HASH_SHA1),
      (UNSPECIFIED, PKCS1v15, UNSPECIFIED)]"

definition RSA_VERIFYING_FUNCS :: "(int \<times> rsa_padding \<times> int) list" where
  "RSA_VERIFYING_FUNCS =
     [(ss SS_RSA_PSS_RSAE_SHA512, PSS_MGF1, hash_id HASH_SHA512),
      (ss SS_RSA_PSS_RSAE_SHA384, PSS_MGF1, hash_id HASH_SHA384),
      (ss SS_RSA_PSS_RSAE_SHA256, PSS_MGF1, hash_id HASH_SHA256),
      (ss SS_RSA_PSS_PSS_SHA512, PSS_MGF1, hash_id HASH_SHA512),
      (ss SS_RSA_PSS_PSS_SHA384, PSS_MGF1, hash_id HASH_SHA384),
      (ss SS_RSA_PSS_PSS_SHA256, PSS_MGF1, hash_id HASH_SHA256),
      (ss SS_RSA_PKCS1_SHA512, PKCS1v15, hash_id HASH_SHA512),
      (ss SS_RSA_PKCS1_SHA384, PKCS1v15, hash_id HASH_SHA384),
      (ss SS_RSA_PKCS1_SHA256, PKCS1v15, hash_id HASH_SHA256),
      (ss SS_RSA_PKCS1_SHA224, PKCS1v15, hash_id HASH_SHA224),
      (ss SS_RSA_PKCS1_SHA1, PKCS1v15, hash_id HASH_SHA1),
      (UNSPECIFIED, PKCS1v15, UNSPECIFIED)]"

definition GROUP_IDS :: "(string \<times> int) list" where
  "GROUP_IDS =
     [(''secp192r1'', ng NG_SECP192R1), (''secp224r1'', ng NG_SECP224R1),
      (''secp256r1'', ng NG_SECP256R1), (''secp384r1'', ng NG_SECP384R1),
      (''secp521r1'', ng NG_SECP521R1), (''secp256k1'', ng NG_SECP256K1)]"

definition get_curve_group_id :: "string \<Rightarrow> int result" where
  "get_curve_group_id name = (case map_of GROUP_IDS name of None \<Rightarrow> Inl ValueError | Some g \<Rightarrow> Inr g)"

subsection \<open>Signing and verifying\<close>

text \<open>
  The hash of an RSA signature: \<open>MD5SHA1Hash\<close> for an unspecified algorithm, as TLS 1.0 and 1.1 sign.
\<close>

definition message_hash :: "crypto \<Rightarrow> int \<Rightarrow> bytes \<Rightarrow> (prehash \<times> bytes) result" where
  "message_hash cr hashalg message =
     (if hashalg = UNSPECIFIED
      then Inr (None, hash_finalize cr (hash_update message (MD5SHA1Hash [] [])))
      else rbind (get_algorithm hashalg) (\<lambda>algorithm.
           Inr (Some algorithm, hash_finalize cr (hash_update message (Hash algorithm [])))))"

definition RSA_sign :: "asym \<Rightarrow> crypto \<Rightarrow> bytes \<Rightarrow> bytes \<Rightarrow> int \<Rightarrow> bytes result" where
  "RSA_sign a cr key message signature_algorithm =
     (case map_of RSA_SIGNING_FUNCS signature_algorithm of
        None \<Rightarrow> Inl ValueError
      | Some (func, hashalg) \<Rightarrow>
          rbind (message_hash cr hashalg message) (\<lambda>(algorithm, msg_hash).
          rsa_sign_fn a key func algorithm msg_hash))"

definition RSA_verify :: "asym \<Rightarrow> crypto \<Rightarrow> bytes \<Rightarrow> bytes \<Rightarrow> bytes \<Rightarrow> int \<Rightarrow> unit result" where
  "RSA_verify a cr key signature message signature_algorithm =
     (case map_of RSA_VERIFYING_FUNCS signature_algorithm of
        None \<Rightarrow> Inl ValueError
      | Some (func, hashalg) \<Rightarrow>
          rbind (message_hash cr hashalg message) (\<lambda>(algorithm, msg_hash).
          if rsa_verify_fn a key func algorithm signature msg_hash then Inr () else Inl InvalidSignature))"

definition RSA_decrypt :: "asym \<Rightarrow> bytes \<Rightarrow> bytes \<Rightarrow> bytes option" where
  "RSA_decrypt a key ciphertext = rsa_decrypt_fn a key ciphertext"

definition RSA_encrypt :: "asym \<Rightarrow> bytes \<Rightarrow> bytes \<Rightarrow> bytes result" where
  "RSA_encrypt a key plaintext = rsa_encrypt_fn a key plaintext"

text \<open>The hash algorithm in the upper byte of a signature scheme.\<close>

definition scheme_hash :: "int \<Rightarrow> HashAlgorithm result" where
  "scheme_hash signature_algorithm = get_algorithm ((signature_algorithm div 256) mod 256)"

definition DSA_sign :: "asym \<Rightarrow> bytes \<Rightarrow> bytes \<Rightarrow> int \<Rightarrow> bytes result" where
  "DSA_sign a key message signature_algorithm =
     (if signature_algorithm \<notin> set DSA_SIGNATURE_ALGORITHMS then Inl ValueError
      else rbind (scheme_hash signature_algorithm) (\<lambda>algorithm. dsa_sign_fn a key algorithm message))"

definition DSA_verify :: "asym \<Rightarrow> bytes \<Rightarrow> bytes \<Rightarrow> bytes \<Rightarrow> int \<Rightarrow> unit result" where
  "DSA_verify a key signature message signature_algorithm =
     (if signature_algorithm \<notin> set DSA_SIGNATURE_ALGORITHMS then Inl ValueError
      else rbind (scheme_hash signature_algorithm) (\<lambda>algorithm.
        if dsa_verify_fn a key algorithm signature message then Inr () else Inl InvalidSignature))"

definition EC_sign :: "asym \<Rightarrow> string \<Rightarrow> bytes \<Rightarrow> bytes \<Rightarrow> int \<Rightarrow> bytes result" where
  "EC_sign a curve key message signature_algorithm =
     (if signature_algorithm \<notin> set ECDSA_SIGNATURE_ALGORITHMS then Inl ValueError
      else rbind (scheme_hash signature_algorithm) (\<lambda>algorithm. ec_sign_fn a curve key algorithm message))"

definition EC_verify :: "asym \<Rightarrow> string \<Rightarrow> bytes \<Rightarrow> bytes \<Rightarrow> bytes \<Rightarrow> int \<Rightarrow> unit result" where
  "EC_verify a curve key signature message signature_algorithm =
     (if signature_algorithm \<notin> set ECDSA_SIGNATURE_ALGORITHMS then Inl ValueError
      else rbind (scheme_hash signature_algorithm) (\<lambda>algorithm.
        if ec_verify_fn a curve key algorithm signature message then Inr () else Inl InvalidSignature))"

definition Ed25519_sign :: "asym \<Rightarrow> bytes \<Rightarrow> bytes \<Rightarrow> int \<Rightarrow> bytes result" where
  "Ed25519_sign a key message signature_algorithm =
     (if signature_algorithm \<noteq> ss SS_ED25519 then Inl ValueError else Inr (ed25519_sign_fn a key message))"

definition Ed25519_verify :: "asym \<Rightarrow> bytes \<Rightarrow> bytes \<Rightarrow> bytes \<Rightarrow> int \<Rightarrow> unit result" where
  "Ed25519_verify a key signature message signature_algorithm =
     (if signature_algorithm \<noteq> ss SS_ED25519 then Inl ValueError
      else if ed25519_verify_fn a key signature message then Inr () else Inl InvalidSignature)"

definition Ed448_sign :: "asym \<Rightarrow> bytes \<Rightarrow> bytes \<Rightarrow> int \<Rightarrow> bytes result" where
  "Ed448_sign a key message signature_algorithm =
     (if signature_algorithm \<noteq> ss SS_ED448 then Inl ValueError else Inr (ed448_sign_fn a key message))"

definition Ed448_verify :: "asym \<Rightarrow> bytes \<Rightarrow> bytes \<Rightarrow> bytes \<Rightarrow> int \<Rightarrow> unit result" where
  "Ed448_verify a key signature message signature_algorithm =
     (if signature_algorithm \<noteq> ss SS_ED448 then Inl ValueError
      else if ed448_verify_fn a key signature message then Inr () else Inl InvalidSignature)"

primrec key_sign :: "asym \<Rightarrow> crypto \<Rightarrow> BasePrivateKey \<Rightarrow> bytes \<Rightarrow> int \<Rightarrow> bytes result" where
  "key_sign a cr (RSAPrivateKey k) message alg = RSA_sign a cr k message alg"
| "key_sign a cr (DSAPrivateKey k) message alg = DSA_sign a k message alg"
| "key_sign a cr (ECPrivateKey c k) message alg = EC_sign a c k message alg"
| "key_sign a cr (Ed25519PrivateKey k) message alg = Ed25519_sign a k message alg"
| "key_sign a cr (Ed448PrivateKey k) message alg = Ed448_sign a k message alg"

primrec key_verify :: "asym \<Rightarrow> crypto \<Rightarrow> BasePublicKey \<Rightarrow> bytes \<Rightarrow> bytes \<Rightarrow> int \<Rightarrow> unit result" where
  "key_verify a cr (RSAPublicKey k) signature message alg = RSA_verify a cr k signature message alg"
| "key_verify a cr (DSAPublicKey k) signature message alg = DSA_verify a k signature message alg"
| "key_verify a cr (ECPublicKey c k) signature message alg = EC_verify a c k signature message alg"
| "key_verify a cr (Ed25519PublicKey k) signature message alg = Ed25519_verify a k signature message alg"
| "key_verify a cr (Ed448PublicKey k) signature message alg = Ed448_verify a k signature message alg"

primrec map_public_key :: "pkey \<Rightarrow> BasePublicKey result" where
  "map_public_key (RSA_pkey k) = Inr (RSAPublicKey k)"
| "map_public_key (EC_pkey c k) = Inr (ECPublicKey c k)"
| "map_public_key (Ed25519_pkey k) = Inr (Ed25519PublicKey k)"
| "map_public_key (Ed448_pkey k) = Inr (Ed448PublicKey k)"
| "map_public_key (DSA_pkey k) = Inr (DSAPublicKey k)"
| "map_public_key (Other_pkey k) = Inl TypeError"

primrec map_private_key :: "pkey \<Rightarrow> BasePrivateKey result" where
  "map_private_key (RSA_pkey k) = Inr (RSAPrivateKey k)"
| "map_private_key (EC_pkey c k) = Inr (ECPrivateKey c k)"
| "map_private_key (Ed25519_pkey k) = Inr (Ed25519PrivateKey k)"
| "map_private_key (Ed448_pkey k) = Inr (Ed448PrivateKey k)"
| "map_private_key (DSA_pkey k) = Inr (DSAPrivateKey k)"
| "map_private_key (Other_pkey k) = Inl TypeError"

subsection \<open>Laws\<close>

text \<open>What the package promises: a signature is accepted under the public part of its key.\<close>

definition asym_ok :: "asym \<Rightarrow> bool" where
  "asym_ok a \<longleftrightarrow>
     (\<forall>k p h d s. rsa_sign_fn a k p h d = Inr s \<longrightarrow> rsa_verify_fn a (public_part a k) p h s d) \<and>
     (\<forall>k h m s. dsa_sign_fn a k h m = Inr s \<longrightarrow> dsa_verify_fn a (public_part a k) h s m) \<and>
     (\<forall>c k h m s. ec_sign_fn a c k h m = Inr s \<longrightarrow> ec_verify_fn a c (public_part a k) h s m) \<and>
     (\<forall>k m. ed25519_verify_fn a (public_part a k) (ed25519_sign_fn a k m) m) \<and>
     (\<forall>k m. ed448_verify_fn a (public_part a k) (ed448_sign_fn a k m) m)"

primrec public_key_of :: "asym \<Rightarrow> BasePrivateKey \<Rightarrow> BasePublicKey" where
  "public_key_of a (RSAPrivateKey k) = RSAPublicKey (public_part a k)"
| "public_key_of a (DSAPrivateKey k) = DSAPublicKey (public_part a k)"
| "public_key_of a (ECPrivateKey c k) = ECPublicKey c (public_part a k)"
| "public_key_of a (Ed25519PrivateKey k) = Ed25519PublicKey (public_part a k)"
| "public_key_of a (Ed448PrivateKey k) = Ed448PublicKey (public_part a k)"

text \<open>The signature schemes a key can be used with.\<close>

primrec key_schemes :: "BasePublicKey \<Rightarrow> int list" where
  "key_schemes (RSAPublicKey k) = UNSPECIFIED # RSA_SIGNATURE_ALGORITHMS"
| "key_schemes (DSAPublicKey k) = DSA_SIGNATURE_ALGORITHMS"
| "key_schemes (ECPublicKey c k) = ECDSA_SIGNATURE_ALGORITHMS"
| "key_schemes (Ed25519PublicKey k) = [ss SS_ED25519]"
| "key_schemes (Ed448PublicKey k) = [ss SS_ED448]"

lemma same_tables: "RSA_SIGNING_FUNCS = RSA_VERIFYING_FUNCS"
  by (simp add: RSA_SIGNING_FUNCS_def RSA_VERIFYING_FUNCS_def)

lemma sign_then_verify:
  assumes "asym_ok a" and "key_sign a cr sk m alg = Inr s"
  shows "key_verify a cr (public_key_of a sk) s m alg = Inr ()"
proof (cases sk)
  case (RSAPrivateKey k)
  with assms(2) obtain f ha h d where *: "map_of RSA_VERIFYING_FUNCS alg = Some (f, ha)"
    "message_hash cr ha m = Inr (h, d)" "rsa_sign_fn a k f h d = Inr s"
    by (auto simp: RSA_sign_def same_tables rbind_Inr_iff split: option.splits)
  from *(3) assms(1) have "rsa_verify_fn a (public_part a k) f h s d" by (simp add: asym_ok_def)
  with * RSAPrivateKey show ?thesis by (simp add: RSA_verify_def)
qed (use assms in \<open>auto simp: DSA_sign_def DSA_verify_def EC_sign_def EC_verify_def Ed25519_sign_def
      Ed25519_verify_def Ed448_sign_def Ed448_verify_def asym_ok_def rbind_Inr_iff split: if_splits\<close>)

lemma scheme_hash_total:
  "alg \<in> set DSA_SIGNATURE_ALGORITHMS \<or> alg \<in> set ECDSA_SIGNATURE_ALGORITHMS \<Longrightarrow>
   \<exists>h. scheme_hash alg = Inr h"
  by (auto simp: DSA_SIGNATURE_ALGORITHMS_def ECDSA_SIGNATURE_ALGORITHMS_def scheme_hash_def sigscheme_def
      get_algorithm_def)

lemma RSA_table_dom:
  "map_of RSA_VERIFYING_FUNCS alg \<noteq> None \<longleftrightarrow> alg \<in> set (UNSPECIFIED # RSA_SIGNATURE_ALGORITHMS)"
proof -
  have "fst ` set RSA_VERIFYING_FUNCS = set (UNSPECIFIED # RSA_SIGNATURE_ALGORITHMS)"
    by (simp add: RSA_VERIFYING_FUNCS_def RSA_SIGNATURE_ALGORITHMS_def RSA_PKCS1_SIGNATURE_ALGORITHMS_def
        RSA_PSS_RSAE_SIGNATURE_ALGORITHMS_def RSA_PSS_PSS_SIGNATURE_ALGORITHMS_def) blast
  then show ?thesis by (simp add: map_of_eq_None_iff)
qed

lemma RSA_table_hash:
  "map_of RSA_VERIFYING_FUNCS alg = Some (func, hashalg) \<Longrightarrow>
   \<exists>h d. message_hash cr hashalg m = Inr (h, d)"
  by (drule map_of_SomeD) (auto simp: RSA_VERIFYING_FUNCS_def message_hash_def get_algorithm_def)

lemma verify_outcomes:
  "key_verify a cr pk s m alg \<in> (if alg \<in> set (key_schemes pk) then {Inr (), Inl InvalidSignature}
     else {Inl ValueError})"
proof (cases pk)
  case (RSAPublicKey k)
  show ?thesis
  proof (cases "map_of RSA_VERIFYING_FUNCS alg")
    case None
    with RSAPublicKey RSA_table_dom [of alg] show ?thesis by (simp add: RSA_verify_def)
  next
    case (Some p)
    obtain func hashalg where p: "p = (func, hashalg)" by fastforce
    from RSA_table_hash [OF Some [unfolded p], of cr m] obtain h d where
      "message_hash cr hashalg m = Inr (h, d)" by blast
    with RSAPublicKey RSA_table_dom [of alg] Some p show ?thesis by (auto simp: RSA_verify_def)
  qed
next
  case (DSAPublicKey k)
  then show ?thesis using scheme_hash_total [of alg] by (auto simp: DSA_verify_def split: if_splits)
next
  case (ECPublicKey c k)
  then show ?thesis using scheme_hash_total [of alg] by (auto simp: EC_verify_def split: if_splits)
qed (auto simp: Ed25519_verify_def Ed448_verify_def)

text \<open>A package without secrets, in which the laws hold: a signature is the message with the key.\<close>

definition sample_asym :: asym where
  "sample_asym = \<lparr>
     rsa_sign_fn = (\<lambda>k p h d. Inr (k @ d)), rsa_verify_fn = (\<lambda>k p h s d. s = k @ d),
     rsa_decrypt_fn = (\<lambda>k c. if take (length k) c = k then Some (drop (length k) c) else None),
     rsa_encrypt_fn = (\<lambda>k p. Inr (k @ p)),
     dsa_sign_fn = (\<lambda>k h m. Inr (k @ m)), dsa_verify_fn = (\<lambda>k h s m. s = k @ m),
     ec_sign_fn = (\<lambda>c k h m. Inr (k @ m)), ec_verify_fn = (\<lambda>c k h s m. s = k @ m),
     ed25519_sign_fn = (\<lambda>k m. k @ m), ed25519_verify_fn = (\<lambda>k s m. s = k @ m),
     ed448_sign_fn = (\<lambda>k m. k @ m), ed448_verify_fn = (\<lambda>k s m. s = k @ m),
     public_part = (\<lambda>k. k)\<rparr>"

lemma sample_asym_ok: "asym_ok sample_asym"
  by (simp add: asym_ok_def sample_asym_def)

text \<open>
  C23: Whatever the kind of key and the scheme, a signature that \<open>sign\<close> returns is accepted by \<open>verify\<close>
  of the public key under the same scheme, and \<open>verify\<close> raises \<open>ValueError\<close> exactly for the schemes
  that are not of the key's kind; otherwise it accepts or raises \<open>InvalidSignature\<close>.
\<close>

theorem signatures_verify:
  assumes "asym_ok a" and "key_sign a cr sk m alg = Inr s"
  shows "key_verify a cr (public_key_of a sk) s m alg = Inr () \<and>
    key_verify a cr pk s' m alg' \<in> (if alg' \<in> set (key_schemes pk)
      then {Inr (), Inl InvalidSignature} else {Inl ValueError})"
  using sign_then_verify [OF assms] verify_outcomes by blast

theorem signatures_verify_witness:
  "key_verify sample_asym sample_crypto (RSAPublicKey [7]) ([7] @ hash_fn sample_crypto HASH_SHA256 [1]) [1]
     (ss SS_RSA_PSS_RSAE_SHA256) = Inr () \<and>
   key_verify sample_asym sample_crypto (Ed25519PublicKey [7]) [] [1] (ss SS_ED448) = Inl ValueError"
proof -
  have s: "key_sign sample_asym sample_crypto (RSAPrivateKey [7]) [1] (ss SS_RSA_PSS_RSAE_SHA256) =
      Inr ([7] @ hash_fn sample_crypto HASH_SHA256 [1])"
    by (simp add: RSA_sign_def RSA_SIGNING_FUNCS_def sigscheme_def message_hash_def get_algorithm_def
        sample_asym_def)
  from signatures_verify [OF sample_asym_ok s, of "Ed25519PublicKey [7]" "[]" "ss SS_ED448"]
  have "key_verify sample_asym sample_crypto (public_key_of sample_asym (RSAPrivateKey [7]))
      ([7] @ hash_fn sample_crypto HASH_SHA256 [1]) [1] (ss SS_RSA_PSS_RSAE_SHA256) = Inr ()" by blast
  then show ?thesis by (simp add: sample_asym_def Ed25519_verify_def sigscheme_def)
qed

end
