(* ===== verification/Key_Exchange.thy ===== *)
theory Key_Exchange
  imports Codec Constants
begin

text \<open>
  Key exchange: \<open>src/simple_tls/tls/keyexchange.py\<close>.  The package \<open>cryptography\<close> and the vendored ML-KEM
  code are the parameter \<open>kex_lib\<close>; a private key is the random material it was generated from, which
  is an argument of the constructors here.  The locales \<open>key_agreement\<close> and \<open>dh_agreement\<close> state what a
  handshake needs of a key exchange, and are interpreted on the three classes.
\<close>

datatype ec_kind = K_X25519 | K_X448 | K_curve string

record kex_lib =
  ec_public_fn :: "ec_kind \<Rightarrow> bytes \<Rightarrow> bytes"
  ec_exchange_fn :: "ec_kind \<Rightarrow> bytes \<Rightarrow> bytes \<Rightarrow> bytes result"
  ffdh_public_fn :: "int \<Rightarrow> int \<Rightarrow> bytes \<Rightarrow> int" \<comment> \<open>\<open>p\<close>, \<open>g\<close>, private key\<close>
  ffdh_exchange_fn :: "int \<Rightarrow> int \<Rightarrow> bytes \<Rightarrow> int \<Rightarrow> bytes result"
  mlkem_keygen :: "nat \<Rightarrow> bytes \<Rightarrow> bytes \<times> bytes" \<comment> \<open>level, seed\<close>
  mlkem_encaps :: "nat \<Rightarrow> bytes \<Rightarrow> bytes \<Rightarrow> (bytes \<times> bytes) result" \<comment> \<open>level, public key, seed\<close>
  mlkem_decaps :: "nat \<Rightarrow> bytes \<Rightarrow> bytes \<Rightarrow> bytes result" \<comment> \<open>level, ciphertext, private key\<close>

subsection \<open>Finite fields\<close>

record DHGroup =
  dh_name :: string
  dh_p :: int
  dh_g :: int
  dh_q :: "int option"

definition DH_FFDHE2048 :: DHGroup where
  "DH_FFDHE2048 = \<lparr>dh_name = ''ffdhe2048'', dh_p = 0xFFFFFFFFFFFFFFFFADF85458A2BB4A9AAFDC5620273D3CF1D8B9C583CE2D3695A9E13641146433FBCC939DCE249B3EF97D2FE363630C75D8F681B202AEC4617AD3DF1ED5D5FD65612433F51F5F066ED0856365553DED1AF3B557135E7F57C935984F0C70E0E68B77E2A689DAF3EFE8721DF158A136ADE73530ACCA4F483A797ABC0AB182B324FB61D108A94BB2C8E3FBB96ADAB760D7F4681D4F42A3DE394DF4AE56EDE76372BB190B07A7C8EE0A6D709E02FCE1CDF7E2ECC03404CD28342F619172FE9CE98583FF8E4F1232EEF28183C3FE3B1B4C6FAD733BB5FCBC2EC22005C58EF1837D1683B2C6F34A26C1B2EFFA886B423861285C97FFFFFFFFFFFFFFFF, dh_g = 2,
     dh_q = Some 0x7FFFFFFFFFFFFFFFD6FC2A2C515DA54D57EE2B10139E9E78EC5CE2C1E7169B4AD4F09B208A3219FDE649CEE7124D9F7CBE97F1B1B1863AEC7B40D901576230BD69EF8F6AEAFEB2B09219FA8FAF83376842B1B2AA9EF68D79DAAB89AF3FABE49ACC278638707345BBF15344ED79F7F4390EF8AC509B56F39A98566527A41D3CBD5E0558C159927DB0E88454A5D96471FDDCB56D5BB06BFA340EA7A151EF1CA6FA572B76F3B1B95D8C8583D3E4770536B84F017E70E6FBF176601A0266941A17B0C8B97F4E74C2C1FFC7278919777940C1E1FF1D8DA637D6B99DDAFE5E17611002E2C778C1BE8B41D96379A51360D977FD4435A11C30942E4BFFFFFFFFFFFFFFFF\<rparr>"

definition DH_FFDHE3072 :: DHGroup where
  "DH_FFDHE3072 = \<lparr>dh_name = ''ffdhe3072'', dh_p = 0xFFFFFFFFFFFFFFFFADF85458A2BB4A9AAFDC5620273D3CF1D8B9C583CE2D3695A9E13641146433FBCC939DCE249B3EF97D2FE363630C75D8F681B202AEC4617AD3DF1ED5D5FD65612433F51F5F066ED0856365553DED1AF3B557135E7F57C935984F0C70E0E68B77E2A689DAF3EFE8721DF158A136ADE73530ACCA4F483A797ABC0AB182B324FB61D108A94BB2C8E3FBB96ADAB760D7F4681D4F42A3DE394DF4AE56EDE76372BB190B07A7C8EE0A6D709E02FCE1CDF7E2ECC03404CD28342F619172FE9CE98583FF8E4F1232EEF28183C3FE3B1B4C6FAD733BB5FCBC2EC22005C58EF1837D1683B2C6F34A26C1B2EFFA886B4238611FCFDCDE355B3B6519035BBC34F4DEF99C023861B46FC9D6E6C9077AD91D2691F7F7EE598CB0FAC186D91CAEFE130985139270B4130C93BC437944F4FD4452E2D74DD364F2E21E71F54BFF5CAE82AB9C9DF69EE86D2BC522363A0DABC521979B0DEADA1DBF9A42D5C4484E0ABCD06BFA53DDEF3C1B20EE3FD59D7C25E41D2B66C62E37FFFFFFFFFFFFFFFF, dh_g = 2,
     dh_q = Some 0x7FFFFFFFFFFFFFFFD6FC2A2C515DA54D57EE2B10139E9E78EC5CE2C1E7169B4AD4F09B208A3219FDE649CEE7124D9F7CBE97F1B1B1863AEC7B40D901576230BD69EF8F6AEAFEB2B09219FA8FAF83376842B1B2AA9EF68D79DAAB89AF3FABE49ACC278638707345BBF15344ED79F7F4390EF8AC509B56F39A98566527A41D3CBD5E0558C159927DB0E88454A5D96471FDDCB56D5BB06BFA340EA7A151EF1CA6FA572B76F3B1B95D8C8583D3E4770536B84F017E70E6FBF176601A0266941A17B0C8B97F4E74C2C1FFC7278919777940C1E1FF1D8DA637D6B99DDAFE5E17611002E2C778C1BE8B41D96379A51360D977FD4435A11C308FE7EE6F1AAD9DB28C81ADDE1A7A6F7CCE011C30DA37E4EB736483BD6C8E9348FBFBF72CC6587D60C36C8E577F0984C289C9385A098649DE21BCA27A7EA229716BA6E9B279710F38FAA5FFAE574155CE4EFB4F743695E2911B1D06D5E290CBCD86F56D0EDFCD216AE22427055E6835FD29EEF79E0D90771FEACEBE12F20E95B363171BFFFFFFFFFFFFFFFF\<rparr>"

definition DH_FFDHE4096 :: DHGroup where
  "DH_FFDHE4096 = \<lparr>dh_name = ''ffdhe4096'', dh_p = 0xFFFFFFFFFFFFFFFFADF85458A2BB4A9AAFDC5620273D3CF1D8B9C583CE2D3695A9E13641146433FBCC939DCE249B3EF97D2FE363630C75D8F681B202AEC4617AD3DF1ED5D5FD65612433F51F5F066ED0856365553DED1AF3B557135E7F57C935984F0C70E0E68B77E2A689DAF3EFE8721DF158A136ADE73530ACCA4F483A797ABC0AB182B324FB61D108A94BB2C8E3FBB96ADAB760D7F4681D4F42A3DE394DF4AE56EDE76372BB190B07A7C8EE0A6D709E02FCE1CDF7E2ECC03404CD28342F619172FE9CE98583FF8E4F1232EEF28183C3FE3B1B4C6FAD733BB5FCBC2EC22005C58EF1837D1683B2C6F34A26C1B2EFFA886B4238611FCFDCDE355B3B6519035BBC34F4DEF99C023861B46FC9D6E6C9077AD91D2691F7F7EE598CB0FAC186D91CAEFE130985139270B4130C93BC437944F4FD4452E2D74DD364F2E21E71F54BFF5CAE82AB9C9DF69EE86D2BC522363A0DABC521979B0DEADA1DBF9A42D5C4484E0ABCD06BFA53DDEF3C1B20EE3FD59D7C25E41D2B669E1EF16E6F52C3164DF4FB7930E9E4E58857B6AC7D5F42D69F6D187763CF1D5503400487F55BA57E31CC7A7135C886EFB4318AED6A1E012D9E6832A907600A918130C46DC778F971AD0038092999A333CB8B7A1A1DB93D7140003C2A4ECEA9F98D0ACC0A8291CDCEC97DCF8EC9B55A7F88A46B4DB5A851F44182E1C68A007E5E655F6AFFFFFFFFFFFFFFFF, dh_g = 2,
     dh_q = Some 0x7FFFFFFFFFFFFFFFD6FC2A2C515DA54D57EE2B10139E9E78EC5CE2C1E7169B4AD4F09B208A3219FDE649CEE7124D9F7CBE97F1B1B1863AEC7B40D901576230BD69EF8F6AEAFEB2B09219FA8FAF83376842B1B2AA9EF68D79DAAB89AF3FABE49ACC278638707345BBF15344ED79F7F4390EF8AC509B56F39A98566527A41D3CBD5E0558C159927DB0E88454A5D96471FDDCB56D5BB06BFA340EA7A151EF1CA6FA572B76F3B1B95D8C8583D3E4770536B84F017E70E6FBF176601A0266941A17B0C8B97F4E74C2C1FFC7278919777940C1E1FF1D8DA637D6B99DDAFE5E17611002E2C778C1BE8B41D96379A51360D977FD4435A11C308FE7EE6F1AAD9DB28C81ADDE1A7A6F7CCE011C30DA37E4EB736483BD6C8E9348FBFBF72CC6587D60C36C8E577F0984C289C9385A098649DE21BCA27A7EA229716BA6E9B279710F38FAA5FFAE574155CE4EFB4F743695E2911B1D06D5E290CBCD86F56D0EDFCD216AE22427055E6835FD29EEF79E0D90771FEACEBE12F20E95B34F0F78B737A9618B26FA7DBC9874F272C42BDB563EAFA16B4FB68C3BB1E78EAA81A00243FAADD2BF18E63D389AE44377DA18C576B50F0096CF34195483B00548C0986236E3BC7CB8D6801C0494CCD199E5C5BD0D0EDC9EB8A0001E15276754FCC68566054148E6E764BEE7C764DAAD3FC45235A6DAD428FA20C170E345003F2F32AFB57FFFFFFFFFFFFFFF\<rparr>"

definition DH_FFDHE6144 :: DHGroup where
  "DH_FFDHE6144 = \<lparr>dh_name = ''ffdhe6144'', dh_p = 0xFFFFFFFFFFFFFFFFADF85458A2BB4A9AAFDC5620273D3CF1D8B9C583CE2D3695A9E13641146433FBCC939DCE249B3EF97D2FE363630C75D8F681B202AEC4617AD3DF1ED5D5FD65612433F51F5F066ED0856365553DED1AF3B557135E7F57C935984F0C70E0E68B77E2A689DAF3EFE8721DF158A136ADE73530ACCA4F483A797ABC0AB182B324FB61D108A94BB2C8E3FBB96ADAB760D7F4681D4F42A3DE394DF4AE56EDE76372BB190B07A7C8EE0A6D709E02FCE1CDF7E2ECC03404CD28342F619172FE9CE98583FF8E4F1232EEF28183C3FE3B1B4C6FAD733BB5FCBC2EC22005C58EF1837D1683B2C6F34A26C1B2EFFA886B4238611FCFDCDE355B3B6519035BBC34F4DEF99C023861B46FC9D6E6C9077AD91D2691F7F7EE598CB0FAC186D91CAEFE130985139270B4130C93BC437944F4FD4452E2D74DD364F2E21E71F54BFF5CAE82AB9C9DF69EE86D2BC522363A0DABC521979B0DEADA1DBF9A42D5C4484E0ABCD06BFA53DDEF3C1B20EE3FD59D7C25E41D2B669E1EF16E6F52C3164DF4FB7930E9E4E58857B6AC7D5F42D69F6D187763CF1D5503400487F55BA57E31CC7A7135C886EFB4318AED6A1E012D9E6832A907600A918130C46DC778F971AD0038092999A333CB8B7A1A1DB93D7140003C2A4ECEA9F98D0ACC0A8291CDCEC97DCF8EC9B55A7F88A46B4DB5A851F44182E1C68A007E5E0DD9020BFD64B645036C7A4E677D2C38532A3A23BA4442CAF53EA63BB454329B7624C8917BDD64B1C0FD4CB38E8C334C701C3ACDAD0657FCCFEC719B1F5C3E4E46041F388147FB4CFDB477A52471F7A9A96910B855322EDB6340D8A00EF092350511E30ABEC1FFF9E3A26E7FB29F8C183023C3587E38DA0077D9B4763E4E4B94B2BBC194C6651E77CAF992EEAAC0232A281BF6B3A739C1226116820AE8DB5847A67CBEF9C9091B462D538CD72B03746AE77F5E62292C311562A846505DC82DB854338AE49F5235C95B91178CCF2DD5CACEF403EC9D1810C6272B045B3B71F9DC6B80D63FDD4A8E9ADB1E6962A69526D43161C1A41D570D7938DAD4A40E329CD0E40E65FFFFFFFFFFFFFFFF, dh_g = 2,
     dh_q = Some 0x7FFFFFFFFFFFFFFFD6FC2A2C515DA54D57EE2B10139E9E78EC5CE2C1E7169B4AD4F09B208A3219FDE649CEE7124D9F7CBE97F1B1B1863AEC7B40D901576230BD69EF8F6AEAFEB2B09219FA8FAF83376842B1B2AA9EF68D79DAAB89AF3FABE49ACC278638707345BBF15344ED79F7F4390EF8AC509B56F39A98566527A41D3CBD5E0558C159927DB0E88454A5D96471FDDCB56D5BB06BFA340EA7A151EF1CA6FA572B76F3B1B95D8C8583D3E4770536B84F017E70E6FBF176601A0266941A17B0C8B97F4E74C2C1FFC7278919777940C1E1FF1D8DA637D6B99DDAFE5E17611002E2C778C1BE8B41D96379A51360D977FD4435A11C308FE7EE6F1AAD9DB28C81ADDE1A7A6F7CCE011C30DA37E4EB736483BD6C8E9348FBFBF72CC6587D60C36C8E577F0984C289C9385A098649DE21BCA27A7EA229716BA6E9B279710F38FAA5FFAE574155CE4EFB4F743695E2911B1D06D5E290CBCD86F56D0EDFCD216AE22427055E6835FD29EEF79E0D90771FEACEBE12F20E95B34F0F78B737A9618B26FA7DBC9874F272C42BDB563EAFA16B4FB68C3BB1E78EAA81A00243FAADD2BF18E63D389AE44377DA18C576B50F0096CF34195483B00548C0986236E3BC7CB8D6801C0494CCD199E5C5BD0D0EDC9EB8A0001E15276754FCC68566054148E6E764BEE7C764DAAD3FC45235A6DAD428FA20C170E345003F2F06EC8105FEB25B2281B63D2733BE961C29951D11DD2221657A9F531DDA2A194DBB126448BDEEB258E07EA659C74619A6380E1D66D6832BFE67F638CD8FAE1F2723020F9C40A3FDA67EDA3BD29238FBD4D4B4885C2A99176DB1A06C500778491A8288F1855F60FFFCF1D1373FD94FC60C1811E1AC3F1C6D003BECDA3B1F2725CA595DE0CA63328F3BE57CC97755601195140DFB59D39CE091308B4105746DAC23D33E5F7CE4848DA316A9C66B9581BA3573BFAF311496188AB15423282EE416DC2A19C5724FA91AE4ADC88BC66796EAE5677A01F64E8C08631395822D9DB8FCEE35C06B1FEEA5474D6D8F34B1534A936A18B0E0D20EAB86BC9C6D6A5207194E68720732FFFFFFFFFFFFFFFF\<rparr>"

definition DH_FFDHE8192 :: DHGroup where
  "DH_FFDHE8192 = \<lparr>dh_name = ''ffdhe8192'', dh_p = 0xFFFFFFFFFFFFFFFFADF85458A2BB4A9AAFDC5620273D3CF1D8B9C583CE2D3695A9E13641146433FBCC939DCE249B3EF97D2FE363630C75D8F681B202AEC4617AD3DF1ED5D5FD65612433F51F5F066ED0856365553DED1AF3B557135E7F57C935984F0C70E0E68B77E2A689DAF3EFE8721DF158A136ADE73530ACCA4F483A797ABC0AB182B324FB61D108A94BB2C8E3FBB96ADAB760D7F4681D4F42A3DE394DF4AE56EDE76372BB190B07A7C8EE0A6D709E02FCE1CDF7E2ECC03404CD28342F619172FE9CE98583FF8E4F1232EEF28183C3FE3B1B4C6FAD733BB5FCBC2EC22005C58EF1837D1683B2C6F34A26C1B2EFFA886B4238611FCFDCDE355B3B6519035BBC34F4DEF99C023861B46FC9D6E6C9077AD91D2691F7F7EE598CB0FAC186D91CAEFE130985139270B4130C93BC437944F4FD4452E2D74DD364F2E21E71F54BFF5CAE82AB9C9DF69EE86D2BC522363A0DABC521979B0DEADA1DBF9A42D5C4484E0ABCD06BFA53DDEF3C1B20EE3FD59D7C25E41D2B669E1EF16E6F52C3164DF4FB7930E9E4E58857B6AC7D5F42D69F6D187763CF1D5503400487F55BA57E31CC7A7135C886EFB4318AED6A1E012D9E6832A907600A918130C46DC778F971AD0038092999A333CB8B7A1A1DB93D7140003C2A4ECEA9F98D0ACC0A8291CDCEC97DCF8EC9B55A7F88A46B4DB5A851F44182E1C68A007E5E0DD9020BFD64B645036C7A4E677D2C38532A3A23BA4442CAF53EA63BB454329B7624C8917BDD64B1C0FD4CB38E8C334C701C3ACDAD0657FCCFEC719B1F5C3E4E46041F388147FB4CFDB477A52471F7A9A96910B855322EDB6340D8A00EF092350511E30ABEC1FFF9E3A26E7FB29F8C183023C3587E38DA0077D9B4763E4E4B94B2BBC194C6651E77CAF992EEAAC0232A281BF6B3A739C1226116820AE8DB5847A67CBEF9C9091B462D538CD72B03746AE77F5E62292C311562A846505DC82DB854338AE49F5235C95B91178CCF2DD5CACEF403EC9D1810C6272B045B3B71F9DC6B80D63FDD4A8E9ADB1E6962A69526D43161C1A41D570D7938DAD4A40E329CCFF46AAA36AD004CF600C8381E425A31D951AE64FDB23FCEC9509D43687FEB69EDD1CC5E0B8CC3BDF64B10EF86B63142A3AB8829555B2F747C932665CB2C0F1CC01BD70229388839D2AF05E454504AC78B7582822846C0BA35C35F5C59160CC046FD8251541FC68C9C86B022BB7099876A460E7451A8A93109703FEE1C217E6C3826E52C51AA691E0E423CFC99E9E31650C1217B624816CDAD9A95F9D5B8019488D9C0A0A1FE3075A577E23183F81D4A3F2FA4571EFC8CE0BA8A4FE8B6855DFE72B0A66EDED2FBABFBE58A30FAFABE1C5D71A87E2F741EF8C1FE86FEA6BBFDE530677F0D97D11D49F7A8443D0822E506A9F4614E011E2A94838FF88CD68C8BB7C5C6424CFFFFFFFFFFFFFFFF, dh_g = 2,
     dh_q = Some 0x7FFFFFFFFFFFFFFFD6FC2A2C515DA54D57EE2B10139E9E78EC5CE2C1E7169B4AD4F09B208A3219FDE649CEE7124D9F7CBE97F1B1B1863AEC7B40D901576230BD69EF8F6AEAFEB2B09219FA8FAF83376842B1B2AA9EF68D79DAAB89AF3FABE49ACC278638707345BBF15344ED79F7F4390EF8AC509B56F39A98566527A41D3CBD5E0558C159927DB0E88454A5D96471FDDCB56D5BB06BFA340EA7A151EF1CA6FA572B76F3B1B95D8C8583D3E4770536B84F017E70E6FBF176601A0266941A17B0C8B97F4E74C2C1FFC7278919777940C1E1FF1D8DA637D6B99DDAFE5E17611002E2C778C1BE8B41D96379A51360D977FD4435A11C308FE7EE6F1AAD9DB28C81ADDE1A7A6F7CCE011C30DA37E4EB736483BD6C8E9348FBFBF72CC6587D60C36C8E577F0984C289C9385A098649DE21BCA27A7EA229716BA6E9B279710F38FAA5FFAE574155CE4EFB4F743695E2911B1D06D5E290CBCD86F56D0EDFCD216AE22427055E6835FD29EEF79E0D90771FEACEBE12F20E95B34F0F78B737A9618B26FA7DBC9874F272C42BDB563EAFA16B4FB68C3BB1E78EAA81A00243FAADD2BF18E63D389AE44377DA18C576B50F0096CF34195483B00548C0986236E3BC7CB8D6801C0494CCD199E5C5BD0D0EDC9EB8A0001E15276754FCC68566054148E6E764BEE7C764DAAD3FC45235A6DAD428FA20C170E345003F2F06EC8105FEB25B2281B63D2733BE961C29951D11DD2221657A9F531DDA2A194DBB126448BDEEB258E07EA659C74619A6380E1D66D6832BFE67F638CD8FAE1F2723020F9C40A3FDA67EDA3BD29238FBD4D4B4885C2A99176DB1A06C500778491A8288F1855F60FFFCF1D1373FD94FC60C1811E1AC3F1C6D003BECDA3B1F2725CA595DE0CA63328F3BE57CC97755601195140DFB59D39CE091308B4105746DAC23D33E5F7CE4848DA316A9C66B9581BA3573BFAF311496188AB15423282EE416DC2A19C5724FA91AE4ADC88BC66796EAE5677A01F64E8C08631395822D9DB8FCEE35C06B1FEEA5474D6D8F34B1534A936A18B0E0D20EAB86BC9C6D6A5207194E67FA35551B5680267B00641C0F212D18ECA8D7327ED91FE764A84EA1B43FF5B4F6E8E62F05C661DEFB258877C35B18A151D5C414AAAD97BA3E499332E596078E600DEB81149C441CE95782F22A282563C5BAC1411423605D1AE1AFAE2C8B0660237EC128AA0FE3464E4358115DB84CC3B523073A28D4549884B81FF70E10BF361C13729628D5348F07211E7E4CF4F18B286090BDB1240B66D6CD4AFCEADC00CA446CE05050FF183AD2BBF118C1FC0EA51F97D22B8F7E46705D4527F45B42AEFF395853376F697DD5FDF2C5187D7D5F0E2EB8D43F17BA0F7C60FF437F535DFEF29833BF86CBE88EA4FBD4221E8411728354FA30A7008F154A41C7FC466B4645DBE2E321267FFFFFFFFFFFFFFF\<rparr>"

definition RFC7919_FFDHE_GROUPS :: "(int \<times> DHGroup) list" where
  "RFC7919_FFDHE_GROUPS =
     [(ng NG_FFDHE2048, DH_FFDHE2048), (ng NG_FFDHE3072, DH_FFDHE3072), (ng NG_FFDHE4096, DH_FFDHE4096),
      (ng NG_FFDHE6144, DH_FFDHE6144), (ng NG_FFDHE8192, DH_FFDHE8192)]"

record DHParameters =
  par_p :: int
  par_g :: int
  par_q :: "int option"

definition get_dh_parameters :: "int \<Rightarrow> DHParameters result" where
  "get_dh_parameters grp =
     (case map_of RFC7919_FFDHE_GROUPS grp of
        None \<Rightarrow> Inl ValueError
      | Some dh_group \<Rightarrow> Inr \<lparr>par_p = dh_p dh_group, par_g = dh_g dh_group, par_q = dh_q dh_group\<rparr>)"

record FFDHKeyExchange =
  ff_parameters :: DHParameters
  ff_private :: bytes

definition FFDH_y :: "kex_lib \<Rightarrow> FFDHKeyExchange \<Rightarrow> int" where
  "FFDH_y l k = ffdh_public_fn l (par_p (ff_parameters k)) (par_g (ff_parameters k)) (ff_private k)"

definition FFDH_generate_share :: "kex_lib \<Rightarrow> FFDHKeyExchange \<Rightarrow> bytes result" where
  "FFDH_generate_share l k =
     int_to_bytes (FFDH_y l k) (Some (byte_length (par_p (ff_parameters k))))"

definition FFDH_exchange :: "kex_lib \<Rightarrow> FFDHKeyExchange \<Rightarrow> bytes \<Rightarrow> bytes result" where
  "FFDH_exchange l k peer_public =
     ffdh_exchange_fn l (par_p (ff_parameters k)) (par_g (ff_parameters k)) (ff_private k)
       (bytes_to_int peer_public)"

definition FFDH_generate_and_exchange ::
    "kex_lib \<Rightarrow> FFDHKeyExchange \<Rightarrow> bytes \<Rightarrow> (bytes \<times> bytes) result" where
  "FFDH_generate_and_exchange l k peer_public =
     rbind (FFDH_generate_share l k) (\<lambda>key_share.
     rbind (FFDH_exchange l k peer_public) (\<lambda>shared_secret.
     Inr (key_share, shared_secret)))"

subsection \<open>Elliptic curves\<close>

definition NAMEDGROUP_TO_CURVE :: "(int \<times> string) list" where
  "NAMEDGROUP_TO_CURVE =
     [(ng NG_SECP192R1, ''secp192r1''), (ng NG_SECP224R1, ''secp224r1''), (ng NG_SECP256R1, ''secp256r1''),
      (ng NG_SECP384R1, ''secp384r1''), (ng NG_SECP521R1, ''secp521r1'')]"

record ECDHKeyExchange =
  ec_kind :: ec_kind
  ec_private :: bytes

definition ECDH_init :: "int \<Rightarrow> bytes \<Rightarrow> ECDHKeyExchange result" where
  "ECDH_init grp private =
     (if grp \<notin> set ECC_GROUPS then Inl ValueError
      else if grp = ng NG_X25519 then Inr \<lparr>ec_kind = K_X25519, ec_private = private\<rparr>
      else if grp = ng NG_X448 then Inr \<lparr>ec_kind = K_X448, ec_private = private\<rparr>
      else case map_of NAMEDGROUP_TO_CURVE grp of
        None \<Rightarrow> Inl KeyError
      | Some curve \<Rightarrow> Inr \<lparr>ec_kind = K_curve curve, ec_private = private\<rparr>)"

definition ECDH_generate_share :: "kex_lib \<Rightarrow> ECDHKeyExchange \<Rightarrow> bytes result" where
  "ECDH_generate_share l k = Inr (ec_public_fn l (ec_kind k) (ec_private k))"

definition ECDH_exchange :: "kex_lib \<Rightarrow> ECDHKeyExchange \<Rightarrow> bytes \<Rightarrow> bytes result" where
  "ECDH_exchange l k peer_public = ec_exchange_fn l (ec_kind k) (ec_private k) peer_public"

definition ECDH_generate_and_exchange ::
    "kex_lib \<Rightarrow> ECDHKeyExchange \<Rightarrow> bytes \<Rightarrow> (bytes \<times> bytes) result" where
  "ECDH_generate_and_exchange l k peer_public =
     rbind (ECDH_generate_share l k) (\<lambda>key_share.
     rbind (ECDH_exchange l k peer_public) (\<lambda>shared_secret.
     Inr (key_share, shared_secret)))"

subsection \<open>Hybrid key encapsulation\<close>

record KEMKeyExchange =
  kem_level :: nat
  pqc_first :: bool
  ec_key_len :: nat
  pqc_key_len :: nat
  pqc_ciphertext_len :: nat
  ec_kex :: ECDHKeyExchange
  kem_public :: bytes
  kem_private :: bytes

definition KEM_params :: "int \<Rightarrow> (int \<times> bool \<times> nat \<times> nat \<times> nat \<times> nat) result" where
  "KEM_params grp =
     (if grp = ng NG_X25519MLKEM768 then Inr (ng NG_X25519, True, 768, 32, 1184, 1088)
      else if grp = ng NG_SECP256R1MLKEM768 then Inr (ng NG_SECP256R1, False, 768, 65, 1184, 1088)
      else if grp = ng NG_SECP384R1MLKEM1024 then Inr (ng NG_SECP384R1, False, 1024, 97, 1568, 1568)
      else Inl ValueError)"

definition KEM_init :: "kex_lib \<Rightarrow> int \<Rightarrow> bytes \<Rightarrow> bytes \<Rightarrow> KEMKeyExchange result" where
  "KEM_init l grp private seed =
     rbind (KEM_params grp) (\<lambda>(curve, first, level, ec_len, pk_len, ct_len).
     rbind (ECDH_init curve private) (\<lambda>ec.
     let (pk, sk) = mlkem_keygen l level seed in
     Inr \<lparr>kem_level = level, pqc_first = first, ec_key_len = ec_len, pqc_key_len = pk_len,
          pqc_ciphertext_len = ct_len, ec_kex = ec, kem_public = pk, kem_private = sk\<rparr>))"

text \<open>\<open>pk[-n:]\<close> for \<open>n > 0\<close>.\<close>

definition last_bytes :: "nat \<Rightarrow> bytes \<Rightarrow> bytes" where
  "last_bytes n d = drop (length d - n) d"

definition KEM_split_pk :: "KEMKeyExchange \<Rightarrow> bytes \<Rightarrow> nat \<Rightarrow> (bytes \<times> bytes) result" where
  "KEM_split_pk k pk pqc_data_len =
     (if length pk \<noteq> ec_key_len k + pqc_data_len then Inl ValueError
      else if pqc_first k then Inr (take pqc_data_len pk, last_bytes (ec_key_len k) pk)
      else Inr (last_bytes pqc_data_len pk, take (ec_key_len k) pk))"

definition KEM_generate_share :: "kex_lib \<Rightarrow> KEMKeyExchange \<Rightarrow> bytes result" where
  "KEM_generate_share l k =
     rbind (ECDH_generate_share l (ec_kex k)) (\<lambda>ec_pk.
     Inr (if pqc_first k then kem_public k @ ec_pk else ec_pk @ kem_public k))"

definition KEM_exchange :: "kex_lib \<Rightarrow> KEMKeyExchange \<Rightarrow> bytes \<Rightarrow> bytes result" where
  "KEM_exchange l k peer_public =
     rbind (KEM_split_pk k peer_public (pqc_ciphertext_len k)) (\<lambda>(peer_pqc_ct, peer_ec_pk).
     rbind (ECDH_exchange l (ec_kex k) peer_ec_pk) (\<lambda>ec_ss.
     rbind (mlkem_decaps l (kem_level k) peer_pqc_ct (kem_private k)) (\<lambda>pqc_ss.
     Inr (if pqc_first k then pqc_ss @ ec_ss else ec_ss @ pqc_ss))))"

definition KEM_generate_and_exchange ::
    "kex_lib \<Rightarrow> bytes \<Rightarrow> KEMKeyExchange \<Rightarrow> bytes \<Rightarrow> (bytes \<times> bytes) result" where
  "KEM_generate_and_exchange l seed k peer_public =
     rbind (KEM_split_pk k peer_public (pqc_key_len k)) (\<lambda>(peer_pqc_pk, peer_ec_pk).
     rbind (ECDH_generate_and_exchange l (ec_kex k) peer_ec_pk) (\<lambda>(ec_pk, ec_ss).
     rbind (mlkem_encaps l (kem_level k) peer_pqc_pk seed) (\<lambda>(pqc_ct, pqc_ss).
     Inr (if pqc_first k then (pqc_ct @ ec_pk, pqc_ss @ ec_ss) else (ec_pk @ pqc_ct, ec_ss @ pqc_ss)))))"

subsection \<open>The abstract class\<close>

datatype BaseKeyExchange =
    ECDH ECDHKeyExchange
  | FFDH FFDHKeyExchange
  | KEM KEMKeyExchange

primrec generate_share :: "kex_lib \<Rightarrow> BaseKeyExchange \<Rightarrow> bytes result" where
  "generate_share l (ECDH k) = ECDH_generate_share l k"
| "generate_share l (FFDH k) = FFDH_generate_share l k"
| "generate_share l (KEM k) = KEM_generate_share l k"

primrec exchange :: "kex_lib \<Rightarrow> BaseKeyExchange \<Rightarrow> bytes \<Rightarrow> bytes result" where
  "exchange l (ECDH k) peer_public = ECDH_exchange l k peer_public"
| "exchange l (FFDH k) peer_public = FFDH_exchange l k peer_public"
| "exchange l (KEM k) peer_public = KEM_exchange l k peer_public"

primrec generate_and_exchange ::
    "kex_lib \<Rightarrow> bytes \<Rightarrow> BaseKeyExchange \<Rightarrow> bytes \<Rightarrow> (bytes \<times> bytes) result" where
  "generate_and_exchange l seed (ECDH k) peer_public = ECDH_generate_and_exchange l k peer_public"
| "generate_and_exchange l seed (FFDH k) peer_public = FFDH_generate_and_exchange l k peer_public"
| "generate_and_exchange l seed (KEM k) peer_public = KEM_generate_and_exchange l seed k peer_public"

text \<open>\<open>TLSHandshake._get_key_exchange\<close> of \<open>src/simple_tls/tls/handshake.py\<close>.\<close>

definition get_key_exchange :: "kex_lib \<Rightarrow> bytes \<Rightarrow> bytes \<Rightarrow> int \<Rightarrow> BaseKeyExchange option result" where
  "get_key_exchange l private seed grp =
     (if grp \<in> set ECC_GROUPS then rbind (ECDH_init grp private) (\<lambda>k. Inr (Some (ECDH k)))
      else if grp \<in> set FFDHE_GROUPS then
        rbind (get_dh_parameters grp) (\<lambda>ps. Inr (Some (FFDH \<lparr>ff_parameters = ps, ff_private = private\<rparr>)))
      else if grp \<in> set KEM_GROUPS then rbind (KEM_init l grp private seed) (\<lambda>k. Inr (Some (KEM k)))
      else Inr None)"

subsection \<open>Agreement\<close>

text \<open>
  What a handshake needs: the first side sends its share, the second answers with a share and the
  secret, and the first computes the same secret from the answer.
\<close>

locale key_agreement =
  fixes matching :: "'k \<Rightarrow> 'k \<Rightarrow> bool"
    and share :: "'k \<Rightarrow> bytes result"
    and exch :: "'k \<Rightarrow> bytes \<Rightarrow> bytes result"
    and respond :: "'k \<Rightarrow> bytes \<Rightarrow> (bytes \<times> bytes) result"
  assumes agree: "matching c s \<Longrightarrow>
    \<exists>sh sh' secret. share c = Inr sh \<and> respond s sh = Inr (sh', secret) \<and> exch c sh' = Inr secret"
begin

lemma both_sides:
  assumes "matching c s"
  shows "\<exists>secret. rbind (share c) (\<lambda>sh. rbind (respond s sh) (\<lambda>(sh', secret).
    rbind (exch c sh') (\<lambda>secret'. Inr (secret, secret')))) = Inr (secret, secret)"
  using agree [OF assms] by auto

end

text \<open>A Diffie-Hellman exchange: the answer is the other side's own share.\<close>

locale dh_agreement =
  fixes matching :: "'k \<Rightarrow> 'k \<Rightarrow> bool"
    and share :: "'k \<Rightarrow> bytes result"
    and exch :: "'k \<Rightarrow> bytes \<Rightarrow> bytes result"
  assumes shares: "matching c s \<Longrightarrow> (\<exists>sh. share c = Inr sh) \<and> (\<exists>sh. share s = Inr sh)"
    and symmetric: "matching c s \<Longrightarrow> share c = Inr sh \<Longrightarrow> share s = Inr sh' \<Longrightarrow>
      \<exists>secret. exch c sh' = Inr secret \<and> exch s sh = Inr secret"

sublocale dh_agreement \<subseteq> key_agreement matching share exch
  "\<lambda>s peer. rbind (share s) (\<lambda>sh. rbind (exch s peer) (\<lambda>secret. Inr (sh, secret)))"
proof
  fix c s assume m: "matching c s"
  obtain sh sh' where "share c = Inr sh" "share s = Inr sh'" using shares [OF m] by blast
  with symmetric [OF m this] show "\<exists>sh sh' secret. share c = Inr sh \<and>
      rbind (share s) (\<lambda>own. rbind (exch s sh) (\<lambda>secret. Inr (own, secret))) = Inr (sh', secret) \<and>
      exch c sh' = Inr secret"
    by auto
qed

text \<open>
  What the packages promise for keys they generated: Diffie-Hellman commutes, ML-KEM decapsulates what
  it encapsulated, and the encodings have their documented lengths.
\<close>

definition kex_ok :: "kex_lib \<Rightarrow> bool" where
  "kex_ok l \<longleftrightarrow>
     (\<forall>k a b. \<exists>secret. ec_exchange_fn l k a (ec_public_fn l k b) = Inr secret \<and>
        ec_exchange_fn l k b (ec_public_fn l k a) = Inr secret) \<and>
     (\<forall>a. length (ec_public_fn l K_X25519 a) = 32 \<and>
        length (ec_public_fn l (K_curve ''secp256r1'') a) = 65 \<and>
        length (ec_public_fn l (K_curve ''secp384r1'') a) = 97) \<and>
     (\<forall>p g a b. 0 < p \<longrightarrow> 0 \<le> ffdh_public_fn l p g a \<and> ffdh_public_fn l p g a < p \<and>
        (\<exists>secret. ffdh_exchange_fn l p g a (ffdh_public_fn l p g b) = Inr secret \<and>
          ffdh_exchange_fn l p g b (ffdh_public_fn l p g a) = Inr secret)) \<and>
     (\<forall>level seed seed'. \<exists>pk sk ct secret. mlkem_keygen l level seed = (pk, sk) \<and>
        mlkem_encaps l level pk seed' = Inr (ct, secret) \<and> mlkem_decaps l level ct sk = Inr secret \<and>
        length pk = (if level = 1024 then 1568 else 1184) \<and>
        length ct = (if level = 1024 then 1568 else 1088))"

lemma kex_okD:
  assumes "kex_ok l"
  shows "\<exists>secret. ec_exchange_fn l k a (ec_public_fn l k b) = Inr secret \<and>
      ec_exchange_fn l k b (ec_public_fn l k a) = Inr secret"
    and "length (ec_public_fn l K_X25519 a) = 32"
    and "length (ec_public_fn l (K_curve ''secp256r1'') a) = 65"
    and "length (ec_public_fn l (K_curve ''secp384r1'') a) = 97"
    and "0 < p \<Longrightarrow> 0 \<le> ffdh_public_fn l p g a \<and> ffdh_public_fn l p g a < p"
    and "0 < p \<Longrightarrow> \<exists>secret. ffdh_exchange_fn l p g a (ffdh_public_fn l p g b) = Inr secret \<and>
      ffdh_exchange_fn l p g b (ffdh_public_fn l p g a) = Inr secret"
    and "\<exists>pk sk ct secret. mlkem_keygen l level seed = (pk, sk) \<and>
      mlkem_encaps l level pk seed' = Inr (ct, secret) \<and> mlkem_decaps l level ct sk = Inr secret \<and>
      length pk = (if level = 1024 then 1568 else 1184) \<and>
      length ct = (if level = 1024 then 1568 else 1088)"
  using assms unfolding kex_ok_def by blast+

lemma bit_length_bound: "n < 2 ^ bit_length_nat n"
proof (induction n rule: bit_length_nat.induct)
  case (1 n)
  show ?case
  proof (cases "n = 0")
    case False
    with 1 have "n div 2 < 2 ^ bit_length_nat (n div 2)" by simp
    then have "n < 2 * 2 ^ bit_length_nat (n div 2)" by (simp add: div_less_iff_less_mult mult.commute)
    with False show ?thesis by (subst bit_length_nat.simps) simp
  qed (simp add: bit_length_nat.simps)
qed

lemma byte_length_bound:
  assumes "0 \<le> y" and "y < p"
  shows "y < 256 ^ byte_length p"
proof -
  have "nat p < 2 ^ bit_length_nat (nat p)" by (rule bit_length_bound)
  also have "\<dots> \<le> 2 ^ (8 * byte_length p)"
    using assms by (intro power_increasing) (simp_all add: byte_length_def)
  finally have "p < 2 ^ (8 * byte_length p)" using assms by (simp add: nat_less_iff)
  with assms(2) show ?thesis by (simp add: power_mult)
qed

definition ffdh_matching :: "kex_lib \<Rightarrow> FFDHKeyExchange \<Rightarrow> FFDHKeyExchange \<Rightarrow> bool" where
  "ffdh_matching l c s \<longleftrightarrow> kex_ok l \<and> ff_parameters c = ff_parameters s \<and> 0 < par_p (ff_parameters c)"

definition ecdh_matching :: "kex_lib \<Rightarrow> ECDHKeyExchange \<Rightarrow> ECDHKeyExchange \<Rightarrow> bool" where
  "ecdh_matching l c s \<longleftrightarrow> kex_ok l \<and> ec_kind c = ec_kind s"

lemma FFDH_share:
  assumes "kex_ok l" and "0 < par_p (ff_parameters k)"
  shows "\<exists>sh. FFDH_generate_share l k = Inr sh \<and> bytes_to_int sh = FFDH_y l k"
proof -
  have "0 \<le> FFDH_y l k" "FFDH_y l k < par_p (ff_parameters k)"
    using kex_okD(5) [OF assms] by (simp_all add: FFDH_y_def)
  with byte_length_bound [OF this] show ?thesis by (simp add: FFDH_generate_share_def int_to_bytes_def)
qed

interpretation ffdh: dh_agreement "ffdh_matching l" "FFDH_generate_share l" "FFDH_exchange l" for l
proof
  fix c s assume m: "ffdh_matching l c s"
  then show "(\<exists>sh. FFDH_generate_share l c = Inr sh) \<and> (\<exists>sh. FFDH_generate_share l s = Inr sh)"
    using FFDH_share [of l c] FFDH_share [of l s] by (auto simp: ffdh_matching_def)
  fix sh sh' assume "FFDH_generate_share l c = Inr sh" "FFDH_generate_share l s = Inr sh'"
  with m show "\<exists>secret. FFDH_exchange l c sh' = Inr secret \<and> FFDH_exchange l s sh = Inr secret"
    using FFDH_share [of l c] FFDH_share [of l s]
      kex_okD(6) [of l "par_p (ff_parameters c)" "par_g (ff_parameters c)" "ff_private c" "ff_private s"]
    by (auto simp: ffdh_matching_def FFDH_exchange_def FFDH_y_def)
qed

interpretation ecdh: dh_agreement "ecdh_matching l" "ECDH_generate_share l" "ECDH_exchange l" for l
  by unfold_locales
    (auto simp: ecdh_matching_def ECDH_generate_share_def ECDH_exchange_def dest: kex_okD(1))

lemmas ECDH_respond = ecdh.agree [folded ECDH_generate_and_exchange_def]
lemmas FFDH_respond = ffdh.agree [folded FFDH_generate_and_exchange_def]

definition kem_matching :: "kex_lib \<Rightarrow> KEMKeyExchange \<Rightarrow> KEMKeyExchange \<Rightarrow> bool" where
  "kem_matching l c s \<longleftrightarrow> kex_ok l \<and> (\<exists>grp a sa b sb. KEM_init l grp a sa = Inr c \<and> KEM_init l grp b sb = Inr s)"

lemma ECDH_init_lengths:
  assumes "kex_ok l" and "KEM_params grp = Inr (curve, first, level, ec_len, pk_len, ct_len)"
  shows "\<exists>k. (\<forall>p. ECDH_init curve p = Inr \<lparr>ec_kind = k, ec_private = p\<rparr>) \<and>
      (\<forall>a. length (ec_public_fn l k a) = ec_len) \<and>
      pk_len = (if level = 1024 then 1568 else 1184) \<and> ct_len = (if level = 1024 then 1568 else 1088)"
  using assms kex_okD(2,3,4) [OF assms(1)]
  by (auto simp: KEM_params_def ECDH_init_def ECC_GROUPS_def NAMEDGROUP_TO_CURVE_def split: if_splits)

lemma KEM_split_append:
  assumes "length pq = n" and "length ec = ec_key_len k"
  shows "KEM_split_pk k (if pqc_first k then pq @ ec else ec @ pq) n = Inr (pq, ec)"
  using assms by (auto simp: KEM_split_pk_def last_bytes_def)

lemma KEM_agree:
  assumes "kem_matching l c s"
  shows "\<exists>sh sh' secret. KEM_generate_share l c = Inr sh \<and>
    KEM_generate_and_exchange l seed s sh = Inr (sh', secret) \<and> KEM_exchange l c sh' = Inr secret"
proof -
  from assms obtain grp a sa b sb where ok: "kex_ok l"
    and c: "KEM_init l grp a sa = Inr c" and s: "KEM_init l grp b sb = Inr s"
    by (auto simp: kem_matching_def)
  from c obtain curve first level ec_len pk_len ct_len where
    ps: "KEM_params grp = Inr (curve, first, level, ec_len, pk_len, ct_len)"
    by (auto simp: KEM_init_def rbind_Inr_iff)
  obtain k where k: "\<And>p. ECDH_init curve p = Inr \<lparr>ec_kind = k, ec_private = p\<rparr>"
    "\<And>p. length (ec_public_fn l k p) = ec_len"
    and lens: "pk_len = (if level = 1024 then 1568 else 1184)" "ct_len = (if level = 1024 then 1568 else 1088)"
    using ECDH_init_lengths [OF ok ps] by blast
  obtain pk sk ct pss where kem: "mlkem_keygen l level sa = (pk, sk)"
    "mlkem_encaps l level pk seed = Inr (ct, pss)" "mlkem_decaps l level ct sk = Inr pss"
    "length pk = pk_len" "length ct = ct_len"
    using kex_okD(7) [OF ok, of level sa seed] lens by auto
  obtain ess where ec: "ec_exchange_fn l k a (ec_public_fn l k b) = Inr ess"
    "ec_exchange_fn l k b (ec_public_fn l k a) = Inr ess"
    using kex_okD(1) [OF ok] by blast
  obtain pk' sk' where gen: "mlkem_keygen l level sb = (pk', sk')" by fastforce
  from c k kem ps have c': "c = \<lparr>kem_level = level, pqc_first = first, ec_key_len = ec_len,
      pqc_key_len = pk_len, pqc_ciphertext_len = ct_len, ec_kex = \<lparr>ec_kind = k, ec_private = a\<rparr>,
      kem_public = pk, kem_private = sk\<rparr>"
    by (simp add: KEM_init_def)
  from s k gen ps have s': "s = \<lparr>kem_level = level, pqc_first = first, ec_key_len = ec_len,
      pqc_key_len = pk_len, pqc_ciphertext_len = ct_len, ec_kex = \<lparr>ec_kind = k, ec_private = b\<rparr>,
      kem_public = pk', kem_private = sk'\<rparr>"
    by (simp add: KEM_init_def)
  let ?a = "ec_public_fn l k a" and ?b = "ec_public_fn l k b"
  have split: "KEM_split_pk s (if first then pk @ ?a else ?a @ pk) pk_len = Inr (pk, ?a)"
    "KEM_split_pk c (if first then ct @ ?b else ?b @ ct) ct_len = Inr (ct, ?b)"
    using KEM_split_append [OF kem(4), of ?a s] KEM_split_append [OF kem(5), of ?b c] k(2)
    by (simp_all add: c' s')
  have "KEM_generate_share l c = Inr (if first then pk @ ?a else ?a @ pk)"
    by (simp add: KEM_generate_share_def ECDH_generate_share_def c')
  moreover have "KEM_generate_and_exchange l seed s (if first then pk @ ?a else ?a @ pk) =
      Inr (if first then ct @ ?b else ?b @ ct, if first then pss @ ess else ess @ pss)"
    unfolding KEM_generate_and_exchange_def
    using split(1) kem(2) ec(2) unfolding s'
    by (simp add: ECDH_generate_and_exchange_def ECDH_generate_share_def ECDH_exchange_def)
  moreover have "KEM_exchange l c (if first then ct @ ?b else ?b @ ct) = Inr (if first then pss @ ess else ess @ pss)"
    unfolding KEM_exchange_def using split(2) kem(3) ec(1) unfolding c' by (simp add: ECDH_exchange_def)
  ultimately show ?thesis by blast
qed

interpretation kem: key_agreement "kem_matching l" "KEM_generate_share l" "KEM_exchange l"
  "KEM_generate_and_exchange l seed" for l seed
  by unfold_locales (rule KEM_agree)

subsection \<open>Properties\<close>

lemma ffdhe_moduli: "list_all (\<lambda>(n, g). 0 < dh_p g) RFC7919_FFDHE_GROUPS"
  by (simp add: RFC7919_FFDHE_GROUPS_def DH_FFDHE2048_def DH_FFDHE3072_def DH_FFDHE4096_def DH_FFDHE6144_def
      DH_FFDHE8192_def)

lemma ffdhe_positive: "get_dh_parameters grp = Inr ps \<Longrightarrow> 0 < par_p ps"
  using ffdhe_moduli
  by (fastforce simp: get_dh_parameters_def list_all_iff split: option.splits dest: map_of_SomeD)

lemma get_key_exchange_cases:
  assumes "grp \<in> set SUPPORTED_GROUPS"
  obtains (ec) k where "\<And>p s. get_key_exchange l p s grp = Inr (Some (ECDH \<lparr>ec_kind = k, ec_private = p\<rparr>))"
  | (ff) ps where "\<And>p s. get_key_exchange l p s grp = Inr (Some (FFDH \<lparr>ff_parameters = ps, ff_private = p\<rparr>))"
      "0 < par_p ps"
  | (hybrid) k where "\<And>p s. KEM_init l grp p s = Inr (k p s)"
      "\<And>p s. get_key_exchange l p s grp = Inr (Some (KEM (k p s)))"
proof -
  consider "grp \<in> set ECC_GROUPS" | "grp \<in> set FFDHE_GROUPS" | "grp \<in> set KEM_GROUPS"
    using assms by (auto simp: SUPPORTED_GROUPS_def)
  then show thesis
  proof cases
    case 1
    then have "\<exists>k. \<forall>p. ECDH_init grp p = Inr \<lparr>ec_kind = k, ec_private = p\<rparr>"
      by (auto simp: ECDH_init_def ECC_GROUPS_def NAMEDGROUP_TO_CURVE_def)
    with 1 show thesis by (auto simp: get_key_exchange_def intro: ec)
  next
    case 2
    then have no: "grp \<notin> set ECC_GROUPS" by (auto simp: ECC_GROUPS_def FFDHE_GROUPS_def)
    from 2 have "\<exists>ps. get_dh_parameters grp = Inr ps"
      by (auto simp: FFDHE_GROUPS_def get_dh_parameters_def RFC7919_FFDHE_GROUPS_def)
    with 2 no show thesis by (auto simp: get_key_exchange_def intro: ff ffdhe_positive)
  next
    case 3
    then have no: "grp \<notin> set ECC_GROUPS" "grp \<notin> set FFDHE_GROUPS"
      by (auto simp: ECC_GROUPS_def FFDHE_GROUPS_def KEM_GROUPS_def)
    from 3 have "\<exists>k. KEM_init l grp p s = Inr k" for p s
      by (auto simp: KEM_GROUPS_def KEM_init_def KEM_params_def ECDH_init_def ECC_GROUPS_def
          NAMEDGROUP_TO_CURVE_def split: prod.split)
    then obtain k where "\<And>p s. KEM_init l grp p s = Inr (k p s)" by metis
    with 3 no show thesis by (auto simp: get_key_exchange_def intro: hybrid)
  qed
qed

text \<open>
  C22: For every supported group the two sides agree: the key exchange object exists, the client's share
  is answered by the server with a share and a secret, and from the answer the client computes the
  same secret; for the hybrid groups in both orders of the classical and the post-quantum part.
\<close>

theorem all_groups_agree:
  assumes "kex_ok l" and "grp \<in> set SUPPORTED_GROUPS"
  shows "\<exists>c s sh sh' secret.
    get_key_exchange l a r grp = Inr (Some c) \<and> get_key_exchange l b r' grp = Inr (Some s) \<and>
    generate_share l c = Inr sh \<and> generate_and_exchange l seed s sh = Inr (sh', secret) \<and>
    exchange l c sh' = Inr secret"
  using assms(2)
proof (cases rule: get_key_exchange_cases [where l = l])
  case (ec k)
  then show ?thesis
    using ECDH_respond [of l "\<lparr>ec_kind = k, ec_private = a\<rparr>" "\<lparr>ec_kind = k, ec_private = b\<rparr>"] assms(1)
    by (auto simp: ecdh_matching_def)
next
  case (ff ps)
  then show ?thesis
    using FFDH_respond [of l "\<lparr>ff_parameters = ps, ff_private = a\<rparr>" "\<lparr>ff_parameters = ps, ff_private = b\<rparr>"]
      assms(1)
    by (auto simp: ffdh_matching_def)
next
  case (hybrid k)
  then have "kem_matching l (k a r) (k b r')" using assms(1) unfolding kem_matching_def by blast
  from kem.agree [OF this, of seed] hybrid show ?thesis by auto
qed

text \<open>Packages in which the laws hold, without any secrecy.\<close>

definition sample_kex :: kex_lib where
  "sample_kex = \<lparr>
     ec_public_fn = (\<lambda>k a. replicate (if k = K_X25519 then 32 else if k = K_curve ''secp256r1'' then 65 else 97) 4),
     ec_exchange_fn = (\<lambda>k a p. Inr [9]),
     ffdh_public_fn = (\<lambda>p g a. 0), ffdh_exchange_fn = (\<lambda>p g a y. Inr [8]),
     mlkem_keygen = (\<lambda>level seed. (replicate (if level = 1024 then 1568 else 1184) 1, seed)),
     mlkem_encaps = (\<lambda>level pk seed. Inr (replicate (if level = 1024 then 1568 else 1088) 2, [7])),
     mlkem_decaps = (\<lambda>level ct sk. Inr [7])\<rparr>"

lemma sample_kex_ok: "kex_ok sample_kex"
  by (simp add: kex_ok_def sample_kex_def)

theorem all_groups_agree_witness:
  "\<exists>c s sh sh' secret.
    get_key_exchange sample_kex [1] [2] (ng NG_X25519MLKEM768) = Inr (Some c) \<and>
    get_key_exchange sample_kex [3] [4] (ng NG_X25519MLKEM768) = Inr (Some s) \<and>
    generate_share sample_kex c = Inr sh \<and> generate_and_exchange sample_kex [5] s sh = Inr (sh', secret) \<and>
    exchange sample_kex c sh' = Inr secret"
  by (rule all_groups_agree [OF sample_kex_ok]) (simp add: SUPPORTED_GROUPS_def KEM_GROUPS_def)

text \<open>
  The finite-field groups of RFC 7919 are well-formed: for every group the generator is 2, the subgroup
  order is given, and the modulus is twice the order plus one.
\<close>

theorem ffdhe_groups_wellformed:
  "list_all (\<lambda>(n, g). dh_g g = 2 \<and> (case dh_q g of None \<Rightarrow> False | Some q \<Rightarrow> dh_p g = 2 * q + 1))
     RFC7919_FFDHE_GROUPS"
  by (simp add: RFC7919_FFDHE_GROUPS_def DH_FFDHE2048_def DH_FFDHE3072_def DH_FFDHE4096_def DH_FFDHE6144_def
      DH_FFDHE8192_def)

end
