(* ===== verification/Hpke.thy ===== *)
theory Hpke
  imports Cipher TLS_Utils
begin

text \<open>
  Hybrid public key encryption, RFC 9180: \<open>src/simple_tls/crypto/hpke.py\<close>.  The classes with class attributes
  only (\<open>HKDF\<close>, \<open>DHKEM\<close>, \<open>AEAD\<close>) are data types whose attributes are functions.  The elliptic curves of the
  \<open>cryptography\<close> package are the parameter \<open>hpke_lib\<close>; a key object is the curve with the scalar or the encoded
  point, and \<open>generate\<close> gets the random material as an argument.  The cache of \<open>create_suite\<close> is left out: a
  hit and a miss give equal suites.
\<close>

record hpke_lib =
  hl_generate :: "string \<Rightarrow> bytes \<Rightarrow> int" \<comment> \<open>curve, random material\<close>
  hl_point :: "string \<Rightarrow> int \<Rightarrow> bytes" \<comment> \<open>the public point of a scalar, not compressed\<close>
  hl_decode :: "string \<Rightarrow> bytes \<Rightarrow> bytes option" \<comment> \<open>a point in any encoding, as above\<close>
  hl_scalar_ok :: "string \<Rightarrow> int \<Rightarrow> bool"
  hl_ecdh :: "string \<Rightarrow> int \<Rightarrow> bytes \<Rightarrow> bytes result"
  hl_x25519_public :: "bytes \<Rightarrow> bytes"
  hl_x25519 :: "bytes \<Rightarrow> bytes \<Rightarrow> bytes result"

datatype hpke_private = EC_private string int | X25519_private bytes | X448_private bytes
datatype hpke_public = EC_public string bytes | X25519_public bytes | X448_public bytes

text \<open>\<open>sk.public_key()\<close>; the last case is not used by any class here.\<close>

primrec hpke_public_key :: "hpke_lib \<Rightarrow> hpke_private \<Rightarrow> hpke_public" where
  "hpke_public_key l (EC_private c d) = EC_public c (hl_point l c d)"
| "hpke_public_key l (X25519_private k) = X25519_public (hl_x25519_public l k)"
| "hpke_public_key l (X448_private k) = X448_public k"

definition HPKE_VERSION_V1 :: bytes where "HPKE_VERSION_V1 = ascii ''HPKE-v1''"

datatype hpke_mode = Mode_BASE | Mode_PSK | Mode_AUTH | Mode_AUTH_PSK

primrec mode_value :: "hpke_mode \<Rightarrow> byte" where
  "mode_value Mode_BASE = 0"
| "mode_value Mode_PSK = 1"
| "mode_value Mode_AUTH = 2"
| "mode_value Mode_AUTH_PSK = 3"

subsection \<open>Key derivation\<close>

datatype HKDF = HKDF_SHA256 | HKDF_SHA384 | HKDF_SHA512

primrec HKDF_ID :: "HKDF \<Rightarrow> int" where
  "HKDF_ID HKDF_SHA256 = 1"
| "HKDF_ID HKDF_SHA384 = 2"
| "HKDF_ID HKDF_SHA512 = 3"

primrec HKDF_ALGORITHM :: "HKDF \<Rightarrow> HashAlgorithm" where
  "HKDF_ALGORITHM HKDF_SHA256 = HASH_SHA256"
| "HKDF_ALGORITHM HKDF_SHA384 = HASH_SHA384"
| "HKDF_ALGORITHM HKDF_SHA512 = HASH_SHA512"

definition labeled_extract :: "crypto \<Rightarrow> HKDF \<Rightarrow> bytes \<Rightarrow> bytes \<Rightarrow> bytes \<Rightarrow> bytes \<Rightarrow> bytes" where
  "labeled_extract cr kdf salt label ikm suite_id =
     hkdf_extract cr salt (HPKE_VERSION_V1 @ suite_id @ label @ ikm) (HKDF_ALGORITHM kdf)"

definition labeled_expand :: "crypto \<Rightarrow> HKDF \<Rightarrow> bytes \<Rightarrow> bytes \<Rightarrow> bytes \<Rightarrow> nat \<Rightarrow> bytes \<Rightarrow> bytes result" where
  "labeled_expand cr kdf prk label info len suite_id =
     rbind (pack (int len) 2) (\<lambda>n.
     hkdf_expand cr prk (n @ HPKE_VERSION_V1 @ suite_id @ label @ info) len (HKDF_ALGORITHM kdf))"

subsection \<open>Key encapsulation\<close>

datatype DHKEM =
    DHKEM_P256_HKDF_SHA256
  | DHKEM_P384_HKDF_SHA384
  | DHKEM_P521_HKDF_SHA512
  | DHKEM_X25519_HKDF_SHA256

primrec DHKEM_ID :: "DHKEM \<Rightarrow> int" where
  "DHKEM_ID DHKEM_P256_HKDF_SHA256 = 0x0010"
| "DHKEM_ID DHKEM_P384_HKDF_SHA384 = 0x0011"
| "DHKEM_ID DHKEM_P521_HKDF_SHA512 = 0x0012"
| "DHKEM_ID DHKEM_X25519_HKDF_SHA256 = 0x0020"

primrec DHKEM_KDF :: "DHKEM \<Rightarrow> HKDF" where
  "DHKEM_KDF DHKEM_P256_HKDF_SHA256 = HKDF_SHA256"
| "DHKEM_KDF DHKEM_P384_HKDF_SHA384 = HKDF_SHA384"
| "DHKEM_KDF DHKEM_P521_HKDF_SHA512 = HKDF_SHA512"
| "DHKEM_KDF DHKEM_X25519_HKDF_SHA256 = HKDF_SHA256"

text \<open>The class attribute \<open>CURVE\<close> of the Weierstrass curves.\<close>

primrec DHKEM_CURVE :: "DHKEM \<Rightarrow> string option" where
  "DHKEM_CURVE DHKEM_P256_HKDF_SHA256 = Some ''secp256r1''"
| "DHKEM_CURVE DHKEM_P384_HKDF_SHA384 = Some ''secp384r1''"
| "DHKEM_CURVE DHKEM_P521_HKDF_SHA512 = Some ''secp521r1''"
| "DHKEM_CURVE DHKEM_X25519_HKDF_SHA256 = None"

text \<open>\<open>key_size\<close> of the package's curves, in bits.\<close>

definition curve_key_size :: "string \<Rightarrow> nat" where
  "curve_key_size c = (if c = ''secp256r1'' then 256 else if c = ''secp384r1'' then 384 else 521)"

text \<open>The exchange of two keys of different curves is a \<open>ValueError\<close> of the package.\<close>

definition Weierstrass_dh :: "hpke_lib \<Rightarrow> hpke_private \<Rightarrow> hpke_public \<Rightarrow> bytes result" where
  "Weierstrass_dh l sk_x pk_y =
     (case sk_x of
        EC_private c d \<Rightarrow>
          (case pk_y of
             EC_public c' p \<Rightarrow> if c \<noteq> c' then Inl ValueError else hl_ecdh l c d p
           | _ \<Rightarrow> Inl TypeError)
      | _ \<Rightarrow> Inl TypeError)"

definition X25519_dh :: "hpke_lib \<Rightarrow> hpke_private \<Rightarrow> hpke_public \<Rightarrow> bytes result" where
  "X25519_dh l sk_x pk_y =
     (case sk_x of
        X25519_private k \<Rightarrow> (case pk_y of X25519_public p \<Rightarrow> hl_x25519 l k p | _ \<Rightarrow> Inl TypeError)
      | _ \<Rightarrow> Inl TypeError)"

definition kem_dh :: "hpke_lib \<Rightarrow> DHKEM \<Rightarrow> hpke_private \<Rightarrow> hpke_public \<Rightarrow> bytes result" where
  "kem_dh l kem = (case DHKEM_CURVE kem of Some _ \<Rightarrow> Weierstrass_dh l | None \<Rightarrow> X25519_dh l)"

definition serialize_public_key :: "DHKEM \<Rightarrow> hpke_public \<Rightarrow> bytes result" where
  "serialize_public_key kem pk_x =
     (case DHKEM_CURVE kem of
        Some _ \<Rightarrow> (case pk_x of EC_public c p \<Rightarrow> Inr p | _ \<Rightarrow> Inl TypeError)
      | None \<Rightarrow> (case pk_x of X25519_public p \<Rightarrow> Inr p | _ \<Rightarrow> Inl TypeError))"

definition deserialize_public_key :: "hpke_lib \<Rightarrow> DHKEM \<Rightarrow> bytes \<Rightarrow> hpke_public result" where
  "deserialize_public_key l kem pk_xm =
     (case DHKEM_CURVE kem of
        Some c \<Rightarrow> (case hl_decode l c pk_xm of None \<Rightarrow> Inl ValueError | Some p \<Rightarrow> Inr (EC_public c p))
      | None \<Rightarrow> if length pk_xm \<noteq> 32 then Inl ValueError else Inr (X25519_public pk_xm))"

definition serialize_private_key :: "DHKEM \<Rightarrow> hpke_private \<Rightarrow> bytes result" where
  "serialize_private_key kem sk_x =
     (case DHKEM_CURVE kem of
        Some _ \<Rightarrow>
          (case sk_x of
             EC_private c scalar \<Rightarrow> int_to_bytes scalar (Some (curve_key_size c div 8))
           | _ \<Rightarrow> Inl TypeError)
      | None \<Rightarrow> (case sk_x of X25519_private k \<Rightarrow> Inr k | _ \<Rightarrow> Inl TypeError))"

definition deserialize_private_key :: "hpke_lib \<Rightarrow> DHKEM \<Rightarrow> bytes \<Rightarrow> hpke_private result" where
  "deserialize_private_key l kem sk_xm =
     (case DHKEM_CURVE kem of
        Some c \<Rightarrow>
          if hl_scalar_ok l c (bytes_to_int sk_xm) then Inr (EC_private c (bytes_to_int sk_xm)) else Inl ValueError
      | None \<Rightarrow> if length sk_xm \<noteq> 32 then Inl ValueError else Inr (X25519_private sk_xm))"

definition kem_generate :: "hpke_lib \<Rightarrow> DHKEM \<Rightarrow> bytes \<Rightarrow> hpke_private" where
  "kem_generate l kem material =
     (case DHKEM_CURVE kem of Some c \<Rightarrow> EC_private c (hl_generate l c material) | None \<Rightarrow> X25519_private material)"

definition extract_and_expand :: "crypto \<Rightarrow> DHKEM \<Rightarrow> bytes \<Rightarrow> bytes \<Rightarrow> bytes result" where
  "extract_and_expand cr kem dh kem_context =
     rbind (pack (DHKEM_ID kem) 2) (\<lambda>n.
     let suite_id = ascii ''KEM'' @ n;
         n_secret = hash_digest_size cr (HKDF_ALGORITHM (DHKEM_KDF kem));
         eae_prk = labeled_extract cr (DHKEM_KDF kem) [] (ascii ''eae_prk'') dh suite_id
     in labeled_expand cr (DHKEM_KDF kem) eae_prk (ascii ''shared_secret'') kem_context n_secret suite_id)"

definition encap :: "crypto \<Rightarrow> hpke_lib \<Rightarrow> DHKEM \<Rightarrow> bytes \<Rightarrow> hpke_public \<Rightarrow> (bytes \<times> bytes) result" where
  "encap cr l kem material pk_r =
     (let sk_e = kem_generate l kem material; pk_e = hpke_public_key l sk_e in
      rbind (kem_dh l kem sk_e pk_r) (\<lambda>dh.
      rbind (serialize_public_key kem pk_e) (\<lambda>enc.
      rbind (serialize_public_key kem pk_r) (\<lambda>pk_rm.
      rbind (extract_and_expand cr kem dh (enc @ pk_rm)) (\<lambda>shared_secret.
      Inr (shared_secret, enc))))))"

definition decap :: "crypto \<Rightarrow> hpke_lib \<Rightarrow> DHKEM \<Rightarrow> bytes \<Rightarrow> hpke_private \<Rightarrow> bytes result" where
  "decap cr l kem enc sk_r =
     rbind (deserialize_public_key l kem enc) (\<lambda>pk_e.
     rbind (kem_dh l kem sk_r pk_e) (\<lambda>dh.
     rbind (serialize_public_key kem (hpke_public_key l sk_r)) (\<lambda>pk_rm.
     extract_and_expand cr kem dh (enc @ pk_rm))))"

definition auth_encap ::
    "crypto \<Rightarrow> hpke_lib \<Rightarrow> DHKEM \<Rightarrow> bytes \<Rightarrow> hpke_public \<Rightarrow> hpke_private \<Rightarrow> (bytes \<times> bytes) result" where
  "auth_encap cr l kem material pk_r sk_s =
     (let sk_e = kem_generate l kem material; pk_e = hpke_public_key l sk_e in
      rbind (kem_dh l kem sk_e pk_r) (\<lambda>dh_e.
      rbind (kem_dh l kem sk_s pk_r) (\<lambda>dh_s.
      rbind (serialize_public_key kem pk_e) (\<lambda>enc.
      rbind (serialize_public_key kem pk_r) (\<lambda>pk_rm.
      rbind (serialize_public_key kem (hpke_public_key l sk_s)) (\<lambda>pk_sm.
      rbind (extract_and_expand cr kem (dh_e @ dh_s) (enc @ pk_rm @ pk_sm)) (\<lambda>shared_secret.
      Inr (shared_secret, enc))))))))"

definition auth_decap ::
    "crypto \<Rightarrow> hpke_lib \<Rightarrow> DHKEM \<Rightarrow> bytes \<Rightarrow> hpke_private \<Rightarrow> hpke_public \<Rightarrow> bytes result" where
  "auth_decap cr l kem enc sk_r pk_s =
     rbind (deserialize_public_key l kem enc) (\<lambda>pk_e.
     rbind (kem_dh l kem sk_r pk_e) (\<lambda>dh_e.
     rbind (kem_dh l kem sk_r pk_s) (\<lambda>dh_s.
     rbind (serialize_public_key kem (hpke_public_key l sk_r)) (\<lambda>pk_rm.
     rbind (serialize_public_key kem pk_s) (\<lambda>pk_sm.
     extract_and_expand cr kem (dh_e @ dh_s) (enc @ pk_rm @ pk_sm))))))"

subsection \<open>Authenticated encryption\<close>

datatype AEAD = AEAD_AES_128_GCM | AEAD_AES_256_GCM | AEAD_ChaCha20Poly1305 | AEAD_ExportOnly

primrec AEAD_ID :: "AEAD \<Rightarrow> int" where
  "AEAD_ID AEAD_AES_128_GCM = 1"
| "AEAD_ID AEAD_AES_256_GCM = 2"
| "AEAD_ID AEAD_ChaCha20Poly1305 = 3"
| "AEAD_ID AEAD_ExportOnly = 0xFFFF"

primrec AEAD_KEY_SIZE :: "AEAD \<Rightarrow> nat" where
  "AEAD_KEY_SIZE AEAD_AES_128_GCM = 16"
| "AEAD_KEY_SIZE AEAD_AES_256_GCM = 32"
| "AEAD_KEY_SIZE AEAD_ChaCha20Poly1305 = 32"
| "AEAD_KEY_SIZE AEAD_ExportOnly = 0"

primrec AEAD_NONCE_SIZE :: "AEAD \<Rightarrow> nat" where
  "AEAD_NONCE_SIZE AEAD_AES_128_GCM = 12"
| "AEAD_NONCE_SIZE AEAD_AES_256_GCM = 12"
| "AEAD_NONCE_SIZE AEAD_ChaCha20Poly1305 = 12"
| "AEAD_NONCE_SIZE AEAD_ExportOnly = 0"

definition AEAD_TAG_LENGTH :: nat where "AEAD_TAG_LENGTH = 16"

text \<open>\<open>get_cipher\<close>: the package's cipher, which keeps the key.\<close>

primrec get_cipher :: "AEAD \<Rightarrow> bytes \<Rightarrow> (Symmetric \<times> bytes) result" where
  "get_cipher AEAD_AES_128_GCM key = Inr (SYM_AES_128_GCM, key)"
| "get_cipher AEAD_AES_256_GCM key = Inr (SYM_AES_256_GCM, key)"
| "get_cipher AEAD_ChaCha20Poly1305 key = Inr (SYM_CHACHA20_POLY1305, key)"
| "get_cipher AEAD_ExportOnly key = Inl NotImplementedError"

subsection \<open>Contexts\<close>

record hpke_context =
  hc_kdf :: HKDF
  hc_aead :: AEAD
  hc_cipher :: "Symmetric \<times> bytes"
  hc_base_nonce :: bytes
  hc_exporter_secret :: bytes
  hc_suite_id :: bytes
  hc_seq_num :: int

definition aead_overhead :: "hpke_context \<Rightarrow> nat" where
  "aead_overhead c = AEAD_TAG_LENGTH"

definition hpke_export :: "crypto \<Rightarrow> hpke_context \<Rightarrow> bytes \<Rightarrow> nat \<Rightarrow> bytes result" where
  "hpke_export cr c exporter_context len =
     labeled_expand cr (hc_kdf c) (hc_exporter_secret c) (ascii ''sec'') exporter_context len (hc_suite_id c)"

definition get_seq_num_bytes :: "(hpke_context, bytes) action" where
  "get_seq_num_bytes = bnd get_state (\<lambda>c.
     thn (raise_if (hc_seq_num c \<ge> 2 ^ 64) OverflowError)
     (bnd (lift_result (int_to_bytes (hc_seq_num c) (Some (AEAD_NONCE_SIZE (hc_aead c))))) (\<lambda>result.
     thn (modify (\<lambda>c. c\<lparr>hc_seq_num := hc_seq_num c + 1\<rparr>))
     (ret result))))"

definition compute_nonce :: "(hpke_context, bytes) action" where
  "compute_nonce = bnd get_seq_num_bytes (\<lambda>seq_num_bytes.
     bnd (gets hc_base_nonce) (\<lambda>base_nonce.
     lift_result (strxor base_nonce seq_num_bytes)))"

definition hpke_seal :: "crypto \<Rightarrow> bytes \<Rightarrow> bytes \<Rightarrow> (hpke_context, bytes) action" where
  "hpke_seal cr plaintext aad = bnd compute_nonce (\<lambda>nonce.
     bnd (gets hc_cipher) (\<lambda>(alg, key).
     ret (aead_encrypt cr alg key nonce plaintext aad)))"

definition hpke_open :: "crypto \<Rightarrow> bytes \<Rightarrow> bytes \<Rightarrow> (hpke_context, bytes) action" where
  "hpke_open cr ciphertext aad = bnd compute_nonce (\<lambda>nonce.
     bnd (gets hc_cipher) (\<lambda>(alg, key).
     case aead_decrypt cr alg key nonce ciphertext aad of
       None \<Rightarrow> raise InvalidTag
     | Some plaintext \<Rightarrow> ret plaintext))"

subsection \<open>Cipher suites\<close>

record hpke_suite =
  su_kem :: DHKEM
  su_kdf :: HKDF
  su_aead :: AEAD

definition verify_psk_inputs :: "hpke_mode \<Rightarrow> bytes \<Rightarrow> bytes \<Rightarrow> unit result" where
  "verify_psk_inputs mode psk psk_id =
     (let got_psk = (psk \<noteq> []); got_psk_id = (psk_id \<noteq> []) in
      if got_psk \<noteq> got_psk_id then Inl ValueError
      else if got_psk then
        if mode \<notin> {Mode_PSK, Mode_AUTH_PSK} then Inl AssertionError
        else if length psk < 32 then Inl ValueError else Inr ()
      else if mode \<notin> {Mode_BASE, Mode_AUTH} then Inl AssertionError else Inr ())"

definition hpke_suite_id :: "hpke_suite \<Rightarrow> bytes result" where
  "hpke_suite_id s = rcat (Inr (ascii ''HPKE'')) (rcat (pack (DHKEM_ID (su_kem s)) 2)
     (rcat (pack (HKDF_ID (su_kdf s)) 2) (pack (AEAD_ID (su_aead s)) 2)))"

definition hpke_key_schedule ::
    "crypto \<Rightarrow> hpke_suite \<Rightarrow> hpke_mode \<Rightarrow> bytes \<Rightarrow> bytes \<Rightarrow> bytes \<Rightarrow> bytes \<Rightarrow> hpke_context result" where
  "hpke_key_schedule cr s mode shared_secret info psk psk_id =
     rbind (verify_psk_inputs mode psk psk_id) (\<lambda>_.
     rbind (hpke_suite_id s) (\<lambda>suite_id.
     let kdf = su_kdf s; aead = su_aead s;
         psk_id_hash = labeled_extract cr kdf [] (ascii ''psk_id_hash'') psk_id suite_id;
         info_hash = labeled_extract cr kdf [] (ascii ''info_hash'') info suite_id;
         secret = labeled_extract cr kdf shared_secret (ascii ''secret'') psk suite_id;
         key_schedule_context = mode_value mode # psk_id_hash @ info_hash
     in
     rbind (labeled_expand cr kdf secret (ascii ''key'') key_schedule_context (AEAD_KEY_SIZE aead) suite_id) (\<lambda>key.
     rbind (labeled_expand cr kdf secret (ascii ''base_nonce'') key_schedule_context (AEAD_NONCE_SIZE aead) suite_id)
       (\<lambda>base_nonce.
     rbind (labeled_expand cr kdf secret (ascii ''exp'') key_schedule_context
              (hash_digest_size cr (HKDF_ALGORITHM kdf)) suite_id) (\<lambda>exporter_secret.
     rbind (get_cipher aead key) (\<lambda>cipher.
     Inr \<lparr>hc_kdf = kdf, hc_aead = aead, hc_cipher = cipher, hc_base_nonce = base_nonce,
          hc_exporter_secret = exporter_secret, hc_suite_id = suite_id, hc_seq_num = 0\<rparr>))))))"

definition setup_send ::
    "crypto \<Rightarrow> hpke_lib \<Rightarrow> bytes \<Rightarrow> hpke_suite \<Rightarrow> hpke_public \<Rightarrow> bytes \<Rightarrow> (bytes \<times> hpke_context) result" where
  "setup_send cr l material s pk_r info =
     rbind (encap cr l (su_kem s) material pk_r) (\<lambda>(shared_secret, enc).
     rbind (hpke_key_schedule cr s Mode_BASE shared_secret info [] []) (\<lambda>c. Inr (enc, c)))"

definition setup_recv ::
    "crypto \<Rightarrow> hpke_lib \<Rightarrow> hpke_suite \<Rightarrow> bytes \<Rightarrow> hpke_private \<Rightarrow> bytes \<Rightarrow> hpke_context result" where
  "setup_recv cr l s enc sk_r info =
     rbind (decap cr l (su_kem s) enc sk_r) (\<lambda>shared_secret.
     hpke_key_schedule cr s Mode_BASE shared_secret info [] [])"

definition setup_psk_send ::
    "crypto \<Rightarrow> hpke_lib \<Rightarrow> bytes \<Rightarrow> hpke_suite \<Rightarrow> hpke_public \<Rightarrow> bytes \<Rightarrow> bytes \<Rightarrow> bytes \<Rightarrow> (bytes \<times> hpke_context) result" where
  "setup_psk_send cr l material s pk_r info psk psk_id =
     rbind (encap cr l (su_kem s) material pk_r) (\<lambda>(shared_secret, enc).
     rbind (hpke_key_schedule cr s Mode_PSK shared_secret info psk psk_id) (\<lambda>c. Inr (enc, c)))"

definition setup_psk_recv ::
    "crypto \<Rightarrow> hpke_lib \<Rightarrow> hpke_suite \<Rightarrow> bytes \<Rightarrow> hpke_private \<Rightarrow> bytes \<Rightarrow> bytes \<Rightarrow> bytes \<Rightarrow> hpke_context result" where
  "setup_psk_recv cr l s enc sk_r info psk psk_id =
     rbind (decap cr l (su_kem s) enc sk_r) (\<lambda>shared_secret.
     hpke_key_schedule cr s Mode_PSK shared_secret info psk psk_id)"

definition setup_auth_send ::
    "crypto \<Rightarrow> hpke_lib \<Rightarrow> bytes \<Rightarrow> hpke_suite \<Rightarrow> hpke_public \<Rightarrow> bytes \<Rightarrow> hpke_private \<Rightarrow> (bytes \<times> hpke_context) result" where
  "setup_auth_send cr l material s pk_r info sk_s =
     rbind (auth_encap cr l (su_kem s) material pk_r sk_s) (\<lambda>(shared_secret, enc).
     rbind (hpke_key_schedule cr s Mode_AUTH shared_secret info [] []) (\<lambda>c. Inr (enc, c)))"

definition setup_auth_recv ::
    "crypto \<Rightarrow> hpke_lib \<Rightarrow> hpke_suite \<Rightarrow> bytes \<Rightarrow> hpke_private \<Rightarrow> bytes \<Rightarrow> hpke_public \<Rightarrow> hpke_context result" where
  "setup_auth_recv cr l s enc sk_r info pk_s =
     rbind (auth_decap cr l (su_kem s) enc sk_r pk_s) (\<lambda>shared_secret.
     hpke_key_schedule cr s Mode_AUTH shared_secret info [] [])"

definition setup_auth_psk_send ::
    "crypto \<Rightarrow> hpke_lib \<Rightarrow> bytes \<Rightarrow> hpke_suite \<Rightarrow> hpke_public \<Rightarrow> bytes \<Rightarrow> hpke_private \<Rightarrow> bytes \<Rightarrow> bytes \<Rightarrow>
     (bytes \<times> hpke_context) result" where
  "setup_auth_psk_send cr l material s pk_r info sk_s psk psk_id =
     rbind (auth_encap cr l (su_kem s) material pk_r sk_s) (\<lambda>(shared_secret, enc).
     rbind (hpke_key_schedule cr s Mode_AUTH_PSK shared_secret info psk psk_id) (\<lambda>c. Inr (enc, c)))"

definition setup_auth_psk_recv ::
    "crypto \<Rightarrow> hpke_lib \<Rightarrow> hpke_suite \<Rightarrow> bytes \<Rightarrow> hpke_private \<Rightarrow> bytes \<Rightarrow> hpke_public \<Rightarrow> bytes \<Rightarrow> bytes \<Rightarrow>
     hpke_context result" where
  "setup_auth_psk_recv cr l s enc sk_r info pk_s psk psk_id =
     rbind (auth_decap cr l (su_kem s) enc sk_r pk_s) (\<lambda>shared_secret.
     hpke_key_schedule cr s Mode_AUTH_PSK shared_secret info psk psk_id)"

definition HPKE_KEMS :: "(int \<times> DHKEM) list" where
  "HPKE_KEMS = map (\<lambda>k. (DHKEM_ID k, k))
     [DHKEM_P256_HKDF_SHA256, DHKEM_P384_HKDF_SHA384, DHKEM_P521_HKDF_SHA512, DHKEM_X25519_HKDF_SHA256]"

definition HPKE_KDFS :: "(int \<times> HKDF) list" where
  "HPKE_KDFS = map (\<lambda>k. (HKDF_ID k, k)) [HKDF_SHA256, HKDF_SHA384, HKDF_SHA512]"

definition HPKE_AEADS :: "(int \<times> AEAD) list" where
  "HPKE_AEADS = map (\<lambda>k. (AEAD_ID k, k)) [AEAD_AES_128_GCM, AEAD_AES_256_GCM, AEAD_ChaCha20Poly1305]"

definition create_suite :: "int \<Rightarrow> int \<Rightarrow> int \<Rightarrow> hpke_suite result" where
  "create_suite kem_id kdf_id aead_id =
     (case map_of HPKE_KEMS kem_id of
        None \<Rightarrow> Inl ValueError
      | Some m \<Rightarrow> (case map_of HPKE_KDFS kdf_id of
            None \<Rightarrow> Inl ValueError
          | Some d \<Rightarrow> (case map_of HPKE_AEADS aead_id of
                None \<Rightarrow> Inl ValueError
              | Some a \<Rightarrow> Inr \<lparr>su_kem = m, su_kdf = d, su_aead = a\<rparr>)))"

end
