(* ===== verification/Verification.thy ===== *)
theory Verification
  imports Session TLS_Utils Alerts "HOL-Library.Multiset"
begin

text \<open>
  Verification of certificate chains: \<open>src/simple_tls/crypto/verification.py\<close>.  What the package
  \<open>cryptography\<close> reads out of a certificate and its check of one signature are the parameter
  \<open>cert_lib\<close>: names, serial number, validity in microseconds, the extensions in their order (reading
  them may raise) and \<open>verify_directly_issued_by\<close>.  A dictionary is an association list in insertion
  order.  The callbacks of an \<open>ExtensionPolicy\<close> get the certificate and the extension; none of them
  looks at the verifier they are passed as well.

  \<open>_candidate_chains\<close> is a generator: it is the list of the chains it yields with the exception that
  ends it, if there is one, because the verification of the chains in between has no effect on it.
  \<open>verify\<close> stops at the first chain that passes, before a later exception is met.
  The clock is read once for each chain, \<open>now k\<close> is the \<open>k\<close>-th reading.
\<close>

subsection \<open>Certificates\<close>

datatype x509_ext =
    BasicConstraints bool "int option" \<comment> \<open>\<open>ca\<close> and \<open>path_length\<close>\<close>
  | KeyUsage bool \<comment> \<open>\<open>key_cert_sign\<close>\<close>
  | AuthorityKeyIdentifier "bytes option"
  | SubjectKeyIdentifier bytes
  | SubjectAlternativeNameExt SubjectAlternativeName
  | ExtendedKeyUsage "string list"
  | UnrecognizedExtension bytes

record cert_lib =
  cl_subject :: "x509_certificate \<Rightarrow> string"
  cl_issuer :: "x509_certificate \<Rightarrow> string"
  cl_serial_number :: "x509_certificate \<Rightarrow> int"
  cl_not_valid_before :: "x509_certificate \<Rightarrow> int"
  cl_not_valid_after :: "x509_certificate \<Rightarrow> int"
  cl_extensions :: "x509_certificate \<Rightarrow> (string \<times> x509_ext) list result"
  cl_directly_issued_by :: "x509_certificate \<Rightarrow> x509_certificate \<Rightarrow> unit result"

definition ExtensionOID_KEY_USAGE :: string where
  "ExtensionOID_KEY_USAGE = ''2.5.29.15''"

text \<open>\<open>except VerificationError\<close> catches the subclasses too.\<close>

definition is_VerificationError :: "exn \<Rightarrow> bool" where
  "is_VerificationError e \<longleftrightarrow> e \<in> {VerificationError, InvalidSignatureError, PolicyViolationError,
     CertificateNotYetValid, CertificateExpired, UntrustedRoot}"

text \<open>\<open>get_extension_for_class\<close>: the first extension of that class; \<open>None\<close> for \<open>ExtensionNotFound\<close>.\<close>

fun first_basic_constraints :: "(string \<times> x509_ext) list \<Rightarrow> (bool \<times> int option) option" where
  "first_basic_constraints [] = None"
| "first_basic_constraints ((_, BasicConstraints ca path_length) # _) = Some (ca, path_length)"
| "first_basic_constraints (_ # exts) = first_basic_constraints exts"

fun first_authority_key :: "(string \<times> x509_ext) list \<Rightarrow> bytes option option" where
  "first_authority_key [] = None"
| "first_authority_key ((_, AuthorityKeyIdentifier k) # _) = Some k"
| "first_authority_key (_ # exts) = first_authority_key exts"

fun first_subject_key :: "(string \<times> x509_ext) list \<Rightarrow> bytes option" where
  "first_subject_key [] = None"
| "first_subject_key ((_, SubjectKeyIdentifier k) # _) = Some k"
| "first_subject_key (_ # exts) = first_subject_key exts"

subsection \<open>Trust store\<close>

type_synonym trust_map = "(string \<times> x509_certificate list) list"

definition dict_get :: "'k \<Rightarrow> ('k \<times> 'v list) list \<Rightarrow> 'v list" where
  "dict_get k d = (case map_of d k of Some vs \<Rightarrow> vs | None \<Rightarrow> [])"

text \<open>Assignment to a dictionary keeps the position of a key that is there.\<close>

fun dict_set :: "'k \<Rightarrow> 'v \<Rightarrow> ('k \<times> 'v) list \<Rightarrow> ('k \<times> 'v) list" where
  "dict_set k v [] = [(k, v)]"
| "dict_set k v ((k', v') # d) = (if k' = k then (k, v) # d else (k', v') # dict_set k v d)"

definition dict_pop :: "'k \<Rightarrow> ('k \<times> 'v) list \<Rightarrow> ('k \<times> 'v) list" where
  "dict_pop k d = [(k', v) \<leftarrow> d. k' \<noteq> k]"

definition get_certificates :: "trust_map \<Rightarrow> x509_certificate list" where
  "get_certificates tm = [cert. (_, certs) \<leftarrow> tm, cert \<leftarrow> certs]"

definition add_certificate :: "cert_lib \<Rightarrow> x509_certificate \<Rightarrow> trust_map \<Rightarrow> trust_map" where
  "add_certificate L certificate tm =
     (let existing = dict_get (cl_subject L certificate) tm
      in dict_set (cl_subject L certificate) (existing @ [certificate]) tm)"

record Store =
  store_trust_map :: trust_map

definition store_build :: "trust_map \<Rightarrow> Store" where
  "store_build tm = \<lparr>store_trust_map = tm\<rparr>"

subsection \<open>Extension policies\<close>

type_synonym validator = "x509_certificate \<Rightarrow> x509_ext option \<Rightarrow> unit result"

record ExtensionPolicy =
  ep_may_be_present :: "(string \<times> validator option) list"
  ep_require_present :: "(string \<times> validator option) list"

definition verify_ca_key_usage :: validator where
  "verify_ca_key_usage certificate extension =
     (case extension of
        None \<Rightarrow> Inr ()
      | Some (KeyUsage key_cert_sign) \<Rightarrow> if \<not> key_cert_sign then Inl PolicyViolationError else Inr ()
      | Some _ \<Rightarrow> Inl TypeError)"

definition defaults_ca :: ExtensionPolicy where
  "defaults_ca = \<lparr>ep_may_be_present = [(ExtensionOID_KEY_USAGE, Some verify_ca_key_usage)],
                  ep_require_present = []\<rparr>"

definition defaults_ee :: ExtensionPolicy where
  "defaults_ee = \<lparr>ep_may_be_present = [], ep_require_present = []\<rparr>"

definition may_be_present :: "ExtensionPolicy \<Rightarrow> string \<Rightarrow> validator option \<Rightarrow> ExtensionPolicy" where
  "may_be_present p extension_oid validator =
     \<lparr>ep_may_be_present = dict_set extension_oid validator (ep_may_be_present p),
      ep_require_present = dict_pop extension_oid (ep_require_present p)\<rparr>"

definition require_present :: "ExtensionPolicy \<Rightarrow> string \<Rightarrow> validator option \<Rightarrow> ExtensionPolicy" where
  "require_present p extension_oid validator =
     \<lparr>ep_may_be_present = dict_pop extension_oid (ep_may_be_present p),
      ep_require_present = dict_set extension_oid validator (ep_require_present p)\<rparr>"

definition run_validator ::
    "validator option \<Rightarrow> x509_certificate \<Rightarrow> x509_ext option \<Rightarrow> unit result" where
  "run_validator validator certificate extn =
     (case validator of None \<Rightarrow> Inr () | Some f \<Rightarrow> f certificate extn)"

fun verify_required ::
    "(string \<times> x509_ext) list \<Rightarrow> x509_certificate \<Rightarrow> (string \<times> validator option) list \<Rightarrow> unit result" where
  "verify_required exts certificate [] = Inr ()"
| "verify_required exts certificate ((oid, validator) # rest) =
     (case map_of exts oid of
        None \<Rightarrow> Inl PolicyViolationError
      | Some r_ext \<Rightarrow>
          rbind (run_validator validator certificate (Some r_ext)) (\<lambda>_.
          verify_required exts certificate rest))"

fun verify_optional ::
    "(string \<times> x509_ext) list \<Rightarrow> x509_certificate \<Rightarrow> (string \<times> validator option) list \<Rightarrow> unit result" where
  "verify_optional exts certificate [] = Inr ()"
| "verify_optional exts certificate ((oid, validator) # rest) =
     rbind (run_validator validator certificate (map_of exts oid)) (\<lambda>_.
     verify_optional exts certificate rest)"

definition policy_verify :: "cert_lib \<Rightarrow> ExtensionPolicy \<Rightarrow> x509_certificate \<Rightarrow> unit result" where
  "policy_verify L p certificate =
     rbind (cl_extensions L certificate) (\<lambda>exts.
     rbind (verify_required exts certificate (ep_require_present p)) (\<lambda>_.
     verify_optional exts certificate (ep_may_be_present p)))"

subsection \<open>Verifier\<close>

record Verifier =
  vf_store :: Store
  vf_allow_partial_chain :: bool
  vf_max_chain_depth :: int
  vf_ee_policy :: ExtensionPolicy
  vf_ca_policy :: ExtensionPolicy

definition Verifier_init ::
    "Store \<Rightarrow> int \<Rightarrow> bool \<Rightarrow> ExtensionPolicy option \<Rightarrow> ExtensionPolicy option \<Rightarrow> Verifier result" where
  "Verifier_init store max_chain_depth allow_partial_chain ee_policy ca_policy =
     (if max_chain_depth \<le> 0 then Inl ValueError
      else Inr \<lparr>vf_store = store, vf_allow_partial_chain = allow_partial_chain,
        vf_max_chain_depth = max_chain_depth,
        vf_ee_policy = (case ee_policy of Some p \<Rightarrow> p | None \<Rightarrow> defaults_ee),
        vf_ca_policy = (case ca_policy of Some p \<Rightarrow> p | None \<Rightarrow> defaults_ca)\<rparr>)"

definition is_self_issued :: "cert_lib \<Rightarrow> x509_certificate \<Rightarrow> bool" where
  "is_self_issued L certificate \<longleftrightarrow> cl_subject L certificate = cl_issuer L certificate"

definition aki_ski_compatible :: "cert_lib \<Rightarrow> x509_certificate \<Rightarrow> x509_certificate \<Rightarrow> bool result" where
  "aki_ski_compatible L issuer cert =
     rbind (cl_extensions L cert) (\<lambda>cert_exts.
     rbind (cl_extensions L issuer) (\<lambda>issuer_exts.
     Inr (case (first_authority_key cert_exts, first_subject_key issuer_exts) of
            (Some aki, Some ski) \<Rightarrow> aki = Some ski
          | _ \<Rightarrow> True)))"

definition verify_validity_now :: "cert_lib \<Rightarrow> x509_certificate \<Rightarrow> int \<Rightarrow> int \<Rightarrow> unit result" where
  "verify_validity_now L child now skew =
     (let delta = skew * 1000000 in
      if now + delta < cl_not_valid_before L child then Inl CertificateNotYetValid
      else if now - delta > cl_not_valid_after L child then Inl CertificateExpired
      else Inr ())"

definition verify_signature :: "cert_lib \<Rightarrow> x509_certificate \<Rightarrow> x509_certificate \<Rightarrow> unit result" where
  "verify_signature L child issuer =
     (case cl_directly_issued_by L child issuer of
        Inr u \<Rightarrow> Inr u
      | Inl e \<Rightarrow> Inl (if e = InvalidSignature then InvalidSignatureError else e))"

subsection \<open>Search for chains\<close>

type_synonym sigid = "string \<times> string \<times> int"

definition candidates :: "cert_lib \<Rightarrow> x509_certificate list \<Rightarrow> string \<Rightarrow> x509_certificate list" where
  "candidates L intermediates name = [c \<leftarrow> intermediates. cl_subject L c = name]"

definition roots :: "Verifier \<Rightarrow> string \<Rightarrow> x509_certificate list" where
  "roots v name = dict_get name (store_trust_map (vf_store v))"

definition is_anchor :: "cert_lib \<Rightarrow> Verifier \<Rightarrow> x509_certificate \<Rightarrow> bool" where
  "is_anchor L v issuer \<longleftrightarrow> issuer \<in> set (roots v (cl_subject L issuer)) \<and>
     (is_self_issued L issuer \<or> vf_allow_partial_chain v)"

text \<open>
  The inner loop over the possible issuers of the tip of a chain: the chains it yields, the chains it
  appends to the queue, the pairs seen, and the exception that ends it.
\<close>

primrec extend_chain ::
    "cert_lib \<Rightarrow> Verifier \<Rightarrow> x509_certificate list \<Rightarrow> x509_certificate list \<Rightarrow> sigid set \<Rightarrow>
     x509_certificate list list \<times> x509_certificate list list \<times> sigid set \<times> exn option" where
  "extend_chain L v chain [] seen = ([], [], seen, None)"
| "extend_chain L v chain (issuer # possible_issuers) seen =
     (let tip = last chain in
      if issuer = tip then extend_chain L v chain possible_issuers seen
      else case aki_ski_compatible L issuer tip of
        Inl e \<Rightarrow> ([], [], seen, Some e)
      | Inr compatible \<Rightarrow>
          let sigid = (cl_subject L tip, cl_subject L issuer, cl_serial_number L issuer) in
          if \<not> compatible \<or> sigid \<in> seen then extend_chain L v chain possible_issuers seen
          else
            let new_chain = chain @ [issuer];
                (ys, new, seen', e) = extend_chain L v chain possible_issuers (insert sigid seen)
            in ((if is_anchor L v issuer then [new_chain] else []) @ ys, new_chain # new, seen', e))"

lemma extend_chain_length:
  "extend_chain L v chain issuers seen = (ys, new, seen', e) \<Longrightarrow>
   c \<in> set new \<Longrightarrow> length c = Suc (length chain)"
  by (induction issuers arbitrary: seen ys new)
     (auto simp: Let_def split: if_splits sum.splits prod.splits)

function chain_search ::
    "cert_lib \<Rightarrow> Verifier \<Rightarrow> x509_certificate list \<Rightarrow> x509_certificate list list \<Rightarrow> sigid set \<Rightarrow>
     x509_certificate list list \<times> exn option" where
  "chain_search L v intermediates [] seen = ([], None)"
| "chain_search L v intermediates (chain # q) seen =
     (if int (length chain) \<ge> vf_max_chain_depth v then chain_search L v intermediates q seen
      else
        let tip = last chain;
            possible_issuers = candidates L intermediates (cl_issuer L tip) @ roots v (cl_issuer L tip)
        in case extend_chain L v chain possible_issuers seen of
             (ys, new, seen', Some e) \<Rightarrow> (ys, Some e)
           | (ys, new, seen', None) \<Rightarrow>
               (case chain_search L v intermediates (q @ new) seen' of (zs, e) \<Rightarrow> (ys @ zs, e)))"
  by pat_completeness auto

text \<open>
  The search ends: a step replaces a chain of the queue by finitely many longer ones, and no chain is
  extended beyond the maximal depth.
\<close>

definition chain_search_measure :: "Verifier \<Rightarrow> x509_certificate list list \<Rightarrow> nat multiset" where
  "chain_search_measure v q = mset (map (\<lambda>c. nat (vf_max_chain_depth v - int (length c))) q)"

termination chain_search
proof (relation "inv_image (mult less_than) (\<lambda>(L, v, inter, q, seen). chain_search_measure v q)", goal_cases)
  case 1
  show ?case by (simp add: wf_mult)
next
  case (2 L v inter chain q seen)
  show ?case
    using one_step_implies_mult [of "{#nat (vf_max_chain_depth v - int (length chain))#}" "{#}" less_than
        "chain_search_measure v q"]
    by (simp add: chain_search_measure_def)
next
  case (3 L v inter chain q seen tip issuers ys r new r' seen' e)
  from 3 have extd: "extend_chain L v chain issuers seen = (ys, new, seen', None)" by simp
  from 3 have less: "int (length chain) < vf_max_chain_depth v" by simp
  have "(chain_search_measure v q + chain_search_measure v new,
         chain_search_measure v q + {#nat (vf_max_chain_depth v - int (length chain))#}) \<in> mult less_than"
    by (rule one_step_implies_mult)
       (use extend_chain_length [OF extd] less in \<open>auto simp: chain_search_measure_def\<close>)
  then show ?case by (simp add: chain_search_measure_def ac_simps)
qed

definition candidate_chains ::
    "cert_lib \<Rightarrow> Verifier \<Rightarrow> x509_certificate \<Rightarrow> x509_certificate list \<Rightarrow>
     x509_certificate list list \<times> exn option" where
  "candidate_chains L v leaf intermediates = chain_search L v intermediates [[leaf]] {}"

subsection \<open>Verification of a chain\<close>

text \<open>
  The loop of \<open>_verify_chain\<close> from the certificate at \<open>index\<close> on: \<open>first\<close> is \<open>index == 0\<close>.
\<close>

fun verify_links ::
    "cert_lib \<Rightarrow> Verifier \<Rightarrow> int \<Rightarrow> bool \<Rightarrow> int \<Rightarrow> (bool \<times> int option) option \<Rightarrow>
     x509_certificate list \<Rightarrow> unit result" where
  "verify_links L v now first ca_count_below child_bc (child # issuer # rest) =
     rbind (verify_validity_now L child now 300) (\<lambda>_.
     rbind (verify_signature L child issuer) (\<lambda>_.
     rbind (cl_extensions L issuer) (\<lambda>exts.
     case first_basic_constraints exts of
       None \<Rightarrow> Inl PolicyViolationError
     | Some (ca, path_length) \<Rightarrow>
         if (case path_length of Some n \<Rightarrow> ca_count_below > n | None \<Rightarrow> False) then Inl PolicyViolationError
         else if \<not> ca then Inl PolicyViolationError
         else
           rbind (if first then rbind (cl_extensions L child) (\<lambda>exts. Inr (first_basic_constraints exts))
                  else Inr child_bc) (\<lambda>child_bc.
           rbind (policy_verify L (vf_ca_policy v) issuer) (\<lambda>_.
           verify_links L v now False
             (case child_bc of
                Some (child_ca, _) \<Rightarrow>
                  if child_ca \<and> \<not> is_self_issued L child then ca_count_below + 1 else ca_count_below
              | None \<Rightarrow> ca_count_below)
             (Some (ca, path_length)) (issuer # rest))))))"
| "verify_links L v now first ca_count_below child_bc _ = Inr ()"

definition verify_chain :: "cert_lib \<Rightarrow> Verifier \<Rightarrow> int \<Rightarrow> x509_certificate list \<Rightarrow> unit result" where
  "verify_chain L v now chain =
     (case chain of
        [] \<Rightarrow> Inl AssertionError
      | leaf # _ \<Rightarrow>
          rbind (verify_links L v now True 0 None chain) (\<lambda>_.
          policy_verify L (vf_ee_policy v) leaf))"

primrec verify_candidates ::
    "cert_lib \<Rightarrow> Verifier \<Rightarrow> (nat \<Rightarrow> int) \<Rightarrow> nat \<Rightarrow> exn option \<Rightarrow> exn option \<Rightarrow>
     x509_certificate list list \<Rightarrow> x509_certificate list result" where
  "verify_candidates L v now k last_exc gen_exc [] =
     (case gen_exc of
        Some e \<Rightarrow> Inl e
      | None \<Rightarrow> (case last_exc of Some e \<Rightarrow> Inl e | None \<Rightarrow> Inl UntrustedRoot))"
| "verify_candidates L v now k last_exc gen_exc (chain # others) =
     (case verify_chain L v (now k) chain of
        Inr _ \<Rightarrow> Inr chain
      | Inl e \<Rightarrow>
          if is_VerificationError e
          then verify_candidates L v now (Suc k) (Some e) gen_exc others
          else Inl e)"

definition verifier_verify ::
    "cert_lib \<Rightarrow> Verifier \<Rightarrow> (nat \<Rightarrow> int) \<Rightarrow> x509_certificate \<Rightarrow> x509_certificate list \<Rightarrow>
     x509_certificate list result" where
  "verifier_verify L v now leaf intermediates =
     (case candidate_chains L v leaf intermediates of
        (found, gen_exc) \<Rightarrow> verify_candidates L v now 0 None gen_exc found)"

end
