(* ===== verification/Config.thy ===== *)
theory Config
  imports Session Keys Key_Exchange Extensions Hpke Verification
begin

text \<open>
  The configuration of a connection: \<open>src/simple_tls/tls/config.py\<close>.  \<open>TLSConfiguration\<close> is a frozen data
  class; \<open>default_configuration\<close> has its default values.  A ticket protector is the pair of
  its two methods.
  Reading of the PEM files is not modelled.
\<close>

record Credential =
  cred_private_key :: BasePrivateKey
  cred_certificate :: x509_certificate
  cred_certificate_chain :: "x509_certificate list"

record ECHKey =
  echkey_config :: ech_config
  echkey_private_key :: hpke_private
  echkey_is_retry_config :: bool

text \<open>\<open>TicketContext\<close> and the protocol class \<open>TicketAEAD\<close> of \<open>src/simple_tls/tls/session.py\<close>.\<close>

record TicketContext =
  tctx_server_name :: "bytes option"
  tctx_cipher_suite :: cipher_suite
  tctx_protocol_version :: int

record TicketAEAD =
  ticket_seal :: "bytes \<Rightarrow> TicketContext \<Rightarrow> bytes option"
  ticket_open :: "bytes \<Rightarrow> TicketContext \<Rightarrow> bytes option"

record TLSConfiguration =
  cfg_is_server :: bool
  cfg_protocol :: Protocol
  cfg_minimum_version :: int
  cfg_maximum_version :: int
  cfg_middlebox_compat :: bool
  cfg_verify_mode :: VerifyMode
  cfg_check_hostname :: bool
  cfg_castore :: "Store option"
  cfg_credential :: "Credential option"
  cfg_cipher_suites :: "cipher_suite list"
  cfg_supported_groups :: "int list option"
  cfg_signature_algorithms :: "int list option"
  cfg_signing_signature_algorithms :: "int list option"
  cfg_certificate_compressions :: "int list option"
  cfg_npn_protocols :: "bytes list option"
  cfg_alpn_protocols :: "bytes list option"
  cfg_alps :: "(bytes \<times> bytes) list option"
  cfg_peer_ech_configs :: "ech_config list option"
  cfg_ech_keys :: "ECHKey list option"
  cfg_encrypt_then_mac :: bool
  cfg_extended_master_secret :: bool
  cfg_early_data :: bool
  cfg_max_early_data_size :: int
  cfg_post_handshake_auth :: bool
  cfg_client_hello_padding :: bool
  cfg_permute_extensions :: bool
  cfg_grease :: bool
  cfg_grease_ech :: bool
  cfg_status_request :: bool
  cfg_signed_certificate_timestamp :: bool
  cfg_legacy_server_connect :: bool
  cfg_session :: "TLSSession option"
  cfg_server_hostname :: "bytes option"
  cfg_dh_parameters :: "DHParameters option"
  cfg_ticket_aead :: "TicketAEAD option"

definition default_signature_algorithms :: "int list" where
  "default_signature_algorithms = map ss
     [SS_ECDSA_SECP256R1_SHA256, SS_RSA_PSS_RSAE_SHA256, SS_RSA_PKCS1_SHA256, SS_ECDSA_SECP384R1_SHA384,
      SS_RSA_PSS_RSAE_SHA384, SS_RSA_PKCS1_SHA384, SS_RSA_PSS_RSAE_SHA512, SS_RSA_PKCS1_SHA512]"

definition default_configuration :: TLSConfiguration where
  "default_configuration = \<lparr>cfg_is_server = False, cfg_protocol = PROTO_TLS,
     cfg_minimum_version = ver V_TLSv1_2, cfg_maximum_version = ver V_TLSv1_3,
     cfg_middlebox_compat = True, cfg_verify_mode = CERT_NONE, cfg_check_hostname = False,
     cfg_castore = None, cfg_credential = None,
     cfg_cipher_suites =
       [TLS_AES_128_GCM_SHA256, TLS_AES_256_GCM_SHA384, TLS_CHACHA20_POLY1305_SHA256,
        TLS_ECDHE_ECDSA_WITH_AES_128_GCM_SHA256, TLS_ECDHE_RSA_WITH_AES_128_GCM_SHA256,
        TLS_ECDHE_ECDSA_WITH_AES_256_GCM_SHA384, TLS_ECDHE_RSA_WITH_AES_256_GCM_SHA384,
        TLS_ECDHE_ECDSA_WITH_CHACHA20_POLY1305_SHA256, TLS_ECDHE_RSA_WITH_CHACHA20_POLY1305_SHA256,
        TLS_ECDHE_RSA_WITH_AES_128_CBC_SHA, TLS_ECDHE_RSA_WITH_AES_256_CBC_SHA,
        TLS_RSA_WITH_AES_128_GCM_SHA256, TLS_RSA_WITH_AES_256_GCM_SHA384,
        TLS_RSA_WITH_AES_128_CBC_SHA, TLS_RSA_WITH_AES_256_CBC_SHA],
     cfg_supported_groups = Some (map ng [NG_X25519MLKEM768, NG_X25519, NG_SECP256R1, NG_SECP384R1]),
     cfg_signature_algorithms = Some default_signature_algorithms,
     cfg_signing_signature_algorithms = Some default_signature_algorithms,
     cfg_certificate_compressions = None, cfg_npn_protocols = None, cfg_alpn_protocols = None,
     cfg_alps = None, cfg_peer_ech_configs = None, cfg_ech_keys = None, cfg_encrypt_then_mac = False,
     cfg_extended_master_secret = True, cfg_early_data = False, cfg_max_early_data_size = 65535,
     cfg_post_handshake_auth = False, cfg_client_hello_padding = True, cfg_permute_extensions = True,
     cfg_grease = True, cfg_grease_ech = True, cfg_status_request = True,
     cfg_signed_certificate_timestamp = True, cfg_legacy_server_connect = False, cfg_session = None,
     cfg_server_hostname = None, cfg_dh_parameters = None, cfg_ticket_aead = None\<rparr>"

end
