(* ===== verification/Handshake_Base.thy ===== *)
theory Handshake_Base
  imports Config Messages Cipher
begin

text \<open>
  The base class of the two handshakes: \<open>src/simple_tls/tls/handshake.py\<close>.  The object is the record
  \<open>TLSHandshake\<close>; what \<open>__init__\<close> computes from the configuration and never changes is the record
  \<open>handshake_settings\<close>.  The methods are actions on it.  The record is extensible: the connection of
  the theory \<open>Record_Layer\<close> extends it by its own fields, so that the callback \<open>setup_traffic_cb\<close>,
  which the handshake calls and the connection provides, is an action on the same state and an
  argument of the methods that call it.  \<open>message_cb\<close> only informs the application and is left out.

  The package's certificates are the parameter \<open>x509_lib\<close>.
\<close>

subsection \<open>Data\<close>

record TrafficContext =
  tr_version :: int
  tr_cipher_suite :: cipher_suite
  tr_client_random :: bytes
  tr_server_random :: bytes
  tr_secret :: bytes
  tr_enc_key :: "bytes option"
  tr_mac_key :: "bytes option"
  tr_fixed_iv :: "bytes option"
  tr_encrypt_then_mac :: bool

record Handshake =
  h_type :: int
  h_data :: bytes
  h_parsed :: "message option" \<comment> \<open>\<open>_cache\<close>\<close>

record handshake_settings =
  st_configuration :: TLSConfiguration
  st_protocol :: Protocol
  st_minimum_version :: int
  st_maximum_version :: int
  st_credential :: "Credential option"
  st_verify_mode :: VerifyMode
  st_cipher_suites :: "cipher_suite list"
  st_supported_groups :: "int list"
  st_ecc_groups :: "int list"
  st_signature_algorithms :: "int list"
  st_signing_signature_algorithms :: "int list"
  st_certificate_compressions :: "int list"
  st_ec_point_formats :: "int list"
  st_psk_kex_modes :: "int list"
  st_npn_protocols :: "bytes list"
  st_alpn_protocols :: "bytes list"
  st_alps :: "(bytes \<times> bytes) list"

record TLSHandshake =
  hs_is_server :: bool
  hs_settings :: handshake_settings
  hs_state :: int
  hs_hostname :: "bytes option"
  hs_version :: int
  hs_is_early_version :: bool
  hs_client_version :: int
  hs_session :: "TLSSession option"
  hs_session_establish :: bool
  hs_session_reused :: bool
  hs_session_id :: bytes
  hs_cipher_suite :: "cipher_suite option"
  hs_in_early_data :: bool
  hs_skip_early_data :: bool
  hs_can_early_write :: bool
  hs_can_early_read :: bool
  hs_early_data_offered :: bool
  hs_hello_retry_request_used :: bool
  hs_extended_master_secret :: bool
  hs_encrypt_then_mac :: bool
  hs_secure_renegotiation :: bool
  hs_ech_status :: ECHStatus
  hs_early_data_status :: EarlyDataStatus
  hs_npn_protocol :: "bytes option"
  hs_alpn_protocol :: "bytes option"
  hs_incoming_data :: bytes
  hs_outgoing_messages :: "bytes list"
  hs_cache :: "Handshake option"
  hs_client_random :: bytes
  hs_server_random :: bytes
  hs_write_traffic :: "TrafficContext option"
  hs_read_traffic :: "TrafficContext option"
  hs_enc_secret :: "Epoch \<rightharpoonup> bytes"
  hs_dec_secret :: "Epoch \<rightharpoonup> bytes"
  hs_transcript :: Transcript
  hs_key_schedule :: "KeySchedule option"

record x509_lib =
  load_der_fn :: "bytes \<Rightarrow> x509_certificate option" \<comment> \<open>\<open>ValueError\<close> if \<open>None\<close>\<close>
  cert_public_key_fn :: "x509_certificate \<Rightarrow> pkey result"
  cert_oid_fn :: "x509_certificate \<Rightarrow> string"

subsection \<open>Construction\<close>

definition CERTIFICATE_COMPRESSIONS :: "compression_libs \<Rightarrow> int list" where
  "CERTIFICATE_COMPRESSIONS libs =
     [cca CCA_ZLIB] @ (if ZSTD_SUPPORTED libs then [cca CCA_ZSTD] else []) @
     (if Brotli_SUPPORTED libs then [cca CCA_BROTLI] else [])"

definition configured :: "int list option \<Rightarrow> int list \<Rightarrow> int list" where
  "configured items supported =
     (case items of Some xs \<Rightarrow> [x \<leftarrow> xs. x \<in> set supported] | None \<Rightarrow> supported)"

definition handshake_settings_init :: "compression_libs \<Rightarrow> TLSConfiguration \<Rightarrow> handshake_settings result" where
  "handshake_settings_init libs cfg =
     rbind (version_from_wire (cfg_protocol cfg) (cfg_minimum_version cfg)) (\<lambda>minv.
     rbind (version_from_wire (cfg_protocol cfg) (cfg_maximum_version cfg)) (\<lambda>maxv.
     if minv > maxv then Inl ValueError
     else
       let suites = [cs \<leftarrow> cfg_cipher_suites cfg. minimum_version cs \<le> maxv \<and> maximum_version cs \<ge> minv];
           groups = configured (cfg_supported_groups cfg) SUPPORTED_GROUPS;
           sigalgs = configured (cfg_signature_algorithms cfg) SIGNATURE_ALGORITHMS;
           signing = configured (cfg_signing_signature_algorithms cfg) SIGNATURE_ALGORITHMS;
           alpn = (case cfg_alpn_protocols cfg of Some ps \<Rightarrow> ps | None \<Rightarrow> [])
       in if suites = [] then Inl ValueError
       else if maxv \<ge> ver V_TLSv1_3 \<and> groups = [] then Inl ValueError
       else if maxv \<ge> ver V_TLSv1_2 \<and> sigalgs = [] then Inl ValueError
       else if maxv \<ge> ver V_TLSv1_2 \<and> signing = [] then Inl ValueError
       else Inr \<lparr>st_configuration = cfg, st_protocol = cfg_protocol cfg, st_minimum_version = minv,
         st_maximum_version = maxv, st_credential = cfg_credential cfg,
         st_verify_mode = cfg_verify_mode cfg, st_cipher_suites = suites, st_supported_groups = groups,
         st_ecc_groups = [g \<leftarrow> groups. g \<in> set ECC_GROUPS], st_signature_algorithms = sigalgs,
         st_signing_signature_algorithms = signing,
         st_certificate_compressions = (case cfg_certificate_compressions cfg of
            Some cs \<Rightarrow> [c \<leftarrow> cs. c \<in> set (CERTIFICATE_COMPRESSIONS libs)] | None \<Rightarrow> []),
         st_ec_point_formats = [ecpf ECPF_UNCOMPRESSED], st_psk_kex_modes = [pskm PSKM_PSK_DHE_KE],
         st_npn_protocols = (case cfg_npn_protocols cfg of Some ps \<Rightarrow> ps | None \<Rightarrow> []),
         st_alpn_protocols = alpn,
         st_alps = (case cfg_alps cfg of Some a \<Rightarrow> [(p, s) \<leftarrow> a. p \<in> set alpn] | None \<Rightarrow> [])\<rparr>))"

definition TLSHandshake_init :: "compression_libs \<Rightarrow> bool \<Rightarrow> TLSConfiguration \<Rightarrow> TLSHandshake result" where
  "TLSHandshake_init libs is_server cfg =
     rbind (handshake_settings_init libs cfg) (\<lambda>settings.
     Inr \<lparr>hs_is_server = is_server, hs_settings = settings, hs_state = 0, hs_hostname = None,
       hs_version = UNSPECIFIED, hs_is_early_version = False, hs_client_version = UNSPECIFIED,
       hs_session = None, hs_session_establish = False, hs_session_reused = False, hs_session_id = [],
       hs_cipher_suite = None, hs_in_early_data = False, hs_skip_early_data = False,
       hs_can_early_write = False, hs_can_early_read = False, hs_early_data_offered = False,
       hs_hello_retry_request_used = False, hs_extended_master_secret = False,
       hs_encrypt_then_mac = False, hs_secure_renegotiation = False, hs_ech_status = ECH_NONE,
       hs_early_data_status = EDS_NONE, hs_npn_protocol = None, hs_alpn_protocol = None,
       hs_incoming_data = [], hs_outgoing_messages = [], hs_cache = None, hs_client_random = [],
       hs_server_random = [], hs_write_traffic = None, hs_read_traffic = None,
       hs_enc_secret = Map.empty, hs_dec_secret = Map.empty, hs_transcript = Transcript_init,
       hs_key_schedule = None\<rparr>)"

subsection \<open>Handshake messages in and out\<close>

definition Handshake_parse_as :: "message_class \<Rightarrow> (Handshake, message) action" where
  "Handshake_parse_as message_cls = bnd get_state (\<lambda>h.
     thn (raise_if (class_handshake_type message_cls \<noteq> h_type h) AlertUnexpectedMessage)
     (thn (case h_parsed h of
             Some m \<Rightarrow>
               if message_class_of m = message_cls then ret ()
               else bnd (lift_result (message_from_bytes message_cls (h_data h))) (\<lambda>m.
                    modify (\<lambda>h. h\<lparr>h_parsed := Some m\<rparr>))
           | None \<Rightarrow> bnd (lift_result (message_from_bytes message_cls (h_data h))) (\<lambda>m.
                    modify (\<lambda>h. h\<lparr>h_parsed := Some m\<rparr>)))
     (bnd (gets h_parsed) (\<lambda>p. case p of Some m \<Rightarrow> ret m | None \<Rightarrow> raise AssertionError))))"

definition Handshake_set_message :: "message \<Rightarrow> (Handshake, unit) action" where
  "Handshake_set_message m =
     thn (modify (\<lambda>h. h\<lparr>h_parsed := Some m\<rparr>))
     (bnd (lift_result (message_to_bytes m)) (\<lambda>d. modify (\<lambda>h. h\<lparr>h_data := d\<rparr>)))"

definition hs_close_early_data :: "('a TLSHandshake_scheme, unit) action" where
  "hs_close_early_data = modify (\<lambda>s. s\<lparr>hs_skip_early_data := False, hs_can_early_read := False,
     hs_can_early_write := False\<rparr>)"

definition hs_close_in_early_data :: "('a TLSHandshake_scheme, unit) action" where
  "hs_close_in_early_data = bnd (gets hs_in_early_data) (\<lambda>b.
     thn (raise_if (\<not> b) AssertionError)
     (thn (modify (\<lambda>s. s\<lparr>hs_in_early_data := False\<rparr>)) hs_close_early_data))"

definition protocol_version :: "('a TLSHandshake_scheme, int) action" where
  "protocol_version = bnd (gets hs_version) (\<lambda>v.
     thn (raise_if (v = UNSPECIFIED) AssertionError) (ret v))"

definition max_early_data :: "('a TLSHandshake_scheme, int) action" where
  "max_early_data = bnd get_state (\<lambda>s.
     if hs_in_early_data s then
       (case hs_session s of None \<Rightarrow> raise AssertionError | Some ses \<Rightarrow> ret (s_ticket_max_early_data ses))
     else ret 0)"

definition feed_data :: "bytes \<Rightarrow> ('a TLSHandshake_scheme, unit) action" where
  "feed_data data = modify (\<lambda>s. s\<lparr>hs_incoming_data := hs_incoming_data s @ data\<rparr>)"

definition has_unprocessed_data :: "'a TLSHandshake_scheme \<Rightarrow> bool" where
  "has_unprocessed_data s \<longleftrightarrow> length (hs_incoming_data s) > 0"

definition clear_flight :: "('a TLSHandshake_scheme, unit) action" where
  "clear_flight = modify (\<lambda>s. s\<lparr>hs_outgoing_messages := []\<rparr>)"

text \<open>\<open>bytes([t]) + int_to_bytes(len(d), 3) + d\<close>\<close>

definition pack_bytes :: "int \<Rightarrow> bytes \<Rightarrow> bytes result" where
  "pack_bytes t d =
     (if t < 0 \<or> t > 255 then Inl ValueError
      else rbind (int_to_bytes (int (length d)) (Some 3)) (\<lambda>n. Inr ([word_of_int t] @ n @ d)))"

definition pack_handshake :: "Handshake \<Rightarrow> bytes result" where
  "pack_handshake h = pack_bytes (h_type h) (h_data h)"

definition pack_message :: "message \<Rightarrow> bytes result" where
  "pack_message m = rbind (message_to_bytes m) (\<lambda>d. pack_bytes (handshake_type m) d)"

definition read_handshake :: "('a TLSHandshake_scheme, Handshake option) action" where
  "read_handshake = bnd get_state (\<lambda>s.
     case hs_cache s of
       Some h \<Rightarrow> ret (Some h)
     | None \<Rightarrow>
         if length (hs_incoming_data s) < 4 then ret None
         else
           let data_len = 4 + nat (bytes_to_int (take 3 (drop 1 (hs_incoming_data s)))) in
           if length (hs_incoming_data s) < data_len then ret None
           else
             let h = \<lparr>h_type = uint (hs_incoming_data s ! 0),
                      h_data = drop 4 (take data_len (hs_incoming_data s)), h_parsed = None\<rparr> in
             thn (modify (\<lambda>s. s\<lparr>hs_cache := Some h,
                    hs_incoming_data := drop data_len (hs_incoming_data s)\<rparr>))
             (ret (Some h)))"

text \<open>The transcript is a part of the handshake's state.\<close>

definition on_transcript :: "(Transcript, 'b) action \<Rightarrow> ('a TLSHandshake_scheme, 'b) action" where
  "on_transcript m = (\<lambda>s. case m (hs_transcript s) of (r, t) \<Rightarrow> (r, s\<lparr>hs_transcript := t\<rparr>))"

definition next_handshake :: "bool \<Rightarrow> ('a TLSHandshake_scheme, unit) action" where
  "next_handshake upd = bnd (gets hs_cache) (\<lambda>c.
     case c of
       None \<Rightarrow> raise AssertionError
     | Some h \<Rightarrow>
         thn (if upd then bnd (lift_result (pack_handshake h)) (\<lambda>d. on_transcript (update_hash d))
              else ret ())
         (modify (\<lambda>s. s\<lparr>hs_cache := None\<rparr>)))"

definition add_message :: "message \<Rightarrow> bool \<Rightarrow> ('a TLSHandshake_scheme, unit) action" where
  "add_message m upd =
     bnd (lift_result (pack_message m)) (\<lambda>d.
     thn (modify (\<lambda>s. s\<lparr>hs_outgoing_messages := hs_outgoing_messages s @ [d]\<rparr>))
     (if upd then on_transcript (update_hash d) else ret ()))"

text \<open>\<open>handshake.parse_as\<close> on the message that \<open>_read_handshake\<close> returned, which is the cached object.\<close>

definition parse_as :: "message_class \<Rightarrow> ('a TLSHandshake_scheme, message) action" where
  "parse_as message_cls = (\<lambda>s. case hs_cache s of
     None \<Rightarrow> (Inl AssertionError, s)
   | Some h \<Rightarrow> (case Handshake_parse_as message_cls h of (r, h') \<Rightarrow> (r, s\<lparr>hs_cache := Some h'\<rparr>)))"

definition set_state :: "int \<Rightarrow> ('a TLSHandshake_scheme, unit) action" where
  "set_state st = modify (\<lambda>s. s\<lparr>hs_state := st\<rparr>)"

text \<open>
  The dispatch loop.  \<open>is_done\<close> and \<open>dispatch\<close> are the subclass' property and its table of handlers.
\<close>

primrec hs_do_handshake_loop ::
    "nat \<Rightarrow> ('a TLSHandshake_scheme \<Rightarrow> bool) \<Rightarrow> (int \<Rightarrow> ('a TLSHandshake_scheme, Status) action option) \<Rightarrow>
     Status \<Rightarrow> ('a TLSHandshake_scheme, Status) action" where
  "hs_do_handshake_loop 0 is_done dispatch st = raise Diverges"
| "hs_do_handshake_loop (Suc fuel) is_done dispatch st = bnd get_state (\<lambda>s.
     if is_done s then ret st
     else case dispatch (hs_state s) of
       None \<Rightarrow> raise KeyError
     | Some f \<Rightarrow>
         bnd (catch f (\<lambda>e. raise (if e = ParseError then AlertDecodeError else e))) (\<lambda>r.
         if r \<noteq> ST_OK then ret r else hs_do_handshake_loop fuel is_done dispatch r))"

subsection \<open>Keys and secrets\<close>

type_synonym 's setup_cb = "Direction \<Rightarrow> Epoch \<Rightarrow> TrafficContext option \<Rightarrow> ('s, unit) action"

definition hs_setup_traffic ::
    "('a TLSHandshake_scheme) setup_cb \<Rightarrow> Direction \<Rightarrow> ('a TLSHandshake_scheme, unit) action" where
  "hs_setup_traffic cb direction = bnd get_state (\<lambda>s.
     case (if direction = DIR_READ then hs_read_traffic s else hs_write_traffic s) of
       None \<Rightarrow> raise AssertionError
     | Some traffic \<Rightarrow> cb direction EPOCH_APPLICATION_DATA (Some traffic))"

definition hs_setup_traffic_tls13 ::
    "('a TLSHandshake_scheme) setup_cb \<Rightarrow> Direction \<Rightarrow> Epoch \<Rightarrow> ('a TLSHandshake_scheme, unit) action" where
  "hs_setup_traffic_tls13 cb direction epoch = bnd get_state (\<lambda>s.
     case (if direction = DIR_READ then hs_dec_secret s else hs_enc_secret s) epoch of
       None \<Rightarrow> cb direction epoch None
     | Some secret \<Rightarrow>
         (case hs_session s of
            None \<Rightarrow> raise AssertionError
          | Some session \<Rightarrow>
              (case s_cipher_suite session of
                 None \<Rightarrow> raise AssertionError
               | Some cs \<Rightarrow>
                   bnd (lift_result (session_protocol_version session)) (\<lambda>v.
                   cb direction epoch (Some \<lparr>tr_version = v, tr_cipher_suite = cs,
                     tr_client_random = hs_client_random s, tr_server_random = hs_server_random s,
                     tr_secret = secret, tr_enc_key = None, tr_mac_key = None, tr_fixed_iv = None,
                     tr_encrypt_then_mac = False\<rparr>)))))"

text \<open>The hash number and the algorithm for the TLS 1.2 PRF, or those of the older versions.\<close>

definition prf_algorithm :: "int \<Rightarrow> cipher_suite \<Rightarrow> (int \<times> HashAlgorithm option) result" where
  "prf_algorithm version cs =
     (if version = ver V_TLSv1_2
      then rbind (get_algorithm (hash_id (cipher_suite.prf_hash cs))) (\<lambda>a. Inr (hash_id (cipher_suite.prf_hash cs), Some a))
      else Inr (UNSPECIFIED, None))"

text \<open>
  \<open>transcript\<close> is a copy, or \<open>None\<close> for the seed from the two randoms.  (A digest changes nothing but
  the cache of the copy.)
\<close>

definition hs_derive_secret ::
    "crypto \<Rightarrow> bytes \<Rightarrow> bytes \<Rightarrow> Transcript option \<Rightarrow> ('a TLSHandshake_scheme, bytes) action" where
  "hs_derive_secret cr premaster_secret label transcript = bnd get_state (\<lambda>s.
     case hs_cipher_suite s of
       None \<Rightarrow> raise AssertionError
     | Some cs \<Rightarrow>
         bnd (lift_result (prf_algorithm (hs_version s) cs)) (\<lambda>(hash_algorithm, algorithm).
         bnd (case transcript of
                None \<Rightarrow> ret (hs_client_random s @ hs_server_random s)
              | Some t \<Rightarrow> lift_result (fst (Transcript_digest cr hash_algorithm t))) (\<lambda>seed.
         lift_result (tls_prf cr premaster_secret label seed 48 algorithm))))"

definition derive_finished_verify_data ::
    "crypto \<Rightarrow> bytes \<Rightarrow> bytes \<Rightarrow> ('a TLSHandshake_scheme, bytes) action" where
  "derive_finished_verify_data cr secret label = bnd get_state (\<lambda>s.
     bnd (if hs_version s = ver V_TLSv1_2 then
            (case hs_cipher_suite s of
               None \<Rightarrow> raise AssertionError
             | Some cs \<Rightarrow> lift_result (prf_algorithm (hs_version s) cs))
          else ret (UNSPECIFIED, None)) (\<lambda>(hash_algorithm, algorithm).
     bnd (on_transcript (Transcript_digest cr hash_algorithm)) (\<lambda>seed.
     lift_result (tls_prf cr secret label seed 12 algorithm))))"

definition mac_key_length :: "crypto \<Rightarrow> cipher_suite \<Rightarrow> nat result" where
  "mac_key_length cr cs =
     (if aead cs then Inr 0
      else case digest cs of
        None \<Rightarrow> Inl AlertInternalError
      | Some d \<Rightarrow> rbind (get_algorithm (hash_id d)) (\<lambda>a. Inr (hash_digest_size cr a)))"

text \<open>The six keys of a key block, in the order of RFC 5246, section 6.3.\<close>

definition split_key_block ::
    "nat \<Rightarrow> nat \<Rightarrow> nat \<Rightarrow> bytes \<Rightarrow> ((bytes \<times> bytes \<times> bytes) \<times> bytes \<times> bytes \<times> bytes) result" where
  "split_key_block mac_len key_len iv_len = run_parser (
     bnd (read_bytes (int mac_len)) (\<lambda>cl_mac.
     bnd (read_bytes (int mac_len)) (\<lambda>sv_mac.
     bnd (read_bytes (int key_len)) (\<lambda>cl_key.
     bnd (read_bytes (int key_len)) (\<lambda>sv_key.
     bnd (read_bytes (int iv_len)) (\<lambda>cl_iv.
     bnd (read_bytes (int iv_len)) (\<lambda>sv_iv.
     ret ((cl_mac, cl_key, cl_iv), (sv_mac, sv_key, sv_iv)))))))))"

definition derive_key :: "crypto \<Rightarrow> bytes \<Rightarrow> ('a TLSHandshake_scheme, unit) action" where
  "derive_key cr secret = bnd get_state (\<lambda>s.
     case hs_cipher_suite s of
       None \<Rightarrow> raise AssertionError
     | Some cs \<Rightarrow>
         bnd protocol_version (\<lambda>version.
         bnd (lift_result (prf_algorithm version cs)) (\<lambda>(_, algorithm).
         bnd (lift_result (get_key_iv_lens cs)) (\<lambda>(key_len, iv_len).
         bnd (lift_result (mac_key_length cr cs)) (\<lambda>mac_len.
         bnd (lift_result (tls_prf cr secret (ascii ''key expansion'')
                (hs_server_random s @ hs_client_random s)
                (mac_len * 2 + key_len * 2 + iv_len * 2) algorithm)) (\<lambda>key_block.
         bnd (lift_result (split_key_block mac_len key_len iv_len key_block)) (\<lambda>(cl, sv).
         let (r, w) = (if hs_is_server s then (cl, sv) else (sv, cl));
             context = (\<lambda>(mac, key, iv). \<lparr>tr_version = version, tr_cipher_suite = cs,
               tr_client_random = hs_client_random s, tr_server_random = hs_server_random s,
               tr_secret = secret, tr_enc_key = Some key, tr_mac_key = Some mac, tr_fixed_iv = Some iv,
               tr_encrypt_then_mac = hs_encrypt_then_mac s\<rparr>)
         in modify (\<lambda>s. s\<lparr>hs_read_traffic := Some (context r), hs_write_traffic := Some (context w)\<rparr>))))))))"

definition derive_secret_tls13 ::
    "crypto \<Rightarrow> Direction \<Rightarrow> Epoch \<Rightarrow> bytes \<Rightarrow> Transcript \<Rightarrow> ('a TLSHandshake_scheme, unit) action" where
  "derive_secret_tls13 cr direction epoch label transcript = bnd (gets hs_key_schedule) (\<lambda>k.
     case k of
       None \<Rightarrow> raise AssertionError
     | Some ks \<Rightarrow>
         bnd (lift_result (fst (derive_secret cr ks label transcript))) (\<lambda>secret.
         if direction = DIR_WRITE
         then modify (\<lambda>s. s\<lparr>hs_enc_secret := (hs_enc_secret s)(epoch \<mapsto> secret)\<rparr>)
         else modify (\<lambda>s. s\<lparr>hs_dec_secret := (hs_dec_secret s)(epoch \<mapsto> secret)\<rparr>)))"

definition derive_upd_secret_tls13 ::
    "crypto \<Rightarrow> ('a TLSHandshake_scheme) setup_cb \<Rightarrow> Direction \<Rightarrow> ('a TLSHandshake_scheme, unit) action" where
  "derive_upd_secret_tls13 cr cb direction = bnd get_state (\<lambda>s.
     case hs_key_schedule s of
       None \<Rightarrow> raise AssertionError
     | Some ks \<Rightarrow>
         thn (case (if direction = DIR_WRITE then hs_enc_secret s else hs_dec_secret s) EPOCH_APPLICATION_DATA of
                None \<Rightarrow> raise KeyError
              | Some secret \<Rightarrow>
                  bnd (lift_result (upd_secret cr ks secret)) (\<lambda>new_secret.
                  if direction = DIR_WRITE
                  then modify (\<lambda>s. s\<lparr>hs_enc_secret := (hs_enc_secret s)(EPOCH_APPLICATION_DATA \<mapsto> new_secret)\<rparr>)
                  else modify (\<lambda>s. s\<lparr>hs_dec_secret := (hs_dec_secret s)(EPOCH_APPLICATION_DATA \<mapsto> new_secret)\<rparr>)))
         (hs_setup_traffic_tls13 cb direction EPOCH_APPLICATION_DATA))"

definition write_key_update :: "int \<Rightarrow> ('a TLSHandshake_scheme, unit) action" where
  "write_key_update message_type =
     thn (raise_if (message_type \<noteq> ku KU_UPDATE_NOT_REQUESTED \<and> message_type \<noteq> ku KU_UPDATE_REQUESTED) ValueError)
     (bnd protocol_version (\<lambda>v.
     thn (raise_if (v < ver V_TLSv1_3) ValueError)
     (add_message (KeyUpdate message_type) False)))"

definition get_new_session :: "int \<Rightarrow> ('a TLSHandshake_scheme, TLSSession) action" where
  "get_new_session now = bnd protocol_version (\<lambda>version. bnd (gets hs_is_server) (\<lambda>is_server.
     ret ((TLSSession_init now)\<lparr>s_is_server := is_server, s_version := version, s_not_resumable := True\<rparr>)))"

subsection \<open>Certificates and signatures\<close>

definition create_certificate :: "Credential option \<Rightarrow> message" where
  "create_certificate credential = Certificate
     (case credential of None \<Rightarrow> [] | Some c \<Rightarrow> cred_certificate c # cred_certificate_chain c)"

definition create_certificate_tls13 ::
    "compression_libs \<Rightarrow> Credential option \<Rightarrow> bytes \<Rightarrow> int option \<Rightarrow> message result" where
  "create_certificate_tls13 libs credential ctx compression =
     (let cert_entries = (case credential of
            None \<Rightarrow> []
          | Some c \<Rightarrow> map (\<lambda>cert. \<lparr>ce_certificate = cert, ce_extensions = []\<rparr>)
              (cred_certificate c # cred_certificate_chain c));
          certificate = \<lparr>c13_context = ctx, certificate_entries = cert_entries\<rparr>
      in case compression of
        Some alg \<Rightarrow>
          if cert_entries \<noteq> [] then
            (case from_certificate libs alg certificate of
               Inr c \<Rightarrow> Inr (CompressedCertificate c)
             | Inl e \<Rightarrow> Inl (if e = UnsupportedCompression then AlertInternalError else e))
          else Inr (CertificateTLS13 certificate)
      | None \<Rightarrow> Inr (CertificateTLS13 certificate))"

primrec get_pubkey_cert_type :: "BasePublicKey \<Rightarrow> int" where
  "get_pubkey_cert_type (RSAPublicKey k) = cct CCT_RSA_SIGN"
| "get_pubkey_cert_type (ECPublicKey c k) = cct CCT_ECDSA_SIGN"
| "get_pubkey_cert_type (Ed25519PublicKey k) = cct CCT_ECDSA_SIGN"
| "get_pubkey_cert_type (Ed448PublicKey k) = cct CCT_ECDSA_SIGN"
| "get_pubkey_cert_type (DSAPublicKey k) = cct CCT_DSS_SIGN"

primrec get_pubkey_auth :: "BasePublicKey \<Rightarrow> Authentication" where
  "get_pubkey_auth (RSAPublicKey k) = AUTH_RSA"
| "get_pubkey_auth (ECPublicKey c k) = AUTH_ECDSA"
| "get_pubkey_auth (Ed25519PublicKey k) = AUTH_ECDSA"
| "get_pubkey_auth (Ed448PublicKey k) = AUTH_ECDSA"
| "get_pubkey_auth (DSAPublicKey k) = AUTH_DSS"

text \<open>The object identifiers of \<open>PublicKeyAlgorithmOID\<close>.\<close>

definition OID_RSAES_PKCS1_v1_5 :: string where "OID_RSAES_PKCS1_v1_5 = ''1.2.840.113549.1.1.1''"
definition OID_RSASSA_PSS :: string where "OID_RSASSA_PSS = ''1.2.840.113549.1.1.10''"
definition OID_DSA :: string where "OID_DSA = ''1.2.840.10040.4.1''"
definition OID_EC_PUBLIC_KEY :: string where "OID_EC_PUBLIC_KEY = ''1.2.840.10045.2.1''"
definition OID_ED25519 :: string where "OID_ED25519 = ''1.3.101.112''"
definition OID_ED448 :: string where "OID_ED448 = ''1.3.101.113''"

definition sigalgs_for_pubkey ::
    "int \<Rightarrow> BasePublicKey \<Rightarrow> string \<Rightarrow> int list option \<Rightarrow> (int option \<times> int list) result" where
  "sigalgs_for_pubkey version pubkey public_key_oid supported_sigalgs =
     rbind (if public_key_oid = OID_RSAES_PKCS1_v1_5 then
              (case pubkey of
                 RSAPublicKey _ \<Rightarrow>
                   Inr (if version \<ge> ver V_TLSv1_3 then (None, RSA_PSS_RSAE_SIGNATURE_ALGORITHMS)
                        else if version = ver V_TLSv1_2
                        then (Some (ss SS_RSA_PKCS1_SHA1),
                              RSA_PKCS1_SIGNATURE_ALGORITHMS @ RSA_PSS_RSAE_SIGNATURE_ALGORITHMS)
                        else (Some UNSPECIFIED, RSA_PKCS1_SIGNATURE_ALGORITHMS))
               | _ \<Rightarrow> Inl AlertInternalError)
            else if public_key_oid = OID_RSASSA_PSS then
              (case pubkey of
                 RSAPublicKey _ \<Rightarrow>
                   Inr (None, if version \<ge> ver V_TLSv1_2 then RSA_PSS_PSS_SIGNATURE_ALGORITHMS else [])
               | _ \<Rightarrow> Inl AlertInternalError)
            else if public_key_oid = OID_DSA then
              (case pubkey of
                 DSAPublicKey _ \<Rightarrow>
                   Inr (if version \<le> ver V_TLSv1_2 then (Some (ss SS_DSA_SHA1), DSA_SIGNATURE_ALGORITHMS)
                        else (None, []))
               | _ \<Rightarrow> Inl AlertInternalError)
            else if public_key_oid = OID_EC_PUBLIC_KEY then
              (case pubkey of
                 ECPublicKey curve _ \<Rightarrow>
                   if version \<ge> ver V_TLSv1_3 then
                     rbind (get_curve_group_id curve) (\<lambda>group_id.
                     Inr (None,
                       if group_id = ng NG_SECP256R1 then [ss SS_ECDSA_SECP256R1_SHA256]
                       else if group_id = ng NG_SECP384R1 then [ss SS_ECDSA_SECP384R1_SHA384]
                       else if group_id = ng NG_SECP521R1 then [ss SS_ECDSA_SECP521R1_SHA512]
                       else []))
                   else Inr (Some (ss SS_ECDSA_SHA1), ECDSA_SIGNATURE_ALGORITHMS)
               | _ \<Rightarrow> Inl AlertInternalError)
            else if public_key_oid = OID_ED25519 then
              (case pubkey of
                 Ed25519PublicKey _ \<Rightarrow>
                   Inr (if version \<ge> ver V_TLSv1_2 then (Some (ss SS_ED25519), [ss SS_ED25519]) else (None, []))
               | _ \<Rightarrow> Inl AlertInternalError)
            else if public_key_oid = OID_ED448 then
              (case pubkey of
                 Ed448PublicKey _ \<Rightarrow>
                   Inr (if version \<ge> ver V_TLSv1_2 then (Some (ss SS_ED448), [ss SS_ED448]) else (None, []))
               | _ \<Rightarrow> Inl AlertInternalError)
            else Inr (None, [])) (\<lambda>(default_sigalg, sigalgs).
     Inr (default_sigalg,
       case supported_sigalgs of Some xs \<Rightarrow> [s \<leftarrow> xs. s \<in> set sigalgs] | None \<Rightarrow> []))"

definition get_sigalg_tls1 :: "int \<Rightarrow> BasePublicKey \<Rightarrow> string \<Rightarrow> int result" where
  "get_sigalg_tls1 version pubkey public_key_oid =
     (if version > ver V_TLSv1_1 then Inl AssertionError
      else rbind (sigalgs_for_pubkey version pubkey public_key_oid None) (\<lambda>(default_verify_alg, _).
        case default_verify_alg of Some a \<Rightarrow> Inr a | None \<Rightarrow> Inl AlertIllegalParameter))"

definition verify_sigalg_tls12 ::
    "int \<Rightarrow> BasePublicKey \<Rightarrow> string \<Rightarrow> int \<Rightarrow> int list \<Rightarrow> unit result" where
  "verify_sigalg_tls12 version pubkey public_key_oid signature_algorithm supported_sigalgs =
     (if version < ver V_TLSv1_2 then Inl AssertionError
      else rbind (sigalgs_for_pubkey version pubkey public_key_oid (Some supported_sigalgs))
        (\<lambda>(_, valid_sigalgs).
        if signature_algorithm \<notin> set valid_sigalgs then Inl AlertIllegalParameter else Inr ()))"

text \<open>The object identifiers of the two extensions and of the two purposes.\<close>

definition ExtensionOID_SUBJECT_ALTERNATIVE_NAME :: string where
  "ExtensionOID_SUBJECT_ALTERNATIVE_NAME = ''2.5.29.17''"
definition ExtensionOID_EXTENDED_KEY_USAGE :: string where "ExtensionOID_EXTENDED_KEY_USAGE = ''2.5.29.37''"
definition EKU_SERVER_AUTH :: string where "EKU_SERVER_AUTH = ''1.3.6.1.5.5.7.3.1''"
definition EKU_CLIENT_AUTH :: string where "EKU_CLIENT_AUTH = ''1.3.6.1.5.5.7.3.2''"

text \<open>The two validators as callbacks of a policy: they look at the value of the extension.\<close>

definition san_validator :: "bytes \<Rightarrow> validator" where
  "san_validator hostname certificate extension =
     (case extension of Some (SubjectAlternativeNameExt san) \<Rightarrow> SANValidator hostname san | _ \<Rightarrow> Inl TypeError)"

definition eku_validator :: "string \<Rightarrow> validator" where
  "eku_validator purpose certificate extension =
     (case extension of Some (ExtendedKeyUsage eku) \<Rightarrow> EKUValidator purpose eku | _ \<Rightarrow> Inl TypeError)"

definition verify_x509_policy :: "bool \<Rightarrow> bool \<Rightarrow> bytes option \<Rightarrow> ExtensionPolicy" where
  "verify_x509_policy is_server check_hostname hostname =
     (let purpose = (if is_server then EKU_CLIENT_AUTH else EKU_SERVER_AUTH);
          ee_policy = (case hostname of
            Some name \<Rightarrow>
              if \<not> is_server \<and> check_hostname \<and> name \<noteq> []
              then require_present defaults_ee ExtensionOID_SUBJECT_ALTERNATIVE_NAME (Some (san_validator name))
              else defaults_ee
          | None \<Rightarrow> defaults_ee)
      in require_present ee_policy ExtensionOID_EXTENDED_KEY_USAGE (Some (eku_validator purpose)))"

definition verification_alert :: "exn \<Rightarrow> exn" where
  "verification_alert e =
     (if e = CertificateExpired \<or> e = CertificateNotYetValid then AlertCertificateExpired
      else if e = UntrustedRoot then AlertUnknownCA
      else if is_VerificationError e then AlertBadCertificate else e)"

text \<open>The session is an object of the caller's: its new value is returned.\<close>

definition verify_x509 ::
    "cert_lib \<Rightarrow> (nat \<Rightarrow> int) \<Rightarrow> TLSSession \<Rightarrow> bytes option \<Rightarrow> ('a TLSHandshake_scheme, TLSSession) action" where
  "verify_x509 L now session hostname = bnd get_state (\<lambda>s.
     case (s_peer_cert session, s_peer_chain session) of
       (Some peer_cert, Some peer_chain) \<Rightarrow>
         let configuration = st_configuration (hs_settings s) in
         (case cfg_castore configuration of
            None \<Rightarrow> raise AlertUnknownCA
          | Some castore \<Rightarrow>
              bnd (lift_result (Verifier_init castore 8 False
                     (Some (verify_x509_policy (hs_is_server s) (cfg_check_hostname configuration) hostname))
                     (Some defaults_ca))) (\<lambda>verifier.
              bnd (lift_result (case verifier_verify L verifier now peer_cert peer_chain of
                     Inr certs \<Rightarrow> Inr certs
                   | Inl e \<Rightarrow> Inl (verification_alert e))) (\<lambda>certs.
              ret (session\<lparr>s_verified_peer_cert := Some (hd certs), s_verified_peer_chain := Some (tl certs)\<rparr>))))
     | _ \<Rightarrow> raise AssertionError)"

text \<open>\<open>except ValueError as exc: raise AlertBadCertificate\<close> around the loading of a chain.\<close>

primrec load_chain :: "x509_lib \<Rightarrow> bytes list \<Rightarrow> x509_certificate list result" where
  "load_chain lib [] = Inr []"
| "load_chain lib (d # ds) =
     (case load_der_fn lib d of
        None \<Rightarrow> Inl AlertBadCertificate
      | Some c \<Rightarrow> rbind (load_chain lib ds) (\<lambda>cs. Inr (c # cs)))"

text \<open>The session is an object of the caller's: the new value is returned with the message.\<close>

definition process_certificate ::
    "x509_lib \<Rightarrow> TLSSession \<Rightarrow> bool \<Rightarrow> ('a TLSHandshake_scheme, message \<times> TLSSession) action" where
  "process_certificate lib session allow_anon =
     bnd (parse_as Certificate_msg) (\<lambda>m.
     case m of
       Certificate cert_chain \<Rightarrow>
         if cert_chain = [] then
           thn (raise_if (\<not> allow_anon) AlertCertificateRequired) (ret (m, session))
         else
           bnd (lift_result (load_chain lib cert_chain)) (\<lambda>certs.
           ret (m, session\<lparr>s_peer_cert := Some (hd certs), s_peer_chain := Some (tl certs)\<rparr>))
     | _ \<Rightarrow> raise TypeError)"

definition process_certificate_tls13 ::
    "compression_libs \<Rightarrow> x509_lib \<Rightarrow> TLSSession \<Rightarrow> bool \<Rightarrow> bool \<Rightarrow>
     ('a TLSHandshake_scheme, message \<times> TLSSession) action" where
  "process_certificate_tls13 libs lib session allow_anon compression_supported = bnd get_state (\<lambda>s.
     case hs_cache s of
       None \<Rightarrow> raise AssertionError
     | Some h \<Rightarrow>
         bnd (if h_type h = ht HT_COMPRESSED_CERTIFICATE then
                thn (raise_if (\<not> compression_supported) AlertUnexpectedMessage)
                (bnd (parse_as CompressedCertificate_msg) (\<lambda>m.
                 case m of
                   CompressedCertificate c \<Rightarrow>
                     thn (raise_if (cc_compression c \<notin> set (st_certificate_compressions (hs_settings s)))
                            AlertIllegalParameter)
                     (bnd (lift_result (case to_certificate libs c of
                         Inr x \<Rightarrow> Inr x
                       | Inl e \<Rightarrow> Inl (if e = ValueError then AlertBadCertificate
                           else if e = UnsupportedCompression then AlertInternalError else e))) (\<lambda>certificate.
                     ret (certificate, m)))
                 | _ \<Rightarrow> raise TypeError))
              else
                bnd (parse_as CertificateTLS13_msg) (\<lambda>m.
                case m of CertificateTLS13 certificate \<Rightarrow> ret (certificate, m) | _ \<Rightarrow> raise TypeError))
           (\<lambda>(certificate, m).
         case certificate_entries certificate of
           [] \<Rightarrow> thn (raise_if (\<not> allow_anon) AlertCertificateRequired)
                   (ret (CertificateTLS13 certificate, session))
         | cert_entry # rest \<Rightarrow>
             bnd (lift_result (load_chain lib (map ce_certificate (cert_entry # rest)))) (\<lambda>certs.
             bnd (lift_result (Extensions_get StatusRequestCert_class (ce_extensions cert_entry))) (\<lambda>cert_status.
             ret (m, session\<lparr>s_peer_cert := Some (hd certs), s_peer_chain := Some (tl certs),
               s_ocsp_response := (case cert_status of
                 Some (StatusRequestCertExtension response) \<Rightarrow> Some response | _ \<Rightarrow> None)\<rparr>)))))"

text \<open>\<open>load_certificate_public_key\<close>, with \<open>except (ValueError, TypeError)\<close> of its caller.\<close>

definition load_certificate_public_key :: "x509_lib \<Rightarrow> x509_certificate \<Rightarrow> BasePublicKey result" where
  "load_certificate_public_key lib cert = rbind (cert_public_key_fn lib cert) map_public_key"

definition process_certificate_verify ::
    "crypto \<Rightarrow> asym \<Rightarrow> x509_lib \<Rightarrow> TLSSession \<Rightarrow> message \<Rightarrow> int list \<Rightarrow> ('a TLSHandshake_scheme, unit) action" where
  "process_certificate_verify cr a lib session cert_verify supported_sigalgs =
     (case s_peer_cert session of
        None \<Rightarrow> raise AssertionError
      | Some peer_cert \<Rightarrow>
          let signature = (case cert_verify of CertificateVerify d \<Rightarrow> d
                           | CertificateVerifyTLS12 c \<Rightarrow> cv12_signature c | _ \<Rightarrow> [])
          in
          thn (raise_if (signature = []) AlertIllegalParameter)
          (bnd protocol_version (\<lambda>version.
          bnd (lift_result (case load_certificate_public_key lib peer_cert of
                 Inr k \<Rightarrow> Inr k
               | Inl e \<Rightarrow> Inl (if e = ValueError \<or> e = TypeError then AlertHandshakeFailure else e)))
            (\<lambda>peer_public_key.
          bnd (lift_result (if version \<ge> ver V_TLSv1_2 then
                 (case cert_verify of
                    CertificateVerifyTLS12 c \<Rightarrow>
                      rbind (verify_sigalg_tls12 version peer_public_key (cert_oid_fn lib peer_cert)
                               (cv12_signature_algorithm c) supported_sigalgs) (\<lambda>_.
                      Inr (cv12_signature_algorithm c))
                  | _ \<Rightarrow> Inl TypeError)
               else get_sigalg_tls1 version peer_public_key (cert_oid_fn lib peer_cert))) (\<lambda>verify_alg.
          bnd get_state (\<lambda>s.
          bnd (if version \<ge> ver V_TLSv1_3 then
                 (case hs_key_schedule s of
                    None \<Rightarrow> raise AssertionError
                  | Some ks \<Rightarrow> on_transcript (certificate_verify_data cr ks
                      (if hs_is_server s then TLS13_CLIENT_CONTEXT_STRING else TLS13_SERVER_CONTEXT_STRING)))
               else on_transcript Transcript_get) (\<lambda>data.
          lift_result (case key_verify a cr peer_public_key signature data verify_alg of
              Inr u \<Rightarrow> Inr u
            | Inl e \<Rightarrow> Inl (if e = InvalidSignature then AlertDecryptError else e)))))))))"

end
