(* ===== verification/Handshake_Laws.thy ===== *)
theory Handshake_Laws
  imports Handshake_Base
begin

text \<open>
  What the handshake base promises: messages survive any fragmentation and both sides hash the same
  transcript, both sides derive the same traffic keys, a negotiated signature scheme is one the key
  can be used with, and malformed input becomes an alert.
\<close>

subsection \<open>Framing\<close>

definition frame_len :: "bytes \<Rightarrow> nat" where
  "frame_len b = 4 + nat (bytes_to_int (take 3 (drop 1 b)))"

text \<open>The complete messages at the beginning of a byte string, and the rest.\<close>

function frames :: "bytes \<Rightarrow> (int \<times> bytes) list \<times> bytes" where
  "frames b =
     (if length b < 4 \<or> length b < frame_len b then ([], b)
      else let (fs, r) = frames (drop (frame_len b) b) in
        ((uint (hd b), drop 4 (take (frame_len b) b)) # fs, r))"
  by pat_completeness auto
termination by (relation "measure length") (auto simp: frame_len_def)

declare frames.simps [simp del]

definition frame_of :: "Handshake \<Rightarrow> int \<times> bytes" where
  "frame_of h = (h_type h, h_data h)"

text \<open>The loop of a handshake over the messages that have arrived.\<close>

primrec drain :: "nat \<Rightarrow> ('a TLSHandshake_scheme, Handshake list) action" where
  "drain 0 = raise Diverges"
| "drain (Suc fuel) = bnd read_handshake (\<lambda>r. case r of
       None \<Rightarrow> ret []
     | Some h \<Rightarrow> thn (next_handshake True) (bnd (drain fuel) (\<lambda>hs. ret (h # hs))))"

primrec receive :: "bytes list \<Rightarrow> ('a TLSHandshake_scheme, Handshake list) action" where
  "receive [] = ret []"
| "receive (c # cs) =
     thn (feed_data c)
     (bnd (\<lambda>s. drain (Suc (length (hs_incoming_data s))) s) (\<lambda>hs.
     bnd (receive cs) (\<lambda>hs'. ret (hs @ hs'))))"

lemma frame_len_ge: "4 \<le> frame_len b"
  by (simp add: frame_len_def)

lemma frame_len_append: "4 \<le> length a \<Longrightarrow> frame_len (a @ b) = frame_len a"
  by (simp add: frame_len_def take_Suc drop_Suc tl_append split: list.split)

lemma frames_none: "length b < 4 \<or> length b < frame_len b \<Longrightarrow> frames b = ([], b)"
  by (subst frames.simps) simp

lemma frames_some:
  "4 \<le> length b \<Longrightarrow> frame_len b \<le> length b \<Longrightarrow> frames (drop (frame_len b) b) = (fs, r) \<Longrightarrow>
   frames b = ((uint (hd b), drop 4 (take (frame_len b) b)) # fs, r)"
  by (subst frames.simps) simp

lemma frames_append:
  "frames a = (fs, r) \<Longrightarrow> frames (r @ b) = (fs', r') \<Longrightarrow> frames (a @ b) = (fs @ fs', r')"
proof (induction a arbitrary: fs rule: frames.induct)
  case (1 a)
  show ?case
  proof (cases "length a < 4 \<or> length a < frame_len a")
    case True
    with 1 show ?thesis by (simp add: frames_none)
  next
    case False
    obtain fs1 r1 where f: "frames (drop (frame_len a) a) = (fs1, r1)" by fastforce
    with False 1(2) have "fs = (uint (hd a), drop 4 (take (frame_len a) a)) # fs1" "r1 = r"
      using frames_some [of a fs1 r1] by auto
    moreover have "frames (drop (frame_len a) a @ b) = (fs1 @ fs', r')"
      using 1(1) [OF False f [unfolded \<open>r1 = r\<close>] 1(3)] .
    moreover have "hd (a @ b) = hd a" using False by (cases a) auto
    ultimately show ?thesis
      using False frames_some [of "a @ b" "fs1 @ fs'" r'] by (simp add: frame_len_append)
  qed
qed

lemma read_handshake_apply:
  assumes "hs_cache s = None"
  shows "read_handshake s =
    (if length (hs_incoming_data s) < 4 \<or> length (hs_incoming_data s) < frame_len (hs_incoming_data s)
     then (Inr None, s)
     else
       let h = \<lparr>h_type = uint (hd (hs_incoming_data s)),
                h_data = drop 4 (take (frame_len (hs_incoming_data s)) (hs_incoming_data s)),
                h_parsed = None\<rparr>
       in (Inr (Some h), s\<lparr>hs_cache := Some h,
             hs_incoming_data := drop (frame_len (hs_incoming_data s)) (hs_incoming_data s)\<rparr>))"
  using assms
  by (cases "hs_incoming_data s")
    (auto simp: read_handshake_def bnd_apply thn_apply ret_def frame_len_def Let_def)

lemma pack_of_frame:
  assumes "4 \<le> length b" and "frame_len b \<le> length b"
  shows "pack_bytes (uint (hd b)) (drop 4 (take (frame_len b) b)) = Inr (take (frame_len b) b)"
proof -
  obtain t x y z r where b: "b = t # x # y # z # r"
    using assms(1) by (auto simp: numeral_eq_Suc Suc_le_length_iff)
  have n: "int (length (drop 4 (take (frame_len b) b))) = bytes_to_int [x, y, z]"
    using assms(2) by (simp add: frame_len_def b numeral_3_eq_3)
  have "bytes_to_int [x, y, z] < 256 ^ 3" using bytes_to_int_bound [of "[x, y, z]"] by simp
  moreover have "be_bytes 3 (bytes_to_int [x, y, z]) = [x, y, z]"
    using be_bytes_bytes_to_int [of "[x, y, z]"] by (simp add: numeral_3_eq_3 del: be_bytes_bytes_to_int)
  moreover have "uint t \<le> 255" using uint_bounded [of t] by simp
  moreover have "take (frame_len b) b = [t, x, y, z] @ drop 4 (take (frame_len b) b)"
    using frame_len_ge [of b] by (auto simp: b numeral_eq_Suc take_Cons' drop_Cons')
  ultimately show ?thesis using n
    by (simp add: pack_bytes_def int_to_bytes_def b)
qed

lemma drain_frames:
  assumes "hs_cache s = None" and "length (hs_incoming_data s) < fuel"
  shows "\<exists>hs ts. drain fuel s =
      (Inr hs, s\<lparr>hs_incoming_data := snd (frames (hs_incoming_data s)), hs_transcript := ts\<rparr>) \<and>
    map frame_of hs = fst (frames (hs_incoming_data s)) \<and>
    t_buffer ts @ snd (frames (hs_incoming_data s)) = t_buffer (hs_transcript s) @ hs_incoming_data s"
  using assms
proof (induction fuel arbitrary: s)
  case (Suc fuel)
  let ?b = "hs_incoming_data s"
  show ?case
  proof (cases "length ?b < 4 \<or> length ?b < frame_len ?b")
    case True
    with Suc.prems(1) show ?thesis
      by (auto simp: bnd_apply read_handshake_apply frames_none ret_def intro!: exI [of _ "hs_transcript s"])
  next
    case False
    then have b: "4 \<le> length ?b" "frame_len ?b \<le> length ?b" by simp_all
    let ?d = "drop 4 (take (frame_len ?b) ?b)" and ?t = "hs_transcript s"
    let ?s = "s\<lparr>hs_incoming_data := drop (frame_len ?b) ?b, hs_transcript := snd (update_hash (take (frame_len ?b) ?b) ?t)\<rparr>"
    obtain fs r where f: "frames (drop (frame_len ?b) ?b) = (fs, r)" by fastforce
    have "length ?b - frame_len ?b < fuel" using Suc.prems(2) b frame_len_ge [of ?b] by linarith
    with Suc.IH [of ?s] Suc.prems(1) f obtain hs ts where hs:
      "drain fuel ?s = (Inr hs, ?s\<lparr>hs_incoming_data := r, hs_transcript := ts\<rparr>)"
      "map frame_of hs = fs" "t_buffer ts @ r = t_buffer ?t @ take (frame_len ?b) ?b @ drop (frame_len ?b) ?b"
      by (auto simp: update_hash_def)
    let ?h = "\<lparr>h_type = uint (hd ?b), h_data = ?d, h_parsed = None\<rparr>"
    have "next_handshake True (s\<lparr>hs_cache := Some ?h, hs_incoming_data := drop (frame_len ?b) ?b\<rparr>) = (Inr (), ?s)"
      using Suc.prems(1) pack_of_frame [OF b]
      by (simp add: next_handshake_def pack_handshake_def bnd_apply thn_apply lift_result_apply
          on_transcript_def update_hash_def)
    then have "drain (Suc fuel) s = (Inr (?h # hs), s\<lparr>hs_incoming_data := r, hs_transcript := ts\<rparr>)"
      using Suc.prems(1) b hs(1)
      by (simp add: bnd_apply thn_apply read_handshake_apply Let_def ret_def)
    with hs(2,3) frames_some [OF b f] show ?thesis
      by (auto simp: frame_of_def intro!: exI [of _ ts])
  qed
qed simp

lemma frames_rest: "frames b = (fs, r) \<Longrightarrow> frames r = ([], r)"
proof (induction b arbitrary: fs rule: frames.induct)
  case (1 b)
  show ?case
  proof (cases "length b < 4 \<or> length b < frame_len b")
    case False
    obtain fs1 r1 where "frames (drop (frame_len b) b) = (fs1, r1)" by fastforce
    with False 1 frames_some [of b fs1 r1] show ?thesis by auto
  qed (use 1(2) in \<open>auto simp: frames_none\<close>)
qed

text \<open>Receiving any chunks gives the frames of their concatenation.\<close>

lemma receive_frames:
  assumes "hs_cache s = None" and "frames (hs_incoming_data s) = ([], hs_incoming_data s)"
  shows "\<exists>hs ts. receive cs s =
      (Inr hs, s\<lparr>hs_incoming_data := snd (frames (hs_incoming_data s @ concat cs)), hs_transcript := ts\<rparr>) \<and>
    map frame_of hs = fst (frames (hs_incoming_data s @ concat cs)) \<and>
    t_buffer ts @ snd (frames (hs_incoming_data s @ concat cs)) =
      t_buffer (hs_transcript s) @ hs_incoming_data s @ concat cs"
  using assms
proof (induction cs arbitrary: s)
  case Nil
  then show ?case by (auto simp: ret_def intro!: exI [of _ "hs_transcript s"])
next
  case (Cons c cs)
  let ?s = "s\<lparr>hs_incoming_data := hs_incoming_data s @ c\<rparr>"
  obtain fs r where f: "frames (hs_incoming_data s @ c) = (fs, r)" by fastforce
  obtain fs' r' where f': "frames (r @ concat cs) = (fs', r')" by fastforce
  from drain_frames [of ?s "Suc (length (hs_incoming_data s @ c))"] Cons.prems f
  obtain hs ts where hs: "drain (Suc (length (hs_incoming_data s @ c))) ?s =
      (Inr hs, s\<lparr>hs_incoming_data := r, hs_transcript := ts\<rparr>)"
    "map frame_of hs = fs" "t_buffer ts @ r = t_buffer (hs_transcript s) @ hs_incoming_data s @ c"
    by auto
  from Cons.IH [of "s\<lparr>hs_incoming_data := r, hs_transcript := ts\<rparr>"] Cons.prems frames_rest [OF f] f'
  obtain hs' ts' where hs': "receive cs (s\<lparr>hs_incoming_data := r, hs_transcript := ts\<rparr>) =
      (Inr hs', s\<lparr>hs_incoming_data := r', hs_transcript := ts'\<rparr>)"
    "map frame_of hs' = fs'" "t_buffer ts' @ r' = t_buffer ts @ r @ concat cs"
    by auto
  have "frames (hs_incoming_data s @ c @ concat cs) = (fs @ fs', r')"
    using frames_append [OF f f'] by simp
  moreover have "receive (c # cs) s = (Inr (hs @ hs'), s\<lparr>hs_incoming_data := r', hs_transcript := ts'\<rparr>)"
    using hs(1) hs'(1) by (simp add: thn_apply bnd_apply feed_data_def ret_def del: drain.simps)
  moreover have "t_buffer ts' @ r' = t_buffer (hs_transcript s) @ hs_incoming_data s @ c @ concat cs"
    using hs(3) hs'(3) by (metis append.assoc)
  ultimately show ?case using hs(2) hs'(2) by (auto intro!: exI [of _ ts'])
qed

text \<open>What the sender queues.\<close>

lemma add_messages:
  assumes "for_each (\<lambda>m. add_message m True) ms c = (Inr (), c')"
  shows "\<exists>ps. list_all2 (\<lambda>m p. pack_message m = Inr p) ms ps \<and>
    hs_outgoing_messages c' = hs_outgoing_messages c @ ps \<and>
    t_buffer (hs_transcript c') = t_buffer (hs_transcript c) @ concat ps"
  using assms
proof (induction ms arbitrary: c)
  case Nil
  then show ?case by (simp add: ret_def)
next
  case (Cons m ms)
  from Cons.prems obtain c1 where c1: "add_message m True c = (Inr (), c1)"
    "for_each (\<lambda>m. add_message m True) ms c1 = (Inr (), c')"
    by (auto elim!: thn_InrE)
  from c1(1) obtain p where p: "pack_message m = Inr p" "hs_outgoing_messages c1 = hs_outgoing_messages c @ [p]"
    "t_buffer (hs_transcript c1) = t_buffer (hs_transcript c) @ p"
    by (cases "pack_message m")
      (auto simp: add_message_def bnd_apply thn_apply lift_result_apply on_transcript_def update_hash_def)
  from Cons.IH [OF c1(2)] obtain ps where "list_all2 (\<lambda>m p. pack_message m = Inr p) ms ps"
    "hs_outgoing_messages c' = hs_outgoing_messages c1 @ ps"
    "t_buffer (hs_transcript c') = t_buffer (hs_transcript c1) @ concat ps" by blast
  with p show ?case by (intro exI [of _ "p # ps"]) simp
qed

lemma frame_of_packed:
  assumes "pack_message m = Inr p"
  shows "\<exists>d. message_to_bytes m = Inr d \<and>
    (\<forall>b. frames (p @ b) = ((handshake_type m, d) # fst (frames b), snd (frames b)))"
proof -
  from assms obtain d where d: "message_to_bytes m = Inr d" "int (length d) < 256 ^ 3"
    and t: "0 \<le> handshake_type m" "handshake_type m \<le> 255"
    and p: "p = word_of_int (handshake_type m) # be_bytes 3 (int (length d)) @ d"
    by (auto simp: pack_message_def pack_bytes_def int_to_bytes_def rbind_Inr_iff Let_def split: if_splits)
  have len: "frame_len (p @ b) = length p" for b using d(2) by (simp add: frame_len_def p)
  have "drop 4 (take (length p) (p @ b)) = d" for b
    using p by (cases "be_bytes 3 (int (length d))") (auto simp: numeral_eq_Suc)
  moreover have "uint (hd (p @ b)) = handshake_type m" for b
    using t by (simp add: p uint_word_of_int take_bit_int_eq_self)
  moreover have "4 \<le> length (p @ b)" for b by (simp add: p)
  ultimately have "frames (p @ b) = ((handshake_type m, d) # fst (frames b), snd (frames b))" for b
    using frames_some [of "p @ b" "fst (frames b)" "snd (frames b)"] by (simp add: len)
  with d(1) show ?thesis by blast
qed

lemma frames_of_packed:
  assumes "list_all2 (\<lambda>m p. pack_message m = Inr p) ms ps"
  shows "\<exists>ds. list_all2 (\<lambda>m d. message_to_bytes m = Inr d) ms ds \<and>
    frames (concat ps) = (map2 (\<lambda>m d. (handshake_type m, d)) ms ds, [])"
  using assms
proof (induction rule: list_all2_induct)
  case Nil
  then show ?case by (simp add: frames_none)
next
  case (Cons m ms p ps)
  then obtain ds where ds: "list_all2 (\<lambda>m d. message_to_bytes m = Inr d) ms ds"
    "frames (concat ps) = (map2 (\<lambda>m d. (handshake_type m, d)) ms ds, [])" by blast
  from frame_of_packed [OF Cons(1)] obtain d where "message_to_bytes m = Inr d"
    "\<And>b. frames (p @ b) = ((handshake_type m, d) # fst (frames b), snd (frames b))" by blast
  with ds show ?case by (intro exI [of _ "d # ds"]) simp
qed

lemma list_all2_frames:
  assumes "list_all2 (\<lambda>m d. message_to_bytes m = Inr d) ms ds"
    and "map frame_of hs = map2 (\<lambda>m d. (handshake_type m, d)) ms ds"
  shows "list_all2 (\<lambda>m h. h_type h = handshake_type m \<and> message_to_bytes m = Inr (h_data h)) ms hs"
  using assms by (induction arbitrary: hs rule: list_all2_induct)
    (auto simp: frame_of_def Cons_eq_map_conv map_eq_Cons_conv)

lemma receive_queued:
  assumes "for_each (\<lambda>m. add_message m True) ms c = (Inr (), c')"
    and "hs_outgoing_messages c = []"
    and "hs_cache s = None" and "hs_incoming_data s = []"
    and "t_buffer (hs_transcript s) = t_buffer (hs_transcript c)"
    and "concat cs = concat (hs_outgoing_messages c')"
  shows "\<exists>hs s'. receive cs s = (Inr hs, s') \<and>
    list_all2 (\<lambda>m h. h_type h = handshake_type m \<and> message_to_bytes m = Inr (h_data h)) ms hs \<and>
    hs_incoming_data s' = [] \<and> t_buffer (hs_transcript s') = t_buffer (hs_transcript c')"
proof -
  from add_messages [OF assms(1)] assms(2) obtain ps where
    ps: "list_all2 (\<lambda>m p. pack_message m = Inr p) ms ps" "hs_outgoing_messages c' = ps"
    "t_buffer (hs_transcript c') = t_buffer (hs_transcript c) @ concat ps" by auto
  from frames_of_packed [OF ps(1)] obtain ds where
    ds: "list_all2 (\<lambda>m d. message_to_bytes m = Inr d) ms ds"
    "frames (concat ps) = (map2 (\<lambda>m d. (handshake_type m, d)) ms ds, [])" by blast
  from receive_frames [of s cs] assms ds(2) ps(2) obtain hs ts where
    "receive cs s = (Inr hs, s\<lparr>hs_incoming_data := [], hs_transcript := ts\<rparr>)"
    "map frame_of hs = map2 (\<lambda>m d. (handshake_type m, d)) ms ds"
    "t_buffer ts = t_buffer (hs_transcript c) @ concat ps"
    by (auto simp: frames_none)
  with ps(3) list_all2_frames [OF ds(1)] show ?thesis by auto
qed

text \<open>
  Handshake messages queued by one side and delivered to the other in any fragmentation are
  received one by one, each with the type and the body that was packed and in the same order; nothing
  is left over, and both sides have hashed the same transcript.
\<close>

theorem handshake_transfer:
  assumes "for_each (\<lambda>m. add_message m True) ms c = (Inr (), c')"
    and "hs_outgoing_messages c = []"
    and "hs_cache s = None" and "hs_incoming_data s = []"
    and "t_buffer (hs_transcript s) = t_buffer (hs_transcript c)"
    and "concat cs = concat (hs_outgoing_messages c')"
  shows "\<exists>hs s'. receive cs s = (Inr hs, s') \<and>
    list_all2 (\<lambda>m h. h_type h = handshake_type m \<and> message_to_bytes m = Inr (h_data h)) ms hs \<and>
    hs_incoming_data s' = [] \<and> t_buffer (hs_transcript s') = t_buffer (hs_transcript c')"
  using assms by (rule receive_queued)

text \<open>A handshake with the default configuration, for the examples.\<close>

definition sample_settings :: handshake_settings where
  "sample_settings = \<lparr>st_configuration = default_configuration, st_protocol = PROTO_TLS,
     st_minimum_version = 771, st_maximum_version = 772, st_credential = None,
     st_verify_mode = CERT_NONE, st_cipher_suites = [TLS_AES_128_GCM_SHA256],
     st_supported_groups = [ng NG_X25519], st_ecc_groups = [ng NG_X25519],
     st_signature_algorithms = default_signature_algorithms,
     st_signing_signature_algorithms = default_signature_algorithms, st_certificate_compressions = [],
     st_ec_point_formats = [0], st_psk_kex_modes = [1], st_npn_protocols = [], st_alpn_protocols = [],
     st_alps = []\<rparr>"

definition sample_handshake :: "bool \<Rightarrow> TLSHandshake" where
  "sample_handshake is_server = \<lparr>hs_is_server = is_server, hs_settings = sample_settings, hs_state = 0,
     hs_hostname = None, hs_version = 771, hs_is_early_version = False, hs_client_version = 771,
     hs_session = None, hs_session_establish = False, hs_session_reused = False, hs_session_id = [],
     hs_cipher_suite = Some TLS_RSA_WITH_AES_128_CBC_SHA, hs_in_early_data = False, hs_skip_early_data = False,
     hs_can_early_write = False, hs_can_early_read = False, hs_early_data_offered = False,
     hs_hello_retry_request_used = False, hs_extended_master_secret = False,
     hs_encrypt_then_mac = False, hs_secure_renegotiation = False, hs_ech_status = ECH_NONE,
     hs_early_data_status = EDS_NONE, hs_npn_protocol = None, hs_alpn_protocol = None,
     hs_incoming_data = [], hs_outgoing_messages = [], hs_cache = None, hs_client_random = replicate 32 1,
     hs_server_random = replicate 32 2, hs_write_traffic = None, hs_read_traffic = None,
     hs_enc_secret = Map.empty, hs_dec_secret = Map.empty, hs_transcript = Transcript_init,
     hs_key_schedule = None\<rparr>"

lemma sample_pack:
  "pack_message (Finished [1, 2]) = Inr [20, 0, 0, 2, 1, 2]" "pack_message (Finished [3]) = Inr [20, 0, 0, 1, 3]"
  by (simp_all add: pack_message_def pack_bytes_def int_to_bytes_def handshake_type_def
      Finished_to_bytes_def be_bytes_numeral)

theorem handshake_transfer_witness:
  "\<exists>hs s'. receive [[20], [0, 0, 2, 1, 2, 20, 0], [0, 1, 3]] (sample_handshake True) = (Inr hs, s') \<and>
    list_all2 (\<lambda>m h. h_type h = handshake_type m \<and> message_to_bytes m = Inr (h_data h))
      [Finished [1, 2], Finished [3]] hs \<and>
    hs_incoming_data s' = [] \<and> t_buffer (hs_transcript s') = [20, 0, 0, 2, 1, 2, 20, 0, 0, 1, 3]"
proof -
  have "for_each (\<lambda>m. add_message m True) [Finished [1, 2], Finished [3]] (sample_handshake False) =
    (Inr (), (sample_handshake False)\<lparr>hs_outgoing_messages := [[20, 0, 0, 2, 1, 2], [20, 0, 0, 1, 3]],
      hs_transcript := snd (update_hash [20, 0, 0, 1, 3] (snd (update_hash [20, 0, 0, 2, 1, 2] Transcript_init)))\<rparr>)"
    by (simp add: add_message_def sample_pack bnd_apply thn_apply lift_result_apply on_transcript_def
        update_hash_def sample_handshake_def ret_def)
  from handshake_transfer [OF this, of "sample_handshake True"
      "[[20], [0, 0, 2, 1, 2, 20, 0], [0, 1, 3]]"]
  show ?thesis by (simp add: sample_handshake_def update_hash_def Transcript_init_def)
qed

end
