(* ===== verification/Record_Layer.thy ===== *)
theory Record_Layer
  imports Handshake_Base
begin

text \<open>
  The record layer and the connection: \<open>src/simple_tls/tls/connection.py\<close>.  \<open>TLSConnection\<close> extends
  the record of its handshake object by its own fields, so that a method of either is an action on
  one state.  The two \<open>MemoryBIO\<close> objects are the bytes they hold; the three scratch buffers have a
  fixed length and keep their contents between calls.

  The handshake object is a client's or a server's; its \<open>do_handshake\<close> is the argument \<open>hsk\<close> of the
  methods that call it.  The callback that informs the application is left out.  \<open>rnd\<close> is the random
  source.  Three loops can run for as long as the peer sends: they take fuel.
\<close>

subsection \<open>State\<close>

definition HEADER_LENGTH :: nat where "HEADER_LENGTH = 5"
definition MAX_WARNING_ALERTS :: int where "MAX_WARNING_ALERTS = 5"

record ConnectionState =
  cst_epoch :: Epoch
  cst_cipher :: "tls_cipher option"
  cst_record_splitting :: bool
  cst_hide_content_type :: bool
  cst_sequence_number :: int

definition ConnectionState_init :: "Epoch \<Rightarrow> tls_cipher option \<Rightarrow> ConnectionState" where
  "ConnectionState_init epoch cipher = \<lparr>cst_epoch = epoch, cst_cipher = cipher,
     cst_record_splitting = False, cst_hide_content_type = False, cst_sequence_number = 0\<rparr>"

record TLSConnection = TLSHandshake +
  cn_handshake_status :: Status
  cn_send_record_limit :: nat
  cn_recv_record_limit :: nat
  cn_inbio :: bytes
  cn_outbio :: bytes
  cn_header :: "bytes option"
  cn_read_buf :: bytes
  cn_write_buf :: bytes
  cn_temp_buf :: bytes
  cn_pending_flight :: bytes
  cn_pending_app_data :: bytes
  cn_write_shutdown :: Shutdown
  cn_read_shutdown :: Shutdown
  cn_write_state :: ConnectionState
  cn_read_state :: ConnectionState
  cn_early_data_ignored :: int
  cn_early_data_processed :: int
  cn_warning_alert_received :: int

definition TLSConnection_init :: "TLSHandshake \<Rightarrow> TLSConnection" where
  "TLSConnection_init handshake = TLSHandshake.extend handshake (TLSConnection.fields ST_OK
     (2 ^ 14) (2 ^ 14) [] [] None (replicate (2 ^ 14 + 2048) 0)
     (replicate (2 ^ 14 + 2 * (HEADER_LENGTH + 2048)) 0) (replicate (2 ^ 14 + 2048) 0) [] []
     SHUT_NONE SHUT_NONE (ConnectionState_init EPOCH_INITIAL None) (ConnectionState_init EPOCH_INITIAL None)
     0 0 0)"

type_synonym ('a, 'b) conn_action = "('a TLSConnection_scheme, 'b) action"

text \<open>\<open>xs[:n]\<close> for any integer \<open>n\<close>.\<close>

definition slice_len :: "int \<Rightarrow> 'b list \<Rightarrow> nat" where
  "slice_len n xs = (if n \<ge> 0 then nat n else length xs - nat (- n))"

definition bio_write :: "bytes \<Rightarrow> ('a, unit) conn_action" where
  "bio_write data = modify (\<lambda>s. s\<lparr>cn_inbio := cn_inbio s @ data\<rparr>)"

text \<open>\<open>MemoryBIO.read\<close> takes a negative size for everything.\<close>

definition bio_read :: "int \<Rightarrow> ('a, bytes) conn_action" where
  "bio_read bufsiz = bnd (gets cn_outbio) (\<lambda>b.
     let n = (if bufsiz < 0 then length b else nat bufsiz); data = take n b in
     thn (modify (\<lambda>s. s\<lparr>cn_outbio := drop n b\<rparr>))
     (thn (raise_if (data = []) TLSWantReadError) (ret data)))"

definition outbio_write :: "bytes \<Rightarrow> ('a, unit) conn_action" where
  "outbio_write data = modify (\<lambda>s. s\<lparr>cn_outbio := cn_outbio s @ data\<rparr>)"

subsection \<open>Headers\<close>

definition get_header :: "int \<Rightarrow> int \<Rightarrow> int \<Rightarrow> bytes result" where
  "get_header content_type record_version len =
     rcat (pack content_type 1) (rcat (pack record_version 2) (pack len 2))"

text \<open>\<open>struct.unpack("!BHH", header)\<close>\<close>

definition unpack_header :: "bytes \<Rightarrow> int \<times> int \<times> nat" where
  "unpack_header h = (bytes_to_int (take 1 h), bytes_to_int (take 2 (drop 1 h)),
     nat (bytes_to_int (take 2 (drop 3 h))))"

definition conn_record_version :: "'a TLSHandshake_scheme \<Rightarrow> int" where
  "conn_record_version s =
     (if hs_version s = UNSPECIFIED then ver V_TLSv1 else min (ver V_TLSv1_2) (hs_version s))"

definition has_final_version :: "'a TLSHandshake_scheme \<Rightarrow> bool" where
  "has_final_version s \<longleftrightarrow> hs_version s \<noteq> UNSPECIFIED \<and> \<not> hs_is_early_version s"

text \<open>\<open>self._has_final_version() and self._handshake.protocol_version() >= TLSVersion.TLSv1_3\<close>\<close>

definition is_tls13 :: "'a TLSHandshake_scheme \<Rightarrow> bool" where
  "is_tls13 s \<longleftrightarrow> has_final_version s \<and> hs_version s \<ge> ver V_TLSv1_3"

subsection \<open>Sealing records\<close>

text \<open>Assignment to a slice of the output buffer.\<close>

definition write_buf_at :: "nat \<Rightarrow> bytes \<Rightarrow> ('a, unit) conn_action" where
  "write_buf_at i d = bnd (gets cn_write_buf) (\<lambda>b.
     thn (raise_if (i + length d > length b) ValueError)
     (modify (\<lambda>s. s\<lparr>cn_write_buf := take i b @ d @ drop (i + length d) b\<rparr>)))"

definition hide_content_type :: "int \<Rightarrow> bytes \<Rightarrow> ('a, bytes) conn_action" where
  "hide_content_type content_type plaintext = bnd (gets cn_temp_buf) (\<lambda>b.
     let pt_len = length plaintext in
     thn (raise_if (pt_len > length b) ValueError)
     (thn (modify (\<lambda>s. s\<lparr>cn_temp_buf := plaintext @ drop pt_len b\<rparr>))
     (thn (raise_if (pt_len = length b) IndexError)
     (thn (raise_if (content_type < 0 \<or> content_type > 255) ValueError)
     (thn (modify (\<lambda>s. s\<lparr>cn_temp_buf := plaintext @ word_of_int content_type # drop (pt_len + 1) b\<rparr>))
     (bnd (gets cn_temp_buf) (\<lambda>b. ret (take (pt_len + 1) b))))))))"

text \<open>\<open>state.cipher.seal(..., out_data_buf)\<close> and \<open>state.cipher.open(..., out_buf)\<close>: the cipher object is
  a part of the connection, and it writes into the connection's buffer.\<close>

definition cipher_seal ::
    "crypto \<Rightarrow> tls_cipher \<Rightarrow> nat \<Rightarrow> int \<Rightarrow> int \<Rightarrow> bytes \<Rightarrow> int \<Rightarrow> bytes \<Rightarrow> ('a, nat) conn_action" where
  "cipher_seal cr cipher off content_type record_version plaintext seq_num header = (\<lambda>s.
     case TLSCipher_seal cr content_type record_version plaintext seq_num header
            \<lparr>tc = cipher, out = drop off (cn_write_buf s)\<rparr> of
       (r, t) \<Rightarrow> (r, s\<lparr>cn_write_buf := take off (cn_write_buf s) @ out t,
                      cn_write_state := (cn_write_state s)\<lparr>cst_cipher := Some (tc t)\<rparr>\<rparr>))"

definition cipher_open ::
    "crypto \<Rightarrow> (nat \<Rightarrow> bytes) \<Rightarrow> tls_cipher \<Rightarrow> int \<Rightarrow> int \<Rightarrow> bytes \<Rightarrow> int \<Rightarrow> bytes \<Rightarrow> ('a, nat) conn_action" where
  "cipher_open cr rnd cipher content_type record_version ciphertext seq_num header = (\<lambda>s.
     case TLSCipher_open cr rnd content_type record_version ciphertext seq_num header
            \<lparr>tc = cipher, out = cn_read_buf s\<rparr> of
       (r, t) \<Rightarrow> (r, s\<lparr>cn_read_buf := out t,
                      cn_read_state := (cn_read_state s)\<lparr>cst_cipher := Some (tc t)\<rparr>\<rparr>))"

text \<open>\<open>out_buf\<close> is the rest of the output buffer from the offset \<open>off\<close> on.\<close>

definition seal_record_internal :: "crypto \<Rightarrow> int \<Rightarrow> bytes \<Rightarrow> nat \<Rightarrow> ('a, nat) conn_action" where
  "seal_record_internal cr content_type plaintext off = bnd get_state (\<lambda>s.
     let state = cn_write_state s in
     thn (raise_if (length plaintext > cn_send_record_limit s) AssertionError)
     (bnd (if cst_hide_content_type state
           then bnd (hide_content_type content_type plaintext) (\<lambda>p. ret (ct CT_APPLICATION_DATA, p))
           else ret (content_type, plaintext)) (\<lambda>(content_type, plaintext).
     let record_version = conn_record_version s in
     bnd (case cst_cipher state of
            Some cipher \<Rightarrow>
              let exp_ct_len = ciphertext_length cr cipher (length plaintext) in
              bnd (lift_result (get_header content_type record_version (int exp_ct_len))) (\<lambda>header.
              bnd (cipher_seal cr cipher (off + HEADER_LENGTH) content_type record_version plaintext
                     (cst_sequence_number state) header) (\<lambda>ct_len.
              thn (raise_if (ct_len \<noteq> exp_ct_len) AssertionError)
              (thn (modify (\<lambda>s. s\<lparr>cn_write_state := (cn_write_state s)
                      \<lparr>cst_sequence_number := cst_sequence_number (cn_write_state s) + 1\<rparr>\<rparr>))
              (ret (ct_len, header)))))
          | None \<Rightarrow>
              thn (write_buf_at (off + HEADER_LENGTH) plaintext)
              (bnd (lift_result (get_header content_type record_version (int (length plaintext)))) (\<lambda>header.
              ret (length plaintext, header)))) (\<lambda>(ct_len, header).
     thn (write_buf_at off header)
     (ret (HEADER_LENGTH + ct_len))))))"

definition seal_record :: "crypto \<Rightarrow> int \<Rightarrow> bytes \<Rightarrow> ('a, bytes) conn_action" where
  "seal_record cr content_type plaintext = bnd (gets cn_write_state) (\<lambda>state.
     bnd (if cst_record_splitting state \<and> content_type = ct CT_APPLICATION_DATA \<and> length plaintext > 1
          then bnd (seal_record_internal cr content_type (take 1 plaintext) 0) (\<lambda>written.
               ret (drop 1 plaintext, written))
          else ret (plaintext, 0)) (\<lambda>(plaintext, total_written).
     bnd (seal_record_internal cr content_type plaintext total_written) (\<lambda>n.
     bnd (gets cn_write_buf) (\<lambda>b. ret (take (total_written + n) b)))))"

text \<open>\<open>range(0, len(view), n)\<close> and the slices it gives.\<close>

function fragments :: "nat \<Rightarrow> bytes \<Rightarrow> bytes list" where
  "fragments n xs = (if n = 0 \<or> xs = [] then [] else take n xs # fragments n (drop n xs))"
  by pat_completeness auto
termination by (relation "measure (\<lambda>(n, xs). length xs)") auto

declare fragments.simps [simp del]

definition conn_pack_handshake :: "crypto \<Rightarrow> ('a, unit) conn_action" where
  "conn_pack_handshake cr = bnd get_state (\<lambda>s.
     let pending_hs_data = concat (hs_outgoing_messages s) in
     if pending_hs_data = [] then ret ()
     else
       thn (for_each (\<lambda>fragment.
              bnd (seal_record cr (ct CT_HANDSHAKE) fragment) (\<lambda>record_data.
              modify (\<lambda>s. s\<lparr>cn_pending_flight := cn_pending_flight s @ record_data\<rparr>)))
            (fragments (cn_send_record_limit s - 1) pending_hs_data))
       clear_flight)"

definition conn_flush_handshake :: "crypto \<Rightarrow> ('a, unit) conn_action" where
  "conn_flush_handshake cr =
     thn (conn_pack_handshake cr)
     (bnd get_state (\<lambda>s.
     if cn_pending_flight s = [] then ret ()
     else if cn_write_shutdown s \<noteq> SHUT_NONE then ret ()
     else
       thn (outbio_write (cn_pending_flight s))
       (modify (\<lambda>s. s\<lparr>cn_pending_flight := []\<rparr>))))"

definition write_record :: "crypto \<Rightarrow> int \<Rightarrow> bytes \<Rightarrow> ('a, unit) conn_action" where
  "write_record cr content_type data =
     thn (conn_flush_handshake cr)
     (if data = [] then ret ()
      else bnd (seal_record cr content_type data) outbio_write)"

definition write_ccs :: "('a, unit) conn_action" where
  "write_ccs = bnd get_state (\<lambda>s.
     bnd (lift_result (get_header (ct CT_CHANGE_CIPHER_SPEC) (conn_record_version s) 1)) (\<lambda>header.
     modify (\<lambda>s. s\<lparr>cn_pending_flight := cn_pending_flight s @ header @ [1]\<rparr>)))"

subsection \<open>Alerts\<close>

text \<open>A fatal alert always ends in an exception: what follows a fatal \<open>send_alert\<close> is not reached.\<close>

definition send_alert :: "crypto \<Rightarrow> int \<Rightarrow> bool \<Rightarrow> ('a, unit) conn_action" where
  "send_alert cr description fatal = bnd (gets cn_write_shutdown) (\<lambda>shut.
     thn (if shut = SHUT_NONE then
            thn (raise_if (description < 0 \<or> description > 255) ValueError)
            (if \<not> fatal then write_record cr (ct CT_ALERT) [word_of_int (al AL_WARNING), word_of_int description]
             else
               thn (write_record cr (ct CT_ALERT) [word_of_int (al AL_FATAL), word_of_int description])
               (modify (\<lambda>s. s\<lparr>cn_write_shutdown := SHUT_ERROR\<rparr>)))
          else ret ())
     (raise_if fatal (TLSLocalAlert description)))"

definition alert_if :: "crypto \<Rightarrow> bool \<Rightarrow> AlertDescription \<Rightarrow> ('a, unit) conn_action" where
  "alert_if cr b description = (if b then send_alert cr (ad description) True else ret ())"

definition process_alert :: "crypto \<Rightarrow> bytes \<Rightarrow> ('a, unit) conn_action" where
  "process_alert cr data =
     thn (alert_if cr (length data \<noteq> 2) AD_DECODE_ERROR)
     (let level = uint (data ! 0); description = uint (data ! 1) in
      if level = al AL_WARNING then
        if description = ad AD_CLOSE_NOTIFY then
          thn (modify (\<lambda>s. s\<lparr>cn_read_shutdown := SHUT_CLOSE_NOTIFY\<rparr>)) (raise TLSEOFError)
        else
          bnd get_state (\<lambda>s.
          thn (alert_if cr (is_tls13 s \<and> description \<noteq> ad AD_USER_CANCELLED) AD_DECODE_ERROR)
          (thn (modify (\<lambda>s. s\<lparr>cn_warning_alert_received := cn_warning_alert_received s + 1\<rparr>))
          (bnd get_state (\<lambda>s.
          thn (alert_if cr (cn_warning_alert_received s > MAX_WARNING_ALERTS) AD_UNEXPECTED_MESSAGE)
          (raise SkipDataException)))))
      else if level = al AL_FATAL then
        thn (modify (\<lambda>s. s\<lparr>cn_read_shutdown := SHUT_ERROR\<rparr>)) (raise (TLSRemoteAlert description))
      else send_alert cr (ad AD_UNEXPECTED_MESSAGE) True)"

definition verify_ccs :: "crypto \<Rightarrow> bytes \<Rightarrow> ('a, unit) conn_action" where
  "verify_ccs cr data =
     thn (alert_if cr (length data \<noteq> 1) AD_DECODE_ERROR)
     (alert_if cr (data \<noteq> [1]) AD_UNEXPECTED_MESSAGE)"

definition skip_early_data :: "crypto \<Rightarrow> nat \<Rightarrow> ('a, unit) conn_action" where
  "skip_early_data cr n =
     thn (modify (\<lambda>s. s\<lparr>cn_early_data_ignored := cn_early_data_ignored s + int n\<rparr>))
     (bnd get_state (\<lambda>s.
     alert_if cr (cn_early_data_ignored s > int (cn_recv_record_limit s)) AD_UNEXPECTED_MESSAGE))"

subsection \<open>Opening records\<close>

text \<open>The last byte that is not zero: the content type, after which the padding begins.\<close>

definition unpad_data_tlsv1_3 :: "crypto \<Rightarrow> bytes \<Rightarrow> ('a, int \<times> nat) conn_action" where
  "unpad_data_tlsv1_3 cr data =
     (case dropWhile (\<lambda>b. b = 0) (rev data) of
        [] \<Rightarrow> thn (send_alert cr (ad AD_UNEXPECTED_MESSAGE) True) (ret (0, 0))
      | b # before \<Rightarrow> ret (uint b, length before))"

text \<open>\<open>struct.unpack\<close> of the cached header, which is read when there is none.\<close>

definition take_header :: "('a, bytes) conn_action" where
  "take_header = bnd get_state (\<lambda>s. case cn_header s of
       Some h \<Rightarrow> ret h
     | None \<Rightarrow>
         thn (raise_if (length (cn_inbio s) < HEADER_LENGTH) TLSWantReadError)
         (thn (modify (\<lambda>s. s\<lparr>cn_header := Some (take HEADER_LENGTH (cn_inbio s)),
                            cn_inbio := drop HEADER_LENGTH (cn_inbio s)\<rparr>))
         (ret (take HEADER_LENGTH (cn_inbio s)))))"

text \<open>The checks of the header and the extraction of the record.\<close>

definition take_record :: "crypto \<Rightarrow> ('a, int \<times> int \<times> bytes \<times> bytes) conn_action" where
  "take_record cr = bnd take_header (\<lambda>header.
     thn (raise_if (length header \<noteq> HEADER_LENGTH) AssertionError)
     (let (content_type, record_version, len) = unpack_header header in
     bnd get_state (\<lambda>s.
     let version_ok = (if cst_cipher (cn_read_state s) = None then record_version div 256 = 3
                       else record_version = conn_record_version s) in
     thn (alert_if cr (\<not> version_ok) AD_PROTOCOL_VERSION)
     (thn (alert_if cr (len > cn_recv_record_limit s + 1024 + 1024) AD_RECORD_OVERFLOW)
     (thn (raise_if (length (cn_inbio s) < len) TLSWantReadError)
     (thn (modify (\<lambda>s. s\<lparr>cn_inbio := drop len (cn_inbio s), cn_header := None\<rparr>))
     (ret (content_type, record_version, header, take len (cn_inbio s)))))))))"

definition open_ciphertext ::
    "crypto \<Rightarrow> (nat \<Rightarrow> bytes) \<Rightarrow> int \<Rightarrow> int \<Rightarrow> bytes \<Rightarrow> bytes \<Rightarrow> ('a, nat) conn_action" where
  "open_ciphertext cr rnd content_type record_version header ciphertext = bnd get_state (\<lambda>s.
     case cst_cipher (cn_read_state s) of
       Some cipher \<Rightarrow>
         catch
           (bnd (cipher_open cr rnd cipher content_type record_version ciphertext
                   (cst_sequence_number (cn_read_state s)) header) (\<lambda>pt_len.
            thn (modify (\<lambda>s. s\<lparr>cn_read_state := (cn_read_state s)
                    \<lparr>cst_sequence_number := cst_sequence_number (cn_read_state s) + 1\<rparr>\<rparr>))
            (ret pt_len)))
           (\<lambda>e. if e = InvalidTag then
                  bnd (gets hs_skip_early_data) (\<lambda>skipping.
                  if skipping then
                    thn (skip_early_data cr (length ciphertext)) (raise SkipDataException)
                  else thn (send_alert cr (ad AD_BAD_RECORD_MAC) True) (ret 0))
                else raise e)
     | None \<Rightarrow>
         bnd (gets cn_read_buf) (\<lambda>b.
         thn (raise_if (length ciphertext > length b) ValueError)
         (thn (modify (\<lambda>s. s\<lparr>cn_read_buf := ciphertext @ drop (length ciphertext) b\<rparr>))
         (ret (length ciphertext)))))"

text \<open>What is done with a record once it has been taken from the input.\<close>

definition process_record ::
    "crypto \<Rightarrow> (nat \<Rightarrow> bytes) \<Rightarrow> int \<Rightarrow> int \<Rightarrow> bytes \<Rightarrow> bytes \<Rightarrow> ('a, int \<times> bytes) conn_action" where
  "process_record cr rnd content_type record_version header ciphertext =
     bnd get_state (\<lambda>s.
     thn (if content_type = ct CT_CHANGE_CIPHER_SPEC \<and> is_tls13 s then
            thn (verify_ccs cr ciphertext)
            (thn (alert_if cr (hs_session_establish s) AD_UNEXPECTED_MESSAGE)
            (raise SkipDataException))
          else ret ())
     (thn (if hs_skip_early_data s \<and> cst_cipher (cn_read_state s) = None \<and>
              content_type = ct CT_APPLICATION_DATA
           then thn (skip_early_data cr (length ciphertext)) (raise SkipDataException)
           else ret ())
     (thn (if content_type = ct CT_ALERT \<and> cst_hide_content_type (cn_read_state s) \<and>
              cst_sequence_number (cn_read_state s) = 0
           then process_alert cr ciphertext
           else ret ())
     (bnd (open_ciphertext cr rnd content_type record_version header ciphertext) (\<lambda>pt_len.
     bnd (gets hs_skip_early_data) (\<lambda>skipping.
     thn (if skipping then hs_close_early_data else ret ())
     (bnd get_state (\<lambda>s.
     let hidden = cst_hide_content_type (cn_read_state s) in
     thn (alert_if cr (hidden \<and> content_type \<noteq> ct CT_APPLICATION_DATA) AD_ILLEGAL_PARAMETER)
     (let pt_limit = (if hidden then cn_recv_record_limit s + 1 else cn_recv_record_limit s) in
     thn (alert_if cr (pt_len > pt_limit) AD_RECORD_OVERFLOW)
     (bnd (if hidden then unpad_data_tlsv1_3 cr (take pt_len (cn_read_buf s))
           else ret (content_type, pt_len)) (\<lambda>(content_type, pt_len).
     thn (alert_if cr (content_type \<noteq> ct CT_APPLICATION_DATA \<and> pt_len = 0) AD_UNEXPECTED_MESSAGE)
     (thn (if content_type = ct CT_ALERT then process_alert cr (take pt_len (cn_read_buf s)) else ret ())
     (thn (alert_if cr (content_type \<noteq> ct CT_HANDSHAKE \<and> has_unprocessed_data s \<and> is_tls13 s)
             AD_UNEXPECTED_MESSAGE)
     (ret (content_type, take pt_len (cn_read_buf s))))))))))))))))"

definition open_record_internal :: "crypto \<Rightarrow> (nat \<Rightarrow> bytes) \<Rightarrow> ('a, int \<times> bytes) conn_action" where
  "open_record_internal cr rnd =
     bnd (gets cn_read_shutdown) (\<lambda>shut.
     thn (raise_if (shut \<noteq> SHUT_NONE) TLSEOFError)
     (bnd (take_record cr) (\<lambda>(content_type, record_version, header, ciphertext).
     process_record cr rnd content_type record_version header ciphertext)))"

primrec open_record :: "nat \<Rightarrow> crypto \<Rightarrow> (nat \<Rightarrow> bytes) \<Rightarrow> ('a, int \<times> bytes) conn_action" where
  "open_record 0 cr rnd = raise Diverges"
| "open_record (Suc fuel) cr rnd =
     catch (open_record_internal cr rnd)
       (\<lambda>e. if e = SkipDataException then open_record fuel cr rnd else raise e)"

text \<open>
  Every turn takes at least a header from the input, so this fuel is enough (\<open>Record_Safety\<close>).
\<close>

definition conn_open_record :: "crypto \<Rightarrow> (nat \<Rightarrow> bytes) \<Rightarrow> ('a, int \<times> bytes) conn_action" where
  "conn_open_record cr rnd = (\<lambda>s. open_record (length (cn_inbio s) + 2) cr rnd s)"

definition read_ccs :: "crypto \<Rightarrow> (nat \<Rightarrow> bytes) \<Rightarrow> ('a, unit) conn_action" where
  "read_ccs cr rnd = bnd (conn_open_record cr rnd) (\<lambda>(content_type, data).
     thn (alert_if cr (content_type \<noteq> ct CT_CHANGE_CIPHER_SPEC) AD_UNEXPECTED_MESSAGE)
     (verify_ccs cr data))"

definition conn_read_handshake :: "crypto \<Rightarrow> (nat \<Rightarrow> bytes) \<Rightarrow> ('a, unit) conn_action" where
  "conn_read_handshake cr rnd = bnd (conn_open_record cr rnd) (\<lambda>(content_type, data).
     thn (alert_if cr (content_type \<noteq> ct CT_HANDSHAKE) AD_UNEXPECTED_MESSAGE)
     (feed_data data))"

subsection \<open>Changing keys\<close>

definition traffic_keys :: "crypto \<Rightarrow> TrafficContext \<Rightarrow> (bytes \<times> bytes \<times> bytes) result" where
  "traffic_keys cr c =
     (if tr_version c \<ge> ver V_TLSv1_3 then
        rbind (get_algorithm (hash_id (cipher_suite.prf_hash (tr_cipher_suite c)))) (\<lambda>algorithm.
        rbind (get_key_iv_lens (tr_cipher_suite c)) (\<lambda>(key_len, iv_len).
        rbind (hkdf_expand_label cr (tr_secret c) (ascii ''key'') [] key_len algorithm) (\<lambda>enc_key.
        rbind (hkdf_expand_label cr (tr_secret c) (ascii ''iv'') [] iv_len algorithm) (\<lambda>fixed_iv.
        Inr (enc_key, fixed_iv, [])))))
      else case (tr_enc_key c, tr_mac_key c, tr_fixed_iv c) of
        (Some enc_key, Some mac_key, Some fixed_iv) \<Rightarrow> Inr (enc_key, fixed_iv, mac_key)
      | _ \<Rightarrow> Inl AssertionError)"

definition new_state ::
    "crypto \<Rightarrow> (nat \<Rightarrow> bytes) \<Rightarrow> Direction \<Rightarrow> Epoch \<Rightarrow> TrafficContext option \<Rightarrow> ConnectionState result" where
  "new_state cr rnd direction epoch context =
     (case context of
        None \<Rightarrow> Inr (ConnectionState_init epoch None)
      | Some c \<Rightarrow>
          rbind (traffic_keys cr c) (\<lambda>(enc_key, fixed_iv, mac_key).
          rbind (TLSCipher_init cr rnd direction (tr_version c) (tr_cipher_suite c) enc_key fixed_iv mac_key
                   (tr_encrypt_then_mac c)) (\<lambda>cipher.
          Inr ((ConnectionState_init epoch (Some cipher))
            \<lparr>cst_record_splitting := tr_version c < ver V_TLSv1_1 \<and> is_block_cipher cipher,
             cst_hide_content_type := tr_version c \<ge> ver V_TLSv1_3\<rparr>))))"

definition conn_setup_traffic ::
    "crypto \<Rightarrow> (nat \<Rightarrow> bytes) \<Rightarrow> Direction \<Rightarrow> Epoch \<Rightarrow> TrafficContext option \<Rightarrow> ('a, unit) conn_action" where
  "conn_setup_traffic cr rnd direction epoch context =
     bnd (lift_result (new_state cr rnd direction epoch context)) (\<lambda>state.
     if direction = DIR_WRITE then
       bnd (gets hs_outgoing_messages) (\<lambda>flight.
       thn (raise_if (flight \<noteq> []) AssertionError)
       (modify (\<lambda>s. s\<lparr>cn_write_state := state\<rparr>)))
     else modify (\<lambda>s. s\<lparr>cn_read_state := state\<rparr>))"

subsection \<open>The connection's operations\<close>

definition hs_done :: "'a TLSHandshake_scheme \<Rightarrow> bool" where
  "hs_done s \<longleftrightarrow> hs_state s = (if hs_is_server s then srv SRV_DONE else cli CLI_DONE)"

definition trigger_post_handshake :: "('a TLSHandshake_scheme, unit) action" where
  "trigger_post_handshake = bnd get_state (\<lambda>s.
     thn (raise_if (\<not> hs_done s) ValueError)
     (set_state (if hs_is_server s then srv SRV_READ_POST_HANDSHAKE else cli CLI_READ_POST_HANDSHAKE)))"

definition send_key_update :: "int \<Rightarrow> ('a TLSHandshake_scheme, unit) action" where
  "send_key_update message_type = bnd get_state (\<lambda>s.
     thn (raise_if (\<not> hs_done s) ValueError)
     (thn (write_key_update message_type)
     (set_state (if hs_is_server s then srv SRV_PROCESS_UPDATE_TRAFFIC else cli CLI_PROCESS_UPDATE_TRAFFIC))))"

definition ech_not_rejected :: "('a TLSHandshake_scheme, unit) action" where
  "ech_not_rejected = bnd get_state (\<lambda>s.
     raise_if (\<not> hs_is_server s \<and> hs_ech_status s = ECH_REJECTED) AssertionError)"

definition set_status :: "Status \<Rightarrow> ('a, unit) conn_action" where
  "set_status st = modify (\<lambda>s. s\<lparr>cn_handshake_status := st\<rparr>)"

text \<open>What a turn does before it calls the handshake; the result tells whether it leaves the loop.\<close>

definition handle_status :: "crypto \<Rightarrow> (nat \<Rightarrow> bytes) \<Rightarrow> ('a, bool) conn_action" where
  "handle_status cr rnd = bnd get_state (\<lambda>s.
     case cn_handshake_status s of
       ST_PACK_FLIGHT \<Rightarrow> thn (conn_pack_handshake cr) (ret False)
     | ST_FLUSH_HANDSHAKE \<Rightarrow> thn (conn_flush_handshake cr) (ret False)
     | ST_READ_HANDSHAKE \<Rightarrow> thn (conn_read_handshake cr rnd) (ret False)
     | ST_READ_CHANGE_CIPHER_SPEC \<Rightarrow> thn (read_ccs cr rnd) (ret False)
     | ST_WRITE_CHANGE_CIPHER_SPEC \<Rightarrow> thn write_ccs (ret False)
     | ST_EARLY_RETURN \<Rightarrow> thn ech_not_rejected (thn (set_status ST_OK) (ret True))
     | ST_READ_END_OF_EARLY_DATA \<Rightarrow>
         if hs_can_early_read s then ret True else thn (set_status ST_OK) (ret False)
     | ST_OK \<Rightarrow> ret False)"

primrec conn_do_handshake ::
    "nat \<Rightarrow> crypto \<Rightarrow> (nat \<Rightarrow> bytes) \<Rightarrow> ('a, Status) conn_action \<Rightarrow> ('a, unit) conn_action" where
  "conn_do_handshake 0 cr rnd hsk = raise Diverges"
| "conn_do_handshake (Suc fuel) cr rnd hsk =
     bnd (handle_status cr rnd) (\<lambda>leave.
     if leave then ret ()
     else
       thn (catch (bnd hsk set_status)
              (\<lambda>e. case e of AlertException description fatal \<Rightarrow> send_alert cr description fatal | _ \<Rightarrow> raise e))
       (bnd get_state (\<lambda>s.
        if cn_handshake_status s = ST_OK
        then thn (raise_if (\<not> hs_done s) AssertionError) ech_not_rejected
        else conn_do_handshake fuel cr rnd hsk)))"

text \<open>
  \<open>read\<close>: with a buffer of the given size the data is copied into it and its length returned; the
  model returns the data in both cases.
\<close>

definition read_result :: "nat option \<Rightarrow> bytes \<Rightarrow> bytes result" where
  "read_result buffer data =
     (case buffer of
        None \<Rightarrow> Inr data
      | Some n \<Rightarrow> if n < length data then Inl ValueError else Inr data)"

definition read_pending :: "int \<Rightarrow> nat option \<Rightarrow> ('a, bytes) conn_action" where
  "read_pending len buffer = bnd (gets cn_pending_app_data) (\<lambda>b.
     let n = slice_len len b in
     bnd (lift_result (read_result buffer (take n b))) (\<lambda>data.
     thn (modify (\<lambda>s. s\<lparr>cn_pending_app_data := drop n b\<rparr>))
     (ret data)))"

definition extend_pending :: "bytes \<Rightarrow> ('a, unit) conn_action" where
  "extend_pending data = modify (\<lambda>s. s\<lparr>cn_pending_app_data := cn_pending_app_data s @ data\<rparr>)"

definition early_data_received :: "crypto \<Rightarrow> nat \<Rightarrow> ('a, unit) conn_action" where
  "early_data_received cr len = bnd get_state (\<lambda>s.
     if hs_is_server s \<and> hs_can_early_read s then
       thn (modify (\<lambda>s. s\<lparr>cn_early_data_processed := cn_early_data_processed s + int len\<rparr>))
       (bnd max_early_data (\<lambda>limit.
       bnd (gets cn_early_data_processed) (\<lambda>n.
       alert_if cr (n > limit) AD_UNEXPECTED_MESSAGE)))
     else ret ())"

definition post_handshake_data :: "crypto \<Rightarrow> int \<Rightarrow> bytes \<Rightarrow> ('a, unit) conn_action" where
  "post_handshake_data cr content_type data =
     thn (alert_if cr (content_type \<noteq> ct CT_HANDSHAKE) AD_UNEXPECTED_MESSAGE)
     (thn (feed_data data)
     (bnd get_state (\<lambda>s.
      if \<not> hs_done s then
        thn (raise_if (\<not> hs_can_early_read s) AssertionError) hs_close_early_data
      else trigger_post_handshake)))"

primrec conn_read ::
    "nat \<Rightarrow> crypto \<Rightarrow> (nat \<Rightarrow> bytes) \<Rightarrow> ('a, Status) conn_action \<Rightarrow> int \<Rightarrow> nat option \<Rightarrow> ('a, bytes) conn_action" where
  "conn_read 0 cr rnd hsk len buffer = raise Diverges"
| "conn_read (Suc fuel) cr rnd hsk len buffer = bnd get_state (\<lambda>s.
     if cn_pending_app_data s \<noteq> [] then read_pending len buffer
     else
       thn (if hs_done s \<or> hs_can_early_read s then ret () else conn_do_handshake fuel cr rnd hsk)
       (bnd (conn_open_record cr rnd) (\<lambda>(content_type, data).
        if content_type \<noteq> ct CT_APPLICATION_DATA then
          thn (post_handshake_data cr content_type data) (conn_read fuel cr rnd hsk len buffer)
        else
          thn (early_data_received cr (length data))
          (if length data > 0 \<and> int (length data) \<le> len then
             (case read_result buffer data of
                Inl e \<Rightarrow> thn (extend_pending data) (raise e)
              | Inr d \<Rightarrow> ret d)
           else thn (extend_pending data) (conn_read fuel cr rnd hsk len buffer)))))"

definition conn_write ::
    "nat \<Rightarrow> crypto \<Rightarrow> (nat \<Rightarrow> bytes) \<Rightarrow> ('a, Status) conn_action \<Rightarrow> bytes \<Rightarrow> ('a, nat) conn_action" where
  "conn_write fuel cr rnd hsk data = bnd get_state (\<lambda>s.
     thn (if hs_done s \<or> hs_can_early_write s then ret () else conn_do_handshake fuel cr rnd hsk)
     (bnd get_state (\<lambda>s.
     thn (raise_if (cn_write_shutdown s \<noteq> SHUT_NONE) TLSEOFError)
     (let is_early_data_write = (\<not> hs_is_server s \<and> hs_can_early_write s) in
     bnd (if is_early_data_write
          then bnd max_early_data (\<lambda>limit.
               ret (min (int (cn_send_record_limit s)) (limit - cn_early_data_processed s)))
          else ret (int (cn_send_record_limit s))) (\<lambda>max_send_fragment.
     let data = (if int (length data) > max_send_fragment
                 then take (slice_len max_send_fragment data) data else data) in
     thn (write_record cr (ct CT_APPLICATION_DATA) data)
     (thn (if is_early_data_write then
             thn (modify (\<lambda>s. s\<lparr>cn_early_data_processed := cn_early_data_processed s + int (length data)\<rparr>))
             (bnd max_early_data (\<lambda>limit.
             bnd (gets cn_early_data_processed) (\<lambda>n.
             if n \<ge> limit then hs_close_early_data else ret ())))
           else ret ())
     (ret (length data))))))))"

definition conn_pending :: "'a TLSConnection_scheme \<Rightarrow> nat" where
  "conn_pending s = length (cn_pending_app_data s)"

definition conn_shutdown :: "crypto \<Rightarrow> ('a, unit) conn_action" where
  "conn_shutdown cr = bnd (gets cn_write_shutdown) (\<lambda>shut.
     if shut = SHUT_NONE then
       thn (send_alert cr (ad AD_CLOSE_NOTIFY) False)
       (modify (\<lambda>s. s\<lparr>cn_write_shutdown := SHUT_CLOSE_NOTIFY\<rparr>))
     else ret ())"

definition update_key :: "bool \<Rightarrow> ('a TLSHandshake_scheme, unit) action" where
  "update_key request_receiver_update =
     send_key_update (if request_receiver_update then ku KU_UPDATE_REQUESTED else ku KU_UPDATE_NOT_REQUESTED)"

end
