(* ===== verification/Record_Laws.thy ===== *)
theory Record_Laws
  imports Record_Layer Cipher_Laws TLS_Utils_Laws Handshake_Laws
begin

text \<open>
  What the record layer of two connections promises: linked connections, of which the one reads with the keys that the other writes
  with, pass records and application data and stay linked.
\<close>

subsection \<open>Buffers keep their length\<close>

definition keeps_len :: "(seal_state, 'b) action \<Rightarrow> bool" where
  "keeps_len m \<longleftrightarrow> (\<forall>s. length (out (snd (m s))) = length (out s))"

named_theorems len_intros

lemma len_basic [len_intros, simp]:
  "keeps_len (ret x)" "keeps_len (raise e)" "keeps_len (gets f)" "keeps_len (raise_if b e)"
  "keeps_len (lift_result r)" "keeps_len (put_at i d)" "keeps_len the_mac"
  by (auto simp: keeps_len_def ret_def raise_def raise_if_def lift_result_def put_at_def the_mac_def
      split: option.splits)

lemma len_bnd [len_intros]: "keeps_len m \<Longrightarrow> (\<And>x. keeps_len (f x)) \<Longrightarrow> keeps_len (bnd m f)"
  unfolding keeps_len_def by (auto simp: bnd_def split: prod.splits sum.splits) (metis snd_conv)+

lemma len_thn [len_intros]: "keeps_len m \<Longrightarrow> keeps_len n \<Longrightarrow> keeps_len (thn m n)"
  unfolding thn_def by (rule len_bnd)

lemma len_if [len_intros]: "keeps_len m \<Longrightarrow> keeps_len n \<Longrightarrow> keeps_len (if b then m else n)"
  by simp

lemma len_prod [len_intros]: "(\<And>a b. keeps_len (f a b)) \<Longrightarrow> keeps_len (case p of (a, b) \<Rightarrow> f a b)"
  by (cases p) simp

lemma len_update_into [len_intros]: "keeps_len (update_into cr i b)"
  unfolding keeps_len_def
proof
  fix s
  show "length (out (snd (update_into cr i b s))) = length (out s)"
  proof (cases "c_cipher (tc s)")
    case (Context x)
    have "keeps_len (thn (put_at i d) (ret (length d)))" for d by (intro len_intros)
    then show ?thesis using Context by (simp add: update_into_def keeps_len_def split: prod.splits)
  qed (simp_all add: update_into_def)
qed

lemma len_update_all [len_intros]: "keeps_len (update_all cr i bs)"
  by (induction bs arbitrary: i) (auto intro!: len_intros)

lemma seal_keeps: "keeps_len (TLSCipher_seal cr ty rv p seq hdr)"
  unfolding TLSCipher_seal_def encrypt_aead_def encrypt_then_mac_def mac_then_encrypt_def
    mac_then_encrypt_stream_def Let_def
  by (intro len_intros) (auto intro!: len_intros split: option.splits seal_method.splits)

lemma open_keeps: "keeps_len (TLSCipher_open cr rnd ty rv c seq hdr)"
  unfolding TLSCipher_open_def decrypt_aead_def mac_then_decrypt_def decrypt_then_mac_def
    decrypt_stream_then_mac_def remove_pad_and_mac_def Let_def
  by (intro len_intros) (auto intro!: len_intros split: option.splits open_method.splits)

subsection \<open>Linked connections\<close>

text \<open>
  A writing and a reading state are linked when they are at the same place of the same protected
  stream.
\<close>

definition linked :: "crypto \<Rightarrow> ConnectionState \<Rightarrow> ConnectionState \<Rightarrow> bool" where
  "linked cr w r \<longleftrightarrow> cst_sequence_number r = cst_sequence_number w \<and> 0 \<le> cst_sequence_number w \<and>
     cst_hide_content_type r = cst_hide_content_type w \<and>
     (case (cst_cipher w, cst_cipher r) of
        (Some a, Some b) \<Rightarrow> paired cr a b
      | (None, None) \<Rightarrow> \<not> cst_hide_content_type w
      | _ \<Rightarrow> False)"

definition sender_ok :: "'a TLSConnection_scheme \<Rightarrow> bool" where
  "sender_ok s \<longleftrightarrow> cn_send_record_limit s = 2 ^ 14 \<and> length (cn_write_buf s) = 2 ^ 14 + 4106 \<and>
     length (cn_temp_buf s) = 2 ^ 14 + 2048 \<and> conn_record_version s div 256 = 3"

definition receiver_ok :: "'a TLSConnection_scheme \<Rightarrow> bool" where
  "receiver_ok r \<longleftrightarrow> cn_recv_record_limit r = 2 ^ 14 \<and> length (cn_read_buf r) = 2 ^ 14 + 2048 \<and>
     cn_read_shutdown r = SHUT_NONE \<and> cn_header r = None \<and> \<not> hs_skip_early_data r"

text \<open>What the fields of the connection do not affect.\<close>

lemma version_frame [simp]:
  "conn_record_version (s\<lparr>cn_inbio := b\<rparr>) = conn_record_version s"
  "conn_record_version (s\<lparr>cn_read_buf := b\<rparr>) = conn_record_version s"
  "conn_record_version (s\<lparr>cn_read_state := st\<rparr>) = conn_record_version s"
  "conn_record_version (s\<lparr>cn_write_buf := b\<rparr>) = conn_record_version s"
  "conn_record_version (s\<lparr>cn_temp_buf := b\<rparr>) = conn_record_version s"
  "conn_record_version (s\<lparr>cn_write_state := st\<rparr>) = conn_record_version s"
  "conn_record_version (s\<lparr>cn_pending_flight := b\<rparr>) = conn_record_version s"
  by (simp_all add: conn_record_version_def)

lemma tls13_frame [simp]:
  "is_tls13 (s\<lparr>cn_inbio := b\<rparr>) = is_tls13 s"
  "is_tls13 (s\<lparr>cn_read_buf := b\<rparr>) = is_tls13 s"
  "is_tls13 (s\<lparr>cn_read_state := st\<rparr>) = is_tls13 s"
  "has_unprocessed_data (s\<lparr>cn_inbio := b\<rparr>) = has_unprocessed_data s"
  "has_unprocessed_data (s\<lparr>cn_read_buf := b\<rparr>) = has_unprocessed_data s"
  "has_unprocessed_data (s\<lparr>cn_read_state := st\<rparr>) = has_unprocessed_data s"
  by (simp_all add: is_tls13_def has_final_version_def has_unprocessed_data_def)

lemma paired_ct_len: "paired cr w r \<Longrightarrow> ciphertext_length cr w n \<le> n + 1024"
proof -
  assume "paired cr w r"
  then consider "paired_aead cr w r" | "paired_cbc cr w r" | "paired_stream cr w r"
    unfolding paired_def by blast
  then show ?thesis
  proof cases
    case 1
    with paired_overhead(3) [OF 1] show ?thesis
      by (auto simp: ciphertext_length_def is_block_cipher_def paired_aead_def)
  next
    case 2
    with paired_overhead(1) [OF 2] paired_overhead(2) [OF 2, of n] show ?thesis by linarith
  next
    case 3
    with paired_overhead(4) [OF 3] show ?thesis
      by (auto simp: ciphertext_length_def is_block_cipher_def paired_stream_def)
  qed
qed

lemma hide_content_type_apply:
  assumes "length p < length (cn_temp_buf s)" and "0 \<le> ty" "ty < 256"
  shows "hide_content_type ty p s = (Inr (p @ [word_of_int ty]),
    s\<lparr>cn_temp_buf := p @ word_of_int ty # drop (Suc (length p)) (cn_temp_buf s)\<rparr>)"
  using assms by (simp add: hide_content_type_def bnd_apply thn_apply ret_def Let_def raise_if_apply)

lemma write_buf_at_apply:
  "i + length d \<le> length (cn_write_buf s) \<Longrightarrow>
   write_buf_at i d s = (Inr (), s\<lparr>cn_write_buf :=
     take i (cn_write_buf s) @ d @ drop (i + length d) (cn_write_buf s)\<rparr>)"
  by (simp add: write_buf_at_def bnd_apply thn_apply raise_if_apply)

lemma get_header_Inr:
  assumes "0 \<le> ty" "ty < 256" "0 \<le> rv" "rv < 65536" "n < 65536"
  shows "get_header ty rv (int n) = Inr (be_bytes 1 ty @ be_bytes 2 rv @ be_bytes 2 (int n))"
  using assms by (simp add: get_header_def pack_def)

lemma unpack_header_be:
  assumes "0 \<le> ty" "ty < 256" "0 \<le> rv" "rv < 65536" "n < 65536"
  shows "unpack_header (be_bytes 1 ty @ be_bytes 2 rv @ be_bytes 2 (int n)) = (ty, rv, n)"
  using assms bytes_to_int_be_bytes [of ty 1] by (simp add: unpack_header_def numeral_3_eq_3)

subsection \<open>One record\<close>

text \<open>The content type and the plaintext that the protection sees.\<close>

definition inner :: "ConnectionState \<Rightarrow> int \<Rightarrow> bytes \<Rightarrow> int \<times> bytes" where
  "inner st ty p = (if cst_hide_content_type st then (23, p @ [word_of_int ty]) else (ty, p))"

definition advance :: "tls_cipher option \<Rightarrow> ConnectionState \<Rightarrow> ConnectionState" where
  "advance c st = (case c of None \<Rightarrow> st
     | Some _ \<Rightarrow> st\<lparr>cst_cipher := c, cst_sequence_number := cst_sequence_number st + 1\<rparr>)"

lemma linked_advance:
  assumes "linked cr w r" and "case (c, d) of (Some a, Some b) \<Rightarrow> paired cr a b | (None, None) \<Rightarrow> True | _ \<Rightarrow> False"
  shows "linked cr (advance c w) (advance d r)"
  using assms by (auto simp: linked_def advance_def split: option.splits)

text \<open>The common part of both directions: the sealed bytes and how they are opened.\<close>

lemma linked_passes:
  assumes l: "linked cr w r" and ty: "0 < ty" "ty < 256" and p: "length p \<le> 2 ^ 14"
    and rv: "0 \<le> rv" "rv < 65536" and n: "cst_sequence_number w < 2 ^ 64"
    and b: "length p + 1025 \<le> length b" "length p + 1025 \<le> length b'"
  obtains (plain) "cst_cipher w = None" "cst_cipher r = None" "\<not> cst_hide_content_type w"
  | (cipher) a d c a' d' t t' where "cst_cipher w = Some a" "cst_cipher r = Some d"
    "TLSCipher_seal cr (fst (inner w ty p)) rv (snd (inner w ty p)) (cst_sequence_number w) hdr
       \<lparr>tc = a, out = b\<rparr> = (Inr (length c), \<lparr>tc = a', out = c @ t\<rparr>)"
    "length c = ciphertext_length cr a (length (snd (inner w ty p)))" "length c \<le> length p + 1025"
    "length (c @ t) = length b"
    "TLSCipher_open cr rnd (fst (inner w ty p)) rv c (cst_sequence_number w) hdr
       \<lparr>tc = d, out = b'\<rparr> = (Inr (length (snd (inner w ty p))), \<lparr>tc = d', out = snd (inner w ty p) @ t'\<rparr>)"
    "length (snd (inner w ty p) @ t') = length b'"
    "paired cr a' d'"
proof (cases "cst_cipher w")
  case None
  with l show ?thesis by (intro plain) (auto simp: linked_def split: option.splits)
next
  case (Some a)
  with l obtain d where d: "cst_cipher r = Some d" "paired cr a d"
    by (auto simp: linked_def split: option.splits)
  let ?t = "fst (inner w ty p)" and ?p = "snd (inner w ty p)"
  have "record_args_ok ?t rv (cst_sequence_number w) ?p"
    using l ty p rv n by (simp add: record_args_ok_def inner_def linked_def)
  moreover have "length ?p + 1024 \<le> length b" "length ?p + 1024 \<le> length b'"
    using b by (simp_all add: inner_def)
  ultimately have "record_passes cr rnd ?t rv ?p (cst_sequence_number w) hdr a d b b'"
    by (intro paired_record_passes [OF d(2)])
  then obtain c a' d' t t' where c:
    "TLSCipher_seal cr ?t rv ?p (cst_sequence_number w) hdr \<lparr>tc = a, out = b\<rparr> =
       (Inr (length c), \<lparr>tc = a', out = c @ t\<rparr>)"
    "length c = ciphertext_length cr a (length ?p)"
    "TLSCipher_open cr rnd ?t rv c (cst_sequence_number w) hdr \<lparr>tc = d, out = b'\<rparr> =
       (Inr (length ?p), \<lparr>tc = d', out = ?p @ t'\<rparr>)"
    "paired cr a' d'"
    unfolding record_passes_def by blast
  have "length (c @ t) = length b" "length (?p @ t') = length b'"
    using seal_keeps [of cr ?t rv ?p "cst_sequence_number w" hdr] c(1)
      open_keeps [of cr rnd ?t rv c "cst_sequence_number w" hdr] c(3)
    unfolding keeps_len_def by (metis seal_state.select_convs(2) snd_conv)+
  moreover have "length c \<le> length p + 1025"
    using c(2) paired_ct_len [OF d(2), of "length ?p"] by (simp add: inner_def split: if_splits)
  ultimately show ?thesis using cipher [OF Some d(1) c(1,2)] c(3,4) by blast
qed

lemma seal_record_internal_hide:
  assumes "length p \<le> 2 ^ 14" "0 \<le> ty" "ty < 256" "sender_ok s"
  shows "\<exists>tb. length tb = length (cn_temp_buf s) \<and>
    (if cst_hide_content_type (cn_write_state s)
     then bnd (hide_content_type ty p) (\<lambda>p. ret (ct CT_APPLICATION_DATA, p)) else ret (ty, p)) s =
    (Inr (inner (cn_write_state s) ty p), s\<lparr>cn_temp_buf := tb\<rparr>)"
proof (cases "cst_hide_content_type (cn_write_state s)")
  case True
  with assms show ?thesis
    by (intro exI [of _ "p @ word_of_int ty # drop (Suc (length p)) (cn_temp_buf s)"])
      (simp add: bnd_apply hide_content_type_apply inner_def ret_def sender_ok_def)
next
  case False
  then show ?thesis by (auto simp: inner_def ret_def intro: exI [of _ "cn_temp_buf s"])
qed

definition header_bytes :: "int \<Rightarrow> int \<Rightarrow> nat \<Rightarrow> bytes" where
  "header_bytes ty rv n = be_bytes 1 ty @ be_bytes 2 rv @ be_bytes 2 (int n)"

lemma length_header_bytes [simp]: "length (header_bytes ty rv n) = 5"
  by (simp add: header_bytes_def)

lemma get_header_bytes:
  "0 \<le> ty \<Longrightarrow> ty < 256 \<Longrightarrow> 0 \<le> rv \<Longrightarrow> rv < 65536 \<Longrightarrow> n < 65536 \<Longrightarrow>
   get_header ty rv (int n) = Inr (header_bytes ty rv n)"
  by (simp add: get_header_Inr header_bytes_def)

lemma unpack_header_bytes:
  "0 \<le> ty \<Longrightarrow> ty < 256 \<Longrightarrow> 0 \<le> rv \<Longrightarrow> rv < 65536 \<Longrightarrow> n < 65536 \<Longrightarrow>
   unpack_header (header_bytes ty rv n) = (ty, rv, n)"
  unfolding header_bytes_def by (rule unpack_header_be)

lemma version_range: "rv div 256 = (3 :: int) \<Longrightarrow> 0 \<le> rv \<and> rv < 65536"
  by auto

lemma seal_plain:
  assumes "sender_ok s" "cst_cipher (cn_write_state s) = None" "\<not> cst_hide_content_type (cn_write_state s)"
    and "0 \<le> ty" "ty < 256" "length p \<le> 2 ^ 14" "off + length p + 5 \<le> length (cn_write_buf s)"
  shows "seal_record_internal cr ty p off s = (Inr (5 + length p), s\<lparr>cn_write_buf :=
    take off (cn_write_buf s) @ header_bytes ty (conn_record_version s) (length p) @ p @
    drop (off + 5 + length p) (cn_write_buf s)\<rparr>)"
  using assms version_range [of "conn_record_version s"]
  by (simp add: seal_record_internal_def bnd_apply thn_apply Let_def HEADER_LENGTH_def sender_ok_def
      write_buf_at_apply lift_result_apply get_header_bytes ret_def)

lemma seal_cipher:
  assumes s: "sender_ok s" and a: "cst_cipher (cn_write_state s) = Some a"
    and ty: "0 < ty" "ty < 256" and p: "length p \<le> 2 ^ 14"
    and b: "off + length p + 1030 \<le> length (cn_write_buf s)"
    and i: "inner (cn_write_state s) ty p = (ty', p')"
    and c: "TLSCipher_seal cr ty' (conn_record_version s) p' (cst_sequence_number (cn_write_state s))
        (header_bytes ty' (conn_record_version s) (length c)) \<lparr>tc = a, out = drop (off + 5) (cn_write_buf s)\<rparr> =
        (Inr (length c), \<lparr>tc = a', out = c @ t\<rparr>)"
    and n: "length c = ciphertext_length cr a (length p')" "length c \<le> length p + 1025"
  shows "\<exists>tb. length tb = length (cn_temp_buf s) \<and>
    seal_record_internal cr ty p off s = (Inr (5 + length c), s\<lparr>cn_temp_buf := tb, cn_write_buf :=
      take off (cn_write_buf s) @ header_bytes ty' (conn_record_version s) (length c) @ c @ t,
      cn_write_state := advance (Some a') (cn_write_state s)\<rparr>)"
proof -
  from seal_record_internal_hide [OF p _ ty(2) s] ty(1) i obtain tb where tb: "length tb = length (cn_temp_buf s)"
    "(if cst_hide_content_type (cn_write_state s)
     then bnd (hide_content_type ty p) (\<lambda>p. ret (ct CT_APPLICATION_DATA, p)) else ret (ty, p)) s =
    (Inr (ty', p'), s\<lparr>cn_temp_buf := tb\<rparr>)" by auto
  have t: "0 \<le> ty'" "ty' < 256" using i ty by (auto simp: inner_def split: if_splits)
  have g: "get_header ty' (conn_record_version s) (int (ciphertext_length cr a (length p'))) =
      Inr (header_bytes ty' (conn_record_version s) (length c))"
    using t s n p version_range [of "conn_record_version s"]
    by (subst get_header_bytes [symmetric]) (simp_all add: sender_ok_def)
  have q: "length p \<le> cn_send_record_limit s" using s p by (simp add: sender_ok_def)
  show ?thesis
    using tb(1) c n b q
    by (intro exI [of _ tb] conjI)
      (simp_all add: seal_record_internal_def bnd_apply thn_apply Let_def HEADER_LENGTH_def tb(2)
        a g lift_result_apply cipher_seal_def write_buf_at_apply ret_def advance_def)
qed

lemma take_record_apply:
  assumes "receiver_ok r" and "cn_inbio r = header_bytes ty rv (length c) @ c @ rest"
    and "0 \<le> ty" "ty < 256" "rv div 256 = 3" "length c \<le> 2 ^ 14 + 2048"
    and "cst_cipher (cn_read_state r) \<noteq> None \<Longrightarrow> rv = conn_record_version r"
  shows "take_record cr r = (Inr (ty, rv, header_bytes ty rv (length c), c), r\<lparr>cn_inbio := rest\<rparr>)"
  using assms version_range [of rv]
  by (simp add: take_record_def take_header_def bnd_apply thn_apply HEADER_LENGTH_def receiver_ok_def ret_def
      raise_if_apply unpack_header_bytes alert_if_def conn_record_version_def)

lemma unpad_typed:
  assumes "0 < ty" "ty < 256"
  shows "unpad_data_tlsv1_3 cr (p @ [word_of_int ty]) s = (Inr (ty, length p), s)"
proof -
  have "uint (word_of_int ty :: byte) = ty"
    using assms by (simp add: uint_word_of_int take_bit_int_eq_self)
  moreover from this have "(word_of_int ty :: byte) \<noteq> 0" using assms by (metis less_irrefl unsigned_0)
  ultimately show ?thesis by (simp add: unpad_data_tlsv1_3_def ret_def)
qed

lemma open_record_internal_apply:
  fixes r :: "'a TLSConnection_scheme"
  assumes r: "receiver_ok r" and b: "cn_inbio r = header_bytes ty' rv (length c) @ c @ rest"
    and rv: "rv div 256 = 3" "cst_cipher (cn_read_state r) \<noteq> None \<Longrightarrow> rv = conn_record_version r"
    and c: "length c \<le> 2 ^ 14 + 2048"
    and ty: "ty = 22 \<and> p \<noteq> [] \<or> ty = 23 \<and> (\<not> has_unprocessed_data r \<or> \<not> is_tls13 r)"
    and p: "length p \<le> 2 ^ 14"
    and i: "inner (cn_read_state r) ty p = (ty', p')"
    and o: "open_ciphertext cr rnd ty' rv (header_bytes ty' rv (length c)) c (r\<lparr>cn_inbio := rest\<rparr>) =
      (Inr (length p'), r\<lparr>cn_inbio := rest, cn_read_buf := p' @ t, cn_read_state := rs\<rparr>)"
    and h: "cst_hide_content_type rs = cst_hide_content_type (cn_read_state r)"
  shows "open_record_internal cr rnd r =
    (Inr (ty, p), r\<lparr>cn_inbio := rest, cn_read_buf := p' @ t, cn_read_state := rs\<rparr>)"
proof -
  have t: "ty' = 22 \<or> ty' = 23" using i ty by (auto simp: inner_def split: if_splits)
  have tr: "take_record cr r = (Inr (ty', rv, header_bytes ty' rv (length c), c), r\<lparr>cn_inbio := rest\<rparr>)"
    using t by (intro take_record_apply [OF r b _ _ rv(1) c rv(2)]) auto
  show ?thesis
  proof (cases "cst_hide_content_type (cn_read_state r)")
    case True
    with i have p': "ty' = 23" "p' = p @ [word_of_int ty]" by (simp_all add: inner_def)
    have "unpad_data_tlsv1_3 cr (p @ [word_of_int ty]) x = (Inr (ty, length p), x)"
      for x :: "'a TLSConnection_scheme"
      using ty by (intro unpad_typed) auto
    with r True ty p h o p' show ?thesis
      by (auto simp: open_record_internal_def process_record_def bnd_apply thn_apply tr receiver_ok_def ret_def alert_if_def
          Let_def raise_if_apply)
  next
    case False
    with i have "ty' = ty" "p' = p" by (simp_all add: inner_def)
    then show ?thesis using r False ty p h o
      by (auto simp: open_record_internal_def process_record_def bnd_apply thn_apply tr receiver_ok_def ret_def alert_if_def
          Let_def raise_if_apply)
  qed
qed

text \<open>The record \<open>rec\<close> is what sealing \<open>p\<close> gives, and what opening turns into \<open>p\<close> again.\<close>

definition carried ::
    "crypto \<Rightarrow> (nat \<Rightarrow> bytes) \<Rightarrow> 'a TLSConnection_scheme \<Rightarrow> 'b TLSConnection_scheme \<Rightarrow> int \<Rightarrow> bytes \<Rightarrow> nat \<Rightarrow> bytes \<Rightarrow>
     bytes \<Rightarrow> bytes \<Rightarrow> tls_cipher option \<Rightarrow> bytes \<Rightarrow> tls_cipher option \<Rightarrow> bool" where
  "carried cr rnd s r ty p off rec wb tb c rb d \<longleftrightarrow>
    seal_record_internal cr ty p off s = (Inr (length rec),
      s\<lparr>cn_temp_buf := tb, cn_write_buf := wb, cn_write_state := advance c (cn_write_state s)\<rparr>) \<and>
    length tb = length (cn_temp_buf s) \<and> length wb = length (cn_write_buf s) \<and>
    take (off + length rec) wb = take off (cn_write_buf s) @ rec \<and> length rec \<le> length p + 1030 \<and>
    (\<forall>rest. open_record_internal cr rnd (r\<lparr>cn_inbio := rec @ rest\<rparr>) = (Inr (ty, p),
       r\<lparr>cn_inbio := rest, cn_read_buf := rb, cn_read_state := advance d (cn_read_state r)\<rparr>)) \<and>
    length rb = length (cn_read_buf r) \<and>
    linked cr (advance c (cn_write_state s)) (advance d (cn_read_state r))"

lemma record_transfer:
  fixes s :: "'a TLSConnection_scheme" and r :: "'b TLSConnection_scheme"
  assumes l: "linked cr (cn_write_state s) (cn_read_state r)" and s: "sender_ok s" and r: "receiver_ok r"
    and v: "conn_record_version r = conn_record_version s"
    and ty: "ty = 22 \<and> p \<noteq> [] \<or> ty = 23 \<and> (\<not> has_unprocessed_data r \<or> \<not> is_tls13 r)"
    and p: "length p \<le> 2 ^ 14" and n: "cst_sequence_number (cn_write_state s) < 2 ^ 64"
    and b: "off + length p + 1030 \<le> length (cn_write_buf s)"
  shows "\<exists>rec wb tb c rb d. carried cr rnd s r ty p off rec wb tb c rb d"
proof -
  let ?rv = "conn_record_version s"
  have rv: "?rv div 256 = 3" "0 \<le> ?rv" "?rv < 65536" using s by (auto simp: sender_ok_def)
  obtain ty' p' where i: "inner (cn_write_state s) ty p = (ty', p')" by fastforce
  have i': "inner (cn_read_state r) ty p = (ty', p')" using i l by (simp add: inner_def linked_def)
  have t: "0 < ty" "ty < 256" using ty by auto
  have rb: "length p + 1025 \<le> length (cn_read_buf r)" using r p by (simp add: receiver_ok_def)
  have wb: "length p + 1025 \<le> length (drop (off + 5) (cn_write_buf s))" using b by simp
  have ok: "receiver_ok (r\<lparr>cn_inbio := x\<rparr>)" for x using r by (simp add: receiver_ok_def)
  have open_with: "open_record_internal cr rnd (r\<lparr>cn_inbio := (header_bytes ty' ?rv (length c) @ c) @ rest\<rparr>) =
      (Inr (ty, p), r\<lparr>cn_inbio := rest, cn_read_buf := p' @ t, cn_read_state := rs\<rparr>)"
    if "length c \<le> 2 ^ 14 + 2048" and "cst_hide_content_type rs = cst_hide_content_type (cn_read_state r)"
      and "open_ciphertext cr rnd ty' ?rv (header_bytes ty' ?rv (length c)) c (r\<lparr>cn_inbio := rest\<rparr>) =
        (Inr (length p'), r\<lparr>cn_inbio := rest, cn_read_buf := p' @ t, cn_read_state := rs\<rparr>)" for c rest t rs
    using open_record_internal_apply [where r = "r\<lparr>cn_inbio := (header_bytes ty' ?rv (length c) @ c) @ rest\<rparr>"
        and c = c and rest = rest and ty = ty and p = p and p' = p' and ty' = ty' and rv = ?rv and t = t and rs = rs
        and cr = cr and rnd = rnd, OF ok] i' ty rv p that v by simp
  have take_rec: "take (off + length rec) (take off wb @ rec @ x) = take off wb @ rec" if "off \<le> length wb"
    for rec wb x using that by simp
  show ?thesis
    using l t p rv(2,3) n wb rb
  proof (cases rule: linked_passes [where rnd = rnd and
        hdr = "header_bytes ty' ?rv (ciphertext_length cr (the (cst_cipher (cn_write_state s))) (length p'))"])
    case plain
    with i have q: "ty' = ty" "p' = p" by (simp_all add: inner_def)
    let ?rec = "header_bytes ty ?rv (length p) @ p"
    let ?wb = "take off (cn_write_buf s) @ ?rec @ drop (off + 5 + length p) (cn_write_buf s)"
    have "open_ciphertext cr rnd ty ?rv (header_bytes ty ?rv (length p)) p (r\<lparr>cn_inbio := rest\<rparr>) =
      (Inr (length p), r\<lparr>cn_inbio := rest, cn_read_buf := p @ drop (length p) (cn_read_buf r),
         cn_read_state := cn_read_state r\<rparr>)" for rest
      using plain rb by (simp add: open_ciphertext_def bnd_apply thn_apply ret_def raise_if_apply)
    moreover have "seal_record_internal cr ty p off s = (Inr (5 + length p), s\<lparr>cn_write_buf :=
      take off (cn_write_buf s) @ header_bytes ty ?rv (length p) @ p @ drop (off + 5 + length p) (cn_write_buf s)\<rparr>)"
      using plain t p b by (intro seal_plain [OF s]) auto
    ultimately have o: "open_record_internal cr rnd (r\<lparr>cn_inbio := ?rec @ rest\<rparr>) = (Inr (ty, p),
        r\<lparr>cn_inbio := rest, cn_read_buf := p @ drop (length p) (cn_read_buf r), cn_read_state := advance None (cn_read_state r)\<rparr>)"
      and c: "seal_record_internal cr ty p off s = (Inr (length ?rec), s\<lparr>cn_temp_buf := cn_temp_buf s, cn_write_buf := ?wb,
        cn_write_state := advance None (cn_write_state s)\<rparr>)" for rest
      using open_with [of p "cn_read_state r" rest "drop (length p) (cn_read_buf r)"] p
      by (simp_all add: q advance_def)
    from l have "linked cr (advance None (cn_write_state s)) (advance None (cn_read_state r))" by (simp add: advance_def)
    then have "carried cr rnd s r ty p off ?rec ?wb (cn_temp_buf s) None (p @ drop (length p) (cn_read_buf r)) None"
      unfolding carried_def using o c b rb take_rec [of "cn_write_buf s" ?rec "drop (off + 5 + length p) (cn_write_buf s)"]
      by (intro conjI allI) simp_all
    then show ?thesis by blast
  next
    case (cipher a d c a' d' t t')
    have hc: "header_bytes ty' ?rv (ciphertext_length cr (the (cst_cipher (cn_write_state s))) (length p')) =
      header_bytes ty' ?rv (length c)" using cipher(1,4) i by simp
    from cipher(3) i hc have "TLSCipher_seal cr ty' ?rv p' (cst_sequence_number (cn_write_state s))
        (header_bytes ty' ?rv (length c)) \<lparr>tc = a, out = drop (off + 5) (cn_write_buf s)\<rparr> =
        (Inr (length c), \<lparr>tc = a', out = c @ t\<rparr>)" by simp
    from seal_cipher [OF s cipher(1) \<open>0 < ty\<close> \<open>ty < 256\<close> p b i this] cipher(4,5) i obtain tb where
      tb: "length tb = length (cn_temp_buf s)"
      "seal_record_internal cr ty p off s = (Inr (5 + length c), s\<lparr>cn_temp_buf := tb, cn_write_buf :=
        take off (cn_write_buf s) @ header_bytes ty' ?rv (length c) @ c @ t,
        cn_write_state := advance (Some a') (cn_write_state s)\<rparr>)" by auto
    have "open_ciphertext cr rnd ty' ?rv (header_bytes ty' ?rv (length c)) c (r\<lparr>cn_inbio := rest\<rparr>) =
      (Inr (length p'), r\<lparr>cn_inbio := rest, cn_read_buf := p' @ t',
         cn_read_state := advance (Some d') (cn_read_state r)\<rparr>)" for rest
      using cipher(2,7) hc i l
      by (simp add: open_ciphertext_def bnd_apply thn_apply ret_def catch_def cipher_open_def advance_def linked_def)
    then have "open_record_internal cr rnd (r\<lparr>cn_inbio := (header_bytes ty' ?rv (length c) @ c) @ rest\<rparr>) =
      (Inr (ty, p), r\<lparr>cn_inbio := rest, cn_read_buf := p' @ t', cn_read_state := advance (Some d') (cn_read_state r)\<rparr>)" for rest
      using cipher(5) p by (intro open_with) (simp_all add: advance_def)
    moreover have "linked cr (advance (Some a') (cn_write_state s)) (advance (Some d') (cn_read_state r))"
      using l cipher(9) by (intro linked_advance) simp_all
    ultimately have "carried cr rnd s r ty p off (header_bytes ty' ?rv (length c) @ c)
        (take off (cn_write_buf s) @ header_bytes ty' ?rv (length c) @ c @ t) tb (Some a') (p' @ t') (Some d')"
      unfolding carried_def
      using b tb cipher(5,6,8) i take_rec [of "cn_write_buf s" "header_bytes ty' ?rv (length c) @ c" t]
      by (intro conjI allI) simp_all
    then show ?thesis by blast
  qed
qed

subsection \<open>Streams of records\<close>

text \<open>
  A sender and a receiver are connected when what the one seals next is what the other can open next.
\<close>

definition connected :: "crypto \<Rightarrow> 'a TLSConnection_scheme \<Rightarrow> 'b TLSConnection_scheme \<Rightarrow> bool" where
  "connected cr s r \<longleftrightarrow> linked cr (cn_write_state s) (cn_read_state r) \<and> sender_ok s \<and> receiver_ok r \<and>
     conn_record_version r = conn_record_version s"

definition may_carry :: "'a TLSConnection_scheme \<Rightarrow> int \<Rightarrow> bytes \<Rightarrow> bool" where
  "may_carry r ty p \<longleftrightarrow> length p \<le> 2 ^ 14 \<and>
     (ty = 22 \<and> p \<noteq> [] \<or> ty = 23 \<and> (\<not> has_unprocessed_data r \<or> \<not> is_tls13 r))"

lemma may_carry_frame [simp]:
  "may_carry (r\<lparr>cn_inbio := b\<rparr>) = may_carry r"
  "may_carry (r\<lparr>cn_read_buf := b\<rparr>) = may_carry r"
  "may_carry (r\<lparr>cn_read_state := st\<rparr>) = may_carry r"
  by (simp_all add: may_carry_def fun_eq_iff)

lemma connected_carried:
  assumes "connected cr s r" and "may_carry r ty p" and "cst_sequence_number (cn_write_state s) < 2 ^ 64"
    and "off + length p + 1030 \<le> 2 ^ 14 + 4106"
  shows "\<exists>rec wb tb c rb d. carried cr rnd s r ty p off rec wb tb c rb d"
proof (rule record_transfer)
  show "off + length p + 1030 \<le> length (cn_write_buf s)"
    using assms(1,4) by (simp add: connected_def sender_ok_def)
qed (use assms in \<open>simp_all add: connected_def may_carry_def\<close>)

lemma connected_step:
  assumes "connected cr s r" and "carried cr rnd s r ty p off rec wb tb c rb d"
  shows "connected cr (s\<lparr>cn_temp_buf := tb, cn_write_buf := wb, cn_write_state := advance c (cn_write_state s)\<rparr>)
    (r\<lparr>cn_read_buf := rb, cn_read_state := advance d (cn_read_state r)\<rparr>)"
  using assms by (simp add: connected_def carried_def sender_ok_def receiver_ok_def)

lemma connected_inbio [simp]: "connected cr s (r\<lparr>cn_inbio := b\<rparr>) = connected cr s r"
  by (simp add: connected_def receiver_ok_def)

lemma advance_simps [simp]:
  "cst_sequence_number (advance c st) \<le> cst_sequence_number st + 1"
  "cst_record_splitting (advance c st) = cst_record_splitting st"
  "cst_hide_content_type (advance c st) = cst_hide_content_type st"
  by (auto simp: advance_def split: option.split)

lemma open_record_one:
  "open_record_internal cr rnd s = (Inr x, s') \<Longrightarrow> conn_open_record cr rnd s = (Inr x, s')"
  by (simp add: conn_open_record_def catch_def)

text \<open>
  What one call of \<open>seal_record\<close> produces: one record, or two where the code splits off the first byte.
\<close>

definition split_payload :: "ConnectionState \<Rightarrow> int \<Rightarrow> bytes \<Rightarrow> bytes list" where
  "split_payload st ty p =
     (if cst_record_splitting st \<and> ty = 23 \<and> length p > 1 then [take 1 p, drop 1 p] else [p])"

lemma concat_split_payload [simp]: "concat (split_payload st ty p) = p"
  by (simp add: split_payload_def)

text \<open>The bytes \<open>bs\<close> are opened, record by record, to the payloads.\<close>

primrec opens_to ::
    "crypto \<Rightarrow> (nat \<Rightarrow> bytes) \<Rightarrow> int \<Rightarrow> 'b TLSConnection_scheme \<Rightarrow> bytes list \<Rightarrow> bytes \<Rightarrow> 'b TLSConnection_scheme \<Rightarrow> bool" where
  "opens_to cr rnd ty r [] bs r' \<longleftrightarrow> bs = [] \<and> r' = r"
| "opens_to cr rnd ty r (p # ps) bs r' \<longleftrightarrow> (\<exists>b1 b2 rb rs. bs = b1 @ b2 \<and>
     (\<forall>rest. conn_open_record cr rnd (r\<lparr>cn_inbio := b1 @ rest\<rparr>) =
        (Inr (ty, p), r\<lparr>cn_inbio := rest, cn_read_buf := rb, cn_read_state := rs\<rparr>)) \<and>
     opens_to cr rnd ty (r\<lparr>cn_read_buf := rb, cn_read_state := rs\<rparr>) ps b2 r')"

lemma opens_to_ConsI:
  assumes "\<And>rest. conn_open_record cr rnd (r\<lparr>cn_inbio := b1 @ rest\<rparr>) =
      (Inr (ty, p), r\<lparr>cn_inbio := rest, cn_read_buf := rb, cn_read_state := rs\<rparr>)"
    and "opens_to cr rnd ty (r\<lparr>cn_read_buf := rb, cn_read_state := rs\<rparr>) ps b2 r'"
  shows "opens_to cr rnd ty r (p # ps) (b1 @ b2) r'"
  using assms by (subst opens_to.simps) blast

lemma opens_to_ConsE:
  assumes "opens_to cr rnd ty r (p # ps) bs r'"
  obtains b1 b2 rb rs where "bs = b1 @ b2"
    "\<And>rest. conn_open_record cr rnd (r\<lparr>cn_inbio := b1 @ rest\<rparr>) =
       (Inr (ty, p), r\<lparr>cn_inbio := rest, cn_read_buf := rb, cn_read_state := rs\<rparr>)"
    "opens_to cr rnd ty (r\<lparr>cn_read_buf := rb, cn_read_state := rs\<rparr>) ps b2 r'"
  using assms by (subst (asm) opens_to.simps) blast

declare opens_to.simps(2) [simp del]

lemma opens_to_append:
  "opens_to cr rnd ty r ps bs r' \<Longrightarrow> opens_to cr rnd ty r' qs cs r'' \<Longrightarrow> opens_to cr rnd ty r (ps @ qs) (bs @ cs) r''"
proof (induction ps arbitrary: r bs)
  case (Cons p ps)
  from Cons.prems(1) show ?case
  proof (rule opens_to_ConsE)
    fix b1 b2 rb rs
    assume b: "bs = b1 @ b2" "\<And>rest. conn_open_record cr rnd (r\<lparr>cn_inbio := b1 @ rest\<rparr>) =
       (Inr (ty, p), r\<lparr>cn_inbio := rest, cn_read_buf := rb, cn_read_state := rs\<rparr>)"
      and "opens_to cr rnd ty (r\<lparr>cn_read_buf := rb, cn_read_state := rs\<rparr>) ps b2 r'"
    from opens_to_ConsI [OF b(2) Cons.IH [OF this(3) Cons.prems(2)]] b(1) show ?thesis by simp
  qed
qed simp

lemma opens_to_frame:
  "opens_to cr rnd ty r ps bs r' \<Longrightarrow> \<exists>rb rs. r' = r\<lparr>cn_read_buf := rb, cn_read_state := rs\<rparr>"
proof (induction ps arbitrary: r bs)
  case Nil
  then have "r' = r\<lparr>cn_read_buf := cn_read_buf r, cn_read_state := cn_read_state r\<rparr>" by simp
  then show ?case by blast
next
  case (Cons p ps)
  from Cons.prems show ?case by (rule opens_to_ConsE) (use Cons.IH in fastforce)
qed

definition sealed_as ::
    "crypto \<Rightarrow> (nat \<Rightarrow> bytes) \<Rightarrow> 'a TLSConnection_scheme \<Rightarrow> 'b TLSConnection_scheme \<Rightarrow> int \<Rightarrow> bytes \<Rightarrow> bytes \<Rightarrow>
     'a TLSConnection_scheme \<Rightarrow> 'b TLSConnection_scheme \<Rightarrow> bool" where
  "sealed_as cr rnd s r ty p bs s' r' \<longleftrightarrow> seal_record cr ty p s = (Inr bs, s') \<and>
    (\<exists>tb wb ws. s' = s\<lparr>cn_temp_buf := tb, cn_write_buf := wb, cn_write_state := ws\<rparr>) \<and>
    opens_to cr rnd ty r (split_payload (cn_write_state s) ty p) bs r' \<and>
    connected cr s' r' \<and>
    cst_sequence_number (cn_write_state s') \<le> cst_sequence_number (cn_write_state s) + 2"

lemma carried_opens:
  assumes "carried cr rnd s r ty p off rec wb tb c rb d"
  shows "conn_open_record cr rnd (r\<lparr>cn_inbio := rec @ rest\<rparr>) =
    (Inr (ty, p), r\<lparr>cn_inbio := rest, cn_read_buf := rb, cn_read_state := advance d (cn_read_state r)\<rparr>)"
  using assms by (intro open_record_one) (simp add: carried_def)

lemma carried_opens_to:
  assumes "carried cr rnd s r ty p off rec wb tb c rb d"
  shows "opens_to cr rnd ty r [p] rec (r\<lparr>cn_read_buf := rb, cn_read_state := advance d (cn_read_state r)\<rparr>)"
  using opens_to_ConsI [OF carried_opens [OF assms], of "[]" "[]"] by simp

lemma seal_record_transfer:
  assumes con: "connected cr s r" and may: "may_carry r ty p"
    and seq: "cst_sequence_number (cn_write_state s) + 1 < 2 ^ 64"
  shows "\<exists>bs s' r'. sealed_as cr rnd s r ty p bs s' r'"
proof (cases "cst_record_splitting (cn_write_state s) \<and> ty = 23 \<and> length p > 1")
  case False
  from con may seq obtain rec wb tb c rb d where c: "carried cr rnd s r ty p 0 rec wb tb c rb d"
    using connected_carried [of cr s r ty p 0 rnd] by (auto simp: may_carry_def)
  let ?s = "s\<lparr>cn_temp_buf := tb, cn_write_buf := wb, cn_write_state := advance c (cn_write_state s)\<rparr>"
  let ?r = "r\<lparr>cn_read_buf := rb, cn_read_state := advance d (cn_read_state r)\<rparr>"
  have "seal_record cr ty p s = (Inr rec, ?s)"
    using False c by (auto simp: seal_record_def bnd_apply ret_def carried_def)
  moreover note carried_opens_to [OF c]
  moreover have "split_payload (cn_write_state s) ty p = [p]" using False by (auto simp: split_payload_def)
  moreover have "cst_sequence_number (advance c (cn_write_state s)) \<le> cst_sequence_number (cn_write_state s) + 2"
    by (rule order_trans [OF advance_simps(1)]) simp
  ultimately have "sealed_as cr rnd s r ty p rec ?s ?r"
    unfolding sealed_as_def using connected_step [OF con c] by (intro conjI exI) simp_all
  then show ?thesis by blast
next
  case True
  with may have m: "may_carry r ty (take 1 p)" "may_carry r ty (drop 1 p)" by (auto simp: may_carry_def)
  from con m(1) seq obtain rec wb tb c rb d where c: "carried cr rnd s r ty (take 1 p) 0 rec wb tb c rb d"
    using connected_carried [of cr s r ty "take 1 p" 0 rnd] by (auto simp: may_carry_def)
  let ?s = "s\<lparr>cn_temp_buf := tb, cn_write_buf := wb, cn_write_state := advance c (cn_write_state s)\<rparr>"
  let ?r = "r\<lparr>cn_read_buf := rb, cn_read_state := advance d (cn_read_state r)\<rparr>"
  have seq1: "cst_sequence_number (advance c (cn_write_state s)) < 2 ^ 64"
    by (rule le_less_trans [OF advance_simps(1) seq])
  have rec: "length rec \<le> 1031" using c True by (simp add: carried_def)
  from connected_carried [OF connected_step [OF con c], of ty "drop 1 p" "length rec" rnd] m(2) seq1 rec may
  obtain rec2 wb2 tb2 c2 rb2 d2 where c2: "carried cr rnd ?s ?r ty (drop 1 p) (length rec) rec2 wb2 tb2 c2 rb2 d2"
    by (auto simp: may_carry_def)
  let ?s2 = "?s\<lparr>cn_temp_buf := tb2, cn_write_buf := wb2, cn_write_state := advance c2 (cn_write_state ?s)\<rparr>"
  let ?r2 = "?r\<lparr>cn_read_buf := rb2, cn_read_state := advance d2 (cn_read_state ?r)\<rparr>"
  have "take (length rec + length rec2) wb2 = rec @ rec2" using c c2 by (simp add: carried_def)
  then have "seal_record cr ty p s = (Inr (rec @ rec2), ?s2)"
    using True c c2 by (simp add: seal_record_def bnd_apply ret_def carried_def)
  moreover have "opens_to cr rnd ty r [take 1 p, drop 1 p] (rec @ rec2) ?r2"
    using opens_to_append [OF carried_opens_to [OF c] carried_opens_to [OF c2]] by simp
  moreover have "split_payload (cn_write_state s) ty p = [take 1 p, drop 1 p]" using True by (auto simp: split_payload_def)
  moreover have "cst_sequence_number (advance c2 (advance c (cn_write_state s))) \<le> cst_sequence_number (cn_write_state s) + 2"
    using advance_simps(1) [of c2 "advance c (cn_write_state s)"] advance_simps(1) [of c "cn_write_state s"] by linarith
  ultimately have "sealed_as cr rnd s r ty p (rec @ rec2) ?s2 ?r2"
    unfolding sealed_as_def using connected_step [OF connected_step [OF con c] c2]
    by (intro conjI exI [of _ tb2] exI [of _ wb2] exI [of _ "advance c2 (advance c (cn_write_state s))"])
      simp_all
  then show ?thesis by blast
qed

subsection \<open>Application data\<close>

definition idle_sender :: "'a TLSConnection_scheme \<Rightarrow> bool" where
  "idle_sender s \<longleftrightarrow> hs_done s \<and> \<not> hs_can_early_write s \<and> cn_write_shutdown s = SHUT_NONE \<and>
     hs_outgoing_messages s = [] \<and> cn_pending_flight s = []"

definition idle_receiver :: "'a TLSConnection_scheme \<Rightarrow> bool" where
  "idle_receiver r \<longleftrightarrow> hs_done r \<and> \<not> hs_can_early_read r \<and> cn_pending_app_data r = [] \<and> \<not> has_unprocessed_data r"

lemma idle_frame [simp]:
  "idle_sender (s\<lparr>cn_temp_buf := b\<rparr>) = idle_sender s" "idle_sender (s\<lparr>cn_write_buf := b\<rparr>) = idle_sender s"
  "idle_sender (s\<lparr>cn_write_state := st\<rparr>) = idle_sender s" "idle_sender (s\<lparr>cn_outbio := b\<rparr>) = idle_sender s"
  "idle_receiver (r\<lparr>cn_inbio := b\<rparr>) = idle_receiver r" "idle_receiver (r\<lparr>cn_read_buf := b\<rparr>) = idle_receiver r"
  "idle_receiver (r\<lparr>cn_read_state := st\<rparr>) = idle_receiver r"
  by (simp_all add: idle_sender_def idle_receiver_def hs_done_def)

lemma connected_outbio [simp]: "connected cr (s\<lparr>cn_outbio := b\<rparr>) r = connected cr s r"
  by (simp add: connected_def sender_ok_def conn_record_version_def)

lemma conn_write_apply:
  assumes "idle_sender s" "sender_ok s" "d \<noteq> []" "length d \<le> 2 ^ 14"
    and "seal_record cr 23 d s = (Inr bs, s')" "cn_outbio s' = cn_outbio s"
    and "\<not> hs_can_early_write s'"
  shows "conn_write fuel cr rnd hsk d s = (Inr (length d), s'\<lparr>cn_outbio := cn_outbio s @ bs\<rparr>)"
  using assms
  by (simp add: conn_write_def bnd_apply thn_apply idle_sender_def sender_ok_def Let_def write_record_def
      conn_flush_handshake_def conn_pack_handshake_def outbio_write_def ret_def)

lemma conn_read_apply:
  assumes "idle_receiver r" "conn_open_record cr rnd r = (Inr (23, p), r')" "idle_receiver r'"
    and "p \<noteq> []" "int (length p) \<le> len"
  shows "conn_read (Suc fuel) cr rnd hsk len None r = (Inr p, r')"
  using assms
  by (simp add: bnd_apply thn_apply idle_receiver_def early_data_received_def ret_def read_result_def)

lemma opens_to_read:
  assumes "opens_to cr rnd 23 r ps bs r'" and "idle_receiver r"
    and "\<And>p. p \<in> set ps \<Longrightarrow> p \<noteq> [] \<and> int (length p) \<le> len"
  shows "repeat_action (length ps) (conn_read (Suc fuel) cr rnd hsk len None) (r\<lparr>cn_inbio := bs @ rest\<rparr>) =
    (Inr ps, r'\<lparr>cn_inbio := rest\<rparr>)"
  using assms
proof (induction ps arbitrary: r bs)
  case (Cons p ps)
  from Cons.prems(1) show ?case
  proof (rule opens_to_ConsE)
    fix b1 b2 rb rs
    assume b: "bs = b1 @ b2" "\<And>rest. conn_open_record cr rnd (r\<lparr>cn_inbio := b1 @ rest\<rparr>) =
       (Inr (23, p), r\<lparr>cn_inbio := rest, cn_read_buf := rb, cn_read_state := rs\<rparr>)"
      and o: "opens_to cr rnd 23 (r\<lparr>cn_read_buf := rb, cn_read_state := rs\<rparr>) ps b2 r'"
    let ?r = "r\<lparr>cn_read_buf := rb, cn_read_state := rs\<rparr>"
    have "conn_read (Suc fuel) cr rnd hsk len None (r\<lparr>cn_inbio := b1 @ b2 @ rest\<rparr>) =
        (Inr p, ?r\<lparr>cn_inbio := b2 @ rest\<rparr>)"
      using Cons.prems(2,3) b(2) [of "b2 @ rest"] by (intro conn_read_apply) simp_all
    moreover have "repeat_action (length ps) (conn_read (Suc fuel) cr rnd hsk len None) (?r\<lparr>cn_inbio := b2 @ rest\<rparr>) =
        (Inr ps, r'\<lparr>cn_inbio := rest\<rparr>)"
      using Cons.IH [OF o] Cons.prems(2,3) by simp
    ultimately show ?thesis by (simp add: b(1) bnd_apply ret_def del: conn_read.simps)
  qed
qed (simp add: ret_def)

lemma write_step:
  assumes con: "connected cr s r" and i: "idle_sender s" "idle_receiver r" and d: "d \<noteq> []" "length d \<le> 2 ^ 14"
    and seq: "cst_sequence_number (cn_write_state s) + 1 < 2 ^ 64"
  shows "\<exists>bs ps s' r'. conn_write fuel cr rw hsk d s = (Inr (length d), s') \<and> cn_outbio s' = cn_outbio s @ bs \<and>
    opens_to cr rnd 23 r ps bs r' \<and> concat ps = d \<and> (\<forall>p\<in>set ps. p \<noteq> [] \<and> length p \<le> 2 ^ 14) \<and>
    connected cr s' r' \<and> idle_sender s' \<and> idle_receiver r' \<and>
    cst_sequence_number (cn_write_state s') \<le> cst_sequence_number (cn_write_state s) + 2"
proof -
  have "may_carry r 23 d" using i(2) d by (simp add: may_carry_def idle_receiver_def)
  from seal_record_transfer [OF con this seq, of rnd] obtain bs s' r' where c: "sealed_as cr rnd s r 23 d bs s' r'" by blast
  then obtain tb wb ws where s': "s' = s\<lparr>cn_temp_buf := tb, cn_write_buf := wb, cn_write_state := ws\<rparr>"
    unfolding sealed_as_def by blast
  from c have o: "opens_to cr rnd 23 r (split_payload (cn_write_state s) 23 d) bs r'" by (simp add: sealed_as_def)
  from opens_to_frame [OF this] i(2) have "idle_receiver r'" by auto
  moreover have "conn_write fuel cr rw hsk d s = (Inr (length d), s'\<lparr>cn_outbio := cn_outbio s @ bs\<rparr>)"
    using c con i(1) d
    by (intro conn_write_apply) (simp_all add: sealed_as_def connected_def s' idle_sender_def)
  moreover have "\<forall>p\<in>set (split_payload (cn_write_state s) 23 d). p \<noteq> [] \<and> length p \<le> 2 ^ 14"
    using d by (auto simp: split_payload_def)
  moreover have "connected cr (s'\<lparr>cn_outbio := cn_outbio s @ bs\<rparr>) r'"
    "cst_sequence_number (cn_write_state s') \<le> cst_sequence_number (cn_write_state s) + 2"
    using c by (simp_all add: sealed_as_def)
  moreover have "idle_sender (s'\<lparr>cn_outbio := cn_outbio s @ bs\<rparr>)" using i(1) by (simp add: s')
  ultimately show ?thesis using o concat_split_payload by fastforce
qed

lemma writes_transfer:
  assumes "connected cr s r" "idle_sender s" "idle_receiver r" "\<And>d. d \<in> set ds \<Longrightarrow> d \<noteq> [] \<and> length d \<le> 2 ^ 14"
    and "cst_sequence_number (cn_write_state s) + 2 * int (length ds) \<le> 2 ^ 64"
  shows "\<exists>bs ps s' r'. for_each (\<lambda>d. thn (conn_write fuel cr rw hsk d) (ret ())) ds s = (Inr (), s') \<and>
    cn_outbio s' = cn_outbio s @ bs \<and> opens_to cr rnd 23 r ps bs r' \<and> concat ps = concat ds \<and>
    (\<forall>p\<in>set ps. p \<noteq> [] \<and> length p \<le> 2 ^ 14) \<and> connected cr s' r'"
  using assms
proof (induction ds arbitrary: s r)
  case Nil
  then show ?case by (auto simp: ret_def intro!: exI [of _ r] exI [of _ "[]"])
next
  case (Cons d ds)
  from write_step [of cr s r d fuel rw hsk rnd] Cons.prems obtain bs ps s1 r1 where one:
    "conn_write fuel cr rw hsk d s = (Inr (length d), s1)" "cn_outbio s1 = cn_outbio s @ bs"
    "opens_to cr rnd 23 r ps bs r1" "concat ps = d" "\<forall>p\<in>set ps. p \<noteq> [] \<and> length p \<le> 2 ^ 14"
    "connected cr s1 r1" "idle_sender s1" "idle_receiver r1"
    "cst_sequence_number (cn_write_state s1) \<le> cst_sequence_number (cn_write_state s) + 2" by fastforce
  from Cons.IH [OF one(6-8)] Cons.prems(4,5) one(9) obtain bs' ps' s' r' where two:
    "for_each (\<lambda>d. thn (conn_write fuel cr rw hsk d) (ret ())) ds s1 = (Inr (), s')"
    "cn_outbio s' = cn_outbio s1 @ bs'" "opens_to cr rnd 23 r1 ps' bs' r'" "concat ps' = concat ds"
    "\<forall>p\<in>set ps'. p \<noteq> [] \<and> length p \<le> 2 ^ 14" "connected cr s' r'" by fastforce
  have "for_each (\<lambda>d. thn (conn_write fuel cr rw hsk d) (ret ())) (d # ds) s = (Inr (), s')"
    using one(1) two(1) by (simp add: thn_apply ret_def)
  moreover have "cn_outbio s' = cn_outbio s @ bs @ bs'" "concat (ps @ ps') = concat (d # ds)"
    "\<forall>p\<in>set (ps @ ps'). p \<noteq> [] \<and> length p \<le> 2 ^ 14"
    using one(2,4,5) two(2,4,5) by auto
  ultimately show ?case using opens_to_append [OF one(3) two(3)] two(6) by blast
qed

text \<open>
  C14: Application data written on one connection is read on the other.  If the reader's keys are in step
  with the writer's and both are idle, then any writes of at least one and at most \<open>2\<^sup>1\<^sup>4\<close> bytes succeed, as long as two records
  for each do not exceed the \<open>2\<^sup>6\<^sup>4\<close> sequence numbers, and reading the bytes they put on the wire, with a
  limit of at least \<open>2\<^sup>1\<^sup>4\<close> bytes a time, gives back what was written, in order and without loss, whatever the protection, also
  where records are split; the two ends are in step again afterwards.
\<close>

theorem application_data_transfer:
  assumes "connected cr s r" and "idle_sender s" and "idle_receiver r"
    and "\<And>d. d \<in> set ds \<Longrightarrow> d \<noteq> [] \<and> length d \<le> 2 ^ 14"
    and "cst_sequence_number (cn_write_state s) + 2 * int (length ds) \<le> 2 ^ 64"
    and "2 ^ 14 \<le> len"
  shows "\<exists>s' bs ps r'. for_each (\<lambda>d. thn (conn_write fuel cr rw hsk d) (ret ())) ds s = (Inr (), s') \<and>
    cn_outbio s' = cn_outbio s @ bs \<and>
    repeat_action (length ps) (conn_read (Suc fuel') cr rnd hsk' len None) (r\<lparr>cn_inbio := bs\<rparr>) = (Inr ps, r') \<and>
    concat ps = concat ds \<and> cn_inbio r' = [] \<and> connected cr s' r'"
proof -
  from writes_transfer [OF assms(1-5), of fuel rw hsk rnd] obtain bs ps s' r' where w:
    "for_each (\<lambda>d. thn (conn_write fuel cr rw hsk d) (ret ())) ds s = (Inr (), s')"
    "cn_outbio s' = cn_outbio s @ bs" "opens_to cr rnd 23 r ps bs r'" "concat ps = concat ds"
    "\<forall>p\<in>set ps. p \<noteq> [] \<and> length p \<le> 2 ^ 14" "connected cr s' r'" by blast
  have "repeat_action (length ps) (conn_read (Suc fuel') cr rnd hsk' len None) (r\<lparr>cn_inbio := bs @ []\<rparr>) =
      (Inr ps, r'\<lparr>cn_inbio := []\<rparr>)"
    using w(5) assms(6) by (intro opens_to_read [OF w(3) assms(3)]) force
  with w show ?thesis by (intro exI [of _ s'] exI [of _ bs] exI [of _ ps] exI [of _ "r'\<lparr>cn_inbio := []\<rparr>"]) simp
qed

text \<open>Two new connections, for the examples: nothing is protected yet.\<close>

definition sample_connection :: "bool \<Rightarrow> TLSConnection" where
  "sample_connection is_server = TLSConnection_init ((sample_handshake is_server)\<lparr>hs_state := 35\<rparr>)"

lemmas sample_connection_defs = sample_connection_def TLSConnection_init_def TLSHandshake.defs TLSConnection.defs
  sample_handshake_def ConnectionState_init_def

lemma sample_connected: "connected cr (sample_connection x) (sample_connection y)"
  by (simp add: connected_def linked_def sender_ok_def receiver_ok_def conn_record_version_def
      sample_connection_defs HEADER_LENGTH_def)

lemma sample_idle: "idle_sender (sample_connection x)" "idle_receiver (sample_connection y)"
  by (simp_all add: idle_sender_def idle_receiver_def hs_done_def has_unprocessed_data_def sample_connection_defs)

theorem application_data_transfer_witness:
  "\<exists>s' bs ps r'. for_each (\<lambda>d. thn (conn_write 0 sample_crypto (\<lambda>n. replicate n 0) (ret ST_OK) d) (ret ())) [[1, 2], [3]]
      (sample_connection False) = (Inr (), s') \<and>
    cn_outbio s' = bs \<and>
    repeat_action (length ps) (conn_read 1 sample_crypto (\<lambda>n. replicate n 0) (ret ST_OK) 16384 None)
      ((sample_connection True)\<lparr>cn_inbio := bs\<rparr>) = (Inr ps, r') \<and>
    concat ps = [1, 2, 3] \<and> cn_inbio r' = [] \<and> connected sample_crypto s' r'"
proof -
  have p: "\<And>d. d \<in> set [[1, 2], [3 :: byte]] \<Longrightarrow> d \<noteq> [] \<and> length d \<le> 2 ^ 14" by auto
  have "cn_outbio (sample_connection False) = []" "cst_sequence_number (cn_write_state (sample_connection False)) = 0"
    by (simp_all add: sample_connection_defs)
  with application_data_transfer [where s = "sample_connection False" and r = "sample_connection True" and
      ds = "[[1, 2], [3]]" and len = 16384 and fuel = 0 and fuel' = 0 and cr = sample_crypto and
      rw = "\<lambda>n. replicate n 0" and rnd = "\<lambda>n. replicate n 0" and hsk = "ret ST_OK" and hsk' = "ret ST_OK",
      OF sample_connected sample_idle p]
  show ?thesis by (auto simp del: conn_read.simps)
qed

end
