(* ===== verification/Flight_Laws.thy ===== *)
theory Flight_Laws
  imports Record_Laws
begin

text \<open>
  A flight of handshake messages crosses the record layer: from the messages queued by the handshake of
  one side, through fragmentation into records, protection, the wire and reassembly, to the messages
  that the handshake of the other side takes out.
\<close>

subsection \<open>Fragmentation\<close>

lemma fragments_Nil [simp]: "fragments n [] = []"
  by (subst fragments.simps) simp

lemma fragments_step: "0 < n \<Longrightarrow> xs \<noteq> [] \<Longrightarrow> fragments n xs = take n xs # fragments n (drop n xs)"
  by (subst fragments.simps) simp

lemma concat_fragments: "0 < n \<Longrightarrow> concat (fragments n xs) = xs"
proof (induction n xs rule: fragments.induct)
  case (1 n xs)
  then show ?case by (cases "xs = []") (simp_all add: fragments_step)
qed

lemma fragments_bounds:
  "p \<in> set (fragments n xs) \<Longrightarrow> p \<noteq> [] \<and> length p \<le> n"
proof (induction n xs rule: fragments.induct)
  case (1 n xs)
  show ?case
  proof (cases "n = 0 \<or> xs = []")
    case True
    with 1(2) show ?thesis by (subst (asm) fragments.simps) auto
  next
    case False
    with 1(2) have "p = take n xs \<or> p \<in> set (fragments n (drop n xs))" by (simp add: fragments_step)
    with 1(1) [OF False] False show ?thesis by auto
  qed
qed

lemma length_fragments: "length (fragments n xs) \<le> length xs"
proof (induction n xs rule: fragments.induct)
  case (1 n xs)
  show ?case
  proof (cases "n = 0 \<or> xs = []")
    case True
    then show ?thesis by (subst fragments.simps) auto
  next
    case False
    then have "0 < n" "xs \<noteq> []" "length (drop n xs) < length xs" by auto
    with 1(1) [OF False] show ?thesis by (simp add: fragments_step del: length_drop)
  qed
qed

subsection \<open>The records of a flight\<close>

lemma connected_flight [simp]:
  "connected cr (s\<lparr>cn_pending_flight := b\<rparr>) r = connected cr s r"
  "connected cr (s\<lparr>hs_outgoing_messages := ms\<rparr>) r = connected cr s r"
  "connected cr (s\<lparr>hs_transcript := t\<rparr>) r = connected cr s r"
  "connected cr s (r\<lparr>hs_incoming_data := d\<rparr>) = connected cr s r"
  "connected cr s (r\<lparr>hs_transcript := t\<rparr>) = connected cr s r"
  by (simp_all add: connected_def sender_ok_def receiver_ok_def conn_record_version_def)

lemma split_payload_handshake [simp]: "split_payload st 22 p = [p]"
  by (simp add: split_payload_def)

definition queue_record :: "crypto \<Rightarrow> bytes \<Rightarrow> ('a, unit) conn_action" where
  "queue_record cr p = bnd (seal_record cr (ct CT_HANDSHAKE) p) (\<lambda>b.
     modify (\<lambda>s. s\<lparr>cn_pending_flight := cn_pending_flight s @ b\<rparr>))"

text \<open>The sender's and the receiver's state after a flight.\<close>

definition flight_sent ::
    "crypto \<Rightarrow> (nat \<Rightarrow> bytes) \<Rightarrow> 'a TLSConnection_scheme \<Rightarrow> 'b TLSConnection_scheme \<Rightarrow> bytes list \<Rightarrow> bytes \<Rightarrow>
     'a TLSConnection_scheme \<Rightarrow> 'b TLSConnection_scheme \<Rightarrow> bool" where
  "flight_sent cr rnd s r ps bs s' r' \<longleftrightarrow>
     for_each (queue_record cr) ps s = (Inr (), s') \<and>
     (\<exists>tb wb ws. s' = s\<lparr>cn_temp_buf := tb, cn_write_buf := wb, cn_write_state := ws,
        cn_pending_flight := cn_pending_flight s @ bs\<rparr>) \<and>
     (\<forall>rest. repeat_action (length ps) (conn_read_handshake cr rnd) (r\<lparr>cn_inbio := bs @ rest\<rparr>) =
        (Inr (replicate (length ps) ()), r'\<lparr>cn_inbio := rest\<rparr>)) \<and>
     (\<exists>rb rs. r' = r\<lparr>hs_incoming_data := hs_incoming_data r @ concat ps, cn_read_buf := rb, cn_read_state := rs\<rparr>) \<and>
     connected cr s' r'"

lemma flight_sent_one:
  assumes con: "connected cr s r" and p: "p \<noteq> []" "length p \<le> 2 ^ 14"
    and seq: "cst_sequence_number (cn_write_state s) + 1 < 2 ^ 64"
  shows "\<exists>bs s' r'. flight_sent cr rnd s r [p] bs s' r' \<and>
    cst_sequence_number (cn_write_state s') \<le> cst_sequence_number (cn_write_state s) + 2"
proof -
  have "may_carry r 22 p" using p by (simp add: may_carry_def)
  from seal_record_transfer [OF con this seq, of rnd] obtain bs s1 r1 where c: "sealed_as cr rnd s r 22 p bs s1 r1" by blast
  then obtain tb wb ws where s1: "s1 = s\<lparr>cn_temp_buf := tb, cn_write_buf := wb, cn_write_state := ws\<rparr>"
    and sl: "seal_record cr 22 p s = (Inr bs, s1)" and con1: "connected cr s1 r1"
    and seq1: "cst_sequence_number (cn_write_state s1) \<le> cst_sequence_number (cn_write_state s) + 2"
    unfolding sealed_as_def by blast
  from c have "opens_to cr rnd 22 r [p] bs r1" by (simp add: sealed_as_def)
  then obtain rb rs where o: "\<And>rest. conn_open_record cr rnd (r\<lparr>cn_inbio := bs @ rest\<rparr>) =
      (Inr (22, p), r\<lparr>cn_inbio := rest, cn_read_buf := rb, cn_read_state := rs\<rparr>)"
    and r1: "r1 = r\<lparr>cn_read_buf := rb, cn_read_state := rs\<rparr>"
    by (auto elim!: opens_to_ConsE)
  let ?s = "s1\<lparr>cn_pending_flight := cn_pending_flight s @ bs\<rparr>"
  let ?r = "r1\<lparr>hs_incoming_data := hs_incoming_data r @ p\<rparr>"
  have "for_each (queue_record cr) [p] s = (Inr (), ?s)"
    using sl by (simp add: queue_record_def thn_apply bnd_apply ret_def s1)
  moreover have "repeat_action 1 (conn_read_handshake cr rnd) (r\<lparr>cn_inbio := bs @ rest\<rparr>) = (Inr [()], ?r\<lparr>cn_inbio := rest\<rparr>)" for rest
    using o [of rest] by (simp add: conn_read_handshake_def bnd_apply thn_apply alert_if_def feed_data_def ret_def r1)
  moreover have "?s = s\<lparr>cn_temp_buf := tb, cn_write_buf := wb, cn_write_state := ws, cn_pending_flight := cn_pending_flight s @ bs\<rparr>"
    by (simp add: s1)
  moreover have "?r = r\<lparr>hs_incoming_data := hs_incoming_data r @ concat [p], cn_read_buf := rb, cn_read_state := rs\<rparr>" by (simp add: r1)
  moreover have "connected cr ?s ?r" using con1 by simp
  ultimately have "flight_sent cr rnd s r [p] bs ?s ?r"
    unfolding flight_sent_def by (intro conjI) (blast | simp)+
  with seq1 show ?thesis by (intro exI [of _ bs] exI [of _ ?s] exI [of _ ?r]) simp
qed

lemma for_each_append:
  "for_each f xs s = (Inr (), t) \<Longrightarrow> for_each f (xs @ ys) s = for_each f ys t"
  by (induction xs arbitrary: s) (auto simp: ret_def thn_apply split: prod.splits sum.splits)

lemma repeat_action_add:
  "repeat_action m a s = (Inr xs, t) \<Longrightarrow> repeat_action n a t = (Inr ys, u) \<Longrightarrow>
   repeat_action (m + n) a s = (Inr (xs @ ys), u)"
proof (induction m arbitrary: s xs)
  case (Suc m)
  from Suc.prems(1) obtain x s1 zs where "a s = (Inr x, s1)" "repeat_action m a s1 = (Inr zs, t)" "xs = x # zs"
    by (auto elim!: bnd_InrE simp: ret_def)
  with Suc.IH [of s1 zs] Suc.prems(2) show ?case by (simp add: bnd_apply ret_def)
qed (simp add: ret_def)

lemma flight_sent_append:
  assumes a: "flight_sent cr rnd s r ps bs s1 r1" and b: "flight_sent cr rnd s1 r1 qs cs s' r'"
  shows "flight_sent cr rnd s r (ps @ qs) (bs @ cs) s' r'"
proof -
  obtain tb wb ws where s1: "s1 = s\<lparr>cn_temp_buf := tb, cn_write_buf := wb, cn_write_state := ws,
      cn_pending_flight := cn_pending_flight s @ bs\<rparr>" using a unfolding flight_sent_def by blast
  obtain tb' wb' ws' where s': "s' = s1\<lparr>cn_temp_buf := tb', cn_write_buf := wb', cn_write_state := ws',
      cn_pending_flight := cn_pending_flight s1 @ cs\<rparr>" using b unfolding flight_sent_def by blast
  obtain rb rs where r1: "r1 = r\<lparr>hs_incoming_data := hs_incoming_data r @ concat ps, cn_read_buf := rb, cn_read_state := rs\<rparr>"
    using a unfolding flight_sent_def by blast
  obtain rb' rs' where r': "r' = r1\<lparr>hs_incoming_data := hs_incoming_data r1 @ concat qs, cn_read_buf := rb', cn_read_state := rs'\<rparr>"
    using b unfolding flight_sent_def by blast
  have "for_each (queue_record cr) (ps @ qs) s = (Inr (), s')"
    using a b by (simp add: flight_sent_def for_each_append)
  moreover have "repeat_action (length (ps @ qs)) (conn_read_handshake cr rnd) (r\<lparr>cn_inbio := (bs @ cs) @ rest\<rparr>) =
      (Inr (replicate (length (ps @ qs)) ()), r'\<lparr>cn_inbio := rest\<rparr>)" for rest
    using a b repeat_action_add [of "length ps" "conn_read_handshake cr rnd" "r\<lparr>cn_inbio := bs @ cs @ rest\<rparr>"
        "replicate (length ps) ()" "r1\<lparr>cn_inbio := cs @ rest\<rparr>" "length qs" "replicate (length qs) ()" "r'\<lparr>cn_inbio := rest\<rparr>"]
    by (simp add: flight_sent_def replicate_add)
  moreover have "s' = s\<lparr>cn_temp_buf := tb', cn_write_buf := wb', cn_write_state := ws',
      cn_pending_flight := cn_pending_flight s @ bs @ cs\<rparr>" by (simp add: s' s1)
  moreover have "r' = r\<lparr>hs_incoming_data := hs_incoming_data r @ concat (ps @ qs), cn_read_buf := rb', cn_read_state := rs'\<rparr>"
    by (simp add: r' r1)
  moreover have "connected cr s' r'" using b by (simp add: flight_sent_def)
  ultimately show ?thesis unfolding flight_sent_def by blast
qed

lemma flight_sent_Nil:
  assumes "connected cr s r"
  shows "flight_sent cr rnd s r [] [] s r"
proof -
  have "\<exists>tb wb ws. s = s\<lparr>cn_temp_buf := tb, cn_write_buf := wb, cn_write_state := ws, cn_pending_flight := cn_pending_flight s @ []\<rparr>"
    by (rule exI [of _ "cn_temp_buf s"], rule exI [of _ "cn_write_buf s"], rule exI [of _ "cn_write_state s"]) simp
  moreover have "\<exists>rb rs. r = r\<lparr>hs_incoming_data := hs_incoming_data r @ concat [], cn_read_buf := rb, cn_read_state := rs\<rparr>"
    by (rule exI [of _ "cn_read_buf r"], rule exI [of _ "cn_read_state r"]) simp
  moreover have "for_each (queue_record cr) [] s = (Inr (), s)"
    "repeat_action (length ([] :: bytes list)) (conn_read_handshake cr rnd) (r\<lparr>cn_inbio := [] @ rest\<rparr>) =
      (Inr (replicate (length ([] :: bytes list)) ()), r\<lparr>cn_inbio := rest\<rparr>)" for rest
    by (simp_all add: ret_def)
  ultimately show ?thesis using assms unfolding flight_sent_def by blast
qed

lemma flight_sent_all:
  assumes "connected cr s r" and "\<And>p. p \<in> set ps \<Longrightarrow> p \<noteq> [] \<and> length p \<le> 2 ^ 14"
    and "cst_sequence_number (cn_write_state s) + 2 * int (length ps) \<le> 2 ^ 64"
  shows "\<exists>bs s' r'. flight_sent cr rnd s r ps bs s' r'"
  using assms
proof (induction ps arbitrary: s r)
  case Nil
  then show ?case using flight_sent_Nil by blast
next
  case (Cons p ps)
  from flight_sent_one [of cr s r p rnd] Cons.prems obtain bs s1 r1 where one: "flight_sent cr rnd s r [p] bs s1 r1"
    "cst_sequence_number (cn_write_state s1) \<le> cst_sequence_number (cn_write_state s) + 2" by auto
  have "connected cr s1 r1" using one(1) by (simp add: flight_sent_def)
  with Cons.IH [of s1 r1] Cons.prems(2,3) one(2) obtain cs s' r' where "flight_sent cr rnd s1 r1 ps cs s' r'" by auto
  with flight_sent_append [OF one(1)] show ?case by fastforce
qed

subsection \<open>Flushing a flight\<close>

lemma conn_pack_apply:
  assumes "concat (hs_outgoing_messages s) = [] \<Longrightarrow> hs_outgoing_messages s = []"
  shows "conn_pack_handshake cr s = thn (for_each (queue_record cr)
    (fragments (cn_send_record_limit s - 1) (concat (hs_outgoing_messages s)))) clear_flight s"
  using assms
  by (auto simp: conn_pack_handshake_def bnd_apply thn_apply queue_record_def [abs_def] clear_flight_def ret_def Let_def)

lemma flush_flight:
  assumes con: "connected cr s r" and "concat (hs_outgoing_messages s) = [] \<Longrightarrow> hs_outgoing_messages s = []"
    and s: "cn_write_shutdown s = SHUT_NONE" "cn_pending_flight s = []"
    and seq: "cst_sequence_number (cn_write_state s) + 2 * int (length (concat (hs_outgoing_messages s))) \<le> 2 ^ 64"
  shows "\<exists>bs n s' r' rb rs. conn_flush_handshake cr s = (Inr (), s') \<and> cn_outbio s' = cn_outbio s @ bs \<and>
    repeat_action n (conn_read_handshake cr rnd) (r\<lparr>cn_inbio := bs\<rparr>) = (Inr (replicate n ()), r') \<and>
    r' = r\<lparr>cn_inbio := [], hs_incoming_data := hs_incoming_data r @ concat (hs_outgoing_messages s),
      cn_read_buf := rb, cn_read_state := rs\<rparr> \<and>
    hs_outgoing_messages s' = [] \<and> hs_transcript s' = hs_transcript s \<and> connected cr s' r'"
proof -
  let ?d = "concat (hs_outgoing_messages s)"
  let ?ps = "fragments (cn_send_record_limit s - 1) ?d"
  have lim: "cn_send_record_limit s = 2 ^ 14" using con by (simp add: connected_def sender_ok_def)
  have cat: "concat ?ps = ?d" by (rule concat_fragments) (simp add: lim)
  have "\<And>p. p \<in> set ?ps \<Longrightarrow> p \<noteq> [] \<and> length p \<le> 2 ^ 14"
    using fragments_bounds [of _ "cn_send_record_limit s - 1" ?d] lim by fastforce
  moreover have "cst_sequence_number (cn_write_state s) + 2 * int (length ?ps) \<le> 2 ^ 64"
    using seq length_fragments [of "cn_send_record_limit s - 1" ?d] by linarith
  ultimately obtain bs s1 r1 where f: "flight_sent cr rnd s r ?ps bs s1 r1" using flight_sent_all [OF con] by blast
  obtain tb wb ws where s1: "s1 = s\<lparr>cn_temp_buf := tb, cn_write_buf := wb, cn_write_state := ws,
      cn_pending_flight := bs\<rparr>" using f s(2) unfolding flight_sent_def by auto
  obtain rb rs where r1: "r1 = r\<lparr>hs_incoming_data := hs_incoming_data r @ ?d, cn_read_buf := rb, cn_read_state := rs\<rparr>"
    using f cat unfolding flight_sent_def by auto
  let ?s = "s1\<lparr>hs_outgoing_messages := [], cn_outbio := cn_outbio s @ bs, cn_pending_flight := []\<rparr>"
  have pk: "conn_pack_handshake cr s = (Inr (), s1\<lparr>hs_outgoing_messages := []\<rparr>)"
    using f conn_pack_apply [OF assms(2), of cr] by (simp add: flight_sent_def thn_apply clear_flight_def)
  have "conn_flush_handshake cr s = (Inr (), ?s)"
    using s(1) by (auto simp: conn_flush_handshake_def thn_apply bnd_apply pk outbio_write_def ret_def s1)
  moreover have "repeat_action (length ?ps) (conn_read_handshake cr rnd) (r\<lparr>cn_inbio := bs @ []\<rparr>) =
      (Inr (replicate (length ?ps) ()), r1\<lparr>cn_inbio := []\<rparr>)"
    using f unfolding flight_sent_def by blast
  moreover have "connected cr ?s (r1\<lparr>cn_inbio := []\<rparr>)" using f by (simp add: flight_sent_def)
  moreover have "r1\<lparr>cn_inbio := []\<rparr> = r\<lparr>cn_inbio := [], hs_incoming_data := hs_incoming_data r @ ?d,
      cn_read_buf := rb, cn_read_state := rs\<rparr>" by (simp add: r1)
  ultimately show ?thesis
    by (intro exI [of _ bs] exI [of _ "length ?ps"] exI [of _ ?s] exI [of _ "r1\<lparr>cn_inbio := []\<rparr>"] exI [of _ rb] exI [of _ rs])
      (simp add: s1)
qed

lemma add_messages_frame:
  "for_each (\<lambda>m. add_message m True) ms c = (Inr (), c') \<Longrightarrow>
   \<exists>om ts. c' = c\<lparr>hs_outgoing_messages := om, hs_transcript := ts\<rparr>"
proof (induction ms arbitrary: c)
  case Nil
  then have "c' = c\<lparr>hs_outgoing_messages := hs_outgoing_messages c, hs_transcript := hs_transcript c\<rparr>"
    by (simp add: ret_def)
  then show ?case by blast
next
  case (Cons m ms)
  then obtain c1 where c1: "add_message m True c = (Inr (), c1)" "for_each (\<lambda>m. add_message m True) ms c1 = (Inr (), c')"
    by (auto elim!: thn_InrE)
  from c1(1) have "\<exists>om ts. c1 = c\<lparr>hs_outgoing_messages := om, hs_transcript := ts\<rparr>"
    by (cases "pack_message m")
      (auto simp: add_message_def bnd_apply thn_apply lift_result_apply on_transcript_def split: prod.splits)
  then obtain om ts where "c1 = c\<lparr>hs_outgoing_messages := om, hs_transcript := ts\<rparr>" by blast
  moreover from Cons.IH [OF c1(2)] obtain om' ts' where
    "c' = c1\<lparr>hs_outgoing_messages := om', hs_transcript := ts'\<rparr>" by blast
  ultimately have "c' = c\<lparr>hs_outgoing_messages := om', hs_transcript := ts'\<rparr>" by simp
  then show ?case by blast
qed

lemma packed_nonempty: "pack_message m = Inr p \<Longrightarrow> p \<noteq> []"
  by (auto simp: pack_message_def pack_bytes_def rbind_Inr_iff split: if_splits)

lemma packed_outgoing:
  assumes "for_each (\<lambda>m. add_message m True) ms c = (Inr (), c')" "hs_outgoing_messages c = []"
  shows "concat (hs_outgoing_messages c') = [] \<Longrightarrow> hs_outgoing_messages c' = []"
  using add_messages [OF assms(1)] assms(2) packed_nonempty
  by (fastforce simp: list_all2_conv_all_nth in_set_conv_nth neq_Nil_conv)

text \<open>
  C15: A flight of handshake messages crosses the record layer.  If the reader's keys are in step with
  the writer's, the messages that one handshake queues, flushed as protected records of at most
  \<open>2\<^sup>1\<^sup>4 - 1\<close> bytes, arrive at the other handshake one by one with their types and bodies, both have
  hashed the same transcript, and the two ends are in step again.
\<close>

theorem flight_transfer:
  assumes "connected cr s r"
    and "for_each (\<lambda>m. add_message m True) ms s = (Inr (), s1)"
    and "hs_outgoing_messages s = []" "cn_pending_flight s = []" "cn_write_shutdown s = SHUT_NONE"
    and "hs_cache r = None" "hs_incoming_data r = []"
    and "t_buffer (hs_transcript r) = t_buffer (hs_transcript s)"
    and "cst_sequence_number (cn_write_state s) + 2 * int (length (concat (hs_outgoing_messages s1))) \<le> 2 ^ 64"
  shows "\<exists>bs n s2 r1 hs r2. conn_flush_handshake cr s1 = (Inr (), s2) \<and> cn_outbio s2 = cn_outbio s @ bs \<and>
    repeat_action n (conn_read_handshake cr rnd) (r\<lparr>cn_inbio := bs\<rparr>) = (Inr (replicate n ()), r1) \<and>
    drain (Suc (length (hs_incoming_data r1))) r1 = (Inr hs, r2) \<and>
    list_all2 (\<lambda>m h. h_type h = handshake_type m \<and> message_to_bytes m = Inr (h_data h)) ms hs \<and>
    cn_inbio r2 = [] \<and> hs_incoming_data r2 = [] \<and>
    t_buffer (hs_transcript r2) = t_buffer (hs_transcript s2) \<and> connected cr s2 r2"
proof -
  obtain om ts where s1: "s1 = s\<lparr>hs_outgoing_messages := om, hs_transcript := ts\<rparr>"
    using add_messages_frame [OF assms(2)] by blast
  have "connected cr s1 r" using assms(1) by (simp add: s1)
  from flush_flight [OF this packed_outgoing [OF assms(2,3)], of rnd] assms(4,5,9) obtain bs n s2 r1 rb rs where f:
    "conn_flush_handshake cr s1 = (Inr (), s2)" "cn_outbio s2 = cn_outbio s @ bs"
    "repeat_action n (conn_read_handshake cr rnd) (r\<lparr>cn_inbio := bs\<rparr>) = (Inr (replicate n ()), r1)"
    "r1 = r\<lparr>cn_inbio := [], hs_incoming_data := hs_incoming_data r @ concat om, cn_read_buf := rb, cn_read_state := rs\<rparr>"
    "hs_transcript s2 = ts" "connected cr s2 r1"
    by (auto simp: s1)
  have e: "r1\<lparr>hs_incoming_data := concat om\<rparr> = r1" "hs_incoming_data r1 = concat om" using assms(7) by (simp_all add: f(4))
  have d: "drain (Suc (length (hs_incoming_data r1))) r1 = receive [concat om] (r1\<lparr>hs_incoming_data := []\<rparr>)"
    by (auto simp: e thn_apply bnd_apply feed_data_def ret_def simp del: drain.simps split: prod.splits sum.splits)
  from receive_queued [OF assms(2,3), of "r1\<lparr>hs_incoming_data := []\<rparr>" "[concat om]"] assms(6,8)
  obtain hs r2 where h: "receive [concat om] (r1\<lparr>hs_incoming_data := []\<rparr>) = (Inr hs, r2)"
    "list_all2 (\<lambda>m h. h_type h = handshake_type m \<and> message_to_bytes m = Inr (h_data h)) ms hs"
    "hs_incoming_data r2 = []" "t_buffer (hs_transcript r2) = t_buffer ts"
    by (auto simp: f(4) s1)
  from receive_frames [of "r1\<lparr>hs_incoming_data := []\<rparr>" "[concat om]"] h(1) assms(6)
  obtain x ts' where "r2 = r1\<lparr>hs_incoming_data := x, hs_transcript := ts'\<rparr>"
    by (auto simp: f(4) frames_none)
  then have "cn_inbio r2 = cn_inbio r1" "connected cr s2 r2 = connected cr s2 r1" by simp_all
  with f(6) have "cn_inbio r2 = []" "connected cr s2 r2" by (simp_all add: f(4))
  moreover have "drain (Suc (length (hs_incoming_data r1))) r1 = (Inr hs, r2)"
    "t_buffer (hs_transcript r2) = t_buffer (hs_transcript s2)"
    using d h(1,4) f(5) by simp_all
  ultimately show ?thesis using f(1-3) h(2,3) by blast
qed

theorem flight_transfer_witness:
  "\<exists>s1 bs n s2 r1 hs r2. for_each (\<lambda>m. add_message m True) [Finished [1, 2], Finished [3]] (sample_connection False) = (Inr (), s1) \<and>
    conn_flush_handshake sample_crypto s1 = (Inr (), s2) \<and> cn_outbio s2 = bs \<and>
    repeat_action n (conn_read_handshake sample_crypto (\<lambda>n. replicate n 0)) ((sample_connection True)\<lparr>cn_inbio := bs\<rparr>) =
      (Inr (replicate n ()), r1) \<and>
    drain (Suc (length (hs_incoming_data r1))) r1 = (Inr hs, r2) \<and>
    list_all2 (\<lambda>m h. h_type h = handshake_type m \<and> message_to_bytes m = Inr (h_data h)) [Finished [1, 2], Finished [3]] hs \<and>
    connected sample_crypto s2 r2"
proof -
  let ?s = "(sample_connection False)\<lparr>hs_outgoing_messages := [[20, 0, 0, 2, 1, 2], [20, 0, 0, 1, 3]],
      hs_transcript := snd (update_hash [20, 0, 0, 1, 3] (snd (update_hash [20, 0, 0, 2, 1, 2] Transcript_init)))\<rparr>"
  have a: "for_each (\<lambda>m. add_message m True) [Finished [1, 2], Finished [3]] (sample_connection False) = (Inr (), ?s)"
    by (simp add: add_message_def sample_pack bnd_apply thn_apply lift_result_apply on_transcript_def
        update_hash_def sample_connection_defs ret_def)
  have "\<exists>bs n s2 r1 hs r2. conn_flush_handshake sample_crypto ?s = (Inr (), s2) \<and>
    cn_outbio s2 = cn_outbio (sample_connection False) @ bs \<and>
    repeat_action n (conn_read_handshake sample_crypto (\<lambda>n. replicate n 0)) ((sample_connection True)\<lparr>cn_inbio := bs\<rparr>) =
      (Inr (replicate n ()), r1) \<and>
    drain (Suc (length (hs_incoming_data r1))) r1 = (Inr hs, r2) \<and>
    list_all2 (\<lambda>m h. h_type h = handshake_type m \<and> message_to_bytes m = Inr (h_data h)) [Finished [1, 2], Finished [3]] hs \<and>
    cn_inbio r2 = [] \<and> hs_incoming_data r2 = [] \<and>
    t_buffer (hs_transcript r2) = t_buffer (hs_transcript s2) \<and> connected sample_crypto s2 r2"
    by (rule flight_transfer [OF sample_connected a]) (simp_all add: sample_connection_defs)
  moreover have "cn_outbio (sample_connection False) = []" by (simp add: sample_connection_defs)
  ultimately show ?thesis using a by (simp del: drain.simps for_each.simps) blast
qed

end
