(* ===== verification/Traffic_Laws.thy ===== *)
theory Traffic_Laws
  imports Record_Laws
begin

text \<open>
  The two ends of a connection end up with the same keys: from a shared secret the key block (up to
  TLS 1.2) and the traffic secrets (TLS 1.3) give linked connection states, whatever the cipher suite.
\<close>

subsection \<open>Usable cipher suites\<close>

definition usable :: "cipher_suite \<Rightarrow> int \<Rightarrow> bool \<Rightarrow> bool" where
  "usable cs v etm \<longleftrightarrow> cs \<in> set ALL_CIPHER_SUITES \<and> \<not> is_scsv cs \<and> minimum_version cs \<le> v \<and>
     v \<le> maximum_version cs \<and> (etm \<longrightarrow> \<not> aead cs \<and> is_cbc (symmetric cs))"

lemma all_suites_versions_positive:
  "list_all (\<lambda>cs. 0 < minimum_version cs \<and> (cipher_suite.prf_hash cs = HASH_SHA256 \<or> cipher_suite.prf_hash cs = HASH_SHA384)) ALL_CIPHER_SUITES"
  by (simp add: ALL_CIPHER_SUITES_def cipher_suite_defs)

lemma usable_facts:
  assumes "usable cs v etm"
  shows "v \<noteq> UNSPECIFIED" and "\<exists>alg. get_algorithm (hash_id (cipher_suite.prf_hash cs)) = Inr alg"
    and "v \<ge> ver V_TLSv1_3 \<longleftrightarrow> minimum_version cs \<ge> ver V_TLSv1_3"
proof -
  have "cs \<in> set ALL_CIPHER_SUITES" using assms by (simp add: usable_def)
  note f = bspec [OF all_suites_versions_positive [unfolded list_all_iff] this]
  show "v \<noteq> UNSPECIFIED" using f assms by (auto simp: usable_def)
  show "\<exists>alg. get_algorithm (hash_id (cipher_suite.prf_hash cs)) = Inr alg"
    using f get_algorithm_hash_id [of "cipher_suite.prf_hash cs"] by auto
  show "v \<ge> ver V_TLSv1_3 \<longleftrightarrow> minimum_version cs \<ge> ver V_TLSv1_3"
    using assms by (intro suite_versions) (simp_all add: usable_def)
qed

lemma key_lengths:
  "AEAD_CIPHERS alg = Inr aspec \<Longrightarrow> key_length aspec \<le> 64 \<and> iv_length aspec \<le> 64"
  "CIPHERS alg = Inr cspec \<Longrightarrow> key_length cspec \<le> 64 \<and> iv_length cspec \<le> 64"
  by (cases alg; auto)+

lemma usable_init:
  assumes "usable cs v etm"
  obtains key_len iv_len mac_len where "get_key_iv_lens cs = Inr (key_len, iv_len)"
    "mac_key_length cr cs = Inr mac_len" "aead cs \<Longrightarrow> mac_len = 0" "key_len \<le> 64" "iv_len \<le> 64"
    "\<And>d rnd k iv mk. length k = key_len \<Longrightarrow> length iv = iv_len \<Longrightarrow> (aead cs \<Longrightarrow> mk = []) \<Longrightarrow>
       \<exists>c. TLSCipher_init cr rnd d v cs k iv mk etm = Inr c"
proof (cases "aead cs")
  case True
  from assms have cs: "cs \<in> set ALL_CIPHER_SUITES" "\<not> is_scsv cs" "\<not> etm" using True by (auto simp: usable_def)
  from bspec [OF all_suites_specs [unfolded list_all_iff] cs(1)] cs(2) True
  obtain spec where spec: "AEAD_CIPHERS (symmetric cs) = Inr spec" by (cases "AEAD_CIPHERS (symmetric cs)") auto
  from key_lengths(1) [OF spec] have "key_length spec \<le> 64" "iv_length spec \<le> 64" by auto
  with True spec cs(3) show ?thesis
    using init_aead_total [OF spec] usable_facts(3) [OF assms]
    by (intro that [of "key_length spec" "if minimum_version cs \<ge> ver V_TLSv1_3 then 12 else iv_length spec" 0])
      (auto simp: get_key_iv_lens_def TLSCipher_init_def mac_key_length_def)
next
  case False
  from assms have cs: "cs \<in> set ALL_CIPHER_SUITES" "\<not> is_scsv cs" "etm \<longrightarrow> is_cbc (symmetric cs)" by (auto simp: usable_def)
  from bspec [OF all_suites_specs [unfolded list_all_iff] cs(1)] cs(2) False obtain spec h where
    spec: "CIPHERS (symmetric cs) = Inr spec" "digest cs = Some h" "h \<noteq> HASH_NONE" "h \<noteq> HASH_INTRINSIC"
    "\<not> minimum_version cs \<ge> ver V_TLSv1_3"
    by (cases "CIPHERS (symmetric cs)"; cases "digest cs") auto
  obtain a where a: "get_algorithm (hash_id h) = Inr a" using get_algorithm_hash_id [of h] spec(3,4) by auto
  from key_lengths(2) [OF spec(1)] have l: "key_length spec \<le> 64" "iv_length spec \<le> 64" by auto
  have "\<exists>c. TLSCipher_init cr rnd d v cs k iv mk etm = Inr c"
    if "length k = key_length spec" "length iv = iv_length spec" for d rnd k iv mk
    using that spec a cs(3) False by (auto simp: TLSCipher_init_def init_mac_def Let_def blank_cipher_def)
  with False spec a l show ?thesis
    by (intro that [of "key_length spec" "iv_length spec" "hash_digest_size cr a"])
      (auto simp: get_key_iv_lens_def mac_key_length_def)
qed

subsection \<open>Linked states from equal keys\<close>

lemma new_state_linked:
  assumes "crypto_ok cr" and rw: "\<And>n. length (rw n) = n"
    and u: "usable (tr_cipher_suite a) (tr_version a) (tr_encrypt_then_mac a)"
    and eq: "tr_cipher_suite b = tr_cipher_suite a" "tr_version b = tr_version a"
      "tr_encrypt_then_mac b = tr_encrypt_then_mac a"
    and keys: "traffic_keys cr a = Inr (k, iv, mk)" "traffic_keys cr b = Inr (k, iv, mk)"
    and lens: "get_key_iv_lens (tr_cipher_suite a) = Inr (length k, length iv)" "aead (tr_cipher_suite a) \<Longrightarrow> mk = []"
  shows "\<exists>ws rs. new_state cr rw DIR_WRITE e (Some a) = Inr ws \<and> new_state cr rr DIR_READ e' (Some b) = Inr rs \<and>
    linked cr ws rs"
proof -
  let ?cs = "tr_cipher_suite a"
  from u lens obtain w r where c:
    "TLSCipher_init cr rw DIR_WRITE (tr_version a) ?cs k iv mk (tr_encrypt_then_mac a) = Inr w"
    "TLSCipher_init cr rr DIR_READ (tr_version a) ?cs k iv mk (tr_encrypt_then_mac a) = Inr r"
    by (elim usable_init [of _ _ _ cr]) (metis Inr_inject Pair_inject)
  have "paired cr w r"
    using u by (intro init_paired [OF c assms(1) rw]) (auto simp: usable_def)
  with c keys eq show ?thesis by (simp add: new_state_def ConnectionState_init_def linked_def)
qed

lemma traffic_frame [simp]:
  "conn_record_version (s\<lparr>hs_read_traffic := x\<rparr>) = conn_record_version s"
  "conn_record_version (s\<lparr>hs_write_traffic := x\<rparr>) = conn_record_version s"
  "conn_record_version (s\<lparr>hs_enc_secret := y\<rparr>) = conn_record_version s"
  "conn_record_version (s\<lparr>hs_dec_secret := y\<rparr>) = conn_record_version s"
  by (simp_all add: conn_record_version_def)

lemma same_record_version: "hs_version b = hs_version a \<Longrightarrow> conn_record_version b = conn_record_version a"
  by (simp add: conn_record_version_def)

subsection \<open>The key block\<close>

definition key_material ::
    "crypto \<Rightarrow> int \<Rightarrow> cipher_suite \<Rightarrow> bytes \<Rightarrow> bytes \<Rightarrow> bytes \<Rightarrow>
     ((bytes \<times> bytes \<times> bytes) \<times> bytes \<times> bytes \<times> bytes) result" where
  "key_material cr v cs secret cl sv =
     rbind (prf_algorithm v cs) (\<lambda>(_, algorithm).
     rbind (get_key_iv_lens cs) (\<lambda>(key_len, iv_len).
     rbind (mac_key_length cr cs) (\<lambda>mac_len.
     rbind (tls_prf cr secret (ascii ''key expansion'') (sv @ cl)
              (mac_len * 2 + key_len * 2 + iv_len * 2) algorithm) (\<lambda>key_block.
     split_key_block mac_len key_len iv_len key_block))))"

definition key_context :: "'a TLSHandshake_scheme \<Rightarrow> cipher_suite \<Rightarrow> bytes \<Rightarrow> bytes \<times> bytes \<times> bytes \<Rightarrow> TrafficContext" where
  "key_context s cs secret = (\<lambda>(mac, key, iv). \<lparr>tr_version = hs_version s, tr_cipher_suite = cs,
     tr_client_random = hs_client_random s, tr_server_random = hs_server_random s,
     tr_secret = secret, tr_enc_key = Some key, tr_mac_key = Some mac, tr_fixed_iv = Some iv,
     tr_encrypt_then_mac = hs_encrypt_then_mac s\<rparr>)"

lemma derive_key_apply:
  assumes "hs_cipher_suite s = Some cs" "hs_version s \<noteq> UNSPECIFIED"
    and "key_material cr (hs_version s) cs secret (hs_client_random s) (hs_server_random s) = Inr (cl, sv)"
  shows "derive_key cr secret s = (Inr (),
    s\<lparr>hs_read_traffic := Some (key_context s cs secret (if hs_is_server s then cl else sv)),
      hs_write_traffic := Some (key_context s cs secret (if hs_is_server s then sv else cl))\<rparr>)"
  using assms
  by (auto simp: derive_key_def key_material_def key_context_def rbind_Inr_iff bnd_apply thn_apply lift_result_apply
      protocol_version_def ret_def Let_def split: prod.splits)

lemma split_key_block_apply:
  assumes "length b = mac_len * 2 + key_len * 2 + iv_len * 2"
  shows "\<exists>m1 m2 k1 k2 i1 i2. split_key_block mac_len key_len iv_len b = Inr ((m1, k1, i1), (m2, k2, i2)) \<and>
    b = m1 @ m2 @ k1 @ k2 @ i1 @ i2 \<and>
    length m1 = mac_len \<and> length m2 = mac_len \<and> length k1 = key_len \<and> length k2 = key_len \<and>
    length i1 = iv_len \<and> length i2 = iv_len"
proof -
  define m1 m2 k1 k2 i1 i2 where "m1 = take mac_len b" and "m2 = take mac_len (drop mac_len b)"
    and "k1 = take key_len (drop (mac_len * 2) b)" and "k2 = take key_len (drop (mac_len * 2 + key_len) b)"
    and "i1 = take iv_len (drop (mac_len * 2 + key_len * 2) b)" and "i2 = drop (mac_len * 2 + key_len * 2 + iv_len) b"
  note d = this
  have l: "length m1 = mac_len" "length m2 = mac_len" "length k1 = key_len" "length k2 = key_len"
    "length i1 = iv_len" "length i2 = iv_len" using assms by (simp_all add: d)
  have "drop (mac_len * 2 + key_len * 2) b = i1 @ i2" unfolding d by (metis append_take_drop_id drop_drop add.commute)
  moreover from this have "drop (mac_len * 2 + key_len) b = k2 @ i1 @ i2"
    unfolding d by (metis append_take_drop_id drop_drop add.commute add.assoc mult_2_right)
  moreover from this have "drop (mac_len * 2) b = k1 @ k2 @ i1 @ i2" unfolding d by (metis append_take_drop_id drop_drop add.commute)
  moreover from this have "drop mac_len b = m2 @ k1 @ k2 @ i1 @ i2" unfolding d by (metis append_take_drop_id drop_drop mult_2_right)
  ultimately have b: "b = m1 @ m2 @ k1 @ k2 @ i1 @ i2" unfolding d by (metis append_take_drop_id)
  have "split_key_block mac_len key_len iv_len (m1 @ m2 @ k1 @ k2 @ i1 @ i2) = Inr ((m1, k1, i1), (m2, k2, i2))"
    unfolding split_key_block_def using l
    by - (rule run_parser_parses, (rule parses_bnd, rule parses_read_bytes, simp)+,
        rule parses_bnd_last, rule parses_read_bytes, simp, rule parses_ret)
  with b l show ?thesis by blast
qed

lemma prf_total: "mac_ok cr \<Longrightarrow> \<exists>w. tls_prf cr secret label seed len algorithm = Inr w \<and> length w = len"
  by (cases algorithm)
    (simp_all add: tls_prf_def Let_def prf_hash_eq strxor_def length_take_P_hash del: length_take)

lemma key_material_total:
  assumes "mac_ok cr" and u: "usable cs v etm"
  shows "\<exists>m1 k1 i1 m2 k2 i2. key_material cr v cs secret cl sv = Inr ((m1, k1, i1), (m2, k2, i2)) \<and>
    get_key_iv_lens cs = Inr (length k1, length i1) \<and> length k2 = length k1 \<and> length i2 = length i1 \<and>
    (aead cs \<longrightarrow> m1 = [] \<and> m2 = [])"
proof -
  from u obtain key_len iv_len mac_len where l: "get_key_iv_lens cs = Inr (key_len, iv_len)"
    "mac_key_length cr cs = Inr mac_len" "aead cs \<Longrightarrow> mac_len = 0"
    by (rule usable_init [of cs v etm cr]) blast
  have "\<exists>r. prf_algorithm v cs = Inr r" using usable_facts(2) [OF u] by (auto simp: prf_algorithm_def)
  then obtain h alg where p: "prf_algorithm v cs = Inr (h, alg)" by auto
  let ?n = "mac_len * 2 + key_len * 2 + iv_len * 2"
  obtain b where b: "tls_prf cr secret (ascii ''key expansion'') (sv @ cl) ?n alg = Inr b" "length b = ?n"
    using prf_total [OF assms(1)] by blast
  from split_key_block_apply [OF b(2)] l p b(1) show ?thesis
    by (auto simp: key_material_def)
qed

text \<open>
  C16: Both ends of a connection up to TLS 1.2 get matching keys.  From the same secret, randoms, version,
  cipher suite and MAC order, \<open>_derive_key\<close> succeeds on both sides, the record layer accepts the keys,
  and what the one writes the other can read: the client's writing keys are the server's reading keys
  and the other way round, for every cipher suite.
\<close>

theorem derived_keys_connect:
  assumes "crypto_ok cr" and "\<And>n. length (rw n) = n"
    and "hs_is_server b \<longleftrightarrow> \<not> hs_is_server a"
    and "hs_cipher_suite a = Some cs" "hs_cipher_suite b = Some cs" "hs_version b = hs_version a"
    and "hs_client_random b = hs_client_random a" "hs_server_random b = hs_server_random a"
    and "hs_encrypt_then_mac b = hs_encrypt_then_mac a"
    and "usable cs (hs_version a) (hs_encrypt_then_mac a)" "hs_version a < ver V_TLSv1_3"
    and "sender_ok a" "receiver_ok b" "hs_outgoing_messages a = []"
  shows "\<exists>a1 b1 a2 b2. derive_key cr secret a = (Inr (), a1) \<and> derive_key cr secret b = (Inr (), b1) \<and>
    hs_setup_traffic (conn_setup_traffic cr rw) DIR_WRITE a1 = (Inr (), a2) \<and>
    hs_setup_traffic (conn_setup_traffic cr rr) DIR_READ b1 = (Inr (), b2) \<and> connected cr a2 b2"
proof -
  let ?v = "hs_version a"
  have "mac_ok cr" using assms(1) by (simp add: crypto_ok_def)
  from key_material_total [OF this assms(10), of secret "hs_client_random a" "hs_server_random a"]
  obtain m1 k1 i1 m2 k2 i2 where km: "key_material cr ?v cs secret (hs_client_random a) (hs_server_random a) =
      Inr ((m1, k1, i1), (m2, k2, i2))" "get_key_iv_lens cs = Inr (length k1, length i1)"
    "length k2 = length k1" "length i2 = length i1" "aead cs \<longrightarrow> m1 = [] \<and> m2 = []" by blast
  define x y where "x = (if hs_is_server a then (m2, k2, i2) else (m1, k1, i1))"
    and "y = (if hs_is_server a then (m1, k1, i1) else (m2, k2, i2))"
  note xy = this
  obtain m k i where x: "x = (m, k, i)" by (cases x) auto
  have v: "?v \<noteq> UNSPECIFIED" by (rule usable_facts(1) [OF assms(10)])
  let ?a = "a\<lparr>hs_read_traffic := Some (key_context a cs secret y), hs_write_traffic := Some (key_context a cs secret x)\<rparr>"
  let ?b = "b\<lparr>hs_read_traffic := Some (key_context b cs secret x), hs_write_traffic := Some (key_context b cs secret y)\<rparr>"
  have d: "derive_key cr secret a = (Inr (), ?a)" "derive_key cr secret b = (Inr (), ?b)"
    using derive_key_apply [OF assms(4) v km(1)] derive_key_apply [of b cs cr secret "(m1, k1, i1)" "(m2, k2, i2)"]
      assms(3-8) v km(1) by (simp_all add: xy)
  have k: "traffic_keys cr (key_context a cs secret x) = Inr (k, i, m)" "traffic_keys cr (key_context b cs secret x) = Inr (k, i, m)"
    using assms(6,11) by (simp_all add: traffic_keys_def key_context_def x)
  have kc: "tr_cipher_suite (key_context h cs secret x) = cs" "tr_version (key_context h cs secret x) = hs_version h"
    "tr_encrypt_then_mac (key_context h cs secret x) = hs_encrypt_then_mac h" for h :: "'z TLSHandshake_scheme"
    by (simp_all add: key_context_def x)
  have "get_key_iv_lens cs = Inr (length k, length i)" "aead cs \<Longrightarrow> m = []"
    using km(2-5) x by (auto simp: xy split: if_splits)
  then have "\<exists>ws rs. new_state cr rw DIR_WRITE EPOCH_APPLICATION_DATA (Some (key_context a cs secret x)) = Inr ws \<and>
      new_state cr rr DIR_READ EPOCH_APPLICATION_DATA (Some (key_context b cs secret x)) = Inr rs \<and> linked cr ws rs"
    using assms(6,9,10) by (intro new_state_linked [OF assms(1,2) _ _ _ _ k]) (simp_all add: kc)
  then obtain ws rs where st:
    "new_state cr rw DIR_WRITE EPOCH_APPLICATION_DATA (Some (key_context a cs secret x)) = Inr ws"
    "new_state cr rr DIR_READ EPOCH_APPLICATION_DATA (Some (key_context b cs secret x)) = Inr rs" "linked cr ws rs" by blast
  have "hs_setup_traffic (conn_setup_traffic cr rw) DIR_WRITE ?a = (Inr (), ?a\<lparr>cn_write_state := ws\<rparr>)"
    "hs_setup_traffic (conn_setup_traffic cr rr) DIR_READ ?b = (Inr (), ?b\<lparr>cn_read_state := rs\<rparr>)"
    using st(1,2) assms(14)
    by (simp_all add: hs_setup_traffic_def conn_setup_traffic_def bnd_apply thn_apply lift_result_apply ret_def)
  moreover have "connected cr (?a\<lparr>cn_write_state := ws\<rparr>) (?b\<lparr>cn_read_state := rs\<rparr>)"
    using st(3) assms(12,13) same_record_version [OF assms(6)]
    by (simp add: connected_def sender_ok_def receiver_ok_def)
  ultimately show ?thesis using d by blast
qed

subsection \<open>Traffic secrets\<close>

lemma hkdf_expand_label_short:
  assumes "mac_ok cr" and "hkdf_ok cr" and "length label < 250" and "length data < 256" and "n \<le> 255"
  shows "\<exists>okm. hkdf_expand_label cr secret label data n alg = Inr okm \<and> length okm = n"
proof -
  have "n \<le> 255 * hash_digest_size cr alg"
    using assms(5) mac_okD(3) [OF assms(1), of alg] by (cases "hash_digest_size cr alg") auto
  moreover obtain info where "hkdf_label label data n = Inr info" using assms(3-5) by (simp add: hkdf_label_Inr_iff)
  moreover obtain okm where "hkdf_expand_fn cr alg secret info n = Some okm" "length okm = n"
    using assms(2) calculation(1) unfolding hkdf_ok_def by blast
  ultimately show ?thesis by (simp add: hkdf_expand_label_def hkdf_expand_def)
qed

definition same_traffic :: "'a TLSHandshake_scheme \<Rightarrow> 'b TLSHandshake_scheme \<Rightarrow> Epoch \<Rightarrow> int \<Rightarrow> cipher_suite \<Rightarrow> bytes \<Rightarrow> bool" where
  "same_traffic a b e v cs secret \<longleftrightarrow>
     (\<exists>x y. hs_session a = Some x \<and> hs_session b = Some y \<and> s_cipher_suite x = Some cs \<and> s_cipher_suite y = Some cs \<and>
        session_protocol_version x = Inr v \<and> session_protocol_version y = Inr v) \<and>
     hs_enc_secret a e = Some secret \<and> hs_dec_secret b e = Some secret \<and> hs_version b = hs_version a"

lemma secrets_link:
  assumes "crypto_ok cr" "hkdf_ok cr" and rw: "\<And>n. length (rw n) = n"
    and t: "same_traffic a b e v cs secret" and u: "usable cs v False" "v \<ge> ver V_TLSv1_3"
    and ok: "sender_ok a" "receiver_ok b" "hs_outgoing_messages a = []"
  shows "\<exists>a1 b1. hs_setup_traffic_tls13 (conn_setup_traffic cr rw) DIR_WRITE e a = (Inr (), a1) \<and>
    hs_setup_traffic_tls13 (conn_setup_traffic cr rr) DIR_READ e b = (Inr (), b1) \<and> connected cr a1 b1 \<and>
    hs_enc_secret a1 = hs_enc_secret a \<and> hs_dec_secret b1 = hs_dec_secret b"
proof -
  from t obtain x y where xy: "hs_session a = Some x" "hs_session b = Some y" "s_cipher_suite x = Some cs"
    "s_cipher_suite y = Some cs" "session_protocol_version x = Inr v" "session_protocol_version y = Inr v"
    "hs_enc_secret a e = Some secret" "hs_dec_secret b e = Some secret" "hs_version b = hs_version a"
    unfolding same_traffic_def by blast
  define ctx :: "bytes \<Rightarrow> bytes \<Rightarrow> TrafficContext" where "ctx c s = \<lparr>tr_version = v, tr_cipher_suite = cs, tr_client_random = c,
    tr_server_random = s, tr_secret = secret, tr_enc_key = None, tr_mac_key = None, tr_fixed_iv = None,
    tr_encrypt_then_mac = False\<rparr>" for c s
  have mac: "mac_ok cr" using assms(1) by (simp add: crypto_ok_def)
  from usable_facts(2) [OF u(1)] obtain alg where alg: "get_algorithm (hash_id (cipher_suite.prf_hash cs)) = Inr alg" by blast
  from u(1) obtain key_len iv_len where l: "get_key_iv_lens cs = Inr (key_len, iv_len)" "key_len \<le> 64" "iv_len \<le> 64"
    by (rule usable_init [of cs v False cr]) blast
  obtain k where k: "hkdf_expand_label cr secret (ascii ''key'') [] key_len alg = Inr k" "length k = key_len"
    using hkdf_expand_label_short [OF mac assms(2), of "ascii ''key''" "[]" key_len secret alg] l(2) by (auto simp: ascii_def)
  obtain i where i: "hkdf_expand_label cr secret (ascii ''iv'') [] iv_len alg = Inr i" "length i = iv_len"
    using hkdf_expand_label_short [OF mac assms(2), of "ascii ''iv''" "[]" iv_len secret alg] l(3) by (auto simp: ascii_def)
  have tk: "traffic_keys cr (ctx c s) = Inr (k, i, [])" for c s
    using u(2) alg l k i by (simp add: traffic_keys_def ctx_def)
  have "\<exists>ws rs. new_state cr rw DIR_WRITE e (Some (ctx (hs_client_random a) (hs_server_random a))) = Inr ws \<and>
      new_state cr rr DIR_READ e (Some (ctx (hs_client_random b) (hs_server_random b))) = Inr rs \<and> linked cr ws rs"
    using u(1) l(1) k(2) i(2) by (intro new_state_linked [OF assms(1) rw _ _ _ _ tk tk]) (simp_all add: ctx_def)
  then obtain ws rs where st:
    "new_state cr rw DIR_WRITE e (Some (ctx (hs_client_random a) (hs_server_random a))) = Inr ws"
    "new_state cr rr DIR_READ e (Some (ctx (hs_client_random b) (hs_server_random b))) = Inr rs" "linked cr ws rs" by blast
  have "hs_setup_traffic_tls13 (conn_setup_traffic cr rw) DIR_WRITE e a = (Inr (), a\<lparr>cn_write_state := ws\<rparr>)"
    "hs_setup_traffic_tls13 (conn_setup_traffic cr rr) DIR_READ e b = (Inr (), b\<lparr>cn_read_state := rs\<rparr>)"
    using st(1,2) xy ok(3)
    by (simp_all add: hs_setup_traffic_tls13_def conn_setup_traffic_def bnd_apply thn_apply lift_result_apply ret_def ctx_def)
  moreover have "connected cr (a\<lparr>cn_write_state := ws\<rparr>) (b\<lparr>cn_read_state := rs\<rparr>)"
    using st(3) ok same_record_version [OF xy(9)] by (simp add: connected_def sender_ok_def receiver_ok_def)
  ultimately show ?thesis
    by (intro exI [of _ "a\<lparr>cn_write_state := ws\<rparr>"] exI [of _ "b\<lparr>cn_read_state := rs\<rparr>"]) simp
qed

text \<open>
  In TLS 1.3 a shared traffic secret connects the two ends in every epoch: when the one's writing
  secret is the other's reading secret, \<open>_setup_traffic_tls13\<close> succeeds on both sides and what the one
  writes the other can read, for every TLS 1.3 cipher suite.
\<close>

theorem traffic_secret_connects:
  assumes "crypto_ok cr" "hkdf_ok cr" and "\<And>n. length (rw n) = n"
    and "same_traffic a b e v cs secret" "usable cs v False" "v \<ge> ver V_TLSv1_3"
    and "sender_ok a" "receiver_ok b" "hs_outgoing_messages a = []"
  shows "\<exists>a1 b1. hs_setup_traffic_tls13 (conn_setup_traffic cr rw) DIR_WRITE e a = (Inr (), a1) \<and>
    hs_setup_traffic_tls13 (conn_setup_traffic cr rr) DIR_READ e b = (Inr (), b1) \<and> connected cr a1 b1"
  using secrets_link [OF assms, of rr] by blast

text \<open>
  A key update keeps the two ends together: when both sides replace the same application traffic
  secret by the next one (\<open>_derive_upd_secret_tls13\<close>, the sender for writing and the receiver for reading), the
  new keys match again.
\<close>

theorem key_update_reconnects:
  assumes "crypto_ok cr" "hkdf_ok cr" and "\<And>n. length (rw n) = n"
    and "same_traffic a b EPOCH_APPLICATION_DATA v cs secret" "usable cs v False" "v \<ge> ver V_TLSv1_3"
    and "hs_key_schedule a = Some ka" "hs_key_schedule b = Some kb" "ks_algorithm kb = ks_algorithm ka"
    and "ks_ok cr ka" "ks_ok cr kb"
    and "sender_ok a" "receiver_ok b" "hs_outgoing_messages a = []"
  shows "\<exists>a1 b1. derive_upd_secret_tls13 cr (conn_setup_traffic cr rw) DIR_WRITE a = (Inr (), a1) \<and>
    derive_upd_secret_tls13 cr (conn_setup_traffic cr rr) DIR_READ b = (Inr (), b1) \<and> connected cr a1 b1 \<and>
    hs_enc_secret a1 EPOCH_APPLICATION_DATA = hs_dec_secret b1 EPOCH_APPLICATION_DATA"
proof -
  let ?e = EPOCH_APPLICATION_DATA
  have mac: "mac_ok cr" using assms(1) by (simp add: crypto_ok_def)
  obtain n where n: "upd_secret cr ka secret = Inr n" "upd_secret cr kb secret = Inr n"
    using hkdf_expand_label_short [OF mac assms(2), of "ascii ''traffic upd''" "[]" "ks_digest_size ka" secret "ks_algorithm ka"]
      assms(9-11) mac_okD(4) [OF mac, of "ks_algorithm ka"]
    by (auto simp: upd_secret_def ks_ok_def ascii_def)
  have s: "hs_enc_secret a ?e = Some secret" "hs_dec_secret b ?e = Some secret" using assms(4) by (auto simp: same_traffic_def)
  let ?a = "a\<lparr>hs_enc_secret := (hs_enc_secret a)(?e \<mapsto> n)\<rparr>" and ?b = "b\<lparr>hs_dec_secret := (hs_dec_secret b)(?e \<mapsto> n)\<rparr>"
  have "same_traffic ?a ?b ?e v cs n" "sender_ok ?a" "receiver_ok ?b" "hs_outgoing_messages ?a = []"
    using assms(4,12-14) by (auto simp: same_traffic_def sender_ok_def receiver_ok_def)
  from secrets_link [OF assms(1-3) this(1) assms(5,6) this(2-4), of rr] obtain a1 b1 where c:
    "hs_setup_traffic_tls13 (conn_setup_traffic cr rw) DIR_WRITE ?e ?a = (Inr (), a1)"
    "hs_setup_traffic_tls13 (conn_setup_traffic cr rr) DIR_READ ?e ?b = (Inr (), b1)" "connected cr a1 b1"
    "hs_enc_secret a1 = hs_enc_secret ?a" "hs_dec_secret b1 = hs_dec_secret ?b" by blast
  moreover have "derive_upd_secret_tls13 cr (conn_setup_traffic cr rw) DIR_WRITE a = (Inr (), a1)"
    "derive_upd_secret_tls13 cr (conn_setup_traffic cr rr) DIR_READ b = (Inr (), b1)"
    using c(1,2) s n assms(7,8)
    by (simp_all add: derive_upd_secret_tls13_def bnd_apply thn_apply lift_result_apply)
  ultimately show ?thesis by auto
qed

subsection \<open>Examples\<close>

lemma sample_usable:
  "usable TLS_RSA_WITH_AES_128_CBC_SHA 771 False" "usable TLS_AES_128_GCM_SHA256 772 False"
  by (simp_all add: usable_def ALL_CIPHER_SUITES_def cipher_suite_defs is_scsv_def cipher_suite_eq_def)

lemma sample_ends: "sender_ok (sample_connection x)" "receiver_ok (sample_connection x)"
  using sample_connected [of sample_crypto x x] by (simp_all add: connected_def)

lemma sample_crypto_good: "crypto_ok sample_crypto" "hkdf_ok sample_crypto"
  by (simp_all add: crypto_ok_def sample_crypto_ok)

theorem derived_keys_connect_witness:
  "\<exists>a1 b1 a2 b2. derive_key sample_crypto [7] (sample_connection True) = (Inr (), a1) \<and>
    derive_key sample_crypto [7] (sample_connection False) = (Inr (), b1) \<and>
    hs_setup_traffic (conn_setup_traffic sample_crypto (\<lambda>n. replicate n 0)) DIR_WRITE a1 = (Inr (), a2) \<and>
    hs_setup_traffic (conn_setup_traffic sample_crypto (\<lambda>n. replicate n 0)) DIR_READ b1 = (Inr (), b2) \<and>
    connected sample_crypto a2 b2"
  by (rule derived_keys_connect [where cs = TLS_RSA_WITH_AES_128_CBC_SHA, OF sample_crypto_good(1)])
    (use sample_ends sample_usable(1) in \<open>simp_all add: sample_connection_defs\<close>)

text \<open>A connection with a traffic secret.\<close>

definition sample_traffic :: "bool \<Rightarrow> TLSConnection" where
  "sample_traffic is_server = (sample_connection is_server)\<lparr>
     hs_session := Some (sample_session\<lparr>s_version := 772, s_cipher_suite := Some TLS_AES_128_GCM_SHA256\<rparr>),
     hs_enc_secret := [EPOCH_APPLICATION_DATA \<mapsto> [9]], hs_dec_secret := [EPOCH_APPLICATION_DATA \<mapsto> [9]],
     hs_key_schedule := (case KeySchedule_init sample_crypto (hash_id HASH_SHA256) of Inr ks \<Rightarrow> Some ks | Inl _ \<Rightarrow> None)\<rparr>"

lemma sample_traffic_ok:
  "same_traffic (sample_traffic False) (sample_traffic True) EPOCH_APPLICATION_DATA 772 TLS_AES_128_GCM_SHA256 [9]"
  "sender_ok (sample_traffic False)" "receiver_ok (sample_traffic True)" "hs_outgoing_messages (sample_traffic False) = []"
  using sample_ends
  by (simp_all add: same_traffic_def sample_traffic_def session_protocol_version_def sender_ok_def receiver_ok_def
      conn_record_version_def sample_connection_defs)

theorem traffic_secret_connects_witness:
  "\<exists>a1 b1. hs_setup_traffic_tls13 (conn_setup_traffic sample_crypto (\<lambda>n. replicate n 0)) DIR_WRITE
      EPOCH_APPLICATION_DATA (sample_traffic False) = (Inr (), a1) \<and>
    hs_setup_traffic_tls13 (conn_setup_traffic sample_crypto (\<lambda>n. replicate n 0)) DIR_READ
      EPOCH_APPLICATION_DATA (sample_traffic True) = (Inr (), b1) \<and> connected sample_crypto a1 b1"
  by (rule traffic_secret_connects [OF sample_crypto_good _ sample_traffic_ok(1) sample_usable(2) _ sample_traffic_ok(2-4)])
    simp_all

theorem key_update_reconnects_witness:
  "\<exists>a1 b1. derive_upd_secret_tls13 sample_crypto (conn_setup_traffic sample_crypto (\<lambda>n. replicate n 0)) DIR_WRITE
      (sample_traffic False) = (Inr (), a1) \<and>
    derive_upd_secret_tls13 sample_crypto (conn_setup_traffic sample_crypto (\<lambda>n. replicate n 0)) DIR_READ
      (sample_traffic True) = (Inr (), b1) \<and> connected sample_crypto a1 b1 \<and>
    hs_enc_secret a1 EPOCH_APPLICATION_DATA = hs_dec_secret b1 EPOCH_APPLICATION_DATA"
proof -
  obtain ks where ks: "KeySchedule_init sample_crypto (hash_id HASH_SHA256) = Inr ks"
    using get_algorithm_hash_id [of HASH_SHA256] by (auto simp: KeySchedule_init_def)
  then have "hs_key_schedule (sample_traffic x) = Some ks" for x by (simp add: sample_traffic_def)
  then show ?thesis
    using KeySchedule_init_ok [OF ks]
    by (intro key_update_reconnects [OF sample_crypto_good _ sample_traffic_ok(1) sample_usable(2) _ _ _ _ _ _ sample_traffic_ok(2-4)])
      simp_all
qed

end
