(* ===== verification/Action_Logic.thy ===== *)
theory Action_Logic
  imports Prelude
begin

text \<open>
  A small program logic for the actions of the model.  \<open>hoare P m Q X\<close> says that \<open>m\<close>, started in a state
  with \<open>P\<close>, either returns \<open>x\<close> in a state with \<open>Q x\<close> or raises \<open>e\<close> in a state with \<open>X e\<close>; \<open>keeps P X m\<close>
  is the case of an invariant.  The rules follow the combinators of \<open>Prelude\<close>, so that a proof about a
  method is the application of the rules and the side conditions about its updates.
\<close>

definition hoare :: "('s \<Rightarrow> bool) \<Rightarrow> ('s, 'a) action \<Rightarrow> ('a \<Rightarrow> 's \<Rightarrow> bool) \<Rightarrow> (exn \<Rightarrow> 's \<Rightarrow> bool) \<Rightarrow> bool" where
  "hoare P m Q X \<longleftrightarrow> (\<forall>s. P s \<longrightarrow> (case m s of (Inl e, t) \<Rightarrow> X e t | (Inr x, t) \<Rightarrow> Q x t))"

definition keeps :: "('s \<Rightarrow> bool) \<Rightarrow> (exn \<Rightarrow> 's \<Rightarrow> bool) \<Rightarrow> ('s, 'a) action \<Rightarrow> bool" where
  "keeps P X m \<longleftrightarrow> hoare P m (\<lambda>_. P) X"

lemma hoareI:
  "(\<And>s x t. P s \<Longrightarrow> m s = (Inr x, t) \<Longrightarrow> Q x t) \<Longrightarrow> (\<And>s e t. P s \<Longrightarrow> m s = (Inl e, t) \<Longrightarrow> X e t) \<Longrightarrow>
   hoare P m Q X"
  by (auto simp: hoare_def split: prod.split sum.split)

lemma hoareD:
  "hoare P m Q X \<Longrightarrow> P s \<Longrightarrow> m s = (Inr x, t) \<Longrightarrow> Q x t"
  "hoare P m Q X \<Longrightarrow> P s \<Longrightarrow> m s = (Inl e, t) \<Longrightarrow> X e t"
  by (force simp: hoare_def)+

lemma hoare_conseq:
  "hoare P m Q X \<Longrightarrow> (\<And>s. P' s \<Longrightarrow> P s) \<Longrightarrow> (\<And>x s. Q x s \<Longrightarrow> Q' x s) \<Longrightarrow> (\<And>e s. X e s \<Longrightarrow> X' e s) \<Longrightarrow>
   hoare P' m Q' X'"
  by (intro hoareI) (blast dest: hoareD)+

lemma bnd_InlD:
  "bnd m f s = (Inl e, u) \<Longrightarrow> m s = (Inl e, u) \<or> (\<exists>x t. m s = (Inr x, t) \<and> f x t = (Inl e, u))"
  by (auto simp: bnd_def split: prod.splits sum.splits)

lemma catch_InrD:
  "catch m h s = (Inr x, u) \<Longrightarrow> m s = (Inr x, u) \<or> (\<exists>e t. m s = (Inl e, t) \<and> h e t = (Inr x, u))"
  by (auto simp: catch_def split: prod.splits sum.splits)

lemma catch_InlD: "catch m h s = (Inl e, u) \<Longrightarrow> \<exists>d t. m s = (Inl d, t) \<and> h d t = (Inl e, u)"
  by (auto simp: catch_def split: prod.splits sum.splits)

lemma hoare_bnd:
  assumes m: "hoare P m R X" and f: "\<And>x. hoare (R x) (f x) Q X"
  shows "hoare P (bnd m f) Q X"
proof (rule hoareI)
  fix s x t
  assume s: "P s" and "bnd m f s = (Inr x, t)"
  then obtain y u where "m s = (Inr y, u)" "f y u = (Inr x, t)" by (auto elim: bnd_InrE)
  with hoareD(1) [OF f hoareD(1) [OF m s]] show "Q x t" by blast
next
  fix s e t
  assume s: "P s" and "bnd m f s = (Inl e, t)"
  from bnd_InlD [OF this(2)] show "X e t"
    using hoareD(2) [OF m s] hoareD(2) [OF f hoareD(1) [OF m s]] by blast
qed

lemma hoare_thn: "hoare P m (\<lambda>_. R) X \<Longrightarrow> hoare R n Q X \<Longrightarrow> hoare P (thn m n) Q X"
  unfolding thn_def by (rule hoare_bnd)

lemma hoare_get_state: "(\<And>s. P s \<Longrightarrow> hoare (\<lambda>t. P t \<and> t = s) (f s) Q X) \<Longrightarrow> hoare P (bnd get_state f) Q X"
  by (auto simp: hoare_def bnd_def)

lemma hoare_gets: "(\<And>s. P s \<Longrightarrow> hoare (\<lambda>t. P t \<and> t = s) (f (g s)) Q X) \<Longrightarrow> hoare P (bnd (gets g) f) Q X"
  by (auto simp: hoare_def bnd_def)

named_theorems keeps_rules \<open>rules of the invariant logic\<close>

lemma keeps_basic [keeps_rules]:
  "keeps P X (ret x)" "keeps P X (gets f)" "keeps P X get_state"
  by (auto simp: keeps_def hoare_def ret_def)

lemma keeps_raise [keeps_rules]: "(\<And>s. P s \<Longrightarrow> X e s) \<Longrightarrow> keeps P X (raise e)"
  by (auto simp: keeps_def hoare_def raise_def)

lemma keeps_raise_if [keeps_rules]: "(\<And>s. b \<Longrightarrow> P s \<Longrightarrow> X e s) \<Longrightarrow> keeps P X (raise_if b e)"
  by (auto simp: keeps_def hoare_def raise_if_def raise_def ret_def)

lemma keeps_lift_result [keeps_rules]: "(\<And>e s. r = Inl e \<Longrightarrow> P s \<Longrightarrow> X e s) \<Longrightarrow> keeps P X (lift_result r)"
  by (auto simp: keeps_def hoare_def lift_result_def split: sum.split)

lemma keeps_modify [keeps_rules]: "(\<And>s. P s \<Longrightarrow> P (f s)) \<Longrightarrow> keeps P X (modify f)"
  by (auto simp: keeps_def hoare_def)

lemma keeps_bnd [keeps_rules]: "keeps P X m \<Longrightarrow> (\<And>x. keeps P X (f x)) \<Longrightarrow> keeps P X (bnd m f)"
  unfolding keeps_def by (rule hoare_bnd)

lemma keeps_thn [keeps_rules]: "keeps P X m \<Longrightarrow> keeps P X n \<Longrightarrow> keeps P X (thn m n)"
  unfolding keeps_def by (rule hoare_thn)

lemma keeps_if [keeps_rules]: "(b \<Longrightarrow> keeps P X m) \<Longrightarrow> (\<not> b \<Longrightarrow> keeps P X n) \<Longrightarrow> keeps P X (if b then m else n)"
  by simp

lemma keeps_option [keeps_rules]:
  "(x = None \<Longrightarrow> keeps P X m) \<Longrightarrow> (\<And>y. x = Some y \<Longrightarrow> keeps P X (f y)) \<Longrightarrow>
   keeps P X (case x of None \<Rightarrow> m | Some y \<Rightarrow> f y)"
  by (cases x) simp_all

lemma keeps_prod [keeps_rules]: "(\<And>a b. p = (a, b) \<Longrightarrow> keeps P X (f a b)) \<Longrightarrow> keeps P X (case p of (a, b) \<Rightarrow> f a b)"
  by (cases p) simp

lemma keeps_list [keeps_rules]:
  "(xs = [] \<Longrightarrow> keeps P X m) \<Longrightarrow> (\<And>y ys. xs = y # ys \<Longrightarrow> keeps P X (f y ys)) \<Longrightarrow>
   keeps P X (case xs of [] \<Rightarrow> m | y # ys \<Rightarrow> f y ys)"
  by (cases xs) simp_all

lemma keeps_for_each [keeps_rules]: "(\<And>x. keeps P X (f x)) \<Longrightarrow> keeps P X (for_each f xs)"
  by (induction xs) (auto intro!: keeps_rules)

lemma keeps_catch:
  assumes m: "keeps P Y m" and h: "\<And>e. hoare (Y e) (h e) (\<lambda>_. P) X"
  shows "keeps P X (catch m h)"
  unfolding keeps_def
proof (rule hoareI)
  note m' = m [unfolded keeps_def]
  fix s x t
  assume s: "P s" and "catch m h s = (Inr x, t)"
  from catch_InrD [OF this(2)] show "P t"
    using hoareD(1) [OF m' s] hoareD(1) [OF h hoareD(2) [OF m' s]] by blast
next
  note m' = m [unfolded keeps_def]
  fix s e t
  assume s: "P s" and "catch m h s = (Inl e, t)"
  from catch_InlD [OF this(2)] show "X e t"
    using hoareD(2) [OF h hoareD(2) [OF m' s]] by blast
qed

lemma keeps_conseq: "keeps P X m \<Longrightarrow> (\<And>e s. X e s \<Longrightarrow> Y e s) \<Longrightarrow> keeps P Y m"
  unfolding keeps_def by (rule hoare_conseq)

text \<open>A step that is only taken in states with a further property.\<close>

lemma keeps_get_state: "(\<And>s. P s \<Longrightarrow> hoare (\<lambda>t. P t \<and> t = s) (f s) (\<lambda>_. P) X) \<Longrightarrow> keeps P X (bnd get_state f)"
  unfolding keeps_def by (rule hoare_get_state)

lemma keeps_gets: "(\<And>s. P s \<Longrightarrow> hoare (\<lambda>t. P t \<and> t = s) (f (g s)) (\<lambda>_. P) X) \<Longrightarrow> keeps P X (bnd (gets g) f)"
  unfolding keeps_def by (rule hoare_gets)

lemma hoare_keeps: "keeps P X m \<Longrightarrow> (\<And>s. R s \<Longrightarrow> P s) \<Longrightarrow> hoare R m (\<lambda>_. P) X"
  unfolding keeps_def by (erule hoare_conseq) auto

lemma keepsD:
  "keeps P X m \<Longrightarrow> P s \<Longrightarrow> m s = (Inr x, t) \<Longrightarrow> P t"
  "keeps P X m \<Longrightarrow> P s \<Longrightarrow> m s = (Inl e, t) \<Longrightarrow> X e t"
  unfolding keeps_def by (auto dest: hoareD)

end
