(* ===== verification/Record_Safety.thy ===== *)
theory Record_Safety
  imports Record_Laws Action_Logic "HOL-Library.Sublist"
begin

text \<open>
  What holds of the record layer whatever the peer sends: the loop over the input ends, errors close the connection, no
  call writes after the connection was closed for writing, and output only grows.

  The locales state which updates of the connection an invariant has to survive so that sealing,
  alerts and opening keep it; they are interpreted on the invariants of the properties.
\<close>

subsection \<open>Exceptions of the lower layers\<close>

text \<open>The exceptions that mean something to the connection's loops are raised by the connection only.\<close>

fun ordinary :: "exn \<Rightarrow> bool" where
  "ordinary (TLSLocalAlert d) = False"
| "ordinary (TLSRemoteAlert d) = False"
| "ordinary TLSEOFError = False"
| "ordinary TLSWantReadError = False"
| "ordinary SkipDataException = False"
| "ordinary Diverges = False"
| "ordinary e = True"

definition ordinary_result :: "'b result \<Rightarrow> bool" where
  "ordinary_result r \<longleftrightarrow> (\<forall>e. r = Inl e \<longrightarrow> ordinary e)"

named_theorems ordinary_rules

lemma ordinary_basic [ordinary_rules]:
  "ordinary_result (Inr x)" "ordinary e \<Longrightarrow> ordinary_result (Inl e)"
  by (simp_all add: ordinary_result_def)

lemma ordinary_rbind [ordinary_rules]:
  "ordinary_result r \<Longrightarrow> (\<And>x. ordinary_result (f x)) \<Longrightarrow> ordinary_result (rbind r f)"
  by (auto simp: ordinary_result_def rbind_def split: sum.splits)

lemma ordinary_pack [ordinary_rules]: "ordinary_result (pack v n)"
  by (simp add: ordinary_result_def pack_def)

lemma ordinary_rcat [ordinary_rules]: "ordinary_result r \<Longrightarrow> ordinary_result q \<Longrightarrow> ordinary_result (rcat r q)"
  by (auto simp: ordinary_result_def rcat_def rbind_def split: sum.splits)

lemma ordinary_pure [ordinary_rules]:
  "ordinary_result (pack_aad seq ty rv n)" "ordinary_result (get_header ty rv m)" "ordinary_result (strxor a b)"
  unfolding pack_aad_def get_header_def
  by (auto intro!: ordinary_rules) (simp add: ordinary_result_def strxor_def)

lemma ordinary_nonce [ordinary_rules]:
  "ordinary_result (xor_nonce c sb)" "ordinary_result (seal_nonce c sb)" "ordinary_result (get_mac cr mac seq ty rv p)"
  unfolding xor_nonce_def seal_nonce_def get_mac_def by (auto intro!: ordinary_rules)

lemma keeps_ordinary:
  "ordinary_result r \<Longrightarrow> keeps (\<lambda>_. True) (\<lambda>e _. ordinary e) (lift_result r)"
  by (intro keeps_rules) (simp add: ordinary_result_def)

lemma ordinary_buffer:
  "keeps (\<lambda>_. True) (\<lambda>e _. ordinary e) (put_at i d)" "keeps (\<lambda>_. True) (\<lambda>e _. ordinary e) the_mac"
  "keeps (\<lambda>_. True) (\<lambda>e _. ordinary e) (update_into cr i b)"
  unfolding keeps_def
  by (auto intro!: hoareI simp: put_at_def the_mac_def update_into_def Let_def thn_apply ret_def
      split: if_splits option.splits cipher_obj.splits prod.splits sum.splits)

lemma ordinary_update_all: "keeps (\<lambda>_. True) (\<lambda>e _. ordinary e) (update_all cr i bs)"
  by (induction bs arbitrary: i) (auto intro!: keeps_rules ordinary_buffer)

lemma ordinary_remove: "ordinary_result (case Py_cbc_remove_pad_and_mac a b c d of
    Inl e \<Rightarrow> Inl (if e = ValueError then InvalidTag else e) | Inr r \<Rightarrow> Inr r)"
  by (auto simp: ordinary_result_def Py_cbc_remove_pad_and_mac_def Let_def split: sum.splits if_splits prod.splits)

lemmas ordinary_all = keeps_rules ordinary_buffer ordinary_update_all keeps_ordinary ordinary_rules ordinary_remove

lemma seal_ordinary: "keeps (\<lambda>_. True) (\<lambda>e _. ordinary e) (TLSCipher_seal cr ty rv p seq hdr)"
  unfolding TLSCipher_seal_def encrypt_aead_def encrypt_then_mac_def mac_then_encrypt_def
    mac_then_encrypt_stream_def Let_def
  by (intro keeps_rules) (auto intro!: ordinary_all split: option.splits seal_method.splits cipher_obj.splits)

lemma open_ordinary: "keeps (\<lambda>_. True) (\<lambda>e _. ordinary e) (TLSCipher_open cr rnd ty rv c seq hdr)"
  unfolding TLSCipher_open_def decrypt_aead_def mac_then_decrypt_def decrypt_then_mac_def
    decrypt_stream_then_mac_def remove_pad_and_mac_def Let_def
  by (intro keeps_rules) (auto intro!: ordinary_all split: option.splits open_method.splits cipher_obj.splits)

subsection \<open>Sealing\<close>

text \<open>An invariant that the scratch buffers, the writing state and the queued flight do not affect.\<close>

locale scratch_invariant =
  fixes P :: "'a TLSConnection_scheme \<Rightarrow> bool"
    and X :: "exn \<Rightarrow> 'a TLSConnection_scheme \<Rightarrow> bool"
  assumes temp_buf: "P s \<Longrightarrow> P (s\<lparr>cn_temp_buf := b\<rparr>)"
    and write_buf: "P s \<Longrightarrow> P (s\<lparr>cn_write_buf := b\<rparr>)"
    and write_state: "P s \<Longrightarrow> P (s\<lparr>cn_write_state := st\<rparr>)"
    and pending_flight: "P s \<Longrightarrow> P (s\<lparr>cn_pending_flight := b\<rparr>)"
    and outgoing: "P s \<Longrightarrow> P (s\<lparr>hs_outgoing_messages := []\<rparr>)"
    and ordinary_error: "P s \<Longrightarrow> ordinary e \<Longrightarrow> X e s"
begin

lemmas stable = temp_buf write_buf write_state pending_flight outgoing

lemma lift_ordinary: "ordinary_result r \<Longrightarrow> keeps P X (lift_result r)"
  by (intro keeps_rules) (auto simp: ordinary_result_def intro: ordinary_error)

lemma raise_if_ordinary: "ordinary e \<Longrightarrow> keeps P X (raise_if b e)"
  by (intro keeps_rules) (auto intro: ordinary_error)

lemmas seal_rules = lift_ordinary raise_if_ordinary ordinary_rules keeps_rules

lemma keeps_write_buf_at: "keeps P X (write_buf_at i d)"
  unfolding write_buf_at_def by (intro seal_rules) (auto intro: stable)

lemma keeps_hide: "keeps P X (hide_content_type ty p)"
  unfolding hide_content_type_def Let_def by (intro seal_rules) (auto intro: stable)

lemma keeps_cipher_seal: "keeps P X (cipher_seal cr c off ty rv p seq hdr)"
  unfolding keeps_def
proof (rule hoareI)
  fix s e t
  assume s: "P s" and "cipher_seal cr c off ty rv p seq hdr s = (Inl e, t)"
  then obtain u where "TLSCipher_seal cr ty rv p seq hdr \<lparr>tc = c, out = drop off (cn_write_buf s)\<rparr> = (Inl e, u)"
    and t: "t = s\<lparr>cn_write_buf := take off (cn_write_buf s) @ out u,
        cn_write_state := (cn_write_state s)\<lparr>cst_cipher := Some (tc u)\<rparr>\<rparr>"
    by (auto simp: cipher_seal_def split: prod.splits)
  then have "ordinary e" using keepsD(2) [OF seal_ordinary] by fastforce
  then show "X e t" unfolding t by (intro ordinary_error stable s)
qed (auto simp: cipher_seal_def split: prod.splits intro: stable)

lemma keeps_seal_record_internal: "keeps P X (seal_record_internal cr ty p off)"
  unfolding seal_record_internal_def Let_def
  by (intro seal_rules keeps_hide keeps_write_buf_at keeps_cipher_seal) (auto intro: stable)

lemma keeps_seal_record: "keeps P X (seal_record cr ty p)"
  unfolding seal_record_def by (intro seal_rules keeps_seal_record_internal)

lemma keeps_pack: "keeps P X (conn_pack_handshake cr)"
  unfolding conn_pack_handshake_def clear_flight_def Let_def
  by (intro seal_rules keeps_seal_record) (auto intro: stable)

end

text \<open>
  An invariant that also survives what is done to the output and to the writing side's shutdown; the
  output may only grow, and only while the writing side is open.
\<close>

locale sealing_invariant = scratch_invariant +
  assumes outbio: "P s \<Longrightarrow> cn_write_shutdown s = SHUT_NONE \<Longrightarrow> P (s\<lparr>cn_outbio := cn_outbio s @ b\<rparr>)"
    and close_write: "P s \<Longrightarrow> x \<noteq> SHUT_NONE \<Longrightarrow> P (s\<lparr>cn_write_shutdown := x\<rparr>)"
    and local_alert: "P s \<Longrightarrow> cn_write_shutdown s \<noteq> SHUT_NONE \<Longrightarrow> X (TLSLocalAlert d) s"

sublocale sealing_invariant \<subseteq> writing: scratch_invariant "\<lambda>s. P s \<and> cn_write_shutdown s = SHUT_NONE" X
  by unfold_locales (auto intro: stable ordinary_error)

context sealing_invariant begin

lemma keeps_flush_open: "keeps (\<lambda>s. P s \<and> cn_write_shutdown s = SHUT_NONE) X (conn_flush_handshake cr)"
  unfolding conn_flush_handshake_def outbio_write_def
  by (intro keeps_rules writing.keeps_pack) (auto intro: outbio stable)

lemma keeps_flush: "keeps P X (conn_flush_handshake cr)"
proof -
  have "hoare P (bnd get_state (\<lambda>s. if cn_pending_flight s = [] then ret ()
      else if cn_write_shutdown s \<noteq> SHUT_NONE then ret ()
      else thn (outbio_write (cn_pending_flight s)) (modify (\<lambda>s. s\<lparr>cn_pending_flight := []\<rparr>)))) (\<lambda>_. P) X"
    by (intro hoareI) (auto simp: bnd_apply thn_apply ret_def outbio_write_def intro: outbio stable split: if_splits)
  with keeps_pack show ?thesis unfolding conn_flush_handshake_def keeps_def by (rule hoare_thn)
qed

lemma keeps_write_open: "keeps (\<lambda>s. P s \<and> cn_write_shutdown s = SHUT_NONE) X (write_record cr ty d)"
  unfolding write_record_def outbio_write_def
  by (intro keeps_rules keeps_flush_open writing.keeps_seal_record) (auto intro: outbio)

lemma hoare_send_alert:
  "hoare P (send_alert cr d fatal) (\<lambda>_ s. P s \<and> \<not> fatal) X"
  unfolding send_alert_def
proof (rule hoare_gets)
  fix s
  assume s: "P s"
  let ?R = "\<lambda>t. P t \<and> (fatal \<longrightarrow> cn_write_shutdown t \<noteq> SHUT_NONE)"
  have "hoare (\<lambda>t. P t \<and> t = s) (if cn_write_shutdown s = SHUT_NONE then
      thn (raise_if (d < 0 \<or> d > 255) ValueError)
      (if \<not> fatal then write_record cr (ct CT_ALERT) [word_of_int (al AL_WARNING), word_of_int d]
       else thn (write_record cr (ct CT_ALERT) [word_of_int (al AL_FATAL), word_of_int d])
         (modify (\<lambda>s. s\<lparr>cn_write_shutdown := SHUT_ERROR\<rparr>)))
      else ret ()) (\<lambda>_. ?R) X"
  proof (cases "cn_write_shutdown s = SHUT_NONE")
    case True
    let ?W = "\<lambda>s. P s \<and> cn_write_shutdown s = SHUT_NONE"
    have w: "hoare ?W (write_record cr ty p) (\<lambda>_. ?W) X" for ty p
      using keeps_write_open by (simp add: keeps_def)
    have c: "hoare ?W (modify (\<lambda>s. s\<lparr>cn_write_shutdown := SHUT_ERROR\<rparr>)) (\<lambda>_. ?R) X"
      by (intro hoareI) (auto intro: close_write)
    have r: "hoare ?W (raise_if b ValueError) (\<lambda>_. ?W) X" for b
      using writing.raise_if_ordinary [of ValueError b] by (simp add: keeps_def)
    have "hoare ?W (thn (raise_if (d < 0 \<or> d > 255) ValueError)
      (if \<not> fatal then write_record cr (ct CT_ALERT) [word_of_int (al AL_WARNING), word_of_int d]
       else thn (write_record cr (ct CT_ALERT) [word_of_int (al AL_FATAL), word_of_int d])
         (modify (\<lambda>s. s\<lparr>cn_write_shutdown := SHUT_ERROR\<rparr>)))) (\<lambda>_. ?R) X"
      using hoare_conseq [OF w] hoare_thn [OF w c] by (intro hoare_thn [OF r]) auto
    with True show ?thesis by (auto intro: hoare_conseq)
  next
    case False
    then show ?thesis by (intro hoareI) (auto simp: ret_def)
  qed
  moreover have "hoare ?R (raise_if fatal (TLSLocalAlert d)) (\<lambda>_ s. P s \<and> \<not> fatal) X"
    by (intro hoareI) (auto simp: raise_if_apply intro: local_alert split: if_splits)
  ultimately show "hoare (\<lambda>t. P t \<and> t = s) (thn (if cn_write_shutdown s = SHUT_NONE then
      thn (raise_if (d < 0 \<or> d > 255) ValueError)
      (if \<not> fatal then write_record cr (ct CT_ALERT) [word_of_int (al AL_WARNING), word_of_int d]
       else thn (write_record cr (ct CT_ALERT) [word_of_int (al AL_FATAL), word_of_int d])
         (modify (\<lambda>s. s\<lparr>cn_write_shutdown := SHUT_ERROR\<rparr>)))
      else ret ()) (raise_if fatal (TLSLocalAlert d))) (\<lambda>_ s. P s \<and> \<not> fatal) X"
    by (rule hoare_thn)
qed

lemma keeps_send_alert: "keeps P X (send_alert cr d fatal)"
  unfolding keeps_def by (rule hoare_conseq [OF hoare_send_alert]) auto

lemma keeps_alert_if: "keeps P X (alert_if cr b d)"
  unfolding alert_if_def by (intro keeps_rules keeps_send_alert)

lemma hoare_alert_if: "hoare P (alert_if cr b d) (\<lambda>_ s. P s \<and> \<not> b) X"
  using hoare_send_alert [of cr "ad d" True] unfolding alert_if_def
  by (cases b) (auto intro!: hoareI simp: ret_def dest: hoareD)

lemma keeps_shutdown: "keeps P X (conn_shutdown cr)"
  unfolding conn_shutdown_def by (intro keeps_rules keeps_send_alert) (auto intro: close_write)

end

subsection \<open>Opening\<close>

text \<open>
  An invariant of the reading side.  How it fares under the counting of skipped data and under an alert of
  the peer is part of the contract, as some invariants are about just that.
\<close>

locale buffer_invariant = sealing_invariant +
  assumes read_buf: "P s \<Longrightarrow> P (s\<lparr>cn_read_buf := b\<rparr>)"
    and read_state: "P s \<Longrightarrow> P (s\<lparr>cn_read_state := st\<rparr>)"
    and early_flags: "P s \<Longrightarrow> P (s\<lparr>hs_skip_early_data := False, hs_can_early_read := False, hs_can_early_write := False\<rparr>)"
begin

lemmas stable_reading = read_buf read_state early_flags

lemma keeps_verify_ccs: "keeps P X (verify_ccs cr d)"
  unfolding verify_ccs_def by (intro keeps_rules keeps_alert_if)

lemma keeps_unpad: "keeps P X (unpad_data_tlsv1_3 cr d)"
  unfolding unpad_data_tlsv1_3_def by (intro keeps_rules keeps_send_alert)

lemma keeps_cipher_open: "keeps P (\<lambda>e s. P s \<and> ordinary e) (cipher_open cr rnd c ty rv d seq hdr)"
  unfolding keeps_def
proof (rule hoareI)
  fix s e t
  assume s: "P s" and "cipher_open cr rnd c ty rv d seq hdr s = (Inl e, t)"
  then obtain u where "TLSCipher_open cr rnd ty rv d seq hdr \<lparr>tc = c, out = cn_read_buf s\<rparr> = (Inl e, u)"
    and t: "t = s\<lparr>cn_read_buf := out u, cn_read_state := (cn_read_state s)\<lparr>cst_cipher := Some (tc u)\<rparr>\<rparr>"
    by (auto simp: cipher_open_def split: prod.splits)
  then have "ordinary e" using keepsD(2) [OF open_ordinary] by fastforce
  then show "P t \<and> ordinary e" unfolding t by (auto intro: stable_reading s)
qed (auto simp: cipher_open_def split: prod.splits intro: stable_reading)

end

text \<open>
  The contract for one record of type \<open>ty\<close> with \<open>n\<close> bytes: what holds when it is passed over, for each of the three
  reasons.  The postcondition \<open>X SkipDataException\<close> can differ from the invariant.
\<close>

locale record_invariant = buffer_invariant +
  fixes ty :: int and n :: nat
  assumes ccs_skipped: "ty = ct CT_CHANGE_CIPHER_SPEC \<Longrightarrow> P s \<Longrightarrow> X SkipDataException s"
    and early_skipped: "hoare P (skip_early_data cr n) (\<lambda>_. X SkipDataException) X"
    and peer_alert: "keeps P X (process_alert cr d)"
begin

lemma keeps_skip: "keeps P X (thn (skip_early_data cr n) (raise SkipDataException))"
  unfolding keeps_def by (rule hoare_thn [OF early_skipped]) (auto intro!: hoareI simp: raise_def)

lemma keeps_open_ciphertext:
  assumes "length c = n" shows "keeps P X (open_ciphertext cr rnd ty rv hdr c)"
  unfolding open_ciphertext_def assms
proof (intro keeps_rules keeps_catch)
  fix s and x and e
  show "keeps P (\<lambda>e s. P s \<and> ordinary e) (cipher_open cr rnd x ty rv c (cst_sequence_number (cn_read_state s)) hdr)"
    by (rule keeps_cipher_open)
  let ?m = "bnd (gets hs_skip_early_data) (\<lambda>skipping. if skipping then thn (skip_early_data cr n) (raise SkipDataException)
        else thn (send_alert cr (ad AD_BAD_RECORD_MAC) True) (ret (0 :: nat)))"
  have "hoare (\<lambda>s. P s \<and> ordinary e) (raise e) (\<lambda>_ :: nat. P) X"
    by (intro hoareI) (auto simp: raise_def intro: ordinary_error)
  moreover have "keeps P X ?m" by (rule keeps_bnd [OF keeps_basic(2)], rule keeps_if) (intro keeps_skip, intro keeps_rules keeps_send_alert)
  ultimately show "hoare (\<lambda>s. P s \<and> ordinary e) (if e = InvalidTag then ?m else raise e) (\<lambda>_. P) X"
    by (auto simp: keeps_def elim: hoare_conseq)
qed (auto intro: stable_reading ordinary_error)

lemma keeps_process_record:
  assumes "length c = n" shows "keeps P X (process_record cr rnd ty rv hdr c)"
  unfolding process_record_def Let_def hs_close_early_data_def assms
  by (intro keeps_skip keeps_rules keeps_alert_if keeps_verify_ccs peer_alert keeps_open_ciphertext assms keeps_unpad)
    (auto intro: early_flags ccs_skipped)

end

text \<open>An invariant that survives every record that is passed over.\<close>

locale reading_invariant = buffer_invariant +
  assumes skip_record: "P s \<Longrightarrow> X SkipDataException s"
    and skipped_data: "keeps P X (skip_early_data cr n)"
    and peer_alert: "keeps P X (process_alert cr d)"

sublocale reading_invariant \<subseteq> each: record_invariant P X ty n for ty n
  by unfold_locales (auto intro: skip_record peer_alert hoare_conseq [OF skipped_data [unfolded keeps_def]])

context reading_invariant
begin

lemma keeps_process_record: "keeps P X (process_record cr rnd ty rv hdr c)"
  by (rule each.keeps_process_record) (rule refl)

end

text \<open>An invariant that does not look at the counters and at the reading side's shutdown.\<close>

locale opening_invariant = buffer_invariant +
  assumes passed_over: "P s \<Longrightarrow> X SkipDataException s"
    and ignored: "P s \<Longrightarrow> P (s\<lparr>cn_early_data_ignored := n\<rparr>)"
    and warnings: "P s \<Longrightarrow> P (s\<lparr>cn_warning_alert_received := w\<rparr>)"
    and read_shutdown: "P s \<Longrightarrow> P (s\<lparr>cn_read_shutdown := x\<rparr>)"
    and close_error: "P s \<Longrightarrow> cn_read_shutdown s \<noteq> SHUT_NONE \<Longrightarrow> X TLSEOFError s"
    and alert_error: "P s \<Longrightarrow> cn_read_shutdown s = SHUT_ERROR \<Longrightarrow> X (TLSRemoteAlert d) s"
begin

lemma keeps_skip_early_data: "keeps P X (skip_early_data cr n)"
  unfolding skip_early_data_def by (intro keeps_rules keeps_alert_if) (auto intro: ignored)

lemma keeps_close: "(\<And>s. P s \<Longrightarrow> cn_read_shutdown s = x \<Longrightarrow> X e s) \<Longrightarrow>
    keeps P X (thn (modify (\<lambda>s. s\<lparr>cn_read_shutdown := x\<rparr>)) (raise e))"
  unfolding keeps_def by (intro hoareI) (simp_all add: thn_apply raise_def read_shutdown)

lemma keeps_process_alert: "keeps P X (process_alert cr d)"
  unfolding process_alert_def Let_def
  by (intro keeps_close keeps_rules keeps_alert_if keeps_send_alert)
    (auto intro: warnings passed_over close_error alert_error)

end

sublocale opening_invariant \<subseteq> reading_invariant
  by unfold_locales (rule passed_over keeps_skip_early_data keeps_process_alert, assumption?)+

text \<open>An invariant of the loop over the records of the input.\<close>

locale input_invariant = reading_invariant +
  assumes input: "P s \<Longrightarrow> P (s\<lparr>cn_inbio := i\<rparr>)"
    and header: "P s \<Longrightarrow> P (s\<lparr>cn_header := h\<rparr>)"
    and input_errors: "P s \<Longrightarrow> X TLSWantReadError s" "P s \<Longrightarrow> X Diverges s"
    and shut_error: "P s \<Longrightarrow> cn_read_shutdown s \<noteq> SHUT_NONE \<Longrightarrow> X TLSEOFError s"
    and skip_resumes: "X SkipDataException s \<Longrightarrow> P s"
begin

lemma keeps_take_record: "keeps P X (take_record cr)"
  unfolding take_record_def take_header_def Let_def
  by (intro keeps_rules keeps_alert_if) (auto intro: input header input_errors ordinary_error)

lemma keeps_open_record_internal: "keeps P X (open_record_internal cr rnd)"
proof -
  have "keeps P X (bnd (take_record cr) (\<lambda>(content_type, record_version, header, ciphertext).
      process_record cr rnd content_type record_version header ciphertext))" (is "keeps P X ?m")
    by (intro keeps_rules keeps_take_record keeps_process_record)
  then have "hoare P ?m (\<lambda>_. P) X" by (simp add: keeps_def)
  then show ?thesis unfolding open_record_internal_def keeps_def
    by (intro hoare_gets)
      (auto intro!: hoareI simp: thn_apply raise_if_apply split: if_splits intro: shut_error dest: hoareD)
qed

lemma keeps_open_record: "keeps P X (open_record fuel cr rnd)"
proof (induction fuel)
  case (Suc fuel)
  show ?case unfolding open_record.simps
  proof (rule keeps_catch [OF keeps_open_record_internal])
    fix e
    have "hoare (X e) (raise e) (\<lambda>_ :: int \<times> bytes. P) X" by (intro hoareI) (auto simp: raise_def)
    moreover have "hoare (X SkipDataException) (open_record fuel cr rnd) (\<lambda>_. P) X"
      using Suc by (rule hoare_keeps) (rule skip_resumes)
    ultimately show "hoare (X e) (if e = SkipDataException then open_record fuel cr rnd else raise e) (\<lambda>_. P) X"
      by simp
  qed
qed (auto intro!: keeps_rules input_errors)

lemma keeps_conn_open_record: "keeps P X (conn_open_record cr rnd)"
  using keeps_open_record by (auto simp: conn_open_record_def keeps_def hoare_def simp del: open_record.simps)

end

subsection \<open>The loop over the input ends\<close>

text \<open>What is done with a record leaves the rest of the input alone.\<close>

definition input_is :: "bytes \<Rightarrow> bytes option \<Rightarrow> 'a TLSConnection_scheme \<Rightarrow> bool" where
  "input_is i h s \<longleftrightarrow> cn_inbio s = i \<and> cn_header s = h"

definition input_exit :: "bytes \<Rightarrow> bytes option \<Rightarrow> exn \<Rightarrow> 'a TLSConnection_scheme \<Rightarrow> bool" where
  "input_exit i h e s \<longleftrightarrow> e \<noteq> Diverges \<and> input_is i h s"

interpretation rest: opening_invariant "input_is i h" "input_exit i h" for i :: bytes and h :: "bytes option"
  by unfold_locales (auto simp: input_is_def input_exit_def)

definition input_size :: "'a TLSConnection_scheme \<Rightarrow> nat" where
  "input_size s = length (cn_inbio s) + (if cn_header s = None then 0 else 1)"

definition shrinks :: "nat \<Rightarrow> exn \<Rightarrow> 'a TLSConnection_scheme \<Rightarrow> bool" where
  "shrinks n e s \<longleftrightarrow> e \<noteq> Diverges \<and> (e = SkipDataException \<longrightarrow> input_size s < n)"

interpretation front: sealing_invariant "\<lambda>s. length (cn_inbio s) < n" "\<lambda>e _. e \<noteq> Diverges \<and> e \<noteq> SkipDataException"
  for n :: nat
  by unfold_locales auto

lemma take_header_size:
  "hoare (\<lambda>s. input_size s = n) take_header (\<lambda>_ s. length (cn_inbio s) < n)
     (\<lambda>e _. e \<noteq> Diverges \<and> e \<noteq> SkipDataException)"
  by (intro hoareI) (auto simp: take_header_def input_size_def bnd_apply thn_apply raise_if_apply ret_def HEADER_LENGTH_def
      split: option.splits if_splits)

lemma take_record_bytes:
  "hoare (\<lambda>s. input_size s = n) (take_record cr) (\<lambda>_ s. length (cn_inbio s) < n)
     (\<lambda>e _. e \<noteq> Diverges \<and> e \<noteq> SkipDataException)"
  unfolding take_record_def Let_def
  by (intro hoare_bnd [OF take_header_size], fold keeps_def) (intro keeps_rules front.keeps_alert_if; simp)

lemma take_record_header: "take_record cr s = (Inr x, t) \<Longrightarrow> cn_header t = None"
  unfolding take_record_def Let_def
  by (auto elim!: bnd_InrE thn_InrE simp: ret_def split: prod.splits)

lemma take_record_size:
  "hoare (\<lambda>s. input_size s = n) (take_record cr) (\<lambda>_ s. input_size s < n)
     (\<lambda>e _. e \<noteq> Diverges \<and> e \<noteq> SkipDataException)"
proof (intro hoareI)
  fix s x t
  assume "input_size s = n" and r: "take_record cr s = (Inr x, t)"
  with hoareD(1) [OF take_record_bytes] have "length (cn_inbio t) < n" by blast
  with take_record_header [OF r] show "input_size t < n" by (simp add: input_size_def)
qed (use hoareD(2) [OF take_record_bytes] in blast)

lemma process_record_size:
  "hoare (\<lambda>s. input_size s < n) (process_record cr rnd ty rv hdr c) (\<lambda>_ _. True) (shrinks n)"
proof (intro hoareI)
  fix s e t
  assume "input_size s < n" and "process_record cr rnd ty rv hdr c s = (Inl e, t)"
  with keepsD(2) [OF rest.keeps_process_record, of "cn_inbio s" "cn_header s" s]
  show "shrinks n e t" by (auto simp: input_is_def input_exit_def shrinks_def input_size_def)
qed simp

lemma open_record_internal_size:
  "hoare (\<lambda>s. input_size s = n) (open_record_internal cr rnd) (\<lambda>_ _. True) (shrinks n)"
proof -
  have "hoare (\<lambda>s. input_size s = n) (take_record cr) (\<lambda>_ s. input_size s < n) (shrinks n)"
    by (rule hoare_conseq [OF take_record_size]) (auto simp: shrinks_def)
  then have m: "hoare (\<lambda>s. input_size s = n) (bnd (take_record cr) (\<lambda>(ty, rv, hdr, c). process_record cr rnd ty rv hdr c))
      (\<lambda>_ _. True) (shrinks n)"
    by (rule hoare_bnd) (auto split: prod.split intro: process_record_size)
  show ?thesis unfolding open_record_internal_def
    by (rule hoare_gets) (use m in \<open>auto intro!: hoareI simp: thn_apply raise_if_apply shrinks_def split: if_splits dest: hoareD\<close>)
qed

lemma open_record_ends:
  "input_size s < fuel \<Longrightarrow> fst (open_record fuel cr rnd s) \<noteq> Inl Diverges \<and> fst (open_record fuel cr rnd s) \<noteq> Inl SkipDataException"
proof (induction fuel arbitrary: s)
  case (Suc fuel)
  obtain r t where r: "open_record_internal cr rnd s = (r, t)" by fastforce
  show ?case
  proof (cases r)
    case (Inl e)
    with r have "shrinks (input_size s) e t" using hoareD(2) [OF open_record_internal_size] by blast
    with Suc r Inl show ?thesis by (auto simp: catch_def shrinks_def raise_def)
  qed (use r in \<open>simp add: catch_def\<close>)
qed simp

text \<open>
  C19: Whatever the bytes from the peer are, whatever the ciphers answer and in whatever state the connection is,
  the loop that opens a record ends: it returns a record or raises an exception of its own, and the exception by which
  one turn asks for the next one never leaves the loop.
\<close>

theorem open_record_total:
  "fst (conn_open_record cr rnd s) \<notin> {Inl Diverges, Inl SkipDataException}"
  using open_record_ends [of s "length (cn_inbio s) + 2" cr rnd]
  by (auto simp: conn_open_record_def input_size_def simp del: open_record.simps)

subsection \<open>Alerts close the connection\<close>

fun closed_by :: "exn \<Rightarrow> 'a TLSConnection_scheme \<Rightarrow> bool" where
  "closed_by (TLSLocalAlert d) s = (cn_write_shutdown s \<noteq> SHUT_NONE)"
| "closed_by (TLSRemoteAlert d) s = (cn_read_shutdown s = SHUT_ERROR)"
| "closed_by TLSEOFError s = (cn_read_shutdown s \<noteq> SHUT_NONE)"
| "closed_by e s = True"

lemma closed_by_ordinary: "ordinary e \<Longrightarrow> closed_by e s"
  by (cases e) auto

interpretation closing: opening_invariant "\<lambda>_. True" closed_by
  by unfold_locales (auto simp: closed_by_ordinary)

interpretation closing: input_invariant "\<lambda>_. True" closed_by
  by unfold_locales auto

text \<open>
  C21: An error of the record layer closes the connection on the side it concerns: after an alert of its own the
  connection does not write any more, after an alert or a close notification of the peer it does not read any more, and a
  connection that does not read any more answers every attempt to open a record with the end of the stream and leaves
  its state as it is.
\<close>

theorem errors_close:
  assumes "conn_open_record cr rnd s = (Inl e, t)"
  shows "closed_by e t \<and> (cn_read_shutdown t \<noteq> SHUT_NONE \<longrightarrow> conn_open_record cr rnd t = (Inl TLSEOFError, t))"
proof
  show "closed_by e t" using keepsD(2) [OF closing.keeps_conn_open_record TrueI assms] .
  show "cn_read_shutdown t \<noteq> SHUT_NONE \<longrightarrow> conn_open_record cr rnd t = (Inl TLSEOFError, t)"
    by (simp add: conn_open_record_def catch_def open_record_internal_def bnd_apply thn_apply raise_if_apply raise_def)
qed

subsection \<open>The calls of an application\<close>

text \<open>
  An invariant of every call of the application but the one that takes output: it does not look at what the calls and the
  driver of the handshake change beside the records.
\<close>

locale call_invariant = input_invariant P "\<lambda>_. P"
  for P :: "'a TLSConnection_scheme \<Rightarrow> bool" +
  assumes handshake_state: "P s \<Longrightarrow> P (s\<lparr>hs_state := st\<rparr>)"
    and incoming_data: "P s \<Longrightarrow> P (s\<lparr>hs_incoming_data := d\<rparr>)"
    and queued: "P s \<Longrightarrow> P (s\<lparr>hs_outgoing_messages := m\<rparr>)"
    and handshake_status: "P s \<Longrightarrow> P (s\<lparr>cn_handshake_status := x\<rparr>)"
    and app_data: "P s \<Longrightarrow> P (s\<lparr>cn_pending_app_data := d\<rparr>)"
    and early_processed: "P s \<Longrightarrow> P (s\<lparr>cn_early_data_processed := n\<rparr>)"
begin

lemmas fields = handshake_state incoming_data queued handshake_status app_data early_processed pending_flight early_flags input

lemmas call_rules = keeps_rules keeps_alert_if keeps_conn_open_record keeps_send_alert keeps_pack keeps_flush keeps_verify_ccs

lemma keeps_small_steps:
  "keeps P (\<lambda>_. P) (feed_data d)" "keeps P (\<lambda>_. P) hs_close_early_data" "keeps P (\<lambda>_. P) ech_not_rejected"
  "keeps P (\<lambda>_. P) (set_status x)" "keeps P (\<lambda>_. P) (extend_pending d)" "keeps P (\<lambda>_. P) max_early_data"
  "keeps P (\<lambda>_. P) (set_state i)" "keeps P (\<lambda>_. P) trigger_post_handshake" "keeps P (\<lambda>_. P) write_ccs"
  "keeps P (\<lambda>_. P) (bio_write d)"
  unfolding feed_data_def hs_close_early_data_def ech_not_rejected_def set_status_def extend_pending_def max_early_data_def
    set_state_def trigger_post_handshake_def write_ccs_def bio_write_def
  by (intro keeps_rules; simp add: fields)+

lemma keeps_read_ccs: "keeps P (\<lambda>_. P) (read_ccs cr rnd)"
  unfolding read_ccs_def by (intro call_rules)

lemma keeps_read_handshake: "keeps P (\<lambda>_. P) (conn_read_handshake cr rnd)"
  unfolding conn_read_handshake_def by (intro call_rules keeps_small_steps)

lemma keeps_handle_status: "keeps P (\<lambda>_. P) (handle_status cr rnd)"
proof -
  have "keeps P (\<lambda>_. P) (case x of
       ST_PACK_FLIGHT \<Rightarrow> thn (conn_pack_handshake cr) (ret False)
     | ST_FLUSH_HANDSHAKE \<Rightarrow> thn (conn_flush_handshake cr) (ret False)
     | ST_READ_HANDSHAKE \<Rightarrow> thn (conn_read_handshake cr rnd) (ret False)
     | ST_READ_CHANGE_CIPHER_SPEC \<Rightarrow> thn (read_ccs cr rnd) (ret False)
     | ST_WRITE_CHANGE_CIPHER_SPEC \<Rightarrow> thn write_ccs (ret False)
     | ST_EARLY_RETURN \<Rightarrow> thn ech_not_rejected (thn (set_status ST_OK) (ret True))
     | ST_READ_END_OF_EARLY_DATA \<Rightarrow>
         if early then ret True else thn (set_status ST_OK) (ret False)
     | ST_OK \<Rightarrow> ret False)" for x early
    by (cases x) (auto intro!: call_rules keeps_small_steps keeps_read_ccs keeps_read_handshake)
  then show ?thesis unfolding handle_status_def by (intro keeps_rules)
qed

lemma alert_handler:
  "hoare P (case e of AlertException d fatal \<Rightarrow> send_alert cr d fatal | _ \<Rightarrow> raise e) (\<lambda>_. P) (\<lambda>_. P)"
proof -
  have "hoare P (raise d) (\<lambda>_ :: unit. P) (\<lambda>_. P)" for d
    by (auto simp: raise_def hoare_def)
  then show ?thesis by (cases e) (simp_all add: keeps_send_alert [unfolded keeps_def])
qed

lemma keeps_do_handshake: "keeps P (\<lambda>_. P) hsk \<Longrightarrow> keeps P (\<lambda>_. P) (conn_do_handshake fuel cr rnd hsk)"
proof (induction fuel)
  case (Suc fuel)
  have "keeps P (\<lambda>_. P) (bnd hsk set_status)" by (intro keeps_rules Suc keeps_small_steps)
  with Suc show ?case
    by (auto intro!: call_rules keeps_small_steps keeps_handle_status keeps_catch alert_handler)
qed (auto intro!: keeps_rules)

lemma keeps_post_handshake: "keeps P (\<lambda>_. P) (post_handshake_data cr ty d)"
  unfolding post_handshake_data_def by (intro call_rules keeps_small_steps)

lemma keeps_early_data: "keeps P (\<lambda>_. P) (early_data_received cr n)"
  unfolding early_data_received_def by (intro call_rules keeps_small_steps) (simp_all add: fields)

lemma keeps_read_pending: "keeps P (\<lambda>_. P) (read_pending n buf)"
  unfolding read_pending_def Let_def by (intro keeps_rules) (simp_all add: fields)

lemma keeps_read: "keeps P (\<lambda>_. P) hsk \<Longrightarrow> keeps P (\<lambda>_. P) (conn_read fuel cr rnd hsk n buf)"
proof (induction fuel)
  case (Suc fuel)
  have "keeps P (\<lambda>_. P) (case read_result buf d of Inl e \<Rightarrow> thn (extend_pending d) (raise e) | Inr d \<Rightarrow> ret d)" for d
    by (cases "read_result buf d") (auto intro!: keeps_rules keeps_small_steps)
  with Suc show ?case unfolding conn_read.simps
    by (intro call_rules keeps_small_steps keeps_read_pending keeps_post_handshake keeps_early_data keeps_do_handshake)
qed (auto intro!: keeps_rules)

text \<open>Writing continues only while the writing side is open, so what follows is proved for that case.\<close>

lemma keeps_while_open:
  assumes "\<And>s. keeps (\<lambda>s. P s \<and> cn_write_shutdown s = SHUT_NONE) (\<lambda>_. P) (m s)"
  shows "keeps P (\<lambda>_. P) (bnd get_state (\<lambda>s. thn (raise_if (cn_write_shutdown s \<noteq> SHUT_NONE) e) (m s)))"
  unfolding keeps_def
proof (rule hoareI)
  fix s x t
  assume s: "P s" and run: "bnd get_state (\<lambda>s. thn (raise_if (cn_write_shutdown s \<noteq> SHUT_NONE) e) (m s)) s = (Inl x, t)"
  show "P t"
  proof (cases "cn_write_shutdown s = SHUT_NONE")
    case True
    with s run keepsD(2) [OF assms] show ?thesis by (auto simp: bnd_apply thn_apply raise_if_apply)
  qed (use s run in \<open>auto simp: bnd_apply thn_apply raise_if_apply raise_def\<close>)
next
  fix s x t
  assume s: "P s" and run: "bnd get_state (\<lambda>s. thn (raise_if (cn_write_shutdown s \<noteq> SHUT_NONE) e) (m s)) s = (Inr x, t)"
  then have "cn_write_shutdown s = SHUT_NONE \<and> m s s = (Inr x, t)"
    by (auto simp: bnd_apply thn_apply raise_if_apply split: if_splits)
  with s keepsD(1) [OF assms] show "P t" by blast
qed

lemma keeps_write: "keeps P (\<lambda>_. P) hsk \<Longrightarrow> keeps P (\<lambda>_. P) (conn_write fuel cr rnd hsk d)"
  unfolding conn_write_def Let_def hs_close_early_data_def max_early_data_def
  by (intro keeps_rules keeps_while_open keeps_do_handshake keeps_write_open) (simp_all add: fields)

lemma keeps_update_key: "keeps P (\<lambda>_. P) (update_key r)"
  unfolding update_key_def send_key_update_def write_key_update_def protocol_version_def add_message_def
  by (intro call_rules keeps_small_steps) (auto intro: fields)

end

subsection \<open>A closed connection is silent\<close>

definition silent :: "bytes \<Rightarrow> 'a TLSConnection_scheme \<Rightarrow> bool" where
  "silent b s \<longleftrightarrow> cn_write_shutdown s \<noteq> SHUT_NONE \<and> suffix (cn_outbio s) b"

interpretation silence: opening_invariant "silent b" "\<lambda>_. silent b" for b :: bytes
  by unfold_locales (auto simp: silent_def)

interpretation silence: call_invariant "silent b" for b :: bytes
  by unfold_locales (auto simp: silent_def)

abbreviation keeps_silent :: "bytes \<Rightarrow> ('a, 'b) conn_action \<Rightarrow> bool" where
  "keeps_silent b \<equiv> keeps (silent b) (\<lambda>_. silent b)"

lemma silent_bio_read: "keeps_silent b (bio_read n)"
  unfolding keeps_def
  by (intro hoareI) (auto simp: bio_read_def silent_def Let_def bnd_apply thn_apply raise_if_apply ret_def
      intro: suffix_order.trans suffix_drop split: if_splits)

text \<open>The operations an application has on a connection, and a history of calls whatever they return or raise.\<close>

datatype conn_call =
    Call_bio_write bytes
  | Call_bio_read int
  | Call_read nat int "nat option"
  | Call_write nat bytes
  | Call_do_handshake nat
  | Call_shutdown
  | Call_update_key bool

fun run_call :: "crypto \<Rightarrow> (nat \<Rightarrow> bytes) \<Rightarrow> ('a, Status) conn_action \<Rightarrow> conn_call \<Rightarrow> 'a TLSConnection_scheme \<Rightarrow> 'a TLSConnection_scheme" where
  "run_call cr rnd hsk (Call_bio_write d) s = snd (bio_write d s)"
| "run_call cr rnd hsk (Call_bio_read n) s = snd (bio_read n s)"
| "run_call cr rnd hsk (Call_read fuel n buf) s = snd (conn_read fuel cr rnd hsk n buf s)"
| "run_call cr rnd hsk (Call_write fuel d) s = snd (conn_write fuel cr rnd hsk d s)"
| "run_call cr rnd hsk (Call_do_handshake fuel) s = snd (conn_do_handshake fuel cr rnd hsk s)"
| "run_call cr rnd hsk Call_shutdown s = snd (conn_shutdown cr s)"
| "run_call cr rnd hsk (Call_update_key r) s = snd (update_key r s)"

lemma silent_after: "keeps_silent b m \<Longrightarrow> silent b s \<Longrightarrow> silent b (snd (m s))"
  by (cases "m s"; cases "fst (m s)") (auto dest: keepsD)

lemma run_call_silent: "keeps_silent b hsk \<Longrightarrow> silent b s \<Longrightarrow> silent b (run_call cr rnd hsk c s)"
  by (cases c) (simp_all add: silent_after silence.keeps_small_steps silent_bio_read silence.keeps_read silence.keeps_write
      silence.keeps_do_handshake silence.keeps_shutdown silence.keeps_update_key)

lemma run_calls_silent: "keeps_silent b hsk \<Longrightarrow> silent b s \<Longrightarrow> silent b (fold (run_call cr rnd hsk) cs s)"
  by (induction cs arbitrary: s) (auto intro: run_call_silent)

subsection \<open>Output only grows\<close>

text \<open>No call but \<open>bio_read\<close> takes back or changes a byte of output that has been produced.\<close>

definition grown_from :: "bytes \<Rightarrow> 'a TLSConnection_scheme \<Rightarrow> bool" where
  "grown_from b s \<longleftrightarrow> prefix b (cn_outbio s)"

interpretation growth: opening_invariant "grown_from b" "\<lambda>_. grown_from b" for b :: bytes
  by unfold_locales (auto simp: grown_from_def)

interpretation growth: call_invariant "grown_from b" for b :: bytes
  by unfold_locales (auto simp: grown_from_def)

subsection \<open>Instances\<close>

text \<open>A connection that was closed while output was waiting.\<close>

definition sample_ended :: TLSConnection where
  "sample_ended = (TLSConnection_init (sample_handshake False))\<lparr>cn_read_shutdown := SHUT_CLOSE_NOTIFY,
     cn_write_shutdown := SHUT_CLOSE_NOTIFY, cn_outbio := [21, 3, 3]\<rparr>"

lemma sample_reads_end: "conn_open_record sample_crypto rnd sample_ended = (Inl TLSEOFError, sample_ended)"
  by (simp add: conn_open_record_def sample_ended_def sample_connection_defs open_record_internal_def
      bnd_apply thn_apply raise_if_apply raise_def catch_def)

theorem errors_close_witness:
  "conn_open_record sample_crypto (\<lambda>n. replicate n 0) sample_ended = (Inl TLSEOFError, sample_ended) \<and>
   closed_by TLSEOFError sample_ended"
  using errors_close [OF sample_reads_end] sample_reads_end by blast

end
