(* ===== verification/Record_Budget.thy ===== *)
theory Record_Budget
  imports Record_Safety "HOL-Library.Multiset"
begin

text \<open>
  The budgets for input that is passed over.  A record that the connection ignores is a change of the cipher in TLS 1.3, early data that
  cannot be opened, or a warning alert.  The last two are counted: \<open>accounted\<close> says what passing over one record of a
  type and a length does to the counters, and \<open>passes\<close> is a run over several records, measured by the input it consumes.
\<close>

subsection \<open>One record\<close>

definition counters_are :: "int \<Rightarrow> nat \<Rightarrow> int \<Rightarrow> 'a TLSConnection_scheme \<Rightarrow> bool" where
  "counters_are i l w s \<longleftrightarrow> cn_early_data_ignored s = i \<and> cn_recv_record_limit s = l \<and> cn_warning_alert_received s = w"

lemma counters_self: "counters_are (cn_early_data_ignored s) (cn_recv_record_limit s) (cn_warning_alert_received s) s"
  by (simp add: counters_are_def)

definition quiet :: "exn \<Rightarrow> bool" where
  "quiet e \<longleftrightarrow> e \<notin> {SkipDataException, TLSWantReadError, TLSEOFError}"

lemma quiet_ordinary: "ordinary e \<Longrightarrow> quiet e"
  by (cases e) (auto simp: quiet_def)

interpretation counters: sealing_invariant "counters_are i l w" "\<lambda>e _. quiet e" for i :: int and l :: nat and w :: int
  by unfold_locales (auto simp: counters_are_def quiet_ordinary, simp add: quiet_def)

definition accounted :: "int \<Rightarrow> nat \<Rightarrow> int \<Rightarrow> int \<Rightarrow> nat \<Rightarrow> exn \<Rightarrow> 'a TLSConnection_scheme \<Rightarrow> bool" where
  "accounted i l w ty n e t \<longleftrightarrow>
     (e = SkipDataException \<longrightarrow>
        ty = ct CT_CHANGE_CIPHER_SPEC \<and> counters_are i l w t \<or>
        counters_are (i + int n) l w t \<and> i + int n \<le> int l \<or>
        counters_are i l (w + 1) t \<and> w + 1 \<le> MAX_WARNING_ALERTS) \<and>
     (e = TLSWantReadError \<or> e = TLSEOFError \<longrightarrow> counters_are i l w t)"

lemma quiet_accounted: "quiet e \<Longrightarrow> accounted i l w ty n e t"
  by (auto simp: quiet_def accounted_def)

lemma hoare_alert_counters:
  "hoare (counters_are i l w) (alert_if cr b d) (\<lambda>_ t. counters_are i l w t \<and> \<not> b) (\<lambda>e t. accounted i' l' w' ty n e t)"
  by (rule hoare_conseq [OF counters.hoare_alert_if]) (auto intro: quiet_accounted)

lemma skip_accounted:
  "hoare (counters_are i l w) (skip_early_data cr n) (\<lambda>_. accounted i l w ty n SkipDataException) (accounted i l w ty n)"
proof -
  have "hoare (counters_are i l w) (modify (\<lambda>s. s\<lparr>cn_early_data_ignored := cn_early_data_ignored s + int n\<rparr>))
      (\<lambda>_. counters_are (i + int n) l w) (accounted i l w ty n)"
    by (intro hoareI) (auto simp: counters_are_def action_simps)
  moreover have "hoare (counters_are (i + int n) l w) (bnd get_state (\<lambda>s.
      alert_if cr (cn_early_data_ignored s > int (cn_recv_record_limit s)) AD_UNEXPECTED_MESSAGE))
      (\<lambda>_. accounted i l w ty n SkipDataException) (accounted i l w ty n)"
    by (rule hoare_get_state, rule hoare_conseq [OF hoare_alert_counters])
      (auto simp: counters_are_def accounted_def)
  ultimately show ?thesis unfolding skip_early_data_def by (rule hoare_thn)
qed

lemma warning_accounted:
  "keeps (counters_are i l w) (accounted i l w ty n)
     ((thn (modify (\<lambda>s. s\<lparr>cn_warning_alert_received := cn_warning_alert_received s + 1\<rparr>))
     (bnd get_state (\<lambda>s. thn (alert_if cr (cn_warning_alert_received s > MAX_WARNING_ALERTS) d)
     (raise SkipDataException)))) :: ('a, unit) conn_action)"
proof -
  have m: "hoare (counters_are i l w) (modify (\<lambda>s. s\<lparr>cn_warning_alert_received := cn_warning_alert_received s + 1\<rparr>))
      (\<lambda>_. counters_are i l (w + 1)) (accounted i l w ty n)"
    by (intro hoareI) (auto simp: counters_are_def action_simps)
  have "hoare (counters_are i l (w + 1)) (alert_if cr (w + 1 > MAX_WARNING_ALERTS) d)
      (\<lambda>_ t. counters_are i l (w + 1) t \<and> w + 1 \<le> MAX_WARNING_ALERTS) (accounted i l w ty n)"
    by (rule hoare_conseq [OF hoare_alert_counters]) auto
  moreover have "hoare (\<lambda>t. counters_are i l (w + 1) t \<and> w + 1 \<le> MAX_WARNING_ALERTS) (raise SkipDataException :: ('a, unit) conn_action)
      (\<lambda>_. counters_are i l w) (accounted i l w ty n)"
    by (intro hoareI) (auto simp: raise_def accounted_def)
  ultimately have "hoare (counters_are i l (w + 1)) (thn (alert_if cr (w + 1 > MAX_WARNING_ALERTS) d)
      (raise SkipDataException :: ('a, unit) conn_action)) (\<lambda>_. counters_are i l w) (accounted i l w ty n)"
    by (rule hoare_thn)
  then have "hoare (counters_are i l (w + 1)) (bnd get_state (\<lambda>s. thn (alert_if cr (cn_warning_alert_received s > MAX_WARNING_ALERTS) d)
      (raise SkipDataException :: ('a, unit) conn_action))) (\<lambda>_. counters_are i l w) (accounted i l w ty n)"
    by (intro hoare_get_state) (auto simp: counters_are_def elim!: hoare_conseq)
  with m show ?thesis unfolding keeps_def by (rule hoare_thn)
qed

interpretation alert: sealing_invariant "counters_are i l w" "accounted i l w ty n" for i l w ty n
  by unfold_locales (auto simp: quiet_accounted quiet_ordinary counters_are_def, simp add: accounted_def)

lemma alert_accounted: "keeps (counters_are i l w) (accounted i l w ty n) (process_alert cr d)"
  unfolding process_alert_def Let_def
  by (intro warning_accounted keeps_rules alert.keeps_alert_if alert.keeps_send_alert)
    (auto simp: accounted_def counters_are_def)

interpretation pass: record_invariant "counters_are i l w" "accounted i l w ty n" ty n for i l w ty n
proof unfold_locales
  show "hoare (counters_are i l w) (skip_early_data cr n) (\<lambda>_. accounted i l w ty n SkipDataException) (accounted i l w ty n)" for cr
    by (rule skip_accounted)
  show "keeps (counters_are i l w) (accounted i l w ty n) (process_alert cr d)" for cr d
    by (rule alert_accounted)
qed (auto simp: accounted_def counters_are_def)

subsection \<open>The input a record takes\<close>

definition waiting :: "'a TLSConnection_scheme \<Rightarrow> nat" where
  "waiting s = length (cn_inbio s) + (case cn_header s of None \<Rightarrow> 0 | Some h \<Rightarrow> length h)"

text \<open>The type of the record at the front of the input.\<close>

definition front_type :: "'a TLSConnection_scheme \<Rightarrow> int" where
  "front_type s = bytes_to_int (take 1 (case cn_header s of None \<Rightarrow> cn_inbio s | Some h \<Rightarrow> h))"

lemma alert_if_Inr: "alert_if cr b d s = (Inr x, t) \<Longrightarrow> \<not> b \<and> t = s"
  using hoareD(1) [OF hoare_alert_counters counters_self, of cr b d s x t] by (cases b) (auto simp: alert_if_def ret_def)

lemma take_header_waiting:
  "take_header s = (Inr h, u) \<Longrightarrow> waiting u = waiting s \<and> cn_header u = Some h \<and> bytes_to_int (take 1 h) = front_type s \<and>
     (counters_are i l w u \<longleftrightarrow> counters_are i l w s)"
  by (auto simp: take_header_def action_simps waiting_def front_type_def HEADER_LENGTH_def counters_are_def
      split: option.splits if_splits)

lemma take_record_Inr:
  assumes "take_record cr s = (Inr (ty, rv, h, c), u)"
  shows "waiting s = waiting u + HEADER_LENGTH + length c" "ty = front_type s" "cn_header u = None"
    "counters_are i l w u \<longleftrightarrow> counters_are i l w s"
proof -
  from assms obtain v where v: "take_header s = (Inr h, v)" "length h = HEADER_LENGTH" "bytes_to_int (take 1 h) = ty"
    "length c \<le> length (cn_inbio v)" "u = v\<lparr>cn_inbio := drop (length c) (cn_inbio v), cn_header := None\<rparr>"
    unfolding take_record_def Let_def
    by (auto elim!: bnd_InrE thn_InrE dest!: alert_if_Inr simp: ret_def unpack_header_def raise_if_apply split: prod.splits if_splits)
  note h = take_header_waiting [OF v(1)]
  then have same: "waiting v = waiting s" "cn_header v = Some h" by blast+
  have "waiting s = length (cn_inbio v) + HEADER_LENGTH" unfolding same(1) [symmetric] using same(2) v(2) by (simp add: waiting_def)
  then show "waiting s = waiting u + HEADER_LENGTH + length c" using v(4,5) by (simp add: waiting_def)
  from h v(3) show "ty = front_type s" by simp
  from v(5) show "cn_header u = None" by simp
  from h [of i l w] v(5) show "counters_are i l w u \<longleftrightarrow> counters_are i l w s" by (simp add: counters_are_def)
qed

lemma take_record_Inl: "keeps (counters_are i l w) (\<lambda>e. accounted i l w ty n e) (take_record cr)"
proof -
  have "keeps (counters_are i l w) (accounted i l w ty n) take_header"
    unfolding take_header_def by (intro keeps_rules) (auto simp: accounted_def counters_are_def)
  then show ?thesis unfolding take_record_def Let_def
    by (intro keeps_rules alert.keeps_alert_if) (auto simp: accounted_def counters_are_def)
qed

lemma take_record_not_skip: "take_record cr s = (Inl e, u) \<Longrightarrow> e \<noteq> SkipDataException"
  using hoareD(2) [OF take_record_bytes refl] by blast

text \<open>A record that is passed over, and one that is not.\<close>

lemma open_skip:
  assumes "open_record_internal cr rnd s = (Inl SkipDataException, u)" and "counters_are i l w s"
  obtains n where "waiting s = waiting u + HEADER_LENGTH + n" "accounted i l w (front_type s) n SkipDataException u"
proof -
  from assms(1) obtain ty rv h c v where t: "take_record cr s = (Inr (ty, rv, h, c), v)"
    and p: "process_record cr rnd ty rv h c v = (Inl SkipDataException, u)"
    by (auto simp: open_record_internal_def bnd_apply thn_apply raise_if_apply split: if_splits sum.splits prod.splits
        dest!: take_record_not_skip)
  note t' = take_record_Inr [OF t]
  have "input_is (cn_inbio v) (cn_header v) u"
    using keepsD(2) [OF rest.keeps_process_record _ p] by (auto simp: input_is_def input_exit_def)
  then have "waiting u = waiting v" by (simp add: input_is_def waiting_def)
  moreover have "accounted i l w ty (length c) SkipDataException u"
    using keepsD(2) [OF pass.keeps_process_record _ p] t'(4) assms(2) by blast
  ultimately show thesis using t'(1,2) by (intro that [of "length c"]) simp_all
qed

lemma open_other:
  assumes "open_record_internal cr rnd s = (r, t)" and "counters_are i l w s"
    and "r \<in> range Inr \<union> {Inl TLSWantReadError, Inl TLSEOFError}"
  shows "counters_are i l w t"
proof -
  let ?X = "\<lambda>e t. e = TLSWantReadError \<or> e = TLSEOFError \<longrightarrow> counters_are i l w t"
  have "keeps (counters_are i l w) ?X (process_record cr rnd ty rv h c)" for ty rv h c
    by (rule keeps_conseq [OF pass.keeps_process_record]) (auto simp: accounted_def)
  moreover have "keeps (counters_are i l w) ?X (take_record cr)"
    by (rule keeps_conseq [OF take_record_Inl]) (auto simp: accounted_def)
  ultimately have "keeps (counters_are i l w) ?X (open_record_internal cr rnd)"
    unfolding open_record_internal_def by (intro keeps_rules) auto
  from keepsD [OF this assms(2)] assms(1,3) show ?thesis by auto
qed

subsection \<open>A run over records\<close>

text \<open>The records that are passed over from a state to another: their types and the lengths of their contents.\<close>

inductive passes ::
    "crypto \<Rightarrow> (nat \<Rightarrow> bytes) \<Rightarrow> 'a TLSConnection_scheme \<Rightarrow> (int \<times> nat) list \<Rightarrow> 'a TLSConnection_scheme \<Rightarrow> bool"
  for cr rnd where
  stop: "passes cr rnd s [] s"
| pass: "open_record_internal cr rnd s = (Inl SkipDataException, u) \<Longrightarrow> passes cr rnd u rs t \<Longrightarrow>
    passes cr rnd s ((front_type s, waiting s - waiting u - HEADER_LENGTH) # rs) t"

lemma open_record_passes:
  "open_record fuel cr rnd s = (r, t) \<Longrightarrow> r \<noteq> Inl Diverges \<Longrightarrow>
   \<exists>rs u. passes cr rnd s rs u \<and> open_record_internal cr rnd u = (r, t)"
proof (induction fuel arbitrary: s)
  case (Suc fuel)
  obtain q u where o: "open_record_internal cr rnd s = (q, u)" by fastforce
  show ?case
  proof (cases "q = Inl SkipDataException")
    case True
    with Suc.prems o have "open_record fuel cr rnd u = (r, t)" by (simp add: catch_def)
    with Suc.IH Suc.prems(2) True o show ?thesis by (blast intro: passes.pass)
  next
    case False
    with Suc.prems(1) o have "q = r" "u = t" by (auto simp: catch_def raise_def split: sum.splits)
    with o show ?thesis by (blast intro: passes.stop)
  qed
qed (simp add: raise_def)

text \<open>
  The ledger of a run: every record that was passed over is in one of three groups, changes of the cipher, early data, whose lengths
  add up to \<open>e\<close>, and \<open>w\<close> warning alerts.
\<close>

definition ledger :: "(int \<times> nat) list \<Rightarrow> int \<Rightarrow> int \<Rightarrow> bool" where
  "ledger rs e w \<longleftrightarrow> (\<exists>css early warn. mset rs = mset css + mset early + mset warn \<and>
     (\<forall>x \<in> set css. fst x = ct CT_CHANGE_CIPHER_SPEC) \<and> int (sum_list (map snd early)) = e \<and> int (length warn) = w)"

lemma ledger_Nil: "ledger [] 0 0"
  by (auto simp: ledger_def)

lemma ledger_Cons:
  "ledger rs e w \<Longrightarrow> ty = ct CT_CHANGE_CIPHER_SPEC \<Longrightarrow> ledger ((ty, n) # rs) e w"
  "ledger rs e w \<Longrightarrow> ledger ((ty, n) # rs) (e + int n) w"
  "ledger rs e w \<Longrightarrow> ledger ((ty, n) # rs) e (w + 1)"
proof -
  assume "ledger rs e w"
  then obtain css early warn where l: "mset rs = mset css + mset early + mset warn"
    "\<forall>x \<in> set css. fst x = ct CT_CHANGE_CIPHER_SPEC" "int (sum_list (map snd early)) = e" "int (length warn) = w"
    by (auto simp: ledger_def)
  show "ty = ct CT_CHANGE_CIPHER_SPEC \<Longrightarrow> ledger ((ty, n) # rs) e w" unfolding ledger_def
    by (intro exI [of _ "(ty, n) # css"] exI [of _ early] exI [of _ warn]) (use l in auto)
  show "ledger ((ty, n) # rs) (e + int n) w" unfolding ledger_def
    by (intro exI [of _ css] exI [of _ "(ty, n) # early"] exI [of _ warn]) (use l in auto)
  show "ledger ((ty, n) # rs) e (w + 1)" unfolding ledger_def
    by (intro exI [of _ css] exI [of _ early] exI [of _ "(ty, n) # warn"]) (use l in auto)
qed

definition within_budget :: "'a TLSConnection_scheme \<Rightarrow> bool" where
  "within_budget s \<longleftrightarrow> cn_early_data_ignored s \<le> int (cn_recv_record_limit s) \<and>
     cn_warning_alert_received s \<le> MAX_WARNING_ALERTS"

lemma passes_ledger:
  "passes cr rnd s rs t \<Longrightarrow> within_budget s \<Longrightarrow> within_budget t \<and>
     ledger rs (cn_early_data_ignored t - cn_early_data_ignored s) (cn_warning_alert_received t - cn_warning_alert_received s)"
proof (induction rule: passes.induct)
  case (pass s u rs t)
  obtain n where n: "waiting s = waiting u + HEADER_LENGTH + n"
    and a: "accounted (cn_early_data_ignored s) (cn_recv_record_limit s) (cn_warning_alert_received s) (front_type s) n SkipDataException u"
    using open_skip [OF pass.hyps(1) counters_self] by blast
  have len: "waiting s - waiting u - HEADER_LENGTH = n" using n by simp
  have u: "within_budget u" using a pass.prems by (auto simp: accounted_def counters_are_def within_budget_def)
  note t = pass.IH [OF u]
  let ?e = "cn_early_data_ignored t - cn_early_data_ignored u" and ?w = "cn_warning_alert_received t - cn_warning_alert_received u"
  from t have "ledger rs ?e ?w" by simp
  from ledger_Cons [OF this, of "front_type s" n] a
  have "ledger ((front_type s, n) # rs) (cn_early_data_ignored t - cn_early_data_ignored s)
      (cn_warning_alert_received t - cn_warning_alert_received s)"
    by (auto simp: accounted_def counters_are_def algebra_simps)
  with t len show ?case by simp
qed (simp add: ledger_Nil)

text \<open>
  C20: The peer cannot make the connection ignore more than it may.  Take a connection within its budgets, as a new one is and as every
  such call that sends no alert leaves it.  The records that one call of the connection's opening passes over are, in the order of
  the input, a run \<open>rs\<close> of types and lengths, which are measured by the input that is consumed.
  Every one of them is a change of the cipher, or its whole length is added to the bytes of early data that were ignored, or it
  is counted as a warning alert, and nothing is ever taken off the counters; so, as long as no alert is sent, the early data stays within the limit of one
  record and the warnings within five, over all calls together.  Changes of the cipher in TLS 1.3 have no limit of their own.
\<close>

theorem ignored_input_bounded:
  assumes "within_budget s" and "conn_open_record cr rnd s = (r, t)"
    and "r \<in> range Inr \<union> {Inl TLSWantReadError, Inl TLSEOFError}"
  shows "(\<exists>rs u. passes cr rnd s rs u \<and> open_record_internal cr rnd u = (r, t) \<and>
       ledger rs (cn_early_data_ignored t - cn_early_data_ignored s) (cn_warning_alert_received t - cn_warning_alert_received s)) \<and>
     cn_early_data_ignored t \<le> int (cn_recv_record_limit t) \<and> cn_warning_alert_received t \<le> 5"
proof -
  have "r \<noteq> Inl Diverges" using assms(3) by auto
  with assms(2) obtain rs u where p: "passes cr rnd s rs u" and o: "open_record_internal cr rnd u = (r, t)"
    unfolding conn_open_record_def using open_record_passes by blast
  from open_other [OF o counters_self assms(3)] passes_ledger [OF p assms(1)] p o
  show ?thesis by (auto simp: counters_are_def within_budget_def MAX_WARNING_ALERTS_def)
qed

subsection \<open>The counters over all calls\<close>

definition counted :: "int \<Rightarrow> int \<Rightarrow> 'a TLSConnection_scheme \<Rightarrow> bool" where
  "counted i w s \<longleftrightarrow> i \<le> cn_early_data_ignored s \<and> w \<le> cn_warning_alert_received s"

interpretation count: sealing_invariant "counted i w" "\<lambda>_. counted i w" for i w :: int
  by unfold_locales (auto simp: counted_def)

lemma count_skip: "keeps (counted i w) (\<lambda>_. counted i w) (skip_early_data cr n)"
  unfolding skip_early_data_def by (intro keeps_rules count.keeps_alert_if) (auto simp: counted_def)

lemma count_alert: "keeps (counted i w) (\<lambda>_. counted i w) (process_alert cr d)"
  unfolding process_alert_def Let_def
  by (intro keeps_rules count.keeps_alert_if count.keeps_send_alert) (auto simp: counted_def)

interpretation count: call_invariant "counted i w" for i w :: int
  by unfold_locales (auto simp: count_skip count_alert, auto simp: counted_def)

subsection \<open>An instance\<close>

text \<open>A connection that skips early data: a record of it with two bytes, then the beginning of another record.\<close>

definition sample_skipping :: TLSConnection where
  "sample_skipping = (TLSConnection_init ((sample_handshake False)\<lparr>hs_skip_early_data := True\<rparr>))
     \<lparr>cn_inbio := [23, 3, 1, 0, 2, 9, 9, 23, 3]\<rparr>"

definition sample_skipped :: TLSConnection where
  "sample_skipped = sample_skipping\<lparr>cn_inbio := [23, 3], cn_early_data_ignored := 2\<rparr>"

lemma sample_numbers:
  "bytes_to_int [23] = 23" "bytes_to_int [3, 1] = 769" "bytes_to_int [0, 2] = 2"
  by code_simp+

lemmas sample_opens = sample_numbers open_record_internal_def take_record_def take_header_def unpack_header_def HEADER_LENGTH_def
  process_record_def skip_early_data_def alert_if_def is_tls13_def has_final_version_def conn_record_version_def Let_def action_simps

lemma sample_skips: "open_record_internal cr rnd sample_skipping = (Inl SkipDataException, sample_skipped)"
  by (simp add: sample_skipping_def sample_skipped_def sample_connection_defs sample_opens)

lemma sample_waits: "open_record_internal cr rnd sample_skipped = (Inl TLSWantReadError, sample_skipped)"
  by (simp add: sample_skipping_def sample_skipped_def sample_connection_defs sample_opens)

theorem ignored_input_bounded_witness:
  "conn_open_record sample_crypto (\<lambda>n. replicate n 0) sample_skipping = (Inl TLSWantReadError, sample_skipped) \<and>
   (\<exists>rs u. passes sample_crypto (\<lambda>n. replicate n 0) sample_skipping rs u \<and> ledger rs 2 0) \<and>
   cn_early_data_ignored sample_skipped = 2"
proof -
  have o: "conn_open_record sample_crypto (\<lambda>n. replicate n 0) sample_skipping = (Inl TLSWantReadError, sample_skipped)"
    by (simp add: conn_open_record_def sample_skipping_def catch_def raise_def
        sample_skips [unfolded sample_skipping_def] sample_waits)
  have "within_budget sample_skipping"
    by (simp add: within_budget_def sample_skipping_def sample_connection_defs MAX_WARNING_ALERTS_def)
  from ignored_input_bounded [OF this o] o show ?thesis
    by (auto simp: sample_skipping_def sample_skipped_def sample_connection_defs)
qed

end
