(* ===== verification/Seal_Laws.thy ===== *)
theory Seal_Laws
  imports Traffic_Laws
begin

text \<open>
  What the connection encrypts under one key of an AEAD (\<open>tls/connection.py\<close> and \<open>tls/cipher.py\<close>): from the moment a
  write key is set up, every record that the connection seals is encrypted under the nonce of its sequence number, and the sequence
  number moves on, so that no two of the records share a nonce.
\<close>

subsection \<open>The cipher of an AEAD suite\<close>

definition aead_writer :: "tls_cipher \<Rightarrow> ConnectionState \<Rightarrow> bool" where
  "aead_writer c st \<longleftrightarrow> cst_cipher st = Some c \<and> c_seal c = Some Encrypt_aead \<and> \<not> cst_record_splitting st"

lemma new_aead_writer:
  assumes "new_state cr rnd DIR_WRITE epoch (Some tr) = Inr st" and "aead (tr_cipher_suite tr)"
  obtains c where "aead_writer c st" and "cst_sequence_number st = 0"
proof -
  from assms obtain k iv mk c where
    "init_aead DIR_WRITE (tr_version tr) (tr_cipher_suite tr) k iv mk (tr_encrypt_then_mac tr) = Inr c"
    and st: "st = (ConnectionState_init epoch (Some c))\<lparr>cst_record_splitting := tr_version tr < ver V_TLSv1_1 \<and> is_block_cipher c,
      cst_hide_content_type := tr_version tr \<ge> ver V_TLSv1_3\<rparr>"
    by (auto simp: new_state_def TLSCipher_init_def rbind_Inr_iff)
  then have "c_seal c = Some Encrypt_aead" "c_block_size c = 1"
    by (auto simp: init_aead_def blank_cipher_def Let_def rbind_Inr_iff split: if_splits)
  then show thesis
    by (intro that [of c]) (simp_all add: st aead_writer_def ConnectionState_init_def is_block_cipher_def)
qed

subsection \<open>One record\<close>

text \<open>
  The record \<open>w\<close> with the sequence number \<open>q\<close>: a header, the explicit part of the nonce where the suite has one, and what the AEAD
  makes of a plaintext under the nonce.
\<close>

definition sealed_under :: "crypto \<Rightarrow> tls_cipher \<Rightarrow> int \<Rightarrow> bytes \<Rightarrow> bytes \<Rightarrow> bool" where
  "sealed_under cr c q nonce w \<longleftrightarrow> 0 \<le> q \<and> q < 2 ^ 64 \<and> seal_nonce c (be_bytes 8 q) = Inr nonce \<and>
     (\<exists>alg key header plaintext aad. c_cipher c = Aead_cipher alg key \<and> length header = 5 \<and>
        w = header @ (if variable_nonce_included_in_record c then be_bytes 8 q else []) @ aead_encrypt cr alg key nonce plaintext aad)"

lemma seal_aead_cases:
  assumes "TLSCipher_seal cr ty rv p q hdr \<lparr>tc = c, out = b\<rparr> = (r, u)" and "c_seal c = Some Encrypt_aead"
  shows "tc u = c \<and> (\<forall>n. r = Inr n \<longrightarrow> 0 \<le> q \<and> q < 2 ^ 64 \<and> (\<exists>nonce alg key aad. seal_nonce c (be_bytes 8 q) = Inr nonce \<and>
    c_cipher c = Aead_cipher alg key \<and>
    take n (out u) = (if variable_nonce_included_in_record c then be_bytes 8 q else []) @ aead_encrypt cr alg key nonce p aad \<and>
    n \<le> length (out u)))"
  using assms unfolding TLSCipher_seal_def encrypt_aead_def
  by (cases "c_cipher c") (auto simp: action_simps put_at_def pack_Inr_iff Let_def split: if_splits sum.splits prod.splits)

lemma get_header_length: "get_header ty rv n = Inr h \<Longrightarrow> length h = 5"
  by (auto simp: get_header_def rcat_Inr_iff pack_Inr_iff)

lemma write_buf_atE:
  assumes "write_buf_at i d s = (r, t)"
  shows "cn_write_state t = cn_write_state s"
    and "r = Inr () \<Longrightarrow> i + length d \<le> length (cn_write_buf s) \<and>
      cn_write_buf t = take i (cn_write_buf s) @ d @ drop (i + length d) (cn_write_buf s)"
  using assms by (auto simp: write_buf_at_def action_simps split: if_splits)

lemma hide_content_type_state: "hide_content_type ty p s = (r, t) \<Longrightarrow> cn_write_state t = cn_write_state s"
  by (auto simp: hide_content_type_def action_simps Let_def split: if_splits)

lemma seal_internal_aead:
  assumes "aead_writer c (cn_write_state s)" and "seal_record_internal cr ty p 0 s = (r, t)"
  shows "(cn_write_state t = cn_write_state s \<or>
      cn_write_state t = (cn_write_state s)\<lparr>cst_sequence_number := cst_sequence_number (cn_write_state s) + 1\<rparr>) \<and>
    (\<forall>n. r = Inr n \<longrightarrow> cst_sequence_number (cn_write_state t) = cst_sequence_number (cn_write_state s) + 1 \<and>
      (\<exists>nonce. sealed_under cr c (cst_sequence_number (cn_write_state s)) nonce (take n (cn_write_buf t))))"
proof -
  have c: "cst_cipher (cn_write_state s) = Some c" "c_seal c = Some Encrypt_aead" using assms(1) by (simp_all add: aead_writer_def)
  define inside where "inside = (if cst_hide_content_type (cn_write_state s)
      then bnd (hide_content_type ty p) (\<lambda>p. ret (ct CT_APPLICATION_DATA, p)) else ret (ty, p) :: ('a TLSConnection_scheme, int \<times> bytes) action)"
  obtain q u where I: "inside s = (q, u)" by fastforce
  then have u: "cn_write_state u = cn_write_state s"
    by (auto simp: inside_def action_simps split: if_splits prod.splits sum.splits dest: hide_content_type_state)
  show ?thesis
  proof (cases "length p > cn_send_record_limit s \<or> isl q")
    case True
    with assms(2) I u show ?thesis
      by (cases q) (auto simp: seal_record_internal_def Let_def action_simps inside_def [symmetric] split: if_splits)
  next
    case False
    then obtain ty' p' where q: "q = Inr (ty', p')" and len: "\<not> length p > cn_send_record_limit s" by (cases q) auto
    let ?hdr = "get_header ty' (conn_record_version s) (int (ciphertext_length cr c (length p')))"
    show ?thesis
    proof (cases ?hdr)
      case (Inl e)
      with assms(2) I u q len c(1) show ?thesis
        by (auto simp: seal_record_internal_def Let_def action_simps inside_def [symmetric])
    next
      case (Inr hdr)
      obtain r' v where S: "TLSCipher_seal cr ty' (conn_record_version s) p' (cst_sequence_number (cn_write_state s)) hdr
          \<lparr>tc = c, out = drop 5 (cn_write_buf u)\<rparr> = (r', v)" by fastforce
      from seal_aead_cases [OF S c(2)] have v: "tc v = c" by blast
      let ?u = "u\<lparr>cn_write_buf := take 5 (cn_write_buf u) @ out v\<rparr>"
      have W: "cipher_seal cr c (0 + 5) ty' (conn_record_version s) p' (cst_sequence_number (cn_write_state s)) hdr u = (r', ?u)"
        using S v c(1) u by (auto simp: cipher_seal_def)
      have old: "length (out v) = length (drop 5 (cn_write_buf u))"
        using seal_keeps [of cr ty' "conn_record_version s" p' _ hdr] S unfolding keeps_len_def by (metis seal_state.select_convs(2) snd_conv)
      show ?thesis
      proof (cases "\<exists>n. r' = Inr n \<and> n = ciphertext_length cr c (length p')")
        case False
        with assms(2) I u q len c(1) Inr W show ?thesis
          by (cases r') (auto simp: seal_record_internal_def Let_def action_simps inside_def [symmetric] HEADER_LENGTH_def)
      next
        case True
        then obtain n where n: "r' = Inr n" "n = ciphertext_length cr c (length p')" by blast
        let ?w = "?u\<lparr>cn_write_state := (cn_write_state ?u)\<lparr>cst_sequence_number := cst_sequence_number (cn_write_state s) + 1\<rparr>\<rparr>"
        obtain z x where X: "write_buf_at 0 hdr ?w = (z, x)" by fastforce
        have t: "t = x" and r: "r = (case z of Inl e \<Rightarrow> Inl e | Inr _ \<Rightarrow> Inr (5 + n))"
          using assms(2) I u q len c(1) Inr W n X
          by (auto simp: seal_record_internal_def Let_def action_simps inside_def [symmetric] HEADER_LENGTH_def split: sum.splits)
        have "take (5 + n) (cn_write_buf x) = hdr @ take n (out v)" if "z = Inr ()"
          using write_buf_atE(2) [OF X that] get_header_length [OF Inr] old by (cases "length (cn_write_buf u) < 5") auto
        then show ?thesis
          using write_buf_atE(1) [OF X] u t r seal_aead_cases [OF S c(2)] n get_header_length [OF Inr]
          by (auto simp: sealed_under_def split: sum.splits)
      qed
    qed
  qed
qed

lemma seal_record_aead:
  assumes "aead_writer c (cn_write_state s)" and "seal_record cr ty p s = (r, t)"
  shows "aead_writer c (cn_write_state t)" and "cst_sequence_number (cn_write_state s) \<le> cst_sequence_number (cn_write_state t)"
    and "r = Inr w \<Longrightarrow> cst_sequence_number (cn_write_state s) < cst_sequence_number (cn_write_state t) \<and>
      (\<exists>nonce. sealed_under cr c (cst_sequence_number (cn_write_state s)) nonce w)"
proof -
  obtain q u where I: "seal_record_internal cr ty p 0 s = (q, u)" by fastforce
  have "\<not> cst_record_splitting (cn_write_state s)" using assms(1) by (simp add: aead_writer_def)
  with assms(2) I have "t = u" and r: "r = (case q of Inl e \<Rightarrow> Inl e | Inr n \<Rightarrow> Inr (take n (cn_write_buf u)))"
    by (auto simp: seal_record_def action_simps split: sum.splits)
  with seal_internal_aead [OF assms(1) I] assms(1)
  show "aead_writer c (cn_write_state t)" "cst_sequence_number (cn_write_state s) \<le> cst_sequence_number (cn_write_state t)"
    "r = Inr w \<Longrightarrow> cst_sequence_number (cn_write_state s) < cst_sequence_number (cn_write_state t) \<and>
      (\<exists>nonce. sealed_under cr c (cst_sequence_number (cn_write_state s)) nonce w)"
    by (auto simp: aead_writer_def split: sum.splits)
qed

subsection \<open>All records of a key\<close>

text \<open>
  A history of a connection between two changes of its write key: it seals records, of any type and content, some of which fail, and
  in between does anything that leaves the write state alone.  The list holds the records that were sealed, in their order.
\<close>

inductive sealing :: "crypto \<Rightarrow> 'a TLSConnection_scheme \<Rightarrow> bytes list \<Rightarrow> 'a TLSConnection_scheme \<Rightarrow> bool" for cr s where
  starts: "sealing cr s [] s"
| seals: "sealing cr s ws t \<Longrightarrow> seal_record cr ty p t = (Inr w, u) \<Longrightarrow> sealing cr s (ws @ [w]) u"
| fails: "sealing cr s ws t \<Longrightarrow> seal_record cr ty p t = (Inl e, u) \<Longrightarrow> sealing cr s ws u"
| other: "sealing cr s ws t \<Longrightarrow> cn_write_state u = cn_write_state t \<Longrightarrow> sealing cr s ws u"

lemma sealing_sequence:
  assumes "sealing cr s ws t" and "aead_writer c (cn_write_state s)"
  shows "aead_writer c (cn_write_state t) \<and> (\<exists>qs nonces. length qs = length ws \<and> length nonces = length ws \<and> sorted_wrt (<) qs \<and>
    (\<forall>q\<in>set qs. q < cst_sequence_number (cn_write_state t)) \<and>
    (\<forall>i<length ws. sealed_under cr c (qs ! i) (nonces ! i) (ws ! i)))"
  using assms(1)
proof induction
  case starts
  then show ?case using assms(2) by simp
next
  case (seals ws t ty p w u)
  then obtain qs nonces where h: "length qs = length ws" "length nonces = length ws" "sorted_wrt (<) qs"
    "\<forall>q\<in>set qs. q < cst_sequence_number (cn_write_state t)" "\<forall>i<length ws. sealed_under cr c (qs ! i) (nonces ! i) (ws ! i)"
    by blast
  have writer: "aead_writer c (cn_write_state t)" using seals.IH by blast
  note one = seal_record_aead [OF writer seals.hyps(2)]
  then obtain nonce where "sealed_under cr c (cst_sequence_number (cn_write_state t)) nonce w" by blast
  with h one show ?case
    by (intro conjI exI [of _ "qs @ [cst_sequence_number (cn_write_state t)]"] exI [of _ "nonces @ [nonce]"])
      (auto simp: sorted_wrt_append nth_append less_Suc_eq)
next
  case (fails ws t ty p e u)
  then have writer: "aead_writer c (cn_write_state t)" by blast
  note one = seal_record_aead(1,2) [OF writer fails.hyps(2)]
  with fails.IH show ?case by (metis order_less_le_trans)
qed simp

lemma sealed_under_inj:
  assumes "sealed_under cr c q nonce w" and "sealed_under cr c q' nonce w'"
  shows "q = q'"
  using assms aead_nonce_inj by (auto simp: sealed_under_def pack_def)

lemma distinct_nonces:
  assumes "sorted_wrt (<) qs" and "length nonces = length qs" and "length ws = length qs"
    and "\<forall>i<length ws. sealed_under cr c (qs ! i) (nonces ! i) (ws ! i)"
  shows "distinct nonces"
  unfolding distinct_conv_nth
proof (intro allI impI)
  fix i j assume i: "i < length nonces" "j < length nonces" "i \<noteq> j"
  have "distinct qs" using assms(1) by (simp add: strict_sorted_iff)
  then have "qs ! i \<noteq> qs ! j" using assms(2) i by (simp add: nth_eq_iff_index_eq)
  then show "nonces ! i \<noteq> nonces ! j" using assms(2-4) i sealed_under_inj by metis
qed

text \<open>
  C35: No nonce is used twice under a key of an AEAD.  When the connection sets up the keys to write with a suite of an AEAD, every
  record that it seals from then on until it changes the keys, whatever it seals, whatever else it does in between and whichever attempts to seal fail,
  is a header followed by the explicit part of the nonce, where the suite has one, and by an encryption with the AEAD under the nonce of a
  sequence number; the sequence numbers are natural numbers below \<open>2\<^sup>6\<^sup>4\<close> that grow from record to record, and the nonces are all different.
\<close>

theorem aead_nonce_unique:
  assumes "new_state cr rnd DIR_WRITE epoch (Some tr) = Inr (cn_write_state s)" and "aead (tr_cipher_suite tr)"
    and "sealing cr s ws t"
  shows "\<exists>c qs nonces. cst_cipher (cn_write_state s) = Some c \<and> length qs = length ws \<and> length nonces = length ws \<and>
    (\<forall>i<length ws. sealed_under cr c (qs ! i) (nonces ! i) (ws ! i)) \<and>
    sorted_wrt (<) qs \<and> distinct nonces"
proof -
  obtain c where c: "aead_writer c (cn_write_state s)" using new_aead_writer [OF assms(1,2)] by blast
  from sealing_sequence [OF assms(3) c] obtain qs nonces where h: "length qs = length ws" "length nonces = length ws"
    "sorted_wrt (<) qs" "\<forall>i<length ws. sealed_under cr c (qs ! i) (nonces ! i) (ws ! i)" by blast
  moreover have "distinct nonces" using h by (intro distinct_nonces [of qs nonces ws cr c]) simp_all
  moreover have "cst_cipher (cn_write_state s) = Some c" using c by (simp add: aead_writer_def)
  ultimately show ?thesis by blast
qed

subsection \<open>An instance\<close>

text \<open>The keys of AES-GCM in TLS 1.2, with which a new connection seals two records.\<close>

definition sample_gcm :: TrafficContext where
  "sample_gcm = \<lparr>tr_version = 771, tr_cipher_suite = TLS_RSA_WITH_AES_128_GCM_SHA256, tr_client_random = [], tr_server_random = [],
     tr_secret = [], tr_enc_key = Some (replicate 16 1), tr_mac_key = Some [], tr_fixed_iv = Some (replicate 4 2),
     tr_encrypt_then_mac = False\<rparr>"

lemma sample_gcm_usable:
  "usable (tr_cipher_suite sample_gcm) (tr_version sample_gcm) (tr_encrypt_then_mac sample_gcm)"
  "traffic_keys cr sample_gcm = Inr (replicate 16 1, replicate 4 2, [])"
  "get_key_iv_lens (tr_cipher_suite sample_gcm) = Inr (16, 4)" "aead (tr_cipher_suite sample_gcm)"
  by (simp_all add: sample_gcm_def usable_def is_scsv_def ALL_CIPHER_SUITES_def cipher_suite_defs cipher_suite_eq_def
      traffic_keys_def get_key_iv_lens_def)

lemma sample_gcm_linked:
  "\<exists>ws rs. new_state sample_crypto (\<lambda>n. replicate n 0) DIR_WRITE e (Some sample_gcm) = Inr ws \<and>
    new_state sample_crypto (\<lambda>n. replicate n 0) DIR_READ e (Some sample_gcm) = Inr rs \<and> linked sample_crypto ws rs"
  by (rule new_state_linked [where k = "replicate 16 1" and iv = "replicate 4 2" and mk = "[]"]) (use sample_crypto_good in \<open>simp_all add: sample_gcm_usable\<close>)

lemma sample_seals_two:
  "\<exists>st w1 w2 t. new_state sample_crypto (\<lambda>n. replicate n 0) DIR_WRITE EPOCH_APPLICATION_DATA (Some sample_gcm) = Inr st \<and>
     sealing sample_crypto ((sample_connection False)\<lparr>cn_write_state := st\<rparr>) [w1, w2] t"
proof -
  obtain ws rs where st: "new_state sample_crypto (\<lambda>n. replicate n 0) DIR_WRITE EPOCH_APPLICATION_DATA (Some sample_gcm) = Inr ws"
    and linked: "linked sample_crypto ws rs" using sample_gcm_linked by blast
  let ?s = "(sample_connection False)\<lparr>cn_write_state := ws\<rparr>" and ?r = "(sample_connection True)\<lparr>cn_read_state := rs\<rparr>"
  have c: "connected sample_crypto ?s ?r"
    using linked sample_connected [of sample_crypto False True] by (simp add: connected_def sender_ok_def receiver_ok_def)
  have may: "may_carry r 22 [1]" for r :: TLSConnection by (simp add: may_carry_def)
  have "cst_sequence_number ws = 0" using new_aead_writer [OF st sample_gcm_usable(4)] by blast
  then have "cst_sequence_number (cn_write_state ?s) + 1 < 2 ^ 64" by simp
  from seal_record_transfer [OF c may this, of "\<lambda>n. replicate n 0"] obtain w1 s1 and r1 :: TLSConnection where one: "seal_record sample_crypto 22 [1] ?s = (Inr w1, s1)"
    "connected sample_crypto s1 r1" "cst_sequence_number (cn_write_state s1) \<le> 2"
    using \<open>cst_sequence_number ws = 0\<close> by (auto simp: sealed_as_def)
  then have "cst_sequence_number (cn_write_state s1) + 1 < 2 ^ 64" by simp
  from seal_record_transfer [OF one(2) may this, of "\<lambda>n. replicate n 0"] obtain w2 s2 where "seal_record sample_crypto 22 [1] s1 = (Inr w2, s2)"
    by (auto simp: sealed_as_def)
  with sealing.seals [OF sealing.seals [OF sealing.starts one(1)] this] st show ?thesis by auto
qed

theorem aead_nonce_unique_witness:
  "\<exists>st w1 w2 t c q1 q2 n1 n2.
     new_state sample_crypto (\<lambda>n. replicate n 0) DIR_WRITE EPOCH_APPLICATION_DATA (Some sample_gcm) = Inr st \<and>
     sealing sample_crypto ((sample_connection False)\<lparr>cn_write_state := st\<rparr>) [w1, w2] t \<and>
     sealed_under sample_crypto c q1 n1 w1 \<and> sealed_under sample_crypto c q2 n2 w2 \<and> n1 \<noteq> n2"
proof -
  obtain st w1 w2 t where st: "new_state sample_crypto (\<lambda>n. replicate n 0) DIR_WRITE EPOCH_APPLICATION_DATA (Some sample_gcm) = Inr st"
    and seals: "sealing sample_crypto ((sample_connection False)\<lparr>cn_write_state := st\<rparr>) [w1, w2] t"
    using sample_seals_two by blast
  from aead_nonce_unique [of _ "\<lambda>n. replicate n 0" EPOCH_APPLICATION_DATA, OF _ sample_gcm_usable(4) seals] st obtain c qs nonces where
    h: "length nonces = 2" "distinct nonces" "\<forall>i<2. sealed_under sample_crypto c (qs ! i) (nonces ! i) ([w1, w2] ! i)"
    by (auto simp: numeral_2_eq_2)
  then have "nonces ! 0 \<noteq> nonces ! 1" by (simp add: nth_eq_iff_index_eq)
  moreover have "sealed_under sample_crypto c (qs ! 0) (nonces ! 0) w1" "sealed_under sample_crypto c (qs ! 1) (nonces ! 1) w2"
    using h(3) by (auto dest: spec [of _ 0] spec [of _ 1])
  ultimately show ?thesis using st seals by blast
qed

end
