(* ===== verification/Hpke_Laws.thy ===== *)
theory Hpke_Laws
  imports Hpke
begin

text \<open>
  Sender and receiver of HPKE agree: for every suite and every mode the two set-ups give the same context, and what
  the one seals the other opens, in order.  The hypothesis on the package is \<open>hpke_ok\<close>: Diffie-Hellman commutes and
  the encoding of a public key is read back.
\<close>

definition hpke_ok :: "hpke_lib \<Rightarrow> bool" where
  "hpke_ok l \<longleftrightarrow>
     (\<forall>c a b. \<exists>z. hl_ecdh l c a (hl_point l c b) = Inr z \<and> hl_ecdh l c b (hl_point l c a) = Inr z) \<and>
     (\<forall>c a. hl_decode l c (hl_point l c a) = Some (hl_point l c a)) \<and>
     (\<forall>a b. \<exists>z. hl_x25519 l a (hl_x25519_public l b) = Inr z \<and> hl_x25519 l b (hl_x25519_public l a) = Inr z) \<and>
     (\<forall>a. length (hl_x25519_public l a) = 32)"

text \<open>The key belongs to the key encapsulation mechanism.\<close>

definition kem_key :: "DHKEM \<Rightarrow> hpke_private \<Rightarrow> bool" where
  "kem_key kem sk = (case sk of
       EC_private c d \<Rightarrow> DHKEM_CURVE kem = Some c
     | X25519_private k \<Rightarrow> DHKEM_CURVE kem = None
     | X448_private k \<Rightarrow> False)"

lemma kem_key_generate: "kem_key kem (kem_generate l kem m)"
  by (cases kem) (simp_all add: kem_key_def kem_generate_def)

lemma dh_commutes:
  assumes "hpke_ok l" and "kem_key kem a" and "kem_key kem b"
  shows "\<exists>z. kem_dh l kem a (hpke_public_key l b) = Inr z \<and> kem_dh l kem b (hpke_public_key l a) = Inr z"
  using assms
  by (auto simp: hpke_ok_def kem_key_def kem_dh_def Weierstrass_dh_def X25519_dh_def split: hpke_private.splits)

lemma public_key_encoding:
  assumes "hpke_ok l" and "kem_key kem a"
  shows "\<exists>e. serialize_public_key kem (hpke_public_key l a) = Inr e \<and>
     deserialize_public_key l kem e = Inr (hpke_public_key l a)"
  using assms
  by (auto simp: hpke_ok_def kem_key_def serialize_public_key_def deserialize_public_key_def split: hpke_private.splits)

lemma pack_small: "0 \<le> v \<Longrightarrow> v < 65536 \<Longrightarrow> pack v 2 = Inr (be_bytes 2 v)"
  by (simp add: pack_def)

lemma labeled_expand_ok:
  assumes "hkdf_ok cr" and "n \<le> 255 * hash_digest_size cr (HKDF_ALGORITHM kdf)" and "n < 65536"
  shows "\<exists>k. labeled_expand cr kdf prk label info n sid = Inr k \<and> length k = n"
proof -
  have "\<exists>okm. hkdf_expand_fn cr (HKDF_ALGORITHM kdf) prk i n = Some okm \<and> length okm = n" for i
    using assms(1,2) by (simp add: hkdf_ok_def)
  then show ?thesis using assms(3) by (simp add: labeled_expand_def pack_small hkdf_expand_def split: option.splits) (metis option.inject option.distinct(1))
qed

lemma digest_bounds: "mac_ok cr \<Longrightarrow> 0 < hash_digest_size cr a \<and> hash_digest_size cr a \<le> 64"
  by (simp add: mac_ok_def)

lemma extract_and_expand_ok:
  assumes "mac_ok cr" and "hkdf_ok cr"
  shows "\<exists>z. extract_and_expand cr kem dh ctx = Inr z"
proof -
  have "pack (DHKEM_ID kem) 2 = Inr (be_bytes 2 (DHKEM_ID kem))" by (cases kem) (simp_all add: pack_small)
  moreover have "\<exists>k. labeled_expand cr (DHKEM_KDF kem) prk label ctx
      (hash_digest_size cr (HKDF_ALGORITHM (DHKEM_KDF kem))) sid = Inr k" for prk label sid
    using labeled_expand_ok [OF assms(2), of "hash_digest_size cr (HKDF_ALGORITHM (DHKEM_KDF kem))" "DHKEM_KDF kem"]
      digest_bounds [OF assms(1), of "HKDF_ALGORITHM (DHKEM_KDF kem)"] by fastforce
  ultimately show ?thesis by (simp add: extract_and_expand_def Let_def)
qed

lemma encap_decap:
  assumes "mac_ok cr" and "hkdf_ok cr" and l: "hpke_ok l" and r: "kem_key kem sk_r"
  shows "\<exists>z enc. encap cr l kem m (hpke_public_key l sk_r) = Inr (z, enc) \<and> decap cr l kem enc sk_r = Inr z"
proof -
  let ?e = "kem_generate l kem m"
  obtain dh where dh: "kem_dh l kem ?e (hpke_public_key l sk_r) = Inr dh" "kem_dh l kem sk_r (hpke_public_key l ?e) = Inr dh"
    using dh_commutes [OF l kem_key_generate r] by blast
  obtain enc rm where k: "serialize_public_key kem (hpke_public_key l ?e) = Inr enc"
      "deserialize_public_key l kem enc = Inr (hpke_public_key l ?e)" "serialize_public_key kem (hpke_public_key l sk_r) = Inr rm"
    using public_key_encoding [OF l] kem_key_generate r by metis
  obtain z where "extract_and_expand cr kem dh (enc @ rm) = Inr z"
    using extract_and_expand_ok [OF assms(1,2)] by blast
  with dh k show ?thesis by (auto simp: encap_def decap_def Let_def)
qed

lemma auth_encap_decap:
  assumes "mac_ok cr" and "hkdf_ok cr" and l: "hpke_ok l" and r: "kem_key kem sk_r" and s: "kem_key kem sk_s"
  shows "\<exists>z enc. auth_encap cr l kem m (hpke_public_key l sk_r) sk_s = Inr (z, enc) \<and>
     auth_decap cr l kem enc sk_r (hpke_public_key l sk_s) = Inr z"
proof -
  let ?e = "kem_generate l kem m"
  obtain dh where dh: "kem_dh l kem ?e (hpke_public_key l sk_r) = Inr dh" "kem_dh l kem sk_r (hpke_public_key l ?e) = Inr dh"
    using dh_commutes [OF l kem_key_generate r] by blast
  obtain dh' where dh': "kem_dh l kem sk_s (hpke_public_key l sk_r) = Inr dh'" "kem_dh l kem sk_r (hpke_public_key l sk_s) = Inr dh'"
    using dh_commutes [OF l s r] by blast
  obtain enc rm sm where k: "serialize_public_key kem (hpke_public_key l ?e) = Inr enc"
      "deserialize_public_key l kem enc = Inr (hpke_public_key l ?e)" "serialize_public_key kem (hpke_public_key l sk_r) = Inr rm"
      "serialize_public_key kem (hpke_public_key l sk_s) = Inr sm"
    using public_key_encoding [OF l] kem_key_generate r s by metis
  obtain z where "extract_and_expand cr kem (dh @ dh') (enc @ rm @ sm) = Inr z"
    using extract_and_expand_ok [OF assms(1,2)] by blast
  with dh dh' k show ?thesis by (auto simp: auth_encap_def auth_decap_def Let_def)
qed

subsection \<open>The key schedule\<close>

definition context_ok :: "hpke_context \<Rightarrow> bool" where
  "context_ok c \<longleftrightarrow> (\<exists>spec. AEAD_CIPHERS (fst (hc_cipher c)) = Inr spec \<and> length (snd (hc_cipher c)) = key_length spec \<and>
       tag_length spec = AEAD_TAG_LENGTH) \<and> length (hc_base_nonce c) = 12 \<and> AEAD_NONCE_SIZE (hc_aead c) = 12 \<and> 0 \<le> hc_seq_num c"

lemma create_suite_aead: "create_suite a b c = Inr s \<Longrightarrow> su_aead s \<noteq> AEAD_ExportOnly"
  by (auto simp: create_suite_def HPKE_AEADS_def split: option.splits if_splits)

lemma suite_id_ok: "\<exists>i. hpke_suite_id s = Inr i"
  by (cases "su_kem s"; cases "su_kdf s"; cases "su_aead s") (simp_all add: hpke_suite_id_def rcat_def pack_small)

lemma key_schedule_ok:
  assumes "mac_ok cr" and "hkdf_ok cr" and "su_aead s \<noteq> AEAD_ExportOnly" and "verify_psk_inputs mode psk psk_id = Inr ()"
  shows "\<exists>c. hpke_key_schedule cr s mode z info psk psk_id = Inr c \<and> context_ok c \<and> hc_seq_num c = 0"
proof -
  obtain i where i: "hpke_suite_id s = Inr i" using suite_id_ok by blast
  have size: "AEAD_KEY_SIZE (su_aead s) \<le> 32" "AEAD_NONCE_SIZE (su_aead s) \<le> 12" by (cases "su_aead s"; simp)+
  note expand = labeled_expand_ok [OF assms(2), where kdf = "su_kdf s"]
  have d: "0 < hash_digest_size cr (HKDF_ALGORITHM (su_kdf s))" "hash_digest_size cr (HKDF_ALGORITHM (su_kdf s)) \<le> 64"
    using digest_bounds [OF assms(1)] by auto
  have "\<exists>k. labeled_expand cr (su_kdf s) prk label ctx n i = Inr k \<and> length k = n"
    if "n \<in> {AEAD_KEY_SIZE (su_aead s), AEAD_NONCE_SIZE (su_aead s), hash_digest_size cr (HKDF_ALGORITHM (su_kdf s))}"
    for prk label ctx n
    using that size d by (intro expand) auto
  then obtain k1 k2 k3 where
      "\<And>prk label ctx. labeled_expand cr (su_kdf s) prk label ctx (AEAD_KEY_SIZE (su_aead s)) i = Inr (k1 prk label ctx)"
      "\<And>prk label ctx. labeled_expand cr (su_kdf s) prk label ctx (AEAD_NONCE_SIZE (su_aead s)) i = Inr (k2 prk label ctx)"
      "\<And>prk label ctx. labeled_expand cr (su_kdf s) prk label ctx (hash_digest_size cr (HKDF_ALGORITHM (su_kdf s))) i =
         Inr (k3 prk label ctx)"
      "\<And>prk label ctx. length (k1 prk label ctx) = AEAD_KEY_SIZE (su_aead s)"
      "\<And>prk label ctx. length (k2 prk label ctx) = AEAD_NONCE_SIZE (su_aead s)"
    by (simp add: all_conj_distrib) metis
  with assms(3,4) i show ?thesis
    by (cases "su_aead s") (simp_all add: hpke_key_schedule_def Let_def context_ok_def AEAD_TAG_LENGTH_def)
qed

subsection \<open>Sealing and opening\<close>

lemma compute_nonce_ok:
  assumes "context_ok c" and "hc_seq_num c < 2 ^ 64"
  shows "\<exists>nonce. compute_nonce c = (Inr nonce, c\<lparr>hc_seq_num := hc_seq_num c + 1\<rparr>) \<and> length nonce = 12"
  using assms
  by (simp add: context_ok_def compute_nonce_def get_seq_num_bytes_def int_to_bytes_def strxor_def bnd_apply thn_apply
      raise_if_apply lift_result_apply ret_def)

lemma seal_open:
  assumes "aead_ok cr" and c: "context_ok c" "hc_seq_num c < 2 ^ 64"
  shows "\<exists>ct. hpke_seal cr pt aad c = (Inr ct, c\<lparr>hc_seq_num := hc_seq_num c + 1\<rparr>) \<and>
     hpke_open cr ct aad c = (Inr pt, c\<lparr>hc_seq_num := hc_seq_num c + 1\<rparr>) \<and> length ct = length pt + aead_overhead c"
proof -
  obtain n where "compute_nonce c = (Inr n, c\<lparr>hc_seq_num := hc_seq_num c + 1\<rparr>)" "length n = 12"
    using compute_nonce_ok [OF c] by blast
  moreover obtain spec where "AEAD_CIPHERS (fst (hc_cipher c)) = Inr spec" "length (snd (hc_cipher c)) = key_length spec" "tag_length spec = AEAD_TAG_LENGTH"
    using c(1) by (auto simp: context_ok_def)
  ultimately show ?thesis using assms(1)
    by (auto simp: aead_ok_def aead_overhead_def hpke_seal_def hpke_open_def bnd_apply ret_def split: prod.splits)
qed


text \<open>A method called on every element of a list, with the list of the results.\<close>

primrec each :: "('x \<Rightarrow> ('s, 'b) action) \<Rightarrow> 'x list \<Rightarrow> ('s, 'b list) action" where
  "each f [] = ret []"
| "each f (x # xs) = bnd (f x) (\<lambda>y. bnd (each f xs) (\<lambda>ys. ret (y # ys)))"

lemma seal_open_stream:
  assumes "aead_ok cr" and "context_ok c" and "hc_seq_num c + int (length ms) \<le> 2 ^ 64"
  shows "\<exists>cts c'. each (\<lambda>(pt, aad). hpke_seal cr pt aad) ms c = (Inr cts, c') \<and> length cts = length ms \<and>
     each (\<lambda>(ct, aad). hpke_open cr ct aad) (zip cts (map snd ms)) c = (Inr (map fst ms), c')"
  using assms(2,3)
proof (induction ms arbitrary: c)
  case (Cons m ms)
  let ?c = "c\<lparr>hc_seq_num := hc_seq_num c + 1\<rparr>"
  obtain pt aad where m: "m = (pt, aad)" by fastforce
  obtain ct where ct: "hpke_seal cr pt aad c = (Inr ct, ?c)" "hpke_open cr ct aad c = (Inr pt, ?c)"
    using seal_open [OF assms(1) Cons.prems(1)] Cons.prems(2) by fastforce
  have "context_ok ?c" "hc_seq_num ?c + int (length ms) \<le> 2 ^ 64"
    using Cons.prems by (auto simp: context_ok_def)
  from Cons.IH [OF this] ct m show ?case
    by (force simp: bnd_apply ret_def)
qed (simp add: ret_def)

subsection \<open>All modes\<close>

definition hpke_sender ::
    "crypto \<Rightarrow> hpke_lib \<Rightarrow> bytes \<Rightarrow> hpke_suite \<Rightarrow> hpke_mode \<Rightarrow> hpke_public \<Rightarrow> bytes \<Rightarrow> hpke_private \<Rightarrow> bytes \<Rightarrow> bytes \<Rightarrow>
     (bytes \<times> hpke_context) result" where
  "hpke_sender cr l m s mode pk_r info sk_s psk psk_id = (case mode of
       Mode_BASE \<Rightarrow> setup_send cr l m s pk_r info
     | Mode_PSK \<Rightarrow> setup_psk_send cr l m s pk_r info psk psk_id
     | Mode_AUTH \<Rightarrow> setup_auth_send cr l m s pk_r info sk_s
     | Mode_AUTH_PSK \<Rightarrow> setup_auth_psk_send cr l m s pk_r info sk_s psk psk_id)"

definition hpke_receiver ::
    "crypto \<Rightarrow> hpke_lib \<Rightarrow> hpke_suite \<Rightarrow> hpke_mode \<Rightarrow> bytes \<Rightarrow> hpke_private \<Rightarrow> bytes \<Rightarrow> hpke_public \<Rightarrow> bytes \<Rightarrow> bytes \<Rightarrow>
     hpke_context result" where
  "hpke_receiver cr l s mode enc sk_r info pk_s psk psk_id = (case mode of
       Mode_BASE \<Rightarrow> setup_recv cr l s enc sk_r info
     | Mode_PSK \<Rightarrow> setup_psk_recv cr l s enc sk_r info psk psk_id
     | Mode_AUTH \<Rightarrow> setup_auth_recv cr l s enc sk_r info pk_s
     | Mode_AUTH_PSK \<Rightarrow> setup_auth_psk_recv cr l s enc sk_r info pk_s psk psk_id)"

lemma setups_agree:
  assumes "mac_ok cr" "hkdf_ok cr" "hpke_ok l" and "su_aead s \<noteq> AEAD_ExportOnly"
    and k: "kem_key (su_kem s) sk_r" "kem_key (su_kem s) sk_s"
    and psk: "mode \<in> {Mode_PSK, Mode_AUTH_PSK} \<Longrightarrow> 32 \<le> length psk \<and> psk_id \<noteq> []"
  shows "\<exists>enc c. hpke_sender cr l m s mode (hpke_public_key l sk_r) info sk_s psk psk_id = Inr (enc, c) \<and>
     hpke_receiver cr l s mode enc sk_r info (hpke_public_key l sk_s) psk psk_id = Inr c \<and> context_ok c \<and> hc_seq_num c = 0"
proof -
  note schedule = key_schedule_ok [OF assms(1,2,4)]
  obtain z enc where b: "encap cr l (su_kem s) m (hpke_public_key l sk_r) = Inr (z, enc)" "decap cr l (su_kem s) enc sk_r = Inr z"
    using encap_decap [OF assms(1-3) k(1)] by blast
  obtain z' enc' where a: "auth_encap cr l (su_kem s) m (hpke_public_key l sk_r) sk_s = Inr (z', enc')"
      "auth_decap cr l (su_kem s) enc' sk_r (hpke_public_key l sk_s) = Inr z'"
    using auth_encap_decap [OF assms(1-3) k] by blast
  have v: "verify_psk_inputs Mode_BASE [] [] = Inr ()" "verify_psk_inputs Mode_AUTH [] [] = Inr ()"
    by (simp_all add: verify_psk_inputs_def)
  show ?thesis
  proof (cases mode)
    case Mode_BASE
    with b schedule [OF v(1), of z info] show ?thesis
      by (auto simp: hpke_sender_def hpke_receiver_def setup_send_def setup_recv_def)
  next
    case Mode_AUTH
    with a schedule [OF v(2), of z' info] show ?thesis
      by (auto simp: hpke_sender_def hpke_receiver_def setup_auth_send_def setup_auth_recv_def)
  next
    case Mode_PSK
    with psk have "verify_psk_inputs Mode_PSK psk psk_id = Inr ()" by (auto simp: verify_psk_inputs_def)
    from b Mode_PSK schedule [OF this, of z info] show ?thesis
      by (auto simp: hpke_sender_def hpke_receiver_def setup_psk_send_def setup_psk_recv_def)
  next
    case Mode_AUTH_PSK
    with psk have "verify_psk_inputs Mode_AUTH_PSK psk psk_id = Inr ()" by (auto simp: verify_psk_inputs_def)
    from a Mode_AUTH_PSK schedule [OF this, of z' info] show ?thesis
      by (auto simp: hpke_sender_def hpke_receiver_def setup_auth_psk_send_def setup_auth_psk_recv_def)
  qed
qed

text \<open>
  C11: HPKE works end to end.  For every suite that \<open>create_suite\<close> offers and in each of the four modes, a sender that knows
  the receiver's public key and a receiver with the private key (and the sender's public key, or a shared key of at least 32 bytes with
  a name that is not empty, where the mode has them) set up contexts, and then up to \<open>2 ^ 64\<close> messages that the sender seals, each
  with its own additional data, are opened by the receiver to the messages in their order.  The primitives are assumed to do what
  they document: an AEAD opens what it sealed, the two sides of a key exchange agree, the hashes have their lengths.
\<close>

theorem hpke_transfer:
  assumes "mac_ok cr" "hkdf_ok cr" "aead_ok cr" "hpke_ok l"
    and "create_suite kem kdf ae = Inr s"
    and "kem_key (su_kem s) sk_r" "kem_key (su_kem s) sk_s"
    and "mode \<in> {Mode_PSK, Mode_AUTH_PSK} \<Longrightarrow> 32 \<le> length psk \<and> psk_id \<noteq> []"
    and "length ms \<le> 2 ^ 64"
  shows "\<exists>enc c d cts c' d'.
     hpke_sender cr l m s mode (hpke_public_key l sk_r) info sk_s psk psk_id = Inr (enc, c) \<and>
     hpke_receiver cr l s mode enc sk_r info (hpke_public_key l sk_s) psk psk_id = Inr d \<and>
     each (\<lambda>(pt, aad). hpke_seal cr pt aad) ms c = (Inr cts, c') \<and> length cts = length ms \<and>
     each (\<lambda>(ct, aad). hpke_open cr ct aad) (zip cts (map snd ms)) d = (Inr (map fst ms), d')"
proof -
  obtain enc c where c: "hpke_sender cr l m s mode (hpke_public_key l sk_r) info sk_s psk psk_id = Inr (enc, c)"
      "hpke_receiver cr l s mode enc sk_r info (hpke_public_key l sk_s) psk psk_id = Inr c" "context_ok c" "hc_seq_num c = 0"
    using setups_agree [OF assms(1,2,4) create_suite_aead [OF assms(5)] assms(6-8)] by blast
  have "hc_seq_num c + int (length ms) \<le> 2 ^ 64" using assms(9) c(4) by simp
  from seal_open_stream [OF assms(3) c(3) this] c(1,2) show ?thesis by blast
qed

definition sample_hpke :: hpke_lib where
  "sample_hpke = \<lparr>hl_generate = (\<lambda>c m. bytes_to_int m), hl_point = (\<lambda>c d. [0]), hl_decode = (\<lambda>c p. Some p),
     hl_scalar_ok = (\<lambda>c d. True), hl_ecdh = (\<lambda>c d p. Inr [7]), hl_x25519_public = (\<lambda>k. replicate 32 5),
     hl_x25519 = (\<lambda>k p. Inr [7])\<rparr>"

theorem hpke_transfer_witness:
  "\<exists>enc c d cts c' d'.
     hpke_sender sample_crypto sample_hpke [1] \<lparr>su_kem = DHKEM_X25519_HKDF_SHA256, su_kdf = HKDF_SHA256, su_aead = AEAD_AES_128_GCM\<rparr>
       Mode_AUTH_PSK (hpke_public_key sample_hpke (X25519_private [2])) [] (X25519_private [3]) (replicate 32 1) [9] = Inr (enc, c) \<and>
     hpke_receiver sample_crypto sample_hpke \<lparr>su_kem = DHKEM_X25519_HKDF_SHA256, su_kdf = HKDF_SHA256, su_aead = AEAD_AES_128_GCM\<rparr>
       Mode_AUTH_PSK enc (X25519_private [2]) [] (hpke_public_key sample_hpke (X25519_private [3])) (replicate 32 1) [9] = Inr d \<and>
     each (\<lambda>(pt, aad). hpke_seal sample_crypto pt aad) [([1, 2], []), ([3], [4])] c = (Inr cts, c') \<and> length cts = Suc (Suc 0) \<and>
     each (\<lambda>(ct, aad). hpke_open sample_crypto ct aad) (zip cts [[], [4]]) d = (Inr [[1, 2], [3]], d')"
proof -
  let ?s = "\<lparr>su_kem = DHKEM_X25519_HKDF_SHA256, su_kdf = HKDF_SHA256, su_aead = AEAD_AES_128_GCM\<rparr>"
  have "hpke_ok sample_hpke" by (simp add: hpke_ok_def sample_hpke_def)
  moreover have "create_suite 32 1 1 = Inr ?s"
    by (simp add: create_suite_def HPKE_KEMS_def HPKE_KDFS_def HPKE_AEADS_def)
  moreover have "kem_key (su_kem ?s) (X25519_private k)" for k by (simp add: kem_key_def)
  ultimately show ?thesis
    using hpke_transfer [of sample_crypto sample_hpke 32 1 1 ?s "X25519_private [2]" "X25519_private [3]" Mode_AUTH_PSK
        "replicate 32 1" "[9]" "[([1, 2], []), ([3], [4])]" "[1]" "[]"]
    by (simp add: sample_crypto_ok)
qed

text \<open>
  C40: The private keys of P-521 do not survive their serialisation: the code reserves 65 bytes for a scalar
  of 521 bits, so the larger half of the scalars raises \<open>OverflowError\<close> instead of giving the 66 bytes of RFC 9180.
\<close>

theorem serialize_private_key_P521:
  assumes "2 ^ 520 \<le> d"
  shows "serialize_private_key DHKEM_P521_HKDF_SHA512 (EC_private ''secp521r1'' d) = Inl OverflowError"
  using assms by (simp add: serialize_private_key_def curve_key_size_def int_to_bytes_def)

theorem serialize_private_key_P521_witness:
  "serialize_private_key DHKEM_P521_HKDF_SHA512 (EC_private ''secp521r1'' (2 ^ 520 + 5)) = Inl OverflowError"
  by (rule serialize_private_key_P521) simp

end
