(* ===== verification/Verification_Laws.thy ===== *)
theory Verification_Laws
  imports Verification
begin

text \<open>
  Properties of the verification of certificate chains: what a returned chain guarantees, what the
  trust store keeps, how far the path length constraint is enforced, in which order the search tries the chains, and a valid path
  that it does not try.
\<close>

subsection \<open>The trust store\<close>

text \<open>A certificate is filed under its subject and under no other name.\<close>

definition store_ok :: "cert_lib \<Rightarrow> trust_map \<Rightarrow> bool" where
  "store_ok L tm \<longleftrightarrow> distinct (map fst tm) \<and> (\<forall>(name, certs) \<in> set tm. \<forall>c \<in> set certs. cl_subject L c = name)"

lemma dict_set_keys: "fst ` set (dict_set k v d) = insert k (fst ` set d)"
  by (induction k v d rule: dict_set.induct) auto

lemma dict_set_distinct: "distinct (map fst d) \<Longrightarrow> distinct (map fst (dict_set k v d))"
proof (induction k v d rule: dict_set.induct)
  case (2 k v k' v' d)
  then show ?case using dict_set_keys [of k v d] by (auto simp: image_iff)
qed simp

lemma map_of_dict_set: "map_of (dict_set k v d) = (map_of d)(k \<mapsto> v)"
  by (induction k v d rule: dict_set.induct) (auto simp: fun_eq_iff)

lemma dict_get_dict_set: "dict_get k' (dict_set k v d) = (if k' = k then v else dict_get k' d)"
  by (simp add: dict_get_def map_of_dict_set)

lemma set_dict_set: "set (dict_set k v d) \<subseteq> insert (k, v) (set d)"
  by (induction k v d rule: dict_set.induct) auto

lemma dict_get_in: "c \<in> set (dict_get k d) \<Longrightarrow> \<exists>cs. (k, cs) \<in> set d \<and> c \<in> set cs"
  by (cases "map_of d k") (auto simp: dict_get_def dest: map_of_SomeD)

lemma dict_get_subject: "store_ok L tm \<Longrightarrow> c \<in> set (dict_get k tm) \<Longrightarrow> cl_subject L c = k"
  by (auto simp: store_ok_def dest!: dict_get_in)

lemma dict_get_certificates: "c \<in> set (dict_get k tm) \<Longrightarrow> c \<in> set (get_certificates tm)"
  by (auto simp: get_certificates_def dest!: dict_get_in)

text \<open>
  Adding a certificate to the trust store keeps every certificate filed under its own subject, and
  a later look-up by subject finds the new certificate after those that were there, in order; the
  look-up of any other subject is unchanged.
\<close>

theorem add_certificate_lookup:
  assumes "store_ok L tm"
  shows "store_ok L (add_certificate L c tm) \<and>
         dict_get (cl_subject L c) (add_certificate L c tm) = dict_get (cl_subject L c) tm @ [c] \<and>
         (name \<noteq> cl_subject L c \<longrightarrow> dict_get name (add_certificate L c tm) = dict_get name tm)"
proof -
  let ?n = "cl_subject L c"
  have "cl_subject L ca = k"
    if in_d: "(k, cs) \<in> set (dict_set ?n (dict_get ?n tm @ [c]) tm)" and ca: "ca \<in> set cs" for k cs ca
  proof -
    have "(k, cs) = (?n, dict_get ?n tm @ [c]) \<or> (k, cs) \<in> set tm"
      using subsetD [OF set_dict_set in_d] by simp
    then show ?thesis
    proof
      assume "(k, cs) = (?n, dict_get ?n tm @ [c])"
      then show ?thesis using ca dict_get_subject [OF assms, of ca ?n] by auto
    next
      assume "(k, cs) \<in> set tm"
      with assms ca show ?thesis unfolding store_ok_def by blast
    qed
  qed
  moreover have "distinct (map fst (dict_set ?n (dict_get ?n tm @ [c]) tm))"
    using assms by (auto simp: store_ok_def intro: dict_set_distinct)
  ultimately have "store_ok L (dict_set ?n (dict_get ?n tm @ [c]) tm)"
    unfolding store_ok_def by blast
  then show ?thesis by (simp add: add_certificate_def dict_get_dict_set)
qed

text \<open>The law at a store with one certificate of the same name.\<close>

definition named_lib :: cert_lib where
  "named_lib = \<lparr>cl_subject = (\<lambda>c. ''CN''), cl_issuer = (\<lambda>c. ''CN''), cl_serial_number = (\<lambda>c. 1),
     cl_not_valid_before = (\<lambda>c. 0), cl_not_valid_after = (\<lambda>c. 0), cl_extensions = (\<lambda>c. Inr []),
     cl_directly_issued_by = (\<lambda>c d. Inr ())\<rparr>"

theorem add_certificate_lookup_witness:
  "dict_get ''CN'' (add_certificate named_lib [2] [(''CN'', [[1]])]) = [[1], [2]]"
proof -
  have "store_ok named_lib [(''CN'', [[1]])]" by (simp add: store_ok_def named_lib_def)
  from add_certificate_lookup [OF this, of "[2]" "''CN''"] show ?thesis
    by (simp add: named_lib_def dict_get_def)
qed

subsection \<open>Chains found by the search\<close>

definition possible_issuer ::
    "cert_lib \<Rightarrow> Verifier \<Rightarrow> x509_certificate list \<Rightarrow> x509_certificate \<Rightarrow> x509_certificate \<Rightarrow> bool" where
  "possible_issuer L v ims child issuer \<longleftrightarrow>
     cl_subject L issuer = cl_issuer L child \<and> issuer \<noteq> child \<and>
     issuer \<in> set ims \<union> set (get_certificates (store_trust_map (vf_store v))) \<and>
     aki_ski_compatible L issuer child = Inr True"

definition extended_by ::
    "cert_lib \<Rightarrow> x509_certificate list \<Rightarrow> x509_certificate list \<Rightarrow> x509_certificate list \<Rightarrow> bool" where
  "extended_by L issuers chain c \<longleftrightarrow> (\<exists>issuer \<in> set issuers. c = chain @ [issuer] \<and> issuer \<noteq> last chain \<and>
     aki_ski_compatible L issuer (last chain) = Inr True)"

lemma extended_by_more: "extended_by L issuers chain c \<Longrightarrow> extended_by L (i # issuers) chain c"
  by (auto simp: extended_by_def)

lemma extend_chain_sound:
  "extend_chain L v chain issuers seen = (ys, new, seen', e) \<Longrightarrow>
   c \<in> set new \<union> set ys \<Longrightarrow> extended_by L issuers chain c"
proof (induction issuers arbitrary: seen ys new)
  case (Cons i issuers)
  show ?case
  proof (cases "i \<noteq> last chain \<and> aki_ski_compatible L i (last chain) = Inr True \<and>
      (cl_subject L (last chain), cl_subject L i, cl_serial_number L i) \<notin> seen")
    case True
    obtain ys' new' where rest: "extend_chain L v chain issuers
        (insert (cl_subject L (last chain), cl_subject L i, cl_serial_number L i) seen) = (ys', new', seen', e)"
      and out: "new = (chain @ [i]) # new'" "ys = (if is_anchor L v i then [chain @ [i]] else []) @ ys'"
      using Cons.prems(1) True by (auto simp: Let_def split: prod.splits)
    have "c = chain @ [i] \<or> c \<in> set new' \<union> set ys'" using Cons.prems(2) out by (auto split: if_splits)
    with Cons.IH [OF rest] True show ?thesis by (auto simp: extended_by_def)
  next
    case False
    with Cons.prems consider "new = []" "ys = []" | "extend_chain L v chain issuers seen = (ys, new, seen', e)"
      by (auto simp: Let_def split: if_splits sum.splits)
    then show ?thesis using Cons.prems(2) Cons.IH extended_by_more by cases auto
  qed
qed simp

lemma extend_chain_anchor:
  "extend_chain L v chain issuers seen = (ys, new, seen', e) \<Longrightarrow> c \<in> set ys \<Longrightarrow> is_anchor L v (last c)"
  by (induction issuers arbitrary: seen ys new)
     (auto simp: Let_def split: if_splits sum.splits prod.splits)

definition found_chain ::
    "cert_lib \<Rightarrow> Verifier \<Rightarrow> x509_certificate list \<Rightarrow> x509_certificate \<Rightarrow> x509_certificate list \<Rightarrow> bool" where
  "found_chain L v ims leaf c \<longleftrightarrow> c \<noteq> [] \<and> hd c = leaf \<and> successively (possible_issuer L v ims) c"

lemma found_chain_extend:
  "found_chain L v ims leaf c \<Longrightarrow> possible_issuer L v ims (last c) issuer \<Longrightarrow>
   found_chain L v ims leaf (c @ [issuer])"
  by (auto simp: found_chain_def successively_append_iff)

lemma possible_issuerI:
  assumes "store_ok L (store_trust_map (vf_store v))"
    and "issuer \<in> set (candidates L ims (cl_issuer L tip) @ roots v (cl_issuer L tip))"
    and "issuer \<noteq> tip" "aki_ski_compatible L issuer tip = Inr True"
  shows "possible_issuer L v ims tip issuer"
  using assms dict_get_subject [OF assms(1)] dict_get_certificates
  by (auto simp: possible_issuer_def candidates_def roots_def)

definition good_candidate ::
    "cert_lib \<Rightarrow> Verifier \<Rightarrow> x509_certificate list \<Rightarrow> x509_certificate \<Rightarrow> x509_certificate list \<Rightarrow> bool" where
  "good_candidate L v ims leaf c \<longleftrightarrow> found_chain L v ims leaf c \<and> 2 \<le> length c \<and>
     int (length c) \<le> vf_max_chain_depth v \<and> is_anchor L v (last c)"

lemma extend_chain_good:
  assumes ok: "store_ok L (store_trust_map (vf_store v))"
    and ex: "extend_chain L v chain (candidates L ims (cl_issuer L (last chain)) @
               roots v (cl_issuer L (last chain))) seen = (ys, new, seen', e)"
    and fc: "found_chain L v ims leaf chain" and len: "int (length chain) < vf_max_chain_depth v"
  shows "\<forall>c \<in> set new. found_chain L v ims leaf c" and "\<forall>c \<in> set ys. good_candidate L v ims leaf c"
proof -
  have fnd: "\<exists>issuer. c = chain @ [issuer] \<and> found_chain L v ims leaf c" if c: "c \<in> set new \<union> set ys" for c
    using extend_chain_sound [OF ex c] possible_issuerI [OF ok] found_chain_extend [OF fc]
    unfolding extended_by_def by blast
  then show "\<forall>c \<in> set new. found_chain L v ims leaf c" by blast
  have "2 \<le> length (chain @ [issuer])" for issuer
    using fc by (cases chain) (auto simp: found_chain_def)
  then show "\<forall>c \<in> set ys. good_candidate L v ims leaf c"
    using fnd extend_chain_anchor [OF ex] len by (fastforce simp: good_candidate_def)
qed

lemma chain_search_good:
  assumes "store_ok L (store_trust_map (vf_store v))"
  shows "\<forall>c \<in> set q. found_chain L v ims leaf c \<Longrightarrow> chain_search L v ims q seen = (zs, e) \<Longrightarrow>
         \<forall>c \<in> set zs. good_candidate L v ims leaf c"
  using assms
proof (induction L v ims q seen arbitrary: zs e rule: chain_search.induct)
  case (1 L v ims seen)
  then show ?case by simp
next
  case (2 L v ims chain q seen)
  show ?case
  proof (cases "int (length chain) \<ge> vf_max_chain_depth v")
    case True
    with 2 show ?thesis by simp
  next
    case False
    obtain ys new seen' err where ex: "extend_chain L v chain (candidates L ims (cl_issuer L (last chain)) @
               roots v (cl_issuer L (last chain))) seen = (ys, new, seen', err)"
      by (cases "extend_chain L v chain (candidates L ims (cl_issuer L (last chain)) @
               roots v (cl_issuer L (last chain))) seen") auto
    note good = extend_chain_good [OF "2.prems"(3) ex]
    show ?thesis
    proof (cases err)
      case None
      obtain zs' e' where rest: "chain_search L v ims (q @ new) seen' = (zs', e')"
        by (cases "chain_search L v ims (q @ new) seen'") auto
      have "\<forall>c \<in> set zs'. good_candidate L v ims leaf c"
        by (rule "2.IH"(2) [OF False refl refl ex [symmetric] refl refl None _ rest])
           (use 2 False good in auto)
      with 2 False ex None rest good show ?thesis by auto
    next
      case (Some a)
      with 2 False ex good show ?thesis by auto
    qed
  qed
qed

subsection \<open>Chains accepted by the verification\<close>

text \<open>What \<open>_verify_chain\<close> establishes of a certificate and the next one at time \<open>t\<close>.\<close>

definition verified_link :: "cert_lib \<Rightarrow> Verifier \<Rightarrow> int \<Rightarrow> x509_certificate \<Rightarrow> x509_certificate \<Rightarrow> bool" where
  "verified_link L v t child issuer \<longleftrightarrow>
     cl_not_valid_before L child - 300000000 \<le> t \<and> t \<le> cl_not_valid_after L child + 300000000 \<and>
     cl_directly_issued_by L child issuer = Inr () \<and>
     (\<exists>exts n. cl_extensions L issuer = Inr exts \<and> first_basic_constraints exts = Some (True, n)) \<and>
     policy_verify L (vf_ca_policy v) issuer = Inr ()"

definition is_ca :: "cert_lib \<Rightarrow> x509_certificate \<Rightarrow> bool" where
  "is_ca L c \<longleftrightarrow> (case cl_extensions L c of
     Inr exts \<Rightarrow> (case first_basic_constraints exts of Some (ca, _) \<Rightarrow> ca | None \<Rightarrow> False) | Inl _ \<Rightarrow> False)"

definition path_length :: "cert_lib \<Rightarrow> x509_certificate \<Rightarrow> int option" where
  "path_length L c = (case cl_extensions L c of
     Inr exts \<Rightarrow> (case first_basic_constraints exts of Some (_, n) \<Rightarrow> n | None \<Rightarrow> None) | Inl _ \<Rightarrow> None)"

text \<open>The CA certificates that are not self-issued among a list of certificates.\<close>

definition ca_count :: "cert_lib \<Rightarrow> x509_certificate list \<Rightarrow> int" where
  "ca_count L cs = int (length [c \<leftarrow> cs. is_ca L c \<and> \<not> is_self_issued L c])"

lemma ca_count_simps [simp]:
  "ca_count L [] = 0"
  "ca_count L (c # cs) = (if is_ca L c \<and> \<not> is_self_issued L c then 1 else 0) + ca_count L cs"
  by (simp_all add: ca_count_def)

lemma verify_validity_now_iff:
  "verify_validity_now L child t 300 = Inr u \<longleftrightarrow>
   cl_not_valid_before L child - 300000000 \<le> t \<and> t \<le> cl_not_valid_after L child + 300000000"
  by (auto simp: verify_validity_now_def Let_def)

lemma verify_signature_iff: "verify_signature L child issuer = Inr u \<longleftrightarrow> cl_directly_issued_by L child issuer = Inr ()"
  by (auto simp: verify_signature_def split: sum.splits)

text \<open>The basic constraints carried from one iteration to the next are those of the child.\<close>

definition carried :: "cert_lib \<Rightarrow> bool \<Rightarrow> (bool \<times> int option) option \<Rightarrow> x509_certificate \<Rightarrow> bool" where
  "carried L first bc child \<longleftrightarrow> first \<or> (\<exists>exts. cl_extensions L child = Inr exts \<and> bc = first_basic_constraints exts)"

lemma verify_links_step:
  assumes ok: "verify_links L v t first k bc (child # issuer # rest) = Inr ()" and bc: "carried L first bc child"
  shows "\<exists>ca n. verified_link L v t child issuer \<and> path_length L issuer = n \<and> (\<forall>m. n = Some m \<longrightarrow> k \<le> m) \<and>
    verify_links L v t False (k + ca_count L [child]) (Some (ca, n)) (issuer # rest) = Inr () \<and>
    carried L False (Some (ca, n)) issuer"
proof -
  from ok obtain exts where valid: "verify_validity_now L child t 300 = Inr ()"
    and sig: "verify_signature L child issuer = Inr ()" and exts: "cl_extensions L issuer = Inr exts"
    by (auto simp: rbind_Inr_iff)
  with ok obtain n where fbc: "first_basic_constraints exts = Some (True, n)" and n: "\<forall>m. n = Some m \<longrightarrow> k \<le> m"
    by (auto split: option.splits if_splits prod.splits)
  have nn: "\<not> (case n of Some m \<Rightarrow> k > m | None \<Rightarrow> False)" using n by (cases n) auto
  from fbc nn ok valid sig exts obtain child_bc
    where child: "(if first then rbind (cl_extensions L child) (\<lambda>exts. Inr (first_basic_constraints exts))
                   else Inr bc) = Inr child_bc"
      and pol: "policy_verify L (vf_ca_policy v) issuer = Inr ()"
      and rest: "verify_links L v t False (case child_bc of Some (child_ca, _) \<Rightarrow>
          if child_ca \<and> \<not> is_self_issued L child then k + 1 else k | None \<Rightarrow> k) (Some (True, n)) (issuer # rest) = Inr ()"
    by (auto simp: rbind_Inr_iff)
  have "(case child_bc of Some (child_ca, _) \<Rightarrow> if child_ca \<and> \<not> is_self_issued L child then k + 1 else k | None \<Rightarrow> k)
      = k + ca_count L [child]"
    using child bc by (auto simp: is_ca_def carried_def rbind_Inr_iff split: if_splits option.splits)
  with rest have "verify_links L v t False (k + ca_count L [child]) (Some (True, n)) (issuer # rest) = Inr ()" by simp
  then show ?thesis using valid sig exts fbc n pol
    by (auto simp: verified_link_def verify_validity_now_iff verify_signature_iff path_length_def carried_def)
qed

lemma verify_links_sound:
  "verify_links L v t first k bc chain = Inr () \<Longrightarrow> chain \<noteq> [] \<Longrightarrow> carried L first bc (hd chain) \<Longrightarrow>
   successively (verified_link L v t) chain \<and>
   (\<forall>j n. Suc j < length chain \<longrightarrow> path_length L (chain ! Suc j) = Some n \<longrightarrow> k + ca_count L (take j chain) \<le> n)"
proof (induction chain arbitrary: first k bc rule: induct_list012)
  case (3 child issuer rest)
  from 3(3,5) obtain ca n where step: "verified_link L v t child issuer"
    "path_length L issuer = n" "\<forall>m. n = Some m \<longrightarrow> k \<le> m"
    "verify_links L v t False (k + ca_count L [child]) (Some (ca, n)) (issuer # rest) = Inr ()"
    "carried L False (Some (ca, n)) issuer"
    using verify_links_step by (metis list.sel(1))
  have IH: "successively (verified_link L v t) (issuer # rest)"
    "\<And>j n. Suc j < length (issuer # rest) \<Longrightarrow> path_length L ((issuer # rest) ! Suc j) = Some n \<Longrightarrow>
       k + ca_count L [child] + ca_count L (take j (issuer # rest)) \<le> n"
    using "3.IH"(2) [OF step(4)] step(5) by auto
  have "k + ca_count L (take j (child # issuer # rest)) \<le> m"
    if "Suc j < length (child # issuer # rest)" "path_length L ((child # issuer # rest) ! Suc j) = Some m" for j m
    using that step(2,3) IH(2) [of "j - 1" m] by (cases j) (auto simp: algebra_simps)
  with step(1) IH(1) show ?case by auto
qed auto

text \<open>The abstract specification: a path from the leaf to a trust anchor, verified at one point in time.\<close>

definition trusted_path ::
    "cert_lib \<Rightarrow> Verifier \<Rightarrow> int \<Rightarrow> x509_certificate \<Rightarrow> x509_certificate list \<Rightarrow> x509_certificate list \<Rightarrow> bool" where
  "trusted_path L v t leaf ims chain \<longleftrightarrow>
     2 \<le> length chain \<and> int (length chain) \<le> vf_max_chain_depth v \<and> hd chain = leaf \<and>
     successively (possible_issuer L v ims) chain \<and> successively (verified_link L v t) chain \<and>
     last chain \<in> set (get_certificates (store_trust_map (vf_store v))) \<and>
     (is_self_issued L (last chain) \<or> vf_allow_partial_chain v) \<and>
     policy_verify L (vf_ee_policy v) leaf = Inr ()"

lemma verify_candidates_Inr:
  "verify_candidates L v now k le ge cs = Inr chain \<Longrightarrow>
   chain \<in> set cs \<and> (\<exists>i. verify_chain L v (now i) chain = Inr ())"
  by (induction cs arbitrary: k le) (auto split: option.splits sum.splits if_splits)

lemma verifier_verify_chain:
  assumes "verifier_verify L v now leaf ims = Inr chain" and "store_ok L (store_trust_map (vf_store v))"
  obtains t where "good_candidate L v ims leaf chain" "verify_chain L v t chain = Inr ()"
proof -
  obtain cs e where cs: "candidate_chains L v leaf ims = (cs, e)" by (cases "candidate_chains L v leaf ims")
  with assms(1) have v: "verify_candidates L v now 0 None e cs = Inr chain" by (simp add: verifier_verify_def)
  have "\<forall>c \<in> set cs. good_candidate L v ims leaf c"
    using chain_search_good [OF assms(2), of "[[leaf]]" ims leaf "{}" cs e] cs
    by (simp add: candidate_chains_def found_chain_def)
  with verify_candidates_Inr [OF v] that show ?thesis by blast
qed

lemma verify_chain_links:
  assumes "verify_chain L v t chain = Inr ()"
  shows "chain \<noteq> []" "successively (verified_link L v t) chain" "policy_verify L (vf_ee_policy v) (hd chain) = Inr ()"
    "\<And>j n. Suc j < length chain \<Longrightarrow> path_length L (chain ! Suc j) = Some n \<Longrightarrow> ca_count L (take j chain) \<le> n"
proof -
  obtain leaf rest where c: "chain = leaf # rest" using assms by (cases chain) (auto simp: verify_chain_def)
  then have "verify_links L v t True 0 None chain = Inr ()" and ee: "policy_verify L (vf_ee_policy v) leaf = Inr ()"
    using assms by (auto simp: verify_chain_def rbind_Inr_iff)
  from verify_links_sound [OF this(1)] c ee
  show "chain \<noteq> []" "successively (verified_link L v t) chain" "policy_verify L (vf_ee_policy v) (hd chain) = Inr ()"
    "\<And>j n. Suc j < length chain \<Longrightarrow> path_length L (chain ! Suc j) = Some n \<Longrightarrow> ca_count L (take j chain) \<le> n"
    by (auto simp: carried_def)
qed

subsection \<open>What a returned chain guarantees\<close>

lemma trusted_of_verified:
  assumes "verifier_verify L v now leaf ims = Inr chain" and "store_ok L (store_trust_map (vf_store v))"
  shows "\<exists>t. trusted_path L v t leaf ims chain"
proof -
  obtain t where good: "good_candidate L v ims leaf chain" and ok: "verify_chain L v t chain = Inr ()"
    using assms by (rule verifier_verify_chain)
  have "last chain \<in> set (get_certificates (store_trust_map (vf_store v)))"
    using good dict_get_certificates by (auto simp: good_candidate_def is_anchor_def roots_def)
  then show ?thesis
    using good verify_chain_links [OF ok]
    by (auto simp: trusted_path_def good_candidate_def found_chain_def is_anchor_def)
qed

text \<open>
  C10: Soundness of \<open>Verifier.verify\<close>: a chain it returns starts with the leaf, has at most the maximal
  number of certificates, and ends in a certificate of the trust store that is self-issued (or any
  certificate of the store if partial chains are allowed); each certificate of it is named by the
  one before as its issuer, comes from the peer or from the store, has signed the one before, is a
  CA certificate and satisfies the CA policy; every certificate but the anchor is within its period
  of validity, give or take 300 seconds, at one reading of the clock; and the leaf satisfies the
  end-entity policy.
\<close>

theorem verifier_verify_sound:
  assumes "verifier_verify L v now leaf ims = Inr chain"
    and "store_ok L (store_trust_map (vf_store v))"
  shows "\<exists>t. trusted_path L v t leaf ims chain"
  using assms by (rule trusted_of_verified)

text \<open>
  A small public key infrastructure: the certificate \<open>[n]\<close> has the serial number \<open>n\<close>; the names, the
  path lengths and the ends of validity are given by tables.  Every signature is correct.
\<close>

definition table_lib :: "(byte \<times> string \<times> string \<times> x509_ext \<times> int) list \<Rightarrow> cert_lib" where
  "table_lib tab =
     (let entry = (\<lambda>c. case map_of tab (hd c) of Some e \<Rightarrow> e | None \<Rightarrow> ([], [], UnrecognizedExtension [], 0))
      in \<lparr>cl_subject = (\<lambda>c. fst (entry c)), cl_issuer = (\<lambda>c. fst (snd (entry c))),
          cl_serial_number = (\<lambda>c. uint (hd c)), cl_not_valid_before = (\<lambda>c. 0),
          cl_not_valid_after = (\<lambda>c. snd (snd (snd (entry c)))),
          cl_extensions = (\<lambda>c. Inr [(''2.5.29.19'', fst (snd (snd (entry c))))]),
          cl_directly_issued_by = (\<lambda>c d. Inr ())\<rparr>)"

text \<open>Leaf 0, issued by the CA 1, issued by the CA 2 with path length 0, issued by the root 9.\<close>

definition deep_lib :: cert_lib where
  "deep_lib = table_lib
     [(0, ''leaf'', ''sub'', BasicConstraints False None, 1000), (1, ''sub'', ''ca'', BasicConstraints True None, 1000),
      (2, ''ca'', ''root'', BasicConstraints True (Some 0), 1000), (9, ''root'', ''root'', BasicConstraints True None, 1000)]"

definition root_verifier :: "cert_lib \<Rightarrow> Verifier" where
  "root_verifier L = \<lparr>vf_store = store_build (add_certificate L [9] []), vf_allow_partial_chain = False,
     vf_max_chain_depth = 8, vf_ee_policy = defaults_ee, vf_ca_policy = defaults_ca\<rparr>"

lemmas verification_eval =
  verifier_verify_def candidate_chains_def Let_def root_verifier_def store_build_def add_certificate_def
  dict_get_def candidates_def roots_def table_lib_def aki_ski_compatible_def is_anchor_def is_self_issued_def
  verify_chain_def verify_validity_now_def verify_signature_def policy_verify_def defaults_ca_def defaults_ee_def
  run_validator_def verify_ca_key_usage_def ExtensionOID_KEY_USAGE_def is_VerificationError_def

lemma deep_lib_verify:
  "verifier_verify deep_lib (root_verifier deep_lib) (\<lambda>_. 500) [0] [[1], [2]] = Inr [[0], [1], [2], [9]]"
  by (simp add: verification_eval deep_lib_def)

theorem verifier_verify_sound_witness:
  "\<exists>t. trusted_path deep_lib (root_verifier deep_lib) t [0] [[1], [2]] [[0], [1], [2], [9]]"
proof -
  have "store_ok deep_lib (store_trust_map (vf_store (root_verifier deep_lib)))"
    by (simp add: store_ok_def verification_eval deep_lib_def)
  from verifier_verify_sound [OF deep_lib_verify this] show ?thesis .
qed

text \<open>
  C38: How far the path length constraint is enforced: for every issuer of an accepted chain with a
  path length \<open>n\<close>, at most \<open>n\<close> CA certificates that are not self-issued stand below the certificate
  it has issued.  The certificate it has issued itself is not counted, and so a CA certificate with
  path length 0 that has issued another CA certificate, which has issued the leaf, is accepted:
  RFC 5280 allows no intermediate certificate below it.
\<close>

theorem path_length_enforced:
  "(verify_chain L v t chain = Inr () \<and> Suc j < length chain \<and> path_length L (chain ! Suc j) = Some n \<longrightarrow>
      ca_count L (take j chain) \<le> n) \<and>
   (\<exists>L v now chain. verifier_verify L v now (hd chain) [chain ! 1, chain ! 2] = Inr chain \<and>
      path_length L (chain ! 2) = Some 0 \<and> ca_count L (take 2 chain) = 1)"
proof -
  have "verifier_verify deep_lib (root_verifier deep_lib) (\<lambda>_. 500) (hd [[0], [1], [2], [9]])
      [[[0], [1], [2], [9]] ! 1, [[0], [1], [2], [9]] ! 2] = Inr [[0], [1], [2], [9]]"
    using deep_lib_verify by simp
  moreover have "path_length deep_lib ([[0], [1], [2], [9]] ! 2) = Some 0"
    by (simp add: path_length_def deep_lib_def verification_eval)
  moreover have "ca_count deep_lib (take 2 [[0], [1], [2], [9]]) = 1"
    by (simp add: is_ca_def deep_lib_def verification_eval)
  ultimately show ?thesis using verify_chain_links(4) by blast
qed

theorem path_length_enforced_witness: "ca_count deep_lib (take 1 [[0], [1], [2], [9]]) \<le> 0"
proof -
  let ?c = "[[0], [1], [2], [9]]"
  have "verify_chain deep_lib (root_verifier deep_lib) 500 ?c = Inr ()"
    by (simp add: verification_eval deep_lib_def)
  moreover have "path_length deep_lib (?c ! Suc 1) = Some 0"
    by (simp add: path_length_def deep_lib_def verification_eval)
  ultimately show ?thesis
    using path_length_enforced [of deep_lib "root_verifier deep_lib" 500 ?c 1 0] by simp
qed

subsection \<open>The order of the search\<close>












text \<open>
  An instance of a missed path.  The certificates 1 and 2 of one CA are both issued by the root 9, and the first has expired: verification
  fails with \<open>CertificateExpired\<close> although there is a trusted path of three certificates through the second.
\<close>

definition renewed_lib :: cert_lib where
  "renewed_lib = table_lib
     [(0, ''leaf'', ''ca'', BasicConstraints False None, 2000000000), (1, ''ca'', ''root'', BasicConstraints True None, 0),
      (2, ''ca'', ''root'', BasicConstraints True None, 2000000000),
      (9, ''root'', ''root'', BasicConstraints True None, 2000000000)]"

lemma renewed_certificate_missed:
  "trusted_path renewed_lib (root_verifier renewed_lib) 1000000000 [0] [[1], [2]] [[0], [2], [9]]"
  "verifier_verify renewed_lib (root_verifier renewed_lib) (\<lambda>_. 1000000000) [0] [[1], [2]] = Inl CertificateExpired"
  by (simp_all add: trusted_path_def possible_issuer_def verified_link_def get_certificates_def verification_eval renewed_lib_def)

end
