(* ===== verification/Endpoints.thy ===== *)
theory Endpoints
  imports Record_Layer
begin

text \<open>
  What the two handshakes share beside their base class: the environment they run in and the
  combinators in which their handlers are written.

  The environment is one record: the packages the program calls (\<open>cryptography\<close>, the compression
  packages, the vendored ML-KEM code), the random source, and the clock.  Every request for random
  material or for the time is numbered by the counter \<open>ep_draws\<close> of the state, so that two requests
  may have different answers.  An endpoint is a connection with this counter; the records of the two
  handshakes extend it.  The callback \<open>setup_traffic_cb\<close> of a handshake is the connection's method.
\<close>

subsection \<open>Environment\<close>

record environment =
  env_crypto :: crypto
  env_asym :: asym
  env_kex :: kex_lib
  env_x509 :: x509_lib
  env_comp :: compression_libs
  env_cert :: cert_lib
  env_hpke :: hpke_lib
  env_dh_ok :: "int \<Rightarrow> int \<Rightarrow> bool" \<comment> \<open>the package accepts \<open>p\<close> and \<open>g\<close> as parameters\<close>
  env_random :: "nat \<Rightarrow> nat \<Rightarrow> bytes" \<comment> \<open>number of the request, number of bytes\<close>
  env_randint :: "nat \<Rightarrow> int \<Rightarrow> int \<Rightarrow> int"
  env_randbits :: "nat \<Rightarrow> nat \<Rightarrow> int"
  env_shuffle :: "nat \<Rightarrow> int list \<Rightarrow> int list"
  env_private :: "nat \<Rightarrow> bytes" \<comment> \<open>the material of a generated key\<close>
  env_now :: "nat \<Rightarrow> nat \<Rightarrow> int" \<comment> \<open>number of the request and of the reading in it\<close>

record Endpoint = TLSConnection +
  ep_draws :: nat

type_synonym ('a, 'b) endpoint_action = "('a Endpoint_scheme, 'b) action"

definition draw :: "(nat \<Rightarrow> 'b) \<Rightarrow> ('a, 'b) endpoint_action" where
  "draw f = bnd (gets ep_draws) (\<lambda>i.
     thn (modify (\<lambda>s. s\<lparr>ep_draws := Suc i\<rparr>)) (ret (f i)))"

definition get_random_bytes :: "environment \<Rightarrow> nat \<Rightarrow> ('a, bytes) endpoint_action" where
  "get_random_bytes E n = draw (\<lambda>i. env_random E i n)"

definition get_random_int :: "environment \<Rightarrow> int \<Rightarrow> int \<Rightarrow> ('a, int) endpoint_action" where
  "get_random_int E a b = draw (\<lambda>i. env_randint E i a b)"

definition get_random_bits :: "environment \<Rightarrow> nat \<Rightarrow> ('a, int) endpoint_action" where
  "get_random_bits E k = draw (\<lambda>i. env_randbits E i k)"

definition utcnow :: "environment \<Rightarrow> ('a, int) endpoint_action" where
  "utcnow E = draw (\<lambda>i. env_now E i 0)"

text \<open>\<open>_get_key_exchange\<close> generates a key pair, or two for a hybrid group.\<close>

definition ep_get_key_exchange :: "environment \<Rightarrow> int \<Rightarrow> ('a, BaseKeyExchange option) endpoint_action" where
  "ep_get_key_exchange E grp =
     bnd (draw (env_private E)) (\<lambda>private.
     bnd (draw (env_private E)) (\<lambda>seed.
     lift_result (get_key_exchange (env_kex E) private seed grp)))"

definition ep_generate_and_exchange ::
    "environment \<Rightarrow> BaseKeyExchange \<Rightarrow> bytes \<Rightarrow> ('a, bytes \<times> bytes) endpoint_action" where
  "ep_generate_and_exchange E kex peer_public = bnd (draw (env_private E)) (\<lambda>seed.
     lift_result (generate_and_exchange (env_kex E) seed kex peer_public))"

definition ep_setup_traffic ::
    "environment \<Rightarrow> Direction \<Rightarrow> Epoch \<Rightarrow> TrafficContext option \<Rightarrow> ('a, unit) endpoint_action" where
  "ep_setup_traffic E direction epoch context = bnd (draw (env_random E)) (\<lambda>rnd.
     conn_setup_traffic (env_crypto E) rnd direction epoch context)"

definition ep_verify_x509 ::
    "environment \<Rightarrow> TLSSession \<Rightarrow> bytes option \<Rightarrow> ('a, TLSSession) endpoint_action" where
  "ep_verify_x509 E session hostname = bnd (draw (env_now E)) (\<lambda>now.
     verify_x509 (env_cert E) now session hostname)"

definition ep_get_new_session :: "environment \<Rightarrow> ('a, TLSSession) endpoint_action" where
  "ep_get_new_session E = bnd (utcnow E) get_new_session"

subsection \<open>Combinators\<close>

definition do_if :: "bool \<Rightarrow> ('s, unit) action \<Rightarrow> ('s, unit) action" where
  "do_if b m = (if b then m else ret ())"

text \<open>\<open>assert x is not None\<close>\<close>

definition assert_some :: "'b option \<Rightarrow> ('s, 'b) action" where
  "assert_some x = (case x of None \<Rightarrow> raise AssertionError | Some y \<Rightarrow> ret y)"

definition assert_that :: "bool \<Rightarrow> ('s, unit) action" where
  "assert_that b = raise_if (\<not> b) AssertionError"

text \<open>\<open>except e1: raise e2\<close> around a call\<close>

definition except :: "'b result \<Rightarrow> exn list \<Rightarrow> exn \<Rightarrow> 'b result" where
  "except r es e' = (case r of Inr x \<Rightarrow> Inr x | Inl e \<Rightarrow> Inl (if e \<in> set es then e' else e))"

definition except_action :: "('s, 'b) action \<Rightarrow> exn list \<Rightarrow> exn \<Rightarrow> ('s, 'b) action" where
  "except_action m es e' = catch m (\<lambda>e. raise (if e \<in> set es then e' else e))"

text \<open>A parser that is local to a handler.\<close>

definition on_parser :: "(parser, 'b) action \<Rightarrow> parser \<Rightarrow> ('s, 'b \<times> parser) action" where
  "on_parser m p = (case m p of (Inl e, _) \<Rightarrow> raise e | (Inr x, p') \<Rightarrow> ret (x, p'))"

definition current_session :: "('a TLSHandshake_scheme, TLSSession) action" where
  "current_session = bnd (gets hs_session) assert_some"

definition set_session :: "TLSSession \<Rightarrow> ('a TLSHandshake_scheme, unit) action" where
  "set_session session = modify (\<lambda>s. s\<lparr>hs_session := Some session\<rparr>)"

text \<open>An assignment to a field of the session object of the handshake.\<close>

definition update_session :: "(TLSSession \<Rightarrow> TLSSession) \<Rightarrow> ('a TLSHandshake_scheme, unit) action" where
  "update_session f = bnd current_session (\<lambda>session. set_session (f session))"

definition current_key_schedule :: "('a TLSHandshake_scheme, KeySchedule) action" where
  "current_key_schedule = bnd (gets hs_key_schedule) assert_some"

definition on_key_schedule :: "(KeySchedule, 'b) action \<Rightarrow> ('a TLSHandshake_scheme, 'b) action" where
  "on_key_schedule m = (\<lambda>s. case hs_key_schedule s of
     None \<Rightarrow> (Inl AssertionError, s)
   | Some ks \<Rightarrow> (case m ks of (r, ks') \<Rightarrow> (r, s\<lparr>hs_key_schedule := Some ks'\<rparr>)))"

definition current_cipher_suite :: "('a TLSHandshake_scheme, cipher_suite) action" where
  "current_cipher_suite = bnd (gets hs_cipher_suite) assert_some"

text \<open>\<open>handshake = self._read_handshake()\<close>; \<open>if handshake is None: return Status.READ_HANDSHAKE\<close>\<close>

definition with_handshake ::
    "(Handshake \<Rightarrow> ('a TLSHandshake_scheme, Status) action) \<Rightarrow> ('a TLSHandshake_scheme, Status) action" where
  "with_handshake f = bnd read_handshake (\<lambda>h.
     case h of None \<Rightarrow> ret ST_READ_HANDSHAKE | Some handshake \<Rightarrow> f handshake)"

text \<open>\<open>self._set_state(...)\<close>; \<open>return Status...\<close>\<close>

definition goto :: "int \<Rightarrow> Status \<Rightarrow> ('a TLSHandshake_scheme, Status) action" where
  "goto st status = thn (set_state st) (ret status)"

text \<open>\<open>compare_digest\<close> of \<open>src/simple_tls/crypto/constant_time.py\<close> has the value of the comparison.\<close>

definition compare_digest :: "bytes \<Rightarrow> bytes \<Rightarrow> bool" where
  "compare_digest a b \<longleftrightarrow> a = b"

text \<open>\<open>load_certificate_public_key\<close> with \<open>except (ValueError, TypeError)\<close>.\<close>

definition cert_public_key :: "environment \<Rightarrow> exn \<Rightarrow> x509_certificate \<Rightarrow> ('s, BasePublicKey) action" where
  "cert_public_key E e cert =
     lift_result (except (load_certificate_public_key (env_x509 E) cert) [ValueError, TypeError] e)"

definition ext_get :: "ext_class \<Rightarrow> extensions \<Rightarrow> ('s, extension option) action" where
  "ext_get c exts = lift_result (Extensions_get c exts)"

text \<open>\<open>a != b\<close> for a suite or \<open>None\<close> and a suite.\<close>

definition suite_differs :: "cipher_suite option \<Rightarrow> cipher_suite option \<Rightarrow> bool" where
  "suite_differs a b \<longleftrightarrow> (case (a, b) of
     (Some x, Some y) \<Rightarrow> \<not> cipher_suite_eq x y | (None, None) \<Rightarrow> False | _ \<Rightarrow> True)"

subsection \<open>Encrypted client hello\<close>

record ECHContext =
  ec_kdf_id :: int
  ec_aead_id :: int
  ec_kem_id :: int
  ec_config_id :: int
  ec_public_name :: bytes
  ec_maximum_name_length :: int
  ec_extensions :: extensions
  ec_enc :: bytes
  ec_hpke_context :: hpke_context

end
