(* ===== verification/Client_Hello.thy ===== *)
theory Client_Hello
  imports Endpoints
begin

text \<open>
  The state of the client and the client hello: the first part of
  \<open>src/simple_tls/tls/handshake_client.py\<close> (class \<open>TLSHandshakeClient\<close>).  The object is the record
  \<open>TLSClient\<close>, which extends an endpoint.  A set of extension types is a \<open>set\<close>, the dictionary of key
  exchanges an association list in insertion order.  The callback for new sessions is the flag whether
  there is one, with the list of the sessions it was called with.
\<close>

subsection \<open>State\<close>

type_synonym pre_shared_key = "KeySchedule \<times> psk_identity \<times> bytes"

record TLSClient = Endpoint +
  cli_offered_session :: "TLSSession option"
  cli_new_session_callback :: bool
  cli_new_sessions :: "TLSSession list"
  cli_compression_methods :: "int list"
  cli_enable_etm :: bool
  cli_enable_ems :: bool
  cli_enable_pha :: bool
  cli_enable_early_data :: bool
  cli_enable_status_request :: bool
  cli_enable_scts :: bool
  cli_enable_client_hello_padding :: bool
  cli_enable_permute_extensions :: bool
  cli_enable_grease :: bool
  cli_extensions_sent :: "int set"
  cli_session_ticket :: "bytes option"
  cli_ech_context :: "ECHContext option"
  cli_ech_client_outer :: "ech_client option"
  cli_ticket_expected :: bool
  cli_pre_shared_keys :: "pre_shared_key list"
  cli_key_exchange :: "BaseKeyExchange option"
  cli_key_exchanges :: "(int \<times> BaseKeyExchange) list"
  cli_greases :: "int list"
  cli_extension_order :: "int list"
  cli_inner_transcript :: "Transcript option"
  cli_inner_client_random :: "bytes option"
  cli_inner_extensions_sent :: "int set option"
  cli_peer_cookie :: "bytes option"
  cli_peer_key :: "bytes option"
  cli_peer_cert_request :: "message option"
  cli_peer_ech_retry_configs :: "ech_config list option"
  cli_signing_signature_algorithm :: "int option"

type_synonym ('a, 'b) client_action = "('a TLSClient_scheme, 'b) action"

definition EXTENSION_TYPES :: "int list" where
  "EXTENSION_TYPES = map ext
     [EXT_SERVER_NAME, EXT_STATUS_REQUEST, EXT_SUPPORTED_GROUPS, EXT_EC_POINT_FORMATS, EXT_SIGNATURE_ALGORITHMS,
      EXT_ALPN, EXT_SIGNED_CERTIFICATE_TIMESTAMP, EXT_CLIENT_HELLO_PADDING, EXT_ENCRYPT_THEN_MAC,
      EXT_EXTENDED_MAIN_SECRET, EXT_COMPRESS_CERTIFICATE, EXT_SESSION_TICKET, EXT_PRE_SHARED_KEY, EXT_EARLY_DATA,
      EXT_SUPPORTED_VERSIONS, EXT_COOKIE, EXT_PSK_KEY_EXCHANGE_MODES, EXT_POST_HANDSHAKE_AUTH, EXT_KEY_SHARE,
      EXT_SUPPORTS_NPN, EXT_APPLICATION_SETTINGS, EXT_ECH_OUTER_EXTENSIONS, EXT_ENCRYPTED_CLIENT_HELLO,
      EXT_RENEGOTIATION_INFO]"

definition COMPRESSIBLE_EXTENSIONS :: "int list" where
  "COMPRESSIBLE_EXTENSIONS = map ext
     [EXT_SIGNATURE_ALGORITHMS, EXT_STATUS_REQUEST, EXT_SIGNED_CERTIFICATE_TIMESTAMP, EXT_ALPN,
      EXT_PSK_KEY_EXCHANGE_MODES, EXT_EARLY_DATA, EXT_KEY_SHARE, EXT_COOKIE, EXT_SUPPORTED_GROUPS,
      EXT_COMPRESS_CERTIFICATE, EXT_APPLICATION_SETTINGS, EXT_POST_HANDSHAKE_AUTH]"

text \<open>
  \<open>__init__\<close>.  The two shuffles are the first two requests for random material.  The connection is
  created around the handshake object.
\<close>

definition TLSClient_init :: "environment \<Rightarrow> TLSConfiguration \<Rightarrow> bool \<Rightarrow> TLSClient result" where
  "TLSClient_init E cfg new_session_callback =
     rbind (TLSHandshake_init (env_comp E) False cfg) (\<lambda>h.
     rbind (case cfg_server_hostname cfg of
              Some name \<Rightarrow> check_server_hostname name
            | None \<Rightarrow> if cfg_check_hostname cfg then Inl ValueError else Inr ()) (\<lambda>_.
     if st_ecc_groups (hs_settings h) = [] \<and> list_ex (\<lambda>g. kea g = KEA_ECDHE) (st_cipher_suites (hs_settings h))
     then Inl ValueError
     else Inr (Endpoint.extend (TLSConnection.extend
       (TLSConnection_init (h\<lparr>hs_hostname := cfg_server_hostname cfg, hs_state := cli CLI_START_CONNECT\<rparr>))
       (Endpoint.fields 2))
       (TLSClient.fields (cfg_session cfg) new_session_callback [] [comp COMP_NULL]
         (cfg_encrypt_then_mac cfg) (cfg_extended_master_secret cfg) (cfg_post_handshake_auth cfg)
         (cfg_early_data cfg) (cfg_status_request cfg) (cfg_signed_certificate_timestamp cfg)
         (cfg_client_hello_padding cfg) (cfg_permute_extensions cfg) (cfg_grease cfg)
         {} None None None False [] None [] (env_shuffle E 0 GREASES) (env_shuffle E 1 EXTENSION_TYPES)
         None None None None None None None None))))"

subsection \<open>Extensions of the client hello\<close>

definition get_grease :: "'a TLSClient_scheme \<Rightarrow> nat \<Rightarrow> int" where
  "get_grease s index = cli_greases s ! index"

definition get_cipher_suites :: "'a TLSClient_scheme \<Rightarrow> int list" where
  "get_cipher_suites s = (if cli_enable_grease s then [get_grease s 0] else []) @
     map cs_id (st_cipher_suites (hs_settings s))"

text \<open>\<open>_get_extensions_internal\<close>: the extensions for every version, ...\<close>

definition hello_extensions_common ::
    "'a TLSClient_scheme \<Rightarrow> ClientHelloType \<Rightarrow> extension list result" where
  "hello_extensions_common s hello_type =
     (let st = hs_settings s in
      rbind (if hello_type = CHT_OUTER then
               (case cli_ech_context s of
                  None \<Rightarrow> Inl AssertionError
                | Some c \<Rightarrow> Inr [SNIClientExtension (ec_public_name c)])
             else Inr (case hs_hostname s of
                 Some hostname \<Rightarrow> if ip_address hostname = None then [SNIClientExtension hostname] else []
               | None \<Rightarrow> [])) (\<lambda>sni.
      let supported_groups =
            (if st_maximum_version st \<ge> ver V_TLSv1_3 then Some (st_supported_groups st)
             else if st_ecc_groups st \<noteq> [] \<and> list_ex (\<lambda>c. kea c = KEA_ECDHE) (st_cipher_suites st)
             then Some (st_ecc_groups st) else None)
      in Inr (sni @
        (if cli_enable_status_request s then [StatusRequestClientExtension [] []] else []) @
        (if cli_enable_scts s then [SCTClientExtension] else []) @
        (if st_alpn_protocols st \<noteq> [] then [ALPNClientExtension (st_alpn_protocols st)] else []) @
        (case supported_groups of
           Some groups \<Rightarrow> [SupportedGroupsClientExtension
             ((if cli_enable_grease s then [get_grease s 3] else []) @ groups)]
         | None \<Rightarrow> []) @
        (if st_maximum_version st \<ge> ver V_TLSv1_2
         then [SignatureAlgorithmsExtension (st_signature_algorithms st)] else []))))"

text \<open>... those for TLS 1.2 and below, ...\<close>

definition hello_extensions_legacy :: "'a TLSClient_scheme \<Rightarrow> ClientHelloType \<Rightarrow> extension list" where
  "hello_extensions_legacy s hello_type =
     (let st = hs_settings s in
      if st_minimum_version st \<le> ver V_TLSv1_2 \<and> hello_type \<noteq> CHT_INNER then
        (if \<not> list_ex (cipher_suite_eq TLS_EMPTY_RENEGOTIATION_INFO_SCSV) (st_cipher_suites st)
         then [RenegotiationInfoExtension []] else []) @
        (if st_npn_protocols st \<noteq> [] then [NPNClientExtension] else []) @
        (if cli_enable_etm s then [EncryptThenMacExtension] else []) @
        (if cli_enable_ems s then [ExtendedMasterSecretExtension] else []) @
        (if st_ec_point_formats st \<noteq> [] then [ECPointFormatsExtension (st_ec_point_formats st)] else []) @
        (case cli_session_ticket s of Some ticket \<Rightarrow> [SessionTicketExtension ticket] | None \<Rightarrow> [])
      else [])"

definition ech_client_inner :: ech_client where
  "ech_client_inner = \<lparr>ech_client_hello_type = echt ECHT_INNER, hpke_kdf_id = 0, hpke_aead_id = 0,
     ech_config_id = 0, ech_enc = [], ech_payload = []\<rparr>"

definition key_share_entries :: "environment \<Rightarrow> 'a TLSClient_scheme \<Rightarrow> key_share_entry list result" where
  "key_share_entries E s = map_result (\<lambda>(g, kex).
     rbind (generate_share (env_kex E) kex) (\<lambda>keyshare. Inr \<lparr>group = g, key_exchange = keyshare\<rparr>))
     (cli_key_exchanges s)"

text \<open>... and those for TLS 1.3.  \<open>range(maximum, minimum - 1, -1)\<close> is the reversed interval.\<close>

definition hello_extensions_tls13 ::
    "environment \<Rightarrow> 'a TLSClient_scheme \<Rightarrow> ClientHelloType \<Rightarrow> bool \<Rightarrow> extension list result" where
  "hello_extensions_tls13 E s hello_type is_hrr =
     (let st = hs_settings s in
      if st_maximum_version st < ver V_TLSv1_3 then Inr []
      else
        let minimum = (if hello_type = CHT_INNER then ver V_TLSv1_3 else st_minimum_version st) in
        rbind (key_share_entries E s) (\<lambda>entries.
        Inr ([SupportedVersionsClientExtension
               ((if cli_enable_grease s then [get_grease s 2] else []) @ rev [minimum..st_maximum_version st])] @
          (if st_psk_kex_modes st \<noteq> [] then [PSKKeyExchangeModesExtension (st_psk_kex_modes st)] else []) @
          (if st_certificate_compressions st \<noteq> []
           then [CompressedCertificateExtension (st_certificate_compressions st)] else []) @
          (if st_alps st \<noteq> [] then [ALPSClientExtension (map fst (st_alps st))] else []) @
          (if hello_type = CHT_INNER then [ECHClientExtension ech_client_inner]
           else case cli_ech_client_outer s of Some e \<Rightarrow> [ECHClientExtension e] | None \<Rightarrow> []) @
          [KeyShareClientExtension
             ((if cli_enable_grease s \<and> \<not> is_hrr
               then [\<lparr>group = get_grease s 3, key_exchange = [0]\<rparr>] else []) @ entries)] @
          (case cli_peer_cookie s of Some c \<Rightarrow> [CookieExtension c] | None \<Rightarrow> []) @
          (if cli_enable_pha s then [PostHandshakeAuthExtension] else []) @
          (if hs_early_data_offered s \<and> \<not> is_hrr then [EarlyDataClientExtension] else []))))"

text \<open>The position of a type in the shuffled order; a type that is not there comes last.\<close>

fun order_index :: "int list \<Rightarrow> int \<Rightarrow> nat" where
  "order_index [] t = 0"
| "order_index (u # us) t = (if u = t then 0 else Suc (order_index us t))"

definition get_extensions_internal ::
    "environment \<Rightarrow> ClientHelloType \<Rightarrow> bool \<Rightarrow> 'a TLSClient_scheme \<Rightarrow> extensions result" where
  "get_extensions_internal E hello_type is_hrr s =
     rbind (hello_extensions_common s hello_type) (\<lambda>common.
     rbind (hello_extensions_tls13 E s hello_type is_hrr) (\<lambda>tls13.
     let exts = common @ hello_extensions_legacy s hello_type @ tls13;
         exts = (if cli_enable_permute_extensions s
                 then sort_key (\<lambda>e. order_index (cli_extension_order s) (extension_type e)) exts else exts);
         exts = (if exts \<noteq> [] \<and> cli_enable_grease s
                 then [GenericExtension (get_grease s 1) []] @ exts @ [GenericExtension (get_grease s 4) [0]]
                 else exts)
     in Extensions_from_extensions exts))"

text \<open>The pre-shared keys as identities and binders: random in an outer hello, else with empty binders.\<close>

primrec psk_offers ::
    "environment \<Rightarrow> bool \<Rightarrow> pre_shared_key list \<Rightarrow> ('a, (psk_identity \<times> bytes) list) client_action" where
  "psk_offers E is_outer [] = ret []"
| "psk_offers E is_outer (psk # psks) = (case psk of (k, i, _) \<Rightarrow>
     bnd (if is_outer then
            bnd (get_random_bytes E (length (identity i))) (\<lambda>idn.
            bnd (get_random_bits E 32) (\<lambda>age.
            bnd (get_random_bytes E (ks_digest_size k)) (\<lambda>binder.
            ret (\<lparr>identity = idn, obfuscated_ticket_age = age\<rparr>, binder))))
          else ret (i, replicate (ks_digest_size k) 0)) (\<lambda>offer.
     bnd (psk_offers E is_outer psks) (\<lambda>offers. ret (offer # offers))))"

text \<open>The length of the padding extension, 0 for none.\<close>

definition hello_padding_length :: "int \<Rightarrow> bool \<Rightarrow> int \<Rightarrow> int" where
  "hello_padding_length header_len0 last_was_empty psk_ext_len =
     (let header_len = header_len0 + psk_ext_len;
          padding_len = (if last_was_empty \<and> psk_ext_len = 0 then 1 else 0);
          header_len = (if padding_len \<noteq> 0 then header_len + 4 + padding_len else header_len)
      in if header_len > 0xFF \<and> header_len < 0x200 then
           let header_len = (if padding_len \<noteq> 0 then header_len - (4 + padding_len) else header_len);
               padding_len = 0x200 - header_len
           in if padding_len \<ge> 4 + 1 then padding_len - 4 else 1
         else padding_len)"

definition hello_get_extensions ::
    "environment \<Rightarrow> ClientHelloType \<Rightarrow> int \<Rightarrow> bool \<Rightarrow> ('a, extensions) client_action" where
  "hello_get_extensions E hello_type header_len is_hrr =
     bnd (\<lambda>s. (get_extensions_internal E hello_type is_hrr s, s)) (\<lambda>exts.
     bnd get_state (\<lambda>s.
     let last_was_empty = (if exts \<noteq> [] then snd (last exts) = [] else True) in
     bnd (if cli_pre_shared_keys s \<noteq> []
          then bnd (psk_offers E (hello_type = CHT_OUTER) (cli_pre_shared_keys s)) (\<lambda>offers.
               ret (Some (PSKClientExtension (map fst offers) (map snd offers))))
          else ret None) (\<lambda>psk_ext.
     bnd (if cli_enable_client_hello_padding s \<and> hello_type \<noteq> CHT_INNER then
            bnd (case psk_ext of
                   Some e \<Rightarrow> bnd (lift_result (ext_to_bytes e)) (\<lambda>d. ret (int (length d)))
                 | None \<Rightarrow> ret 0) (\<lambda>psk_ext_len.
            let header = header_len + 4 + 2 + int (sum_list (map (length \<circ> snd) exts));
                padding_len = hello_padding_length header last_was_empty psk_ext_len
            in if padding_len \<noteq> 0
               then lift_result (Extensions_append (ClientHelloPaddingExtension padding_len) exts)
               else ret exts)
          else ret exts) (\<lambda>exts.
     bnd (case psk_ext of
            Some e \<Rightarrow> lift_result (Extensions_append e exts)
          | None \<Rightarrow> ret exts) (\<lambda>exts.
     thn (if hello_type = CHT_INNER
          then modify (\<lambda>s. s\<lparr>cli_inner_extensions_sent := Some (set (get_types exts))\<rparr>)
          else modify (\<lambda>s. s\<lparr>cli_extensions_sent := set (get_types exts)\<rparr>))
     (ret exts))))))"

subsection \<open>The client hello\<close>

text \<open>The binders are computed over the hello without them, and replace the dummies.\<close>

definition update_binders ::
    "crypto \<Rightarrow> pre_shared_key list \<Rightarrow> Transcript \<Rightarrow> client_hello \<Rightarrow> client_hello option \<Rightarrow>
     (client_hello \<times> client_hello option) result" where
  "update_binders cr pre_shared_keys transcript client_hello encoded_client_hello =
     (let exts = ch_extensions client_hello in
      if exts = [] then Inl AssertionError
      else if fst (last exts) \<noteq> ext EXT_PRE_SHARED_KEY then Inl AssertionError
      else
        rbind (pack_message (ClientHello client_hello)) (\<lambda>handshake_data.
        let total_length = 2 + sum_list (map (\<lambda>(k, _). 1 + ks_digest_size k) pre_shared_keys);
            transcript = snd (update_hash (take (length handshake_data - total_length) handshake_data) transcript)
        in
        rbind (map_result (\<lambda>(ks, _, binder_key). fst (finished_verify_data cr ks binder_key transcript))
                 pre_shared_keys) (\<lambda>binders.
        let psk_ext = PSKClientExtension (map (\<lambda>(_, i, _). i) pre_shared_keys) binders in
        rbind (Extensions_replace psk_ext exts) (\<lambda>exts.
        rbind (case encoded_client_hello of
                 Some e \<Rightarrow> rbind (Extensions_append psk_ext (ch_extensions e)) (\<lambda>es.
                   Inr (Some (e\<lparr>ch_extensions := es\<rparr>)))
               | None \<Rightarrow> Inr None) (\<lambda>encoded.
        Inr (client_hello\<lparr>ch_extensions := exts\<rparr>, encoded))))))"

definition hello_without_extensions :: "'a TLSClient_scheme \<Rightarrow> bytes \<Rightarrow> bytes \<Rightarrow> client_hello" where
  "hello_without_extensions s random session_id =
     \<lparr>ch_version = hs_client_version s, ch_random = random, ch_session_id = session_id,
      ch_cipher_suites = get_cipher_suites s, ch_compression_methods = cli_compression_methods s,
      ch_extensions = []\<rparr>"

definition build_client_hello :: "environment \<Rightarrow> bool \<Rightarrow> ('a, client_hello) client_action" where
  "build_client_hello E is_hrr = bnd get_state (\<lambda>s.
     let client_hello = hello_without_extensions s (hs_client_random s) (hs_session_id s) in
     bnd (lift_result (ClientHello_to_bytes client_hello)) (\<lambda>header.
     bnd (hello_get_extensions E (if cli_ech_context s \<noteq> None then CHT_OUTER else CHT_UNENCRYPTED)
            (int (length header)) is_hrr) (\<lambda>exts.
     let client_hello = client_hello\<lparr>ch_extensions := exts\<rparr> in
     if cli_pre_shared_keys s \<noteq> [] then
       bnd (lift_result (update_binders (env_crypto E) (cli_pre_shared_keys s)
              (Transcript_copy (hs_transcript s)) client_hello None)) (\<lambda>(client_hello, _).
       ret client_hello)
     else ret client_hello)))"

text \<open>
  The extensions of an inner hello, in three groups: those that are sent as they are, those that the
  outer hello has as well and that are replaced by a reference, and the pre-shared key.
\<close>

definition split_inner_extensions :: "extensions \<Rightarrow> extensions \<times> extensions \<times> (int \<times> bytes) option" where
  "split_inner_extensions inner =
     (let is_psk = (\<lambda>e. fst e = ext EXT_PRE_SHARED_KEY);
          is_comp = (\<lambda>e. fst e \<in> set (COMPRESSIBLE_EXTENSIONS @ GREASES))
      in ([e \<leftarrow> inner. \<not> is_psk e \<and> \<not> is_comp e], [e \<leftarrow> inner. \<not> is_psk e \<and> is_comp e],
          (case rev [e \<leftarrow> inner. is_psk e] of [] \<Rightarrow> None | e # _ \<Rightarrow> Some e)))"

definition inner_padding_length :: "ECHContext \<Rightarrow> bytes option \<Rightarrow> int \<Rightarrow> int" where
  "inner_padding_length ech_context hostname encoded_len =
     (let maximum_name = ec_maximum_name_length ech_context;
          padding_len = (case hostname of
            Some name \<Rightarrow>
              (if int (length name) \<le> maximum_name then maximum_name - int (length name) else 0)
          | None \<Rightarrow> 9 + maximum_name)
      in padding_len + (31 - (encoded_len + padding_len - 1) mod 32))"

definition on_hpke_context :: "(hpke_context, 'b) action \<Rightarrow> ('a, 'b) client_action" where
  "on_hpke_context m = (\<lambda>s. case cli_ech_context s of
     None \<Rightarrow> (Inl AssertionError, s)
   | Some c \<Rightarrow> (case m (ec_hpke_context c) of
       (r, h) \<Rightarrow> (r, s\<lparr>cli_ech_context := Some (c\<lparr>ec_hpke_context := h\<rparr>)\<rparr>)))"

text \<open>The inner hello and its encoding without padding; the inner transcript is advanced by the hello.\<close>

definition build_inner_hello :: "environment \<Rightarrow> bool \<Rightarrow> ('a, bytes) client_action" where
  "build_inner_hello E is_hrr = bnd get_state (\<lambda>s.
     bnd (assert_some (cli_ech_context s)) (\<lambda>_.
     bnd (assert_some (cli_inner_transcript s)) (\<lambda>inner_transcript.
     bnd (assert_some (cli_inner_client_random s)) (\<lambda>inner_client_random.
     bnd (hello_get_extensions E CHT_INNER 0 is_hrr) (\<lambda>inner_extensions.
     let (plain, compressed, psk_ext) = split_inner_extensions inner_extensions in
     bnd (if compressed \<noteq> []
          then bnd (lift_result (ext_to_bytes (ECHOuterExtension (map fst compressed)))) (\<lambda>d.
               ret (plain @ [(ext EXT_ECH_OUTER_EXTENSIONS, d)]))
          else ret plain) (\<lambda>encoded_extensions.
     let exts = plain @ compressed @ (case psk_ext of Some e \<Rightarrow> [e] | None \<Rightarrow> []);
         inner_hello = (hello_without_extensions s inner_client_random (hs_session_id s))\<lparr>ch_extensions := exts\<rparr>;
         encoded = (hello_without_extensions s inner_client_random [])\<lparr>ch_extensions := encoded_extensions\<rparr>
     in
     bnd (if psk_ext \<noteq> None
          then bnd (lift_result (update_binders (env_crypto E) (cli_pre_shared_keys s)
                      (Transcript_copy inner_transcript) inner_hello (Some encoded))) (\<lambda>(h, e).
               ret (h, case e of Some e \<Rightarrow> e | None \<Rightarrow> encoded))
          else ret (inner_hello, encoded)) (\<lambda>(inner_hello, encoded).
     bnd (lift_result (pack_message (ClientHello inner_hello))) (\<lambda>packed.
     thn (modify (\<lambda>s. s\<lparr>cli_inner_transcript := Some (snd (update_hash packed inner_transcript))\<rparr>))
     (lift_result (ClientHello_to_bytes encoded))))))))))"

definition build_encrypted_client_hello :: "environment \<Rightarrow> bool \<Rightarrow> ('a, client_hello) client_action" where
  "build_encrypted_client_hello E is_hrr =
     bnd (build_inner_hello E is_hrr) (\<lambda>encoded_data0.
     bnd get_state (\<lambda>s.
     bnd (assert_some (cli_ech_context s)) (\<lambda>ech_context.
     let padding_len = inner_padding_length ech_context (hs_hostname s) (int (length encoded_data0));
         encoded_data = encoded_data0 @ replicate (nat padding_len) 0;
         payload_len = length encoded_data + aead_overhead (ec_hpke_context ech_context);
         client_outer = \<lparr>ech_client_hello_type = echt ECHT_OUTER, hpke_kdf_id = ec_kdf_id ech_context,
           hpke_aead_id = ec_aead_id ech_context, ech_config_id = ec_config_id ech_context,
           ech_enc = (if is_hrr then [] else ec_enc ech_context), ech_payload = replicate payload_len 0\<rparr>;
         outer_hello = hello_without_extensions s (hs_client_random s) (hs_session_id s)
     in
     thn (modify (\<lambda>s. s\<lparr>cli_ech_client_outer := Some client_outer\<rparr>))
     (bnd (lift_result (ClientHello_to_bytes outer_hello)) (\<lambda>header.
     bnd (hello_get_extensions E CHT_OUTER (int (length header)) is_hrr) (\<lambda>extensions_outer.
     bnd (lift_result (ClientHello_to_bytes (outer_hello\<lparr>ch_extensions := extensions_outer\<rparr>))) (\<lambda>aad.
     bnd (on_hpke_context (hpke_seal (env_crypto E) encoded_data aad)) (\<lambda>payload.
     thn (assert_that (length payload = payload_len))
     (let client_outer = client_outer\<lparr>ech_payload := payload\<rparr> in
     thn (modify (\<lambda>s. s\<lparr>cli_ech_client_outer := Some client_outer\<rparr>))
     (bnd (lift_result (Extensions_replace (ECHClientExtension client_outer) extensions_outer)) (\<lambda>exts.
     ret (outer_hello\<lparr>ch_extensions := exts\<rparr>))))))))))))"

subsection \<open>Encrypted client hello\<close>

text \<open>The first pair of algorithms of a configuration that the program has, with the peer's key.\<close>

primrec first_hpke_suite ::
    "hpke_lib \<Rightarrow> ech_config \<Rightarrow> (int \<times> int) list \<Rightarrow> (int \<times> int \<times> hpke_suite \<times> hpke_public) option result" where
  "first_hpke_suite l config [] = Inr None"
| "first_hpke_suite l config (cs # css) = (case cs of (kdf_id, aead_id) \<Rightarrow>
     (case rbind (create_suite (kem_id config) kdf_id aead_id) (\<lambda>suite.
           rbind (deserialize_public_key l (su_kem suite) (public_key config)) (\<lambda>pk. Inr (suite, pk))) of
        Inr (suite, pk) \<Rightarrow> Inr (Some (kdf_id, aead_id, suite, pk))
      | Inl e \<Rightarrow> if e = ValueError then first_hpke_suite l config css else Inl e))"

primrec select_ech_config :: "environment \<Rightarrow> ech_config list \<Rightarrow> ('a, ECHContext option) endpoint_action" where
  "select_ech_config E [] = ret None"
| "select_ech_config E (config # configs) =
     (if \<not> ECHConfig_supported False config then select_ech_config E configs
      else
        bnd (lift_result (first_hpke_suite (env_hpke E) config (ech_cipher_suites config))) (\<lambda>found.
        case found of
          None \<Rightarrow> select_ech_config E configs
        | Some (kdf_id, aead_id, suite, pk) \<Rightarrow>
            bnd (lift_result (ECHConfig_to_bytes config)) (\<lambda>config_bytes.
            bnd (draw (env_private E)) (\<lambda>material.
            bnd (lift_result (setup_send (env_crypto E) (env_hpke E) material suite pk
                   (ascii ''tls ech'' @ [0] @ config_bytes))) (\<lambda>(enc, ctx).
            ret (Some \<lparr>ec_kdf_id = kdf_id, ec_aead_id = aead_id, ec_kem_id = kem_id config,
              ec_config_id = config_id config, ec_public_name = public_name config,
              ec_maximum_name_length = maximum_name_length config, ec_extensions = ech_extensions config,
              ec_enc = enc, ec_hpke_context = ctx\<rparr>))))))"

text \<open>
  \<open>_check_ech_confirmation\<close>.  The server hello is put back as it was before the method returns, and the
  transcript is a copy.
\<close>

definition check_ech_confirmation ::
    "crypto \<Rightarrow> server_hello \<Rightarrow> Transcript \<Rightarrow> bool \<Rightarrow> ('a, bool) client_action" where
  "check_ech_confirmation cr server_hello transcript is_hrr = bnd get_state (\<lambda>s.
     bnd (assert_some (hs_key_schedule s)) (\<lambda>key_schedule.
     bnd (assert_some (cli_inner_client_random s)) (\<lambda>inner_client_random.
     bnd (if is_hrr then
            bnd (lift_result (Extensions_get ECHHRR_class (sh_extensions server_hello))) (\<lambda>e.
            case e of
              Some (ECHHRRExtension expected) \<Rightarrow>
                bnd (lift_result (Extensions_replace (ECHHRRExtension (replicate 8 0)) (sh_extensions server_hello)))
                  (\<lambda>exts. ret (Some (ascii ''hrr ech accept confirmation'', expected,
                    server_hello\<lparr>sh_extensions := exts\<rparr>)))
            | _ \<Rightarrow> ret None)
          else
            let random = sh_random server_hello; n = length random - 8 in
            ret (Some (ascii ''ech accept confirmation'', drop n random,
              server_hello\<lparr>sh_random := take n random @ replicate 8 0\<rparr>))) (\<lambda>found.
     case found of
       None \<Rightarrow> ret False
     | Some (label, expected, zeroed) \<Rightarrow>
         bnd (lift_result (pack_message (ServerHello zeroed))) (\<lambda>packed.
         bnd (lift_result (fst (ech_accept_confirmation cr key_schedule inner_client_random label
                (snd (update_hash packed transcript))))) (\<lambda>accept_confirmation.
         ret (compare_digest accept_confirmation expected)))))))"

end
