(* ===== verification/Client_Flow.thy ===== *)
theory Client_Flow
  imports Client_Hello
begin

text \<open>
  The handlers of the client up to TLS 1.2: the second part of
  \<open>src/simple_tls/tls/handshake_client.py\<close>.  A handler is an action that returns the \<open>Status\<close> the
  record layer acts on; a handler that has no message to work on returns \<open>ST_READ_HANDSHAKE\<close> and
  leaves the state as it is.
\<close>

subsection \<open>Start\<close>

primrec start_key_shares :: "environment \<Rightarrow> int list \<Rightarrow> ('a, unit) client_action" where
  "start_key_shares E [] = ret ()"
| "start_key_shares E (g # groups) =
     bnd (ep_get_key_exchange E g) (\<lambda>kex.
     thn (case kex of
            Some k \<Rightarrow> modify (\<lambda>s. s\<lparr>cli_key_exchanges := dict_set g k (cli_key_exchanges s)\<rparr>)
          | None \<Rightarrow> ret ())
     (start_key_shares E groups))"

definition grease_ech :: "environment \<Rightarrow> ('a, ech_client) client_action" where
  "grease_ech E =
     bnd (get_random_bytes E 1) (\<lambda>cid.
     bnd (get_random_bytes E 32) (\<lambda>enc.
     bnd (get_random_int E 180 205) (\<lambda>n.
     bnd (get_random_bytes E (nat n)) (\<lambda>payload.
     ret \<lparr>ech_client_hello_type = echt ECHT_OUTER, hpke_kdf_id = hpke_kdf HKDF_HKDF_SHA256,
          hpke_aead_id = hpke_aead HAEAD_AES_128_GCM, ech_config_id = bytes_to_int cid,
          ech_enc = enc, ech_payload = payload\<rparr>))))"

definition start_tls13 :: "environment \<Rightarrow> ('a, unit) client_action" where
  "start_tls13 E = bnd get_state (\<lambda>s.
     let configuration = st_configuration (hs_settings s) in
     thn (do_if (cfg_middlebox_compat configuration)
           (bnd (get_random_bytes E 32) (\<lambda>r. modify (\<lambda>s. s\<lparr>hs_session_id := r\<rparr>))))
     (thn (start_key_shares E (take 2 (st_supported_groups (hs_settings s))))
     (thn (case cfg_peer_ech_configs configuration of
             None \<Rightarrow> ret ()
           | Some configs \<Rightarrow>
               bnd (select_ech_config E configs) (\<lambda>ctx.
               case ctx of
                 None \<Rightarrow> ret ()
               | Some c \<Rightarrow>
                   bnd (get_random_bytes E 32) (\<lambda>r.
                   modify (\<lambda>s. s\<lparr>cli_ech_context := Some c, cli_inner_transcript := Some Transcript_init,
                     cli_inner_client_random := Some r\<rparr>))))
     (bnd (gets cli_ech_context) (\<lambda>c.
      do_if (c = None \<and> cfg_grease_ech configuration)
        (bnd (grease_ech E) (\<lambda>e. modify (\<lambda>s. s\<lparr>cli_ech_client_outer := Some e\<rparr>))))))))"

text \<open>The configured session, if it can be offered.\<close>

definition usable_session :: "environment \<Rightarrow> ('a, TLSSession option) client_action" where
  "usable_session E = bnd get_state (\<lambda>s.
     case cli_offered_session s of
       None \<Rightarrow> ret None
     | Some session \<Rightarrow>
         if s_is_server session then ret None
         else
           bnd (utcnow E) (\<lambda>now.
           bnd (lift_result (time_valid now session)) (\<lambda>valid.
           if \<not> valid then ret None
           else
             bnd (lift_result (session_protocol_version session)) (\<lambda>v.
             ret (if v \<ge> st_minimum_version (hs_settings s) \<and> v \<le> st_maximum_version (hs_settings s) \<and>
                     \<not> (v < ver V_TLSv1_3 \<and> cli_ech_context s \<noteq> None)
                  then Some session else None)))))"

definition offer_psk :: "environment \<Rightarrow> TLSSession \<Rightarrow> cipher_suite \<Rightarrow> ('a, unit) client_action" where
  "offer_psk E session cs =
     bnd (utcnow E) (\<lambda>now.
     let idn = \<lparr>identity = s_ticket session,
           obfuscated_ticket_age = obfuscated_age ((now - s_time session) div 1000) session\<rparr> in
     bnd (lift_result (KeySchedule_init (env_crypto E) (hash_id (cipher_suite.prf_hash cs)))) (\<lambda>ks0.
     let ks = snd (ks_extract (env_crypto E) (Some (s_secret session)) ks0) in
     thn (lift_result (fst (ks_extract (env_crypto E) (Some (s_secret session)) ks0)))
     (bnd (on_transcript (derive_secret (env_crypto E) ks (ascii ''res binder''))) (\<lambda>binder_key.
     thn (modify (\<lambda>s. s\<lparr>cli_pre_shared_keys := [(ks, idn, binder_key)]\<rparr>))
     (bnd get_state (\<lambda>s.
      do_if (cli_enable_early_data s \<and> length (cli_pre_shared_keys s) = 1 \<and>
             s_ticket_max_early_data session > 0 \<and>
             (case s_early_alpn session of
                None \<Rightarrow> True | Some p \<Rightarrow> p \<in> set (st_alpn_protocols (hs_settings s))))
        (modify (\<lambda>s. s\<lparr>hs_early_data_offered := True\<rparr>))))))))"

definition offer_session :: "environment \<Rightarrow> TLSSession \<Rightarrow> ('a, unit) client_action" where
  "offer_session E session =
     bnd (assert_some (s_cipher_suite session)) (\<lambda>cs.
     bnd (lift_result (session_protocol_version session)) (\<lambda>v.
     if v \<ge> ver V_TLSv1_3 then do_if (s_ticket session \<noteq> []) (offer_psk E session cs)
     else if s_ticket session \<noteq> [] then
       bnd (get_random_bytes E 32) (\<lambda>r.
       modify (\<lambda>s. s\<lparr>hs_session_id := r, cli_session_ticket := Some (s_ticket session)\<rparr>))
     else do_if (s_session_id session \<noteq> []) (modify (\<lambda>s. s\<lparr>hs_session_id := s_session_id session\<rparr>))))"

definition do_start_connect :: "environment \<Rightarrow> ('a, Status) client_action" where
  "do_start_connect E =
     thn (modify (\<lambda>s. s\<lparr>hs_session_reused := False\<rparr>))
     (bnd (get_random_bytes E 32) (\<lambda>r.
     thn (modify (\<lambda>s. s\<lparr>hs_client_random := r,
            hs_client_version := min (st_maximum_version (hs_settings s)) (ver V_TLSv1_2)\<rparr>))
     (bnd get_state (\<lambda>s.
     thn (do_if (st_maximum_version (hs_settings s) \<ge> ver V_TLSv1_3) (start_tls13 E))
     (bnd (usable_session E) (\<lambda>session.
     thn (case session of Some x \<Rightarrow> offer_session E x | None \<Rightarrow> ret ())
     (thn (modify (\<lambda>s. if cli_new_session_callback s \<and> cli_session_ticket s = None
                       then s\<lparr>cli_session_ticket := Some []\<rparr> else s))
     (bnd (gets cli_ech_context) (\<lambda>c.
     bnd (if c \<noteq> None then build_encrypted_client_hello E False else build_client_hello E False) (\<lambda>client_hello.
     thn (add_message (ClientHello client_hello) True)
     (goto (cli CLI_ENTER_EARLY_DATA) ST_FLUSH_HANDSHAKE)))))))))))"

definition do_enter_early_data :: "environment \<Rightarrow> ('a, Status) client_action" where
  "do_enter_early_data E = bnd get_state (\<lambda>s.
     if \<not> hs_early_data_offered s then goto (cli CLI_READ_SERVER_HELLO) ST_OK
     else
       bnd (assert_some (cli_offered_session s)) (\<lambda>offered.
       bnd (assert_some (s_cipher_suite offered)) (\<lambda>_.
       bnd (utcnow E) (\<lambda>now.
       thn (modify (\<lambda>s. s\<lparr>hs_session := Some (session_copy True False now offered),
              hs_version := s_version offered, hs_is_early_version := True\<rparr>))
       (bnd (case cli_pre_shared_keys s of [] \<Rightarrow> raise IndexError | (ks, _, _) # _ \<Rightarrow> ret ks) (\<lambda>ks.
       thn (modify (\<lambda>s. s\<lparr>hs_key_schedule := Some ks\<rparr>))
       (bnd (if cli_ech_context s \<noteq> None then assert_some (cli_inner_transcript s)
             else ret (hs_transcript s)) (\<lambda>transcript.
       thn (derive_secret_tls13 (env_crypto E) DIR_WRITE EPOCH_ZERO_RTT (ascii ''c e traffic'') transcript)
       (thn (hs_setup_traffic_tls13 (ep_setup_traffic E) DIR_WRITE EPOCH_ZERO_RTT)
       (thn (modify (\<lambda>s. s\<lparr>hs_in_early_data := True, hs_can_early_write := True\<rparr>))
       (if cfg_middlebox_compat (st_configuration (hs_settings s))
        then goto (cli CLI_ENTER_EARLY_DATA_COMPAT) ST_WRITE_CHANGE_CIPHER_SPEC
        else goto (cli CLI_READ_SERVER_HELLO) ST_EARLY_RETURN)))))))))))"

definition do_enter_early_data_compat_css :: "('a, Status) client_action" where
  "do_enter_early_data_compat_css = goto (cli CLI_READ_SERVER_HELLO) ST_EARLY_RETURN"

subsection \<open>Extensions of the server\<close>

text \<open>\<open>_process_extensions\<close>: the part for TLS 1.3, ...\<close>

definition process_extensions_tls13 :: "extensions \<Rightarrow> ('a, unit) client_action" where
  "process_extensions_tls13 exts =
     bnd (ext_get ECHServer_class exts) (\<lambda>ech_ext.
     thn (case ech_ext of
            Some (ECHServerExtension retry_configs) \<Rightarrow>
              bnd (gets hs_ech_status) (\<lambda>status.
              thn (raise_if (status = ECH_ACCEPTED) AlertIllegalParameter)
              (modify (\<lambda>s. s\<lparr>cli_peer_ech_retry_configs := Some retry_configs\<rparr>)))
          | _ \<Rightarrow> ret ())
     (bnd (ext_get EarlyDataServer_class exts) (\<lambda>early_data_ext.
      bnd get_state (\<lambda>s.
      if early_data_ext \<noteq> None then
        thn (raise_if (hs_hello_retry_request_used s) AlertUnsupportedExtension)
        (thn (assert_that (hs_early_data_offered s))
        (modify (\<lambda>s. s\<lparr>hs_early_data_status := EDS_ACCEPTED\<rparr>)))
      else do_if (hs_early_data_offered s) (modify (\<lambda>s. s\<lparr>hs_early_data_status := EDS_REJECTED\<rparr>))))))"

text \<open>... and the part for the versions below.\<close>

definition process_renegotiation_info :: "extensions \<Rightarrow> ('a, unit) client_action" where
  "process_renegotiation_info exts =
     bnd (ext_get RenegotiationInfo_class exts) (\<lambda>ri_ext.
     bnd get_state (\<lambda>s.
     case ri_ext of
       Some (RenegotiationInfoExtension data) \<Rightarrow>
         thn (raise_if (data \<noteq> []) AlertIllegalParameter)
         (modify (\<lambda>s. s\<lparr>hs_secure_renegotiation := True\<rparr>))
     | _ \<Rightarrow> raise_if (\<not> cfg_legacy_server_connect (st_configuration (hs_settings s))) AlertInsufficientSecurity))"

definition process_extensions_legacy :: "cipher_suite \<Rightarrow> extensions \<Rightarrow> ('a, unit) client_action" where
  "process_extensions_legacy cs exts =
     thn (process_renegotiation_info exts)
     (bnd (ext_get SessionTicket_class exts) (\<lambda>session_ticket_ext.
     thn (do_if (session_ticket_ext \<noteq> None) (modify (\<lambda>s. s\<lparr>cli_ticket_expected := True\<rparr>)))
     (bnd (ext_get ExtendedMasterSecret_class exts) (\<lambda>ems_ext.
     thn (do_if (ems_ext \<noteq> None) (modify (\<lambda>s. s\<lparr>hs_extended_master_secret := True\<rparr>)))
     (bnd (ext_get EncryptThenMac_class exts) (\<lambda>etm_ext.
     thn (do_if (etm_ext \<noteq> None)
           (thn (raise_if (symmetric cs \<notin> {SYM_AES_128_CBC, SYM_AES_256_CBC, SYM_TRIPLE_DES_EDE_CBC})
                  AlertIllegalParameter)
           (modify (\<lambda>s. s\<lparr>hs_encrypt_then_mac := True\<rparr>))))
     (bnd (ext_get ECPointFormats_class exts) (\<lambda>ecpfs_ext.
     bnd (gets hs_settings) (\<lambda>st.
     thn (case ecpfs_ext of
            Some (ECPointFormatsExtension data) \<Rightarrow>
              thn (lift_result (negotiate (st_ec_point_formats st) (Some data) (Some AlertIllegalParameter)))
              (ret ())
          | _ \<Rightarrow> ret ())
     (bnd (ext_get NPNServer_class exts) (\<lambda>npn_ext.
     case npn_ext of
       Some (NPNServerExtension protocols) \<Rightarrow>
         bnd (lift_result (negotiate (st_npn_protocols st) (Some protocols) None)) (\<lambda>p.
         modify (\<lambda>s. s\<lparr>hs_npn_protocol := Some (case p of Some x \<Rightarrow> x | None \<Rightarrow> hd protocols)\<rparr>))
     | _ \<Rightarrow> ret ())))))))))))"

definition TLS13_ALLOWED :: "int list" where
  "TLS13_ALLOWED = map ext [EXT_SERVER_NAME, EXT_ALPN, EXT_SUPPORTED_GROUPS, EXT_APPLICATION_SETTINGS,
     EXT_ENCRYPTED_CLIENT_HELLO, EXT_EARLY_DATA]"

definition LEGACY_ALLOWED :: "int list" where
  "LEGACY_ALLOWED = map ext [EXT_SERVER_NAME, EXT_ALPN, EXT_RENEGOTIATION_INFO, EXT_STATUS_REQUEST,
     EXT_EXTENDED_MAIN_SECRET, EXT_SUPPORTS_NPN, EXT_SESSION_TICKET, EXT_ENCRYPT_THEN_MAC,
     EXT_EC_POINT_FORMATS]"

definition process_extensions :: "extensions \<Rightarrow> ('a, unit) client_action" where
  "process_extensions exts = bnd get_state (\<lambda>s.
     thn (raise_if (\<not> set (remove1 (ext EXT_RENEGOTIATION_INFO) (get_types exts)) \<subseteq> cli_extensions_sent s)
            AlertUnsupportedExtension)
     (bnd current_cipher_suite (\<lambda>cs.
     bnd protocol_version (\<lambda>version.
     bnd (ext_get ALPNServer_class exts) (\<lambda>alpn_ext.
     thn (case alpn_ext of
            Some (ALPNServerExtension protocol) \<Rightarrow>
              thn (raise_if (protocol \<notin> set (st_alpn_protocols (hs_settings s))) AlertIllegalParameter)
              (modify (\<lambda>s. s\<lparr>hs_alpn_protocol := Some protocol\<rparr>))
          | _ \<Rightarrow> ret ())
     (thn (if version \<ge> ver V_TLSv1_3 then process_extensions_tls13 exts else process_extensions_legacy cs exts)
     (raise_if (\<not> has_allowed (if version \<ge> ver V_TLSv1_3 then TLS13_ALLOWED else LEGACY_ALLOWED) exts)
        AlertUnsupportedExtension)))))))"

subsection \<open>Server hello\<close>

text \<open>The version that a server hello selects.\<close>

definition server_hello_version :: "handshake_settings \<Rightarrow> server_hello \<Rightarrow> int result" where
  "server_hello_version st sh =
     (let server_version = sh_version sh in
      if \<not> (ver V_TLSv1 \<le> server_version \<and> server_version \<le> ver V_TLSv1_2) then Inl AlertProtocolVersion
      else
        rbind (Extensions_get SupportedVersionsServer_class (sh_extensions sh)) (\<lambda>supported_vers_ext.
        rbind (case supported_vers_ext of
                 Some (SupportedVersionsServerExtension data) \<Rightarrow>
                   if \<not> st_maximum_version st > ver V_TLSv1_2 then Inl AlertIllegalParameter
                   else if \<not> server_version = ver V_TLSv1_2 then Inl AlertIllegalParameter
                   else if \<not> data > ver V_TLSv1_2 then Inl AlertIllegalParameter
                   else Inr data
               | _ \<Rightarrow> Inr server_version) (\<lambda>server_version.
        if server_version < st_minimum_version st then Inl AlertProtocolVersion
        else if server_version > st_maximum_version st then Inl AlertProtocolVersion
        else Inr server_version)))"

text \<open>RFC 8446, section 4.1.3.\<close>

definition downgrade_detected :: "int \<Rightarrow> int \<Rightarrow> bytes \<Rightarrow> bool" where
  "downgrade_detected maximum version random \<longleftrightarrow>
     (let sentinel = drop (length random - 8) random in
      sentinel \<in> {TLS12_DOWNGRADE_SENTINEL, TLS11_DOWNGRADE_SENTINEL} \<and> maximum \<ge> ver V_TLSv1_3 \<and>
        version < ver V_TLSv1_3 \<or>
      sentinel = TLS11_DOWNGRADE_SENTINEL \<and> maximum = ver V_TLSv1_2 \<and> version < ver V_TLSv1_2)"

text \<open>The cipher suite that a server hello selects.\<close>

definition server_hello_cipher_suite :: "handshake_settings \<Rightarrow> int \<Rightarrow> int \<Rightarrow> cipher_suite result" where
  "server_hello_cipher_suite st version suite_id =
     rbind (except (CipherSuite_of suite_id) [ValueError] AlertIllegalParameter) (\<lambda>cs.
     if \<not> list_ex (cipher_suite_eq cs) (st_cipher_suites st) then Inl AlertIllegalParameter
     else if \<not> (minimum_version cs \<le> version \<and> version \<le> maximum_version cs) then Inl AlertIllegalParameter
     else Inr cs)"

text \<open>Resumption by an echoed session identifier, or a new session.\<close>

definition server_hello_session :: "environment \<Rightarrow> server_hello \<Rightarrow> cipher_suite \<Rightarrow> ('a, unit) client_action" where
  "server_hello_session E sh cs = bnd get_state (\<lambda>s.
     if hs_session_id s \<noteq> [] \<and> sh_session_id sh = hs_session_id s then
       (case cli_offered_session s of
          None \<Rightarrow> raise AlertIllegalParameter
        | Some offered \<Rightarrow>
            thn (raise_if (hs_ech_status s = ECH_REJECTED) AlertIllegalParameter)
            (thn (raise_if (s_version offered \<noteq> hs_version s) AlertIllegalParameter)
            (thn (raise_if (suite_differs (s_cipher_suite offered) (Some cs)) AlertIllegalParameter)
            (thn (modify (\<lambda>s. s\<lparr>hs_session_reused := True\<rparr>))
            (bnd (utcnow E) (\<lambda>now.
            set_session (session_copy True False now offered)))))))
     else
       bnd (ep_get_new_session E) (\<lambda>session.
       set_session (session\<lparr>s_session_id := sh_session_id sh, s_cipher_suite := Some cs\<rparr>)))"

definition early_data_needs_version :: "('a, unit) client_action" where
  "early_data_needs_version = bnd get_state (\<lambda>s.
     do_if (hs_early_data_offered s)
       (bnd (assert_some (cli_offered_session s)) (\<lambda>offered.
        do_if (hs_version s \<noteq> s_version offered)
          (bnd protocol_version (\<lambda>v.
           thn (assert_that (v \<le> ver V_TLSv1_2))
           (bnd (lift_result (session_protocol_version offered)) (\<lambda>ov.
            thn (assert_that (ov \<ge> ver V_TLSv1_3))
            (raise AlertProtocolVersion))))))))"

definition process_server_hello :: "environment \<Rightarrow> server_hello \<Rightarrow> ('a, Status) client_action" where
  "process_server_hello E sh = bnd (gets hs_settings) (\<lambda>st.
     bnd (lift_result (server_hello_version st sh)) (\<lambda>server_version.
     thn (modify (\<lambda>s. s\<lparr>hs_version := server_version, hs_is_early_version := False\<rparr>))
     (bnd (gets cli_compression_methods) (\<lambda>methods.
     thn (raise_if (sh_compression_method sh \<notin> set methods) AlertIllegalParameter)
     (thn early_data_needs_version
     (bnd protocol_version (\<lambda>version.
     if version \<ge> ver V_TLSv1_3 then goto (cli CLI_COMPAT_CSS_TLS13) ST_OK
     else
       thn (raise_if (downgrade_detected (st_maximum_version st) version (sh_random sh)) AlertIllegalParameter)
       (thn (modify (\<lambda>s. if cli_ech_context s \<noteq> None then s\<lparr>hs_ech_status := ECH_REJECTED\<rparr> else s))
       (thn (modify (\<lambda>s. s\<lparr>hs_server_random := sh_random sh\<rparr>))
       (bnd (lift_result (server_hello_cipher_suite st version (sh_cipher_suite sh))) (\<lambda>cs.
       thn (modify (\<lambda>s. s\<lparr>hs_cipher_suite := Some cs\<rparr>))
       (thn (server_hello_session E sh cs)
       (thn (process_extensions (sh_extensions sh))
       (bnd get_state (\<lambda>s.
       thn (do_if (hs_session_reused s)
             (bnd current_session (\<lambda>session.
              thn (raise_if (s_extended_master_secret session \<noteq> hs_extended_master_secret s) AlertHandshakeFailure)
              (derive_key (env_crypto E) (s_secret session)))))
       (thn (next_handshake True)
       (goto (cli CLI_READ_SERVER_CERTIFICATE) ST_OK)))))))))))))))))"

definition do_read_server_hello :: "environment \<Rightarrow> ('a, Status) client_action" where
  "do_read_server_hello E = with_handshake (\<lambda>_.
     bnd (parse_as ServerHello_msg) (\<lambda>m.
     case m of ServerHello sh \<Rightarrow> process_server_hello E sh | _ \<Rightarrow> raise TypeError))"

subsection \<open>The server's flight up to TLS 1.2\<close>

definition do_read_server_certificate :: "environment \<Rightarrow> ('a, Status) client_action" where
  "do_read_server_certificate E = bnd get_state (\<lambda>s.
     if hs_session_reused s then goto (cli CLI_READ_SESSION_TICKET) ST_OK
     else
       bnd (assert_some (hs_cipher_suite s)) (\<lambda>cs.
       if auth cs = AUTH_ANON then goto (cli CLI_READ_SERVER_KEY_EXCHANGE) ST_OK
       else with_handshake (\<lambda>_.
         bnd current_session (\<lambda>session.
         bnd (process_certificate (env_x509 E) session False) (\<lambda>(_, session).
         thn (set_session session)
         (thn (do_if (st_verify_mode (hs_settings s) \<noteq> CERT_NONE)
               (bnd (ep_verify_x509 E session (hs_hostname s)) set_session))
         (thn (next_handshake True)
         (goto (cli CLI_READ_CERTIFICATE_STATUS) ST_OK))))))))"

definition do_read_certificate_status :: "('a, Status) client_action" where
  "do_read_certificate_status = bnd (gets cli_enable_status_request) (\<lambda>enabled.
     if \<not> enabled then goto (cli CLI_READ_SERVER_KEY_EXCHANGE) ST_OK
     else with_handshake (\<lambda>handshake.
       if h_type handshake \<noteq> ht HT_CERTIFICATE_STATUS then goto (cli CLI_READ_SERVER_KEY_EXCHANGE) ST_OK
       else
         bnd current_session (\<lambda>_.
         bnd (parse_as CertificateStatus_msg) (\<lambda>m.
         case m of
           CertificateStatus ocsp \<Rightarrow>
             thn (update_session (\<lambda>x. x\<lparr>s_ocsp_response := Some ocsp\<rparr>))
             (thn (next_handshake True)
             (goto (cli CLI_READ_SERVER_KEY_EXCHANGE) ST_OK))
         | _ \<Rightarrow> raise TypeError))))"

text \<open>The parameters of a server key exchange, with the key exchange and the peer's share they set.\<close>

definition read_ecdhe_params :: "environment \<Rightarrow> parser \<Rightarrow> ('a, parser) client_action" where
  "read_ecdhe_params E p =
     bnd (on_parser (read_int 1) p) (\<lambda>(curve_type, p).
     thn (raise_if (curve_type \<noteq> ect ECT_NAMED_CURVE) AlertIllegalParameter)
     (bnd (on_parser (read_int 2) p) (\<lambda>(group_id, p).
     bnd (gets hs_settings) (\<lambda>st.
     thn (raise_if (group_id \<notin> set (st_ecc_groups st)) AlertIllegalParameter)
     (bnd (on_parser (read_prefixed_bytes 1) p) (\<lambda>(point, p).
     thn (raise_if (point = []) AlertDecodeError)
     (bnd (draw (env_private E)) (\<lambda>private.
     bnd (lift_result (ECDH_init group_id private)) (\<lambda>kex.
     thn (modify (\<lambda>s. s\<lparr>cli_key_exchange := Some (ECDH kex), cli_peer_key := Some point\<rparr>))
     (ret p))))))))))"

definition read_dhe_params :: "environment \<Rightarrow> parser \<Rightarrow> ('a, parser) client_action" where
  "read_dhe_params E p =
     bnd (on_parser (read_int 2) p) (\<lambda>(p_length, p).
     bnd (on_parser (read_int (nat p_length)) p) (\<lambda>(dh_p, p).
     bnd (on_parser (read_int 2) p) (\<lambda>(g_length, p).
     bnd (on_parser (read_int (nat g_length)) p) (\<lambda>(dh_g, p).
     bnd (on_parser (read_prefixed_bytes 2) p) (\<lambda>(dh_ys, p).
     thn (raise_if (bit_length_nat (nat dh_p) < 2048) AlertInsufficientSecurity)
     (thn (raise_if (\<not> env_dh_ok E dh_p dh_g) AlertIllegalParameter)
     (bnd (draw (env_private E)) (\<lambda>private.
     thn (modify (\<lambda>s. s\<lparr>cli_key_exchange := Some (FFDH \<lparr>ff_parameters = \<lparr>par_p = dh_p, par_g = dh_g, par_q = None\<rparr>,
            ff_private = private\<rparr>), cli_peer_key := Some dh_ys\<rparr>))
     (ret p)))))))))"

text \<open>The signature over both randoms and the parameters.\<close>

definition verify_server_key_exchange :: "environment \<Rightarrow> cipher_suite \<Rightarrow> parser \<Rightarrow> ('a, parser) client_action" where
  "verify_server_key_exchange E cs p = bnd get_state (\<lambda>s.
     bnd current_session (\<lambda>session.
     bnd (assert_some (s_peer_cert session)) (\<lambda>peer_cert.
     bnd (cert_public_key E AlertHandshakeFailure peer_cert) (\<lambda>peer_public_key.
     thn (raise_if (get_pubkey_auth peer_public_key \<noteq> auth cs) AlertIllegalParameter)
     (bnd (on_parser data_since_bookmark p) (\<lambda>(ske_data, p).
     bnd protocol_version (\<lambda>version.
     let oid = cert_oid_fn (env_x509 E) peer_cert in
     bnd (if version = ver V_TLSv1_2 then
            bnd (on_parser (read_int 2) p) (\<lambda>(verify_alg, p).
            thn (lift_result (verify_sigalg_tls12 version peer_public_key oid verify_alg
                   (st_signature_algorithms (hs_settings s))))
            (ret (verify_alg, p)))
          else
            bnd (lift_result (get_sigalg_tls1 version peer_public_key oid)) (\<lambda>verify_alg.
            ret (verify_alg, p))) (\<lambda>(verify_alg, p).
     bnd (on_parser (read_prefixed_bytes 2) p) (\<lambda>(signature, p).
     thn (raise_if (signature = []) AlertIllegalParameter)
     (thn (lift_result (except (except (key_verify (env_asym E) (env_crypto E) peer_public_key signature
             (hs_client_random s @ hs_server_random s @ ske_data) verify_alg)
             [ValueError] AlertIllegalParameter) [InvalidSignature] AlertDecryptError))
     (ret p)))))))))))"

definition do_read_server_key_exchange :: "environment \<Rightarrow> ('a, Status) client_action" where
  "do_read_server_key_exchange E = bnd current_cipher_suite (\<lambda>cs.
     if kea cs = KEA_RSA then goto (cli CLI_READ_CERTIFICATE_REQUEST) ST_OK
     else with_handshake (\<lambda>_.
       bnd current_session (\<lambda>_.
       bnd (parse_as ServerKeyExchange_msg) (\<lambda>m.
       case m of
         ServerKeyExchange data \<Rightarrow>
           bnd protocol_version (\<lambda>_.
           bnd (on_parser set_bookmark (new_parser data)) (\<lambda>(_, p).
           bnd (if kea cs = KEA_ECDHE then read_ecdhe_params E p
                else if kea cs = KEA_DHE then read_dhe_params E p
                else raise AlertInternalError) (\<lambda>p.
           bnd (if auth cs \<noteq> AUTH_ANON then verify_server_key_exchange E cs p else ret p) (\<lambda>p.
           bnd (on_parser remaining p) (\<lambda>(n, _).
           thn (raise_if (n \<noteq> 0) AlertDecodeError)
           (thn (next_handshake True)
           (goto (cli CLI_READ_CERTIFICATE_REQUEST) ST_OK)))))))
       | _ \<Rightarrow> raise TypeError))))"

definition do_read_certificate_request :: "('a, Status) client_action" where
  "do_read_certificate_request = bnd current_cipher_suite (\<lambda>cs.
     if auth cs = AUTH_ANON then goto (cli CLI_READ_SERVER_HELLO_DONE) ST_OK
     else with_handshake (\<lambda>handshake.
       if h_type handshake \<noteq> ht HT_CERTIFICATE_REQUEST then goto (cli CLI_READ_SERVER_HELLO_DONE) ST_OK
       else
         bnd protocol_version (\<lambda>version.
         bnd (parse_as (if version = ver V_TLSv1_2 then CertificateRequestTLS12_msg else CertificateRequest_msg))
           (\<lambda>cert_request.
         thn (modify (\<lambda>s. s\<lparr>cli_peer_cert_request := Some cert_request\<rparr>))
         (thn (next_handshake True)
         (goto (cli CLI_READ_SERVER_HELLO_DONE) ST_OK))))))"

definition do_read_server_hello_done :: "('a, Status) client_action" where
  "do_read_server_hello_done = with_handshake (\<lambda>_.
     bnd (parse_as ServerHelloDone_msg) (\<lambda>_.
     thn (next_handshake True)
     (goto (cli CLI_SEND_CLIENT_CERTIFICATE) ST_OK)))"

subsection \<open>The client's flight up to TLS 1.2\<close>

definition request_types :: "message \<Rightarrow> int list" where
  "request_types m = (case m of
     CertificateRequest r \<Rightarrow> cr_certificate_types r
   | CertificateRequestTLS12 r \<Rightarrow> cr12_certificate_types r
   | _ \<Rightarrow> [])"

definition request_sigalgs :: "message \<Rightarrow> int list" where
  "request_sigalgs m = (case m of CertificateRequestTLS12 r \<Rightarrow> cr12_signature_algorithms r | _ \<Rightarrow> [])"

text \<open>The signature algorithm for a client certificate, if the credential can be used.\<close>

definition client_signature_algorithm ::
    "environment \<Rightarrow> int \<Rightarrow> handshake_settings \<Rightarrow> Credential \<Rightarrow> message \<Rightarrow> int option result" where
  "client_signature_algorithm E version st credential cert_request =
     (let x509_cert = cred_certificate credential in
      rbind (except (load_certificate_public_key (env_x509 E) x509_cert) [ValueError, TypeError] AlertInternalError)
        (\<lambda>public_key.
      rbind (sigalgs_for_pubkey version public_key (cert_oid_fn (env_x509 E) x509_cert)
               (Some (st_signing_signature_algorithms st))) (\<lambda>(default_sigalg, supported_sigalgs).
      if get_pubkey_cert_type public_key \<in> set (request_types cert_request) then
        if version = ver V_TLSv1_2
        then negotiate supported_sigalgs (Some (request_sigalgs cert_request)) None
        else Inr default_sigalg
      else Inr None)))"

definition do_send_client_certificate :: "environment \<Rightarrow> ('a, Status) client_action" where
  "do_send_client_certificate E = bnd get_state (\<lambda>s.
     case cli_peer_cert_request s of
       None \<Rightarrow> goto (cli CLI_SEND_CLIENT_KEY_EXCHANGE) ST_OK
     | Some cert_request \<Rightarrow>
         bnd protocol_version (\<lambda>version.
         bnd (case st_credential (hs_settings s) of
                Some credential \<Rightarrow>
                  lift_result (client_signature_algorithm E version (hs_settings s) credential cert_request)
              | None \<Rightarrow> ret None) (\<lambda>alg.
         thn (if alg \<noteq> None then modify (\<lambda>s. s\<lparr>cli_signing_signature_algorithm := alg\<rparr>) else ret ())
         (thn (add_message (create_certificate
                (if alg \<noteq> None then st_credential (hs_settings s) else None)) True)
         (goto (cli CLI_SEND_CLIENT_KEY_EXCHANGE) ST_OK)))))"

text \<open>The premaster secret with the encoded share; RSA encrypts a random one under the server's key.\<close>

definition rsa_premaster :: "environment \<Rightarrow> cipher_suite \<Rightarrow> ('a, bytes \<times> bytes) client_action" where
  "rsa_premaster E cs =
     thn (assert_that (auth cs = AUTH_RSA))
     (bnd current_session (\<lambda>session.
     bnd (assert_some (s_peer_cert session)) (\<lambda>peer_cert.
     bnd (cert_public_key E AlertHandshakeFailure peer_cert) (\<lambda>peer_public_key.
     case peer_public_key of
       RSAPublicKey k \<Rightarrow>
         bnd protocol_version (\<lambda>version.
         bnd (lift_result (int_to_bytes version (Some 2))) (\<lambda>v.
         bnd (get_random_bytes E 46) (\<lambda>r.
         bnd (lift_result (RSA_encrypt (env_asym E) k (v @ r))) (\<lambda>enc.
         bnd (lift_result (run_writer (write_prefixed_bytes enc 2))) (\<lambda>d.
         ret (v @ r, d))))))
     | _ \<Rightarrow> raise AlertIllegalParameter))))"

definition dh_premaster :: "environment \<Rightarrow> cipher_suite \<Rightarrow> ('a, bytes \<times> bytes) client_action" where
  "dh_premaster E cs = bnd get_state (\<lambda>s.
     bnd (assert_some (cli_key_exchange s)) (\<lambda>kex.
     bnd (assert_some (cli_peer_key s)) (\<lambda>peer_key.
     bnd (except_action (ep_generate_and_exchange E kex peer_key) [ValueError] AlertIllegalParameter)
       (\<lambda>(key_share, premaster_secret).
     if kea cs = KEA_ECDHE then
       bnd (lift_result (run_writer (write_prefixed_bytes key_share 1))) (\<lambda>d. ret (premaster_secret, d))
     else if kea cs = KEA_DHE then
       bnd (lift_result (run_writer (write_prefixed_bytes key_share 2))) (\<lambda>d. ret (premaster_secret, d))
     else raise AlertInternalError))))"

definition do_send_client_key_exchange :: "environment \<Rightarrow> ('a, Status) client_action" where
  "do_send_client_key_exchange E =
     bnd current_cipher_suite (\<lambda>cs.
     bnd current_session (\<lambda>_.
     bnd protocol_version (\<lambda>_.
     bnd (if kea cs = KEA_RSA then rsa_premaster E cs else dh_premaster E cs) (\<lambda>(premaster_secret, data).
     thn (add_message (ClientKeyExchange data) True)
     (bnd get_state (\<lambda>s.
     let ems = hs_extended_master_secret s;
         label = (if ems then ascii ''extended master secret'' else ascii ''master secret'');
         premaster_secret = (if kea cs = KEA_DHE then dropWhile (\<lambda>b. b = 0) premaster_secret else premaster_secret)
     in
     thn (update_session (\<lambda>x. x\<lparr>s_extended_master_secret := ems\<rparr>))
     (bnd (hs_derive_secret (env_crypto E) premaster_secret label (if ems then Some (hs_transcript s) else None))
       (\<lambda>secret.
     thn (update_session (\<lambda>x. x\<lparr>s_secret := secret\<rparr>))
     (thn (derive_key (env_crypto E) secret)
     (goto (cli CLI_SEND_CLIENT_CERTIFICATE_VERIFY) ST_OK))))))))))"

definition do_send_client_certificate_verify :: "environment \<Rightarrow> ('a, Status) client_action" where
  "do_send_client_certificate_verify E = bnd get_state (\<lambda>s.
     thn (case (cli_peer_cert_request s, cli_signing_signature_algorithm s) of
            (Some _, Some signature_algorithm) \<Rightarrow>
              bnd (assert_some (st_credential (hs_settings s))) (\<lambda>credential.
              bnd (on_transcript Transcript_get) (\<lambda>transcript.
              bnd (lift_result (key_sign (env_asym E) (env_crypto E) (cred_private_key credential)
                     transcript signature_algorithm)) (\<lambda>signature.
              bnd protocol_version (\<lambda>version.
              add_message (if version = ver V_TLSv1_2
                then CertificateVerifyTLS12 \<lparr>cv12_signature = signature,
                       cv12_signature_algorithm = signature_algorithm\<rparr>
                else CertificateVerify signature) True))))
          | _ \<Rightarrow> ret ())
     (goto (cli CLI_SEND_CHANGE_CIPHER_SPEC) ST_PACK_FLIGHT))"

definition do_send_change_cipher_spec :: "environment \<Rightarrow> ('a, Status) client_action" where
  "do_send_change_cipher_spec E =
     thn (hs_setup_traffic (ep_setup_traffic E) DIR_WRITE)
     (goto (cli CLI_SEND_CLIENT_FINISHED) ST_WRITE_CHANGE_CIPHER_SPEC)"

definition do_send_client_finished :: "environment \<Rightarrow> ('a, Status) client_action" where
  "do_send_client_finished E =
     bnd current_session (\<lambda>session.
     thn (hs_setup_traffic (ep_setup_traffic E) DIR_WRITE)
     (bnd (gets hs_npn_protocol) (\<lambda>npn_protocol.
     thn (case npn_protocol of Some p \<Rightarrow> add_message (NextProtocol p) True | None \<Rightarrow> ret ())
     (bnd (derive_finished_verify_data (env_crypto E) (s_secret session) (ascii ''client finished'')) (\<lambda>verify_data.
     thn (add_message (Finished verify_data) True)
     (goto (cli CLI_FINISH_FLIGHT) ST_FLUSH_HANDSHAKE))))))"

definition do_finish_flight :: "('a, Status) client_action" where
  "do_finish_flight = bnd (gets hs_session_reused) (\<lambda>reused.
     if reused then goto (cli CLI_FINISH_CLIENT_HANDSHAKE) ST_OK
     else goto (cli CLI_READ_SESSION_TICKET) ST_OK)"

definition do_read_session_ticket :: "environment \<Rightarrow> ('a, Status) client_action" where
  "do_read_session_ticket E = bnd (gets cli_ticket_expected) (\<lambda>expected.
     if \<not> expected then goto (cli CLI_PROCESS_CHANGE_CIPHER_SPEC) ST_READ_CHANGE_CIPHER_SPEC
     else with_handshake (\<lambda>_.
       bnd (parse_as NewSessionTicket_msg) (\<lambda>m.
       case m of
         NewSessionTicket t \<Rightarrow>
           thn (if nst_ticket t = [] then modify (\<lambda>s. s\<lparr>cli_ticket_expected := False\<rparr>)
                else
                  bnd current_session (\<lambda>_.
                  bnd (utcnow E) (\<lambda>now.
                  update_session (\<lambda>x. (rebase_time now x)\<lparr>s_ticket := nst_ticket t\<rparr>))))
           (thn (next_handshake True)
           (goto (cli CLI_PROCESS_CHANGE_CIPHER_SPEC) ST_READ_CHANGE_CIPHER_SPEC))
       | _ \<Rightarrow> raise TypeError)))"

definition do_process_change_cipher_spec :: "environment \<Rightarrow> ('a, Status) client_action" where
  "do_process_change_cipher_spec E =
     thn (hs_setup_traffic (ep_setup_traffic E) DIR_READ)
     (goto (cli CLI_READ_SERVER_FINISHED) ST_OK)"

definition do_read_server_finished :: "environment \<Rightarrow> ('a, Status) client_action" where
  "do_read_server_finished E = with_handshake (\<lambda>_.
     bnd current_session (\<lambda>session.
     bnd (parse_as Finished_msg) (\<lambda>m.
     case m of
       Finished verify_data \<Rightarrow>
         bnd (derive_finished_verify_data (env_crypto E) (s_secret session) (ascii ''server finished''))
           (\<lambda>expected_verify_data.
         thn (raise_if (\<not> compare_digest verify_data expected_verify_data) AlertDecryptError)
         (thn (next_handshake True)
         (bnd (gets hs_session_reused) (\<lambda>reused.
         goto (if reused then cli CLI_SEND_CHANGE_CIPHER_SPEC else cli CLI_FINISH_CLIENT_HANDSHAKE) ST_OK))))
     | _ \<Rightarrow> raise TypeError)))"

end
