(* ===== verification/Client_TLS13.thy ===== *)
theory Client_TLS13
  imports Client_Flow
begin

text \<open>
  The handlers of the client for TLS 1.3, the end of the handshake and what follows it, and the table
  of all handlers: the third part of \<open>src/simple_tls/tls/handshake_client.py\<close>.
\<close>

subsection \<open>Hello retry request\<close>

definition do_compat_ccs_tls13 :: "('a, Status) client_action" where
  "do_compat_ccs_tls13 =
     thn (set_state (cli CLI_READ_HRR_TLS13))
     (bnd get_state (\<lambda>s.
     ret (if cfg_middlebox_compat (st_configuration (hs_settings s)) \<and> \<not> hs_early_data_offered s
          then ST_WRITE_CHANGE_CIPHER_SPEC else ST_OK)))"

definition on_inner_transcript :: "(Transcript, 'b) action \<Rightarrow> ('a, 'b) client_action" where
  "on_inner_transcript m = (\<lambda>s. case cli_inner_transcript s of
     None \<Rightarrow> (Inl AssertionError, s)
   | Some t \<Rightarrow> (case m t of (r, t') \<Rightarrow> (r, s\<lparr>cli_inner_transcript := Some t'\<rparr>)))"

text \<open>Whether the server has accepted the inner hello, told by a hello retry request.\<close>

definition hrr_ech :: "environment \<Rightarrow> Handshake \<Rightarrow> server_hello \<Rightarrow> cipher_suite \<Rightarrow> ('a, unit) client_action" where
  "hrr_ech E handshake sh cs =
     thn (on_inner_transcript (update_for_hello_retry_request (env_crypto E) (hash_id (cipher_suite.prf_hash cs))))
     (bnd (gets cli_inner_transcript) (\<lambda>t. bnd (assert_some t) (\<lambda>inner_transcript.
     bnd (check_ech_confirmation (env_crypto E) sh (Transcript_copy inner_transcript) True) (\<lambda>accepted.
     if accepted then
       bnd (lift_result (pack_handshake handshake)) (\<lambda>d.
       thn (on_inner_transcript (update_hash d))
       (modify (\<lambda>s. s\<lparr>hs_ech_status := ECH_ACCEPTED\<rparr>)))
     else modify (\<lambda>s. s\<lparr>hs_ech_status := ECH_REJECTED\<rparr>)))))"

definition hrr_key_share :: "environment \<Rightarrow> int \<Rightarrow> ('a, unit) client_action" where
  "hrr_key_share E selected_group = bnd get_state (\<lambda>s.
     thn (raise_if (selected_group \<notin> set (st_supported_groups (hs_settings s)) \<or>
            selected_group \<in> set (map fst (cli_key_exchanges s))) AlertIllegalParameter)
     (bnd (ep_get_key_exchange E selected_group) (\<lambda>kex.
      case kex of
        None \<Rightarrow> raise AlertIllegalParameter
      | Some k \<Rightarrow> modify (\<lambda>s. s\<lparr>cli_key_exchanges := [(selected_group, k)]\<rparr>))))"

definition process_hrr :: "environment \<Rightarrow> Handshake \<Rightarrow> server_hello \<Rightarrow> cipher_suite \<Rightarrow> ('a, Status) client_action" where
  "process_hrr E handshake sh cs =
     thn (modify (\<lambda>s. s\<lparr>hs_hello_retry_request_used := True\<rparr>))
     (bnd get_state (\<lambda>s.
     thn (raise_if (sh_session_id sh \<noteq> hs_session_id s) AlertIllegalParameter)
     (thn (on_transcript (update_for_hello_retry_request (env_crypto E) (hash_id (cipher_suite.prf_hash cs))))
     (let exts = sh_extensions sh;
          allowed = map ext [EXT_SUPPORTED_VERSIONS, EXT_KEY_SHARE, EXT_COOKIE];
          allowed = (if cli_ech_context s \<noteq> None then ext EXT_ENCRYPTED_CLIENT_HELLO # allowed else allowed)
      in
     thn (do_if (cli_ech_context s \<noteq> None) (hrr_ech E handshake sh cs))
     (bnd (ext_get Cookie_class exts) (\<lambda>cookie_ext.
     thn (case cookie_ext of
            Some (CookieExtension data) \<Rightarrow> modify (\<lambda>s. s\<lparr>cli_peer_cookie := Some data\<rparr>)
          | _ \<Rightarrow> ret ())
     (bnd (ext_get KeyShareHRR_class exts) (\<lambda>key_share_ext.
     thn (case key_share_ext of
            Some (KeyShareHRRExtension selected_group) \<Rightarrow> hrr_key_share E selected_group
          | _ \<Rightarrow> ret ())
     (thn (raise_if (\<not> has_allowed allowed exts) AlertUnsupportedExtension)
     (thn (raise_if (cookie_ext = None \<and> key_share_ext = None) AlertIllegalParameter)
     (thn (next_handshake True)
     (bnd (gets hs_in_early_data) (\<lambda>in_early_data.
     thn (do_if in_early_data
           (thn hs_close_in_early_data
           (hs_setup_traffic_tls13 (ep_setup_traffic E) DIR_WRITE EPOCH_INITIAL)))
     (goto (cli CLI_SEND_SECOND_CLIENT_HELLO_TLS13) ST_OK))))))))))))))"

definition do_read_hrr_tlsv13 :: "environment \<Rightarrow> ('a, Status) client_action" where
  "do_read_hrr_tlsv13 E = with_handshake (\<lambda>handshake.
     bnd (parse_as ServerHello_msg) (\<lambda>m.
     case m of
       ServerHello sh \<Rightarrow>
         bnd get_state (\<lambda>s.
         thn (raise_if (has_unprocessed_data s) AlertUnexpectedMessage)
         (bnd protocol_version (\<lambda>version.
         bnd (lift_result (server_hello_cipher_suite (hs_settings s) version (sh_cipher_suite sh))) (\<lambda>cs.
         bnd (lift_result (KeySchedule_init (env_crypto E) (hash_id (cipher_suite.prf_hash cs)))) (\<lambda>ks.
         thn (modify (\<lambda>s. s\<lparr>hs_cipher_suite := Some cs, hs_key_schedule := Some ks\<rparr>))
         (if sh_random sh \<noteq> TLS13_HRR_SENTINEL then goto (cli CLI_READ_SERVER_HELLO_TLS13) ST_OK
          else process_hrr E handshake sh cs))))))
     | _ \<Rightarrow> raise TypeError))"

definition do_send_second_client_hello_tls13 :: "environment \<Rightarrow> ('a, Status) client_action" where
  "do_send_second_client_hello_tls13 E =
     bnd (gets hs_ech_status) (\<lambda>status.
     bnd (if status = ECH_ACCEPTED then build_encrypted_client_hello E True else build_client_hello E True)
       (\<lambda>client_hello.
     thn (add_message (ClientHello client_hello) True)
     (goto (cli CLI_READ_SERVER_HELLO_TLS13) ST_FLUSH_HANDSHAKE)))"

subsection \<open>Server hello\<close>

definition server_hello_ech :: "environment \<Rightarrow> server_hello \<Rightarrow> ('a, unit) client_action" where
  "server_hello_ech E sh = bnd get_state (\<lambda>s.
     bnd (assert_some (cli_inner_transcript s)) (\<lambda>inner_transcript.
     bnd (check_ech_confirmation (env_crypto E) sh (Transcript_copy inner_transcript) False) (\<lambda>ech_accepted.
     if ech_accepted then
       bnd (assert_some (cli_inner_client_random s)) (\<lambda>inner_client_random.
       bnd (assert_some (cli_inner_extensions_sent s)) (\<lambda>inner_sent.
       modify (\<lambda>s. s\<lparr>hs_ech_status := ECH_ACCEPTED, hs_client_random := inner_client_random,
         hs_transcript := inner_transcript, cli_extensions_sent := inner_sent,
         cli_inner_transcript := None, cli_inner_client_random := None, cli_inner_extensions_sent := None\<rparr>)))
     else
       thn (raise_if (hs_hello_retry_request_used s \<and> hs_ech_status s = ECH_ACCEPTED) AlertIllegalParameter)
       (modify (\<lambda>s. s\<lparr>hs_ech_status := ECH_REJECTED\<rparr>)))))"

text \<open>The session: resumed with the pre-shared key the server has selected, or a new one.\<close>

definition server_hello_psk ::
    "environment \<Rightarrow> extension option \<Rightarrow> cipher_suite \<Rightarrow> ('a, TLSSession) client_action" where
  "server_hello_psk E psk_ext cs = bnd get_state (\<lambda>s.
     case psk_ext of
       Some (PSKServerExtension selected_index) \<Rightarrow>
         thn (raise_if (cli_pre_shared_keys s = [] \<or> hs_ech_status s = ECH_REJECTED) AlertUnsupportedExtension)
         (bnd (assert_some (cli_offered_session s)) (\<lambda>offered.
         bnd (assert_some (s_cipher_suite offered)) (\<lambda>offered_cs.
         thn (raise_if (s_version offered \<noteq> hs_version s) AlertIllegalParameter)
         (thn (raise_if (cipher_suite.prf_hash offered_cs \<noteq> cipher_suite.prf_hash cs) AlertIllegalParameter)
         (thn (raise_if (selected_index \<ge> int (length (cli_pre_shared_keys s))) AlertIllegalParameter)
         (case cli_pre_shared_keys s ! nat selected_index of (ks, _, _) \<Rightarrow>
           thn (modify (\<lambda>s. s\<lparr>hs_key_schedule := Some ks, cli_pre_shared_keys := []\<rparr>))
           (bnd (utcnow E) (\<lambda>now.
           thn (modify (\<lambda>s. s\<lparr>hs_session_reused := True\<rparr>))
           (ret (renew_timeout now 100 (session_copy False False now offered)))))))))))
     | _ \<Rightarrow>
         thn (on_key_schedule (ks_extract (env_crypto E) None))
         (ep_get_new_session E))"

definition server_hello_key_share ::
    "environment \<Rightarrow> extension option \<Rightarrow> ('a, bytes option) client_action" where
  "server_hello_key_share E kex_ext = bnd get_state (\<lambda>s.
     let modes = st_psk_kex_modes (hs_settings s) in
     case kex_ext of
       Some (KeyShareServerExtension key_share) \<Rightarrow>
         thn (raise_if (hs_session_reused s \<and> pskm PSKM_PSK_DHE_KE \<notin> set modes) AlertIllegalParameter)
         (case map_of (cli_key_exchanges s) (group key_share) of
            None \<Rightarrow> raise AlertIllegalParameter
          | Some kex \<Rightarrow>
              bnd (lift_result (except (exchange (env_kex E) kex (key_exchange key_share)) [ValueError]
                     AlertIllegalParameter)) (\<lambda>shared_secret.
              ret (Some shared_secret)))
     | _ \<Rightarrow>
         thn (raise_if (\<not> hs_session_reused s \<or> pskm PSKM_PSK_KE \<notin> set modes) AlertMissingExtension)
         (ret None))"

definition process_server_hello_tls13 :: "environment \<Rightarrow> server_hello \<Rightarrow> cipher_suite \<Rightarrow> ('a, Status) client_action" where
  "process_server_hello_tls13 E sh cs = bnd get_state (\<lambda>s.
     thn (raise_if (has_unprocessed_data s) AlertUnexpectedMessage)
     (thn (raise_if (sh_random sh = TLS13_HRR_SENTINEL) AlertUnexpectedMessage)
     (thn (raise_if (sh_session_id sh \<noteq> hs_session_id s) AlertIllegalParameter)
     (thn (raise_if (sh_cipher_suite sh \<noteq> cs_id cs) AlertIllegalParameter)
     (thn (modify (\<lambda>s. s\<lparr>hs_server_random := sh_random sh\<rparr>))
     (thn (do_if (cli_ech_context s \<noteq> None \<and> hs_ech_status s \<noteq> ECH_REJECTED) (server_hello_ech E sh))
     (let exts = sh_extensions sh in
     bnd (ext_get PSKServer_class exts) (\<lambda>psk_ext.
     bnd (server_hello_psk E psk_ext cs) (\<lambda>session.
     thn (set_session (session\<lparr>s_cipher_suite := Some cs\<rparr>))
     (bnd (ext_get KeyShareServer_class exts) (\<lambda>kex_ext.
     bnd (server_hello_key_share E kex_ext) (\<lambda>shared_secret.
     thn (on_key_schedule (ks_extract (env_crypto E) shared_secret))
     (thn (raise_if (\<not> has_allowed (ext EXT_SUPPORTED_VERSIONS #
              (if psk_ext \<noteq> None then [ext EXT_PRE_SHARED_KEY] else []) @
              (if kex_ext \<noteq> None then [ext EXT_KEY_SHARE] else [])) exts) AlertUnsupportedExtension)
     (thn (next_handshake True)
     (bnd (gets hs_transcript) (\<lambda>transcript.
     thn (derive_secret_tls13 (env_crypto E) DIR_READ EPOCH_HANDSHAKE (ascii ''s hs traffic'') transcript)
     (thn (derive_secret_tls13 (env_crypto E) DIR_WRITE EPOCH_HANDSHAKE (ascii ''c hs traffic'') transcript)
     (thn (hs_setup_traffic_tls13 (ep_setup_traffic E) DIR_READ EPOCH_HANDSHAKE)
     (thn (do_if (\<not> hs_early_data_offered s)
            (hs_setup_traffic_tls13 (ep_setup_traffic E) DIR_WRITE EPOCH_HANDSHAKE))
     (goto (cli CLI_READ_ENCRYPTED_EXTENSIONS_TLS13) ST_OK))))))))))))))))))))"

definition do_read_server_hello_tls13 :: "environment \<Rightarrow> ('a, Status) client_action" where
  "do_read_server_hello_tls13 E = with_handshake (\<lambda>_.
     bnd current_cipher_suite (\<lambda>cs.
     bnd (parse_as ServerHello_msg) (\<lambda>m.
     case m of ServerHello sh \<Rightarrow> process_server_hello_tls13 E sh cs | _ \<Rightarrow> raise TypeError)))"

subsection \<open>The server's flight\<close>

text \<open>The application settings the server sends for the negotiated protocol.\<close>

definition process_alps :: "extensions \<Rightarrow> ('a, unit) client_action" where
  "process_alps exts =
     bnd (ext_get ALPS_class exts) (\<lambda>alps_ext.
     bnd get_state (\<lambda>s.
     case alps_ext of
       Some (ALPSExtension settings) \<Rightarrow>
         (case hs_alpn_protocol s of
            None \<Rightarrow> raise AlertIllegalParameter
          | Some protocol \<Rightarrow>
              (case map_of (st_alps (hs_settings s)) protocol of
                 None \<Rightarrow> raise AlertIllegalParameter
               | Some local \<Rightarrow>
                   update_session (\<lambda>x. x\<lparr>s_has_alps := True, s_local_alps := local, s_peer_alps := settings\<rparr>)))
     | _ \<Rightarrow> ret ()))"

definition early_data_answer :: "environment \<Rightarrow> ('a, unit) client_action" where
  "early_data_answer E = bnd get_state (\<lambda>s.
     if hs_early_data_status s = EDS_ACCEPTED then
       bnd (assert_some (cli_offered_session s)) (\<lambda>offered.
       thn (assert_that (hs_early_data_offered s))
       (thn (assert_that (hs_session_reused s))
       (thn (raise_if (hs_ech_status s = ECH_REJECTED) AlertIllegalParameter)
       (bnd current_session (\<lambda>session.
       thn (raise_if (suite_differs (s_cipher_suite offered) (s_cipher_suite session)) AlertIllegalParameter)
       (thn (raise_if (s_early_alpn offered \<noteq> hs_alpn_protocol s) AlertIllegalParameter)
       (update_session (\<lambda>x. x\<lparr>s_has_alps := s_has_alps offered, s_local_alps := s_local_alps offered,
          s_peer_alps := s_peer_alps offered\<rparr>))))))))
     else
       do_if (hs_early_data_offered s)
         (thn (assert_that (hs_early_data_status s = EDS_REJECTED))
         (hs_setup_traffic_tls13 (ep_setup_traffic E) DIR_WRITE EPOCH_HANDSHAKE)))"

definition do_read_encrypted_extensions_tls13 :: "environment \<Rightarrow> ('a, Status) client_action" where
  "do_read_encrypted_extensions_tls13 E = with_handshake (\<lambda>_.
     bnd current_session (\<lambda>_.
     bnd (parse_as EncryptedExtensions_msg) (\<lambda>m.
     case m of
       EncryptedExtensions exts \<Rightarrow>
         thn (process_extensions exts)
         (thn (next_handshake True)
         (thn (early_data_answer E)
         (thn (process_alps exts)
         (bnd (gets hs_alpn_protocol) (\<lambda>protocol.
         thn (update_session (\<lambda>x. x\<lparr>s_early_alpn := protocol\<rparr>))
         (goto (cli CLI_READ_CERTIFICATE_REQUEST_TLS13) ST_OK))))))
     | _ \<Rightarrow> raise TypeError)))"

definition do_read_certificate_request_tls13 :: "('a, Status) client_action" where
  "do_read_certificate_request_tls13 = bnd (gets hs_session_reused) (\<lambda>reused.
     if reused then goto (cli CLI_READ_SERVER_FINISHED_TLS13) ST_OK
     else with_handshake (\<lambda>handshake.
       if h_type handshake \<noteq> ht HT_CERTIFICATE_REQUEST then goto (cli CLI_READ_SERVER_CERTIFICATE_TLS13) ST_OK
       else
         bnd (parse_as CertificateRequestTLS13_msg) (\<lambda>m.
         case m of
           CertificateRequestTLS13 r \<Rightarrow>
             thn (raise_if (cr13_context r \<noteq> []) AlertIllegalParameter)
             (thn (modify (\<lambda>s. s\<lparr>cli_peer_cert_request := Some m\<rparr>))
             (thn (next_handshake True)
             (goto (cli CLI_READ_SERVER_CERTIFICATE_TLS13) ST_OK)))
         | _ \<Rightarrow> raise TypeError)))"

definition do_read_server_certificate_tls13 :: "environment \<Rightarrow> ('a, Status) client_action" where
  "do_read_server_certificate_tls13 E = with_handshake (\<lambda>_.
     bnd current_session (\<lambda>session.
     bnd get_state (\<lambda>s.
     bnd (process_certificate_tls13 (env_comp E) (env_x509 E) session False
            (ext EXT_COMPRESS_CERTIFICATE \<in> cli_extensions_sent s)) (\<lambda>(_, session).
     thn (set_session session)
     (thn (do_if (st_verify_mode (hs_settings s) \<noteq> CERT_NONE)
            (bnd (if hs_ech_status s = ECH_REJECTED
                  then bnd (assert_some (cli_ech_context s)) (\<lambda>c. ret (Some (ec_public_name c)))
                  else ret (hs_hostname s)) (\<lambda>hostname.
             bnd (ep_verify_x509 E session hostname) set_session)))
     (thn (next_handshake True)
     (goto (cli CLI_READ_SERVER_CERTIFICATE_VERIFY_TLS13) ST_OK)))))))"

definition do_read_server_certificate_verify_tls13 :: "environment \<Rightarrow> ('a, Status) client_action" where
  "do_read_server_certificate_verify_tls13 E = with_handshake (\<lambda>_.
     bnd current_session (\<lambda>session.
     bnd (parse_as CertificateVerifyTLS12_msg) (\<lambda>cert_verify.
     bnd (gets hs_settings) (\<lambda>st.
     thn (process_certificate_verify (env_crypto E) (env_asym E) (env_x509 E) session cert_verify
            (st_signature_algorithms st))
     (thn (next_handshake True)
     (goto (cli CLI_READ_SERVER_FINISHED_TLS13) ST_OK))))))"

definition do_read_server_finished_tls13 :: "environment \<Rightarrow> ('a, Status) client_action" where
  "do_read_server_finished_tls13 E = with_handshake (\<lambda>_.
     bnd current_key_schedule (\<lambda>key_schedule.
     thn (assert_that (ks_generation key_schedule = 2))
     (bnd (parse_as Finished_msg) (\<lambda>m.
     case m of
       Finished verify_data \<Rightarrow>
         bnd get_state (\<lambda>s.
         thn (raise_if (has_unprocessed_data s) AlertUnexpectedMessage)
         (bnd (case hs_dec_secret s EPOCH_HANDSHAKE of Some x \<Rightarrow> ret x | None \<Rightarrow> raise KeyError) (\<lambda>secret.
         bnd (on_transcript (finished_verify_data (env_crypto E) key_schedule secret)) (\<lambda>expected_verify_data.
         thn (raise_if (\<not> compare_digest verify_data expected_verify_data) AlertDecryptError)
         (thn (next_handshake True)
         (thn (on_key_schedule (ks_extract (env_crypto E) None))
         (bnd (gets hs_transcript) (\<lambda>transcript.
         thn (derive_secret_tls13 (env_crypto E) DIR_READ EPOCH_APPLICATION_DATA (ascii ''s ap traffic'') transcript)
         (thn (derive_secret_tls13 (env_crypto E) DIR_WRITE EPOCH_APPLICATION_DATA (ascii ''c ap traffic'') transcript)
         (goto (cli CLI_SEND_END_OF_EARLY_DATA_TLS13) ST_OK))))))))))
     | _ \<Rightarrow> raise TypeError))))"

subsection \<open>The client's flight\<close>

definition do_send_end_of_early_data_tls13 :: "('a, Status) client_action" where
  "do_send_end_of_early_data_tls13 = bnd (gets hs_early_data_status) (\<lambda>status.
     thn (do_if (status = EDS_ACCEPTED) (thn (add_message EndOfEarlyData True) hs_close_in_early_data))
     (goto (cli CLI_SEND_CLIENT_ENCRYPTED_EXTENSIONS_TLS13) ST_PACK_FLIGHT))"

definition do_send_client_encrypted_extensions_tls13 :: "environment \<Rightarrow> ('a, Status) client_action" where
  "do_send_client_encrypted_extensions_tls13 E = bnd (gets hs_early_data_status) (\<lambda>status.
     thn (do_if (status = EDS_ACCEPTED) (hs_setup_traffic_tls13 (ep_setup_traffic E) DIR_WRITE EPOCH_HANDSHAKE))
     (bnd current_session (\<lambda>session.
     bnd (if s_has_alps session \<and> status \<noteq> EDS_ACCEPTED
          then lift_result (Extensions_append (ALPSExtension (s_local_alps session)) [])
          else ret []) (\<lambda>exts.
     thn (do_if (length exts > 0) (add_message (EncryptedExtensions exts) True))
     (goto (cli CLI_SEND_CLIENT_CERTIFICATE_TLS13) ST_OK)))))"

text \<open>The credential to answer a certificate request with, and the algorithm to sign with.\<close>

definition tls13_credential ::
    "environment \<Rightarrow> int list \<Rightarrow> ('a, (Credential \<times> int) option) client_action" where
  "tls13_credential E peer_sigalgs = bnd get_state (\<lambda>s.
     case st_credential (hs_settings s) of
       None \<Rightarrow> ret None
     | Some credential \<Rightarrow>
         if hs_ech_status s = ECH_REJECTED then ret None
         else
           bnd (cert_public_key E AlertInternalError (cred_certificate credential)) (\<lambda>public_key.
           bnd protocol_version (\<lambda>version.
           bnd (lift_result (sigalgs_for_pubkey version public_key
                  (cert_oid_fn (env_x509 E) (cred_certificate credential))
                  (Some (st_signing_signature_algorithms (hs_settings s))))) (\<lambda>(_, supported_sigalgs).
           bnd (lift_result (negotiate supported_sigalgs (Some peer_sigalgs) None)) (\<lambda>alg.
           ret (map_option (\<lambda>a. (credential, a)) alg))))))"

definition send_certificate_tls13 :: "environment \<Rightarrow> certificate_request_tls13 \<Rightarrow> ('a, unit) client_action" where
  "send_certificate_tls13 E cert_request =
     (let exts = cr13_extensions cert_request in
     bnd (ext_get SignatureAlgorithms_class exts) (\<lambda>sigalg_ext.
     bnd (case sigalg_ext of
            Some (SignatureAlgorithmsExtension data) \<Rightarrow> ret data
          | _ \<Rightarrow> raise AlertMissingExtension) (\<lambda>peer_sigalgs.
     bnd (ext_get CompressedCertificate_class exts) (\<lambda>comp_cert_ext.
     bnd (gets hs_settings) (\<lambda>st.
     bnd (case comp_cert_ext of
            Some (CompressedCertificateExtension data) \<Rightarrow>
              lift_result (negotiate (st_certificate_compressions st) (Some data) None)
          | _ \<Rightarrow> ret None) (\<lambda>compression.
     bnd (tls13_credential E peer_sigalgs) (\<lambda>found.
     bnd (lift_result (create_certificate_tls13 (env_comp E) (map_option fst found) (cr13_context cert_request)
            compression)) (\<lambda>certificate.
     thn (add_message certificate True)
     (case found of
        None \<Rightarrow> ret ()
      | Some (credential, signature_algorithm) \<Rightarrow>
          bnd current_key_schedule (\<lambda>key_schedule.
          bnd (on_transcript (certificate_verify_data (env_crypto E) key_schedule TLS13_CLIENT_CONTEXT_STRING))
            (\<lambda>data.
          bnd (lift_result (key_sign (env_asym E) (env_crypto E) (cred_private_key credential) data
                 signature_algorithm)) (\<lambda>signature.
          add_message (CertificateVerifyTLS12 \<lparr>cv12_signature = signature,
            cv12_signature_algorithm = signature_algorithm\<rparr>) True))))))))))))"

definition do_send_client_certificate_tls13 :: "environment \<Rightarrow> ('a, Status) client_action" where
  "do_send_client_certificate_tls13 E = bnd (gets cli_peer_cert_request) (\<lambda>request.
     thn (case request of
            None \<Rightarrow> ret ()
          | Some (CertificateRequestTLS13 r) \<Rightarrow> send_certificate_tls13 E r
          | Some _ \<Rightarrow> raise TypeError)
     (goto (cli CLI_SEND_CLIENT_FINISHED_TLS13) ST_OK))"

definition send_finished_tls13 :: "environment \<Rightarrow> Epoch \<Rightarrow> ('a, unit) client_action" where
  "send_finished_tls13 E epoch = bnd get_state (\<lambda>s.
     bnd current_key_schedule (\<lambda>key_schedule.
     bnd (case hs_enc_secret s epoch of Some x \<Rightarrow> ret x | None \<Rightarrow> raise KeyError) (\<lambda>secret.
     bnd (on_transcript (finished_verify_data (env_crypto E) key_schedule secret)) (\<lambda>verify_data.
     add_message (Finished verify_data) True))))"

definition do_send_client_finished_tls13 :: "environment \<Rightarrow> ('a, Status) client_action" where
  "do_send_client_finished_tls13 E =
     thn (send_finished_tls13 E EPOCH_HANDSHAKE)
     (goto (cli CLI_COMPLETE_SECOND_FLIGHT_TLS13) ST_FLUSH_HANDSHAKE)"

definition do_complete_second_flight_tls13 :: "environment \<Rightarrow> ('a, Status) client_action" where
  "do_complete_second_flight_tls13 E =
     thn (hs_setup_traffic_tls13 (ep_setup_traffic E) DIR_READ EPOCH_APPLICATION_DATA)
     (thn (hs_setup_traffic_tls13 (ep_setup_traffic E) DIR_WRITE EPOCH_APPLICATION_DATA)
     (goto (cli CLI_FINISH_CLIENT_HANDSHAKE) ST_OK))"

subsection \<open>End of the handshake, and after it\<close>

definition new_session_callback :: "TLSSession \<Rightarrow> ('a, unit) client_action" where
  "new_session_callback session = modify (\<lambda>s. s\<lparr>cli_new_sessions := cli_new_sessions s @ [session]\<rparr>)"

definition do_finish_client_handshake :: "environment \<Rightarrow> ('a, Status) client_action" where
  "do_finish_client_handshake E = bnd get_state (\<lambda>s.
     thn (raise_if (hs_ech_status s = ECH_REJECTED) AlertECHRequired)
     (thn (do_if (\<not> hs_session_reused s)
            (bnd current_session (\<lambda>_.
             thn (update_session (\<lambda>x. x\<lparr>s_not_resumable := False\<rparr>))
             (bnd current_session (\<lambda>session.
              do_if (cli_new_session_callback s)
                (bnd (lift_result (session_protocol_version session)) (\<lambda>v.
                 do_if (v \<le> ver V_TLSv1_2 \<and> (s_ticket session \<noteq> [] \<or> s_session_id session \<noteq> []))
                   (bnd (utcnow E) (\<lambda>now.
                    new_session_callback ((session_copy True True now session)\<lparr>s_not_resumable := False\<rparr>))))))))))
     (thn (modify (\<lambda>s. s\<lparr>hs_session_establish := True\<rparr>))
     (goto (cli CLI_DONE) ST_OK))))"

definition post_new_session_ticket :: "environment \<Rightarrow> new_session_ticket_tls13 \<Rightarrow> ('a, unit) client_action" where
  "post_new_session_ticket E t =
     bnd (ext_get EarlyData_class (nst13_extensions t)) (\<lambda>early_data_ext.
     bnd current_session (\<lambda>session.
     bnd current_key_schedule (\<lambda>key_schedule.
     bnd (utcnow E) (\<lambda>now.
     let max_early_data = (case early_data_ext of Some (EarlyDataExtension n) \<Rightarrow> n | _ \<Rightarrow> 0);
         new = set_timeout (nst13_ticket_lifetime t) (rebase_time now (session_copy True False now session))
     in
     bnd (on_transcript (derive_secret (env_crypto E) key_schedule (ascii ''res master''))) (\<lambda>master_secret.
     bnd (lift_result (resumption_secret (env_crypto E) key_schedule master_secret (nst13_ticket_nonce t))) (\<lambda>secret.
     new_session_callback (new\<lparr>s_ticket := nst13_ticket t, s_ticket_age_add := nst13_ticket_age_add t,
       s_ticket_max_early_data := max_early_data, s_secret := secret, s_not_resumable := False\<rparr>)))))))"

definition post_handshake_tls13 :: "environment \<Rightarrow> Handshake \<Rightarrow> ('a, Status) client_action" where
  "post_handshake_tls13 E handshake =
     bnd current_session (\<lambda>_.
     bnd current_key_schedule (\<lambda>key_schedule.
     thn (assert_that (ks_generation key_schedule = 3))
     (if h_type handshake = ht HT_NEWSESSION_TICKET then
        bnd (parse_as NewSessionTicketTLS13_msg) (\<lambda>m.
        case m of
          NewSessionTicketTLS13 t \<Rightarrow>
            bnd (gets cli_new_session_callback) (\<lambda>callback.
            thn (do_if callback (post_new_session_ticket E t))
            (thn (next_handshake False)
            (ret ST_OK)))
        | _ \<Rightarrow> raise TypeError)
      else if h_type handshake = ht HT_CERTIFICATE_REQUEST then
        bnd (gets cli_enable_pha) (\<lambda>pha.
        thn (raise_if (\<not> pha) AlertUnexpectedMessage)
        (bnd (parse_as CertificateRequestTLS13_msg) (\<lambda>m.
        case m of
          CertificateRequestTLS13 r \<Rightarrow>
            thn (next_handshake True)
            (thn (send_certificate_tls13 E r)
            (thn (send_finished_tls13 E EPOCH_APPLICATION_DATA)
            (ret ST_PACK_FLIGHT)))
        | _ \<Rightarrow> raise TypeError)))
      else if h_type handshake = ht HT_KEY_UPDATE then
        bnd (parse_as KeyUpdate_msg) (\<lambda>m.
        case m of
          KeyUpdate message_type \<Rightarrow>
            bnd get_state (\<lambda>s.
            thn (raise_if (has_unprocessed_data s) AlertUnexpectedMessage)
            (thn (raise_if (message_type \<noteq> ku KU_UPDATE_NOT_REQUESTED \<and> message_type \<noteq> ku KU_UPDATE_REQUESTED)
                   AlertIllegalParameter)
            (thn (next_handshake False)
            (thn (derive_upd_secret_tls13 (env_crypto E) (ep_setup_traffic E) DIR_READ)
            (if message_type = ku KU_UPDATE_REQUESTED then
               thn (write_key_update (ku KU_UPDATE_NOT_REQUESTED))
               (goto (cli CLI_COMPLETE_UPDATE_TRAFFIC) ST_PACK_FLIGHT)
             else ret ST_OK)))))
        | _ \<Rightarrow> raise TypeError)
      else raise AlertUnexpectedMessage)))"

definition do_read_post_handshake :: "environment \<Rightarrow> ('a, Status) client_action" where
  "do_read_post_handshake E = bnd read_handshake (\<lambda>h.
     case h of
       None \<Rightarrow> goto (cli CLI_DONE) ST_OK
     | Some handshake \<Rightarrow>
         bnd protocol_version (\<lambda>version.
         if version \<ge> ver V_TLSv1_3 then post_handshake_tls13 E handshake
         else raise AlertUnexpectedMessage))"

definition do_process_update_traffic :: "('a, Status) client_action" where
  "do_process_update_traffic = goto (cli CLI_COMPLETE_UPDATE_TRAFFIC) ST_PACK_FLIGHT"

definition do_complete_update_traffic :: "environment \<Rightarrow> ('a, Status) client_action" where
  "do_complete_update_traffic E =
     thn (derive_upd_secret_tls13 (env_crypto E) (ep_setup_traffic E) DIR_WRITE)
     (goto (cli CLI_DONE) ST_OK)"

subsection \<open>Dispatch\<close>

text \<open>The table \<open>_handle_dispatch\<close>; two states have no handler.\<close>

primrec client_handler :: "environment \<Rightarrow> ClientState \<Rightarrow> ('a, Status) client_action option" where
  "client_handler E CLI_START_CONNECT = Some (do_start_connect E)"
| "client_handler E CLI_ENTER_EARLY_DATA = Some (do_enter_early_data E)"
| "client_handler E CLI_ENTER_EARLY_DATA_COMPAT = Some do_enter_early_data_compat_css"
| "client_handler E CLI_READ_SERVER_HELLO = Some (do_read_server_hello E)"
| "client_handler E CLI_READ_SERVER_CERTIFICATE = Some (do_read_server_certificate E)"
| "client_handler E CLI_READ_CERTIFICATE_STATUS = Some do_read_certificate_status"
| "client_handler E CLI_VERIFY_SERVER_CERTIFICATE = None"
| "client_handler E CLI_READ_SERVER_KEY_EXCHANGE = Some (do_read_server_key_exchange E)"
| "client_handler E CLI_READ_CERTIFICATE_REQUEST = Some do_read_certificate_request"
| "client_handler E CLI_READ_SERVER_HELLO_DONE = Some do_read_server_hello_done"
| "client_handler E CLI_SEND_CLIENT_CERTIFICATE = Some (do_send_client_certificate E)"
| "client_handler E CLI_SEND_CLIENT_KEY_EXCHANGE = Some (do_send_client_key_exchange E)"
| "client_handler E CLI_SEND_CLIENT_CERTIFICATE_VERIFY = Some (do_send_client_certificate_verify E)"
| "client_handler E CLI_SEND_CHANGE_CIPHER_SPEC = Some (do_send_change_cipher_spec E)"
| "client_handler E CLI_SEND_CLIENT_FINISHED = Some (do_send_client_finished E)"
| "client_handler E CLI_FINISH_FLIGHT = Some do_finish_flight"
| "client_handler E CLI_READ_SESSION_TICKET = Some (do_read_session_ticket E)"
| "client_handler E CLI_PROCESS_CHANGE_CIPHER_SPEC = Some (do_process_change_cipher_spec E)"
| "client_handler E CLI_READ_SERVER_FINISHED = Some (do_read_server_finished E)"
| "client_handler E CLI_COMPAT_CSS_TLS13 = Some do_compat_ccs_tls13"
| "client_handler E CLI_READ_HRR_TLS13 = Some (do_read_hrr_tlsv13 E)"
| "client_handler E CLI_SEND_SECOND_CLIENT_HELLO_TLS13 = Some (do_send_second_client_hello_tls13 E)"
| "client_handler E CLI_READ_SERVER_HELLO_TLS13 = Some (do_read_server_hello_tls13 E)"
| "client_handler E CLI_READ_ENCRYPTED_EXTENSIONS_TLS13 = Some (do_read_encrypted_extensions_tls13 E)"
| "client_handler E CLI_READ_CERTIFICATE_REQUEST_TLS13 = Some do_read_certificate_request_tls13"
| "client_handler E CLI_READ_SERVER_CERTIFICATE_TLS13 = Some (do_read_server_certificate_tls13 E)"
| "client_handler E CLI_READ_SERVER_CERTIFICATE_VERIFY_TLS13 = Some (do_read_server_certificate_verify_tls13 E)"
| "client_handler E CLI_READ_SERVER_FINISHED_TLS13 = Some (do_read_server_finished_tls13 E)"
| "client_handler E CLI_SEND_END_OF_EARLY_DATA_TLS13 = Some do_send_end_of_early_data_tls13"
| "client_handler E CLI_SEND_CLIENT_ENCRYPTED_EXTENSIONS_TLS13 = Some (do_send_client_encrypted_extensions_tls13 E)"
| "client_handler E CLI_SEND_CLIENT_CERTIFICATE_TLS13 = Some (do_send_client_certificate_tls13 E)"
| "client_handler E CLI_SEND_CLIENT_FINISHED_TLS13 = Some (do_send_client_finished_tls13 E)"
| "client_handler E CLI_COMPLETE_SECOND_FLIGHT_TLS13 = Some (do_complete_second_flight_tls13 E)"
| "client_handler E CLI_FINISH_CLIENT_HANDSHAKE = Some (do_finish_client_handshake E)"
| "client_handler E CLI_DONE = None"
| "client_handler E CLI_READ_POST_HANDSHAKE = Some (do_read_post_handshake E)"
| "client_handler E CLI_PROCESS_UPDATE_TRAFFIC = Some do_process_update_traffic"
| "client_handler E CLI_COMPLETE_UPDATE_TRAFFIC = Some (do_complete_update_traffic E)"

definition client_states :: "ClientState list" where
  "client_states = [CLI_START_CONNECT, CLI_ENTER_EARLY_DATA, CLI_ENTER_EARLY_DATA_COMPAT, CLI_READ_SERVER_HELLO,
     CLI_READ_SERVER_CERTIFICATE, CLI_READ_CERTIFICATE_STATUS, CLI_VERIFY_SERVER_CERTIFICATE,
     CLI_READ_SERVER_KEY_EXCHANGE, CLI_READ_CERTIFICATE_REQUEST, CLI_READ_SERVER_HELLO_DONE,
     CLI_SEND_CLIENT_CERTIFICATE, CLI_SEND_CLIENT_KEY_EXCHANGE, CLI_SEND_CLIENT_CERTIFICATE_VERIFY,
     CLI_SEND_CHANGE_CIPHER_SPEC, CLI_SEND_CLIENT_FINISHED, CLI_FINISH_FLIGHT, CLI_READ_SESSION_TICKET,
     CLI_PROCESS_CHANGE_CIPHER_SPEC, CLI_READ_SERVER_FINISHED, CLI_COMPAT_CSS_TLS13, CLI_READ_HRR_TLS13,
     CLI_SEND_SECOND_CLIENT_HELLO_TLS13, CLI_READ_SERVER_HELLO_TLS13, CLI_READ_ENCRYPTED_EXTENSIONS_TLS13,
     CLI_READ_CERTIFICATE_REQUEST_TLS13, CLI_READ_SERVER_CERTIFICATE_TLS13,
     CLI_READ_SERVER_CERTIFICATE_VERIFY_TLS13, CLI_READ_SERVER_FINISHED_TLS13, CLI_SEND_END_OF_EARLY_DATA_TLS13,
     CLI_SEND_CLIENT_ENCRYPTED_EXTENSIONS_TLS13, CLI_SEND_CLIENT_CERTIFICATE_TLS13,
     CLI_SEND_CLIENT_FINISHED_TLS13, CLI_COMPLETE_SECOND_FLIGHT_TLS13, CLI_FINISH_CLIENT_HANDSHAKE, CLI_DONE,
     CLI_READ_POST_HANDSHAKE, CLI_PROCESS_UPDATE_TRAFFIC, CLI_COMPLETE_UPDATE_TRAFFIC]"

definition client_dispatch :: "environment \<Rightarrow> int \<Rightarrow> ('a, Status) client_action option" where
  "client_dispatch E n =
     (case find (\<lambda>c. cli c = n) client_states of None \<Rightarrow> None | Some c \<Rightarrow> client_handler E c)"

text \<open>\<open>do_handshake\<close> of a client, and of a connection whose handshake is a client.\<close>

definition client_do_handshake :: "nat \<Rightarrow> environment \<Rightarrow> ('a, Status) client_action" where
  "client_do_handshake fuel E = hs_do_handshake_loop fuel hs_done (client_dispatch E) ST_OK"

definition client_connect :: "nat \<Rightarrow> environment \<Rightarrow> ('a, unit) client_action" where
  "client_connect fuel E = bnd (draw (env_random E)) (\<lambda>rnd.
     conn_do_handshake fuel (env_crypto E) rnd (client_do_handshake fuel E))"

end
