(* ===== verification/Handshake_Core.thy ===== *)
theory Handshake_Core
  imports Endpoints Action_Logic
begin

text \<open>
  The part of a handshake's state that decides about the progress and the authentication of a
  connection, and which operations leave it alone.  \<open>core_of\<close> projects a handshake to it: the state of
  the state machine, the settings, the version and the cipher suite, whether the session was resumed, what the session
  says about the peer's certificate, the host name and the outcome of the encrypted client hello.
  \<open>ckeeps P m\<close> says that \<open>m\<close> keeps the property \<open>P\<close> of the core, whether it returns or raises.

  The operations that both endpoints share leave the fields of their subclasses alone as well, and no operation of a
  handshake touches the edge of the connection around it.  The general notions \<open>core_by view\<close> and \<open>gkeeps view\<close> extend
  the core by what \<open>view\<close> tells of the edge and of these fields;
  \<open>core_of\<close> and \<open>ckeeps\<close> are the case of a view that tells nothing.  The collection \<open>core_rules\<close> has a rule for every operation the handlers are made of.
\<close>

type_synonym peer_info = "x509_certificate option \<times> x509_certificate list option \<times>
  x509_certificate option \<times> x509_certificate list option"

record handshake_core =
  co_is_server :: bool
  co_state :: int
  co_settings :: handshake_settings
  co_version :: int
  co_early_version :: bool
  co_suite :: "cipher_suite option"
  co_reused :: bool
  co_peer :: "peer_info option"
  co_hostname :: "bytes option"
  co_ech :: ECHStatus

definition peer_info :: "TLSSession \<Rightarrow> peer_info" where
  "peer_info x = (s_peer_cert x, s_peer_chain x, s_verified_peer_cert x, s_verified_peer_chain x)"

text \<open>What the connection around a handshake shows of itself: its output, whether it writes, and what it has passed over.\<close>

record connection_edge =
  ce_outbio :: bytes
  ce_write_shutdown :: Shutdown
  ce_early_data_ignored :: int
  ce_warning_alerts :: int

definition edge_of :: "'a TLSConnection_scheme \<Rightarrow> connection_edge" where
  "edge_of s = \<lparr>ce_outbio = cn_outbio s, ce_write_shutdown = cn_write_shutdown s,
     ce_early_data_ignored = cn_early_data_ignored s, ce_warning_alerts = cn_warning_alert_received s\<rparr>"

definition core_by :: "(connection_edge \<Rightarrow> 'a \<Rightarrow> 'm) \<Rightarrow> 'a Endpoint_scheme \<Rightarrow> 'm handshake_core_scheme" where
  "core_by view s = \<lparr>co_is_server = hs_is_server s, co_state = hs_state s, co_settings = hs_settings s,
     co_version = hs_version s, co_early_version = hs_is_early_version s, co_suite = hs_cipher_suite s,
     co_reused = hs_session_reused s, co_peer = map_option peer_info (hs_session s),
     co_hostname = hs_hostname s, co_ech = hs_ech_status s, \<dots> = view (edge_of s) (Endpoint.more s)\<rparr>"

abbreviation core_of :: "'a Endpoint_scheme \<Rightarrow> handshake_core" where
  "core_of \<equiv> core_by (\<lambda>_ _. ())"

lemmas core_of_def = core_by_def edge_of_def

lemma core_of_simps [simp]:
  "co_is_server (core_by view s) = hs_is_server s"
  "co_state (core_by view s) = hs_state s" "co_settings (core_by view s) = hs_settings s"
  "co_version (core_by view s) = hs_version s" "co_early_version (core_by view s) = hs_is_early_version s"
  "co_suite (core_by view s) = hs_cipher_suite s" "co_reused (core_by view s) = hs_session_reused s"
  "co_peer (core_by view s) = map_option peer_info (hs_session s)" "co_hostname (core_by view s) = hs_hostname s"
  "co_ech (core_by view s) = hs_ech_status s" "handshake_core.more (core_by view s) = view (edge_of s) (Endpoint.more s)"
  by (simp_all add: core_by_def)

lemma core_of_updates:
  "core_by view (s\<lparr>hs_state := st\<rparr>) = (core_by view s)\<lparr>co_state := st\<rparr>"
  "core_by view (s\<lparr>hs_session := Some x\<rparr>) = (core_by view s)\<lparr>co_peer := Some (peer_info x)\<rparr>"
  by (simp_all add: core_of_def)

definition gkeeps ::
    "(connection_edge \<Rightarrow> 'a \<Rightarrow> 'm) \<Rightarrow> ('m handshake_core_scheme \<Rightarrow> bool) \<Rightarrow> ('a Endpoint_scheme, 'b) action \<Rightarrow> bool" where
  "gkeeps view P m \<longleftrightarrow> keeps (\<lambda>s. P (core_by view s)) (\<lambda>_ s. P (core_by view s)) m"

abbreviation ckeeps :: "(handshake_core \<Rightarrow> bool) \<Rightarrow> ('a Endpoint_scheme, 'b) action \<Rightarrow> bool" where
  "ckeeps \<equiv> gkeeps (\<lambda>_ _. ())"

lemmas ckeeps_def = gkeeps_def

lemma ckeepsI: "(\<And>s r t. P (core_by view s) \<Longrightarrow> m s = (r, t) \<Longrightarrow> P (core_by view t)) \<Longrightarrow> gkeeps view P m"
  unfolding gkeeps_def keeps_def by (rule hoareI) blast+

lemma ckeepsD: "gkeeps view P m \<Longrightarrow> P (core_by view s) \<Longrightarrow> m s = (r, t) \<Longrightarrow> P (core_by view t)"
  unfolding gkeeps_def by (cases r) (auto dest: keepsD)

named_theorems core_rules \<open>operations that keep properties of the core\<close>

lemma ckeeps_same: "(\<And>s r t. m s = (r, t) \<Longrightarrow> core_by view t = core_by view s) \<Longrightarrow> gkeeps view P m"
  by (rule ckeepsI) simp

lemma ckeeps_basic [core_rules]:
  "gkeeps view P (ret x)" "gkeeps view P (raise e)" "gkeeps view P (raise_if b e)" "gkeeps view P (lift_result r)"
  "gkeeps view P (gets f)" "gkeeps view P get_state" "gkeeps view P (assert_some v)" "gkeeps view P (assert_that b)"
  by (auto intro!: ckeeps_same simp: action_simps assert_some_def assert_that_def split: option.splits)

lemma ckeeps_modify [core_rules]: "(\<And>s. P (core_by view s) \<Longrightarrow> P (core_by view (f s))) \<Longrightarrow> gkeeps view P (modify f)"
  by (auto intro!: ckeepsI)

lemma ckeeps_bnd_lift [core_rules]:
  "(\<And>x. r = Inr x \<Longrightarrow> gkeeps view P (f x)) \<Longrightarrow> gkeeps view P (bnd (lift_result r) f)"
  by (rule ckeepsI) (auto simp: action_simps split: sum.splits dest: ckeepsD)

lemma ckeeps_bnd [core_rules]: "gkeeps view P m \<Longrightarrow> (\<And>x. gkeeps view P (f x)) \<Longrightarrow> gkeeps view P (bnd m f)"
  unfolding gkeeps_def by (rule keeps_bnd)

lemma ckeeps_thn [core_rules]: "gkeeps view P m \<Longrightarrow> gkeeps view P n \<Longrightarrow> gkeeps view P (thn m n)"
  unfolding gkeeps_def by (rule keeps_thn)

lemma ckeeps_if [core_rules]:
  "(b \<Longrightarrow> gkeeps view P m) \<Longrightarrow> (\<not> b \<Longrightarrow> gkeeps view P n) \<Longrightarrow> gkeeps view P (if b then m else n)"
  by simp

lemma ckeeps_do_if [core_rules]: "(b \<Longrightarrow> gkeeps view P m) \<Longrightarrow> gkeeps view P (do_if b m)"
  by (simp add: do_if_def ckeeps_basic)

lemma ckeeps_option [core_rules]:
  "(x = None \<Longrightarrow> gkeeps view P m) \<Longrightarrow> (\<And>y. x = Some y \<Longrightarrow> gkeeps view P (f y)) \<Longrightarrow>
   gkeeps view P (case x of None \<Rightarrow> m | Some y \<Rightarrow> f y)"
  by (cases x) simp_all

lemma ckeeps_prod [core_rules]:
  "(\<And>a b. p = (a, b) \<Longrightarrow> gkeeps view P (f a b)) \<Longrightarrow> gkeeps view P (case p of (a, b) \<Rightarrow> f a b)"
  by (cases p) simp

lemma ckeeps_list [core_rules]:
  "(xs = [] \<Longrightarrow> gkeeps view P m) \<Longrightarrow> (\<And>y ys. xs = y # ys \<Longrightarrow> gkeeps view P (f y ys)) \<Longrightarrow>
   gkeeps view P (case xs of [] \<Rightarrow> m | y # ys \<Rightarrow> f y ys)"
  by (cases xs) simp_all

lemma ckeeps_let [core_rules]: "gkeeps view P (f x) \<Longrightarrow> gkeeps view P (let y = x in f y)"
  by simp

lemma ckeeps_catch [core_rules]:
  assumes "gkeeps view P m" and "\<And>e. gkeeps view P (h e)"
  shows "gkeeps view P (catch m h)"
proof (rule ckeepsI)
  fix s r t assume s: "P (core_by view s)" and c: "catch m h s = (r, t)"
  obtain q u where m: "m s = (q, u)" by (cases "m s")
  from assms(1) s m have u: "P (core_by view u)" by (rule ckeepsD)
  show "P (core_by view t)" using c m u ckeepsD [OF assms(2) u] by (cases q) (auto simp: catch_def)
qed

lemma ckeeps_except [core_rules]: "gkeeps view P m \<Longrightarrow> gkeeps view P (except_action m es e)"
  unfolding except_action_def by (intro core_rules)

text \<open>The message or the extension a handler works on has one of several classes.\<close>

lemma ckeeps_message [core_rules]:
  "(\<And>x0. v = ClientHello x0 \<Longrightarrow> gkeeps view P (m0 x0)) \<Longrightarrow>
   (v = HelloRequest \<Longrightarrow> gkeeps view P m1) \<Longrightarrow>
   (\<And>x0. v = ServerHello x0 \<Longrightarrow> gkeeps view P (m2 x0)) \<Longrightarrow>
   (\<And>x0. v = ClientKeyExchange x0 \<Longrightarrow> gkeeps view P (m3 x0)) \<Longrightarrow>
   (\<And>x0. v = ServerKeyExchange x0 \<Longrightarrow> gkeeps view P (m4 x0)) \<Longrightarrow>
   (v = ServerHelloDone \<Longrightarrow> gkeeps view P m5) \<Longrightarrow>
   (\<And>x0. v = NextProtocol x0 \<Longrightarrow> gkeeps view P (m6 x0)) \<Longrightarrow>
   (\<And>x0. v = EncryptedExtensions x0 \<Longrightarrow> gkeeps view P (m7 x0)) \<Longrightarrow>
   (v = EndOfEarlyData \<Longrightarrow> gkeeps view P m8) \<Longrightarrow>
   (\<And>x0. v = Finished x0 \<Longrightarrow> gkeeps view P (m9 x0)) \<Longrightarrow>
   (\<And>x0. v = NewSessionTicket x0 \<Longrightarrow> gkeeps view P (m10 x0)) \<Longrightarrow>
   (\<And>x0. v = NewSessionTicketTLS13 x0 \<Longrightarrow> gkeeps view P (m11 x0)) \<Longrightarrow>
   (\<And>x0. v = KeyUpdate x0 \<Longrightarrow> gkeeps view P (m12 x0)) \<Longrightarrow>
   (\<And>x0. v = CertificateStatus x0 \<Longrightarrow> gkeeps view P (m13 x0)) \<Longrightarrow>
   (\<And>x0. v = Certificate x0 \<Longrightarrow> gkeeps view P (m14 x0)) \<Longrightarrow>
   (\<And>x0. v = CertificateTLS13 x0 \<Longrightarrow> gkeeps view P (m15 x0)) \<Longrightarrow>
   (\<And>x0. v = CompressedCertificate x0 \<Longrightarrow> gkeeps view P (m16 x0)) \<Longrightarrow>
   (\<And>x0. v = CertificateRequest x0 \<Longrightarrow> gkeeps view P (m17 x0)) \<Longrightarrow>
   (\<And>x0. v = CertificateRequestTLS12 x0 \<Longrightarrow> gkeeps view P (m18 x0)) \<Longrightarrow>
   (\<And>x0. v = CertificateRequestTLS13 x0 \<Longrightarrow> gkeeps view P (m19 x0)) \<Longrightarrow>
   (\<And>x0. v = CertificateVerify x0 \<Longrightarrow> gkeeps view P (m20 x0)) \<Longrightarrow>
   (\<And>x0. v = CertificateVerifyTLS12 x0 \<Longrightarrow> gkeeps view P (m21 x0)) \<Longrightarrow>
   gkeeps view P (case_message m0 m1 m2 m3 m4 m5 m6 m7 m8 m9 m10 m11
     m12 m13 m14 m15 m16 m17 m18 m19 m20 m21 v)"
  by (cases v) simp_all

lemma ckeeps_extension [core_rules]:
  "(v = EncryptThenMacExtension \<Longrightarrow> gkeeps view P m0) \<Longrightarrow>
   (v = ExtendedMasterSecretExtension \<Longrightarrow> gkeeps view P m1) \<Longrightarrow>
   (\<And>x0. v = RenegotiationInfoExtension x0 \<Longrightarrow> gkeeps view P (m2 x0)) \<Longrightarrow>
   (\<And>x0. v = SessionTicketExtension x0 \<Longrightarrow> gkeeps view P (m3 x0)) \<Longrightarrow>
   (\<And>x0. v = CompressedCertificateExtension x0 \<Longrightarrow> gkeeps view P (m4 x0)) \<Longrightarrow>
   (\<And>x0. v = SupportedVersionsClientExtension x0 \<Longrightarrow> gkeeps view P (m5 x0)) \<Longrightarrow>
   (\<And>x0. v = SupportedVersionsServerExtension x0 \<Longrightarrow> gkeeps view P (m6 x0)) \<Longrightarrow>
   (\<And>x0. v = SupportedGroupsClientExtension x0 \<Longrightarrow> gkeeps view P (m7 x0)) \<Longrightarrow>
   (\<And>x0. v = ECPointFormatsExtension x0 \<Longrightarrow> gkeeps view P (m8 x0)) \<Longrightarrow>
   (\<And>x0. v = ClientHelloPaddingExtension x0 \<Longrightarrow> gkeeps view P (m9 x0)) \<Longrightarrow>
   (\<And>x0. v = SignatureAlgorithmsExtension x0 \<Longrightarrow> gkeeps view P (m10 x0)) \<Longrightarrow>
   (\<And>x0. v = PSKKeyExchangeModesExtension x0 \<Longrightarrow> gkeeps view P (m11 x0)) \<Longrightarrow>
   (\<And>x0. v = ALPSClientExtension x0 \<Longrightarrow> gkeeps view P (m12 x0)) \<Longrightarrow>
   (\<And>x0. v = ALPSExtension x0 \<Longrightarrow> gkeeps view P (m13 x0)) \<Longrightarrow>
   (\<And>x0. v = CookieExtension x0 \<Longrightarrow> gkeeps view P (m14 x0)) \<Longrightarrow>
   (\<And>x0. v = ECHOuterExtension x0 \<Longrightarrow> gkeeps view P (m15 x0)) \<Longrightarrow>
   (\<And>x0. v = SNIClientExtension x0 \<Longrightarrow> gkeeps view P (m16 x0)) \<Longrightarrow>
   (v = SNIServerExtension \<Longrightarrow> gkeeps view P m17) \<Longrightarrow>
   (v = NPNClientExtension \<Longrightarrow> gkeeps view P m18) \<Longrightarrow>
   (\<And>x0. v = NPNServerExtension x0 \<Longrightarrow> gkeeps view P (m19 x0)) \<Longrightarrow>
   (\<And>x0. v = ALPNClientExtension x0 \<Longrightarrow> gkeeps view P (m20 x0)) \<Longrightarrow>
   (\<And>x0. v = ALPNServerExtension x0 \<Longrightarrow> gkeeps view P (m21 x0)) \<Longrightarrow>
   (\<And>x0 x1. v = StatusRequestClientExtension x0 x1 \<Longrightarrow> gkeeps view P (m22 x0 x1)) \<Longrightarrow>
   (v = StatusRequestServerExtension \<Longrightarrow> gkeeps view P m23) \<Longrightarrow>
   (\<And>x0. v = StatusRequestCertExtension x0 \<Longrightarrow> gkeeps view P (m24 x0)) \<Longrightarrow>
   (\<And>x0. v = KeyShareClientExtension x0 \<Longrightarrow> gkeeps view P (m25 x0)) \<Longrightarrow>
   (\<And>x0. v = KeyShareServerExtension x0 \<Longrightarrow> gkeeps view P (m26 x0)) \<Longrightarrow>
   (\<And>x0. v = KeyShareHRRExtension x0 \<Longrightarrow> gkeeps view P (m27 x0)) \<Longrightarrow>
   (\<And>x0 x1. v = PSKClientExtension x0 x1 \<Longrightarrow> gkeeps view P (m28 x0 x1)) \<Longrightarrow>
   (\<And>x0. v = PSKServerExtension x0 \<Longrightarrow> gkeeps view P (m29 x0)) \<Longrightarrow>
   (v = PostHandshakeAuthExtension \<Longrightarrow> gkeeps view P m30) \<Longrightarrow>
   (\<And>x0. v = EarlyDataExtension x0 \<Longrightarrow> gkeeps view P (m31 x0)) \<Longrightarrow>
   (v = EarlyDataClientExtension \<Longrightarrow> gkeeps view P m32) \<Longrightarrow>
   (v = EarlyDataServerExtension \<Longrightarrow> gkeeps view P m33) \<Longrightarrow>
   (v = SCTClientExtension \<Longrightarrow> gkeeps view P m34) \<Longrightarrow>
   (\<And>x0. v = SCTServerExtension x0 \<Longrightarrow> gkeeps view P (m35 x0)) \<Longrightarrow>
   (\<And>x0. v = ECHClientExtension x0 \<Longrightarrow> gkeeps view P (m36 x0)) \<Longrightarrow>
   (\<And>x0. v = ECHServerExtension x0 \<Longrightarrow> gkeeps view P (m37 x0)) \<Longrightarrow>
   (\<And>x0. v = ECHHRRExtension x0 \<Longrightarrow> gkeeps view P (m38 x0)) \<Longrightarrow>
   (\<And>x0 x1. v = GenericExtension x0 x1 \<Longrightarrow> gkeeps view P (m39 x0 x1)) \<Longrightarrow>
   gkeeps view P (case_extension m0 m1 m2 m3 m4 m5 m6 m7 m8 m9 m10 m11
     m12 m13 m14 m15 m16 m17 m18 m19 m20 m21 m22 m23
     m24 m25 m26 m27 m28 m29 m30 m31 m32 m33 m34 m35
     m36 m37 m38 m39 v)"
  by (cases v) simp_all

lemma ckeeps_public_key [core_rules]:
  "(\<And>x0. v = RSAPublicKey x0 \<Longrightarrow> gkeeps view P (m0 x0)) \<Longrightarrow>
   (\<And>x0. v = DSAPublicKey x0 \<Longrightarrow> gkeeps view P (m1 x0)) \<Longrightarrow>
   (\<And>x0 x1. v = ECPublicKey x0 x1 \<Longrightarrow> gkeeps view P (m2 x0 x1)) \<Longrightarrow>
   (\<And>x0. v = Ed25519PublicKey x0 \<Longrightarrow> gkeeps view P (m3 x0)) \<Longrightarrow>
   (\<And>x0. v = Ed448PublicKey x0 \<Longrightarrow> gkeeps view P (m4 x0)) \<Longrightarrow>
   gkeeps view P (case_BasePublicKey m0 m1 m2 m3 m4 v)"
  by (cases v) simp_all

lemma ckeeps_on_parser [core_rules]: "gkeeps view P (on_parser m p)"
  by (auto intro!: ckeeps_same simp: on_parser_def action_simps split: prod.splits sum.splits)

lemma rebase_time_peer [simp]:
  "s_peer_cert (rebase_time now x) = s_peer_cert x" "s_peer_chain (rebase_time now x) = s_peer_chain x"
  "s_verified_peer_cert (rebase_time now x) = s_verified_peer_cert x"
  "s_verified_peer_chain (rebase_time now x) = s_verified_peer_chain x"
  by (simp_all add: rebase_time_def Let_def)

lemmas core_side = core_of_def peer_info_def

lemma ckeeps_ext_get [core_rules]: "gkeeps view P (ext_get c exts)"
  unfolding ext_get_def by (intro core_rules)

subsection \<open>Operations of the base class\<close>

lemma ckeeps_on_transcript [core_rules]: "gkeeps view P (on_transcript m)"
  by (rule ckeeps_same) (auto simp: on_transcript_def core_of_def split: prod.splits)

lemma ckeeps_on_key_schedule [core_rules]: "gkeeps view P (on_key_schedule m)"
  by (rule ckeeps_same) (auto simp: on_key_schedule_def core_of_def split: prod.splits option.splits)

lemma ckeeps_parse_as [core_rules]: "gkeeps view P (parse_as c)"
  by (rule ckeeps_same) (auto simp: parse_as_def core_of_def split: prod.splits option.splits)

lemma ckeeps_read_handshake [core_rules]: "gkeeps view P read_handshake"
  by (rule ckeeps_same)
     (auto simp: read_handshake_def core_of_def action_simps Let_def split: if_splits option.splits)

lemma ckeeps_messages [core_rules]:
  "gkeeps view P (add_message m u)" "gkeeps view P (next_handshake u)" "gkeeps view P protocol_version"
  unfolding add_message_def next_handshake_def protocol_version_def
  by (intro core_rules; simp add: core_of_def)+

lemma ckeeps_sessions [core_rules]:
  "gkeeps view P current_session" "gkeeps view P current_key_schedule" "gkeeps view P current_cipher_suite"
  unfolding current_session_def current_key_schedule_def current_cipher_suite_def by (intro core_rules)+

lemma ckeeps_set_session [core_rules]:
  "(\<And>c. P c \<Longrightarrow> P (c\<lparr>co_peer := Some (peer_info x)\<rparr>)) \<Longrightarrow> gkeeps view P (set_session x)"
  unfolding set_session_def by (intro core_rules) (auto simp only: core_of_updates)

lemma ckeeps_update_session [core_rules]:
  "(\<And>x. peer_info (f x) = peer_info x) \<Longrightarrow> gkeeps view P (update_session f)"
  by (rule ckeeps_same)
     (auto simp: update_session_def current_session_def set_session_def assert_some_def core_of_def
        action_simps split: option.splits)

lemma ckeeps_set_state [core_rules]:
  "(\<And>c. P c \<Longrightarrow> P (c\<lparr>co_state := st\<rparr>)) \<Longrightarrow> gkeeps view P (set_state st)"
  unfolding set_state_def by (intro core_rules) (auto simp only: core_of_updates)

lemma ckeeps_goto [core_rules]:
  "(\<And>c. P c \<Longrightarrow> P (c\<lparr>co_state := st\<rparr>)) \<Longrightarrow> gkeeps view P (goto st status)"
  unfolding goto_def by (intro core_rules)

lemma ckeeps_with_handshake [core_rules]: "(\<And>h. gkeeps view P (f h)) \<Longrightarrow> gkeeps view P (with_handshake f)"
  unfolding with_handshake_def by (intro core_rules)

lemma ckeeps_early_data [core_rules]: "gkeeps view P hs_close_early_data" "gkeeps view P hs_close_in_early_data"
  unfolding hs_close_in_early_data_def hs_close_early_data_def by (intro core_rules; simp add: core_of_def)+

lemma ckeeps_derive [core_rules]:
  "gkeeps view P (hs_derive_secret cr pms label t)" "gkeeps view P (derive_finished_verify_data cr secret label)"
  "gkeeps view P (derive_key cr secret)" "gkeeps view P (derive_secret_tls13 cr d ep label' t')"
  unfolding hs_derive_secret_def derive_finished_verify_data_def derive_key_def derive_secret_tls13_def Let_def
  by (intro core_rules; simp add: core_of_def)+

lemma ckeeps_write_key_update [core_rules]: "gkeeps view P (write_key_update t)"
  unfolding write_key_update_def by (intro core_rules)

lemma ckeeps_setup [core_rules]:
  assumes "\<And>d e c. gkeeps view P (cb d e c)"
  shows "gkeeps view P (hs_setup_traffic cb d)" "gkeeps view P (hs_setup_traffic_tls13 cb d e)"
    "gkeeps view P (derive_upd_secret_tls13 cr cb d)"
  unfolding hs_setup_traffic_def hs_setup_traffic_tls13_def derive_upd_secret_tls13_def
  by (intro core_rules assms; simp add: core_of_def)+

lemma ckeeps_get_new_session [core_rules]: "gkeeps view P (get_new_session now)"
  unfolding get_new_session_def by (intro core_rules)

lemma ckeeps_certificates [core_rules]:
  "gkeeps view P (process_certificate lib session anon)"
  "gkeeps view P (process_certificate_tls13 libs lib session anon compressed)"
  "gkeeps view P (process_certificate_verify cr a lib session cv algs)"
  "gkeeps view P (verify_x509 L now session hostname)"
  unfolding process_certificate_def process_certificate_tls13_def process_certificate_verify_def verify_x509_def Let_def
  by (intro core_rules)+

subsection \<open>Operations of an endpoint\<close>

lemma ckeeps_draw [core_rules]: "gkeeps view P (draw f)"
  unfolding draw_def by (intro core_rules) (simp add: core_of_def)

lemma ckeeps_random [core_rules]:
  "gkeeps view P (get_random_bytes E n)" "gkeeps view P (get_random_int E a b)" "gkeeps view P (get_random_bits E k)"
  "gkeeps view P (utcnow E)"
  unfolding get_random_bytes_def get_random_int_def get_random_bits_def utcnow_def by (intro core_rules)+

lemma ckeeps_conn_setup_traffic [core_rules]: "gkeeps view P (conn_setup_traffic cr rnd d e c)"
  unfolding conn_setup_traffic_def by (intro core_rules; simp add: core_of_def)

lemma ckeeps_endpoint [core_rules]:
  "gkeeps view P (ep_get_key_exchange E g)" "gkeeps view P (ep_generate_and_exchange E kex pk)"
  "gkeeps view P (ep_setup_traffic E d e c)" "gkeeps view P (ep_verify_x509 E session hostname)"
  "gkeeps view P (ep_get_new_session E)"
  unfolding ep_get_key_exchange_def ep_generate_and_exchange_def ep_setup_traffic_def ep_verify_x509_def
    ep_get_new_session_def
  by (intro core_rules)+

lemma ckeeps_cert_public_key [core_rules]: "gkeeps view P (cert_public_key E e cert)"
  unfolding cert_public_key_def by (intro core_rules)

subsection \<open>Triples over the core\<close>

text \<open>A handler that establishes something needs a precondition, and a postcondition for each way out.\<close>

definition gchoare ::
    "(connection_edge \<Rightarrow> 'a \<Rightarrow> 'm) \<Rightarrow> ('m handshake_core_scheme \<Rightarrow> bool) \<Rightarrow> ('a Endpoint_scheme, 'b) action \<Rightarrow>
     ('b \<Rightarrow> 'm handshake_core_scheme \<Rightarrow> bool) \<Rightarrow> ('m handshake_core_scheme \<Rightarrow> bool) \<Rightarrow> bool" where
  "gchoare view P m Q X \<longleftrightarrow> hoare (\<lambda>s. P (core_by view s)) m (\<lambda>y s. Q y (core_by view s)) (\<lambda>_ s. X (core_by view s))"

abbreviation choare ::
    "(handshake_core \<Rightarrow> bool) \<Rightarrow> ('a Endpoint_scheme, 'b) action \<Rightarrow> ('b \<Rightarrow> handshake_core \<Rightarrow> bool) \<Rightarrow>
     (handshake_core \<Rightarrow> bool) \<Rightarrow> bool" where
  "choare \<equiv> gchoare (\<lambda>_ _. ())"

lemmas choare_def = gchoare_def

lemma choareI:
  "(\<And>s y t. P (core_by view s) \<Longrightarrow> m s = (Inr y, t) \<Longrightarrow> Q y (core_by view t)) \<Longrightarrow>
   (\<And>s e t. P (core_by view s) \<Longrightarrow> m s = (Inl e, t) \<Longrightarrow> X (core_by view t)) \<Longrightarrow> gchoare view P m Q X"
  unfolding gchoare_def by (rule hoareI) blast+

lemma choareD:
  "gchoare view P m (\<lambda>_. Q) Q \<Longrightarrow> P (core_by view s) \<Longrightarrow> m s = (r, t) \<Longrightarrow> Q (core_by view t)"
  unfolding gchoare_def by (cases r) (auto dest: hoareD)

lemma choare_keep: "gkeeps view P m \<Longrightarrow> (\<And>c. P c \<Longrightarrow> Q c) \<Longrightarrow> (\<And>c. P c \<Longrightarrow> X c) \<Longrightarrow> gchoare view P m (\<lambda>_. Q) X"
  by (rule choareI) (auto dest: ckeepsD)

lemma choare_pre: "gchoare view R m Q X \<Longrightarrow> (\<And>c. P c \<Longrightarrow> R c) \<Longrightarrow> gchoare view P m Q X"
  unfolding gchoare_def by (erule hoare_conseq) auto

lemma choare_bnd: "gchoare view P m R X \<Longrightarrow> (\<And>y. gchoare view (R y) (f y) Q X) \<Longrightarrow> gchoare view P (bnd m f) Q X"
  unfolding gchoare_def by (rule hoare_bnd)

lemma choare_thn: "gchoare view P m (\<lambda>_. R) X \<Longrightarrow> gchoare view R n Q X \<Longrightarrow> gchoare view P (thn m n) Q X"
  unfolding gchoare_def by (rule hoare_thn)

named_theorems core_triples \<open>triples over the core: prefixes that keep the precondition, and branches\<close>

lemma choare_get_state [core_triples]:
  "(\<And>s. P (core_by view s) \<Longrightarrow> gchoare view (\<lambda>c. c = core_by view s) (f s) Q X) \<Longrightarrow> gchoare view P (bnd get_state f) Q X"
  unfolding gchoare_def hoare_def by (auto simp: action_simps)

lemma choare_gets [core_triples]:
  "(\<And>s. P (core_by view s) \<Longrightarrow> gchoare view (\<lambda>c. c = core_by view s) (f (g s)) Q X) \<Longrightarrow> gchoare view P (bnd (gets g) f) Q X"
  unfolding gchoare_def hoare_def by (auto simp: action_simps)

lemma choare_bnd_lift [core_triples]:
  "(\<And>c. P c \<Longrightarrow> X c) \<Longrightarrow> (\<And>y. r = Inr y \<Longrightarrow> gchoare view P (f y) Q X) \<Longrightarrow> gchoare view P (bnd (lift_result r) f) Q X"
  unfolding gchoare_def hoare_def by (auto simp: action_simps split: sum.splits)

lemma choare_bnd_assert [core_triples]:
  "(\<And>c. P c \<Longrightarrow> X c) \<Longrightarrow> (\<And>y. x = Some y \<Longrightarrow> gchoare view P (f y) Q X) \<Longrightarrow> gchoare view P (bnd (assert_some x) f) Q X"
  unfolding gchoare_def hoare_def by (auto simp: action_simps assert_some_def split: option.splits)

lemma choare_raise_if [core_triples]:
  "(\<And>c. P c \<Longrightarrow> X c) \<Longrightarrow> (\<not> b \<Longrightarrow> gchoare view P m Q X) \<Longrightarrow> gchoare view P (thn (raise_if b e) m) Q X"
  unfolding gchoare_def hoare_def by (auto simp: action_simps)

lemma choare_bnd_keep [core_triples]:
  "gkeeps view P m \<Longrightarrow> (\<And>c. P c \<Longrightarrow> X c) \<Longrightarrow> (\<And>y. gchoare view P (f y) Q X) \<Longrightarrow> gchoare view P (bnd m f) Q X"
  by (rule choare_bnd [where R = "\<lambda>_. P"]) (auto intro: choare_keep)

lemma choare_thn_keep [core_triples]:
  "gkeeps view P m \<Longrightarrow> (\<And>c. P c \<Longrightarrow> X c) \<Longrightarrow> gchoare view P n Q X \<Longrightarrow> gchoare view P (thn m n) Q X"
  by (rule choare_thn [where R = P]) (auto intro: choare_keep)

lemma choare_branches [core_triples]:
  "(b \<Longrightarrow> gchoare view P m Q X) \<Longrightarrow> (\<not> b \<Longrightarrow> gchoare view P n Q X) \<Longrightarrow> gchoare view P (if b then m else n) Q X"
  "(x = None \<Longrightarrow> gchoare view P m Q X) \<Longrightarrow> (\<And>y. x = Some y \<Longrightarrow> gchoare view P (f y) Q X) \<Longrightarrow>
   gchoare view P (case x of None \<Rightarrow> m | Some y \<Rightarrow> f y) Q X"
  "(\<And>a b. p = (a, b) \<Longrightarrow> gchoare view P (g a b) Q X) \<Longrightarrow> gchoare view P (case p of (a, b) \<Rightarrow> g a b) Q X"
  by (auto split: option.splits prod.splits)

lemma choare_raise [core_triples]: "(\<And>c. P c \<Longrightarrow> X c) \<Longrightarrow> gchoare view P (raise e) Q X"
  unfolding gchoare_def hoare_def by (auto simp: action_simps)

lemma choare_server_hello [core_triples]:
  "(\<And>c. P c \<Longrightarrow> X c) \<Longrightarrow> (\<And>sh. m = ServerHello sh \<Longrightarrow> gchoare view P (f sh) Q X) \<Longrightarrow>
   gchoare view P (case m of ServerHello sh \<Rightarrow> f sh | _ \<Rightarrow> raise e) Q X"
  by (cases m) (simp_all add: choare_raise)

lemma choare_with_handshake [core_triples]:
  "(\<And>c. P c \<Longrightarrow> X c) \<Longrightarrow> (\<And>c. P c \<Longrightarrow> Q ST_READ_HANDSHAKE c) \<Longrightarrow> (\<And>h. gchoare view P (f h) Q X) \<Longrightarrow>
   gchoare view P (with_handshake f) Q X"
  unfolding with_handshake_def
  by (rule choare_bnd_keep [OF ckeeps_read_handshake]) (auto simp: gchoare_def hoare_def action_simps split: option.splits)

lemma choare_goto [core_triples]:
  "(\<And>c. P c \<Longrightarrow> Q status (c\<lparr>co_state := st\<rparr>)) \<Longrightarrow> gchoare view P (goto st status) Q X"
  unfolding gchoare_def hoare_def goto_def set_state_def by (auto simp: action_simps core_of_updates)

lemma choare_gets_settings:
  "(\<And>st. gchoare view (\<lambda>c. P c \<and> co_settings c = st) (f st) Q X) \<Longrightarrow> gchoare view P (bnd (gets hs_settings) f) Q X"
  unfolding gchoare_def hoare_def by (auto simp: action_simps)

lemma choare_protocol_version:
  "(\<And>c. P c \<Longrightarrow> X c) \<Longrightarrow> (\<And>v. gchoare view (\<lambda>c. P c \<and> co_version c = v) (f v) Q X) \<Longrightarrow>
   gchoare view P (bnd protocol_version f) Q X"
  unfolding gchoare_def hoare_def protocol_version_def by (auto simp: action_simps)

text \<open>An assignment that establishes what the rest keeps.\<close>

lemma choare_modify_thn:
  "(\<And>s. P (core_by view s) \<Longrightarrow> R (core_by view (f s))) \<Longrightarrow> gkeeps view R m \<Longrightarrow> (\<And>c. R c \<Longrightarrow> Q c) \<Longrightarrow>
   gchoare view P (thn (modify f) m) (\<lambda>_. Q) Q"
  by (rule choare_thn [where R = R]) (auto intro: choare_keep simp: gchoare_def [where m = "modify f"] hoare_def action_simps)

lemma choare_hello_message:
  assumes "\<And>c. P c \<Longrightarrow> Q c" and "\<And>h sh. gchoare view P (f h sh) (\<lambda>_. Q) Q"
  shows "gchoare view P (with_handshake (\<lambda>h. bnd (parse_as ServerHello_msg) (\<lambda>m.
     case m of ServerHello sh \<Rightarrow> f h sh | _ \<Rightarrow> raise TypeError))) (\<lambda>_. Q) Q"
  by (intro choare_with_handshake choare_bnd_keep ckeeps_parse_as choare_server_hello assms)

lemma ckeeps_True: "gkeeps view (\<lambda>_. True) m"
  by (rule ckeepsI)

lemma choare_do_if:
  "(b \<Longrightarrow> gchoare view P m (\<lambda>_. Q) X) \<Longrightarrow> (\<And>c. \<not> b \<Longrightarrow> P c \<Longrightarrow> Q c) \<Longrightarrow> gchoare view P (do_if b m) (\<lambda>_. Q) X"
  by (auto simp: do_if_def gchoare_def hoare_def action_simps)

subsection \<open>What a verification tells\<close>

definition peer_verifier :: "bool \<Rightarrow> TLSConfiguration \<Rightarrow> Store \<Rightarrow> bytes option \<Rightarrow> Verifier" where
  "peer_verifier is_server configuration castore hostname = \<lparr>vf_store = castore, vf_allow_partial_chain = False,
     vf_max_chain_depth = 8, vf_ee_policy = verify_x509_policy is_server (cfg_check_hostname configuration) hostname,
     vf_ca_policy = defaults_ca\<rparr>"

definition peer_verified :: "cert_lib \<Rightarrow> bool \<Rightarrow> handshake_settings \<Rightarrow> bytes option \<Rightarrow> peer_info \<Rightarrow> bool" where
  "peer_verified L is_server st hostname p \<longleftrightarrow> (\<exists>castore now leaf ims chain.
     cfg_castore (st_configuration st) = Some castore \<and>
     verifier_verify L (peer_verifier is_server (st_configuration st) castore hostname) now leaf ims = Inr chain \<and>
     p = (Some leaf, Some ims, Some (hd chain), Some (tl chain)))"

lemma verify_x509_verified:
  assumes "verify_x509 L now session hostname s = (Inr x, t)"
  shows "t = s" "peer_verified L (hs_is_server s) (hs_settings s) hostname (peer_info x)"
  using assms
  by (auto simp: verify_x509_def peer_verified_def peer_verifier_def peer_info_def Verifier_init_def Let_def action_simps
      split: option.splits sum.splits if_splits) blast

lemma choare_verify:
  assumes "\<And>c p. P c \<Longrightarrow> peer_verified (env_cert E) (co_is_server c) (co_settings c) hostname p \<Longrightarrow>
      Q (c\<lparr>co_peer := Some p\<rparr>)"
    and "\<And>c. P c \<Longrightarrow> X c"
  shows "gchoare view P (bnd (ep_verify_x509 E session hostname) set_session) (\<lambda>_. Q) X"
proof (rule choare_bnd [where R = "\<lambda>x c. P c \<and>
    peer_verified (env_cert E) (co_is_server c) (co_settings c) hostname (peer_info x)"])
  show "gchoare view P (ep_verify_x509 E session hostname)
     (\<lambda>x c. P c \<and> peer_verified (env_cert E) (co_is_server c) (co_settings c) hostname (peer_info x)) X"
  proof (rule choareI)
    fix s x t assume p: "P (core_by view s)" and run: "ep_verify_x509 E session hostname s = (Inr x, t)"
    let ?u = "s\<lparr>ep_draws := Suc (ep_draws s)\<rparr>"
    from run have "verify_x509 (env_cert E) (env_now E (ep_draws s)) session hostname ?u = (Inr x, t)"
      by (simp add: ep_verify_x509_def draw_def action_simps)
    note v = verify_x509_verified [OF this]
    have same: "core_by view t = core_by view s" using v(1) by (simp add: core_of_def)
    show "P (core_by view t) \<and>
       peer_verified (env_cert E) (co_is_server (core_by view t)) (co_settings (core_by view t)) hostname (peer_info x)"
      unfolding same using p v(2) by simp
  next
    fix s e t assume "P (core_by view s)" and "ep_verify_x509 E session hostname s = (Inl e, t)"
    then show "X (core_by view t)" using assms(2) ckeepsD [OF ckeeps_endpoint(4)] by blast
  qed
  show "gchoare view (\<lambda>c. P c \<and> peer_verified (env_cert E) (co_is_server c) (co_settings c) hostname (peer_info x))
     (set_session x) (\<lambda>_. Q) X" for x
    unfolding gchoare_def hoare_def set_session_def using assms(1) by (auto simp: action_simps core_of_updates)
qed

subsection \<open>Steps of a handler\<close>

lemma core_of_eqD:
  "core_by view s = core_by view t \<Longrightarrow> hs_is_server s = hs_is_server t \<and> hs_state s = hs_state t \<and> hs_settings s = hs_settings t \<and>
     hs_version s = hs_version t \<and> hs_cipher_suite s = hs_cipher_suite t \<and> hs_session_reused s = hs_session_reused t \<and>
     hs_hostname s = hs_hostname t \<and> hs_ech_status s = hs_ech_status t"
  by (simp add: core_of_def)

text \<open>A handler that has moved the state machine has passed each step that does not.\<close>

lemma bnd_moved:
  assumes "bnd m f s = (r, t)" and "hs_state t \<noteq> hs_state s" and "ckeeps (\<lambda>c. c = core_of s) m"
  obtains x u where "m s = (Inr x, u)" "hs_state u = hs_state s" "f x u = (r, t)"
proof -
  obtain q u where m: "m s = (q, u)" by (cases "m s")
  have "core_of u = core_of s" using ckeepsD [OF assms(3) refl m] .
  then have u: "hs_state u = hs_state s" by (rule core_of_eqD [THEN conjunct2, THEN conjunct1])
  show ?thesis
  proof (cases q)
    case (Inr x)
    with m u assms(1) show ?thesis by (intro that [of x u]) (simp_all add: bnd_apply)
  qed (use m u assms(1,2) in \<open>simp add: bnd_apply\<close>)
qed

lemma thn_moved:
  assumes "thn m n s = (r, t)" and "hs_state t \<noteq> hs_state s" and "ckeeps (\<lambda>c. c = core_of s) m"
  obtains x u where "m s = (Inr x, u)" "hs_state u = hs_state s" "n u = (r, t)"
  using bnd_moved [of m "\<lambda>_. n" s r t] assms by (metis thn_def)

lemma current_frame:
  "current_session s = (r, t) \<Longrightarrow> t = s" "current_key_schedule s = (q, t) \<Longrightarrow> t = s"
  by (auto simp: current_session_def current_key_schedule_def assert_some_def action_simps split: option.splits)

lemma parse_as_frame: "parse_as c s = (r, t) \<Longrightarrow> \<exists>x. t = s\<lparr>hs_cache := x\<rparr>"
  by (auto simp: parse_as_def split: option.splits prod.splits intro: exI [of _ "hs_cache s"])

lemma current_cache [simp]:
  "fst (current_session (s\<lparr>hs_cache := x\<rparr>)) = fst (current_session s)"
  "fst (current_key_schedule (s\<lparr>hs_cache := x\<rparr>)) = fst (current_key_schedule s)"
  by (auto simp: current_session_def current_key_schedule_def assert_some_def action_simps split: option.splits)

text \<open>The part that both handlers share: a message is there and is a finished message.\<close>

lemma read_finished_message:
  assumes "with_handshake (\<lambda>_. bnd m (\<lambda>x. bnd (parse_as Finished_msg) (\<lambda>y.
      case y of Finished verify_data \<Rightarrow> f x verify_data | _ \<Rightarrow> raise TypeError))) (s :: 'a Endpoint_scheme) = (r, t)"
    and "hs_state t \<noteq> hs_state s" and "\<And>u v q. m u = (q, v) \<Longrightarrow> v = u"
  obtains h u x verify_data v where "read_handshake s = (Inr (Some h), u)" "m u = (Inr x, u)"
    "parse_as Finished_msg u = (Inr (Finished verify_data), v)" "f x verify_data v = (r, t)" "hs_state v = hs_state s"
proof -
  from assms(1,2) obtain h u where h: "read_handshake s = (Inr h, u)" "hs_state u = hs_state s"
    and rest: "(case h of None \<Rightarrow> ret ST_READ_HANDSHAKE | Some handshake \<Rightarrow> bnd m (\<lambda>x. bnd (parse_as Finished_msg) (\<lambda>y.
      case y of Finished verify_data \<Rightarrow> f x verify_data | _ \<Rightarrow> raise TypeError))) u = (r, t)"
    unfolding with_handshake_def by (rule bnd_moved) (rule ckeeps_read_handshake)
  from rest h(2) assms(2) obtain handshake where some: "h = Some handshake"
    by (cases h) (auto simp: ret_def)
  have k: "ckeeps (\<lambda>c. c = core_of u) m" by (rule ckeeps_same) (use assms(3) in blast)
  have moved: "hs_state t \<noteq> hs_state u" using assms(2) h(2) by simp
  obtain x u' where x': "m u = (Inr x, u')" "hs_state u' = hs_state u" "(bnd (parse_as Finished_msg) (\<lambda>y.
      case y of Finished verify_data \<Rightarrow> f x verify_data | _ \<Rightarrow> raise TypeError)) u' = (r, t)"
    using rest [unfolded some option.case] moved k by (rule bnd_moved)
  then have x: "m u = (Inr x, u)" "(bnd (parse_as Finished_msg) (\<lambda>y.
      case y of Finished verify_data \<Rightarrow> f x verify_data | _ \<Rightarrow> raise TypeError)) u = (r, t)"
    using assms(3) [OF x'(1)] by simp_all
  obtain y v where y: "parse_as Finished_msg u = (Inr y, v)" "hs_state v = hs_state u"
    "(case y of Finished verify_data \<Rightarrow> f x verify_data | _ \<Rightarrow> raise TypeError) v = (r, t)"
    using x(2) moved ckeeps_parse_as by (rule bnd_moved)
  then show ?thesis using that h some x(1) moved by (cases y) (auto simp: raise_def)
qed

end
