(* ===== verification/Connection_Core.thy ===== *)
theory Connection_Core
  imports Handshake_Core Record_Safety
begin

text \<open>
  What a connection does to the core of its handshake.  The record layer leaves the core alone: the
  properties of the core are invariants in the sense of the locales of \<open>Record_Safety\<close>.  The core changes
  in the handlers, and when a completed handshake is resumed for a message that follows it.  The locale
  \<open>handshake_driver\<close> states what a handshake owes: a property that its \<open>do_handshake\<close> keeps, and that
  survives the two ways to leave the final state, holds after every history of calls of the application.
\<close>

interpretation core: opening_invariant "\<lambda>s :: 'a Endpoint_scheme. P (core_by (\<lambda>_. view) s)"
  "\<lambda>_ s. P (core_by (\<lambda>_. view) s)" for view :: "'a \<Rightarrow> 'm" and P :: "'m handshake_core_scheme \<Rightarrow> bool"
  by unfold_locales (simp_all add: core_of_def)

interpretation core: input_invariant "\<lambda>s :: 'a Endpoint_scheme. P (core_by (\<lambda>_. view) s)"
  "\<lambda>_ s. P (core_by (\<lambda>_. view) s)" for view :: "'a \<Rightarrow> 'm" and P :: "'m handshake_core_scheme \<Rightarrow> bool"
  by unfold_locales (simp_all add: core_of_def)

lemma ckeeps_records [core_rules]:
  "gkeeps (\<lambda>_. view) P (alert_if cr b d)" "gkeeps (\<lambda>_. view) P (conn_open_record cr rnd)" "gkeeps (\<lambda>_. view) P (send_alert cr x fatal)"
  "gkeeps (\<lambda>_. view) P (conn_pack_handshake cr)" "gkeeps (\<lambda>_. view) P (conn_flush_handshake cr)" "gkeeps (\<lambda>_. view) P (verify_ccs cr ccs)"
  "gkeeps (\<lambda>_. view) P (conn_shutdown cr)" "gkeeps (\<lambda>_. view) P (seal_record cr ty data)"
  unfolding gkeeps_def
  by (rule core.keeps_alert_if core.keeps_conn_open_record core.keeps_send_alert core.keeps_pack core.keeps_flush
      core.keeps_verify_ccs core.keeps_shutdown core.keeps_seal_record)+

lemma ckeeps_write_record [core_rules]: "gkeeps (\<lambda>_. view) P (write_record cr ty data)"
  unfolding write_record_def outbio_write_def by (intro core_rules; simp add: core_of_def)

lemma ckeeps_connection_steps [core_rules]:
  "gkeeps (\<lambda>_. view) P (feed_data d)" "gkeeps (\<lambda>_. view) P ech_not_rejected" "gkeeps (\<lambda>_. view) P (set_status x)" "gkeeps (\<lambda>_. view) P (extend_pending d)"
  "gkeeps (\<lambda>_. view) P max_early_data" "gkeeps (\<lambda>_. view) P write_ccs" "gkeeps (\<lambda>_. view) P (bio_write d)"
  unfolding feed_data_def ech_not_rejected_def set_status_def extend_pending_def max_early_data_def write_ccs_def
    bio_write_def
  by (intro core_rules; simp add: core_of_def)+

lemma ckeeps_bio_read [core_rules]: "gkeeps (\<lambda>_. view) P (bio_read n)"
  by (rule ckeeps_same) (auto simp: bio_read_def Let_def action_simps core_of_def split: if_splits)

lemma ckeeps_reads [core_rules]: "gkeeps (\<lambda>_. view) P (read_ccs cr rnd)" "gkeeps (\<lambda>_. view) P (conn_read_handshake cr rnd)"
  unfolding read_ccs_def conn_read_handshake_def by (intro core_rules)+

lemma ckeeps_read_pending [core_rules]: "gkeeps (\<lambda>_. view) P (read_pending n buf)"
  unfolding read_pending_def Let_def by (intro core_rules) (simp add: core_of_def)

lemma ckeeps_early_data_received [core_rules]: "gkeeps (\<lambda>_. view) P (early_data_received cr n)"
  unfolding early_data_received_def by (intro core_rules) (simp add: core_of_def)

lemma ckeeps_handle_status [core_rules]: "gkeeps (\<lambda>_. view) P (handle_status cr rnd)"
proof -
  have "gkeeps (\<lambda>_. view) P (case x of
       ST_PACK_FLIGHT \<Rightarrow> thn (conn_pack_handshake cr) (ret False)
     | ST_FLUSH_HANDSHAKE \<Rightarrow> thn (conn_flush_handshake cr) (ret False)
     | ST_READ_HANDSHAKE \<Rightarrow> thn (conn_read_handshake cr rnd) (ret False)
     | ST_READ_CHANGE_CIPHER_SPEC \<Rightarrow> thn (read_ccs cr rnd) (ret False)
     | ST_WRITE_CHANGE_CIPHER_SPEC \<Rightarrow> thn write_ccs (ret False)
     | ST_EARLY_RETURN \<Rightarrow> thn ech_not_rejected (thn (set_status ST_OK) (ret True))
     | ST_READ_END_OF_EARLY_DATA \<Rightarrow>
         if early then ret True else thn (set_status ST_OK) (ret False)
     | ST_OK \<Rightarrow> ret False)" for x early
    by (cases x; simp only: Status.case; intro core_rules)
  then show ?thesis unfolding handle_status_def by (intro core_rules)
qed

lemma ckeeps_alert_handler [core_rules]:
  "gkeeps (\<lambda>_. view) P (case e of AlertException d fatal \<Rightarrow> send_alert cr d fatal | _ \<Rightarrow> raise e)"
  by (cases e; simp only: exn.case; intro core_rules)

lemma ckeeps_conn_do_handshake [core_rules]: "gkeeps (\<lambda>_. view) P hsk \<Longrightarrow> gkeeps (\<lambda>_. view) P (conn_do_handshake fuel cr rnd hsk)"
proof (induction fuel)
  case (Suc fuel)
  show ?case unfolding conn_do_handshake.simps by (intro core_rules Suc)
qed (simp add: ckeeps_basic)

lemma ckeeps_conn_write [core_rules]: "gkeeps (\<lambda>_. view) P hsk \<Longrightarrow> gkeeps (\<lambda>_. view) P (conn_write fuel cr rnd hsk d)"
  unfolding conn_write_def Let_def by (intro core_rules; simp add: core_of_def)

subsection \<open>Histories\<close>

definition core_done :: "'m handshake_core_scheme \<Rightarrow> bool" where
  "core_done c \<longleftrightarrow> co_state c = (if co_is_server c then srv SRV_DONE else cli CLI_DONE)"

lemma core_done_of: "core_done (core_by (\<lambda>_. view) s) = hs_done s"
  by (simp add: core_done_def hs_done_def)

definition core_post_handshake :: "'m handshake_core_scheme \<Rightarrow> int list" where
  "core_post_handshake c = (if co_is_server c then [srv SRV_READ_POST_HANDSHAKE, srv SRV_PROCESS_UPDATE_TRAFFIC]
     else [cli CLI_READ_POST_HANDSHAKE, cli CLI_PROCESS_UPDATE_TRAFFIC])"

lemma ckeeps_leave_done:
  fixes view :: "'a \<Rightarrow> 'm" and P :: "'m handshake_core_scheme \<Rightarrow> bool"
  assumes "\<And>c st. P c \<Longrightarrow> core_done c \<Longrightarrow> st \<in> set (core_post_handshake c) \<Longrightarrow> P (c\<lparr>co_state := st\<rparr>)"
  shows "gkeeps (\<lambda>_. view) P (trigger_post_handshake :: ('a Endpoint_scheme, unit) action)"
    and "gkeeps (\<lambda>_. view) P (send_key_update k :: ('a Endpoint_scheme, unit) action)"
proof -
  have leave: "P (core_by (\<lambda>_. view) (u\<lparr>hs_state := st\<rparr>))"
    if "P (core_by (\<lambda>_. view) s)" "hs_done s" "core_by (\<lambda>_. view) u = core_by (\<lambda>_. view) s" "st \<in> set (core_post_handshake (core_by (\<lambda>_. view) s))"
    for s u :: "'a Endpoint_scheme" and st
    using assms [of "core_by (\<lambda>_. view) s" st] that by (simp add: core_done_of core_of_updates)
  show "gkeeps (\<lambda>_. view) P (trigger_post_handshake :: ('a Endpoint_scheme, unit) action)"
    by (rule ckeepsI) (auto simp: trigger_post_handshake_def set_state_def action_simps core_post_handshake_def
        intro!: leave split: if_splits)
  show "gkeeps (\<lambda>_. view) P (send_key_update k :: ('a Endpoint_scheme, unit) action)"
  proof (rule ckeepsI)
    fix s t :: "'a Endpoint_scheme" and r
    assume p: "P (core_by (\<lambda>_. view) s)" and run: "send_key_update k s = (r, t)"
    obtain q u where w: "write_key_update k s = (q, u)" by (cases "write_key_update k s")
    have same: "core_by (\<lambda>_. view) u = core_by (\<lambda>_. view) s"
      using ckeepsD [OF ckeeps_write_key_update [of "\<lambda>_. view" "\<lambda>c. c = core_by (\<lambda>_. view) s" k], of s q u] w by simp
    from run w p same show "P (core_by (\<lambda>_. view) t)"
      by (cases "hs_done s"; cases q)
         (auto simp: send_key_update_def set_state_def action_simps core_post_handshake_def
            intro!: leave [OF p] split: if_splits)
  qed
qed

locale handshake_driver =
  fixes view :: "'a \<Rightarrow> 'm" and P :: "'m handshake_core_scheme \<Rightarrow> bool" and hsk :: "('a, Status) endpoint_action"
  assumes handlers: "gkeeps (\<lambda>_. view) P hsk"
    and leave_done: "P c \<Longrightarrow> core_done c \<Longrightarrow> st \<in> set (core_post_handshake c) \<Longrightarrow> P (c\<lparr>co_state := st\<rparr>)"
begin

lemma keeps_post_handshake_data: "gkeeps (\<lambda>_. view) P (post_handshake_data cr ty d :: ('a, unit) endpoint_action)"
  unfolding post_handshake_data_def by (intro core_rules ckeeps_leave_done leave_done)

lemma keeps_read: "gkeeps (\<lambda>_. view) P (conn_read fuel cr rnd hsk n buf)"
proof (induction fuel)
  case (Suc fuel)
  have "gkeeps (\<lambda>_. view) P ((case read_result buf d of Inl e \<Rightarrow> thn (extend_pending d) (raise e)
      | Inr d \<Rightarrow> ret d) :: ('a, bytes) endpoint_action)" for d
    by (cases "read_result buf d"; simp only: sum.case; intro core_rules)
  then show ?case unfolding conn_read.simps
    by (intro core_rules keeps_post_handshake_data handlers Suc)
qed (simp add: ckeeps_basic)

lemma keeps_update_key: "gkeeps (\<lambda>_. view) P (update_key b :: ('a, unit) endpoint_action)"
  unfolding update_key_def by (intro ckeeps_leave_done leave_done)

lemma after: "gkeeps (\<lambda>_. view) P m \<Longrightarrow> P (core_by (\<lambda>_. view) s) \<Longrightarrow> P (core_by (\<lambda>_. view) (snd (m s)))" for m :: "('a, 'c) endpoint_action"
  by (rule ckeepsD [OF _ _ surjective_pairing])

lemma keeps_call: "P (core_by (\<lambda>_. view) s) \<Longrightarrow> P (core_by (\<lambda>_. view) (run_call cr rnd hsk c s))"
  by (cases c) (simp_all add: after ckeeps_connection_steps ckeeps_bio_read keeps_read handlers ckeeps_conn_write
      ckeeps_conn_do_handshake ckeeps_records keeps_update_key)

lemma keeps_history: "P (core_by (\<lambda>_. view) s) \<Longrightarrow> P (core_by (\<lambda>_. view) (fold (run_call cr rnd hsk) cs s))"
  by (induction cs arbitrary: s) (auto intro: keeps_call)

end

end
