(* ===== verification/Client_Core.thy ===== *)
theory Client_Core
  imports Client_TLS13 Connection_Core
begin

text \<open>
  What the operations of the client handshake do to the core of its state: the operations that leave it
  alone, and the graph that the handlers follow.
\<close>

subsection \<open>Operations that leave the core alone\<close>

text \<open>The core with what \<open>v\<close> tells of the connection's edge.\<close>

abbreviation hkeeps ::
    "(connection_edge \<Rightarrow> 'm) \<Rightarrow> ('m handshake_core_scheme \<Rightarrow> bool) \<Rightarrow> ('a Endpoint_scheme, 'b) action \<Rightarrow> bool" where
  "hkeeps v \<equiv> gkeeps (\<lambda>e _. v e)"

lemma ckeeps_psk_offers [core_rules]: "hkeeps v P (psk_offers E b psks)"
  by (induction psks) (simp, intro core_rules, simp, intro core_rules)

lemma ckeeps_hello_get_extensions [core_rules]: "hkeeps v P (hello_get_extensions E ty n hrr)"
proof -
  have "hkeeps v P (\<lambda>s. (get_extensions_internal E ty hrr s, s))" by (rule ckeeps_same) simp
  then show ?thesis
    unfolding hello_get_extensions_def by (intro core_rules; simp add: core_side)
qed

lemma ckeeps_on_hpke_context [core_rules]: "hkeeps v P (on_hpke_context m)"
  by (rule ckeeps_same) (auto simp: on_hpke_context_def core_of_def split: prod.splits option.splits)

lemma ckeeps_on_inner_transcript [core_rules]: "hkeeps v P (on_inner_transcript m)"
  by (rule ckeeps_same) (auto simp: on_inner_transcript_def core_of_def split: prod.splits option.splits)

lemma ckeeps_build [core_rules]:
  "hkeeps v P (build_client_hello E hrr)" "hkeeps v P (build_encrypted_client_hello E hrr)"
  unfolding build_client_hello_def build_encrypted_client_hello_def build_inner_hello_def Let_def
  by (intro core_rules; simp add: core_side)+

lemma ckeeps_select_ech_config [core_rules]: "hkeeps v P (select_ech_config E configs)"
proof (induction configs)
  case (Cons c configs)
  show ?case unfolding select_ech_config.simps by (intro core_rules Cons.IH)
qed (simp add: ckeeps_basic)

lemma ckeeps_check_ech_confirmation [core_rules]: "hkeeps v P (check_ech_confirmation cr sh t hrr)"
  unfolding check_ech_confirmation_def Let_def by (intro core_rules)

lemma ckeeps_start_key_shares [core_rules]: "hkeeps v P (start_key_shares E groups)"
proof (induction groups)
  case (Cons g groups)
  show ?case unfolding start_key_shares.simps by (intro core_rules Cons.IH; simp add: core_side)
qed (simp add: ckeeps_basic)

lemma ckeeps_start [core_rules]:
  "hkeeps v P (start_tls13 E)" "hkeeps v P (usable_session E)" "hkeeps v P (offer_session E session)"
  unfolding start_tls13_def grease_ech_def usable_session_def offer_session_def offer_psk_def Let_def
  by (intro core_rules; simp add: core_side)+

lemma ckeeps_process_extensions [core_rules]: "hkeeps v P (process_extensions exts)"
  unfolding process_extensions_def process_extensions_tls13_def process_extensions_legacy_def
    process_renegotiation_info_def Let_def
  by (intro core_rules; simp add: core_side)

lemma ckeeps_early_data_needs_version [core_rules]: "hkeeps v P early_data_needs_version"
  unfolding early_data_needs_version_def by (intro core_rules)

lemma ckeeps_server_key_exchange [core_rules]:
  "hkeeps v P (read_ecdhe_params E p)" "hkeeps v P (read_dhe_params E p)" "hkeeps v P (verify_server_key_exchange E cs p)"
  unfolding read_ecdhe_params_def read_dhe_params_def verify_server_key_exchange_def Let_def
  by (intro core_rules; simp add: core_side)+

lemma ckeeps_premaster [core_rules]: "hkeeps v P (rsa_premaster E cs)" "hkeeps v P (dh_premaster E cs)"
  unfolding rsa_premaster_def dh_premaster_def by (intro core_rules)+

lemma ckeeps_hrr_key_share [core_rules]: "hkeeps v P (hrr_key_share E g)"
  unfolding hrr_key_share_def by (intro core_rules; simp add: core_side)

lemma ckeeps_server_hello_key_share [core_rules]: "hkeeps v P (server_hello_key_share E e)"
  unfolding server_hello_key_share_def Let_def by (intro core_rules)

lemma ckeeps_encrypted_extensions [core_rules]: "hkeeps v P (process_alps exts)" "hkeeps v P (early_data_answer E)"
  unfolding process_alps_def early_data_answer_def by (intro core_rules; simp add: core_side)+

lemma ckeeps_send_certificate_tls13 [core_rules]: "hkeeps v P (send_certificate_tls13 E r)"
  unfolding send_certificate_tls13_def tls13_credential_def Let_def by (intro core_rules)

lemma ckeeps_send_finished_tls13 [core_rules]: "hkeeps v P (send_finished_tls13 E ep)"
  unfolding send_finished_tls13_def by (intro core_rules)

lemma ckeeps_new_session_ticket [core_rules]:
  "hkeeps v P (post_new_session_ticket E t)" "hkeeps v P (new_session_callback x)"
  unfolding post_new_session_ticket_def new_session_callback_def Let_def by (intro core_rules; simp add: core_side)+

subsection \<open>The state graph\<close>

text \<open>The states a handler can leave its state for.\<close>

fun client_next :: "ClientState \<Rightarrow> ClientState list" where
  "client_next CLI_START_CONNECT = [CLI_ENTER_EARLY_DATA]"
| "client_next CLI_ENTER_EARLY_DATA = [CLI_READ_SERVER_HELLO, CLI_ENTER_EARLY_DATA_COMPAT]"
| "client_next CLI_ENTER_EARLY_DATA_COMPAT = [CLI_READ_SERVER_HELLO]"
| "client_next CLI_READ_SERVER_HELLO = [CLI_COMPAT_CSS_TLS13, CLI_READ_SERVER_CERTIFICATE]"
| "client_next CLI_READ_SERVER_CERTIFICATE = [CLI_READ_SESSION_TICKET, CLI_READ_SERVER_KEY_EXCHANGE, CLI_READ_CERTIFICATE_STATUS]"
| "client_next CLI_READ_CERTIFICATE_STATUS = [CLI_READ_SERVER_KEY_EXCHANGE]"
| "client_next CLI_READ_SERVER_KEY_EXCHANGE = [CLI_READ_CERTIFICATE_REQUEST]"
| "client_next CLI_READ_CERTIFICATE_REQUEST = [CLI_READ_SERVER_HELLO_DONE]"
| "client_next CLI_READ_SERVER_HELLO_DONE = [CLI_SEND_CLIENT_CERTIFICATE]"
| "client_next CLI_SEND_CLIENT_CERTIFICATE = [CLI_SEND_CLIENT_KEY_EXCHANGE]"
| "client_next CLI_SEND_CLIENT_KEY_EXCHANGE = [CLI_SEND_CLIENT_CERTIFICATE_VERIFY]"
| "client_next CLI_SEND_CLIENT_CERTIFICATE_VERIFY = [CLI_SEND_CHANGE_CIPHER_SPEC]"
| "client_next CLI_SEND_CHANGE_CIPHER_SPEC = [CLI_SEND_CLIENT_FINISHED]"
| "client_next CLI_SEND_CLIENT_FINISHED = [CLI_FINISH_FLIGHT]"
| "client_next CLI_FINISH_FLIGHT = [CLI_FINISH_CLIENT_HANDSHAKE, CLI_READ_SESSION_TICKET]"
| "client_next CLI_READ_SESSION_TICKET = [CLI_PROCESS_CHANGE_CIPHER_SPEC]"
| "client_next CLI_PROCESS_CHANGE_CIPHER_SPEC = [CLI_READ_SERVER_FINISHED]"
| "client_next CLI_READ_SERVER_FINISHED = [CLI_SEND_CHANGE_CIPHER_SPEC, CLI_FINISH_CLIENT_HANDSHAKE]"
| "client_next CLI_COMPAT_CSS_TLS13 = [CLI_READ_HRR_TLS13]"
| "client_next CLI_READ_HRR_TLS13 = [CLI_READ_SERVER_HELLO_TLS13, CLI_SEND_SECOND_CLIENT_HELLO_TLS13]"
| "client_next CLI_SEND_SECOND_CLIENT_HELLO_TLS13 = [CLI_READ_SERVER_HELLO_TLS13]"
| "client_next CLI_READ_SERVER_HELLO_TLS13 = [CLI_READ_ENCRYPTED_EXTENSIONS_TLS13]"
| "client_next CLI_READ_ENCRYPTED_EXTENSIONS_TLS13 = [CLI_READ_CERTIFICATE_REQUEST_TLS13]"
| "client_next CLI_READ_CERTIFICATE_REQUEST_TLS13 = [CLI_READ_SERVER_FINISHED_TLS13, CLI_READ_SERVER_CERTIFICATE_TLS13]"
| "client_next CLI_READ_SERVER_CERTIFICATE_TLS13 = [CLI_READ_SERVER_CERTIFICATE_VERIFY_TLS13]"
| "client_next CLI_READ_SERVER_CERTIFICATE_VERIFY_TLS13 = [CLI_READ_SERVER_FINISHED_TLS13]"
| "client_next CLI_READ_SERVER_FINISHED_TLS13 = [CLI_SEND_END_OF_EARLY_DATA_TLS13]"
| "client_next CLI_SEND_END_OF_EARLY_DATA_TLS13 = [CLI_SEND_CLIENT_ENCRYPTED_EXTENSIONS_TLS13]"
| "client_next CLI_SEND_CLIENT_ENCRYPTED_EXTENSIONS_TLS13 = [CLI_SEND_CLIENT_CERTIFICATE_TLS13]"
| "client_next CLI_SEND_CLIENT_CERTIFICATE_TLS13 = [CLI_SEND_CLIENT_FINISHED_TLS13]"
| "client_next CLI_SEND_CLIENT_FINISHED_TLS13 = [CLI_COMPLETE_SECOND_FLIGHT_TLS13]"
| "client_next CLI_COMPLETE_SECOND_FLIGHT_TLS13 = [CLI_FINISH_CLIENT_HANDSHAKE]"
| "client_next CLI_FINISH_CLIENT_HANDSHAKE = [CLI_DONE]"
| "client_next CLI_READ_POST_HANDSHAKE = [CLI_DONE, CLI_COMPLETE_UPDATE_TRAFFIC]"
| "client_next CLI_PROCESS_UPDATE_TRAFFIC = [CLI_COMPLETE_UPDATE_TRAFFIC]"
| "client_next CLI_COMPLETE_UPDATE_TRAFFIC = [CLI_DONE]"
| "client_next _ = []"

definition in_state :: "ClientState list \<Rightarrow> handshake_core \<Rightarrow> bool" where
  "in_state xs c \<longleftrightarrow> co_state c \<in> cli ` set xs"

lemma in_state_update [simp]: "in_state xs (c\<lparr>co_state := cli x\<rparr>) \<longleftrightarrow> cli x \<in> cli ` set xs"
  by (simp add: in_state_def)

lemma in_state_other [simp]:
  "in_state xs (c\<lparr>co_peer := p\<rparr>) = in_state xs c"
  by (simp add: in_state_def)

lemmas client_handler_defs =
  do_start_connect_def do_enter_early_data_def do_enter_early_data_compat_css_def do_read_server_hello_def
  process_server_hello_def server_hello_session_def do_read_server_certificate_def do_read_certificate_status_def
  do_read_server_key_exchange_def do_read_certificate_request_def do_read_server_hello_done_def
  do_send_client_certificate_def do_send_client_key_exchange_def do_send_client_certificate_verify_def
  do_send_change_cipher_spec_def do_send_client_finished_def do_finish_flight_def do_read_session_ticket_def
  do_process_change_cipher_spec_def do_read_server_finished_def do_compat_ccs_tls13_def do_read_hrr_tlsv13_def
  process_hrr_def hrr_ech_def do_send_second_client_hello_tls13_def do_read_server_hello_tls13_def
  process_server_hello_tls13_def server_hello_ech_def server_hello_psk_def
  do_read_encrypted_extensions_tls13_def do_read_certificate_request_tls13_def do_read_server_certificate_tls13_def
  do_read_server_certificate_verify_tls13_def do_read_server_finished_tls13_def do_send_end_of_early_data_tls13_def
  do_send_client_encrypted_extensions_tls13_def do_send_client_certificate_tls13_def do_send_client_finished_tls13_def
  do_complete_second_flight_tls13_def do_finish_client_handshake_def do_read_post_handshake_def
  post_handshake_tls13_def do_process_update_traffic_def do_complete_update_traffic_def

lemmas client_graph = client_next.simps in_state_def core_side

text \<open>No handler leaves the graph, whether it returns or raises.\<close>

lemma client_edges [core_rules]:
  "ckeeps (in_state (CLI_START_CONNECT # client_next CLI_START_CONNECT)) (do_start_connect E)"
  "ckeeps (in_state (CLI_ENTER_EARLY_DATA # client_next CLI_ENTER_EARLY_DATA)) (do_enter_early_data E)"
  "ckeeps (in_state (CLI_ENTER_EARLY_DATA_COMPAT # client_next CLI_ENTER_EARLY_DATA_COMPAT)) do_enter_early_data_compat_css"
  "ckeeps (in_state (CLI_READ_SERVER_HELLO # client_next CLI_READ_SERVER_HELLO)) (do_read_server_hello E)"
  "ckeeps (in_state (CLI_READ_SERVER_CERTIFICATE # client_next CLI_READ_SERVER_CERTIFICATE)) (do_read_server_certificate E)"
  "ckeeps (in_state (CLI_READ_CERTIFICATE_STATUS # client_next CLI_READ_CERTIFICATE_STATUS)) do_read_certificate_status"
  "ckeeps (in_state (CLI_READ_SERVER_KEY_EXCHANGE # client_next CLI_READ_SERVER_KEY_EXCHANGE)) (do_read_server_key_exchange E)"
  "ckeeps (in_state (CLI_READ_CERTIFICATE_REQUEST # client_next CLI_READ_CERTIFICATE_REQUEST)) do_read_certificate_request"
  "ckeeps (in_state (CLI_READ_SERVER_HELLO_DONE # client_next CLI_READ_SERVER_HELLO_DONE)) do_read_server_hello_done"
  "ckeeps (in_state (CLI_SEND_CLIENT_CERTIFICATE # client_next CLI_SEND_CLIENT_CERTIFICATE)) (do_send_client_certificate E)"
  "ckeeps (in_state (CLI_SEND_CLIENT_KEY_EXCHANGE # client_next CLI_SEND_CLIENT_KEY_EXCHANGE)) (do_send_client_key_exchange E)"
  "ckeeps (in_state (CLI_SEND_CLIENT_CERTIFICATE_VERIFY # client_next CLI_SEND_CLIENT_CERTIFICATE_VERIFY)) (do_send_client_certificate_verify E)"
  "ckeeps (in_state (CLI_SEND_CHANGE_CIPHER_SPEC # client_next CLI_SEND_CHANGE_CIPHER_SPEC)) (do_send_change_cipher_spec E)"
  "ckeeps (in_state (CLI_SEND_CLIENT_FINISHED # client_next CLI_SEND_CLIENT_FINISHED)) (do_send_client_finished E)"
  "ckeeps (in_state (CLI_FINISH_FLIGHT # client_next CLI_FINISH_FLIGHT)) do_finish_flight"
  "ckeeps (in_state (CLI_READ_SESSION_TICKET # client_next CLI_READ_SESSION_TICKET)) (do_read_session_ticket E)"
  "ckeeps (in_state (CLI_PROCESS_CHANGE_CIPHER_SPEC # client_next CLI_PROCESS_CHANGE_CIPHER_SPEC)) (do_process_change_cipher_spec E)"
  "ckeeps (in_state (CLI_READ_SERVER_FINISHED # client_next CLI_READ_SERVER_FINISHED)) (do_read_server_finished E)"
  "ckeeps (in_state (CLI_COMPAT_CSS_TLS13 # client_next CLI_COMPAT_CSS_TLS13)) do_compat_ccs_tls13"
  "ckeeps (in_state (CLI_READ_HRR_TLS13 # client_next CLI_READ_HRR_TLS13)) (do_read_hrr_tlsv13 E)"
  "ckeeps (in_state (CLI_SEND_SECOND_CLIENT_HELLO_TLS13 # client_next CLI_SEND_SECOND_CLIENT_HELLO_TLS13)) (do_send_second_client_hello_tls13 E)"
  "ckeeps (in_state (CLI_READ_SERVER_HELLO_TLS13 # client_next CLI_READ_SERVER_HELLO_TLS13)) (do_read_server_hello_tls13 E)"
  "ckeeps (in_state (CLI_READ_ENCRYPTED_EXTENSIONS_TLS13 # client_next CLI_READ_ENCRYPTED_EXTENSIONS_TLS13)) (do_read_encrypted_extensions_tls13 E)"
  "ckeeps (in_state (CLI_READ_CERTIFICATE_REQUEST_TLS13 # client_next CLI_READ_CERTIFICATE_REQUEST_TLS13)) do_read_certificate_request_tls13"
  "ckeeps (in_state (CLI_READ_SERVER_CERTIFICATE_TLS13 # client_next CLI_READ_SERVER_CERTIFICATE_TLS13)) (do_read_server_certificate_tls13 E)"
  "ckeeps (in_state (CLI_READ_SERVER_CERTIFICATE_VERIFY_TLS13 # client_next CLI_READ_SERVER_CERTIFICATE_VERIFY_TLS13)) (do_read_server_certificate_verify_tls13 E)"
  "ckeeps (in_state (CLI_READ_SERVER_FINISHED_TLS13 # client_next CLI_READ_SERVER_FINISHED_TLS13)) (do_read_server_finished_tls13 E)"
  "ckeeps (in_state (CLI_SEND_END_OF_EARLY_DATA_TLS13 # client_next CLI_SEND_END_OF_EARLY_DATA_TLS13)) do_send_end_of_early_data_tls13"
  "ckeeps (in_state (CLI_SEND_CLIENT_ENCRYPTED_EXTENSIONS_TLS13 # client_next CLI_SEND_CLIENT_ENCRYPTED_EXTENSIONS_TLS13)) (do_send_client_encrypted_extensions_tls13 E)"
  "ckeeps (in_state (CLI_SEND_CLIENT_CERTIFICATE_TLS13 # client_next CLI_SEND_CLIENT_CERTIFICATE_TLS13)) (do_send_client_certificate_tls13 E)"
  "ckeeps (in_state (CLI_SEND_CLIENT_FINISHED_TLS13 # client_next CLI_SEND_CLIENT_FINISHED_TLS13)) (do_send_client_finished_tls13 E)"
  "ckeeps (in_state (CLI_COMPLETE_SECOND_FLIGHT_TLS13 # client_next CLI_COMPLETE_SECOND_FLIGHT_TLS13)) (do_complete_second_flight_tls13 E)"
  "ckeeps (in_state (CLI_FINISH_CLIENT_HANDSHAKE # client_next CLI_FINISH_CLIENT_HANDSHAKE)) (do_finish_client_handshake E)"
  "ckeeps (in_state (CLI_READ_POST_HANDSHAKE # client_next CLI_READ_POST_HANDSHAKE)) (do_read_post_handshake E)"
  "ckeeps (in_state (CLI_PROCESS_UPDATE_TRAFFIC # client_next CLI_PROCESS_UPDATE_TRAFFIC)) do_process_update_traffic"
  "ckeeps (in_state (CLI_COMPLETE_UPDATE_TRAFFIC # client_next CLI_COMPLETE_UPDATE_TRAFFIC)) (do_complete_update_traffic E)"
  unfolding client_handler_defs Let_def by (intro core_rules; simp add: client_graph)+

lemma client_handler_edges: "client_handler E x = Some h \<Longrightarrow> ckeeps (in_state (x # client_next x)) h"
  by (cases x; simp only: client_handler.simps option.inject option.distinct; (hypsubst, rule client_edges)?)

subsection \<open>The edge of the connection\<close>

text \<open>No handler touches the output of the connection, its shutdown or its counters.\<close>

lemma client_handler_edge:
  "client_handler E x = Some h \<Longrightarrow> hkeeps (\<lambda>e. e) (\<lambda>c. handshake_core.more c = e) h"
  apply (cases x; simp only: client_handler.simps option.inject option.distinct simp_thms; hypsubst?)
  unfolding client_handler_defs Let_def
  by (intro core_rules; simp add: core_side)+

end
