(* ===== verification/Handshake_Stage.thy ===== *)
theory Handshake_Stage
  imports Connection_Core
begin

text \<open>
  Invariants of a handshake's state machine.  The locale \<open>state_machine\<close> states what a table of handlers
  owes: it is found by the number of a state, and a handler moves along the edges of a graph.  A
  \<open>machine_invariant\<close> is a property of the core that every handler keeps when it is run in its state; it
  then holds after every history of calls.  A \<open>stage\<close> has a set of early states and a property of the core
  that holds outside of them: the late handlers keep it, and a handler that can leave the early states
  has established it.  A stage is an invariant again, so that a later stage can build on it.
\<close>

locale state_machine =
  fixes view :: "'a \<Rightarrow> 'm" and server :: bool and enc :: "'x \<Rightarrow> int"
    and handler :: "'x \<Rightarrow> ('a, Status) endpoint_action option"
    and dispatch :: "int \<Rightarrow> ('a, Status) endpoint_action option"
    and next_states :: "'x \<Rightarrow> 'x list"
  assumes dispatch: "dispatch n = Some h \<Longrightarrow> \<exists>x. n = enc x \<and> handler x = Some h"
    and enc_inject: "enc x = enc y \<Longrightarrow> x = y"
    and edges: "handler x = Some h \<Longrightarrow> gkeeps (\<lambda>_. view) (\<lambda>c. co_state c \<in> enc ` set (x # next_states x)) h"
    and role: "handler x = Some h \<Longrightarrow> gkeeps (\<lambda>_. view) (\<lambda>c. co_is_server c = server) h"
begin

definition at_state :: "'x \<Rightarrow> ('m handshake_core_scheme \<Rightarrow> bool) \<Rightarrow> 'm handshake_core_scheme \<Rightarrow> bool" where
  "at_state x I c \<longleftrightarrow> I c \<and> co_is_server c = server \<and> co_state c = enc x"

lemma enc_image: "enc x \<in> enc ` A \<longleftrightarrow> x \<in> A"
  using enc_inject by blast

end

locale machine_invariant = state_machine +
  fixes I :: "'b handshake_core_scheme \<Rightarrow> bool"
  assumes step: "handler x = Some h \<Longrightarrow> gchoare (\<lambda>_. view) (at_state x I) h (\<lambda>_. I) I"
    and leave: "I c \<Longrightarrow> co_is_server c = server \<Longrightarrow> core_done c \<Longrightarrow> st \<in> set (core_post_handshake c) \<Longrightarrow>
      I (c\<lparr>co_state := st\<rparr>)"
begin

definition holds :: "'b handshake_core_scheme \<Rightarrow> bool" where
  "holds c \<longleftrightarrow> co_is_server c = server \<and> I c"

lemma handler_keeps:
  assumes h: "handler x = Some h" and s: "holds (core_by (\<lambda>_. view) s)" "hs_state s = enc x" and run: "h s = (r, t)"
  shows "holds (core_by (\<lambda>_. view) t)"
proof -
  have "at_state x I (core_by (\<lambda>_. view) s)" using s by (simp add: at_state_def holds_def)
  from choareD [OF step [OF h] this run] ckeepsD [OF role [OF h] _ run] s(1) show ?thesis
    by (simp add: holds_def)
qed

lemma loop_keeps: "gkeeps (\<lambda>_. view) holds (hs_do_handshake_loop fuel hs_done dispatch st)"
proof (induction fuel arbitrary: st)
  case (Suc fuel)
  show ?case
  proof (rule ckeepsI)
    fix s t r
    assume s: "holds (core_by (\<lambda>_. view) s)" and run: "hs_do_handshake_loop (Suc fuel) hs_done dispatch st s = (r, t)"
    show "holds (core_by (\<lambda>_. view) t)"
    proof (cases "hs_done s \<or> dispatch (hs_state s) = None")
      case True
      with run s show ?thesis by (auto simp: action_simps split: if_splits)
    next
      case False
      then obtain h x where h: "dispatch (hs_state s) = Some h" "hs_state s = enc x" "handler x = Some h"
        using dispatch by blast
      obtain q u where hs: "h s = (q, u)" by (cases "h s")
      have u: "holds (core_by (\<lambda>_. view) u)" by (rule handler_keeps [OF h(3) s h(2) hs])
      show ?thesis using run False h(1) hs u ckeepsD [OF Suc.IH u]
        by (cases q) (auto simp: action_simps catch_def split: if_splits)
    qed
  qed
qed (simp add: ckeeps_basic)

end

sublocale machine_invariant \<subseteq> handshake_driver view holds "hs_do_handshake_loop fuel hs_done dispatch ST_OK"
  for fuel
  by unfold_locales (auto simp: loop_keeps core_post_handshake_def holds_def split: if_splits
      intro: leave [unfolded core_post_handshake_def])

text \<open>A history of calls, each with its fuel and its source of random bytes.\<close>

context machine_invariant
begin

lemma keeps_calls:
  "holds (core_by (\<lambda>_. view) s) \<Longrightarrow> holds (core_by (\<lambda>_. view) (fold (\<lambda>(fuel, rnd, c).
     run_call cr rnd (hs_do_handshake_loop fuel hs_done dispatch ST_OK) c) calls s))"
  by (induction calls arbitrary: s) (auto intro: keeps_call)

end

locale stage = machine_invariant +
  fixes S :: "'c set" and V :: "'b handshake_core_scheme \<Rightarrow> bool"
  assumes late: "x \<notin> S \<Longrightarrow> handler x = Some h \<Longrightarrow> gkeeps (\<lambda>_. view) V h"
    and leaving: "x \<in> S \<Longrightarrow> \<not> set (next_states x) \<subseteq> S \<Longrightarrow> handler x = Some h \<Longrightarrow>
      gchoare (\<lambda>_. view) (at_state x I) h (\<lambda>_ c. co_state c \<in> enc ` S \<or> V c) (\<lambda>c. co_state c \<in> enc ` S \<or> V c)"
    and state_free: "V c \<Longrightarrow> V (c\<lparr>co_state := st\<rparr>)"
    and done_late: "x \<in> S \<Longrightarrow> enc x \<noteq> (if server then srv SRV_DONE else cli CLI_DONE)"

sublocale stage \<subseteq> staged: machine_invariant view server enc handler dispatch next_states
    "\<lambda>c. I c \<and> (co_state c \<in> enc ` S \<or> V c)"
proof unfold_locales
  fix x h assume h: "handler x = Some h"
  let ?J = "\<lambda>c. I c \<and> (co_state c \<in> enc ` S \<or> V c)"
  have "?J (core_by (\<lambda>_. view) t)" if s: "at_state x ?J (core_by (\<lambda>_. view) s)" and run: "h s = (r, t)" for s r t
  proof -
    from s have x: "at_state x I (core_by (\<lambda>_. view) s)" and sv: "co_state (core_by (\<lambda>_. view) s) = enc x"
      and v: "x \<in> S \<or> V (core_by (\<lambda>_. view) s)" by (auto simp: at_state_def dest: enc_inject)
    have i: "I (core_by (\<lambda>_. view) t)" by (rule choareD [OF step [OF h] x run])
    consider "x \<notin> S" | "x \<in> S" "set (next_states x) \<subseteq> S" | "x \<in> S" "\<not> set (next_states x) \<subseteq> S" by blast
    then show ?thesis
    proof cases
      case 1
      with ckeepsD [OF late [OF 1 h] _ run] v i show ?thesis by simp
    next
      case 2
      have "co_state (core_by (\<lambda>_. view) s) \<in> enc ` set (x # next_states x)" using sv by simp
      from ckeepsD [OF edges [OF h] this run] 2 i show ?thesis by auto
    next
      case 3
      with choareD [OF leaving [OF 3 h] x run] i show ?thesis by simp
    qed
  qed
  then show "gchoare (\<lambda>_. view) (at_state x ?J) h (\<lambda>_. ?J) ?J" by (intro choareI)
next
  fix c st assume c: "I c \<and> (co_state c \<in> enc ` S \<or> V c)" "co_is_server c = server" "core_done c"
    and st: "st \<in> set (core_post_handshake c)"
  from c have "V c" using done_late by (auto simp: core_done_def)
  with c st show "I (c\<lparr>co_state := st\<rparr>) \<and> (co_state (c\<lparr>co_state := st\<rparr>) \<in> enc ` S \<or> V (c\<lparr>co_state := st\<rparr>))"
    by (simp add: leave state_free)
qed

subsection \<open>Properties of the core\<close>

text \<open>A property that depends only on what the relation relates.\<close>

definition stable_under :: "('m handshake_core_scheme \<Rightarrow> 'm handshake_core_scheme \<Rightarrow> bool) \<Rightarrow> ('m handshake_core_scheme \<Rightarrow> bool) \<Rightarrow> bool" where
  "stable_under R V \<longleftrightarrow> (\<forall>c d. V c \<longrightarrow> R c d \<longrightarrow> V d)"

lemma stableD: "V c \<Longrightarrow> stable_under R V \<Longrightarrow> R c d \<Longrightarrow> V d"
  by (auto simp: stable_under_def)

text \<open>The negotiated version is one of those that are configured.\<close>

definition version_ok :: "'m handshake_core_scheme \<Rightarrow> bool" where
  "version_ok c \<longleftrightarrow> \<not> co_early_version c \<and> st_minimum_version (co_settings c) \<le> co_version c \<and>
     co_version c \<le> st_maximum_version (co_settings c)"

end
