(* ===== verification/Client_Laws.thy ===== *)
theory Client_Laws
  imports Client_Core Handshake_Stage
begin

text \<open>
  Properties of the client handshake: its state machine follows a fixed graph, whatever the server
  sends; a client that verifies certificates and has completed a handshake either resumed a session
  or holds a certificate chain that was verified for its host name; negotiated parameters come from the
  configuration.

  The state machine passes through stages.  The locale \<open>client_stage\<close> has a set of early states and a
  property of the core that holds outside of them; it is a \<open>stage\<close> of \<open>Handshake_Stage\<close> whose late handlers
  are mostly those that change nothing of the core but the state.  The property then holds in the late
  states after every history of calls.
\<close>

subsection \<open>Stages\<close>

lemma find_cli: "find (\<lambda>c. cli c = cli x) client_states = Some x"
  by (cases x) (simp_all add: client_states_def)

lemma cli_inject [simp]: "cli x = cli y \<longleftrightarrow> x = y"
  by (metis find_cli option.inject)

lemma cli_image [simp]: "cli x \<in> cli ` A \<longleftrightarrow> x \<in> A"
  by auto

declare cli.simps [simp del]

lemma client_dispatch_cli: "client_dispatch E (cli x) = client_handler E x"
  unfolding client_dispatch_def find_cli by simp

lemma client_dispatch_Some:
  assumes "client_dispatch E n = Some h"
  obtains x where "n = cli x" "client_handler E x = Some h"
proof -
  from assms obtain x where f: "find (\<lambda>c. cli c = n) client_states = Some x" "client_handler E x = Some h"
    by (auto simp: client_dispatch_def split: option.splits)
  moreover from f(1) have "cli x = n" by (auto simp: find_Some_iff)
  ultimately show ?thesis using that by blast
qed

definition staged :: "ClientState set \<Rightarrow> (handshake_core \<Rightarrow> bool) \<Rightarrow> handshake_core \<Rightarrow> bool" where
  "staged S V c \<longleftrightarrow> \<not> co_is_server c \<and> (co_state c \<in> cli ` S \<or> V c)"

definition handler_staged ::
    "(handshake_core \<Rightarrow> bool) \<Rightarrow> ClientState set \<Rightarrow> (handshake_core \<Rightarrow> bool) \<Rightarrow> ClientState \<Rightarrow> ('a, Status) client_action \<Rightarrow> bool" where
  "handler_staged I S V x h \<longleftrightarrow>
     choare (\<lambda>c. I c \<and> \<not> co_is_server c \<and> co_state c = cli x) h (\<lambda>_. staged S V) (staged S V)"

text \<open>Most handlers change nothing of the core but the state; the others change the parts they are named for.\<close>

definition plain_states :: "ClientState set" where
  "plain_states = set client_states - {CLI_START_CONNECT, CLI_ENTER_EARLY_DATA, CLI_READ_SERVER_HELLO,
     CLI_READ_SERVER_CERTIFICATE, CLI_READ_HRR_TLS13, CLI_READ_SERVER_HELLO_TLS13, CLI_READ_SERVER_CERTIFICATE_TLS13}"

definition same_negotiation :: "handshake_core \<Rightarrow> handshake_core \<Rightarrow> bool" where
  "same_negotiation c d \<longleftrightarrow> co_is_server c = co_is_server d \<and> co_settings c = co_settings d \<and>
     co_version c = co_version d \<and> co_early_version c = co_early_version d \<and> co_hostname c = co_hostname d"

definition same_parameters :: "handshake_core \<Rightarrow> handshake_core \<Rightarrow> bool" where
  "same_parameters c d \<longleftrightarrow> same_negotiation c d \<and> co_suite c = co_suite d"

definition same_but_state :: "handshake_core \<Rightarrow> handshake_core \<Rightarrow> bool" where
  "same_but_state c d \<longleftrightarrow> same_parameters c d \<and> co_peer c = co_peer d \<and> co_reused c = co_reused d \<and> co_ech c = co_ech d"

lemmas same_defs = same_negotiation_def same_parameters_def same_but_state_def core_side

lemma stable_weaken:
  "stable_under same_negotiation V \<Longrightarrow> stable_under same_parameters V"
  "stable_under same_parameters V \<Longrightarrow> stable_under same_but_state V"
  unfolding stable_under_def same_parameters_def same_but_state_def by blast+

lemma plain_steps:
  assumes V: "stable_under same_but_state V"
  shows "ckeeps V do_enter_early_data_compat_css" "ckeeps V do_read_certificate_status"
    "ckeeps V (do_read_server_key_exchange E)" "ckeeps V do_read_certificate_request"
    "ckeeps V do_read_server_hello_done" "ckeeps V (do_send_client_certificate E)"
    "ckeeps V (do_send_client_key_exchange E)" "ckeeps V (do_send_client_certificate_verify E)"
    "ckeeps V (do_send_change_cipher_spec E)" "ckeeps V (do_send_client_finished E)"
    "ckeeps V do_finish_flight" "ckeeps V (do_read_session_ticket E)"
    "ckeeps V (do_process_change_cipher_spec E)" "ckeeps V (do_read_server_finished E)"
    "ckeeps V do_compat_ccs_tls13" "ckeeps V (do_send_second_client_hello_tls13 E)"
    "ckeeps V (do_read_encrypted_extensions_tls13 E)" "ckeeps V do_read_certificate_request_tls13"
    "ckeeps V (do_read_server_certificate_verify_tls13 E)" "ckeeps V (do_read_server_finished_tls13 E)"
    "ckeeps V do_send_end_of_early_data_tls13" "ckeeps V (do_send_client_encrypted_extensions_tls13 E)"
    "ckeeps V (do_send_client_certificate_tls13 E)" "ckeeps V (do_send_client_finished_tls13 E)"
    "ckeeps V (do_complete_second_flight_tls13 E)" "ckeeps V (do_finish_client_handshake E)"
    "ckeeps V (do_read_post_handshake E)" "ckeeps V do_process_update_traffic"
    "ckeeps V (do_complete_update_traffic E)"
  unfolding client_handler_defs Let_def
  by (intro core_rules; ((erule stableD [OF _ V]; simp add: same_defs) | simp add: core_side))+

lemma plain_handlers:
  assumes "client_handler E x = Some h" and "x \<in> plain_states"
    and "stable_under same_but_state V"
  shows "ckeeps V h"
  using assms(1,2) by (cases x) (auto simp: plain_states_def intro: plain_steps [OF assms(3)])

lemma certificate_handlers:
  assumes V: "stable_under same_parameters V"
  shows "ckeeps V (do_read_server_certificate E)" "ckeeps V (do_read_server_certificate_tls13 E)"
    "ckeeps V (do_read_server_hello_tls13 E)"
  unfolding do_read_server_certificate_def do_read_server_certificate_tls13_def
    do_read_server_hello_tls13_def process_server_hello_tls13_def server_hello_ech_def server_hello_psk_def Let_def
  by (intro core_rules; ((erule stableD [OF _ V]; simp add: same_defs) | simp add: core_side))+

lemma hrr_handler:
  assumes V: "stable_under same_negotiation V"
  shows "ckeeps V (do_read_hrr_tlsv13 E)"
  unfolding do_read_hrr_tlsv13_def process_hrr_def hrr_ech_def Let_def
  by (intro core_rules; ((erule stableD [OF _ V]; simp add: same_defs) | simp add: core_side))+

definition same_configuration :: "handshake_core \<Rightarrow> handshake_core \<Rightarrow> bool" where
  "same_configuration c d \<longleftrightarrow> co_is_server c = co_is_server d \<and> co_settings c = co_settings d \<and>
     co_hostname c = co_hostname d"

lemma configuration_kept:
  assumes "client_handler E x = Some h" and V: "stable_under same_configuration V"
  shows "ckeeps V h"
proof (cases "x \<in> plain_states")
  case True
  have "stable_under same_but_state V"
    using V unfolding stable_under_def same_configuration_def same_defs by blast
  with assms(1) True show ?thesis by (rule plain_handlers)
next
  case False
  have n: "stable_under same_negotiation V"
    using V unfolding stable_under_def same_configuration_def same_negotiation_def by blast
  have "ckeeps V (do_start_connect E)" "ckeeps V (do_enter_early_data E)" "ckeeps V (do_read_server_hello E)"
    unfolding client_handler_defs Let_def
    by (intro core_rules; ((erule stableD [OF _ V]; simp add: same_configuration_def core_side) | simp add: core_side))+
  with False assms(1) show ?thesis
    by (cases x) (auto simp: plain_states_def client_states_def
        intro!: certificate_handlers stable_weaken(1) hrr_handler n)
qed

text \<open>
  A stage: the states in which a property need not hold, what the late handlers keep, and what the
  handlers establish that can leave the early states.
\<close>

locale client_stage =
  fixes I :: "handshake_core \<Rightarrow> bool" and S :: "ClientState set" and V :: "handshake_core \<Rightarrow> bool" and E :: environment
  assumes always: "client_handler E x = Some (h :: ('a, Status) client_action) \<Longrightarrow> ckeeps I h"
    and always_stable: "stable_under same_but_state I"
    and stable: "stable_under same_but_state V"
    and late: "x \<notin> S \<Longrightarrow> x \<notin> plain_states \<Longrightarrow> client_handler E x = Some (h :: ('a, Status) client_action) \<Longrightarrow> ckeeps V h"
    and leaving: "x \<in> S \<Longrightarrow> \<not> set (client_next x) \<subseteq> S \<Longrightarrow>
      client_handler E x = Some (h :: ('a, Status) client_action) \<Longrightarrow> handler_staged I S V x h"
    and done_late: "S \<inter> {CLI_DONE, CLI_READ_POST_HANDSHAKE, CLI_PROCESS_UPDATE_TRAFFIC} = {}"

text \<open>The table of the client is a state machine, and a stage of the client one of its stages.\<close>

interpretation client_table: state_machine "\<lambda>_. ()" False cli
  "client_handler E :: ClientState \<Rightarrow> ('a, Status) client_action option" "client_dispatch E" client_next
  for E :: environment
proof unfold_locales
  fix x and h :: "('a, Status) client_action" assume h: "client_handler E x = Some h"
  show "ckeeps (\<lambda>c. co_state c \<in> cli ` set (x # client_next x)) h"
    using client_handler_edges [OF h] unfolding in_state_def .
  show "ckeeps (\<lambda>c. co_is_server c = False) h"
    by (rule configuration_kept [OF h]) (simp add: stable_under_def same_configuration_def)
qed (auto elim: client_dispatch_Some)

sublocale client_stage \<subseteq> client: stage "\<lambda>_. ()" False cli
    "client_handler E :: ClientState \<Rightarrow> ('a, Status) client_action option" "client_dispatch E" client_next I S V
proof unfold_locales
  fix x and h :: "('a, Status) client_action" assume h: "client_handler E x = Some h"
  show "choare (client_table.at_state x I) h (\<lambda>_. I) I"
    by (rule choare_pre [OF choare_keep [OF always [OF h]]]) (simp_all add: client_table.at_state_def)
  show "ckeeps V h" if "x \<notin> S"
    using late [OF that _ h] plain_handlers [OF h _ stable] by (cases "x \<in> plain_states") auto
  show "choare (client_table.at_state x I) h (\<lambda>_ c. co_state c \<in> cli ` S \<or> V c) (\<lambda>c. co_state c \<in> cli ` S \<or> V c)"
    if "x \<in> S" "\<not> set (client_next x) \<subseteq> S"
    using leaving [OF that h] unfolding handler_staged_def choare_def
    by (rule hoare_conseq) (auto simp: client_table.at_state_def staged_def)
next
  show "I (c\<lparr>co_state := st\<rparr>)" if "I c" for c st
    using that stableD [OF _ always_stable] by (simp add: same_defs)
  show "V (c\<lparr>co_state := st\<rparr>)" if "V c" for c st
    using that stableD [OF _ stable] by (simp add: same_defs)
  show "cli x \<noteq> (if False then srv SRV_DONE else cli CLI_DONE)" if "x \<in> S" for x
    using that done_late by auto
qed

text \<open>A history: every call comes with its fuel and its source of random bytes.\<close>

definition run_client ::
    "environment \<Rightarrow> nat \<times> (nat \<Rightarrow> bytes) \<times> conn_call \<Rightarrow> 'a TLSClient_scheme \<Rightarrow> 'a TLSClient_scheme" where
  "run_client E = (\<lambda>(fuel, rnd, c). run_call (env_crypto E) rnd (client_do_handshake fuel E) c)"

context client_stage
begin

lemma history_holds:
  assumes "I (core_of s) \<and> staged S V (core_of s)"
  shows "I (core_of (fold (run_client E) cs (s :: 'a TLSClient_scheme))) \<and>
    staged S V (core_of (fold (run_client E) cs s))"
proof -
  have "client.staged.holds (core_of s) \<Longrightarrow> client.staged.holds (core_of (fold (run_client E) cs s))"
    unfolding run_client_def client_do_handshake_def by (rule client.staged.keeps_calls)
  with assms show ?thesis by (auto simp: client.staged.holds_def staged_def)
qed

end

subsection \<open>Version\<close>

definition before_version :: "ClientState set" where
  "before_version = {CLI_START_CONNECT, CLI_ENTER_EARLY_DATA, CLI_ENTER_EARLY_DATA_COMPAT, CLI_READ_SERVER_HELLO}"

lemma version_ok_stable: "stable_under same_negotiation version_ok"
  by (auto simp: stable_under_def version_ok_def same_negotiation_def)

lemma server_hello_version_range:
  "server_hello_version st sh = Inr v \<Longrightarrow> st_minimum_version st \<le> v \<and> v \<le> st_maximum_version st"
  by (auto simp: server_hello_version_def Let_def rbind_Inr_iff split: if_splits)

lemma staged_early [simp]: "\<not> co_is_server c \<Longrightarrow> co_state c = cli x \<Longrightarrow> x \<in> S \<Longrightarrow> staged S V c"
  by (simp add: staged_def)

lemma version_hello: "handler_staged I before_version version_ok CLI_READ_SERVER_HELLO (do_read_server_hello E)"
proof -
  let ?P = "\<lambda>c. \<not> co_is_server c \<and> version_ok c"
  have stable: "?P c \<Longrightarrow> same_negotiation c d \<Longrightarrow> ?P d" for c d
    using stableD [OF _ version_ok_stable] by (auto simp: same_negotiation_def)
  show ?thesis
    unfolding handler_staged_def do_read_server_hello_def process_server_hello_def server_hello_session_def
    apply (rule choare_hello_message, simp add: before_version_def)
    apply (rule choare_gets_settings, rule choare_bnd_lift, simp add: before_version_def)
    apply (rule choare_modify_thn [where R = ?P])
      apply (auto simp: version_ok_def dest: server_hello_version_range) [1]
     apply (intro core_rules; ((erule stable; simp add: same_defs) | simp add: core_side))
    apply (simp add: staged_def)
    done
qed

lemma late_version:
  assumes "x \<notin> before_version" and "x \<notin> plain_states" and "client_handler E x = Some h"
  shows "ckeeps version_ok h"
  using assms version_ok_stable
  by (cases x) (auto simp: before_version_def plain_states_def client_states_def
      intro: certificate_handlers hrr_handler stable_weaken)

interpretation version: client_stage "\<lambda>_. True" before_version version_ok E for E :: environment
proof unfold_locales
  show "stable_under same_but_state version_ok" by (intro stable_weaken version_ok_stable)
  show "handler_staged (\<lambda>_. True) before_version version_ok x h"
    if "x \<in> before_version" "\<not> set (client_next x) \<subseteq> before_version" "client_handler E x = Some h"
    for x and h :: "('a, Status) client_action"
    using that version_hello [of "\<lambda>_. True" E] by (auto simp: before_version_def)
qed (auto simp: before_version_def stable_under_def ckeeps_True intro: late_version [unfolded before_version_def])

subsection \<open>Cipher suite\<close>

definition suite_ok :: "handshake_core \<Rightarrow> bool" where
  "suite_ok c \<longleftrightarrow> (\<exists>cs. co_suite c = Some cs \<and> cs \<in> set ALL_CIPHER_SUITES \<and>
     list_ex (cipher_suite_eq cs) (st_cipher_suites (co_settings c)) \<and>
     minimum_version cs \<le> co_version c \<and> co_version c \<le> maximum_version cs)"

definition before_suite :: "ClientState set" where
  "before_suite = before_version \<union> {CLI_COMPAT_CSS_TLS13, CLI_READ_HRR_TLS13}"

lemma suite_ok_stable: "stable_under same_parameters suite_ok"
  by (auto simp: stable_under_def suite_ok_def same_defs)

lemma server_hello_cipher_suite_ok:
  assumes "server_hello_cipher_suite st v n = Inr cs"
  shows "cs \<in> set ALL_CIPHER_SUITES" "list_ex (cipher_suite_eq cs) (st_cipher_suites st)"
    "minimum_version cs \<le> v" "v \<le> maximum_version cs"
  using assms
  by (auto simp: server_hello_cipher_suite_def except_def rbind_Inr_iff CipherSuite_of_Inr_iff
      split: if_splits sum.splits)

lemma before_suite_early:
  "x \<in> before_suite \<Longrightarrow> \<not> co_is_server c \<and> co_state c = cli x \<and> Y c \<Longrightarrow> staged before_suite V c"
  by simp

lemma suite_hello: "handler_staged I before_suite suite_ok CLI_READ_SERVER_HELLO (do_read_server_hello E)"
proof -
  let ?P = "\<lambda>c. \<not> co_is_server c \<and> suite_ok c"
  have stable: "?P c \<Longrightarrow> same_parameters c d \<Longrightarrow> ?P d" for c d
    using stableD [OF _ suite_ok_stable] by (auto simp: same_defs)
  have early: "staged before_suite suite_ok c" if "\<not> co_is_server c" "co_state c = cli CLI_READ_SERVER_HELLO" for c
    using that by (simp add: before_suite_def before_version_def)
  show ?thesis
    unfolding handler_staged_def do_read_server_hello_def process_server_hello_def server_hello_session_def
    apply (rule choare_pre [where R = "\<lambda>c. \<not> co_is_server c \<and> co_state c = cli CLI_READ_SERVER_HELLO"])
     apply (rule choare_hello_message, simp add: early)
     apply (rule choare_gets_settings, rule choare_bnd_lift, simp add: early)
     apply (rule choare_thn_keep, intro core_rules, simp, simp add: early)
     apply (rule choare_bnd_keep, intro core_rules, simp add: early)
     apply (rule choare_raise_if, simp add: early)
     apply (rule choare_thn_keep, intro core_rules, simp add: early)
     apply (rule choare_protocol_version, simp add: early)
     apply (rule choare_branches(1))
      apply (rule choare_goto, simp add: staged_def before_suite_def)
     apply (rule choare_raise_if, simp add: early)
     apply (rule choare_thn_keep, intro core_rules, simp, simp add: early)
     apply (rule choare_thn_keep, intro core_rules, simp, simp add: early)
     apply (rule choare_bnd_lift, simp add: early)
     apply (rule choare_modify_thn [where R = ?P])
       apply (auto simp: suite_ok_def dest: server_hello_cipher_suite_ok) [1]
      apply (intro core_rules; ((erule stable; simp add: same_defs) | simp add: core_side))
     apply (simp_all add: staged_def)
    done
qed

lemma suite_hrr: "handler_staged I before_suite suite_ok CLI_READ_HRR_TLS13 (do_read_hrr_tlsv13 E)"
proof -
  let ?P = "\<lambda>c. \<not> co_is_server c \<and> suite_ok c"
  have stable: "?P c \<Longrightarrow> same_parameters c d \<Longrightarrow> ?P d" for c d
    using stableD [OF _ suite_ok_stable] by (auto simp: same_defs)
  have early: "staged before_suite suite_ok c" if "\<not> co_is_server c" "co_state c = cli CLI_READ_HRR_TLS13" for c
    using that by (simp add: before_suite_def before_version_def)
  show ?thesis
    unfolding handler_staged_def do_read_hrr_tlsv13_def process_hrr_def hrr_ech_def Let_def
    apply (rule choare_pre [where R = "\<lambda>c. \<not> co_is_server c \<and> co_state c = cli CLI_READ_HRR_TLS13"])
     apply (rule choare_hello_message, simp add: early)
     apply (rule choare_get_state, rule choare_raise_if, clarsimp simp: early)
     apply (rule choare_protocol_version, clarsimp simp: early)
     apply (rule choare_bnd_lift, clarsimp simp: early, rule choare_bnd_lift, clarsimp simp: early)
     apply (rule choare_modify_thn [where R = ?P])
       apply (auto simp: suite_ok_def dest!: core_of_eqD dest: server_hello_cipher_suite_ok) [1]
      apply (intro core_rules; ((erule stable; simp add: same_defs) | simp add: core_side))
     apply (simp_all add: staged_def)
    done
qed

lemma late_suite:
  assumes "x \<notin> before_suite" and "x \<notin> plain_states" and "client_handler E x = Some h"
  shows "ckeeps suite_ok h"
  using assms suite_ok_stable
  by (cases x) (auto simp: before_suite_def before_version_def plain_states_def client_states_def
      intro: certificate_handlers stable_weaken)

interpretation suite: client_stage "\<lambda>_. True" before_suite suite_ok E for E :: environment
proof unfold_locales
  show "stable_under same_but_state suite_ok" by (intro stable_weaken suite_ok_stable)
  show "handler_staged (\<lambda>_. True) before_suite suite_ok x h"
    if "x \<in> before_suite" "\<not> set (client_next x) \<subseteq> before_suite" "client_handler E x = Some h"
    for x and h :: "('a, Status) client_action"
    using that suite_hello [of "\<lambda>_. True" E] suite_hrr [of "\<lambda>_. True" E]
    by (auto simp: before_suite_def before_version_def)
qed (auto simp: before_suite_def before_version_def stable_under_def ckeeps_True
     intro: late_suite [unfolded before_suite_def before_version_def])

subsection \<open>Authentication\<close>

text \<open>No suite of the table is anonymous, so the handlers' branches for such suites are not taken.\<close>

definition not_anonymous :: "handshake_core \<Rightarrow> bool" where
  "not_anonymous c \<longleftrightarrow> (\<forall>cs. co_suite c = Some cs \<longrightarrow> auth cs \<noteq> AUTH_ANON)"

lemma all_cipher_suites_auth: "list_all (\<lambda>c. auth c \<noteq> AUTH_ANON) ALL_CIPHER_SUITES"
  by (simp add: ALL_CIPHER_SUITES_def cipher_suite_defs)

lemma not_anonymous_stable: "stable_under same_parameters not_anonymous"
  by (auto simp: stable_under_def not_anonymous_def same_defs)

lemma server_hello_cipher_suite_auth: "server_hello_cipher_suite st v n = Inr cs \<Longrightarrow> auth cs \<noteq> AUTH_ANON"
  using all_cipher_suites_auth by (auto simp: list_all_iff dest: server_hello_cipher_suite_ok)

lemma not_anonymous_kept:
  assumes "client_handler E x = Some h"
  shows "ckeeps not_anonymous h"
proof (cases "x \<in> plain_states")
  case True
  with assms show ?thesis by (rule plain_handlers) (intro stable_weaken not_anonymous_stable)
next
  case False
  have "ckeeps not_anonymous (do_start_connect E)" "ckeeps not_anonymous (do_enter_early_data E)"
    "ckeeps not_anonymous (do_read_server_hello E)" "ckeeps not_anonymous (do_read_hrr_tlsv13 E)"
    unfolding client_handler_defs Let_def
    by (intro core_rules; ((erule stableD [OF _ not_anonymous_stable]; simp add: same_defs; fail)
        | simp add: core_side not_anonymous_def server_hello_cipher_suite_auth))+
  with False assms show ?thesis
    by (cases x) (auto simp: plain_states_def client_states_def intro!: certificate_handlers not_anonymous_stable)
qed

definition peer_ok :: "environment \<Rightarrow> handshake_core \<Rightarrow> bool" where
  "peer_ok E c \<longleftrightarrow> co_reused c \<or> st_verify_mode (co_settings c) = CERT_NONE \<or>
     (\<exists>p h. co_peer c = Some p \<and> peer_verified (env_cert E) False (co_settings c) h p \<and>
        (h = co_hostname c \<or> co_ech c = ECH_REJECTED))"

definition before_auth :: "ClientState set" where
  "before_auth = before_suite \<union> {CLI_READ_SERVER_CERTIFICATE, CLI_SEND_SECOND_CLIENT_HELLO_TLS13,
     CLI_READ_SERVER_HELLO_TLS13, CLI_READ_ENCRYPTED_EXTENSIONS_TLS13, CLI_READ_CERTIFICATE_REQUEST_TLS13,
     CLI_READ_SERVER_CERTIFICATE_TLS13}"

lemmas before_auth_defs = before_auth_def before_suite_def before_version_def

lemma peer_ok_stable: "stable_under same_but_state (peer_ok E)"
  by (auto simp: stable_under_def peer_ok_def same_defs)

lemma peer_ok_state [simp]: "peer_ok E (c\<lparr>co_state := st\<rparr>) = peer_ok E c"
  by (simp add: peer_ok_def)

text \<open>While a certificate is processed the core is that of the state \<open>s\<close>, but for what is known of the peer.\<close>

definition core_but_peer :: "'a Endpoint_scheme \<Rightarrow> handshake_core \<Rightarrow> bool" where
  "core_but_peer s c \<longleftrightarrow> (\<exists>p. c = (core_of s)\<lparr>co_peer := p\<rparr>)"

lemma core_but_peer_set: "core_but_peer s c \<Longrightarrow> core_but_peer s (c\<lparr>co_peer := p\<rparr>)"
  by (auto simp: core_but_peer_def)

lemma core_but_peer_refl [simp]: "core_but_peer s (core_of s)"
  unfolding core_but_peer_def by (rule exI [of _ "co_peer (core_of s)"]) simp

lemma core_but_peerD:
  "core_but_peer s c \<Longrightarrow> co_is_server c = hs_is_server s \<and> co_state c = hs_state s \<and> co_settings c = hs_settings s \<and>
     co_hostname c = hs_hostname s \<and> co_ech c = hs_ech_status s"
  by (auto simp: core_but_peer_def)

lemma verify_establishes:
  assumes "\<not> hs_is_server s" and "hostname = hs_hostname s \<or> hs_ech_status s = ECH_REJECTED"
    and "\<And>c. core_but_peer s c \<Longrightarrow> X c"
  shows "choare (core_but_peer s) (bnd (ep_verify_x509 E session hostname) set_session)
     (\<lambda>_ c. core_but_peer s c \<and> peer_ok E c) X"
proof (rule choare_verify)
  fix c p
  assume c: "core_but_peer s c" and v: "peer_verified (env_cert E) (co_is_server c) (co_settings c) hostname p"
  have "peer_ok E (c\<lparr>co_peer := Some p\<rparr>)"
    unfolding peer_ok_def using core_but_peerD [OF c] v assms(1,2) by (intro disjI2 exI [of _ p] exI [of _ hostname]) simp
  with c show "core_but_peer s (c\<lparr>co_peer := Some p\<rparr>) \<and> peer_ok E (c\<lparr>co_peer := Some p\<rparr>)"
    by (simp add: core_but_peer_set)
qed (rule assms(3))

lemma finish_certificate:
  assumes "\<not> hs_is_server s"
  shows "choare (\<lambda>c. core_but_peer s c \<and> peer_ok E c) (thn (next_handshake True) (goto st ST_OK))
     (\<lambda>_. staged S (peer_ok E)) (staged S (peer_ok E))"
  using assms
  by (intro choare_thn_keep ckeeps_messages choare_goto)
     (auto simp: staged_def dest: core_but_peerD)

lemma auth_certificate:
  "handler_staged not_anonymous before_auth (peer_ok E) CLI_READ_SERVER_CERTIFICATE (do_read_server_certificate E)"
  unfolding handler_staged_def do_read_server_certificate_def
proof (rule choare_get_state, goal_cases)
  case (1 s)
  then have s: "\<not> hs_is_server s" "\<And>cs. hs_cipher_suite s = Some cs \<Longrightarrow> auth cs \<noteq> AUTH_ANON"
    and early: "\<And>c. core_but_peer s c \<Longrightarrow> staged before_auth (peer_ok E) c"
    by (auto dest!: core_but_peerD simp: staged_def before_auth_defs not_anonymous_def)
  show ?case
  proof (rule choare_branches(1), goal_cases)
    case 1
    with s(1) show ?case by (intro choare_goto) (simp add: staged_def peer_ok_def)
  next
    case 2
    show ?case
      apply (rule choare_pre [where R = "core_but_peer s"])
       apply (rule choare_bnd_assert, erule early, rule choare_branches(1))
        apply (use s(2) in blast)
       apply (intro choare_with_handshake choare_bnd_keep core_rules choare_branches(3) early; assumption?)
       apply (rule choare_thn_keep, intro core_rules core_but_peer_set, assumption, erule early)
       apply (rule choare_thn [OF choare_do_if [OF verify_establishes] finish_certificate])
           apply (auto simp: s early peer_ok_def dest: core_but_peerD)
      done
  qed
qed

lemma auth_certificate_tls13:
  "handler_staged I before_auth (peer_ok E) CLI_READ_SERVER_CERTIFICATE_TLS13 (do_read_server_certificate_tls13 E)"
proof -
  let ?pre = "\<lambda>c. \<not> co_is_server c \<and> co_state c = cli CLI_READ_SERVER_CERTIFICATE_TLS13"
  have pre: "?pre c \<Longrightarrow> staged before_auth (peer_ok E) c" for c by (simp add: before_auth_defs)
  show ?thesis
    unfolding handler_staged_def do_read_server_certificate_tls13_def
  proof (rule choare_pre [where R = ?pre], rule choare_with_handshake, erule pre, erule pre,
      rule choare_bnd_keep, intro core_rules, erule pre, rule choare_get_state, goal_cases)
    case (1 h session s)
    then have s: "\<not> hs_is_server s" and early: "\<And>c. core_but_peer s c \<Longrightarrow> staged before_auth (peer_ok E) c"
      by (auto dest!: core_but_peerD simp: staged_def before_auth_defs)
    have verify: "choare (core_but_peer s) (bnd (if hs_ech_status s = ECH_REJECTED
           then bnd (assert_some (cli_ech_context s)) (\<lambda>c. ret (Some (ec_public_name c))) else ret (hs_hostname s))
         (\<lambda>hostname. bnd (ep_verify_x509 E x hostname) set_session))
       (\<lambda>_ c. core_but_peer s c \<and> peer_ok E c) (staged before_auth (peer_ok E))" for x
      by (cases "hs_ech_status s = ECH_REJECTED"; cases "cli_ech_context s")
         (auto simp: assert_some_def intro!: choare_raise verify_establishes early s)
    show ?case
      apply (rule choare_pre [where R = "core_but_peer s"])
       apply (rule choare_bnd_keep, intro core_rules, erule early, rule choare_branches(3))
       apply (rule choare_thn_keep, intro core_rules core_but_peer_set, assumption, erule early)
       apply (rule choare_thn [OF choare_do_if [OF verify] finish_certificate])
        apply (auto simp: s early peer_ok_def dest: core_but_peerD)
      done
  qed simp
qed

lemma auth_resumption:
  "handler_staged I before_auth (peer_ok E) CLI_READ_CERTIFICATE_REQUEST_TLS13 do_read_certificate_request_tls13"
proof -
  let ?pre = "\<lambda>c. \<not> co_is_server c \<and> co_state c = cli CLI_READ_CERTIFICATE_REQUEST_TLS13"
  let ?P = "\<lambda>c. \<not> co_is_server c \<and> co_state c \<in> cli ` before_auth"
  have keep: "ckeeps ?P (with_handshake (\<lambda>handshake.
       if h_type handshake \<noteq> ht HT_CERTIFICATE_REQUEST then goto (cli CLI_READ_SERVER_CERTIFICATE_TLS13) ST_OK
       else
         bnd (parse_as CertificateRequestTLS13_msg) (\<lambda>m.
         case m of
           CertificateRequestTLS13 r \<Rightarrow>
             thn (raise_if (cr13_context r \<noteq> []) AlertIllegalParameter)
             (thn (modify (\<lambda>s. s\<lparr>cli_peer_cert_request := Some m\<rparr>))
             (thn (next_handshake True)
             (goto (cli CLI_READ_SERVER_CERTIFICATE_TLS13) ST_OK)))
         | _ \<Rightarrow> raise TypeError)) :: ('a, Status) client_action)"
    by (intro core_rules; simp add: core_side before_auth_defs)
  show ?thesis
    unfolding handler_staged_def do_read_certificate_request_tls13_def
    by (rule choare_gets, rule choare_branches(1), rule choare_goto, simp add: staged_def peer_ok_def,
        rule choare_pre [OF choare_keep [OF keep]]) (auto simp: staged_def before_auth_defs)
qed

interpretation authentication: client_stage not_anonymous before_auth "peer_ok E" E for E :: environment
proof unfold_locales
  show "handler_staged not_anonymous before_auth (peer_ok E) x h"
    if "x \<in> before_auth" "\<not> set (client_next x) \<subseteq> before_auth" "client_handler E x = Some h"
    for x and h :: "('a, Status) client_action"
    using that auth_certificate [of E] auth_certificate_tls13 [of not_anonymous E] auth_resumption [of not_anonymous E]
    by (auto simp: before_auth_defs)
  show "ckeeps (peer_ok E) h" if "x \<notin> before_auth" "x \<notin> plain_states" "client_handler E x = Some h"
    for x and h :: "('a, Status) client_action"
    using that by (cases x) (auto simp: before_auth_defs plain_states_def client_states_def)
qed (auto simp: before_auth_defs intro: not_anonymous_kept not_anonymous_stable stable_weaken peer_ok_stable)

subsection \<open>Encrypted client hello\<close>

definition ech_ok :: "handshake_core \<Rightarrow> bool" where
  "ech_ok c \<longleftrightarrow> co_ech c \<noteq> ECH_REJECTED"

definition before_done :: "ClientState set" where
  "before_done = - {CLI_DONE, CLI_READ_POST_HANDSHAKE, CLI_PROCESS_UPDATE_TRAFFIC, CLI_COMPLETE_UPDATE_TRAFFIC}"

lemma ech_finish: "handler_staged I before_done ech_ok CLI_FINISH_CLIENT_HANDSHAKE (do_finish_client_handshake E)"
  unfolding handler_staged_def do_finish_client_handshake_def
proof (rule choare_get_state, rule choare_raise_if, simp add: before_done_def, goal_cases)
  case (1 s)
  let ?P = "\<lambda>c. \<not> co_is_server c \<and> ech_ok c"
  show ?case
    by (rule choare_pre [where R = ?P], rule choare_keep, intro core_rules; use 1 in \<open>simp add: core_side ech_ok_def staged_def\<close>)
qed

interpretation encrypted_hello: client_stage "\<lambda>_. True" before_done ech_ok E for E :: environment
proof unfold_locales
  show "handler_staged (\<lambda>_. True) before_done ech_ok x h"
    if "x \<in> before_done" "\<not> set (client_next x) \<subseteq> before_done" "client_handler E x = Some h"
    for x and h :: "('a, Status) client_action"
    using that ech_finish [of "\<lambda>_. True" E] by (cases x) (auto simp: before_done_def)
  show "ckeeps ech_ok h" if "x \<notin> before_done" "x \<notin> plain_states" "client_handler E x = Some h"
    for x and h :: "('a, Status) client_action"
    using that by (cases x) (auto simp: before_done_def plain_states_def client_states_def)
qed (auto simp: before_done_def stable_under_def ech_ok_def same_defs ckeeps_True)

end
