(* ===== verification/Client_Properties.thy ===== *)
theory Client_Properties
  imports Client_Laws Verification_Laws Hpke_Laws
begin

text \<open>
  What the client handshake guarantees after every history of calls of the application, from the
  construction of the client on, whatever bytes the server sends.
\<close>

declare cli.simps [simp del]

subsection \<open>The initial state\<close>

interpretation configuration: client_stage "same_configuration c\<^sub>0" "{}" "\<lambda>_. True" E
  for c\<^sub>0 :: handshake_core and E :: environment
  by unfold_locales
     (auto simp: stable_under_def same_configuration_def same_defs ckeeps_True intro: configuration_kept)

lemma if_error_Inr: "(if b then Inl e else r) = Inr y \<longleftrightarrow> \<not> b \<and> r = Inr y"
  by simp

lemma version_from_wire_Inr: "version_from_wire p v = Inr w \<Longrightarrow> w = v"
  by (simp add: version_from_wire_def split: if_split_asm)

lemma handshake_settings_fields:
  assumes "handshake_settings_init libs cfg = Inr st"
  shows "st_configuration st = cfg" "st_verify_mode st = cfg_verify_mode cfg"
    "set (st_cipher_suites st) \<subseteq> set (cfg_cipher_suites cfg)"
    "st_minimum_version st = cfg_minimum_version cfg" "st_maximum_version st = cfg_maximum_version cfg"
  using assms unfolding handshake_settings_init_def rbind_Inr_iff Let_def if_error_Inr sum.inject
  by (elim exE conjE, hypsubst, simp add: version_from_wire_Inr)+

lemma TLSClient_init_core:
  assumes "TLSClient_init E cfg callback = Inr s"
  obtains st where "handshake_settings_init (env_comp E) cfg = Inr st"
    "core_of s = \<lparr>co_is_server = False, co_state = cli CLI_START_CONNECT, co_settings = st, co_version = UNSPECIFIED,
       co_early_version = False, co_suite = None, co_reused = False, co_peer = None,
       co_hostname = cfg_server_hostname cfg, co_ech = ECH_NONE\<rparr>"
    "case cfg_server_hostname cfg of Some name \<Rightarrow> name \<noteq> [] | None \<Rightarrow> \<not> cfg_check_hostname cfg"
proof -
  obtain st where st: "handshake_settings_init (env_comp E) cfg = Inr st"
    using assms by (auto simp: TLSClient_init_def TLSHandshake_init_def rbind_Inr_iff)
  obtain h c where h: "TLSHandshake_init (env_comp E) False cfg = Inr h"
    and s: "s = Endpoint.extend (TLSConnection.extend (TLSConnection_init
        (h\<lparr>hs_hostname := cfg_server_hostname cfg, hs_state := cli CLI_START_CONNECT\<rparr>)) (Endpoint.fields 2)) c"
    using assms by (auto simp only: TLSClient_init_def rbind_Inr_iff sum.inject sum.distinct split: if_splits)
  from h have "core_of s = \<lparr>co_is_server = False, co_state = cli CLI_START_CONNECT, co_settings = st, co_version = UNSPECIFIED,
       co_early_version = False, co_suite = None, co_reused = False, co_peer = None,
       co_hostname = cfg_server_hostname cfg, co_ech = ECH_NONE\<rparr>"
    by (auto simp: s TLSHandshake_init_def st core_of_def TLSConnection_init_def TLSConnection.defs Endpoint.defs TLSHandshake.defs)
  moreover have "case cfg_server_hostname cfg of Some name \<Rightarrow> name \<noteq> [] | None \<Rightarrow> \<not> cfg_check_hostname cfg"
    using assms unfolding TLSClient_init_def
    by (auto simp: rbind_Inr_iff check_server_hostname_def split: option.splits if_splits)
  ultimately show ?thesis using that st by blast
qed

lemma init_holds:
  assumes "TLSClient_init E cfg callback = Inr s"
  shows "not_anonymous (core_of s) \<and> staged before_auth (peer_ok E) (core_of s)"
    "True \<and> staged before_version version_ok (core_of s)" "True \<and> staged before_suite suite_ok (core_of s)"
    "True \<and> staged before_done ech_ok (core_of s)" "same_configuration (core_of s) (core_of s) \<and> staged {} (\<lambda>_. True) (core_of s)"
proof -
  obtain st where c: "core_of s = \<lparr>co_is_server = False, co_state = cli CLI_START_CONNECT, co_settings = st,
       co_version = UNSPECIFIED, co_early_version = False, co_suite = None, co_reused = False, co_peer = None,
       co_hostname = cfg_server_hostname cfg, co_ech = ECH_NONE\<rparr>"
    using assms by (rule TLSClient_init_core)
  show "not_anonymous (core_of s) \<and> staged before_auth (peer_ok E) (core_of s)"
    "True \<and> staged before_version version_ok (core_of s)" "True \<and> staged before_suite suite_ok (core_of s)"
    "True \<and> staged before_done ech_ok (core_of s)" "same_configuration (core_of s) (core_of s) \<and> staged {} (\<lambda>_. True) (core_of s)"
    unfolding c by (simp_all add: staged_def before_auth_defs before_done_def not_anonymous_def same_configuration_def)
qed

text \<open>The configuration that a handshake works with is the one it was constructed with.\<close>

lemma history_configuration:
  assumes "TLSClient_init E cfg callback = Inr s"
  shows "hs_settings (fold (run_client E) calls s) = hs_settings s"
    "hs_hostname (fold (run_client E) calls s) = cfg_server_hostname cfg"
proof -
  have "hs_hostname s = cfg_server_hostname cfg"
    by (rule TLSClient_init_core [OF assms]) (simp add: core_of_def)
  with configuration.history_holds [OF init_holds(5) [OF assms], where E = E and cs = calls]
  show "hs_settings (fold (run_client E) calls s) = hs_settings s"
    "hs_hostname (fold (run_client E) calls s) = cfg_server_hostname cfg"
    by (simp_all add: same_configuration_def)
qed

subsection \<open>Negotiation\<close>

text \<open>
  C5: From the construction of a client on, after every history of calls and whatever the server sends: either the
  state is one of those before the server hello has been accepted, or the negotiated version lies between
  the minimal and the maximal version of the configuration, and the negotiated cipher suite is a suite of the table
  that equals a configured one and is defined for the negotiated version.
\<close>

theorem client_negotiation:
  assumes "TLSClient_init E cfg callback = Inr s" and "t = fold (run_client E) calls s"
  shows "hs_state t \<in> cli ` before_suite \<or>
    (cfg_minimum_version cfg \<le> hs_version t \<and> hs_version t \<le> cfg_maximum_version cfg \<and>
     (\<exists>cs configured. hs_cipher_suite t = Some cs \<and> cs \<in> set ALL_CIPHER_SUITES \<and>
        configured \<in> set (cfg_cipher_suites cfg) \<and> cipher_suite_eq cs configured \<and>
        minimum_version cs \<le> hs_version t \<and> hs_version t \<le> maximum_version cs))"
proof -
  obtain st where st: "handshake_settings_init (env_comp E) cfg = Inr st" and s: "hs_settings s = st"
    by (rule TLSClient_init_core [OF assms(1)]) (auto simp: core_of_def)
  note f = handshake_settings_fields [OF st]
  have t: "hs_settings t = st" using history_configuration(1) [OF assms(1)] assms(2) s by simp
  have v: "staged before_version version_ok (core_of t)" and cs: "staged before_suite suite_ok (core_of t)"
    using version.history_holds [OF init_holds(2) [OF assms(1)]] suite.history_holds [OF init_holds(3) [OF assms(1)]] assms(2)
    by auto
  show ?thesis
  proof (cases "hs_state t \<in> cli ` before_suite")
    case False
    then have "hs_state t \<notin> cli ` before_version" by (auto simp: before_suite_def)
    with v have "version_ok (core_of t)" by (simp add: staged_def)
    moreover from cs False have "suite_ok (core_of t)" by (simp add: staged_def)
    ultimately show ?thesis using f(3-5) t by (auto simp: version_ok_def suite_ok_def list_ex_iff)
  qed simp
qed

subsection \<open>Authentication\<close>

text \<open>What the leaf certificate says if the client's policy accepts it.\<close>

definition certifies :: "cert_lib \<Rightarrow> TLSConfiguration \<Rightarrow> x509_certificate \<Rightarrow> bool" where
  "certifies L cfg leaf \<longleftrightarrow> (\<exists>exts eku. cl_extensions L leaf = Inr exts \<and>
     map_of exts ExtensionOID_EXTENDED_KEY_USAGE = Some (ExtendedKeyUsage eku) \<and> EKU_SERVER_AUTH \<in> set eku \<and>
     (cfg_check_hostname cfg \<longrightarrow> (\<exists>name san. cfg_server_hostname cfg = Some name \<and>
        map_of exts ExtensionOID_SUBJECT_ALTERNATIVE_NAME = Some (SubjectAlternativeNameExt san) \<and>
        (ip_address name \<noteq> None \<or> (\<exists>dns \<in> set (san_dns_names san). dnsname_match dns (bytes_to_str name))))))"

lemma required_EKU:
  "run_validator (Some (eku_validator p)) c (Some x) = Inr () \<Longrightarrow> \<exists>eku. x = ExtendedKeyUsage eku \<and> p \<in> set eku"
  by (cases x) (auto simp: run_validator_def eku_validator_def EKUValidator_def split: if_splits)

lemma required_SAN:
  "run_validator (Some (san_validator h)) c (Some x) = Inr () \<Longrightarrow> \<exists>san. x = SubjectAlternativeNameExt san \<and>
     (ip_address h \<noteq> None \<or> (\<exists>dns \<in> set (san_dns_names san). dnsname_match dns (bytes_to_str h)))"
  by (cases x) (auto simp: run_validator_def san_validator_def SANValidator_def list_ex_iff split: if_splits option.splits)

lemma policy_certifies:
  assumes "policy_verify L (verify_x509_policy False (cfg_check_hostname cfg) (cfg_server_hostname cfg)) leaf = Inr ()"
    and "case cfg_server_hostname cfg of Some name \<Rightarrow> name \<noteq> [] | None \<Rightarrow> \<not> cfg_check_hostname cfg"
  shows "certifies L cfg leaf"
proof -
  obtain exts where exts: "cl_extensions L leaf = Inr exts"
    and req: "verify_required exts leaf
      (ep_require_present (verify_x509_policy False (cfg_check_hostname cfg) (cfg_server_hostname cfg))) = Inr ()"
    using assms(1) by (auto simp: policy_verify_def rbind_Inr_iff)
  show ?thesis
  proof (cases "cfg_check_hostname cfg")
    case True
    with assms(2) obtain name where name: "cfg_server_hostname cfg = Some name" "name \<noteq> []"
      by (auto split: option.splits)
    with req True exts show ?thesis unfolding certifies_def
      by (auto simp: verify_x509_policy_def require_present_def defaults_ee_def
          ExtensionOID_SUBJECT_ALTERNATIVE_NAME_def ExtensionOID_EXTENDED_KEY_USAGE_def rbind_Inr_iff
          split: option.splits dest!: required_EKU required_SAN)
  next
    case False
    with req exts show ?thesis unfolding certifies_def
      by (auto simp: verify_x509_policy_def require_present_def defaults_ee_def
          ExtensionOID_SUBJECT_ALTERNATIVE_NAME_def ExtensionOID_EXTENDED_KEY_USAGE_def rbind_Inr_iff
          split: option.splits dest!: required_EKU)
  qed
qed

text \<open>
  C1: A client that verifies certificates authenticates its server.  From its construction on, after every history of
  calls and whatever the server sends: either the handshake is not complete, or it has resumed a session, or its session
  holds a certificate and a chain for which there is a trusted path from the certificate to an anchor of the configured
  store, verified under the policy for the configured host name.  The certificate allows server authentication
  and, where the host name is checked, names the host (the check of names is for DNS names: an IP address is not compared).
\<close>

theorem client_authenticates_server:
  assumes "TLSClient_init E cfg callback = Inr s" and "t = fold (run_client E) calls s"
    and "cfg_verify_mode cfg \<noteq> CERT_NONE" and "cfg_castore cfg = Some castore"
    and "store_ok (env_cert E) (store_trust_map castore)"
  shows "hs_state t \<in> cli ` before_done \<or> hs_session_reused t \<or>
    (\<exists>session leaf ims chain now. hs_session t = Some session \<and>
       peer_info session = (Some leaf, Some ims, Some (hd chain), Some (tl chain)) \<and>
       trusted_path (env_cert E) (peer_verifier False cfg castore (cfg_server_hostname cfg)) now leaf ims chain \<and>
       certifies (env_cert E) cfg leaf)"
proof (cases "hs_state t \<in> cli ` before_done")
  case False
  obtain st where st: "handshake_settings_init (env_comp E) cfg = Inr st" and s: "hs_settings s = st"
    and name: "case cfg_server_hostname cfg of Some name \<Rightarrow> name \<noteq> [] | None \<Rightarrow> \<not> cfg_check_hostname cfg"
    by (rule TLSClient_init_core [OF assms(1)]) (auto simp: core_of_def)
  have t: "hs_settings t = st" "hs_hostname t = cfg_server_hostname cfg"
    using history_configuration [OF assms(1)] assms(2) s by simp_all
  have "staged before_auth (peer_ok E) (core_of t)" "staged before_done ech_ok (core_of t)"
    using authentication.history_holds [OF init_holds(1) [OF assms(1)]]
      encrypted_hello.history_holds [OF init_holds(4) [OF assms(1)]] assms(2) by auto
  moreover have "hs_state t \<notin> cli ` before_auth" using False by (auto simp: before_auth_defs before_done_def)
  ultimately have ok: "peer_ok E (core_of t)" "ech_ok (core_of t)" using False by (simp_all add: staged_def)
  show ?thesis
  proof (cases "hs_session_reused t")
    case False
    with ok t handshake_settings_fields [OF st] assms(3) obtain session where session: "hs_session t = Some session"
      "peer_verified (env_cert E) False st (cfg_server_hostname cfg) (peer_info session)"
      by (auto simp: peer_ok_def ech_ok_def)
    then obtain now leaf ims chain where
      v: "verifier_verify (env_cert E) (peer_verifier False cfg castore (cfg_server_hostname cfg)) now leaf ims = Inr chain"
        "peer_info session = (Some leaf, Some ims, Some (hd chain), Some (tl chain))"
      using handshake_settings_fields(1) [OF st] assms(4) by (auto simp: peer_verified_def)
    obtain n where path: "trusted_path (env_cert E) (peer_verifier False cfg castore (cfg_server_hostname cfg)) n leaf ims chain"
      using trusted_of_verified [OF v(1)] assms(5) by (auto simp: peer_verifier_def)
    have "certifies (env_cert E) cfg leaf"
      using path name by (intro policy_certifies) (simp_all add: trusted_path_def peer_verifier_def)
    with session(1) v(2) path show ?thesis by blast
  qed simp
qed simp

subsection \<open>Instances\<close>

text \<open>An environment without randomness and a client that verifies certificates against one root.\<close>

definition sample_environment :: environment where
  "sample_environment = \<lparr>env_crypto = sample_crypto, env_asym = sample_asym, env_kex = sample_kex,
     env_x509 = \<lparr>load_der_fn = Some, cert_public_key_fn = (\<lambda>_. Inl ValueError), cert_oid_fn = (\<lambda>_. [])\<rparr>,
     env_comp = \<lparr>lib_brotli = None, lib_zstandard = None, lib_zstd = None, lib_zlib = \<lparr>lib_compress = Some, lib_decompress = (\<lambda>d _. Some d)\<rparr>\<rparr>,
     env_cert = deep_lib, env_hpke = sample_hpke, env_dh_ok = (\<lambda>_ _. True), env_random = (\<lambda>_ n. replicate n 7),
     env_randint = (\<lambda>_ a _. a), env_randbits = (\<lambda>_ _. 0), env_shuffle = (\<lambda>_ xs. xs), env_private = (\<lambda>_. [1]),
     env_now = (\<lambda>_ _. 1000000000)\<rparr>"

definition sample_client_configuration :: TLSConfiguration where
  "sample_client_configuration = default_configuration\<lparr>cfg_verify_mode := CERT_REQUIRED, cfg_check_hostname := True,
     cfg_cipher_suites := [TLS_AES_128_GCM_SHA256], cfg_supported_groups := Some [ng NG_X25519],
     cfg_signature_algorithms := Some [ss SS_ED25519], cfg_signing_signature_algorithms := Some [ss SS_ED25519],
     cfg_server_hostname := Some (ascii ''a.b''), cfg_castore := Some (vf_store (root_verifier deep_lib))\<rparr>"

definition sample_client :: TLSClient where
  "sample_client = (case TLSClient_init sample_environment sample_client_configuration True of
     Inr s \<Rightarrow> s | Inl _ \<Rightarrow> undefined)"

lemma sample_client_fields:
  "cfg_protocol sample_client_configuration = PROTO_TLS" "cfg_minimum_version sample_client_configuration = 771"
  "cfg_maximum_version sample_client_configuration = 772" "cfg_check_hostname sample_client_configuration"
  "cfg_cipher_suites sample_client_configuration = [TLS_AES_128_GCM_SHA256]"
  "cfg_server_hostname sample_client_configuration = Some [97, 46, 98]"
  "cfg_supported_groups sample_client_configuration = Some [ng NG_X25519]"
  "cfg_signature_algorithms sample_client_configuration = Some [ss SS_ED25519]"
  "cfg_signing_signature_algorithms sample_client_configuration = Some [ss SS_ED25519]"
  by (simp_all add: sample_client_configuration_def default_configuration_def ascii_def)

lemma sample_client_configured:
  "configured (Some [29]) SUPPORTED_GROUPS = [29]"
  "configured (Some [sigscheme 8 7]) SIGNATURE_ALGORITHMS = [sigscheme 8 7]"
  by (simp_all add: configured_def SUPPORTED_GROUPS_def SIGNATURE_ALGORITHMS_def ECC_GROUPS_def EDDSA_SIGNATURE_ALGORITHMS_def)

lemma sample_client_init: "TLSClient_init sample_environment sample_client_configuration True = Inr sample_client"
proof -
  have "\<exists>st. handshake_settings_init libs sample_client_configuration = Inr st \<and> st_cipher_suites st = [TLS_AES_128_GCM_SHA256]" for libs
    unfolding handshake_settings_init_def
    by (simp add: sample_client_fields sample_client_configured version_from_wire_def TLS_VERSIONS_def Let_def TLS_AES_128_GCM_SHA256_def)
  then obtain st where st: "handshake_settings_init (env_comp sample_environment) sample_client_configuration = Inr st"
    "st_cipher_suites st = [TLS_AES_128_GCM_SHA256]" by blast
  then have "\<not> isl (TLSClient_init sample_environment sample_client_configuration True)"
    by (simp add: TLSClient_init_def TLSHandshake_init_def sample_client_fields check_server_hostname_def
        TLS_AES_128_GCM_SHA256_def)
  then show ?thesis by (cases "TLSClient_init sample_environment sample_client_configuration True") (simp_all add: sample_client_def)
qed

lemma sample_store_ok:
  "store_ok (env_cert sample_environment) (store_trust_map (vf_store (root_verifier deep_lib)))"
  by (simp add: store_ok_def sample_environment_def root_verifier_def store_build_def add_certificate_def dict_get_def)

definition sample_calls :: "(nat \<times> (nat \<Rightarrow> bytes) \<times> conn_call) list" where
  "sample_calls = [(9, \<lambda>n. replicate n 0, Call_do_handshake 9), (9, \<lambda>n. replicate n 0, Call_bio_write [22, 3, 3, 0, 1]),
     (9, \<lambda>n. replicate n 0, Call_read 9 100 None), (9, \<lambda>n. replicate n 0, Call_shutdown)]"

theorem client_negotiation_witness:
  "let t = fold (run_client sample_environment) sample_calls sample_client in
   hs_state t \<in> cli ` before_suite \<or>
   (771 \<le> hs_version t \<and> hs_version t \<le> 772 \<and>
    (\<exists>cs. hs_cipher_suite t = Some cs \<and> cs \<in> set ALL_CIPHER_SUITES \<and> cipher_suite_eq cs TLS_AES_128_GCM_SHA256 \<and>
       minimum_version cs \<le> hs_version t \<and> hs_version t \<le> maximum_version cs))"
  using client_negotiation [OF sample_client_init refl, of sample_calls] by (simp add: sample_client_fields Let_def)

theorem client_authenticates_server_witness:
  "let t = fold (run_client sample_environment) sample_calls sample_client in
   hs_state t \<in> cli ` before_done \<or> hs_session_reused t \<or>
   (\<exists>session leaf ims chain now. hs_session t = Some session \<and>
      peer_info session = (Some leaf, Some ims, Some (hd chain), Some (tl chain)) \<and>
      trusted_path deep_lib (peer_verifier False sample_client_configuration (vf_store (root_verifier deep_lib))
        (Some [97, 46, 98])) now leaf ims chain \<and>
      certifies deep_lib sample_client_configuration leaf)"
proof -
  have "cfg_verify_mode sample_client_configuration \<noteq> CERT_NONE"
    "cfg_castore sample_client_configuration = Some (vf_store (root_verifier deep_lib))"
    "env_cert sample_environment = deep_lib"
    by (simp_all add: sample_client_configuration_def sample_environment_def)
  with client_authenticates_server [OF sample_client_init refl _ _ sample_store_ok, of sample_calls]
  show ?thesis by (simp add: sample_client_fields Let_def)
qed

end
