(* ===== verification/Handshake_Finished.thy ===== *)
theory Handshake_Finished
  imports Handshake_Core
begin

text \<open>
  The handlers for the peer's finished message, which client and server share but for a label: one that has
  moved the state machine has compared the data of the message with the expected data.
\<close>

subsection \<open>The expected message\<close>

text \<open>The data a finished message must have, up to TLS 1.2 and in TLS 1.3.\<close>

definition expected_finished :: "environment \<Rightarrow> bytes \<Rightarrow> bool \<Rightarrow> ('a Endpoint_scheme, bytes) action" where
  "expected_finished E label tls13 =
     (if \<not> tls13 then
        bnd current_session (\<lambda>session. derive_finished_verify_data (env_crypto E) (s_secret session) label)
      else
        bnd current_key_schedule (\<lambda>key_schedule.
        bnd get_state (\<lambda>s.
        bnd (case hs_dec_secret s EPOCH_HANDSHAKE of Some x \<Rightarrow> ret x | None \<Rightarrow> raise KeyError) (\<lambda>secret.
        on_transcript (finished_verify_data (env_crypto E) key_schedule secret)))))"

text \<open>The next message is a finished message and its data is the expected one.\<close>

definition finished_verified :: "environment \<Rightarrow> bytes \<Rightarrow> bool \<Rightarrow> 'a Endpoint_scheme \<Rightarrow> bool" where
  "finished_verified E label tls13 s \<longleftrightarrow> (\<exists>h t verify_data u. read_handshake s = (Inr (Some h), t) \<and>
     parse_as Finished_msg t = (Inr (Finished verify_data), u) \<and> fst (expected_finished E label tls13 u) = Inr verify_data)"

subsection \<open>Up to TLS 1.2\<close>

lemma finished_verified_legacy:
  assumes "with_handshake (\<lambda>_. bnd current_session (\<lambda>session. bnd (parse_as Finished_msg) (\<lambda>m.
      case m of
        Finished verify_data \<Rightarrow>
          bnd (derive_finished_verify_data (env_crypto E) (s_secret session) label) (\<lambda>expected_verify_data.
          thn (raise_if (\<not> compare_digest verify_data expected_verify_data) AlertDecryptError) rest)
      | _ \<Rightarrow> raise TypeError))) (s :: 'a Endpoint_scheme) = (r, t)"
    and "hs_state t \<noteq> hs_state s"
  shows "finished_verified E label False s"
proof -
  obtain h u session verify_data v where m: "read_handshake s = (Inr (Some h), u)" "current_session u = (Inr session, u)"
    "parse_as Finished_msg u = (Inr (Finished verify_data), v)" "hs_state v = hs_state s"
    and run: "bnd (derive_finished_verify_data (env_crypto E) (s_secret session) label) (\<lambda>expected_verify_data.
         thn (raise_if (\<not> compare_digest verify_data expected_verify_data) AlertDecryptError) rest) v = (r, t)"
    using assms by (rule read_finished_message) (rule current_frame)
  have moved: "hs_state t \<noteq> hs_state v" using assms(2) m(4) by simp
  obtain d w where d: "derive_finished_verify_data (env_crypto E) (s_secret session) label v = (Inr d, w)"
    "hs_state w = hs_state v" "thn (raise_if (\<not> compare_digest verify_data d) AlertDecryptError) rest w = (r, t)"
    using run moved ckeeps_derive(2) by (rule bnd_moved)
  then have "verify_data = d"
    using moved by (cases "verify_data = d") (auto simp: compare_digest_def thn_apply raise_if_apply raise_def)
  moreover have "current_session v = (Inr session, v)"
    using parse_as_frame [OF m(3)] m(2) current_cache(1) current_frame(1) by (metis fst_conv prod.collapse)
  ultimately show ?thesis
    unfolding finished_verified_def using m(1,3) d(1) by (auto simp: expected_finished_def bnd_apply)
qed

subsection \<open>TLS 1.3\<close>

lemma finished_verified_tls13:
  assumes "with_handshake (\<lambda>_. bnd m (\<lambda>ks. bnd (parse_as Finished_msg) (\<lambda>y.
      case y of
        Finished verify_data \<Rightarrow>
          bnd get_state (\<lambda>s.
          thn (raise_if (has_unprocessed_data s) AlertUnexpectedMessage)
          (bnd (case hs_dec_secret s EPOCH_HANDSHAKE of Some x \<Rightarrow> ret x | None \<Rightarrow> raise KeyError) (\<lambda>secret.
          bnd (on_transcript (finished_verify_data (env_crypto E) ks secret)) (\<lambda>expected_verify_data.
          thn (raise_if (\<not> compare_digest verify_data expected_verify_data) AlertDecryptError) rest))))
      | _ \<Rightarrow> raise TypeError))) (s :: 'a Endpoint_scheme) = (r, t)"
    and "hs_state t \<noteq> hs_state s" and frame: "\<And>u v q. m u = (q, v) \<Longrightarrow> v = u"
    and ks: "\<And>u v x. m u = (Inr x, v) \<Longrightarrow> fst (current_key_schedule u) = Inr x"
  shows "finished_verified E label True s"
proof -
  obtain h u x verify_data v where m: "read_handshake s = (Inr (Some h), u)" "m u = (Inr x, u)"
    "parse_as Finished_msg u = (Inr (Finished verify_data), v)" "hs_state v = hs_state s"
    and run: "bnd get_state (\<lambda>s.
         thn (raise_if (has_unprocessed_data s) AlertUnexpectedMessage)
         (bnd (case hs_dec_secret s EPOCH_HANDSHAKE of Some x \<Rightarrow> ret x | None \<Rightarrow> raise KeyError) (\<lambda>secret.
         bnd (on_transcript (finished_verify_data (env_crypto E) x secret)) (\<lambda>expected_verify_data.
         thn (raise_if (\<not> compare_digest verify_data expected_verify_data) AlertDecryptError) rest)))) v = (r, t)"
    using assms(1,2) by (rule read_finished_message) (rule frame)
  have moved: "hs_state t \<noteq> hs_state v" using assms(2) m(4) by simp
  obtain secret where secret: "hs_dec_secret v EPOCH_HANDSHAKE = Some secret"
    using run moved by (cases "hs_dec_secret v EPOCH_HANDSHAKE") (auto simp: action_simps split: if_splits)
  obtain q w where q: "on_transcript (finished_verify_data (env_crypto E) x secret) v = (q, w)"
    by (cases "on_transcript (finished_verify_data (env_crypto E) x secret) v")
  have "core_of w = core_of v"
    using ckeepsD [OF ckeeps_on_transcript [where P = "\<lambda>c. c = core_of v"] refl q] .
  then have w: "hs_state w = hs_state v" by (rule core_of_eqD [THEN conjunct2, THEN conjunct1])
  obtain d where d: "q = Inr d" using run moved q w secret by (cases q) (auto simp: action_simps split: if_splits)
  have "verify_data = d"
    using run moved q w secret d
    by (cases "verify_data = d") (auto simp: action_simps compare_digest_def split: if_splits)
  moreover have "current_key_schedule v = (Inr x, v)"
    using ks [OF m(2)] parse_as_frame [OF m(3)] current_cache(2) current_frame(2) by (metis prod.collapse)
  ultimately show ?thesis
    unfolding finished_verified_def using m(1,3) q d secret by (auto simp: expected_finished_def action_simps)
qed

end
