(* ===== verification/Client_Finished.thy ===== *)
theory Client_Finished
  imports Client_Properties Handshake_Finished
begin

text \<open>
  The end of the client handshake: a run of the handlers, interleaved with anything the record layer does,
  completes only after the server's finished message has been compared with the expected one.
\<close>

subsection \<open>The state graph\<close>

text \<open>
  C13: Each of the 36 handlers of the client, from any state and whatever it returns or raises, leaves the
  state machine where it is or moves it along an edge of a fixed graph.
\<close>

theorem client_state_graph:
  assumes "client_handler E x = Some h" and "hs_state s = cli x"
  shows "hs_state (snd (h s)) \<in> cli ` set (x # client_next x)"
proof -
  have "in_state (x # client_next x) (core_of s)" using assms(2) by (simp add: in_state_def)
  from ckeepsD [OF client_handler_edges [OF assms(1)] this, of "fst (h s)" "snd (h s)"]
  show ?thesis by (simp add: in_state_def)
qed

theorem client_state_graph_witness:
  "hs_state (snd (do_process_update_traffic (sample_client\<lparr>hs_state := cli CLI_PROCESS_UPDATE_TRAFFIC\<rparr>)))
     \<in> cli ` {CLI_PROCESS_UPDATE_TRAFFIC, CLI_COMPLETE_UPDATE_TRAFFIC}"
  using client_state_graph [of sample_environment CLI_PROCESS_UPDATE_TRAFFIC do_process_update_traffic
      "sample_client\<lparr>hs_state := cli CLI_PROCESS_UPDATE_TRAFFIC\<rparr>"] by simp

subsection \<open>Downgrades\<close>

lemma choare_refuses:
  assumes "choare P m (\<lambda>_ _. False) X" and "P (core_of s)"
  obtains e t where "m s = (Inl e, t)" "X (core_of t)"
proof -
  obtain r t where m: "m s = (r, t)" by (cases "m s")
  with assms that show ?thesis unfolding choare_def hoare_def by (cases r) fastforce+
qed

text \<open>
  C12: A client that supports TLS 1.3 refuses a server hello that selects an older version and whose random ends
  with one of the two downgrade sentinels (RFC 8446, section 4.1.3): the handler raises an exception and the
  state machine stays where it is, whatever the rest of the server hello and of the client's state is.
\<close>

theorem downgrade_refused:
  assumes "st_maximum_version (hs_settings s) \<ge> ver V_TLSv1_3"
    and "server_hello_version (hs_settings s) sh = Inr v" and "v < ver V_TLSv1_3"
    and "drop (length (sh_random sh) - 8) (sh_random sh) \<in> {TLS12_DOWNGRADE_SENTINEL, TLS11_DOWNGRADE_SENTINEL}"
  shows "\<exists>e t. process_server_hello E sh s = (Inl e, t) \<and> hs_state t = hs_state s"
proof -
  let ?X = "\<lambda>c. co_state c = hs_state s"
  let ?P = "\<lambda>c. co_settings c = hs_settings s \<and> ?X c" and ?R = "\<lambda>c. co_version c = v \<and> ?X c"
  have "choare ?P (process_server_hello E sh) (\<lambda>_ _. False) ?X"
    unfolding process_server_hello_def
    apply (rule choare_gets, rule choare_bnd_lift, simp)
    apply (rule choare_thn [where R = ?R])
     apply (use assms(2) in \<open>auto simp: choare_def hoare_def action_simps dest!: core_of_eqD\<close>) [1]
    apply (rule choare_bnd_keep, intro core_rules, simp)
    apply (rule choare_raise_if, simp)
    apply (rule choare_thn_keep, intro core_rules, simp)
    apply (rule choare_protocol_version, simp)
    apply (rule choare_branches(1))
     apply (use assms(3) in \<open>auto simp: choare_def hoare_def\<close>) [1]
    apply (rule choare_raise_if, simp)
    apply (use assms in \<open>auto simp: choare_def hoare_def downgrade_detected_def Let_def\<close>)
    done
  then show ?thesis by (rule choare_refuses [where s = s]) auto
qed

definition sample_downgraded_hello :: server_hello where
  "sample_downgraded_hello = \<lparr>sh_version = 771, sh_random = replicate 24 0 @ TLS12_DOWNGRADE_SENTINEL, sh_session_id = [],
     sh_cipher_suite = 4865, sh_compression_method = 0, sh_extensions = []\<rparr>"

lemma sample_client_versions:
  "st_minimum_version (hs_settings sample_client) = 771" "st_maximum_version (hs_settings sample_client) = 772"
  by (rule TLSClient_init_core [OF sample_client_init],
      simp add: core_of_def handshake_settings_fields sample_client_fields)+

theorem downgrade_refused_witness:
  "\<exists>e t. process_server_hello sample_environment sample_downgraded_hello sample_client = (Inl e, t) \<and>
     hs_state t = hs_state sample_client"
proof (rule downgrade_refused)
  show "server_hello_version (hs_settings sample_client) sample_downgraded_hello = Inr 771"
    by (simp add: server_hello_version_def sample_downgraded_hello_def sample_client_versions Extensions_get.simps)
qed (simp_all add: sample_client_versions sample_downgraded_hello_def TLS12_DOWNGRADE_SENTINEL_def)

subsection \<open>Finished\<close>

abbreviation server_finished_verified :: "environment \<Rightarrow> ClientState \<Rightarrow> 'a TLSClient_scheme \<Rightarrow> bool" where
  "server_finished_verified E x \<equiv> finished_verified E (ascii ''server finished'') (x = CLI_READ_SERVER_FINISHED_TLS13)"

definition finished_states :: "ClientState set" where
  "finished_states = {CLI_READ_SERVER_FINISHED, CLI_READ_SERVER_FINISHED_TLS13}"

lemma read_finished_verified:
  assumes "do_read_server_finished E s = (r, t)" and "hs_state t \<noteq> hs_state s"
  shows "finished_verified E (ascii ''server finished'') False s"
  using assms unfolding do_read_server_finished_def by (rule finished_verified_legacy)

definition checked_key_schedule :: "nat \<Rightarrow> ('a TLSHandshake_scheme, KeySchedule) action" where
  "checked_key_schedule n = bnd current_key_schedule (\<lambda>ks. thn (assert_that (ks_generation ks = n)) (ret ks))"

lemma checked_key_schedule_bnd:
  "bnd current_key_schedule (\<lambda>ks. thn (assert_that (ks_generation ks = n)) (f ks)) = bnd (checked_key_schedule n) f"
  by (simp add: fun_eq_iff checked_key_schedule_def assert_that_def action_simps split: prod.splits sum.splits)

lemma checked_key_schedule_frame:
  "checked_key_schedule n s = (r, t) \<Longrightarrow> t = s"
  "checked_key_schedule n s = (Inr x, t) \<Longrightarrow> fst (current_key_schedule s) = Inr x"
  by (auto simp: checked_key_schedule_def assert_that_def action_simps split: prod.splits sum.splits if_splits
      dest: current_frame)

lemma read_finished_tls13_verified:
  assumes "do_read_server_finished_tls13 E s = (r, t)" and "hs_state t \<noteq> hs_state s"
  shows "finished_verified E (ascii ''server finished'') True s"
  using assms unfolding do_read_server_finished_tls13_def checked_key_schedule_bnd
  by (rule finished_verified_tls13) (rule checked_key_schedule_frame, assumption)+

subsection \<open>Runs\<close>

text \<open>
  A run of the client from a state: handlers in their states, whatever they return or raise, any step that leaves the
  core alone (as those of the record layer do), and the two ways out of the final state.  The flag tells whether a
  handler for the server's finished message ran in a state where this message was the expected one.
\<close>

inductive client_run ::
    "environment \<Rightarrow> 'a TLSClient_scheme \<Rightarrow> bool \<Rightarrow> 'a TLSClient_scheme \<Rightarrow> bool" for E s where
  start: "client_run E s False s"
| handler: "client_run E s b t \<Longrightarrow> hs_state t = cli x \<Longrightarrow> client_handler E x = Some h \<Longrightarrow> h t = (r, u) \<Longrightarrow>
     client_run E s (b \<or> x \<in> finished_states \<and> server_finished_verified E x t) u"
| record_layer: "client_run E s b t \<Longrightarrow> core_of u = core_of t \<Longrightarrow> client_run E s b u"
| post_handshake: "client_run E s b t \<Longrightarrow> hs_done t \<Longrightarrow> st \<in> {CLI_READ_POST_HANDSHAKE, CLI_PROCESS_UPDATE_TRAFFIC} \<Longrightarrow>
     client_run E s b (t\<lparr>hs_state := cli st\<rparr>)"

definition flight_states :: "ClientState set" where
  "flight_states = {CLI_READ_CERTIFICATE_STATUS, CLI_READ_SERVER_KEY_EXCHANGE, CLI_READ_CERTIFICATE_REQUEST,
     CLI_READ_SERVER_HELLO_DONE, CLI_SEND_CLIENT_CERTIFICATE, CLI_SEND_CLIENT_KEY_EXCHANGE,
     CLI_SEND_CLIENT_CERTIFICATE_VERIFY, CLI_SEND_CHANGE_CIPHER_SPEC, CLI_SEND_CLIENT_FINISHED, CLI_FINISH_FLIGHT}"

definition waiting_states :: "ClientState set" where
  "waiting_states = before_auth \<union> {CLI_READ_SESSION_TICKET, CLI_PROCESS_CHANGE_CIPHER_SPEC, CLI_READ_SERVER_FINISHED,
     CLI_READ_SERVER_CERTIFICATE_VERIFY_TLS13, CLI_READ_SERVER_FINISHED_TLS13}"

definition before_finished :: "ClientState set" where
  "before_finished = waiting_states \<union> flight_states"

text \<open>In a full handshake the client's flight comes before the server's finished message, in a resumed one after it.\<close>

definition unfinished :: "handshake_core \<Rightarrow> bool" where
  "unfinished c \<longleftrightarrow> \<not> co_is_server c \<and>
     (co_state c \<in> cli ` waiting_states \<or> co_state c \<in> cli ` flight_states \<and> \<not> co_reused c)"

lemmas unfinished_defs = unfinished_def waiting_states_def flight_states_def before_auth_defs

lemma unfinished_certificate:
  "choare (\<lambda>c. \<not> co_is_server c \<and> co_state c = cli CLI_READ_SERVER_CERTIFICATE) (do_read_server_certificate E)
     (\<lambda>_. unfinished) unfinished"
  unfolding do_read_server_certificate_def
proof (rule choare_get_state, rule choare_branches(1), goal_cases)
  case (1 s)
  then show ?case by (intro choare_goto) (simp add: unfinished_defs)
next
  case (2 s)
  let ?P = "\<lambda>c. \<not> co_is_server c \<and> \<not> co_reused c \<and> co_state c \<in>
     cli ` {CLI_READ_SERVER_CERTIFICATE, CLI_READ_SERVER_KEY_EXCHANGE, CLI_READ_CERTIFICATE_STATUS}"
  show ?case
    by (rule choare_pre [where R = ?P], rule choare_keep, intro core_rules)
       (use 2 in \<open>auto simp: core_side unfinished_defs\<close>)
qed

lemma unfinished_flight:
  assumes "client_handler E x = Some h" and "x \<in> flight_states" and "hs_state s = cli x"
    and "\<not> hs_is_server s" "\<not> hs_session_reused s" and "h s = (r, t)"
  shows "unfinished (core_of t)"
proof -
  have plain: "x \<in> plain_states" using assms(2) by (auto simp: flight_states_def plain_states_def client_states_def)
  have "ckeeps (\<lambda>c. \<not> co_is_server c \<and> \<not> co_reused c) h"
    using assms(1) plain by (rule plain_handlers) (auto simp: stable_under_def same_defs)
  from ckeepsD [OF this _ assms(6)] assms(4,5) have t: "\<not> hs_is_server t" "\<not> hs_session_reused t" by simp_all
  have "hs_state t \<in> cli ` set (x # client_next x)"
    using ckeepsD [OF client_handler_edges [OF assms(1)], of s r t] assms(3,6) by (simp add: in_state_def)
  moreover have "hs_state t = cli CLI_READ_SESSION_TICKET" if "x = CLI_FINISH_FLIGHT"
    using that assms(1,5,6) by (auto simp: do_finish_flight_def goto_def set_state_def action_simps)
  ultimately show ?thesis
    using t assms(2) by (cases "x = CLI_FINISH_FLIGHT") (auto simp: unfinished_defs)
qed

lemma unfinished_step:
  assumes "client_handler E x = Some h" and "unfinished (core_of s)" and "hs_state s = cli x" and "h s = (r, t)"
  shows "unfinished (core_of t) \<or> x \<in> finished_states \<and> server_finished_verified E x s"
proof -
  have client: "\<not> co_is_server (core_of s)" using assms(2) by (simp add: unfinished_def)
  have "ckeeps (\<lambda>c. \<not> co_is_server c) h"
    by (rule configuration_kept [OF assms(1)]) (simp add: stable_under_def same_configuration_def)
  from ckeepsD [OF this client assms(4)] have client': "\<not> hs_is_server t" by simp
  have edges: "hs_state t \<in> cli ` set (x # client_next x)"
    using ckeepsD [OF client_handler_edges [OF assms(1)], of s r t] assms(3,4) by (simp add: in_state_def)
  consider "x \<in> flight_states" "\<not> hs_session_reused s" | "x \<in> finished_states" | "x = CLI_READ_SERVER_CERTIFICATE"
    | "x \<in> waiting_states - finished_states - {CLI_READ_SERVER_CERTIFICATE}"
    using assms(2,3) by (auto simp: unfinished_def)
  then show ?thesis
  proof cases
    case 1
    with unfinished_flight [OF assms(1) 1(1) assms(3) _ 1(2) assms(4)] client show ?thesis by simp
  next
    case 2
    then have "hs_state t = hs_state s \<or> server_finished_verified E x s"
      using assms(1,4) read_finished_verified [of E s r t] read_finished_tls13_verified [of E s r t]
      by (cases "hs_state t = hs_state s") (auto simp: finished_states_def)
    with 2 assms(3) client' show ?thesis by (auto simp: unfinished_defs finished_states_def)
  next
    case 3
    with choareD [OF unfinished_certificate, of s E r t] assms client show ?thesis by simp
  next
    case 4
    then have "set (client_next x) \<subseteq> waiting_states"
      by (auto simp: waiting_states_def before_auth_defs finished_states_def)
    with edges 4 client' show ?thesis by (auto simp: unfinished_def)
  qed
qed

text \<open>
  C3: In every run of a client, from its construction on and whatever the server sends: the state machine is
  in one of the states before the end of the handshake, or the handler for the server's finished message has run when
  that message was at hand and had exactly the verification data computed from the session's secret, or from the
  server's handshake traffic secret, and the transcript.  In particular a client that is done has verified it.
\<close>

theorem client_done_after_finished:
  assumes "TLSClient_init E cfg callback = Inr s" and "client_run E s b t"
  shows "hs_state t \<in> cli ` before_finished \<or> b"
proof -
  have init: "unfinished (core_of s)"
    by (rule TLSClient_init_core [OF assms(1)]) (simp add: core_of_def unfinished_defs)
  from assms(2) have "unfinished (core_of t) \<or> b"
  proof induction
    case (handler b t x h r u)
    then show ?case using unfinished_step by blast
  next
    case (post_handshake b t st)
    then show ?case by (auto simp: unfinished_defs hs_done_def)
  qed (auto simp: init)
  then show ?thesis by (auto simp: unfinished_def before_finished_def)
qed

theorem client_done_after_finished_witness:
  "hs_state (snd (do_start_connect sample_environment sample_client)) \<in> cli ` before_finished"
proof -
  have "hs_state sample_client = cli CLI_START_CONNECT"
    by (rule TLSClient_init_core [OF sample_client_init]) (simp add: core_of_def)
  from client_run.handler [OF client_run.start this _ prod.collapse [symmetric], of sample_environment "do_start_connect sample_environment"]
  have "client_run sample_environment sample_client False (snd (do_start_connect sample_environment sample_client))"
    by (simp add: finished_states_def)
  from client_done_after_finished [OF sample_client_init this] show ?thesis by simp
qed

end
