(* ===== verification/Server_Hello.thy ===== *)
theory Server_Hello
  imports Endpoints
begin

text \<open>
  The state of a server and the methods its handlers share: the last part of
  \<open>src/simple_tls/tls/handshake_server.py\<close>.  They process the extensions of a client hello, seal and
  open session tickets with the application's \<open>TicketAEAD\<close>, and decrypt an encrypted client hello.

  The application's \<open>client_hello_callback\<close> is a field: a function from what the client offered and from
  the settings it may change to the changed settings, or to the exception it raises.
\<close>

subsection \<open>State\<close>

record ClientHelloInfo =
  chi_server_name :: "bytes option"
  chi_cipher_suites :: "int list"
  chi_protocol_version :: int
  chi_supported_versions :: "int list"
  chi_signature_algorithms :: "int list option"
  chi_supported_groups :: "int list option"

record HandshakeContext =
  hc_credential :: "Credential option"
  hc_verify_mode :: VerifyMode
  hc_alert_description :: "int option"

type_synonym client_hello_callback = "ClientHelloInfo \<Rightarrow> HandshakeContext \<Rightarrow> HandshakeContext result"

record TLSServer = Endpoint +
  srv_client_hello_callback :: "client_hello_callback option"
  srv_enable_etm :: bool
  srv_enable_ems :: bool
  srv_enable_pha :: bool
  srv_enable_early_data :: bool
  srv_ticket_max_early_data :: int
  srv_cookie :: "bytes option"
  srv_dh_parameters :: "DHParameters option"
  srv_ech_keys :: "ECHKey list"
  srv_extensions_recv :: "int set"
  srv_npn_expected :: bool
  srv_ticket_expected :: bool
  srv_certificate_requested :: bool
  srv_pre_shared_key :: "(psk_identity \<times> bytes) option"
  srv_key_exchange :: "BaseKeyExchange option"
  srv_ech_context :: "ECHContext option"
  srv_peer_cipher_suites :: "int list option"
  srv_peer_signature_algorithms :: "int list option"
  srv_peer_supported_groups :: "int list option"
  srv_peer_key :: "bytes option"
  srv_psk_index :: "int option"
  srv_group_id :: "int option"
  srv_group_id_hrr :: "int option"
  srv_signing_signature_algorithm :: "int option"
  srv_post_handshake_auth :: bool
  srv_certificate_compression :: "int option"

type_synonym ('a, 'b) server_action = "('a TLSServer_scheme, 'b) action"

definition TLSServer_init ::
    "environment \<Rightarrow> TLSConfiguration \<Rightarrow> client_hello_callback option \<Rightarrow> TLSServer result" where
  "TLSServer_init E cfg client_hello_callback =
     rbind (TLSHandshake_init (env_comp E) True cfg) (\<lambda>h.
     Inr (Endpoint.extend (TLSConnection.extend
       (TLSConnection_init (h\<lparr>hs_state := srv SRV_START_ACCEPT\<rparr>))
       (Endpoint.fields 0))
       (TLSServer.fields client_hello_callback (cfg_encrypt_then_mac cfg) (cfg_extended_master_secret cfg)
         (cfg_post_handshake_auth cfg) (cfg_early_data cfg) (cfg_max_early_data_size cfg) None
         (cfg_dh_parameters cfg) (case cfg_ech_keys cfg of Some ks \<Rightarrow> ks | None \<Rightarrow> [])
         {} False False False None None None None None None None None None None None False None)))"

subsection \<open>Extensions of the client hello\<close>

text \<open>A negotiation that is done with the extension of a class, if the client has sent it.\<close>

definition process_server_alpn :: "extensions \<Rightarrow> ('a, unit) server_action" where
  "process_server_alpn exts = bnd (ext_get ALPNClient_class exts) (\<lambda>alpn_ext.
     bnd (gets (st_alpn_protocols \<circ> hs_settings)) (\<lambda>alpn_protocols.
     case alpn_ext of
       Some (ALPNClientExtension protocols) \<Rightarrow>
         do_if (alpn_protocols \<noteq> [])
           (bnd (lift_result (negotiate alpn_protocols (Some protocols) (Some AlertNoApplicationProtocol)))
             (\<lambda>p. modify (\<lambda>s. s\<lparr>hs_alpn_protocol := p\<rparr>)))
     | _ \<Rightarrow> ret ()))"

definition process_server_extensions_tls13 :: "extensions \<Rightarrow> ('a, unit) server_action" where
  "process_server_extensions_tls13 exts =
     bnd (ext_get CompressedCertificate_class exts) (\<lambda>comp_cert_ext.
     bnd (gets (st_certificate_compressions \<circ> hs_settings)) (\<lambda>compressions.
     thn (case comp_cert_ext of
            Some (CompressedCertificateExtension data) \<Rightarrow>
              bnd (lift_result (negotiate compressions (Some data) None))
                (\<lambda>c. modify (\<lambda>s. s\<lparr>srv_certificate_compression := c\<rparr>))
          | _ \<Rightarrow> ret ())
     (bnd (ext_get PostHandshakeAuth_class exts) (\<lambda>pha_ext.
     thn (modify (\<lambda>s. if srv_enable_pha s \<and> pha_ext \<noteq> None then s\<lparr>srv_post_handshake_auth := True\<rparr> else s))
     (bnd (ext_get EarlyDataServer_class exts) (\<lambda>early_data_ext.
     modify (\<lambda>s. if early_data_ext \<noteq> None then s\<lparr>hs_early_data_offered := True\<rparr> else s)))))))"

definition process_server_renegotiation :: "extensions \<Rightarrow> int list \<Rightarrow> ('a, unit) server_action" where
  "process_server_renegotiation exts peer_cipher_suites =
     bnd (ext_get RenegotiationInfo_class exts) (\<lambda>ri_ext.
     case ri_ext of
       Some (RenegotiationInfoExtension data) \<Rightarrow>
         thn (raise_if (data \<noteq> []) AlertHandshakeFailure)
         (modify (\<lambda>s. s\<lparr>hs_secure_renegotiation := True\<rparr>))
     | _ \<Rightarrow>
         do_if (cs_id TLS_EMPTY_RENEGOTIATION_INFO_SCSV \<in> set peer_cipher_suites)
           (modify (\<lambda>s. s\<lparr>hs_secure_renegotiation := True\<rparr>)))"

text \<open>\<open>self._enable_ems is not None\<close> holds whatever the configuration says.\<close>

definition process_server_extensions_legacy ::
    "extensions \<Rightarrow> cipher_suite \<Rightarrow> int list \<Rightarrow> ('a, unit) server_action" where
  "process_server_extensions_legacy exts cs peer_cipher_suites =
     thn (process_server_renegotiation exts peer_cipher_suites)
     (bnd (ext_get ExtendedMasterSecret_class exts) (\<lambda>ems_ext.
     thn (modify (\<lambda>s. if ems_ext \<noteq> None then s\<lparr>hs_extended_master_secret := True\<rparr> else s))
     (bnd (ext_get EncryptThenMac_class exts) (\<lambda>etm_ext.
     thn (modify (\<lambda>s. if srv_enable_etm s \<and>
              symmetric cs \<in> {SYM_AES_128_CBC, SYM_AES_256_CBC, SYM_TRIPLE_DES_EDE_CBC} \<and> etm_ext \<noteq> None
            then s\<lparr>hs_encrypt_then_mac := True\<rparr> else s))
     (bnd (ext_get ECPointFormats_class exts) (\<lambda>ecpfs_ext.
     thn (case ecpfs_ext of
            Some (ECPointFormatsExtension data) \<Rightarrow>
              raise_if (ecpf ECPF_UNCOMPRESSED \<notin> set data) AlertIllegalParameter
          | _ \<Rightarrow> ret ())
     (bnd (ext_get NPNClient_class exts) (\<lambda>npn_ext.
     modify (\<lambda>s. if npn_ext \<noteq> None \<and> hs_alpn_protocol s = None \<and> st_npn_protocols (hs_settings s) \<noteq> []
       then s\<lparr>srv_npn_expected := True\<rparr> else s)))))))))"

definition server_process_extensions :: "extensions \<Rightarrow> ('a, unit) server_action" where
  "server_process_extensions exts =
     bnd current_cipher_suite (\<lambda>cs.
     bnd (gets srv_peer_cipher_suites) (\<lambda>suites. bnd (assert_some suites) (\<lambda>peer_cipher_suites.
     bnd protocol_version (\<lambda>version.
     thn (modify (\<lambda>s. s\<lparr>srv_extensions_recv := set (get_types exts)\<rparr>))
     (thn (process_server_alpn exts)
     (if version \<ge> ver V_TLSv1_3 then process_server_extensions_tls13 exts
      else process_server_extensions_legacy exts cs peer_cipher_suites))))))"

subsection \<open>Session tickets\<close>

definition ticket_context :: "cipher_suite \<Rightarrow> ('a, TicketContext) server_action" where
  "ticket_context cs = bnd protocol_version (\<lambda>version. bnd (gets hs_hostname) (\<lambda>hostname.
     ret \<lparr>tctx_server_name = hostname, tctx_cipher_suite = cs, tctx_protocol_version = version\<rparr>))"

text \<open>The test a session has to pass before it is resumed; the conjuncts are evaluated in order.\<close>

definition resumable :: "int \<Rightarrow> int \<Rightarrow> cipher_suite \<Rightarrow> TLSSession \<Rightarrow> bool result" where
  "resumable now version cs session =
     rbind (time_valid now session) (\<lambda>valid.
     if \<not> valid \<or> \<not> s_is_server session then Inr False
     else
       rbind (session_protocol_version session) (\<lambda>v.
       Inr (v = version \<and> \<not> suite_differs (s_cipher_suite session) (Some cs) \<and> \<not> s_not_resumable session)))"

text \<open>
  A ticket that opens and does not parse leaves the local variable \<open>session\<close> unassigned: the handler
  \<open>except Exception: pass\<close> is followed by its use.
\<close>

definition decrypt_session :: "environment \<Rightarrow> bytes \<Rightarrow> ('a, TLSSession option) server_action" where
  "decrypt_session E ticket = bnd current_cipher_suite (\<lambda>cs.
     bnd (gets (cfg_ticket_aead \<circ> st_configuration \<circ> hs_settings)) (\<lambda>ticket_aead.
     case ticket_aead of
       None \<Rightarrow> ret None
     | Some a \<Rightarrow>
         if ticket = [] then ret None
         else
           bnd (ticket_context cs) (\<lambda>ctx.
           case ticket_open a ticket ctx of
             None \<Rightarrow> ret None
           | Some session_data \<Rightarrow>
               bnd (utcnow E) (\<lambda>created.
               case TLSSession_from_bytes created session_data of
                 Inl _ \<Rightarrow> raise UnboundLocalError
               | Inr session \<Rightarrow>
                   bnd (utcnow E) (\<lambda>now.
                   bnd (lift_result (resumable now (tctx_protocol_version ctx) cs session)) (\<lambda>ok.
                   ret (if ok then Some session else None)))))))"

definition encrypt_session :: "TLSSession \<Rightarrow> ('a, bytes option) server_action" where
  "encrypt_session session = bnd current_cipher_suite (\<lambda>cs.
     bnd (gets (cfg_ticket_aead \<circ> st_configuration \<circ> hs_settings)) (\<lambda>ticket_aead.
     case ticket_aead of
       None \<Rightarrow> ret None
     | Some a \<Rightarrow>
         bnd (lift_result (TLSSession_to_bytes session)) (\<lambda>session_data.
         bnd (ticket_context cs) (\<lambda>ctx.
         ret (ticket_seal a session_data ctx)))))"

subsection \<open>Encrypted client hello\<close>

text \<open>
  The outer hello with the payload of its extension blanked out.  The extension is put back: the second
  component is the outer hello as the method leaves it.
\<close>

definition get_ech_aad :: "client_hello \<Rightarrow> ech_client \<Rightarrow> (bytes \<times> client_hello) result" where
  "get_ech_aad outer_hello ech =
     rbind (Extensions_replace (ECHClientExtension (ech\<lparr>ech_payload := replicate (length (ech_payload ech)) 0\<rparr>))
              (ch_extensions outer_hello)) (\<lambda>blank.
     rbind (ClientHello_to_bytes (outer_hello\<lparr>ch_extensions := blank\<rparr>)) (\<lambda>aad.
     rbind (Extensions_replace (ECHClientExtension ech) blank) (\<lambda>exts.
     Inr (aad, outer_hello\<lparr>ch_extensions := exts\<rparr>))))"

text \<open>The outer extensions that an inner hello refers to, none of them twice and none it has itself.\<close>

primrec expand_outer :: "extensions \<Rightarrow> int list \<Rightarrow> int list \<Rightarrow> extensions result" where
  "expand_outer outer seen [] = Inr []"
| "expand_outer outer seen (t # ts) =
     (if t \<in> set seen then Inl AlertIllegalParameter
      else (case snd (Extensions_find t outer) of
              None \<Rightarrow> Inl AlertIllegalParameter
            | Some d \<Rightarrow> rbind (expand_outer outer (t # seen) ts) (\<lambda>rest. Inr ((t, d) # rest))))"

definition expand_inner_extensions :: "extensions \<Rightarrow> extensions \<Rightarrow> extensions result" where
  "expand_inner_extensions inner outer =
     (case Extensions_find (ext EXT_ECH_OUTER_EXTENSIONS) inner of
        (_, None) \<Rightarrow> Inr inner
      | (idx, Some ext_data) \<Rightarrow>
          rbind (ext_from_bytes ECHOuter_class ext_data) (\<lambda>e.
          rbind (expand_outer outer (get_types inner) (case e of ECHOuterExtension data \<Rightarrow> data | _ \<Rightarrow> []))
            (\<lambda>expanded.
          Inr (take (nat idx) inner @ expanded @ drop (nat idx + 1) inner))))"

text \<open>What is checked of the inner hello before and after the expansion.\<close>

definition check_inner_hello :: "client_hello \<Rightarrow> bytes \<Rightarrow> unit result" where
  "check_inner_hello inner_hello trailing =
     (if \<not> list_all (\<lambda>b. b = 0) trailing then Inl AlertIllegalParameter
      else if length (ch_session_id inner_hello) > 0 then Inl AlertIllegalParameter
      else if ch_extensions inner_hello = [] then Inl AlertIllegalParameter
      else
        rbind (Extensions_get ECHClient_class (ch_extensions inner_hello)) (\<lambda>inner_ech_ext.
        case inner_ech_ext of
          Some (ECHClientExtension e) \<Rightarrow>
            if ech_client_hello_type e \<noteq> echt ECHT_INNER then Inl AlertIllegalParameter else Inr ()
        | _ \<Rightarrow> Inl AlertIllegalParameter))"

definition check_inner_versions :: "extensions \<Rightarrow> unit result" where
  "check_inner_versions exts =
     rbind (Extensions_get SupportedVersionsClient_class exts) (\<lambda>supported_vers_ext.
     case supported_vers_ext of
       Some (SupportedVersionsClientExtension data) \<Rightarrow>
         if list_ex (\<lambda>version. version < ver V_TLSv1_3) data then Inl AlertIllegalParameter else Inr ()
     | _ \<Rightarrow> Inl AlertIllegalParameter)"

text \<open>The inner hello, and the HPKE context, whose sequence number the decryption advances.\<close>

definition decrypt_ech_payload ::
    "crypto \<Rightarrow> hpke_context \<Rightarrow> client_hello \<Rightarrow> bytes \<Rightarrow> bytes \<Rightarrow> (client_hello \<times> hpke_context) result" where
  "decrypt_ech_payload cr hpke_context outer_hello payload aad =
     (case hpke_open cr payload aad hpke_context of
        (Inl e, _) \<Rightarrow> Inl (if e = InvalidTag then AlertDecryptError else e)
      | (Inr data, hpke_context) \<Rightarrow>
          rbind (ClientHello_from_bytes_with_trailing data) (\<lambda>(inner_hello, trailing).
          rbind (check_inner_hello inner_hello trailing) (\<lambda>_.
          rbind (expand_inner_extensions (ch_extensions inner_hello) (ch_extensions outer_hello)) (\<lambda>exts.
          rbind (check_inner_versions exts) (\<lambda>_.
          Inr (inner_hello\<lparr>ch_session_id := ch_session_id outer_hello, ch_extensions := exts\<rparr>, hpke_context))))))"

text \<open>
  The loop over the configured keys: the inner hello, if one of them decrypts it, and the outer hello as
  it is left.  The additional data is computed once.
\<close>

primrec decrypt_ech_with ::
    "environment \<Rightarrow> ECHKey list \<Rightarrow> client_hello \<Rightarrow> ech_client \<Rightarrow> bytes option \<Rightarrow>
     ('a, client_hello option \<times> client_hello) server_action" where
  "decrypt_ech_with E [] client_hello ech aad =
     thn (modify (\<lambda>s. s\<lparr>hs_ech_status := ECH_REJECTED\<rparr>)) (ret (None, client_hello))"
| "decrypt_ech_with E (ech_key # ech_keys) client_hello ech aad =
     (let config = echkey_config ech_key; kdf_id = hpke_kdf_id ech; aead_id = hpke_aead_id ech in
      if ech_config_id ech \<noteq> config_id config \<or> (kdf_id, aead_id) \<notin> set (ech_cipher_suites config)
      then decrypt_ech_with E ech_keys client_hello ech aad
      else
        bnd (lift_result (ECHConfig_to_bytes config)) (\<lambda>config_bytes.
        case rbind (create_suite (kem_id config) kdf_id aead_id) (\<lambda>suite.
             setup_recv (env_crypto E) (env_hpke E) suite (ech_enc ech) (echkey_private_key ech_key)
               (ascii ''tls ech'' @ [0] @ config_bytes)) of
          Inl e \<Rightarrow> if e = ValueError then decrypt_ech_with E ech_keys client_hello ech aad else raise e
        | Inr ctx \<Rightarrow>
            bnd (case aad of Some a \<Rightarrow> ret (a, client_hello) | None \<Rightarrow> lift_result (get_ech_aad client_hello ech))
              (\<lambda>(aad, client_hello).
            case decrypt_ech_payload (env_crypto E) ctx client_hello (ech_payload ech) aad of
              Inl e \<Rightarrow>
                if e = AlertDecryptError then decrypt_ech_with E ech_keys client_hello ech (Some aad) else raise e
            | Inr (inner_hello, ctx) \<Rightarrow>
                thn (modify (\<lambda>s. s\<lparr>hs_ech_status := ECH_ACCEPTED, srv_ech_context := Some
                  \<lparr>ec_kdf_id = kdf_id, ec_aead_id = aead_id, ec_kem_id = kem_id config,
                   ec_config_id = ech_config_id ech, ec_public_name = public_name config,
                   ec_maximum_name_length = maximum_name_length config, ec_extensions = ech_extensions config,
                   ec_enc = ech_enc ech, ec_hpke_context = ctx\<rparr>\<rparr>))
                (ret (Some inner_hello, client_hello)))))"

definition decrypt_ech ::
    "environment \<Rightarrow> client_hello \<Rightarrow> ('a, client_hello option \<times> client_hello) server_action" where
  "decrypt_ech E client_hello =
     bnd (ext_get ECHClient_class (ch_extensions client_hello)) (\<lambda>ech_ext.
     case ech_ext of
       Some (ECHClientExtension ech) \<Rightarrow>
         if ech_client_hello_type ech \<noteq> echt ECHT_OUTER then ret (None, client_hello)
         else bnd (gets srv_ech_keys) (\<lambda>ech_keys. decrypt_ech_with E ech_keys client_hello ech None)
     | _ \<Rightarrow> ret (None, client_hello))"

definition get_client_hello_without_binders :: "Handshake \<Rightarrow> bytes list \<Rightarrow> bytes result" where
  "get_client_hello_without_binders handshake binders =
     (if h_type handshake \<noteq> ht HT_CLIENT_HELLO then Inl AssertionError
      else rbind (pack_handshake handshake) (\<lambda>handshake_data.
        let total_length = 2 + sum_list (map (\<lambda>binder. 1 + length binder) binders)
        in Inr (take (length handshake_data - total_length) handshake_data)))"

text \<open>
  The signal that the inner hello was accepted, in the extension of a hello retry request or at the end
  of the random of a server hello: the message as it is sent, over a transcript with zeros in its place.
\<close>

definition apply_ech_acceptance ::
    "environment \<Rightarrow> server_hello \<Rightarrow> bool \<Rightarrow> ('a, server_hello) server_action" where
  "apply_ech_acceptance E server_hello is_hrr =
     bnd current_key_schedule (\<lambda>key_schedule. bnd get_state (\<lambda>s.
     let confirmation = (\<lambda>sh label.
           rbind (pack_message (ServerHello sh)) (\<lambda>d.
           fst (ech_accept_confirmation (env_crypto E) key_schedule (hs_client_random s) label
             (snd (update_hash d (Transcript_copy (hs_transcript s)))))))
     in
     if is_hrr then
       bnd (lift_result (Extensions_append (ECHHRRExtension (replicate 8 0)) (sh_extensions server_hello))) (\<lambda>blank.
       bnd (lift_result (confirmation (server_hello\<lparr>sh_extensions := blank\<rparr>)
              (ascii ''hrr ech accept confirmation''))) (\<lambda>accept_confirmation.
       bnd (lift_result (Extensions_replace (ECHHRRExtension accept_confirmation) blank)) (\<lambda>exts.
       ret (server_hello\<lparr>sh_extensions := exts\<rparr>))))
     else
       let prefix = take (length (sh_random server_hello) - 8) (sh_random server_hello) in
       bnd (lift_result (confirmation (server_hello\<lparr>sh_random := prefix @ replicate 8 0\<rparr>)
              (ascii ''ech accept confirmation''))) (\<lambda>accept_confirmation.
       thn (modify (\<lambda>s. s\<lparr>hs_server_random := prefix @ accept_confirmation\<rparr>))
       (ret (server_hello\<lparr>sh_random := prefix @ accept_confirmation\<rparr>)))))"

end
