(* ===== verification/Server_Flow.thy ===== *)
theory Server_Flow
  imports Server_Hello
begin

text \<open>
  The handlers of the server up to TLS 1.2: the first part of
  \<open>src/simple_tls/tls/handshake_server.py\<close>.
\<close>

subsection \<open>Client hello\<close>

definition server_start_accept :: "('a, Status) server_action" where
  "server_start_accept = goto (srv SRV_READ_CLIENT_HELLO) ST_OK"

text \<open>An action on the handshake message that is being processed.\<close>

definition on_handshake :: "(Handshake, 'b) action \<Rightarrow> ('a TLSHandshake_scheme, 'b) action" where
  "on_handshake m = (\<lambda>s. case hs_cache s of
     None \<Rightarrow> (Inl AssertionError, s)
   | Some h \<Rightarrow> (case m h of (r, h') \<Rightarrow> (r, s\<lparr>hs_cache := Some h'\<rparr>)))"

text \<open>The client hello that counts: the inner one if it was decrypted.\<close>

definition accept_ech :: "environment \<Rightarrow> client_hello \<Rightarrow> ('a, client_hello) server_action" where
  "accept_ech E client_hello = bnd (decrypt_ech E client_hello) (\<lambda>(inner, outer).
     case inner of
       Some h \<Rightarrow> thn (on_handshake (Handshake_set_message (ClientHello h))) (ret h)
     | None \<Rightarrow>
         thn (on_handshake (modify (\<lambda>h. h\<lparr>h_parsed := Some (ClientHello outer)\<rparr>))) (ret outer))"

text \<open>The version that is selected, and those the client offers.  \<open>range(maximum, minimum - 1, -1)\<close> is the
  reversed interval.\<close>

definition client_hello_version :: "handshake_settings \<Rightarrow> client_hello \<Rightarrow> (int \<times> int list) result" where
  "client_hello_version st ch =
     (let client_version = ch_version ch in
      if \<not> (ver V_TLSv1 \<le> client_version \<and> client_version \<le> ver V_TLSv1_2) then Inl AlertIllegalParameter
      else
        rbind (Extensions_get SupportedVersionsClient_class (ch_extensions ch)) (\<lambda>supported_vers_ext.
        rbind (case supported_vers_ext of
                 Some (SupportedVersionsClientExtension data) \<Rightarrow>
                   if client_version \<noteq> ver V_TLSv1_2 then Inl AlertIllegalParameter else Inr data
               | _ \<Rightarrow> Inr [client_version]) (\<lambda>offered_version.
        rbind (negotiate (rev [st_minimum_version st..st_maximum_version st]) (Some offered_version)
                 (Some AlertProtocolVersion)) (\<lambda>version.
        case version of Some v \<Rightarrow> Inr (v, offered_version) | None \<Rightarrow> Inl AlertProtocolVersion))))"

definition compression_methods_ok :: "int \<Rightarrow> int list \<Rightarrow> bool result" where
  "compression_methods_ok version methods =
     (if version \<ge> ver V_TLSv1_3 then
        if length methods \<noteq> 1 then
          (case methods of [] \<Rightarrow> Inl IndexError | m # _ \<Rightarrow> Inr (m = comp COMP_NULL))
        else Inr True
      else Inr (comp COMP_NULL \<in> set methods))"

definition record_peer_offers :: "client_hello \<Rightarrow> ('a, unit) server_action" where
  "record_peer_offers ch =
     thn (modify (\<lambda>s. s\<lparr>srv_peer_cipher_suites := Some (ch_cipher_suites ch)\<rparr>))
     (bnd (ext_get SignatureAlgorithms_class (ch_extensions ch)) (\<lambda>sigalgs_ext.
     thn (case sigalgs_ext of
            Some (SignatureAlgorithmsExtension data) \<Rightarrow> modify (\<lambda>s. s\<lparr>srv_peer_signature_algorithms := Some data\<rparr>)
          | _ \<Rightarrow> ret ())
     (bnd (ext_get SupportedGroupsClient_class (ch_extensions ch)) (\<lambda>groups_ext.
     thn (case groups_ext of
            Some (SupportedGroupsClientExtension data) \<Rightarrow> modify (\<lambda>s. s\<lparr>srv_peer_supported_groups := Some data\<rparr>)
          | _ \<Rightarrow> ret ())
     (bnd (ext_get SNIClient_class (ch_extensions ch)) (\<lambda>sni_ext.
     case sni_ext of
       Some (SNIClientExtension hostname) \<Rightarrow> modify (\<lambda>s. s\<lparr>hs_hostname := Some hostname\<rparr>)
     | _ \<Rightarrow> ret ()))))))"

definition ALERT_DESCRIPTIONS :: "AlertDescription list" where
  "ALERT_DESCRIPTIONS = [AD_ACCESS_DENIED, AD_BAD_CERTIFICATE, AD_BAD_CERTIFICATE_HASH_VALUE,
     AD_BAD_CERTIFICATE_STATUS_RESPONSE, AD_BAD_RECORD_MAC, AD_CERTIFICATE_EXPIRED, AD_CERTIFICATE_REQUIRED,
     AD_CERTIFICATE_REVOKED, AD_CERTIFICATE_UNKNOWN, AD_CERTIFICATE_UNOBTAINABLE, AD_CLOSE_NOTIFY,
     AD_DECODE_ERROR, AD_DECOMPRESSION_FAILURE, AD_DECRYPT_ERROR, AD_DECRYPTION_FAILED, AD_ECH_REQUIRED,
     AD_HANDSHAKE_FAILURE, AD_ILLEGAL_PARAMETER, AD_INAPPROPRIATE_FALLBACK, AD_INSUFFICIENT_SECURITY,
     AD_INTERNAL_ERROR, AD_MISSING_EXTENSION, AD_NO_APPLICATION_PROTOCOL, AD_NO_CERTIFICATE,
     AD_NO_RENEGOTIATION, AD_PROTOCOL_VERSION, AD_RECORD_OVERFLOW, AD_UNEXPECTED_MESSAGE, AD_UNKNOWN_CA,
     AD_UNKNOWN_PSK_IDENTITY, AD_UNRECOGNIZED_NAME, AD_UNSUPPORTED_CERTIFICATE, AD_UNSUPPORTED_EXTENSION,
     AD_USER_CANCELLED]"

text \<open>The application may choose a credential and a verification mode for the name the client asks for.\<close>

definition run_client_hello_callback :: "int \<Rightarrow> int list \<Rightarrow> ('a, unit) server_action" where
  "run_client_hello_callback version offered_version = bnd get_state (\<lambda>s.
     case srv_client_hello_callback s of
       None \<Rightarrow> ret ()
     | Some callback \<Rightarrow>
         bnd (assert_some (srv_peer_cipher_suites s)) (\<lambda>peer_cipher_suites.
         bnd (lift_result (callback
           \<lparr>chi_server_name = hs_hostname s, chi_cipher_suites = peer_cipher_suites,
            chi_protocol_version = version, chi_supported_versions = offered_version,
            chi_signature_algorithms = srv_peer_signature_algorithms s,
            chi_supported_groups = srv_peer_supported_groups s\<rparr>
           \<lparr>hc_credential = st_credential (hs_settings s), hc_verify_mode = st_verify_mode (hs_settings s),
            hc_alert_description = None\<rparr>)) (\<lambda>ctx.
         thn (case hc_alert_description ctx of
                None \<Rightarrow> ret ()
              | Some d \<Rightarrow> raise (if d \<in> ad ` set ALERT_DESCRIPTIONS then Alert d True else AlertInternalError))
         (modify (\<lambda>s. s\<lparr>hs_settings := (hs_settings s)
            \<lparr>st_credential := hc_credential ctx, st_verify_mode := hc_verify_mode ctx\<rparr>\<rparr>)))))"

definition process_client_hello :: "environment \<Rightarrow> client_hello \<Rightarrow> ('a, Status) server_action" where
  "process_client_hello E ch =
     bnd (get_random_bytes E 32) (\<lambda>server_random.
     thn (modify (\<lambda>s. s\<lparr>hs_server_random := server_random, hs_client_random := ch_random ch,
            hs_client_version := ch_version ch\<rparr>))
     (bnd (gets hs_settings) (\<lambda>st.
     bnd (lift_result (client_hello_version st ch)) (\<lambda>(version, offered_version).
     thn (modify (\<lambda>s. s\<lparr>hs_version := version\<rparr>))
     (thn (raise_if (version < st_maximum_version st \<and> cs_id TLS_FALLBACK_SCSV \<in> set (ch_cipher_suites ch))
            AlertInappropriateFallback)
     (bnd (lift_result (compression_methods_ok version (ch_compression_methods ch))) (\<lambda>ok.
     thn (raise_if (\<not> ok) AlertIllegalParameter)
     (thn (record_peer_offers ch)
     (thn (run_client_hello_callback version offered_version)
     (goto (if version \<ge> ver V_TLSv1_3 then srv SRV_SELECT_PARAMETERS_TLS13 else srv SRV_SELECT_PARAMETERS)
        ST_OK))))))))))"

definition server_read_client_hello :: "environment \<Rightarrow> ('a, Status) server_action" where
  "server_read_client_hello E = with_handshake (\<lambda>_.
     bnd (parse_as ClientHello_msg) (\<lambda>m.
     case m of
       ClientHello client_hello \<Rightarrow> bnd (accept_ech E client_hello) (process_client_hello E)
     | _ \<Rightarrow> raise TypeError))"

subsection \<open>Selection of the parameters\<close>

text \<open>The key of the certificate, if the server has one, and the authentication it stands for.\<close>

definition server_public_key ::
    "environment \<Rightarrow> Credential option \<Rightarrow> ('a, (x509_certificate \<times> BasePublicKey) option) server_action" where
  "server_public_key E credential = (case credential of
     None \<Rightarrow> ret None
   | Some c \<Rightarrow>
       bnd (cert_public_key E AlertInternalError (cred_certificate c)) (\<lambda>pk.
       ret (Some (cred_certificate c, pk))))"

definition server_auth :: "(x509_certificate \<times> BasePublicKey) option \<Rightarrow> Authentication" where
  "server_auth key = (case key of None \<Rightarrow> AUTH_ANON | Some (_, pk) \<Rightarrow> get_pubkey_auth pk)"

definition supported_key_exchanges :: "bool \<Rightarrow> bool \<Rightarrow> int option \<Rightarrow> KeyExchange list" where
  "supported_key_exchanges has_credential has_dh group_id =
     (if has_credential then [KEA_RSA] else []) @ (if has_dh then [KEA_DHE] else []) @
     (if group_id \<noteq> None then [KEA_ECDHE] else [])"

definition select_cipher_suite ::
    "cipher_suite list \<Rightarrow> int \<Rightarrow> int list \<Rightarrow> KeyExchange list \<Rightarrow> Authentication \<Rightarrow> cipher_suite option" where
  "select_cipher_suite suites version peer_cipher_suites keas a =
     find (\<lambda>cs. minimum_version cs \<le> version \<and> version \<le> maximum_version cs \<and>
       cs_id cs \<in> set peer_cipher_suites \<and> kea cs \<in> set keas \<and> auth cs = a) suites"

definition select_signature_algorithm ::
    "environment \<Rightarrow> int \<Rightarrow> (x509_certificate \<times> BasePublicKey) option \<Rightarrow> ('a, unit) server_action" where
  "select_signature_algorithm E version key =
     bnd (assert_some key) (\<lambda>(x509_cert, pk). bnd get_state (\<lambda>s.
     bnd (lift_result (sigalgs_for_pubkey version pk (cert_oid_fn (env_x509 E) x509_cert)
            (Some (st_signing_signature_algorithms (hs_settings s))))) (\<lambda>(default_sigalg, supported_sigalgs).
     bnd (if version = ver V_TLSv1_2 \<and> srv_peer_signature_algorithms s \<noteq> None then
            lift_result (negotiate supported_sigalgs (srv_peer_signature_algorithms s) (Some AlertHandshakeFailure))
          else
            thn (raise_if (default_sigalg = None) AlertHandshakeFailure) (ret default_sigalg)) (\<lambda>alg.
     modify (\<lambda>s. s\<lparr>srv_signing_signature_algorithm := alg\<rparr>)))))"

text \<open>RFC 8446, section 4.1.3: the end of the random tells that the version was lowered.\<close>

definition downgrade_random :: "int \<Rightarrow> int \<Rightarrow> bytes \<Rightarrow> bytes" where
  "downgrade_random maximum version random =
     (if version < maximum then
        take 24 random @ (if version = ver V_TLSv1_2 then TLS12_DOWNGRADE_SENTINEL else TLS11_DOWNGRADE_SENTINEL)
      else random)"

text \<open>The session of the ticket, or a new one.\<close>

definition server_session :: "environment \<Rightarrow> client_hello \<Rightarrow> cipher_suite \<Rightarrow> ('a, unit) server_action" where
  "server_session E ch cs =
     bnd (ext_get SessionTicket_class (ch_extensions ch)) (\<lambda>ticket_ext.
     bnd (case ticket_ext of Some (SessionTicketExtension t) \<Rightarrow> decrypt_session E t | _ \<Rightarrow> ret None) (\<lambda>found.
     bnd get_state (\<lambda>s.
     bnd (case found of
            None \<Rightarrow> ret None
          | Some session \<Rightarrow>
              thn (raise_if (s_extended_master_secret session \<and> \<not> hs_extended_master_secret s) AlertHandshakeFailure)
              (ret (if hs_extended_master_secret s \<and> \<not> s_extended_master_secret session then None
                    else Some session))) (\<lambda>found.
     case found of
       Some session \<Rightarrow>
         thn (assert_that (s_secret session \<noteq> []))
         (thn (modify (\<lambda>s. s\<lparr>hs_session_reused := True, srv_ticket_expected := False,
                hs_session_id := ch_session_id ch\<rparr>))
         (thn (derive_key (env_crypto E) (s_secret session))
         (set_session session)))
     | None \<Rightarrow>
         thn (modify (\<lambda>s. s\<lparr>hs_session_reused := False, srv_ticket_expected := (ticket_ext \<noteq> None \<and>
                cfg_ticket_aead (st_configuration (hs_settings s)) \<noteq> None)\<rparr>))
         (bnd (get_random_bytes E 32) (\<lambda>session_id.
         thn (modify (\<lambda>s. s\<lparr>hs_session_id := session_id\<rparr>))
         (bnd (ep_get_new_session E) (\<lambda>session.
         thn (modify (\<lambda>s. s\<lparr>srv_certificate_requested :=
                (st_verify_mode (hs_settings s) \<noteq> CERT_NONE \<and> auth cs \<noteq> AUTH_ANON)\<rparr>))
         (set_session (session\<lparr>s_session_id := session_id, s_cipher_suite := Some cs\<rparr>))))))))))"

definition server_select_parameters :: "environment \<Rightarrow> ('a, Status) server_action" where
  "server_select_parameters E = with_handshake (\<lambda>_. bnd get_state (\<lambda>s.
     thn (assert_that (hs_ech_status s \<noteq> ECH_ACCEPTED))
     (bnd (assert_some (srv_peer_cipher_suites s)) (\<lambda>peer_cipher_suites.
     bnd protocol_version (\<lambda>version.
     let st = hs_settings s in
     bnd (server_public_key E (st_credential st)) (\<lambda>key.
     bnd (lift_result (negotiate (st_ecc_groups st) (srv_peer_supported_groups s) None)) (\<lambda>group_id.
     thn (modify (\<lambda>s. if group_id \<noteq> None then s\<lparr>srv_group_id := group_id\<rparr> else s))
     (case select_cipher_suite (st_cipher_suites st) version peer_cipher_suites
             (supported_key_exchanges (st_credential st \<noteq> None) (srv_dh_parameters s \<noteq> None) group_id)
             (server_auth key) of
        None \<Rightarrow> raise AlertHandshakeFailure
      | Some cs \<Rightarrow>
          thn (modify (\<lambda>s. s\<lparr>hs_cipher_suite := Some cs\<rparr>))
          (thn (do_if (auth cs \<noteq> AUTH_ANON) (select_signature_algorithm E version key))
          (thn (modify (\<lambda>s. s\<lparr>hs_server_random :=
                 downgrade_random (st_maximum_version st) version (hs_server_random s)\<rparr>))
          (bnd (parse_as ClientHello_msg) (\<lambda>m.
          case m of
            ClientHello ch \<Rightarrow>
              thn (server_process_extensions (ch_extensions ch))
              (thn (server_session E ch cs)
              (thn (next_handshake True)
              (goto (srv SRV_SEND_SERVER_HELLO) ST_OK)))
          | _ \<Rightarrow> raise TypeError))))))))))))"

subsection \<open>The server's flight\<close>

definition server_hello_extensions :: "'a TLSServer_scheme \<Rightarrow> extensions result" where
  "server_hello_extensions s =
     rbind (Extensions_from_extensions (
       (if hs_secure_renegotiation s then [RenegotiationInfoExtension []] else []) @
       (if hs_extended_master_secret s then [ExtendedMasterSecretExtension] else []) @
       (if hs_encrypt_then_mac s then [EncryptThenMacExtension] else []) @
       (if ext EXT_EC_POINT_FORMATS \<in> srv_extensions_recv s
        then [ECPointFormatsExtension (st_ec_point_formats (hs_settings s))] else []) @
       (if srv_npn_expected s then [NPNServerExtension (st_npn_protocols (hs_settings s))] else []) @
       (if srv_ticket_expected s then [SessionTicketExtension []] else []))) (\<lambda>exts.
     case hs_alpn_protocol s of
       None \<Rightarrow> Inr exts
     | Some p \<Rightarrow> if srv_npn_expected s then Inl AssertionError else Extensions_append (ALPNServerExtension p) exts)"

definition server_send_server_hello :: "('a, Status) server_action" where
  "server_send_server_hello =
     bnd current_cipher_suite (\<lambda>cs. bnd get_state (\<lambda>s.
     bnd (lift_result (server_hello_extensions s)) (\<lambda>exts.
     thn (add_message (ServerHello \<lparr>sh_version = hs_client_version s, sh_random = hs_server_random s,
            sh_session_id = hs_session_id s, sh_cipher_suite = cs_id cs,
            sh_compression_method = comp COMP_NULL, sh_extensions = exts\<rparr>) True)
     (goto (if hs_session_reused s then srv SRV_SEND_SESSION_TICKET else srv SRV_SEND_SERVER_CERTIFICATE) ST_OK))))"

definition server_send_server_certificate :: "('a, Status) server_action" where
  "server_send_server_certificate =
     bnd current_cipher_suite (\<lambda>cs.
     if auth cs = AUTH_ANON then goto (srv SRV_SEND_SERVER_KEY_EXCHANGE) ST_OK
     else
       bnd (gets (st_credential \<circ> hs_settings)) (\<lambda>c. bnd (assert_some c) (\<lambda>credential.
       thn (add_message (create_certificate (Some credential)) True)
       (goto (srv SRV_SEND_SERVER_KEY_EXCHANGE) ST_OK))))"

text \<open>The key exchange, with the parameters of a server key exchange message.\<close>

definition server_ecdhe_params :: "environment \<Rightarrow> ('a, bytes) server_action" where
  "server_ecdhe_params E =
     bnd (gets srv_group_id) (\<lambda>g. bnd (assert_some g) (\<lambda>group_id.
     bnd (draw (env_private E)) (\<lambda>private.
     bnd (lift_result (ECDH_init group_id private)) (\<lambda>kex.
     thn (modify (\<lambda>s. s\<lparr>srv_key_exchange := Some (ECDH kex)\<rparr>))
     (bnd (lift_result (ECDH_generate_share (env_kex E) kex)) (\<lambda>key_share.
     lift_result (run_writer (
       thn (write_int (ect ECT_NAMED_CURVE) 1)
       (thn (write_int group_id 2)
       (write_prefixed_bytes key_share 1))))))))))"

definition server_dhe_params :: "environment \<Rightarrow> ('a, bytes) server_action" where
  "server_dhe_params E =
     bnd (gets srv_dh_parameters) (\<lambda>d. bnd (assert_some d) (\<lambda>parameters.
     bnd (draw (env_private E)) (\<lambda>private.
     let kex = \<lparr>ff_parameters = parameters, ff_private = private\<rparr> in
     thn (modify (\<lambda>s. s\<lparr>srv_key_exchange := Some (FFDH kex)\<rparr>))
     (bnd (lift_result (int_to_bytes (par_p parameters) None)) (\<lambda>dh_p.
     bnd (lift_result (int_to_bytes (par_g parameters) None)) (\<lambda>dh_g.
     bnd (lift_result (int_to_bytes (FFDH_y (env_kex E) kex) None)) (\<lambda>dh_y.
     lift_result (run_writer (
       thn (write_prefixed_bytes dh_p 2)
       (thn (write_prefixed_bytes dh_g 2)
       (write_prefixed_bytes dh_y 2)))))))))))"

definition sign_server_key_exchange :: "environment \<Rightarrow> int \<Rightarrow> bytes \<Rightarrow> ('a, bytes) server_action" where
  "sign_server_key_exchange E version ske_data = bnd get_state (\<lambda>s.
     bnd (assert_some (st_credential (hs_settings s))) (\<lambda>credential.
     bnd (assert_some (srv_signing_signature_algorithm s)) (\<lambda>alg.
     bnd (lift_result (key_sign (env_asym E) (env_crypto E) (cred_private_key credential)
            (hs_client_random s @ hs_server_random s @ ske_data) alg)) (\<lambda>signature.
     lift_result (run_writer (
       thn (if version = ver V_TLSv1_2 then write_int alg 2 else ret ())
       (write_prefixed_bytes signature 2)))))))"

definition server_send_server_key_exchange :: "environment \<Rightarrow> ('a, Status) server_action" where
  "server_send_server_key_exchange E =
     bnd current_cipher_suite (\<lambda>cs.
     if kea cs = KEA_RSA then goto (srv SRV_SEND_SERVER_HELLO_DONE) ST_OK
     else
       bnd protocol_version (\<lambda>version.
       bnd (if kea cs = KEA_ECDHE then server_ecdhe_params E
            else if kea cs = KEA_DHE then server_dhe_params E
            else raise AlertInternalError) (\<lambda>ske_data.
       bnd (if auth cs \<noteq> AUTH_ANON then sign_server_key_exchange E version ske_data else ret []) (\<lambda>signature.
       thn (add_message (ServerKeyExchange (ske_data @ signature)) True)
       (goto (srv SRV_SEND_SERVER_HELLO_DONE) ST_OK)))))"

definition request_cert_types :: "int list \<Rightarrow> int list" where
  "request_cert_types supported_sigalgs =
     (if list_ex (\<lambda>a. a \<in> set supported_sigalgs) RSA_SIGNATURE_ALGORITHMS then [cct CCT_RSA_SIGN] else []) @
     (if list_ex (\<lambda>a. a \<in> set supported_sigalgs) DSA_SIGNATURE_ALGORITHMS then [cct CCT_DSS_SIGN] else []) @
     (if list_ex (\<lambda>a. a \<in> set supported_sigalgs) (ECDSA_SIGNATURE_ALGORITHMS @ EDDSA_SIGNATURE_ALGORITHMS)
      then [cct CCT_ECDSA_SIGN] else [])"

definition certificate_request :: "int \<Rightarrow> int list \<Rightarrow> message result" where
  "certificate_request version sigalgs =
     (if version = ver V_TLSv1_2 then
        let cert_types = request_cert_types sigalgs in
        if cert_types = [] then Inl AlertInternalError
        else Inr (CertificateRequestTLS12 \<lparr>cr12_certificate_types = cert_types,
               cr12_certificate_authorities = [], cr12_signature_algorithms = sigalgs\<rparr>)
      else Inr (CertificateRequest \<lparr>cr_certificate_types = map cct [CCT_RSA_SIGN, CCT_DSS_SIGN, CCT_ECDSA_SIGN],
             cr_certificate_authorities = []\<rparr>))"

definition server_send_server_hello_done :: "('a, Status) server_action" where
  "server_send_server_hello_done = bnd get_state (\<lambda>s.
     thn (do_if (srv_certificate_requested s)
           (bnd protocol_version (\<lambda>version.
            bnd (lift_result (certificate_request version (st_signature_algorithms (hs_settings s)))) (\<lambda>m.
            add_message m True))))
     (thn (add_message ServerHelloDone True)
     (goto (srv SRV_READ_CLIENT_CERTIFICATE) ST_FLUSH_HANDSHAKE)))"

subsection \<open>The client's flight\<close>

definition server_read_client_certificate :: "environment \<Rightarrow> ('a, Status) server_action" where
  "server_read_client_certificate E = bnd (gets srv_certificate_requested) (\<lambda>requested.
     if \<not> requested then goto (srv SRV_VERIFY_CLIENT_CERTIFICATE) ST_OK
     else with_handshake (\<lambda>_.
       bnd current_session (\<lambda>session.
       bnd (gets hs_settings) (\<lambda>st.
       bnd (process_certificate (env_x509 E) session (st_verify_mode st \<noteq> CERT_REQUIRED)) (\<lambda>(_, session).
       thn (set_session session)
       (thn (next_handshake True)
       (goto (srv SRV_VERIFY_CLIENT_CERTIFICATE) ST_OK)))))))"

definition server_verify_client_certificate :: "environment \<Rightarrow> ('a, Status) server_action" where
  "server_verify_client_certificate E =
     bnd current_session (\<lambda>session.
     thn (do_if (s_peer_cert session \<noteq> None) (bnd (ep_verify_x509 E session None) set_session))
     (goto (srv SRV_READ_CLIENT_KEY_EXCHANGE) ST_OK))"

text \<open>A premaster secret that does not decrypt is replaced by a random one.\<close>

definition rsa_client_premaster ::
    "environment \<Rightarrow> cipher_suite \<Rightarrow> int \<Rightarrow> parser \<Rightarrow> ('a, bytes \<times> parser) server_action" where
  "rsa_client_premaster E cs version p =
     thn (assert_that (auth cs = AUTH_RSA))
     (bnd (gets (st_credential \<circ> hs_settings)) (\<lambda>c. bnd (assert_some c) (\<lambda>credential.
     case cred_private_key credential of
       RSAPrivateKey k \<Rightarrow>
         bnd (on_parser (read_prefixed_bytes 2) p) (\<lambda>(enc_premaster_secret, p).
         bnd (case RSA_decrypt (env_asym E) k enc_premaster_secret of
                Some secret \<Rightarrow>
                  if length secret = 48 \<and> bytes_to_int (take 2 secret) = version then ret secret
                  else get_random_bytes E 48
              | None \<Rightarrow> get_random_bytes E 48) (\<lambda>premaster_secret.
         ret (premaster_secret, p)))
     | _ \<Rightarrow> raise AlertInternalError)))"

definition dh_client_premaster ::
    "environment \<Rightarrow> cipher_suite \<Rightarrow> parser \<Rightarrow> ('a, bytes \<times> parser) server_action" where
  "dh_client_premaster E cs p =
     bnd (gets srv_key_exchange) (\<lambda>k. bnd (assert_some k) (\<lambda>kex.
     bnd (if kea cs = KEA_ECDHE then on_parser (read_prefixed_bytes 1) p
          else if kea cs = KEA_DHE then on_parser (read_prefixed_bytes 2) p
          else raise AlertInternalError) (\<lambda>(peer_key, p).
     bnd (lift_result (except (exchange (env_kex E) kex peer_key) [ValueError] AlertIllegalParameter))
       (\<lambda>premaster_secret. ret (premaster_secret, p)))))"

definition server_master_secret :: "environment \<Rightarrow> cipher_suite \<Rightarrow> bytes \<Rightarrow> ('a, unit) server_action" where
  "server_master_secret E cs premaster_secret = bnd get_state (\<lambda>s.
     let ems = hs_extended_master_secret s;
         label = (if ems then ascii ''extended master secret'' else ascii ''master secret'');
         premaster_secret = (if kea cs = KEA_DHE then dropWhile (\<lambda>b. b = 0) premaster_secret else premaster_secret)
     in
     thn (update_session (\<lambda>x. x\<lparr>s_extended_master_secret := ems\<rparr>))
     (bnd (hs_derive_secret (env_crypto E) premaster_secret label (if ems then Some (hs_transcript s) else None))
       (\<lambda>secret.
     thn (update_session (\<lambda>x. x\<lparr>s_secret := secret\<rparr>))
     (derive_key (env_crypto E) secret))))"

definition server_read_client_key_exchange :: "environment \<Rightarrow> ('a, Status) server_action" where
  "server_read_client_key_exchange E = with_handshake (\<lambda>_.
     bnd (parse_as ClientKeyExchange_msg) (\<lambda>m.
     case m of
       ClientKeyExchange data \<Rightarrow>
         bnd current_cipher_suite (\<lambda>cs.
         bnd current_session (\<lambda>_.
         bnd protocol_version (\<lambda>version.
         bnd (if kea cs = KEA_RSA then rsa_client_premaster E cs version (new_parser data)
              else dh_client_premaster E cs (new_parser data)) (\<lambda>(premaster_secret, p).
         bnd (on_parser remaining p) (\<lambda>(n, _).
         thn (raise_if (n \<noteq> 0) AlertDecodeError)
         (thn (next_handshake True)
         (thn (server_master_secret E cs premaster_secret)
         (goto (srv SRV_READ_CLIENT_CERTIFICATE_VERIFY) ST_OK))))))))
     | _ \<Rightarrow> raise TypeError))"

definition server_read_client_certificate_verify :: "environment \<Rightarrow> ('a, Status) server_action" where
  "server_read_client_certificate_verify E =
     bnd current_session (\<lambda>session.
     if s_peer_cert session = None then goto (srv SRV_READ_CHANGE_CIPHER_SPEC) ST_OK
     else with_handshake (\<lambda>_.
       bnd protocol_version (\<lambda>version.
       bnd (parse_as (if version \<ge> ver V_TLSv1_2 then CertificateVerifyTLS12_msg else CertificateVerify_msg))
         (\<lambda>cert_verify.
       bnd (gets hs_settings) (\<lambda>st.
       thn (process_certificate_verify (env_crypto E) (env_asym E) (env_x509 E) session cert_verify
              (st_signature_algorithms st))
       (thn (next_handshake True)
       (goto (srv SRV_READ_CHANGE_CIPHER_SPEC) ST_OK)))))))"

definition server_read_change_cipher_spec :: "('a, Status) server_action" where
  "server_read_change_cipher_spec = goto (srv SRV_PROCESS_CHANGE_CIPHER_SPEC) ST_READ_CHANGE_CIPHER_SPEC"

definition server_process_change_cipher_spec :: "environment \<Rightarrow> ('a, Status) server_action" where
  "server_process_change_cipher_spec E =
     thn (hs_setup_traffic (ep_setup_traffic E) DIR_READ)
     (goto (srv SRV_READ_NEXT_PROTO) ST_OK)"

definition server_read_next_proto :: "('a, Status) server_action" where
  "server_read_next_proto = bnd (gets srv_npn_expected) (\<lambda>expected.
     if \<not> expected then goto (srv SRV_READ_CLIENT_FINISHED) ST_OK
     else with_handshake (\<lambda>_.
       bnd (parse_as NextProtocol_msg) (\<lambda>m.
       case m of
         NextProtocol next_protocol \<Rightarrow>
           bnd (gets hs_settings) (\<lambda>st.
           thn (raise_if (next_protocol \<notin> set (st_npn_protocols st)) AlertIllegalParameter)
           (thn (modify (\<lambda>s. s\<lparr>hs_npn_protocol := Some next_protocol\<rparr>))
           (thn (next_handshake True)
           (goto (srv SRV_READ_CLIENT_FINISHED) ST_OK))))
       | _ \<Rightarrow> raise TypeError)))"

subsection \<open>End of the handshake\<close>

definition server_read_client_finished :: "environment \<Rightarrow> ('a, Status) server_action" where
  "server_read_client_finished E = with_handshake (\<lambda>_.
     bnd current_session (\<lambda>session.
     bnd (parse_as Finished_msg) (\<lambda>m.
     case m of
       Finished verify_data \<Rightarrow>
         bnd (derive_finished_verify_data (env_crypto E) (s_secret session) (ascii ''client finished''))
           (\<lambda>expected_verify_data.
         thn (raise_if (\<not> compare_digest verify_data expected_verify_data) AlertDecryptError)
         (thn (next_handshake True)
         (bnd (gets hs_session_reused) (\<lambda>reused.
         goto (if reused then srv SRV_FINISHED_SERVER_HANDSHAKE else srv SRV_SEND_SESSION_TICKET) ST_OK))))
     | _ \<Rightarrow> raise TypeError)))"

definition server_send_session_ticket :: "environment \<Rightarrow> ('a, Status) server_action" where
  "server_send_session_ticket E = bnd (gets srv_ticket_expected) (\<lambda>expected.
     thn (do_if expected
           (bnd (utcnow E) (\<lambda>now.
            thn (update_session (rebase_time now))
            (bnd current_session (\<lambda>session.
            bnd (encrypt_session session) (\<lambda>ticket.
            case ticket of
              Some t \<Rightarrow> do_if (t \<noteq> []) (add_message (NewSessionTicket
                \<lparr>nst_ticket_lifetime = whole_seconds (s_timeout session), nst_ticket = t\<rparr>) True)
            | None \<Rightarrow> ret ()))))))
     (goto (srv SRV_SEND_CHANGE_CIPHER_SPEC) ST_PACK_FLIGHT))"

definition server_send_change_cipher_spec :: "('a, Status) server_action" where
  "server_send_change_cipher_spec = goto (srv SRV_SEND_SERVER_FINISHED) ST_WRITE_CHANGE_CIPHER_SPEC"

definition server_send_server_finished :: "environment \<Rightarrow> ('a, Status) server_action" where
  "server_send_server_finished E =
     bnd current_session (\<lambda>session.
     thn (hs_setup_traffic (ep_setup_traffic E) DIR_WRITE)
     (bnd (derive_finished_verify_data (env_crypto E) (s_secret session) (ascii ''server finished'')) (\<lambda>verify_data.
     thn (add_message (Finished verify_data) True)
     (bnd (gets hs_session_reused) (\<lambda>reused.
     goto (if reused then srv SRV_READ_CHANGE_CIPHER_SPEC else srv SRV_FINISHED_SERVER_HANDSHAKE)
       ST_FLUSH_HANDSHAKE)))))"

end
