(* ===== verification/Server_TLS13.thy ===== *)
theory Server_TLS13
  imports Server_Flow
begin

text \<open>
  The TLS 1.3 handlers of the server, its post-handshake messages and its dispatch table: the rest of
  \<open>src/simple_tls/tls/handshake_server.py\<close>.
\<close>

subsection \<open>Selection of the parameters\<close>

text \<open>A key schedule after \<open>extract\<close>.\<close>

definition extracted :: "crypto \<Rightarrow> bytes option \<Rightarrow> KeySchedule \<Rightarrow> KeySchedule result" where
  "extracted cr key_material ks = (case ks_extract cr key_material ks of (r, ks') \<Rightarrow> rmap (\<lambda>_. ks') r)"

text \<open>
  The first identity whose ticket opens, with its binder checked over the hello without binders.
\<close>

primrec select_psk ::
    "environment \<Rightarrow> cipher_suite \<Rightarrow> bytes list \<Rightarrow> Transcript \<Rightarrow> nat \<Rightarrow> psk_identity list \<Rightarrow>
     ('a, (TLSSession \<times> KeySchedule) option) server_action" where
  "select_psk E cs binders transcript index [] = ret None"
| "select_psk E cs binders transcript index (psk # psks) =
     bnd (decrypt_session E (identity psk)) (\<lambda>found.
     case found of
       None \<Rightarrow> select_psk E cs binders transcript (Suc index) psks
     | Some session \<Rightarrow>
         bnd (lift_result (KeySchedule_init (env_crypto E) (hash_id (cipher_suite.prf_hash cs)))) (\<lambda>ks.
         bnd (lift_result (extracted (env_crypto E) (Some (s_secret session)) ks)) (\<lambda>ks.
         bnd (on_transcript (derive_secret (env_crypto E) ks (ascii ''res binder''))) (\<lambda>binder_key.
         bnd (lift_result (fst (finished_verify_data (env_crypto E) ks binder_key transcript))) (\<lambda>expected_binder.
         thn (raise_if (length binders \<le> index) IndexError)
         (thn (raise_if (\<not> compare_digest (binders ! index) expected_binder) AlertDecryptError)
         (thn (modify (\<lambda>s. s\<lparr>hs_session_reused := True, srv_psk_index := Some (int index),
                srv_pre_shared_key := Some (psk, binder_key)\<rparr>))
         (ret (Some (session, ks))))))))))"

text \<open>The mode and the session of the pre-shared keys that are offered.\<close>

definition process_psk ::
    "environment \<Rightarrow> cipher_suite \<Rightarrow> extensions \<Rightarrow> extension option \<Rightarrow>
     ('a, int option \<times> (TLSSession \<times> KeySchedule) option) server_action" where
  "process_psk E cs exts psk_ext = (case psk_ext of
     Some (PSKClientExtension identities binders) \<Rightarrow>
       bnd (ext_get PSKKeyExchangeModes_class exts) (\<lambda>modes_ext.
       bnd (case modes_ext of
              Some (PSKKeyExchangeModesExtension data) \<Rightarrow> ret data
            | _ \<Rightarrow> raise AlertMissingExtension) (\<lambda>modes.
       bnd (gets hs_settings) (\<lambda>st.
       bnd (lift_result (negotiate (st_psk_kex_modes st) (Some modes) None)) (\<lambda>psk_kex_mode.
       case psk_kex_mode of
         None \<Rightarrow> ret (None, None)
       | Some mode \<Rightarrow>
           bnd get_state (\<lambda>s.
           bnd (assert_some (hs_cache s)) (\<lambda>handshake.
           bnd (lift_result (get_client_hello_without_binders handshake binders)) (\<lambda>d.
           let transcript = snd (update_hash d (Transcript_copy (hs_transcript s))) in
           bnd (select_psk E cs binders transcript 0 identities) (\<lambda>found.
           ret (Some mode, found)))))))))
   | _ \<Rightarrow> ret (None, None))"

text \<open>Without a session: the certificate's signature algorithm, a new session and a fresh key schedule.\<close>

definition certificate_session ::
    "environment \<Rightarrow> int \<Rightarrow> cipher_suite \<Rightarrow> ('a, TLSSession \<times> KeySchedule) server_action" where
  "certificate_session E version cs = bnd get_state (\<lambda>s.
     case st_credential (hs_settings s) of
       None \<Rightarrow> raise AlertHandshakeFailure
     | Some credential \<Rightarrow>
         thn (raise_if (srv_peer_signature_algorithms s = None) AlertMissingExtension)
         (bnd (cert_public_key E AlertInternalError (cred_certificate credential)) (\<lambda>pk.
         bnd (lift_result (sigalgs_for_pubkey version pk (cert_oid_fn (env_x509 E) (cred_certificate credential))
                (Some (st_signing_signature_algorithms (hs_settings s))))) (\<lambda>(_, supported_sigalgs).
         bnd (lift_result (negotiate supported_sigalgs (srv_peer_signature_algorithms s)
                (Some AlertHandshakeFailure))) (\<lambda>alg.
         thn (modify (\<lambda>s. s\<lparr>srv_signing_signature_algorithm := alg\<rparr>))
         (bnd (ep_get_new_session E) (\<lambda>session.
         bnd (lift_result (KeySchedule_init (env_crypto E) (hash_id (cipher_suite.prf_hash cs)))) (\<lambda>ks.
         bnd (lift_result (extracted (env_crypto E) None ks)) (\<lambda>ks.
         ret (session, ks))))))))))"

text \<open>
  The first supported group that the client has sent a share for, or that it supports: then it is asked
  for one.
\<close>

primrec choose_group :: "int list \<Rightarrow> (int \<times> bytes) list \<Rightarrow> int list \<Rightarrow> (int \<times> bytes option) option" where
  "choose_group [] shares peer_groups = None"
| "choose_group (g # gs) shares peer_groups =
     (case map_of shares g of
        Some k \<Rightarrow> Some (g, Some k)
      | None \<Rightarrow> if g \<in> set peer_groups then Some (g, None) else choose_group gs shares peer_groups)"

definition select_group :: "extensions \<Rightarrow> ('a, unit) server_action" where
  "select_group exts = bnd get_state (\<lambda>s.
     bnd (case srv_peer_supported_groups s of Some gs \<Rightarrow> ret gs | None \<Rightarrow> raise AlertMissingExtension) (\<lambda>peer_groups.
     bnd (ext_get KeyShareClient_class exts) (\<lambda>key_share_ext.
     bnd (case key_share_ext of
            Some (KeyShareClientExtension ks) \<Rightarrow> ret (map (\<lambda>k. (group k, key_exchange k)) ks)
          | _ \<Rightarrow> raise AlertMissingExtension) (\<lambda>shares.
     thn (raise_if (\<not> distinct (map fst shares)) AlertIllegalParameter)
     (thn (raise_if (\<not> set (map fst shares) \<subseteq> set peer_groups) AlertIllegalParameter)
     (case choose_group (st_supported_groups (hs_settings s)) shares peer_groups of
        None \<Rightarrow> raise AlertHandshakeFailure
      | Some (g, Some k) \<Rightarrow> modify (\<lambda>s. s\<lparr>srv_group_id := Some g, srv_peer_key := Some k\<rparr>)
      | Some (g, None) \<Rightarrow> modify (\<lambda>s. s\<lparr>srv_group_id_hrr := Some g\<rparr>)))))))"

definition add_server_alps :: "extensions \<Rightarrow> TLSSession \<Rightarrow> ('a, TLSSession) server_action" where
  "add_server_alps exts new_session =
     bnd (ext_get ALPSClient_class exts) (\<lambda>alps_ext.
     bnd get_state (\<lambda>s.
     case (alps_ext, hs_alpn_protocol s) of
       (Some (ALPSClientExtension protocols), Some p) \<Rightarrow>
         (case map_of (st_alps (hs_settings s)) p of
            Some settings \<Rightarrow>
              if p \<in> set protocols then ret (new_session\<lparr>s_has_alps := True, s_local_alps := settings\<rparr>)
              else ret new_session
          | None \<Rightarrow> ret new_session)
     | _ \<Rightarrow> ret new_session))"

text \<open>Early data is accepted on the first pre-shared key, if nothing it depends on has changed.\<close>

definition early_data_acceptable ::
    "'a TLSServer_scheme \<Rightarrow> bool \<Rightarrow> TLSSession option \<Rightarrow> TLSSession \<Rightarrow> bool" where
  "early_data_acceptable s hrr session new_session \<longleftrightarrow>
     srv_enable_early_data s \<and> srv_psk_index s = Some 0 \<and> \<not> hrr \<and>
     (case session of
        None \<Rightarrow> False
      | Some x \<Rightarrow> s_ticket_max_early_data x > 0 \<and> hs_alpn_protocol s = s_early_alpn x \<and>
          s_has_alps x = s_has_alps new_session \<and> s_local_alps x = s_local_alps new_session)"

definition server_early_data ::
    "environment \<Rightarrow> extension option \<Rightarrow> TLSSession option \<Rightarrow> bool \<Rightarrow> ('a, unit) server_action" where
  "server_early_data E psk_ext session hrr = bnd get_state (\<lambda>s.
     do_if (hs_early_data_offered s)
       (thn (raise_if (psk_ext = None) AlertIllegalParameter)
       (thn (do_if (hs_session_reused s)
              (bnd (assert_some session) (\<lambda>x.
               update_session (\<lambda>n. n\<lparr>s_ticket_max_early_data := s_ticket_max_early_data x\<rparr>))))
       (bnd current_session (\<lambda>new_session.
       if early_data_acceptable s hrr session new_session then
         thn (modify (\<lambda>s. s\<lparr>hs_early_data_status := EDS_ACCEPTED\<rparr>))
         (thn (do_if (s_has_alps new_session)
                (bnd (assert_some session) (\<lambda>x. update_session (\<lambda>n. n\<lparr>s_peer_alps := s_peer_alps x\<rparr>))))
         (derive_secret_tls13 (env_crypto E) DIR_READ EPOCH_ZERO_RTT (ascii ''c e traffic'') (hs_transcript s)))
       else modify (\<lambda>s. s\<lparr>hs_early_data_status := EDS_REJECTED, hs_skip_early_data := True\<rparr>))))))"

text \<open>Everything that is decided from the hello once the suite is known.\<close>

definition process_hello_tls13 ::
    "environment \<Rightarrow> int \<Rightarrow> cipher_suite \<Rightarrow> client_hello \<Rightarrow> ('a, Status) server_action" where
  "process_hello_tls13 E version cs ch =
     (let exts = ch_extensions ch in
     thn (modify (\<lambda>s. s\<lparr>hs_session_id := ch_session_id ch\<rparr>))
     (thn (server_process_extensions exts)
     (bnd (ext_get PSKClient_class exts) (\<lambda>psk_ext.
     bnd (process_psk E cs exts psk_ext) (\<lambda>(psk_kex_mode, found).
     bnd (case found of
            Some (session, ks) \<Rightarrow>
              bnd (utcnow E) (\<lambda>now. bnd (utcnow E) (\<lambda>later.
              ret (renew_timeout later DEFAULT_TIMEOUT (session_copy False False now session), ks)))
          | None \<Rightarrow> certificate_session E version cs) (\<lambda>(new_session, ks).
     thn (do_if (found = None \<or> psk_kex_mode = Some (pskm PSKM_PSK_DHE_KE)) (select_group exts))
     (bnd (gets hs_alpn_protocol) (\<lambda>alpn.
     bnd (add_server_alps exts (new_session\<lparr>s_cipher_suite := Some cs, s_early_alpn := alpn\<rparr>)) (\<lambda>new_session.
     thn (modify (\<lambda>s. s\<lparr>hs_session := Some new_session, hs_key_schedule := Some ks\<rparr>))
     (thn (next_handshake True)
     (bnd (gets (\<lambda>s. srv_cookie s \<noteq> None \<or> srv_group_id_hrr s \<noteq> None)) (\<lambda>hrr.
     thn (server_early_data E psk_ext (map_option fst found) hrr)
     (if hrr then
        thn (on_transcript (update_for_hello_retry_request (env_crypto E) (hash_id (cipher_suite.prf_hash cs))))
        (goto (srv SRV_SEND_HELLO_RETRY_REQUEST_TLS13) ST_OK)
      else goto (srv SRV_SEND_SERVER_HELLO_TLS13) ST_OK)))))))))))))"

definition server_select_parameters_tls13 :: "environment \<Rightarrow> ('a, Status) server_action" where
  "server_select_parameters_tls13 E = with_handshake (\<lambda>_. bnd get_state (\<lambda>s.
     bnd (assert_some (srv_peer_cipher_suites s)) (\<lambda>peer_cipher_suites.
     thn (raise_if (has_unprocessed_data s) AlertUnexpectedMessage)
     (bnd protocol_version (\<lambda>version.
     case find (\<lambda>cs. minimum_version cs \<le> version \<and> version \<le> maximum_version cs \<and>
            cs_id cs \<in> set peer_cipher_suites) (st_cipher_suites (hs_settings s)) of
       None \<Rightarrow> raise AlertHandshakeFailure
     | Some cs \<Rightarrow>
         thn (modify (\<lambda>s. s\<lparr>hs_cipher_suite := Some cs\<rparr>))
         (bnd (parse_as ClientHello_msg) (\<lambda>m.
         case m of ClientHello ch \<Rightarrow> process_hello_tls13 E version cs ch | _ \<Rightarrow> raise TypeError)))))))"

subsection \<open>Hello retry request\<close>

definition server_send_hello_retry_request_tls13 :: "environment \<Rightarrow> ('a, Status) server_action" where
  "server_send_hello_retry_request_tls13 E =
     bnd current_cipher_suite (\<lambda>cs.
     bnd protocol_version (\<lambda>version.
     bnd get_state (\<lambda>s.
     bnd (lift_result (Extensions_from_extensions (
            [SupportedVersionsServerExtension version] @
            (case srv_cookie s of Some c \<Rightarrow> [CookieExtension c] | None \<Rightarrow> []) @
            (case srv_group_id_hrr s of Some g \<Rightarrow> [KeyShareHRRExtension g] | None \<Rightarrow> [])))) (\<lambda>exts.
     thn (raise_if (exts = []) AlertInternalError)
     (let hrr = \<lparr>sh_version = hs_client_version s, sh_random = TLS13_HRR_SENTINEL,
            sh_session_id = hs_session_id s, sh_cipher_suite = cs_id cs,
            sh_compression_method = comp COMP_NULL, sh_extensions = exts\<rparr>
      in
     bnd (if hs_ech_status s = ECH_ACCEPTED then apply_ech_acceptance E hrr True else ret hrr) (\<lambda>hrr.
     thn (add_message (ServerHello hrr) True)
     (thn (modify (\<lambda>s. s\<lparr>hs_hello_retry_request_used := True\<rparr>))
     (goto (srv SRV_HRR_COMPAT_CSS_TLS13) ST_FLUSH_HANDSHAKE))))))))"

definition server_hrr_compat_ccs_tls13 :: "('a, Status) server_action" where
  "server_hrr_compat_ccs_tls13 =
     thn (set_state (srv SRV_READ_SECOND_CLIENT_HELLO_TLS13))
     (bnd (gets hs_settings) (\<lambda>st.
     ret (if cfg_middlebox_compat (st_configuration st) then ST_WRITE_CHANGE_CIPHER_SPEC else ST_OK)))"

text \<open>After the inner hello was accepted the second one is decrypted with the same context.\<close>

definition decrypt_second_ech :: "environment \<Rightarrow> client_hello \<Rightarrow> ('a, client_hello) server_action" where
  "decrypt_second_ech E client_hello =
     bnd (gets srv_ech_context) (\<lambda>c. bnd (assert_some c) (\<lambda>context.
     bnd (ext_get ECHClient_class (ch_extensions client_hello)) (\<lambda>ech_ext.
     case ech_ext of
       Some (ECHClientExtension ech) \<Rightarrow>
         thn (raise_if (ech_client_hello_type ech \<noteq> echt ECHT_OUTER) AlertIllegalParameter)
         (thn (raise_if (ech_config_id ech \<noteq> ec_config_id context) AlertIllegalParameter)
         (thn (raise_if (hpke_aead_id ech \<noteq> ec_aead_id context) AlertIllegalParameter)
         (thn (raise_if (hpke_kdf_id ech \<noteq> ec_kdf_id context) AlertIllegalParameter)
         (thn (raise_if (length (ech_enc ech) > 0) AlertIllegalParameter)
         (bnd (lift_result (get_ech_aad client_hello ech)) (\<lambda>(aad, client_hello).
         bnd (lift_result (decrypt_ech_payload (env_crypto E) (ec_hpke_context context) client_hello
                (ech_payload ech) aad)) (\<lambda>(inner_hello, hpke).
         thn (modify (\<lambda>s. s\<lparr>srv_ech_context := Some (context\<lparr>ec_hpke_context := hpke\<rparr>)\<rparr>))
         (thn (on_handshake (Handshake_set_message (ClientHello inner_hello)))
         (ret inner_hello)))))))))
     | _ \<Rightarrow> raise AlertMissingExtension)))"

definition check_second_hello :: "int \<Rightarrow> cipher_suite \<Rightarrow> client_hello \<Rightarrow> ('a, unit) server_action" where
  "check_second_hello version cs ch = bnd get_state (\<lambda>s.
     bnd (ext_get SupportedVersionsClient_class (ch_extensions ch)) (\<lambda>supported_vers_ext.
     thn (raise_if (ch_version ch \<noteq> hs_client_version s \<or>
            (case supported_vers_ext of
               Some (SupportedVersionsClientExtension data) \<Rightarrow> version \<notin> set data | _ \<Rightarrow> True)) AlertProtocolVersion)
     (raise_if (ch_random ch \<noteq> hs_client_random s \<or> ch_session_id ch \<noteq> hs_session_id s \<or>
        comp COMP_NULL \<notin> set (ch_compression_methods ch) \<or>
        cs_id cs \<notin> set (ch_cipher_suites ch)) AlertIllegalParameter)))"

definition second_key_share :: "extensions \<Rightarrow> int \<Rightarrow> ('a, unit) server_action" where
  "second_key_share exts group_id_hrr =
     bnd (ext_get KeyShareClient_class exts) (\<lambda>key_share_ext.
     case key_share_ext of
       Some (KeyShareClientExtension key_shares) \<Rightarrow>
         thn (raise_if (length key_shares \<noteq> 1) AlertIllegalParameter)
         (let entry = hd key_shares in
         thn (raise_if (group entry \<noteq> group_id_hrr) AlertIllegalParameter)
         (modify (\<lambda>s. s\<lparr>srv_group_id := Some group_id_hrr, srv_peer_key := Some (key_exchange entry)\<rparr>)))
     | _ \<Rightarrow> raise AlertMissingExtension)"

definition second_cookie :: "extensions \<Rightarrow> bytes \<Rightarrow> ('a, unit) server_action" where
  "second_cookie exts cookie =
     bnd (ext_get Cookie_class exts) (\<lambda>cookie_ext.
     case cookie_ext of
       Some (CookieExtension data) \<Rightarrow> raise_if (data \<noteq> cookie) AlertIllegalParameter
     | _ \<Rightarrow> raise AlertMissingExtension)"

text \<open>The position of the identity that was selected in the first hello.\<close>

fun find_identity :: "bytes \<Rightarrow> nat \<Rightarrow> psk_identity list \<Rightarrow> nat option" where
  "find_identity i n [] = None"
| "find_identity i n (psk # psks) = (if identity psk = i then Some n else find_identity i (Suc n) psks)"

definition second_psk :: "environment \<Rightarrow> extensions \<Rightarrow> ('a, unit) server_action" where
  "second_psk E exts = bnd get_state (\<lambda>s.
     bnd (assert_some (srv_pre_shared_key s)) (\<lambda>(psk, binder_key).
     bnd (ext_get PSKClient_class exts) (\<lambda>psk_ext.
     case psk_ext of
       Some (PSKClientExtension identities binders) \<Rightarrow>
         bnd (assert_some (hs_cache s)) (\<lambda>handshake.
         bnd (lift_result (get_client_hello_without_binders handshake binders)) (\<lambda>d.
         let transcript = snd (update_hash d (Transcript_copy (hs_transcript s))) in
         case find_identity (identity psk) 0 identities of
           None \<Rightarrow> raise AlertDecryptError
         | Some idx \<Rightarrow>
             bnd current_key_schedule (\<lambda>ks.
             bnd (lift_result (fst (finished_verify_data (env_crypto E) ks binder_key transcript))) (\<lambda>expected_binder.
             thn (raise_if (length binders \<le> idx) IndexError)
             (thn (raise_if (\<not> compare_digest (binders ! idx) expected_binder) AlertDecryptError)
             (modify (\<lambda>s. s\<lparr>srv_psk_index := Some (int idx)\<rparr>)))))))
     | _ \<Rightarrow> raise AlertMissingExtension)))"

definition server_read_second_client_hello_tls13 :: "environment \<Rightarrow> ('a, Status) server_action" where
  "server_read_second_client_hello_tls13 E = with_handshake (\<lambda>_.
     bnd current_cipher_suite (\<lambda>cs.
     bnd current_key_schedule (\<lambda>_.
     bnd (parse_as ClientHello_msg) (\<lambda>m.
     case m of
       ClientHello client_hello \<Rightarrow>
         bnd get_state (\<lambda>s.
         thn (raise_if (has_unprocessed_data s) AlertUnexpectedMessage)
         (bnd (if hs_ech_status s = ECH_ACCEPTED then decrypt_second_ech E client_hello else ret client_hello)
           (\<lambda>client_hello.
         let exts = ch_extensions client_hello in
         bnd protocol_version (\<lambda>version.
         thn (check_second_hello version cs client_hello)
         (thn (raise_if (srv_group_id_hrr s = None \<and> srv_cookie s = None) AlertInternalError)
         (thn (case srv_group_id_hrr s of None \<Rightarrow> ret () | Some g \<Rightarrow> second_key_share exts g)
         (thn (case srv_cookie s of None \<Rightarrow> ret () | Some c \<Rightarrow> second_cookie exts c)
         (thn (do_if (srv_psk_index s \<noteq> None) (second_psk E exts))
         (thn (next_handshake True)
         (goto (srv SRV_SEND_SERVER_HELLO_TLS13) ST_OK))))))))))
     | _ \<Rightarrow> raise TypeError))))"

subsection \<open>The server's flight\<close>

text \<open>The server hello with the share and the shared secret of the selected group.\<close>

definition server_key_share :: "environment \<Rightarrow> ('a, (extension \<times> bytes) option) server_action" where
  "server_key_share E = bnd get_state (\<lambda>s.
     case srv_group_id s of
       None \<Rightarrow> ret None
     | Some group_id \<Rightarrow>
         bnd (assert_some (srv_peer_key s)) (\<lambda>peer_key.
         bnd (ep_get_key_exchange E group_id) (\<lambda>k. bnd (assert_some k) (\<lambda>kex.
         bnd (except_action (ep_generate_and_exchange E kex peer_key) [ValueError] AlertIllegalParameter)
           (\<lambda>(key_share, shared_secret).
         ret (Some (KeyShareServerExtension \<lparr>group = group_id, key_exchange = key_share\<rparr>, shared_secret)))))))"

definition server_send_server_hello_tls13 :: "environment \<Rightarrow> ('a, Status) server_action" where
  "server_send_server_hello_tls13 E =
     bnd current_cipher_suite (\<lambda>cs.
     bnd current_key_schedule (\<lambda>ks.
     bnd current_session (\<lambda>_.
     thn (assert_that (ks_generation ks = 1))
     (bnd protocol_version (\<lambda>version.
     bnd get_state (\<lambda>s.
     bnd (lift_result (Extensions_from_extensions (
            [SupportedVersionsServerExtension version] @
            (case srv_psk_index s of Some i \<Rightarrow> [PSKServerExtension i] | None \<Rightarrow> [])))) (\<lambda>exts.
     bnd (server_key_share E) (\<lambda>share.
     bnd (case share of
            Some (e, _) \<Rightarrow> lift_result (Extensions_append e exts) | None \<Rightarrow> ret exts) (\<lambda>exts.
     let server_hello = \<lparr>sh_version = hs_client_version s, sh_random = hs_server_random s,
           sh_session_id = hs_session_id s, sh_cipher_suite = cs_id cs,
           sh_compression_method = comp COMP_NULL, sh_extensions = exts\<rparr>
     in
     bnd (if hs_ech_status s = ECH_ACCEPTED then apply_ech_acceptance E server_hello False
          else ret server_hello) (\<lambda>server_hello.
     thn (add_message (ServerHello server_hello) True)
     (thn (on_key_schedule (ks_extract (env_crypto E) (map_option snd share)))
     (bnd (gets hs_transcript) (\<lambda>transcript.
     thn (derive_secret_tls13 (env_crypto E) DIR_WRITE EPOCH_HANDSHAKE (ascii ''s hs traffic'') transcript)
     (thn (derive_secret_tls13 (env_crypto E) DIR_READ EPOCH_HANDSHAKE (ascii ''c hs traffic'') transcript)
     (goto (srv SRV_SERVER_HELLO_COMPAT_CSS_TLS13) ST_PACK_FLIGHT)))))))))))))))"

definition server_hello_compat_ccs_tls13 :: "('a, Status) server_action" where
  "server_hello_compat_ccs_tls13 =
     thn (set_state (srv SRV_SEND_ENCRYPTED_EXTENSIONS_TLS13))
     (bnd get_state (\<lambda>s.
     ret (if cfg_middlebox_compat (st_configuration (hs_settings s)) \<and> \<not> hs_hello_retry_request_used s
          then ST_WRITE_CHANGE_CIPHER_SPEC else ST_OK)))"

definition server_encrypted_extensions :: "'a TLSServer_scheme \<Rightarrow> TLSSession \<Rightarrow> extensions result" where
  "server_encrypted_extensions s session =
     (let retry_configs = map echkey_config (filter echkey_is_retry_config (srv_ech_keys s)) in
      Extensions_from_extensions (
        (if hs_early_data_status s = EDS_ACCEPTED then [EarlyDataServerExtension] else []) @
        (case hs_alpn_protocol s of Some p \<Rightarrow> [ALPNServerExtension p] | None \<Rightarrow> []) @
        (if s_has_alps session \<and> hs_early_data_status s \<noteq> EDS_ACCEPTED
         then [ALPSExtension (s_local_alps session)] else []) @
        (if hs_ech_status s = ECH_REJECTED \<and> retry_configs \<noteq> [] then [ECHServerExtension retry_configs] else [])))"

definition send_certificate_request_tls13 :: "('a, unit) server_action" where
  "send_certificate_request_tls13 = bnd (gets hs_settings) (\<lambda>st.
     bnd (lift_result (Extensions_from_extensions (
            [SignatureAlgorithmsExtension (st_signature_algorithms st)] @
            (if st_certificate_compressions st \<noteq> []
             then [CompressedCertificateExtension (st_certificate_compressions st)] else [])))) (\<lambda>cert_exts.
     thn (add_message (CertificateRequestTLS13 \<lparr>cr13_context = [], cr13_extensions = cert_exts\<rparr>) True)
     (modify (\<lambda>s. s\<lparr>srv_certificate_requested := True\<rparr>))))"

text \<open>The certificate and the signature over the transcript up to it.\<close>

definition send_server_certificate_tls13 :: "environment \<Rightarrow> ('a, unit) server_action" where
  "send_server_certificate_tls13 E = bnd get_state (\<lambda>s.
     bnd (assert_some (st_credential (hs_settings s))) (\<lambda>credential.
     bnd (assert_some (srv_signing_signature_algorithm s)) (\<lambda>alg.
     bnd (lift_result (create_certificate_tls13 (env_comp E) (Some credential) []
            (srv_certificate_compression s))) (\<lambda>certificate.
     thn (add_message certificate True)
     (bnd current_key_schedule (\<lambda>ks.
     bnd (on_transcript (certificate_verify_data (env_crypto E) ks TLS13_SERVER_CONTEXT_STRING)) (\<lambda>data.
     bnd (lift_result (key_sign (env_asym E) (env_crypto E) (cred_private_key credential) data alg)) (\<lambda>signature.
     add_message (CertificateVerifyTLS12 \<lparr>cv12_signature = signature,
       cv12_signature_algorithm = alg\<rparr>) True))))))))"

definition server_send_encrypted_extensions_tls13 :: "environment \<Rightarrow> ('a, Status) server_action" where
  "server_send_encrypted_extensions_tls13 E =
     bnd current_key_schedule (\<lambda>_.
     bnd current_session (\<lambda>session.
     thn (hs_setup_traffic_tls13 (ep_setup_traffic E) DIR_WRITE EPOCH_HANDSHAKE)
     (bnd get_state (\<lambda>s.
     bnd (lift_result (server_encrypted_extensions s session)) (\<lambda>exts.
     thn (add_message (EncryptedExtensions exts) True)
     (if hs_session_reused s then goto (srv SRV_SEND_SERVER_FINISHED_TLS13) ST_OK
      else
        thn (do_if (st_verify_mode (hs_settings s) \<noteq> CERT_NONE) send_certificate_request_tls13)
        (thn (send_server_certificate_tls13 E)
        (goto (srv SRV_SEND_SERVER_FINISHED_TLS13) ST_OK))))))))"

definition server_send_server_finished_tls13 :: "environment \<Rightarrow> ('a, Status) server_action" where
  "server_send_server_finished_tls13 E =
     bnd current_session (\<lambda>_.
     bnd current_key_schedule (\<lambda>ks.
     thn (assert_that (ks_generation ks = 2))
     (bnd get_state (\<lambda>s.
     bnd (case hs_enc_secret s EPOCH_HANDSHAKE of Some x \<Rightarrow> ret x | None \<Rightarrow> raise KeyError) (\<lambda>secret.
     bnd (on_transcript (finished_verify_data (env_crypto E) ks secret)) (\<lambda>verify_data.
     thn (add_message (Finished verify_data) True)
     (thn (on_key_schedule (ks_extract (env_crypto E) None))
     (bnd (gets hs_transcript) (\<lambda>transcript.
     thn (derive_secret_tls13 (env_crypto E) DIR_WRITE EPOCH_APPLICATION_DATA (ascii ''s ap traffic'') transcript)
     (thn (derive_secret_tls13 (env_crypto E) DIR_READ EPOCH_APPLICATION_DATA (ascii ''c ap traffic'') transcript)
     (goto (srv SRV_READ_SECOND_CLIENT_FLIGHT_TLS13) ST_FLUSH_HANDSHAKE)))))))))))"

subsection \<open>The client's flight\<close>

definition server_read_second_client_flight_tls13 :: "environment \<Rightarrow> ('a, Status) server_action" where
  "server_read_second_client_flight_tls13 E =
     thn (hs_setup_traffic_tls13 (ep_setup_traffic E) DIR_WRITE EPOCH_APPLICATION_DATA)
     (bnd (gets hs_early_data_status) (\<lambda>status.
     if status = EDS_ACCEPTED then
       thn (hs_setup_traffic_tls13 (ep_setup_traffic E) DIR_READ EPOCH_ZERO_RTT)
       (thn (modify (\<lambda>s. s\<lparr>hs_can_early_write := True, hs_can_early_read := True, hs_in_early_data := True\<rparr>))
       (goto (srv SRV_PROCESS_END_OF_EARLY_DATA_TLS13) ST_READ_END_OF_EARLY_DATA))
     else goto (srv SRV_PROCESS_END_OF_EARLY_DATA_TLS13) ST_OK))"

definition handshake_read_keys :: "environment \<Rightarrow> ('a, Status) server_action" where
  "handshake_read_keys E =
     thn (hs_setup_traffic_tls13 (ep_setup_traffic E) DIR_READ EPOCH_HANDSHAKE)
     (goto (srv SRV_READ_CLIENT_ENCRYPTED_EXTENSIONS_TLS13) ST_OK)"

definition server_process_end_of_early_data_tls13 :: "environment \<Rightarrow> ('a, Status) server_action" where
  "server_process_end_of_early_data_tls13 E = bnd (gets hs_early_data_status) (\<lambda>status.
     if status = EDS_ACCEPTED then with_handshake (\<lambda>_.
       bnd (parse_as EndOfEarlyData_msg) (\<lambda>_.
       bnd get_state (\<lambda>s.
       thn (raise_if (has_unprocessed_data s) AlertUnexpectedMessage)
       (thn hs_close_in_early_data
       (thn (next_handshake True)
       (handshake_read_keys E))))))
     else handshake_read_keys E)"

definition server_read_client_encrypted_extensions_tls13 :: "('a, Status) server_action" where
  "server_read_client_encrypted_extensions_tls13 =
     bnd current_session (\<lambda>session.
     bnd (gets hs_early_data_status) (\<lambda>status.
     if \<not> (s_has_alps session \<and> status \<noteq> EDS_ACCEPTED) then goto (srv SRV_READ_CLIENT_CERTIFICATE_TLS13) ST_OK
     else with_handshake (\<lambda>_.
       bnd (parse_as EncryptedExtensions_msg) (\<lambda>m.
       case m of
         EncryptedExtensions exts \<Rightarrow>
           bnd (ext_get ALPS_class exts) (\<lambda>alps_ext.
           thn (case alps_ext of
                  Some (ALPSExtension settings) \<Rightarrow> update_session (\<lambda>x. x\<lparr>s_peer_alps := settings\<rparr>)
                | _ \<Rightarrow> raise AlertMissingExtension)
           (thn (raise_if (\<not> has_allowed [ext EXT_APPLICATION_SETTINGS] exts) AlertUnsupportedExtension)
           (thn (next_handshake True)
           (goto (srv SRV_READ_CLIENT_CERTIFICATE_TLS13) ST_OK))))
       | _ \<Rightarrow> raise TypeError))))"

definition server_read_client_certificate_tls13 :: "environment \<Rightarrow> ('a, Status) server_action" where
  "server_read_client_certificate_tls13 E = bnd (gets srv_certificate_requested) (\<lambda>requested.
     if \<not> requested then goto (srv SRV_READ_CLIENT_FINISHED_TLS13) ST_OK
     else with_handshake (\<lambda>_.
       bnd current_session (\<lambda>session.
       bnd (gets hs_settings) (\<lambda>st.
       bnd (process_certificate_tls13 (env_comp E) (env_x509 E) session (st_verify_mode st \<noteq> CERT_REQUIRED) True)
         (\<lambda>(_, session).
       thn (set_session session)
       (thn (do_if (s_peer_cert session \<noteq> None \<and> st_verify_mode st \<noteq> CERT_NONE)
              (bnd (ep_verify_x509 E session None) set_session))
       (thn (next_handshake True)
       (goto (srv SRV_READ_CLIENT_CERTIFICATE_VERIFY_TLS13) ST_OK))))))))"

definition server_read_client_certificate_verify_tls13 :: "environment \<Rightarrow> ('a, Status) server_action" where
  "server_read_client_certificate_verify_tls13 E =
     bnd current_session (\<lambda>session.
     if s_peer_cert session = None then goto (srv SRV_READ_CLIENT_FINISHED_TLS13) ST_OK
     else with_handshake (\<lambda>_.
       bnd (parse_as CertificateVerifyTLS12_msg) (\<lambda>cert_verify.
       bnd (gets hs_settings) (\<lambda>st.
       thn (process_certificate_verify (env_crypto E) (env_asym E) (env_x509 E) session cert_verify
              (st_signature_algorithms st))
       (thn (next_handshake True)
       (goto (srv SRV_READ_CLIENT_FINISHED_TLS13) ST_OK))))))"

definition server_read_client_finished_tls13 :: "environment \<Rightarrow> ('a, Status) server_action" where
  "server_read_client_finished_tls13 E = with_handshake (\<lambda>_.
     bnd current_key_schedule (\<lambda>ks.
     bnd (parse_as Finished_msg) (\<lambda>m.
     case m of
       Finished verify_data \<Rightarrow>
         bnd get_state (\<lambda>s.
         thn (raise_if (has_unprocessed_data s) AlertUnexpectedMessage)
         (bnd (case hs_dec_secret s EPOCH_HANDSHAKE of Some x \<Rightarrow> ret x | None \<Rightarrow> raise KeyError) (\<lambda>secret.
         bnd (on_transcript (finished_verify_data (env_crypto E) ks secret)) (\<lambda>expected_verify_data.
         thn (raise_if (\<not> compare_digest verify_data expected_verify_data) AlertDecryptError)
         (thn (next_handshake True)
         (thn (hs_setup_traffic_tls13 (ep_setup_traffic E) DIR_READ EPOCH_APPLICATION_DATA)
         (goto (srv SRV_SEND_NEWSESSION_TICKET_TLS13) ST_OK)))))))
     | _ \<Rightarrow> raise TypeError)))"

subsection \<open>Tickets, and the end of the handshake\<close>

text \<open>The body of the loop that sends two tickets.\<close>

definition send_ticket_tls13 ::
    "environment \<Rightarrow> bytes \<Rightarrow> extensions \<Rightarrow> int \<Rightarrow> ('a, unit) server_action" where
  "send_ticket_tls13 E master_secret exts i =
     bnd (lift_result (int_to_bytes i (Some 1))) (\<lambda>ticket_nonce.
     bnd current_session (\<lambda>session.
     bnd (utcnow E) (\<lambda>now.
     bnd (get_random_bytes E 64) (\<lambda>ticket.
     bnd (get_random_bytes E 4) (\<lambda>age_add.
     bnd current_key_schedule (\<lambda>ks.
     bnd (lift_result (resumption_secret (env_crypto E) ks master_secret ticket_nonce)) (\<lambda>secret.
     let new_session = (session_copy True False now session)\<lparr>s_ticket := ticket,
           s_ticket_age_add := bytes_to_int age_add, s_not_resumable := False, s_secret := secret\<rparr>
     in
     bnd (encrypt_session new_session) (\<lambda>sealed.
     case sealed of
       Some t \<Rightarrow> do_if (t \<noteq> []) (add_message (NewSessionTicketTLS13
         \<lparr>nst13_ticket_lifetime = whole_seconds (s_timeout new_session),
          nst13_ticket_age_add = s_ticket_age_add new_session, nst13_ticket_nonce = ticket_nonce,
          nst13_ticket = t, nst13_extensions = exts\<rparr>) False)
     | None \<Rightarrow> ret ()))))))))"

definition server_send_new_session_ticket_tls13 :: "environment \<Rightarrow> ('a, Status) server_action" where
  "server_send_new_session_ticket_tls13 E = bnd get_state (\<lambda>s.
     if cfg_ticket_aead (st_configuration (hs_settings s)) = None
     then goto (srv SRV_FINISHED_SERVER_HANDSHAKE) ST_OK
     else
       bnd current_key_schedule (\<lambda>ks.
       bnd current_session (\<lambda>_.
       thn (assert_that (ks_generation ks = 3))
       (bnd (on_transcript (derive_secret (env_crypto E) ks (ascii ''res master''))) (\<lambda>master_secret.
       bnd (utcnow E) (\<lambda>now.
       thn (update_session (rebase_time now))
       (bnd (if srv_enable_early_data s \<and> srv_ticket_max_early_data s > 0 then
               bnd (lift_result (Extensions_append (EarlyDataExtension (srv_ticket_max_early_data s)) [])) (\<lambda>exts.
               thn (update_session (\<lambda>x. x\<lparr>s_ticket_max_early_data := srv_ticket_max_early_data s\<rparr>))
               (ret exts))
             else ret []) (\<lambda>exts.
       thn (for_each (send_ticket_tls13 E master_secret exts) [0, 1])
       (goto (srv SRV_FINISHED_SERVER_HANDSHAKE) ST_PACK_FLIGHT)))))))))"

definition server_finish_handshake :: "('a, Status) server_action" where
  "server_finish_handshake =
     bnd current_session (\<lambda>_.
     bnd (gets hs_session_reused) (\<lambda>reused.
     thn (do_if (\<not> reused) (update_session (\<lambda>x. x\<lparr>s_not_resumable := False\<rparr>)))
     (thn (modify (\<lambda>s. s\<lparr>hs_session_establish := True\<rparr>))
     (goto (srv SRV_DONE) ST_OK))))"

subsection \<open>After the handshake\<close>

definition server_post_handshake_tls13 :: "environment \<Rightarrow> Handshake \<Rightarrow> ('a, Status) server_action" where
  "server_post_handshake_tls13 E handshake =
     (if h_type handshake = ht HT_KEY_UPDATE then
        bnd (parse_as KeyUpdate_msg) (\<lambda>m.
        case m of
          KeyUpdate message_type \<Rightarrow>
            bnd get_state (\<lambda>s.
            thn (raise_if (has_unprocessed_data s) AlertUnexpectedMessage)
            (thn (raise_if (message_type \<noteq> ku KU_UPDATE_NOT_REQUESTED \<and> message_type \<noteq> ku KU_UPDATE_REQUESTED)
                   AlertIllegalParameter)
            (thn (next_handshake False)
            (thn (derive_upd_secret_tls13 (env_crypto E) (ep_setup_traffic E) DIR_READ)
            (if message_type = ku KU_UPDATE_REQUESTED then
               thn (write_key_update (ku KU_UPDATE_NOT_REQUESTED))
               (goto (srv SRV_COMPLETE_UPDATE_TRAFFIC) ST_PACK_FLIGHT)
             else ret ST_OK)))))
        | _ \<Rightarrow> raise TypeError)
      else raise AlertUnexpectedMessage)"

definition server_read_post_handshake :: "environment \<Rightarrow> ('a, Status) server_action" where
  "server_read_post_handshake E = bnd read_handshake (\<lambda>h.
     case h of
       None \<Rightarrow> goto (srv SRV_DONE) ST_OK
     | Some handshake \<Rightarrow>
         bnd protocol_version (\<lambda>version.
         if version \<ge> ver V_TLSv1_3 then server_post_handshake_tls13 E handshake
         else raise AlertUnexpectedMessage))"

definition server_process_update_traffic :: "('a, Status) server_action" where
  "server_process_update_traffic = goto (srv SRV_COMPLETE_UPDATE_TRAFFIC) ST_PACK_FLIGHT"

definition server_complete_update_traffic :: "environment \<Rightarrow> ('a, Status) server_action" where
  "server_complete_update_traffic E =
     thn (derive_upd_secret_tls13 (env_crypto E) (ep_setup_traffic E) DIR_WRITE)
     (goto (srv SRV_DONE) ST_OK)"

subsection \<open>Dispatch\<close>

text \<open>The table \<open>_handle_dispatch\<close>; one state has no handler.\<close>

primrec server_handler :: "environment \<Rightarrow> ServerState \<Rightarrow> ('a, Status) server_action option" where
  "server_handler E SRV_START_ACCEPT = Some server_start_accept"
| "server_handler E SRV_READ_CLIENT_HELLO = Some (server_read_client_hello E)"
| "server_handler E SRV_SELECT_PARAMETERS = Some (server_select_parameters E)"
| "server_handler E SRV_SEND_SERVER_HELLO = Some server_send_server_hello"
| "server_handler E SRV_SEND_SERVER_CERTIFICATE = Some server_send_server_certificate"
| "server_handler E SRV_SEND_SERVER_KEY_EXCHANGE = Some (server_send_server_key_exchange E)"
| "server_handler E SRV_SEND_SERVER_HELLO_DONE = Some server_send_server_hello_done"
| "server_handler E SRV_READ_CLIENT_CERTIFICATE = Some (server_read_client_certificate E)"
| "server_handler E SRV_VERIFY_CLIENT_CERTIFICATE = Some (server_verify_client_certificate E)"
| "server_handler E SRV_READ_CLIENT_KEY_EXCHANGE = Some (server_read_client_key_exchange E)"
| "server_handler E SRV_READ_CLIENT_CERTIFICATE_VERIFY = Some (server_read_client_certificate_verify E)"
| "server_handler E SRV_READ_CHANGE_CIPHER_SPEC = Some server_read_change_cipher_spec"
| "server_handler E SRV_PROCESS_CHANGE_CIPHER_SPEC = Some (server_process_change_cipher_spec E)"
| "server_handler E SRV_READ_NEXT_PROTO = Some server_read_next_proto"
| "server_handler E SRV_READ_CLIENT_FINISHED = Some (server_read_client_finished E)"
| "server_handler E SRV_SEND_SESSION_TICKET = Some (server_send_session_ticket E)"
| "server_handler E SRV_SEND_CHANGE_CIPHER_SPEC = Some server_send_change_cipher_spec"
| "server_handler E SRV_SEND_SERVER_FINISHED = Some (server_send_server_finished E)"
| "server_handler E SRV_SELECT_PARAMETERS_TLS13 = Some (server_select_parameters_tls13 E)"
| "server_handler E SRV_SEND_HELLO_RETRY_REQUEST_TLS13 = Some (server_send_hello_retry_request_tls13 E)"
| "server_handler E SRV_HRR_COMPAT_CSS_TLS13 = Some server_hrr_compat_ccs_tls13"
| "server_handler E SRV_READ_SECOND_CLIENT_HELLO_TLS13 = Some (server_read_second_client_hello_tls13 E)"
| "server_handler E SRV_SEND_SERVER_HELLO_TLS13 = Some (server_send_server_hello_tls13 E)"
| "server_handler E SRV_SERVER_HELLO_COMPAT_CSS_TLS13 = Some server_hello_compat_ccs_tls13"
| "server_handler E SRV_SEND_ENCRYPTED_EXTENSIONS_TLS13 = Some (server_send_encrypted_extensions_tls13 E)"
| "server_handler E SRV_SEND_SERVER_FINISHED_TLS13 = Some (server_send_server_finished_tls13 E)"
| "server_handler E SRV_READ_SECOND_CLIENT_FLIGHT_TLS13 = Some (server_read_second_client_flight_tls13 E)"
| "server_handler E SRV_PROCESS_END_OF_EARLY_DATA_TLS13 = Some (server_process_end_of_early_data_tls13 E)"
| "server_handler E SRV_READ_CLIENT_ENCRYPTED_EXTENSIONS_TLS13 = Some server_read_client_encrypted_extensions_tls13"
| "server_handler E SRV_READ_CLIENT_CERTIFICATE_TLS13 = Some (server_read_client_certificate_tls13 E)"
| "server_handler E SRV_READ_CLIENT_CERTIFICATE_VERIFY_TLS13 = Some (server_read_client_certificate_verify_tls13 E)"
| "server_handler E SRV_READ_CLIENT_FINISHED_TLS13 = Some (server_read_client_finished_tls13 E)"
| "server_handler E SRV_SEND_NEWSESSION_TICKET_TLS13 = Some (server_send_new_session_ticket_tls13 E)"
| "server_handler E SRV_FINISHED_SERVER_HANDSHAKE = Some server_finish_handshake"
| "server_handler E SRV_DONE = None"
| "server_handler E SRV_READ_POST_HANDSHAKE = Some (server_read_post_handshake E)"
| "server_handler E SRV_PROCESS_UPDATE_TRAFFIC = Some server_process_update_traffic"
| "server_handler E SRV_COMPLETE_UPDATE_TRAFFIC = Some (server_complete_update_traffic E)"

definition server_states :: "ServerState list" where
  "server_states = [SRV_START_ACCEPT, SRV_READ_CLIENT_HELLO, SRV_SELECT_PARAMETERS, SRV_SEND_SERVER_HELLO,
     SRV_SEND_SERVER_CERTIFICATE, SRV_SEND_SERVER_KEY_EXCHANGE, SRV_SEND_SERVER_HELLO_DONE,
     SRV_READ_CLIENT_CERTIFICATE, SRV_VERIFY_CLIENT_CERTIFICATE, SRV_READ_CLIENT_KEY_EXCHANGE,
     SRV_READ_CLIENT_CERTIFICATE_VERIFY, SRV_READ_CHANGE_CIPHER_SPEC, SRV_PROCESS_CHANGE_CIPHER_SPEC,
     SRV_READ_NEXT_PROTO, SRV_READ_CLIENT_FINISHED, SRV_SEND_SESSION_TICKET, SRV_SEND_CHANGE_CIPHER_SPEC,
     SRV_SEND_SERVER_FINISHED, SRV_SELECT_PARAMETERS_TLS13, SRV_SEND_HELLO_RETRY_REQUEST_TLS13,
     SRV_HRR_COMPAT_CSS_TLS13, SRV_READ_SECOND_CLIENT_HELLO_TLS13, SRV_SEND_SERVER_HELLO_TLS13,
     SRV_SERVER_HELLO_COMPAT_CSS_TLS13, SRV_SEND_ENCRYPTED_EXTENSIONS_TLS13, SRV_SEND_SERVER_FINISHED_TLS13,
     SRV_READ_SECOND_CLIENT_FLIGHT_TLS13, SRV_PROCESS_END_OF_EARLY_DATA_TLS13,
     SRV_READ_CLIENT_ENCRYPTED_EXTENSIONS_TLS13, SRV_READ_CLIENT_CERTIFICATE_TLS13,
     SRV_READ_CLIENT_CERTIFICATE_VERIFY_TLS13, SRV_READ_CLIENT_FINISHED_TLS13,
     SRV_SEND_NEWSESSION_TICKET_TLS13, SRV_FINISHED_SERVER_HANDSHAKE, SRV_DONE, SRV_READ_POST_HANDSHAKE,
     SRV_PROCESS_UPDATE_TRAFFIC, SRV_COMPLETE_UPDATE_TRAFFIC]"

definition server_dispatch :: "environment \<Rightarrow> int \<Rightarrow> ('a, Status) server_action option" where
  "server_dispatch E n =
     (case find (\<lambda>c. srv c = n) server_states of None \<Rightarrow> None | Some c \<Rightarrow> server_handler E c)"

text \<open>\<open>do_handshake\<close> of a server, and of a connection whose handshake is a server.\<close>

definition server_do_handshake :: "nat \<Rightarrow> environment \<Rightarrow> ('a, Status) server_action" where
  "server_do_handshake fuel E = hs_do_handshake_loop fuel hs_done (server_dispatch E) ST_OK"

definition server_accept :: "nat \<Rightarrow> environment \<Rightarrow> ('a, unit) server_action" where
  "server_accept fuel E = bnd (draw (env_random E)) (\<lambda>rnd.
     conn_do_handshake fuel (env_crypto E) rnd (server_do_handshake fuel E))"

end
