(* ===== verification/Server_Core.thy ===== *)
theory Server_Core
  imports Server_TLS13 Handshake_Stage
begin

text \<open>
  What the operations of the server handshake do to the core of its state.  The core is extended by one
  of the server's own fields: whether it has asked the client for a certificate.
\<close>

subsection \<open>The view of the server's fields\<close>

text \<open>The field of a record whose part beyond an endpoint is \<open>m\<close>; the endpoint does not matter.\<close>

definition requested :: "'a TLSServer_ext \<Rightarrow> bool" where
  "requested m \<longleftrightarrow> (\<forall>b :: Endpoint. srv_certificate_requested (Endpoint.extend b m))"

lemma requested_more [simp]: "requested (Endpoint.more s) = srv_certificate_requested s"
proof -
  have "srv_certificate_requested (Endpoint.extend b (Endpoint.more s)) = srv_certificate_requested s" for b :: Endpoint
    by (cases s) (simp add: Endpoint.defs)
  then show ?thesis by (simp add: requested_def)
qed

abbreviation server_core :: "'a TLSServer_scheme \<Rightarrow> bool handshake_core_scheme" where
  "server_core \<equiv> core_by (\<lambda>_. requested)"

abbreviation skeeps :: "(bool handshake_core_scheme \<Rightarrow> bool) \<Rightarrow> ('a, 'b) server_action \<Rightarrow> bool" where
  "skeeps \<equiv> gkeeps (\<lambda>_. requested)"

text \<open>The core with what \<open>w\<close> tells of the connection's edge and of that field.\<close>

abbreviation vkeeps ::
    "(connection_edge \<Rightarrow> bool \<Rightarrow> 'm) \<Rightarrow> ('m handshake_core_scheme \<Rightarrow> bool) \<Rightarrow> ('a, 'b) server_action \<Rightarrow> bool" where
  "vkeeps w \<equiv> gkeeps (\<lambda>e m. w e (requested m))"

subsection \<open>Operations that leave the core alone\<close>

lemma ckeeps_sum [core_rules]:
  "(\<And>e. x = Inl e \<Longrightarrow> gkeeps view P (f e)) \<Longrightarrow> (\<And>y. x = Inr y \<Longrightarrow> gkeeps view P (h y)) \<Longrightarrow>
   gkeeps view P (case x of Inl e \<Rightarrow> f e | Inr y \<Rightarrow> h y)"
  by (cases x) simp_all

lemma ckeeps_private_key [core_rules]:
  "(\<And>k. x = RSAPrivateKey k \<Longrightarrow> gkeeps view P (f k)) \<Longrightarrow> gkeeps view P m \<Longrightarrow>
   gkeeps view P (case x of RSAPrivateKey k \<Rightarrow> f k | _ \<Rightarrow> m)"
  by (cases x) simp_all

lemma skeeps_on_handshake [core_rules]: "gkeeps view P (on_handshake m)"
  by (rule ckeeps_same) (auto simp: on_handshake_def core_of_def split: prod.splits option.splits)

lemma ckeeps_for_each [core_rules]: "(\<And>x. gkeeps view P (f x)) \<Longrightarrow> gkeeps view P (for_each f xs)"
  by (induction xs) (auto intro!: ckeeps_basic ckeeps_thn)

lemma skeeps_process_extensions [core_rules]: "vkeeps w P (server_process_extensions exts)"
  unfolding server_process_extensions_def process_server_alpn_def process_server_extensions_tls13_def
    process_server_extensions_legacy_def process_server_renegotiation_def
  by (intro core_rules; simp add: core_side)

lemma skeeps_tickets [core_rules]:
  "vkeeps w P (ticket_context cs)" "vkeeps w P (decrypt_session E t)" "vkeeps w P (encrypt_session x)"
  unfolding decrypt_session_def encrypt_session_def ticket_context_def
  by (intro core_rules)+

lemma skeeps_acceptance [core_rules]: "vkeeps w P (apply_ech_acceptance E sh hrr)"
  unfolding apply_ech_acceptance_def Let_def by (intro core_rules; simp add: core_side)

lemma skeeps_server_public_key [core_rules]:
  "vkeeps w P (server_public_key E c)" "vkeeps w P (select_signature_algorithm E v key)"
  unfolding server_public_key_def select_signature_algorithm_def by (intro core_rules; simp add: core_side)+

lemma skeeps_server_key_exchange [core_rules]:
  "vkeeps w P (server_ecdhe_params E)" "vkeeps w P (server_dhe_params E)" "vkeeps w P (sign_server_key_exchange E v d)"
  unfolding server_ecdhe_params_def server_dhe_params_def sign_server_key_exchange_def Let_def
  by (intro core_rules; simp add: core_side)+

lemma skeeps_premaster [core_rules]:
  "vkeeps w P (rsa_client_premaster E cs v p)" "vkeeps w P (dh_client_premaster E cs p)"
  "vkeeps w P (server_master_secret E cs d)"
  unfolding rsa_client_premaster_def dh_client_premaster_def server_master_secret_def Let_def
  by (intro core_rules; simp add: core_side)+

lemma skeeps_parameters_tls13 [core_rules]:
  "vkeeps w P (certificate_session E v cs)" "vkeeps w P (select_group exts)" "vkeeps w P (add_server_alps exts x)"
  "vkeeps w P (server_early_data E e f hrr)"
  unfolding certificate_session_def select_group_def add_server_alps_def server_early_data_def
  by (intro core_rules; simp add: core_side)+

lemma skeeps_second_hello [core_rules]:
  "vkeeps w P (decrypt_second_ech E ch)" "vkeeps w P (check_second_hello v cs ch)" "vkeeps w P (second_key_share exts grp)"
  "vkeeps w P (second_cookie exts cookie)" "vkeeps w P (second_psk E exts)"
  unfolding decrypt_second_ech_def check_second_hello_def second_key_share_def second_cookie_def second_psk_def Let_def
  by (intro core_rules; simp add: core_side)+

lemma skeeps_flight_tls13 [core_rules]:
  "vkeeps w P (server_key_share E)" "vkeeps w P (send_server_certificate_tls13 E)" "vkeeps w P (send_ticket_tls13 E ms exts i)"
  unfolding server_key_share_def send_server_certificate_tls13_def send_ticket_tls13_def Let_def
  by (intro core_rules; simp add: core_side)+

subsection \<open>The state graph\<close>

text \<open>The states a handler can leave its state for.\<close>

fun server_next :: "ServerState \<Rightarrow> ServerState list" where
  "server_next SRV_START_ACCEPT = [SRV_READ_CLIENT_HELLO]"
| "server_next SRV_READ_CLIENT_HELLO = [SRV_SELECT_PARAMETERS_TLS13, SRV_SELECT_PARAMETERS]"
| "server_next SRV_SELECT_PARAMETERS = [SRV_SEND_SERVER_HELLO]"
| "server_next SRV_SEND_SERVER_HELLO = [SRV_SEND_SESSION_TICKET, SRV_SEND_SERVER_CERTIFICATE]"
| "server_next SRV_SEND_SERVER_CERTIFICATE = [SRV_SEND_SERVER_KEY_EXCHANGE]"
| "server_next SRV_SEND_SERVER_KEY_EXCHANGE = [SRV_SEND_SERVER_HELLO_DONE]"
| "server_next SRV_SEND_SERVER_HELLO_DONE = [SRV_READ_CLIENT_CERTIFICATE]"
| "server_next SRV_READ_CLIENT_CERTIFICATE = [SRV_VERIFY_CLIENT_CERTIFICATE]"
| "server_next SRV_VERIFY_CLIENT_CERTIFICATE = [SRV_READ_CLIENT_KEY_EXCHANGE]"
| "server_next SRV_READ_CLIENT_KEY_EXCHANGE = [SRV_READ_CLIENT_CERTIFICATE_VERIFY]"
| "server_next SRV_READ_CLIENT_CERTIFICATE_VERIFY = [SRV_READ_CHANGE_CIPHER_SPEC]"
| "server_next SRV_READ_CHANGE_CIPHER_SPEC = [SRV_PROCESS_CHANGE_CIPHER_SPEC]"
| "server_next SRV_PROCESS_CHANGE_CIPHER_SPEC = [SRV_READ_NEXT_PROTO]"
| "server_next SRV_READ_NEXT_PROTO = [SRV_READ_CLIENT_FINISHED]"
| "server_next SRV_READ_CLIENT_FINISHED = [SRV_FINISHED_SERVER_HANDSHAKE, SRV_SEND_SESSION_TICKET]"
| "server_next SRV_SEND_SESSION_TICKET = [SRV_SEND_CHANGE_CIPHER_SPEC]"
| "server_next SRV_SEND_CHANGE_CIPHER_SPEC = [SRV_SEND_SERVER_FINISHED]"
| "server_next SRV_SEND_SERVER_FINISHED = [SRV_READ_CHANGE_CIPHER_SPEC, SRV_FINISHED_SERVER_HANDSHAKE]"
| "server_next SRV_SELECT_PARAMETERS_TLS13 = [SRV_SEND_HELLO_RETRY_REQUEST_TLS13, SRV_SEND_SERVER_HELLO_TLS13]"
| "server_next SRV_SEND_HELLO_RETRY_REQUEST_TLS13 = [SRV_HRR_COMPAT_CSS_TLS13]"
| "server_next SRV_HRR_COMPAT_CSS_TLS13 = [SRV_READ_SECOND_CLIENT_HELLO_TLS13]"
| "server_next SRV_READ_SECOND_CLIENT_HELLO_TLS13 = [SRV_SEND_SERVER_HELLO_TLS13]"
| "server_next SRV_SEND_SERVER_HELLO_TLS13 = [SRV_SERVER_HELLO_COMPAT_CSS_TLS13]"
| "server_next SRV_SERVER_HELLO_COMPAT_CSS_TLS13 = [SRV_SEND_ENCRYPTED_EXTENSIONS_TLS13]"
| "server_next SRV_SEND_ENCRYPTED_EXTENSIONS_TLS13 = [SRV_SEND_SERVER_FINISHED_TLS13]"
| "server_next SRV_SEND_SERVER_FINISHED_TLS13 = [SRV_READ_SECOND_CLIENT_FLIGHT_TLS13]"
| "server_next SRV_READ_SECOND_CLIENT_FLIGHT_TLS13 = [SRV_PROCESS_END_OF_EARLY_DATA_TLS13]"
| "server_next SRV_PROCESS_END_OF_EARLY_DATA_TLS13 = [SRV_READ_CLIENT_ENCRYPTED_EXTENSIONS_TLS13]"
| "server_next SRV_READ_CLIENT_ENCRYPTED_EXTENSIONS_TLS13 = [SRV_READ_CLIENT_CERTIFICATE_TLS13]"
| "server_next SRV_READ_CLIENT_CERTIFICATE_TLS13 = [SRV_READ_CLIENT_FINISHED_TLS13, SRV_READ_CLIENT_CERTIFICATE_VERIFY_TLS13]"
| "server_next SRV_READ_CLIENT_CERTIFICATE_VERIFY_TLS13 = [SRV_READ_CLIENT_FINISHED_TLS13]"
| "server_next SRV_READ_CLIENT_FINISHED_TLS13 = [SRV_SEND_NEWSESSION_TICKET_TLS13]"
| "server_next SRV_SEND_NEWSESSION_TICKET_TLS13 = [SRV_FINISHED_SERVER_HANDSHAKE]"
| "server_next SRV_FINISHED_SERVER_HANDSHAKE = [SRV_DONE]"
| "server_next SRV_READ_POST_HANDSHAKE = [SRV_DONE, SRV_COMPLETE_UPDATE_TRAFFIC]"
| "server_next SRV_PROCESS_UPDATE_TRAFFIC = [SRV_COMPLETE_UPDATE_TRAFFIC]"
| "server_next SRV_COMPLETE_UPDATE_TRAFFIC = [SRV_DONE]"
| "server_next _ = []"

definition in_server_state :: "ServerState list \<Rightarrow> 'm handshake_core_scheme \<Rightarrow> bool" where
  "in_server_state xs c \<longleftrightarrow> co_state c \<in> srv ` set xs"

lemma in_server_state_update [simp]:
  "in_server_state xs (c\<lparr>co_state := srv x\<rparr>) \<longleftrightarrow> srv x \<in> srv ` set xs"
  "in_server_state xs (c\<lparr>co_peer := p\<rparr>) = in_server_state xs c"
  "in_server_state xs (c\<lparr>co_reused := b\<rparr>) = in_server_state xs c"
  "in_server_state xs (c\<lparr>co_ech := e\<rparr>) = in_server_state xs c"
  by (simp_all add: in_server_state_def)

text \<open>The parts of a handler that change the core; what they change is a condition on the property.\<close>

lemma core_by_ech: "core_by view (s\<lparr>hs_ech_status := e\<rparr>) = (core_by view s)\<lparr>co_ech := e\<rparr>"
  by (simp add: core_of_def)

lemma core_by_reused: "core_by view (s\<lparr>hs_session_reused := b\<rparr>) = (core_by view s)\<lparr>co_reused := b\<rparr>"
  by (simp add: core_of_def)

lemma server_core_updates:
  "core_by (\<lambda>e m. w e (requested m)) (s\<lparr>hs_ech_status := e', srv_ech_context := x\<rparr>) =
     (core_by (\<lambda>e m. w e (requested m)) s)\<lparr>co_ech := e'\<rparr>"
  "core_by (\<lambda>e m. w e (requested m)) (s\<lparr>hs_session_reused := b, srv_psk_index := i, srv_pre_shared_key := k\<rparr>) =
     (core_by (\<lambda>e m. w e (requested m)) s)\<lparr>co_reused := b\<rparr>"
  by (simp_all add: core_of_def)

lemma skeeps_decrypt_ech_with:
  assumes "\<And>c e. P c \<Longrightarrow> P (c\<lparr>co_ech := e\<rparr>)"
  shows "vkeeps w P (decrypt_ech_with E ks ch ech aad)"
proof (induction ks arbitrary: ch aad)
  case Nil
  show ?case unfolding decrypt_ech_with.simps by (intro core_rules) (simp only: core_by_ech assms)
next
  case (Cons k ks)
  show ?case unfolding decrypt_ech_with.simps Let_def by (intro core_rules Cons) (simp only: server_core_updates assms)
qed

lemma skeeps_accept_ech [core_rules]:
  assumes "\<And>c e. P c \<Longrightarrow> P (c\<lparr>co_ech := e\<rparr>)"
  shows "vkeeps w P (accept_ech E ch)"
  unfolding accept_ech_def decrypt_ech_def by (intro core_rules skeeps_decrypt_ech_with assms)

lemma skeeps_select_psk:
  assumes "\<And>c. P c \<Longrightarrow> P (c\<lparr>co_reused := True\<rparr>)"
  shows "vkeeps w P (select_psk E cs binders transcript n psks)"
proof (induction psks arbitrary: n)
  case (Cons psk psks)
  show ?case unfolding select_psk.simps by (intro core_rules Cons) (simp only: server_core_updates assms)
qed (simp add: ckeeps_basic)

lemma skeeps_process_psk [core_rules]:
  assumes "\<And>c. P c \<Longrightarrow> P (c\<lparr>co_reused := True\<rparr>)"
  shows "vkeeps w P (process_psk E cs exts e)"
  unfolding process_psk_def Let_def by (intro core_rules skeeps_select_psk assms)

lemmas server_handler_defs =
  server_start_accept_def server_read_client_hello_def server_select_parameters_def server_send_server_hello_def
  server_send_server_certificate_def server_send_server_key_exchange_def server_send_server_hello_done_def
  server_read_client_certificate_def server_verify_client_certificate_def server_read_client_key_exchange_def
  server_read_client_certificate_verify_def server_read_change_cipher_spec_def
  server_process_change_cipher_spec_def server_read_next_proto_def server_read_client_finished_def
  server_send_session_ticket_def server_send_change_cipher_spec_def server_send_server_finished_def
  server_select_parameters_tls13_def server_send_hello_retry_request_tls13_def server_hrr_compat_ccs_tls13_def
  server_read_second_client_hello_tls13_def server_send_server_hello_tls13_def server_hello_compat_ccs_tls13_def
  server_send_encrypted_extensions_tls13_def server_send_server_finished_tls13_def
  server_read_second_client_flight_tls13_def server_process_end_of_early_data_tls13_def
  server_read_client_encrypted_extensions_tls13_def server_read_client_certificate_tls13_def
  server_read_client_certificate_verify_tls13_def server_read_client_finished_tls13_def
  server_send_new_session_ticket_tls13_def server_finish_handshake_def server_read_post_handshake_def
  server_process_update_traffic_def server_complete_update_traffic_def process_client_hello_def
  record_peer_offers_def run_client_hello_callback_def server_session_def process_hello_tls13_def
  send_certificate_request_tls13_def handshake_read_keys_def server_post_handshake_tls13_def

lemmas server_graph = server_next.simps in_server_state_def core_side

text \<open>No handler leaves the graph, whether it returns or raises.\<close>

lemma server_edges [core_rules]:
  "skeeps (in_server_state (SRV_START_ACCEPT # server_next SRV_START_ACCEPT)) server_start_accept"
  "skeeps (in_server_state (SRV_READ_CLIENT_HELLO # server_next SRV_READ_CLIENT_HELLO)) (server_read_client_hello E)"
  "skeeps (in_server_state (SRV_SELECT_PARAMETERS # server_next SRV_SELECT_PARAMETERS)) (server_select_parameters E)"
  "skeeps (in_server_state (SRV_SEND_SERVER_HELLO # server_next SRV_SEND_SERVER_HELLO)) server_send_server_hello"
  "skeeps (in_server_state (SRV_SEND_SERVER_CERTIFICATE # server_next SRV_SEND_SERVER_CERTIFICATE)) server_send_server_certificate"
  "skeeps (in_server_state (SRV_SEND_SERVER_KEY_EXCHANGE # server_next SRV_SEND_SERVER_KEY_EXCHANGE)) (server_send_server_key_exchange E)"
  "skeeps (in_server_state (SRV_SEND_SERVER_HELLO_DONE # server_next SRV_SEND_SERVER_HELLO_DONE)) server_send_server_hello_done"
  "skeeps (in_server_state (SRV_READ_CLIENT_CERTIFICATE # server_next SRV_READ_CLIENT_CERTIFICATE)) (server_read_client_certificate E)"
  "skeeps (in_server_state (SRV_VERIFY_CLIENT_CERTIFICATE # server_next SRV_VERIFY_CLIENT_CERTIFICATE)) (server_verify_client_certificate E)"
  "skeeps (in_server_state (SRV_READ_CLIENT_KEY_EXCHANGE # server_next SRV_READ_CLIENT_KEY_EXCHANGE)) (server_read_client_key_exchange E)"
  "skeeps (in_server_state (SRV_READ_CLIENT_CERTIFICATE_VERIFY # server_next SRV_READ_CLIENT_CERTIFICATE_VERIFY)) (server_read_client_certificate_verify E)"
  "skeeps (in_server_state (SRV_READ_CHANGE_CIPHER_SPEC # server_next SRV_READ_CHANGE_CIPHER_SPEC)) server_read_change_cipher_spec"
  "skeeps (in_server_state (SRV_PROCESS_CHANGE_CIPHER_SPEC # server_next SRV_PROCESS_CHANGE_CIPHER_SPEC)) (server_process_change_cipher_spec E)"
  "skeeps (in_server_state (SRV_READ_NEXT_PROTO # server_next SRV_READ_NEXT_PROTO)) server_read_next_proto"
  "skeeps (in_server_state (SRV_READ_CLIENT_FINISHED # server_next SRV_READ_CLIENT_FINISHED)) (server_read_client_finished E)"
  "skeeps (in_server_state (SRV_SEND_SESSION_TICKET # server_next SRV_SEND_SESSION_TICKET)) (server_send_session_ticket E)"
  "skeeps (in_server_state (SRV_SEND_CHANGE_CIPHER_SPEC # server_next SRV_SEND_CHANGE_CIPHER_SPEC)) server_send_change_cipher_spec"
  "skeeps (in_server_state (SRV_SEND_SERVER_FINISHED # server_next SRV_SEND_SERVER_FINISHED)) (server_send_server_finished E)"
  "skeeps (in_server_state (SRV_SELECT_PARAMETERS_TLS13 # server_next SRV_SELECT_PARAMETERS_TLS13)) (server_select_parameters_tls13 E)"
  "skeeps (in_server_state (SRV_SEND_HELLO_RETRY_REQUEST_TLS13 # server_next SRV_SEND_HELLO_RETRY_REQUEST_TLS13)) (server_send_hello_retry_request_tls13 E)"
  "skeeps (in_server_state (SRV_HRR_COMPAT_CSS_TLS13 # server_next SRV_HRR_COMPAT_CSS_TLS13)) server_hrr_compat_ccs_tls13"
  "skeeps (in_server_state (SRV_READ_SECOND_CLIENT_HELLO_TLS13 # server_next SRV_READ_SECOND_CLIENT_HELLO_TLS13)) (server_read_second_client_hello_tls13 E)"
  "skeeps (in_server_state (SRV_SEND_SERVER_HELLO_TLS13 # server_next SRV_SEND_SERVER_HELLO_TLS13)) (server_send_server_hello_tls13 E)"
  "skeeps (in_server_state (SRV_SERVER_HELLO_COMPAT_CSS_TLS13 # server_next SRV_SERVER_HELLO_COMPAT_CSS_TLS13)) server_hello_compat_ccs_tls13"
  "skeeps (in_server_state (SRV_SEND_ENCRYPTED_EXTENSIONS_TLS13 # server_next SRV_SEND_ENCRYPTED_EXTENSIONS_TLS13)) (server_send_encrypted_extensions_tls13 E)"
  "skeeps (in_server_state (SRV_SEND_SERVER_FINISHED_TLS13 # server_next SRV_SEND_SERVER_FINISHED_TLS13)) (server_send_server_finished_tls13 E)"
  "skeeps (in_server_state (SRV_READ_SECOND_CLIENT_FLIGHT_TLS13 # server_next SRV_READ_SECOND_CLIENT_FLIGHT_TLS13)) (server_read_second_client_flight_tls13 E)"
  "skeeps (in_server_state (SRV_PROCESS_END_OF_EARLY_DATA_TLS13 # server_next SRV_PROCESS_END_OF_EARLY_DATA_TLS13)) (server_process_end_of_early_data_tls13 E)"
  "skeeps (in_server_state (SRV_READ_CLIENT_ENCRYPTED_EXTENSIONS_TLS13 # server_next SRV_READ_CLIENT_ENCRYPTED_EXTENSIONS_TLS13)) server_read_client_encrypted_extensions_tls13"
  "skeeps (in_server_state (SRV_READ_CLIENT_CERTIFICATE_TLS13 # server_next SRV_READ_CLIENT_CERTIFICATE_TLS13)) (server_read_client_certificate_tls13 E)"
  "skeeps (in_server_state (SRV_READ_CLIENT_CERTIFICATE_VERIFY_TLS13 # server_next SRV_READ_CLIENT_CERTIFICATE_VERIFY_TLS13)) (server_read_client_certificate_verify_tls13 E)"
  "skeeps (in_server_state (SRV_READ_CLIENT_FINISHED_TLS13 # server_next SRV_READ_CLIENT_FINISHED_TLS13)) (server_read_client_finished_tls13 E)"
  "skeeps (in_server_state (SRV_SEND_NEWSESSION_TICKET_TLS13 # server_next SRV_SEND_NEWSESSION_TICKET_TLS13)) (server_send_new_session_ticket_tls13 E)"
  "skeeps (in_server_state (SRV_FINISHED_SERVER_HANDSHAKE # server_next SRV_FINISHED_SERVER_HANDSHAKE)) server_finish_handshake"
  "skeeps (in_server_state (SRV_READ_POST_HANDSHAKE # server_next SRV_READ_POST_HANDSHAKE)) (server_read_post_handshake E)"
  "skeeps (in_server_state (SRV_PROCESS_UPDATE_TRAFFIC # server_next SRV_PROCESS_UPDATE_TRAFFIC)) server_process_update_traffic"
  "skeeps (in_server_state (SRV_COMPLETE_UPDATE_TRAFFIC # server_next SRV_COMPLETE_UPDATE_TRAFFIC)) (server_complete_update_traffic E)"
  unfolding server_handler_defs Let_def by (intro core_rules; simp add: server_graph)+

lemma server_handler_edges: "server_handler E x = Some h \<Longrightarrow> skeeps (in_server_state (x # server_next x)) h"
  by (cases x; simp only: server_handler.simps option.inject option.distinct; (hypsubst, rule server_edges)?)

subsection \<open>The edge of the connection\<close>

text \<open>No handler touches the output of the connection, its shutdown or its counters.\<close>

lemma server_handler_edge:
  "server_handler E x = Some h \<Longrightarrow> gkeeps (\<lambda>e _. e) (\<lambda>c. handshake_core.more c = e) h"
  apply (cases x; simp only: server_handler.simps option.inject option.distinct simp_thms; hypsubst?)
  unfolding server_handler_defs Let_def
  by (intro core_rules; simp add: core_side)+

end
