(* ===== verification/Server_Laws.thy ===== *)
theory Server_Laws
  imports Server_Core
begin

text \<open>
  The stages of the server handshake: the version, the cipher suite, the request for a certificate, the
  client's certificate and its verification.  The stages build on one another; each is a \<open>stage\<close> of
  \<open>Handshake_Stage\<close>, so that its property holds in the late states after every history of calls.
\<close>

subsection \<open>The table of handlers\<close>

lemma find_srv: "find (\<lambda>c. srv c = srv x) server_states = Some x"
  by (cases x) (simp_all add: server_states_def)

lemma srv_inject [simp]: "srv x = srv y \<longleftrightarrow> x = y"
  by (metis find_srv option.inject)

lemma srv_image [simp]: "srv x \<in> srv ` A \<longleftrightarrow> x \<in> A"
  by auto

declare srv.simps [simp del]

lemma server_dispatch_Some:
  assumes "server_dispatch E n = Some h"
  shows "\<exists>x. n = srv x \<and> server_handler E x = Some h"
proof -
  from assms obtain x where f: "find (\<lambda>c. srv c = n) server_states = Some x" "server_handler E x = Some h"
    by (auto simp: server_dispatch_def split: option.splits)
  moreover from f(1) have "srv x = n" by (auto simp: find_Some_iff)
  ultimately show ?thesis by blast
qed

text \<open>
  What the handlers can change of the core besides the state: the early ones decide about the settings and
  the parameters, three handlers about what is known of the client.
\<close>

definition same_role :: "'m handshake_core_scheme \<Rightarrow> 'm handshake_core_scheme \<Rightarrow> bool" where
  "same_role c d \<longleftrightarrow> co_is_server c = co_is_server d \<and> co_early_version c = co_early_version d"

definition same_settings :: "'m handshake_core_scheme \<Rightarrow> 'm handshake_core_scheme \<Rightarrow> bool" where
  "same_settings c d \<longleftrightarrow> same_role c d \<and> co_settings c = co_settings d \<and> co_version c = co_version d"

definition same_decisions :: "bool handshake_core_scheme \<Rightarrow> bool handshake_core_scheme \<Rightarrow> bool" where
  "same_decisions c d \<longleftrightarrow> same_settings c d \<and> co_suite c = co_suite d \<and> co_reused c = co_reused d \<and>
     (handshake_core.more c \<longrightarrow> handshake_core.more d)"

definition same_client :: "bool handshake_core_scheme \<Rightarrow> bool handshake_core_scheme \<Rightarrow> bool" where
  "same_client c d \<longleftrightarrow> same_decisions c d \<and> co_peer c = co_peer d"

lemmas same_server_defs = same_role_def same_settings_def same_decisions_def same_client_def

lemma stable_server:
  "stable_under same_role V \<Longrightarrow> stable_under same_settings V"
  "stable_under same_settings V \<Longrightarrow> stable_under same_decisions V"
  "stable_under same_decisions V \<Longrightarrow> stable_under same_client V"
  unfolding stable_under_def same_server_defs by blast+

definition selecting :: "ServerState set" where
  "selecting = {SRV_READ_CLIENT_HELLO, SRV_SELECT_PARAMETERS, SRV_SELECT_PARAMETERS_TLS13}"

definition certifying :: "ServerState set" where
  "certifying = {SRV_READ_CLIENT_CERTIFICATE, SRV_VERIFY_CLIENT_CERTIFICATE, SRV_READ_CLIENT_CERTIFICATE_TLS13}"

lemma hello_step:
  assumes V: "stable_under same_role V"
  shows "skeeps V (server_read_client_hello E)"
  unfolding server_read_client_hello_def process_client_hello_def record_peer_offers_def run_client_hello_callback_def
  by (intro core_rules; ((erule stableD [OF _ V]; simp add: same_server_defs core_side) | simp add: core_side))

lemma selecting_steps:
  assumes V: "stable_under same_settings V"
  shows "skeeps V (server_select_parameters E)" "skeeps V (server_select_parameters_tls13 E)"
  unfolding server_select_parameters_def server_select_parameters_tls13_def server_session_def
    process_hello_tls13_def Let_def
  by (intro core_rules; ((erule stableD [OF _ V]; simp add: same_server_defs core_side) | simp add: core_side))+

lemma certifying_steps:
  assumes V: "stable_under same_decisions V"
  shows "skeeps V (server_read_client_certificate E)" "skeeps V (server_verify_client_certificate E)"
    "skeeps V (server_read_client_certificate_tls13 E)"
  unfolding server_read_client_certificate_def server_verify_client_certificate_def
    server_read_client_certificate_tls13_def
  by (intro core_rules; ((erule stableD [OF _ V]; simp add: same_server_defs core_side) | simp add: core_side))+

lemma server_plain_steps:
  assumes V: "stable_under same_client V"
  shows "skeeps V server_start_accept" "skeeps V server_send_server_hello" "skeeps V server_send_server_certificate"
    "skeeps V (server_send_server_key_exchange E)" "skeeps V server_send_server_hello_done"
    "skeeps V (server_read_client_key_exchange E)" "skeeps V (server_read_client_certificate_verify E)"
    "skeeps V server_read_change_cipher_spec" "skeeps V (server_process_change_cipher_spec E)"
    "skeeps V server_read_next_proto" "skeeps V (server_read_client_finished E)"
    "skeeps V (server_send_session_ticket E)" "skeeps V server_send_change_cipher_spec"
    "skeeps V (server_send_server_finished E)" "skeeps V (server_send_hello_retry_request_tls13 E)"
    "skeeps V server_hrr_compat_ccs_tls13" "skeeps V (server_read_second_client_hello_tls13 E)"
    "skeeps V (server_send_server_hello_tls13 E)" "skeeps V server_hello_compat_ccs_tls13"
    "skeeps V (server_send_encrypted_extensions_tls13 E)" "skeeps V (server_send_server_finished_tls13 E)"
    "skeeps V (server_read_second_client_flight_tls13 E)" "skeeps V (server_process_end_of_early_data_tls13 E)"
    "skeeps V server_read_client_encrypted_extensions_tls13"
    "skeeps V (server_read_client_certificate_verify_tls13 E)" "skeeps V (server_read_client_finished_tls13 E)"
    "skeeps V (server_send_new_session_ticket_tls13 E)" "skeeps V server_finish_handshake"
    "skeeps V (server_read_post_handshake E)" "skeeps V server_process_update_traffic"
    "skeeps V (server_complete_update_traffic E)"
  unfolding server_handler_defs Let_def
  by (intro core_rules; ((erule stableD [OF _ V]; simp add: same_server_defs core_side) | simp add: core_side))+

lemma server_handler_kept:
  assumes h: "server_handler E x = Some h"
  shows "stable_under same_role V \<Longrightarrow> skeeps V h"
    "x \<noteq> SRV_READ_CLIENT_HELLO \<Longrightarrow> stable_under same_settings V \<Longrightarrow> skeeps V h"
    "x \<notin> selecting \<Longrightarrow> stable_under same_decisions V \<Longrightarrow> skeeps V h"
    "x \<notin> selecting \<union> certifying \<Longrightarrow> stable_under same_client V \<Longrightarrow> skeeps V h"
proof -
  show 4: "skeeps V h" if "x \<notin> selecting \<union> certifying" "stable_under same_client V" for V
    using h that(1) by (cases x) (auto simp: selecting_def certifying_def intro: server_plain_steps [OF that(2)])
  show 3: "skeeps V h" if "x \<notin> selecting" "stable_under same_decisions V" for V
    using h that 4 stable_server(3) [OF that(2)] certifying_steps [OF that(2)]
    by (cases "x \<in> certifying") (auto simp: certifying_def)
  show 2: "skeeps V h" if "x \<noteq> SRV_READ_CLIENT_HELLO" "stable_under same_settings V" for V
    using h that 3 stable_server(2) [OF that(2)] selecting_steps [OF that(2)]
    by (cases "x \<in> selecting") (auto simp: selecting_def)
  show "skeeps V h" if "stable_under same_role V" for V
    using h that 2 stable_server(1) [OF that] hello_step [OF that] by (cases "x = SRV_READ_CLIENT_HELLO") auto
qed

interpretation server_table: state_machine requested True srv
  "server_handler E :: ServerState \<Rightarrow> ('a, Status) server_action option" "server_dispatch E" server_next
  for E :: environment
proof unfold_locales
  fix x and h :: "('a, Status) server_action" assume h: "server_handler E x = Some h"
  show "skeeps (\<lambda>c. co_state c \<in> srv ` set (x # server_next x)) h"
    using server_handler_edges [OF h] unfolding in_server_state_def .
  show "skeeps (\<lambda>c. co_is_server c = True) h"
    by (rule server_handler_kept(1) [OF h]) (simp add: stable_under_def same_role_def)
qed (auto dest: server_dispatch_Some)

subsection \<open>More triples\<close>

lemma choare_weaken:
  "gchoare view P m Q X \<Longrightarrow> (\<And>y c. Q y c \<Longrightarrow> Q' y c) \<Longrightarrow> (\<And>c. X c \<Longrightarrow> X' c) \<Longrightarrow> gchoare view P m Q' X'"
  unfolding gchoare_def by (erule hoare_conseq) auto

lemma ckeeps_choare: "gchoare view P m (\<lambda>_. P) P \<Longrightarrow> gkeeps view P m"
  by (rule ckeepsI) (rule choareD)

lemma choare_modify: "(\<And>s. P (core_by view s) \<Longrightarrow> Q () (core_by view (f s))) \<Longrightarrow> gchoare view P (modify f) Q X"
  by (auto simp: gchoare_def hoare_def action_simps)

lemma choare_case_client_hello:
  assumes "\<And>c. P c \<Longrightarrow> X c" and "\<And>ch. gchoare view P (f ch) Q X"
  shows "gchoare view P (case m of ClientHello ch \<Rightarrow> f ch | _ \<Rightarrow> raise TypeError) Q X"
  using assms by (cases m) (auto intro: choare_raise)

lemma choare_client_hello:
  assumes "\<And>c. P c \<Longrightarrow> X c" and "\<And>c. P c \<Longrightarrow> Q ST_READ_HANDSHAKE c" and "\<And>h ch. gchoare view P (f h ch) Q X"
  shows "gchoare view P (with_handshake (\<lambda>h. bnd (parse_as ClientHello_msg) (\<lambda>m.
     case m of ClientHello ch \<Rightarrow> f h ch | _ \<Rightarrow> raise TypeError))) Q X"
  by (intro choare_with_handshake choare_bnd_keep ckeeps_parse_as choare_case_client_hello assms)

text \<open>What is known of the value that an action returns.\<close>

lemma choare_bnd_fact:
  assumes "gkeeps view P m" and "\<And>s y t. m s = (Inr y, t) \<Longrightarrow> F y" and "\<And>c. P c \<Longrightarrow> X c"
    and "\<And>y. F y \<Longrightarrow> gchoare view P (f y) Q X"
  shows "gchoare view P (bnd m f) Q X"
proof (rule choare_bnd [where R = "\<lambda>y c. F y \<and> P c"])
  show "gchoare view P m (\<lambda>y c. F y \<and> P c) X"
    by (rule choareI) (use assms(1-3) ckeepsD in \<open>blast+\<close>)
  show "gchoare view (\<lambda>c. F y \<and> P c) (f y) Q X" for y
  proof (cases "F y")
    case True
    show ?thesis by (rule choare_pre [OF assms(4) [OF True]]) simp
  qed (simp add: gchoare_def hoare_def)
qed

lemma choare_current_session:
  assumes "\<And>c. P c \<Longrightarrow> X c" and "\<And>x. gchoare view (\<lambda>c. P c \<and> co_peer c = Some (peer_info x)) (f x) Q X"
  shows "gchoare view P (bnd current_session f) Q X"
  using assms unfolding gchoare_def hoare_def current_session_def assert_some_def
  by (auto simp: action_simps split: option.splits)

lemma server_core_eqD:
  assumes "server_core s = server_core t"
  shows "hs_is_server s = hs_is_server t \<and> hs_state s = hs_state t \<and> hs_settings s = hs_settings t \<and>
     hs_version s = hs_version t \<and> hs_is_early_version s = hs_is_early_version t \<and>
     hs_cipher_suite s = hs_cipher_suite t \<and> hs_session_reused s = hs_session_reused t \<and>
     srv_certificate_requested s = srv_certificate_requested t \<and>
     map_option peer_info (hs_session s) = map_option peer_info (hs_session t)"
  using assms by (simp add: core_of_def)

subsection \<open>Version\<close>

definition version_pending :: "ServerState set" where
  "version_pending = {SRV_START_ACCEPT, SRV_READ_CLIENT_HELLO}"

lemma negotiate_Some:
  "negotiate supported offered e = Inr (Some x) \<Longrightarrow> x \<in> set supported \<and> (\<exists>xs. offered = Some xs \<and> x \<in> set xs)"
  by (auto simp: negotiate_def find_Some_iff split: option.splits)

lemma client_hello_version_range:
  "client_hello_version st ch = Inr (v, offered) \<Longrightarrow> st_minimum_version st \<le> v \<and> v \<le> st_maximum_version st"
  by (auto simp: client_hello_version_def Let_def rbind_Inr_iff dest!: negotiate_Some
      split: if_splits option.splits)

lemma version_client_hello:
  "gchoare (\<lambda>_. requested) (server_table.at_state SRV_READ_CLIENT_HELLO (\<lambda>c. \<not> co_early_version c)) (server_read_client_hello E)
     (\<lambda>_ c. co_state c \<in> srv ` version_pending \<or> version_ok c)
     (\<lambda>c. co_state c \<in> srv ` version_pending \<or> version_ok c)"
proof -
  let ?P = "\<lambda>c :: bool handshake_core_scheme. \<not> co_early_version c \<and> co_state c = srv SRV_READ_CLIENT_HELLO"
  have early: "co_state c \<in> srv ` version_pending \<or> version_ok c" if "?P c" for c
    using that by (simp add: version_pending_def)
  show ?thesis
    unfolding server_read_client_hello_def process_client_hello_def record_peer_offers_def run_client_hello_callback_def
    apply (rule choare_pre [where R = ?P])
     apply (rule choare_client_hello, erule early, erule early)
     apply (rule choare_bnd_keep, intro core_rules, simp, erule early)
     apply (rule choare_bnd_keep, intro core_rules, erule early)
     apply (rule choare_thn_keep, intro core_rules, simp add: core_side, erule early)
     apply (rule choare_gets, rule choare_bnd_lift, simp add: early version_pending_def, rule choare_branches(3))
     apply (rule choare_modify_thn [where R = version_ok])
       apply (auto simp: version_ok_def dest!: server_core_eqD dest: client_hello_version_range) [1]
      apply (intro core_rules; simp add: core_side version_ok_def)
     apply (simp_all add: server_table.at_state_def)
    done
qed

interpretation server_role: machine_invariant requested True srv
  "server_handler E :: ServerState \<Rightarrow> ('a, Status) server_action option" "server_dispatch E" server_next
  "\<lambda>c. \<not> co_early_version c" for E :: environment
proof unfold_locales
  fix x and h :: "('a, Status) server_action" assume h: "server_handler E x = Some h"
  have "skeeps (\<lambda>c. \<not> co_early_version c) h"
    by (rule server_handler_kept(1) [OF h]) (simp add: stable_under_def same_role_def)
  then show "gchoare (\<lambda>_. requested) (server_table.at_state x (\<lambda>c. \<not> co_early_version c)) h
      (\<lambda>_ c. \<not> co_early_version c) (\<lambda>c. \<not> co_early_version c)"
    by (rule choare_pre [OF choare_keep]) (simp_all add: server_table.at_state_def)
qed simp

lemma version_ok_settings: "stable_under same_settings version_ok"
  by (auto simp: stable_under_def version_ok_def same_server_defs)

interpretation server_version: stage requested True srv
  "server_handler E :: ServerState \<Rightarrow> ('a, Status) server_action option" "server_dispatch E" server_next
  "\<lambda>c. \<not> co_early_version c" version_pending version_ok for E :: environment
proof unfold_locales
  fix x and h :: "('a, Status) server_action" assume h: "server_handler E x = Some h"
  show "skeeps version_ok h" if "x \<notin> version_pending"
    using that server_handler_kept(2) [OF h _ version_ok_settings] by (auto simp: version_pending_def)
  show "gchoare (\<lambda>_. requested) (server_table.at_state x (\<lambda>c. \<not> co_early_version c)) h
      (\<lambda>_ c. co_state c \<in> srv ` version_pending \<or> version_ok c)
      (\<lambda>c. co_state c \<in> srv ` version_pending \<or> version_ok c)"
    if "x \<in> version_pending" "\<not> set (server_next x) \<subseteq> version_pending"
    using that h version_client_hello [of E] by (auto simp: version_pending_def)
qed (auto simp: version_ok_def version_pending_def)

subsection \<open>Cipher suite\<close>

definition suite_pending :: "ServerState set" where
  "suite_pending = version_pending \<union> {SRV_SELECT_PARAMETERS, SRV_SELECT_PARAMETERS_TLS13}"

definition server_suite_ok :: "'m handshake_core_scheme \<Rightarrow> bool" where
  "server_suite_ok c \<longleftrightarrow> (\<exists>cs. co_suite c = Some cs \<and> cs \<in> set (st_cipher_suites (co_settings c)) \<and>
     minimum_version cs \<le> co_version c \<and> co_version c \<le> maximum_version cs)"

lemma find_Some_mem: "find P xs = Some x \<Longrightarrow> x \<in> set xs \<and> P x"
  by (auto simp: find_Some_iff)

lemma suite_stable: "stable_under same_decisions server_suite_ok"
  by (auto simp: stable_under_def server_suite_ok_def same_server_defs)

lemmas suite_kept = stableD [OF _ suite_stable]

lemma suite_select:
  "gchoare (\<lambda>_. requested) (server_table.at_state SRV_SELECT_PARAMETERS I) (server_select_parameters E)
     (\<lambda>_ c. co_state c \<in> srv ` suite_pending \<or> server_suite_ok c)
     (\<lambda>c. co_state c \<in> srv ` suite_pending \<or> server_suite_ok c)"
proof -
  let ?P = "\<lambda>c :: bool handshake_core_scheme. co_state c = srv SRV_SELECT_PARAMETERS"
  have early: "co_state c \<in> srv ` suite_pending \<or> server_suite_ok c" if "?P c" for c
    using that by (simp add: suite_pending_def)
  show ?thesis
    unfolding server_select_parameters_def server_session_def Let_def
    apply (rule choare_pre [where R = ?P])
     apply (rule choare_with_handshake, erule early, erule early)
     apply (rule choare_get_state, rule choare_thn_keep, intro core_rules, simp add: suite_pending_def)
     apply (rule choare_bnd_assert, simp add: suite_pending_def, rule choare_protocol_version, simp add: suite_pending_def)
     apply (rule choare_bnd_keep, intro core_rules, simp add: suite_pending_def)
     apply (rule choare_bnd_lift, simp add: suite_pending_def)
     apply (rule choare_thn_keep, intro core_rules, simp add: core_side, simp add: suite_pending_def)
     apply (rule choare_branches(2), rule choare_raise, simp add: suite_pending_def)
     apply (rule choare_modify_thn [where R = server_suite_ok])
       apply (auto simp: server_suite_ok_def select_cipher_suite_def dest!: server_core_eqD find_Some_mem) [1]
      apply (intro core_rules; ((erule suite_kept; simp add: same_server_defs core_side; fail)
        | simp add: core_side server_suite_ok_def))
     apply (simp_all add: server_table.at_state_def)
    done
qed

lemma suite_select_tls13:
  "gchoare (\<lambda>_. requested) (server_table.at_state SRV_SELECT_PARAMETERS_TLS13 I) (server_select_parameters_tls13 E)
     (\<lambda>_ c. co_state c \<in> srv ` suite_pending \<or> server_suite_ok c)
     (\<lambda>c. co_state c \<in> srv ` suite_pending \<or> server_suite_ok c)"
proof -
  let ?P = "\<lambda>c :: bool handshake_core_scheme. co_state c = srv SRV_SELECT_PARAMETERS_TLS13"
  have early: "co_state c \<in> srv ` suite_pending \<or> server_suite_ok c" if "?P c" for c
    using that by (simp add: suite_pending_def)
  show ?thesis
    unfolding server_select_parameters_tls13_def process_hello_tls13_def Let_def
    apply (rule choare_pre [where R = ?P])
     apply (rule choare_with_handshake, erule early, erule early)
     apply (rule choare_get_state, rule choare_bnd_assert, simp add: suite_pending_def)
     apply (rule choare_raise_if, simp add: suite_pending_def)
     apply (rule choare_protocol_version, simp add: suite_pending_def)
     apply (rule choare_branches(2), rule choare_raise, simp add: suite_pending_def)
     apply (rule choare_modify_thn [where R = server_suite_ok])
       apply (auto simp: server_suite_ok_def dest!: server_core_eqD find_Some_mem) [1]
      apply (intro core_rules; simp add: core_side server_suite_ok_def)
     apply (simp_all add: server_table.at_state_def)
    done
qed

text \<open>The invariant that says nothing, under the stages that need nothing.\<close>

interpretation server_any: machine_invariant requested True srv
  "server_handler E :: ServerState \<Rightarrow> ('a, Status) server_action option" "server_dispatch E" server_next "\<lambda>_. True"
  for E :: environment
  by unfold_locales (auto intro: choareI)

interpretation server_suite: stage requested True srv
  "server_handler E :: ServerState \<Rightarrow> ('a, Status) server_action option" "server_dispatch E" server_next
  "\<lambda>_. True" suite_pending server_suite_ok for E :: environment
proof unfold_locales
  fix x and h :: "('a, Status) server_action" assume h: "server_handler E x = Some h"
  show "skeeps server_suite_ok h" if "x \<notin> suite_pending"
    using that server_handler_kept(3) [OF h _ suite_stable]
    by (auto simp: suite_pending_def version_pending_def selecting_def)
  show "gchoare (\<lambda>_. requested) (server_table.at_state x (\<lambda>_. True)) h
      (\<lambda>_ c. co_state c \<in> srv ` suite_pending \<or> server_suite_ok c)
      (\<lambda>c. co_state c \<in> srv ` suite_pending \<or> server_suite_ok c)"
    if "x \<in> suite_pending" "\<not> set (server_next x) \<subseteq> suite_pending"
    using that h suite_select [of "\<lambda>_. True" E] suite_select_tls13 [of "\<lambda>_. True" E]
    by (auto simp: suite_pending_def version_pending_def)
qed (auto simp: server_suite_ok_def suite_pending_def version_pending_def)

subsection \<open>Request for a certificate\<close>

definition request_pending :: "ServerState set" where
  "request_pending = suite_pending \<union> {SRV_SEND_HELLO_RETRY_REQUEST_TLS13, SRV_HRR_COMPAT_CSS_TLS13,
     SRV_READ_SECOND_CLIENT_HELLO_TLS13, SRV_SEND_SERVER_HELLO_TLS13, SRV_SERVER_HELLO_COMPAT_CSS_TLS13,
     SRV_SEND_ENCRYPTED_EXTENSIONS_TLS13}"

lemmas request_pending_defs = request_pending_def suite_pending_def version_pending_def

definition anonymous :: "'m handshake_core_scheme \<Rightarrow> bool" where
  "anonymous c \<longleftrightarrow> (\<exists>cs. co_suite c = Some cs \<and> auth cs = AUTH_ANON)"

text \<open>The server has asked for a certificate, or it does not need one.\<close>

definition request_ok :: "bool handshake_core_scheme \<Rightarrow> bool" where
  "request_ok c \<longleftrightarrow> handshake_core.more c \<or> co_reused c \<or> st_verify_mode (co_settings c) = CERT_NONE \<or> anonymous c"

lemma request_stable: "stable_under same_decisions request_ok"
  by (auto simp: stable_under_def request_ok_def anonymous_def same_server_defs)

lemmas request_kept = stableD [OF _ request_stable]

lemma request_session:
  assumes "\<And>c. P c \<Longrightarrow> X c" and "\<And>c. P c \<Longrightarrow> co_suite c = Some cs" and "\<And>c. request_ok c \<Longrightarrow> X c"
    and P: "\<And>c d. P c \<Longrightarrow> same_client c d \<Longrightarrow> co_state c = co_state d \<Longrightarrow> P d" "\<And>c b. P c \<Longrightarrow> P (c\<lparr>co_reused := b\<rparr>)"
  shows "gchoare (\<lambda>_. requested) P (server_session E ch cs) (\<lambda>_. request_ok) X"
  unfolding server_session_def
proof (rule choare_bnd_keep, intro core_rules, erule assms, rule choare_bnd_keep, intro core_rules, erule assms,
    rule choare_get_state, goal_cases)
  case (1 ticket_ext found s)
  then have s: "P (server_core s)" .
  have suite: "hs_cipher_suite t = Some cs" if "server_core t = server_core s" for t
    using assms(2) [OF s] that by (auto dest: server_core_eqD)
  show ?case
  proof (rule choare_bnd_keep, intro core_rules, simp add: assms(1) s, rule choare_branches(2), goal_cases)
    case (1 y)
    let ?R = "\<lambda>c. P c \<and> co_suite c = Some cs"
    show ?case
      apply (rule choare_pre [where R = P])
       apply (rule choare_thn_keep)
         apply (intro core_rules)
         apply (drule P(2) [where b = False], erule P(1); simp add: same_server_defs core_side)
        apply (erule assms(1))
       apply (rule choare_bnd_keep, intro core_rules, erule assms)
       apply (rule choare_thn_keep)
         apply (intro core_rules, simp add: core_side)
        apply (erule assms(1))
       apply (rule choare_bnd_keep, intro core_rules, erule assms)
       apply (rule choare_weaken [OF choare_modify_thn [where R = request_ok and Q = request_ok]])
           apply (drule assms(2), auto simp: request_ok_def anonymous_def) [1]
          apply (intro core_rules, simp add: request_ok_def anonymous_def)
         apply (simp_all add: assms(3) s)
      done
  next
    case (2 y session)
    show ?case
      apply (rule choare_pre [where R = P])
       apply (rule choare_thn_keep, intro core_rules, erule assms)
       apply (rule choare_weaken [OF choare_modify_thn [where R = request_ok and Q = request_ok]])
           apply (simp add: request_ok_def)
          apply (intro core_rules; simp add: request_ok_def anonymous_def)
         apply (simp_all add: assms(3) s)
      done
  qed
qed

lemma request_select:
  "gchoare (\<lambda>_. requested) (server_table.at_state SRV_SELECT_PARAMETERS I) (server_select_parameters E)
     (\<lambda>_ c. co_state c \<in> srv ` request_pending \<or> request_ok c)
     (\<lambda>c. co_state c \<in> srv ` request_pending \<or> request_ok c)"
proof -
  let ?P = "\<lambda>c :: bool handshake_core_scheme. co_state c = srv SRV_SELECT_PARAMETERS"
  have early: "co_state c \<in> srv ` request_pending \<or> request_ok c" if "?P c" for c
    using that by (simp add: request_pending_defs)
  show ?thesis
    unfolding server_select_parameters_def Let_def
    apply (rule choare_pre [where R = ?P])
     apply (rule choare_with_handshake, erule early, erule early)
     apply (rule choare_get_state, rule choare_thn_keep, intro core_rules, simp add: request_pending_defs)
     apply (rule choare_bnd_assert, simp add: request_pending_defs, rule choare_protocol_version, simp add: request_pending_defs)
     apply (rule choare_bnd_keep, intro core_rules, simp add: request_pending_defs)
     apply (rule choare_bnd_lift, simp add: request_pending_defs)
     apply (rule choare_thn_keep, intro core_rules, simp add: core_side, simp add: request_pending_defs)
     apply (rule choare_branches(2), rule choare_raise, simp add: request_pending_defs)
     subgoal for \<dots> cs
      apply (rule choare_thn [OF choare_modify [where Q = "\<lambda>_ c. ?P c \<and> co_suite c = Some cs"]], simp add: core_side)
      apply (rule choare_thn_keep, intro core_rules; (simp add: core_side request_pending_defs; fail)?)
      apply (rule choare_thn_keep, intro core_rules; (simp add: core_side request_pending_defs; fail)?)
      apply (rule choare_bnd_keep, intro core_rules, simp add: request_pending_defs, rule choare_case_client_hello, simp add: request_pending_defs)
      apply (rule choare_thn_keep, intro core_rules; (simp add: core_side request_pending_defs)?)
      apply (rule choare_thn [OF request_session [where cs = cs]])
           apply (auto simp: request_pending_defs same_server_defs) [5]
      apply (rule choare_keep, intro core_rules, simp_all add: request_ok_def anonymous_def)
      done
     apply (simp_all add: server_table.at_state_def)
    done
qed

lemma request_extensions:
  "gchoare (\<lambda>_. requested) (server_table.at_state SRV_SEND_ENCRYPTED_EXTENSIONS_TLS13 I) (server_send_encrypted_extensions_tls13 E)
     (\<lambda>_ c. co_state c \<in> srv ` request_pending \<or> request_ok c)
     (\<lambda>c. co_state c \<in> srv ` request_pending \<or> request_ok c)"
proof -
  let ?P = "\<lambda>c :: bool handshake_core_scheme. co_state c = srv SRV_SEND_ENCRYPTED_EXTENSIONS_TLS13"
  have early: "co_state c \<in> srv ` request_pending \<or> request_ok c" if "?P c" for c
    using that by (simp add: request_pending_defs)
  have ask: "gchoare (\<lambda>_. requested) ?P send_certificate_request_tls13 (\<lambda>_. request_ok)
     (\<lambda>c. co_state c \<in> srv ` request_pending \<or> request_ok c)"
    unfolding send_certificate_request_tls13_def
    by (rule choare_bnd_keep, intro core_rules, erule early, rule choare_bnd_keep, intro core_rules, erule early,
        rule choare_thn_keep, intro core_rules, erule early, rule choare_modify, simp add: core_of_def request_ok_def)
  show ?thesis
    unfolding server_send_encrypted_extensions_tls13_def
    apply (rule choare_pre [where R = ?P])
     apply (rule choare_bnd_keep, intro core_rules, erule early)
     apply (rule choare_bnd_keep, intro core_rules, erule early)
     apply (rule choare_thn_keep, intro core_rules, erule early)
     apply (rule choare_get_state)
     subgoal for \<dots> s
      apply (rule choare_bnd_lift, simp add: request_pending_defs)
      apply (rule choare_thn_keep, intro core_rules, simp add: request_pending_defs)
      apply (rule choare_branches(1), rule choare_goto, simp add: request_ok_def)
      apply (rule choare_thn [where R = request_ok])
       apply (rule choare_do_if, rule choare_pre [OF ask], simp, simp add: request_ok_def)
      apply (rule choare_keep, intro core_rules, simp_all add: request_ok_def anonymous_def)
      done
     apply (simp_all add: server_table.at_state_def)
    done
qed

interpretation server_request: stage requested True srv
  "server_handler E :: ServerState \<Rightarrow> ('a, Status) server_action option" "server_dispatch E" server_next
  "\<lambda>_. True" request_pending request_ok for E :: environment
proof unfold_locales
  fix x and h :: "('a, Status) server_action" assume h: "server_handler E x = Some h"
  show "skeeps request_ok h" if "x \<notin> request_pending"
    using that server_handler_kept(3) [OF h _ request_stable] by (auto simp: request_pending_defs selecting_def)
  show "gchoare (\<lambda>_. requested) (server_table.at_state x (\<lambda>_. True)) h
      (\<lambda>_ c. co_state c \<in> srv ` request_pending \<or> request_ok c)
      (\<lambda>c. co_state c \<in> srv ` request_pending \<or> request_ok c)"
    if "x \<in> request_pending" "\<not> set (server_next x) \<subseteq> request_pending"
    using that h request_select [of "\<lambda>_. True" E] request_extensions [of "\<lambda>_. True" E]
    by (auto simp: request_pending_defs)
qed (auto simp: request_ok_def anonymous_def request_pending_defs)

subsection \<open>The client's certificate\<close>

text \<open>With \<open>allow_anon = False\<close> a message without certificates is refused.\<close>

lemma process_certificate_peer:
  "process_certificate lib session False s = (Inr (m, x), t) \<Longrightarrow> s_peer_cert x \<noteq> None"
  "process_certificate_tls13 libs lib session False b s = (Inr (m, x), t) \<Longrightarrow> s_peer_cert x \<noteq> None"
  unfolding process_certificate_def process_certificate_tls13_def
  by (auto simp: action_simps split: sum.splits prod.splits message.splits if_splits option.splits list.splits)

definition client_presented :: "bool handshake_core_scheme \<Rightarrow> bool" where
  "client_presented c \<longleftrightarrow> co_reused c \<or> st_verify_mode (co_settings c) \<noteq> CERT_REQUIRED \<or> anonymous c \<or>
     (\<exists>p. co_peer c = Some p \<and> fst p \<noteq> None)"

definition presented_pending :: "ServerState set" where
  "presented_pending = request_pending \<union> {SRV_SEND_SERVER_HELLO, SRV_SEND_SERVER_CERTIFICATE,
     SRV_SEND_SERVER_KEY_EXCHANGE, SRV_SEND_SERVER_HELLO_DONE, SRV_READ_CLIENT_CERTIFICATE,
     SRV_SEND_SERVER_FINISHED_TLS13, SRV_READ_SECOND_CLIENT_FLIGHT_TLS13, SRV_PROCESS_END_OF_EARLY_DATA_TLS13,
     SRV_READ_CLIENT_ENCRYPTED_EXTENSIONS_TLS13, SRV_READ_CLIENT_CERTIFICATE_TLS13}"

lemmas presented_pending_defs = presented_pending_def request_pending_defs

definition asked :: "bool handshake_core_scheme \<Rightarrow> bool" where
  "asked c \<longleftrightarrow> True \<and> (co_state c \<in> srv ` request_pending \<or> request_ok c)"

lemma presented_stable: "stable_under same_client client_presented"
  unfolding stable_under_def client_presented_def anonymous_def same_server_defs by metis

text \<open>The branch for a resumed session; the client has been seen before.\<close>

lemma resumed_hello:
  "gchoare (\<lambda>_. requested) (server_table.at_state SRV_SEND_SERVER_HELLO I) server_send_server_hello
     (\<lambda>_ c. co_state c \<in> srv ` {SRV_SEND_SERVER_HELLO, SRV_SEND_SERVER_CERTIFICATE} \<or> co_reused c)
     (\<lambda>c. co_state c \<in> srv ` {SRV_SEND_SERVER_HELLO, SRV_SEND_SERVER_CERTIFICATE} \<or> co_reused c)"
proof -
  let ?P = "\<lambda>c :: bool handshake_core_scheme. co_state c = srv SRV_SEND_SERVER_HELLO"
  show ?thesis
    unfolding server_send_server_hello_def
    apply (rule choare_pre [where R = ?P])
     apply (rule choare_bnd_keep, intro core_rules, simp)
     apply (rule choare_get_state, rule choare_bnd_lift, simp)
     apply (rule choare_thn_keep, intro core_rules, simp)
     apply (rule choare_goto, simp)
    apply (simp_all add: server_table.at_state_def)
    done
qed

lemma presented_certificate:
  "gchoare (\<lambda>_. requested) (server_table.at_state SRV_READ_CLIENT_CERTIFICATE asked) (server_read_client_certificate E)
     (\<lambda>_ c. co_state c \<in> srv ` presented_pending \<or> client_presented c)
     (\<lambda>c. co_state c \<in> srv ` presented_pending \<or> client_presented c)"
proof -
  let ?P = "\<lambda>c. co_state c = srv SRV_READ_CLIENT_CERTIFICATE \<and> request_ok c"
  have early: "co_state c \<in> srv ` presented_pending \<or> client_presented c" if "?P c" for c
    using that by (simp add: presented_pending_defs)
  show ?thesis
    unfolding server_read_client_certificate_def
    apply (rule choare_pre [where R = ?P])
     apply (rule choare_gets, rule choare_branches(1))
      apply (rule choare_goto, auto simp: client_presented_def request_ok_def anonymous_def core_of_def) [1]
     apply (rule choare_pre [where R = ?P])
      apply (rule choare_with_handshake, erule early, erule early)
      apply (rule choare_bnd_keep, intro core_rules, erule early)
      apply (rule choare_gets)
      subgoal for \<dots> s
       apply (rule choare_bnd_fact [where F = "\<lambda>(m, x). st_verify_mode (hs_settings s) = CERT_REQUIRED \<longrightarrow> s_peer_cert x \<noteq> None"])
          apply (intro core_rules)
         apply (auto dest: process_certificate_peer) [1]
        apply (simp add: presented_pending_defs)
       apply (rule choare_branches(3))
       apply (rule choare_thn [where R = client_presented])
        apply (auto simp: gchoare_def hoare_def set_session_def action_simps core_of_updates client_presented_def peer_info_def
          dest: server_core_eqD) [1]
       apply (rule choare_keep, intro core_rules, simp_all add: client_presented_def anonymous_def)
       done
     apply (auto simp: server_table.at_state_def asked_def request_pending_defs)
    done
qed

definition client_verified :: "environment \<Rightarrow> bool handshake_core_scheme \<Rightarrow> bool" where
  "client_verified E c \<longleftrightarrow> co_reused c \<or> st_verify_mode (co_settings c) \<noteq> CERT_REQUIRED \<or> anonymous c \<or>
     (\<exists>p. co_peer c = Some p \<and> peer_verified (env_cert E) True (co_settings c) None p)"

lemma verified_presented: "client_verified E c \<Longrightarrow> client_presented c"
  by (auto simp: client_verified_def client_presented_def peer_verified_def)

lemma verified_stable: "stable_under same_client (client_verified E)"
  unfolding stable_under_def client_verified_def anonymous_def same_server_defs by metis

text \<open>In TLS 1.3 one handler reads the certificate and verifies it.\<close>

lemma verified_certificate_tls13:
  "gchoare (\<lambda>_. requested) (server_table.at_state SRV_READ_CLIENT_CERTIFICATE_TLS13 asked) (server_read_client_certificate_tls13 E)
     (\<lambda>_ c. co_state c = srv SRV_READ_CLIENT_CERTIFICATE_TLS13 \<or> client_verified E c)
     (\<lambda>c. co_state c = srv SRV_READ_CLIENT_CERTIFICATE_TLS13 \<or> client_verified E c)"
proof -
  let ?P = "\<lambda>c. co_is_server c \<and> co_state c = srv SRV_READ_CLIENT_CERTIFICATE_TLS13 \<and> request_ok c"
  let ?X = "\<lambda>c. co_state c = srv SRV_READ_CLIENT_CERTIFICATE_TLS13 \<or> client_verified E c"
  let ?S = "\<lambda>s c. \<exists>p. c = (server_core s)\<lparr>co_peer := p\<rparr>"
  have early: "?X c" if "?P c" for c
    using that by simp
  show ?thesis
    unfolding server_read_client_certificate_tls13_def
    apply (rule choare_pre [where R = ?P])
     apply (rule choare_gets, rule choare_branches(1))
      apply (rule choare_goto, auto simp: client_verified_def request_ok_def anonymous_def core_of_def) [1]
     apply (rule choare_pre [where R = ?P])
      apply (rule choare_with_handshake, erule early, erule early)
      apply (rule choare_bnd_keep, intro core_rules, erule early)
      apply (rule choare_gets)
      subgoal for \<dots> s
       apply (rule choare_bnd_fact [where F = "\<lambda>(m, x). st_verify_mode (hs_settings s) = CERT_REQUIRED \<longrightarrow> s_peer_cert x \<noteq> None"])
          apply (intro core_rules)
         apply (auto dest: process_certificate_peer) [1]
        apply simp
       apply (rule choare_branches(3))
       apply (rule choare_thn [where R = "?S s"])
        apply (auto simp: gchoare_def hoare_def set_session_def action_simps core_of_updates) [1]
       apply (rule choare_thn [where R = "\<lambda>c. co_state c = srv SRV_READ_CLIENT_CERTIFICATE_TLS13 \<and> client_verified E c"])
        apply (rule choare_do_if)
         apply (rule choare_verify, auto simp: client_verified_def) [1]
        apply (auto simp: client_verified_def) [1]
       apply (rule choare_thn_keep, intro core_rules, simp, rule choare_goto, simp add: client_verified_def anonymous_def)
       done
     apply (auto simp: server_table.at_state_def asked_def request_pending_defs)
    done
qed

lemma verified_certificate:
  "gchoare (\<lambda>_. requested) (server_table.at_state SRV_VERIFY_CLIENT_CERTIFICATE client_presented) (server_verify_client_certificate E)
     (\<lambda>_ c. co_state c = srv SRV_VERIFY_CLIENT_CERTIFICATE \<or> client_verified E c)
     (\<lambda>c. co_state c = srv SRV_VERIFY_CLIENT_CERTIFICATE \<or> client_verified E c)"
proof -
  let ?P = "\<lambda>c. co_is_server c \<and> co_state c = srv SRV_VERIFY_CLIENT_CERTIFICATE \<and> client_presented c"
  show ?thesis
    unfolding server_verify_client_certificate_def
    apply (rule choare_pre [where R = ?P])
     apply (rule choare_current_session, simp)
     apply (rule choare_thn [where R = "\<lambda>c. co_state c = srv SRV_VERIFY_CLIENT_CERTIFICATE \<and> client_verified E c"])
      apply (rule choare_do_if)
       apply (rule choare_verify, auto simp: client_verified_def) [1]
      apply (auto simp: client_presented_def client_verified_def peer_info_def) [1]
     apply (rule choare_goto, simp add: client_verified_def anonymous_def)
    apply (auto simp: server_table.at_state_def)
    done
qed

lemma presented_verify: "skeeps client_presented (server_verify_client_certificate E)"
  unfolding server_verify_client_certificate_def
  by (rule ckeeps_choare, rule choare_bnd_keep, intro core_rules, assumption,
      rule choare_thn [where R = client_presented], rule choare_do_if, rule choare_verify)
     (auto simp: client_presented_def peer_verified_def anonymous_def intro!: choare_goto)

interpretation server_presented: stage requested True srv
  "server_handler E :: ServerState \<Rightarrow> ('a, Status) server_action option" "server_dispatch E" server_next
  asked presented_pending client_presented for E :: environment
proof unfold_locales
  fix x and h :: "('a, Status) server_action" assume h: "server_handler E x = Some h"
  show "gchoare (\<lambda>_. requested) (server_table.at_state x asked) h (\<lambda>_. asked) asked"
    unfolding asked_def by (rule server_request.staged.step [OF h])
  show "skeeps client_presented h" if x: "x \<notin> presented_pending"
  proof (cases "x = SRV_VERIFY_CLIENT_CERTIFICATE")
    case True
    with h presented_verify show ?thesis by auto
  next
    case False
    with x server_handler_kept(4) [OF h _ presented_stable] show ?thesis
      by (auto simp: presented_pending_defs selecting_def certifying_def)
  qed
  show "gchoare (\<lambda>_. requested) (server_table.at_state x asked) h
      (\<lambda>_ c. co_state c \<in> srv ` presented_pending \<or> client_presented c)
      (\<lambda>c. co_state c \<in> srv ` presented_pending \<or> client_presented c)"
    if "x \<in> presented_pending" "\<not> set (server_next x) \<subseteq> presented_pending"
  proof -
    have "gchoare (\<lambda>_. requested) (server_table.at_state SRV_READ_CLIENT_CERTIFICATE_TLS13 asked) (server_read_client_certificate_tls13 E)
        (\<lambda>_ c. co_state c \<in> srv ` presented_pending \<or> client_presented c)
        (\<lambda>c. co_state c \<in> srv ` presented_pending \<or> client_presented c)"
      by (rule choare_weaken [OF verified_certificate_tls13])
         (auto dest: verified_presented simp: presented_pending_def)
    moreover have "gchoare (\<lambda>_. requested) (server_table.at_state SRV_SEND_SERVER_HELLO asked) server_send_server_hello
        (\<lambda>_ c. co_state c \<in> srv ` presented_pending \<or> client_presented c)
        (\<lambda>c. co_state c \<in> srv ` presented_pending \<or> client_presented c)"
      by (rule choare_weaken [OF resumed_hello]) (auto simp: client_presented_def presented_pending_def)
    ultimately show ?thesis using that h presented_certificate [of E] by (auto simp: presented_pending_defs)
  qed
next
  show "asked (c\<lparr>co_state := st\<rparr>)"
    if "asked c" "co_is_server c = True" "core_done c" "st \<in> set (core_post_handshake c)" for c st
    using server_request.staged.leave [of c st] that unfolding asked_def by blast
qed (auto simp: client_presented_def anonymous_def presented_pending_defs)

subsection \<open>Authentication of the client\<close>

definition auth_pending :: "ServerState set" where
  "auth_pending = insert SRV_VERIFY_CLIENT_CERTIFICATE presented_pending"

definition presented :: "bool handshake_core_scheme \<Rightarrow> bool" where
  "presented c \<longleftrightarrow> asked c \<and> (co_state c \<in> srv ` presented_pending \<or> client_presented c)"

interpretation server_authentication: stage requested True srv
  "server_handler E :: ServerState \<Rightarrow> ('a, Status) server_action option" "server_dispatch E" server_next
  presented auth_pending "client_verified E" for E :: environment
proof unfold_locales
  fix x and h :: "('a, Status) server_action" assume h: "server_handler E x = Some h"
  show "gchoare (\<lambda>_. requested) (server_table.at_state x presented) h (\<lambda>_. presented) presented"
    unfolding presented_def by (rule server_presented.staged.step [OF h])
  show "skeeps (client_verified E) h" if "x \<notin> auth_pending"
    using that server_handler_kept(4) [OF h _ verified_stable]
    by (auto simp: auth_pending_def presented_pending_defs selecting_def certifying_def)
  show "gchoare (\<lambda>_. requested) (server_table.at_state x presented) h
      (\<lambda>_ c. co_state c \<in> srv ` auth_pending \<or> client_verified E c)
      (\<lambda>c. co_state c \<in> srv ` auth_pending \<or> client_verified E c)"
    if x: "x \<in> auth_pending" "\<not> set (server_next x) \<subseteq> auth_pending"
  proof -
    have "gchoare (\<lambda>_. requested) (server_table.at_state SRV_SEND_SERVER_HELLO presented) server_send_server_hello
        (\<lambda>_ c. co_state c \<in> srv ` auth_pending \<or> client_verified E c)
        (\<lambda>c. co_state c \<in> srv ` auth_pending \<or> client_verified E c)"
      by (rule choare_weaken [OF resumed_hello]) (auto simp: client_verified_def auth_pending_def presented_pending_def)
    moreover have "gchoare (\<lambda>_. requested) (server_table.at_state SRV_READ_CLIENT_CERTIFICATE_TLS13 presented)
        (server_read_client_certificate_tls13 E)
        (\<lambda>_ c. co_state c \<in> srv ` auth_pending \<or> client_verified E c)
        (\<lambda>c. co_state c \<in> srv ` auth_pending \<or> client_verified E c)"
      by (rule choare_weaken [OF choare_pre [OF verified_certificate_tls13]])
         (auto simp: presented_def server_table.at_state_def auth_pending_def presented_pending_def)
    moreover have "gchoare (\<lambda>_. requested) (server_table.at_state SRV_VERIFY_CLIENT_CERTIFICATE presented)
        (server_verify_client_certificate E)
        (\<lambda>_ c. co_state c \<in> srv ` auth_pending \<or> client_verified E c)
        (\<lambda>c. co_state c \<in> srv ` auth_pending \<or> client_verified E c)"
      by (rule choare_weaken [OF choare_pre [OF verified_certificate]])
         (auto simp: presented_def server_table.at_state_def auth_pending_def presented_pending_defs)
    ultimately show ?thesis using x h by (auto simp: auth_pending_def presented_pending_defs)
  qed
next
  show "presented (c\<lparr>co_state := st\<rparr>)"
    if "presented c" "co_is_server c = True" "core_done c" "st \<in> set (core_post_handshake c)" for c st
    using server_presented.staged.leave [of c st] that unfolding presented_def by blast
qed (auto simp: client_verified_def anonymous_def auth_pending_def presented_pending_defs)

end
