(* ===== verification/Server_Properties.thy ===== *)
theory Server_Properties
  imports Server_Laws Client_Properties
begin

text \<open>
  What the server handshake guarantees after every history of calls of the application, from the
  construction of the server on, whatever bytes the client sends.  The settings that count are those the
  server works with: the application's callback may have replaced the credential and the mode in which
  certificates are verified.
\<close>

declare srv.simps [simp del] cli.simps [simp del]

definition run_server ::
    "environment \<Rightarrow> nat \<times> (nat \<Rightarrow> bytes) \<times> conn_call \<Rightarrow> 'a TLSServer_scheme \<Rightarrow> 'a TLSServer_scheme" where
  "run_server E = (\<lambda>(fuel, rnd, c). run_call (env_crypto E) rnd (server_do_handshake fuel E) c)"

subsection \<open>The settings\<close>

definition configured_by :: "handshake_settings \<Rightarrow> bool handshake_core_scheme \<Rightarrow> bool" where
  "configured_by st c \<longleftrightarrow> (\<exists>credential mode. co_settings c = st\<lparr>st_credential := credential, st_verify_mode := mode\<rparr>)"

lemma configured_by_refl: "configured_by (co_settings c) c"
proof -
  have "st = st\<lparr>st_credential := st_credential st, st_verify_mode := st_verify_mode st\<rparr>" for st :: handshake_settings by simp
  then show ?thesis unfolding configured_by_def by blast
qed

lemma configured_by_hello: "skeeps (configured_by st) (server_read_client_hello E)"
  unfolding server_read_client_hello_def process_client_hello_def record_peer_offers_def run_client_hello_callback_def
  by (intro core_rules; (simp add: core_side configured_by_def; fail | auto simp: core_side configured_by_def)) blast

lemma configured_by_handler:
  assumes "server_handler E x = Some h"
  shows "skeeps (configured_by st) h"
proof (cases "x = SRV_READ_CLIENT_HELLO")
  case True
  with assms configured_by_hello show ?thesis by auto
next
  case False
  have "stable_under same_settings (configured_by st)"
    unfolding stable_under_def configured_by_def same_server_defs by metis
  then show ?thesis by (rule server_handler_kept(2) [OF assms False])
qed

interpretation server_settings: machine_invariant requested True srv
  "server_handler E :: ServerState \<Rightarrow> ('a, Status) server_action option" "server_dispatch E" server_next
  "configured_by st" for E :: environment and st :: handshake_settings
proof unfold_locales
  fix x and h :: "('a, Status) server_action" assume h: "server_handler E x = Some h"
  show "gchoare (\<lambda>_. requested) (server_table.at_state x (configured_by st)) h (\<lambda>_. configured_by st) (configured_by st)"
    using configured_by_handler [OF h, where st = st] by (rule choare_pre [OF choare_keep]) (simp_all add: server_table.at_state_def)
qed (simp add: configured_by_def)

subsection \<open>The initial state\<close>

lemma TLSServer_init_core:
  assumes "TLSServer_init E cfg callback = Inr s"
  obtains st where "handshake_settings_init (env_comp E) cfg = Inr st"
    "server_core s = \<lparr>co_is_server = True, co_state = srv SRV_START_ACCEPT, co_settings = st, co_version = UNSPECIFIED,
       co_early_version = False, co_suite = None, co_reused = False, co_peer = None,
       co_hostname = None, co_ech = ECH_NONE, \<dots> = False\<rparr>"
proof -
  obtain st where st: "handshake_settings_init (env_comp E) cfg = Inr st"
    using assms by (auto simp: TLSServer_init_def TLSHandshake_init_def rbind_Inr_iff)
  obtain h where h: "TLSHandshake_init (env_comp E) True cfg = Inr h"
    and s: "s = Endpoint.extend (TLSConnection.extend (TLSConnection_init (h\<lparr>hs_state := srv SRV_START_ACCEPT\<rparr>))
        (Endpoint.fields 0)) (TLSServer.fields callback (cfg_encrypt_then_mac cfg) (cfg_extended_master_secret cfg)
         (cfg_post_handshake_auth cfg) (cfg_early_data cfg) (cfg_max_early_data_size cfg) None
         (cfg_dh_parameters cfg) (case cfg_ech_keys cfg of Some ks \<Rightarrow> ks | None \<Rightarrow> [])
         {} False False False None None None None None None None None None None None False None)"
    using assms by (auto simp only: TLSServer_init_def rbind_Inr_iff sum.inject sum.distinct)
  from h have "server_core s = \<lparr>co_is_server = True, co_state = srv SRV_START_ACCEPT, co_settings = st, co_version = UNSPECIFIED,
       co_early_version = False, co_suite = None, co_reused = False, co_peer = None,
       co_hostname = None, co_ech = ECH_NONE, \<dots> = False\<rparr>"
    by (auto simp: s TLSHandshake_init_def st core_of_def TLSConnection_init_def TLSConnection.defs Endpoint.defs
        TLSHandshake.defs TLSServer.defs requested_def)
  with st that show ?thesis by blast
qed

lemma server_history:
  assumes "TLSServer_init E cfg callback = Inr s" and "t = fold (run_server E) calls s"
  obtains st where "handshake_settings_init (env_comp E) cfg = Inr st" "configured_by st (server_core t)"
    "hs_is_server t"
    "co_state (server_core t) \<in> srv ` version_pending \<or> version_ok (server_core t)"
    "co_state (server_core t) \<in> srv ` suite_pending \<or> server_suite_ok (server_core t)"
    "co_state (server_core t) \<in> srv ` auth_pending \<or> client_verified E (server_core t)"
proof -
  obtain st where st: "handshake_settings_init (env_comp E) cfg = Inr st"
    and c: "server_core s = \<lparr>co_is_server = True, co_state = srv SRV_START_ACCEPT, co_settings = st, co_version = UNSPECIFIED,
       co_early_version = False, co_suite = None, co_reused = False, co_peer = None,
       co_hostname = None, co_ech = ECH_NONE, \<dots> = False\<rparr>"
    using assms(1) by (rule TLSServer_init_core)
  note runs = run_server_def server_do_handshake_def
  have init: "configured_by st (server_core s)" "co_state (server_core s) \<in> srv ` version_pending"
    "co_state (server_core s) \<in> srv ` suite_pending" "co_state (server_core s) \<in> srv ` auth_pending"
    "asked (server_core s)" "presented (server_core s)" "\<not> co_early_version (server_core s)"
    "co_is_server (server_core s)"
    using configured_by_refl [of "server_core s"]
    by (simp_all add: c auth_pending_def presented_pending_defs asked_def presented_def)
  note kept = server_settings.keeps_calls [where E = E and s = s and calls = calls and cr = "env_crypto E" and st = st]
    server_version.staged.keeps_calls [where E = E and s = s and calls = calls and cr = "env_crypto E"]
    server_suite.staged.keeps_calls [where E = E and s = s and calls = calls and cr = "env_crypto E"]
    server_authentication.staged.keeps_calls [where E = E and s = s and calls = calls and cr = "env_crypto E"]
  note kept = kept [unfolded server_settings.holds_def server_version.staged.holds_def
      server_suite.staged.holds_def server_authentication.staged.holds_def]
  show ?thesis
    by (rule that [OF st]) (use kept init in \<open>simp_all add: assms(2) runs\<close>)
qed

subsection \<open>Negotiation\<close>

text \<open>
  C6: From the construction of a server on, after every history of calls and whatever the client sends: either the
  state is one of those before the parameters have been selected, or the negotiated version lies between the
  minimal and the maximal version of the configuration, and the negotiated cipher suite is a configured one that
  is defined for the negotiated version.
\<close>

theorem server_negotiation:
  assumes "TLSServer_init E cfg callback = Inr s" and "t = fold (run_server E) calls s"
  shows "hs_state t \<in> srv ` suite_pending \<or>
    (cfg_minimum_version cfg \<le> hs_version t \<and> hs_version t \<le> cfg_maximum_version cfg \<and>
     (\<exists>cs. hs_cipher_suite t = Some cs \<and> cs \<in> set (cfg_cipher_suites cfg) \<and>
        minimum_version cs \<le> hs_version t \<and> hs_version t \<le> maximum_version cs))"
proof -
  obtain st where st: "handshake_settings_init (env_comp E) cfg = Inr st" "configured_by st (server_core t)"
    and v: "co_state (server_core t) \<in> srv ` version_pending \<or> version_ok (server_core t)"
    and cs: "co_state (server_core t) \<in> srv ` suite_pending \<or> server_suite_ok (server_core t)"
    using assms by (rule server_history) blast
  show ?thesis
  proof (cases "hs_state t \<in> srv ` suite_pending")
    case False
    then have "hs_state t \<notin> srv ` version_pending" by (auto simp: suite_pending_def)
    with v cs False have "version_ok (server_core t)" "server_suite_ok (server_core t)" by simp_all
    with st(2) handshake_settings_fields(3-5) [OF st(1)] show ?thesis
      by (auto simp: version_ok_def server_suite_ok_def configured_by_def)
  qed simp
qed

text \<open>
  The check of the compression methods in TLS 1.3, where the list must be the null method alone: its two conditions
  are joined by a conjunction, so another method alone is accepted, and so is a list that begins with the null method.
\<close>

lemma compression_check_lenient:
  "compression_methods_ok (ver V_TLSv1_3) [1] = Inr True" "compression_methods_ok (ver V_TLSv1_3) (0 # methods) = Inr True"
  by (simp_all add: compression_methods_ok_def)

subsection \<open>Authentication of the client\<close>

text \<open>What the leaf certificate says if the server's policy accepts it.\<close>

definition certifies_client :: "cert_lib \<Rightarrow> x509_certificate \<Rightarrow> bool" where
  "certifies_client L leaf \<longleftrightarrow> (\<exists>exts eku. cl_extensions L leaf = Inr exts \<and>
     map_of exts ExtensionOID_EXTENDED_KEY_USAGE = Some (ExtendedKeyUsage eku) \<and> EKU_CLIENT_AUTH \<in> set eku)"

lemma policy_certifies_client:
  assumes "policy_verify L (verify_x509_policy True check None) leaf = Inr ()"
  shows "certifies_client L leaf"
proof -
  obtain exts where "cl_extensions L leaf = Inr exts"
    and "verify_required exts leaf (ep_require_present (verify_x509_policy True check None)) = Inr ()"
    using assms by (auto simp: policy_verify_def rbind_Inr_iff)
  then show ?thesis unfolding certifies_client_def
    by (auto simp: verify_x509_policy_def require_present_def defaults_ee_def
        ExtensionOID_SUBJECT_ALTERNATIVE_NAME_def ExtensionOID_EXTENDED_KEY_USAGE_def rbind_Inr_iff
        split: option.splits dest!: required_EKU)
qed

text \<open>
  C2: A server that requires certificates authenticates its client.  From its construction on, after every history of
  calls and whatever the client sends: either the handshake has not reached the end of the client's certificate,
  or it has resumed a session, or certificates are not required of this client or not for the negotiated suite, or
  the session holds a certificate and a chain for which there is a trusted path from the certificate to an anchor
  of the configured store, and the certificate allows client authentication.  Whether certificates are required is
  what the server's settings say, after the application's callback has had its say.
\<close>

theorem server_authenticates_client:
  assumes "TLSServer_init E cfg callback = Inr s" and "t = fold (run_server E) calls s"
    and "cfg_castore cfg = Some castore" and "store_ok (env_cert E) (store_trust_map castore)"
  shows "hs_state t \<in> srv ` auth_pending \<or> hs_session_reused t \<or>
    st_verify_mode (hs_settings t) \<noteq> CERT_REQUIRED \<or> (\<exists>cs. hs_cipher_suite t = Some cs \<and> auth cs = AUTH_ANON) \<or>
    (\<exists>session leaf ims chain now. hs_session t = Some session \<and>
       peer_info session = (Some leaf, Some ims, Some (hd chain), Some (tl chain)) \<and>
       trusted_path (env_cert E) (peer_verifier True cfg castore None) now leaf ims chain \<and>
       certifies_client (env_cert E) leaf)"
proof -
  obtain st where st: "handshake_settings_init (env_comp E) cfg = Inr st" "configured_by st (server_core t)"
    and v: "co_state (server_core t) \<in> srv ` auth_pending \<or> client_verified E (server_core t)"
    using assms(1,2) by (rule server_history) blast
  have cfg: "st_configuration (hs_settings t) = cfg"
    using st(2) handshake_settings_fields(1) [OF st(1)] by (auto simp: configured_by_def)
  have certifies: "trusted_path (env_cert E) (peer_verifier True cfg castore None) n leaf ims chain \<Longrightarrow>
      certifies_client (env_cert E) leaf" for n leaf ims chain
    by (rule policy_certifies_client [where check = "cfg_check_hostname cfg"]) (simp add: trusted_path_def peer_verifier_def)
  have path: "\<exists>n. trusted_path (env_cert E) (peer_verifier True cfg castore None) n leaf ims chain"
    if "verifier_verify (env_cert E) (peer_verifier True cfg castore None) now leaf ims = Inr chain" for now leaf ims chain
    using trusted_of_verified [OF that] assms(4) by (auto simp: peer_verifier_def)
  from v consider "hs_state t \<in> srv ` auth_pending" | "hs_session_reused t"
    | "st_verify_mode (hs_settings t) \<noteq> CERT_REQUIRED" | "\<exists>cs. hs_cipher_suite t = Some cs \<and> auth cs = AUTH_ANON"
    | session where "hs_session t = Some session" "peer_verified (env_cert E) True (hs_settings t) None (peer_info session)"
    by (auto simp: client_verified_def anonymous_def)
  then show ?thesis
  proof cases
    case (5 session)
    then obtain now leaf ims chain where
      "verifier_verify (env_cert E) (peer_verifier True cfg castore None) now leaf ims = Inr chain"
      "peer_info session = (Some leaf, Some ims, Some (hd chain), Some (tl chain))"
      using cfg assms(3) by (auto simp: peer_verified_def)
    moreover from path [OF this(1)] obtain n where
      "trusted_path (env_cert E) (peer_verifier True cfg castore None) n leaf ims chain" by blast
    moreover note certifies [OF this]
    ultimately show ?thesis using 5(1)
      by (intro disjI2 exI [of _ session] exI [of _ leaf] exI [of _ ims] exI [of _ chain] exI [of _ n] conjI)
  qed simp_all
qed

subsection \<open>Instances\<close>

text \<open>A server with the same configuration as the client; both verify certificates against one root.\<close>

definition sample_server :: TLSServer where
  "sample_server = (case TLSServer_init sample_environment sample_client_configuration None of
     Inr s \<Rightarrow> s | Inl _ \<Rightarrow> undefined)"

lemma sample_server_init: "TLSServer_init sample_environment sample_client_configuration None = Inr sample_server"
proof -
  obtain st where "handshake_settings_init (env_comp sample_environment) sample_client_configuration = Inr st"
    by (rule TLSClient_init_core [OF sample_client_init])
  then have "\<not> isl (TLSServer_init sample_environment sample_client_configuration None)"
    by (simp add: TLSServer_init_def TLSHandshake_init_def)
  then show ?thesis
    by (cases "TLSServer_init sample_environment sample_client_configuration None") (simp_all add: sample_server_def)
qed

theorem server_negotiation_witness:
  "let t = fold (run_server sample_environment) sample_calls sample_server in
   hs_state t \<in> srv ` suite_pending \<or>
   (771 \<le> hs_version t \<and> hs_version t \<le> 772 \<and>
    (\<exists>cs. hs_cipher_suite t = Some cs \<and> cs = TLS_AES_128_GCM_SHA256 \<and>
       minimum_version cs \<le> hs_version t \<and> hs_version t \<le> maximum_version cs))"
  using server_negotiation [OF sample_server_init refl, of sample_calls] by (simp add: sample_client_fields Let_def)

theorem server_authenticates_client_witness:
  "let t = fold (run_server sample_environment) sample_calls sample_server in
   hs_state t \<in> srv ` auth_pending \<or> hs_session_reused t \<or>
   st_verify_mode (hs_settings t) \<noteq> CERT_REQUIRED \<or> (\<exists>cs. hs_cipher_suite t = Some cs \<and> auth cs = AUTH_ANON) \<or>
   (\<exists>session leaf ims chain now. hs_session t = Some session \<and>
      peer_info session = (Some leaf, Some ims, Some (hd chain), Some (tl chain)) \<and>
      trusted_path deep_lib (peer_verifier True sample_client_configuration (vf_store (root_verifier deep_lib)) None)
        now leaf ims chain \<and>
      certifies_client deep_lib leaf)"
proof -
  have "cfg_castore sample_client_configuration = Some (vf_store (root_verifier deep_lib))"
    "env_cert sample_environment = deep_lib"
    by (simp_all add: sample_client_configuration_def sample_environment_def)
  with server_authenticates_client [OF sample_server_init refl _ sample_store_ok, of sample_calls]
  show ?thesis by (simp add: Let_def)
qed

subsection \<open>The state graph\<close>

text \<open>
  Each of the handlers of the server, from any state and whatever it returns or raises, leaves the state machine
  where it is or moves it along an edge of a fixed graph.
\<close>

theorem server_state_graph:
  assumes "server_handler E x = Some h" and "hs_state s = srv x"
  shows "hs_state (snd (h s)) \<in> srv ` set (x # server_next x)"
proof -
  have "in_server_state (x # server_next x) (server_core s)" using assms(2) by (simp add: in_server_state_def)
  from ckeepsD [OF server_handler_edges [OF assms(1)] this, of "fst (h s)" "snd (h s)"]
  show ?thesis by (simp add: in_server_state_def)
qed

theorem server_state_graph_witness:
  "hs_state (snd (server_start_accept (sample_server\<lparr>hs_state := srv SRV_START_ACCEPT\<rparr>)))
     \<in> srv ` {SRV_START_ACCEPT, SRV_READ_CLIENT_HELLO}"
  using server_state_graph [of sample_environment SRV_START_ACCEPT server_start_accept
      "sample_server\<lparr>hs_state := srv SRV_START_ACCEPT\<rparr>"] by simp

end
