(* ===== verification/Server_Finished.thy ===== *)
theory Server_Finished
  imports Server_Properties Handshake_Finished
begin

text \<open>
  The end of the server handshake: a run of the handlers, interleaved with anything the record layer does,
  completes only after the client's finished message has been compared with the expected one.
\<close>

declare srv.simps [simp del]

abbreviation client_finished_verified :: "environment \<Rightarrow> ServerState \<Rightarrow> 'a TLSServer_scheme \<Rightarrow> bool" where
  "client_finished_verified E x \<equiv> finished_verified E (ascii ''client finished'') (x = SRV_READ_CLIENT_FINISHED_TLS13)"

definition closing_states :: "ServerState set" where
  "closing_states = {SRV_READ_CLIENT_FINISHED, SRV_READ_CLIENT_FINISHED_TLS13}"

lemma read_client_finished_verified:
  assumes "server_read_client_finished E s = (r, t)" and "hs_state t \<noteq> hs_state s"
  shows "finished_verified E (ascii ''client finished'') False s"
  using assms unfolding server_read_client_finished_def by (rule finished_verified_legacy)

lemma read_client_finished_tls13_verified:
  assumes "server_read_client_finished_tls13 E s = (r, t)" and "hs_state t \<noteq> hs_state s"
  shows "finished_verified E (ascii ''client finished'') True s"
  using assms unfolding server_read_client_finished_tls13_def
  by (rule finished_verified_tls13) (simp_all add: current_frame)

subsection \<open>Runs\<close>

text \<open>
  A run of the server from a state, as for the client: the flag tells whether a handler for the client's finished
  message ran in a state where this message was the expected one.
\<close>

inductive server_run ::
    "environment \<Rightarrow> 'a TLSServer_scheme \<Rightarrow> bool \<Rightarrow> 'a TLSServer_scheme \<Rightarrow> bool" for E s where
  start: "server_run E s False s"
| handler: "server_run E s b t \<Longrightarrow> hs_state t = srv x \<Longrightarrow> server_handler E x = Some h \<Longrightarrow> h t = (r, u) \<Longrightarrow>
     server_run E s (b \<or> x \<in> closing_states \<and> client_finished_verified E x t) u"
| record_layer: "server_run E s b t \<Longrightarrow> server_core u = server_core t \<Longrightarrow> server_run E s b u"
| post_handshake: "server_run E s b t \<Longrightarrow> hs_done t \<Longrightarrow> st \<in> {SRV_READ_POST_HANDSHAKE, SRV_PROCESS_UPDATE_TRAFFIC} \<Longrightarrow>
     server_run E s b (t\<lparr>hs_state := srv st\<rparr>)"

definition server_flight :: "ServerState set" where
  "server_flight = {SRV_SEND_SESSION_TICKET, SRV_SEND_CHANGE_CIPHER_SPEC, SRV_SEND_SERVER_FINISHED}"

definition server_waiting :: "ServerState set" where
  "server_waiting = - (server_flight \<union> {SRV_SEND_NEWSESSION_TICKET_TLS13, SRV_FINISHED_SERVER_HANDSHAKE, SRV_DONE,
     SRV_READ_POST_HANDSHAKE, SRV_PROCESS_UPDATE_TRAFFIC, SRV_COMPLETE_UPDATE_TRAFFIC})"

text \<open>In a full handshake the server's last flight comes after the client's finished message, in a resumed one before it.\<close>

definition server_unfinished :: "bool handshake_core_scheme \<Rightarrow> bool" where
  "server_unfinished c \<longleftrightarrow> co_is_server c \<and>
     (co_state c \<in> srv ` server_waiting \<or> co_state c \<in> srv ` server_flight \<and> co_reused c)"

lemmas server_unfinished_defs = server_unfinished_def server_waiting_def server_flight_def

lemma server_stays: "server_handler E x = Some h \<Longrightarrow> hs_is_server s \<Longrightarrow> h s = (r, t) \<Longrightarrow> hs_is_server t"
  using ckeepsD [OF server_handler_kept(1) [where V = co_is_server], of E x h s r t]
  by (simp add: stable_under_def same_role_def)

lemma server_edge: "server_handler E x = Some h \<Longrightarrow> hs_state s = srv x \<Longrightarrow> h s = (r, t) \<Longrightarrow>
    hs_state t \<in> srv ` set (x # server_next x)"
  using ckeepsD [OF server_handler_edges, of E x h s r t] by (simp add: in_server_state_def)

text \<open>A server that resumes a session waits for the client after its own finished message.\<close>

lemma resumed_finished:
  assumes "server_send_server_finished E s = (r, t)" and "hs_session_reused s" and "hs_state s = srv SRV_SEND_SERVER_FINISHED"
  shows "hs_state t \<in> srv ` {SRV_SEND_SERVER_FINISHED, SRV_READ_CHANGE_CIPHER_SPEC}"
proof -
  let ?P = "\<lambda>c :: bool handshake_core_scheme. co_reused c \<and> co_state c = srv SRV_SEND_SERVER_FINISHED"
  have "gchoare (\<lambda>_. requested) ?P (server_send_server_finished E)
     (\<lambda>_ c. co_state c \<in> srv ` {SRV_SEND_SERVER_FINISHED, SRV_READ_CHANGE_CIPHER_SPEC})
     (\<lambda>c. co_state c \<in> srv ` {SRV_SEND_SERVER_FINISHED, SRV_READ_CHANGE_CIPHER_SPEC})"
    unfolding server_send_server_finished_def
    by (intro choare_bnd_keep choare_thn_keep choare_gets choare_goto core_rules) auto
  from choareD [OF this _ assms(1)] assms(2,3) show ?thesis by (cases r) auto
qed

lemma server_unfinished_flight:
  assumes "server_handler E x = Some h" and "x \<in> server_flight" and "hs_state s = srv x"
    and "hs_is_server s" "hs_session_reused s" and "h s = (r, t)"
  shows "server_unfinished (server_core t)"
proof -
  have "skeeps (\<lambda>c. co_is_server c \<and> co_reused c) h"
    by (rule server_handler_kept(4) [OF assms(1)])
       (use assms(2) in \<open>auto simp: server_flight_def selecting_def certifying_def stable_under_def same_server_defs\<close>)
  from ckeepsD [OF this _ assms(6)] assms(4,5) have t: "hs_is_server t" "hs_session_reused t" by simp_all
  have "hs_state t \<in> srv ` {SRV_SEND_SERVER_FINISHED, SRV_READ_CHANGE_CIPHER_SPEC}" if "x = SRV_SEND_SERVER_FINISHED"
    using resumed_finished [of E s r t] that assms(1,3,5,6) by simp
  with t server_edge [OF assms(1,3,6)] assms(2) show ?thesis
    by (cases "x = SRV_SEND_SERVER_FINISHED") (auto simp: server_unfinished_defs)
qed

lemma server_unfinished_step:
  assumes "server_handler E x = Some h" and "server_unfinished (server_core s)" and "hs_state s = srv x" and "h s = (r, t)"
  shows "server_unfinished (server_core t) \<or> x \<in> closing_states \<and> client_finished_verified E x s"
proof -
  have sv: "hs_is_server s" using assms(2) by (simp add: server_unfinished_def)
  note t = server_stays [OF assms(1) sv assms(4)] and edges = server_edge [OF assms(1,3,4)]
  consider "x \<in> server_flight" "hs_session_reused s" | "x \<in> closing_states" | "x = SRV_SEND_SERVER_HELLO"
    | "x \<in> server_waiting - closing_states - {SRV_SEND_SERVER_HELLO}"
    using assms(2,3) by (auto simp: server_unfinished_def)
  then show ?thesis
  proof cases
    case 1
    with server_unfinished_flight [OF assms(1) 1(1) assms(3) sv 1(2) assms(4)] show ?thesis by simp
  next
    case 2
    then have "hs_state t = hs_state s \<or> client_finished_verified E x s"
      using assms(1,4) read_client_finished_verified [of E s r t] read_client_finished_tls13_verified [of E s r t]
      by (cases "hs_state t = hs_state s") (auto simp: closing_states_def)
    with 2 assms(3) t show ?thesis by (auto simp: server_unfinished_defs closing_states_def)
  next
    case 3
    have "server_table.at_state SRV_SEND_SERVER_HELLO (\<lambda>_. True) (server_core s)"
      using 3 sv assms(3) by (simp add: server_table.at_state_def)
    from choareD [OF resumed_hello this] 3 assms(1,4)
    have "hs_state t \<in> srv ` {SRV_SEND_SERVER_HELLO, SRV_SEND_SERVER_CERTIFICATE} \<or> hs_session_reused t"
      by (cases r) auto
    with 3 edges t show ?thesis by (auto simp: server_unfinished_defs)
  next
    case 4
    then have "set (server_next x) \<subseteq> server_waiting"
      by (cases x) (auto simp: server_waiting_def server_flight_def closing_states_def)
    with edges 4 t show ?thesis by (auto simp: server_unfinished_def)
  qed
qed

text \<open>
  C4: In every run of a server, from its construction on and whatever the client sends: the state machine is in one of
  the states before the end of the handshake, or the handler for the client's finished message has run when that
  message was at hand and had exactly the verification data computed from the session's secret, or from the
  client's handshake traffic secret, and the transcript.  In particular a server that is done has verified it.
\<close>

theorem server_done_after_finished:
  assumes "TLSServer_init E cfg callback = Inr s" and "server_run E s b t"
  shows "hs_state t \<in> srv ` (server_waiting \<union> server_flight) \<or> b"
proof -
  have init: "server_unfinished (server_core s)"
    by (rule TLSServer_init_core [OF assms(1)]) (simp add: core_of_def server_unfinished_defs)
  from assms(2) have "server_unfinished (server_core t) \<or> b"
  proof induction
    case (handler b t x h r u)
    then show ?case using server_unfinished_step by blast
  next
    case (post_handshake b t st)
    then show ?case by (auto simp: server_unfinished_defs hs_done_def)
  qed (auto simp: init)
  then show ?thesis by (auto simp: server_unfinished_def)
qed

lemma sample_server_state: "hs_state sample_server = srv SRV_START_ACCEPT"
  by (rule TLSServer_init_core [OF sample_server_init]) (simp add: core_of_def)

theorem server_done_after_finished_witness:
  "hs_state (snd (server_start_accept sample_server)) \<in> srv ` (server_waiting \<union> server_flight)"
proof -
  from server_run.handler [OF server_run.start sample_server_state _ prod.collapse [symmetric], of sample_environment server_start_accept]
  have "server_run sample_environment sample_server False (snd (server_start_accept sample_server))"
    by (simp add: closing_states_def)
  from server_done_after_finished [OF sample_server_init this] show ?thesis by simp
qed

end
