(* ===== verification/Server_Resumption.thy ===== *)
theory Server_Resumption
  imports Server_Properties
begin

text \<open>
  Resumption on the server: a ticket that it has issued opens to the session it stands for, and a
  pre-shared key of TLS 1.3 is accepted only with the binder that belongs to it.
\<close>

subsection \<open>Tickets\<close>

lemma keeps_sum [keeps_rules]:
  "(\<And>e. r = Inl e \<Longrightarrow> keeps P X (m e)) \<Longrightarrow> (\<And>x. r = Inr x \<Longrightarrow> keeps P X (f x)) \<Longrightarrow>
   keeps P X (case r of Inl e \<Rightarrow> m e | Inr x \<Rightarrow> f x)"
  by (cases r) simp_all

text \<open>Opening a ticket reads the clock and changes nothing else.\<close>

lemma decrypt_session_frame:
  assumes "decrypt_session E ticket s = (r, t)"
  shows "t = s\<lparr>ep_draws := ep_draws t\<rparr>"
proof -
  let ?P = "\<lambda>u :: 'a TLSServer_scheme. u\<lparr>ep_draws := 0\<rparr> = s\<lparr>ep_draws := 0\<rparr>"
  have "keeps ?P (\<lambda>_. ?P) (decrypt_session E ticket)"
    unfolding decrypt_session_def current_cipher_suite_def assert_some_def ticket_context_def protocol_version_def
      utcnow_def draw_def
    by (intro keeps_rules) simp_all
  from keepsD [OF this refl] assms have "t\<lparr>ep_draws := 0\<rparr> = s\<lparr>ep_draws := 0\<rparr>" by (cases r) auto
  then have "t\<lparr>ep_draws := 0, ep_draws := ep_draws t\<rparr> = s\<lparr>ep_draws := 0, ep_draws := ep_draws t\<rparr>"
    by (rule arg_cong)
  then show ?thesis by simp
qed

lemma encrypt_session_ticket:
  assumes "encrypt_session x s = (Inr (Some ticket), t)" and "cfg_ticket_aead (st_configuration (hs_settings s)) = Some a"
  obtains w cs where "TLSSession_to_bytes x = Inr w" "hs_cipher_suite s = Some cs" "hs_version s \<noteq> UNSPECIFIED"
    "ticket_seal a w \<lparr>tctx_server_name = hs_hostname s, tctx_cipher_suite = cs, tctx_protocol_version = hs_version s\<rparr> = Some ticket"
  using assms that
  unfolding encrypt_session_def current_cipher_suite_def assert_some_def ticket_context_def protocol_version_def
  by (auto simp: action_simps split: option.splits sum.splits if_splits prod.splits)

lemma decrypt_parsed:
  assumes "cfg_ticket_aead (st_configuration (hs_settings s)) = Some a" and "hs_cipher_suite s = Some suite"
    and "hs_version s \<noteq> UNSPECIFIED" and "ticket \<noteq> []" and "\<And>now. TLSSession_from_bytes now w = Inr y"
    and "ticket_open a ticket \<lparr>tctx_server_name = hs_hostname s, tctx_cipher_suite = suite,
        tctx_protocol_version = hs_version s\<rparr> = Some w"
  shows "fst (decrypt_session E ticket s) = rmap (\<lambda>ok. if ok then Some y else None)
    (resumable (env_now E (Suc (ep_draws s)) 0) (hs_version s) suite y)"
  using assms
  unfolding decrypt_session_def current_cipher_suite_def assert_some_def ticket_context_def protocol_version_def
    utcnow_def draw_def
  by (simp add: action_simps split: sum.split)

text \<open>
  C25: A session ticket means the session it was made from.  If the application's AEAD opens what it has sealed in the same
  context, then every connection of a server with the same host name, protocol version and cipher suite decrypts a
  ticket to exactly the encrypted session as its encoding keeps it (\<open>session_kept\<close>: without certificates, OCSP response and the
  mark \<open>not_resumable\<close>, its times in whole seconds), if that session is still valid by the
  clock and was established by a server for the same version and suite, and to no session otherwise.  The session is one with a known
  suite whose times are in the range of their types.
\<close>

theorem ticket_roundtrip:
  assumes "encrypt_session x s = (Inr (Some ticket), t)"
    and "cfg_ticket_aead (st_configuration (hs_settings s)) = Some a"
    and "cfg_ticket_aead (st_configuration (hs_settings s')) = Some a"
    and aead: "\<And>d ctx c. ticket_seal a d ctx = Some c \<Longrightarrow> c \<noteq> [] \<and> ticket_open a c ctx = Some d"
    and "s_cipher_suite x = Some cs" "cs \<in> set ALL_CIPHER_SUITES"
    and "s_time x \<le> MAX_DATETIME" "s_timeout x < 86400000000000 * 1000000"
    and "hs_hostname s' = hs_hostname s" "hs_version s' = hs_version s" "hs_cipher_suite s' = hs_cipher_suite s"
    and "hs_cipher_suite s = Some suite"
  shows "fst (decrypt_session E ticket s') =
     rmap (\<lambda>ok. if ok then Some (session_kept x) else None)
       (resumable (env_now E (Suc (ep_draws s')) 0) (hs_version s) suite (session_kept x))"
proof -
  let ?ctx = "\<lparr>tctx_server_name = hs_hostname s, tctx_cipher_suite = suite, tctx_protocol_version = hs_version s\<rparr>"
  obtain w where w: "TLSSession_to_bytes x = Inr w" "hs_version s \<noteq> UNSPECIFIED" "ticket_seal a w ?ctx = Some ticket"
    using encrypt_session_ticket [OF assms(1,2)] assms(12) by auto
  have parsed: "TLSSession_from_bytes now w = Inr (session_kept x)" for now
    using session_parses [OF w(1) assms(5-8), of now "[]"] by simp
  from decrypt_parsed [of s' a suite ticket w "session_kept x" E] aead [OF w(3)] assms(3,9-12) w(2) parsed
  show ?thesis by simp
qed

text \<open>A ticket that opens and is no session: the handler of the parse error leaves the local variable unassigned.\<close>

lemma unparsable_ticket:
  assumes "cfg_ticket_aead (st_configuration (hs_settings s)) = Some a" and "hs_cipher_suite s = Some suite"
    and "hs_version s \<noteq> UNSPECIFIED" and "ticket \<noteq> []" and "\<And>now. \<exists>e. TLSSession_from_bytes now w = Inl e"
    and "ticket_open a ticket \<lparr>tctx_server_name = hs_hostname s, tctx_cipher_suite = suite,
        tctx_protocol_version = hs_version s\<rparr> = Some w"
  shows "fst (decrypt_session E ticket s) = Inl UnboundLocalError"
proof -
  obtain e where "TLSSession_from_bytes (env_now E (ep_draws s) 0) w = Inl e" using assms(5) by blast
  with assms show ?thesis
    unfolding decrypt_session_def current_cipher_suite_def assert_some_def ticket_context_def protocol_version_def
      utcnow_def draw_def
    by (simp add: action_simps)
qed

subsection \<open>Binders\<close>

lemma step_Inr:
  "bnd (lift_result r) f s = (Inr y, t) \<longleftrightarrow> (\<exists>x. r = Inr x \<and> f x s = (Inr y, t))"
  "thn (raise_if b e) m s = (Inr y, t) \<longleftrightarrow> \<not> b \<and> m s = (Inr y, t)"
  "thn (modify g) (ret z) s = (Inr y, t) \<longleftrightarrow> y = z \<and> t = g s"
  "lift_result r s = (Inr x, t) \<longleftrightarrow> r = Inr x \<and> t = s"
  by (auto simp: action_simps split: sum.splits)

lemma on_transcript_Inr: "on_transcript m s = (Inr x, t) \<Longrightarrow> fst (m (hs_transcript s)) = Inr x"
  by (auto simp: on_transcript_def split: prod.splits)

text \<open>The binder is the one that the session's secret gives for a hello: RFC 8446, section 4.2.11.2.\<close>

definition binder_valid ::
    "environment \<Rightarrow> cipher_suite \<Rightarrow> Transcript \<Rightarrow> Transcript \<Rightarrow> TLSSession \<Rightarrow> bytes \<Rightarrow> bytes \<Rightarrow> KeySchedule \<Rightarrow> bool" where
  "binder_valid E cs before hello session binder binder_key ks \<longleftrightarrow> (\<exists>ks\<^sub>0.
     KeySchedule_init (env_crypto E) (hash_id (cipher_suite.prf_hash cs)) = Inr ks\<^sub>0 \<and>
     extracted (env_crypto E) (Some (s_secret session)) ks\<^sub>0 = Inr ks \<and>
     fst (derive_secret (env_crypto E) ks (ascii ''res binder'') before) = Inr binder_key \<and>
     fst (finished_verify_data (env_crypto E) ks binder_key hello) = Inr binder)"

lemma select_psk_binder:
  assumes "select_psk E cs binders transcript n psks (s :: 'a TLSServer_scheme) = (Inr (Some (session, ks)), t)"
  shows "\<exists>i binder_key draws. i < length psks \<and> n + i < length binders \<and> srv_psk_index t = Some (int (n + i)) \<and>
     hs_session_reused t \<and> srv_pre_shared_key t = Some (psks ! i, binder_key) \<and>
     fst (decrypt_session E (identity (psks ! i)) (s\<lparr>ep_draws := draws\<rparr>)) = Inr (Some session) \<and>
     binder_valid E cs (hs_transcript s) transcript session (binders ! (n + i)) binder_key ks"
  using assms
proof (induction psks arbitrary: n s)
  case (Cons psk psks)
  obtain found u where d: "decrypt_session E (identity psk) s = (Inr found, u)"
    and rest: "(case found of
       None \<Rightarrow> select_psk E cs binders transcript (Suc n) psks
     | Some session \<Rightarrow>
         bnd (lift_result (KeySchedule_init (env_crypto E) (hash_id (cipher_suite.prf_hash cs)))) (\<lambda>ks.
         bnd (lift_result (extracted (env_crypto E) (Some (s_secret session)) ks)) (\<lambda>ks.
         bnd (on_transcript (derive_secret (env_crypto E) ks (ascii ''res binder''))) (\<lambda>binder_key.
         bnd (lift_result (fst (finished_verify_data (env_crypto E) ks binder_key transcript))) (\<lambda>expected_binder.
         thn (raise_if (length binders \<le> n) IndexError)
         (thn (raise_if (\<not> compare_digest (binders ! n) expected_binder) AlertDecryptError)
         (thn (modify (\<lambda>s. s\<lparr>hs_session_reused := True, srv_psk_index := Some (int n),
                srv_pre_shared_key := Some (psk, binder_key)\<rparr>))
         (ret (Some (session, ks)))))))))) u = (Inr (Some (session, ks)), t)"
    using Cons.prems unfolding select_psk.simps by (rule bnd_InrE)
  have u: "hs_transcript u = hs_transcript s" "u\<lparr>ep_draws := m\<rparr> = s\<lparr>ep_draws := m\<rparr>" for m
    by (subst decrypt_session_frame [OF d], simp)+
  show ?case
  proof (cases found)
    case None
    with rest have "select_psk E cs binders transcript (Suc n) psks u = (Inr (Some (session, ks)), t)" by simp
    from Cons.IH [OF this] obtain i binder_key m where "i < length psks" "Suc n + i < length binders"
      "srv_psk_index t = Some (int (Suc n + i))" "hs_session_reused t" "srv_pre_shared_key t = Some (psks ! i, binder_key)"
      "fst (decrypt_session E (identity (psks ! i)) (s\<lparr>ep_draws := m\<rparr>)) = Inr (Some session)"
      "binder_valid E cs (hs_transcript s) transcript session (binders ! (Suc n + i)) binder_key ks"
      unfolding u by (elim exE conjE) (rule that)
    then show ?thesis by (intro exI [of _ "Suc i"] exI [of _ binder_key] exI [of _ m]) simp
  next
    case (Some x)
    from rest [unfolded Some option.case step_Inr] obtain ks\<^sub>0 ks' binder_key v e w where
      run: "KeySchedule_init (env_crypto E) (hash_id (cipher_suite.prf_hash cs)) = Inr ks\<^sub>0"
        "extracted (env_crypto E) (Some (s_secret x)) ks\<^sub>0 = Inr ks'"
        "on_transcript (derive_secret (env_crypto E) ks' (ascii ''res binder'')) u = (Inr binder_key, v)"
      and "lift_result (fst (finished_verify_data (env_crypto E) ks' binder_key transcript)) v = (Inr e, w)"
        "thn (raise_if (length binders \<le> n) IndexError)
         (thn (raise_if (\<not> compare_digest (binders ! n) e) AlertDecryptError)
         (thn (modify (\<lambda>s. s\<lparr>hs_session_reused := True, srv_psk_index := Some (int n),
                srv_pre_shared_key := Some (psk, binder_key)\<rparr>))
         (ret (Some (x, ks'))))) w = (Inr (Some (session, ks)), t)"
      by (elim exE conjE bnd_InrE) (rule that)
    then have "x = session" "ks' = ks" "n < length binders"
      "fst (finished_verify_data (env_crypto E) ks binder_key transcript) = Inr (binders ! n)"
      "srv_psk_index t = Some (int n)" "hs_session_reused t" "srv_pre_shared_key t = Some (psk, binder_key)"
      by (auto simp: step_Inr compare_digest_def)
    then show ?thesis
      using run(1,2) on_transcript_Inr [OF run(3)] d Some u
      by (intro exI [of _ 0] exI [of _ binder_key] exI [of _ "ep_draws s"]) (simp add: binder_valid_def)
  qed
qed (simp add: action_simps)

text \<open>
  C7: A server of TLS 1.3 resumes a session only for a client that holds its secret.  When the offered pre-shared keys lead
  to a session, one of the identities is a ticket that the server opens to this session, and the binder at the same place is the
  verification data for the client hello up to the binders, under the key derived from the session's secret; the
  index of this identity is the one that the server hello will name.
\<close>

theorem psk_binder_verified:
  assumes "process_psk E cs exts psk_ext (s :: 'a TLSServer_scheme) = (Inr (mode, Some (session, ks)), t)"
  shows "\<exists>identities binders handshake hello i binder_key draws.
     psk_ext = Some (PSKClientExtension identities binders) \<and> hs_cache s = Some handshake \<and>
     get_client_hello_without_binders handshake binders = Inr hello \<and>
     i < length identities \<and> i < length binders \<and> srv_psk_index t = Some (int i) \<and> hs_session_reused t \<and>
     srv_pre_shared_key t = Some (identities ! i, binder_key) \<and>
     fst (decrypt_session E (identity (identities ! i)) (s\<lparr>ep_draws := draws\<rparr>)) = Inr (Some session) \<and>
     binder_valid E cs (hs_transcript s) (snd (update_hash hello (Transcript_copy (hs_transcript s))))
       session (binders ! i) binder_key ks"
proof -
  obtain identities binders where psk: "psk_ext = Some (PSKClientExtension identities binders)"
    using assms by (cases psk_ext) (auto simp: process_psk_def action_simps split: extension.splits)
  from assms obtain handshake hello where h: "hs_cache s = Some handshake"
    "get_client_hello_without_binders handshake binders = Inr hello"
    "select_psk E cs binders (snd (update_hash hello (Transcript_copy (hs_transcript s)))) 0 identities s =
       (Inr (Some (session, ks)), t)"
    unfolding psk process_psk_def ext_get_def assert_some_def Let_def
    by (auto simp: action_simps split: option.splits sum.splits extension.splits if_splits prod.splits)
  from select_psk_binder [OF h(3)] psk h(1,2) show ?thesis by simp
qed

subsection \<open>Instances\<close>

definition sample_tickets :: TicketAEAD where
  "sample_tickets = \<lparr>ticket_seal = \<lambda>d _. Some (1 # d), ticket_open = \<lambda>c _. Some (tl c)\<rparr>"

definition sample_clock :: environment where
  "sample_clock = sample_environment\<lparr>env_now := \<lambda>_ _. 1700000001000000\<rparr>"

definition sample_resuming :: TLSServer where
  "sample_resuming = sample_server\<lparr>hs_version := 772, hs_cipher_suite := Some TLS_AES_128_GCM_SHA256,
     hs_settings := (hs_settings sample_server)\<lparr>st_configuration := sample_client_configuration\<lparr>cfg_ticket_aead := Some sample_tickets\<rparr>,
       st_psk_kex_modes := [1]\<rparr>\<rparr>"

definition sample_ticket_session :: TLSSession where
  "sample_ticket_session = sample_session\<lparr>s_is_server := True\<rparr>"

lemma sample_resumable:
  "resumable 1700000001000000 772 TLS_AES_128_GCM_SHA256 (session_kept sample_ticket_session) = Inr True"
  by (simp add: resumable_def time_valid_def session_protocol_version_def suite_differs_def session_kept_def
      sample_ticket_session_def sample_session_def TLSSession_init_def MAX_DATETIME_def microseconds_def whole_seconds_def
      DEFAULT_TIMEOUT_def cipher_suite_eq_def Let_def)

lemma sample_ticket_bytes: "\<exists>w. TLSSession_to_bytes sample_ticket_session = Inr w"
  by (simp add: session_to_bytes_enc sample_ticket_session_def sample_session_def TLSSession_init_def enc_int_def enc_pbytes_def
      rcat_def int_of_bool_def whole_seconds_def microseconds_def DEFAULT_TIMEOUT_def TLS_AES_128_GCM_SHA256_def)

lemma sample_ticket_times:
  "s_cipher_suite sample_ticket_session = Some TLS_AES_128_GCM_SHA256" "TLS_AES_128_GCM_SHA256 \<in> set ALL_CIPHER_SUITES"
  "s_time sample_ticket_session \<le> MAX_DATETIME" "s_timeout sample_ticket_session < 86400000000000 * 1000000"
  by (simp_all add: sample_ticket_session_def sample_session_def TLSSession_init_def MAX_DATETIME_def microseconds_def
      DEFAULT_TIMEOUT_def ALL_CIPHER_SUITES_def)

theorem ticket_roundtrip_witness:
  "\<exists>ticket t. encrypt_session sample_ticket_session sample_resuming = (Inr (Some ticket), t) \<and>
     fst (decrypt_session sample_clock ticket sample_resuming) = Inr (Some (session_kept sample_ticket_session))"
proof -
  obtain w where w: "TLSSession_to_bytes sample_ticket_session = Inr w" using sample_ticket_bytes by blast
  have cfg: "cfg_ticket_aead (st_configuration (hs_settings sample_resuming)) = Some sample_tickets"
    by (simp add: sample_resuming_def)
  have e: "encrypt_session sample_ticket_session sample_resuming = (Inr (Some (1 # w)), sample_resuming)"
    unfolding encrypt_session_def current_cipher_suite_def assert_some_def ticket_context_def protocol_version_def
    by (simp add: action_simps w sample_resuming_def sample_tickets_def)
  have "fst (decrypt_session sample_clock (1 # w) sample_resuming) =
     rmap (\<lambda>ok. if ok then Some (session_kept sample_ticket_session) else None)
       (resumable (env_now sample_clock (Suc (ep_draws sample_resuming)) 0) (hs_version sample_resuming)
         TLS_AES_128_GCM_SHA256 (session_kept sample_ticket_session))"
    by (rule ticket_roundtrip [OF e cfg cfg _ sample_ticket_times]) (auto simp: sample_tickets_def sample_resuming_def)
  with e show ?thesis by (auto simp: sample_clock_def sample_resuming_def sample_resumable)
qed

text \<open>A client hello with one ticket and its binder.\<close>

definition sample_offer :: TLSServer where
  "sample_offer = sample_resuming\<lparr>hs_transcript := Transcript_init,
     hs_cache := Some \<lparr>h_type = ht HT_CLIENT_HELLO, h_data = replicate 40 5, h_parsed = None\<rparr>\<rparr>"

lemma sample_digest:
  assumes "get_algorithm n = Inr alg" and "n \<noteq> UNSPECIFIED" and "t_hashes T = Map.empty"
  shows "\<exists>d T'. Transcript_digest sample_crypto n T = (Inr d, T') \<and> length d = 20"
  using assms
  by (cases "get_hash n (t_buffer T)")
     (auto simp: Transcript_digest_def action_simps get_hash_def rbind_Inr_iff sample_crypto_def hash_copy_def split: if_splits)

lemma sample_expand:
  assumes "length label < 200" and "length data < 200" and "len < 200"
  shows "\<exists>k. hkdf_expand_label sample_crypto secret label data len alg = Inr k"
proof -
  have "\<exists>info. hkdf_label label data len = Inr info"
    using assms by (simp add: hkdf_label_Inr_iff ascii_def)
  then show ?thesis by (auto simp: hkdf_expand_label_def hkdf_expand_def sample_crypto_def)
qed

lemma sample_binder_keys:
  obtains ks\<^sub>0 ks binder_key T b where
    "KeySchedule_init sample_crypto (hash_id (cipher_suite.prf_hash TLS_AES_128_GCM_SHA256)) = Inr ks\<^sub>0"
    "extracted sample_crypto (Some secret) ks\<^sub>0 = Inr ks"
    "derive_secret sample_crypto ks (ascii ''res binder'') Transcript_init = (Inr binder_key, T)"
    "fst (finished_verify_data sample_crypto ks binder_key (Transcript_init\<lparr>t_buffer := hello\<rparr>)) = Inr (replicate 20 b)"
proof -
  let ?n = "hash_id (cipher_suite.prf_hash TLS_AES_128_GCM_SHA256)"
  obtain alg where alg: "get_algorithm ?n = Inr alg" "?n \<noteq> UNSPECIFIED"
    by (simp add: get_algorithm_def TLS_AES_128_GCM_SHA256_def)
  define ks\<^sub>0 where "ks\<^sub>0 = \<lparr>ks_hash_algorithm = ?n, ks_algorithm = alg, ks_digest_size = 20, ks_generation = 0,
      ks_secret = replicate 20 0\<rparr>"
  define ks where "ks = ks\<^sub>0\<lparr>ks_generation := 1, ks_secret := hkdf_extract sample_crypto (replicate 20 0) secret alg\<rparr>"
  have 1: "KeySchedule_init sample_crypto ?n = Inr ks\<^sub>0"
    using alg(1) by (simp add: KeySchedule_init_def ks\<^sub>0_def sample_crypto_def)
  have 2: "extracted sample_crypto (Some secret) ks\<^sub>0 = Inr ks"
    by (simp add: extracted_def ks_extract_def action_simps ks_def ks\<^sub>0_def)
  have fields: "ks_hash_algorithm ks = ?n" "ks_digest_size ks = 20" by (simp_all add: ks_def ks\<^sub>0_def)
  obtain d T where d: "Transcript_digest sample_crypto ?n Transcript_init = (Inr d, T)" "length d = 20"
    using sample_digest [OF alg, of Transcript_init] by (auto simp: Transcript_init_def)
  obtain k where "hkdf_expand_label sample_crypto (ks_secret ks) (ascii ''res binder'') d 20 (ks_algorithm ks) = Inr k"
    using sample_expand [of "ascii ''res binder''" d 20] d(2) by (auto simp: ascii_def)
  then have 3: "derive_secret sample_crypto ks (ascii ''res binder'') Transcript_init = (Inr k, T)"
    by (simp add: derive_secret_def action_simps fields d)
  let ?T = "Transcript_init\<lparr>t_buffer := hello\<rparr>"
  obtain e U where e: "Transcript_digest sample_crypto ?n ?T = (Inr e, U)"
    using sample_digest [OF alg, of ?T] by (auto simp: Transcript_init_def)
  obtain f where f: "hkdf_expand_label sample_crypto k (ascii ''finished'') [] 20 (ks_algorithm ks) = Inr f"
    using sample_expand [of "ascii ''finished''" "[]" 20] by (auto simp: ascii_def)
  have "hkdf_extract sample_crypto f e (ks_algorithm ks) = replicate 20 (fold (+) (f @ e) 1)"
    by (simp add: hkdf_extract_def sample_crypto_def)
  then have 4: "fst (finished_verify_data sample_crypto ks k ?T) = Inr (replicate 20 (fold (+) (f @ e) 1))"
    by (simp add: finished_verify_data_def action_simps fields e f)
  from 1 2 3 4 show ?thesis by (rule that)
qed

theorem psk_binder_verified_witness:
  "\<exists>identities binders ks t. process_psk sample_clock TLS_AES_128_GCM_SHA256 [(45, [1, 1])]
       (Some (PSKClientExtension identities binders)) sample_offer =
     (Inr (Some 1, Some (session_kept sample_ticket_session, ks)), t) \<and> hs_session_reused t"
proof -
  obtain w where w: "TLSSession_to_bytes sample_ticket_session = Inr w" using sample_ticket_bytes by blast
  define psk where "psk = \<lparr>identity = 1 # w, obfuscated_ticket_age = 0\<rparr>"
  let ?hello = "[1, 0, 0, 40] @ replicate 17 5 :: bytes"
  obtain ks\<^sub>0 ks binder_key T b where k:
    "KeySchedule_init sample_crypto (hash_id (cipher_suite.prf_hash TLS_AES_128_GCM_SHA256)) = Inr ks\<^sub>0"
    "extracted sample_crypto (Some (s_secret (session_kept sample_ticket_session))) ks\<^sub>0 = Inr ks"
    "derive_secret sample_crypto ks (ascii ''res binder'') Transcript_init = (Inr binder_key, T)"
    "fst (finished_verify_data sample_crypto ks binder_key (Transcript_init\<lparr>t_buffer := ?hello\<rparr>)) = Inr (replicate 20 b)"
    by (rule sample_binder_keys)
  have parsed: "TLSSession_from_bytes now w = Inr (session_kept sample_ticket_session)" for now
    using session_parses [OF w sample_ticket_times, of now "[]"] by simp
  have "fst (decrypt_session sample_clock (1 # w) sample_offer) = Inr (Some (session_kept sample_ticket_session))"
    using decrypt_parsed [of sample_offer sample_tickets TLS_AES_128_GCM_SHA256 "1 # w" w _ sample_clock, OF _ _ _ _ parsed]
    by (simp add: sample_offer_def sample_resuming_def sample_tickets_def sample_clock_def sample_resumable)
  then obtain u where d: "decrypt_session sample_clock (1 # w) sample_offer = (Inr (Some (session_kept sample_ticket_session)), u)"
    by (cases "decrypt_session sample_clock (1 # w) sample_offer") simp
  have u: "hs_transcript u = Transcript_init"
    by (subst decrypt_session_frame [OF d]) (simp add: sample_offer_def)
  have "\<exists>t. process_psk sample_clock TLS_AES_128_GCM_SHA256 [(45, [1, 1])] (Some (PSKClientExtension [psk] [replicate 20 b])) sample_offer =
     (Inr (Some 1, Some (session_kept sample_ticket_session, ks)), t)"
  proof -
    have modes: "Extensions_get PSKKeyExchangeModes_class [(45, [1, 1])] = Inr (Some (PSKKeyExchangeModesExtension [1]))"
      by (simp add: Extensions_get.simps PrefixedIntList_from_bytes_def PSKKeyExchangeModesExtension_attrs_def within_boundaries_def
          run_parser_def read_prefixed_int_list_def read_int_def read_bytes_def no_trailing_def remaining_def action_simps
          bytes_to_int_def Let_def new_parser_def numeral_eq_Suc repeat_action.simps)
    have hello: "get_client_hello_without_binders \<lparr>h_type = ht HT_CLIENT_HELLO, h_data = replicate 40 5, h_parsed = None\<rparr>
        [replicate 20 b] = Inr ?hello"
      by (simp add: int_to_bytes_def get_client_hello_without_binders_def pack_handshake_def pack_bytes_def Let_def numeral_eq_Suc)
    have "on_transcript (derive_secret sample_crypto ks (ascii ''res binder'')) u = (Inr binder_key, u\<lparr>hs_transcript := T\<rparr>)"
      by (simp add: on_transcript_def u k)
    then obtain t where sel: "select_psk sample_clock TLS_AES_128_GCM_SHA256 [replicate 20 b] (Transcript_init\<lparr>t_buffer := ?hello\<rparr>) 0 [psk]
        sample_offer = (Inr (Some (session_kept sample_ticket_session, ks)), t)"
      using d k by (simp add: action_simps psk_def sample_clock_def sample_environment_def compare_digest_def)
    have offer: "snd (update_hash ?hello (Transcript_copy (hs_transcript sample_offer))) = Transcript_init\<lparr>t_buffer := ?hello\<rparr>"
      "hs_cache sample_offer = Some \<lparr>h_type = ht HT_CLIENT_HELLO, h_data = replicate 40 5, h_parsed = None\<rparr>"
      "st_psk_kex_modes (hs_settings sample_offer) = [1]"
      by (simp_all add: update_hash_def action_simps Transcript_copy_def sample_offer_def sample_resuming_def Transcript_init_def)
    have "negotiate [1 :: int] (Some [1]) None = Inr (Some 1)" by (simp add: negotiate_def)
    with modes hello sel offer show ?thesis
      unfolding process_psk_def ext_get_def assert_some_def
      by (simp add: action_simps del: select_psk.simps Extensions_get.simps)
  qed
  with psk_binder_verified show ?thesis by metis
qed

end
