(* ===== verification/Handshake_Progress.thy ===== *)
theory Handshake_Progress
  imports Server_Properties
begin

text \<open>
  The dispatch loop ends.  Outside of the handling of messages after the handshake, a handler that asks the
  loop to go on has moved the state machine forwards in a fixed order of the states; so a bounded number of
  steps ends the loop, with the handshake complete, with a request to the connection, or with an exception.
  That the loop ends is stated with the runs of the loop of the source, which has no fuel.
\<close>

subsection \<open>Handlers that ask to go on\<close>

definition departs :: "(int \<Rightarrow> bool) \<Rightarrow> ('a TLSHandshake_scheme, Status) action \<Rightarrow> bool" where
  "departs S m \<longleftrightarrow> (\<forall>s t. m s = (Inr ST_OK, t) \<longrightarrow> S (hs_state t))"

lemma departsD: "departs S m \<Longrightarrow> m s = (Inr ST_OK, t) \<Longrightarrow> S (hs_state t)"
  by (auto simp: departs_def)

named_theorems depart_rules \<open>what the last step of an action says about its state\<close>

lemma departs_bnd [depart_rules]: "(\<And>y. departs S (f y)) \<Longrightarrow> departs S (bnd m f)"
  by (auto simp: departs_def action_simps split: prod.splits sum.splits)

lemma departs_thn [depart_rules]: "departs S n \<Longrightarrow> departs S (thn m n)"
  by (auto simp: departs_def action_simps split: prod.splits sum.splits)

lemma departs_basic [depart_rules]:
  "departs S (raise e)" "x \<noteq> ST_OK \<Longrightarrow> departs S (ret x)" "(status = ST_OK \<Longrightarrow> S st) \<Longrightarrow> departs S (goto st status)"
  by (auto simp: departs_def goto_def set_state_def action_simps)

lemma departs_branches [depart_rules]:
  "(b \<Longrightarrow> departs S m) \<Longrightarrow> (\<not> b \<Longrightarrow> departs S n) \<Longrightarrow> departs S (if b then m else n)"
  "(x = None \<Longrightarrow> departs S m) \<Longrightarrow> (\<And>y. x = Some y \<Longrightarrow> departs S (f y)) \<Longrightarrow> departs S (case x of None \<Rightarrow> m | Some y \<Rightarrow> f y)"
  "(\<And>a b. p = (a, b) \<Longrightarrow> departs S (g a b)) \<Longrightarrow> departs S (case p of (a, b) \<Rightarrow> g a b)"
  by (auto split: option.splits prod.splits)

lemma departs_with_handshake [depart_rules]: "(\<And>h. departs S (f h)) \<Longrightarrow> departs S (with_handshake f)"
  unfolding with_handshake_def by (intro depart_rules) simp_all

lemma departs_message [depart_rules]:
  "(\<And>x0. v = ClientHello x0 \<Longrightarrow> departs S (m0 x0)) \<Longrightarrow>
   (v = HelloRequest \<Longrightarrow> departs S m1) \<Longrightarrow>
   (\<And>x0. v = ServerHello x0 \<Longrightarrow> departs S (m2 x0)) \<Longrightarrow>
   (\<And>x0. v = ClientKeyExchange x0 \<Longrightarrow> departs S (m3 x0)) \<Longrightarrow>
   (\<And>x0. v = ServerKeyExchange x0 \<Longrightarrow> departs S (m4 x0)) \<Longrightarrow>
   (v = ServerHelloDone \<Longrightarrow> departs S m5) \<Longrightarrow>
   (\<And>x0. v = NextProtocol x0 \<Longrightarrow> departs S (m6 x0)) \<Longrightarrow>
   (\<And>x0. v = EncryptedExtensions x0 \<Longrightarrow> departs S (m7 x0)) \<Longrightarrow>
   (v = EndOfEarlyData \<Longrightarrow> departs S m8) \<Longrightarrow>
   (\<And>x0. v = Finished x0 \<Longrightarrow> departs S (m9 x0)) \<Longrightarrow>
   (\<And>x0. v = NewSessionTicket x0 \<Longrightarrow> departs S (m10 x0)) \<Longrightarrow>
   (\<And>x0. v = NewSessionTicketTLS13 x0 \<Longrightarrow> departs S (m11 x0)) \<Longrightarrow>
   (\<And>x0. v = KeyUpdate x0 \<Longrightarrow> departs S (m12 x0)) \<Longrightarrow>
   (\<And>x0. v = CertificateStatus x0 \<Longrightarrow> departs S (m13 x0)) \<Longrightarrow>
   (\<And>x0. v = Certificate x0 \<Longrightarrow> departs S (m14 x0)) \<Longrightarrow>
   (\<And>x0. v = CertificateTLS13 x0 \<Longrightarrow> departs S (m15 x0)) \<Longrightarrow>
   (\<And>x0. v = CompressedCertificate x0 \<Longrightarrow> departs S (m16 x0)) \<Longrightarrow>
   (\<And>x0. v = CertificateRequest x0 \<Longrightarrow> departs S (m17 x0)) \<Longrightarrow>
   (\<And>x0. v = CertificateRequestTLS12 x0 \<Longrightarrow> departs S (m18 x0)) \<Longrightarrow>
   (\<And>x0. v = CertificateRequestTLS13 x0 \<Longrightarrow> departs S (m19 x0)) \<Longrightarrow>
   (\<And>x0. v = CertificateVerify x0 \<Longrightarrow> departs S (m20 x0)) \<Longrightarrow>
   (\<And>x0. v = CertificateVerifyTLS12 x0 \<Longrightarrow> departs S (m21 x0)) \<Longrightarrow>
   departs S (case_message m0 m1 m2 m3 m4 m5 m6 m7 m8 m9 m10 m11
     m12 m13 m14 m15 m16 m17 m18 m19 m20 m21 v)"
  by (cases v) simp_all

text \<open>The handlers that change the state first and decide about the status afterwards.\<close>

lemma departs_set_state:
  "S st \<Longrightarrow> departs S (thn (set_state st) (bnd get_state (\<lambda>s. ret (f s))))"
  "S st \<Longrightarrow> departs S (thn (set_state st) (bnd (gets g) (\<lambda>x. ret (f' x))))"
  by (auto simp: departs_def set_state_def action_simps)

subsection \<open>The order of the states\<close>

text \<open>
  The number of a state grows along the steps that ask the loop to go on, with two exceptions: the final state
  ends the loop, and a client that resumes a session sends its change of the cipher after the server's finished
  message, and returns to the connection with it.
\<close>

definition client_rank :: "ClientState \<Rightarrow> nat" where
  "client_rank x = (if x = CLI_DONE then 0 else if x = CLI_SEND_CHANGE_CIPHER_SPEC then 1 else nat (40 - cli x))"

definition server_rank :: "ServerState \<Rightarrow> nat" where
  "server_rank x = (if x = SRV_DONE then 0 else nat (40 - srv x))"

definition client_onwards :: "ClientState \<Rightarrow> int \<Rightarrow> bool" where
  "client_onwards x n \<longleftrightarrow> (\<exists>y. n = cli y \<and> y \<noteq> CLI_READ_POST_HANDSHAKE \<and> client_rank y < client_rank x)"

definition server_onwards :: "ServerState \<Rightarrow> int \<Rightarrow> bool" where
  "server_onwards x n \<longleftrightarrow> (\<exists>y. n = srv y \<and> y \<noteq> SRV_READ_POST_HANDSHAKE \<and> server_rank y < server_rank x)"

lemma onwards:
  "client_onwards x (cli y) \<longleftrightarrow> y \<noteq> CLI_READ_POST_HANDSHAKE \<and> client_rank y < client_rank x"
  "client_onwards x (if b then m else n) \<longleftrightarrow> (if b then client_onwards x m else client_onwards x n)"
  "server_onwards u (srv v) \<longleftrightarrow> v \<noteq> SRV_READ_POST_HANDSHAKE \<and> server_rank v < server_rank u"
  "server_onwards u (if b then m else n) \<longleftrightarrow> (if b then server_onwards u m else server_onwards u n)"
  by (auto simp: client_onwards_def server_onwards_def)

lemma client_departs: "client_handler E x = Some h \<Longrightarrow> x \<noteq> CLI_READ_POST_HANDSHAKE \<Longrightarrow> departs (client_onwards x) h"
  apply (cases x; simp only: client_handler.simps option.inject option.distinct simp_thms; hypsubst?)
  unfolding client_handler_defs Let_def
  by ((rule departs_set_state, simp only: onwards, simp add: client_rank_def cli.simps)
    | (intro depart_rules; simp only: onwards; simp add: client_rank_def cli.simps))+

lemma server_departs: "server_handler E x = Some h \<Longrightarrow> x \<noteq> SRV_READ_POST_HANDSHAKE \<Longrightarrow> departs (server_onwards x) h"
  apply (cases x; simp only: server_handler.simps option.inject option.distinct simp_thms; hypsubst?)
  unfolding server_handler_defs Let_def
  by ((rule departs_set_state, simp only: onwards, simp add: server_rank_def srv.simps)
    | (intro depart_rules; simp only: onwards; simp add: server_rank_def srv.simps))+

subsection \<open>The loop\<close>

text \<open>
  The runs of the loop \<open>while True\<close> of \<open>do_handshake\<close> (\<open>tls/handshake.py\<close>) that end, without fuel: \<open>loop_runs\<close> relates the last status
  and the state before the loop to its result, with the state it leaves.  A loop that goes round for ever has no such run.
\<close>

inductive loop_runs ::
    "('a TLSHandshake_scheme \<Rightarrow> bool) \<Rightarrow> (int \<Rightarrow> ('a TLSHandshake_scheme, Status) action option) \<Rightarrow>
     Status \<Rightarrow> 'a TLSHandshake_scheme \<Rightarrow> Status result \<Rightarrow> 'a TLSHandshake_scheme \<Rightarrow> bool"
  for is_done dispatch where
  finishes: "is_done s \<Longrightarrow> loop_runs is_done dispatch st s (Inr st) s"
| no_handler: "\<not> is_done s \<Longrightarrow> dispatch (hs_state s) = None \<Longrightarrow> loop_runs is_done dispatch st s (Inl KeyError) s"
| raises: "\<not> is_done s \<Longrightarrow> dispatch (hs_state s) = Some h \<Longrightarrow> h s = (Inl e, t) \<Longrightarrow>
    loop_runs is_done dispatch st s (Inl (if e = ParseError then AlertDecodeError else e)) t"
| returns: "\<not> is_done s \<Longrightarrow> dispatch (hs_state s) = Some h \<Longrightarrow> h s = (Inr q, t) \<Longrightarrow> q \<noteq> ST_OK \<Longrightarrow>
    loop_runs is_done dispatch st s (Inr q) t"
| goes_on: "\<not> is_done s \<Longrightarrow> dispatch (hs_state s) = Some h \<Longrightarrow> h s = (Inr ST_OK, t) \<Longrightarrow>
    loop_runs is_done dispatch ST_OK t r u \<Longrightarrow> loop_runs is_done dispatch st s r u"

text \<open>
  A table of handlers with a rank: outside of the set of exempted states, a handler that asks the loop to go
  on ends in a state of smaller rank that is not exempted.
\<close>

locale ranked_machine =
  fixes enc :: "'x \<Rightarrow> int" and handler :: "'x \<Rightarrow> ('a TLSHandshake_scheme, Status) action option"
    and dispatch :: "int \<Rightarrow> ('a TLSHandshake_scheme, Status) action option"
    and rank :: "'x \<Rightarrow> nat" and exempt :: 'x
  assumes enc_inject: "enc x = enc y \<Longrightarrow> x = y"
    and lookup: "dispatch n = Some h \<Longrightarrow> \<exists>x. n = enc x \<and> handler x = Some h"
    and step: "handler x = Some h \<Longrightarrow> x \<noteq> exempt \<Longrightarrow>
      departs (\<lambda>n. \<exists>y. n = enc y \<and> y \<noteq> exempt \<and> rank y < rank x) h"
begin

lemma loop_ends:
  assumes "hs_state s \<noteq> enc exempt" and "\<And>x. hs_state s = enc x \<Longrightarrow> rank x < fuel" and "0 < fuel"
  shows "\<exists>r t. loop_runs hs_done dispatch st s r t \<and>
    (\<forall>n. hs_do_handshake_loop (fuel + n) hs_done dispatch st s = (r, t)) \<and> (r = Inr ST_OK \<longrightarrow> hs_done t)"
  using assms
proof (induction fuel arbitrary: s st)
  case (Suc fuel)
  show ?case
  proof (cases "hs_done s \<or> dispatch (hs_state s) = None")
    case True
    then consider "hs_done s" | "\<not> hs_done s" "dispatch (hs_state s) = None" by (cases "hs_done s") auto
    then show ?thesis
    proof cases
      case 1
      then have "loop_runs hs_done dispatch st s (Inr st) s" by (rule finishes)
      with 1 show ?thesis by (intro exI conjI) (auto simp: action_simps)
    next
      case 2
      then have "loop_runs hs_done dispatch st s (Inl KeyError) s" by (rule no_handler)
      with 2 show ?thesis by (intro exI conjI) (auto simp: action_simps)
    qed
  next
    case False
    then obtain h x where d: "dispatch (hs_state s) = Some h" "hs_state s = enc x" "handler x = Some h"
      using lookup by blast
    have not_done: "\<not> hs_done s" using False by simp
    obtain q u where h: "h s = (q, u)" by (cases "h s")
    show ?thesis
    proof (cases q)
      case (Inl e)
      have "loop_runs hs_done dispatch st s (Inl (if e = ParseError then AlertDecodeError else e)) u"
        using raises [of hs_done s dispatch h e u st] not_done d(1) h Inl by simp
      with not_done d(1) h Inl show ?thesis by (intro exI conjI) (auto simp: action_simps catch_def)
    next
      case q: (Inr v)
      show ?thesis
      proof (cases "v = ST_OK")
        case True
        have "x \<noteq> exempt" using Suc.prems(1) d(2) by auto
        from departsD [OF step [OF d(3) this]] h q True
        obtain y where y: "hs_state u = enc y" "y \<noteq> exempt" "rank y < rank x" by auto
        have run: "hs_do_handshake_loop (Suc k) hs_done dispatch st s = hs_do_handshake_loop k hs_done dispatch ST_OK u" for k
          using not_done d(1) h q True by (simp add: action_simps catch_def)
        have "hs_state u \<noteq> enc exempt" "0 < fuel" "\<And>z. hs_state u = enc z \<Longrightarrow> rank z < fuel"
          using y Suc.prems(2) [OF d(2)] enc_inject by (auto dest!: enc_inject)
        from Suc.IH [OF this(1,3,2), of ST_OK] obtain r t where
          "loop_runs hs_done dispatch ST_OK u r t" "\<forall>n. hs_do_handshake_loop (fuel + n) hs_done dispatch ST_OK u = (r, t)"
          "r = Inr ST_OK \<longrightarrow> hs_done t" by blast
        with goes_on [of hs_done s dispatch h u r t st] not_done d(1) h q True run show ?thesis by (intro exI conjI) auto
      next
        case False
        have "loop_runs hs_done dispatch st s (Inr v) u" using returns [of hs_done s dispatch h v u st] not_done d(1) h q False by simp
        with not_done d(1) h q False show ?thesis by (intro exI conjI) (auto simp: action_simps catch_def)
      qed
    qed
  qed
qed simp

end

interpretation client_loop: ranked_machine cli "client_handler E :: ClientState \<Rightarrow> ('a, Status) client_action option"
  "client_dispatch E" client_rank CLI_READ_POST_HANDSHAKE for E :: environment
proof unfold_locales
  fix x and h :: "('a, Status) client_action"
  assume "client_handler E x = Some h" "x \<noteq> CLI_READ_POST_HANDSHAKE"
  then show "departs (\<lambda>n. \<exists>y. n = cli y \<and> y \<noteq> CLI_READ_POST_HANDSHAKE \<and> client_rank y < client_rank x) h"
    by (rule client_departs [unfolded client_onwards_def])
qed (auto dest: client_dispatch_Some)

interpretation server_loop: ranked_machine srv "server_handler E :: ServerState \<Rightarrow> ('a, Status) server_action option"
  "server_dispatch E" server_rank SRV_READ_POST_HANDSHAKE for E :: environment
proof unfold_locales
  fix x and h :: "('a, Status) server_action"
  assume "server_handler E x = Some h" "x \<noteq> SRV_READ_POST_HANDSHAKE"
  then show "departs (\<lambda>n. \<exists>y. n = srv y \<and> y \<noteq> SRV_READ_POST_HANDSHAKE \<and> server_rank y < server_rank x) h"
    by (rule server_departs [unfolded server_onwards_def])
qed (auto dest: server_dispatch_Some)

lemma ranks_below: "client_rank x < 40" "server_rank y < 40"
  by (cases x; simp add: client_rank_def cli.simps) (cases y; simp add: server_rank_def srv.simps)

text \<open>
  C9: The client's loop over its handlers ends, in every state outside of the handling of messages after the handshake and whatever
  has been received: the loop of the source, without fuel, has a run to a result, so no handler keeps it going for ever, and the model's
  loop gives this result with a fuel of 40 and with any more.  The result is the exception or the request to the connection of a
  handler, a \<open>KeyError\<close> in a state without one, or the end of the handshake: a loop that returns without a request leaves the handshake
  complete.
\<close>

theorem client_progress:
  assumes "hs_state s \<noteq> cli CLI_READ_POST_HANDSHAKE"
  shows "\<exists>r t. loop_runs hs_done (client_dispatch E) ST_OK s r t \<and>
    (\<forall>n. client_do_handshake (40 + n) E s = (r, t)) \<and> (r = Inr ST_OK \<longrightarrow> hs_done t)"
  using assms unfolding client_do_handshake_def by (intro client_loop.loop_ends) (simp_all add: ranks_below)

text \<open>
  C8: The server's loop over its handlers ends, in every state outside of the handling of messages after the handshake and whatever
  has been received: the loop of the source, without fuel, has a run to a result, so no handler keeps it going for ever, and the model's
  loop gives this result with a fuel of 40 and with any more.  The result is the exception or the request to the connection of a
  handler, a \<open>KeyError\<close> in a state without one, or the end of the handshake: a loop that returns without a request leaves the handshake
  complete.
\<close>

theorem server_progress:
  assumes "hs_state s \<noteq> srv SRV_READ_POST_HANDSHAKE"
  shows "\<exists>r t. loop_runs hs_done (server_dispatch E) ST_OK s r t \<and>
    (\<forall>n. server_do_handshake (40 + n) E s = (r, t)) \<and> (r = Inr ST_OK \<longrightarrow> hs_done t)"
  using assms unfolding server_do_handshake_def by (intro server_loop.loop_ends) (simp_all add: ranks_below)

lemma sample_states: "hs_state sample_client = cli CLI_START_CONNECT" "hs_state sample_server = srv SRV_START_ACCEPT"
  by (rule TLSClient_init_core [OF sample_client_init], simp add: core_of_def)
     (rule TLSServer_init_core [OF sample_server_init], simp add: core_of_def)

theorem client_progress_witness:
  "\<exists>r t. loop_runs hs_done (client_dispatch sample_environment) ST_OK sample_client r t \<and>
     client_do_handshake 45 sample_environment sample_client = (r, t) \<and> (r = Inr ST_OK \<longrightarrow> hs_done t)"
proof -
  have "hs_state sample_client \<noteq> cli CLI_READ_POST_HANDSHAKE" by (simp add: sample_states)
  from client_progress [OF this, of sample_environment] obtain r t where
    "loop_runs hs_done (client_dispatch sample_environment) ST_OK sample_client r t"
    "\<forall>n. client_do_handshake (40 + n) sample_environment sample_client = (r, t)" "r = Inr ST_OK \<longrightarrow> hs_done t" by blast
  moreover from this(2) have "client_do_handshake (40 + 5) sample_environment sample_client = (r, t)" by (rule spec)
  ultimately show ?thesis by auto
qed

theorem server_progress_witness:
  "\<exists>r t. loop_runs hs_done (server_dispatch sample_environment) ST_OK sample_server r t \<and>
     server_do_handshake 45 sample_environment sample_server = (r, t) \<and> (r = Inr ST_OK \<longrightarrow> hs_done t)"
proof -
  have "hs_state sample_server \<noteq> srv SRV_READ_POST_HANDSHAKE" by (simp add: sample_states)
  from server_progress [OF this, of sample_environment] obtain r t where
    "loop_runs hs_done (server_dispatch sample_environment) ST_OK sample_server r t"
    "\<forall>n. server_do_handshake (40 + n) sample_environment sample_server = (r, t)" "r = Inr ST_OK \<longrightarrow> hs_done t" by blast
  moreover from this(2) have "server_do_handshake (40 + 5) sample_environment sample_server = (r, t)" by (rule spec)
  ultimately show ?thesis by auto
qed

end
