(* ===== verification/Endpoint_Safety.thy ===== *)
theory Endpoint_Safety
  imports Client_Properties Server_Properties Record_Budget
begin

text \<open>
  Safety of a whole endpoint, the connection with the handshake of a client or of a server inside.  A handler never touches
  the edge of the connection (\<open>Handshake_Core\<close>), so a property of the edge that the record layer keeps holds after every history
  of calls of the application, with the handshakes as they are.
\<close>

subsection \<open>The handshakes leave the edge alone\<close>

lemma dispatch_loop_keeps:
  assumes "\<And>n h. dispatch n = Some h \<Longrightarrow> gkeeps view P h"
  shows "gkeeps view P (hs_do_handshake_loop fuel is_done dispatch st)"
proof (induction fuel arbitrary: st)
  case (Suc fuel)
  show ?case unfolding hs_do_handshake_loop.simps by (intro core_rules Suc assms)
qed (simp add: ckeeps_basic)

lemma handshake_edge:
  "gkeeps (\<lambda>e _. e) (\<lambda>c. handshake_core.more c = e) (client_do_handshake fuel E :: ('a, Status) client_action)"
  "gkeeps (\<lambda>e _. e) (\<lambda>c. handshake_core.more c = e) (server_do_handshake fuel E :: ('b, Status) server_action)"
  unfolding client_do_handshake_def server_do_handshake_def
  by (intro dispatch_loop_keeps, metis client_dispatch_Some client_handler_edge)
     (intro dispatch_loop_keeps, metis server_dispatch_Some server_handler_edge)

text \<open>A property that only depends on the edge.\<close>

definition on_edge :: "(connection_edge \<Rightarrow> bool) \<Rightarrow> 'a TLSConnection_scheme \<Rightarrow> bool" where
  "on_edge P s \<longleftrightarrow> P (edge_of s)"

lemma edge_keeps:
  assumes "\<And>e. gkeeps (\<lambda>e _. e) (\<lambda>c. handshake_core.more c = e) m"
  shows "keeps (on_edge P) (\<lambda>_. on_edge P) m"
proof -
  have "edge_of t = edge_of s" if "m s = (r, t)" for s r t
    using ckeepsD [OF assms _ that, of "edge_of s"] by simp
  then show ?thesis unfolding keeps_def by (intro hoareI) (auto simp: on_edge_def)
qed

lemma edge_properties:
  "silent b = on_edge (\<lambda>e. ce_write_shutdown e \<noteq> SHUT_NONE \<and> suffix (ce_outbio e) b)"
  "grown_from b = on_edge (\<lambda>e. prefix b (ce_outbio e))"
  "counted i w = on_edge (\<lambda>e. i \<le> ce_early_data_ignored e \<and> w \<le> ce_warning_alerts e)"
  by (simp_all add: fun_eq_iff on_edge_def edge_of_def silent_def grown_from_def counted_def)

lemmas client_keeps_edge = edge_keeps [OF handshake_edge(1)]
lemmas server_keeps_edge = edge_keeps [OF handshake_edge(2)]

subsection \<open>Histories of an endpoint\<close>

text \<open>The calls of an application on a client and on a server, whatever they return or raise.\<close>

definition client_history ::
    "nat \<Rightarrow> environment \<Rightarrow> (nat \<Rightarrow> bytes) \<Rightarrow> conn_call list \<Rightarrow> 'a TLSClient_scheme \<Rightarrow> 'a TLSClient_scheme" where
  "client_history fuel E rnd calls = fold (run_call (env_crypto E) rnd (client_do_handshake fuel E)) calls"

definition server_history ::
    "nat \<Rightarrow> environment \<Rightarrow> (nat \<Rightarrow> bytes) \<Rightarrow> conn_call list \<Rightarrow> 'a TLSServer_scheme \<Rightarrow> 'a TLSServer_scheme" where
  "server_history fuel E rnd calls = fold (run_call (env_crypto E) rnd (server_do_handshake fuel E)) calls"

lemma client_silent: "keeps_silent b (client_do_handshake fuel E)"
  unfolding edge_properties by (rule client_keeps_edge)

lemma server_silent: "keeps_silent b (server_do_handshake fuel E)"
  unfolding edge_properties by (rule server_keeps_edge)

text \<open>
  C17: Once a connection is closed for writing, by a close notification or by an alert of its own, no history of calls of the
  application produces another byte of output, on a client as on a server, whatever the peer sends, in whatever state the handshake is
  and whatever the calls return or raise: the output only becomes shorter as the application takes it, and the
  connection never opens again.
\<close>

theorem closed_is_silent:
  "(cn_write_shutdown c \<noteq> SHUT_NONE \<longrightarrow>
      suffix (cn_outbio (client_history fuel E rnd calls c)) (cn_outbio c) \<and>
      cn_write_shutdown (client_history fuel E rnd calls c) \<noteq> SHUT_NONE) \<and>
   (cn_write_shutdown s \<noteq> SHUT_NONE \<longrightarrow>
      suffix (cn_outbio (server_history fuel E rnd calls s)) (cn_outbio s) \<and>
      cn_write_shutdown (server_history fuel E rnd calls s) \<noteq> SHUT_NONE)"
  using run_calls_silent [OF client_silent, of "cn_outbio c" c "env_crypto E" rnd fuel E calls]
    run_calls_silent [OF server_silent, of "cn_outbio s" s "env_crypto E" rnd fuel E calls]
  by (simp add: silent_def client_history_def server_history_def)

lemma counted_bio_read: "keeps (counted i w) (\<lambda>_. counted i w) (bio_read n)"
  unfolding keeps_def
  by (intro hoareI) (auto simp: bio_read_def counted_def Let_def action_simps split: if_splits)

lemma counted_after: "keeps (counted i w) (\<lambda>_. counted i w) m \<Longrightarrow> counted i w s \<Longrightarrow> counted i w (snd (m s))"
  by (cases "m s"; cases "fst (m s)") (auto dest: keepsD)

lemma run_call_counted: "keeps (counted i w) (\<lambda>_. counted i w) hsk \<Longrightarrow> counted i w s \<Longrightarrow> counted i w (run_call cr rnd hsk x s)"
  by (cases x) (simp_all add: counted_after count.keeps_small_steps counted_bio_read count.keeps_read count.keeps_write
      count.keeps_do_handshake count.keeps_shutdown count.keeps_update_key)

lemma run_calls_counted:
  "keeps (counted i w) (\<lambda>_. counted i w) hsk \<Longrightarrow> counted i w s \<Longrightarrow> counted i w (fold (run_call cr rnd hsk) xs s)"
  by (induction xs arbitrary: s) (auto intro: run_call_counted)

text \<open>
  C37: The budgets for input that is passed over are never refilled: over every history of calls of the application, on a client as on a
  server, the counters of ignored early data and of warning alerts only grow, through the handshake, the change of keys and the
  transfer of data, whatever the peer sends and whatever the calls return or raise.
\<close>

theorem budgets_not_refilled:
  "cn_early_data_ignored c \<le> cn_early_data_ignored (client_history fuel E rnd calls c) \<and>
   cn_warning_alert_received c \<le> cn_warning_alert_received (client_history fuel E rnd calls c) \<and>
   cn_early_data_ignored s \<le> cn_early_data_ignored (server_history fuel E rnd calls s) \<and>
   cn_warning_alert_received s \<le> cn_warning_alert_received (server_history fuel E rnd calls s)"
proof -
  have "counted i w (client_history fuel E rnd calls c)" if "counted i w c" for i w
    unfolding client_history_def
    by (rule run_calls_counted [OF _ that]) (unfold edge_properties, rule client_keeps_edge)
  moreover have "counted i w (server_history fuel E rnd calls s)" if "counted i w s" for i w
    unfolding server_history_def
    by (rule run_calls_counted [OF _ that]) (unfold edge_properties, rule server_keeps_edge)
  ultimately show ?thesis unfolding counted_def by (meson order_refl)
qed

subsection \<open>An instance\<close>

text \<open>A client and a server that were closed while output was waiting.\<close>

theorem closed_is_silent_witness:
  "suffix (cn_outbio (client_history 40 sample_environment (\<lambda>n. replicate n 0)
      [Call_bio_write [22, 3, 3], Call_do_handshake 5, Call_write 2 [1, 2], Call_shutdown, Call_bio_read 1]
      (sample_client\<lparr>cn_write_shutdown := SHUT_ERROR, cn_outbio := [21, 3, 3]\<rparr>))) [21, 3, 3] \<and>
   suffix (cn_outbio (server_history 40 sample_environment (\<lambda>n. replicate n 0)
      [Call_bio_write [22, 3, 3], Call_do_handshake 5, Call_write 2 [1, 2], Call_shutdown, Call_bio_read 1]
      (sample_server\<lparr>cn_write_shutdown := SHUT_ERROR, cn_outbio := [21, 3, 3]\<rparr>))) [21, 3, 3]"
  using closed_is_silent [of "sample_client\<lparr>cn_write_shutdown := SHUT_ERROR, cn_outbio := [21, 3, 3]\<rparr>" 40 sample_environment
      "\<lambda>n. replicate n 0" "[Call_bio_write [22, 3, 3], Call_do_handshake 5, Call_write 2 [1, 2], Call_shutdown, Call_bio_read 1]"
      "sample_server\<lparr>cn_write_shutdown := SHUT_ERROR, cn_outbio := [21, 3, 3]\<rparr>"]
  by simp

end
