(* ===== verification/Kdf.thy ===== *)
theory Kdf
  imports Primitives Codec Constant_Time
begin

text \<open>
  Key derivation from passwords, for encrypted private keys: \<open>src/simple_tls/crypto/kdf.py\<close> (the two functions of
  HKDF are in \<open>Primitives\<close>).  A data class is a record with its \<open>__post_init__\<close> as a check, which \<open>_new\<close> applies.
  What the module imports is the record \<open>kdf_lib\<close>: \<open>hashlib\<close> has PBKDF2 and scrypt, and the two packages that can
  provide the Blowfish cipher are optional, so which of them is installed is a value of \<open>bcrypt_backend\<close>.
\<close>

datatype bcrypt_backend = Bcrypt_Package | EKSBlowfish_Cipher | No_Backend

record kdf_lib =
  pbkdf2_hmac :: "HashAlgorithm \<Rightarrow> bytes \<Rightarrow> bytes \<Rightarrow> int \<Rightarrow> nat \<Rightarrow> bytes result" \<comment> \<open>password, salt, iterations, length\<close>
  scrypt_fn :: "bytes \<Rightarrow> bytes \<Rightarrow> int \<Rightarrow> int \<Rightarrow> int \<Rightarrow> nat \<Rightarrow> bytes result" \<comment> \<open>password, salt, n, r, p, length\<close>
  bcrypt_backend :: bcrypt_backend
  bcrypt_kdf :: "bytes \<Rightarrow> bytes \<Rightarrow> nat \<Rightarrow> int \<Rightarrow> bytes result" \<comment> \<open>password, salt, length, rounds\<close>
  eks_encrypt :: "bytes \<Rightarrow> bytes \<Rightarrow> bytes \<Rightarrow> bytes" \<comment> \<open>key, salt, data\<close>

subsection \<open>PBKDF1 and PBKDF2\<close>

record PBKDF1 =
  pbkdf1_algorithm :: HashAlgorithm
  pbkdf1_length :: nat
  pbkdf1_salt :: bytes
  pbkdf1_iterations :: int

definition PBKDF1_new :: "crypto \<Rightarrow> HashAlgorithm \<Rightarrow> nat \<Rightarrow> bytes \<Rightarrow> int \<Rightarrow> PBKDF1 result" where
  "PBKDF1_new C algorithm len salt iterations =
     (if length salt \<noteq> 8 then Inl ValueError
      else if len > hash_digest_size C algorithm then Inl ValueError
      else Inr \<lparr>pbkdf1_algorithm = algorithm, pbkdf1_length = len, pbkdf1_salt = salt, pbkdf1_iterations = iterations\<rparr>)"

definition PBKDF1_derive :: "crypto \<Rightarrow> PBKDF1 \<Rightarrow> bytes \<Rightarrow> bytes" where
  "PBKDF1_derive C k password =
     take (pbkdf1_length k)
       ((hash_fn C (pbkdf1_algorithm k) ^^ nat (pbkdf1_iterations k)) (password @ pbkdf1_salt k))"

record PBKDF2HMAC =
  pbkdf2_algorithm :: HashAlgorithm
  pbkdf2_length :: nat
  pbkdf2_salt :: bytes
  pbkdf2_iterations :: int

definition PBKDF2HMAC_derive :: "kdf_lib \<Rightarrow> PBKDF2HMAC \<Rightarrow> bytes \<Rightarrow> bytes result" where
  "PBKDF2HMAC_derive L k password =
     pbkdf2_hmac L (pbkdf2_algorithm k) password (pbkdf2_salt k) (pbkdf2_iterations k) (pbkdf2_length k)"

subsection \<open>Scrypt\<close>

record Scrypt =
  scrypt_salt :: bytes
  scrypt_length :: nat
  scrypt_n :: int
  scrypt_r :: int
  scrypt_p :: int

text \<open>Python's \<open>//\<close> rounds down, as \<open>div\<close> does, but division by zero raises.  \<open>2 ** x\<close> is a fraction for a negative \<open>x\<close>.\<close>

definition Scrypt_new :: "bytes \<Rightarrow> nat \<Rightarrow> int \<Rightarrow> int \<Rightarrow> int \<Rightarrow> Scrypt result" where
  "Scrypt_new salt len n r p =
     (if 128 * r = 0 then Inl ZeroDivisionError
      else if p > (2 ^ (32 - 1) * 32) div (128 * r) then Inl ValueError
      else if n \<le> 1 \<or> and n (n - 1) \<noteq> 0 then Inl ValueError
      else if 128 * r div 8 < 0 \<or> n \<ge> 2 ^ nat (128 * r div 8) then Inl ValueError
      else Inr \<lparr>scrypt_salt = salt, scrypt_length = len, scrypt_n = n, scrypt_r = r, scrypt_p = p\<rparr>)"

definition Scrypt_derive :: "kdf_lib \<Rightarrow> Scrypt \<Rightarrow> bytes \<Rightarrow> bytes result" where
  "Scrypt_derive L k password =
     scrypt_fn L password (scrypt_salt k) (scrypt_n k) (scrypt_r k) (scrypt_p k) (scrypt_length k)"

subsection \<open>Bcrypt\<close>

definition BCRYPT_CONSTANT :: bytes where
  "BCRYPT_CONSTANT = map of_char ''OxychromaticBlowfishSwatDynamite''"

record Bcrypt =
  bcrypt_salt :: bytes
  bcrypt_length :: nat
  bcrypt_iterations :: int

definition Bcrypt_new :: "kdf_lib \<Rightarrow> bytes \<Rightarrow> nat \<Rightarrow> int \<Rightarrow> Bcrypt result" where
  "Bcrypt_new L salt len iterations =
     (if bcrypt_backend L = No_Backend then Inl ValueError
      else if iterations < 1 then Inl ValueError
      else if length salt < 16 then Inl ValueError
      else if len > 1024 then Inl ValueError
      else Inr \<lparr>bcrypt_salt = salt, bcrypt_length = len, bcrypt_iterations = iterations\<rparr>)"

text \<open>\<open>struct.pack("<8I", *struct.unpack(">8I", data))\<close> reverses each group of four bytes.\<close>

fun swap_words :: "bytes \<Rightarrow> bytes" where
  "swap_words (a # b # c # d # r) = d # c # b # a # swap_words r"
| "swap_words _ = []"

definition bcrypt_swap :: "bytes \<Rightarrow> bytes result" where
  "bcrypt_swap out_le = (if length out_le \<noteq> 32 then Inl StructError else Inr (swap_words out_le))"

definition bcrypt_hash :: "kdf_lib \<Rightarrow> bytes \<Rightarrow> bytes \<Rightarrow> bytes result" where
  "bcrypt_hash L password_hash salt = bcrypt_swap ((eks_encrypt L password_hash salt ^^ 64) BCRYPT_CONSTANT)"

text \<open>The iterations of one stripe: each hashes the last output and adds the new one to the stripe.\<close>

primrec bcrypt_rounds :: "crypto \<Rightarrow> kdf_lib \<Rightarrow> bytes \<Rightarrow> nat \<Rightarrow> bytes \<Rightarrow> bytes \<Rightarrow> bytes result" where
  "bcrypt_rounds C L password_hash 0 out acc = Inr acc"
| "bcrypt_rounds C L password_hash (Suc k) out acc =
     rbind (bcrypt_hash L password_hash (hash_fn C HASH_SHA512 out)) (\<lambda>out.
     rbind (strxor acc out) (\<lambda>acc. bcrypt_rounds C L password_hash k out acc))"

definition bcrypt_stripe :: "crypto \<Rightarrow> kdf_lib \<Rightarrow> Bcrypt \<Rightarrow> bytes \<Rightarrow> nat \<Rightarrow> bytes result" where
  "bcrypt_stripe C L k password_hash count =
     rbind (bcrypt_hash L password_hash (hash_fn C HASH_SHA512 (bcrypt_salt k @ be_bytes 4 (int count)))) (\<lambda>out.
     bcrypt_rounds C L password_hash (nat (bcrypt_iterations k - 1)) out out)"

primrec bcrypt_stripes :: "crypto \<Rightarrow> kdf_lib \<Rightarrow> Bcrypt \<Rightarrow> bytes \<Rightarrow> nat list \<Rightarrow> bytes list result" where
  "bcrypt_stripes C L k password_hash [] = Inr []"
| "bcrypt_stripes C L k password_hash (n # ns) =
     rbind (bcrypt_stripe C L k password_hash n) (\<lambda>x.
     rbind (bcrypt_stripes C L k password_hash ns) (\<lambda>xs. Inr (x # xs)))"

definition Bcrypt_derive :: "crypto \<Rightarrow> kdf_lib \<Rightarrow> Bcrypt \<Rightarrow> bytes \<Rightarrow> bytes result" where
  "Bcrypt_derive C L k password =
     (case bcrypt_backend L of
        No_Backend \<Rightarrow> Inl ValueError
      | Bcrypt_Package \<Rightarrow> bcrypt_kdf L password (bcrypt_salt k) (bcrypt_length k) (bcrypt_iterations k)
      | EKSBlowfish_Cipher \<Rightarrow>
          let blocks_needed = bcrypt_length k div 32 + (if bcrypt_length k mod 32 > 0 then 1 else 0) in
          rbind (bcrypt_stripes C L k (hash_fn C HASH_SHA512 password) [1..<blocks_needed + 1]) (\<lambda>stripes.
          Inr (take (bcrypt_length k) (concat (map (\<lambda>i. map (\<lambda>stripe. stripe ! i) stripes) [0..<32])))))"

subsection \<open>What is derived has the length that was asked for\<close>

lemma length_swap_words: "length (swap_words xs) = 4 * (length xs div 4)"
proof (induction xs rule: swap_words.induct)
  case (1 a b c d r)
  have "length (a # b # c # d # r) div 4 = Suc (length r div 4)" by simp
  with 1 show ?case by simp
qed simp_all

lemma bcrypt_hash_length: "bcrypt_hash L p s = Inr out \<Longrightarrow> length out = 32"
  by (auto simp: bcrypt_hash_def bcrypt_swap_def length_swap_words split: if_splits)

lemma bcrypt_rounds_length: "bcrypt_rounds C L p k out acc = Inr x \<Longrightarrow> length acc = 32 \<Longrightarrow> length x = 32"
  by (induction k arbitrary: out acc)
     (auto simp: rbind_Inr_iff strxor_def dest!: bcrypt_hash_length split: if_splits)

lemma bcrypt_stripes_length:
  "bcrypt_stripes C L k p ns = Inr xs \<Longrightarrow> length xs = length ns"
  by (induction ns arbitrary: xs) (auto simp: rbind_Inr_iff)

lemma length_interleave: "length (concat (map (\<lambda>i. map (f i) xs) is)) = length is * length xs"
  by (induction "is") simp_all

lemma Bcrypt_derive_length:
  assumes "bcrypt_backend L = EKSBlowfish_Cipher" and "Bcrypt_derive C L k password = Inr key"
  shows "length key = bcrypt_length k"
proof -
  let ?n = "bcrypt_length k div 32 + (if bcrypt_length k mod 32 > 0 then 1 else 0)"
  obtain stripes where "bcrypt_stripes C L k (hash_fn C HASH_SHA512 password) [1..<?n + 1] = Inr stripes"
    and key: "key = take (bcrypt_length k) (concat (map (\<lambda>i. map (\<lambda>stripe. stripe ! i) stripes) [0..<32]))"
    using assms by (auto simp: Bcrypt_derive_def Let_def rbind_Inr_iff)
  then have "length stripes = ?n" by (auto dest: bcrypt_stripes_length)
  moreover have "bcrypt_length k \<le> 32 * ?n" using div_mult_mod_eq [of "bcrypt_length k" 32] by auto
  ultimately show ?thesis by (simp add: key length_interleave)
qed

lemma PBKDF1_derive_length:
  assumes "PBKDF1_new C alg len salt n = Inr k" and "n > 0" and "\<And>d. length (hash_fn C alg d) = hash_digest_size C alg"
  shows "length (PBKDF1_derive C k password) = len"
proof -
  obtain m where "nat n = Suc m" using assms(2) by (cases "nat n") auto
  with assms(1,3) show ?thesis by (auto simp: PBKDF1_new_def PBKDF1_derive_def split: if_splits)
qed

lemma Scrypt_cost:
  assumes "Scrypt_new salt len n r p = Inr k"
  shows "n > 1 \<and> and n (n - 1) = 0 \<and> r > 0 \<and> p * r \<le> 2 ^ 29"
proof -
  have r: "r > 0" "p \<le> 2 ^ 36 div (128 * r)" and n: "n > 1" "and n (n - 1) = 0"
    using assms by (auto simp: Scrypt_new_def split: if_splits)
  have "p * (128 * r) \<le> 2 ^ 36 div (128 * r) * (128 * r)"
    using r by (intro mult_right_mono) auto
  also have "\<dots> \<le> 2 ^ 36" using r(1) by (metis div_times_less_eq_dividend mult.commute zero_less_mult_iff int_div_less_self
    minus_mod_eq_div_mult pos_mod_sign diff_le_eq le_add_same_cancel1 zero_less_numeral)
  finally show ?thesis using r(1) n by simp
qed

end
