(* ===== verification/Pem.thy ===== *)
theory Pem
  imports Primitives
begin

text \<open>
  Reading and writing of PEM files: \<open>src/simple_tls/crypto/pem.py\<close>.  What the code uses of Python's library is
  modelled: base64 and hexadecimal digits (\<open>binascii\<close>) and the search for the one regular expression of the file (\<open>re\<close>).
  Of the package \<open>cryptography\<close> it uses MD5 (\<open>hash_fn\<close>), AES in two modes and the padding PKCS7, which are the
  parameter \<open>pem_lib\<close>.  Random bytes are an argument.
\<close>

datatype pem_mode = CBC | GCM

record pem_lib =
  aes_encrypt :: "pem_mode \<Rightarrow> bytes \<Rightarrow> bytes \<Rightarrow> bytes \<Rightarrow> bytes result" \<comment> \<open>key, iv, data; update and finalize\<close>
  aes_decrypt :: "pem_mode \<Rightarrow> bytes \<Rightarrow> bytes \<Rightarrow> bytes \<Rightarrow> bytes result"
  aes_decrypt_part :: "pem_mode \<Rightarrow> bytes \<Rightarrow> bytes \<Rightarrow> bytes \<Rightarrow> bytes result" \<comment> \<open>update only\<close>
  pkcs7_pad :: "nat \<Rightarrow> bytes \<Rightarrow> bytes" \<comment> \<open>block size in bits\<close>
  pkcs7_unpad :: "nat \<Rightarrow> bytes \<Rightarrow> bytes result"

abbreviation octets :: "string \<Rightarrow> bytes" where
  "octets \<equiv> map of_char"

abbreviation NEWLINE :: byte where
  "NEWLINE \<equiv> 10"

subsection \<open>Base64\<close>

text \<open>The alphabet: capital letters, small letters, digits, \<open>+\<close> and \<open>/\<close>.\<close>

definition b64_char :: "nat \<Rightarrow> byte" where
  "b64_char v = of_nat
     (if v < 26 then v + 65 else if v < 52 then v + 71 else if v < 62 then v - 4 else if v = 62 then 43 else 47)"

text \<open>The value of a character, or none if it is not of the alphabet.\<close>

definition b64_value :: "byte \<Rightarrow> nat option" where
  "b64_value c = (let n = unat c in
     if 65 \<le> n \<and> n \<le> 90 then Some (n - 65)
     else if 97 \<le> n \<and> n \<le> 122 then Some (n - 71)
     else if 48 \<le> n \<and> n \<le> 57 then Some (n + 4)
     else if n = 43 then Some 62
     else if n = 47 then Some 63
     else None)"

abbreviation PAD :: byte where
  "PAD \<equiv> 61"

text \<open>\<open>binascii.b2a_base64(data, newline=False)\<close>\<close>

fun b2a_base64 :: "bytes \<Rightarrow> bytes" where
  "b2a_base64 [] = []"
| "b2a_base64 [a] = [b64_char (unat a div 4), b64_char (unat a mod 4 * 16), PAD, PAD]"
| "b2a_base64 [a, b] =
     [b64_char (unat a div 4), b64_char (unat a mod 4 * 16 + unat b div 16), b64_char (unat b mod 16 * 4), PAD]"
| "b2a_base64 (a # b # c # r) =
     b64_char (unat a div 4) # b64_char (unat a mod 4 * 16 + unat b div 16) #
     b64_char (unat b mod 16 * 4 + unat c div 64) # b64_char (unat c mod 64) # b2a_base64 r"

text \<open>
  \<open>binascii.a2b_base64(data)\<close>, which skips characters that are not of the alphabet.  The arguments are the position in
  a group of four characters, the bits left over from the last one, and the number of padding characters seen.
\<close>

fun a2b_loop :: "nat \<Rightarrow> nat \<Rightarrow> nat \<Rightarrow> bytes \<Rightarrow> bytes result" where
  "a2b_loop quad_pos leftchar pads [] = (if quad_pos = 0 then Inr [] else Inl ValueError)"
| "a2b_loop quad_pos leftchar pads (c # cs) =
     (if c = PAD then
        if quad_pos \<ge> 2 \<and> quad_pos + Suc pads \<ge> 4 then Inr []
        else a2b_loop quad_pos leftchar (if quad_pos \<ge> 2 then Suc pads else pads) cs
      else
        case b64_value c of
          None \<Rightarrow> a2b_loop quad_pos leftchar pads cs
        | Some v \<Rightarrow>
            if quad_pos = 0 then a2b_loop 1 v 0 cs
            else if quad_pos = 1 then
              rbind (a2b_loop 2 (v mod 16) 0 cs) (\<lambda>r. Inr (of_nat (leftchar * 4 + v div 16) # r))
            else if quad_pos = 2 then
              rbind (a2b_loop 3 (v mod 4) 0 cs) (\<lambda>r. Inr (of_nat (leftchar * 16 + v div 4) # r))
            else
              rbind (a2b_loop 0 0 0 cs) (\<lambda>r. Inr (of_nat (leftchar * 64 + v) # r)))"

definition a2b_base64 :: "bytes \<Rightarrow> bytes result" where
  "a2b_base64 data = a2b_loop 0 0 0 data"

subsection \<open>Hexadecimal digits\<close>

definition hex_digit :: "nat \<Rightarrow> byte" where
  "hex_digit v = of_nat (if v < 10 then v + 48 else v + 55)"

text \<open>\<open>data.hex().upper().encode("ascii")\<close>\<close>

definition hexlify_upper :: "bytes \<Rightarrow> bytes" where
  "hexlify_upper data = concat (map (\<lambda>b. [hex_digit (unat b div 16), hex_digit (unat b mod 16)]) data)"

definition hex_value :: "byte \<Rightarrow> nat option" where
  "hex_value c = (let n = unat c in
     if 48 \<le> n \<and> n \<le> 57 then Some (n - 48)
     else if 65 \<le> n \<and> n \<le> 70 then Some (n - 55)
     else if 97 \<le> n \<and> n \<le> 102 then Some (n - 87)
     else None)"

text \<open>\<open>binascii.unhexlify\<close>; its exception \<open>binascii.Error\<close> is a \<open>ValueError\<close>.\<close>

fun unhexlify :: "bytes \<Rightarrow> bytes result" where
  "unhexlify [] = Inr []"
| "unhexlify [_] = Inl ValueError"
| "unhexlify (a # b # r) =
     (case (hex_value a, hex_value b) of
        (Some x, Some y) \<Rightarrow> rbind (unhexlify r) (\<lambda>d. Inr (of_nat (x * 16 + y) # d))
      | _ \<Rightarrow> Inl ValueError)"

subsection \<open>Splitting\<close>

text \<open>\<open>data.split(b"\n")\<close>\<close>

fun split_lines :: "bytes \<Rightarrow> bytes list" where
  "split_lines [] = [[]]"
| "split_lines (c # cs) =
     (if c = NEWLINE then [] # split_lines cs
      else case split_lines cs of l # ls \<Rightarrow> (c # l) # ls | [] \<Rightarrow> [[c]])"

text \<open>\<open>b"\n".join(lines)\<close>\<close>

fun join_lines :: "bytes list \<Rightarrow> bytes" where
  "join_lines [] = []"
| "join_lines [l] = l"
| "join_lines (l # ls) = l @ NEWLINE # join_lines ls"

definition starts_with :: "bytes \<Rightarrow> bytes \<Rightarrow> bool" where
  "starts_with prefix xs \<longleftrightarrow> take (length prefix) xs = prefix"

text \<open>\<open>xs.partition(sep)\<close>: what is before the first separator, and what is after it, if there is one.\<close>

fun partition_at :: "bytes \<Rightarrow> bytes \<Rightarrow> (bytes \<times> bytes) option" where
  "partition_at sep [] = (if sep = [] then Some ([], []) else None)"
| "partition_at sep (c # cs) =
     (if starts_with sep (c # cs) then Some ([], drop (length sep) (c # cs))
      else map_option (\<lambda>(a, b). (c # a, b)) (partition_at sep cs))"

subsection \<open>The regular expression\<close>

text \<open>
  The expression \<open>_PEM_RC\<close> is the word \<open>BEGIN\<close> between dashes with a label, line ends, the content, line ends and
  the footer with the same label.  A backtracking matcher tries for the lazy label and the lazy content the lengths
  upwards, and for the greedy runs of line ends the lengths downwards; the first combination that matches is the result.
\<close>

definition is_eol :: "byte \<Rightarrow> bool" where
  "is_eol c \<longleftrightarrow> c = 13 \<or> c = NEWLINE"

definition eol_run :: "bytes \<Rightarrow> nat" where
  "eol_run xs = length (takeWhile is_eol xs)"

primrec first_some :: "('a \<Rightarrow> 'b option) \<Rightarrow> 'a list \<Rightarrow> 'b option" where
  "first_some f [] = None"
| "first_some f (x # xs) = (case f x of Some y \<Rightarrow> Some y | None \<Rightarrow> first_some f xs)"

definition BEGIN_MARK :: bytes where
  "BEGIN_MARK = octets ''-----BEGIN ''"

definition END_MARK :: bytes where
  "END_MARK = octets ''-----END ''"

definition DASHES :: bytes where
  "DASHES = octets ''-----''"

definition eol_runs :: "bytes \<Rightarrow> nat list" where
  "eol_runs xs = rev [1..<Suc (eol_run xs)]"

text \<open>The content and the number of bytes up to the end of the footer.\<close>

definition match_content :: "bytes \<Rightarrow> bytes \<Rightarrow> (bytes \<times> nat) option" where
  "match_content label xs =
     (let footer = END_MARK @ label @ DASHES in
      first_some (\<lambda>n. let r = drop n xs in
          first_some (\<lambda>m. if starts_with footer (drop m r) then Some (take n xs, n + m + length footer) else None)
            (eol_runs r))
        [0..<Suc (length xs)])"

text \<open>Label, content and length of a match at the beginning of the data.\<close>

definition match_pem :: "bytes \<Rightarrow> (bytes \<times> bytes \<times> nat) option" where
  "match_pem xs =
     (if \<not> starts_with BEGIN_MARK xs then None
      else let r = drop (length BEGIN_MARK) xs in
        first_some (\<lambda>l. if \<not> starts_with DASHES (drop l r) then None
            else let s = drop (l + length DASHES) r in
              first_some (\<lambda>m. map_option
                  (\<lambda>(content, n). (take l r, content, length BEGIN_MARK + l + length DASHES + m + n))
                  (match_content (take l r) (drop m s)))
                (eol_runs s))
          [0..<Suc (length r)])"

text \<open>\<open>_PEM_RC.search(data, pos=pos)\<close>: label, content and end of the first match.\<close>

definition search_pem :: "bytes \<Rightarrow> nat \<Rightarrow> (bytes \<times> bytes \<times> nat) option" where
  "search_pem xs pos =
     first_some (\<lambda>i. map_option (\<lambda>(label, content, n). (label, content, i + n)) (match_pem (drop i xs)))
       [pos..<Suc (length xs)]"

subsection \<open>Ciphers\<close>

definition DEK_INFO :: bytes where
  "DEK_INFO = octets ''DEK-Info''"

definition PROC_TYPE_4_ENCRYPTED :: bytes where
  "PROC_TYPE_4_ENCRYPTED = octets ''Proc-Type: 4,ENCRYPTED''"

datatype EncryptionAlgorithm = AES128_CBC | AES192_CBC | AES256_CBC | AES256_GCM

fun algorithm_name :: "EncryptionAlgorithm \<Rightarrow> bytes" where
  "algorithm_name AES128_CBC = octets ''AES-128-CBC''"
| "algorithm_name AES192_CBC = octets ''AES-192-CBC''"
| "algorithm_name AES256_CBC = octets ''AES-256-CBC''"
| "algorithm_name AES256_GCM = octets ''id-aes256-gcm''"

text \<open>\<open>_PEM_CIPHERS\<close>: the length of the key and the mode.\<close>

fun PEM_CIPHERS :: "EncryptionAlgorithm \<Rightarrow> nat \<times> pem_mode" where
  "PEM_CIPHERS AES128_CBC = (16, CBC)"
| "PEM_CIPHERS AES192_CBC = (24, CBC)"
| "PEM_CIPHERS AES256_CBC = (32, CBC)"
| "PEM_CIPHERS AES256_GCM = (32, GCM)"

definition pem_algorithm :: "bytes \<Rightarrow> EncryptionAlgorithm option" where
  "pem_algorithm name = find (\<lambda>a. algorithm_name a = name) [AES128_CBC, AES192_CBC, AES256_CBC, AES256_GCM]"

text \<open>
  \<open>_evp_bytes_to_key\<close>.  The loop runs while bytes are missing; it would not end with an empty digest, so it has fuel.
  Each turn with a digest that is not empty adds a byte, so as many turns as bytes are enough.
\<close>

definition evp_digest :: "crypto \<Rightarrow> HashAlgorithm \<Rightarrow> bytes \<Rightarrow> bytes option \<Rightarrow> int \<Rightarrow> bytes \<Rightarrow> bytes" where
  "evp_digest C algorithm password salt iterations prev =
     (hash_fn C algorithm ^^ nat (iterations - 1))
       (hash_fn C algorithm (prev @ password @ (case salt of None \<Rightarrow> [] | Some s \<Rightarrow> s)))"

primrec evp_loop :: "nat \<Rightarrow> nat \<Rightarrow> (bytes \<Rightarrow> bytes) \<Rightarrow> bytes \<Rightarrow> bytes \<Rightarrow> bytes result" where
  "evp_loop 0 needed next prev derived = (if length derived < needed then Inl Diverges else Inr derived)"
| "evp_loop (Suc fuel) needed next prev derived =
     (if length derived < needed then evp_loop fuel needed next (next prev) (derived @ next prev) else Inr derived)"

definition evp_bytes_to_key ::
    "crypto \<Rightarrow> bytes \<Rightarrow> bytes option \<Rightarrow> nat \<Rightarrow> nat \<Rightarrow> HashAlgorithm option \<Rightarrow> int \<Rightarrow> (bytes \<times> bytes) result" where
  "evp_bytes_to_key C password salt key_len iv_len algorithm iterations =
     (if (case salt of None \<Rightarrow> False | Some s \<Rightarrow> length s \<noteq> 8) then Inl ValueError
      else
        let algorithm = (case algorithm of None \<Rightarrow> HASH_MD5 | Some a \<Rightarrow> a) in
        rbind (evp_loop (key_len + iv_len) (key_len + iv_len) (evp_digest C algorithm password salt iterations) [] [])
          (\<lambda>out. Inr (take key_len out, take iv_len (drop key_len out))))"

text \<open>\<open>_PEMCipher.get_algorithm\<close>: the key for a password.\<close>

definition pem_key :: "crypto \<Rightarrow> EncryptionAlgorithm \<Rightarrow> bytes \<Rightarrow> bytes \<Rightarrow> bytes result" where
  "pem_key C algorithm password salt =
     rbind (evp_bytes_to_key C password (Some salt) (fst (PEM_CIPHERS algorithm)) 0 None 1) (\<lambda>(key, _). Inr key)"

subsection \<open>Writing\<close>

text \<open>The block size of AES in bits.\<close>

abbreviation AES_BLOCK_SIZE :: nat where
  "AES_BLOCK_SIZE \<equiv> 128"

fun chunks_of :: "nat \<Rightarrow> bytes \<Rightarrow> bytes list" where
  "chunks_of n xs = (if xs = [] \<or> n = 0 then [] else take n xs # chunks_of n (drop n xs))"

declare chunks_of.simps [simp del]

text \<open>The encrypted data and the salt; \<open>rnd\<close> maps the number of a draw and a length to random bytes.\<close>

definition encrypt_pem ::
    "crypto \<Rightarrow> pem_lib \<Rightarrow> (nat \<Rightarrow> nat \<Rightarrow> bytes) \<Rightarrow> bytes \<Rightarrow> bytes \<Rightarrow> EncryptionAlgorithm \<Rightarrow> (bytes \<times> bytes) result" where
  "encrypt_pem C L rnd data password algorithm =
     (if password = [] then Inl ValueError
      else
        let salt = rnd 0 8; mode = snd (PEM_CIPHERS algorithm) in
        rbind (pem_key C algorithm password salt) (\<lambda>key.
        let salt = (if AES_BLOCK_SIZE \<ge> length salt then salt @ rnd 1 (AES_BLOCK_SIZE div 8 - length salt) else salt);
            data = (if mode = CBC then pkcs7_pad L AES_BLOCK_SIZE data else data) in
        rbind (aes_encrypt L mode key salt data) (\<lambda>data. Inr (data, salt))))"

definition encode ::
    "crypto \<Rightarrow> pem_lib \<Rightarrow> (nat \<Rightarrow> nat \<Rightarrow> bytes) \<Rightarrow> bytes \<Rightarrow> bytes \<Rightarrow> bytes option \<Rightarrow> EncryptionAlgorithm \<Rightarrow> bytes result" where
  "encode C L rnd data marker password algorithm =
     (let begin_boundary = BEGIN_MARK @ marker @ DASHES; end_boundary = END_MARK @ marker @ DASHES @ [NEWLINE] in
      rbind (case password of
               None \<Rightarrow> Inr (data, [])
             | Some p \<Rightarrow>
                 rbind (encrypt_pem C L rnd data p algorithm) (\<lambda>(data, salt).
                 Inr (data, [PROC_TYPE_4_ENCRYPTED,
                   DEK_INFO @ octets '': '' @ algorithm_name algorithm @ octets '','' @ hexlify_upper salt, []])))
        (\<lambda>(data, header).
      Inr (join_lines ([begin_boundary] @ header @ map b2a_base64 (chunks_of 48 data) @ [end_boundary]))))"

subsection \<open>Reading\<close>

record pem_result =
  pem_data :: bytes
  pem_marker :: bytes
  pem_enc_flag :: bool
  pem_endpos :: nat

text \<open>The header of an encrypted file: its algorithm, the key and the salt.\<close>

definition read_dek_info ::
    "crypto \<Rightarrow> bytes option \<Rightarrow> bytes list \<Rightarrow> (EncryptionAlgorithm \<times> bytes \<times> bytes) result" where
  "read_dek_info C password contents =
     (case password of
        None \<Rightarrow> Inl ValueError
      | Some password \<Rightarrow>
          if password = [] then Inl ValueError
          else if \<not> length contents > 2 then Inl ValueError
          else
            case partition_at (octets '': '') (contents ! 1) of
              None \<Rightarrow> Inl ValueError
            | Some (label, info) \<Rightarrow>
                if label \<noteq> DEK_INFO then Inl ValueError
                else
                  case partition_at (octets '','') info of
                    None \<Rightarrow> Inl ValueError
                  | Some (enc_algo, hex_salt) \<Rightarrow>
                      case pem_algorithm enc_algo of
                        None \<Rightarrow> Inl ValueError
                      | Some algorithm \<Rightarrow>
                          rbind (unhexlify hex_salt) (\<lambda>salt.
                          rbind (pem_key C algorithm password (take 8 salt)) (\<lambda>key.
                          Inr (algorithm, key, salt))))"

definition decrypt_pem :: "pem_lib \<Rightarrow> pem_mode \<Rightarrow> bytes \<Rightarrow> bytes \<Rightarrow> bytes \<Rightarrow> bytes result" where
  "decrypt_pem L mode key salt data =
     (case mode of
        CBC \<Rightarrow> rbind (aes_decrypt L CBC key salt data) (pkcs7_unpad L AES_BLOCK_SIZE)
      | GCM \<Rightarrow> aes_decrypt_part L GCM key salt data)"

definition decode :: "crypto \<Rightarrow> pem_lib \<Rightarrow> bytes \<Rightarrow> bytes option \<Rightarrow> nat \<Rightarrow> pem_result result" where
  "decode C L xs password pos =
     (case search_pem xs pos of
        None \<Rightarrow> Inl ValueError
      | Some (label, content, endpos) \<Rightarrow>
          let contents = split_lines content in
          if starts_with PROC_TYPE_4_ENCRYPTED (contents ! 0) then
            rbind (read_dek_info C password contents) (\<lambda>(algorithm, key, salt).
            rbind (a2b_base64 (concat (drop 2 contents))) (\<lambda>data.
            rbind (decrypt_pem L (snd (PEM_CIPHERS algorithm)) key salt data) (\<lambda>data.
            Inr \<lparr>pem_data = data, pem_marker = label, pem_enc_flag = True, pem_endpos = endpos\<rparr>)))
          else
            rbind (a2b_base64 (concat contents)) (\<lambda>data.
            Inr \<lparr>pem_data = data, pem_marker = label, pem_enc_flag = False, pem_endpos = endpos\<rparr>))"

end
