(* ===== verification/Pem_Laws.thy ===== *)
theory Pem_Laws
  imports Pem
begin

text \<open>
  What is written as PEM is read back: base64 and hexadecimal digits are inverted, the regular expression finds the
  boundaries that were written, also among other files in one text, and an encrypted file opens with its password.
  The key derivation is that of OpenSSL.
\<close>

subsection \<open>Base64\<close>

lemma unat_byte: "n < 256 \<Longrightarrow> unat (of_nat n :: byte) = n"
  by (simp add: unsigned_of_nat take_bit_nat_eq_self)

lemma byte_of_unat: "(of_nat (unat a) :: byte) = a"
  by simp

lemma unat_b64_char:
  assumes "v < 64"
  shows "unat (b64_char v) =
    (if v < 26 then v + 65 else if v < 52 then v + 71 else if v < 62 then v - 4 else if v = 62 then 43 else 47)"
  using assms unfolding b64_char_def by (subst unat_byte) auto

lemma b64_char_facts [simp]:
  assumes "v < 64"
  shows "b64_value (b64_char v) = Some v" "b64_char v \<noteq> PAD" "b64_char v \<noteq> 45" "b64_char v \<noteq> NEWLINE" "b64_char v \<noteq> 13"
  using unat_b64_char [OF assms] assms by (auto simp: b64_value_def Let_def split: if_splits)

lemma byte_less: "unat (a :: byte) < 256"
  using unsigned_less [of a] by simp

lemma byte_bounds [simp]:
  fixes a b c :: byte
  shows "unat a div 4 < 64" "unat a mod 4 * 16 < 64" "unat a mod 4 * 16 + unat b div 16 < 64"
    "unat b mod 16 * 4 < 64" "unat b mod 16 * 4 + unat c div 64 < 64" "unat c mod 64 < 64"
proof -
  have "unat a < 256" "unat b < 256" "unat c < 256" by (rule byte_less)+
  then show "unat a div 4 < 64" "unat a mod 4 * 16 < 64" "unat a mod 4 * 16 + unat b div 16 < 64"
    "unat b mod 16 * 4 < 64" "unat b mod 16 * 4 + unat c div 64 < 64" "unat c mod 64 < 64" by linarith+
qed

lemma b64_digits:
  fixes a b c :: byte
  shows "(of_nat (unat a div 4 * 4 + (unat a mod 4 * 16 + unat b div 16) div 16) :: byte) = a"
    "(of_nat ((unat a mod 4 * 16 + unat b div 16) mod 16 * 16 + (unat b mod 16 * 4 + unat c div 64) div 4) :: byte) = b"
    "(of_nat ((unat b mod 16 * 4 + unat c div 64) mod 4 * 64 + unat c mod 64) :: byte) = c"
    "(of_nat (unat a div 4 * 4 + unat a mod 4 * 16 div 16) :: byte) = a"
    "(of_nat ((unat a mod 4 * 16 + unat b div 16) mod 16 * 16 + unat b mod 16 * 4 div 4) :: byte) = b"
proof -
  have "unat b < 256" "unat c < 256" by (rule byte_less)+
  then have "unat b div 16 < 16" "unat c div 64 < 4" by linarith+
  then have "unat a div 4 * 4 + (unat a mod 4 * 16 + unat b div 16) div 16 = unat a"
    "(unat a mod 4 * 16 + unat b div 16) mod 16 * 16 + (unat b mod 16 * 4 + unat c div 64) div 4 = unat b"
    "(unat b mod 16 * 4 + unat c div 64) mod 4 * 64 + unat c mod 64 = unat c"
    "unat a div 4 * 4 + unat a mod 4 * 16 div 16 = unat a"
    "(unat a mod 4 * 16 + unat b div 16) mod 16 * 16 + unat b mod 16 * 4 div 4 = unat b"
    by (simp_all add: div_mult_mod_eq)
  then show "(of_nat (unat a div 4 * 4 + (unat a mod 4 * 16 + unat b div 16) div 16) :: byte) = a"
    "(of_nat ((unat a mod 4 * 16 + unat b div 16) mod 16 * 16 + (unat b mod 16 * 4 + unat c div 64) div 4) :: byte) = b"
    "(of_nat ((unat b mod 16 * 4 + unat c div 64) mod 4 * 64 + unat c mod 64) :: byte) = c"
    "(of_nat (unat a div 4 * 4 + unat a mod 4 * 16 div 16) :: byte) = a"
    "(of_nat ((unat a mod 4 * 16 + unat b div 16) mod 16 * 16 + unat b mod 16 * 4 div 4) :: byte) = b"
    by (simp_all only: byte_of_unat)
qed

lemma rbind_assoc: "rbind (rbind r f) g = rbind r (\<lambda>x. rbind (f x) g)"
  by (cases r) simp_all

lemma a2b_loop_start: "a2b_loop 0 l p cs = a2b_loop 0 0 0 cs"
proof (induction cs arbitrary: l p)
  case (Cons c cs)
  have "a2b_loop 0 l p cs = a2b_loop 0 0 0 cs" for l p by (rule Cons.IH)
  from this [of l p] show ?case by (simp split: option.split)
qed simp

lemma a2b_step:
  assumes "v < 64"
  shows "a2b_loop 0 l p (b64_char v # cs) = a2b_loop 1 v 0 cs"
    "a2b_loop 1 l p (b64_char v # cs) = rbind (a2b_loop 2 (v mod 16) 0 cs) (\<lambda>r. Inr (of_nat (l * 4 + v div 16) # r))"
    "a2b_loop 2 l p (b64_char v # cs) = rbind (a2b_loop 3 (v mod 4) 0 cs) (\<lambda>r. Inr (of_nat (l * 16 + v div 4) # r))"
    "a2b_loop 3 l p (b64_char v # cs) = rbind (a2b_loop 0 0 0 cs) (\<lambda>r. Inr (of_nat (l * 64 + v) # r))"
  using assms by simp_all

lemma a2b_pads: "a2b_loop 2 l 0 [PAD, PAD] = Inr []" "a2b_loop 3 l 0 [PAD] = Inr []"
  by simp_all

lemma a2b_group:
  "a2b_loop 0 l p (b64_char (unat a div 4) # b64_char (unat a mod 4 * 16 + unat b div 16) #
     b64_char (unat b mod 16 * 4 + unat c div 64) # b64_char (unat c mod 64) # cs) =
   rbind (a2b_loop 0 0 0 cs) (\<lambda>r. Inr (a # b # c # r))"
  by (simp only: a2b_step byte_bounds b64_digits rbind_assoc rbind_simps)

lemma a2b_append:
  "length xs mod 3 = 0 \<Longrightarrow> a2b_loop 0 0 0 (b2a_base64 xs @ ys) = rbind (a2b_loop 0 0 0 ys) (\<lambda>r. Inr (xs @ r))"
proof (induction xs rule: b2a_base64.induct)
  case 1
  show ?case by (cases "a2b_loop 0 0 0 ys") simp_all
next
  case (4 a b c r)
  have "length (a # b # c # r) = length r + 3" by simp
  with 4(2) have "length r mod 3 = 0" by (simp only: mod_add_self2)
  from 4(1) [OF this] show ?case
    by (simp only: b2a_base64.simps append_Cons a2b_group rbind_assoc rbind_simps)
qed simp_all

lemma a2b_b2a: "a2b_loop 0 0 0 (b2a_base64 xs) = Inr xs"
proof (induction xs rule: b2a_base64.induct)
  case (4 a b c r)
  then show ?case by (simp only: b2a_base64.simps a2b_group rbind_simps)
qed (simp_all only: b2a_base64.simps a2b_step byte_bounds b64_digits rbind_simps a2b_pads, simp)

lemma base64_chunks: "a2b_loop 0 0 0 (concat (map b2a_base64 (chunks_of 48 xs))) = Inr xs"
proof (induction "length xs" arbitrary: xs rule: less_induct)
  case less
  show ?case
  proof (cases "length xs \<le> 48")
    case True
    then have "chunks_of 48 xs = (if xs = [] then [] else [xs])"
      by (subst chunks_of.simps, simp) (subst chunks_of.simps, simp)
    then show ?thesis by (simp add: a2b_b2a del: a2b_loop.simps(2))
  next
    case False
    then have c: "chunks_of 48 xs = take 48 xs # chunks_of 48 (drop 48 xs)"
      by (subst chunks_of.simps) auto
    have "length (take 48 xs) mod 3 = 0" using False by simp
    from a2b_append [OF this] less [of "drop 48 xs"] False show ?thesis by (simp add: c)
  qed
qed

theorem base64_roundtrip: "a2b_base64 (b2a_base64 xs) = Inr xs"
  by (simp add: a2b_base64_def a2b_b2a)

subsection \<open>Hexadecimal digits\<close>

lemma hex_digit_facts [simp]:
  assumes "v < 16"
  shows "hex_value (hex_digit v) = Some v" "hex_digit v \<noteq> NEWLINE" "hex_digit v \<noteq> 13"
proof -
  have "unat (hex_digit v) = (if v < 10 then v + 48 else v + 55)"
    using assms unfolding hex_digit_def by (subst unat_byte) auto
  then show "hex_value (hex_digit v) = Some v" "hex_digit v \<noteq> NEWLINE" "hex_digit v \<noteq> 13"
    using assms by (auto simp: hex_value_def Let_def split: if_splits)
qed

lemma nibbles [simp]:
  fixes b :: byte
  shows "unat b div 16 < 16" "unat b mod 16 < 16" "(word_of_nat (unat b div 16 * 16 + unat b mod 16) :: byte) = b"
proof -
  show "unat b div 16 < 16" "unat b mod 16 < 16" using byte_less [of b] by linarith+
  show "(word_of_nat (unat b div 16 * 16 + unat b mod 16) :: byte) = b" by (simp only: div_mult_mod_eq byte_of_unat)
qed

lemma unhexlify_hexlify: "unhexlify (hexlify_upper xs) = Inr xs"
proof (induction xs)
  case (Cons b xs)
  have "hexlify_upper (b # xs) = hex_digit (unat b div 16) # hex_digit (unat b mod 16) # hexlify_upper xs"
    by (simp add: hexlify_upper_def)
  with Cons show ?case by simp
qed (simp add: hexlify_upper_def)

subsection \<open>Lines\<close>

lemma split_lines_ne [simp]: "split_lines xs \<noteq> []"
  by (cases xs) (auto split: list.splits)

lemma split_lines_free: "NEWLINE \<notin> set l \<Longrightarrow> split_lines l = [l]"
  by (induction l) auto

lemma split_lines_first: "NEWLINE \<notin> set l \<Longrightarrow> split_lines (l @ NEWLINE # xs) = l # split_lines xs"
  by (induction l) auto

lemma split_join:
  "ls \<noteq> [] \<Longrightarrow> \<forall>l \<in> set ls. NEWLINE \<notin> set l \<Longrightarrow> split_lines (join_lines ls) = ls"
  by (induction ls rule: join_lines.induct) (simp_all add: split_lines_free split_lines_first)

lemma join_lines_Cons: "ls \<noteq> [] \<Longrightarrow> join_lines (l # ls) = l @ NEWLINE # join_lines ls"
  by (cases ls) simp_all

lemma join_lines_append: "xs \<noteq> [] \<Longrightarrow> ys \<noteq> [] \<Longrightarrow> join_lines (xs @ ys) = join_lines xs @ NEWLINE # join_lines ys"
proof (induction xs)
  case (Cons x xs)
  then show ?case by (cases "xs = []") (simp_all add: join_lines_Cons)
qed simp

lemma partition_at_first:
  assumes "sep \<noteq> []" and "hd sep \<notin> set a"
  shows "partition_at sep (a @ sep @ b) = Some (a, b)"
  using assms
proof (induction a)
  case Nil
  then show ?case by (cases sep) (simp_all add: starts_with_def)
next
  case (Cons x a)
  then have "\<not> starts_with sep (x # a @ sep @ b)" by (cases sep) (auto simp: starts_with_def)
  with Cons show ?case by simp
qed

text \<open>A text in which the regular expression can not find a footer: no line begins with a dash.\<close>

definition no_footer :: "bytes \<Rightarrow> bool" where
  "no_footer xs \<longleftrightarrow> xs \<noteq> [] \<and> \<not> is_eol (hd xs) \<and> \<not> is_eol (last xs) \<and>
     successively (\<lambda>a b. is_eol a \<longrightarrow> b \<noteq> 45) xs"

lemma no_footer_line:
  assumes "l \<noteq> []" and "\<And>c. c \<in> set l \<Longrightarrow> \<not> is_eol c"
  shows "no_footer l"
  using assms by (auto simp: no_footer_def successively_conv_nth)

lemma no_footer_newline:
  "no_footer xs \<Longrightarrow> no_footer ys \<Longrightarrow> hd ys \<noteq> 45 \<Longrightarrow> no_footer (xs @ NEWLINE # ys)"
  "no_footer xs \<Longrightarrow> no_footer ys \<Longrightarrow> hd ys \<noteq> 45 \<Longrightarrow> no_footer (xs @ NEWLINE # NEWLINE # ys)"
  by (auto simp: no_footer_def successively_append_iff successively_Cons is_eol_def)

subsection \<open>The regular expression\<close>

lemma first_some_upt:
  assumes "n < m" and "\<And>i. i < n \<Longrightarrow> k \<le> i \<Longrightarrow> f i = None" and "k \<le> n" and "f n = Some y"
  shows "first_some f [k..<m] = Some y"
  using assms
proof (induction "n - k" arbitrary: k)
  case 0
  then show ?case by (simp add: upt_conv_Cons)
next
  case (Suc d)
  then have "f k = None" "first_some f [Suc k..<m] = Some y" by simp_all
  with Suc show ?case by (simp add: upt_conv_Cons)
qed

lemma first_some_None: "(\<And>x. x \<in> set xs \<Longrightarrow> f x = None) \<Longrightarrow> first_some f xs = None"
  by (induction xs) simp_all

lemma eol_run_single: "is_eol a \<Longrightarrow> \<not> is_eol b \<Longrightarrow> eol_runs (a # b # xs) = [1]"
  by (simp add: eol_runs_def eol_run_def)

lemma eol_run_none: "\<not> is_eol a \<Longrightarrow> eol_runs (a # xs) = []"
  by (simp add: eol_runs_def eol_run_def)

lemma dash_marks: "DASHES = 45 # drop 1 DASHES" "END_MARK = 45 # drop 1 END_MARK" "BEGIN_MARK = 45 # drop 1 BEGIN_MARK"
  by (simp_all add: DASHES_def END_MARK_def BEGIN_MARK_def)

lemma starts_with_hd: "starts_with (c # p) xs \<Longrightarrow> xs \<noteq> [] \<and> hd xs = c"
  by (cases xs) (simp_all add: starts_with_def)

lemma starts_with_self: "starts_with p (p @ xs)"
  by (simp add: starts_with_def)

lemma no_footer_at:
  assumes "no_footer xs" and "n < length xs" and "m \<in> set (eol_runs (drop n (xs @ ys)))"
  shows "drop m (drop n xs) \<noteq> [] \<and> hd (drop m (drop n (xs @ ys))) \<noteq> 45"
proof -
  let ?r = "takeWhile is_eol (drop n xs)"
  have "last (drop n xs) = last xs" "drop n xs \<noteq> []" using assms(2) by simp_all
  with assms(1) have not_all: "\<not> (\<forall>c \<in> set (drop n xs). is_eol c)" by (metis last_in_set no_footer_def)
  then have r: "takeWhile is_eol (drop n (xs @ ys)) = ?r" and lt: "length ?r < length (drop n xs)"
  proof -
    obtain c where "c \<in> set (drop n xs)" "\<not> is_eol c" using not_all by blast
    then show "takeWhile is_eol (drop n (xs @ ys)) = ?r"
      using assms(2) by simp
    have "length ?r \<noteq> length (drop n xs)"
      using not_all by (metis takeWhile_eq_all_conv takeWhile_eq_take take_all_iff order_refl)
    then show "length ?r < length (drop n xs)"
      using length_takeWhile_le [of is_eol "drop n xs"] by linarith
  qed
  from assms(3) r have m: "0 < m" "m \<le> length ?r" by (auto simp: eol_runs_def eol_run_def)
  with lt have bound: "n + m < length xs" by simp
  have "?r ! (m - 1) = drop n xs ! (m - 1)" using m by (simp add: takeWhile_nth)
  moreover have "is_eol (?r ! (m - 1))"
  proof -
    from m have "m - 1 < length ?r" by simp
    then have "?r ! (m - 1) \<in> set ?r" by (rule nth_mem)
    from set_takeWhileD [OF this] show ?thesis by (rule conjunct2)
  qed
  ultimately have "is_eol (xs ! (n + (m - 1)))" using bound by simp
  moreover have "Suc (n + (m - 1)) = n + m" using m(1) by simp
  ultimately have "xs ! (n + m) \<noteq> 45" using assms(1) bound unfolding no_footer_def successively_conv_nth by metis
  with bound show ?thesis by (simp add: hd_drop_conv_nth nth_append add.commute)
qed

lemma match_content_found:
  assumes "no_footer content"
  shows "match_content label (content @ NEWLINE # END_MARK @ label @ DASHES @ rest) =
     Some (content, length content + 1 + length (END_MARK @ label @ DASHES))"
  unfolding match_content_def Let_def
proof (rule first_some_upt [where n = "length content"])
  let ?xs = "content @ NEWLINE # END_MARK @ label @ DASHES @ rest"
  fix i assume "i < length content"
  then show "first_some (\<lambda>m. if starts_with (END_MARK @ label @ DASHES) (drop m (drop i ?xs))
      then Some (take i ?xs, i + m + length (END_MARK @ label @ DASHES)) else None) (eol_runs (drop i ?xs)) = None"
    using no_footer_at [OF assms] dash_marks(2)
    by (intro first_some_None) (metis (no_types, lifting) append_Cons starts_with_hd)
next
  let ?r = "NEWLINE # END_MARK @ label @ DASHES @ rest"
  have "is_eol NEWLINE" "\<not> is_eol 45" by (simp_all add: is_eol_def)
  then have "eol_runs ?r = [1]" by (subst dash_marks(2)) (simp add: eol_run_single)
  then show "first_some (\<lambda>m. if starts_with (END_MARK @ label @ DASHES) (drop m (drop (length content) (content @ ?r)))
      then Some (take (length content) (content @ ?r), length content + m + length (END_MARK @ label @ DASHES)) else None)
      (eol_runs (drop (length content) (content @ ?r))) =
     Some (content, length content + 1 + length (END_MARK @ label @ DASHES))"
    using starts_with_self [of "END_MARK @ label @ DASHES" rest] by simp
qed auto

lemma match_pem_found:
  assumes "no_footer content" and "45 \<notin> set label"
  shows "match_pem (BEGIN_MARK @ label @ DASHES @ NEWLINE # content @ NEWLINE # END_MARK @ label @ DASHES @ rest) =
     Some (label, content, length (BEGIN_MARK @ label @ DASHES @ NEWLINE # content @ NEWLINE # END_MARK @ label @ DASHES))"
proof -
  let ?tail = "content @ NEWLINE # END_MARK @ label @ DASHES @ rest"
  let ?f = "\<lambda>r l. if \<not> starts_with DASHES (drop l r) then None
            else let s = drop (l + length DASHES) r in
              first_some (\<lambda>m. map_option
                  (\<lambda>(content, n). (take l r, content, length BEGIN_MARK + l + length DASHES + m + n))
                  (match_content (take l r) (drop m s)))
                (eol_runs s)"
  let ?r = "label @ DASHES @ NEWLINE # ?tail"
  have "is_eol NEWLINE" by (simp add: is_eol_def)
  moreover obtain c cs where "content = c # cs" "\<not> is_eol c"
    using assms(1) by (cases content) (auto simp: no_footer_def)
  ultimately have runs: "eol_runs (NEWLINE # ?tail) = [1]" by (simp add: eol_run_single)
  have "first_some (?f ?r) [0..<Suc (length ?r)] =
     Some (label, content, length BEGIN_MARK + length label + length DASHES + 1 +
       (length content + 1 + length (END_MARK @ label @ DASHES)))"
  proof (rule first_some_upt [where n = "length label"])
    fix i assume "i < length label"
    then have "hd (drop i ?r) \<in> set label" by (simp add: hd_append hd_drop_conv_nth)
    with assms(2) have "\<not> starts_with DASHES (drop i ?r)" using dash_marks(1) by (metis starts_with_hd)
    then show "?f ?r i = None" by simp
  next
    show "?f ?r (length label) = Some (label, content, length BEGIN_MARK + length label + length DASHES + 1 +
       (length content + 1 + length (END_MARK @ label @ DASHES)))"
      using runs starts_with_self [of DASHES] match_content_found [OF assms(1), of label rest] by simp
  qed auto
  then show ?thesis by (simp add: match_pem_def starts_with_self Let_def)
qed

text \<open>Among other texts, too: no beginning is before it.\<close>

lemma search_pem_found:
  assumes "no_footer content" and "45 \<notin> set label"
    and "pos \<le> length before" and "\<And>i. pos \<le> i \<Longrightarrow> i < length before \<Longrightarrow> before ! i \<noteq> 45"
  shows "search_pem (before @ BEGIN_MARK @ label @ DASHES @ NEWLINE # content @ NEWLINE # END_MARK @ label @ DASHES @ rest) pos =
     Some (label, content, length (before @ BEGIN_MARK @ label @ DASHES @ NEWLINE # content @ NEWLINE # END_MARK @ label @ DASHES))"
  unfolding search_pem_def
proof (rule first_some_upt [where n = "length before"])
  let ?block = "BEGIN_MARK @ label @ DASHES @ NEWLINE # content @ NEWLINE # END_MARK @ label @ DASHES @ rest"
  fix i assume "i < length before" "pos \<le> i"
  with assms(4) [of i] have "hd (drop i (before @ ?block)) \<noteq> 45" by (simp add: hd_append hd_drop_conv_nth)
  then have "\<not> starts_with BEGIN_MARK (drop i (before @ ?block))"
    using dash_marks(3) by (metis starts_with_hd)
  then show "map_option (\<lambda>(label, content, n). (label, content, i + n)) (match_pem (drop i (before @ ?block))) = None"
    by (simp add: match_pem_def)
next
  show "map_option (\<lambda>(label, content, n). (label, content, length before + n))
      (match_pem (drop (length before) (before @ BEGIN_MARK @ label @ DASHES @ NEWLINE # content @ NEWLINE # END_MARK @ label @ DASHES @ rest))) =
     Some (label, content, length (before @ BEGIN_MARK @ label @ DASHES @ NEWLINE # content @ NEWLINE # END_MARK @ label @ DASHES))"
    using match_pem_found [OF assms(1,2), of rest] by simp
qed (use assms(3) in auto)

subsection \<open>Files\<close>

lemma b2a_letters: "c \<in> set (b2a_base64 xs) \<Longrightarrow> c \<notin> {45, NEWLINE, 13}"
  by (induction xs rule: b2a_base64.induct) auto

lemma b2a_ne: "xs \<noteq> [] \<Longrightarrow> b2a_base64 xs \<noteq> []"
  by (cases xs rule: b2a_base64.cases) simp_all

lemma chunks_ne: "l \<in> set (chunks_of 48 xs) \<Longrightarrow> l \<noteq> []"
proof (induction "length xs" arbitrary: xs rule: less_induct)
  case less
  show ?case
  proof (cases "xs = []")
    case True
    with less.prems show ?thesis by (simp add: chunks_of.simps)
  next
    case False
    then have "chunks_of 48 xs = take 48 xs # chunks_of 48 (drop 48 xs)" by (subst chunks_of.simps) simp
    with less.prems less.hyps [of "drop 48 xs"] False show ?thesis by auto
  qed
qed

lemma chunks_Nil: "chunks_of 48 xs = [] \<longleftrightarrow> xs = []"
  by (subst chunks_of.simps) simp

definition b64_lines :: "bytes \<Rightarrow> bytes list" where
  "b64_lines data = map b2a_base64 (chunks_of 48 data)"

lemma b64_lines_ne [simp]: "b64_lines data = [] \<longleftrightarrow> data = []"
  by (simp add: b64_lines_def chunks_Nil)

lemma b64_lines_line: "l \<in> set (b64_lines data) \<Longrightarrow> l \<noteq> [] \<and> (\<forall>c \<in> set l. c \<notin> {45, NEWLINE, 13})"
  unfolding b64_lines_def using b2a_letters b2a_ne chunks_ne by auto

lemma no_footer_lines:
  assumes "ls \<noteq> []" and "\<And>l. l \<in> set ls \<Longrightarrow> l \<noteq> [] \<and> (\<forall>c \<in> set l. c \<notin> {45, NEWLINE, 13})"
  shows "no_footer (join_lines ls) \<and> hd (join_lines ls) \<noteq> 45"
  using assms
proof (induction ls)
  case (Cons l ls)
  then have "l \<noteq> []" "\<And>c. c \<in> set l \<Longrightarrow> c \<notin> {45, NEWLINE, 13}" by auto
  then have l: "no_footer l" "hd l \<noteq> 45" "l \<noteq> []"
    using hd_in_set [of l] by (auto intro!: no_footer_line simp: is_eol_def simp del: hd_in_set)
  show ?case
  proof (cases "ls = []")
    case False
    have "no_footer (join_lines ls) \<and> hd (join_lines ls) \<noteq> 45"
      by (rule Cons.IH [OF False]) (rule Cons.prems(2), simp)
    with l False show ?thesis by (simp add: join_lines_Cons no_footer_newline)
  qed (use l in simp)
qed simp

text \<open>The text of a file with a marker, header lines and data.\<close>

definition pem_text :: "bytes \<Rightarrow> bytes list \<Rightarrow> bytes \<Rightarrow> bytes" where
  "pem_text marker header data =
     BEGIN_MARK @ marker @ DASHES @ NEWLINE # join_lines (header @ b64_lines data) @ NEWLINE # END_MARK @ marker @ DASHES @ [NEWLINE]"

lemma pem_text_lines:
  assumes "data \<noteq> []"
  shows "join_lines ([BEGIN_MARK @ marker @ DASHES] @ header @ map b2a_base64 (chunks_of 48 data) @
     [END_MARK @ marker @ DASHES @ [NEWLINE]]) = pem_text marker header data"
proof -
  have "header @ b64_lines data \<noteq> []" using assms by simp
  from join_lines_append [OF this, of "[END_MARK @ marker @ DASHES @ [NEWLINE]]"] this show ?thesis
    by (simp add: pem_text_def join_lines_Cons b64_lines_def)
qed

text \<open>What the regular expression finds in a text that holds such a file.\<close>

definition clean_lines :: "bytes list \<Rightarrow> bool" where
  "clean_lines ls \<longleftrightarrow> no_footer (join_lines ls) \<and> ls \<noteq> [] \<and> (\<forall>l \<in> set ls. NEWLINE \<notin> set l)"

lemma search_pem_text:
  assumes "clean_lines (header @ b64_lines data)" and "45 \<notin> set marker" and "45 \<notin> set before"
  shows "search_pem (before @ pem_text marker header data @ rest) (length before) =
     Some (marker, join_lines (header @ b64_lines data), length before + length (pem_text marker header data) - 1)"
proof -
  have eq: "before @ pem_text marker header data @ rest = before @ BEGIN_MARK @ marker @ DASHES @
      NEWLINE # join_lines (header @ b64_lines data) @ NEWLINE # END_MARK @ marker @ DASHES @ (NEWLINE # rest)"
    by (simp add: pem_text_def)
  show ?thesis
    unfolding eq using assms(1,2)
    by (subst search_pem_found) (simp_all add: clean_lines_def pem_text_def)
qed

lemma clean_plain: "data \<noteq> [] \<Longrightarrow> clean_lines (b64_lines data)"
  using no_footer_lines [of "b64_lines data"] b64_lines_line [of _ data] by (auto simp: clean_lines_def)

text \<open>The header of an encrypted file.\<close>

definition dek_header :: "EncryptionAlgorithm \<Rightarrow> bytes \<Rightarrow> bytes list" where
  "dek_header algorithm salt =
     [PROC_TYPE_4_ENCRYPTED, DEK_INFO @ octets '': '' @ algorithm_name algorithm @ octets '','' @ hexlify_upper salt, []]"

lemma hexlify_letters: "c \<in> set (hexlify_upper xs) \<Longrightarrow> c \<noteq> NEWLINE \<and> c \<noteq> 13"
  using byte_less by (auto simp: hexlify_upper_def)

lemma dek_line_letters:
  "c \<in> set (DEK_INFO @ octets '': '' @ algorithm_name algorithm @ octets '','' @ hexlify_upper salt) \<Longrightarrow> \<not> is_eol c"
  using hexlify_letters [of c salt] by (cases algorithm) (auto simp: DEK_INFO_def is_eol_def)

lemma proc_line_letters: "c \<in> set PROC_TYPE_4_ENCRYPTED \<Longrightarrow> \<not> is_eol c"
  by (auto simp: PROC_TYPE_4_ENCRYPTED_def is_eol_def)

lemma clean_encrypted:
  assumes "data \<noteq> []"
  shows "clean_lines (dek_header algorithm salt @ b64_lines data)"
proof -
  let ?dek = "DEK_INFO @ octets '': '' @ algorithm_name algorithm @ octets '','' @ hexlify_upper salt"
  have body: "no_footer (join_lines (b64_lines data))" "hd (join_lines (b64_lines data)) \<noteq> 45"
    using no_footer_lines [of "b64_lines data"] assms b64_lines_line [of _ data] by auto
  have ne: "?dek \<noteq> []" "PROC_TYPE_4_ENCRYPTED \<noteq> []" "hd ?dek \<noteq> 45" by (simp_all add: DEK_INFO_def PROC_TYPE_4_ENCRYPTED_def)
  have lines: "no_footer ?dek" "no_footer PROC_TYPE_4_ENCRYPTED"
    using ne dek_line_letters proc_line_letters by (blast intro: no_footer_line)+
  have eq: "join_lines (dek_header algorithm salt @ b64_lines data) =
      PROC_TYPE_4_ENCRYPTED @ NEWLINE # (?dek @ NEWLINE # NEWLINE # join_lines (b64_lines data))"
    using assms by (simp add: dek_header_def join_lines_Cons)
  have rest: "no_footer (?dek @ NEWLINE # NEWLINE # join_lines (b64_lines data))"
    by (rule no_footer_newline(2) [OF lines(1) body])
  have "hd (?dek @ NEWLINE # NEWLINE # join_lines (b64_lines data)) \<noteq> 45"
    using ne by (simp add: DEK_INFO_def)
  from no_footer_newline(1) [OF lines(2) rest this]
  have "no_footer (join_lines (dek_header algorithm salt @ b64_lines data))" by (simp only: eq)
  moreover have "NEWLINE \<notin> set l" if "l \<in> set (dek_header algorithm salt @ b64_lines data)" for l
    using that dek_line_letters [of NEWLINE algorithm salt] proc_line_letters [of NEWLINE] b64_lines_line [of l data]
    by (auto simp: dek_header_def is_eol_def)
  ultimately show ?thesis by (simp add: clean_lines_def dek_header_def)
qed

lemma not_encrypted:
  assumes "data \<noteq> []"
  shows "\<not> starts_with PROC_TYPE_4_ENCRYPTED (b64_lines data ! 0)"
proof
  assume s: "starts_with PROC_TYPE_4_ENCRYPTED (b64_lines data ! 0)"
  have "b64_lines data ! 0 \<in> set (b64_lines data)" using assms by (intro nth_mem) simp
  with b64_lines_line have "45 \<notin> set (b64_lines data ! 0)" by blast
  moreover have "45 \<in> set PROC_TYPE_4_ENCRYPTED" by (simp add: PROC_TYPE_4_ENCRYPTED_def)
  ultimately show False using s unfolding starts_with_def by (metis in_set_takeD)
qed

lemma algorithm_of_name [simp]: "pem_algorithm (algorithm_name a) = Some a"
  by (cases a) (simp_all add: pem_algorithm_def)

lemma read_dek_header:
  assumes "password \<noteq> []" and "pem_key C algorithm password (take 8 salt) = Inr key" and "data \<noteq> []"
  shows "read_dek_info C (Some password) (dek_header algorithm salt @ b64_lines data) = Inr (algorithm, key, salt)"
proof -
  let ?info = "algorithm_name algorithm @ octets '','' @ hexlify_upper salt"
  have "partition_at (octets '': '') (DEK_INFO @ octets '': '' @ ?info) = Some (DEK_INFO, ?info)"
    by (rule partition_at_first) (simp_all add: DEK_INFO_def)
  moreover have "partition_at (octets '','') ?info = Some (algorithm_name algorithm, hexlify_upper salt)"
    by (rule partition_at_first) (cases algorithm; simp)+
  ultimately show ?thesis using assms by (simp add: read_dek_info_def dek_header_def unhexlify_hexlify)
qed

lemma decode_plain_text:
  assumes "data \<noteq> []" and "45 \<notin> set marker" and "45 \<notin> set before"
  shows "decode C L (before @ pem_text marker [] data @ rest) password (length before) =
     Inr \<lparr>pem_data = data, pem_marker = marker, pem_enc_flag = False,
       pem_endpos = length before + length (pem_text marker [] data) - 1\<rparr>"
proof -
  have c: "clean_lines ([] @ b64_lines data)" using clean_plain [OF assms(1)] by simp
  have "split_lines (join_lines (b64_lines data)) = b64_lines data"
    using c by (intro split_join) (simp_all add: clean_lines_def)
  moreover have "a2b_base64 (concat (b64_lines data)) = Inr data"
    by (simp add: a2b_base64_def b64_lines_def base64_chunks)
  ultimately show ?thesis
    using search_pem_text [OF c assms(2,3), of rest] not_encrypted [OF assms(1)]
    by (simp add: decode_def Let_def)
qed

lemma decode_encrypted_text:
  assumes "data \<noteq> []" and "45 \<notin> set marker" and "45 \<notin> set before"
    and "password \<noteq> []" and "pem_key C algorithm password (take 8 salt) = Inr key"
  shows "decode C L (before @ pem_text marker (dek_header algorithm salt) data @ rest) (Some password) (length before) =
     rbind (decrypt_pem L (snd (PEM_CIPHERS algorithm)) key salt data) (\<lambda>d.
       Inr \<lparr>pem_data = d, pem_marker = marker, pem_enc_flag = True,
         pem_endpos = length before + length (pem_text marker (dek_header algorithm salt) data) - 1\<rparr>)"
proof -
  let ?ls = "dek_header algorithm salt @ b64_lines data"
  have c: "clean_lines ?ls" by (rule clean_encrypted [OF assms(1)])
  have "split_lines (join_lines ?ls) = ?ls"
    using c by (intro split_join) (simp_all add: clean_lines_def)
  moreover have "a2b_base64 (concat (drop 2 ?ls)) = Inr data"
    by (simp add: dek_header_def a2b_base64_def b64_lines_def base64_chunks)
  moreover have "starts_with PROC_TYPE_4_ENCRYPTED (?ls ! 0)"
    by (simp add: dek_header_def starts_with_def)
  ultimately show ?thesis
    using search_pem_text [OF c assms(2,3), of rest] read_dek_header [OF assms(4,5,1)]
    by (simp add: decode_def Let_def)
qed

subsection \<open>Round trip\<close>

text \<open>What the code relies on: decryption undoes encryption, in GCM already without the final step, and padding is undone.\<close>

definition pem_ok :: "pem_lib \<Rightarrow> bool" where
  "pem_ok L \<longleftrightarrow>
     (\<forall>mode key iv d c. aes_encrypt L mode key iv d = Inr c \<longrightarrow> length c = length d \<and>
        (mode = CBC \<longrightarrow> aes_decrypt L CBC key iv c = Inr d) \<and> (mode = GCM \<longrightarrow> aes_decrypt_part L GCM key iv c = Inr d)) \<and>
     (\<forall>n d. pkcs7_unpad L n (pkcs7_pad L n d) = Inr d \<and> length d < length (pkcs7_pad L n d))"

lemma decrypt_encrypted:
  assumes "pem_ok L" and "encrypt_pem C L rnd data password algorithm = Inr (c, salt)"
    and "length (rnd 0 8) = 8" and "data \<noteq> []"
  obtains key where "password \<noteq> []" "c \<noteq> []" "pem_key C algorithm password (take 8 salt) = Inr key"
    "decrypt_pem L (snd (PEM_CIPHERS algorithm)) key salt c = Inr data"
proof -
  let ?mode = "snd (PEM_CIPHERS algorithm)"
  obtain key d where p: "password \<noteq> []" "pem_key C algorithm password (rnd 0 8) = Inr key"
    and d: "d = (if ?mode = CBC then pkcs7_pad L 128 data else data)"
    and e: "aes_encrypt L ?mode key salt d = Inr c" and s: "salt = rnd 0 8 @ rnd 1 (16 - 8)"
    using assms(2,3) by (auto simp: encrypt_pem_def Let_def rbind_Inr_iff split: if_splits)
  have "length c = length d" "?mode = CBC \<longrightarrow> aes_decrypt L CBC key salt c = Inr d"
    "?mode = GCM \<longrightarrow> aes_decrypt_part L GCM key salt c = Inr d"
    using assms(1) e unfolding pem_ok_def by blast+
  moreover have "pkcs7_unpad L 128 (pkcs7_pad L 128 data) = Inr data" "pkcs7_pad L 128 data \<noteq> []"
    using assms(1) unfolding pem_ok_def by (metis, metis list.size(3) not_less_zero)
  ultimately have "c \<noteq> []" "decrypt_pem L ?mode key salt c = Inr data"
    using assms(4) d by (cases ?mode; force simp: decrypt_pem_def)+
  with p s assms(3) show ?thesis by (intro that [of key]) simp_all
qed

text \<open>
  C26: PEM files are read back.  What \<open>encode\<close> writes, plain or encrypted with any of the four algorithms, \<open>decode\<close> finds in a
  longer text and reads as the data and the marker that were written, given the same password, and it ends where the
  next file can be read from.  The data is not empty, and the marker, like the text before, has no dash.
\<close>

theorem pem_roundtrip:
  assumes "encode C L rnd data marker password algorithm = Inr pem" and "pem_ok L" and "length (rnd 0 8) = 8"
    and "data \<noteq> []" and "45 \<notin> set marker" and "45 \<notin> set before"
  shows "decode C L (before @ pem @ rest) password (length before) =
     Inr \<lparr>pem_data = data, pem_marker = marker, pem_enc_flag = (password \<noteq> None), pem_endpos = length before + length pem - 1\<rparr>"
proof (cases password)
  case None
  with assms(1,4) have "pem = pem_text marker [] data"
    using pem_text_lines [of data marker "[]"] by (simp add: encode_def Let_def)
  with decode_plain_text [OF assms(4-6)] None show ?thesis by simp
next
  case (Some p)
  with assms(1) obtain c salt where e: "encrypt_pem C L rnd data p algorithm = Inr (c, salt)"
    and pem: "pem = join_lines ([BEGIN_MARK @ marker @ DASHES] @ dek_header algorithm salt @ map b2a_base64 (chunks_of 48 c) @
        [END_MARK @ marker @ DASHES @ [NEWLINE]])"
    by (auto simp: encode_def Let_def rbind_Inr_iff dek_header_def)
  from decrypt_encrypted [OF assms(2) e assms(3,4)] obtain key where k: "p \<noteq> []" "c \<noteq> []"
    "pem_key C algorithm p (take 8 salt) = Inr key" "decrypt_pem L (snd (PEM_CIPHERS algorithm)) key salt c = Inr data" .
  with pem pem_text_lines [OF k(2)] have "pem = pem_text marker (dek_header algorithm salt) c" by simp
  with decode_encrypted_text [OF k(2) assms(5,6) k(1,3)] k(4) Some show ?thesis by simp
qed

text \<open>
  An encrypted file in the mode GCM is not authenticated: the tag is neither written nor compared.  Whatever bytes of the
  same length stand in the place of the encrypted data, they are read without an error.
\<close>

lemma pem_gcm_unauthenticated:
  assumes "data \<noteq> []" and "45 \<notin> set marker" and "password \<noteq> []"
    and "pem_key C AES256_GCM password (take 8 salt) = Inr key"
    and "aes_decrypt_part L GCM key salt data = Inr d"
  shows "\<exists>r. decode C L (pem_text marker (dek_header AES256_GCM salt) data) (Some password) 0 = Inr r \<and> pem_data r = d"
  using decode_encrypted_text [OF assms(1,2) _ assms(3,4), of "[]" L "[]"] assms(5) by (simp add: decrypt_pem_def)

subsection \<open>The key derivation of OpenSSL\<close>

text \<open>
  \<open>EVP_BytesToKey\<close>: the blocks are the iterated digests of the last block, the password and the salt; key and
  initialisation vector are the first bytes of all blocks.
\<close>

primrec evp_block :: "(bytes \<Rightarrow> bytes) \<Rightarrow> nat \<Rightarrow> bytes" where
  "evp_block next 0 = []"
| "evp_block next (Suc i) = next (evp_block next i)"

lemma evp_loop_blocks:
  assumes "\<And>x. next x \<noteq> []" and "needed \<le> length derived + fuel"
    and "derived = concat (map (evp_block next) [1..<Suc i])" and "prev = evp_block next i"
  shows "\<exists>n. evp_loop fuel needed next prev derived = Inr (concat (map (evp_block next) [1..<Suc n])) \<and>
     needed \<le> length (concat (map (evp_block next) [1..<Suc n]))"
  using assms(2-)
proof (induction fuel arbitrary: i prev derived)
  case 0
  then show ?case by (intro exI [of _ i]) simp
next
  case (Suc fuel)
  show ?case
  proof (cases "length derived < needed")
    case True
    have "0 < length (next prev)" using assms(1) by simp
    then have "needed \<le> length (derived @ next prev) + fuel" using Suc.prems(1) unfolding length_append by linarith
    moreover have "derived @ next prev = concat (map (evp_block next) [1..<Suc (Suc i)])" using Suc.prems(2,3) by simp
    ultimately show ?thesis using Suc.IH [of "derived @ next prev" "Suc i" "next prev"] Suc.prems(3) True by simp
  next
    case False
    with Suc.prems show ?thesis by (intro exI [of _ i]) simp
  qed
qed

lemma evp_bytes_to_key_blocks:
  assumes "\<And>d. hash_fn C algorithm d \<noteq> []" and "salt \<noteq> None \<longrightarrow> length (the salt) = 8"
  shows "\<exists>n. let out = concat (map (evp_block (evp_digest C algorithm password salt iterations)) [1..<Suc n]) in
     key_len + iv_len \<le> length out \<and>
     evp_bytes_to_key C password salt key_len iv_len (Some algorithm) iterations =
       Inr (take key_len out, take iv_len (drop key_len out))"
proof -
  let ?next = "evp_digest C algorithm password salt iterations"
  have "(hash_fn C algorithm ^^ k) (hash_fn C algorithm x) \<noteq> []" for k x using assms(1) by (cases k) simp_all
  then have "?next x \<noteq> []" for x by (simp add: evp_digest_def)
  from evp_loop_blocks [of ?next "key_len + iv_len" "[]" "key_len + iv_len" 0 "[]", OF this] obtain n where
    "evp_loop (key_len + iv_len) (key_len + iv_len) ?next [] [] = Inr (concat (map (evp_block ?next) [1..<Suc n]))"
    "key_len + iv_len \<le> length (concat (map (evp_block ?next) [1..<Suc n]))" by auto
  with assms(2) show ?thesis
    by (intro exI [of _ n]) (auto simp: evp_bytes_to_key_def Let_def split: option.splits)
qed

subsection \<open>An instance\<close>

definition sample_pem_lib :: pem_lib where
  "sample_pem_lib = \<lparr>aes_encrypt = \<lambda>_ _ _ d. Inr (map NOT d), aes_decrypt = \<lambda>_ _ _ c. Inr (map NOT c),
     aes_decrypt_part = \<lambda>_ _ _ c. Inr (map NOT c), pkcs7_pad = \<lambda>_ d. d @ [1], pkcs7_unpad = \<lambda>_ d. Inr (butlast d)\<rparr>"

lemma sample_pem_ok: "pem_ok sample_pem_lib"
  by (auto simp: pem_ok_def sample_pem_lib_def o_def)

theorem pem_roundtrip_witness:
  "\<exists>pem. encode sample_crypto sample_pem_lib (\<lambda>_ n. replicate n 7) [1, 2, 3] (octets ''KEY'') (Some [5]) AES256_CBC = Inr pem \<and>
     decode sample_crypto sample_pem_lib ([10] @ pem @ [10]) (Some [5]) (length [10 :: byte]) =
       Inr \<lparr>pem_data = [1, 2, 3], pem_marker = octets ''KEY'', pem_enc_flag = True, pem_endpos = length [10 :: byte] + length pem - 1\<rparr>"
proof -
  let ?salt = "replicate 8 7 :: bytes"
  have "hash_fn sample_crypto HASH_MD5 d \<noteq> []" for d by (simp add: sample_crypto_def)
  from evp_bytes_to_key_blocks [where C = sample_crypto and algorithm = HASH_MD5 and salt = "Some ?salt" and key_len = 32
      and iv_len = 0 and password = "[5]" and iterations = 1, OF this]
  obtain key iv where "evp_bytes_to_key sample_crypto [5] (Some ?salt) 32 0 (Some HASH_MD5) 1 = Inr (key, iv)"
    by (auto simp: Let_def)
  then have "pem_key sample_crypto AES256_CBC [5] ?salt = Inr key"
    by (simp add: pem_key_def evp_bytes_to_key_def)
  then obtain pem where pem: "encode sample_crypto sample_pem_lib (\<lambda>_ n. replicate n 7) [1, 2, 3] (octets ''KEY'') (Some [5])
      AES256_CBC = Inr pem"
    by (simp add: encode_def encrypt_pem_def sample_pem_lib_def Let_def)
  from pem_roundtrip [OF pem sample_pem_ok, of "[10]" "[10]"] show ?thesis
    by (intro exI [of _ pem] conjI pem) simp
qed

end
