(* ===== verification/Ssl_Context.thy ===== *)
theory Ssl_Context
  imports Loading Cipher_Suites Enums
begin

text \<open>
  The interface of the \<open>ssl\<close> module, first part: the context and what connections are configured from
  (\<open>src/simple_tls/pyssl/_context.py\<close>), the conversions of \<open>pyssl/_utils.py\<close>, and the sessions and the ticket protector of
  \<open>pyssl/_session.py\<close>.  The constants of Python's module \<open>ssl\<close> have their values, flags are members of a datatype.  The
  list of cipher suites that OpenSSL has for a cipher string is a parameter.
\<close>

subsection \<open>Constants of the module \<open>ssl\<close>\<close>

definition PROTOCOL_TLS :: int where "PROTOCOL_TLS = 2"
definition PROTOCOL_TLS_CLIENT :: int where "PROTOCOL_TLS_CLIENT = 16"
definition PROTOCOL_TLS_SERVER :: int where "PROTOCOL_TLS_SERVER = 17"

definition MINIMUM_SUPPORTED :: int where "MINIMUM_SUPPORTED = - 2"
definition MAXIMUM_SUPPORTED :: int where "MAXIMUM_SUPPORTED = - 1"

text \<open>\<open>ssl.TLSVersion(value)\<close>\<close>

definition ssl_TLSVersion :: "int \<Rightarrow> int result" where
  "ssl_TLSVersion value =
     (if value \<in> {MINIMUM_SUPPORTED, MAXIMUM_SUPPORTED, 768, 769, 770, 771, 772} then Inr value else Inl ValueError)"

datatype ssl_option =
    OP_ENABLE_MIDDLEBOX_COMPAT | OP_SINGLE_DH_USE | OP_SINGLE_ECDH_USE | OP_NO_COMPRESSION | OP_NO_RENEGOTIATION
  | OP_NO_SSLv2 | OP_NO_SSLv3 | OP_NO_TLSv1 | OP_NO_TLSv1_1 | OP_NO_TLSv1_2 | OP_NO_TLSv1_3 | OP_NO_TICKET
  | OP_CIPHER_SERVER_PREFERENCE

subsection \<open>Names of OpenSSL\<close>

fun OPENSSL_VERSION_NAMES :: "int \<Rightarrow> (string \<times> string) result" where
  "OPENSSL_VERSION_NAMES v =
     (if v = 769 then Inr (''TLSv1.0'', ''TLSv1'')
      else if v = 770 then Inr (''TLSv1.1'', ''TLSv1.1'')
      else if v = 771 then Inr (''TLSv1.2'', ''TLSv1.2'')
      else if v = 772 then Inr (''TLSv1.3'', ''TLSv1.3'')
      else Inl KeyError)"

fun OPENSSL_DIGEST_NAMES :: "HashAlgorithm \<Rightarrow> (string \<times> string) result" where
  "OPENSSL_DIGEST_NAMES HASH_MD5 = Inr (''md5'', ''MD5'')"
| "OPENSSL_DIGEST_NAMES HASH_SHA1 = Inr (''sha1'', ''SHA1'')"
| "OPENSSL_DIGEST_NAMES HASH_SHA256 = Inr (''sha256'', ''SHA256'')"
| "OPENSSL_DIGEST_NAMES HASH_SHA384 = Inr (''sha384'', ''SHA384'')"
| "OPENSSL_DIGEST_NAMES _ = Inl KeyError"

fun OPENSSL_SYMMETRIC_NAMES :: "Symmetric \<Rightarrow> (string option \<times> string) result" where
  "OPENSSL_SYMMETRIC_NAMES SYM_NULL = Inr (None, ''None'')"
| "OPENSSL_SYMMETRIC_NAMES SYM_RC4_128 = Inr (Some ''rc4'', ''RC4(128)'')"
| "OPENSSL_SYMMETRIC_NAMES SYM_TRIPLE_DES_EDE_CBC = Inr (Some ''des-ede3-cbc'', ''3DES(168)'')"
| "OPENSSL_SYMMETRIC_NAMES SYM_AES_128_CBC = Inr (Some ''aes-128-cbc'', ''AES(128)'')"
| "OPENSSL_SYMMETRIC_NAMES SYM_AES_256_CBC = Inr (Some ''aes-256-cbc'', ''AES(256)'')"
| "OPENSSL_SYMMETRIC_NAMES SYM_AES_128_GCM = Inr (Some ''aes-128-gcm'', ''AESGCM(128)'')"
| "OPENSSL_SYMMETRIC_NAMES SYM_AES_256_GCM = Inr (Some ''aes-256-gcm'', ''AESGCM(256)'')"
| "OPENSSL_SYMMETRIC_NAMES SYM_AES_128_CCM = Inr (Some ''aes-128-ccm'', ''AESCCM(128)'')"
| "OPENSSL_SYMMETRIC_NAMES SYM_AES_256_CCM = Inr (Some ''aes-256-ccm'', ''AESCCM(256)'')"
| "OPENSSL_SYMMETRIC_NAMES SYM_AES_128_CCM_8 = Inr (Some ''aes-128-ccm'', ''AESCCM8(128)'')"
| "OPENSSL_SYMMETRIC_NAMES SYM_AES_256_CCM_8 = Inr (Some ''aes-256-ccm'', ''AESCCM8(256)'')"
| "OPENSSL_SYMMETRIC_NAMES SYM_CHACHA20_POLY1305 = Inr (Some ''chacha20-poly1305'', ''CHACHA20/POLY1305(256)'')"
| "OPENSSL_SYMMETRIC_NAMES _ = Inl KeyError"

fun OPENSSL_KEA_NAMES :: "KeyExchange \<Rightarrow> string \<times> string" where
  "OPENSSL_KEA_NAMES KEA_RSA = (''kx-rsa'', ''RSA'')"
| "OPENSSL_KEA_NAMES KEA_DHE = (''kx-dhe'', ''DH'')"
| "OPENSSL_KEA_NAMES KEA_ECDHE = (''kx-ecdhe'', ''ECDH'')"
| "OPENSSL_KEA_NAMES KEA_NONE = (''kx-any'', ''any'')"

fun OPENSSL_AUTH_NAMES :: "Authentication \<Rightarrow> string \<times> string" where
  "OPENSSL_AUTH_NAMES AUTH_ANON = (''auth-null'', ''None'')"
| "OPENSSL_AUTH_NAMES AUTH_DSS = (''auth-dss'', ''DSS'')"
| "OPENSSL_AUTH_NAMES AUTH_ECDSA = (''auth-ecdsa'', ''ECDSA'')"
| "OPENSSL_AUTH_NAMES AUTH_RSA = (''auth-rsa'', ''RSA'')"
| "OPENSSL_AUTH_NAMES AUTH_NONE = (''auth-any'', ''any'')"

definition OPENSSL_CIPHER_NAMES :: "(string \<times> string) list" where
  "OPENSSL_CIPHER_NAMES =
     [
      (''TLS_RSA_WITH_NULL_MD5'', ''NULL-MD5''),
      (''TLS_RSA_WITH_NULL_SHA'', ''NULL-SHA''),
      (''TLS_RSA_WITH_NULL_SHA256'', ''NULL-SHA256''),
      (''TLS_RSA_WITH_RC4_128_MD5'', ''RC4-MD5''),
      (''TLS_RSA_WITH_RC4_128_SHA'', ''RC4-SHA''),
      (''TLS_RSA_WITH_3DES_EDE_CBC_SHA'', ''DES-CBC3-SHA''),
      (''TLS_RSA_WITH_AES_128_CBC_SHA'', ''AES128-SHA''),
      (''TLS_RSA_WITH_AES_256_CBC_SHA'', ''AES256-SHA''),
      (''TLS_RSA_WITH_AES_128_CBC_SHA256'', ''AES128-SHA256''),
      (''TLS_RSA_WITH_AES_256_CBC_SHA256'', ''AES256-SHA256''),
      (''TLS_RSA_WITH_AES_128_CCM'', ''AES128-CCM''),
      (''TLS_RSA_WITH_AES_256_CCM'', ''AES256-CCM''),
      (''TLS_RSA_WITH_AES_128_CCM_8'', ''AES128-CCM8''),
      (''TLS_RSA_WITH_AES_256_CCM_8'', ''AES256-CCM8''),
      (''TLS_RSA_WITH_AES_128_GCM_SHA256'', ''AES128-GCM-SHA256''),
      (''TLS_RSA_WITH_AES_256_GCM_SHA384'', ''AES256-GCM-SHA384''),
      (''TLS_DHE_DSS_WITH_3DES_EDE_CBC_SHA'', ''DHE-DSS-DES-CBC3-SHA''),
      (''TLS_DHE_DSS_WITH_AES_128_CBC_SHA'', ''DHE-DSS-AES128-SHA''),
      (''TLS_DHE_DSS_WITH_AES_256_CBC_SHA'', ''DHE-DSS-AES256-SHA''),
      (''TLS_DHE_DSS_WITH_AES_128_CBC_SHA256'', ''DHE-DSS-AES128-SHA256''),
      (''TLS_DHE_DSS_WITH_AES_256_CBC_SHA256'', ''DHE-DSS-AES256-SHA256''),
      (''TLS_DHE_DSS_WITH_AES_128_GCM_SHA256'', ''DHE-DSS-AES128-GCM-SHA256''),
      (''TLS_DHE_DSS_WITH_AES_256_GCM_SHA384'', ''DHE-DSS-AES256-GCM-SHA384''),
      (''TLS_DHE_RSA_WITH_3DES_EDE_CBC_SHA'', ''DHE-RSA-DES-CBC3-SHA''),
      (''TLS_DHE_RSA_WITH_AES_128_CBC_SHA'', ''DHE-RSA-AES128-SHA''),
      (''TLS_DHE_RSA_WITH_AES_256_CBC_SHA'', ''DHE-RSA-AES256-SHA''),
      (''TLS_DHE_RSA_WITH_AES_128_CBC_SHA256'', ''DHE-RSA-AES128-SHA256''),
      (''TLS_DHE_RSA_WITH_AES_256_CBC_SHA256'', ''DHE-RSA-AES256-SHA256''),
      (''TLS_DHE_RSA_WITH_AES_128_CCM'', ''DHE-RSA-AES128-CCM''),
      (''TLS_DHE_RSA_WITH_AES_256_CCM'', ''DHE-RSA-AES256-CCM''),
      (''TLS_DHE_RSA_WITH_AES_128_CCM_8'', ''DHE-RSA-AES128-CCM8''),
      (''TLS_DHE_RSA_WITH_AES_256_CCM_8'', ''DHE-RSA-AES256-CCM8''),
      (''TLS_DHE_RSA_WITH_AES_128_GCM_SHA256'', ''DHE-RSA-AES128-GCM-SHA256''),
      (''TLS_DHE_RSA_WITH_AES_256_GCM_SHA384'', ''DHE-RSA-AES256-GCM-SHA384''),
      (''TLS_DHE_RSA_WITH_CHACHA20_POLY1305_SHA256'', ''DHE-RSA-CHACHA20-POLY1305''),
      (''TLS_ECDHE_RSA_WITH_NULL_SHA'', ''ECDHE-RSA-NULL-SHA''),
      (''TLS_ECDHE_RSA_WITH_RC4_128_SHA'', ''ECDHE-RSA-RC4-SHA''),
      (''TLS_ECDHE_RSA_WITH_3DES_EDE_CBC_SHA'', ''ECDHE-RSA-DES-CBC3-SHA''),
      (''TLS_ECDHE_RSA_WITH_AES_128_CBC_SHA'', ''ECDHE-RSA-AES128-SHA''),
      (''TLS_ECDHE_RSA_WITH_AES_256_CBC_SHA'', ''ECDHE-RSA-AES256-SHA''),
      (''TLS_ECDHE_RSA_WITH_AES_128_CBC_SHA256'', ''ECDHE-RSA-AES128-SHA256''),
      (''TLS_ECDHE_RSA_WITH_AES_256_CBC_SHA384'', ''ECDHE-RSA-AES256-SHA384''),
      (''TLS_ECDHE_RSA_WITH_AES_128_GCM_SHA256'', ''ECDHE-RSA-AES128-GCM-SHA256''),
      (''TLS_ECDHE_RSA_WITH_AES_256_GCM_SHA384'', ''ECDHE-RSA-AES256-GCM-SHA384''),
      (''TLS_ECDHE_RSA_WITH_CHACHA20_POLY1305_SHA256'', ''ECDHE-RSA-CHACHA20-POLY1305''),
      (''TLS_ECDHE_ECDSA_WITH_NULL_SHA'', ''ECDHE-ECDSA-NULL-SHA''),
      (''TLS_ECDHE_ECDSA_WITH_RC4_128_SHA'', ''ECDHE-ECDSA-RC4-SHA''),
      (''TLS_ECDHE_ECDSA_WITH_3DES_EDE_CBC_SHA'', ''ECDHE-ECDSA-DES-CBC3-SHA''),
      (''TLS_ECDHE_ECDSA_WITH_AES_128_CBC_SHA'', ''ECDHE-ECDSA-AES128-SHA''),
      (''TLS_ECDHE_ECDSA_WITH_AES_256_CBC_SHA'', ''ECDHE-ECDSA-AES256-SHA''),
      (''TLS_ECDHE_ECDSA_WITH_AES_128_CBC_SHA256'', ''ECDHE-ECDSA-AES128-SHA256''),
      (''TLS_ECDHE_ECDSA_WITH_AES_256_CBC_SHA384'', ''ECDHE-ECDSA-AES256-SHA384''),
      (''TLS_ECDHE_ECDSA_WITH_AES_128_CCM'', ''ECDHE-ECDSA-AES128-CCM''),
      (''TLS_ECDHE_ECDSA_WITH_AES_256_CCM'', ''ECDHE-ECDSA-AES256-CCM''),
      (''TLS_ECDHE_ECDSA_WITH_AES_128_CCM_8'', ''ECDHE-ECDSA-AES128-CCM8''),
      (''TLS_ECDHE_ECDSA_WITH_AES_256_CCM_8'', ''ECDHE-ECDSA-AES256-CCM8''),
      (''TLS_ECDHE_ECDSA_WITH_AES_128_GCM_SHA256'', ''ECDHE-ECDSA-AES128-GCM-SHA256''),
      (''TLS_ECDHE_ECDSA_WITH_AES_256_GCM_SHA384'', ''ECDHE-ECDSA-AES256-GCM-SHA384''),
      (''TLS_ECDHE_ECDSA_WITH_CHACHA20_POLY1305_SHA256'', ''ECDHE-ECDSA-CHACHA20-POLY1305''),
      (''TLS_AES_128_GCM_SHA256'', ''TLS_AES_128_GCM_SHA256''),
      (''TLS_AES_256_GCM_SHA384'', ''TLS_AES_256_GCM_SHA384''),
      (''TLS_CHACHA20_POLY1305_SHA256'', ''TLS_CHACHA20_POLY1305_SHA256''),
      (''TLS_AES_128_CCM_SHA256'', ''TLS_AES_128_CCM_SHA256''),
      (''TLS_AES_128_CCM_8_SHA256'', ''TLS_AES_128_CCM_8_SHA256'')
     ]"

text \<open>The dictionary that describes a cipher suite.  \<open>f"{name:<31}"\<close> fills up with spaces.\<close>

record ssl_cipher =
  sc_id :: int
  sc_name :: string
  sc_protocol :: string
  sc_description :: string
  sc_strength_bits :: int
  sc_alg_bits :: int
  sc_aead :: bool
  sc_symmetric :: "string option"
  sc_digest :: "string option"
  sc_kea :: string
  sc_auth :: string

definition padded_to :: "nat \<Rightarrow> string \<Rightarrow> string" where
  "padded_to n s = s @ replicate (n - length s) (CHR '' '')"

definition get_cipher :: "cipher_suite \<Rightarrow> ssl_cipher option result" where
  "get_cipher cs =
     (if cs_id cs = cs_id TLS_FALLBACK_SCSV \<or> cs_id cs = cs_id TLS_EMPTY_RENEGOTIATION_INFO_SCSV then Inr None
      else
        rbind (case map_of OPENSSL_CIPHER_NAMES (cs_name cs) of None \<Rightarrow> Inl KeyError | Some n \<Rightarrow> Inr n) (\<lambda>name.
        rbind (OPENSSL_VERSION_NAMES (minimum_version cs)) (\<lambda>(protocol, ver).
        let (kea, kx) = OPENSSL_KEA_NAMES (kea cs); (auth, au) = OPENSSL_AUTH_NAMES (auth cs) in
        rbind (OPENSSL_SYMMETRIC_NAMES (symmetric cs)) (\<lambda>(symmetric, enc).
        rbind (case digest cs of
                 Some d \<Rightarrow> if aead cs then Inl AssertionError
                           else rbind (OPENSSL_DIGEST_NAMES d) (\<lambda>(n, mac). Inr (Some n, mac))
               | None \<Rightarrow> if \<not> aead cs then Inl AssertionError else Inr (None, ''AEAD'')) (\<lambda>(digest, mac).
        Inr (Some \<lparr>sc_id = 50331648 + cs_id cs, sc_name = name, sc_protocol = protocol,
          sc_description = padded_to 31 name @ padded_to 8 ver @ ''Kx='' @ padded_to 9 kx @ ''Au='' @ padded_to 6 au @
            ''Enc='' @ padded_to 23 enc @ ''Mac='' @ mac,
          sc_strength_bits = strength_bits cs, sc_alg_bits = alg_bits cs, sc_aead = aead cs, sc_symmetric = symmetric,
          sc_digest = digest, sc_kea = kea, sc_auth = auth\<rparr>))))))"

definition get_cipher_tuple :: "cipher_suite \<Rightarrow> (string \<times> string \<times> int) option result" where
  "get_cipher_tuple cs = rbind (get_cipher cs) (\<lambda>c.
     Inr (map_option (\<lambda>c. (sc_name c, sc_protocol c, sc_alg_bits c)) c))"

definition get_version_name :: "int \<Rightarrow> string" where
  "get_version_name version = (case OPENSSL_VERSION_NAMES version of Inr (_, n) \<Rightarrow> n | Inl _ \<Rightarrow> ''Unknown version'')"

text \<open>\<open>parse_cipher_string\<close>, given the identifiers of OpenSSL for the string; unknown ones are left out.\<close>

definition parse_cipher_string :: "(string \<Rightarrow> int list result) \<Rightarrow> string \<Rightarrow> cipher_suite list result" where
  "parse_cipher_string openssl cipher_str =
     rbind (openssl cipher_str) (\<lambda>ids.
     Inr (concat (map (\<lambda>i. case CipherSuite_of (i mod 65536) of Inr cs \<Rightarrow> [cs] | Inl _ \<Rightarrow> []) ids)))"

subsection \<open>Encrypted client hello\<close>

primrec load_ech_config_items :: "bytes list \<Rightarrow> ech_config list result" where
  "load_ech_config_items [] = Inr []"
| "load_ech_config_items (d # ds) =
     rbind (load_ech_configs d) (\<lambda>cs. rbind (load_ech_config_items ds) (\<lambda>r. Inr (cs @ r)))"

definition load_ech_config_list :: "bytes list option \<Rightarrow> ech_config list result" where
  "load_ech_config_list data = (case data of None \<Rightarrow> Inr [] | Some ds \<Rightarrow> load_ech_config_items ds)"

primrec ech_config_bytes :: "ech_config list \<Rightarrow> bytes result" where
  "ech_config_bytes [] = Inr []"
| "ech_config_bytes (c # cs) = rbind (ECHConfig_to_bytes c) (\<lambda>d. rbind (ech_config_bytes cs) (\<lambda>r. Inr (d @ r)))"

definition serialize_ech_configs :: "ech_config list \<Rightarrow> bytes result" where
  "serialize_ech_configs configs =
     rbind (ech_config_bytes configs) (\<lambda>data.
     if length data < 65536 then Inr (be_bytes 2 (int (length data)) @ data) else Inl OverflowError)"

subsection \<open>Sessions and tickets\<close>

text \<open>
  \<open>TicketAEAD\<close> keeps the plaintexts in a dictionary under random tickets.  The random bytes of \<open>os.urandom\<close> are an argument.
\<close>

type_synonym ticket_store = "(bytes \<times> bytes) list"

definition store_seal :: "bytes \<Rightarrow> bytes \<Rightarrow> ticket_store \<Rightarrow> bytes \<times> ticket_store" where
  "store_seal ticket plaintext sessions = (ticket, dict_set ticket plaintext sessions)"

definition store_open :: "bytes \<Rightarrow> ticket_store \<Rightarrow> bytes option" where
  "store_open ticket sessions = map_of sessions ticket"

text \<open>A ticket protector as the server uses it: the methods of the object in one state, with the next random ticket.\<close>

definition ticket_methods :: "bytes \<Rightarrow> ticket_store \<Rightarrow> TicketAEAD" where
  "ticket_methods ticket sessions =
     \<lparr>ticket_seal = \<lambda>plaintext _. Some (fst (store_seal ticket plaintext sessions)),
      ticket_open = \<lambda>t _. store_open t sessions\<rparr>"

record SSLSession =
  ssl_session :: TLSSession
  ssl_ticket_lifetime_hint :: int

text \<open>The constructor lowers the timeout of the session to two hours; times are in microseconds.\<close>

definition SSLSession_new :: "TLSSession \<Rightarrow> SSLSession" where
  "SSLSession_new session =
     \<lparr>ssl_session = set_timeout 7200 session, ssl_ticket_lifetime_hint = s_timeout session div 1000000\<rparr>"

subsection \<open>The context\<close>

record SSLContext =
  cx_protocol :: int
  cx_server_side :: bool
  cx_minimum_version :: int
  cx_maximum_version :: int
  cx_options :: "ssl_option set"
  cx_castore_builder :: trust_map
  cx_verify_mode :: int
  cx_check_hostname :: bool
  cx_post_handshake_auth :: bool
  cx_credential :: "Credential option"
  cx_dh_parameters :: "DHParameters option"
  cx_cipher_suites :: "cipher_suite list"
  cx_supported_groups :: "int list option"
  cx_npn_protocols :: "bytes list option"
  cx_alpn_protocols :: "bytes list option"
  cx_ticket_aead :: "ticket_store option"

definition default_options :: "ssl_option set" where
  "default_options = {OP_ENABLE_MIDDLEBOX_COMPAT, OP_SINGLE_DH_USE, OP_SINGLE_ECDH_USE, OP_NO_COMPRESSION,
     OP_NO_RENEGOTIATION, OP_NO_SSLv2, OP_NO_SSLv3, OP_NO_TLSv1, OP_NO_TLSv1_1}"

definition SSLContext_new :: "int \<Rightarrow> SSLContext result" where
  "SSLContext_new protocol =
     (let context = \<lambda>server_side verify_mode check_hostname ticket_aead.
        \<lparr>cx_protocol = protocol, cx_server_side = server_side, cx_minimum_version = MINIMUM_SUPPORTED,
         cx_maximum_version = MAXIMUM_SUPPORTED, cx_options = default_options, cx_castore_builder = [],
         cx_verify_mode = verify_mode, cx_check_hostname = check_hostname, cx_post_handshake_auth = False,
         cx_credential = None, cx_dh_parameters = None,
         cx_cipher_suites = cfg_cipher_suites default_configuration,
         cx_supported_groups = cfg_supported_groups default_configuration,
         cx_npn_protocols = None, cx_alpn_protocols = None, cx_ticket_aead = ticket_aead\<rparr> in
      if protocol = PROTOCOL_TLS_CLIENT then Inr (context False 2 True None)
      else if protocol = PROTOCOL_TLS_SERVER then Inr (context True 0 False (Some []))
      else Inl ValueError)"

text \<open>The operations that change a context.\<close>

definition protocol_bytes :: "string \<Rightarrow> bytes result" where
  "protocol_bytes p =
     (if \<exists>c \<in> set p. of_char c \<ge> (128 :: nat) then Inl UnicodeError
      else if length p = 0 \<or> length p > 255 then Inl ValueError
      else Inr (map of_char p))"

primrec protocol_list :: "string list \<Rightarrow> bytes list result" where
  "protocol_list [] = Inr []"
| "protocol_list (p # ps) = rbind (protocol_bytes p) (\<lambda>b. rbind (protocol_list ps) (\<lambda>bs. Inr (b # bs)))"

definition set_npn_protocols :: "string list \<Rightarrow> (SSLContext, unit) action" where
  "set_npn_protocols protocols = bnd (lift_result (protocol_list protocols)) (\<lambda>out.
     modify (\<lambda>x. x\<lparr>cx_npn_protocols := Some out\<rparr>))"

definition set_alpn_protocols :: "string list \<Rightarrow> (SSLContext, unit) action" where
  "set_alpn_protocols protocols = bnd (lift_result (protocol_list protocols)) (\<lambda>out.
     modify (\<lambda>x. x\<lparr>cx_alpn_protocols := Some out\<rparr>))"

definition set_ciphers :: "(string \<Rightarrow> int list result) \<Rightarrow> string \<Rightarrow> (SSLContext, unit) action" where
  "set_ciphers openssl cipherlist = bnd (lift_result (parse_cipher_string openssl cipherlist)) (\<lambda>cs.
     modify (\<lambda>x. x\<lparr>cx_cipher_suites := cs\<rparr>))"

definition ECDH_CURVES :: "(string \<times> int) list" where
  "ECDH_CURVES = [(''prime256v1'', ng NG_SECP256R1), (''secp256r1'', ng NG_SECP256R1), (''secp384r1'', ng NG_SECP384R1),
     (''x25519'', ng NG_X25519), (''x448'', ng NG_X448), (''x25519mlkem768'', ng NG_X25519MLKEM768)]"

fun split_colon :: "string \<Rightarrow> string list" where
  "split_colon [] = [[]]"
| "split_colon (c # cs) =
     (if c = CHR '':'' then [] # split_colon cs
      else case split_colon cs of l # ls \<Rightarrow> (c # l) # ls | [] \<Rightarrow> [[c]])"

primrec curve_groups :: "string list \<Rightarrow> int list result" where
  "curve_groups [] = Inr []"
| "curve_groups (c # cs) =
     (if c = [] then curve_groups cs
      else case map_of ECDH_CURVES c of
             None \<Rightarrow> Inl ValueError
           | Some g \<Rightarrow> rbind (curve_groups cs) (\<lambda>gs. Inr (g # gs)))"

definition set_ecdh_curve :: "string \<Rightarrow> (SSLContext, unit) action" where
  "set_ecdh_curve curve = bnd (lift_result (curve_groups (split_colon curve))) (\<lambda>groups.
     thn (raise_if (groups = []) ValueError)
     (modify (\<lambda>x. x\<lparr>cx_supported_groups := Some groups\<rparr>)))"

definition set_minimum_version :: "int \<Rightarrow> (SSLContext, unit) action" where
  "set_minimum_version value = bnd (lift_result (ssl_TLSVersion value)) (\<lambda>v. modify (\<lambda>x. x\<lparr>cx_minimum_version := v\<rparr>))"

definition set_maximum_version :: "int \<Rightarrow> (SSLContext, unit) action" where
  "set_maximum_version value = bnd (lift_result (ssl_TLSVersion value)) (\<lambda>v. modify (\<lambda>x. x\<lparr>cx_maximum_version := v\<rparr>))"

definition set_options :: "ssl_option set \<Rightarrow> (SSLContext, unit) action" where
  "set_options value = modify (\<lambda>x. x\<lparr>cx_options := value\<rparr>)"

definition set_check_hostname :: "bool \<Rightarrow> (SSLContext, unit) action" where
  "set_check_hostname value = modify (\<lambda>x. x\<lparr>cx_check_hostname := value\<rparr>)"

definition set_post_handshake_auth :: "bool \<Rightarrow> (SSLContext, unit) action" where
  "set_post_handshake_auth value = modify (\<lambda>x. x\<lparr>cx_post_handshake_auth := value\<rparr>)"

definition set_verify_mode :: "int \<Rightarrow> (SSLContext, unit) action" where
  "set_verify_mode value = modify (\<lambda>x. x\<lparr>cx_verify_mode := value\<rparr>)"

definition load_cert_chain :: "file_lib \<Rightarrow> string \<Rightarrow> string option \<Rightarrow> bytes option \<Rightarrow> (SSLContext, unit) action" where
  "load_cert_chain F certfile keyfile password =
     bnd (lift_result (from_certfile F certfile keyfile password)) (\<lambda>c. modify (\<lambda>x. x\<lparr>cx_credential := Some c\<rparr>))"

definition load_dh_params :: "file_lib \<Rightarrow> string \<Rightarrow> (SSLContext, unit) action" where
  "load_dh_params F path =
     bnd (lift_result (rbind (read_file F path) (load_pem_parameters F))) (\<lambda>p. modify (\<lambda>x. x\<lparr>cx_dh_parameters := Some p\<rparr>))"

text \<open>\<open>load_verify_locations\<close>; \<open>der\<close> is the loader of DER certificates of the package.\<close>

definition load_verify_locations ::
    "cert_lib \<Rightarrow> file_lib \<Rightarrow> (bytes \<Rightarrow> x509_certificate result) \<Rightarrow> string \<Rightarrow> string \<Rightarrow> bytes \<Rightarrow> (SSLContext, unit) action" where
  "load_verify_locations X F der cafile capath cadata =
     bnd (gets cx_castore_builder) (\<lambda>trust.
     bnd (lift_result (load_locations X F cafile capath trust)) (\<lambda>trust.
     thn (modify (\<lambda>x. x\<lparr>cx_castore_builder := trust\<rparr>))
     (if cadata = [] then ret ()
      else bnd (lift_result (der cadata)) (\<lambda>cert.
        modify (\<lambda>x. x\<lparr>cx_castore_builder := add_certificate X cert (cx_castore_builder x)\<rparr>)))))"

subsection \<open>From a context to a configuration\<close>

definition get_version :: "int \<Rightarrow> int option" where
  "get_version value =
     (if value = MAXIMUM_SUPPORTED then Some 772
      else if value = MINIMUM_SUPPORTED then Some 769
      else if value \<in> {769, 770, 771, 772, 65279, 65277, 65079} then Some value
      else None)"

text \<open>
  \<open>_config_data\<close>: the keyword arguments, as the change they make to the default values.  \<open>ticket\<close> is the next random
  ticket of the protector.
\<close>

definition config_data :: "bytes \<Rightarrow> SSLContext \<Rightarrow> (TLSConfiguration \<Rightarrow> TLSConfiguration) result" where
  "config_data ticket x =
     (if cx_verify_mode x \<notin> {0, 1, 2} then Inl ValueError
      else Inr (\<lambda>c. c\<lparr>
        cfg_cipher_suites := cx_cipher_suites x, cfg_supported_groups := cx_supported_groups x,
        cfg_npn_protocols := cx_npn_protocols x, cfg_alpn_protocols := cx_alpn_protocols x,
        cfg_castore := Some (store_build (cx_castore_builder x)), cfg_check_hostname := cx_check_hostname x,
        cfg_credential := cx_credential x, cfg_dh_parameters := cx_dh_parameters x,
        cfg_post_handshake_auth := cx_post_handshake_auth x,
        cfg_minimum_version := (case get_version (cx_minimum_version x) of Some v \<Rightarrow> v | None \<Rightarrow> cfg_minimum_version c),
        cfg_maximum_version := (case get_version (cx_maximum_version x) of Some v \<Rightarrow> v | None \<Rightarrow> cfg_maximum_version c),
        cfg_verify_mode := (if cx_verify_mode x = 0 then CERT_NONE else if cx_verify_mode x = 1 then CERT_OPTIONAL else CERT_REQUIRED),
        cfg_ticket_aead := (if OP_NO_TICKET \<in> cx_options x then cfg_ticket_aead c
                            else map_option (ticket_methods ticket) (cx_ticket_aead x))\<rparr>))"

text \<open>
  The configuration of a new connection, which \<open>SSLSocket._create\<close> and \<open>SSLObject._create\<close> make in the same way: a client
  has a host name, its configurations of the encrypted client hello and a session.
\<close>

definition connection_configuration ::
    "bytes \<Rightarrow> SSLContext \<Rightarrow> bool \<Rightarrow> string option \<Rightarrow> ech_config list \<Rightarrow> TLSSession option \<Rightarrow> TLSConfiguration result" where
  "connection_configuration ticket x server_side server_hostname peer_ech_configs session =
     (if cx_protocol x = PROTOCOL_TLS_SERVER \<and> \<not> server_side then Inl TypeError
      else if cx_protocol x = PROTOCOL_TLS_CLIENT \<and> server_side then Inl TypeError
      else
        rbind (config_data ticket x) (\<lambda>kwargs.
        Inr (if \<not> server_side
             then kwargs (default_configuration\<lparr>cfg_is_server := False, cfg_server_hostname := map_option (map of_char) server_hostname,
               cfg_peer_ech_configs := Some peer_ech_configs, cfg_session := session\<rparr>)
             else kwargs (default_configuration\<lparr>cfg_is_server := True\<rparr>))))"

end
