(* ===== verification/Ssl_Context_Laws.thy ===== *)
theory Ssl_Context_Laws
  imports Ssl_Context Extension_Laws Pem_Laws
begin

text \<open>
  What the context promises: every cipher suite can be described, the configurations of encrypted client hellos are read
  back, a sealed ticket opens, and what the configuration of a connection takes from the context.
\<close>

subsection \<open>Cipher suites\<close>

abbreviation is_scsv :: "cipher_suite \<Rightarrow> bool" where
  "is_scsv cs \<equiv> cs_id cs = 22016 \<or> cs_id cs = 255"

lemma described_names: "map fst OPENSSL_CIPHER_NAMES = map cs_name (filter (\<lambda>cs. \<not> is_scsv cs) ALL_CIPHER_SUITES)"
  by code_simp

lemma described_parts:
  "list_all (\<lambda>cs. is_scsv cs \<or> (minimum_version cs \<in> {769, 770, 771, 772} \<and>
     OPENSSL_SYMMETRIC_NAMES (symmetric cs) \<noteq> Inl KeyError \<and>
     (case digest cs of None \<Rightarrow> aead cs | Some d \<Rightarrow> \<not> aead cs \<and> OPENSSL_DIGEST_NAMES d \<noteq> Inl KeyError))) ALL_CIPHER_SUITES"
  by code_simp

lemma scsv_ids: "cs_id TLS_FALLBACK_SCSV = 22016" "cs_id TLS_EMPTY_RENEGOTIATION_INFO_SCSV = 255"
  by (simp_all add: TLS_FALLBACK_SCSV_def TLS_EMPTY_RENEGOTIATION_INFO_SCSV_def)

text \<open>
  Every cipher suite but the two signalling values has a description: no name is missing in the tables of OpenSSL's
  names.  The identifier in it leads back to the suite, so the suites of a context survive \<open>get_ciphers\<close> and
  \<open>set_ciphers\<close>.
\<close>

lemma every_suite_described:
  assumes "cs \<in> set ALL_CIPHER_SUITES"
  shows "if is_scsv cs then get_cipher cs = Inr None
    else \<exists>c. get_cipher cs = Inr (Some c) \<and> CipherSuite_of (sc_id c mod 65536) = Inr cs \<and>
      sc_alg_bits c = alg_bits cs \<and> sc_aead c = aead cs"
proof (cases "is_scsv cs")
  case True
  then show ?thesis by (auto simp: get_cipher_def scsv_ids)
next
  case False
  with assms have "cs_name cs \<in> set (map fst OPENSSL_CIPHER_NAMES)" unfolding described_names by simp
  then obtain name where name: "map_of OPENSSL_CIPHER_NAMES (cs_name cs) = Some name"
    by (metis list.set_map map_of_eq_None_iff option.exhaust)
  from False assms described_parts have parts: "minimum_version cs \<in> {769, 770, 771, 772}"
    "OPENSSL_SYMMETRIC_NAMES (symmetric cs) \<noteq> Inl KeyError"
    "case digest cs of None \<Rightarrow> aead cs | Some d \<Rightarrow> \<not> aead cs \<and> OPENSSL_DIGEST_NAMES d \<noteq> Inl KeyError"
    unfolding list_all_iff by blast+
  obtain sym where sym: "OPENSSL_SYMMETRIC_NAMES (symmetric cs) = Inr sym"
    using parts(2) by (cases "symmetric cs") simp_all
  obtain mac where mac: "(case digest cs of
       Some d \<Rightarrow> if aead cs then Inl AssertionError
                 else rbind (OPENSSL_DIGEST_NAMES d) (\<lambda>(n, mac). Inr (Some n, mac))
     | None \<Rightarrow> if \<not> aead cs then Inl AssertionError else Inr (None, ''AEAD'')) = Inr mac"
  proof (cases "digest cs")
    case (Some d)
    with parts(3) obtain n m where "OPENSSL_DIGEST_NAMES d = Inr (n, m)" by (cases d) simp_all
    with Some parts(3) show ?thesis by (intro that) simp
  qed (use parts(3) in \<open>auto intro: that\<close>)
  obtain v where v: "OPENSSL_VERSION_NAMES (minimum_version cs) = Inr v" using parts(1) by auto
  have id: "0 \<le> cs_id cs" "cs_id cs < 65536" using all_cipher_suites_range assms by (auto simp: list_all_iff)
  have "(50331648 + cs_id cs) mod 65536 = cs_id cs"
    using id by (simp add: mod_add_left_eq [symmetric, of 50331648] mod_pos_pos_trivial)
  then show ?thesis
    using False name sym mac v CipherSuite_of_id [OF assms]
    by (auto simp: get_cipher_def scsv_ids Let_def rbind_Inr_iff simp del: OPENSSL_VERSION_NAMES.simps
        split: prod.splits)
qed

subsection \<open>Encrypted client hello\<close>

lemma ech_config_loop_bytes:
  assumes "ech_config_bytes cs = Inr w" and "\<forall>c \<in> set cs. ech_config_ok c" and "length w < fuel"
  shows "ech_config_loop fuel (length pre + length w) \<lparr>p_data = pre @ w, p_index = length pre, p_bookmark = bm\<rparr> = Inr cs"
  using assms
proof (induction cs arbitrary: pre w fuel)
  case Nil
  then show ?case by (cases fuel) simp_all
next
  case (Cons c cs)
  then obtain a b where a: "ECHConfig_to_bytes c = Inr a" and b: "ech_config_bytes cs = Inr b" and w: "w = a @ b"
    by (auto simp: rbind_Inr_iff)
  from a have enc: "ECHConfig_enc c = Inr a"
    using run_writer_emits [OF emits_ECHConfig_write] by (auto simp: ECHConfig_to_bytes_def)
  with Cons.prems(2) have "parses b ECHConfig_parse a c" and "a \<noteq> []"
    by (auto intro: ech_conf.item_parses dest: ech_conf.item_nonempty)
  then have step: "ECHConfig_parse \<lparr>p_data = pre @ a @ b, p_index = length pre, p_bookmark = bm\<rparr> =
      (Inr c, \<lparr>p_data = (pre @ a) @ b, p_index = length (pre @ a), p_bookmark = bm\<rparr>)"
    by (simp add: parses_def)
  obtain f where f: "fuel = Suc f" using Cons.prems(3) by (cases fuel) auto
  have "0 < length a" using \<open>a \<noteq> []\<close> by simp
  then have "length b < f" "length pre < length pre + length w" using Cons.prems(3) unfolding w f length_append by linarith+
  moreover have "ech_config_loop f (length (pre @ a) + length b)
      \<lparr>p_data = (pre @ a) @ b, p_index = length (pre @ a), p_bookmark = bm\<rparr> = Inr cs"
    using Cons.prems(2) by (intro Cons.IH b \<open>length b < f\<close>) simp
  ultimately show ?case using step by (simp add: f w add.assoc)
qed

text \<open>The configurations that are offered for a retry are read back from their serialisation.\<close>

lemma ech_configs_roundtrip:
  assumes "serialize_ech_configs cs = Inr d" and "\<forall>c \<in> set cs. ech_config_ok c"
  shows "load_ech_config_list (Some [d]) = Inr cs"
proof -
  obtain w where w: "ech_config_bytes cs = Inr w" "length w < 65536" "d = be_bytes 2 (int (length w)) @ w"
    using assms(1) by (auto simp: serialize_ech_configs_def rbind_Inr_iff split: if_splits)
  have "enc_int (int (length w)) 2 = Inr (be_bytes 2 (int (length w)))" using w(2) by (simp add: enc_int_Inr_iff)
  then have "parses w (read_int 2) (be_bytes 2 (int (length w))) (int (length w))" by (rule parses_read_int)
  then have "read_int 2 (new_parser d) = (Inr (int (length w)), \<lparr>p_data = d, p_index = 2, p_bookmark = 0\<rparr>)"
    unfolding parses_def new_parser_def w(3)
    by (drule_tac spec [of _ "[]"], drule_tac spec [of _ 0]) (simp add: length_be_bytes)
  moreover have "ech_config_loop (Suc (length d)) (2 + length w) \<lparr>p_data = d, p_index = 2, p_bookmark = 0\<rparr> = Inr cs"
    using ech_config_loop_bytes [OF w(1) assms(2), of "Suc (length d)" "be_bytes 2 (int (length w))" 0]
    by (simp add: w(3) length_be_bytes)
  ultimately have "load_ech_configs d = Inr cs" by (simp add: load_ech_configs_def del: ech_config_loop.simps)
  then show ?thesis by (simp add: load_ech_config_list_def)
qed

subsection \<open>Tickets\<close>

text \<open>A sealed ticket opens, also after others have been sealed under other random tickets.\<close>

lemma map_of_dict_set_iff: "map_of (dict_set k v d) k' = (if k' = k then Some v else map_of d k')"
  by (induction d) auto

lemma sealed_ticket_opens:
  assumes "ticket \<notin> set (map fst later)"
  shows "store_open ticket (fold (\<lambda>(t, p) s. snd (store_seal t p s)) later (snd (store_seal ticket plaintext sessions))) =
     Some plaintext"
proof -
  have "store_open ticket (fold (\<lambda>(t, p) s. snd (store_seal t p s)) later s) = store_open ticket s" for s
    using assms by (induction later arbitrary: s) (auto simp: store_open_def store_seal_def map_of_dict_set_iff)
  then show ?thesis by (simp add: store_open_def store_seal_def map_of_dict_set_iff)
qed

subsection \<open>Configurations\<close>

text \<open>What the configuration of a client takes from its context and from the call.\<close>

lemma client_configuration_fields:
  assumes "connection_configuration ticket x False host ech session = Inr cfg"
  shows "\<not> cfg_is_server cfg" "cfg_server_hostname cfg = map_option (map of_char) host"
    "cfg_castore cfg = Some (store_build (cx_castore_builder x))" "cfg_check_hostname cfg = cx_check_hostname x"
    "cfg_verify_mode cfg = (if cx_verify_mode x = 0 then CERT_NONE else if cx_verify_mode x = 1 then CERT_OPTIONAL else CERT_REQUIRED)"
    "cfg_minimum_version cfg = (case get_version (cx_minimum_version x) of Some v \<Rightarrow> v | None \<Rightarrow> ver V_TLSv1_2)"
    "cfg_maximum_version cfg = (case get_version (cx_maximum_version x) of Some v \<Rightarrow> v | None \<Rightarrow> ver V_TLSv1_3)"
    "cfg_cipher_suites cfg = cx_cipher_suites x" "cx_verify_mode x \<in> {0, 1, 2}" "cx_protocol x \<noteq> PROTOCOL_TLS_SERVER"
proof -
  have default: "cfg_minimum_version default_configuration = ver V_TLSv1_2" "cfg_maximum_version default_configuration = ver V_TLSv1_3"
    by (simp_all add: default_configuration_def)
  show "\<not> cfg_is_server cfg" "cfg_server_hostname cfg = map_option (map of_char) host"
    "cfg_castore cfg = Some (store_build (cx_castore_builder x))" "cfg_check_hostname cfg = cx_check_hostname x"
    "cfg_verify_mode cfg = (if cx_verify_mode x = 0 then CERT_NONE else if cx_verify_mode x = 1 then CERT_OPTIONAL else CERT_REQUIRED)"
    "cfg_minimum_version cfg = (case get_version (cx_minimum_version x) of Some v \<Rightarrow> v | None \<Rightarrow> ver V_TLSv1_2)"
    "cfg_maximum_version cfg = (case get_version (cx_maximum_version x) of Some v \<Rightarrow> v | None \<Rightarrow> ver V_TLSv1_3)"
    "cfg_cipher_suites cfg = cx_cipher_suites x" "cx_verify_mode x \<in> {0, 1, 2}" "cx_protocol x \<noteq> PROTOCOL_TLS_SERVER"
    using assms unfolding connection_configuration_def config_data_def
    by (auto simp: rbind_Inr_iff default split: if_split_asm option.split)
qed

text \<open>
  A new context has the options that disable TLS 1.0 and 1.1, but the configurations made from it allow both: the options are
  not consulted, and the smallest supported version stands for TLS 1.0.
\<close>

lemma default_context_versions:
  assumes "SSLContext_new PROTOCOL_TLS_CLIENT = Inr x" and "connection_configuration ticket x False host ech session = Inr cfg"
  shows "OP_NO_TLSv1 \<in> cx_options x \<and> OP_NO_TLSv1_1 \<in> cx_options x \<and>
     cfg_minimum_version cfg = ver V_TLSv1 \<and> cfg_maximum_version cfg = ver V_TLSv1_3"
proof -
  have x: "cx_minimum_version x = - 2" "cx_maximum_version x = - 1" "cx_options x = default_options"
    using assms(1) by (auto simp: SSLContext_new_def MINIMUM_SUPPORTED_def MAXIMUM_SUPPORTED_def)
  show ?thesis
    unfolding client_configuration_fields(6,7) [OF assms(2)] x
    by (simp add: default_options_def get_version_def MINIMUM_SUPPORTED_def MAXIMUM_SUPPORTED_def)
qed

end
