(* ===== verification/Ssl_Socket.thy ===== *)
theory Ssl_Socket
  imports Record_Layer Config Server_Hello Ssl_Context
begin

text \<open>
  The interface of the \<open>ssl\<close> module, second part: sockets and objects (\<open>src/simple_tls/pyssl/_socket.py\<close> and
  \<open>pyssl/_object.py\<close>).  A socket owns a connection, drives its operations with the bytes of the operating system's socket and
  keeps ciphertext that the system did not accept.  The operating system is the parameter \<open>os_socket\<close>: what its calls
  return is a function of the number of calls before.  The field \<open>sk_wire\<close> is what it has accepted so far.
\<close>

record os_socket =
  os_send :: "nat \<Rightarrow> bytes \<Rightarrow> nat result" \<comment> \<open>the number of bytes accepted\<close>
  os_recv :: "nat \<Rightarrow> nat \<Rightarrow> bytes result"
  os_getpeername :: "nat \<Rightarrow> unit result"
  os_connect :: "nat \<Rightarrow> unit result"
  os_connect_ex :: "nat \<Rightarrow> int result"

record 'c ssl_socket =
  sk_sslobj :: "'c option"
  sk_pending_write :: bytes
  sk_connected :: bool
  sk_closed :: bool
  sk_server_side :: bool
  sk_do_handshake_on_connect :: bool
  sk_suppress_ragged_eofs :: bool
  sk_timeout :: "int option" \<comment> \<open>none: blocking, 0: non-blocking\<close>
  sk_os_calls :: nat
  sk_wire :: bytes

type_synonym ('a, 'b) sk_action = "('a TLSConnection_scheme ssl_socket, 'b) action"

definition os_call :: "(nat \<Rightarrow> 'b result) \<Rightarrow> ('a, 'b) sk_action" where
  "os_call f = (\<lambda>s. (f (sk_os_calls s), s\<lparr>sk_os_calls := Suc (sk_os_calls s)\<rparr>))"

text \<open>A method of the connection; without one the attribute access on \<open>None\<close> fails.\<close>

definition on_sslobj :: "('a TLSConnection_scheme, 'b) action \<Rightarrow> ('a, 'b) sk_action" where
  "on_sslobj m = (\<lambda>s. case sk_sslobj s of
     None \<Rightarrow> (Inl AttributeError, s)
   | Some c \<Rightarrow> (case m c of (r, c') \<Rightarrow> (r, s\<lparr>sk_sslobj := Some c'\<rparr>)))"

subsection \<open>Moving ciphertext\<close>

text \<open>
  The loop over \<open>socket.send\<close>: the error that ended it, if any, the number of calls and what was not accepted.  A call that
  accepts nothing means that the socket is closed.
\<close>

function send_loop :: "(nat \<Rightarrow> bytes \<Rightarrow> nat result) \<Rightarrow> nat \<Rightarrow> bytes \<Rightarrow> exn option \<times> nat \<times> bytes" where
  "send_loop send k data =
     (if data = [] then (None, k, [])
      else case send k data of
             Inl e \<Rightarrow> (Some e, Suc k, data)
           | Inr sent \<Rightarrow> if sent = 0 then (Some SSLEOFError, Suc k, data) else send_loop send (Suc k) (drop sent data))"
  by pat_completeness auto
termination by (relation "measure (\<lambda>(send, k, data). length data)") auto

declare send_loop.simps [simp del]

definition push :: "os_socket \<Rightarrow> bytes \<Rightarrow> ('a, exn option \<times> bytes) sk_action" where
  "push W data = (\<lambda>s. case send_loop (os_send W) (sk_os_calls s) data of
     (err, k, rest) \<Rightarrow>
       (Inr (err, rest), s\<lparr>sk_os_calls := k, sk_wire := sk_wire s @ take (length data - length rest) data\<rparr>))"

definition send_error :: "exn \<Rightarrow> exn" where
  "send_error e = (if e = BlockingIOError then SSLWantWriteError else e)"

definition flush_pending :: "os_socket \<Rightarrow> ('a, unit) sk_action" where
  "flush_pending W = bnd (gets sk_pending_write) (\<lambda>p.
     bnd (push W p) (\<lambda>(err, rest).
     thn (modify (\<lambda>s. s\<lparr>sk_pending_write := rest\<rparr>))
     (case err of None \<Rightarrow> ret () | Some e \<Rightarrow> raise (send_error e))))"

text \<open>The loop that takes the connection's output; each turn takes at least a byte.\<close>

primrec drain_output :: "nat \<Rightarrow> os_socket \<Rightarrow> ('a, unit) sk_action" where
  "drain_output 0 W = raise Diverges"
| "drain_output (Suc fuel) W = (\<lambda>s. case on_sslobj (bio_read 65535) s of
     (Inl e, s) \<Rightarrow> if e = TLSWantReadError then (Inr (), s) else (Inl e, s)
   | (Inr data, s) \<Rightarrow>
       bnd (push W data) (\<lambda>(err, rest).
       case err of
         None \<Rightarrow> drain_output fuel W
       | Some e \<Rightarrow>
           thn (if e = BlockingIOError then modify (\<lambda>s. s\<lparr>sk_pending_write := sk_pending_write s @ rest\<rparr>) else ret ())
           (raise (send_error e))) s)"

definition sk_outbio :: "'a TLSConnection_scheme ssl_socket \<Rightarrow> bytes" where
  "sk_outbio s = (case sk_sslobj s of None \<Rightarrow> [] | Some c \<Rightarrow> cn_outbio c)"

definition tls_send :: "os_socket \<Rightarrow> ('a, unit) sk_action" where
  "tls_send W = thn (flush_pending W) (bnd get_state (\<lambda>s. drain_output (Suc (length (sk_outbio s))) W))"

definition tls_recv :: "os_socket \<Rightarrow> ('a, unit) sk_action" where
  "tls_recv W = bnd (\<lambda>s. case os_call (\<lambda>k. os_recv W k 65535) s of
       (Inl e, s) \<Rightarrow> (Inl (if e = BlockingIOError then SSLWantReadError else e), s)
     | (Inr d, s) \<Rightarrow> (Inr d, s)) (\<lambda>data.
     thn (raise_if (data = []) SSLEOFError)
     (on_sslobj (bio_write data)))"

subsection \<open>Driving an operation\<close>

fun is_tls_error :: "exn \<Rightarrow> bool" where
  "is_tls_error (TLSLocalAlert _) \<longleftrightarrow> True"
| "is_tls_error (TLSRemoteAlert _) \<longleftrightarrow> True"
| "is_tls_error e \<longleftrightarrow> e = TLSEOFError \<or> e = TLSWantReadError"

text \<open>
  The loop of \<open>_drive_tls\<close>.  It goes on as long as the operation asks for input and the system has some, so it has fuel;
  \<open>func\<close> is the operation in its successive attempts.
\<close>

primrec drive_loop :: "nat \<Rightarrow> os_socket \<Rightarrow> (nat \<Rightarrow> ('a TLSConnection_scheme, 'b) action) \<Rightarrow> ('a, 'b) sk_action" where
  "drive_loop 0 W func = raise Diverges"
| "drive_loop (Suc fuel) W func = (\<lambda>s. case on_sslobj (func fuel) s of
     (Inr r, s) \<Rightarrow> thn (tls_send W) (ret r) s
   | (Inl e, s) \<Rightarrow>
       if e = TLSWantReadError then thn (tls_send W) (thn (tls_recv W) (drive_loop fuel W func)) s
       else if e = TLSEOFError then (Inl SSLEOFError, s)
       else if is_tls_error e then thn (tls_send W) (raise (SSLError e)) s
       else (Inl e, s))"

definition drive_tls :: "nat \<Rightarrow> os_socket \<Rightarrow> (nat \<Rightarrow> ('a TLSConnection_scheme, 'b) action) \<Rightarrow> ('a, 'b) sk_action" where
  "drive_tls fuel W func = bnd (gets sk_pending_write) (\<lambda>p.
     thn (if p \<noteq> [] then tls_send W else ret ())
     (bnd (gets sk_pending_write) (\<lambda>p.
     thn (raise_if (p \<noteq> []) AssertionError)
     (drive_loop fuel W func))))"

subsection \<open>The operations of a socket\<close>

text \<open>
  An operation is given the actions of the connection that it drives, for instance \<open>conn_read\<close> with a length.  A result of
  \<open>read\<close> into a buffer is the bytes in it.
\<close>

definition sk_read :: "nat \<Rightarrow> os_socket \<Rightarrow> (nat \<Rightarrow> ('a TLSConnection_scheme, bytes) action) \<Rightarrow> ('a, bytes) sk_action" where
  "sk_read fuel W rd = bnd get_state (\<lambda>s.
     thn (raise_if (sk_sslobj s = None) ValueError)
     (\<lambda>s. case drive_tls fuel W rd s of
        (Inl e, s) \<Rightarrow> if e = SSLEOFError \<and> sk_suppress_ragged_eofs s then (Inr [], s) else (Inl e, s)
      | (Inr d, s) \<Rightarrow> (Inr d, s)))"

definition sk_write :: "nat \<Rightarrow> os_socket \<Rightarrow> (nat \<Rightarrow> ('a TLSConnection_scheme, nat) action) \<Rightarrow> ('a, nat) sk_action" where
  "sk_write fuel W wr = bnd get_state (\<lambda>s.
     thn (raise_if (sk_sslobj s = None) ValueError) (drive_tls fuel W wr))"

text \<open>\<open>send\<close>: over the connection, or in the clear when there is none.\<close>

definition plain_send :: "os_socket \<Rightarrow> bytes \<Rightarrow> ('a, nat) sk_action" where
  "plain_send W data = bnd (os_call (\<lambda>k. os_send W k data)) (\<lambda>n.
     thn (modify (\<lambda>s. s\<lparr>sk_wire := sk_wire s @ take n data\<rparr>)) (ret n))"

definition sk_send ::
    "nat \<Rightarrow> os_socket \<Rightarrow> (bytes \<Rightarrow> nat \<Rightarrow> ('a TLSConnection_scheme, nat) action) \<Rightarrow> bytes \<Rightarrow> int \<Rightarrow> ('a, nat) sk_action" where
  "sk_send fuel W wr data flags = bnd get_state (\<lambda>s.
     if sk_sslobj s \<noteq> None then thn (raise_if (flags \<noteq> 0) ValueError) (sk_write fuel W (wr data))
     else plain_send W data)"

primrec sendall_loop ::
    "nat \<Rightarrow> nat \<Rightarrow> os_socket \<Rightarrow> (bytes \<Rightarrow> nat \<Rightarrow> ('a TLSConnection_scheme, nat) action) \<Rightarrow> bytes \<Rightarrow> ('a, unit) sk_action" where
  "sendall_loop 0 fuel W wr data = raise Diverges"
| "sendall_loop (Suc n) fuel W wr data =
     (if data = [] then ret ()
      else bnd (sk_send fuel W wr data 0) (\<lambda>v. sendall_loop n fuel W wr (drop v data)))"

text \<open>\<open>sendall\<close>; \<open>plain\<close> is \<open>socket.sendall\<close>.  A write of no bytes would be repeated for ever, so the loop has fuel.\<close>

definition sk_sendall ::
    "nat \<Rightarrow> nat \<Rightarrow> os_socket \<Rightarrow> (bytes \<Rightarrow> nat \<Rightarrow> ('a TLSConnection_scheme, nat) action) \<Rightarrow> (bytes \<Rightarrow> ('a, unit) sk_action) \<Rightarrow>
     bytes \<Rightarrow> int \<Rightarrow> ('a, unit) sk_action" where
  "sk_sendall n fuel W wr plain data flags = bnd get_state (\<lambda>s.
     if sk_sslobj s \<noteq> None then thn (raise_if (flags \<noteq> 0) ValueError) (sendall_loop n fuel W wr data)
     else plain data)"

definition sk_recv ::
    "nat \<Rightarrow> os_socket \<Rightarrow> (nat \<Rightarrow> nat \<Rightarrow> ('a TLSConnection_scheme, bytes) action) \<Rightarrow> nat \<Rightarrow> int \<Rightarrow> ('a, bytes) sk_action" where
  "sk_recv fuel W rd buflen flags = bnd get_state (\<lambda>s.
     if sk_sslobj s \<noteq> None then thn (raise_if (flags \<noteq> 0) ValueError) (sk_read fuel W (rd buflen))
     else os_call (\<lambda>k. os_recv W k buflen))"

text \<open>\<open>recv_into\<close>: without a number of bytes the size of the buffer counts, and 1024 for an empty or missing one.\<close>

definition recv_into_size :: "nat option \<Rightarrow> nat option \<Rightarrow> nat" where
  "recv_into_size buffer nbytes = (case nbytes of
     Some n \<Rightarrow> n
   | None \<Rightarrow> (case buffer of Some n \<Rightarrow> if n = 0 then 1024 else n | None \<Rightarrow> 1024))"

definition sk_recv_into ::
    "nat \<Rightarrow> os_socket \<Rightarrow> (nat \<Rightarrow> nat \<Rightarrow> ('a TLSConnection_scheme, bytes) action) \<Rightarrow> nat option \<Rightarrow> nat option \<Rightarrow> int \<Rightarrow>
     ('a, bytes) sk_action" where
  "sk_recv_into fuel W rd buffer nbytes flags = sk_recv fuel W rd (recv_into_size buffer nbytes) flags"

definition sk_pending :: "'a TLSConnection_scheme ssl_socket \<Rightarrow> nat" where
  "sk_pending s = (case sk_sslobj s of None \<Rightarrow> 0 | Some c \<Rightarrow> conn_pending c)"

definition sk_unwrap :: "crypto \<Rightarrow> os_socket \<Rightarrow> ('a, unit) sk_action" where
  "sk_unwrap cr W = bnd get_state (\<lambda>s.
     thn (raise_if (sk_sslobj s = None) ValueError)
     (thn (on_sslobj (conn_shutdown cr))
     (thn (tls_send W)
     (modify (\<lambda>s. s\<lparr>sk_sslobj := None\<rparr>)))))"

definition check_connected :: "os_socket \<Rightarrow> ('a, unit) sk_action" where
  "check_connected W = bnd (gets sk_connected) (\<lambda>c. if c then ret () else os_call (os_getpeername W))"

definition sk_do_handshake ::
    "nat \<Rightarrow> os_socket \<Rightarrow> (nat \<Rightarrow> ('a TLSConnection_scheme, unit) action) \<Rightarrow> bool \<Rightarrow> ('a, unit) sk_action" where
  "sk_do_handshake fuel W hs block =
     thn (check_connected W)
     (bnd get_state (\<lambda>s.
     thn (raise_if (sk_sslobj s = None) ValueError)
     (bnd (gets sk_timeout) (\<lambda>timeout.
     thn (if timeout = Some 0 \<and> block then modify (\<lambda>s. s\<lparr>sk_timeout := None\<rparr>) else ret ())
     (\<lambda>s. case drive_tls fuel W hs s of (r, s) \<Rightarrow> (r, s\<lparr>sk_timeout := timeout\<rparr>))))))"

text \<open>
  \<open>_real_connect\<close>: a client connects and only then has a connection; \<open>new\<close> makes it from its configuration, which is that of
  \<open>context\<close> with the socket's host name, its configurations of the encrypted client hello and its session.  The result of
  \<open>connect\<close> is \<open>None\<close>.
\<close>

definition socket_client_configuration ::
    "bytes \<Rightarrow> SSLContext \<Rightarrow> string option \<Rightarrow> ech_config list \<Rightarrow> TLSSession option \<Rightarrow> TLSConfiguration result" where
  "socket_client_configuration ticket context server_hostname peer_ech_configs session =
     rbind (config_data ticket context) (\<lambda>kwargs.
     Inr (kwargs (default_configuration\<lparr>cfg_is_server := False, cfg_server_hostname := map_option (map of_char) server_hostname,
       cfg_peer_ech_configs := Some peer_ech_configs, cfg_session := session\<rparr>)))"

definition real_connect ::
    "nat \<Rightarrow> os_socket \<Rightarrow> (nat \<Rightarrow> ('a TLSConnection_scheme, unit) action) \<Rightarrow> (TLSConfiguration \<Rightarrow> 'a TLSConnection_scheme result) \<Rightarrow>
     TLSConfiguration result \<Rightarrow> bool \<Rightarrow> ('a, int option) sk_action" where
  "real_connect fuel W hs new configuration connect_ex = bnd get_state (\<lambda>s.
     thn (raise_if (sk_server_side s) ValueError)
     (thn (raise_if (sk_connected s \<or> sk_sslobj s \<noteq> None) ValueError)
     (bnd (lift_result (rbind configuration new)) (\<lambda>c.
     thn (modify (\<lambda>s. s\<lparr>sk_sslobj := Some c\<rparr>))
     (\<lambda>s. case bnd (if connect_ex then bnd (os_call (os_connect_ex W)) (\<lambda>rc. ret (Some rc))
                    else thn (os_call (os_connect W)) (ret None)) (\<lambda>rc.
             if rc = None \<or> rc = Some 0
             then thn (modify (\<lambda>s. s\<lparr>sk_connected := True\<rparr>))
                  (bnd (gets sk_do_handshake_on_connect) (\<lambda>d.
                   if d then thn (sk_do_handshake fuel W hs False) (ret rc) else ret rc))
             else ret rc) s of
        (Inl e, s) \<Rightarrow>
          (Inl e, if (case e of OSError _ \<Rightarrow> True | SSLError _ \<Rightarrow> True
                      | _ \<Rightarrow> e \<in> {ValueError, UnicodeError, BlockingIOError, SSLWantReadError, SSLWantWriteError, SSLEOFError})
                  then s\<lparr>sk_sslobj := None\<rparr> else s)
      | (Inr rc, s) \<Rightarrow> (Inr rc, s))))))"

text \<open>
  \<open>_create\<close> wraps a socket of the system.  Data that arrived on a socket that is not connected is refused, and any
  exception closes the socket.  The error numbers are those of \<open>ENOTCONN\<close> and \<open>EINVAL\<close>.
\<close>

definition new_socket :: "bool \<Rightarrow> bool \<Rightarrow> bool \<Rightarrow> int option \<Rightarrow> 'c ssl_socket" where
  "new_socket server_side do_handshake_on_connect suppress_ragged_eofs timeout =
     \<lparr>sk_sslobj = None, sk_pending_write = [], sk_connected = False, sk_closed = False, sk_server_side = server_side,
      sk_do_handshake_on_connect = do_handshake_on_connect, sk_suppress_ragged_eofs = suppress_ragged_eofs,
      sk_timeout = timeout, sk_os_calls = 0, sk_wire = []\<rparr>"

definition ENOTCONN :: int where "ENOTCONN = 107"
definition EINVAL :: int where "EINVAL = 22"

definition connected_at_start :: "os_socket \<Rightarrow> ('a, bool) sk_action" where
  "connected_at_start W = (\<lambda>s. case os_call (os_getpeername W) s of
     (Inr _, s) \<Rightarrow> (Inr True, s)
   | (Inl e, s) \<Rightarrow>
       if e \<noteq> OSError ENOTCONN then (Inl e, s)
       else
         case os_call (\<lambda>k. os_recv W k 1) s of
           (Inl e2, s) \<Rightarrow> if e2 = OSError ENOTCONN \<or> e2 = OSError EINVAL then (Inr False, s) else (Inl e2, s)
         | (Inr d, s) \<Rightarrow> if d \<noteq> [] then (Inl (SSLError e), s) else (Inr False, s))"

definition sk_create ::
    "nat \<Rightarrow> os_socket \<Rightarrow> (nat \<Rightarrow> ('a TLSConnection_scheme, unit) action) \<Rightarrow> (TLSConfiguration \<Rightarrow> 'a TLSConnection_scheme result) \<Rightarrow>
     bool \<Rightarrow> bytes \<Rightarrow> SSLContext \<Rightarrow> string option \<Rightarrow> bytes list option \<Rightarrow> TLSSession option \<Rightarrow> ('a, unit) sk_action" where
  "sk_create fuel W hs new is_stream ticket context server_hostname peer_ech_configs session =
     thn (raise_if (\<not> is_stream) NotImplementedError)
     (bnd (lift_result (load_ech_config_list peer_ech_configs)) (\<lambda>peer_ech_configs.
     bnd (gets sk_server_side) (\<lambda>server_side.
     bnd (lift_result (connection_configuration ticket context server_side server_hostname peer_ech_configs session)) (\<lambda>cfg.
     (\<lambda>s. case bnd (connected_at_start W) (\<lambda>connected.
             thn (modify (\<lambda>s. s\<lparr>sk_connected := connected\<rparr>))
             (if \<not> connected then ret ()
              else bnd (lift_result (new cfg)) (\<lambda>c.
                thn (modify (\<lambda>s. s\<lparr>sk_sslobj := Some c\<rparr>))
                (bnd get_state (\<lambda>s.
                 if \<not> sk_do_handshake_on_connect s then ret ()
                 else thn (raise_if (sk_timeout s = Some 0) ValueError) (sk_do_handshake fuel W hs False)))))) s of
        (Inl e, s) \<Rightarrow> (Inl e, s\<lparr>sk_closed := True\<rparr>)
      | (Inr _, s) \<Rightarrow> (Inr (), s))))))"

subsection \<open>Callbacks\<close>

text \<open>\<open>_new_session_handler\<close>: the session that the socket keeps, unless tickets are switched off.\<close>

definition new_session_handler :: "SSLContext \<Rightarrow> TLSSession \<Rightarrow> SSLSession option \<Rightarrow> SSLSession option" where
  "new_session_handler context session kept =
     (if OP_NO_TICKET \<in> cx_options context then kept else Some (SSLSession_new session))"

text \<open>
  \<open>_do_sni_callback\<close>: the application's callback is given the name of the client hello and may exchange the context; the
  credential and the mode of verification then come from the configuration of the current one.
\<close>

definition do_sni_callback ::
    "(string option \<Rightarrow> SSLContext \<Rightarrow> int option \<times> SSLContext) option \<Rightarrow> bytes \<Rightarrow> SSLContext \<Rightarrow> ClientHelloInfo \<Rightarrow> HandshakeContext \<Rightarrow>
     (HandshakeContext \<times> SSLContext) result" where
  "do_sni_callback sni_callback ticket context info hc =
     (case sni_callback of
        None \<Rightarrow> Inr (hc, context)
      | Some callback \<Rightarrow>
          let sni = map_option bytes_to_str (chi_server_name info); (description, context) = callback sni context in
          rbind (config_data ticket context) (\<lambda>kwargs.
          let config = kwargs default_configuration in
          Inr (hc\<lparr>hc_alert_description := description, hc_credential := cfg_credential config,
            hc_verify_mode := cfg_verify_mode config\<rparr>, context)))"

subsection \<open>Objects\<close>

text \<open>An \<open>SSLObject\<close> has no socket: it only translates the exceptions of the connection.\<close>

definition obj_read :: "('c, bytes) action \<Rightarrow> ('c, bytes) action" where
  "obj_read rd = (\<lambda>c. case rd c of
     (Inl e, c) \<Rightarrow> (Inl (if e = TLSWantReadError then SSLWantReadError else if e = TLSEOFError then SSLEOFError else e), c)
   | (Inr d, c) \<Rightarrow> (Inr d, c))"

definition obj_do_handshake :: "('c, unit) action \<Rightarrow> ('c, unit) action" where
  "obj_do_handshake hs = (\<lambda>c. case hs c of
     (Inl e, c) \<Rightarrow> (Inl (if e = TLSWantReadError then SSLWantReadError else e), c)
   | (Inr d, c) \<Rightarrow> (Inr d, c))"

text \<open>\<open>cipher\<close> and \<open>shared_ciphers\<close>: the suite in use, and those of the peer without the signalling values.\<close>

definition ssl_cipher_in_use :: "cipher_suite option \<Rightarrow> (string \<times> string \<times> int) option result" where
  "ssl_cipher_in_use cs = (case cs of
     None \<Rightarrow> Inr None
   | Some cs \<Rightarrow> rbind (get_cipher_tuple cs) (\<lambda>c. case c of None \<Rightarrow> Inl AssertionError | Some c \<Rightarrow> Inr (Some c)))"

primrec shared_cipher_tuples :: "cipher_suite list \<Rightarrow> (string \<times> string \<times> int) list result" where
  "shared_cipher_tuples [] = Inr []"
| "shared_cipher_tuples (cs # css) =
     rbind (get_cipher_tuple cs) (\<lambda>c.
     rbind (shared_cipher_tuples css) (\<lambda>r. Inr (case c of None \<Rightarrow> r | Some c \<Rightarrow> c # r)))"

definition shared_ciphers :: "cipher_suite list option \<Rightarrow> (string \<times> string \<times> int) list option result" where
  "shared_ciphers peer = (case peer of None \<Rightarrow> Inr None | Some cs \<Rightarrow> rbind (shared_cipher_tuples cs) (Inr \<circ> Some))"

definition ssl_version :: "int option \<Rightarrow> string option" where
  "ssl_version version = map_option get_version_name version"

end
