(* ===== verification/Ssl_Socket_Laws.thy ===== *)
theory Ssl_Socket_Laws
  imports Ssl_Socket Endpoint_Safety
begin

text \<open>
  Laws of the sockets of the \<open>ssl\<close> interface (\<open>src/simple_tls/pyssl/_socket.py\<close>): what a socket hands to the operating system is what its connection put into its
  output, in order, without a gap and without a repetition, however the system splits, refuses or delays it.
\<close>

subsection \<open>The stream of a socket\<close>

text \<open>What the system has accepted, what waits after a refusal, and what the connection has not given away yet.\<close>

definition stream :: "'a TLSConnection_scheme ssl_socket \<Rightarrow> bytes" where
  "stream s = sk_wire s @ sk_pending_write s @ sk_outbio s"

definition flushed :: "'a TLSConnection_scheme ssl_socket \<Rightarrow> bool" where
  "flushed s \<longleftrightarrow> sk_pending_write s = [] \<and> sk_outbio s = []"

text \<open>The errors after which the connection to the peer is gone, and the errors that a socket of the system raises.\<close>

definition broken :: "exn \<Rightarrow> bool" where
  "broken e \<longleftrightarrow> e = SSLEOFError \<or> (\<exists>n. e = OSError n)"

definition system_errors :: "os_socket \<Rightarrow> bool" where
  "system_errors W \<longleftrightarrow>
     (\<forall>k d e. os_send W k d = Inl e \<longrightarrow> e = BlockingIOError \<or> (\<exists>n. e = OSError n)) \<and>
     (\<forall>k n e. os_recv W k n = Inl e \<longrightarrow> e = BlockingIOError \<or> (\<exists>n. e = OSError n))"

lemma broken_simps [simp]:
  "broken SSLEOFError" "broken (OSError n)" "\<not> broken SSLWantWriteError" "\<not> broken SSLWantReadError"
  "\<not> broken AttributeError" "\<not> broken BlockingIOError"
  by (auto simp: broken_def)

lemma send_loop_spec:
  "send_loop send k data = (err, k', rest) \<Longrightarrow>
     (\<exists>m. rest = drop m data) \<and> (err = None \<longrightarrow> rest = []) \<and>
     (\<forall>e. err = Some e \<longrightarrow> e = SSLEOFError \<or> (\<exists>k d. send k d = Inl e))"
proof (induction send k data arbitrary: err k' rest rule: send_loop.induct)
  case (1 send k data)
  show ?case
  proof (cases "data = []")
    case False
    show ?thesis
    proof (cases "send k data")
      case (Inl e)
      with False 1(2) show ?thesis
        by (subst (asm) send_loop.simps) (auto intro: exI [of _ 0] exI [of _ k])
    next
      case (Inr n)
      show ?thesis
      proof (cases "n = 0")
        case True
        with False Inr 1(2) show ?thesis by (subst (asm) send_loop.simps) (auto intro: exI [of _ 0])
      next
        case n: False
        with False Inr 1(2) have "send_loop send (Suc k) (drop n data) = (err, k', rest)"
          by (subst (asm) send_loop.simps) simp
        from 1(1) [OF False Inr n this] show ?thesis by (auto simp: drop_drop)
      qed
    qed
  qed (use 1(2) in \<open>subst (asm) send_loop.simps, simp\<close>)
qed

lemma push_spec:
  assumes "push W data s = (r, t)"
  obtains err rest where "r = Inr (err, rest)" "sk_wire t @ rest = sk_wire s @ data" "sk_sslobj t = sk_sslobj s"
    "sk_pending_write t = sk_pending_write s" "err = None \<Longrightarrow> rest = []"
    "\<And>e. err = Some e \<Longrightarrow> e = SSLEOFError \<or> (\<exists>k d. os_send W k d = Inl e)"
proof -
  obtain err k rest where L: "send_loop (os_send W) (sk_os_calls s) data = (err, k, rest)" by (metis prod_cases3)
  from send_loop_spec [OF this] obtain m where m: "rest = drop m data" by blast
  have "take (length data - length rest) data @ rest = data" unfolding m by (cases "m \<le> length data") auto
  with L assms send_loop_spec [OF L] show thesis
    by (intro that [of err rest]) (auto simp: push_def)
qed

subsection \<open>Sending\<close>

lemma on_sslobj_bio_read:
  "on_sslobj (bio_read 65535) s = (case sk_sslobj s of
     None \<Rightarrow> (Inl AttributeError, s)
   | Some c \<Rightarrow> (if cn_outbio c = [] then Inl TLSWantReadError else Inr (take 65535 (cn_outbio c)),
       s\<lparr>sk_sslobj := Some (c\<lparr>cn_outbio := drop 65535 (cn_outbio c)\<rparr>)\<rparr>))"
  by (auto simp: on_sslobj_def bio_read_def Let_def action_defs split: option.split)

lemma sk_outbio_simps [simp]:
  "sk_outbio (s\<lparr>sk_pending_write := p\<rparr>) = sk_outbio s" "sk_outbio (s\<lparr>sk_wire := w\<rparr>) = sk_outbio s"
  "sk_outbio (s\<lparr>sk_os_calls := k\<rparr>) = sk_outbio s" "sk_outbio (s\<lparr>sk_sslobj := Some c\<rparr>) = cn_outbio c"
  by (auto simp: sk_outbio_def)

lemma no_pending [simp]: "sk_pending_write s = [] \<Longrightarrow> s\<lparr>sk_pending_write := []\<rparr> = s"
  by simp

lemma sk_outbio_cong: "sk_sslobj s = sk_sslobj t \<Longrightarrow> sk_outbio s = sk_outbio t"
  by (simp add: sk_outbio_def)

lemma send_error_broken:
  assumes "system_errors W" and "e = SSLEOFError \<or> (\<exists>k d. os_send W k d = Inl e)" and "\<not> broken (send_error e)"
  shows "e = BlockingIOError"
  using assms by (auto simp: system_errors_def send_error_def broken_def split: if_splits)

lemma flush_pending_stream:
  assumes "system_errors W" and "flush_pending W s = (r, t)"
  shows "stream t = stream s \<and> sk_sslobj t = sk_sslobj s \<and> (r = Inr () \<longrightarrow> sk_pending_write t = [])"
proof -
  obtain q u where P: "push W (sk_pending_write s) s = (q, u)" by fastforce
  then show ?thesis
  proof (cases rule: push_spec)
    case (1 err rest)
    with assms(2) P have t: "t = u\<lparr>sk_pending_write := rest\<rparr>" and r: "r = (case err of None \<Rightarrow> Inr () | Some e \<Rightarrow> Inl (send_error e))"
      by (auto simp: flush_pending_def action_defs split: option.splits)
    with 1 show ?thesis by (auto simp: stream_def sk_outbio_cong [of u s] split: option.splits)
  qed
qed

lemma drain_output_stream:
  assumes "system_errors W"
  shows "length (sk_outbio s) < fuel \<Longrightarrow> sk_pending_write s = [] \<Longrightarrow> drain_output fuel W s = (r, t) \<Longrightarrow>
    (r = Inr () \<longrightarrow> sk_wire t = stream s \<and> flushed t) \<and> (\<forall>e. r = Inl e \<longrightarrow> \<not> broken e \<longrightarrow> stream t = stream s)"
proof (induction fuel arbitrary: s)
  case (Suc fuel)
  show ?case
  proof (cases "sk_sslobj s")
    case None
    with Suc.prems(3) show ?thesis by (auto simp: on_sslobj_bio_read)
  next
    case (Some c)
    let ?b = "cn_outbio c"
    let ?s = "s\<lparr>sk_sslobj := Some (c\<lparr>cn_outbio := drop 65535 ?b\<rparr>)\<rparr>"
    have out: "sk_outbio s = ?b" using Some by (simp add: sk_outbio_def)
    show ?thesis
    proof (cases "?b = []")
      case True
      with Some Suc.prems out show ?thesis by (auto simp: on_sslobj_bio_read stream_def flushed_def)
    next
      case False
      obtain q u where P: "push W (take 65535 ?b) ?s = (q, u)" by fastforce
      then show ?thesis
      proof (cases rule: push_spec)
        case (1 err rest)
        have o: "sk_outbio u = drop 65535 ?b" using 1(3) by (simp add: sk_outbio_def)
        have w: "sk_wire u @ rest @ drop 65535 ?b = sk_wire s @ ?b"
          using 1(2) by (metis (no_types, lifting) append.assoc append_take_drop_id ssl_socket.select_convs(10) ssl_socket.surjective ssl_socket.update_convs(1))
        show ?thesis
        proof (cases err)
          case None
          with P 1 have d: "drain_output (Suc fuel) W s = drain_output fuel W u"
            using Some False by (simp add: on_sslobj_bio_read action_defs)
          have "stream u = stream s" using 1 None o out Suc.prems(2) by (simp add: stream_def)
          moreover have "length (sk_outbio u) < fuel" using o out Suc.prems(1) False by (cases ?b) auto
          ultimately show ?thesis using Suc.IH [of u] d Suc.prems 1(4) by simp
        next
          case (Some e)
          with P 1 have d: "drain_output (Suc fuel) W s = (Inl (send_error e),
              if e = BlockingIOError then u\<lparr>sk_pending_write := sk_pending_write u @ rest\<rparr> else u)"
            using \<open>sk_sslobj s = Some c\<close> False by (simp add: on_sslobj_bio_read action_defs)
          show ?thesis
          proof (cases "broken (send_error e)")
            case False
            with Some 1(6) have "e = BlockingIOError" using send_error_broken [OF assms] by blast
            with d Suc.prems(2,3) 1(4) o w out show ?thesis by (auto simp del: drain_output.simps simp: stream_def)
          qed (use d Suc.prems(3) in auto)
        qed
      qed
    qed
  qed
qed simp

text \<open>\<open>_tls_send\<close> empties everything in order, or leaves the stream as it is.\<close>

lemma tls_send_stream:
  assumes "system_errors W" and "tls_send W s = (r, t)"
  shows "r = Inr () \<Longrightarrow> sk_wire t = stream s \<and> flushed t" and "r = Inl e \<Longrightarrow> \<not> broken e \<Longrightarrow> stream t = stream s"
proof -
  obtain q u where F: "flush_pending W s = (q, u)" by fastforce
  note flush = flush_pending_stream [OF assms(1) F]
  have "(r = Inr () \<longrightarrow> sk_wire t = stream s \<and> flushed t) \<and> (\<forall>e. r = Inl e \<longrightarrow> \<not> broken e \<longrightarrow> stream t = stream s)"
  proof (cases q)
    case (Inl e)
    with F assms(2) flush show ?thesis by (auto simp: tls_send_def action_defs)
  next
    case (Inr x)
    with F assms(2) have "drain_output (Suc (length (sk_outbio u))) W u = (r, t)" by (simp add: tls_send_def action_defs)
    from drain_output_stream [OF assms(1) _ _ this] flush Inr show ?thesis by simp
  qed
  then show "r = Inr () \<Longrightarrow> sk_wire t = stream s \<and> flushed t" and "r = Inl e \<Longrightarrow> \<not> broken e \<Longrightarrow> stream t = stream s" by auto
qed

subsection \<open>Driving an operation\<close>

text \<open>An operation of the connection only appends to the connection's output.\<close>

definition appends :: "('a TLSConnection_scheme, 'b) action \<Rightarrow> bool" where
  "appends m \<longleftrightarrow> (\<forall>b. keeps (grown_from b) (\<lambda>_. grown_from b) m)"

lemma appendsD:
  assumes "appends m" and "m c = (q, c')" shows "prefix (cn_outbio c) (cn_outbio c')"
proof -
  have "keeps (grown_from (cn_outbio c)) (\<lambda>_. grown_from (cn_outbio c)) m" using assms(1) by (simp add: appends_def)
  then have "case m c of (Inl e, t) \<Rightarrow> grown_from (cn_outbio c) t | (Inr x, t) \<Rightarrow> grown_from (cn_outbio c) t"
    unfolding keeps_def hoare_def by (simp add: grown_from_def)
  with assms(2) show ?thesis by (cases q) (simp_all add: grown_from_def)
qed

lemma on_sslobj_stream:
  assumes "appends m" and "on_sslobj m s = (r, t)"
  shows "prefix (stream s) (stream t)" "sk_pending_write t = sk_pending_write s" "sk_wire t = sk_wire s"
    "sk_sslobj t = None \<longleftrightarrow> sk_sslobj s = None"
proof -
  note * = appendsD [OF assms(1)]
  show "prefix (stream s) (stream t)" "sk_pending_write t = sk_pending_write s" "sk_wire t = sk_wire s"
    "sk_sslobj t = None \<longleftrightarrow> sk_sslobj s = None"
    using assms(2) by (auto simp: on_sslobj_def stream_def sk_outbio_def dest: * split: option.splits prod.splits)
qed

lemma tls_recv_stream:
  assumes "tls_recv W s = (r, t)" shows "stream t = stream s"
proof -
  have "appends (bio_write d)" for d unfolding appends_def by (blast intro: growth.keeps_small_steps)
  moreover have "cn_outbio (snd (bio_write d c)) = cn_outbio c" for d and c :: "'a TLSConnection_scheme"
    by (simp add: bio_write_def action_defs)
  ultimately show ?thesis using assms
    by (auto simp: tls_recv_def os_call_def on_sslobj_def bio_write_def action_defs stream_def sk_outbio_def
        split: sum.splits if_splits option.splits)
qed

text \<open>What the outcomes of an operation mean for the stream.\<close>

definition continues :: "'a TLSConnection_scheme ssl_socket \<Rightarrow> 'b result \<Rightarrow> 'a TLSConnection_scheme ssl_socket \<Rightarrow> bool" where
  "continues s r t \<longleftrightarrow> (case r of
     Inr _ \<Rightarrow> prefix (stream s) (sk_wire t) \<and> flushed t
   | Inl e \<Rightarrow> \<not> broken e \<longrightarrow> prefix (stream s) (stream t))"

lemma continues_after: "prefix (stream s) (stream u) \<Longrightarrow> continues u r t \<Longrightarrow> continues s r t"
  by (auto simp: continues_def split: sum.splits)

lemma continues_send:
  assumes "system_errors W" and "thn (tls_send W) m s = (r, t)"
    and "\<And>u. sk_wire u = stream s \<Longrightarrow> flushed u \<Longrightarrow> m u = (r, t) \<Longrightarrow> continues s r t"
  shows "continues s r t"
proof -
  obtain q u where S: "tls_send W s = (q, u)" by fastforce
  show ?thesis
  proof (cases q)
    case (Inl e)
    with S assms(2) have "r = Inl e" "t = u" by (auto simp: action_defs)
    with tls_send_stream(2) [OF assms(1) S Inl] show ?thesis by (auto simp: continues_def)
  next
    case (Inr x)
    with S assms(2) have "m u = (r, t)" by (simp add: action_defs)
    with tls_send_stream(1) [OF assms(1) S] Inr assms(3) [of u] show ?thesis by simp
  qed
qed

lemma drive_loop_continues:
  assumes "system_errors W" and "\<And>k. appends (func k)"
  shows "drive_loop fuel W func s = (r, t) \<Longrightarrow> continues s r t"
proof (induction fuel arbitrary: s)
  case 0
  then show ?case by (auto simp: continues_def action_defs)
next
  case (Suc fuel)
  obtain q u where C: "on_sslobj (func fuel) s = (q, u)" by fastforce
  note grow = on_sslobj_stream(1) [OF assms(2) C]
  show ?case
  proof (cases q)
    case (Inr x)
    with C Suc.prems have "thn (tls_send W) (ret x) u = (r, t)" by simp
    then have "continues u r t"
      by (rule continues_send [OF assms(1)]) (auto simp: continues_def ret_def)
    with grow show ?thesis by (rule continues_after)
  next
    case (Inl e)
    have "continues u r t"
    proof (cases "e = TLSWantReadError")
      case True
      with C Inl Suc.prems have "thn (tls_send W) (thn (tls_recv W) (drive_loop fuel W func)) u = (r, t)" by simp
      then show ?thesis
      proof (rule continues_send [OF assms(1)])
        fix v assume v: "sk_wire v = stream u" "flushed v" "thn (tls_recv W) (drive_loop fuel W func) v = (r, t)"
        obtain p w where R: "tls_recv W v = (p, w)" by fastforce
        have eq: "stream w = stream u" using tls_recv_stream [OF R] v(1,2) by (simp add: stream_def flushed_def)
        show "continues u r t"
        proof (cases p)
          case (Inl e)
          with R v(3) eq show ?thesis by (auto simp: continues_def action_defs)
        next
          case (Inr x)
          with R v(3) have "drive_loop fuel W func w = (r, t)" by (simp add: action_defs)
          from Suc.IH [OF this] show ?thesis by (rule continues_after [rotated]) (simp add: eq)
        qed
      qed
    next
      case False
      show ?thesis
      proof (cases "e \<noteq> TLSEOFError \<and> is_tls_error e")
        case True
        with False C Inl Suc.prems have "thn (tls_send W) (raise (SSLError e)) u = (r, t)" by simp
        then show ?thesis
          by (rule continues_send [OF assms(1)]) (auto simp: continues_def raise_def stream_def)
      next
        case other: False
        with False C Inl Suc.prems show ?thesis by (auto simp: continues_def split: if_splits)
      qed
    qed
    with grow show ?thesis by (rule continues_after)
  qed
qed

lemma drive_tls_continues:
  assumes "system_errors W" and "\<And>k. appends (func k)" and "drive_tls fuel W func s = (r, t)"
  shows "continues s r t"
proof -
  have *: "bnd (gets sk_pending_write) (\<lambda>p. thn (raise_if (p \<noteq> []) AssertionError) (drive_loop fuel W func)) u = (r, t) \<Longrightarrow>
      continues u r t" for u
    using drive_loop_continues [OF assms(1,2)] by (auto simp: action_defs continues_def split: if_splits)
  show ?thesis
  proof (cases "sk_pending_write s = []")
    case True
    with assms(3) * show ?thesis by (simp add: drive_tls_def action_defs)
  next
    case False
    with assms(3) have "thn (tls_send W)
        (bnd (gets sk_pending_write) (\<lambda>p. thn (raise_if (p \<noteq> []) AssertionError) (drive_loop fuel W func))) s = (r, t)"
      by (simp add: drive_tls_def action_defs)
    then show ?thesis
    proof (rule continues_send [OF assms(1)])
      fix u assume u: "sk_wire u = stream s" "flushed u"
        and "bnd (gets sk_pending_write) (\<lambda>p. thn (raise_if (p \<noteq> []) AssertionError) (drive_loop fuel W func)) u = (r, t)"
      from * [OF this(3)] show "continues s r t"
        by (rule continues_after [rotated]) (use u in \<open>simp add: stream_def flushed_def\<close>)
    qed
  qed
qed

text \<open>
  When the operation is done and the system refuses its output, the caller is told to try again although the connection has
  taken the data (or given away what it read): the next attempt does the operation once more.
\<close>

lemma blocked_operation_was_taken:
  assumes "sk_pending_write s = []" and "sk_sslobj s = Some c" and "func fuel c = (Inr v, c')" and "cn_outbio c' \<noteq> []"
    and "os_send W (sk_os_calls s) (take 65535 (cn_outbio c')) = Inl BlockingIOError"
  obtains t where "drive_tls (Suc fuel) W func s = (Inl SSLWantWriteError, t)"
    and "sk_sslobj t = Some (c'\<lparr>cn_outbio := drop 65535 (cn_outbio c')\<rparr>)" and "stream t = sk_wire s @ cn_outbio c'"
proof -
  let ?b = "cn_outbio c'"
  have loop: "send_loop (os_send W) (sk_os_calls s) (take 65535 ?b) = (Some BlockingIOError, Suc (sk_os_calls s), take 65535 ?b)"
    using assms(4,5) by (subst send_loop.simps) simp
  let ?t = "s\<lparr>sk_sslobj := Some (c'\<lparr>cn_outbio := drop 65535 ?b\<rparr>), sk_os_calls := Suc (sk_os_calls s),
    sk_pending_write := take 65535 ?b\<rparr>"
  have "on_sslobj (func fuel) s = (Inr v, s\<lparr>sk_sslobj := Some c'\<rparr>)" using assms(2,3) by (simp add: on_sslobj_def)
  moreover have "drain_output (Suc (length ?b)) W (s\<lparr>sk_sslobj := Some c'\<rparr>) = (Inl SSLWantWriteError, ?t)"
    using assms(1,4) loop by (simp add: on_sslobj_bio_read push_def send_error_def action_defs)
  moreover have "push W [] u = (Inr (None, []), u)" for u :: "'a TLSConnection_scheme ssl_socket"
    by (subst push_def, subst send_loop.simps) simp
  ultimately have "drive_tls (Suc fuel) W func s = (Inl SSLWantWriteError, ?t)"
    using assms(1) by (simp add: drive_tls_def tls_send_def flush_pending_def action_defs del: drain_output.simps)
  then show thesis by (rule that) (auto simp: stream_def sk_outbio_def assms(1))
qed

subsection \<open>Histories of a socket\<close>

text \<open>
  A call of the application that leaves the connection to the peer intact, and whether it returned; a handshake step
  \<open>hsk\<close> is given.  A reading that returns nothing may stand for the end of the connection and ends a history.
\<close>

definition intact :: "'b result \<Rightarrow> bool" where
  "intact r \<longleftrightarrow> (\<forall>e. r = Inl e \<longrightarrow> \<not> broken e)"

inductive socket_step ::
    "os_socket \<Rightarrow> crypto \<Rightarrow> ('a TLSConnection_scheme, Status) action \<Rightarrow> bool \<Rightarrow>
     'a TLSConnection_scheme ssl_socket \<Rightarrow> 'a TLSConnection_scheme ssl_socket \<Rightarrow> bool"
  for W cr hsk where
  reading: "sk_read fuel W (\<lambda>k. conn_read k cr (rnd k) hsk n buf) s = (r, t) \<Longrightarrow> intact r \<Longrightarrow> r \<noteq> Inr [] \<Longrightarrow>
    socket_step W cr hsk (\<not> isl r) s t"
| writing: "sk_write fuel W (\<lambda>k. conn_write k cr (rnd k) hsk d) s = (r, t) \<Longrightarrow> intact r \<Longrightarrow> socket_step W cr hsk (\<not> isl r) s t"
| handshaking: "sk_do_handshake fuel W (\<lambda>k. conn_do_handshake k cr (rnd k) hsk) block s = (r, t) \<Longrightarrow> intact r \<Longrightarrow>
    socket_step W cr hsk (\<not> isl r) s t"
| unwrapping: "sk_unwrap cr W s = (r, t) \<Longrightarrow> intact r \<Longrightarrow> socket_step W cr hsk (\<not> isl r) s t"

text \<open>
  The calls on a socket of a client or of a server, given its handshake \<open>D\<close>: each of them with any fuel and any environment of
  the handshake.
\<close>

definition socket_call ::
    "os_socket \<Rightarrow> (nat \<Rightarrow> environment \<Rightarrow> ('a TLSConnection_scheme, Status) action) \<Rightarrow> bool \<Rightarrow>
     'a TLSConnection_scheme ssl_socket \<Rightarrow> 'a TLSConnection_scheme ssl_socket \<Rightarrow> bool" where
  "socket_call W D b s t \<longleftrightarrow> (\<exists>f E. socket_step W (env_crypto E) (D f E) b s t)"

definition some_call ::
    "os_socket \<Rightarrow> (nat \<Rightarrow> environment \<Rightarrow> ('a TLSConnection_scheme, Status) action) \<Rightarrow>
     'a TLSConnection_scheme ssl_socket \<Rightarrow> 'a TLSConnection_scheme ssl_socket \<Rightarrow> bool" where
  "some_call W D s t \<longleftrightarrow> (\<exists>b. socket_call W D b s t)"

lemma endpoints_append: "appends (client_do_handshake fuel E)" "appends (server_do_handshake fuel E)"
  unfolding appends_def edge_properties by (blast intro: client_keeps_edge server_keeps_edge)+

lemma appends_calls:
  assumes "appends hsk"
  shows "appends (conn_read k cr rnd hsk n buf)" "appends (conn_write k cr rnd hsk d)" "appends (conn_do_handshake k cr rnd hsk)"
    "appends (conn_shutdown cr)"
  using assms unfolding appends_def
  by (blast intro: growth.keeps_read growth.keeps_write growth.keeps_do_handshake growth.keeps_shutdown)+

lemma continues_refl: "continues s (Inl e) s"
  by (simp add: continues_def)

lemma stream_fields [simp]:
  "stream (s\<lparr>sk_timeout := x\<rparr>) = stream s" "stream (s\<lparr>sk_os_calls := k\<rparr>) = stream s"
  "flushed (s\<lparr>sk_timeout := x\<rparr>) = flushed s" "flushed (s\<lparr>sk_sslobj := None\<rparr>) \<longleftrightarrow> sk_pending_write s = []"
  by (auto simp: stream_def flushed_def sk_outbio_def)

lemma sk_read_continues:
  assumes "system_errors W" and "\<And>k. appends (rd k)" and "sk_read fuel W rd s = (r, t)" and "r \<noteq> Inr []"
  shows "continues s r t"
proof (cases "sk_sslobj s")
  case None
  with assms(3) show ?thesis by (auto simp: sk_read_def action_defs continues_def)
next
  case (Some c)
  obtain q u where D: "drive_tls fuel W rd s = (q, u)" by fastforce
  with Some assms(3,4) have "q = r" "u = t" by (auto simp: sk_read_def action_defs split: sum.splits if_splits)
  with drive_tls_continues [OF assms(1,2) D] show ?thesis by simp
qed

lemma sk_write_continues:
  assumes "system_errors W" and "\<And>k. appends (wr k)" and "sk_write fuel W wr s = (r, t)"
  shows "continues s r t"
proof (cases "sk_sslobj s")
  case None
  with assms(3) show ?thesis by (auto simp: sk_write_def action_defs continues_def)
next
  case (Some c)
  with assms(3) have "drive_tls fuel W wr s = (r, t)" by (simp add: sk_write_def action_defs)
  with drive_tls_continues [OF assms(1,2)] show ?thesis .
qed

lemma check_connected_stream:
  assumes "check_connected W s = (r, t)" shows "stream t = stream s"
  using assms by (auto simp: check_connected_def os_call_def action_defs split: if_splits)

lemma sk_do_handshake_continues:
  assumes "system_errors W" and "\<And>k. appends (hs k)" and "sk_do_handshake fuel W hs block s = (r, t)"
  shows "continues s r t"
proof -
  obtain q u where C: "check_connected W s = (q, u)" by fastforce
  have eq: "stream u = stream s" using check_connected_stream [OF C] .
  show ?thesis
  proof (cases q)
    case (Inl e)
    with C assms(3) eq show ?thesis by (auto simp: sk_do_handshake_def action_defs continues_def)
  next
    case (Inr x)
    show ?thesis
    proof (cases "sk_sslobj u")
      case None
      with Inr C assms(3) eq show ?thesis by (auto simp: sk_do_handshake_def action_defs continues_def)
    next
      case (Some c)
      let ?u = "if sk_timeout u = Some 0 \<and> block then u\<lparr>sk_timeout := None\<rparr> else u"
      obtain p v where D: "drive_tls fuel W hs ?u = (p, v)" by fastforce
      have "r = p" "t = v\<lparr>sk_timeout := sk_timeout u\<rparr>"
        using Inr Some C assms(3) D by (auto simp: sk_do_handshake_def action_defs split: if_splits)
      moreover have "stream ?u = stream s" using eq by simp
      ultimately show ?thesis using drive_tls_continues [OF assms(1,2) D] by (auto simp: continues_def split: sum.splits)
    qed
  qed
qed

lemma sk_unwrap_continues:
  fixes s :: "'a TLSConnection_scheme ssl_socket"
  assumes "system_errors W" and "appends (conn_shutdown cr :: ('a TLSConnection_scheme, unit) action)" and "sk_unwrap cr W s = (r, t)"
  shows "continues s r t"
proof (cases "sk_sslobj s")
  case None
  with assms(3) show ?thesis by (auto simp: sk_unwrap_def action_defs continues_def)
next
  case (Some c)
  obtain q u where C: "on_sslobj (conn_shutdown cr) s = (q, u)" by fastforce
  note grow = on_sslobj_stream(1) [OF assms(2) C]
  show ?thesis
  proof (cases q)
    case (Inl e)
    with C Some assms(3) grow show ?thesis by (auto simp: sk_unwrap_def action_defs continues_def)
  next
    case (Inr x)
    with C Some assms(3) have "thn (tls_send W) (modify (\<lambda>s. s\<lparr>sk_sslobj := None\<rparr>)) u = (r, t)"
      by (simp add: sk_unwrap_def action_defs)
    then have "continues u r t"
      by (rule continues_send [OF assms(1)]) (auto simp: continues_def modify_def flushed_def sk_outbio_def)
    with grow show ?thesis by (rule continues_after)
  qed
qed

lemma outcome_stream:
  "continues s r t \<Longrightarrow> intact r \<Longrightarrow> prefix (stream s) (stream t) \<and> (\<not> isl r \<longrightarrow> prefix (stream s) (sk_wire t) \<and> flushed t)"
  by (cases r) (auto simp: intact_def continues_def stream_def)

lemma socket_step_stream:
  assumes W: "system_errors W" and hsk: "appends hsk" and step: "socket_step W cr hsk b s t"
  shows "prefix (stream s) (stream t) \<and> (b \<longrightarrow> prefix (stream s) (sk_wire t) \<and> flushed t)"
  using step
proof cases
  case (reading fuel rnd n buf r)
  with outcome_stream [OF sk_read_continues [OF W appends_calls(1) [OF hsk] reading(2) reading(4)]] show ?thesis by blast
next
  case (writing fuel rnd d r)
  with outcome_stream [OF sk_write_continues [OF W appends_calls(2) [OF hsk] writing(2)]] show ?thesis by blast
next
  case (handshaking fuel rnd block r)
  with outcome_stream [OF sk_do_handshake_continues [OF W appends_calls(3) [OF hsk] handshaking(2)]] show ?thesis by blast
next
  case (unwrapping r)
  with outcome_stream [OF sk_unwrap_continues [OF W appends_calls(4) [OF hsk] unwrapping(2)]] show ?thesis by blast
qed

lemma history_stream:
  assumes "system_errors W" and "\<And>f E. appends (D f E)" and "(some_call W D)\<^sup>*\<^sup>* s t"
  shows "prefix (stream s) (stream t)"
  using assms(3)
proof induction
  case (step t u)
  then obtain f E b where "socket_step W (env_crypto E) (D f E) b t u" by (auto simp: some_call_def socket_call_def)
  from socket_step_stream [OF assms(1,2) this] step.IH show ?case by (auto dest: prefix_order.trans)
qed simp

lemma history_delivers:
  assumes "system_errors W" and "\<And>f E. appends (D f E)" and "(some_call W D)\<^sup>*\<^sup>* s t" and "socket_call W D True t u"
  shows "prefix (stream s) (stream t) \<and> prefix (stream t) (sk_wire u) \<and> sk_pending_write u = [] \<and> sk_outbio u = []"
proof -
  obtain f E where "socket_step W (env_crypto E) (D f E) True t u" using assms(4) by (auto simp: socket_call_def)
  from history_stream [OF assms(1-3)] socket_step_stream [OF assms(1,2) this] show ?thesis by (simp add: flushed_def)
qed

text \<open>
  C18: A socket of a client or of a server delivers everything once and in order.  The stream of a socket is what the system has
  accepted, then what waits after a refusal, then the output of the connection.  Take a system that raises nothing but a refusal for the
  moment and \<open>OSError\<close>, and any history of readings, writings, handshakes and closings with the handshake of a client or of a
  server, returning or raising, none of which found the connection to the peer gone: none raised \<open>SSLEOFError\<close> or \<open>OSError\<close>,
  and no reading came back empty, which may stand for the first.  Whatever the system accepts of each call, refuses or splits, the history only
  appends to the stream; and a call that returns has handed the whole stream to the system, so that nothing which was
  held back before is lost, repeated or overtaken.
\<close>

theorem socket_delivers:
  assumes "system_errors W"
  shows
    "((some_call W client_do_handshake)\<^sup>*\<^sup>* s t \<and> socket_call W client_do_handshake True t u \<longrightarrow>
        prefix (stream s) (stream t) \<and> prefix (stream t) (sk_wire u) \<and> sk_pending_write u = [] \<and> sk_outbio u = []) \<and>
     ((some_call W server_do_handshake)\<^sup>*\<^sup>* s' t' \<and> socket_call W server_do_handshake True t' u' \<longrightarrow>
        prefix (stream s') (stream t') \<and> prefix (stream t') (sk_wire u') \<and> sk_pending_write u' = [] \<and> sk_outbio u' = [])"
  using history_delivers [where D = client_do_handshake, OF assms endpoints_append(1)]
    history_delivers [where D = server_do_handshake, OF assms endpoints_append(2)] by blast

subsection \<open>An instance\<close>

text \<open>A system that accepts two bytes, refuses, and then accepts one byte of each call; it has no input.\<close>

definition slow_system :: os_socket where
  "slow_system = \<lparr>os_send = \<lambda>k d. if k = 1 then Inl BlockingIOError else if k = 0 then Inr 2 else Inr 1,
     os_recv = \<lambda>k n. Inl BlockingIOError, os_getpeername = \<lambda>k. Inr (), os_connect = \<lambda>k. Inr (), os_connect_ex = \<lambda>k. Inr 0\<rparr>"

text \<open>
  The socket of a server that is closed for writing while its close notification waits.  It starts its handshake, which finds no client
  hello and is refused the output, and is then closed.
\<close>

definition closing_server :: TLSServer where
  "closing_server = sample_server\<lparr>cn_write_shutdown := SHUT_CLOSE_NOTIFY, cn_outbio := [21, 3, 3]\<rparr>"

definition waiting_server :: TLSServer where
  "waiting_server = closing_server\<lparr>hs_state := srv SRV_READ_CLIENT_HELLO, cn_handshake_status := ST_READ_HANDSHAKE\<rparr>"

definition socket_with :: "'c \<Rightarrow> 'c ssl_socket" where
  "socket_with c = (new_socket False True True None)\<lparr>sk_sslobj := Some c, sk_connected := True\<rparr>"

definition blocked_socket :: "TLSServer ssl_socket" where
  "blocked_socket = (socket_with (waiting_server\<lparr>cn_outbio := []\<rparr>))\<lparr>sk_pending_write := [3], sk_os_calls := 2, sk_wire := [21, 3]\<rparr>"

definition closed_socket :: "TLSServer ssl_socket" where
  "closed_socket = (socket_with waiting_server)\<lparr>sk_sslobj := None, sk_os_calls := 3, sk_wire := [21, 3, 3]\<rparr>"

lemma new_server_fields:
  assumes "TLSServer_init E cfg callback = Inr s"
  shows "hs_state s = srv SRV_START_ACCEPT" "hs_is_server s" "cn_handshake_status s = ST_OK" "cn_read_shutdown s = SHUT_NONE"
    "cn_inbio s = []" "cn_header s = None" "hs_incoming_data s = []" "hs_cache s = None"
  using assms
  by (auto simp: TLSServer_init_def TLSHandshake_init_def rbind_Inr_iff TLSConnection_init_def TLSHandshake.defs TLSConnection.defs
      Endpoint.defs)

lemma closing_server_fields [simp]:
  "hs_state closing_server = srv SRV_START_ACCEPT" "hs_is_server closing_server" "cn_handshake_status closing_server = ST_OK"
  "cn_read_shutdown closing_server = SHUT_NONE" "cn_inbio closing_server = []" "cn_header closing_server = None"
  "hs_incoming_data closing_server = []" "hs_cache closing_server = None"
  "cn_outbio closing_server = [21, 3, 3]" "cn_write_shutdown closing_server = SHUT_CLOSE_NOTIFY"
  by (simp_all add: closing_server_def new_server_fields [OF sample_server_init])

lemma first_handlers:
  "server_dispatch E 1 = Some server_start_accept" "server_dispatch E 2 = Some (server_read_client_hello E)"
  by (simp_all add: server_dispatch_def server_states_def)

lemma starts: "server_do_handshake 40 sample_environment closing_server =
  (Inr ST_READ_HANDSHAKE, closing_server\<lparr>hs_state := srv SRV_READ_CLIENT_HELLO\<rparr>)"
proof -
  have "server_do_handshake (Suc (Suc n)) sample_environment closing_server =
      (Inr ST_READ_HANDSHAKE, closing_server\<lparr>hs_state := srv SRV_READ_CLIENT_HELLO\<rparr>)" for n
    by (simp add: server_do_handshake_def first_handlers hs_done_def server_start_accept_def server_read_client_hello_def
        goto_def set_state_def with_handshake_def read_handshake_def catch_def action_defs)
  from this [of 38] show ?thesis by simp
qed

lemma waits: "conn_do_handshake (Suc (Suc n)) sample_crypto rnd (server_do_handshake 40 sample_environment) closing_server =
  (Inl TLSWantReadError, waiting_server)"
  by (simp add: starts handle_status_def set_status_def conn_read_handshake_def conn_open_record_def open_record_internal_def
      take_record_def take_header_def HEADER_LENGTH_def waiting_server_def catch_def action_defs)

lemma waiting_server_fields [simp]:
  "cn_outbio waiting_server = [21, 3, 3]" "cn_write_shutdown waiting_server = SHUT_CLOSE_NOTIFY"
  by (simp_all add: waiting_server_def)

lemma sample_operations:
  "sk_sslobj s = Some closing_server \<Longrightarrow>
     on_sslobj (conn_do_handshake (Suc (Suc n)) sample_crypto rnd (server_do_handshake 40 sample_environment)) s =
       (Inl TLSWantReadError, s\<lparr>sk_sslobj := Some waiting_server\<rparr>)"
  "sk_sslobj u = Some (waiting_server\<lparr>cn_outbio := []\<rparr>) \<Longrightarrow> on_sslobj (conn_shutdown cr) u = (Inr (), u)"
  by (simp_all add: on_sslobj_def waits conn_shutdown_def action_defs del: conn_do_handshake.simps)

lemmas sample_sends = tls_send_def flush_pending_def push_def send_loop.simps on_sslobj_bio_read slow_system_def send_error_def
  sk_outbio_def new_socket_def socket_with_def blocked_socket_def closed_socket_def sample_operations action_defs

lemma blocks:
  "sk_do_handshake (Suc (Suc (Suc n))) slow_system (\<lambda>k. conn_do_handshake k sample_crypto (rnd k) (server_do_handshake 40 sample_environment)) True
     (socket_with closing_server) = (Inl SSLWantWriteError, blocked_socket)"
  by (simp add: sk_do_handshake_def check_connected_def drive_tls_def sample_sends del: conn_do_handshake.simps)

lemma closes: "sk_unwrap sample_crypto slow_system blocked_socket = (Inr (), closed_socket)"
  by (simp add: sk_unwrap_def sample_sends)

theorem socket_delivers_witness:
  "(\<exists>n. sk_do_handshake n slow_system (\<lambda>k. conn_do_handshake k sample_crypto (\<lambda>n. replicate n 0)
      (server_do_handshake 40 sample_environment)) True (socket_with closing_server) = (Inl SSLWantWriteError, blocked_socket)) \<and>
   sk_unwrap sample_crypto slow_system blocked_socket = (Inr (), closed_socket) \<and>
   prefix (stream (socket_with closing_server)) (stream blocked_socket) \<and>
   prefix (stream blocked_socket) (sk_wire closed_socket)"
proof -
  have "system_errors slow_system" by (auto simp: system_errors_def slow_system_def split: if_splits)
  moreover have env: "env_crypto sample_environment = sample_crypto" by (simp add: sample_environment_def)
  have "socket_step slow_system (env_crypto sample_environment) (server_do_handshake 40 sample_environment) False
      (socket_with closing_server) blocked_socket"
    using socket_step.handshaking [OF blocks [of 0]] by (simp add: intact_def env)
  then have "(some_call slow_system server_do_handshake)\<^sup>*\<^sup>* (socket_with closing_server) blocked_socket"
    unfolding some_call_def socket_call_def by (blast intro: r_into_rtranclp)
  moreover have "socket_step slow_system (env_crypto sample_environment) (server_do_handshake 40 sample_environment) True
      blocked_socket closed_socket"
    using socket_step.unwrapping [OF closes] by (simp add: intact_def env)
  then have "socket_call slow_system server_do_handshake True blocked_socket closed_socket" unfolding socket_call_def by blast
  ultimately have "prefix (stream (socket_with closing_server)) (stream blocked_socket) \<and>
      prefix (stream blocked_socket) (sk_wire closed_socket)"
    using socket_delivers [THEN conjunct2, THEN mp, OF _ conjI] by blast
  then show ?thesis using blocks [of 0 "\<lambda>_ n. replicate n 0"] closes by blast
qed

end
