(* ===== verification/Spec2Isabelle.thy ===== *)
theory Spec2Isabelle
  imports Extension_Laws Message_Laws Cipher_Laws TLS_Utils_Laws Handshake_Laws Flight_Laws Traffic_Laws Record_Safety
    Record_Budget Seal_Laws Hpke_Laws Verification_Laws Client_Properties Client_Finished Server_Properties Server_Finished
    Server_Resumption Handshake_Progress Endpoint_Safety Kdf Pem_Laws Ssl_Context_Laws Ssl_Socket_Laws
begin

text \<open>
  A verification library for \<open>simple-tls\<close>, an implementation of TLS 1.0 to 1.3 in Python with a small extension in C.

  \<^bold>\<open>The program.\<close>  An application owns a \<open>TLSConnection\<close> (\<open>tls/connection.py\<close>), writes the bytes it receives
  into it, takes the bytes to send from it, and reads and writes application data.  The connection seals and opens
  records with a \<open>TLSCipher\<close> for each direction (\<open>tls/cipher.py\<close>, with the constant-time removal of padding and MAC in
  \<open>ext/utils.c\<close>) and drives a handshake object (\<open>tls/handshake.py\<close> and its subclasses for the two roles).  The handshake
  reads and writes messages (\<open>tls/messages.py\<close>) with extensions (\<open>tls/extensions.py\<close>) over the byte codec (\<open>codec.py\<close>),
  keeps a transcript and a key schedule (\<open>tls/utils.py\<close>), agrees on a secret (\<open>tls/keyexchange.py\<close>), signs and verifies
  (\<open>tls/key.py\<close>), resumes sessions (\<open>tls/session.py\<close>) and hands new keys to the connection through a callback.

  \<^bold>\<open>Conventions.\<close>  A Python exception is a value of \<open>exn\<close>; a function is a function to \<open>'a result\<close>, and a method is an
  \<open>action\<close> on the record of its object, whose fields have the names of the attributes with a prefix.  Subclasses extend the
  record of their base class, so that methods of a base class apply to them.  Python's integers are \<open>int\<close>, the machine
  integers of the C code are 64-bit words, bytes are 8-bit words.

  \<^bold>\<open>Parameters.\<close>  What the program imports is an argument of the definitions: the \<open>cryptography\<close> package (the records
  \<open>crypto\<close>, \<open>asym\<close>, \<open>kex_lib\<close>, \<open>hpke_lib\<close>, \<open>x509_lib\<close> and \<open>cert_lib\<close>), the compression packages (\<open>compression_libs\<close>),
  the random source, the clock and the calls of the operating system's sockets (\<open>os_socket\<close>).  The handshakes take them in one record, \<open>environment\<close>, in which random values and
  times are functions of the number of draws so far (\<open>ep_draws\<close>).  What the properties need of them are the
  predicates ending in \<open>_ok\<close>: decryption undoes encryption, both sides of an exchange agree, a signature verifies,
  digests have their length.  Each is shown to hold of a sample instance, which the witnesses use.  The properties of the
  state machines and of the record layer against an arbitrary peer need none of them.

  \<^bold>\<open>Theories.\<close>
  \<^item> \<open>Prelude\<close> has results and actions with the rules to reason about them; \<open>Action_Logic\<close> is a small program logic.
  \<^item> \<open>Constants\<close>, \<open>Cipher_Suites\<close>, \<open>Alerts\<close>, \<open>Enums\<close> hold the tables of \<open>tls/constants.py\<close>, \<open>tls/alerts.py\<close> and
    \<open>tls/enums.py\<close>.
  \<^item> \<open>Codec\<close> (\<open>Parser\<close>, \<open>Writer\<close>) has a calculus of wire formats on which \<open>Extensions\<close>, \<open>Messages\<close> and \<open>Session\<close> are
    proved: \<open>Extension_Laws\<close> and \<open>Message_Laws\<close> show that what is written is read back, that what is read was
    written in the only possible way, and that reading ends.  \<open>Compression\<close> holds the certificate compressions.
  \<^item> \<open>Constant_Time\<close> has the C functions at the width of the machine: no index is out of range, and the branch-free
    code computes what its specification says.
  \<^item> \<open>Primitives\<close> and \<open>Cipher\<close> have \<open>TLSCipher\<close>; \<open>Cipher_Laws\<close> shows for every cipher suite, version and MAC order
    that a stream of records is opened to what was sealed, with the announced lengths.
  \<^item> \<open>TLS_Utils\<close> has PRF, HKDF labels, transcript, key schedule and name checks; \<open>TLS_Utils_Laws\<close> compares them with the
    functions of the RFCs, and the matching of host names with the rule that its documentation gives.
  \<^item> \<open>Session\<close>, \<open>Keys\<close>, \<open>Key_Exchange\<close> and \<open>Config\<close> are the files of these names.
  \<^item> \<open>Hpke\<close> is \<open>crypto/hpke.py\<close>; \<open>Hpke_Laws\<close> shows that the two set-ups agree and messages arrive in order.
  \<^item> \<open>Verification\<close> is \<open>crypto/verification.py\<close>, the trust store and the search for a path over X.509 certificates;
    \<open>Verification_Laws\<close> shows what an accepted chain guarantees, and in which order the search tries the chains, with an instance
    where it misses one.
  \<^item> \<open>Pem\<close> is \<open>crypto/pem.py\<close>, reading and writing of PEM files, whose round trip \<open>Pem_Laws\<close> shows; \<open>Kdf\<close> is \<open>crypto/kdf.py\<close>, keys from passwords.
  \<^item> \<open>Loading\<close> has the functions that load credentials, keys and trusted certificates.  \<open>Ssl_Context\<close> is the context of the
    interface of the \<open>ssl\<close> module (\<open>pyssl/_context.py\<close> and the files it uses); \<open>Ssl_Context_Laws\<close> is about its tables,
    its tickets and the configurations made from it.  \<open>Ssl_Socket\<close> is the socket of that interface (\<open>pyssl/_socket.py\<close>,
    \<open>pyssl/_object.py\<close>), which drives a connection over a socket of the operating system; \<open>Ssl_Socket_Laws\<close> shows that it
    delivers the output of the connection once and in order, however the system splits or refuses it.
  \<^item> \<open>Handshake_Base\<close> is the base class of the handshake; \<open>Handshake_Laws\<close> shows that the messages of a flight arrive
    however the bytes are cut.
  \<^item> \<open>Record_Layer\<close> is the connection.  \<open>Record_Laws\<close>, \<open>Flight_Laws\<close> and \<open>Traffic_Laws\<close> are about two connections:
    linked ones (the one's writing state fits the other's reading state) transfer application data and flights and stay
    linked, and the key derivations of both sides link them.  \<open>Seal_Laws\<close> is about everything that a connection seals under one key of an
    AEAD: no nonce is used twice.  \<open>Record_Safety\<close> is about one connection and any
    peer: the loop over the input ends, errors close the connection, and no call writes to a closed connection.  \<open>Record_Budget\<close>
    accounts for every record that the connection passes over, and shows that the budgets for them are kept.
  \<^item> \<open>Endpoints\<close> is what the two handshakes share.  \<open>Client_Hello\<close>, \<open>Client_Flow\<close> and \<open>Client_TLS13\<close> are
    \<open>tls/handshake_client.py\<close>: the client hello with binders and encrypted client hello, the handlers up to TLS 1.2,
    those of TLS 1.3 and the dispatch table (\<open>client_handler\<close>, \<open>client_do_handshake\<close>).  \<open>Server_Hello\<close>, \<open>Server_Flow\<close> and
    \<open>Server_TLS13\<close> are \<open>tls/handshake_server.py\<close> in the same way (\<open>server_handler\<close>, \<open>server_do_handshake\<close>).
  \<^item> \<open>Handshake_Core\<close> projects a handshake to the part of its state that decides about progress and authentication;
    \<open>Client_Core\<close> and \<open>Server_Core\<close> show what each operation does to it, \<open>Connection_Core\<close> that the record layer leaves it
    alone.  The projection is extended by the edge of the connection (\<open>connection_edge\<close>: its output, whether it is closed for
    writing, and its budgets), of which the same proofs show that no handler touches it; \<open>Endpoint_Safety\<close> concludes what holds of a
    connection with the handshake of a client or of a server inside, over every history: once closed it is silent, and its budgets
    are never refilled.  \<open>Handshake_Stage\<close> has the invariants of a state machine; \<open>Client_Laws\<close> and \<open>Server_Laws\<close> go through the
    stages of the two roles: version, cipher suite, authentication, completion.
  \<^item> \<open>Client_Properties\<close> and \<open>Server_Properties\<close> are about every history of calls of the application, from the construction
    on, whatever bytes the peer sends: the negotiated parameters come from the configuration and fit together,
    and a completed handshake has authenticated the peer as the configuration asks.
  \<^item> \<open>Handshake_Finished\<close>, \<open>Client_Finished\<close> and \<open>Server_Finished\<close>: a handshake is complete only after the peer's
    finished message has been compared.  \<open>Handshake_Progress\<close>: the loop over the handlers ends, with a complete handshake, a
    request to the connection or an exception.  \<open>Server_Resumption\<close>: tickets open to their sessions, and a
    pre-shared key is accepted with the binder of its secret only.

  \<^bold>\<open>Interfaces.\<close>  \<open>Codec\<close> states formats as contracts that the laws of the two message theories instantiate;
  \<open>Key_Exchange\<close> has the contract of a key agreement, \<open>Cipher_Laws\<close> that of a channel, \<open>TLS_Utils_Laws\<close> that of a log.
  \<open>Record_Safety\<close> states as locales which updates an invariant has to survive so that sealing, alerts, opening and the
  loop over the input keep it; they are interpreted once for every safety property.  What the connection needs of the
  handshake that it drives is \<open>handshake_driver\<close>, which every \<open>machine_invariant\<close> gives: an invariant that each handler of
  a \<open>state_machine\<close> keeps.  A \<open>stage\<close> is an invariant that begins to hold when the machine leaves a set of early
  states; stages are interpreted on the tables of the client and of the server and build on one another.  A
  \<open>ranked_machine\<close> moves forwards with each step that asks for another one.

  \<^bold>\<open>Fuel.\<close>  \<open>open_record\<close> takes more turns than there are bytes in the input, and each turn but the last consumes some
  (\<open>open_record_total\<close>).  The loops of the readers are over the bytes at hand (\<open>message_from_bytes_terminates\<close>).  The loop
  over the handlers of a handshake raises \<open>Diverges\<close> when its fuel is used up; 40 steps are enough outside of the handling
  of messages after the handshake: the loop of the source, stated without fuel as \<open>loop_runs\<close>, has a run to its end, and the
  model with 40 steps or more gives its result (\<open>client_progress\<close>, \<open>server_progress\<close>).  There, each turn takes one message from
  the received bytes.  The loops of \<open>conn_do_handshake\<close> and \<open>conn_read\<close> call the handshake object, an argument: their
  properties hold for every fuel.  So does that of \<open>drive_loop\<close>, which asks the operating system for input as long as the
  connection wants some; the loops that send end when everything is sent, and \<open>tls_send\<close> gives them enough fuel.

  \<^bold>\<open>Not modelled.\<close>  The read-only accessors and the callbacks that inform the application change no state of the
  program.  What formats certificates for the application in the interface of the \<open>ssl\<close> module has no logic of the protocol, and
  \<open>accept\<close> of its sockets only wraps what the operating system returns.
  The binding of the vendored ML-KEM code is a parameter.
\<close>

end
